(* ===== verification/Tanzu_Prelude.thy ===== *)
theory Tanzu_Prelude
  imports Main "HOL-Library.AList" "HOL-Library.Multiset" "HOL-Library.Char_ord"
    "HOL-Library.List_Lexorder"
begin

text \<open>
  Shared vocabulary of the development.

  \<^item> A Go \<^verbatim>\<open>string\<close> is a byte string, so it is a HOL \<open>string\<close>; the functions of
    the packages \<^verbatim>\<open>strings\<close>, \<^verbatim>\<open>strconv\<close> and \<^verbatim>\<open>path/filepath\<close> the sources use are
    written out here (upper/lower case mapping on ASCII letters only).
  \<^item> A Go map is an association list with distinct keys; \<open>map_of\<close> reads it,
    \<open>AList.update\<close> is \<^verbatim>\<open>m[k] = v\<close> and \<open>AList.delete\<close> is \<^verbatim>\<open>delete(m, k)\<close>. The order in
    which \<^verbatim>\<open>for k := range m\<close> visits the keys is not specified by the language: it is the
    parameter \<open>RangeOrder\<close> of the record \<open>lib\<close> below.
  \<^item> A Go \<^verbatim>\<open>error\<close> is a value of \<open>err\<close>; a function that returns a value and an error has a
    result in \<open>err + 'a\<close>, one that returns an error only has a result in \<open>err option\<close>
    (\<open>None\<close> is \<^verbatim>\<open>nil\<close>).
  \<^item> Third-party packages are fields of \<open>lib\<close>, an argument of every definition that calls
    them; what the code relies on is stated by \<open>semver_laws\<close>, \<open>range_law\<close> and
    \<open>aggregate_law\<close>.
\<close>

named_theorems go_map \<open>facts on Go maps as association lists\<close>
named_theorems go_str \<open>facts on the string functions\<close>

section \<open>Errors\<close>

datatype err =
    Errorf string "string list"
  | Wrapf err string "string list"
  | Aggregate "err list"

type_synonym 'a res = "err + 'a"

section \<open>Strings\<close>

fun split_on :: "char \<Rightarrow> string \<Rightarrow> string list" where
  "split_on c [] = [[]]"
| "split_on c (x # xs) =
     (if x = c then [] # split_on c xs
      else (case split_on c xs of [] \<Rightarrow> [[x]] | y # ys \<Rightarrow> (x # y) # ys))"

fun join :: "string \<Rightarrow> string list \<Rightarrow> string" where
  "join sep [] = []"
| "join sep [x] = x"
| "join sep (x # y # ys) = x @ sep @ join sep (y # ys)"

definition has_prefix :: "string \<Rightarrow> string \<Rightarrow> bool" where
  "has_prefix s p \<longleftrightarrow> take (length p) s = p"

definition has_suffix :: "string \<Rightarrow> string \<Rightarrow> bool" where
  "has_suffix s p \<longleftrightarrow> has_prefix (rev s) (rev p)"

definition trim_prefix :: "string \<Rightarrow> string \<Rightarrow> string" where
  "trim_prefix s p = (if has_prefix s p then drop (length p) s else s)"

definition trim_suffix :: "string \<Rightarrow> string \<Rightarrow> string" where
  "trim_suffix s p = (if has_suffix s p then take (length s - length p) s else s)"

definition is_space :: "char \<Rightarrow> bool" where
  "is_space c \<longleftrightarrow> c = CHR '' '' \<or> (9 \<le> (of_char c :: nat) \<and> (of_char c :: nat) \<le> 13)"

definition trim_space :: "string \<Rightarrow> string" where
  "trim_space s = rev (dropWhile is_space (rev (dropWhile is_space s)))"

definition lower_char :: "char \<Rightarrow> char" where
  "lower_char c =
     (let n = (of_char c :: nat) in if 65 \<le> n \<and> n \<le> 90 then char_of (n + 32) else c)"

definition to_lower :: "string \<Rightarrow> string" where
  "to_lower s = map lower_char s"

definition equal_fold :: "string \<Rightarrow> string \<Rightarrow> bool" where
  "equal_fold s t \<longleftrightarrow> to_lower s = to_lower t"

fun contains_str :: "string \<Rightarrow> string \<Rightarrow> bool" where
  "contains_str [] p = (p = [])"
| "contains_str (x # xs) p = (has_prefix (x # xs) p \<or> contains_str xs p)"

definition path_join :: "string list \<Rightarrow> string" where
  "path_join ps = join ''/'' (filter (\<lambda>p. p \<noteq> []) ps)"

lemma split_on_nonempty [simp]: "split_on c s \<noteq> []"
  by (induction s) (auto split: list.splits)

lemma split_on_fresh [go_str]: "c \<notin> set s \<Longrightarrow> split_on c s = [s]"
  by (induction s) auto

lemma split_on_append [go_str]:
  "c \<notin> set a \<Longrightarrow> split_on c (a @ c # b) = a # split_on c b"
  by (induction a) auto

lemma join_Cons [go_str]: "xs \<noteq> [] \<Longrightarrow> join sep (x # xs) = x @ sep @ join sep xs"
  by (cases xs) auto

lemma join_Cons_char:
  "join sep ((x # y) # ys) = x # join sep (y # ys)"
  by (cases ys) auto

lemma join_split_on: "join [c] (split_on c s) = s"
proof (induction s)
  case Nil
  then show ?case by simp
next
  case (Cons x xs)
  obtain y ys where sp: "split_on c xs = y # ys"
    by (cases "split_on c xs") auto
  with Cons.IH show ?case
    by (auto simp: join_Cons_char)
qed

lemma split_on_join:
  "xs \<noteq> [] \<Longrightarrow> (\<And>x. x \<in> set xs \<Longrightarrow> c \<notin> set x) \<Longrightarrow> split_on c (join [c] xs) = xs"
  by (induction "[c]" xs rule: join.induct) (auto simp: go_str)

lemma split_on_pieces_fresh: "p \<in> set (split_on c s) \<Longrightarrow> c \<notin> set p"
proof (induction s arbitrary: p)
  case (Cons x xs)
  obtain y ys where "split_on c xs = y # ys"
    by (cases "split_on c xs") auto
  with Cons show ?case by (auto split: if_splits)
qed auto

lemma has_prefix_iff [go_str]: "has_prefix s p \<longleftrightarrow> (\<exists>t. s = p @ t)"
  unfolding has_prefix_def by (metis append_eq_conv_conj append_take_drop_id)

lemma trim_prefix_append [simp]: "trim_prefix (p @ s) p = s"
  by (simp add: trim_prefix_def has_prefix_def)

lemma trim_suffix_append [simp]: "trim_suffix (s @ p) p = s"
  by (simp add: trim_suffix_def has_suffix_def has_prefix_def)

lemma append_sep_inject:
  assumes "c \<notin> set a" "c \<notin> set b" "a @ c # x = b @ c # y"
  shows "a = b \<and> x = y"
  using assms by (auto simp: append_eq_append_conv2 append_eq_Cons_conv Cons_eq_append_conv)

section \<open>Parsing of configuration values\<close>

text \<open>\<open>strconv.ParseBool\<close>: the accepted spellings; everything else is an error.\<close>

definition parse_bool :: "string \<Rightarrow> bool option" where
  "parse_bool s =
     (if s \<in> set [''1'', ''t'', ''T'', ''true'', ''TRUE'', ''True''] then Some True
      else if s \<in> set [''0'', ''f'', ''F'', ''false'', ''FALSE'', ''False''] then Some False
      else None)"

text \<open>\<^verbatim>\<open>b, _ := strconv.ParseBool(s)\<close>: the zero value on an error.\<close>

definition parse_bool_or_false :: "string \<Rightarrow> bool" where
  "parse_bool_or_false s = (parse_bool s = Some True)"

definition format_bool :: "bool \<Rightarrow> string" where
  "format_bool b = (if b then ''true'' else ''false'')"

lemma parse_format_bool [simp]: "parse_bool (format_bool b) = Some b"
  by (simp add: parse_bool_def format_bool_def)

lemma parse_format_bool_or_false [simp]: "parse_bool_or_false (format_bool b) = b"
  by (simp add: parse_bool_or_false_def)

lemma format_bool_false_iff [simp]: "format_bool b = ''false'' \<longleftrightarrow> \<not> b"
  by (simp add: format_bool_def)

definition digit_val :: "char \<Rightarrow> nat option" where
  "digit_val c =
     (let n = (of_char c :: nat) in if 48 \<le> n \<and> n \<le> 57 then Some (n - 48) else None)"

fun digits_val :: "nat \<Rightarrow> string \<Rightarrow> nat option" where
  "digits_val acc [] = Some acc"
| "digits_val acc (c # cs) =
     (case digit_val c of None \<Rightarrow> None | Some d \<Rightarrow> digits_val (10 * acc + d) cs)"

text \<open>\<open>strconv.Atoi\<close> on a 64-bit platform: an optional sign, decimal digits, range check.\<close>

definition atoi :: "string \<Rightarrow> int option" where
  "atoi s =
     (let (neg, ds) = (case s of [] \<Rightarrow> (False, [])
                       | c # cs \<Rightarrow> if c = CHR ''-'' then (True, cs)
                                  else if c = CHR ''+'' then (False, cs) else (False, s));
          n = (if ds = [] then None else digits_val 0 ds)
      in case n of None \<Rightarrow> None
         | Some k \<Rightarrow> let v = (if neg then - int k else int k)
                    in if - (2 ^ 63) \<le> v \<and> v < 2 ^ 63 then Some v else None)"

text \<open>The process environment; \<open>os.Getenv\<close> gives the empty string for an unset variable.\<close>

type_synonym environ = "string \<rightharpoonup> string"

definition getenv :: "environ \<Rightarrow> string \<Rightarrow> string" where
  "getenv env k = (case env k of None \<Rightarrow> '''' | Some v \<Rightarrow> v)"

definition env_flag :: "environ \<Rightarrow> string \<Rightarrow> bool" where
  "env_flag env k = parse_bool_or_false (getenv env k)"

section \<open>Go maps\<close>

abbreviation map_ok :: "('k \<times> 'v) list \<Rightarrow> bool" where
  "map_ok m \<equiv> distinct (map fst m)"

definition keys_of :: "('k \<times> 'v) list \<Rightarrow> 'k list" where
  "keys_of m = map fst m"

text \<open>\<^verbatim>\<open>m[k]\<close> without the second result: the zero value \<open>z\<close> for a missing key.\<close>

definition get_or :: "'v \<Rightarrow> ('k \<times> 'v) list \<Rightarrow> 'k \<Rightarrow> 'v" where
  "get_or z m k = (case map_of m k of None \<Rightarrow> z | Some v \<Rightarrow> v)"

lemma map_of_update [simp, go_map]: "map_of (AList.update k v m) = (map_of m)(k \<mapsto> v)"
  by (rule update_conv')

lemma map_of_alist_delete [simp, go_map]: "map_of (AList.delete k m) = (map_of m)(k := None)"
  by (rule delete_conv')

lemma map_ok_update [simp, go_map]: "map_ok m \<Longrightarrow> map_ok (AList.update k v m)"
  by (rule distinct_update)

lemma map_ok_delete [simp, go_map]: "map_ok m \<Longrightarrow> map_ok (AList.delete k m)"
  by (rule distinct_delete)

lemma set_keys_update [go_map]: "set (map fst (AList.update k v m)) = insert k (set (map fst m))"
  by (metis dom_map_of_conv_image_fst dom_fun_upd map_of_update option.distinct(1) set_map)

lemma map_of_eq_None_keys [go_map]: "map_of m k = None \<longleftrightarrow> k \<notin> set (keys_of m)"
  by (simp add: keys_of_def map_of_eq_None_iff)

lemma update_fresh [go_map]: "k \<notin> set (map fst m) \<Longrightarrow> AList.update k v m = m @ [(k, v)]"
  by (induction m) auto

lemma set_update_values:
  "x \<in> set (AList.update k v m) \<Longrightarrow> x = (k, v) \<or> x \<in> set m"
  by (induction m) (auto split: if_splits)

lemma set_delete_values: "x \<in> set (AList.delete k m) \<Longrightarrow> x \<in> set m"
  by (auto simp: AList.delete_eq)

lemma get_or_update [simp]: "get_or z (AList.update k v m) k' = (if k = k' then v else get_or z m k')"
  by (simp add: get_or_def)

lemma get_or_key: "b \<in> set (get_or [] m k) \<Longrightarrow> k \<in> set (keys_of m)"
  by (cases "map_of m k") (auto simp: get_or_def keys_of_def dest!: map_of_SomeD intro: rev_image_eqI)

section \<open>Sorting with a Less function\<close>

text \<open>
  \<open>sort.Sort\<close> calls the interface's \<open>Less\<close>; the result is some ordering of the elements
  that respects it. The model is the insertion sort, which keeps equal elements in their order
  (the Go implementation does not promise that, and no theorem relies on it).
\<close>

fun insort_by :: "('a \<Rightarrow> 'a \<Rightarrow> bool) \<Rightarrow> 'a \<Rightarrow> 'a list \<Rightarrow> 'a list" where
  "insort_by lt x [] = [x]"
| "insort_by lt x (y # ys) = (if lt y x then y # insort_by lt x ys else x # y # ys)"

fun sort_by :: "('a \<Rightarrow> 'a \<Rightarrow> bool) \<Rightarrow> 'a list \<Rightarrow> 'a list" where
  "sort_by lt [] = []"
| "sort_by lt (x # xs) = insort_by lt x (sort_by lt xs)"

lemma mset_insort_by [simp]: "mset (insort_by lt x xs) = add_mset x (mset xs)"
  by (induction xs) auto

lemma mset_sort_by [simp]: "mset (sort_by lt xs) = mset xs"
  by (induction xs) auto

lemma set_sort_by [simp]: "set (sort_by lt xs) = set xs"
  by (metis mset_sort_by set_mset_mset)

lemma length_sort_by [simp]: "length (sort_by lt xs) = length xs"
  by (metis mset_sort_by size_mset)

lemma sort_by_eq_Nil [simp]: "sort_by lt xs = [] \<longleftrightarrow> xs = []"
  by (metis length_0_conv length_sort_by)

lemma distinct_sort_by [simp]: "distinct (sort_by lt xs) = distinct xs"
  by (metis mset_eq_imp_distinct_iff mset_sort_by)

text \<open>The contract of \<open>sort.Interface.Less\<close>: a strict weak ordering.\<close>

locale weak_order =
  fixes lt :: "'a \<Rightarrow> 'a \<Rightarrow> bool"
  assumes asym: "lt a b \<Longrightarrow> \<not> lt b a"
    and neg_trans: "\<not> lt a b \<Longrightarrow> \<not> lt b c \<Longrightarrow> \<not> lt a c"
begin

lemma insort_sorted:
  assumes "sorted_wrt (\<lambda>a b. \<not> lt b a) xs"
  shows "sorted_wrt (\<lambda>a b. \<not> lt b a) (insort_by lt x xs)"
  using assms
proof (induction xs)
  case (Cons y ys)
  have members: "set (insort_by lt x ys) = insert x (set ys)"
    by (metis mset_insort_by set_mset_add_mset_insert set_mset_mset)
  from Cons show ?case
    by (auto simp: members dest: asym neg_trans)
qed simp

lemma sort_sorted: "sorted_wrt (\<lambda>a b. \<not> lt b a) (sort_by lt xs)"
  by (induction xs) (auto intro: insort_sorted)

lemma sort_last_max:
  assumes "x \<in> set xs"
  shows "\<not> lt (last (sort_by lt xs)) x"
proof -
  obtain ys where ys: "sort_by lt xs = ys @ [last (sort_by lt xs)]"
    using assms by (metis append_butlast_last_id empty_iff list.set(1) sort_by_eq_Nil)
  then have "sorted_wrt (\<lambda>a b. \<not> lt b a) (ys @ [last (sort_by lt xs)])"
    using sort_sorted [of xs] by simp
  moreover have "x \<in> set (ys @ [last (sort_by lt xs)])"
    using assms ys by (metis set_sort_by)
  ultimately show ?thesis
    by (auto simp: sorted_wrt_append dest: asym)
qed

end

interpretation string_order: weak_order "(<) :: string \<Rightarrow> string \<Rightarrow> bool"
  by unfold_locales auto

section \<open>Third-party packages\<close>

text \<open>
  The version type \<open>'v\<close> and the operations on it are \<^verbatim>\<open>github.com/Masterminds/semver\<close>;
  \<open>StringToTarget\<close> is \<^verbatim>\<open>tanzu-plugin-runtime/config/types\<close>; \<open>NewAggregate\<close> is
  \<^verbatim>\<open>k8s.io/apimachinery/pkg/util/errors\<close>; \<open>Sha256Hex\<close> is the hexadecimal SHA-256 digest.
\<close>

record 'v lib =
  NewVersion :: "string \<Rightarrow> 'v option"
  CompareV :: "'v \<Rightarrow> 'v \<Rightarrow> int"
  OriginalV :: "'v \<Rightarrow> string"
  PrereleaseV :: "'v \<Rightarrow> string"
  MajorV :: "'v \<Rightarrow> int"
  MinorV :: "'v \<Rightarrow> int"
  StringToTarget :: "string \<Rightarrow> string"
  NewAggregate :: "err list \<Rightarrow> err option"
  Sha256Hex :: "string \<Rightarrow> string"
  RangeOrder :: "string list \<Rightarrow> string list"

definition semver_laws :: "'v lib \<Rightarrow> bool" where
  "semver_laws L \<longleftrightarrow>
     (\<forall>s v. NewVersion L s = Some v \<longrightarrow> OriginalV L v = s) \<and>
     (\<forall>u v. CompareV L u v + CompareV L v u = 0) \<and>
     (\<forall>u v w. CompareV L u v \<le> 0 \<longrightarrow> CompareV L v w \<le> 0 \<longrightarrow> CompareV L u w \<le> 0)"

definition range_law :: "'v lib \<Rightarrow> bool" where
  "range_law L \<longleftrightarrow> (\<forall>ks. mset (RangeOrder L ks) = mset ks)"

definition aggregate_law :: "'v lib \<Rightarrow> bool" where
  "aggregate_law L \<longleftrightarrow> (\<forall>es. NewAggregate L es = None \<longleftrightarrow> es = [])"

text \<open>\<^verbatim>\<open>for k := range m\<close> visits each key once, in an order the language leaves open.\<close>

definition range_keys :: "'v lib \<Rightarrow> (string \<times> 'a) list \<Rightarrow> string list" where
  "range_keys L m = RangeOrder L (keys_of m)"

lemma range_keys_mset: "range_law L \<Longrightarrow> mset (range_keys L m) = mset (keys_of m)"
  by (simp add: range_law_def range_keys_def)

lemma range_keys_set [simp]: "range_law L \<Longrightarrow> set (range_keys L m) = set (keys_of m)"
  by (metis range_keys_mset set_mset_mset)

lemma range_keys_distinct [simp]: "range_law L \<Longrightarrow> distinct (range_keys L m) = map_ok m"
  by (metis keys_of_def mset_eq_imp_distinct_iff range_keys_mset)

lemma range_keys_length [simp]: "range_law L \<Longrightarrow> length (range_keys L m) = length m"
  by (metis keys_of_def length_map range_keys_mset size_mset)

lemma range_keys_Nil [simp]: "range_law L \<Longrightarrow> range_keys L m = [] \<longleftrightarrow> m = []"
  by (metis length_0_conv range_keys_length)

lemma aggregate_None [simp]: "aggregate_law L \<Longrightarrow> NewAggregate L es = None \<longleftrightarrow> es = []"
  by (simp add: aggregate_law_def)

end
