(* ===== verification/Semver_Utils.thy ===== *)
theory Semver_Utils
  imports Tanzu_Prelude "HOL-Library.Product_Lexorder"
begin

text \<open>
  \<^verbatim>\<open>pkg/utils/semver.go\<close> (sorting and comparing version strings) and
  \<^verbatim>\<open>pkg/cli/version.go\<close> (selecting a version out of a list). The first uses
  \<^verbatim>\<open>Masterminds/semver\<close>, a field group of \<open>lib\<close>; the second uses
  \<^verbatim>\<open>golang.org/x/mod/semver\<close>, the record \<open>xsemver\<close>. The theory ends with a concrete
  \<open>lib\<close> on dotted versions, at which the witnesses of the development are evaluated.
\<close>

section \<open>Sorting and comparing version strings\<close>

definition version_lt :: "'v lib \<Rightarrow> 'v \<Rightarrow> 'v \<Rightarrow> bool" where
  "version_lt L u v \<longleftrightarrow> CompareV L u v < 0"

fun parse_versions :: "'v lib \<Rightarrow> string list \<Rightarrow> 'v list res" where
  "parse_versions L [] = Inr []"
| "parse_versions L (s # ss) =
     (case NewVersion L s of
        None \<Rightarrow> Inl (Errorf ''Invalid Semantic Version'' [s])
      | Some v \<Rightarrow> (case parse_versions L ss of Inl e \<Rightarrow> Inl e | Inr vs \<Rightarrow> Inr (v # vs)))"

text \<open>\<open>SortVersions\<close> sorts its argument in place: the result is the error and the array after
  the call. On an error nothing has been written.\<close>

definition SortVersions :: "'v lib \<Rightarrow> string list \<Rightarrow> err option \<times> string list" where
  "SortVersions L vStrArr =
     (case parse_versions L vStrArr of
        Inl e \<Rightarrow> (Some e, vStrArr)
      | Inr vArr \<Rightarrow> (None, map (OriginalV L) (sort_by (version_lt L) vArr)))"

definition IsNewVersion :: "'v lib \<Rightarrow> string \<Rightarrow> string \<Rightarrow> bool" where
  "IsNewVersion L incoming existing =
     (case NewVersion L incoming of None \<Rightarrow> False
      | Some i \<Rightarrow> (case NewVersion L existing of None \<Rightarrow> False
                  | Some e \<Rightarrow> CompareV L i e > 0))"

definition IsPreRelease :: "'v lib \<Rightarrow> string \<Rightarrow> bool" where
  "IsPreRelease L s =
     (case NewVersion L s of None \<Rightarrow> False | Some v \<Rightarrow> PrereleaseV L v \<noteq> [])"

definition IsSameMajor :: "'v lib \<Rightarrow> string \<Rightarrow> string \<Rightarrow> bool" where
  "IsSameMajor L s1 s2 =
     (case NewVersion L s1 of None \<Rightarrow> False
      | Some v1 \<Rightarrow> (case NewVersion L s2 of None \<Rightarrow> False
                   | Some v2 \<Rightarrow> MajorV L v1 = MajorV L v2))"

definition IsSameMinor :: "'v lib \<Rightarrow> string \<Rightarrow> string \<Rightarrow> bool" where
  "IsSameMinor L s1 s2 =
     (case NewVersion L s1 of None \<Rightarrow> False
      | Some v1 \<Rightarrow> (case NewVersion L s2 of None \<Rightarrow> False
                   | Some v2 \<Rightarrow> MajorV L v1 = MajorV L v2 \<and> MinorV L v1 = MinorV L v2))"

subsection \<open>Lemmas\<close>

lemma semver_original: "semver_laws L \<Longrightarrow> NewVersion L s = Some v \<Longrightarrow> OriginalV L v = s"
  by (simp add: semver_laws_def)

lemma semver_anti: "semver_laws L \<Longrightarrow> CompareV L u v + CompareV L v u = 0"
  unfolding semver_laws_def by blast

lemma semver_trans:
  "semver_laws L \<Longrightarrow> CompareV L u v \<le> 0 \<Longrightarrow> CompareV L v w \<le> 0 \<Longrightarrow> CompareV L u w \<le> 0"
  unfolding semver_laws_def by blast

lemma version_weak_order: "semver_laws L \<Longrightarrow> weak_order (version_lt L)"
proof (unfold_locales, goal_cases)
  case (1 a b)
  then show ?case using semver_anti [of L a b] by (simp add: version_lt_def)
next
  case (2 a b c)
  then show ?case
    using semver_trans [of L c b a] semver_anti [of L a b] semver_anti [of L b c]
      semver_anti [of L a c]
    by (simp add: version_lt_def)
qed

lemma parse_versions_Inr:
  "parse_versions L ss = Inr vs \<longleftrightarrow> map (NewVersion L) ss = map Some vs"
  by (induction ss arbitrary: vs) (fastforce split: option.splits sum.splits)+

lemma parse_versions_Inl:
  "(\<exists>e. parse_versions L ss = Inl e) \<longleftrightarrow> (\<exists>s \<in> set ss. NewVersion L s = None)"
  by (induction ss) (auto split: option.splits sum.splits)

lemma parse_versions_original:
  "semver_laws L \<Longrightarrow> parse_versions L ss = Inr vs \<Longrightarrow> map (OriginalV L) vs = ss"
  unfolding parse_versions_Inr
  by (induction ss arbitrary: vs) (auto simp: semver_original)

lemma parse_versions_reparse:
  assumes "semver_laws L" "parse_versions L ss = Inr vs" "v \<in> set vs"
  shows "NewVersion L (OriginalV L v) = Some v"
proof -
  have "Some v \<in> set (map (NewVersion L) ss)"
    using assms(2,3) by (simp add: parse_versions_Inr)
  then obtain s where "NewVersion L s = Some v" by auto
  with semver_original [OF assms(1) this] show ?thesis by simp
qed

lemma IsNewVersion_lt:
  assumes "NewVersion L a = Some u" "NewVersion L b = Some v" "semver_laws L"
  shows "IsNewVersion L a b \<longleftrightarrow> version_lt L v u"
  using assms semver_anti [of L v u] by (auto simp: IsNewVersion_def version_lt_def)

lemma SortVersions_error_iff:
  "(\<exists>e ws. SortVersions L vs = (Some e, ws)) \<longleftrightarrow> (\<exists>s \<in> set vs. NewVersion L s = None)"
  unfolding parse_versions_Inl [symmetric]
  by (auto simp: SortVersions_def split: sum.splits)

lemma SortVersions_error_unchanged: "SortVersions L vs = (Some e, ws) \<Longrightarrow> ws = vs"
  by (auto simp: SortVersions_def split: sum.splits)

lemma SortVersions_total:
  "\<forall>s \<in> set vs. NewVersion L s \<noteq> None \<Longrightarrow> \<exists>ws. SortVersions L vs = (None, ws)"
  using parse_versions_Inl [of L vs] by (auto simp: SortVersions_def split: sum.splits)

lemma SortVersions_mset:
  assumes "semver_laws L"
  shows "mset (snd (SortVersions L vs)) = mset vs"
proof (cases "parse_versions L vs")
  case (Inr us)
  have "mset (map (OriginalV L) (sort_by (version_lt L) us)) = mset (map (OriginalV L) us)"
    by (simp add: mset_map)
  with Inr parse_versions_original [OF assms Inr] show ?thesis
    by (simp add: SortVersions_def)
qed (simp add: SortVersions_def)

lemma SortVersions_set [simp]: "semver_laws L \<Longrightarrow> set (snd (SortVersions L vs)) = set vs"
  by (metis SortVersions_mset set_mset_mset)

lemma SortVersions_length [simp]: "semver_laws L \<Longrightarrow> length (snd (SortVersions L vs)) = length vs"
  by (metis SortVersions_mset size_mset)

lemma SortVersions_distinct [simp]:
  "semver_laws L \<Longrightarrow> distinct (snd (SortVersions L vs)) = distinct vs"
  by (metis SortVersions_mset mset_eq_imp_distinct_iff)

lemma SortVersions_sorted_aux:
  assumes "semver_laws L" "SortVersions L vs = (None, ws)"
  shows "sorted_wrt (\<lambda>a b. \<not> IsNewVersion L a b) ws"
proof -
  from assms(2) obtain us where us: "parse_versions L vs = Inr us"
    and ws: "ws = map (OriginalV L) (sort_by (version_lt L) us)"
    by (auto simp: SortVersions_def split: sum.splits)
  have "sorted_wrt (\<lambda>a b. \<not> version_lt L b a) (sort_by (version_lt L) us)"
    by (rule weak_order.sort_sorted [OF version_weak_order [OF assms(1)]])
  then have "sorted_wrt (\<lambda>a b. \<not> IsNewVersion L (OriginalV L a) (OriginalV L b))
      (sort_by (version_lt L) us)"
    by (rule sorted_wrt_mono_rel [rotated])
      (metis IsNewVersion_lt assms(1) parse_versions_reparse set_sort_by us)
  then show ?thesis by (simp add: ws sorted_wrt_map)
qed

lemma SortVersions_last_max:
  assumes "semver_laws L" "SortVersions L vs = (None, ws)" "s \<in> set vs"
  shows "last ws \<in> set vs \<and> \<not> IsNewVersion L s (last ws)"
proof -
  have set: "set ws = set vs"
    using SortVersions_set [OF assms(1), of vs] assms(2) by simp
  with assms(3) obtain ys where ys: "ws = ys @ [last ws]"
    by (metis append_butlast_last_id empty_iff list.set(1))
  have "sorted_wrt (\<lambda>a b. \<not> IsNewVersion L a b) (ys @ [last ws])"
    using SortVersions_sorted_aux [OF assms(1,2)] ys by metis
  moreover have "\<not> IsNewVersion L (last ws) (last ws)"
    using semver_anti [OF assms(1)]
    by (auto simp: IsNewVersion_def split: option.splits) (metis add_cancel_left_left less_add_same_cancel1 less_asym)
  moreover have "s \<in> set (ys @ [last ws])"
    using assms(3) set ys by metis
  ultimately have "\<not> IsNewVersion L s (last ws)"
    by (auto simp: sorted_wrt_append)
  moreover have "last ws \<in> set vs"
    using set ys by (metis in_set_conv_decomp)
  ultimately show ?thesis by blast
qed

section \<open>Selecting a version\<close>

record xsemver =
  XIsValid :: "string \<Rightarrow> bool"
  XBuild :: "string \<Rightarrow> string"
  XPrerelease :: "string \<Rightarrow> string"
  XCompare :: "string \<Rightarrow> string \<Rightarrow> int"

text \<open>\<open>x/mod/semver.Compare\<close> is -1, 0 or 1, a total preorder, with every invalid version
  (the empty string among them) below every valid one.\<close>

definition xsemver_laws :: "xsemver \<Rightarrow> bool" where
  "xsemver_laws X \<longleftrightarrow>
     (\<forall>a b. XCompare X a b \<in> {-1, 0, 1}) \<and>
     (\<forall>a b. XCompare X a b + XCompare X b a = 0) \<and>
     (\<forall>a b c. XCompare X a b \<le> 0 \<longrightarrow> XCompare X b c \<le> 0 \<longrightarrow> XCompare X a c \<le> 0) \<and>
     (\<forall>a b. \<not> XIsValid X a \<longrightarrow> XIsValid X b \<longrightarrow> XCompare X a b = -1) \<and>
     \<not> XIsValid X ''''"

definition VersionLatest :: string where
  "VersionLatest = ''latest''"

definition FilterVersions :: "xsemver \<Rightarrow> string list \<Rightarrow> string list" where
  "FilterVersions X versions = filter (XIsValid X) versions"

fun SelectVersionStable_loop :: "xsemver \<Rightarrow> string \<Rightarrow> string list \<Rightarrow> string" where
  "SelectVersionStable_loop X v [] = v"
| "SelectVersionStable_loop X v (version # rest) =
     (if XBuild X version \<noteq> '''' then SelectVersionStable_loop X v rest
      else if XPrerelease X version \<noteq> '''' then SelectVersionStable_loop X v rest
      else if XCompare X v version = -1 then SelectVersionStable_loop X version rest
      else SelectVersionStable_loop X v rest)"

definition SelectVersionStable :: "xsemver \<Rightarrow> string list \<Rightarrow> string" where
  "SelectVersionStable X versions = SelectVersionStable_loop X '''' (FilterVersions X versions)"

fun SelectVersionAny_loop :: "xsemver \<Rightarrow> string \<Rightarrow> string list \<Rightarrow> string" where
  "SelectVersionAny_loop X v [] = v"
| "SelectVersionAny_loop X v (version # rest) =
     (if XCompare X v version = -1 then SelectVersionAny_loop X version rest
      else SelectVersionAny_loop X v rest)"

definition SelectVersionAny :: "xsemver \<Rightarrow> string list \<Rightarrow> string" where
  "SelectVersionAny X versions = SelectVersionAny_loop X '''' (FilterVersions X versions)"

fun SelectVersionAlpha_loop :: "xsemver \<Rightarrow> string \<Rightarrow> string list \<Rightarrow> string" where
  "SelectVersionAlpha_loop X v [] = v"
| "SelectVersionAlpha_loop X v (version # rest) =
     (if XBuild X version \<noteq> '''' then SelectVersionAlpha_loop X v rest
      else if XPrerelease X version \<noteq> '''' \<and> \<not> contains_str (XPrerelease X version) ''alpha''
        then SelectVersionAlpha_loop X v rest
      else if XCompare X v version = -1 then SelectVersionAlpha_loop X version rest
      else SelectVersionAlpha_loop X v rest)"

definition SelectVersionAlpha :: "xsemver \<Rightarrow> string list \<Rightarrow> string" where
  "SelectVersionAlpha X versions = SelectVersionAlpha_loop X '''' (FilterVersions X versions)"

fun SelectVersionExperimental_loop :: "xsemver \<Rightarrow> string \<Rightarrow> string list \<Rightarrow> string" where
  "SelectVersionExperimental_loop X v [] = v"
| "SelectVersionExperimental_loop X v (version # rest) =
     (if XBuild X version \<noteq> '''' then SelectVersionExperimental_loop X v rest
      else if XCompare X v version = -1 then SelectVersionExperimental_loop X version rest
      else SelectVersionExperimental_loop X v rest)"

definition SelectVersionExperimental :: "xsemver \<Rightarrow> string list \<Rightarrow> string" where
  "SelectVersionExperimental X versions =
     SelectVersionExperimental_loop X '''' (FilterVersions X versions)"

text \<open>What the four selectors share: the loop keeps the best version that passes a test.\<close>

locale version_selector =
  fixes X :: xsemver
    and accept :: "string \<Rightarrow> bool"
    and loop :: "string \<Rightarrow> string list \<Rightarrow> string"
  assumes loop_Nil: "loop v [] = v"
    and loop_Cons: "loop v (w # ws) =
      loop (if accept w \<and> XCompare X v w = -1 then w else v) ws"
begin

lemma loop_sound: "loop v ws = v \<or> (loop v ws \<in> set ws \<and> accept (loop v ws))"
proof (induction ws arbitrary: v)
  case (Cons w ws)
  from Cons [of "if accept w \<and> XCompare X v w = -1 then w else v"] show ?case
    by (auto simp: loop_Cons split: if_splits)
qed (simp add: loop_Nil)

lemma cmp_facts:
  assumes "xsemver_laws X"
  shows "XCompare X a b + XCompare X b a = 0"
    and "XCompare X a b = -1 \<or> XCompare X a b = 0 \<or> XCompare X a b = 1"
    and "XCompare X a b \<le> 0 \<Longrightarrow> XCompare X b c \<le> 0 \<Longrightarrow> XCompare X a c \<le> 0"
  using assms unfolding xsemver_laws_def by blast+

lemma cmp_refl: "xsemver_laws X \<Longrightarrow> XCompare X a a \<le> 0"
  using cmp_facts(1) [of a a] by simp

lemma loop_above:
  assumes laws: "xsemver_laws X"
  shows "XCompare X v (loop v ws) \<le> 0 \<and>
    (\<forall>w \<in> set ws. accept w \<longrightarrow> XCompare X w (loop v ws) \<le> 0)"
proof (induction ws arbitrary: v)
  case Nil
  then show ?case using cmp_refl [OF laws] by (simp add: loop_Nil)
next
  case (Cons w ws)
  define u where "u = (if accept w \<and> XCompare X v w = -1 then w else v)"
  have vu: "XCompare X v u \<le> 0" using cmp_refl [OF laws] by (simp add: u_def)
  have wu: "accept w \<Longrightarrow> XCompare X w u \<le> 0"
    using cmp_refl [OF laws, of w] cmp_facts(1) [OF laws, of v w] cmp_facts(2) [OF laws, of v w]
    by (auto simp: u_def)
  have tr: "XCompare X a u \<le> 0 \<Longrightarrow> XCompare X a (loop u ws) \<le> 0" for a
    using cmp_facts(3) [OF laws] Cons.IH [of u] by blast
  show ?case
    using vu wu tr Cons.IH [of u] by (simp add: loop_Cons u_def [symmetric])
qed

text \<open>The selected version is an accepted version of the list that no accepted version of the
  list exceeds, and it is the empty string only if there is none.\<close>

lemma selects_max:
  assumes laws: "xsemver_laws X"
    and "w \<in> set (FilterVersions X vs)" "accept w"
  shows "loop '''' (FilterVersions X vs) \<in> set vs \<and> accept (loop '''' (FilterVersions X vs)) \<and>
    XCompare X w (loop '''' (FilterVersions X vs)) \<le> 0"
proof -
  let ?r = "loop '''' (FilterVersions X vs)"
  have le: "XCompare X w ?r \<le> 0" using loop_above [OF laws] assms(2,3) by blast
  have "?r \<noteq> ''''"
  proof
    assume "?r = ''''"
    moreover have "XCompare X '''' w = -1"
      using laws assms(2) unfolding xsemver_laws_def FilterVersions_def by simp
    ultimately show False using le cmp_facts(1) [OF laws, of "''''" w] by simp
  qed
  then show ?thesis using loop_sound [of "''''" "FilterVersions X vs"] le
    by (auto simp: FilterVersions_def)
qed

end

interpretation stable: version_selector X
  "\<lambda>w. XBuild X w = '''' \<and> XPrerelease X w = ''''" "SelectVersionStable_loop X" for X
  by unfold_locales auto

interpretation any: version_selector X "\<lambda>w. True" "SelectVersionAny_loop X" for X
  by unfold_locales auto

interpretation alpha: version_selector X
  "\<lambda>w. XBuild X w = '''' \<and> (XPrerelease X w = '''' \<or> contains_str (XPrerelease X w) ''alpha'')"
  "SelectVersionAlpha_loop X" for X
  by unfold_locales auto

interpretation experimental: version_selector X "\<lambda>w. XBuild X w = ''''"
  "SelectVersionExperimental_loop X" for X
  by unfold_locales auto

section \<open>A concrete library\<close>

text \<open>
  Versions \<^verbatim>\<open>[v]N.N.N[-pre]\<close> compared by their numbers and then by the pre-release part,
  range in list order, aggregates that keep the list. It is used only to evaluate witnesses.
\<close>

type_synonym dotted = "nat list \<times> string \<times> string"

definition dotted_key :: "dotted \<Rightarrow> nat list \<times> bool \<times> string" where
  "dotted_key d = (case d of (ns, pre, orig) \<Rightarrow> (ns, pre = '''', pre))"

definition dotted_cmp :: "dotted \<Rightarrow> dotted \<Rightarrow> int" where
  "dotted_cmp a b =
     (if dotted_key a < dotted_key b then -1 else if dotted_key a = dotted_key b then 0 else 1)"

definition dotted_parse :: "string \<Rightarrow> dotted option" where
  "dotted_parse s =
     (let t = trim_prefix s ''v'';
          core = takeWhile (\<lambda>c. c \<noteq> CHR ''-'') t;
          pre = drop 1 (dropWhile (\<lambda>c. c \<noteq> CHR ''-'') t);
          ns = map (\<lambda>p. if p = [] then None else digits_val 0 p) (split_on CHR ''.'' core)
      in if length ns = 3 \<and> list_all (\<lambda>n. n \<noteq> None) ns then Some (map the ns, pre, s) else None)"

definition dotted_lib :: "dotted lib" where
  "dotted_lib =
     \<lparr>NewVersion = dotted_parse, CompareV = dotted_cmp, OriginalV = (\<lambda>(ns, pre, orig). orig),
      PrereleaseV = (\<lambda>(ns, pre, orig). pre), MajorV = (\<lambda>(ns, pre, orig). int (hd ns)),
      MinorV = (\<lambda>(ns, pre, orig). int (ns ! 1)), StringToTarget = (\<lambda>s. s),
      NewAggregate = (\<lambda>es. if es = [] then None else Some (Aggregate es)),
      Sha256Hex = (\<lambda>s. s), RangeOrder = (\<lambda>ks. ks)\<rparr>"

lemma dotted_semver_laws: "semver_laws dotted_lib"
  by (auto simp: semver_laws_def dotted_lib_def dotted_parse_def dotted_cmp_def Let_def
      split: if_splits prod.splits)

lemma dotted_range_law: "range_law dotted_lib"
  by (simp add: range_law_def dotted_lib_def)

lemma dotted_aggregate_law: "aggregate_law dotted_lib"
  by (simp add: aggregate_law_def dotted_lib_def)

definition dotted_xkey :: "string \<Rightarrow> bool \<times> nat list \<times> bool \<times> string" where
  "dotted_xkey s = (case dotted_parse s of None \<Rightarrow> (False, [], False, '''') | Some d \<Rightarrow> (True, dotted_key d))"

definition dotted_x :: xsemver where
  "dotted_x = \<lparr>XIsValid = (\<lambda>s. dotted_parse s \<noteq> None), XBuild = (\<lambda>s. ''''),
     XPrerelease = (\<lambda>s. case dotted_parse s of None \<Rightarrow> '''' | Some (ns, pre, orig) \<Rightarrow> pre),
     XCompare = (\<lambda>a b. if dotted_xkey a < dotted_xkey b then -1
                       else if dotted_xkey a = dotted_xkey b then 0 else 1)\<rparr>"

lemma dotted_x_laws: "xsemver_laws dotted_x"
proof -
  have inv: "dotted_xkey a < dotted_xkey b" if "\<not> XIsValid dotted_x a" "XIsValid dotted_x b" for a b
    using that by (cases "dotted_parse a"; cases "dotted_parse b") (auto simp: dotted_x_def dotted_xkey_def)
  show ?thesis
    unfolding xsemver_laws_def
  proof (intro conjI allI impI)
    show "\<not> XIsValid dotted_x ''''"
      by (simp add: dotted_x_def dotted_parse_def trim_prefix_def has_prefix_def)
  qed (use inv in \<open>auto simp: dotted_x_def split: if_splits\<close>)
qed

section \<open>Properties\<close>

text \<open>\<open>SortVersions\<close> either succeeds, and then the array is a permutation of the argument in
  which no version is newer than a later one, or some string is not a version, and then it reports an
  error and leaves the array as it was.\<close>

theorem sort_versions_correct:
  assumes "semver_laws L"
  shows "case SortVersions L vs of
      (None, ws) \<Rightarrow> list_all (\<lambda>s. NewVersion L s \<noteq> None) vs \<and> mset ws = mset vs \<and>
                   sorted_wrt (\<lambda>a b. \<not> IsNewVersion L a b) ws
    | (Some e, ws) \<Rightarrow> list_ex (\<lambda>s. NewVersion L s = None) vs \<and> ws = vs"
proof -
  obtain e ws where r: "SortVersions L vs = (e, ws)" by force
  show ?thesis
  proof (cases e)
    case None
    then have "\<not> (\<exists>s \<in> set vs. NewVersion L s = None)"
      using r SortVersions_error_iff [of L vs] by auto
    then show ?thesis
      using r None SortVersions_mset [OF assms, of vs] SortVersions_sorted_aux [OF assms, of vs ws]
      by (simp add: list_all_iff)
  next
    case (Some e')
    then have "\<exists>s \<in> set vs. NewVersion L s = None" using r SortVersions_error_iff [of L vs] by blast
    then show ?thesis using r Some SortVersions_error_unchanged [of L vs e' ws] by (simp add: list_ex_iff)
  qed
qed

theorem sort_versions_correct_witness:
  "case SortVersions dotted_lib [''v1.10.0'', ''v1.9.0'', ''v1.9.0-rc''] of
      (None, ws) \<Rightarrow> mset ws = {#''v1.10.0'', ''v1.9.0'', ''v1.9.0-rc''#} \<and>
                   sorted_wrt (\<lambda>a b. \<not> IsNewVersion dotted_lib a b) ws
    | (Some e, ws) \<Rightarrow> ws = [''v1.10.0'', ''v1.9.0'', ''v1.9.0-rc'']"
  using sort_versions_correct [OF dotted_semver_laws, of "[''v1.10.0'', ''v1.9.0'', ''v1.9.0-rc'']"]
  by (auto split: prod.splits option.splits)

text \<open>Each version selector returns an admissible version of the list that no admissible
  version of the list exceeds: stable versions, any version, versions that are stable or tagged alpha, and
  versions without build metadata, respectively.\<close>

theorem version_selectors_return_latest:
  assumes "xsemver_laws X" "w \<in> set vs" "XIsValid X w"
  shows "(XBuild X w = '''' \<and> XPrerelease X w = '''' \<longrightarrow>
      SelectVersionStable X vs \<in> set vs \<and> XPrerelease X (SelectVersionStable X vs) = '''' \<and>
      XCompare X w (SelectVersionStable X vs) \<le> 0) \<and>
    SelectVersionAny X vs \<in> set vs \<and> XCompare X w (SelectVersionAny X vs) \<le> 0 \<and>
    (XBuild X w = '''' \<and> (XPrerelease X w = '''' \<or> contains_str (XPrerelease X w) ''alpha'') \<longrightarrow>
      SelectVersionAlpha X vs \<in> set vs \<and> XCompare X w (SelectVersionAlpha X vs) \<le> 0) \<and>
    (XBuild X w = '''' \<longrightarrow>
      SelectVersionExperimental X vs \<in> set vs \<and> XCompare X w (SelectVersionExperimental X vs) \<le> 0)"
proof -
  have w: "w \<in> set (FilterVersions X vs)" using assms(2,3) by (simp add: FilterVersions_def)
  show ?thesis
    using stable.selects_max [OF assms(1) w] any.selects_max [OF assms(1) w]
      alpha.selects_max [OF assms(1) w] experimental.selects_max [OF assms(1) w]
    unfolding SelectVersionStable_def SelectVersionAny_def SelectVersionAlpha_def SelectVersionExperimental_def
    by blast
qed

theorem version_selectors_return_latest_witness:
  "SelectVersionStable dotted_x [''v1.2.0'', ''junk'', ''v1.10.0'', ''v2.0.0-rc''] \<in> set [''v1.2.0'', ''junk'', ''v1.10.0'', ''v2.0.0-rc''] \<and>
   XCompare dotted_x ''v1.10.0'' (SelectVersionStable dotted_x [''v1.2.0'', ''junk'', ''v1.10.0'', ''v2.0.0-rc'']) \<le> 0"
proof -
  have v: "XIsValid dotted_x ''v1.10.0''" "XBuild dotted_x ''v1.10.0'' = ''''" "XPrerelease dotted_x ''v1.10.0'' = ''''"
    by (simp_all add: dotted_x_def dotted_parse_def trim_prefix_def has_prefix_def digit_val_def)
  have i: "''v1.10.0'' \<in> set [''v1.2.0'', ''junk'', ''v1.10.0'', ''v2.0.0-rc'']" by simp
  from version_selectors_return_latest [OF dotted_x_laws i v(1)] v show ?thesis by blast
qed

end
