(* ===== verification/Cli_Types.thy ===== *)
theory Cli_Types
  imports Semver_Utils
begin

text \<open>
  Data and small helpers shared by the components: \<^verbatim>\<open>pkg/cli/plugin_info.go\<close>,
  \<^verbatim>\<open>pkg/cli/manifest.go\<close>, \<^verbatim>\<open>pkg/cli/arch.go\<close>, \<^verbatim>\<open>pkg/cli/conversion.go\<close>, \<^verbatim>\<open>pkg/utils/common.go\<close>,
  \<^verbatim>\<open>pkg/utils/url.go\<close>, \<^verbatim>\<open>pkg/catalog/catalog.go\<close> (\<open>PluginNameTarget\<close>) and the constants of
  \<^verbatim>\<open>pkg/common\<close>. The lemmas show when the composite keys built by these helpers identify
  their parts.
\<close>

section \<open>Constants\<close>

abbreviation TargetK8s :: string where "TargetK8s \<equiv> ''kubernetes''"
abbreviation TargetTMC :: string where "TargetTMC \<equiv> ''mission-control''"
abbreviation TargetGlobal :: string where "TargetGlobal \<equiv> ''global''"
abbreviation TargetOperations :: string where "TargetOperations \<equiv> ''operations''"
abbreviation TargetUnknown :: string where "TargetUnknown \<equiv> ''''"

abbreviation ContextTypeK8s :: string where "ContextTypeK8s \<equiv> ''kubernetes''"
abbreviation ContextTypeTMC :: string where "ContextTypeTMC \<equiv> ''mission-control''"
abbreviation ContextTypeTanzu :: string where "ContextTypeTanzu \<equiv> ''tanzu''"

abbreviation PluginStatusInstalled :: string where "PluginStatusInstalled \<equiv> ''installed''"
abbreviation PluginStatusNotInstalled :: string where
  "PluginStatusNotInstalled \<equiv> ''not installed''"
abbreviation PluginStatusUpdateAvailable :: string where
  "PluginStatusUpdateAvailable \<equiv> ''update available''"
abbreviation PluginScopeStandalone :: string where "PluginScopeStandalone \<equiv> ''Standalone''"
abbreviation PluginScopeContext :: string where "PluginScopeContext \<equiv> ''Context''"
abbreviation DiscoveryTypeOCI :: string where "DiscoveryTypeOCI \<equiv> ''oci''"
abbreviation DiscoveryTypeLocal :: string where "DiscoveryTypeLocal \<equiv> ''local''"
abbreviation DiscoveryTypeKubernetes :: string where "DiscoveryTypeKubernetes \<equiv> ''kubernetes''"
abbreviation DiscoveryTypeREST :: string where "DiscoveryTypeREST \<equiv> ''rest''"
abbreviation AllPlugins :: string where "AllPlugins \<equiv> ''all''"
abbreviation CoreName :: string where "CoreName \<equiv> ''core''"

section \<open>Plugin information\<close>

record command_map_entry =
  cme_SourceCommandPath :: string
  cme_DestinationCommandPath :: string
  cme_Overrides :: string
  cme_Description :: string
  cme_Aliases :: "string list"
  cme_RequiredContextType :: "string list"

record plugin_info =
  pi_Name :: string
  pi_Description :: string
  pi_Version :: string
  pi_BuildSHA :: string
  pi_Digest :: string
  pi_Group :: string
  pi_DocURL :: string
  pi_Hidden :: bool
  pi_CompletionType :: int
  pi_CompletionArgs :: "string list"
  pi_CompletionCommand :: string
  pi_Aliases :: "string list"
  pi_InstallationPath :: string
  pi_Discovery :: string
  pi_Scope :: string
  pi_Status :: string
  pi_DiscoveredRecommendedVersion :: string
  pi_Target :: string
  pi_DefaultFeatureFlags :: "(string \<times> bool) list"
  pi_InvokedAs :: "string list"
  pi_SupportedContextType :: "string list"
  pi_CommandMap :: "command_map_entry list"

definition zero_plugin_info :: plugin_info where
  "zero_plugin_info =
     \<lparr>pi_Name = '''', pi_Description = '''', pi_Version = '''', pi_BuildSHA = '''',
      pi_Digest = '''', pi_Group = '''', pi_DocURL = '''', pi_Hidden = False,
      pi_CompletionType = 0, pi_CompletionArgs = [], pi_CompletionCommand = '''',
      pi_Aliases = [], pi_InstallationPath = '''', pi_Discovery = '''', pi_Scope = '''',
      pi_Status = '''', pi_DiscoveredRecommendedVersion = '''', pi_Target = '''',
      pi_DefaultFeatureFlags = [], pi_InvokedAs = [], pi_SupportedContextType = [],
      pi_CommandMap = []\<rparr>"

text \<open>\<open>PluginInfoSorter.Less\<close>\<close>

definition PluginInfo_Less :: "plugin_info \<Rightarrow> plugin_info \<Rightarrow> bool" where
  "PluginInfo_Less p q =
     (if pi_Name p \<noteq> pi_Name q then pi_Name p < pi_Name q else pi_Target p < pi_Target q)"

interpretation plugin_info_order: weak_order PluginInfo_Less
  by unfold_locales (auto simp: PluginInfo_Less_def split: if_splits)

text \<open>A plugin in the manifest of a local source or of a build.\<close>

record manifest_plugin =
  mp_Name :: string
  mp_Target :: string
  mp_Description :: string
  mp_Versions :: "string list"

section \<open>Platform\<close>

record platform =
  GOOS :: string
  GOARCH :: string

definition BuildArch :: "platform \<Rightarrow> string" where
  "BuildArch p = GOOS p @ ''_'' @ GOARCH p"

definition arch_OS :: "string \<Rightarrow> string" where
  "arch_OS a = (let ele = split_on CHR ''_'' a in if length ele \<noteq> 2 then '''' else ele ! 0)"

definition arch_Arch :: "string \<Rightarrow> string" where
  "arch_Arch a = (let ele = split_on CHR ''_'' a in if length ele \<noteq> 2 then '''' else ele ! 1)"

definition SetArch :: "string \<Rightarrow> platform" where
  "SetArch a = \<lparr>GOOS = arch_OS a, GOARCH = arch_Arch a\<rparr>"

definition IsWindows :: "string \<Rightarrow> bool" where
  "IsWindows a \<longleftrightarrow> a = ''windows_386'' \<or> a = ''windows_amd64'' \<or> a = ''windows_arm64''"

abbreviation DarwinAMD64 :: string where "DarwinAMD64 \<equiv> ''darwin_amd64''"
abbreviation DarwinARM64 :: string where "DarwinARM64 \<equiv> ''darwin_arm64''"
abbreviation WinAMD64 :: string where "WinAMD64 \<equiv> ''windows_amd64''"
abbreviation WinARM64 :: string where "WinARM64 \<equiv> ''windows_arm64''"

lemma SetArch_BuildArch:
  assumes "CHR ''_'' \<notin> set (GOOS p)" "CHR ''_'' \<notin> set (GOARCH p)"
  shows "SetArch (BuildArch p) = p"
  using assms by (simp add: SetArch_def BuildArch_def arch_OS_def arch_Arch_def go_str)

section \<open>Binary and artifact names\<close>

definition PluginNameFromBin :: "platform \<Rightarrow> string \<Rightarrow> string" where
  "PluginNameFromBin p binName =
     trim_prefix (if IsWindows (BuildArch p) then trim_suffix binName ''.exe'' else binName)
       ''tanzu-plugin-''"

definition BinFromPluginName :: "string \<Rightarrow> string" where
  "BinFromPluginName name = ''tanzu-plugin-'' @ name"

definition PluginNameFromTestBin :: "string \<Rightarrow> string" where
  "PluginNameFromTestBin binName = trim_prefix binName ''tanzu-plugin-test-''"

definition BinTestFromPluginName :: "string \<Rightarrow> string" where
  "BinTestFromPluginName name = ''tanzu-plugin-test-'' @ name"

definition MakeArtifactName :: "string \<Rightarrow> string \<Rightarrow> string" where
  "MakeArtifactName pluginName arch =
     (if IsWindows arch then ''tanzu-'' @ pluginName @ ''-'' @ arch @ ''.exe''
      else ''tanzu-'' @ pluginName @ ''-'' @ arch)"

definition MakeTestArtifactName :: "string \<Rightarrow> string \<Rightarrow> string" where
  "MakeTestArtifactName pluginName arch =
     (if IsWindows arch then ''tanzu-'' @ pluginName @ ''-test-'' @ arch @ ''.exe''
      else ''tanzu-'' @ pluginName @ ''-test-'' @ arch)"

lemma PluginNameFromTestBin_roundtrip: "PluginNameFromTestBin (BinTestFromPluginName n) = n"
  by (simp only: PluginNameFromTestBin_def BinTestFromPluginName_def trim_prefix_append)

lemma PluginNameFromBin_roundtrip:
  "\<not> IsWindows (BuildArch p) \<Longrightarrow> PluginNameFromBin p (BinFromPluginName n) = n"
  by (simp only: PluginNameFromBin_def BinFromPluginName_def trim_prefix_append if_False)

section \<open>Small utilities\<close>

fun ContainsString :: "string list \<Rightarrow> string \<Rightarrow> bool" where
  "ContainsString [] str = False"
| "ContainsString (a # arr) str = (if a = str then True else ContainsString arr str)"

lemma ContainsString_iff [simp]: "ContainsString arr str \<longleftrightarrow> str \<in> set arr"
  by (induction arr) auto

definition GenerateKey :: "string list \<Rightarrow> string" where
  "GenerateKey parts = join '':'' parts"

lemma GenerateKey_inject:
  assumes "GenerateKey xs = GenerateKey ys" "xs \<noteq> []" "ys \<noteq> []"
    "\<And>x. x \<in> set xs \<Longrightarrow> CHR '':'' \<notin> set x" "\<And>y. y \<in> set ys \<Longrightarrow> CHR '':'' \<notin> set y"
  shows "xs = ys"
proof -
  have "split_on CHR '':'' (GenerateKey xs) = xs" "split_on CHR '':'' (GenerateKey ys) = ys"
    unfolding GenerateKey_def using assms(2-5) by (blast intro: split_on_join)+
  with assms(1) show ?thesis by (metis (no_types))
qed

text \<open>\<open>ParsePluginID\<close>: name, target and version of \<^verbatim>\<open>name[@target][:version]\<close>.\<close>

definition ParsePluginID :: "string \<Rightarrow> string \<times> string \<times> string" where
  "ParsePluginID pluginID =
     (let parts = split_on CHR '':'' pluginID;
          version = (if length parts > 1 then parts ! 1 else '''');
          parts2 = split_on CHR ''@'' (parts ! 0);
          name = parts2 ! 0;
          target = (if length parts2 > 1 then parts2 ! 1 else '''')
      in (name, target, version))"

text \<open>The function literal \<open>cleanRegistryURL\<close> inside \<open>ContainsRegistry\<close>.\<close>

definition cleanRegistryURL :: "string \<Rightarrow> string" where
  "cleanRegistryURL u =
     hd (split_on CHR ''/''
       (trim_prefix (trim_prefix (trim_space u) ''http://'') ''https://''))"

definition ContainsRegistry :: "string list \<Rightarrow> string \<Rightarrow> bool" where
  "ContainsRegistry registries registryHost =
     (\<exists>reg \<in> set registries. equal_fold (cleanRegistryURL reg) (cleanRegistryURL registryHost))"

text \<open>\<open>catalog.PluginNameTarget\<close>: the key of a plugin in the catalog.\<close>

definition PluginNameTarget :: "string \<Rightarrow> string \<Rightarrow> string" where
  "PluginNameTarget pluginName target =
     (if target = '''' then pluginName else pluginName @ ''_'' @ target)"

lemma PluginNameTarget_unknown [simp]: "PluginNameTarget n '''' = n"
  by (simp add: PluginNameTarget_def)

lemma PluginNameTarget_same_name [simp]:
  "PluginNameTarget n t = PluginNameTarget n t' \<longleftrightarrow> t = t'"
  by (auto simp: PluginNameTarget_def)

lemma PluginNameTarget_inject:
  assumes "PluginNameTarget n t = PluginNameTarget n' t'"
    "CHR ''_'' \<notin> set n" "CHR ''_'' \<notin> set n'"
  shows "n = n' \<and> t = t'"
  using assms append_sep_inject [of "CHR ''_''" n n' t t']
  by (auto simp: PluginNameTarget_def split: if_splits)

lemma PluginNameTarget_collision:
  "PluginNameTarget (n @ ''_'' @ t) '''' = PluginNameTarget n t" if "t \<noteq> ''''"
  using that by (simp add: PluginNameTarget_def)

end
