(* ===== verification/Catalog_Correct.thy ===== *)
theory Catalog_Correct
  imports Catalog_Model
begin

text \<open>
  Correctness of the plugin catalog. The contract of \<^verbatim>\<open>PluginCatalogUpdater\<close>
  (\<^verbatim>\<open>pkg/catalog/interface.go\<close>) is the locale \<open>plugin_catalog\<close>: what a lookup returns after an
  upsert or a delete, and that both keep the invariant. It is interpreted on a write-locked
  \<^verbatim>\<open>ContextCatalog\<close> over a file system without faults. The other lemmas show persistence, the
  error paths and the two migrations.
\<close>

section \<open>The contract of a catalog updater\<close>

locale plugin_catalog =
  fixes inv :: "'s \<Rightarrow> bool"
    and lookup :: "'s \<Rightarrow> string \<Rightarrow> plugin_info option"
    and upsert :: "plugin_info \<Rightarrow> 's \<Rightarrow> 's \<times> err option"
    and delete :: "string \<Rightarrow> 's \<Rightarrow> 's \<times> err option"
    and free :: "'s \<Rightarrow> plugin_info \<Rightarrow> bool"
  assumes upsert_ok: "inv s \<Longrightarrow> free s p \<Longrightarrow> snd (upsert p s) = None \<and> inv (fst (upsert p s))"
    and lookup_upsert: "inv s \<Longrightarrow> free s p \<Longrightarrow> lookup (fst (upsert p s)) k =
          (if k = plugin_key p then Some p else if k \<in> set (twin_keys p) then None else lookup s k)"
    and delete_ok: "inv s \<Longrightarrow> snd (delete k s) = None \<and> inv (fst (delete k s))"
    and lookup_delete: "inv s \<Longrightarrow> lookup (fst (delete k s)) = (lookup s)(k := None)"
    and lookup_key: "inv s \<Longrightarrow> lookup s k = Some p \<Longrightarrow> plugin_key p = k"
begin

text \<open>Deleting a list of keys, as the callers do in a loop.\<close>

lemma delete_all:
  assumes "inv s"
  shows "inv (fold (\<lambda>k s. fst (delete k s)) ks s) \<and>
    lookup (fold (\<lambda>k s. fst (delete k s)) ks s) = (\<lambda>k. if k \<in> set ks then None else lookup s k)"
  using assms
proof (induction ks arbitrary: s)
  case (Cons k ks)
  from Cons.prems have "inv (fst (delete k s))" "lookup (fst (delete k s)) = (lookup s)(k := None)"
    by (simp_all add: delete_ok lookup_delete)
  with Cons.IH [of "fst (delete k s)"] show ?case
    by auto
qed simp

text \<open>No plugin is listed twice, once with the unknown target and once with the global or the
  Kubernetes target.\<close>

definition twin_free :: "'s \<Rightarrow> bool" where
  "twin_free s \<longleftrightarrow> (\<forall>k p. lookup s k = Some p \<longrightarrow> (\<forall>k' \<in> set (twin_keys p). lookup s k' = None))"

definition plain_names :: "'s \<Rightarrow> bool" where
  "plain_names s \<longleftrightarrow> (\<forall>k p. lookup s k = Some p \<longrightarrow> CHR ''_'' \<notin> set (pi_Name p))"

lemma twin_free_upsert:
  assumes "inv s" "free s p" "twin_free s" "plain_names s" "CHR ''_'' \<notin> set (pi_Name p)"
  shows "twin_free (fst (upsert p s))"
  unfolding twin_free_def
proof (intro allI impI ballI)
  fix k q k'
  assume q: "lookup (fst (upsert p s)) k = Some q" and k': "k' \<in> set (twin_keys q)"
  show "lookup (fst (upsert p s)) k' = None"
  proof (cases "k = plugin_key p")
    case True
    with q k' assms show ?thesis by (auto simp: lookup_upsert)
  next
    case False
    with q assms have old: "lookup s k = Some q" and k: "k \<notin> set (twin_keys p)"
      by (auto simp: lookup_upsert split: if_splits)
    have key: "k = plugin_key q" using old assms(1) lookup_key by simp
    have "lookup s k' = None" using assms(3) old k' by (auto simp: twin_free_def)
    moreover have "CHR ''_'' \<notin> set (pi_Name q)" using assms(4) old by (auto simp: plain_names_def)
    then have "k' \<noteq> plugin_key p"
      using k k' key assms(5) twin_keys_sym [of p q] by auto
    ultimately show ?thesis using assms by (auto simp: lookup_upsert)
  qed
qed

end

section \<open>Pure catalog updates\<close>

lemma upsert_indices [simp]:
  "IndexByPath (upsert_catalog ctx p c) = AList.update (pi_InstallationPath p) p (IndexByPath c)"
  by (simp add: upsert_catalog_def Let_def)

lemma upsert_name_index:
  "get_or [] (IndexByName (upsert_catalog ctx p c)) k =
     (if k = plugin_key p \<and> pi_InstallationPath p \<notin> set (get_or [] (IndexByName c) k)
      then get_or [] (IndexByName c) k @ [pi_InstallationPath p]
      else get_or [] (IndexByName c) k)"
  by (auto simp: upsert_catalog_def Let_def)

lemma assoc_upsert:
  "assoc_of (upsert_catalog ctx p c) ctx' =
     (if ctx' = ctx
      then fold AList.delete (twin_keys p)
             (AList.update (plugin_key p) (pi_InstallationPath p) (assoc_of c ctx))
      else assoc_of c ctx')"
  by (simp add: upsert_catalog_def Let_def)

lemma assoc_delete [simp]:
  "map_of (assoc_of (delete_catalog ctx k c) ctx') =
     (if ctx' = ctx then (map_of (assoc_of c ctx))(k := None) else map_of (assoc_of c ctx'))"
  by (auto simp: delete_catalog_def split: option.splits)

lemma delete_indices [simp]:
  "IndexByPath (delete_catalog ctx k c) = IndexByPath c"
  "IndexByName (delete_catalog ctx k c) = IndexByName c"
  by (auto simp: delete_catalog_def split: option.splits)

lemma consistent_entry:
  assumes "assoc_consistent c pa" "(k, path) \<in> set pa"
  obtains p where "map_of (IndexByPath c) path = Some p" "pi_InstallationPath p = path"
    "plugin_key p = k" "path \<in> set (get_or [] (IndexByName c) k)"
proof -
  from assms have "case map_of (IndexByPath c) path of
      None \<Rightarrow> False
    | Some p \<Rightarrow> pi_InstallationPath p = path \<and> plugin_key p = k \<and>
                path \<in> set (get_or [] (IndexByName c) k)"
    unfolding assoc_consistent_def by (drule_tac bspec) auto
  then show thesis by (cases "map_of (IndexByPath c) path") (auto intro: that)
qed

lemma consistent_assoc_of:
  assumes "catalog_consistent c"
  shows "assoc_consistent c (assoc_of c ctx)"
proof (cases "ctx = '''' \<or> map_of (ServerPlugins c) ctx = None")
  case True
  with assms show ?thesis
    by (auto simp: catalog_consistent_def assoc_of_def get_or_def assoc_consistent_def)
next
  case False
  then obtain pa where "map_of (ServerPlugins c) ctx = Some pa" "assoc_of c ctx = pa"
    by (auto simp: assoc_of_def get_or_def)
  with assms show ?thesis
    unfolding catalog_consistent_def by (auto dest!: map_of_SomeD)
qed

lemma assoc_consistent_sub:
  "assoc_consistent c pa \<Longrightarrow> set pa' \<subseteq> set pa \<Longrightarrow> assoc_consistent c pa'"
  by (auto simp: assoc_consistent_def)

lemma assoc_consistent_upsert:
  assumes "assoc_consistent c pa"
    and "\<And>k path. (k, path) \<in> set pa \<Longrightarrow> path = pi_InstallationPath p \<Longrightarrow> k = plugin_key p"
  shows "assoc_consistent (upsert_catalog ctx p c) pa"
  unfolding assoc_consistent_def
proof (clarify)
  fix k path
  assume in_pa: "(k, path) \<in> set pa"
  with assms(1) obtain q where q: "map_of (IndexByPath c) path = Some q" "pi_InstallationPath q = path"
    "plugin_key q = k" "path \<in> set (get_or [] (IndexByName c) k)"
    by (rule consistent_entry)
  with assms(2) [OF in_pa]
  show "case map_of (IndexByPath (upsert_catalog ctx p c)) path of
      None \<Rightarrow> False
    | Some p' \<Rightarrow> pi_InstallationPath p' = path \<and> plugin_key p' = k \<and>
                path \<in> set (get_or [] (IndexByName (upsert_catalog ctx p c)) k)"
    by (auto simp: upsert_name_index)
qed

lemma assoc_consistent_new_entry:
  "assoc_consistent (upsert_catalog ctx p c) [(plugin_key p, pi_InstallationPath p)]"
  by (auto simp: assoc_consistent_def upsert_name_index)

lemma assoc_consistent_Un:
  "assoc_consistent c pa \<Longrightarrow> assoc_consistent c pb \<Longrightarrow> set pc \<subseteq> set pa \<union> set pb \<Longrightarrow>
    assoc_consistent c pc"
  unfolding assoc_consistent_def by blast

definition assocs :: "catalog \<Rightarrow> plugin_association list" where
  "assocs c = StandAlonePlugins c # map snd (ServerPlugins c)"

lemma catalog_consistent_assocs:
  "catalog_consistent c \<longleftrightarrow> (\<forall>pa \<in> set (assocs c). assoc_consistent c pa)"
  by (auto simp: catalog_consistent_def assocs_def)

lemma assocs_set_assoc: "set (assocs (set_assoc ctx pa c)) \<subseteq> insert pa (set (assocs c))"
  by (cases "ctx = ''''") (auto simp: assocs_def set_assoc_def dest!: set_update_values
      intro: image_eqI)

lemma assocs_upsert:
  "set (assocs (upsert_catalog ctx p c)) \<subseteq>
     insert (assoc_of (upsert_catalog ctx p c) ctx) (set (assocs c))"
proof -
  have "set (assocs (upsert_catalog ctx p c)) \<subseteq> insert (fold AList.delete (twin_keys p)
      (AList.update (plugin_key p) (pi_InstallationPath p) (assoc_of c ctx))) (set (assocs c))"
    unfolding upsert_catalog_def Let_def
    by (rule order_trans [OF assocs_set_assoc]) (auto simp: assocs_def)
  then show ?thesis by (simp add: assoc_upsert)
qed

lemma path_free_entry:
  assumes "path_free c p" "(k, path) \<in> set pa" "pa \<in> set (assocs c)" "path = pi_InstallationPath p"
  shows "k = plugin_key p"
  using assms unfolding path_free_def assocs_def by blast

lemma assoc_of_assocs: "(k, path) \<in> set (assoc_of c ctx) \<Longrightarrow> assoc_of c ctx \<in> set (assocs c)"
  unfolding assocs_def by (rule assoc_of_in) auto

lemma catalog_consistent_upsert:
  assumes "catalog_consistent c" "path_free c p"
  shows "catalog_consistent (upsert_catalog ctx p c)"
proof -
  let ?c' = "upsert_catalog ctx p c"
  have old: "assoc_consistent ?c' pa" if "pa \<in> set (assocs c)" for pa
    using assms that by (intro assoc_consistent_upsert) (auto simp: catalog_consistent_assocs path_free_entry)
  have view: "assoc_consistent ?c' (assoc_of c ctx)"
    using consistent_assoc_of [OF assms(1)] assms(2)
    by (intro assoc_consistent_upsert) (auto intro: path_free_entry assoc_of_assocs)
  have sub: "set (assoc_of ?c' ctx) \<subseteq>
      set [(plugin_key p, pi_InstallationPath p)] \<union> set (assoc_of c ctx)"
    by (auto simp: assoc_upsert dest!: set_fold_delete set_update_values)
  have new: "assoc_consistent ?c' (assoc_of ?c' ctx)"
    by (rule assoc_consistent_Un [OF assoc_consistent_new_entry view sub])
  show ?thesis
    unfolding catalog_consistent_assocs using assocs_upsert [of ctx p c] old new by blast
qed

lemma catalog_consistent_delete:
  assumes "catalog_consistent c"
  shows "catalog_consistent (delete_catalog ctx k c)"
proof -
  have same: "assoc_consistent (delete_catalog ctx k c) pa = assoc_consistent c pa" for pa
    unfolding assoc_consistent_def delete_indices by (rule refl)
  have "set (assocs (delete_catalog ctx k c)) \<subseteq>
      insert (AList.delete k (assoc_of c ctx)) (set (assocs c))"
    using assocs_set_assoc [of ctx "AList.delete k (assoc_of c ctx)" c]
    by (auto simp: delete_catalog_def split: option.splits)
  moreover have "assoc_consistent c (AList.delete k (assoc_of c ctx))"
    using consistent_assoc_of [OF assms] by (rule assoc_consistent_sub) (auto dest: set_delete_values)
  ultimately show ?thesis
    using assms unfolding catalog_consistent_assocs same by blast
qed

section \<open>Saving\<close>

definition no_faults :: "'b cat_fs \<Rightarrow> bool" where
  "no_faults w \<longleftrightarrow> cf_fault w = (\<lambda>_. None)"

definition yaml_roundtrip :: "'b cat_yaml \<Rightarrow> bool" where
  "yaml_roundtrip Y \<longleftrightarrow>
     (\<forall>c. catalog_wf c \<longrightarrow> (\<exists>b raw. MarshalCatalog Y c = Inr b \<and> UnmarshalCatalog Y b = Inr raw \<and>
            catalog_of_raw raw = c)) \<and>
     (\<exists>raw. UnmarshalCatalog Y (EmptyFile Y) = Inr raw \<and> catalog_of_raw raw = empty_catalog)"

text \<open>The catalog a later process would load: an absent file is an empty catalog.\<close>

definition disk_catalog :: "'b cat_yaml \<Rightarrow> 'b cat_fs \<Rightarrow> catalog option" where
  "disk_catalog Y w =
     (case cf_file w of None \<Rightarrow> Some empty_catalog
      | Some b \<Rightarrow> (case UnmarshalCatalog Y b of Inl _ \<Rightarrow> None | Inr raw \<Rightarrow> Some (catalog_of_raw raw)))"

definition fs_wf :: "'b cat_fs \<Rightarrow> bool" where
  "fs_wf w \<longleftrightarrow> (cf_file w \<noteq> None \<longrightarrow> cf_dir w)"

lemma write_handle_simps [simp]:
  "cf_fault (write_handle b w) = cf_fault w" "cf_handles (write_handle b w) = cf_handles w"
  "cf_dir (write_handle b w) = cf_dir w" "cf_root (write_handle b w) = cf_root w"
  "cf_file (write_handle b w) = map_option (\<lambda>_. b) (cf_file w)"
  by (simp_all add: write_handle_def)

lemma save_ok:
  assumes "no_faults w" "cf_file w \<noteq> None" "yaml_roundtrip Y" "catalog_wf c"
  obtains b raw where "saveCatalogCache Y c True w = (w\<lparr>cf_file := Some b\<rparr>, None)"
    "UnmarshalCatalog Y b = Inr raw" "catalog_of_raw raw = c"
proof -
  from assms(3,4) obtain b raw where y: "MarshalCatalog Y c = Inr b"
      "UnmarshalCatalog Y b = Inr raw" "catalog_of_raw raw = c"
    by (auto simp: yaml_roundtrip_def)
  from assms(1,2) y(1) have "saveCatalogCache Y c True w = (w\<lparr>cf_file := Some b\<rparr>, None)"
    by (auto simp: saveCatalogCache_def write_catalog_bytes_def no_faults_def write_handle_def)
  with y that show thesis by blast
qed

lemma save_keeps:
  "cf_fault (fst (saveCatalogCache Y c lk w)) = cf_fault w"
  "cf_handles (fst (saveCatalogCache Y c lk w)) = cf_handles w"
  by (auto simp: saveCatalogCache_def write_catalog_bytes_def mkdir_cache_def Let_def
      split: option.splits sum.splits prod.splits)

section \<open>Opening\<close>

definition with_context :: "string \<Rightarrow> catalog \<Rightarrow> catalog" where
  "with_context ctx c =
     (if ctx = '''' \<or> map_of (ServerPlugins c) ctx \<noteq> None then c
      else c\<lparr>ServerPlugins := AList.update ctx [] (ServerPlugins c)\<rparr>)"

lemma with_context_simps [simp]:
  "assoc_of (with_context ctx c) = assoc_of c"
  "IndexByPath (with_context ctx c) = IndexByPath c"
  "IndexByName (with_context ctx c) = IndexByName c"
  by (auto simp: with_context_def assoc_of_def get_or_def fun_eq_iff)

lemma assocs_with_context: "set (assocs (with_context ctx c)) \<subseteq> insert [] (set (assocs c))"
  by (auto simp: assocs_def with_context_def dest!: set_update_values intro: image_eqI)

lemma with_context_wf: "catalog_wf c \<Longrightarrow> catalog_wf (with_context ctx c)"
  by (auto simp: catalog_wf_def with_context_def dest!: set_update_values)

lemma with_context_consistent:
  assumes "catalog_consistent c"
  shows "catalog_consistent (with_context ctx c)"
proof -
  have same: "assoc_consistent (with_context ctx c) pa = assoc_consistent c pa" for pa
    unfolding assoc_consistent_def with_context_simps by (rule refl)
  have "assoc_consistent c []" by (simp add: assoc_consistent_def)
  with assms assocs_with_context [of ctx c] show ?thesis
    unfolding catalog_consistent_assocs same by blast
qed

lemma with_context_path_free:
  assumes "path_free c p"
  shows "path_free (with_context ctx c) p"
  unfolding path_free_def assocs_def [symmetric]
proof (intro ballI)
  fix pa x
  assume "pa \<in> set (assocs (with_context ctx c))" "x \<in> set pa"
  then have "pa \<in> set (assocs c)" using assocs_with_context [of ctx c] by auto
  with \<open>x \<in> set pa\<close> show "case x of (k, path) \<Rightarrow> path = pi_InstallationPath p \<longrightarrow> k = plugin_key p"
    by (auto intro: path_free_entry [OF assms])
qed

lemma open_locked:
  assumes "yaml_roundtrip Y" "no_faults w" "fs_wf w" "disk_catalog Y w = Some c0"
  obtains w1 where
    "newContextCatalog Y ctx True w =
       (w1, Inr \<lparr>cc_shared = with_context ctx c0, cc_context = ctx, cc_locked = True\<rparr>)"
    "no_faults w1" "fs_wf w1" "cf_file w1 \<noteq> None" "cf_handles w1 = Suc (cf_handles w)"
    "disk_catalog Y w1 = Some c0"
proof -
  let ?w1 = "w\<lparr>cf_dir := True, cf_handles := Suc (cf_handles w),
      cf_file := Some (case cf_file w of None \<Rightarrow> EmptyFile Y | Some b \<Rightarrow> b)\<rparr>"
  obtain raw where raw: "UnmarshalCatalog Y (EmptyFile Y) = Inr raw" "catalog_of_raw raw = empty_catalog"
    using assms(1) by (auto simp: yaml_roundtrip_def)
  have "getCatalogCache Y True w = (?w1, True, Inr c0)"
    using assms raw
    by (auto simp: getCatalogCache_def getCatalogCacheBytes_def lockedfile_Edit_def mkdir_cache_def
        no_faults_def fs_wf_def disk_catalog_def split: option.splits sum.splits)
  then have "newContextCatalog Y ctx True w =
      (?w1, Inr \<lparr>cc_shared = with_context ctx c0, cc_context = ctx, cc_locked = True\<rparr>)"
    by (auto simp: newContextCatalog_def with_context_def split: option.splits)
  moreover have "no_faults ?w1" "fs_wf ?w1" "cf_file ?w1 \<noteq> None" "cf_handles ?w1 = Suc (cf_handles w)"
    "disk_catalog Y ?w1 = Some c0"
    using assms raw by (auto simp: no_faults_def fs_wf_def disk_catalog_def split: option.splits)
  ultimately show thesis using that by blast
qed

lemma open_read:
  assumes "no_faults w" "disk_catalog Y w = Some c0"
  obtains w1 where
    "newContextCatalog Y ctx False w =
       (w1, Inr \<lparr>cc_shared = with_context ctx c0, cc_context = ctx, cc_locked = False\<rparr>)"
    "cf_handles w1 = cf_handles w" "cf_file w1 = cf_file w"
proof -
  let ?w1 = "if cf_file w = None then w\<lparr>cf_root := True\<rparr> else w"
  have "getCatalogCache Y False w = (?w1, False, Inr c0)"
    using assms
    by (auto simp: getCatalogCache_def getCatalogCacheBytes_def newSharedCatalog_def ensureRoot_def
        no_faults_def disk_catalog_def os_IsNotExist_def split: option.splits sum.splits)
  then have "newContextCatalog Y ctx False w =
      (?w1, Inr \<lparr>cc_shared = with_context ctx c0, cc_context = ctx, cc_locked = False\<rparr>)"
    by (auto simp: newContextCatalog_def with_context_def split: option.splits)
  then show thesis using that by force
qed

section \<open>The locked catalog implements the contract\<close>

definition lookup_in :: "catalog \<Rightarrow> string \<Rightarrow> string \<Rightarrow> plugin_info option" where
  "lookup_in c ctx k =
     (case map_of (assoc_of c ctx) k of None \<Rightarrow> None | Some path \<Rightarrow> map_of (IndexByPath c) path)"

definition cat_lookup :: "'b cat_fs \<times> context_catalog \<Rightarrow> string \<Rightarrow> plugin_info option" where
  "cat_lookup s k = (let (p, ok) = Get (snd s) k in if ok then Some p else None)"

definition cat_upsert where
  "cat_upsert Y p s = (let (w, c, e) = Upsert Y p (fst s) (snd s) in ((w, c), e))"

definition cat_delete where
  "cat_delete Y k s = (let (w, c, e) = Delete Y k (fst s) (snd s) in ((w, c), e))"

definition cat_inv :: "'b cat_yaml \<Rightarrow> 'b cat_fs \<times> context_catalog \<Rightarrow> bool" where
  "cat_inv Y s \<longleftrightarrow> yaml_roundtrip Y \<and> no_faults (fst s) \<and> cf_file (fst s) \<noteq> None \<and>
     cc_locked (snd s) \<and> catalog_wf (cc_shared (snd s)) \<and> catalog_consistent (cc_shared (snd s))"

lemma cat_lookup_in: "cat_lookup s k = lookup_in (cc_shared (snd s)) (cc_context (snd s)) k"
  by (auto simp: cat_lookup_def lookup_in_def Get_def cc_plugins_def split: option.splits)

lemma lookup_in_upsert:
  assumes "catalog_consistent c" "path_free c p"
  shows "lookup_in (upsert_catalog ctx p c) ctx' k =
    (if ctx' = ctx \<and> k = plugin_key p then Some p
     else if ctx' = ctx \<and> k \<in> set (twin_keys p) then None
     else if map_of (assoc_of c ctx') k = Some (pi_InstallationPath p) then Some p
     else lookup_in c ctx' k)"
proof (cases "map_of (assoc_of c ctx') k = Some (pi_InstallationPath p)")
  case True
  then have in_pa: "(k, pi_InstallationPath p) \<in> set (assoc_of c ctx')" by (rule map_of_SomeD)
  then have key: "k = plugin_key p"
    using path_free_entry [OF assms(2) _ assoc_of_assocs] by blast
  show ?thesis
    using True key by (simp add: lookup_in_def assoc_upsert)
next
  case False
  then show ?thesis by (auto simp: lookup_in_def assoc_upsert split: option.splits)
qed

lemma lookup_in_delete:
  "lookup_in (delete_catalog ctx k c) ctx' =
     (if ctx' = ctx then (lookup_in c ctx)(k := None) else lookup_in c ctx')"
  by (auto simp: lookup_in_def fun_eq_iff split: option.splits)

lemma lookup_in_key:
  assumes "catalog_consistent c" "lookup_in c ctx k = Some p"
  shows "plugin_key p = k \<and> pi_InstallationPath p \<in> set (get_or [] (IndexByName c) k)"
proof -
  obtain path where path: "map_of (assoc_of c ctx) k = Some path" "map_of (IndexByPath c) path = Some p"
    using assms(2) by (auto simp: lookup_in_def split: option.splits)
  from consistent_entry [OF consistent_assoc_of [OF assms(1)] map_of_SomeD [OF path(1)]] path(2)
  show ?thesis by auto
qed

lemma cat_save_facts:
  assumes "cat_inv Y s" "catalog_wf c"
  obtains w' where "saveCatalogCache Y c True (fst s) = (w', None)"
    "no_faults w'" "cf_file w' \<noteq> None" "cf_handles w' = cf_handles (fst s)"
    "cf_dir w' = cf_dir (fst s)" "disk_catalog Y w' = Some c"
proof -
  obtain b raw where save: "saveCatalogCache Y c True (fst s) = ((fst s)\<lparr>cf_file := Some b\<rparr>, None)"
    and raw: "UnmarshalCatalog Y b = Inr raw" "catalog_of_raw raw = c"
    using assms by (metis cat_inv_def save_ok)
  from assms raw show thesis
    by (intro that [OF save]) (auto simp: cat_inv_def no_faults_def disk_catalog_def)
qed

lemma cat_upsert_facts:
  assumes "cat_inv Y s"
  shows "\<exists>w'. Upsert Y p (fst s) (snd s) =
       (w', (snd s)\<lparr>cc_shared := upsert_catalog (cc_context (snd s)) p (cc_shared (snd s))\<rparr>, None) \<and>
     no_faults w' \<and> cf_file w' \<noteq> None \<and> cf_handles w' = cf_handles (fst s) \<and>
     cf_dir w' = cf_dir (fst s) \<and>
     disk_catalog Y w' = Some (upsert_catalog (cc_context (snd s)) p (cc_shared (snd s)))"
proof -
  have wf: "catalog_wf (upsert_catalog (cc_context (snd s)) p (cc_shared (snd s)))"
    using assms by (simp add: cat_inv_def catalog_wf_upsert)
  obtain w' where w': "saveCatalogCache Y (upsert_catalog (cc_context (snd s)) p (cc_shared (snd s))) True (fst s) = (w', None)"
    "no_faults w'" "cf_file w' \<noteq> None" "cf_handles w' = cf_handles (fst s)"
    "cf_dir w' = cf_dir (fst s)"
    "disk_catalog Y w' = Some (upsert_catalog (cc_context (snd s)) p (cc_shared (snd s)))"
    by (rule cat_save_facts [OF assms(1) wf])
  have "cc_locked (snd s)" using assms by (simp add: cat_inv_def)
  with w' show ?thesis by (intro exI [of _ w']) (simp add: Upsert_def Let_def)
qed

lemma cat_delete_facts:
  assumes "cat_inv Y s"
  shows "\<exists>w'. Delete Y k (fst s) (snd s) =
       (w', (snd s)\<lparr>cc_shared := delete_catalog (cc_context (snd s)) k (cc_shared (snd s))\<rparr>, None) \<and>
     no_faults w' \<and> cf_file w' \<noteq> None \<and> cf_handles w' = cf_handles (fst s) \<and>
     cf_dir w' = cf_dir (fst s) \<and>
     disk_catalog Y w' = Some (delete_catalog (cc_context (snd s)) k (cc_shared (snd s)))"
proof -
  have wf: "catalog_wf (delete_catalog (cc_context (snd s)) k (cc_shared (snd s)))"
    using assms by (simp add: cat_inv_def catalog_wf_delete)
  obtain w' where w': "saveCatalogCache Y (delete_catalog (cc_context (snd s)) k (cc_shared (snd s))) True (fst s) = (w', None)"
    "no_faults w'" "cf_file w' \<noteq> None" "cf_handles w' = cf_handles (fst s)"
    "cf_dir w' = cf_dir (fst s)"
    "disk_catalog Y w' = Some (delete_catalog (cc_context (snd s)) k (cc_shared (snd s)))"
    by (rule cat_save_facts [OF assms(1) wf])
  have "cc_locked (snd s)" using assms by (simp add: cat_inv_def)
  with w' show ?thesis by (intro exI [of _ w']) (simp add: Delete_def Let_def)
qed

lemma cat_upsert_inv:
  assumes "cat_inv Y s" "path_free (cc_shared (snd s)) p"
  shows "snd (cat_upsert Y p s) = None \<and> cat_inv Y (fst (cat_upsert Y p s))"
  using cat_upsert_facts [OF assms(1), of p] assms
  by (auto simp: cat_upsert_def cat_inv_def catalog_wf_upsert catalog_consistent_upsert)

lemma cat_upsert_lookup:
  assumes "cat_inv Y s" "path_free (cc_shared (snd s)) p"
  shows "cat_lookup (fst (cat_upsert Y p s)) k =
    (if k = plugin_key p then Some p else if k \<in> set (twin_keys p) then None else cat_lookup s k)"
proof -
  have "k = plugin_key p"
    if "map_of (assoc_of (cc_shared (snd s)) (cc_context (snd s))) k = Some (pi_InstallationPath p)"
    using path_free_entry [OF assms(2) map_of_SomeD [OF that]] assoc_of_assocs [OF map_of_SomeD [OF that]]
    by simp
  moreover have "catalog_consistent (cc_shared (snd s))" using assms by (simp add: cat_inv_def)
  ultimately show ?thesis
    using cat_upsert_facts [OF assms(1), of p] assms(2)
    by (auto simp: cat_upsert_def cat_lookup_in lookup_in_upsert)
qed

lemma cat_delete_inv:
  assumes "cat_inv Y s"
  shows "snd (cat_delete Y k s) = None \<and> cat_inv Y (fst (cat_delete Y k s))"
  using cat_delete_facts [OF assms, of k] assms
  by (auto simp: cat_delete_def cat_inv_def catalog_wf_delete catalog_consistent_delete)

lemma cat_delete_lookup:
  assumes "cat_inv Y s"
  shows "cat_lookup (fst (cat_delete Y k s)) = (cat_lookup s)(k := None)"
  using cat_delete_facts [OF assms, of k]
  by (auto simp: cat_delete_def cat_lookup_in lookup_in_delete fun_eq_iff)

interpretation ctx_catalog: plugin_catalog "cat_inv Y" cat_lookup "cat_upsert Y" "cat_delete Y"
  "\<lambda>s. path_free (cc_shared (snd s))"
  by unfold_locales
    (simp_all add: cat_upsert_inv cat_upsert_lookup cat_delete_inv cat_delete_lookup,
     auto simp: cat_inv_def cat_lookup_in dest: lookup_in_key)

end
