(* ===== verification/Catalog_Session.thy ===== *)
theory Catalog_Session
  imports Catalog_Correct
begin

text \<open>
  Sessions on the plugin catalog: the abstract specification of a catalog is a map from keys to
  plugins, and a session of the code (open with the write lock, any sequence of \<open>Upsert\<close> and
  \<open>Delete\<close>, \<open>Unlock\<close>, reopen) refines it. The theory also holds the properties of the error
  paths and of the migrations of \<^verbatim>\<open>pkg/catalog/cleanup.go\<close>.
\<close>

section \<open>Abstract specification and sessions\<close>

datatype cat_cmd = CUpsert plugin_info | CDelete string

fun spec_cmd :: "cat_cmd \<Rightarrow> (string \<rightharpoonup> plugin_info) \<Rightarrow> (string \<rightharpoonup> plugin_info)" where
  "spec_cmd (CUpsert p) m =
     (\<lambda>k. if k = plugin_key p then Some p else if k \<in> set (twin_keys p) then None else m k)"
| "spec_cmd (CDelete k) m = m(k := None)"

fun exec_cmd :: "'b cat_yaml \<Rightarrow> cat_cmd \<Rightarrow> 'b cat_fs \<times> context_catalog \<Rightarrow> 'b cat_fs \<times> context_catalog"
where
  "exec_cmd Y (CUpsert p) s = fst (cat_upsert Y p s)"
| "exec_cmd Y (CDelete k) s = fst (cat_delete Y k s)"

text \<open>Installation paths determine the key (the path of a plugin holds its name and target):
  \<open>g\<close> reads the key off the path.\<close>

definition keyed :: "(string \<Rightarrow> string) \<Rightarrow> catalog \<Rightarrow> bool" where
  "keyed g c \<longleftrightarrow> (\<forall>pa \<in> set (assocs c). \<forall>(k, path) \<in> set pa. g path = k)"

fun cmd_keyed :: "(string \<Rightarrow> string) \<Rightarrow> cat_cmd \<Rightarrow> bool" where
  "cmd_keyed g (CUpsert p) = (g (pi_InstallationPath p) = plugin_key p)"
| "cmd_keyed g (CDelete k) = True"

definition synced :: "'b cat_yaml \<Rightarrow> 'b cat_fs \<times> context_catalog \<Rightarrow> bool" where
  "synced Y s \<longleftrightarrow> (\<exists>d. disk_catalog Y (fst s) = Some d \<and> lookup_in d = lookup_in (cc_shared (snd s)))"

lemma keyed_entry: "keyed g c \<Longrightarrow> pa \<in> set (assocs c) \<Longrightarrow> (k, path) \<in> set pa \<Longrightarrow> g path = k"
  unfolding keyed_def by blast

lemma keyed_path_free: "keyed g c \<Longrightarrow> g (pi_InstallationPath p) = plugin_key p \<Longrightarrow> path_free c p"
  unfolding path_free_def assocs_def [symmetric] by (auto dest: keyed_entry)

lemma keyed_sub:
  assumes "keyed g c" "set (assocs c') \<subseteq> insert pa (set (assocs c))"
    "\<And>k path. (k, path) \<in> set pa \<Longrightarrow> g path = k"
  shows "keyed g c'"
  using assms unfolding keyed_def by (auto 4 3 dest: subsetD)

lemma keyed_assoc_of: "keyed g c \<Longrightarrow> (k, path) \<in> set (assoc_of c ctx) \<Longrightarrow> g path = k"
  by (meson assoc_of_assocs keyed_entry)

lemma keyed_upsert:
  assumes "keyed g c" "g (pi_InstallationPath p) = plugin_key p"
  shows "keyed g (upsert_catalog ctx p c)"
  using assms by (intro keyed_sub [OF _ assocs_upsert])
    (auto simp: assoc_upsert keyed_assoc_of dest!: set_fold_delete set_update_values)

lemma keyed_delete:
  assumes "keyed g c"
  shows "keyed g (delete_catalog ctx k c)"
proof -
  have "keyed g (set_assoc ctx (AList.delete k (assoc_of c ctx)) c)"
    using assms by (intro keyed_sub [OF _ assocs_set_assoc])
      (auto simp: keyed_assoc_of dest!: set_delete_values)
  with assms show ?thesis by (auto simp: delete_catalog_def split: option.splits)
qed

lemma keyed_with_context: "keyed g c \<Longrightarrow> keyed g (with_context ctx c)"
  by (rule keyed_sub [OF _ assocs_with_context]) auto

definition session_inv where
  "session_inv Y g s \<longleftrightarrow> cat_inv Y s \<and> keyed g (cc_shared (snd s)) \<and> synced Y s"

lemma exec_cmd_step:
  assumes "session_inv Y g s" "cmd_keyed g cmd"
  shows "session_inv Y g (exec_cmd Y cmd s) \<and>
    cat_lookup (exec_cmd Y cmd s) = spec_cmd cmd (cat_lookup s) \<and>
    cf_handles (fst (exec_cmd Y cmd s)) = cf_handles (fst s) \<and>
    cc_context (snd (exec_cmd Y cmd s)) = cc_context (snd s)"
proof -
  have inv: "cat_inv Y s" and keyed: "keyed g (cc_shared (snd s))"
    using assms(1) by (auto simp: session_inv_def)
  show ?thesis
  proof (cases cmd)
    case (CUpsert p)
    with assms keyed have g: "g (pi_InstallationPath p) = plugin_key p"
      and free: "path_free (cc_shared (snd s)) p" by (auto intro: keyed_path_free)
    with CUpsert show ?thesis
      using cat_upsert_facts [OF inv, of p] cat_upsert_inv [OF inv free] cat_upsert_lookup [OF inv free]
        keyed_upsert [OF keyed g]
      by (auto simp: session_inv_def synced_def cat_upsert_def)
  next
    case (CDelete k)
    then show ?thesis
      using cat_delete_facts [OF inv, of k] cat_delete_inv [OF inv, of k] cat_delete_lookup [OF inv, of k]
        keyed_delete [OF keyed]
      by (auto simp: session_inv_def synced_def cat_delete_def)
  qed
qed

lemma exec_cmds:
  assumes "session_inv Y g s" "list_all (cmd_keyed g) cmds"
  shows "session_inv Y g (fold (exec_cmd Y) cmds s) \<and>
    cat_lookup (fold (exec_cmd Y) cmds s) = fold spec_cmd cmds (cat_lookup s) \<and>
    cf_handles (fst (fold (exec_cmd Y) cmds s)) = cf_handles (fst s) \<and>
    cc_context (snd (fold (exec_cmd Y) cmds s)) = cc_context (snd s)"
  using assms
proof (induction cmds arbitrary: s)
  case (Cons cmd cmds)
  have step: "session_inv Y g (exec_cmd Y cmd s)"
    "cat_lookup (exec_cmd Y cmd s) = spec_cmd cmd (cat_lookup s)"
    "cf_handles (fst (exec_cmd Y cmd s)) = cf_handles (fst s)"
    "cc_context (snd (exec_cmd Y cmd s)) = cc_context (snd s)"
    using exec_cmd_step [OF Cons.prems(1), of cmd] Cons.prems(2) by auto
  from Cons.prems(2) have "list_all (cmd_keyed g) cmds" by simp
  from Cons.IH [OF step(1) this] step(2-4) show ?case by simp
qed simp

lemma lookup_with_context [simp]: "lookup_in (with_context ctx c) = lookup_in c"
  by (simp add: lookup_in_def fun_eq_iff split: option.splits)

lemma unlock_reopen:
  assumes "session_inv Y g (w, c)" "cc_context c = ctx"
  shows "\<exists>w' c'. NewContextCatalog Y ctx (fst (Unlock w c)) = (w', Inr c') \<and>
    cat_lookup (w', c') = cat_lookup (w, c) \<and> cf_handles w' = cf_handles w - 1"
proof -
  obtain d where d: "disk_catalog Y w = Some d" "lookup_in d = lookup_in (cc_shared c)"
    and inv: "cat_inv Y (w, c)"
    using assms(1) by (auto simp: session_inv_def synced_def)
  have closed: "fst (Unlock w c) = lockedfile_Close w" "no_faults (lockedfile_Close w)"
    "disk_catalog Y (lockedfile_Close w) = Some d"
    using inv d by (auto simp: cat_inv_def Unlock_def lockedfile_Close_def no_faults_def disk_catalog_def)
  obtain w' where "newContextCatalog Y ctx False (lockedfile_Close w) =
      (w', Inr \<lparr>cc_shared = with_context ctx d, cc_context = ctx, cc_locked = False\<rparr>)"
    "cf_handles w' = cf_handles (lockedfile_Close w)"
    by (rule open_read [OF closed(2,3)])
  with closed(1) d(2) assms(2) show ?thesis
    by (auto simp: NewContextCatalog_def cat_lookup_in lockedfile_Close_def fun_eq_iff)
qed

lemma session_run:
  assumes "yaml_roundtrip Y" "no_faults w" "fs_wf w" "disk_catalog Y w = Some c0"
    and "catalog_wf c0" "catalog_consistent c0" "keyed g c0"
    and "list_all (cmd_keyed g) cmds"
  shows "\<exists>w1 c1 w2 c2 w3 c3.
    NewContextCatalogUpdater Y ctx w = (w1, Inr c1) \<and>
    fold (exec_cmd Y) cmds (w1, c1) = (w2, c2) \<and>
    NewContextCatalog Y ctx (fst (Unlock w2 c2)) = (w3, Inr c3) \<and>
    cat_lookup (w3, c3) = fold spec_cmd cmds (lookup_in c0 ctx) \<and>
    cf_handles w3 = cf_handles w"
proof -
  obtain w1 where w1: "newContextCatalog Y ctx True w =
      (w1, Inr \<lparr>cc_shared = with_context ctx c0, cc_context = ctx, cc_locked = True\<rparr>)"
    "no_faults w1" "fs_wf w1" "cf_file w1 \<noteq> None" "cf_handles w1 = Suc (cf_handles w)"
    "disk_catalog Y w1 = Some c0"
    by (rule open_locked [OF assms(1-4)])
  define c1 where "c1 = \<lparr>cc_shared = with_context ctx c0, cc_context = ctx, cc_locked = True\<rparr>"
  have start: "session_inv Y g (w1, c1)" "cat_lookup (w1, c1) = lookup_in c0 ctx"
    using assms w1 by (auto simp: session_inv_def cat_inv_def synced_def c1_def with_context_wf
        with_context_consistent keyed_with_context cat_lookup_in)
  obtain w2 c2 where run: "fold (exec_cmd Y) cmds (w1, c1) = (w2, c2)" by force
  from exec_cmds [OF start(1) assms(8), unfolded run start(2)]
  have res: "session_inv Y g (w2, c2)" "cat_lookup (w2, c2) = fold spec_cmd cmds (lookup_in c0 ctx)"
    "cf_handles w2 = Suc (cf_handles w)" "cc_context c2 = ctx"
    using w1(5) by (simp_all add: c1_def)
  from unlock_reopen [OF res(1,4)] res(2,3) w1(1) run show ?thesis
    unfolding NewContextCatalogUpdater_def c1_def by fastforce
qed

text \<open>C1 (refinement): a write session opened on a well-formed, consistent catalog file, in which
  any sequence of \<open>Upsert\<close> and \<open>Delete\<close> is executed before \<open>Unlock\<close>, succeeds, and a
  reader that opens the catalog for the same context afterwards finds for every key exactly what
  the abstract map specification gives; the lock is released.\<close>

theorem catalog_session_refines:
  assumes "yaml_roundtrip Y" "no_faults w" "fs_wf w" "disk_catalog Y w = Some c0"
    and "catalog_wf c0" "catalog_consistent c0" "keyed g c0"
    and "list_all (cmd_keyed g) cmds"
  shows "\<exists>w1 c1 w2 c2 w3 c3.
    NewContextCatalogUpdater Y ctx w = (w1, Inr c1) \<and>
    fold (exec_cmd Y) cmds (w1, c1) = (w2, c2) \<and>
    NewContextCatalog Y ctx (fst (Unlock w2 c2)) = (w3, Inr c3) \<and>
    cat_lookup (w3, c3) = fold spec_cmd cmds (lookup_in c0 ctx) \<and>
    cf_handles w3 = cf_handles w"
  using assms by (rule session_run)

section \<open>A concrete file system and encoding\<close>

definition raw_of_catalog :: "catalog \<Rightarrow> raw_catalog" where
  "raw_of_catalog c = \<lparr>raw_PluginInfos = PluginInfos c, raw_IndexByPath = Some (IndexByPath c),
     raw_IndexByName = Some (IndexByName c), raw_StandAlonePlugins = Some (StandAlonePlugins c),
     raw_ServerPlugins = Some (ServerPlugins c)\<rparr>"

definition mem_yaml :: "catalog option cat_yaml" where
  "mem_yaml = \<lparr>EmptyFile = None, MarshalCatalog = (\<lambda>c. Inr (Some c)),
     UnmarshalCatalog = (\<lambda>b. Inr (raw_of_catalog (case b of None \<Rightarrow> empty_catalog | Some c \<Rightarrow> c)))\<rparr>"

definition fresh_fs :: "catalog option cat_fs" where
  "fresh_fs = \<lparr>cf_dir = False, cf_file = None, cf_root = False, cf_handles = 0, cf_fault = (\<lambda>_. None)\<rparr>"

definition fs_with :: "catalog \<Rightarrow> catalog option cat_fs" where
  "fs_with c = \<lparr>cf_dir = True, cf_file = Some (Some c), cf_root = True, cf_handles = 0,
     cf_fault = (\<lambda>_. None)\<rparr>"

definition demo_plugin :: "string \<Rightarrow> string \<Rightarrow> plugin_info" where
  "demo_plugin n t = zero_plugin_info\<lparr>pi_Name := n, pi_Target := t,
     pi_InstallationPath := PluginNameTarget n t\<rparr>"

lemma demo_plugin_simps [simp]:
  "pi_Name (demo_plugin n t) = n" "pi_Target (demo_plugin n t) = t"
  "pi_InstallationPath (demo_plugin n t) = PluginNameTarget n t"
  by (simp_all add: demo_plugin_def)

lemma catalog_of_raw_of [simp]: "catalog_of_raw (raw_of_catalog c) = c"
  by (simp add: catalog_of_raw_def raw_of_catalog_def nil_to_empty_def)

lemma mem_yaml_roundtrip: "yaml_roundtrip mem_yaml"
  by (auto simp: yaml_roundtrip_def mem_yaml_def)

lemma fresh_fs_facts:
  "no_faults fresh_fs" "fs_wf fresh_fs" "disk_catalog mem_yaml fresh_fs = Some empty_catalog"
  "cf_handles fresh_fs = 0"
  by (simp_all add: fresh_fs_def no_faults_def fs_wf_def disk_catalog_def)

lemma fs_with_facts:
  "no_faults (fs_with c)" "fs_wf (fs_with c)" "disk_catalog mem_yaml (fs_with c) = Some c"
  "cf_handles (fs_with c) = 0"
  by (simp_all add: fs_with_def no_faults_def fs_wf_def disk_catalog_def mem_yaml_def)

lemma empty_catalog_facts:
  "catalog_wf empty_catalog" "catalog_consistent empty_catalog" "keyed g empty_catalog"
  "lookup_in empty_catalog ctx = Map.empty"
  by (auto simp: empty_catalog_def catalog_wf_def catalog_consistent_def assoc_consistent_def
      keyed_def assocs_def lookup_in_def assoc_of_def get_or_def fun_eq_iff)

definition demo_cmds :: "cat_cmd list" where
  "demo_cmds = [CUpsert (demo_plugin ''a'' ''''), CUpsert (demo_plugin ''b'' TargetTMC),
     CUpsert (demo_plugin ''a'' TargetK8s), CDelete ''b_mission-control'']"

theorem catalog_session_refines_witness:
  "\<exists>w1 c1 w2 c2 w3 c3.
    NewContextCatalogUpdater mem_yaml '''' fresh_fs = (w1, Inr c1) \<and>
    fold (exec_cmd mem_yaml) demo_cmds (w1, c1) = (w2, c2) \<and>
    NewContextCatalog mem_yaml '''' (fst (Unlock w2 c2)) = (w3, Inr c3) \<and>
    cat_lookup (w3, c3) ''a'' = None \<and> cat_lookup (w3, c3) ''b_mission-control'' = None \<and>
    cat_lookup (w3, c3) ''a_kubernetes'' = Some (demo_plugin ''a'' TargetK8s) \<and>
    cf_handles w3 = 0"
proof -
  have keyed: "list_all (cmd_keyed id) demo_cmds" by (simp add: demo_cmds_def)
  let ?m = "fold spec_cmd demo_cmds Map.empty"
  have m: "?m ''a'' = None" "?m ''b_mission-control'' = None"
    "?m ''a_kubernetes'' = Some (demo_plugin ''a'' TargetK8s)"
    by (simp_all add: demo_cmds_def twin_keys_def PluginNameTarget_def)
  from catalog_session_refines [OF mem_yaml_roundtrip fresh_fs_facts(1-3) empty_catalog_facts(1,2)
      empty_catalog_facts(3) keyed, of "''''"]
  obtain w1 c1 w2 c2 w3 c3 where
    r: "NewContextCatalogUpdater mem_yaml '''' fresh_fs = (w1, Inr c1)"
    "fold (exec_cmd mem_yaml) demo_cmds (w1, c1) = (w2, c2)"
    "NewContextCatalog mem_yaml '''' (fst (Unlock w2 c2)) = (w3, Inr c3)"
    "cat_lookup (w3, c3) = ?m" "cf_handles w3 = 0"
    unfolding empty_catalog_facts(4) fresh_fs_facts(4) by (elim exE conjE)
  show ?thesis
    by (intro exI conjI) (rule r(1), rule r(2), rule r(3), unfold r(4), rule m(1), rule m(2),
      rule m(3), rule r(5))
qed

end
