(* ===== verification/Catalog_Cleanup.thy ===== *)
theory Catalog_Cleanup
  imports Catalog_Session
begin

text \<open>
  The migrations of \<^verbatim>\<open>pkg/catalog/cleanup.go\<close> and the error paths of \<^verbatim>\<open>catalog.go\<close>: which
  entries the clean-up of wrong targets removes, what the migration of context-scoped plugins
  leaves on disk, that an insertion keeps the catalog free of twin entries, and what a failed write
  and an undecodable file do to the file and the lock.
\<close>

section \<open>Removal of entries with the unknown target\<close>

text \<open>The name whose unknown-target entry the visit of key \<open>k\<close> removes.\<close>

definition twin_name ::
    "(string \<times> plugin_info) list \<Rightarrow> plugin_association \<Rightarrow> string \<Rightarrow> string option" where
  "twin_name idx pa k =
     (case map_of pa k of None \<Rightarrow> None
      | Some path \<Rightarrow> (case map_of idx path of None \<Rightarrow> None
          | Some p \<Rightarrow> if pi_Target p = TargetGlobal \<or> pi_Target p = TargetK8s
                     then Some (pi_Name p) else None))"

lemma remove_unknown_twins_Cons:
  "remove_unknown_twins idx (k # ks) pa =
     remove_unknown_twins idx ks
       (case twin_name idx pa k of None \<Rightarrow> pa | Some n \<Rightarrow> AList.delete n pa)"
  by (auto simp: twin_name_def PA_Remove_def split: option.splits)

lemma remove_unknown_twins_map:
  assumes "\<And>k n. twin_name idx pa k = Some n \<Longrightarrow> twin_name idx pa n = None"
  shows "map_of (remove_unknown_twins idx ks pa) x =
    (if \<exists>k \<in> set ks. twin_name idx pa k = Some x then None else map_of pa x)"
  using assms
proof (induction ks arbitrary: pa)
  case (Cons k ks)
  show ?case
  proof (cases "twin_name idx pa k")
    case None
    have "map_of (remove_unknown_twins idx ks pa) x =
        (if \<exists>k \<in> set ks. twin_name idx pa k = Some x then None else map_of pa x)"
      using Cons.IH [of pa] Cons.prems by blast
    with None show ?thesis unfolding remove_unknown_twins_Cons by simp
  next
    case (Some n)
    with Cons.prems have n: "twin_name idx pa n = None" by blast
    then have same: "twin_name idx (AList.delete n pa) = twin_name idx pa"
      by (auto simp: twin_name_def fun_eq_iff)
    have "map_of (remove_unknown_twins idx ks (AList.delete n pa)) x =
        (if \<exists>k \<in> set ks. twin_name idx pa k = Some x then None else map_of (AList.delete n pa) x)"
      using Cons.IH [of "AList.delete n pa"] Cons.prems unfolding same by blast
    with Some show ?thesis unfolding remove_unknown_twins_Cons by simp
  qed
qed simp

definition plain_entries :: "(string \<times> plugin_info) list \<Rightarrow> plugin_association \<Rightarrow> bool" where
  "plain_entries idx pa \<longleftrightarrow>
     (\<forall>(k, path) \<in> set pa. case map_of idx path of None \<Rightarrow> True
        | Some p \<Rightarrow> CHR ''_'' \<notin> set (pi_Name p))"

lemma twin_nameD:
  assumes "assoc_consistent c pa" "plain_entries (IndexByPath c) pa"
    "twin_name (IndexByPath c) pa k = Some n"
  shows "CHR ''_'' \<notin> set n \<and> (\<exists>t \<in> {TargetGlobal, TargetK8s}. k = PluginNameTarget n t)"
proof -
  obtain path p where p: "map_of pa k = Some path" "map_of (IndexByPath c) path = Some p"
    "pi_Target p \<in> {TargetGlobal, TargetK8s}" "n = pi_Name p"
    using assms(3) by (auto simp: twin_name_def split: option.splits if_splits)
  have in_pa: "(k, path) \<in> set pa" using p(1) by (rule map_of_SomeD)
  have "plugin_key p = k"
    by (rule consistent_entry [OF assms(1) in_pa]) (use p(2) in simp)
  moreover have "CHR ''_'' \<notin> set (pi_Name p)"
    using assms(2) in_pa p(2) unfolding plain_entries_def by (auto dest!: bspec)
  ultimately show ?thesis using p by auto
qed

lemma twin_nameI:
  assumes "assoc_consistent c pa" "plain_entries (IndexByPath c) pa" "CHR ''_'' \<notin> set n"
    "t \<in> {TargetGlobal, TargetK8s}" "map_of pa (PluginNameTarget n t) \<noteq> None"
  shows "twin_name (IndexByPath c) pa (PluginNameTarget n t) = Some n"
proof -
  obtain path where path: "map_of pa (PluginNameTarget n t) = Some path" using assms(5) by blast
  then have in_pa: "(PluginNameTarget n t, path) \<in> set pa" by (rule map_of_SomeD)
  obtain p where p: "map_of (IndexByPath c) path = Some p" "plugin_key p = PluginNameTarget n t"
    by (rule consistent_entry [OF assms(1) in_pa])
  have "CHR ''_'' \<notin> set (pi_Name p)"
    using assms(2) in_pa p(1) unfolding plain_entries_def by (auto dest!: bspec)
  from PluginNameTarget_inject [OF p(2) this assms(3)] show ?thesis
    using path p(1) assms(4) by (auto simp: twin_name_def)
qed

lemma underscore_key: "t \<noteq> '''' \<Longrightarrow> CHR ''_'' \<in> set (PluginNameTarget n t)"
  by (simp add: PluginNameTarget_def)

text \<open>On a consistent association whose plugin names hold no underscore, the
  clean-up removes exactly the entries with the unknown target whose name also has an entry with
  the global or the Kubernetes target, whatever the iteration order of the map; every other entry
  keeps its installation path.\<close>

theorem clean_association_exact:
  assumes "range_law L" "assoc_consistent c pa" "plain_entries (IndexByPath c) pa"
  shows "map_of (clean_association L (IndexByPath c) pa) x =
    (if CHR ''_'' \<notin> set x \<and> (map_of pa (PluginNameTarget x TargetGlobal) \<noteq> None \<or>
                             map_of pa (PluginNameTarget x TargetK8s) \<noteq> None)
     then None else map_of pa x)"
proof -
  let ?tn = "twin_name (IndexByPath c) pa"
  have sep: "?tn n = None" if "?tn k = Some n" for k n
    using twin_nameD [OF assms(2,3) that] twin_nameD [OF assms(2,3), of n] underscore_key [of _ _]
    by (cases "?tn n") (auto simp: PluginNameTarget_def)
  have exact: "map_of (remove_unknown_twins (IndexByPath c) (range_keys L pa) pa) x =
      (if \<exists>k \<in> set (range_keys L pa). ?tn k = Some x then None else map_of pa x)"
    by (rule remove_unknown_twins_map) (rule sep)
  have keys: "k \<in> set (range_keys L pa)" if "?tn k = Some n" for k n
    using that assms(1) by (auto simp: twin_name_def keys_of_def split: option.splits
        dest!: map_of_SomeD intro: rev_image_eqI)
  have "(\<exists>k \<in> set (range_keys L pa). ?tn k = Some x) \<longleftrightarrow>
      CHR ''_'' \<notin> set x \<and> (\<exists>t \<in> {TargetGlobal, TargetK8s}. map_of pa (PluginNameTarget x t) \<noteq> None)"
    (is "?l \<longleftrightarrow> ?r")
  proof
    assume ?l
    then obtain k where k: "?tn k = Some x" by blast
    then have "map_of pa k \<noteq> None" by (auto simp: twin_name_def split: option.splits)
    with twin_nameD [OF assms(2,3) k] show ?r by blast
  next
    assume ?r
    then show ?l using twin_nameI [OF assms(2,3)] keys by blast
  qed
  then show ?thesis unfolding clean_association_def exact by auto
qed

definition twin_catalog :: catalog where
  "twin_catalog = upsert_catalog '''' (demo_plugin ''b'' '''')
     (empty_catalog\<lparr>IndexByPath := [(''a'', demo_plugin ''a'' ''''), (''a_global'', demo_plugin ''a'' TargetGlobal)],
       IndexByName := [(''a'', [''a'']), (''a_global'', [''a_global''])],
       StandAlonePlugins := [(''a'', ''a''), (''a_global'', ''a_global'')]\<rparr>)"

lemma twin_catalog_simps:
  "IndexByPath twin_catalog = [(''a'', demo_plugin ''a'' ''''), (''a_global'', demo_plugin ''a'' TargetGlobal),
     (''b'', demo_plugin ''b'' '''')]"
  "IndexByName twin_catalog = [(''a'', [''a'']), (''a_global'', [''a_global'']), (''b'', [''b''])]"
  "StandAlonePlugins twin_catalog = [(''a'', ''a''), (''a_global'', ''a_global''), (''b'', ''b'')]"
  by (simp_all add: twin_catalog_def upsert_catalog_def Let_def empty_catalog_def assoc_of_def
      set_assoc_def get_or_def twin_keys_def PluginNameTarget_def)

theorem clean_association_exact_witness:
  "let pa = [(''a'', ''a''), (''a_global'', ''a_global''), (''b'', ''b'')];
       cleaned = map_of (clean_association dotted_lib (IndexByPath twin_catalog) pa)
   in cleaned ''a'' = None \<and> cleaned ''a_global'' = Some ''a_global'' \<and> cleaned ''b'' = Some ''b''"
proof -
  let ?pa = "[(''a'', ''a''), (''a_global'', ''a_global''), (''b'', ''b'')]"
  have "assoc_consistent twin_catalog ?pa" "plain_entries (IndexByPath twin_catalog) ?pa"
    by (simp_all add: assoc_consistent_def plain_entries_def twin_catalog_simps get_or_def
        PluginNameTarget_def)
  from clean_association_exact [OF dotted_range_law this] show ?thesis
    by (simp add: PluginNameTarget_def)
qed

section \<open>Migration of context-scoped plugins\<close>

lemma map_of_fold_copy:
  "map_of (fold (\<lambda>k. AList.update k (PA_Get src k)) ks dst) =
     (\<lambda>x. if x \<in> set ks then Some (PA_Get src x) else map_of dst x)"
  by (induction ks arbitrary: dst) (auto simp: fun_eq_iff)

lemma map_ok_fold_copy: "map_ok dst \<Longrightarrow> map_ok (fold (\<lambda>k. AList.update k (PA_Get src k)) ks dst)"
  by (induction ks arbitrary: dst) auto

lemma copy_all:
  "range_law L \<Longrightarrow> map_of (fold (\<lambda>k. AList.update k (PA_Get src k)) (range_keys L src) dst) =
     map_of dst ++ map_of src"
  unfolding map_of_fold_copy
  by (auto simp: fun_eq_iff map_add_def PA_Get_def get_or_def keys_of_def split: option.splits
      dest: map_of_SomeD intro: rev_image_eqI dest!: map_of_eq_None_iff [THEN iffD1])

lemma migrate_context_maps:
  assumes "range_law L"
  shows "map_of (StandAlonePlugins (migrate_context L ac c)) =
      map_of (StandAlonePlugins c) ++ map_of (get_or [] (ServerPlugins c) ac)"
    "map_of (ServerPlugins (migrate_context L ac c)) = (map_of (ServerPlugins c))(ac := None)"
    "IndexByPath (migrate_context L ac c) = IndexByPath c"
    "IndexByName (migrate_context L ac c) = IndexByName c"
  using assms by (simp_all add: migrate_context_def Let_def copy_all)

lemma migrate_context_wf: "catalog_wf c \<Longrightarrow> catalog_wf (migrate_context L ac c)"
  by (auto simp: catalog_wf_def migrate_context_def Let_def map_ok_fold_copy dest: set_delete_values)

lemma migrate_catalog_wf: "catalog_wf c \<Longrightarrow> catalog_wf (migrate_catalog L acs c)"
  unfolding migrate_catalog_def by (induction acs arbitrary: c) (auto simp: migrate_context_wf)

lemma migrate_catalog_index [simp]: "IndexByPath (migrate_catalog L acs c) = IndexByPath c"
  unfolding migrate_catalog_def
  by (induction acs arbitrary: c) (simp_all add: migrate_context_def Let_def)

lemma migrate_catalog_maps:
  assumes "range_law L" "distinct acs"
  shows "map_of (StandAlonePlugins (migrate_catalog L acs c)) =
      fold (\<lambda>ac m. m ++ map_of (get_or [] (ServerPlugins c) ac)) acs (map_of (StandAlonePlugins c)) \<and>
    map_of (ServerPlugins (migrate_catalog L acs c)) =
      (\<lambda>ctx. if ctx \<in> set acs then None else map_of (ServerPlugins c) ctx) \<and>
    IndexByPath (migrate_catalog L acs c) = IndexByPath c"
  using assms(2)
proof (induction acs arbitrary: c)
  case (Cons ac acs)
  let ?c = "migrate_context L ac c"
  have other: "get_or [] (ServerPlugins ?c) x = get_or [] (ServerPlugins c) x" if "x \<in> set acs" for x
    using that Cons.prems by (auto simp: get_or_def migrate_context_maps [OF assms(1)])
  have "fold (\<lambda>ac m. m ++ map_of (get_or [] (ServerPlugins ?c) ac)) acs m =
      fold (\<lambda>ac m. m ++ map_of (get_or [] (ServerPlugins c) ac)) acs m" for m
    by (rule fold_cong) (auto simp: other)
  with Cons.IH [of ?c] Cons.prems show ?case
    by (auto simp: migrate_catalog_def migrate_context_maps [OF assms(1)] fun_eq_iff)
qed (auto simp: migrate_catalog_def)

lemma rewrite_catalog_facts:
  assumes "yaml_roundtrip Y" "no_faults w" "fs_wf w" "disk_catalog Y w = Some c0" "catalog_wf c"
  obtains w1 w2 where "getCatalogCache Y True w = (w1, True, Inr c0)"
    "saveCatalogCache Y c True w1 = (w2, None)" "disk_catalog Y (lockedfile_Close w2) = Some c"
    "cf_handles (lockedfile_Close w2) = cf_handles w" "no_faults (lockedfile_Close w2)"
proof -
  obtain w1 where w1: "newContextCatalog Y '''' True w =
      (w1, Inr \<lparr>cc_shared = with_context '''' c0, cc_context = '''', cc_locked = True\<rparr>)"
    "no_faults w1" "cf_file w1 \<noteq> None" "cf_handles w1 = Suc (cf_handles w)"
    by (rule open_locked [OF assms(1-4)])
  then have get: "getCatalogCache Y True w = (w1, True, Inr c0)"
    by (auto simp: newContextCatalog_def with_context_def split: prod.splits sum.splits)
  obtain b raw where save: "saveCatalogCache Y c True w1 = (w1\<lparr>cf_file := Some b\<rparr>, None)"
    "UnmarshalCatalog Y b = Inr raw" "catalog_of_raw raw = c"
    by (rule save_ok [OF w1(2,3) assms(1,5)])
  show thesis
    by (rule that [OF get save(1)]) (use save w1(2,4) in
        \<open>auto simp: disk_catalog_def lockedfile_Close_def no_faults_def\<close>)
qed

text \<open>With at least one active context, the migration rewrites the catalog file so
  that every plugin of the active contexts is a stand-alone plugin (a later context and any context
  win over an existing stand-alone entry), the associations of the active contexts are gone, those of
  the other contexts and the index of installed plugins are unchanged, and the lock is released.\<close>

theorem migrate_contexts_on_disk:
  assumes "range_law L" "yaml_roundtrip Y" "no_faults w" "fs_wf w" "disk_catalog Y w = Some c0"
    "catalog_wf c0" "acs \<noteq> []" "distinct acs"
  shows "\<exists>w' d. MigrateContextPluginsAsStandaloneIfNeeded L Y (Inr acs) w = Some w' \<and>
    disk_catalog Y w' = Some d \<and> cf_handles w' = cf_handles w \<and>
    map_of (StandAlonePlugins d) =
      fold (\<lambda>ac m. m ++ map_of (get_or [] (ServerPlugins c0) ac)) acs (map_of (StandAlonePlugins c0)) \<and>
    map_of (ServerPlugins d) =
      (\<lambda>ctx. if ctx \<in> set acs then None else map_of (ServerPlugins c0) ctx) \<and>
    IndexByPath d = IndexByPath c0"
proof -
  obtain w1 w2 where "getCatalogCache Y True w = (w1, True, Inr c0)"
    "saveCatalogCache Y (migrate_catalog L acs c0) True w1 = (w2, None)"
    "disk_catalog Y (lockedfile_Close w2) = Some (migrate_catalog L acs c0)"
    "cf_handles (lockedfile_Close w2) = cf_handles w"
    by (rule rewrite_catalog_facts [OF assms(2-5) migrate_catalog_wf [OF assms(6)]])
  with assms(7) migrate_catalog_maps [OF assms(1,8), of c0] show ?thesis
    by (cases acs) (auto simp: MigrateContextPluginsAsStandaloneIfNeeded_def)
qed

definition server_catalog :: catalog where
  "server_catalog = empty_catalog\<lparr>
     StandAlonePlugins := [(''a'', ''p1'')],
     ServerPlugins := [(''ctx1'', [(''a'', ''p2''), (''b'', ''p3'')]), (''ctx2'', [(''c'', ''p4'')])]\<rparr>"

theorem migrate_contexts_on_disk_witness:
  "\<exists>w' d. MigrateContextPluginsAsStandaloneIfNeeded dotted_lib mem_yaml (Inr [''ctx1'']) (fs_with server_catalog) = Some w' \<and>
    disk_catalog mem_yaml w' = Some d \<and> map_of (StandAlonePlugins d) ''a'' = Some ''p2'' \<and>
    map_of (StandAlonePlugins d) ''b'' = Some ''p3'' \<and> map_of (ServerPlugins d) ''ctx1'' = None \<and>
    map_of (ServerPlugins d) ''ctx2'' = Some [(''c'', ''p4'')]"
proof -
  have wf: "catalog_wf server_catalog"
    by (simp add: catalog_wf_def server_catalog_def empty_catalog_def)
  from migrate_contexts_on_disk [OF dotted_range_law mem_yaml_roundtrip fs_with_facts(1-3) wf,
      of "[''ctx1'']"]
  show ?thesis by (auto simp: server_catalog_def empty_catalog_def get_or_def)
qed

section \<open>Twin entries\<close>

text \<open>\<open>Upsert\<close> keeps the catalog of a context free of double entries: no plugin is
  listed both under the unknown target and under the global or the Kubernetes target.\<close>

theorem upsert_keeps_twin_free:
  assumes "cat_inv Y s" "path_free (cc_shared (snd s)) p" "CHR ''_'' \<notin> set (pi_Name p)"
    "\<forall>k q. cat_lookup s k = Some q \<longrightarrow> CHR ''_'' \<notin> set (pi_Name q)"
    "\<forall>k q. cat_lookup s k = Some q \<longrightarrow> (\<forall>k' \<in> set (twin_keys q). cat_lookup s k' = None)"
  shows "\<forall>k q. cat_lookup (fst (cat_upsert Y p s)) k = Some q \<longrightarrow>
    (\<forall>k' \<in> set (twin_keys q). cat_lookup (fst (cat_upsert Y p s)) k' = None)"
  using ctx_catalog.twin_free_upsert [of Y s p] assms
  unfolding ctx_catalog.twin_free_def ctx_catalog.plain_names_def by blast

definition demo_state :: "catalog option cat_fs \<times> context_catalog" where
  "demo_state = (fs_with empty_catalog, \<lparr>cc_shared = empty_catalog, cc_context = '''', cc_locked = True\<rparr>)"

lemma demo_state_inv: "cat_inv mem_yaml demo_state"
  by (simp add: cat_inv_def demo_state_def mem_yaml_roundtrip fs_with_facts empty_catalog_facts)
    (simp add: fs_with_def)

lemma demo_state_facts:
  "cat_lookup demo_state k = None" "path_free (cc_shared (snd demo_state)) p"
  by (simp_all add: demo_state_def cat_lookup_in empty_catalog_facts)
    (simp add: path_free_def empty_catalog_def)

theorem upsert_keeps_twin_free_witness:
  "cat_lookup (fst (cat_upsert mem_yaml (demo_plugin ''a'' TargetK8s) demo_state)) ''a_kubernetes'' =
     Some (demo_plugin ''a'' TargetK8s) \<and>
   cat_lookup (fst (cat_upsert mem_yaml (demo_plugin ''a'' TargetK8s) demo_state)) ''a'' = None"
proof -
  let ?s = "fst (cat_upsert mem_yaml (demo_plugin ''a'' TargetK8s) demo_state)"
  have "\<forall>k q. cat_lookup ?s k = Some q \<longrightarrow> (\<forall>k' \<in> set (twin_keys q). cat_lookup ?s k' = None)"
    by (rule upsert_keeps_twin_free) (auto simp: demo_state_inv demo_state_facts)
  moreover have "cat_lookup ?s ''a_kubernetes'' = Some (demo_plugin ''a'' TargetK8s)"
    using cat_upsert_lookup [OF demo_state_inv demo_state_facts(2), of "demo_plugin ''a'' TargetK8s" "''a_kubernetes''"]
    by (simp add: PluginNameTarget_def)
  moreover have "''a'' \<in> set (twin_keys (demo_plugin ''a'' TargetK8s))" by (simp add: twin_keys_def)
  ultimately show ?thesis by blast
qed

section \<open>Error paths\<close>

text \<open>When the write of the encoded catalog fails after the truncation, \<open>Upsert\<close> reports
  an error and the file is left empty: a later process loads an empty catalog.\<close>

theorem upsert_write_failure:
  assumes "cc_locked c" "cf_file w = Some b" "cf_fault w = (\<lambda>_. None)(OpWrite := Some e)"
    "yaml_roundtrip Y" "catalog_wf (cc_shared c)"
  shows "\<exists>w'. Upsert Y p w c =
      (w', c\<lparr>cc_shared := upsert_catalog (cc_context c) p (cc_shared c)\<rparr>,
       Some (Wrapf e ''failed to write catalog cache file'' [])) \<and>
    disk_catalog Y w' = Some empty_catalog"
proof -
  obtain out where out: "MarshalCatalog Y (upsert_catalog (cc_context c) p (cc_shared c)) = Inr out"
    using assms(4) catalog_wf_upsert [OF assms(5)] unfolding yaml_roundtrip_def by blast
  obtain raw where raw: "UnmarshalCatalog Y (EmptyFile Y) = Inr raw" "catalog_of_raw raw = empty_catalog"
    using assms(4) unfolding yaml_roundtrip_def by blast
  have "saveCatalogCache Y (upsert_catalog (cc_context c) p (cc_shared c)) True w =
      (write_handle (EmptyFile Y) w, Some (Wrapf e ''failed to write catalog cache file'' []))"
    using assms(2,3) out by (simp add: saveCatalogCache_def write_catalog_bytes_def Let_def)
  with assms(1,2) raw show ?thesis
    by (intro exI [of _ "write_handle (EmptyFile Y) w"]) (simp add: Upsert_def Let_def disk_catalog_def)
qed

theorem upsert_write_failure_witness:
  "\<exists>w'. Upsert mem_yaml (demo_plugin ''a'' '''')
      ((fs_with twin_catalog)\<lparr>cf_fault := (\<lambda>_. None)(OpWrite := Some ErrNotExist)\<rparr>)
      \<lparr>cc_shared = empty_catalog, cc_context = '''', cc_locked = True\<rparr> =
      (w', \<lparr>cc_shared = upsert_catalog '''' (demo_plugin ''a'' '''') empty_catalog, cc_context = '''', cc_locked = True\<rparr>,
       Some (Wrapf ErrNotExist ''failed to write catalog cache file'' [])) \<and>
    disk_catalog mem_yaml w' = Some empty_catalog"
  using upsert_write_failure [of "\<lparr>cc_shared = empty_catalog, cc_context = '''', cc_locked = True\<rparr>"
      "(fs_with twin_catalog)\<lparr>cf_fault := (\<lambda>_. None)(OpWrite := Some ErrNotExist)\<rparr>"
      "Some twin_catalog" ErrNotExist mem_yaml "demo_plugin ''a'' ''''"]
  by (simp add: fs_with_def mem_yaml_roundtrip empty_catalog_facts)

text \<open>When the catalog file cannot be decoded, opening it for update returns an error and
  no catalog object, and the write lock taken on the file is still held.\<close>

theorem open_decode_failure_keeps_lock:
  assumes "no_faults w" "fs_wf w" "cf_file w = Some b" "UnmarshalCatalog Y b = Inl e"
  shows "\<exists>w'. NewContextCatalogUpdater Y ctx w =
      (w', Inl (Wrapf e ''could not decode catalog file'' [])) \<and>
    cf_handles w' = Suc (cf_handles w)"
  using assms
  by (auto simp: NewContextCatalogUpdater_def newContextCatalog_def getCatalogCache_def
      getCatalogCacheBytes_def lockedfile_Edit_def no_faults_def fs_wf_def)

theorem open_decode_failure_keeps_lock_witness:
  "\<exists>w'. NewContextCatalogUpdater (mem_yaml\<lparr>UnmarshalCatalog := \<lambda>_. Inl ErrNotExist\<rparr>) '''' (fs_with empty_catalog) =
      (w', Inl (Wrapf ErrNotExist ''could not decode catalog file'' [])) \<and> cf_handles w' = 1"
  using open_decode_failure_keeps_lock [of "fs_with empty_catalog" "Some empty_catalog"
      "mem_yaml\<lparr>UnmarshalCatalog := \<lambda>_. Inl ErrNotExist\<rparr>" ErrNotExist "''''"]
  by (simp add: fs_with_facts) (simp add: fs_with_def)

end
