(* ===== verification/Plugin_Supplier.thy ===== *)
theory Plugin_Supplier
  imports Catalog_Cleanup
begin

text \<open>
  The installed plugins as the rest of the CLI sees them: \<^verbatim>\<open>pkg/pluginsupplier/plugin_supplier.go\<close>.
  The active contexts come from the configuration library of \<^verbatim>\<open>tanzu-plugin-runtime\<close> and are
  arguments: their list (\<^verbatim>\<open>GetAllActiveContextsList\<close>) and their map by context type
  (\<^verbatim>\<open>GetAllActiveContextsMap\<close>), of which the code uses the keys.
\<close>

section \<open>Operations\<close>

text \<open>\<open>None\<close> is the panic of the migration (see \<open>Catalog_Model\<close>).\<close>

definition GetInstalledPlugins ::
    "'v lib \<Rightarrow> 'b cat_yaml \<Rightarrow> string list res \<Rightarrow> 'b cat_fs \<Rightarrow> ('b cat_fs \<times> plugin_info list res) option"
where
  "GetInstalledPlugins L Y activeContexts w =
     (case MigrateContextPluginsAsStandaloneIfNeeded L Y activeContexts w of
        None \<Rightarrow> None
      | Some w1 \<Rightarrow>
          (case NewContextCatalog Y '''' w1 of
             (w2, Inl e) \<Rightarrow> Some (w2, Inl e)
           | (w2, Inr standAloneCatalog) \<Rightarrow> Some (w2, Inr (List_plugins L standAloneCatalog))))"

text \<open>The inner loop over the keys of the active context map, left at the first match.\<close>

fun any_context_supported :: "string list \<Rightarrow> string list \<Rightarrow> bool" where
  "any_context_supported supported [] = False"
| "any_context_supported supported (ctxType # cts) =
     (if ctxType \<in> set supported then True else any_context_supported supported cts)"

fun filter_by_context_loop ::
    "string list \<Rightarrow> plugin_info list \<Rightarrow> plugin_info list \<Rightarrow> plugin_info list" where
  "filter_by_context_loop cts [] result = result"
| "filter_by_context_loop cts (p # ps) result =
     (if length (pi_SupportedContextType p) = 0 then filter_by_context_loop cts ps (result @ [p])
      else if any_context_supported (pi_SupportedContextType p) cts
      then filter_by_context_loop cts ps (result @ [p])
      else filter_by_context_loop cts ps result)"

definition FilterPluginsByActiveContextType ::
    "'v lib \<Rightarrow> (string \<times> 'c) list res \<Rightarrow> plugin_info list \<Rightarrow> plugin_info list res" where
  "FilterPluginsByActiveContextType L activeContextMap plugins =
     (case activeContextMap of Inl e \<Rightarrow> Inl e
      | Inr m \<Rightarrow> Inr (filter_by_context_loop (range_keys L m) plugins []))"

text \<open>An error leaves the map nil.\<close>

definition IsPluginActive :: "'v lib \<Rightarrow> (string \<times> 'c) list res \<Rightarrow> plugin_info \<Rightarrow> bool" where
  "IsPluginActive L activeContextMap p =
     (if length (pi_SupportedContextType p) = 0 then True
      else any_context_supported (pi_SupportedContextType p)
             (range_keys L (case activeContextMap of Inl _ \<Rightarrow> [] | Inr m \<Rightarrow> m)))"

fun installed_loop :: "plugin_info list \<Rightarrow> string \<Rightarrow> string \<Rightarrow> string \<Rightarrow> bool" where
  "installed_loop [] name target version = False"
| "installed_loop (p # ps) name target version =
     (if pi_Name p = name \<and> pi_Target p = target \<and> pi_Version p = version then True
      else installed_loop ps name target version)"

definition IsPluginInstalled ::
    "'v lib \<Rightarrow> 'b cat_yaml \<Rightarrow> string list res \<Rightarrow> string \<Rightarrow> string \<Rightarrow> string \<Rightarrow> 'b cat_fs \<Rightarrow>
     ('b cat_fs \<times> bool) option" where
  "IsPluginInstalled L Y activeContexts name target version w =
     (case GetInstalledPlugins L Y activeContexts w of
        None \<Rightarrow> None
      | Some (w1, Inl e) \<Rightarrow> Some (w1, False)
      | Some (w1, Inr ps) \<Rightarrow> Some (w1, installed_loop ps name target version))"

section \<open>Properties\<close>

lemma any_context_supported_iff: "any_context_supported supp cts \<longleftrightarrow> (\<exists>c \<in> set cts. c \<in> set supp)"
  by (induction cts) auto

lemma filter_by_context_loop_eq:
  "filter_by_context_loop cts ps result =
     result @ filter (\<lambda>p. pi_SupportedContextType p = [] \<or> any_context_supported (pi_SupportedContextType p) cts) ps"
  by (induction ps arbitrary: result) auto

lemma installed_loop_iff:
  "installed_loop ps name target version \<longleftrightarrow>
     (\<exists>p \<in> set ps. pi_Name p = name \<and> pi_Target p = target \<and> pi_Version p = version)"
  by (induction ps) auto

text \<open>The list filter and the single-plugin test agree: filtering by the active
  context types keeps exactly the plugins that \<open>IsPluginActive\<close> accepts, in their order.\<close>

theorem filter_agrees_with_IsPluginActive:
  assumes "activeContextMap = Inr m"
  shows "FilterPluginsByActiveContextType L activeContextMap plugins =
    Inr (filter (IsPluginActive L activeContextMap) plugins)"
  using assms
  by (auto simp: FilterPluginsByActiveContextType_def filter_by_context_loop_eq IsPluginActive_def
      intro!: filter_cong split: if_splits)

theorem filter_agrees_with_IsPluginActive_witness:
  "FilterPluginsByActiveContextType dotted_lib (Inr [(''tanzu'', ())])
     [demo_plugin ''a'' '''', (demo_plugin ''b'' '''')\<lparr>pi_SupportedContextType := [''kubernetes'']\<rparr>,
      (demo_plugin ''c'' '''')\<lparr>pi_SupportedContextType := [''kubernetes'', ''tanzu'']\<rparr>] =
   Inr [demo_plugin ''a'' '''', (demo_plugin ''c'' '''')\<lparr>pi_SupportedContextType := [''kubernetes'', ''tanzu'']\<rparr>]"
  unfolding filter_agrees_with_IsPluginActive [OF refl]
  by (simp add: IsPluginActive_def range_keys_def keys_of_def dotted_lib_def demo_plugin_def zero_plugin_info_def)

definition after_migration :: "'v lib \<Rightarrow> string list \<Rightarrow> catalog \<Rightarrow> catalog" where
  "after_migration L acs c = (if acs = [] then c else migrate_catalog L acs c)"

lemma migrate_disk:
  assumes "yaml_roundtrip Y" "no_faults w" "fs_wf w" "disk_catalog Y w = Some c0" "catalog_wf c0"
  obtains w' where "MigrateContextPluginsAsStandaloneIfNeeded L Y (Inr acs) w = Some w'"
    "disk_catalog Y w' = Some (after_migration L acs c0)" "no_faults w'"
proof (cases acs)
  case Nil
  with assms that show ?thesis
    by (simp add: MigrateContextPluginsAsStandaloneIfNeeded_def after_migration_def)
next
  case (Cons a as)
  obtain w1 w2 where w: "getCatalogCache Y True w = (w1, True, Inr c0)"
    "saveCatalogCache Y (migrate_catalog L acs c0) True w1 = (w2, None)"
    "disk_catalog Y (lockedfile_Close w2) = Some (migrate_catalog L acs c0)"
    "no_faults (lockedfile_Close w2)"
    by (rule rewrite_catalog_facts [OF assms(1-4) migrate_catalog_wf [OF assms(5)]])
  with Cons that show ?thesis
    by (auto simp: MigrateContextPluginsAsStandaloneIfNeeded_def after_migration_def)
qed

text \<open>\<open>GetInstalledPlugins\<close> returns one plugin per stand-alone entry of the catalog
  after the migration of the active contexts: the description the index holds for its installation
  path.\<close>

theorem installed_plugins_are_standalone_entries:
  assumes "range_law L" "yaml_roundtrip Y" "no_faults w" "fs_wf w" "disk_catalog Y w = Some c0"
    "catalog_wf c0"
  shows "\<exists>w' ps. GetInstalledPlugins L Y (Inr acs) w = Some (w', Inr ps) \<and>
    mset ps = image_mset (\<lambda>(k, path). get_or zero_plugin_info (IndexByPath c0) path)
                (mset (StandAlonePlugins (after_migration L acs c0)))"
proof -
  let ?d = "after_migration L acs c0"
  obtain w1 where w1: "MigrateContextPluginsAsStandaloneIfNeeded L Y (Inr acs) w = Some w1"
    "disk_catalog Y w1 = Some ?d" "no_faults w1"
    by (rule migrate_disk [OF assms(2-6)])
  obtain w2 where w2: "newContextCatalog Y '''' False w1 =
      (w2, Inr \<lparr>cc_shared = with_context '''' ?d, cc_context = '''', cc_locked = False\<rparr>)"
    by (rule open_read [OF w1(3,2)])
  have idx: "IndexByPath ?d = IndexByPath c0"
    by (simp add: after_migration_def)
  have wf: "map_ok (StandAlonePlugins ?d)"
    using assms(6) migrate_catalog_wf [of c0 L acs] by (auto simp: after_migration_def catalog_wf_def)
  let ?info = "get_or zero_plugin_info (IndexByPath c0)"
  have "image_mset (\<lambda>k. ?info (PA_Get (StandAlonePlugins ?d) k)) (mset (map fst (StandAlonePlugins ?d))) =
      image_mset (\<lambda>(k, path). ?info path) (mset (StandAlonePlugins ?d))"
    using wf by (auto simp: PA_Get_def get_or_def multiset.map_comp intro!: image_mset_cong)
  then show ?thesis
    using w1(1) w2 idx range_keys_mset [OF assms(1), of "StandAlonePlugins ?d"]
    by (simp add: GetInstalledPlugins_def NewContextCatalog_def List_plugins_def cc_plugins_def
        assoc_of_def with_context_def keys_of_def)
qed

theorem installed_plugins_are_standalone_entries_witness:
  "\<exists>w' ps. GetInstalledPlugins dotted_lib mem_yaml (Inr []) (fs_with twin_catalog) = Some (w', Inr ps) \<and>
    mset ps = {#demo_plugin ''a'' '''', demo_plugin ''a'' TargetGlobal, demo_plugin ''b'' ''''#}"
proof -
  have "catalog_wf twin_catalog"
    unfolding twin_catalog_def by (rule catalog_wf_upsert) (simp add: catalog_wf_def empty_catalog_def)
  from installed_plugins_are_standalone_entries [OF dotted_range_law mem_yaml_roundtrip
      fs_with_facts(1-3) this, of "[]"]
  show ?thesis by (simp add: after_migration_def twin_catalog_simps get_or_def)
qed

end
