(* ===== verification/Distribution_Model.thy ===== *)
theory Distribution_Model
  imports Cli_Types
begin

text \<open>
  Plugin binaries and where they come from: \<^verbatim>\<open>pkg/distribution/artifact.go\<close>,
  \<^verbatim>\<open>pkg/artifact/{interface,http,local,oci}.go\<close>, the trusted locations of
  \<^verbatim>\<open>pkg/config/defaults.go\<close>, the artifact types of \<^verbatim>\<open>apis/cli/v1alpha1\<close> and the
  \<^verbatim>\<open>Discovered\<close> type of \<^verbatim>\<open>pkg/discovery/types.go\<close>.

  The image registry, the HTTP client, the file system and \<^verbatim>\<open>net/url\<close> are the fields of
  \<open>fetch_env\<close>. The response body of an HTTP request is the sequence of its \<^verbatim>\<open>Read\<close> results; a
  sequence that is used up gives end of file. The lemmas show which artifact a lookup selects and
  what the three fetchers return on every branch.
\<close>

section \<open>Artifacts\<close>

record artifact =
  a_Image :: string
  a_URI :: string
  a_Digest :: string
  a_OS :: string
  a_Arch :: string

type_synonym artifact_list = "artifact list"
type_synonym artifacts = "(string \<times> artifact_list) list"

definition zero_artifact :: artifact where
  "zero_artifact = \<lparr>a_Image = '''', a_URI = '''', a_Digest = '''', a_OS = '''', a_Arch = ''''\<rparr>"

definition artifact_not_found :: "string \<Rightarrow> string \<Rightarrow> string \<Rightarrow> err" where
  "artifact_not_found version os arch =
     Errorf ''could not find the artifact for version:%s, os:%s, arch:%s'' [version, os, arch]"

fun find_artifact :: "artifact_list \<Rightarrow> string \<Rightarrow> string \<Rightarrow> artifact option" where
  "find_artifact [] os arch = None"
| "find_artifact (a # as) os arch =
     (if a_OS a = os \<and> a_Arch a = arch then Some a else find_artifact as os arch)"

definition GetArtifact :: "artifacts \<Rightarrow> string \<Rightarrow> string \<Rightarrow> string \<Rightarrow> artifact res" where
  "GetArtifact aMap version os arch =
     (case map_of aMap version of
        None \<Rightarrow> Inl (artifact_not_found version os arch)
      | Some aList \<Rightarrow>
          (case find_artifact aList os arch of
             Some a \<Rightarrow> Inr a
           | None \<Rightarrow> Inl (artifact_not_found version os arch)))"

definition GetDigest :: "artifacts \<Rightarrow> string \<Rightarrow> string \<Rightarrow> string \<Rightarrow> string res" where
  "GetDigest aMap version os arch =
     (case GetArtifact aMap version os arch of Inl e \<Rightarrow> Inl e | Inr a \<Rightarrow> Inr (a_Digest a))"

definition DescribeArtifact :: "artifacts \<Rightarrow> string \<Rightarrow> string \<Rightarrow> string \<Rightarrow> artifact res" where
  "DescribeArtifact aMap version os arch = GetArtifact aMap version os arch"

section \<open>Fetching\<close>

type_synonym read_result = "string \<times> err option"

definition io_EOF :: err where
  "io_EOF = Errorf ''EOF'' []"

record url =
  u_Scheme :: string
  u_Host :: string
  u_Path :: string

record dir_entry =
  de_Name :: string
  de_IsDir :: bool

record fetch_env =
  GetFilesMapFromImage :: "string \<Rightarrow> (string \<times> string) list res"
  url_Parse :: "string \<Rightarrow> url res"
  http_Do :: "string \<Rightarrow> (int \<times> read_result list) res"
  os_ReadFile :: "string \<Rightarrow> string res"
  os_ReadDir :: "string \<Rightarrow> dir_entry list res"
  LocalPluginDistroDir :: string

text \<open>The loop of \<open>HTTPArtifact.Fetch\<close>: a read error other than end of file aborts, an empty
  read ends the loop, a non-empty read is appended even when it comes with end of file.\<close>

fun http_read_loop :: "read_result list \<Rightarrow> string \<Rightarrow> string res" where
  "http_read_loop [] out = Inr out"
| "http_read_loop ((chunk, e) # rs) out =
     (case e of
        Some e' \<Rightarrow> if e' \<noteq> io_EOF then Inl e'
                  else if chunk = [] then Inr out else http_read_loop rs (out @ chunk)
      | None \<Rightarrow> if chunk = [] then Inr out else http_read_loop rs (out @ chunk))"

definition HTTPArtifact_Fetch :: "fetch_env \<Rightarrow> string \<Rightarrow> string res" where
  "HTTPArtifact_Fetch E u =
     (case http_Do E u of
        Inl e \<Rightarrow> Inl e
      | Inr (status, body) \<Rightarrow>
          if status \<noteq> 200
          then Inl (Errorf ''error while downloading the artifact: %s; received status code: %d instead of 200'' [u])
          else http_read_loop body [])"

definition HTTPArtifact_FetchTest :: "string res" where
  "HTTPArtifact_FetchTest = Inl (Errorf ''fetching test plugin from HTTP source is not yet supported'' [])"

definition filepath_IsAbs :: "string \<Rightarrow> bool" where
  "filepath_IsAbs p \<longleftrightarrow> has_prefix p ''/''"

definition NewLocalArtifact :: "fetch_env \<Rightarrow> string \<Rightarrow> string" where
  "NewLocalArtifact E path =
     (if filepath_IsAbs path then path
      else path_join [LocalPluginDistroDir E, ''distribution'', path])"

definition LocalArtifact_Fetch :: "fetch_env \<Rightarrow> string \<Rightarrow> string res" where
  "LocalArtifact_Fetch E path =
     (case os_ReadFile E path of
        Inl e \<Rightarrow> Inl (Wrapf e ''error while reading artifact'' [])
      | Inr b \<Rightarrow> Inr b)"

definition filepath_Dir :: "string \<Rightarrow> string" where
  "filepath_Dir p =
     (let d = join ''/'' (butlast (split_on CHR ''/'' p))
      in if d \<noteq> '''' then d else if filepath_IsAbs p then ''/'' else ''.'')"

definition LocalArtifact_FetchTest :: "fetch_env \<Rightarrow> string \<Rightarrow> string res" where
  "LocalArtifact_FetchTest E path =
     (let testPluginDir = path_join [filepath_Dir path, ''test'']
      in case os_ReadDir E testPluginDir of
           Inl e \<Rightarrow> Inl (Wrapf e ''unable to read test plugin directory'' [])
         | Inr dirEntries \<Rightarrow>
             (case dirEntries of
                [testPluginFile] \<Rightarrow>
                  if de_IsDir testPluginFile
                  then Inl (Errorf ''expected to find test plugin binary but found directory %q'' [de_Name testPluginFile])
                  else (case os_ReadFile E (path_join [testPluginDir, de_Name testPluginFile]) of
                          Inl e \<Rightarrow> Inl (Wrapf e ''error while reading test artifact'' [])
                        | Inr b \<Rightarrow> Inr b)
              | _ \<Rightarrow> Inl (Errorf ''expected only 1 file under the directory'' [testPluginDir])))"

text \<open>The loop of \<open>OCIArtifact.Fetch\<close> over the files of the image: the data of the last file
  visited outside test directories and the number of such files.\<close>

fun oci_files_loop :: "(string \<times> string) list \<Rightarrow> string list \<Rightarrow> string \<Rightarrow> nat \<Rightarrow> string \<times> nat" where
  "oci_files_loop m [] bytesData fileCount = (bytesData, fileCount)"
| "oci_files_loop m (path # paths) bytesData fileCount =
     (if ContainsString (split_on CHR ''/'' path) ''test'' then oci_files_loop m paths bytesData fileCount
      else oci_files_loop m paths (get_or [] m path) (Suc fileCount))"

definition OCIArtifact_Fetch :: "'v lib \<Rightarrow> fetch_env \<Rightarrow> string \<Rightarrow> string res" where
  "OCIArtifact_Fetch L E img =
     (case GetFilesMapFromImage E img of
        Inl e \<Rightarrow> Inl (Wrapf e ''unable fetch plugin binary'' [])
      | Inr filesMap \<Rightarrow>
          (let (bytesData, fileCount) = oci_files_loop filesMap (range_keys L filesMap) [] 0
           in if fileCount \<noteq> 1
              then Inl (Errorf ''oci artifact image for plugin is required to have only 1 file'' [])
              else Inr bytesData))"

definition OCIArtifact_FetchTest :: "string res" where
  "OCIArtifact_FetchTest = Inl (Errorf ''fetching test plugin from OCI source is not yet supported'' [])"

datatype uri_artifact = HTTPArtifact string | LocalArtifact string

definition NewURIArtifact :: "fetch_env \<Rightarrow> string \<Rightarrow> uri_artifact res" where
  "NewURIArtifact E uri =
     (case url_Parse E uri of
        Inl e \<Rightarrow> Inl e
      | Inr u \<Rightarrow>
          Inr (if u_Scheme u = ''http'' \<or> u_Scheme u = ''https'' then HTTPArtifact uri
               else if u_Scheme u = ''file''
               then LocalArtifact (NewLocalArtifact E (path_join [u_Host u, u_Path u]))
               else LocalArtifact (NewLocalArtifact E uri)))"

fun uri_Fetch :: "fetch_env \<Rightarrow> uri_artifact \<Rightarrow> string res" where
  "uri_Fetch E (HTTPArtifact u) = HTTPArtifact_Fetch E u"
| "uri_Fetch E (LocalArtifact p) = LocalArtifact_Fetch E p"

fun uri_FetchTest :: "fetch_env \<Rightarrow> uri_artifact \<Rightarrow> string res" where
  "uri_FetchTest E (HTTPArtifact u) = HTTPArtifact_FetchTest"
| "uri_FetchTest E (LocalArtifact p) = LocalArtifact_FetchTest E p"

definition invalid_artifact :: "string \<Rightarrow> string \<Rightarrow> string \<Rightarrow> err" where
  "invalid_artifact version os arch =
     Errorf ''invalid artifact for version:%s, os:%s, arch:%s'' [version, os, arch]"

definition Fetch :: "'v lib \<Rightarrow> fetch_env \<Rightarrow> artifacts \<Rightarrow> string \<Rightarrow> string \<Rightarrow> string \<Rightarrow> string res" where
  "Fetch L E aMap version os arch =
     (case GetArtifact aMap version os arch of
        Inl e \<Rightarrow> Inl e
      | Inr a \<Rightarrow>
          if a_Image a \<noteq> '''' then OCIArtifact_Fetch L E (a_Image a)
          else if a_URI a \<noteq> ''''
          then (case NewURIArtifact E (a_URI a) of Inl e \<Rightarrow> Inl e | Inr u \<Rightarrow> uri_Fetch E u)
          else Inl (invalid_artifact version os arch))"

definition FetchTest :: "fetch_env \<Rightarrow> artifacts \<Rightarrow> string \<Rightarrow> string \<Rightarrow> string \<Rightarrow> string res" where
  "FetchTest E aMap version os arch =
     (case GetArtifact aMap version os arch of
        Inl e \<Rightarrow> Inl e
      | Inr a \<Rightarrow>
          if a_Image a \<noteq> '''' then OCIArtifact_FetchTest
          else if a_URI a \<noteq> ''''
          then (case NewURIArtifact E (a_URI a) of Inl e \<Rightarrow> Inl e | Inr u \<Rightarrow> uri_FetchTest E u)
          else Inl (invalid_artifact version os arch))"

section \<open>Conversion from the Kubernetes resource\<close>

record k8s_artifact =
  k_Image :: string
  k_URI :: string
  k_Digest :: string
  k_Type :: string
  k_OS :: string
  k_Arch :: string

record cli_plugin_spec =
  cps_Description :: string
  cps_RecommendedVersion :: string
  cps_Artifacts :: "(string \<times> k8s_artifact list) list"
  cps_Optional :: bool
  cps_Target :: string

record cli_plugin =
  cp_Name :: string
  cp_Spec :: cli_plugin_spec

definition ArtifactFromK8sV1alpha1 :: "k8s_artifact \<Rightarrow> artifact" where
  "ArtifactFromK8sV1alpha1 a =
     \<lparr>a_Image = k_Image a, a_URI = k_URI a, a_Digest = k_Digest a, a_OS = k_OS a, a_Arch = k_Arch a\<rparr>"

text \<open>The list is made with \<^verbatim>\<open>len(l)\<close> zero elements before the appends.\<close>

definition ArtifactListFromK8sV1alpha1 :: "k8s_artifact list \<Rightarrow> artifact_list" where
  "ArtifactListFromK8sV1alpha1 l =
     foldl (\<lambda>aList a. aList @ [ArtifactFromK8sV1alpha1 a]) (replicate (length l) zero_artifact) l"

definition ArtifactsFromK8sV1alpha1 :: "(string \<times> k8s_artifact list) list \<Rightarrow> artifacts" where
  "ArtifactsFromK8sV1alpha1 m = map (\<lambda>(v, l). (v, ArtifactListFromK8sV1alpha1 l)) m"

section \<open>Discovered plugins\<close>

record discovered =
  d_Name :: string
  d_Description :: string
  d_RecommendedVersion :: string
  d_InstalledVersion :: string
  d_SupportedVersions :: "string list"
  d_Distribution :: artifacts
  d_Optional :: bool
  d_Scope :: string
  d_Source :: string
  d_ContextName :: string
  d_DiscoveryType :: string
  d_Target :: string
  d_Status :: string

definition zero_discovered :: discovered where
  "zero_discovered = \<lparr>d_Name = '''', d_Description = '''', d_RecommendedVersion = '''',
     d_InstalledVersion = '''', d_SupportedVersions = [], d_Distribution = [], d_Optional = False,
     d_Scope = '''', d_Source = '''', d_ContextName = '''', d_DiscoveryType = '''',
     d_Target = '''', d_Status = ''''\<rparr>"

definition Discovered_Less :: "discovered \<Rightarrow> discovered \<Rightarrow> bool" where
  "Discovered_Less p q =
     (if d_Name p \<noteq> d_Name q then d_Name p < d_Name q else d_Target p < d_Target q)"

interpretation discovered_order: weak_order Discovered_Less
  by unfold_locales (auto simp: Discovered_Less_def split: if_splits)

section \<open>Defaults of the configuration\<close>

text \<open>\<open>strings.Trim(s, "/")\<close>\<close>

definition trim_char :: "char \<Rightarrow> string \<Rightarrow> string" where
  "trim_char c s = rev (dropWhile (\<lambda>x. x = c) (rev (dropWhile (\<lambda>x. x = c) s)))"

text \<open>The variables of \<^verbatim>\<open>pkg/config/defaults.go\<close> that the build assigns.\<close>

record build_defaults =
  DefaultAllowedPluginRepositories :: string
  DefaultStandaloneDiscoveryRepository :: string
  DefaultStandaloneDiscoveryImagePath :: string
  DefaultStandaloneDiscoveryImageTag :: string
  DefaultStandaloneDiscoveryType :: string
  DefaultStandaloneDiscoveryLocalPath :: string

definition env_or :: "environ \<Rightarrow> string \<Rightarrow> string \<Rightarrow> string" where
  "env_or env k d = (if getenv env k \<noteq> '''' then getenv env k else d)"

definition GetDefaultStandaloneDiscoveryImage :: "build_defaults \<Rightarrow> environ \<Rightarrow> string" where
  "GetDefaultStandaloneDiscoveryImage B env =
     (let repo = env_or env ''TKG_CUSTOM_IMAGE_REPOSITORY'' (DefaultStandaloneDiscoveryRepository B);
          path = env_or env ''TKG_DEFAULT_STANDALONE_DISCOVERY_IMAGE_PATH'' (DefaultStandaloneDiscoveryImagePath B);
          tag = env_or env ''TKG_DEFAULT_STANDALONE_DISCOVERY_IMAGE_TAG'' (DefaultStandaloneDiscoveryImageTag B)
      in trim_char CHR ''/'' repo @ ''/'' @ trim_char CHR ''/'' path @ '':'' @ tag)"

definition GetDefaultStandaloneDiscoveryType :: "build_defaults \<Rightarrow> environ \<Rightarrow> string" where
  "GetDefaultStandaloneDiscoveryType B env =
     env_or env ''TKG_DEFAULT_STANDALONE_DISCOVERY_TYPE'' (DefaultStandaloneDiscoveryType B)"

definition GetDefaultStandaloneDiscoveryLocalPath :: "build_defaults \<Rightarrow> environ \<Rightarrow> string" where
  "GetDefaultStandaloneDiscoveryLocalPath B env =
     env_or env ''TKG_DEFAULT_STANDALONE_DISCOVERY_LOCAL_PATH'' (DefaultStandaloneDiscoveryLocalPath B)"

definition GetAdditionalTestDiscoveryImages :: "environ \<Rightarrow> string list" where
  "GetAdditionalTestDiscoveryImages env =
     (let images = (if getenv env ''TANZU_CLI_PRIVATE_PLUGIN_DISCOVERY_IMAGES'' = ''''
                    then getenv env ''TANZU_CLI_ADDITIONAL_PLUGIN_DISCOVERY_IMAGES_TEST_ONLY''
                    else getenv env ''TANZU_CLI_PRIVATE_PLUGIN_DISCOVERY_IMAGES'')
      in filter (\<lambda>i. i \<noteq> '''') (map trim_space (split_on CHR '','' images)))"

text \<open>\<open>hostname\<close> is \<^verbatim>\<open>url.ParseRequestURI("https://" + image).Hostname()\<close>, \<open>discoveries\<close> the
  OCI images of \<^verbatim>\<open>configlib.GetCLIDiscoverySources\<close> (an entry without OCI section is
  \<open>None\<close>).\<close>

definition GetTrustedRegistries ::
    "build_defaults \<Rightarrow> (string \<Rightarrow> string option) \<Rightarrow> string option list res \<Rightarrow> environ \<Rightarrow> string list" where
  "GetTrustedRegistries B hostname discoveries env =
     (if DefaultAllowedPluginRepositories B \<noteq> ''''
      then map trim_space (split_on CHR '','' (DefaultAllowedPluginRepositories B)) else []) @
     (if getenv env ''TKG_CUSTOM_IMAGE_REPOSITORY'' \<noteq> ''''
      then [getenv env ''TKG_CUSTOM_IMAGE_REPOSITORY''] else []) @
     (case discoveries of Inl _ \<Rightarrow> []
      | Inr ds \<Rightarrow> List.map_filter (\<lambda>d. case d of None \<Rightarrow> None | Some img \<Rightarrow> hostname img) ds) @
     List.map_filter hostname (GetAdditionalTestDiscoveryImages env) @
     (if getenv env ''ALLOWED_REGISTRY'' \<noteq> ''''
      then map trim_space (split_on CHR '','' (getenv env ''ALLOWED_REGISTRY'')) else [])"

definition GetTrustedArtifactLocations :: "string list" where
  "GetTrustedArtifactLocations = [''https://tmc-cli.s3-us-west-2.amazonaws.com/plugins/artifacts'']"

section \<open>Properties\<close>

definition platform_match :: "string \<Rightarrow> string \<Rightarrow> artifact \<Rightarrow> bool" where
  "platform_match os arch a \<longleftrightarrow> a_OS a = os \<and> a_Arch a = arch"

lemma find_artifact_find: "find_artifact as os arch = List.find (platform_match os arch) as"
  by (induction as) (auto simp: platform_match_def)

lemma find_artifact_append:
  "find_artifact (as @ bs) os arch =
     (case find_artifact as os arch of None \<Rightarrow> find_artifact bs os arch | Some a \<Rightarrow> Some a)"
  by (induction as) auto

lemma GetArtifact_Inr:
  "GetArtifact aMap version os arch = Inr a \<longleftrightarrow>
     (\<exists>aList. map_of aMap version = Some aList \<and> find_artifact aList os arch = Some a)"
  by (auto simp: GetArtifact_def split: option.splits)

lemma GetArtifact_total:
  "GetArtifact aMap version os arch = Inl e \<Longrightarrow> e = artifact_not_found version os arch"
  by (auto simp: GetArtifact_def split: option.splits)

text \<open>\<open>GetArtifact\<close> succeeds exactly when the version has an artifact for the
  platform, and then returns the first such artifact of the version's list; every failure is the
  not-found error of the request.\<close>

theorem GetArtifact_first_match:
  "(GetArtifact aMap version os arch = Inr a \<longleftrightarrow>
      (\<exists>aList i. map_of aMap version = Some aList \<and> i < length aList \<and> aList ! i = a \<and>
         a_OS a = os \<and> a_Arch a = arch \<and>
         \<not> list_ex (\<lambda>b. a_OS b = os \<and> a_Arch b = arch) (take i aList))) \<and>
   (isl (GetArtifact aMap version os arch) \<longleftrightarrow>
      GetArtifact aMap version os arch = Inl (artifact_not_found version os arch))"
proof -
  have first: "find_artifact aList os arch = Some a \<longleftrightarrow>
      (\<exists>i. i < length aList \<and> aList ! i = a \<and> a_OS a = os \<and> a_Arch a = arch \<and>
         \<not> list_ex (\<lambda>b. a_OS b = os \<and> a_Arch b = arch) (take i aList))" for aList
  proof -
    have "find_artifact aList os arch = Some a \<longleftrightarrow>
        (\<exists>i. i < length aList \<and> platform_match os arch (aList ! i) \<and> a = aList ! i \<and>
           (\<forall>j<i. \<not> platform_match os arch (aList ! j)))"
      unfolding find_artifact_find find_Some_iff by blast
    also have "\<dots> \<longleftrightarrow> (\<exists>i. i < length aList \<and> aList ! i = a \<and> a_OS a = os \<and> a_Arch a = arch \<and>
         \<not> list_ex (\<lambda>b. a_OS b = os \<and> a_Arch b = arch) (take i aList))"
      by (intro ex_cong1) (auto simp: platform_match_def list_ex_length)
    finally show ?thesis .
  qed
  show ?thesis
  proof (intro conjI)
    show "isl (GetArtifact aMap version os arch) \<longleftrightarrow>
        GetArtifact aMap version os arch = Inl (artifact_not_found version os arch)"
      by (cases "GetArtifact aMap version os arch") (simp_all add: GetArtifact_total)
  qed (unfold GetArtifact_Inr first, simp only: ex_simps)
qed

lemma oci_files_loop_spec:
  "oci_files_loop m ps b n =
     (let qs = filter (\<lambda>p. ''test'' \<notin> set (split_on CHR ''/'' p)) ps
      in (if qs = [] then b else get_or [] m (last qs), n + length qs))"
  by (induction ps arbitrary: b n) (auto simp: Let_def)

lemma oci_fetch_one:
  assumes "range_law L" "mset (filter P (keys_of m)) = {#p#}"
  shows "filter P (range_keys L m) = [p]"
proof -
  have "mset (filter P (range_keys L m)) = {#p#}"
    using assms range_keys_mset [OF assms(1), of m] by (metis mset_filter)
  then show ?thesis by (metis mset_single_iff_right)
qed

text \<open>Fetching a plugin from an OCI image returns a binary exactly when the image has
  one file outside test directories, and the binary is that file's data, whatever the iteration order
  of the file map.\<close>

theorem OCI_fetch_single_file:
  assumes "range_law L" "GetFilesMapFromImage E img = Inr m" "map_ok m"
  shows "OCIArtifact_Fetch L E img = Inr b \<longleftrightarrow>
    (\<exists>path. filter (\<lambda>(p, d). ''test'' \<notin> set (split_on CHR ''/'' p)) m = [(path, b)])"
proof -
  let ?P = "\<lambda>p. ''test'' \<notin> set (split_on CHR ''/'' p)"
  let ?m = "filter (\<lambda>(p, d). ?P p) m"
  have keys: "filter ?P (keys_of m) = map fst ?m"
    by (simp add: keys_of_def filter_map comp_def case_prod_unfold)
  have len: "length (filter ?P (range_keys L m)) = length ?m"
    using range_keys_mset [OF assms(1), of m] keys
    by (metis length_map mset_filter size_mset)
  have "OCIArtifact_Fetch L E img = Inr b \<longleftrightarrow>
      length ?m = 1 \<and> b = get_or [] m (last (filter ?P (range_keys L m)))"
    using assms(2) len by (auto simp: OCIArtifact_Fetch_def oci_files_loop_spec Let_def split: if_splits)
  also have "\<dots> \<longleftrightarrow> (\<exists>path. ?m = [(path, b)])"
  proof (cases "\<exists>path d. ?m = [(path, d)]")
    case True
    then obtain path d where one: "?m = [(path, d)]" by blast
    then have "map_of m path = Some d"
    proof -
      have "(path, d) \<in> set ?m" unfolding one by simp
      then show ?thesis using assms(3) by simp
    qed
    moreover have "filter ?P (range_keys L m) = [path]"
      using keys one by (intro oci_fetch_one [OF assms(1)]) simp
    ultimately show ?thesis using one by (auto simp: get_or_def)
  next
    case False
    then show ?thesis by (auto simp: length_Suc_conv)
  qed
  finally show ?thesis .
qed

definition demo_env :: fetch_env where
  "demo_env = \<lparr>GetFilesMapFromImage = (\<lambda>img. if img = ''reg/img:v1''
       then Inr [(''tanzu-plugin'', ''BIN''), (''test/tanzu-plugin'', ''TEST'')]
       else Inl (Errorf ''no image'' [])),
     url_Parse = (\<lambda>u. Inr \<lparr>u_Scheme = '''', u_Host = '''', u_Path = u\<rparr>),
     http_Do = (\<lambda>u. Inr (200, [(''ab'', None), (''c'', Some io_EOF)])),
     os_ReadFile = (\<lambda>p. Inl (Errorf ''no file'' [])), os_ReadDir = (\<lambda>p. Inl (Errorf ''no dir'' [])),
     LocalPluginDistroDir = ''/d''\<rparr>"

theorem OCI_fetch_single_file_witness:
  "OCIArtifact_Fetch dotted_lib demo_env ''reg/img:v1'' = Inr ''BIN''"
  using OCI_fetch_single_file [OF dotted_range_law, of demo_env "''reg/img:v1''"
      "[(''tanzu-plugin'', ''BIN''), (''test/tanzu-plugin'', ''TEST'')]" "''BIN''"]
  by (simp add: demo_env_def)

lemma http_read_loop_chunks:
  "list_all (\<lambda>c. c \<noteq> []) cs \<Longrightarrow>
     http_read_loop (map (\<lambda>c. (c, None)) cs @ rest) out = http_read_loop rest (out @ concat cs)"
  by (induction cs arbitrary: out) auto

text \<open>An HTTP download with status 200 whose body arrives in non-empty chunks returns
  the concatenation of all chunks, whether the last one comes with or before the end of file; a read
  error after them is returned and no partial data.\<close>

theorem HTTP_fetch_concatenates:
  assumes "http_Do E u = Inr (200, map (\<lambda>c. (c, None)) cs @ [(final, e)])"
    "list_all (\<lambda>c. c \<noteq> []) cs"
  shows "HTTPArtifact_Fetch E u =
    (case e of Some e' \<Rightarrow> if e' = io_EOF then Inr (concat cs @ final) else Inl e'
     | None \<Rightarrow> Inr (concat cs @ final))"
  using assms by (auto simp: HTTPArtifact_Fetch_def http_read_loop_chunks split: option.splits)

theorem HTTP_fetch_concatenates_witness:
  "HTTPArtifact_Fetch demo_env ''http://x'' = Inr ''abc''"
  using HTTP_fetch_concatenates [of demo_env "''http://x''" "[''ab'']" "''c''" "Some io_EOF"]
  by (simp add: demo_env_def)

lemma foldl_append_map: "foldl (\<lambda>as a. as @ [f a]) zs l = zs @ map f l"
  by (induction l arbitrary: zs) auto

lemma find_artifact_zeros:
  "os \<noteq> '''' \<or> arch \<noteq> '''' \<Longrightarrow> find_artifact (replicate n zero_artifact @ as) os arch = find_artifact as os arch"
  by (induction n) (auto simp: zero_artifact_def)

text \<open>Converting the artifact list of a \<^verbatim>\<open>CLIPlugin\<close> resource doubles its length: the
  converted artifacts are preceded by as many zero artifacts. A lookup for a real platform still finds
  the first converted artifact for it.\<close>

theorem k8s_artifact_list_conversion:
  "ArtifactListFromK8sV1alpha1 l =
     replicate (length l) zero_artifact @ map ArtifactFromK8sV1alpha1 l \<and>
   length (ArtifactListFromK8sV1alpha1 l) = 2 * length l \<and>
   find_artifact (ArtifactListFromK8sV1alpha1 l) (c # os) arch =
     find_artifact (map ArtifactFromK8sV1alpha1 l) (c # os) arch"
  by (simp add: ArtifactListFromK8sV1alpha1_def foldl_append_map find_artifact_zeros)

end
