(* ===== verification/Inventory_Types.thy ===== *)
theory Inventory_Types
  imports Distribution_Model
begin

text \<open>
  Data of the plugin inventory, \<^verbatim>\<open>pkg/plugininventory/plugin_inventory.go\<close>: entries, groups,
  filters and identifiers, the textual form of a group identifier and its parser, and the two
  functions that drop duplicates. Both of them are instances of the locale \<open>dedup\<close>.
\<close>

record inventory_entry =
  ie_Name :: string
  ie_Target :: string
  ie_Description :: string
  ie_Publisher :: string
  ie_Vendor :: string
  ie_RecommendedVersion :: string
  ie_Hidden :: bool
  ie_Artifacts :: artifacts

record plugin_filter =
  f_Name :: string
  f_Target :: string
  f_Version :: string
  f_OS :: string
  f_Arch :: string
  f_Publisher :: string
  f_Vendor :: string
  f_IncludeHidden :: bool

definition empty_filter :: plugin_filter where
  "empty_filter = \<lparr>f_Name = '''', f_Target = '''', f_Version = '''', f_OS = '''', f_Arch = '''',
     f_Publisher = '''', f_Vendor = '''', f_IncludeHidden = False\<rparr>"

record plugin_identifier =
  id_Name :: string
  id_Target :: string
  id_Version :: string

record group_plugin_entry = plugin_identifier +
  gp_Mandatory :: bool

record group_identifier =
  gi_Vendor :: string
  gi_Publisher :: string
  gi_Name :: string
  gi_Version :: string

record plugin_group =
  g_Vendor :: string
  g_Publisher :: string
  g_Name :: string
  g_Description :: string
  g_Hidden :: bool
  g_RecommendedVersion :: string
  g_Versions :: "(string \<times> group_plugin_entry list) list"

record group_filter =
  gf_Vendor :: string
  gf_Publisher :: string
  gf_Name :: string
  gf_Version :: string
  gf_IncludeHidden :: bool

definition group_id_of :: "string \<Rightarrow> string \<Rightarrow> string \<Rightarrow> string" where
  "group_id_of vendor publisher name = vendor @ ''-'' @ publisher @ ''/'' @ name"

definition PluginGroupToID :: "plugin_group \<Rightarrow> string" where
  "PluginGroupToID pg = group_id_of (g_Vendor pg) (g_Publisher pg) (g_Name pg)"

definition PluginToID :: "inventory_entry \<Rightarrow> string" where
  "PluginToID p = ie_Name p @ ''@'' @ ie_Target p"

definition PluginGroupIdentifierFromID :: "string \<Rightarrow> group_identifier option" where
  "PluginGroupIdentifierFromID pgid =
     (case split_on CHR ''/'' pgid of
        [vp, nv] \<Rightarrow>
          (case split_on CHR ''-'' vp of
             [vendor, publisher] \<Rightarrow>
               (let nameVersion = split_on CHR '':'' nv;
                    name = hd nameVersion
                in if length nameVersion > 2 then None
                   else
                     let version = (if length nameVersion = 2 then nameVersion ! 1 else '''')
                     in if name = '''' \<or> vendor = '''' \<or> publisher = '''' then None
                        else Some \<lparr>gi_Vendor = vendor, gi_Publisher = publisher, gi_Name = name,
                                   gi_Version = version\<rparr>)
           | _ \<Rightarrow> None)
      | _ \<Rightarrow> None)"

definition PluginGroup_Less :: "plugin_group \<Rightarrow> plugin_group \<Rightarrow> bool" where
  "PluginGroup_Less p q \<longleftrightarrow> PluginGroupToID p < PluginGroupToID q"

interpretation plugin_group_order: weak_order PluginGroup_Less
  by unfold_locales (auto simp: PluginGroup_Less_def)

definition entry_dedup_id :: "inventory_entry \<Rightarrow> string" where
  "entry_dedup_id e = ie_Name e @ ''-'' @ ie_Target e @ ''-'' @ ie_RecommendedVersion e"

fun dedup_entries_loop ::
    "inventory_entry list \<Rightarrow> (string \<times> bool) list \<Rightarrow> inventory_entry list \<Rightarrow> inventory_entry list" where
  "dedup_entries_loop [] encountered result = result"
| "dedup_entries_loop (entry # entries) encountered result =
     (let i = entry_dedup_id entry
      in if \<not> get_or False encountered i
         then dedup_entries_loop entries (AList.update i True encountered) (result @ [entry])
         else dedup_entries_loop entries encountered result)"

definition RemoveDuplicatePluginInventoryEntries :: "inventory_entry list \<Rightarrow> inventory_entry list" where
  "RemoveDuplicatePluginInventoryEntries entries = dedup_entries_loop entries [] []"

definition group_dedup_id :: "plugin_group \<Rightarrow> string" where
  "group_dedup_id g =
     g_Vendor g @ ''-'' @ g_Publisher g @ ''/'' @ g_Name g @ '':'' @ g_RecommendedVersion g"

fun dedup_groups_loop ::
    "plugin_group list \<Rightarrow> (string \<times> bool) list \<Rightarrow> plugin_group list \<Rightarrow> plugin_group list" where
  "dedup_groups_loop [] encountered result = result"
| "dedup_groups_loop (g # gs) encountered result =
     (let i = group_dedup_id g
      in if \<not> get_or False encountered i
         then dedup_groups_loop gs (AList.update i True encountered) (result @ [g])
         else dedup_groups_loop gs encountered result)"

definition RemoveDuplicatePluginGroups :: "plugin_group list \<Rightarrow> plugin_group list" where
  "RemoveDuplicatePluginGroups gs = dedup_groups_loop gs [] []"

section \<open>Removal of duplicates\<close>

text \<open>The contract of a loop that keeps the first element of each key.\<close>

locale dedup =
  fixes key :: "'a \<Rightarrow> string"
    and loop :: "'a list \<Rightarrow> (string \<times> bool) list \<Rightarrow> 'a list \<Rightarrow> 'a list"
  assumes loop_Nil: "loop [] enc res = res"
    and loop_Cons: "loop (x # xs) enc res =
      (if \<not> get_or False enc (key x) then loop xs (AList.update (key x) True enc) (res @ [x])
       else loop xs enc res)"
begin

lemma loop_spec:
  assumes "\<And>k. get_or False enc k \<longleftrightarrow> k \<in> key ` set res" "distinct (map key res)"
  shows "distinct (map key (loop xs enc res)) \<and>
    (\<forall>k. List.find (\<lambda>x. key x = k) (loop xs enc res) = List.find (\<lambda>x. key x = k) (res @ xs))"
  using assms
proof (induction xs arbitrary: enc res)
  case Nil
  then show ?case by (simp add: loop_Nil)
next
  case (Cons x xs)
  have find_append: "List.find P (ys @ zs) = (case List.find P ys of None \<Rightarrow> List.find P zs | Some y \<Rightarrow> Some y)"
    for P and ys zs :: "'a list" by (induction ys) auto
  show ?case
  proof (cases "get_or False enc (key x)")
    case True
    then obtain y where "y \<in> set res" "key y = key x" using Cons.prems(1) by (metis imageE)
    then have "List.find (\<lambda>z. key z = key x) res \<noteq> None" by (auto simp: find_None_iff)
    then have "List.find (\<lambda>z. key z = k) (res @ x # xs) = List.find (\<lambda>z. key z = k) (res @ xs)" for k
      by (auto simp: find_append split: option.splits)
    with True Cons.IH [OF Cons.prems] show ?thesis by (simp add: loop_Cons)
  next
    case False
    with Cons.IH [of "AList.update (key x) True enc" "res @ [x]"] Cons.prems show ?thesis
      by (auto simp: loop_Cons)
  qed
qed

lemma loop_keeps_first:
  "distinct (map key (loop xs [] [])) \<and>
   (\<forall>k. List.find (\<lambda>x. key x = k) (loop xs [] []) = List.find (\<lambda>x. key x = k) xs)"
  using loop_spec [of "[]" "[]" xs] by (simp add: get_or_def)

lemma loop_subseq: "set (loop xs enc res) \<subseteq> set res \<union> set xs"
  by (induction xs arbitrary: enc res) (fastforce simp: loop_Nil loop_Cons split: if_splits)+

end

interpretation dedup_entries: dedup entry_dedup_id dedup_entries_loop
  by unfold_locales (simp_all add: Let_def)

interpretation dedup_groups: dedup group_dedup_id dedup_groups_loop
  by unfold_locales (simp_all add: Let_def)

text \<open>Both duplicate filters return a list without two elements of the same
  identifier, made of elements of the argument, in which every identifier is represented by its first
  occurrence in the argument.\<close>

theorem remove_duplicates_keep_first:
  "distinct (map entry_dedup_id (RemoveDuplicatePluginInventoryEntries es)) \<and>
   set (RemoveDuplicatePluginInventoryEntries es) \<subseteq> set es \<and>
   List.find (\<lambda>e. entry_dedup_id e = k) (RemoveDuplicatePluginInventoryEntries es) =
     List.find (\<lambda>e. entry_dedup_id e = k) es \<and>
   distinct (map group_dedup_id (RemoveDuplicatePluginGroups gs)) \<and>
   set (RemoveDuplicatePluginGroups gs) \<subseteq> set gs \<and>
   List.find (\<lambda>g. group_dedup_id g = k) (RemoveDuplicatePluginGroups gs) =
     List.find (\<lambda>g. group_dedup_id g = k) gs"
  unfolding RemoveDuplicatePluginInventoryEntries_def RemoveDuplicatePluginGroups_def
  using dedup_entries.loop_keeps_first [of es] dedup_entries.loop_subseq [of es "[]" "[]"]
    dedup_groups.loop_keeps_first [of gs] dedup_groups.loop_subseq [of gs "[]" "[]"]
  by simp

section \<open>Group identifiers\<close>

definition group_id_text :: "group_identifier \<Rightarrow> string" where
  "group_id_text gi = group_id_of (gi_Vendor gi) (gi_Publisher gi) (gi_Name gi) @
     (if gi_Version gi = '''' then '''' else '':'' @ gi_Version gi)"

definition group_id_wf :: "group_identifier \<Rightarrow> bool" where
  "group_id_wf gi \<longleftrightarrow>
     gi_Vendor gi \<noteq> '''' \<and> gi_Publisher gi \<noteq> '''' \<and> gi_Name gi \<noteq> '''' \<and>
     set (gi_Vendor gi) \<inter> {CHR ''/'', CHR ''-''} = {} \<and>
     set (gi_Publisher gi) \<inter> {CHR ''/'', CHR ''-''} = {} \<and>
     set (gi_Name gi) \<inter> {CHR ''/'', CHR '':''} = {} \<and>
     set (gi_Version gi) \<inter> {CHR ''/'', CHR '':''} = {}"

text \<open>The parser of group identifiers inverts their printing: every identifier whose
  parts hold none of the separators is read back from its text
  \<^verbatim>\<open>vendor-publisher/name[:version]\<close>.\<close>

theorem group_id_roundtrip:
  assumes "group_id_wf gi"
  shows "PluginGroupIdentifierFromID (group_id_text gi) = Some gi"
proof -
  let ?v = "gi_Vendor gi" and ?p = "gi_Publisher gi" and ?n = "gi_Name gi" and ?ver = "gi_Version gi"
  let ?nv = "?n @ (if ?ver = '''' then '''' else '':'' @ ?ver)"
  have shape: "group_id_text gi = (?v @ ''-'' @ ?p) @ CHR ''/'' # ?nv"
    by (simp add: group_id_text_def group_id_of_def)
  have slash: "split_on CHR ''/'' (group_id_text gi) = [?v @ ''-'' @ ?p, ?nv]"
    using assms unfolding shape by (subst split_on_append) (auto simp: group_id_wf_def go_str)
  have dash: "split_on CHR ''-'' (?v @ ''-'' @ ?p) = [?v, ?p]"
    using assms by (simp add: group_id_wf_def go_str)
  have colon: "split_on CHR '':'' ?nv = (if ?ver = '''' then [?n] else [?n, ?ver])"
    using assms by (auto simp: group_id_wf_def go_str)
  show ?thesis
    using assms unfolding PluginGroupIdentifierFromID_def slash list.case dash colon
    by (auto simp: group_id_wf_def)
qed

theorem group_id_roundtrip_witness:
  "PluginGroupIdentifierFromID ''vmware-tkg/default:v2.1.0'' =
     Some \<lparr>gi_Vendor = ''vmware'', gi_Publisher = ''tkg'', gi_Name = ''default'', gi_Version = ''v2.1.0''\<rparr>"
  using group_id_roundtrip [of "\<lparr>gi_Vendor = ''vmware'', gi_Publisher = ''tkg'', gi_Name = ''default'', gi_Version = ''v2.1.0''\<rparr>"]
  by (simp add: group_id_wf_def group_id_text_def group_id_of_def)

text \<open>Everything the parser accepts has the parts it returned.\<close>

lemma group_id_parse_sound:
  assumes "PluginGroupIdentifierFromID s = Some gi"
  shows "gi_Vendor gi \<noteq> '''' \<and> gi_Publisher gi \<noteq> '''' \<and> gi_Name gi \<noteq> ''''"
  using assms by (auto simp: PluginGroupIdentifierFromID_def Let_def split: list.splits if_splits)

end
