(* ===== verification/Inventory_Rows.thy ===== *)
theory Inventory_Rows
  imports Inventory_Types "HOL-Library.Product_Lexorder"
begin

text \<open>
  From database rows to inventory entries and groups: \<open>extractPluginsFromRows\<close>,
  \<open>extractGroupsFromRows\<close>, \<open>appendPlugin\<close> and \<open>appendGroup\<close> of
  \<^verbatim>\<open>pkg/plugininventory/sqlite_inventory.go\<close>.

  Both loops keep a current item and a current version and flush them when the identifier or the
  version changes. The locale \<open>row_grouping\<close> states what the two loop bodies have in common and
  proves that the loop builds one result per maximal run of rows with the same identifier, with one
  list of elements per version; it is interpreted on both loops.
\<close>

section \<open>Maximal runs\<close>

definition add_run :: "('a \<Rightarrow> 'k) \<Rightarrow> 'a list list \<Rightarrow> 'a \<Rightarrow> 'a list list" where
  "add_run f R x =
     (if R \<noteq> [] \<and> f (hd (last R)) = f x then butlast R @ [last R @ [x]] else R @ [[x]])"

definition runs :: "('a \<Rightarrow> 'k) \<Rightarrow> 'a list \<Rightarrow> 'a list list" where
  "runs f xs = foldl (add_run f) [] xs"

lemma runs_Nil [simp]: "runs f [] = []"
  by (simp add: runs_def)

lemma runs_snoc: "runs f (xs @ [x]) = add_run f (runs f xs) x"
  by (simp add: runs_def)

lemma runs_nonempty: "r \<in> set (runs f xs) \<Longrightarrow> r \<noteq> []"
proof (induction xs arbitrary: r rule: rev_induct)
  case (snoc x xs)
  then show ?case
    by (auto simp: runs_snoc add_run_def split: if_splits dest: in_set_butlastD)
qed simp

lemma runs_eq_Nil [simp]: "runs f xs = [] \<longleftrightarrow> xs = []"
  by (cases xs rule: rev_cases) (auto simp: runs_snoc add_run_def)

lemma concat_runs [simp]: "concat (runs f xs) = xs"
proof (induction xs rule: rev_induct)
  case (snoc x xs)
  show ?case
  proof (cases "runs f xs \<noteq> [] \<and> f (hd (last (runs f xs))) = f x")
    case True
    then have "concat (butlast (runs f xs)) @ last (runs f xs) = xs"
      by (metis append_butlast_last_id concat.simps(1,2) concat_append self_append_conv snoc.IH)
    with True show ?thesis by (simp add: runs_snoc add_run_def)
  next
    case False
    then show ?thesis using snoc.IH by (auto simp: runs_snoc add_run_def)
  qed
qed simp

lemma runs_const: "r \<in> set (runs f xs) \<Longrightarrow> x \<in> set r \<Longrightarrow> f x = f (hd r)"
proof (induction xs arbitrary: r x rule: rev_induct)
  case (snoc y xs)
  let ?R = "runs f xs"
  show ?case
  proof (cases "?R \<noteq> [] \<and> f (hd (last ?R)) = f y")
    case True
    then have ne: "last ?R \<noteq> []" using runs_nonempty by (metis last_in_set)
    from True snoc.prems(1) consider "r \<in> set (butlast ?R)" | "r = last ?R @ [y]"
      by (auto simp: runs_snoc add_run_def)
    then show ?thesis
    proof cases
      case 1
      then show ?thesis using snoc.IH snoc.prems(2) by (metis in_set_butlastD)
    next
      case 2
      then show ?thesis using snoc.IH [of "last ?R"] snoc.prems(2) True ne by auto
    qed
  next
    case False
    then show ?thesis using snoc by (auto simp: runs_snoc add_run_def)
  qed
qed simp

lemma last_last_runs: "xs \<noteq> [] \<Longrightarrow> last (last (runs f xs)) = last xs"
  by (cases xs rule: rev_cases) (auto simp: runs_snoc add_run_def)

lemma key_last_run:
  assumes "xs \<noteq> []"
  shows "f (hd (last (runs f xs))) = f (last xs)"
proof -
  have R: "last (runs f xs) \<in> set (runs f xs)" using assms by simp
  then have "last (last (runs f xs)) \<in> set (last (runs f xs))"
    using runs_nonempty by (intro last_in_set)
  from runs_const [OF R this] show ?thesis unfolding last_last_runs [OF assms] by simp
qed

lemma hd_run_in: "r \<in> set (runs f xs) \<Longrightarrow> hd r \<in> set xs"
  using runs_nonempty [of r f xs] concat_runs [of f xs] by (metis UN_I hd_in_set set_concat)

lemma sorted_last_max: "sorted (map f xs) \<Longrightarrow> y \<in> set xs \<Longrightarrow> f y \<le> f (last xs)"
  by (cases xs rule: rev_cases) (auto simp: sorted_append)

text \<open>On a list sorted by the key the runs are the groups.\<close>

lemma runs_sorted:
  fixes f :: "'a \<Rightarrow> 'k :: linorder"
  assumes "sorted (map f xs)"
  shows "sorted_wrt (<) (map (\<lambda>r. f (hd r)) (runs f xs))"
  using assms
proof (induction xs rule: rev_induct)
  case (snoc x xs)
  let ?R = "runs f xs"
  have IH: "sorted_wrt (<) (map (\<lambda>r. f (hd r)) ?R)" using snoc by (simp add: sorted_append)
  show ?case
  proof (cases "?R \<noteq> [] \<and> f (hd (last ?R)) = f x")
    case True
    then have ne: "last ?R \<noteq> []" using runs_nonempty by (metis last_in_set)
    have "map (\<lambda>r. f (hd r)) (butlast ?R @ [last ?R @ [x]]) = map (\<lambda>r. f (hd r)) (butlast ?R @ [last ?R])"
      using ne by simp
    with True IH show ?thesis by (simp add: runs_snoc add_run_def)
  next
    case False
    have "f (hd r) < f x" if r: "r \<in> set ?R" for r
    proof -
      have ne: "xs \<noteq> []" using r by auto
      have "f (hd r) \<le> f (last xs)"
        using snoc.prems hd_run_in [OF r] by (intro sorted_last_max) (auto simp: sorted_append)
      moreover have "f (last xs) \<le> f x" using snoc.prems ne by (auto simp: sorted_append)
      moreover have "f (last xs) \<noteq> f x" using False ne key_last_run [OF ne, of f] by simp
      ultimately show ?thesis by simp
    qed
    with False IH show ?thesis by (auto simp: runs_snoc add_run_def sorted_wrt_append)
  qed
qed simp

lemma concat_select:
  "distinct (map g R) \<Longrightarrow> r \<in> set R \<Longrightarrow> concat (map (\<lambda>r'. if g r' = g r then r' else []) R) = r"
proof (induction R)
  case (Cons r' R)
  show ?case
  proof (cases "r = r'")
    case True
    with Cons.prems(1) have "\<forall>x \<in> set R. g x \<noteq> g r" by (auto simp: rev_image_eqI)
    then have "concat (map (\<lambda>r'. if g r' = g r then r' else []) R) = []" by simp
    with True show ?thesis by simp
  next
    case False
    with Cons show ?thesis by (auto simp: rev_image_eqI)
  qed
qed simp

lemma run_is_filter:
  assumes "distinct (map (\<lambda>r. f (hd r)) (runs f xs))" "r \<in> set (runs f xs)"
  shows "filter (\<lambda>x. f x = f (hd r)) xs = r"
proof -
  have part: "filter (\<lambda>x. f x = k) q = (if f (hd q) = k then q else [])" if "q \<in> set (runs f xs)" for q k
    using runs_const [OF that] by (auto simp: filter_empty_conv filter_id_conv)
  have "filter (\<lambda>x. f x = f (hd r)) xs = concat (map (filter (\<lambda>x. f x = f (hd r))) (runs f xs))"
    by (metis concat_runs filter_concat)
  also have "\<dots> = concat (map (\<lambda>q. if f (hd q) = f (hd r) then q else []) (runs f xs))"
    by (rule arg_cong [where f = concat], rule map_cong [OF refl], rule part)
  also have "\<dots> = r" using concat_select [OF assms] .
  finally show ?thesis .
qed

section \<open>The grouping loop\<close>

text \<open>The local variables of the two loops; \<open>es_panic\<close> marks the dereference of a nil current
  item.\<close>

record ('c, 'e, 'r) ext_state =
  es_id :: string
  es_version :: string
  es_current :: "'c option"
  es_elems :: "'e list"
  es_versions :: "(string \<times> 'e list) list"
  es_all :: "'r list"
  es_panic :: bool

definition ext_init :: "('c, 'e, 'r) ext_state" where
  "ext_init = \<lparr>es_id = '''', es_version = '''', es_current = None, es_elems = [], es_versions = [],
     es_all = [], es_panic = False\<rparr>"

lemma ext_init_simps [simp]:
  "es_id ext_init = ''''" "es_version ext_init = ''''" "es_current ext_init = None"
  "es_elems ext_init = []" "es_versions ext_init = []" "es_all ext_init = []" "es_panic ext_init = False"
  by (simp_all add: ext_init_def)

definition stored_versions :: "('c, 'e, 'r) ext_state \<Rightarrow> (string \<times> 'e list) list" where
  "stored_versions s = AList.update (es_version s) (es_elems s) (es_versions s)"

locale row_grouping =
  fixes rid rver :: "'row \<Rightarrow> string"
    and mk :: "'row \<Rightarrow> 'c"
    and upd :: "'row \<Rightarrow> 'c \<Rightarrow> 'c"
    and ent :: "'row \<Rightarrow> 'e"
    and fin :: "'c \<Rightarrow> (string \<times> 'e list) list \<Rightarrow> 'r"
    and step :: "('c, 'e, 'r) ext_state \<Rightarrow> 'row \<Rightarrow> ('c, 'e, 'r) ext_state"
    and finish :: "('c, 'e, 'r) ext_state \<Rightarrow> 'r list"
  assumes step_same: "es_current s = Some c \<Longrightarrow> es_id s = rid x \<Longrightarrow> es_version s = rver x \<Longrightarrow>
      step s x = s\<lparr>es_elems := es_elems s @ [ent x]\<rparr>"
    and step_version: "es_current s = Some c \<Longrightarrow> es_id s = rid x \<Longrightarrow> es_version s \<noteq> rver x \<Longrightarrow>
      es_version s \<noteq> '''' \<Longrightarrow>
      step s x = s\<lparr>es_version := rver x, es_current := Some (upd x c), es_elems := [ent x],
                   es_versions := stored_versions s\<rparr>"
    and step_new: "es_current s = Some c \<Longrightarrow> es_id s \<noteq> rid x \<Longrightarrow> rver x \<noteq> '''' \<Longrightarrow>
      step s x = s\<lparr>es_id := rid x, es_version := rver x, es_current := Some (upd x (mk x)),
                   es_elems := [ent x], es_versions := [], es_all := es_all s @ [fin c (stored_versions s)]\<rparr>"
    and step_init: "rid x \<noteq> '''' \<Longrightarrow> rver x \<noteq> '''' \<Longrightarrow>
      step ext_init x = ext_init\<lparr>es_id := rid x, es_version := rver x,
        es_current := Some (upd x (mk x)), es_elems := [ent x]\<rparr>"
    and finish_init: "finish ext_init = []"
    and finish_current: "es_current s = Some c \<Longrightarrow> finish s = es_all s @ [fin c (stored_versions s)]"
begin

definition vmap :: "'row list list \<Rightarrow> (string \<times> 'e list) list" where
  "vmap gs = foldl (\<lambda>m g. AList.update (rver (hd g)) (map ent g) m) [] gs"

definition item :: "'row list \<Rightarrow> 'c" where
  "item r = foldl (\<lambda>c g. upd (hd g) c) (mk (hd r)) (runs rver r)"

definition build :: "'row list \<Rightarrow> 'r" where
  "build r = fin (item r) (vmap (runs rver r))"

definition loop_inv :: "'row list \<Rightarrow> ('c, 'e, 'r) ext_state \<Rightarrow> bool" where
  "loop_inv xs s \<longleftrightarrow>
     (let r = last (runs rid xs); V = runs rver r in
      es_id s = rid (last xs) \<and> es_version s = rver (last xs) \<and> es_current s = Some (item r) \<and>
      es_elems s = map ent (last V) \<and> es_versions s = vmap (butlast V) \<and>
      es_all s = map build (butlast (runs rid xs)) \<and> \<not> es_panic s)"

lemma vmap_snoc [simp]: "vmap (gs @ [g]) = AList.update (rver (hd g)) (map ent g) (vmap gs)"
  by (simp add: vmap_def)

lemma runs_single [simp]: "runs f [x] = [[x]]"
  by (simp add: runs_def add_run_def)

lemma stored_versions_inv:
  assumes "loop_inv xs s" "xs \<noteq> []"
  shows "stored_versions s = vmap (runs rver (last (runs rid xs)))"
proof -
  let ?r = "last (runs rid xs)"
  let ?V = "runs rver ?r"
  have r: "?r \<noteq> []" using assms(2) runs_nonempty [of ?r rid xs] by simp
  then have "vmap ?V = vmap (butlast ?V @ [last ?V])" by simp
  also have "\<dots> = AList.update (rver (hd (last ?V))) (map ent (last ?V)) (vmap (butlast ?V))"
    by (rule vmap_snoc)
  also have "\<dots> = stored_versions s"
    using assms key_last_run [OF r, of rver] last_last_runs [OF assms(2), of rid]
    by (simp add: loop_inv_def Let_def stored_versions_def)
  finally show ?thesis by simp
qed

lemma step_inv:
  assumes inv: "loop_inv xs s" and ne: "xs \<noteq> []" and vx: "rver x \<noteq> ''''" and vxs: "rver (last xs) \<noteq> ''''"
  shows "loop_inv (xs @ [x]) (step s x)"
proof -
  let ?R = "runs rid xs"
  let ?r = "last ?R"
  let ?V = "runs rver ?r"
  have s: "es_id s = rid (last xs)" "es_version s = rver (last xs)" "es_current s = Some (item ?r)"
    "es_elems s = map ent (last ?V)" "es_versions s = vmap (butlast ?V)"
    "es_all s = map build (butlast ?R)" "\<not> es_panic s"
    using inv by (simp_all add: loop_inv_def Let_def)
  have R: "?R \<noteq> []" "?r \<noteq> []" using ne runs_nonempty [of ?r rid xs] by simp_all
  have V: "?V \<noteq> []" "last ?V \<noteq> []" using R runs_nonempty [of "last ?V" rver ?r] by simp_all
  have keyR: "rid (hd ?r) = rid (last xs)" using key_last_run [OF ne] .
  have keyV: "rver (hd (last ?V)) = rver (last xs)"
    using key_last_run [OF R(2), of rver] last_last_runs [OF ne, of rid] by simp
  have sv: "stored_versions s = vmap ?V" using stored_versions_inv [OF inv ne] .
  show ?thesis
  proof (cases "rid (last xs) = rid x")
    case same_id: True
    have R': "runs rid (xs @ [x]) = butlast ?R @ [?r @ [x]]"
      using R same_id keyR by (simp add: runs_snoc add_run_def)
    have hd': "hd (?r @ [x]) = hd ?r" using R by simp
    show ?thesis
    proof (cases "rver (last xs) = rver x")
      case True
      then have V': "runs rver (?r @ [x]) = butlast ?V @ [last ?V @ [x]]"
        using V keyV by (simp add: runs_snoc add_run_def)
      have "item (?r @ [x]) = item ?r"
      proof -
        have "foldl (\<lambda>c g. upd (hd g) c) c0 (butlast ?V @ [last ?V @ [x]]) =
            foldl (\<lambda>c g. upd (hd g) c) c0 (butlast ?V @ [last ?V])" for c0
          using V(2) by (simp del: append_butlast_last_id)
        then show ?thesis unfolding item_def V' hd' append_butlast_last_id [OF V(1)] .
      qed
      with True same_id s R' V' show ?thesis
        by (simp add: loop_inv_def Let_def step_same)
    next
      case False
      then have V': "runs rver (?r @ [x]) = ?V @ [[x]]"
        using V keyV by (simp add: runs_snoc add_run_def)
      have "item (?r @ [x]) = upd x (item ?r)"
        unfolding item_def V' hd' by simp
      with False same_id s R' V' sv vxs show ?thesis
        by (simp add: loop_inv_def Let_def step_version)
    qed
  next
    case False
    then have R': "runs rid (xs @ [x]) = ?R @ [[x]]"
      using keyR by (simp add: runs_snoc add_run_def)
    have "map build ?R = map build (butlast ?R) @ [build ?r]"
      using R by (metis append_butlast_last_id list.simps(8,9) map_append)
    with False s R' sv vx show ?thesis
      by (simp add: loop_inv_def Let_def step_new build_def item_def vmap_def)
  qed
qed

lemma loop_inv_all:
  assumes "xs \<noteq> []" "\<And>x. x \<in> set xs \<Longrightarrow> rid x \<noteq> '''' \<and> rver x \<noteq> ''''"
  shows "loop_inv xs (foldl step ext_init xs)"
  using assms
proof (induction xs rule: rev_induct)
  case (snoc x xs)
  show ?case
  proof (cases "xs = []")
    case True
    with snoc.prems(2) show ?thesis
      by (simp add: step_init loop_inv_def Let_def item_def vmap_def)
  next
    case False
    with snoc show ?thesis by (simp add: step_inv)
  qed
qed simp

theorem loop_builds_runs:
  assumes "\<And>x. x \<in> set xs \<Longrightarrow> rid x \<noteq> '''' \<and> rver x \<noteq> ''''"
  shows "\<not> es_panic (foldl step ext_init xs) \<and>
    finish (foldl step ext_init xs) = map build (runs rid xs)"
proof (cases "xs = []")
  case True
  then show ?thesis by (simp add: finish_init)
next
  case False
  let ?s = "foldl step ext_init xs"
  have inv: "loop_inv xs ?s" using loop_inv_all [OF False assms] .
  have "map build (runs rid xs) = map build (butlast (runs rid xs)) @ [build (last (runs rid xs))]"
    using False by (metis append_butlast_last_id list.simps(8,9) map_append runs_eq_Nil)
  with inv stored_versions_inv [OF inv False] show ?thesis
    by (simp add: loop_inv_def Let_def finish_current build_def)
qed

text \<open>When the rows of a run are ordered by version, the version map holds for every version the
  elements of its rows.\<close>

lemma vmap_lookup:
  assumes "distinct (map (\<lambda>g. rver (hd g)) gs)"
  shows "map_of (vmap gs) v =
    (case List.find (\<lambda>g. rver (hd g) = v) gs of None \<Rightarrow> None | Some g \<Rightarrow> Some (map ent g))"
  using assms
proof (induction gs rule: rev_induct)
  case Nil
  then show ?case by (simp add: vmap_def)
next
  case (snoc g gs)
  have find_append: "List.find P (ys @ zs) = (case List.find P ys of None \<Rightarrow> List.find P zs | Some y \<Rightarrow> Some y)"
    for P and ys zs :: "'row list list" by (induction ys) auto
  have "List.find (\<lambda>h. rver (hd h) = rver (hd g)) gs = None"
    using snoc.prems by (auto simp: find_None_iff intro: rev_image_eqI)
  with snoc show ?case by (auto simp: find_append split: option.splits)
qed

lemma vmap_sorted:
  assumes "sorted (map rver r)"
  shows "map_of (vmap (runs rver r)) v =
    (if filter (\<lambda>x. rver x = v) r = [] then None else Some (map ent (filter (\<lambda>x. rver x = v) r)))"
proof -
  let ?V = "runs rver r"
  have dist: "distinct (map (\<lambda>g. rver (hd g)) ?V)"
    using runs_sorted [OF assms] by (simp add: strict_sorted_iff)
  show ?thesis
  proof (cases "List.find (\<lambda>g. rver (hd g) = v) ?V")
    case None
    then have "\<forall>g \<in> set ?V. rver (hd g) \<noteq> v" by (auto simp: find_None_iff)
    then have "\<forall>x \<in> set r. rver x \<noteq> v"
      using runs_const [of _ rver r] by (metis UN_E concat_runs set_concat)
    then show ?thesis using None dist by (simp add: vmap_lookup filter_empty_conv)
  next
    case (Some g)
    then have g: "g \<in> set ?V" "rver (hd g) = v" by (auto simp: find_Some_iff)
    have "filter (\<lambda>x. rver x = v) r = g" using run_is_filter [OF dist g(1)] g(2) by simp
    then show ?thesis using Some dist runs_nonempty [OF g(1)] by (simp add: vmap_lookup)
  qed
qed

end

end
