(* ===== verification/Inventory_Extract.thy ===== *)
theory Inventory_Extract
  imports Inventory_Rows
begin

text \<open>
  The two extraction loops of \<^verbatim>\<open>pkg/plugininventory/sqlite_inventory.go\<close> on database rows, as
  instances of \<open>row_grouping\<close>. The columns are declared \<^verbatim>\<open>TEXT NOT NULL\<close>, so scanning a row into
  strings does not fail; the error of \<^verbatim>\<open>rows.Err()\<close> is an argument.
\<close>

section \<open>Rows\<close>

record plugin_row =
  pr_name :: string
  pr_target :: string
  pr_recommendedVersion :: string
  pr_version :: string
  pr_hidden :: string
  pr_description :: string
  pr_publisher :: string
  pr_vendor :: string
  pr_os :: string
  pr_arch :: string
  pr_digest :: string
  pr_uri :: string

record group_row =
  gr_vendor :: string
  gr_publisher :: string
  gr_groupName :: string
  gr_groupVersion :: string
  gr_description :: string
  gr_pluginName :: string
  gr_target :: string
  gr_pluginVersion :: string
  gr_mandatory :: string
  gr_hidden :: string

section \<open>Post-processing\<close>

definition appendPlugin :: "'v lib \<Rightarrow> inventory_entry list \<Rightarrow> inventory_entry \<Rightarrow> inventory_entry list" where
  "appendPlugin L allPlugins plugin =
     allPlugins @
     [if ie_RecommendedVersion plugin = '''' \<and> length (ie_Artifacts plugin) > 0
      then plugin\<lparr>ie_RecommendedVersion := last (snd (SortVersions L (range_keys L (ie_Artifacts plugin))))\<rparr>
      else plugin]"

definition appendGroup ::
    "'v lib \<Rightarrow> plugin_group list \<Rightarrow> plugin_group \<Rightarrow> (string \<times> string) list \<Rightarrow> plugin_group list" where
  "appendGroup L allGroups g versionDesc =
     allGroups @
     [if g_RecommendedVersion g = '''' \<and> length (g_Versions g) > 0
      then (let v = last (snd (SortVersions L (range_keys L (g_Versions g))))
            in g\<lparr>g_RecommendedVersion := v, g_Description := get_or '''' versionDesc v\<rparr>)
      else g]"

section \<open>The loops\<close>

definition row_target :: "'v lib \<Rightarrow> plugin_row \<Rightarrow> string" where
  "row_target L row = StringToTarget L (to_lower (pr_target row))"

definition row_plugin_id :: "'v lib \<Rightarrow> plugin_row \<Rightarrow> string" where
  "row_plugin_id L row = PluginNameTarget (pr_name row) (row_target L row)"

definition new_entry :: "'v lib \<Rightarrow> plugin_row \<Rightarrow> inventory_entry" where
  "new_entry L row =
     \<lparr>ie_Name = pr_name row, ie_Target = row_target L row, ie_Description = pr_description row,
      ie_Publisher = pr_publisher row, ie_Vendor = pr_vendor row,
      ie_RecommendedVersion = pr_recommendedVersion row,
      ie_Hidden = parse_bool_or_false (pr_hidden row), ie_Artifacts = []\<rparr>"

definition update_entry :: "plugin_row \<Rightarrow> inventory_entry \<Rightarrow> inventory_entry" where
  "update_entry row e =
     e\<lparr>ie_Description := pr_description row, ie_Publisher := pr_publisher row,
       ie_Vendor := pr_vendor row, ie_RecommendedVersion := pr_recommendedVersion row\<rparr>"

definition row_artifact :: "string \<Rightarrow> plugin_row \<Rightarrow> artifact" where
  "row_artifact uriPrefix row =
     \<lparr>a_Image = uriPrefix @ ''/'' @ pr_uri row, a_URI = '''', a_Digest = pr_digest row,
      a_OS = pr_os row, a_Arch = pr_arch row\<rparr>"

type_synonym plugin_loop = "(inventory_entry, artifact, inventory_entry) ext_state"

definition plugin_row_step :: "'v lib \<Rightarrow> string \<Rightarrow> plugin_loop \<Rightarrow> plugin_row \<Rightarrow> plugin_loop" where
  "plugin_row_step L uriPrefix s row =
     (let s1 = (if es_id s \<noteq> row_plugin_id L row
                then (let s' = (case es_current s of
                                  None \<Rightarrow> s
                                | Some cur \<Rightarrow>
                                    s\<lparr>es_elems := [],
                                      es_all := appendPlugin L (es_all s) (cur\<lparr>ie_Artifacts := stored_versions s\<rparr>)\<rparr>)
                      in s'\<lparr>es_id := row_plugin_id L row, es_current := Some (new_entry L row),
                             es_version := '''', es_versions := []\<rparr>)
                else s);
          s2 = (if es_version s1 \<noteq> pr_version row
                then (let s' = (if es_version s1 \<noteq> ''''
                                then s1\<lparr>es_versions := stored_versions s1, es_elems := []\<rparr> else s1)
                      in case es_current s' of
                           None \<Rightarrow> s'\<lparr>es_panic := True\<rparr>
                         | Some cur \<Rightarrow> s'\<lparr>es_current := Some (update_entry row cur), es_version := pr_version row\<rparr>)
                else s1)
      in s2\<lparr>es_elems := es_elems s2 @ [row_artifact uriPrefix row]\<rparr>)"

definition plugin_rows_finish :: "'v lib \<Rightarrow> plugin_loop \<Rightarrow> inventory_entry list" where
  "plugin_rows_finish L s =
     (case es_current s of
        None \<Rightarrow> es_all s
      | Some cur \<Rightarrow> appendPlugin L (es_all s) (cur\<lparr>ie_Artifacts := stored_versions s\<rparr>))"

text \<open>\<open>None\<close> is the nil dereference; otherwise the entries and the error of \<^verbatim>\<open>rows.Err()\<close>.\<close>

definition extractPluginsFromRows ::
    "'v lib \<Rightarrow> string \<Rightarrow> plugin_row list \<Rightarrow> err option \<Rightarrow> (inventory_entry list \<times> err option) option" where
  "extractPluginsFromRows L uriPrefix rows rowsErr =
     (let s = foldl (plugin_row_step L uriPrefix) ext_init rows
      in if es_panic s then None else Some (plugin_rows_finish L s, rowsErr))"

definition row_group_id :: "group_row \<Rightarrow> string" where
  "row_group_id row = group_id_of (gr_vendor row) (gr_publisher row) (gr_groupName row)"

definition new_group :: "group_row \<Rightarrow> plugin_group" where
  "new_group row =
     \<lparr>g_Vendor = gr_vendor row, g_Publisher = gr_publisher row, g_Name = gr_groupName row,
      g_Description = '''', g_Hidden = False, g_RecommendedVersion = '''', g_Versions = []\<rparr>"

definition row_group_entry :: "'v lib \<Rightarrow> group_row \<Rightarrow> group_plugin_entry" where
  "row_group_entry L row =
     \<lparr>id_Name = gr_pluginName row, id_Target = StringToTarget L (gr_target row),
      id_Version = gr_pluginVersion row, gp_Mandatory = parse_bool_or_false (gr_mandatory row)\<rparr>"

type_synonym group_loop = "(plugin_group \<times> (string \<times> string) list, group_plugin_entry, plugin_group) ext_state"

text \<open>The current item of the group loop is the group with its version descriptions. Assigning into
  the nil map of descriptions is the panic here.\<close>

definition group_row_step :: "'v lib \<Rightarrow> group_loop \<Rightarrow> group_row \<Rightarrow> group_loop" where
  "group_row_step L s row =
     (let s1 = (if es_id s \<noteq> row_group_id row
                then (let s' = (case es_current s of
                                  None \<Rightarrow> s
                                | Some (cur, versionDesc) \<Rightarrow>
                                    s\<lparr>es_elems := [],
                                      es_all := appendGroup L (es_all s) (cur\<lparr>g_Versions := stored_versions s\<rparr>) versionDesc\<rparr>)
                      in s'\<lparr>es_id := row_group_id row, es_current := Some (new_group row, []),
                             es_version := '''', es_versions := []\<rparr>)
                else s);
          s2 = (if es_version s1 \<noteq> gr_groupVersion row
                then (let s' = (if es_version s1 \<noteq> ''''
                                then s1\<lparr>es_versions := stored_versions s1, es_elems := []\<rparr> else s1)
                      in case es_current s' of
                           None \<Rightarrow> s'\<lparr>es_panic := True\<rparr>
                         | Some (cur, versionDesc) \<Rightarrow>
                             s'\<lparr>es_current := Some (cur, AList.update (gr_groupVersion row) (gr_description row) versionDesc),
                                es_version := gr_groupVersion row\<rparr>)
                else s1)
      in s2\<lparr>es_elems := es_elems s2 @ [row_group_entry L row]\<rparr>)"

definition group_rows_finish :: "'v lib \<Rightarrow> group_loop \<Rightarrow> plugin_group list" where
  "group_rows_finish L s =
     (case es_current s of
        None \<Rightarrow> es_all s
      | Some (cur, versionDesc) \<Rightarrow>
          appendGroup L (es_all s) (cur\<lparr>g_Versions := stored_versions s\<rparr>) versionDesc)"

definition extractGroupsFromRows ::
    "'v lib \<Rightarrow> group_row list \<Rightarrow> err option \<Rightarrow> (plugin_group list \<times> err option) option" where
  "extractGroupsFromRows L rows rowsErr =
     (let s = foldl (group_row_step L) ext_init rows
      in if es_panic s then None else Some (group_rows_finish L s, rowsErr))"

section \<open>Both loops group rows\<close>

definition finish_plugin :: "'v lib \<Rightarrow> inventory_entry \<Rightarrow> artifacts \<Rightarrow> inventory_entry" where
  "finish_plugin L cur vs = hd (appendPlugin L [] (cur\<lparr>ie_Artifacts := vs\<rparr>))"

definition finish_group where
  "finish_group L cur vs = hd (appendGroup L [] ((fst cur)\<lparr>g_Versions := vs\<rparr>) (snd cur))"

definition group_upd where
  "group_upd row cur = (fst cur, AList.update (gr_groupVersion row) (gr_description row) (snd cur))"

lemma appendPlugin_snoc: "appendPlugin L all p = all @ [hd (appendPlugin L [] p)]"
  by (simp add: appendPlugin_def)

lemma appendGroup_snoc: "appendGroup L all g d = all @ [hd (appendGroup L [] g d)]"
  by (simp add: appendGroup_def)

lemma stored_versions_cong:
  "es_version s = es_version s' \<Longrightarrow> es_elems s = es_elems s' \<Longrightarrow> es_versions s = es_versions s' \<Longrightarrow>
    stored_versions s = stored_versions s'"
  by (simp add: stored_versions_def)

interpretation plugin_rows: row_grouping "row_plugin_id L" pr_version "new_entry L" update_entry
  "row_artifact uriPrefix" "finish_plugin L" "plugin_row_step L uriPrefix" "plugin_rows_finish L"
  for L uriPrefix
  by unfold_locales
    (auto simp: plugin_row_step_def plugin_rows_finish_def finish_plugin_def Let_def
      appendPlugin_snoc [of L "es_all _"] ext_init_def)

interpretation group_rows: row_grouping row_group_id gr_groupVersion "\<lambda>row. (new_group row, [])" group_upd
  "row_group_entry L" "finish_group L" "group_row_step L" "group_rows_finish L"
  for L
  by unfold_locales
    (auto simp: group_row_step_def group_rows_finish_def finish_group_def group_upd_def Let_def
      appendGroup_snoc [of L "es_all _"] ext_init_def)

section \<open>What the plugin loop returns\<close>

abbreviation plugin_item :: "'v lib \<Rightarrow> plugin_row list \<Rightarrow> inventory_entry" where
  "plugin_item L \<equiv> row_grouping.item pr_version (new_entry L) update_entry"

abbreviation plugin_vmap :: "string \<Rightarrow> plugin_row list list \<Rightarrow> artifacts" where
  "plugin_vmap u \<equiv> row_grouping.vmap pr_version (row_artifact u)"

abbreviation plugin_build :: "'v lib \<Rightarrow> string \<Rightarrow> plugin_row list \<Rightarrow> inventory_entry" where
  "plugin_build L u \<equiv>
     row_grouping.build pr_version (new_entry L) update_entry (row_artifact u) (finish_plugin L)"

lemma runs_cong:
  assumes "\<And>x y. x \<in> set xs \<Longrightarrow> y \<in> set xs \<Longrightarrow> f x = f y \<longleftrightarrow> g x = g y"
  shows "runs f xs = runs g xs"
  using assms
proof (induction xs rule: rev_induct)
  case (snoc x xs)
  then have IH: "runs f xs = runs g xs" by auto
  have "f (hd (last (runs g xs))) = f x \<longleftrightarrow> g (hd (last (runs g xs))) = g x" if "runs g xs \<noteq> []"
    using snoc.prems hd_run_in [of "last (runs g xs)" g xs] that by auto
  then show ?case by (auto simp: runs_snoc add_run_def IH)
qed simp

lemma runs_cong_key:
  "(\<And>x. x \<in> set xs \<Longrightarrow> f x = g x) \<Longrightarrow> runs f xs = runs g xs"
  by (rule runs_cong) auto

abbreviation row_key :: "plugin_row \<Rightarrow> string \<times> string" where
  "row_key r \<equiv> (pr_name r, pr_target r)"

definition row_ok :: "'v lib \<Rightarrow> plugin_row \<Rightarrow> bool" where
  "row_ok L r \<longleftrightarrow> pr_name r \<noteq> '''' \<and> CHR ''_'' \<notin> set (pr_name r) \<and> pr_version r \<noteq> '''' \<and>
     row_target L r = pr_target r"

definition rows_sorted :: "plugin_row list \<Rightarrow> bool" where
  "rows_sorted rows \<longleftrightarrow> sorted (map (\<lambda>r. (row_key r, pr_version r)) rows)"

lemma rows_sorted_key: "rows_sorted rows \<Longrightarrow> sorted (map row_key rows)"
  unfolding rows_sorted_def sorted_map
  by (rule sorted_wrt_mono_rel) (auto simp: less_eq_prod_def)

lemma rows_sorted_versions:
  assumes "rows_sorted rows" "\<And>x. x \<in> set rows \<Longrightarrow> row_key x = k"
  shows "sorted (map pr_version rows)"
  using assms(1) unfolding rows_sorted_def sorted_map
  by (rule sorted_wrt_mono_rel [rotated]) (use assms(2) in \<open>auto simp: less_eq_prod_def\<close>)

lemma run_of: "x \<in> set xs \<Longrightarrow> \<exists>r \<in> set (runs f xs). x \<in> set r"
  using concat_runs [of f xs] by (metis UN_E set_concat)

lemma run_sub: "r \<in> set (runs f xs) \<Longrightarrow> x \<in> set r \<Longrightarrow> x \<in> set xs"
  by (subst concat_runs [of f xs, symmetric]) (auto simp del: concat_runs)

lemma run_keys: "(\<lambda>r. f (hd r)) ` set (runs f xs) = f ` set xs"
proof (intro equalityI subsetI)
  fix k assume "k \<in> f ` set xs"
  then obtain x where x: "x \<in> set xs" "k = f x" by blast
  from run_of [OF x(1), of f] obtain r where r: "r \<in> set (runs f xs)" "x \<in> set r" by blast
  from runs_const [OF this] x(2) have "k = f (hd r)" by simp
  with r(1) show "k \<in> (\<lambda>r. f (hd r)) ` set (runs f xs)" by (rule image_eqI [rotated])
next
  fix k assume "k \<in> (\<lambda>r. f (hd r)) ` set (runs f xs)"
  then show "k \<in> f ` set xs" using hd_run_in [of _ f xs] by blast
qed

lemma row_plugin_id_key:
  assumes "row_ok L x" "row_ok L y"
  shows "row_plugin_id L x = row_plugin_id L y \<longleftrightarrow> row_key x = row_key y"
proof
  assume "row_plugin_id L x = row_plugin_id L y"
  then have "PluginNameTarget (pr_name x) (pr_target x) = PluginNameTarget (pr_name y) (pr_target y)"
    using assms by (simp add: row_plugin_id_def row_ok_def)
  from PluginNameTarget_inject [OF this] show "row_key x = row_key y"
    using assms by (simp add: row_ok_def)
next
  assume "row_key x = row_key y"
  then show "row_plugin_id L x = row_plugin_id L y"
    using assms by (simp add: row_plugin_id_def row_ok_def)
qed

lemma row_plugin_id_nonempty: "row_ok L x \<Longrightarrow> row_plugin_id L x \<noteq> ''''"
  by (simp add: row_ok_def row_plugin_id_def PluginNameTarget_def)

lemma item_fields:
  "ie_Name (plugin_item L r) = pr_name (hd r)"
  "ie_Target (plugin_item L r) = row_target L (hd r)"
proof -
  have "ie_Name (foldl (\<lambda>c g. update_entry (hd g) c) e V) = ie_Name e"
    "ie_Target (foldl (\<lambda>c g. update_entry (hd g) c) e V) = ie_Target e" for e V
    by (induction V arbitrary: e) (simp_all add: update_entry_def)
  then show "ie_Name (plugin_item L r) = pr_name (hd r)"
    "ie_Target (plugin_item L r) = row_target L (hd r)"
    by (simp_all add: plugin_rows.item_def new_entry_def)
qed

lemma build_fields:
  "ie_Name (plugin_build L u r) = pr_name (hd r)"
  "ie_Target (plugin_build L u r) = row_target L (hd r)"
  "ie_Artifacts (plugin_build L u r) = plugin_vmap u (runs pr_version r)"
  by (simp_all add: plugin_rows.build_def finish_plugin_def appendPlugin_def item_fields)

lemma extract_plugins_runs:
  assumes "\<And>r. r \<in> set rows \<Longrightarrow> row_ok L r"
  shows "extractPluginsFromRows L u rows e = Some (map (plugin_build L u) (runs row_key rows), e)"
proof -
  have "row_plugin_id L x \<noteq> '''' \<and> pr_version x \<noteq> ''''" if "x \<in> set rows" for x
    using assms [OF that] row_plugin_id_nonempty [of L x] by (simp add: row_ok_def)
  note loop = plugin_rows.loop_builds_runs [of rows L u, OF this]
  have "runs (row_plugin_id L) rows = runs row_key rows"
    by (rule runs_cong) (simp add: assms row_plugin_id_key)
  with loop show ?thesis by (simp add: extractPluginsFromRows_def Let_def)
qed

lemma run_artifacts:
  assumes "rows_sorted rows" "r \<in> set (runs row_key rows)"
  shows "map_of (plugin_vmap u (runs pr_version r)) v =
    (let rs = filter (\<lambda>x. row_key x = row_key (hd r) \<and> pr_version x = v) rows
     in if rs = [] then None else Some (map (row_artifact u) rs))"
proof -
  have "distinct (map (\<lambda>r. row_key (hd r)) (runs row_key rows))"
    using runs_sorted [OF rows_sorted_key [OF assms(1)]] by (simp add: strict_sorted_iff)
  from run_is_filter [OF this assms(2)] have r: "filter (\<lambda>x. row_key x = row_key (hd r)) rows = r" .
  have "sorted (map pr_version (filter (\<lambda>x. row_key x = row_key (hd r)) rows))"
    by (rule rows_sorted_versions [where k = "row_key (hd r)"])
      (use assms(1) in \<open>auto simp: rows_sorted_def intro: sorted_filter\<close>)
  then have "map_of (plugin_vmap u (runs pr_version r)) v =
      (if filter (\<lambda>x. pr_version x = v) r = [] then None
       else Some (map (row_artifact u) (filter (\<lambda>x. pr_version x = v) r)))"
    unfolding r by (rule plugin_rows.vmap_sorted)
  moreover have "filter (\<lambda>x. pr_version x = v) r = filter (\<lambda>x. row_key x = row_key (hd r) \<and> pr_version x = v) rows"
    by (subst r [symmetric]) (simp add: conj_commute)
  ultimately show ?thesis by (simp add: Let_def)
qed

text \<open>On rows ordered by name, target and version, the extraction returns one entry per
  name and target, and the artifact list of each version of an entry is the list of the artifacts of
  exactly the rows with that name, target and version, in their order.\<close>

theorem extract_plugins_groups:
  assumes "list_all (row_ok L) rows" "rows_sorted rows"
  shows "\<exists>all. extractPluginsFromRows L u rows e = Some (all, e) \<and>
    distinct (map (\<lambda>p. (ie_Name p, ie_Target p)) all) \<and>
    set (map (\<lambda>p. (ie_Name p, ie_Target p)) all) = set (map row_key rows) \<and>
    (\<forall>p \<in> set all. \<forall>v. map_of (ie_Artifacts p) v =
       (let rs = filter (\<lambda>r. row_key r = (ie_Name p, ie_Target p) \<and> pr_version r = v) rows
        in if rs = [] then None else Some (map (row_artifact u) rs)))"
proof -
  let ?R = "runs row_key rows"
  have ok: "row_ok L r" if "r \<in> set rows" for r using assms(1) that by (simp add: list_all_iff)
  have key: "(ie_Name (plugin_build L u r), ie_Target (plugin_build L u r)) = row_key (hd r)"
    if "r \<in> set ?R" for r
    using ok [OF hd_run_in [OF that]] by (simp add: build_fields row_ok_def)
  have keys: "map (\<lambda>p. (ie_Name p, ie_Target p)) (map (plugin_build L u) ?R) = map (\<lambda>r. row_key (hd r)) ?R"
    using key by simp
  have "distinct (map (\<lambda>r. row_key (hd r)) ?R)"
    using runs_sorted [OF rows_sorted_key [OF assms(2)]] by (simp add: strict_sorted_iff)
  moreover have "set (map (\<lambda>r. row_key (hd r)) ?R) = set (map row_key rows)"
    unfolding set_map by (rule run_keys)
  moreover have "map_of (ie_Artifacts (plugin_build L u r)) v =
       (let rs = filter (\<lambda>x. row_key x = row_key (hd r) \<and> pr_version x = v) rows
        in if rs = [] then None else Some (map (row_artifact u) rs))" if "r \<in> set ?R" for r v
    unfolding build_fields by (rule run_artifacts [OF assms(2) that])
  moreover have "extractPluginsFromRows L u rows e = Some (map (plugin_build L u) ?R, e)"
    by (rule extract_plugins_runs) (rule ok)
  ultimately show ?thesis
    unfolding keys [symmetric] using key by (intro exI [of _ "map (plugin_build L u) ?R"]) simp
qed

definition demo_row :: "string \<Rightarrow> string \<Rightarrow> string \<Rightarrow> string \<Rightarrow> plugin_row" where
  "demo_row n t v os = \<lparr>pr_name = n, pr_target = t, pr_recommendedVersion = '''', pr_version = v,
     pr_hidden = ''false'', pr_description = ''d'', pr_publisher = ''tkg'', pr_vendor = ''vmware'',
     pr_os = os, pr_arch = ''amd64'', pr_digest = ''0'', pr_uri = n @ v @ os\<rparr>"

lemma demo_row_ok: "n \<noteq> '''' \<Longrightarrow> CHR ''_'' \<notin> set n \<Longrightarrow> v \<noteq> '''' \<Longrightarrow> to_lower t = t \<Longrightarrow> row_ok dotted_lib (demo_row n t v os)"
  by (simp add: row_ok_def demo_row_def row_target_def dotted_lib_def)

definition demo_rows :: "plugin_row list" where
  "demo_rows = [demo_row ''a'' ''global'' ''v1.0.0'' ''darwin'', demo_row ''a'' ''global'' ''v1.0.0'' ''linux'',
     demo_row ''a'' ''global'' ''v1.1.0'' ''linux'', demo_row ''a'' ''kubernetes'' ''v1.0.0'' ''linux'',
     demo_row ''b'' ''global'' ''v0.1.0'' ''linux'']"

lemma demo_rows_facts: "list_all (row_ok dotted_lib) demo_rows" "rows_sorted demo_rows"
  by (simp_all add: demo_rows_def demo_row_ok to_lower_def lower_char_def Let_def)
    (simp add: rows_sorted_def demo_row_def less_eq_list_code less_list_code)

theorem extract_plugins_groups_witness:
  "\<exists>all. extractPluginsFromRows dotted_lib ''reg'' demo_rows None = Some (all, None) \<and>
    distinct (map (\<lambda>p. (ie_Name p, ie_Target p)) all) \<and>
    set (map (\<lambda>p. (ie_Name p, ie_Target p)) all) =
      {(''a'', ''global''), (''a'', ''kubernetes''), (''b'', ''global'')} \<and>
    (\<forall>p \<in> set all. ie_Name p = ''a'' \<longrightarrow> ie_Target p = ''global'' \<longrightarrow>
       map_of (ie_Artifacts p) ''v1.0.0'' =
         Some [row_artifact ''reg'' (demo_row ''a'' ''global'' ''v1.0.0'' ''darwin''),
               row_artifact ''reg'' (demo_row ''a'' ''global'' ''v1.0.0'' ''linux'')])"
proof -
  from extract_plugins_groups [OF demo_rows_facts, of "''reg''" None]
  obtain all where all: "extractPluginsFromRows dotted_lib ''reg'' demo_rows None = Some (all, None)"
    "distinct (map (\<lambda>p. (ie_Name p, ie_Target p)) all)"
    "set (map (\<lambda>p. (ie_Name p, ie_Target p)) all) = set (map row_key demo_rows)"
    "\<forall>p \<in> set all. \<forall>v. map_of (ie_Artifacts p) v =
       (let rs = filter (\<lambda>r. row_key r = (ie_Name p, ie_Target p) \<and> pr_version r = v) demo_rows
        in if rs = [] then None else Some (map (row_artifact ''reg'') rs))"
    by blast
  have "set (map row_key demo_rows) = {(''a'', ''global''), (''a'', ''kubernetes''), (''b'', ''global'')}"
    by (auto simp: demo_rows_def demo_row_def)
  moreover have "filter (\<lambda>r. row_key r = (''a'', ''global'') \<and> pr_version r = ''v1.0.0'') demo_rows =
      [demo_row ''a'' ''global'' ''v1.0.0'' ''darwin'', demo_row ''a'' ''global'' ''v1.0.0'' ''linux'']"
    by (simp add: demo_rows_def demo_row_def)
  ultimately show ?thesis using all by (intro exI [of _ all]) (auto simp: Let_def)
qed

section \<open>The recommended version\<close>

lemma item_recommended:
  assumes "\<And>x. x \<in> set r \<Longrightarrow> pr_recommendedVersion x = ''''" "r \<noteq> []"
  shows "ie_RecommendedVersion (plugin_item L r) = ''''"
proof -
  have "ie_RecommendedVersion (foldl (\<lambda>c g. update_entry (hd g) c) e V) = ''''"
    if "ie_RecommendedVersion e = ''''" "\<forall>g \<in> set V. pr_recommendedVersion (hd g) = ''''" for e V
    using that by (induction V arbitrary: e) (simp_all add: update_entry_def)
  then show ?thesis
    using assms hd_run_in [of _ pr_version r] by (simp add: plugin_rows.item_def new_entry_def)
qed

text \<open>The last element of the sorted keys of a map, as \<open>appendPlugin\<close> and \<open>appendGroup\<close> take it.\<close>

lemma latest_key:
  assumes "semver_laws L" "range_law L" "m \<noteq> []" "\<forall>v \<in> set (keys_of m). NewVersion L v \<noteq> None"
    "w = last (snd (SortVersions L (range_keys L m)))"
  shows "w \<in> set (keys_of m) \<and> (\<forall>v \<in> set (keys_of m). \<not> IsNewVersion L v w)"
proof -
  obtain ws where ws: "SortVersions L (range_keys L m) = (None, ws)"
    using SortVersions_total [of "range_keys L m" L] assms(2,4) by auto
  have "\<forall>v \<in> set (keys_of m). last ws \<in> set (keys_of m) \<and> \<not> IsNewVersion L v (last ws)"
    using SortVersions_last_max [OF assms(1) ws] assms(2) by auto
  moreover have "keys_of m \<noteq> []" using assms(3) by (simp add: keys_of_def)
  then have "\<exists>v. v \<in> set (keys_of m)" by (auto simp: neq_Nil_conv)
  ultimately show ?thesis using ws assms(5) by auto
qed

text \<open>When the database gives no recommended version and all versions are valid
  semantic versions, the recommended version of every extracted entry is one of its versions and none
  of them is newer.\<close>

theorem recommended_is_latest:
  assumes "semver_laws L" "range_law L" "list_all (row_ok L) rows"
    "list_all (\<lambda>r. pr_recommendedVersion r = '''' \<and> NewVersion L (pr_version r) \<noteq> None) rows"
    "extractPluginsFromRows L u rows e = Some (all, e)" "p \<in> set all"
  shows "ie_RecommendedVersion p \<in> set (keys_of (ie_Artifacts p)) \<and>
    (\<forall>v \<in> set (keys_of (ie_Artifacts p)). \<not> IsNewVersion L v (ie_RecommendedVersion p))"
proof -
  have ok: "row_ok L r" if "r \<in> set rows" for r using assms(3) that by (simp add: list_all_iff)
  have "all = map (plugin_build L u) (runs row_key rows)"
    using assms(5) extract_plugins_runs [of rows L u e] ok by simp
  with assms(6) obtain r where r: "r \<in> set (runs row_key rows)" "p = plugin_build L u r" by auto
  have sub: "x \<in> set rows" if "x \<in> set r" for x
    using r(1) that by (rule run_sub)
  have ne: "r \<noteq> []" using runs_nonempty [OF r(1)] .
  have keys: "set (keys_of (plugin_vmap u V)) = (\<lambda>g. pr_version (hd g)) ` set V" for V
    by (induction V rule: rev_induct)
      (auto simp: keys_of_def plugin_rows.vmap_def set_keys_update [unfolded set_map])
  have sem: "\<forall>v \<in> set (keys_of (ie_Artifacts p)). NewVersion L v \<noteq> None"
    using assms(4) sub hd_run_in [of _ pr_version r] unfolding r(2) build_fields keys
    by (auto simp: list_all_iff)
  have art: "ie_Artifacts p \<noteq> []"
  proof -
    have "set (keys_of (ie_Artifacts p)) \<noteq> {}" unfolding r(2) build_fields keys using ne by simp
    then show ?thesis by (auto simp: keys_of_def)
  qed
  have item: "ie_RecommendedVersion (plugin_item L r) = ''''"
    using assms(4) sub ne by (intro item_recommended) (auto simp: list_all_iff)
  have "ie_RecommendedVersion p = last (snd (SortVersions L (range_keys L (ie_Artifacts p))))"
    using item art unfolding r(2) build_fields
    by (simp add: plugin_rows.build_def finish_plugin_def appendPlugin_def)
  from latest_key [OF assms(1,2) art sem this] show ?thesis .
qed

theorem recommended_is_latest_witness:
  "\<exists>all. extractPluginsFromRows dotted_lib ''reg'' demo_rows None = Some (all, None) \<and>
    (\<forall>p \<in> set all. ie_RecommendedVersion p \<in> set (keys_of (ie_Artifacts p)) \<and>
      (\<forall>v \<in> set (keys_of (ie_Artifacts p)). \<not> IsNewVersion dotted_lib v (ie_RecommendedVersion p)))"
proof -
  have ok: "row_ok dotted_lib r" if "r \<in> set demo_rows" for r
    using demo_rows_facts(1) that by (simp add: list_all_iff)
  have v: "list_all (\<lambda>r. pr_recommendedVersion r = '''' \<and> NewVersion dotted_lib (pr_version r) \<noteq> None) demo_rows"
    by (simp add: demo_rows_def demo_row_def dotted_lib_def dotted_parse_def trim_prefix_def
        has_prefix_def digit_val_def)
  have ex: "extractPluginsFromRows dotted_lib ''reg'' demo_rows None =
      Some (map (plugin_build dotted_lib ''reg'') (runs row_key demo_rows), None)"
    by (rule extract_plugins_runs) (rule ok)
  show ?thesis
    using recommended_is_latest [OF dotted_semver_laws dotted_range_law demo_rows_facts(1) v ex] ex by blast
qed

end
