(* ===== verification/Inventory_Db.thy ===== *)
theory Inventory_Db
  imports Inventory_Extract
begin

text \<open>
  The SQLite inventory, \<^verbatim>\<open>pkg/plugininventory/sqlite_inventory.go\<close> and
  \<^verbatim>\<open>sqlite_inventory_metadata.go\<close>, with the tables and primary keys of
  \<^verbatim>\<open>pkg/plugininventory/data/sqlite/*.sql\<close>.

  The database file is the state \<open>inv_store\<close>: whether the file and its tables exist, the rows of
  the tables, and the faults the driver can report. A SQL statement is modelled by its meaning on
  the rows. Insertions, updates and deletions pass their values as parameters of the statement. Queries splice the
  values of the filter into the text of the \<^verbatim>\<open>WHERE\<close> clause, \<open>createPluginWhereClause\<close>, without quoting: for values
  without a quote it is a conjunction of \<open>sql_cond\<close>, and a lemma shows that the text is the rendering of those
  conditions; for other values the text is another statement, and what SQLite answers to it is the parameter
  \<open>is_sql_plugins\<close> of the store (what such a statement may change in the tables is not modelled). The
  optional statement log (\<open>writeSQLStatementLogs\<close>) is not modelled.
\<close>

section \<open>The store\<close>

datatype db_op = DbOpen | DbPing | DbQuery | DbExec

record inv_store =
  is_file :: string
  is_prefix :: string
  is_exists :: bool
  is_schema :: bool
  is_plugins :: "plugin_row list"
  is_groups :: "group_row list"
  is_fault :: "db_op \<Rightarrow> err option"
  is_rows_err :: "err option"
  is_sql_plugins :: "string \<Rightarrow> plugin_row list \<Rightarrow> plugin_row list res"
  is_sql_groups :: "string \<Rightarrow> group_row list \<Rightarrow> group_row list res"

definition no_such_table :: err where
  "no_such_table = Errorf ''no such table'' []"

definition unique_violation :: err where
  "unique_violation = Errorf ''UNIQUE constraint failed'' []"

text \<open>The error of one statement on the tables, if any.\<close>

definition stmt_err :: "inv_store \<Rightarrow> db_op \<Rightarrow> err option" where
  "stmt_err s op = (case is_fault s op of Some e \<Rightarrow> Some e
                    | None \<Rightarrow> if is_schema s then None else Some no_such_table)"

section \<open>WHERE clauses\<close>

datatype sql_col = CPluginName | CTarget | CVersion | CHidden | COS | CArchitecture | CPublisher
  | CVendor | CGroupName | CGroupVersion

fun col_text :: "sql_col \<Rightarrow> string" where
  "col_text CPluginName = ''PluginName''"
| "col_text CTarget = ''Target''"
| "col_text CVersion = ''Version''"
| "col_text CHidden = ''Hidden''"
| "col_text COS = ''OS''"
| "col_text CArchitecture = ''Architecture''"
| "col_text CPublisher = ''Publisher''"
| "col_text CVendor = ''Vendor''"
| "col_text CGroupName = ''GroupName''"
| "col_text CGroupVersion = ''GroupVersion''"

datatype sql_cond =
    ColEq sql_col string
  | LikeOrEq sql_col string
  | VersionIsRecommended

fun cond_text :: "sql_cond \<Rightarrow> string" where
  "cond_text (ColEq c v) = col_text c @ ''='' @ [CHR 0x27] @ v @ [CHR 0x27]"
| "cond_text (LikeOrEq c v) =
     ''( '' @ col_text c @ '' Like '' @ [CHR 0x27] @ v @ ''.%'' @ [CHR 0x27] @ '' OR '' @
     col_text c @ ''='' @ [CHR 0x27] @ v @ [CHR 0x27] @ '' )''"
| "cond_text VersionIsRecommended = ''Version=RecommendedVersion''"

text \<open>\<^verbatim>\<open>fmt.Sprintf("%s <condition> AND", whereClause)\<close>\<close>

definition and_cond :: "string \<Rightarrow> sql_cond \<Rightarrow> string" where
  "and_cond whereClause c = whereClause @ '' '' @ cond_text c @ '' AND''"

definition close_where :: "string \<Rightarrow> string" where
  "close_where whereClause =
     (if whereClause \<noteq> '''' then ''WHERE '' @ trim_suffix whereClause ''AND'' else whereClause)"

definition createPluginWhereClause :: "plugin_filter \<Rightarrow> string" where
  "createPluginWhereClause f =
     (let w = '''';
          w = (if f_Name f \<noteq> '''' then and_cond w (ColEq CPluginName (f_Name f)) else w);
          w = (if f_Target f \<noteq> '''' then and_cond w (ColEq CTarget (f_Target f)) else w);
          w = (if f_Version f \<noteq> ''''
               then (if f_Version f = VersionLatest then and_cond w VersionIsRecommended
                     else and_cond w (LikeOrEq CVersion (f_Version f)))
               else w);
          w = (if \<not> f_IncludeHidden f then and_cond w (ColEq CHidden ''false'') else w);
          w = (if f_OS f \<noteq> '''' then and_cond w (ColEq COS (f_OS f)) else w);
          w = (if f_Arch f \<noteq> '''' then and_cond w (ColEq CArchitecture (f_Arch f)) else w);
          w = (if f_Publisher f \<noteq> '''' then and_cond w (ColEq CPublisher (f_Publisher f)) else w);
          w = (if f_Vendor f \<noteq> '''' then and_cond w (ColEq CVendor (f_Vendor f)) else w)
      in close_where w)"

definition createGroupWhereClause :: "group_filter \<Rightarrow> string" where
  "createGroupWhereClause f =
     (let w = '''';
          w = (if gf_Name f \<noteq> '''' then and_cond w (ColEq CGroupName (gf_Name f)) else w);
          w = (if gf_Version f \<noteq> '''' then and_cond w (LikeOrEq CGroupVersion (gf_Version f)) else w);
          w = (if \<not> gf_IncludeHidden f then and_cond w (ColEq CHidden ''false'') else w);
          w = (if gf_Publisher f \<noteq> '''' then and_cond w (ColEq CPublisher (gf_Publisher f)) else w);
          w = (if gf_Vendor f \<noteq> '''' then and_cond w (ColEq CVendor (gf_Vendor f)) else w)
      in close_where w)"

text \<open>The conditions themselves.\<close>

definition plugin_conds :: "plugin_filter \<Rightarrow> sql_cond list" where
  "plugin_conds f =
     (if f_Name f \<noteq> '''' then [ColEq CPluginName (f_Name f)] else []) @
     (if f_Target f \<noteq> '''' then [ColEq CTarget (f_Target f)] else []) @
     (if f_Version f \<noteq> ''''
      then (if f_Version f = VersionLatest then [VersionIsRecommended]
            else [LikeOrEq CVersion (f_Version f)]) else []) @
     (if \<not> f_IncludeHidden f then [ColEq CHidden ''false''] else []) @
     (if f_OS f \<noteq> '''' then [ColEq COS (f_OS f)] else []) @
     (if f_Arch f \<noteq> '''' then [ColEq CArchitecture (f_Arch f)] else []) @
     (if f_Publisher f \<noteq> '''' then [ColEq CPublisher (f_Publisher f)] else []) @
     (if f_Vendor f \<noteq> '''' then [ColEq CVendor (f_Vendor f)] else [])"

definition group_conds :: "group_filter \<Rightarrow> sql_cond list" where
  "group_conds f =
     (if gf_Name f \<noteq> '''' then [ColEq CGroupName (gf_Name f)] else []) @
     (if gf_Version f \<noteq> '''' then [LikeOrEq CGroupVersion (gf_Version f)] else []) @
     (if \<not> gf_IncludeHidden f then [ColEq CHidden ''false''] else []) @
     (if gf_Publisher f \<noteq> '''' then [ColEq CPublisher (gf_Publisher f)] else []) @
     (if gf_Vendor f \<noteq> '''' then [ColEq CVendor (gf_Vendor f)] else [])"

text \<open>SQLite's \<^verbatim>\<open>LIKE\<close>: percent for any sequence, underscore for any character, ASCII letters
  compared without case.\<close>

function sql_like :: "string \<Rightarrow> string \<Rightarrow> bool" where
  "sql_like [] t = (t = [])"
| "sql_like (p # ps) [] = (p = CHR ''%'' \<and> sql_like ps [])"
| "sql_like (p # ps) (c # cs) =
     (if p = CHR ''%'' then sql_like ps (c # cs) \<or> sql_like (p # ps) cs
      else (p = CHR ''_'' \<or> lower_char p = lower_char c) \<and> sql_like ps cs)"
  by pat_completeness auto
termination
  by (relation "measure (\<lambda>(p, t). length p + length t)") auto

fun plugin_col :: "sql_col \<Rightarrow> plugin_row \<Rightarrow> string" where
  "plugin_col CPluginName r = pr_name r"
| "plugin_col CTarget r = pr_target r"
| "plugin_col CVersion r = pr_version r"
| "plugin_col CHidden r = pr_hidden r"
| "plugin_col COS r = pr_os r"
| "plugin_col CArchitecture r = pr_arch r"
| "plugin_col CPublisher r = pr_publisher r"
| "plugin_col CVendor r = pr_vendor r"
| "plugin_col CGroupName r = ''''"
| "plugin_col CGroupVersion r = ''''"

fun group_col :: "sql_col \<Rightarrow> group_row \<Rightarrow> string" where
  "group_col CPluginName r = gr_pluginName r"
| "group_col CTarget r = gr_target r"
| "group_col CHidden r = gr_hidden r"
| "group_col CPublisher r = gr_publisher r"
| "group_col CVendor r = gr_vendor r"
| "group_col CGroupName r = gr_groupName r"
| "group_col CGroupVersion r = gr_groupVersion r"
| "group_col CVersion r = ''''"
| "group_col COS r = ''''"
| "group_col CArchitecture r = ''''"

fun plugin_cond_holds :: "plugin_row \<Rightarrow> sql_cond \<Rightarrow> bool" where
  "plugin_cond_holds r (ColEq c v) = (plugin_col c r = v)"
| "plugin_cond_holds r (LikeOrEq c v) = (sql_like (v @ ''.%'') (plugin_col c r) \<or> plugin_col c r = v)"
| "plugin_cond_holds r VersionIsRecommended = (pr_version r = pr_recommendedVersion r)"

fun group_cond_holds :: "group_row \<Rightarrow> sql_cond \<Rightarrow> bool" where
  "group_cond_holds r (ColEq c v) = (group_col c r = v)"
| "group_cond_holds r (LikeOrEq c v) = (sql_like (v @ ''.%'') (group_col c r) \<or> group_col c r = v)"
| "group_cond_holds r VersionIsRecommended = False"

section \<open>Queries\<close>

definition plugin_row_lt :: "plugin_row \<Rightarrow> plugin_row \<Rightarrow> bool" where
  "plugin_row_lt r q \<longleftrightarrow> (row_key r, pr_version r) < (row_key q, pr_version q)"

definition group_row_key :: "group_row \<Rightarrow> (string \<times> string \<times> string) \<times> string \<times> string \<times> string" where
  "group_row_key r = ((gr_vendor r, gr_publisher r, gr_groupName r), gr_groupVersion r, gr_pluginName r, gr_target r)"

definition group_row_lt :: "group_row \<Rightarrow> group_row \<Rightarrow> bool" where
  "group_row_lt r q \<longleftrightarrow> group_row_key r < group_row_key q"

text \<open>Values that a string literal of the text holds as they are: no quote, and no end of the text.\<close>

definition plain :: "string \<Rightarrow> bool" where
  "plain v \<longleftrightarrow> CHR 0x27 \<notin> set v \<and> CHR 0x00 \<notin> set v"

definition plain_filter :: "plugin_filter \<Rightarrow> bool" where
  "plain_filter f \<longleftrightarrow> list_all plain [f_Name f, f_Target f, f_Version f, f_OS f, f_Arch f, f_Publisher f, f_Vendor f]"

definition plain_group_filter :: "group_filter \<Rightarrow> bool" where
  "plain_group_filter f \<longleftrightarrow> list_all plain [gf_Name f, gf_Version f, gf_Publisher f, gf_Vendor f]"

definition select_plugins :: "plugin_filter \<Rightarrow> inv_store \<Rightarrow> plugin_row list" where
  "select_plugins f s =
     sort_by plugin_row_lt (filter (\<lambda>r. list_all (plugin_cond_holds r) (plugin_conds f)) (is_plugins s))"

definition select_groups :: "group_filter \<Rightarrow> inv_store \<Rightarrow> group_row list" where
  "select_groups f s =
     sort_by group_row_lt (filter (\<lambda>r. list_all (group_cond_holds r) (group_conds f)) (is_groups s))"

definition query_plugins :: "plugin_filter \<Rightarrow> inv_store \<Rightarrow> plugin_row list res" where
  "query_plugins f s =
     (if plain_filter f then Inr (select_plugins f s) else is_sql_plugins s (createPluginWhereClause f) (is_plugins s))"

definition query_groups :: "group_filter \<Rightarrow> inv_store \<Rightarrow> group_row list res" where
  "query_groups f s =
     (if plain_group_filter f then Inr (select_groups f s) else is_sql_groups s (createGroupWhereClause f) (is_groups s))"

definition getPluginsFromDB ::
    "'v lib \<Rightarrow> inv_store \<Rightarrow> plugin_filter \<Rightarrow> (inventory_entry list \<times> err option) option" where
  "getPluginsFromDB L s f =
     (if \<not> is_exists s then Some ([], None)
      else case is_fault s DbOpen of
          Some e \<Rightarrow> Some ([], Some (Wrapf e ''failed to open the DB'' [is_file s]))
        | None \<Rightarrow>
          (case is_fault s DbPing of
             Some e \<Rightarrow> Some ([], Some e)
           | None \<Rightarrow>
             (case stmt_err s DbQuery of
                Some e \<Rightarrow> Some ([], Some (Wrapf e ''unable to setup DB query for DB'' [is_file s]))
              | None \<Rightarrow>
                (case query_plugins f s of
                   Inl e \<Rightarrow> Some ([], Some (Wrapf e ''unable to setup DB query for DB'' [is_file s]))
                 | Inr rows \<Rightarrow> extractPluginsFromRows L (is_prefix s) rows (is_rows_err s)))))"

definition getGroupsFromDB ::
    "'v lib \<Rightarrow> inv_store \<Rightarrow> group_filter \<Rightarrow> (plugin_group list \<times> err option) option" where
  "getGroupsFromDB L s f =
     (if \<not> is_exists s then Some ([], None)
      else case is_fault s DbOpen of
          Some e \<Rightarrow> Some ([], Some (Wrapf e ''failed to open the DB for groups'' [is_file s]))
        | None \<Rightarrow>
          (case is_fault s DbPing of
             Some e \<Rightarrow> Some ([], Some e)
           | None \<Rightarrow>
             (case stmt_err s DbQuery of
                Some e \<Rightarrow> Some ([], Some (Wrapf e ''unable to setup DB query for DB for groups'' [is_file s]))
              | None \<Rightarrow>
                (case query_groups f s of
                   Inl e \<Rightarrow> Some ([], Some (Wrapf e ''unable to setup DB query for DB for groups'' [is_file s]))
                 | Inr rows \<Rightarrow> extractGroupsFromRows L rows (is_rows_err s)))))"

text \<open>A nil filter is \<open>None\<close>. The filter is passed by reference: for the version \<^verbatim>\<open>latest\<close> the code
  overwrites its \<^verbatim>\<open>Version\<close> field, and the result carries the filter the caller sees afterwards.\<close>

definition GetPlugins ::
    "'v lib \<Rightarrow> inv_store \<Rightarrow> plugin_filter option \<Rightarrow>
     plugin_filter \<times> (inventory_entry list \<times> err option) option" where
  "GetPlugins L s filterPtr =
     (let f = (case filterPtr of None \<Rightarrow> empty_filter | Some f \<Rightarrow> f)
      in if f_Version f = VersionLatest
         then if f_Name f = ''''
              then (f, Some ([], Some (Errorf ''cannot get the recommended version of a plugin without a plugin name'' [])))
              else
                let f1 = f\<lparr>f_Version := ''''\<rparr> in
                (case getPluginsFromDB L s f1 of
                   None \<Rightarrow> (f1, None)
                 | Some (plugins, Some e) \<Rightarrow> (f1, Some ([], Some e))
                 | Some (plugins, None) \<Rightarrow>
                     (case plugins of
                        [p] \<Rightarrow> let f2 = f1\<lparr>f_Version := ie_RecommendedVersion p\<rparr>
                               in (f2, getPluginsFromDB L s f2)
                      | _ \<Rightarrow> (f1, Some (plugins, None))))
         else (f, getPluginsFromDB L s f))"

definition GetAllPlugins where
  "GetAllPlugins L s = snd (GetPlugins L s (Some empty_filter))"

definition GetPluginGroups ::
    "'v lib \<Rightarrow> inv_store \<Rightarrow> group_filter \<Rightarrow> (plugin_group list \<times> err option) option" where
  "GetPluginGroups L s f =
     (if gf_Version f = VersionLatest
      then if gf_Name f = ''''
           then Some ([], Some (Errorf ''cannot get the recommended version of a group without a name'' []))
           else (case getGroupsFromDB L s (f\<lparr>gf_Version := ''''\<rparr>) of
                   None \<Rightarrow> None
                 | Some (gs, Some e) \<Rightarrow> Some ([], Some e)
                 | Some ([], None) \<Rightarrow> Some ([], None)
                 | Some (g # gs, None) \<Rightarrow>
                     getGroupsFromDB L s (f\<lparr>gf_Version := g_RecommendedVersion g\<rparr>))
      else getGroupsFromDB L s f)"

end
