(* ===== verification/Inventory_Update.thy ===== *)
theory Inventory_Update
  imports Inventory_Db
begin

text \<open>
  The statements that change the inventory database and the inventory metadata database:
  \<open>CreateSchema\<close>, \<open>InsertPlugin\<close>, \<open>InsertPluginGroup\<close>, the activation updates of
  \<^verbatim>\<open>sqlite_inventory.go\<close>, and \<^verbatim>\<open>sqlite_inventory_metadata.go\<close>. No statement runs in a
  transaction, so the rows inserted before a failure stay.
\<close>

section \<open>Schema and plugins\<close>

definition CreateSchema :: "inv_store \<Rightarrow> inv_store \<times> err option" where
  "CreateSchema s =
     (case is_fault s DbOpen of
        Some e \<Rightarrow> (s, Some (Wrapf e ''failed to open the DB'' [is_file s]))
      | None \<Rightarrow>
        (case is_fault s DbExec of
           Some e \<Rightarrow> (s, Some (Wrapf e ''error while creating tables to the database'' []))
         | None \<Rightarrow> (s\<lparr>is_exists := True, is_schema := True\<rparr>, None)))"

text \<open>\<^verbatim>\<open>PRIMARY KEY("PluginName", "Target", "Version", "OS", "Architecture")\<close> of
  \<^verbatim>\<open>create_tables.sql\<close>, which the package embeds: SQLite refuses a second row with the same key.\<close>

definition plugin_pk :: "plugin_row \<Rightarrow> string \<times> string \<times> string \<times> string \<times> string" where
  "plugin_pk r = (pr_name r, pr_target r, pr_version r, pr_os r, pr_arch r)"

text \<open>\<^verbatim>\<open>PRIMARY KEY("Vendor", "Publisher", "GroupName", "GroupVersion", "PluginName", "Target")\<close>\<close>

definition group_pk :: "group_row \<Rightarrow> string \<times> string \<times> string \<times> string \<times> string \<times> string" where
  "group_pk r = (gr_vendor r, gr_publisher r, gr_groupName r, gr_groupVersion r, gr_pluginName r, gr_target r)"

definition exec_insert_plugin :: "plugin_row \<Rightarrow> inv_store \<Rightarrow> inv_store \<times> err option" where
  "exec_insert_plugin row s =
     (case stmt_err s DbExec of
        Some e \<Rightarrow> (s, Some e)
      | None \<Rightarrow>
        if plugin_pk row \<in> set (map plugin_pk (is_plugins s)) then (s, Some unique_violation)
        else (s\<lparr>is_plugins := is_plugins s @ [row]\<rparr>, None))"

definition entry_row :: "inventory_entry \<Rightarrow> string \<Rightarrow> artifact \<Rightarrow> plugin_row" where
  "entry_row p version a =
     \<lparr>pr_name = ie_Name p, pr_target = ie_Target p, pr_recommendedVersion = '''', pr_version = version,
      pr_hidden = format_bool (ie_Hidden p), pr_description = ie_Description p,
      pr_publisher = ie_Publisher p, pr_vendor = ie_Vendor p, pr_os = a_OS a, pr_arch = a_Arch a,
      pr_digest = a_Digest a, pr_uri = a_Image a\<rparr>"

fun insert_artifacts_loop ::
    "inventory_entry \<Rightarrow> string \<Rightarrow> artifact list \<Rightarrow> inv_store \<Rightarrow> inv_store \<times> err option" where
  "insert_artifacts_loop p version [] s = (s, None)"
| "insert_artifacts_loop p version (a # as) s =
     (case exec_insert_plugin (entry_row p version a) s of
        (s1, Some e) \<Rightarrow> (s1, Some (Wrapf e ''unable to insert plugin row'' [ie_Name p, version]))
      | (s1, None) \<Rightarrow> insert_artifacts_loop p version as s1)"

fun insert_versions_loop ::
    "inventory_entry \<Rightarrow> string list \<Rightarrow> inv_store \<Rightarrow> inv_store \<times> err option" where
  "insert_versions_loop p [] s = (s, None)"
| "insert_versions_loop p (version # versions) s =
     (case insert_artifacts_loop p version (get_or [] (ie_Artifacts p) version) s of
        (s1, Some e) \<Rightarrow> (s1, Some e)
      | (s1, None) \<Rightarrow> insert_versions_loop p versions s1)"

definition InsertPlugin :: "'v lib \<Rightarrow> inventory_entry \<Rightarrow> inv_store \<Rightarrow> inv_store \<times> err option" where
  "InsertPlugin L p s =
     (case is_fault s DbOpen of
        Some e \<Rightarrow> (s, Some (Wrapf e ''failed to open the DB from file'' [is_file s]))
      | None \<Rightarrow> insert_versions_loop p (range_keys L (ie_Artifacts p)) s)"

section \<open>Activation\<close>

definition updatePluginVersionActivationState ::
    "string \<Rightarrow> string \<Rightarrow> string \<Rightarrow> bool \<Rightarrow> inv_store \<Rightarrow> inv_store \<times> err option" where
  "updatePluginVersionActivationState name target version activate s =
     (case stmt_err s DbExec of
        Some e \<Rightarrow> (s, Some (Wrapf e ''unable to update plugin %v_%v'' [name, target]))
      | None \<Rightarrow>
        let hit = (\<lambda>r. pr_name r = name \<and> pr_target r = target \<and> pr_version r = version);
            s1 = s\<lparr>is_plugins := map (\<lambda>r. if hit r then r\<lparr>pr_hidden := format_bool (\<not> activate)\<rparr> else r)
                                   (is_plugins s)\<rparr>
        in if length (filter hit (is_plugins s)) = 0
           then (s1, Some (Errorf ''unable to update plugin %v_%v'' [name, target]))
           else (s1, None))"

fun activation_loop ::
    "inventory_entry \<Rightarrow> string list \<Rightarrow> inv_store \<Rightarrow> inv_store \<times> err option" where
  "activation_loop p [] s = (s, None)"
| "activation_loop p (version # versions) s =
     (case updatePluginVersionActivationState (ie_Name p) (ie_Target p) version (\<not> ie_Hidden p) s of
        (s1, Some e) \<Rightarrow> (s1, Some e)
      | (s1, None) \<Rightarrow> activation_loop p versions s1)"

definition UpdatePluginActivationState ::
    "'v lib \<Rightarrow> inventory_entry \<Rightarrow> inv_store \<Rightarrow> inv_store \<times> err option" where
  "UpdatePluginActivationState L p s =
     (case is_fault s DbOpen of
        Some e \<Rightarrow> (s, Some (Wrapf e ''failed to open the DB from file'' [is_file s]))
      | None \<Rightarrow> activation_loop p (range_keys L (ie_Artifacts p)) s)"

section \<open>Groups\<close>

definition exec_insert_group :: "group_row \<Rightarrow> inv_store \<Rightarrow> inv_store \<times> err option" where
  "exec_insert_group row s =
     (case stmt_err s DbExec of
        Some e \<Rightarrow> (s, Some e)
      | None \<Rightarrow>
        if group_pk row \<in> set (map group_pk (is_groups s)) then (s, Some unique_violation)
        else (s\<lparr>is_groups := is_groups s @ [row]\<rparr>, None))"

definition group_version_match :: "plugin_group \<Rightarrow> string \<Rightarrow> group_row \<Rightarrow> bool" where
  "group_version_match pg version r \<longleftrightarrow>
     gr_groupName r = g_Name pg \<and> gr_publisher r = g_Publisher pg \<and> gr_vendor r = g_Vendor pg \<and>
     gr_groupVersion r = version"

fun delete_versions_loop ::
    "plugin_group \<Rightarrow> string list \<Rightarrow> inv_store \<Rightarrow> inv_store \<times> err option" where
  "delete_versions_loop pg [] s = (s, None)"
| "delete_versions_loop pg (version # versions) s =
     (case stmt_err s DbExec of
        Some e \<Rightarrow> (s, Some (Wrapf e ''unable to delete plugin-group version'' [PluginGroupToID pg, version]))
      | None \<Rightarrow> delete_versions_loop pg versions
                 (s\<lparr>is_groups := filter (\<lambda>r. \<not> group_version_match pg version r) (is_groups s)\<rparr>))"

definition group_entry_row ::
    "plugin_group \<Rightarrow> string \<Rightarrow> string \<Rightarrow> group_plugin_entry \<Rightarrow> group_row" where
  "group_entry_row pg description version pi =
     \<lparr>gr_vendor = g_Vendor pg, gr_publisher = g_Publisher pg, gr_groupName = g_Name pg,
      gr_groupVersion = version, gr_description = description, gr_pluginName = id_Name pi,
      gr_target = id_Target pi, gr_pluginVersion = id_Version pi,
      gr_mandatory = format_bool (gp_Mandatory pi), gr_hidden = format_bool (g_Hidden pg)\<rparr>"

definition plugin_id_filter :: "group_plugin_entry \<Rightarrow> bool \<Rightarrow> plugin_filter" where
  "plugin_id_filter pi includeHidden =
     empty_filter\<lparr>f_Name := id_Name pi, f_Target := id_Target pi, f_Version := id_Version pi,
       f_IncludeHidden := includeHidden\<rparr>"

text \<open>The verification of one plugin of the group; \<open>None\<close> is the panic of the extraction.\<close>

definition verify_group_plugin ::
    "'v lib \<Rightarrow> bool \<Rightarrow> bool \<Rightarrow> group_plugin_entry \<Rightarrow> inv_store \<Rightarrow> err option option" where
  "verify_group_plugin L skipPGVerification allowHiddenPlugins pi s =
     (if skipPGVerification then Some None
      else case snd (GetPlugins L s (Some (plugin_id_filter pi allowHiddenPlugins))) of
          None \<Rightarrow> None
        | Some (pie, Some e) \<Rightarrow>
            Some (Some (Wrapf e ''error while verifying existence of the plugin in the database'' []))
        | Some (pie, None) \<Rightarrow>
            Some (if length pie = 0
                  then Some (Errorf ''specified plugin is not present in the database''
                               [id_Name pi, id_Target pi, id_Version pi])
                  else None))"

fun insert_group_plugins_loop ::
    "'v lib \<Rightarrow> environ \<Rightarrow> bool \<Rightarrow> bool \<Rightarrow> plugin_group \<Rightarrow> string \<Rightarrow> string \<Rightarrow> group_plugin_entry list \<Rightarrow>
     inv_store \<Rightarrow> (inv_store \<times> err option) option" where
  "insert_group_plugins_loop L env allowHidden activate pg description version [] s = Some (s, None)"
| "insert_group_plugins_loop L env allowHidden activate pg description version (pi # pis) s =
     (case verify_group_plugin L (env_flag env ''TANZU_CLI_SKIP_PLUGIN_GROUP_VERIFICATION_ON_PUBLISH'')
             allowHidden pi s of
        None \<Rightarrow> None
      | Some (Some e) \<Rightarrow> Some (s, Some e)
      | Some None \<Rightarrow>
          (case (if activate
                 then updatePluginVersionActivationState (id_Name pi) (id_Target pi) (id_Version pi) True s
                 else (s, None)) of
             (s1, Some e) \<Rightarrow> Some (s1, Some (Wrapf e ''unable to activate plugin with in plugin group'' []))
           | (s1, None) \<Rightarrow>
               (case exec_insert_group (group_entry_row pg description version pi) s1 of
                  (s2, Some e) \<Rightarrow> Some (s2, Some (Wrapf e ''unable to insert plugin-group row'' []))
                | (s2, None) \<Rightarrow>
                    insert_group_plugins_loop L env allowHidden activate pg description version pis s2)))"

fun insert_group_versions_loop ::
    "'v lib \<Rightarrow> environ \<Rightarrow> bool \<Rightarrow> bool \<Rightarrow> plugin_group \<Rightarrow> string \<Rightarrow> string list \<Rightarrow>
     inv_store \<Rightarrow> (inv_store \<times> err option) option" where
  "insert_group_versions_loop L env allowHidden activate pg description [] s = Some (s, None)"
| "insert_group_versions_loop L env allowHidden activate pg description (version # versions) s =
     (case insert_group_plugins_loop L env allowHidden activate pg description version
             (get_or [] (g_Versions pg) version) s of
        None \<Rightarrow> None
      | Some (s1, Some e) \<Rightarrow> Some (s1, Some e)
      | Some (s1, None) \<Rightarrow>
          insert_group_versions_loop L env allowHidden activate pg description versions s1)"

text \<open>The description to store: the group's own, or that of the existing group.\<close>

definition group_description :: "'v lib \<Rightarrow> plugin_group \<Rightarrow> inv_store \<Rightarrow> string res option" where
  "group_description L pg s =
     (if g_Description pg \<noteq> '''' then Some (Inr (g_Description pg))
      else case GetPluginGroups L s \<lparr>gf_Vendor = g_Vendor pg, gf_Publisher = g_Publisher pg,
                  gf_Name = g_Name pg, gf_Version = '''', gf_IncludeHidden = False\<rparr> of
          None \<Rightarrow> None
        | Some (g # gs, None) \<Rightarrow> Some (Inr (g_Description g))
        | Some _ \<Rightarrow> Some (Inl (Errorf ''a description is required when creating a brand new plugin group'' [])))"

definition InsertPluginGroup ::
    "'v lib \<Rightarrow> environ \<Rightarrow> plugin_group \<Rightarrow> bool \<Rightarrow> inv_store \<Rightarrow> (inv_store \<times> err option) option" where
  "InsertPluginGroup L env pg override s =
     (case is_fault s DbOpen of
        Some e \<Rightarrow> Some (s, Some (Wrapf e ''failed to open the DB from file'' [is_file s]))
      | None \<Rightarrow>
        (case group_description L pg s of
           None \<Rightarrow> None
         | Some (Inl e) \<Rightarrow> Some (s, Some e)
         | Some (Inr description) \<Rightarrow>
             (case (if override then delete_versions_loop pg (range_keys L (g_Versions pg)) s else (s, None)) of
                (s1, Some e) \<Rightarrow> Some (s1, Some e)
              | (s1, None) \<Rightarrow>
                  (let includeDeactivated = env_flag env ''TANZU_CLI_INCLUDE_DEACTIVATED_PLUGINS_TEST_ONLY'';
                       activatePlugins =
                         env_flag env ''TANZU_CLI_ACTIVATE_PLUGINS_ON_PLUGIN_GROUP_PUBLISH'' \<and> \<not> g_Hidden pg
                   in insert_group_versions_loop L env (includeDeactivated \<or> activatePlugins) activatePlugins
                        pg description (range_keys L (g_Versions pg)) s1))))"

fun activate_group_plugins_loop :: "group_plugin_entry list \<Rightarrow> inv_store \<Rightarrow> inv_store \<times> err option" where
  "activate_group_plugins_loop [] s = (s, None)"
| "activate_group_plugins_loop (pi # pis) s =
     (case updatePluginVersionActivationState (id_Name pi) (id_Target pi) (id_Version pi) True s of
        (s1, Some e) \<Rightarrow> (s1, Some (Wrapf e ''unable to activate plugin within plugin group'' []))
      | (s1, None) \<Rightarrow> activate_group_plugins_loop pis s1)"

definition exec_hide_group :: "plugin_group \<Rightarrow> string \<Rightarrow> inv_store \<Rightarrow> inv_store \<times> err option" where
  "exec_hide_group pg version s =
     (case stmt_err s DbExec of
        Some e \<Rightarrow> (s, Some (Wrapf e ''unable to update plugin-group'' [PluginGroupToID pg, version]))
      | None \<Rightarrow>
        let s1 = s\<lparr>is_groups := map (\<lambda>r. if group_version_match pg version r
                                        then r\<lparr>gr_hidden := format_bool (g_Hidden pg)\<rparr> else r) (is_groups s)\<rparr>
        in if length (filter (group_version_match pg version) (is_groups s)) = 0
           then (s1, Some (Errorf ''unable to update plugin-group. This might be possible because the provided plugin-group version doesn't exists'' [PluginGroupToID pg, version]))
           else (s1, None))"

fun group_activation_loop ::
    "bool \<Rightarrow> plugin_group \<Rightarrow> string list \<Rightarrow> inv_store \<Rightarrow> inv_store \<times> err option" where
  "group_activation_loop activatePlugins pg [] s = (s, None)"
| "group_activation_loop activatePlugins pg (version # versions) s =
     (case (if activatePlugins \<and> \<not> g_Hidden pg
            then activate_group_plugins_loop (get_or [] (g_Versions pg) version) s else (s, None)) of
        (s1, Some e) \<Rightarrow> (s1, Some e)
      | (s1, None) \<Rightarrow>
          (case exec_hide_group pg version s1 of
             (s2, Some e) \<Rightarrow> (s2, Some e)
           | (s2, None) \<Rightarrow> group_activation_loop activatePlugins pg versions s2))"

definition UpdatePluginGroupActivationState ::
    "'v lib \<Rightarrow> environ \<Rightarrow> plugin_group \<Rightarrow> inv_store \<Rightarrow> inv_store \<times> err option" where
  "UpdatePluginGroupActivationState L env pg s =
     (case is_fault s DbOpen of
        Some e \<Rightarrow> (s, Some (Wrapf e ''failed to open the DB from file'' [is_file s]))
      | None \<Rightarrow>
          group_activation_loop (env_flag env ''TANZU_CLI_ACTIVATE_PLUGINS_ON_PLUGIN_GROUP_PUBLISH'')
            pg (range_keys L (g_Versions pg)) s)"

section \<open>Inventory metadata\<close>

record meta_store =
  ms_file :: string
  ms_schema :: bool
  ms_plugins :: "plugin_identifier list"
  ms_groups :: "group_identifier list"
  ms_fault :: "db_op \<Rightarrow> err option"

definition meta_err :: "meta_store \<Rightarrow> err option" where
  "meta_err m = (case ms_fault m DbExec of Some e \<Rightarrow> Some e
                 | None \<Rightarrow> if ms_schema m then None else Some no_such_table)"

definition CreateInventoryMetadataDBSchema :: "meta_store \<Rightarrow> meta_store \<times> err option" where
  "CreateInventoryMetadataDBSchema m =
     (case ms_fault m DbOpen of
        Some e \<Rightarrow> (m, Some (Wrapf e ''failed to open the DB'' [ms_file m]))
      | None \<Rightarrow>
        (case ms_fault m DbExec of
           Some e \<Rightarrow> (m, Some (Wrapf e ''error while creating tables to the database'' []))
         | None \<Rightarrow> (m\<lparr>ms_schema := True\<rparr>, None)))"

definition InsertPluginIdentifier :: "plugin_identifier \<Rightarrow> meta_store \<Rightarrow> meta_store \<times> err option" where
  "InsertPluginIdentifier pi m =
     (case ms_fault m DbOpen of
        Some e \<Rightarrow> (m, Some (Wrapf e ''failed to open the DB from file'' [ms_file m]))
      | None \<Rightarrow>
        (case meta_err m of
           Some e \<Rightarrow> (m, Some (Wrapf e ''unable to insert plugin identifier'' [id_Name pi]))
         | None \<Rightarrow>
           if pi \<in> set (ms_plugins m)
           then (m, Some (Wrapf unique_violation ''unable to insert plugin identifier'' [id_Name pi]))
           else (m\<lparr>ms_plugins := ms_plugins m @ [pi]\<rparr>, None)))"

definition InsertPluginGroupIdentifier :: "group_identifier \<Rightarrow> meta_store \<Rightarrow> meta_store \<times> err option" where
  "InsertPluginGroupIdentifier pgi m =
     (case ms_fault m DbOpen of
        Some e \<Rightarrow> (m, Some (Wrapf e ''failed to open the DB from file'' [ms_file m]))
      | None \<Rightarrow>
        (case meta_err m of
           Some e \<Rightarrow> (m, Some (Wrapf e ''unable to insert plugin group identifier'' [gi_Name pgi]))
         | None \<Rightarrow>
           if pgi \<in> set (ms_groups m)
           then (m, Some (Wrapf unique_violation ''unable to insert plugin group identifier'' [gi_Name pgi]))
           else (m\<lparr>ms_groups := ms_groups m @ [pgi]\<rparr>, None)))"

text \<open>\<^verbatim>\<open>INSERT OR REPLACE\<close> where the whole row is the primary key: the conflicting row is deleted
  and the new one inserted.\<close>

definition insert_or_replace :: "'a list \<Rightarrow> 'a list \<Rightarrow> 'a list" where
  "insert_or_replace new old = fold (\<lambda>x xs. removeAll x xs @ [x]) new old"

definition MergeInventoryMetadataDatabase :: "meta_store \<Rightarrow> meta_store \<Rightarrow> meta_store \<times> err option" where
  "MergeInventoryMetadataDatabase additional m =
     (case ms_fault m DbOpen of
        Some e \<Rightarrow> (m, Some (Wrapf e ''failed to open the DB from file'' [ms_file m]))
      | None \<Rightarrow>
        (case (case meta_err m of Some e \<Rightarrow> Some e
               | None \<Rightarrow> if ms_schema additional then None else Some no_such_table) of
           Some e \<Rightarrow> (m, Some (Wrapf e ''unable to execute the query'' []))
         | None \<Rightarrow> (m\<lparr>ms_groups := insert_or_replace (ms_groups additional) (ms_groups m),
                       ms_plugins := insert_or_replace (ms_plugins additional) (ms_plugins m)\<rparr>, None)))"

definition UpdatePluginInventoryDatabase :: "meta_store \<Rightarrow> inv_store \<Rightarrow> inv_store \<times> err option" where
  "UpdatePluginInventoryDatabase m s =
     (case ms_fault m DbOpen of
        Some e \<Rightarrow> (s, Some (Wrapf e ''failed to open the DB from file'' [ms_file m]))
      | None \<Rightarrow>
        (case (case meta_err m of Some e \<Rightarrow> Some e | None \<Rightarrow> stmt_err s DbExec) of
           Some e \<Rightarrow> (s, Some (Wrapf e ''error while updating plugin inventory database'' []))
         | None \<Rightarrow>
             (s\<lparr>is_groups := filter (\<lambda>a. \<lparr>gi_Vendor = gr_vendor a, gi_Publisher = gr_publisher a,
                   gi_Name = gr_groupName a, gi_Version = gr_groupVersion a\<rparr> \<in> set (ms_groups m)) (is_groups s),
                is_plugins := filter (\<lambda>a. \<lparr>id_Name = pr_name a, id_Target = pr_target a,
                   id_Version = pr_version a\<rparr> \<in> set (ms_plugins m)) (is_plugins s)\<rparr>, None)))"

end
