(* ===== verification/Inventory_Correct.thy ===== *)
theory Inventory_Correct
  imports Inventory_Update
begin

text \<open>
  Correctness of the inventory database: the text of the \<^verbatim>\<open>WHERE\<close> clause and its meaning, and what
  a query returns when its values hold no quote.
\<close>

section \<open>The WHERE clause\<close>

definition and_conds :: "string \<Rightarrow> sql_cond list \<Rightarrow> string" where
  "and_conds w cs = foldl and_cond w cs"

lemma and_conds_append [simp]: "and_conds w (cs @ ds) = and_conds (and_conds w cs) ds"
  by (simp add: and_conds_def)

lemma and_conds_simps [simp]: "and_conds w [] = w" "and_conds w [c] = and_cond w c"
  by (simp_all add: and_conds_def)

lemma and_conds_text:
  "cs \<noteq> [] \<Longrightarrow> and_conds w cs = w @ '' '' @ join '' AND '' (map cond_text cs) @ '' AND''"
proof (induction cs arbitrary: w)
  case (Cons c cs)
  show ?case
  proof (cases "cs = []")
    case True
    then show ?thesis by (simp add: and_cond_def)
  next
    case False
    have "and_conds w (c # cs) = and_conds (and_cond w c) cs" by (simp add: and_conds_def)
    then show ?thesis using Cons.IH [OF False, of "and_cond w c"] False
      by (simp add: and_cond_def join_Cons)
  qed
qed simp

definition where_text :: "sql_cond list \<Rightarrow> string" where
  "where_text cs = (if cs = [] then '''' else ''WHERE  '' @ join '' AND '' (map cond_text cs) @ '' '')"

lemma close_where_conds: "close_where (and_conds '''' cs) = where_text cs"
proof (cases "cs = []")
  case False
  let ?j = "'' '' @ join '' AND '' (map cond_text cs) @ '' ''"
  have "and_conds '''' cs = ?j @ ''AND''" using and_conds_text [OF False, of "''''"] by simp
  moreover have "trim_suffix (?j @ ''AND'') ''AND'' = ?j" by (rule trim_suffix_append)
  ultimately show ?thesis using False by (simp add: close_where_def where_text_def)
qed (simp add: close_where_def where_text_def)

lemma createPluginWhereClause_conds: "createPluginWhereClause f = close_where (and_conds '''' (plugin_conds f))"
  by (simp add: createPluginWhereClause_def plugin_conds_def Let_def)

lemma createGroupWhereClause_conds: "createGroupWhereClause f = close_where (and_conds '''' (group_conds f))"
  by (simp add: createGroupWhereClause_def group_conds_def Let_def)

text \<open>The text of the \<^verbatim>\<open>WHERE\<close> clauses that the code builds by appending and
  trimming is the rendering of the list of conditions the filter stands for, joined by \<^verbatim>\<open>AND\<close>; a
  filter without conditions gives the empty text.\<close>

theorem where_clause_renders_conditions:
  "createPluginWhereClause f = where_text (plugin_conds f) \<and>
   createGroupWhereClause g = where_text (group_conds g)"
  by (simp add: createPluginWhereClause_conds createGroupWhereClause_conds close_where_conds)

lemma like_percent [simp]: "sql_like ''%'' t"
  by (induction t) auto

lemma like_prefix:
  "CHR ''%'' \<notin> set v \<Longrightarrow> CHR ''_'' \<notin> set v \<Longrightarrow>
     sql_like (v @ ''.%'') t \<longleftrightarrow> has_prefix (to_lower t) (to_lower v @ ''.'')"
proof (induction v arbitrary: t)
  case Nil
  have "lower_char CHR ''.'' = lower_char c \<longleftrightarrow> lower_char c = CHR ''.''" for c
    by (auto simp: lower_char_def)
  then show ?case by (cases t) (auto simp: has_prefix_def to_lower_def)
next
  case (Cons p v)
  then show ?case
    by (cases t) (auto simp: has_prefix_def to_lower_def)
qed

text \<open>A version filter without SQL wildcards selects exactly the rows of that version and
  of the versions that extend it by a dot (\<^verbatim>\<open>v1\<close> selects \<^verbatim>\<open>v1\<close> and \<^verbatim>\<open>v1.2.3\<close>, not
  \<^verbatim>\<open>v10.0.0\<close>), letters compared without case for the extensions.\<close>

theorem version_filter_meaning:
  assumes "CHR ''%'' \<notin> set v" "CHR ''_'' \<notin> set v"
  shows "plugin_cond_holds r (LikeOrEq CVersion v) \<longleftrightarrow>
    pr_version r = v \<or> has_prefix (to_lower (pr_version r)) (to_lower v @ ''.'')"
  using like_prefix [OF assms, of "pr_version r"] by auto

theorem version_filter_meaning_witness:
  "plugin_cond_holds (demo_row ''a'' ''global'' ''v1.2.3'' ''linux'') (LikeOrEq CVersion ''v1'') \<and>
   \<not> plugin_cond_holds (demo_row ''a'' ''global'' ''v10.0.0'' ''linux'') (LikeOrEq CVersion ''v1'')"
  using version_filter_meaning [of "''v1''" "demo_row ''a'' ''global'' ''v1.2.3'' ''linux''"]
    version_filter_meaning [of "''v1''" "demo_row ''a'' ''global'' ''v10.0.0'' ''linux''"]
  by (simp add: demo_row_def has_prefix_def to_lower_def lower_char_def)

section \<open>A concrete inventory\<close>

definition demo_store :: inv_store where
  "demo_store = \<lparr>is_file = ''db'', is_prefix = ''reg'', is_exists = True, is_schema = True,
     is_plugins = demo_rows, is_groups = [], is_fault = (\<lambda>_. None), is_rows_err = None, is_sql_plugins = (\<lambda>_ _. Inl (Errorf ''SQL logic error'' [])),
     is_sql_groups = (\<lambda>_ _. Inl (Errorf ''SQL logic error'' []))\<rparr>"

definition demo_entry :: "string \<Rightarrow> string \<Rightarrow> inventory_entry" where
  "demo_entry n t = \<lparr>ie_Name = n, ie_Target = t, ie_Description = ''d'', ie_Publisher = ''tkg'',
     ie_Vendor = ''vmware'', ie_RecommendedVersion = '''', ie_Hidden = False,
     ie_Artifacts = [(''v1.0.0'', [zero_artifact\<lparr>a_Image := ''img'', a_OS := ''linux'', a_Arch := ''amd64''\<rparr>])]\<rparr>"

section \<open>Insertion and queries\<close>

interpretation plugin_row_order: weak_order plugin_row_lt
  by unfold_locales (auto simp: plugin_row_lt_def)

lemma query_rows_sorted: "rows_sorted (select_plugins f s)"
  unfolding rows_sorted_def select_plugins_def sorted_map
  by (rule sorted_wrt_mono_rel [OF _ plugin_row_order.sort_sorted]) (simp only: plugin_row_lt_def not_less)

lemma query_plugins_set:
  "set (select_plugins f s) = {r \<in> set (is_plugins s). list_all (plugin_cond_holds r) (plugin_conds f)}"
  by (simp add: select_plugins_def)

definition reachable_store :: "inv_store \<Rightarrow> bool" where
  "reachable_store s \<longleftrightarrow> is_exists s \<and> is_schema s \<and> is_fault s = (\<lambda>_. None)"

lemma getPluginsFromDB_runs:
  assumes "reachable_store s" "list_all (row_ok L) (is_plugins s)" "plain_filter f"
  shows "getPluginsFromDB L s f =
    Some (map (plugin_build L (is_prefix s)) (runs row_key (select_plugins f s)), is_rows_err s)"
proof -
  have "row_ok L r" if "r \<in> set (select_plugins f s)" for r
    using assms(2) that by (auto simp: query_plugins_set list_all_iff)
  then have "extractPluginsFromRows L (is_prefix s) (select_plugins f s) (is_rows_err s) =
      Some (map (plugin_build L (is_prefix s)) (runs row_key (select_plugins f s)), is_rows_err s)"
    by (rule extract_plugins_runs)
  then show ?thesis using assms(1,3) by (simp add: getPluginsFromDB_def reachable_store_def stmt_err_def query_plugins_def)
qed

text \<open>The artifacts of the entry for a name and target, found among the returned entries.\<close>

definition listed :: "inventory_entry list \<Rightarrow> string \<Rightarrow> string \<Rightarrow> string \<Rightarrow> artifact \<Rightarrow> bool" where
  "listed ps n t v a \<longleftrightarrow>
     (\<exists>p \<in> set ps. ie_Name p = n \<and> ie_Target p = t \<and> (\<exists>as. map_of (ie_Artifacts p) v = Some as \<and> a \<in> set as))"

lemma listed_build:
  assumes "rows_sorted rows" "\<And>r. r \<in> set rows \<Longrightarrow> row_ok L r"
  shows "listed (map (plugin_build L u) (runs row_key rows)) n t v a \<longleftrightarrow>
    (\<exists>r \<in> set rows. pr_name r = n \<and> pr_target r = t \<and> pr_version r = v \<and> a = row_artifact u r)"
    (is "?l \<longleftrightarrow> ?r")
proof
  assume ?l
  then obtain r as where r: "r \<in> set (runs row_key rows)" "pr_name (hd r) = n" "row_target L (hd r) = t"
    "map_of (plugin_vmap u (runs pr_version r)) v = Some as" "a \<in> set as"
    by (auto simp: listed_def build_fields)
  then have "pr_target (hd r) = t" using assms(2) [OF hd_run_in [OF r(1)]] by (simp add: row_ok_def)
  with r run_artifacts [OF assms(1) r(1), of u v] show ?r
    by (auto simp: Let_def split: if_splits)
next
  assume ?r
  then obtain x where x: "x \<in> set rows" "row_key x = (n, t)" "pr_version x = v" "a = row_artifact u x" by auto
  from run_of [OF x(1), of row_key] obtain r where r: "r \<in> set (runs row_key rows)" "x \<in> set r" by blast
  have key: "row_key (hd r) = (n, t)" using runs_const [OF r] x(2) by simp
  have tgt: "row_target L (hd r) = t"
    using assms(2) [OF hd_run_in [OF r(1)]] key by (simp add: row_ok_def)
  let ?rs = "filter (\<lambda>y. row_key y = row_key (hd r) \<and> pr_version y = v) rows"
  have "x \<in> set ?rs" using x key by simp
  then have "map_of (plugin_vmap u (runs pr_version r)) v = Some (map (row_artifact u) ?rs)"
    unfolding run_artifacts [OF assms(1) r(1), of u v] Let_def by (metis empty_iff list.set(1))
  moreover have "a \<in> set (map (row_artifact u) ?rs)" using \<open>x \<in> set ?rs\<close> x(4) by auto
  ultimately show ?l
    using r(1) key tgt unfolding listed_def by (auto simp: build_fields)
qed

lemma query_listed:
  assumes "reachable_store s" "list_all (row_ok L) (is_plugins s)" "is_rows_err s = None"
    "f_Version f \<noteq> VersionLatest" "plain_filter f"
  obtains ps where "GetPlugins L s (Some f) = (f, Some (ps, None))"
    "\<And>n t v a. listed ps n t v a \<longleftrightarrow>
       (\<exists>r \<in> set (is_plugins s). pr_name r = n \<and> pr_target r = t \<and> pr_version r = v \<and>
          list_all (plugin_cond_holds r) (plugin_conds f) \<and> a = row_artifact (is_prefix s) r)"
proof -
  have ok: "row_ok L r" if "r \<in> set (select_plugins f s)" for r
    using assms(2) that by (auto simp: query_plugins_set list_all_iff)
  let ?ps = "map (plugin_build L (is_prefix s)) (runs row_key (select_plugins f s))"
  have get: "GetPlugins L s (Some f) = (f, Some (?ps, None))"
    using getPluginsFromDB_runs [OF assms(1,2,5)] assms(3,4) by (simp add: GetPlugins_def Let_def)
  have "listed ?ps n t v a \<longleftrightarrow>
       (\<exists>r \<in> set (is_plugins s). pr_name r = n \<and> pr_target r = t \<and> pr_version r = v \<and>
          list_all (plugin_cond_holds r) (plugin_conds f) \<and> a = row_artifact (is_prefix s) r)" for n t v a
    using listed_build [OF query_rows_sorted ok, of f s "is_prefix s" n t v a]
    by (auto simp: query_plugins_set)
  with get that show thesis by blast
qed

text \<open>A query whose values have no quote returns exactly the artifacts of the rows that satisfy the filter: an artifact
  is listed under a name, target and version if and only if a row with these values satisfies all
  conditions of the filter; in particular hidden rows are returned only when the filter includes them.\<close>

theorem query_returns_matching_rows:
  assumes "reachable_store s" "list_all (row_ok L) (is_plugins s)" "is_rows_err s = None"
    "f_Version f \<noteq> VersionLatest" "plain_filter f"
  shows "\<exists>ps. GetPlugins L s (Some f) = (f, Some (ps, None)) \<and>
    (\<forall>n t v a. listed ps n t v a \<longleftrightarrow>
       (\<exists>r \<in> set (is_plugins s). pr_name r = n \<and> pr_target r = t \<and> pr_version r = v \<and>
          list_all (plugin_cond_holds r) (plugin_conds f) \<and> a = row_artifact (is_prefix s) r)) \<and>
    (\<forall>n t v a. listed ps n t v a \<longrightarrow> \<not> f_IncludeHidden f \<longrightarrow>
       (\<exists>r \<in> set (is_plugins s). pr_hidden r = ''false'' \<and> a = row_artifact (is_prefix s) r))"
proof -
  have "pr_hidden r = ''false''" if "list_all (plugin_cond_holds r) (plugin_conds f)" "\<not> f_IncludeHidden f" for r
    using that by (simp add: plugin_conds_def)
  with query_listed [OF assms] show ?thesis by (smt (verit, best))
qed

theorem query_returns_matching_rows_witness:
  "\<exists>ps. GetPlugins dotted_lib demo_store (Some (empty_filter\<lparr>f_Name := ''a'', f_Version := ''v1.1''\<rparr>)) =
      (empty_filter\<lparr>f_Name := ''a'', f_Version := ''v1.1''\<rparr>, Some (ps, None)) \<and>
    listed ps ''a'' ''global'' ''v1.1.0'' (row_artifact ''reg'' (demo_row ''a'' ''global'' ''v1.1.0'' ''linux''))"
proof -
  let ?f = "empty_filter\<lparr>f_Name := ''a'', f_Version := ''v1.1''\<rparr>"
  have s: "reachable_store demo_store" "list_all (row_ok dotted_lib) (is_plugins demo_store)"
    "is_rows_err demo_store = None" "f_Version ?f \<noteq> VersionLatest" "plain_filter ?f" "is_prefix demo_store = ''reg''"
    using demo_rows_facts(1)
    by (simp_all add: reachable_store_def demo_store_def VersionLatest_def plain_filter_def plain_def empty_filter_def)
  let ?r = "demo_row ''a'' ''global'' ''v1.1.0'' ''linux''"
  have r: "?r \<in> set (is_plugins demo_store)" by (simp add: demo_store_def demo_rows_def)
  have c: "list_all (plugin_cond_holds ?r) (plugin_conds ?f)"
    by (simp add: plugin_conds_def empty_filter_def demo_row_def VersionLatest_def)
  have v: "pr_name ?r = ''a'' \<and> pr_target ?r = ''global'' \<and> pr_version ?r = ''v1.1.0''"
    by (simp add: demo_row_def)
  from query_returns_matching_rows [OF s(1-5)] r c v show ?thesis unfolding s(6) by blast
qed

end
