(* ===== verification/Inventory_Roundtrip.thy ===== *)
theory Inventory_Roundtrip
  imports Inventory_Correct
begin

text \<open>
  Operations of the inventory in sequence: a plugin that was inserted is found by a query, an
  insertion that meets a failing statement stops there and keeps the rows before it, an activation update
  changes the hidden flag of exactly the rows it names, and the metadata database restricts an inventory to what it lists.
\<close>

section \<open>Insert, then query\<close>

lemma exec_insert_plugin_ok:
  "exec_insert_plugin r s = (s', None) \<Longrightarrow> s' = s\<lparr>is_plugins := is_plugins s @ [r]\<rparr>"
  by (auto simp: exec_insert_plugin_def split: option.splits if_splits)

lemma insert_artifacts_ok:
  "insert_artifacts_loop p v as s = (s', None) \<Longrightarrow>
     s' = s\<lparr>is_plugins := is_plugins s @ map (entry_row p v) as\<rparr>"
proof (induction as arbitrary: s)
  case (Cons a as)
  then obtain s1 where s1: "exec_insert_plugin (entry_row p v a) s = (s1, None)"
    "insert_artifacts_loop p v as s1 = (s', None)" by (auto split: prod.splits option.splits)
  from Cons.IH [OF s1(2)] exec_insert_plugin_ok [OF s1(1)] show ?case by simp
qed simp

lemma insert_versions_ok:
  "insert_versions_loop p vs s = (s', None) \<Longrightarrow>
     s' = s\<lparr>is_plugins := is_plugins s @
            concat (map (\<lambda>v. map (entry_row p v) (get_or [] (ie_Artifacts p) v)) vs)\<rparr>"
proof (induction vs arbitrary: s)
  case (Cons v vs)
  then obtain s1 where s1: "insert_artifacts_loop p v (get_or [] (ie_Artifacts p) v) s = (s1, None)"
    "insert_versions_loop p vs s1 = (s', None)" by (auto split: prod.splits option.splits)
  from Cons.IH [OF s1(2)] insert_artifacts_ok [OF s1(1)] show ?case by simp
qed simp

text \<open>The rows of an entry, in the order in which they are inserted.\<close>

definition entry_rows :: "'v lib \<Rightarrow> inventory_entry \<Rightarrow> plugin_row list" where
  "entry_rows L e = concat (map (\<lambda>v. map (entry_row e v) (get_or [] (ie_Artifacts e) v)) (range_keys L (ie_Artifacts e)))"

definition entry_ok :: "'v lib \<Rightarrow> inventory_entry \<Rightarrow> bool" where
  "entry_ok L p \<longleftrightarrow> ie_Name p \<noteq> '''' \<and> CHR ''_'' \<notin> set (ie_Name p) \<and>
     StringToTarget L (to_lower (ie_Target p)) = ie_Target p \<and> '''' \<notin> set (keys_of (ie_Artifacts p))"

definition published :: "string \<Rightarrow> artifact \<Rightarrow> artifact" where
  "published u b = b\<lparr>a_Image := u @ ''/'' @ a_Image b, a_URI := ''''\<rparr>"

lemma row_artifact_entry_row: "row_artifact u (entry_row p v b) = published u b"
  by (simp add: row_artifact_def entry_row_def published_def)

lemma entry_row_ok: "entry_ok L p \<Longrightarrow> v \<in> set (keys_of (ie_Artifacts p)) \<Longrightarrow> row_ok L (entry_row p v b)"
  by (auto simp: entry_ok_def row_ok_def entry_row_def row_target_def)

definition exact_filter :: "string \<Rightarrow> string \<Rightarrow> plugin_filter" where
  "exact_filter n t = empty_filter\<lparr>f_Name := n, f_Target := t, f_IncludeHidden := True\<rparr>"

lemma exact_filter_holds:
  "n \<noteq> '''' \<Longrightarrow> pr_name r = n \<Longrightarrow> pr_target r = t \<Longrightarrow> list_all (plugin_cond_holds r) (plugin_conds (exact_filter n t))"
  by (simp add: plugin_conds_def exact_filter_def empty_filter_def)

lemma plain_exact_filter: "plain n \<Longrightarrow> plain t \<Longrightarrow> plain_filter (exact_filter n t)"
  by (simp add: plain_filter_def exact_filter_def empty_filter_def plain_def)

text \<open>C33 (roundtrip): after a successful \<open>InsertPlugin\<close> of a plugin whose name and target hold no quote
  (the query splices them into its text as they are), a query for that name and target
  (hidden plugins included) lists for every version exactly the artifacts that were there before and
  those of the inserted entry, with the image path below the repository prefix.\<close>

theorem insert_then_query:
  assumes "range_law L" "reachable_store s" "list_all (row_ok L) (is_plugins s)" "is_rows_err s = None"
    "entry_ok L p" "plain (ie_Name p)" "plain (ie_Target p)" "InsertPlugin L p s = (s', None)"
  shows "\<exists>ps. snd (GetPlugins L s' (Some (exact_filter (ie_Name p) (ie_Target p)))) = Some (ps, None) \<and>
    (\<forall>v a. listed ps (ie_Name p) (ie_Target p) v a \<longleftrightarrow>
       (\<exists>r \<in> set (is_plugins s). row_key r = (ie_Name p, ie_Target p) \<and> pr_version r = v \<and>
          a = row_artifact (is_prefix s) r) \<or>
       (\<exists>b \<in> set (get_or [] (ie_Artifacts p) v). a = published (is_prefix s) b))"
proof -
  let ?new = "concat (map (\<lambda>v. map (entry_row p v) (get_or [] (ie_Artifacts p) v)) (range_keys L (ie_Artifacts p)))"
  have s': "s' = s\<lparr>is_plugins := is_plugins s @ ?new\<rparr>"
    using assms(2,8) by (simp add: InsertPlugin_def reachable_store_def insert_versions_ok)
  have new: "r \<in> set ?new \<longleftrightarrow> (\<exists>v b. b \<in> set (get_or [] (ie_Artifacts p) v) \<and> r = entry_row p v b)" for r
  proof -
    have "v \<in> set (range_keys L (ie_Artifacts p))" if "b \<in> set (get_or [] (ie_Artifacts p) v)" for v b
      using get_or_key [OF that] assms(1) by simp
    then show ?thesis by auto
  qed
  have ok: "list_all (row_ok L) (is_plugins s')"
    using assms(1,3,5) by (auto simp: s' list_all_iff entry_row_ok)
  have store: "reachable_store s'" "is_rows_err s' = None" "is_prefix s' = is_prefix s"
    using assms(2,4) by (simp_all add: s' reachable_store_def)
  let ?f = "exact_filter (ie_Name p) (ie_Target p)"
  have "f_Version ?f \<noteq> VersionLatest" by (simp add: exact_filter_def empty_filter_def VersionLatest_def)
  from query_listed [OF store(1) ok store(2) this plain_exact_filter [OF assms(6,7)]] obtain ps where
    ps: "GetPlugins L s' (Some ?f) = (?f, Some (ps, None))"
    and listed: "\<And>n t v a. listed ps n t v a \<longleftrightarrow>
       (\<exists>r \<in> set (is_plugins s'). pr_name r = n \<and> pr_target r = t \<and> pr_version r = v \<and>
          list_all (plugin_cond_holds r) (plugin_conds ?f) \<and> a = row_artifact (is_prefix s') r)" by blast
  have rows: "set (is_plugins s') = set (is_plugins s) \<union> set ?new" by (simp add: s')
  have holds: "list_all (plugin_cond_holds r) (plugin_conds ?f)" if "row_key r = (ie_Name p, ie_Target p)" for r
    using that assms(5) by (simp add: exact_filter_holds entry_ok_def)
  have "listed ps (ie_Name p) (ie_Target p) v a \<longleftrightarrow>
      (\<exists>r \<in> set (is_plugins s) \<union> set ?new. row_key r = (ie_Name p, ie_Target p) \<and> pr_version r = v \<and>
         a = row_artifact (is_prefix s) r)" for v a
    unfolding listed store(3) rows by (intro bex_cong refl) (use holds in auto)
  moreover have "(\<exists>r \<in> set ?new. row_key r = (ie_Name p, ie_Target p) \<and> pr_version r = v \<and>
         a = row_artifact (is_prefix s) r) \<longleftrightarrow>
      (\<exists>b \<in> set (get_or [] (ie_Artifacts p) v). a = published (is_prefix s) b)"
    (is "?l \<longleftrightarrow> ?r") for v a
  proof
    assume ?l
    then show ?r unfolding Bex_def new by (auto simp: row_artifact_entry_row entry_row_def published_def row_artifact_def)
  next
    assume ?r
    then obtain b where b: "b \<in> set (get_or [] (ie_Artifacts p) v)" "a = published (is_prefix s) b" by blast
    then have "entry_row p v b \<in> set ?new" using new by blast
    moreover have "row_key (entry_row p v b) = (ie_Name p, ie_Target p) \<and> pr_version (entry_row p v b) = v"
      by (simp add: entry_row_def)
    ultimately show ?l using b(2) row_artifact_entry_row by metis
  qed
  ultimately show ?thesis using ps by (intro exI [of _ ps]) (auto simp: bex_Un)
qed

lemma demo_store_facts:
  "reachable_store demo_store" "list_all (row_ok dotted_lib) (is_plugins demo_store)"
  "is_rows_err demo_store = None" "is_prefix demo_store = ''reg''"
  using demo_rows_facts(1) by (simp_all add: reachable_store_def demo_store_def)

lemma demo_entry_ok: "entry_ok dotted_lib (demo_entry ''c'' ''global'')"
  by (simp add: entry_ok_def demo_entry_def dotted_lib_def keys_of_def to_lower_def lower_char_def)

lemma demo_insert: "\<exists>s'. InsertPlugin dotted_lib (demo_entry ''c'' ''global'') demo_store = (s', None)"
  by (simp add: InsertPlugin_def demo_store_def demo_entry_def range_keys_def keys_of_def dotted_lib_def
      get_or_def exec_insert_plugin_def stmt_err_def entry_row_def plugin_pk_def demo_rows_def demo_row_def)

theorem insert_then_query_witness:
  "\<exists>s' ps. InsertPlugin dotted_lib (demo_entry ''c'' ''global'') demo_store = (s', None) \<and>
    snd (GetPlugins dotted_lib s' (Some (exact_filter ''c'' ''global''))) = Some (ps, None) \<and>
    listed ps ''c'' ''global'' ''v1.0.0''
      (zero_artifact\<lparr>a_Image := ''reg/img'', a_OS := ''linux'', a_Arch := ''amd64''\<rparr>)"
proof -
  obtain s' where s': "InsertPlugin dotted_lib (demo_entry ''c'' ''global'') demo_store = (s', None)"
    using demo_insert by blast
  have e: "ie_Name (demo_entry ''c'' ''global'') = ''c''" "ie_Target (demo_entry ''c'' ''global'') = ''global''"
    "get_or [] (ie_Artifacts (demo_entry ''c'' ''global'')) ''v1.0.0'' =
       [zero_artifact\<lparr>a_Image := ''img'', a_OS := ''linux'', a_Arch := ''amd64''\<rparr>]"
    by (simp_all add: demo_entry_def get_or_def)
  have p: "published ''reg'' (zero_artifact\<lparr>a_Image := ''img'', a_OS := ''linux'', a_Arch := ''amd64''\<rparr>) =
      zero_artifact\<lparr>a_Image := ''reg/img'', a_OS := ''linux'', a_Arch := ''amd64''\<rparr>"
    by (simp add: published_def zero_artifact_def)
  have q: "plain (ie_Name (demo_entry ''c'' ''global''))" "plain (ie_Target (demo_entry ''c'' ''global''))"
    by (simp_all add: demo_entry_def plain_def)
  from insert_then_query [OF dotted_range_law demo_store_facts(1-3) demo_entry_ok q s'] s' e p
  show ?thesis unfolding demo_store_facts(4) by fastforce
qed

section \<open>An insertion that stops\<close>

text \<open>\<open>stops_at s rows s' e\<close>: the statements for the rows ran in order, the first \<open>k\<close> took effect, and
  either they were all the rows and no error is reported, or the next one failed: the database refused the
  statement, or a row with the same primary key is in the table.\<close>

definition stops_at :: "inv_store \<Rightarrow> plugin_row list \<Rightarrow> inv_store \<Rightarrow> err option \<Rightarrow> nat \<Rightarrow> bool" where
  "stops_at s rows s' e k \<longleftrightarrow> k \<le> length rows \<and> s' = s\<lparr>is_plugins := is_plugins s @ take k rows\<rparr> \<and>
     (e = None \<longleftrightarrow> k = length rows) \<and>
     (k < length rows \<longrightarrow> stmt_err s DbExec \<noteq> None \<or> plugin_pk (rows ! k) \<in> plugin_pk ` set (is_plugins s')) \<and>
     (0 < k \<longrightarrow> stmt_err s DbExec = None) \<and>
     (\<forall>i < k. plugin_pk (rows ! i) \<notin> plugin_pk ` set (is_plugins s @ take i rows))"

lemma stmt_err_plugins [simp]: "stmt_err (s\<lparr>is_plugins := rows\<rparr>) op = stmt_err s op"
  by (simp add: stmt_err_def)

lemma stops_at_Nil: "stops_at s [] s None 0"
  by (simp add: stops_at_def)

lemma stops_at_first:
  "exec_insert_plugin r s = (s1, Some x) \<Longrightarrow> stops_at s (r # rows) s1 (Some e) 0"
  by (auto simp: stops_at_def exec_insert_plugin_def split: option.splits if_splits)

lemma stops_at_Cons:
  assumes "exec_insert_plugin r s = (s1, None)" "stops_at s1 rows s' e k"
  shows "stops_at s (r # rows) s' e (Suc k)"
proof -
  have s1: "s1 = s\<lparr>is_plugins := is_plugins s @ [r]\<rparr>" "stmt_err s DbExec = None"
    "plugin_pk r \<notin> plugin_pk ` set (is_plugins s)"
    using assms(1) by (auto simp: exec_insert_plugin_def split: option.splits if_splits)
  have "plugin_pk ((r # rows) ! i) \<notin> plugin_pk ` set (is_plugins s @ take i (r # rows))" if "i < Suc k" for i
    using that s1(1,3) assms(2) by (cases i) (auto simp: stops_at_def)
  then show ?thesis using s1(1,2) assms(2) by (auto simp: stops_at_def)
qed

lemma stops_at_append:
  assumes "stops_at s as s1 None k" "stops_at s1 bs s' e j"
  shows "stops_at s (as @ bs) s' e (length as + j)"
proof -
  have s1: "s1 = s\<lparr>is_plugins := is_plugins s @ as\<rparr>" "k = length as" using assms(1) by (auto simp: stops_at_def)
  have "plugin_pk ((as @ bs) ! i) \<notin> plugin_pk ` set (is_plugins s @ take i (as @ bs))" if "i < length as + j" for i
  proof (cases "i < length as")
    case True
    then show ?thesis using assms(1) s1(2) by (simp add: stops_at_def nth_append)
  next
    case False
    then have "i - length as < j" using that by simp
    then have "plugin_pk (bs ! (i - length as)) \<notin> plugin_pk ` set (is_plugins s1 @ take (i - length as) bs)"
      using assms(2) by (simp add: stops_at_def)
    then show ?thesis using False s1(1) by (simp add: nth_append)
  qed
  then show ?thesis using assms s1 by (auto simp: stops_at_def nth_append)
qed

lemma insert_artifacts_stops:
  "insert_artifacts_loop p v as s = (s', e) \<Longrightarrow> \<exists>k. stops_at s (map (entry_row p v) as) s' e k"
proof (induction as arbitrary: s)
  case (Cons a as)
  obtain s1 x where s1: "exec_insert_plugin (entry_row p v a) s = (s1, x)" by force
  show ?case
  proof (cases x)
    case None
    with Cons.prems s1 have "insert_artifacts_loop p v as s1 = (s', e)" by simp
    from Cons.IH [OF this] s1 None stops_at_Cons show ?thesis by (metis list.simps(9))
  next
    case (Some y)
    with Cons.prems s1 have "s' = s1" "\<exists>z. e = Some z" by auto
    with s1 Some stops_at_first show ?thesis by (metis list.simps(9))
  qed
qed (auto intro: stops_at_Nil)

lemma stops_at_error:
  assumes "stops_at s as s' (Some x) k"
  shows "stops_at s (as @ bs) s' (Some x) k"
proof -
  have "k < length as" using assms by (auto simp: stops_at_def)
  then show ?thesis using assms by (auto simp: stops_at_def nth_append)
qed

lemma insert_versions_stops:
  "insert_versions_loop p vs s = (s', e) \<Longrightarrow>
     \<exists>k. stops_at s (concat (map (\<lambda>v. map (entry_row p v) (get_or [] (ie_Artifacts p) v)) vs)) s' e k"
proof (induction vs arbitrary: s)
  case (Cons v vs)
  obtain s1 x where s1: "insert_artifacts_loop p v (get_or [] (ie_Artifacts p) v) s = (s1, x)" by force
  from insert_artifacts_stops [OF s1] obtain k where
    k: "stops_at s (map (entry_row p v) (get_or [] (ie_Artifacts p) v)) s1 x k" by blast
  show ?case
  proof (cases x)
    case None
    with Cons.prems s1 have "insert_versions_loop p vs s1 = (s', e)" by simp
    from Cons.IH [OF this] obtain j where
      "stops_at s1 (concat (map (\<lambda>v. map (entry_row p v) (get_or [] (ie_Artifacts p) v)) vs)) s' e j" by blast
    from stops_at_append [OF k [unfolded None] this] show ?thesis unfolding list.map concat.simps by (rule exI)
  next
    case (Some y)
    with Cons.prems s1 have "s' = s1" "e = Some y" by auto
    from stops_at_error [OF k [unfolded Some]] this show ?thesis unfolding list.map concat.simps by blast
  qed
qed (auto intro: stops_at_Nil)

lemma entry_rows_of_version:
  assumes "range_law L" "map_ok (ie_Artifacts p)"
  shows "filter (\<lambda>r. pr_version r = v) (entry_rows L p) = map (entry_row p v) (get_or [] (ie_Artifacts p) v)"
proof -
  have rows: "filter (\<lambda>r. pr_version r = v) (map (entry_row p u) as) = (if u = v then map (entry_row p v) as else [])" for u as
    by (induction as) (auto simp: entry_row_def)
  have d: "distinct (range_keys L (ie_Artifacts p))" using assms by simp
  have f: "filter (\<lambda>r. pr_version r = v) (concat (map (\<lambda>u. map (entry_row p u) (get_or [] (ie_Artifacts p) u)) us)) =
      (if v \<in> set us then map (entry_row p v) (get_or [] (ie_Artifacts p) v) else [])" if "distinct us" for us
    using that
  proof (induction us)
    case (Cons u us)
    then show ?case by (cases "u = v") (simp_all add: rows)
  qed simp
  have g: "get_or [] (ie_Artifacts p) v = []" if "v \<notin> set (range_keys L (ie_Artifacts p))"
  proof (rule ccontr)
    assume "get_or [] (ie_Artifacts p) v \<noteq> []"
    then obtain b where "b \<in> set (get_or [] (ie_Artifacts p) v)" by (cases "get_or [] (ie_Artifacts p) v") auto
    from get_or_key [OF this] that assms(1) show False by simp
  qed
  show ?thesis unfolding entry_rows_def f [OF d] using g by simp
qed

text \<open>C34 (error): \<open>InsertPlugin\<close> writes, for every version of the entry, one row for each of its artifacts, in
  their order and with the entry's columns (no recommended version, the image as the URI). The statements run without a
  transaction: the rows before the first failing statement stay in the table, that statement's row and the later
  ones are not written, and an error is returned exactly when a statement failed. A statement fails only when
  the database refuses it or a row with the same name, target, version, OS and architecture is
  already there (the \<^verbatim>\<open>PRIMARY KEY\<close> of \<^verbatim>\<open>create_tables.sql\<close>), a row of the same entry included.\<close>

theorem insert_plugin_stops_at_conflict:
  assumes "range_law L" "map_ok (ie_Artifacts p)" "is_fault s DbOpen = None" "InsertPlugin L p s = (s', e)"
  shows "\<exists>rows k.
    (\<forall>v. filter (\<lambda>r. pr_version r = v) rows = map (\<lambda>a. \<lparr>pr_name = ie_Name p, pr_target = ie_Target p, pr_recommendedVersion = '''',
       pr_version = v, pr_hidden = format_bool (ie_Hidden p), pr_description = ie_Description p, pr_publisher = ie_Publisher p,
       pr_vendor = ie_Vendor p, pr_os = a_OS a, pr_arch = a_Arch a, pr_digest = a_Digest a, pr_uri = a_Image a\<rparr>)
       (get_or [] (ie_Artifacts p) v)) \<and>
    k \<le> length rows \<and> s' = s\<lparr>is_plugins := is_plugins s @ take k rows\<rparr> \<and> (e = None \<longleftrightarrow> k = length rows) \<and>
    (k < length rows \<longrightarrow> stmt_err s DbExec \<noteq> None \<or> plugin_pk (rows ! k) \<in> plugin_pk ` set (is_plugins s')) \<and>
    (0 < k \<longrightarrow> stmt_err s DbExec = None) \<and>
    (\<forall>i < k. plugin_pk (rows ! i) \<notin> plugin_pk ` set (is_plugins s @ take i rows))"
proof -
  have "insert_versions_loop p (range_keys L (ie_Artifacts p)) s = (s', e)"
    using assms(3,4) by (simp add: InsertPlugin_def)
  then obtain k where "stops_at s (entry_rows L p) s' e k"
    using insert_versions_stops unfolding entry_rows_def by blast
  note stop = this [unfolded stops_at_def]
  show ?thesis
    by (rule exI [of _ "entry_rows L p"], rule exI [of _ k], rule conjI [OF _ stop])
      (simp add: entry_rows_of_version [OF assms(1,2)] entry_row_def)
qed

text \<open>The second of two artifacts for the same platform is refused; the first one stays.\<close>

definition twice_entry :: inventory_entry where
  "twice_entry = (demo_entry ''c'' ''global'')\<lparr>ie_Artifacts := [(''v1.0.0'',
     [zero_artifact\<lparr>a_Image := ''img'', a_OS := ''linux'', a_Arch := ''amd64''\<rparr>,
      zero_artifact\<lparr>a_Image := ''other'', a_OS := ''linux'', a_Arch := ''amd64''\<rparr>])]\<rparr>"

theorem insert_plugin_stops_at_conflict_witness:
  "\<exists>s' x. InsertPlugin dotted_lib twice_entry demo_store = (s', Some x) \<and>
    length (is_plugins s') = Suc (length demo_rows) \<and> pr_uri (last (is_plugins s')) = ''img''"
proof -
  obtain s' x where s': "InsertPlugin dotted_lib twice_entry demo_store = (s', Some x)"
      "length (is_plugins s') = Suc (length demo_rows)"
    by (simp add: InsertPlugin_def twice_entry_def demo_store_def demo_entry_def range_keys_def keys_of_def dotted_lib_def
      get_or_def exec_insert_plugin_def stmt_err_def entry_row_def plugin_pk_def demo_rows_def demo_row_def)
  have h: "map_ok (ie_Artifacts twice_entry)" "is_fault demo_store DbOpen = None" "is_plugins demo_store = demo_rows"
    by (simp_all add: twice_entry_def demo_store_def)
  from insert_plugin_stops_at_conflict [OF dotted_range_law h(1,2) s'(1)] obtain rows k where
    rows: "\<forall>v. filter (\<lambda>r. pr_version r = v) rows = map (\<lambda>a. \<lparr>pr_name = ie_Name twice_entry, pr_target = ie_Target twice_entry,
       pr_recommendedVersion = '''', pr_version = v, pr_hidden = format_bool (ie_Hidden twice_entry),
       pr_description = ie_Description twice_entry, pr_publisher = ie_Publisher twice_entry, pr_vendor = ie_Vendor twice_entry,
       pr_os = a_OS a, pr_arch = a_Arch a, pr_digest = a_Digest a, pr_uri = a_Image a\<rparr>) (get_or [] (ie_Artifacts twice_entry) v)"
    and k: "k \<le> length rows" "s' = demo_store\<lparr>is_plugins := is_plugins demo_store @ take k rows\<rparr>"
    by blast
  have "get_or [] (ie_Artifacts twice_entry) v = []" if "v \<noteq> ''v1.0.0''" for v
    using that by (simp add: twice_entry_def get_or_def)
  then have empty: "filter (\<lambda>r. pr_version r = v) rows = []" if "v \<noteq> ''v1.0.0''" for v
    using rows [rule_format, of v] that by simp
  have "pr_version r = ''v1.0.0''" if "r \<in> set rows" for r
  proof (rule ccontr)
    assume "pr_version r \<noteq> ''v1.0.0''"
    from empty [OF this] that show False by (auto simp: filter_empty_conv)
  qed
  then have all: "filter (\<lambda>r. pr_version r = ''v1.0.0'') rows = rows" by simp
  have "map pr_uri (filter (\<lambda>r. pr_version r = ''v1.0.0'') rows) = [''img'', ''other'']"
    using rows [rule_format, of "''v1.0.0''"] by (simp add: twice_entry_def get_or_def)
  then have "map pr_uri rows = [''img'', ''other'']" unfolding all .
  then obtain r rs where r: "rows = r # rs" "pr_uri r = ''img''" by (cases rows) auto
  have "length (take k rows) = 1" using k(2) s'(2) h(3) by simp
  then have "take k rows = [r]" using r(1) by (cases k) (auto simp: length_Suc_conv min_def split: if_splits)
  then have "pr_uri (last (is_plugins s')) = ''img''" using k(2) r(2) by simp
  with s' show ?thesis by blast
qed

section \<open>Activation\<close>

lemma update_activation_ok:
  assumes "updatePluginVersionActivationState n t v act s = (s', None)"
  shows "s' = s\<lparr>is_plugins := map (\<lambda>r. if pr_name r = n \<and> pr_target r = t \<and> pr_version r = v
      then r\<lparr>pr_hidden := format_bool (\<not> act)\<rparr> else r) (is_plugins s)\<rparr> \<and>
    (\<exists>r \<in> set (is_plugins s). pr_name r = n \<and> pr_target r = t \<and> pr_version r = v)"
  using assms unfolding updatePluginVersionActivationState_def
  by (auto simp: Let_def filter_empty_conv split: option.splits if_splits)

definition set_hidden :: "string \<Rightarrow> string \<Rightarrow> string set \<Rightarrow> bool \<Rightarrow> plugin_row \<Rightarrow> plugin_row" where
  "set_hidden n t V h r =
     (if pr_name r = n \<and> pr_target r = t \<and> pr_version r \<in> V then r\<lparr>pr_hidden := format_bool h\<rparr> else r)"

lemma activation_loop_ok:
  assumes "activation_loop p vs s = (s', None)"
  shows "s' = s\<lparr>is_plugins := map (set_hidden (ie_Name p) (ie_Target p) (set vs) (ie_Hidden p)) (is_plugins s)\<rparr> \<and>
    (\<forall>v \<in> set vs. \<exists>r \<in> set (is_plugins s). pr_name r = ie_Name p \<and> pr_target r = ie_Target p \<and> pr_version r = v)"
  using assms
proof (induction vs arbitrary: s)
  case Nil
  then show ?case by (simp add: set_hidden_def)
next
  case (Cons v vs)
  let ?n = "ie_Name p" and ?t = "ie_Target p" and ?h = "ie_Hidden p"
  from Cons.prems obtain s1 where
    s1: "updatePluginVersionActivationState ?n ?t v (\<not> ?h) s = (s1, None)" "activation_loop p vs s1 = (s', None)"
    by (auto split: prod.splits option.splits)
  have up: "s1 = s\<lparr>is_plugins := map (set_hidden ?n ?t {v} ?h) (is_plugins s)\<rparr>"
    "\<exists>r \<in> set (is_plugins s). pr_name r = ?n \<and> pr_target r = ?t \<and> pr_version r = v"
    using update_activation_ok [OF s1(1)] by (simp_all add: set_hidden_def)
  have comp: "set_hidden ?n ?t (set vs) ?h \<circ> set_hidden ?n ?t {v} ?h = set_hidden ?n ?t (set (v # vs)) ?h"
    by (auto simp: set_hidden_def fun_eq_iff)
  have keys: "pr_name (set_hidden n t V h r) = pr_name r" "pr_target (set_hidden n t V h r) = pr_target r"
    "pr_version (set_hidden n t V h r) = pr_version r" for n t V h r
    by (simp_all add: set_hidden_def)
  from Cons.IH [OF s1(2)] up comp show ?case by (auto simp: keys)
qed

text \<open>A successful activation update sets the hidden flag of exactly the rows of the plugin's
  name, target and listed versions to the requested state, leaves every other row as it was, and every
  listed version has a row.\<close>

theorem activation_updates_listed_versions:
  assumes "range_law L" "UpdatePluginActivationState L p s = (s', None)"
  shows "is_plugins s' = map (set_hidden (ie_Name p) (ie_Target p) (set (keys_of (ie_Artifacts p))) (ie_Hidden p))
      (is_plugins s) \<and>
    is_groups s' = is_groups s \<and>
    (\<forall>v \<in> set (keys_of (ie_Artifacts p)).
       \<exists>r \<in> set (is_plugins s). row_key r = (ie_Name p, ie_Target p) \<and> pr_version r = v)"
  using assms activation_loop_ok [of p "range_keys L (ie_Artifacts p)" s s']
  by (auto simp: UpdatePluginActivationState_def split: option.splits)

theorem activation_updates_listed_versions_witness:
  "\<exists>s'. UpdatePluginActivationState dotted_lib ((demo_entry ''a'' ''global'')\<lparr>ie_Hidden := True\<rparr>) demo_store = (s', None) \<and>
    is_plugins s' = map (set_hidden ''a'' ''global'' {''v1.0.0''} True) demo_rows"
proof -
  let ?p = "(demo_entry ''a'' ''global'')\<lparr>ie_Hidden := True\<rparr>"
  have "\<exists>s'. UpdatePluginActivationState dotted_lib ?p demo_store = (s', None)"
    by (simp add: UpdatePluginActivationState_def demo_store_def demo_entry_def range_keys_def keys_of_def
        dotted_lib_def updatePluginVersionActivationState_def stmt_err_def demo_rows_def demo_row_def Let_def)
  then obtain s' where s': "UpdatePluginActivationState dotted_lib ?p demo_store = (s', None)" by blast
  have e: "ie_Name ?p = ''a''" "ie_Target ?p = ''global''" "ie_Hidden ?p"
    "set (keys_of (ie_Artifacts ?p)) = {''v1.0.0''}" "is_plugins demo_store = demo_rows"
    by (simp_all add: demo_entry_def keys_of_def demo_store_def)
  from activation_updates_listed_versions [OF dotted_range_law s'] s' e show ?thesis by simp
qed

section \<open>Metadata\<close>

lemma set_insert_or_replace: "set (insert_or_replace new old) = set new \<union> set old"
  unfolding insert_or_replace_def by (induction new arbitrary: old) auto

lemma distinct_insert_or_replace: "distinct old \<Longrightarrow> distinct (insert_or_replace new old)"
  unfolding insert_or_replace_def
  by (induction new arbitrary: old) (auto simp: distinct_removeAll)

text \<open>Merging a second metadata database makes the available plugins and groups the union
  of both, without duplicates, and updating an inventory with the merged metadata keeps exactly the rows
  whose plugin version or group version one of the two databases lists, in their order.\<close>

theorem metadata_merge_restricts_inventory:
  assumes "MergeInventoryMetadataDatabase m2 m1 = (m, None)" "UpdatePluginInventoryDatabase m s = (s', None)"
    "distinct (ms_plugins m1)" "distinct (ms_groups m1)"
  shows "set (ms_plugins m) = set (ms_plugins m1) \<union> set (ms_plugins m2) \<and>
    set (ms_groups m) = set (ms_groups m1) \<union> set (ms_groups m2) \<and>
    distinct (ms_plugins m) \<and> distinct (ms_groups m) \<and>
    is_plugins s' = filter (\<lambda>r. \<lparr>id_Name = pr_name r, id_Target = pr_target r, id_Version = pr_version r\<rparr>
      \<in> set (ms_plugins m1) \<union> set (ms_plugins m2)) (is_plugins s) \<and>
    is_groups s' = filter (\<lambda>r. \<lparr>gi_Vendor = gr_vendor r, gi_Publisher = gr_publisher r,
      gi_Name = gr_groupName r, gi_Version = gr_groupVersion r\<rparr>
      \<in> set (ms_groups m1) \<union> set (ms_groups m2)) (is_groups s)"
proof -
  have m: "ms_plugins m = insert_or_replace (ms_plugins m2) (ms_plugins m1)"
    "ms_groups m = insert_or_replace (ms_groups m2) (ms_groups m1)"
    using assms(1) by (auto simp: MergeInventoryMetadataDatabase_def split: option.splits if_splits)
  have s: "s' = s\<lparr>is_groups := filter (\<lambda>a. \<lparr>gi_Vendor = gr_vendor a, gi_Publisher = gr_publisher a,
        gi_Name = gr_groupName a, gi_Version = gr_groupVersion a\<rparr> \<in> set (ms_groups m)) (is_groups s),
      is_plugins := filter (\<lambda>a. \<lparr>id_Name = pr_name a, id_Target = pr_target a,
        id_Version = pr_version a\<rparr> \<in> set (ms_plugins m)) (is_plugins s)\<rparr>"
    using assms(2) by (auto simp: UpdatePluginInventoryDatabase_def split: option.splits)
  show ?thesis
    using assms(3,4) unfolding s m set_insert_or_replace
    by (simp add: distinct_insert_or_replace set_insert_or_replace Un_commute)
qed

definition demo_meta :: "plugin_identifier list \<Rightarrow> meta_store" where
  "demo_meta ps = \<lparr>ms_file = ''meta'', ms_schema = True, ms_plugins = ps, ms_groups = [], ms_fault = (\<lambda>_. None)\<rparr>"

theorem metadata_merge_restricts_inventory_witness:
  "\<exists>m s'. MergeInventoryMetadataDatabase
        (demo_meta [\<lparr>id_Name = ''a'', id_Target = ''kubernetes'', id_Version = ''v1.0.0''\<rparr>])
        (demo_meta [\<lparr>id_Name = ''b'', id_Target = ''global'', id_Version = ''v0.1.0''\<rparr>]) = (m, None) \<and>
    UpdatePluginInventoryDatabase m demo_store = (s', None) \<and>
    is_plugins s' = [demo_row ''a'' ''kubernetes'' ''v1.0.0'' ''linux'', demo_row ''b'' ''global'' ''v0.1.0'' ''linux'']"
proof -
  let ?m2 = "demo_meta [\<lparr>id_Name = ''a'', id_Target = ''kubernetes'', id_Version = ''v1.0.0''\<rparr>]"
  let ?m1 = "demo_meta [\<lparr>id_Name = ''b'', id_Target = ''global'', id_Version = ''v0.1.0''\<rparr>]"
  obtain m where m: "MergeInventoryMetadataDatabase ?m2 ?m1 = (m, None)" "ms_schema m" "ms_fault m = (\<lambda>_. None)"
    by (simp add: MergeInventoryMetadataDatabase_def demo_meta_def meta_err_def)
  obtain s' where s': "UpdatePluginInventoryDatabase m demo_store = (s', None)"
    using m(2,3) by (simp add: UpdatePluginInventoryDatabase_def meta_err_def demo_store_def stmt_err_def)
  have d: "distinct (ms_plugins ?m1)" "distinct (ms_groups ?m1)" by (simp_all add: demo_meta_def)
  have "is_plugins s' = filter (\<lambda>r. \<lparr>id_Name = pr_name r, id_Target = pr_target r, id_Version = pr_version r\<rparr>
      \<in> set (ms_plugins ?m1) \<union> set (ms_plugins ?m2)) (is_plugins demo_store)"
    using metadata_merge_restricts_inventory [OF m(1) s' d] by blast
  also have "\<dots> = [demo_row ''a'' ''kubernetes'' ''v1.0.0'' ''linux'', demo_row ''b'' ''global'' ''v0.1.0'' ''linux'']"
    by (simp add: demo_store_def demo_rows_def demo_row_def demo_meta_def)
  finally show ?thesis using m(1) s' by blast
qed

end
