(* ===== verification/Discovery_Cache.thy ===== *)
theory Discovery_Cache
  imports Inventory_Update Catalog_Model
begin

text \<open>
  The cached copy of an OCI plugin inventory, the first half of
  \<^verbatim>\<open>pkg/discovery/oci_dbbacked.go\<close>: \<open>fetchInventoryImage\<close> and everything it calls, with
  \<open>GetPluginInventoryMetadataImage\<close> of \<^verbatim>\<open>pkg/airgapped/helper.go\<close>.

  The state \<open>oci_cache\<close> is the data directory of one discovery: its digest files (base name,
  content, modification time in nanoseconds), the inventory database and the central configuration
  file. The registry, the signature check, the clock and the failures of single file operations are
  the fields of \<open>oci_env\<close>. A \<^verbatim>\<open>time.Duration\<close> is a 64-bit number of nanoseconds, so the product
  with \<^verbatim>\<open>time.Second\<close> wraps around.
\<close>

section \<open>State and environment\<close>

record oci_cache =
  oc_files :: "(string \<times> string \<times> int) list"
  oc_db :: "inv_store option"
  oc_config :: "string option"

record image_files =
  img_db :: "inv_store option"
  img_meta :: "meta_store option"
  img_config :: "string option"

datatype file_op = FCreate | FWriteString | FOpen | FStat | FRemove | FChtimes

record oci_env =
  oe_now :: int
  oe_env :: environ
  oe_DefaultInventoryRefreshTTLSeconds :: int
  oe_ParseImage :: "string \<Rightarrow> (string \<times> string) res"
  oe_GetImageDigest :: "string \<Rightarrow> string res"
  oe_VerifyInventoryImageSignature :: "string \<Rightarrow> err option"
  oe_DownloadImage :: "string \<Rightarrow> image_files res"
  oe_MkdirTemp :: "nat \<Rightarrow> err option"
  oe_CopyFile :: "string \<Rightarrow> err option"
  oe_fails :: "file_op \<Rightarrow> string \<Rightarrow> bool"

text \<open>The criteria of a search (\<^verbatim>\<open>interface.go\<close>) and the discovery object.\<close>

record plugin_criteria =
  pc_Name :: string
  pc_Target :: string
  pc_Version :: string
  pc_OS :: string
  pc_Arch :: string

record group_criteria =
  gc_Vendor :: string
  gc_Publisher :: string
  gc_Name :: string
  gc_Version :: string

record oci_discovery =
  od_name :: string
  od_image :: string
  od_pluginCriteria :: "plugin_criteria option"
  od_groupCriteria :: "group_criteria option"
  od_useLocalCacheOnly :: bool
  od_forceRefresh :: bool
  od_forceInvalidation :: bool

section \<open>Time\<close>

definition wrap64 :: "int \<Rightarrow> int" where
  "wrap64 n = (n + 2 ^ 63) mod 2 ^ 64 - 2 ^ 63"

definition seconds :: "int \<Rightarrow> int" where
  "seconds n = wrap64 (n * 1000000000)"

text \<open>\<open>time.Since\<close> saturates.\<close>

definition time_Since :: "int \<Rightarrow> int \<Rightarrow> int" where
  "time_Since now t = max (- (2 ^ 63)) (min (2 ^ 63 - 1) (now - t))"

text \<open>The default is a variable the central configuration can set at start-up.\<close>

definition getCacheTTLValue :: "oci_env \<Rightarrow> int" where
  "getCacheTTLValue E =
     (let override = getenv (oe_env E) ''TANZU_CLI_PLUGIN_DB_CACHE_TTL_SECONDS''
      in if override \<noteq> ''''
         then (case atoi override of
                 None \<Rightarrow> oe_DefaultInventoryRefreshTTLSeconds E
               | Some v \<Rightarrow> if v \<ge> 0 then v else oe_DefaultInventoryRefreshTTLSeconds E)
         else oe_DefaultInventoryRefreshTTLSeconds E)"

section \<open>Digest files\<close>

text \<open>\<^verbatim>\<open>filepath.Glob(filepath.Join(od.pluginDataDir, prefix + "digest.*"))\<close>\<close>

definition glob_digests :: "string \<Rightarrow> oci_cache \<Rightarrow> string list" where
  "glob_digests digestPrefix c =
     filter (\<lambda>f. has_prefix f (digestPrefix @ ''digest.'')) (keys_of (oc_files c))"

text \<open>\<open>os.Create\<close> truncates or creates the file and stamps it; then \<open>WriteString\<close>.\<close>

definition create_file :: "oci_env \<Rightarrow> string \<Rightarrow> string \<Rightarrow> oci_cache \<Rightarrow> oci_cache" where
  "create_file E name content c =
     (if oe_fails E FCreate name then c
      else c\<lparr>oc_files := AList.update name
               (if oe_fails E FWriteString name then '''' else content, oe_now E) (oc_files c)\<rparr>)"

definition remove_file :: "oci_env \<Rightarrow> string \<Rightarrow> oci_cache \<Rightarrow> oci_cache" where
  "remove_file E name c =
     (if oe_fails E FRemove name then c else c\<lparr>oc_files := AList.delete name (oc_files c)\<rparr>)"

definition digest_name :: "string \<Rightarrow> string \<Rightarrow> string" where
  "digest_name digestPrefix hashHexVal =
     digestPrefix @ ''digest.'' @ (if hashHexVal = '''' then ''none'' else hashHexVal)"

definition checkDigestFileExistence ::
    "oci_env \<Rightarrow> oci_discovery \<Rightarrow> string \<Rightarrow> string \<Rightarrow> oci_cache \<Rightarrow> oci_cache \<times> string" where
  "checkDigestFileExistence E od hashHexVal digestPrefix c =
     (let correctHashFile = digest_name digestPrefix hashHexVal
      in case glob_digests digestPrefix c of
           [] \<Rightarrow> (c, correctHashFile)
         | [match] \<Rightarrow>
             if \<not> od_forceInvalidation od \<and> match = correctHashFile
             then (if digestPrefix = '''' then create_file E match (od_image od) c else c, '''')
             else (remove_file E match c, correctHashFile)
         | matches \<Rightarrow> (fold (remove_file E) matches c, correctHashFile))"

text \<open>The first line \<^verbatim>\<open>bufio.Scanner\<close> returns: none for an empty file or a line over its buffer.\<close>

definition scan_line :: "string \<Rightarrow> string option" where
  "scan_line content =
     (let l = takeWhile (\<lambda>ch. ch \<noteq> CHR 0x0A) content
      in if content = [] \<or> length l \<ge> 65536 then None
         else Some (if l \<noteq> [] \<and> last l = CHR 0x0D then butlast l else l))"

definition cacheTTLExpired :: "oci_env \<Rightarrow> oci_discovery \<Rightarrow> oci_cache \<Rightarrow> bool" where
  "cacheTTLExpired E od c =
     (case glob_digests '''' c of
        [match] \<Rightarrow>
          if oe_fails E FOpen match then True
          else (case map_of (oc_files c) match of
                  None \<Rightarrow> True
                | Some (content, mtime) \<Rightarrow>
                    (case scan_line content of
                       None \<Rightarrow> True
                     | Some cachedURI \<Rightarrow>
                         if cachedURI = od_image od \<and> \<not> oe_fails E FStat match
                         then time_Since (oe_now E) mtime > seconds (getCacheTTLValue E)
                         else True))
      | _ \<Rightarrow> True)"

definition resetCacheTTL :: "oci_env \<Rightarrow> oci_cache \<Rightarrow> oci_cache" where
  "resetCacheTTL E c =
     (case glob_digests '''' c of
        [match] \<Rightarrow>
          if oe_fails E FChtimes match then c
          else (case map_of (oc_files c) match of
                  None \<Rightarrow> c
                | Some (content, mtime) \<Rightarrow>
                    c\<lparr>oc_files := AList.update match (content, oe_now E) (oc_files c)\<rparr>)
      | _ \<Rightarrow> c)"

section \<open>Refreshing the cache\<close>

definition GetPluginInventoryMetadataImage :: "oci_env \<Rightarrow> string \<Rightarrow> string res" where
  "GetPluginInventoryMetadataImage E pluginInventoryImage =
     (case oe_ParseImage E pluginInventoryImage of
        Inl e \<Rightarrow> Inl (Wrapf e ''invalid image %q'' [pluginInventoryImage])
      | Inr (repository, tag) \<Rightarrow> Inr (repository @ ''-metadata:'' @ tag))"

definition metadata_image :: "oci_env \<Rightarrow> oci_discovery \<Rightarrow> string" where
  "metadata_image E od =
     (case GetPluginInventoryMetadataImage E (od_image od) of Inl _ \<Rightarrow> '''' | Inr i \<Rightarrow> i)"

definition metadata_digest :: "oci_env \<Rightarrow> oci_discovery \<Rightarrow> string" where
  "metadata_digest E od =
     (case oe_GetImageDigest E (metadata_image E od) of Inl _ \<Rightarrow> '''' | Inr d \<Rightarrow> d)"

definition checkImageCache ::
    "oci_env \<Rightarrow> oci_discovery \<Rightarrow> oci_cache \<Rightarrow> oci_cache \<times> (string \<times> string) res" where
  "checkImageCache E od c =
     (case oe_GetImageDigest E (od_image od) of
        Inl e \<Rightarrow> (c, Inl (Wrapf e ''plugins discovery image resolution failed. Please check that the repository image URL %q is correct'' [od_image od]))
      | Inr digest \<Rightarrow>
          let (c1, inventoryFile) = checkDigestFileExistence E od digest '''' c;
              (c2, metadataFile) = checkDigestFileExistence E od (metadata_digest E od) ''metadata.'' c1
          in (c2, Inr (inventoryFile, metadataFile)))"

text \<open>A database file that is missing from the image: the driver creates an empty one.\<close>

definition absent_inventory :: inv_store where
  "absent_inventory = \<lparr>is_file = '''', is_prefix = '''', is_exists = False, is_schema = False,
     is_plugins = [], is_groups = [], is_fault = (\<lambda>_. None), is_rows_err = None, is_sql_plugins = (\<lambda>_ _. Inl (Errorf ''SQL logic error'' [])),
     is_sql_groups = (\<lambda>_ _. Inl (Errorf ''SQL logic error'' []))\<rparr>"

definition absent_metadata :: meta_store where
  "absent_metadata = \<lparr>ms_file = '''', ms_schema = False, ms_plugins = [], ms_groups = [],
     ms_fault = (\<lambda>_. None)\<rparr>"

text \<open>The inventory database in the temporary directory after the optional metadata image was applied.\<close>

definition updated_inventory :: "oci_env \<Rightarrow> oci_discovery \<Rightarrow> image_files \<Rightarrow> inv_store option res" where
  "updated_inventory E od inventoryDir =
     (case oe_DownloadImage E (metadata_image E od) of
        Inl _ \<Rightarrow> Inr (img_db inventoryDir)
      | Inr metadataDir \<Rightarrow>
          let m = (case img_meta metadataDir of None \<Rightarrow> absent_metadata | Some m \<Rightarrow> m);
              s = (case img_db inventoryDir of None \<Rightarrow> absent_inventory | Some s \<Rightarrow> s)
          in case UpdatePluginInventoryDatabase m s of
               (s1, Some e) \<Rightarrow> Inl (Wrapf e ''error while updating inventory database based on the inventory metadata database'' [])
             | (s1, None) \<Rightarrow> Inr (Some s1))"

definition setupPluginInventory ::
    "oci_env \<Rightarrow> oci_discovery \<Rightarrow> image_files \<Rightarrow> oci_cache \<Rightarrow> oci_cache \<times> err option" where
  "setupPluginInventory E od inventoryDir c =
     (case updated_inventory E od inventoryDir of
        Inl e \<Rightarrow> (c, Some e)
      | Inr None \<Rightarrow> (c, Some ErrNotExist)
      | Inr (Some s) \<Rightarrow>
          (case oe_CopyFile E ''plugin_inventory.db'' of
             Some e \<Rightarrow> (c, Some e)
           | None \<Rightarrow> (c\<lparr>oc_db := Some s\<rparr>, None)))"

definition setupCentralConfig :: "oci_env \<Rightarrow> image_files \<Rightarrow> oci_cache \<Rightarrow> oci_cache" where
  "setupCentralConfig E sourceDir c =
     (case img_config sourceDir of
        None \<Rightarrow> if oe_fails E FCreate ''central_config.yaml'' then c else c\<lparr>oc_config := Some ''''\<rparr>
      | Some cfg \<Rightarrow> (case oe_CopyFile E ''central_config.yaml'' of
                       Some _ \<Rightarrow> c | None \<Rightarrow> c\<lparr>oc_config := Some cfg\<rparr>))"

definition downloadCentralRepositoryData ::
    "oci_env \<Rightarrow> oci_discovery \<Rightarrow> oci_cache \<Rightarrow> oci_cache \<times> err option" where
  "downloadCentralRepositoryData E od c =
     (case oe_MkdirTemp E 1 of
        Some e \<Rightarrow> (c, Some (Wrapf e ''unable to create temp directory'' []))
      | None \<Rightarrow>
        (case oe_MkdirTemp E 2 of
           Some e \<Rightarrow> (c, Some (Wrapf e ''unable to create temp directory'' []))
         | None \<Rightarrow>
           (case oe_DownloadImage E (od_image od) of
              Inl e \<Rightarrow> (c, Some (Wrapf e ''failed to download OCI image from discovery %s'' [od_name od]))
            | Inr dir \<Rightarrow>
                (case setupPluginInventory E od dir c of
                   (c1, Some e) \<Rightarrow> (c1, Some e)
                 | (c1, None) \<Rightarrow> (setupCentralConfig E dir c1, None)))))"

text \<open>The end of \<open>fetchInventoryImage\<close>: the time stamp and the new digest files.\<close>

definition finish_refresh ::
    "oci_env \<Rightarrow> oci_discovery \<Rightarrow> string \<Rightarrow> string \<Rightarrow> oci_cache \<Rightarrow> oci_cache" where
  "finish_refresh E od inventoryFile metadataFile c =
     (let c1 = resetCacheTTL E c;
          c2 = (if inventoryFile \<noteq> '''' then create_file E inventoryFile (od_image od) c1 else c1)
      in if metadataFile \<noteq> '''' then create_file E metadataFile '''' c2 else c2)"

definition fetchInventoryImage ::
    "oci_env \<Rightarrow> oci_discovery \<Rightarrow> oci_cache \<Rightarrow> oci_cache \<times> err option" where
  "fetchInventoryImage E od c =
     (if \<not> od_forceInvalidation od \<and> \<not> od_forceRefresh od \<and> \<not> cacheTTLExpired E od c then (c, None)
      else
        case checkImageCache E od c of
          (c1, Inl e) \<Rightarrow> (c1, Some e)
        | (c1, Inr (inventoryFile, metadataFile)) \<Rightarrow>
            if inventoryFile = '''' \<and> metadataFile = '''' then (resetCacheTTL E c1, None)
            else
              (case oe_VerifyInventoryImageSignature E (od_image od) of
                 Some e \<Rightarrow> (c1, Some e)
               | None \<Rightarrow>
                 (case downloadCentralRepositoryData E od c1 of
                    (c2, Some e) \<Rightarrow> (c2, Some e)
                  | (c2, None) \<Rightarrow> (finish_refresh E od inventoryFile metadataFile c2, None))))"

end
