(* ===== verification/Discovery_Cache_Correct.thy ===== *)
theory Discovery_Cache_Correct
  imports Discovery_Cache
begin

text \<open>
  Correctness of the inventory cache: the database is replaced only after the signature of the image
  was verified; a successful refresh leaves exactly one digest file of each kind, for the current
  digests and the image URI, so that calls within the time to live and calls with unchanged digests
  keep the database; what a failed verification leaves behind.
\<close>

section \<open>Digest files\<close>

definition no_file_faults :: "oci_env \<Rightarrow> bool" where
  "no_file_faults E \<longleftrightarrow> (\<forall>op name. \<not> oe_fails E op name)"

definition is_digest :: "string \<Rightarrow> string \<Rightarrow> bool" where
  "is_digest p name \<longleftrightarrow> has_prefix name (p @ ''digest.'')"

lemma no_file_faultsD [simp]: "no_file_faults E \<Longrightarrow> \<not> oe_fails E op name"
  by (simp add: no_file_faults_def)

lemma is_digest_name [simp]: "is_digest p (digest_name p h)"
  by (simp add: is_digest_def digest_name_def has_prefix_def)

lemma digest_name_nonempty [simp]: "digest_name p h \<noteq> ''''" "'''' \<noteq> digest_name p h"
  by (simp_all add: digest_name_def)

lemma is_digest_disjoint: "is_digest '''' n \<Longrightarrow> \<not> is_digest ''metadata.'' n"
  by (cases n) (auto simp: is_digest_def has_prefix_def)

lemma digest_name_other [simp]:
  "\<not> is_digest ''metadata.'' (digest_name '''' h)" "\<not> is_digest '''' (digest_name ''metadata.'' h)"
  using is_digest_disjoint is_digest_name by blast+

lemma glob_alt: "glob_digests p c = filter (is_digest p) (map fst (oc_files c))"
  by (simp add: glob_digests_def is_digest_def [abs_def] keys_of_def)

lemma keys_alist_delete: "map fst (AList.delete k m) = filter (\<lambda>x. x \<noteq> k) (map fst m)"
  by (induction m) auto

lemma keys_alist_update: "map fst (AList.update k v m) = (if k \<in> set (map fst m) then map fst m else map fst m @ [k])"
  by (induction m) auto

lemma glob_remove [simp]:
  "no_file_faults E \<Longrightarrow> glob_digests p (remove_file E n c) = filter (\<lambda>x. x \<noteq> n) (glob_digests p c)"
  by (simp add: remove_file_def glob_alt keys_alist_delete conj_commute)

lemma glob_fold_remove:
  "no_file_faults E \<Longrightarrow>
     glob_digests p (fold (remove_file E) ns c) = filter (\<lambda>x. x \<notin> set ns) (glob_digests p c)"
  by (induction ns arbitrary: c) (auto intro: filter_cong)

lemma glob_create:
  "no_file_faults E \<Longrightarrow>
     glob_digests p (create_file E n v c) =
       (if n \<in> set (glob_digests p c) \<or> \<not> is_digest p n then glob_digests p c
        else glob_digests p c @ [n])"
  by (auto simp: create_file_def glob_alt keys_alist_update)

lemma create_lookup [simp]:
  "no_file_faults E \<Longrightarrow> map_of (oc_files (create_file E n v c)) = (map_of (oc_files c))(n \<mapsto> (v, oe_now E))"
  by (simp add: create_file_def)

lemma fold_remove_fields [simp]:
  "oc_db (remove_file E n c) = oc_db c" "oc_db (fold (remove_file E) ns c) = oc_db c"
  "oc_db (create_file E n v c) = oc_db c" "oc_db (resetCacheTTL E c) = oc_db c"
proof -
  show "oc_db (remove_file E n c) = oc_db c" for n c by (simp add: remove_file_def)
  then show "oc_db (fold (remove_file E) ns c) = oc_db c" by (induction ns arbitrary: c) auto
qed (auto simp: create_file_def resetCacheTTL_def split: list.splits option.splits)

lemma finish_db: "oc_db (finish_refresh E od i m c) = oc_db c"
  by (simp add: finish_refresh_def Let_def)

lemma check_db [simp]: "oc_db (fst (checkDigestFileExistence E od h p c)) = oc_db c"
  by (auto simp: checkDigestFileExistence_def Let_def split: list.splits)

text \<open>What the check of one digest leaves: either the right file, and the empty name; or no file,
  and the name to create.\<close>

lemma check_digest:
  assumes "no_file_faults E"
  shows "case checkDigestFileExistence E od h p c of (c', r) \<Rightarrow>
    (r = '''' \<and> \<not> od_forceInvalidation od \<and> glob_digests p c = [digest_name p h] \<and>
       glob_digests p c' = [digest_name p h] \<and>
       (p = '''' \<longrightarrow> map_of (oc_files c') (digest_name p h) = Some (od_image od, oe_now E))
     \<or> r = digest_name p h \<and> glob_digests p c' = [])"
  using assms
  by (auto simp: checkDigestFileExistence_def Let_def glob_create glob_fold_remove split: list.splits)

lemma check_digest_other:
  assumes "no_file_faults E" "\<And>n. is_digest p n \<Longrightarrow> \<not> is_digest q n"
  shows "glob_digests q (fst (checkDigestFileExistence E od h p c)) = glob_digests q c"
proof -
  have out: "n \<in> set (glob_digests p c) \<Longrightarrow> n \<notin> set (glob_digests q c) \<and> \<not> is_digest q n" for n
    using assms(2) by (auto simp: glob_alt)
  have drop: "\<forall>n \<in> set ns. n \<notin> set (glob_digests q c) \<Longrightarrow> filter (\<lambda>x. x \<notin> set ns) (glob_digests q c) = glob_digests q c"
    for ns by (simp add: filter_id_conv) blast
  consider "glob_digests p c = []" | m where "glob_digests p c = [m]"
    | m n ms where "glob_digests p c = m # n # ms" by (metis list.exhaust)
  then show ?thesis
  proof cases
    case 2
    with out drop [of "[m]"] assms(1) show ?thesis
      by (auto simp: checkDigestFileExistence_def Let_def glob_create filter_id_conv)
  next
    case 3
    with out have "\<forall>n \<in> set (m # n # ms). n \<notin> set (glob_digests q c)" by metis
    then have "filter (\<lambda>x. x \<notin> set (m # n # ms)) (glob_digests q c) = glob_digests q c" by (rule drop)
    with 3 show ?thesis
      unfolding checkDigestFileExistence_def Let_def 3 list.case fst_conv
      by (simp only: glob_fold_remove [OF assms(1)])
  qed (simp add: checkDigestFileExistence_def)
qed

lemma check_keeps_others:
  assumes "no_file_faults E" "\<not> is_digest p n"
  shows "map_of (oc_files (fst (checkDigestFileExistence E od h p c))) n = map_of (oc_files c) n"
proof -
  have rm: "n \<notin> set ns \<Longrightarrow> map_of (oc_files (fold (remove_file E) ns c)) n = map_of (oc_files c) n" for ns c
    by (induction ns arbitrary: c) (auto simp: remove_file_def assms(1))
  have "n \<notin> set (glob_digests p c)" using assms(2) by (simp add: glob_alt)
  then show ?thesis
    using assms rm [of "glob_digests p c" c] rm [of "[m]" c for m]
    by (auto simp: checkDigestFileExistence_def Let_def split: list.splits)
qed

section \<open>Refreshing\<close>

lemma reset_facts:
  assumes "no_file_faults E"
  shows "glob_digests p (resetCacheTTL E c) = glob_digests p c"
    and "glob_digests '''' c = [n] \<Longrightarrow> map_of (oc_files c) n = Some (v, t) \<Longrightarrow>
      map_of (oc_files (resetCacheTTL E c)) n = Some (v, oe_now E)"
  using assms
  by (auto simp: resetCacheTTL_def glob_alt keys_alist_update split: list.splits option.splits
      dest!: map_of_SomeD) (auto intro: rev_image_eqI)

lemma download_files [simp]:
  "oc_files (fst (downloadCentralRepositoryData E od c)) = oc_files c"
  "glob_digests p (fst (downloadCentralRepositoryData E od c)) = glob_digests p c"
proof -
  show "oc_files (fst (downloadCentralRepositoryData E od c)) = oc_files c"
    by (auto simp: downloadCentralRepositoryData_def setupPluginInventory_def setupCentralConfig_def
        Let_def split: option.splits sum.splits prod.splits if_splits)
  then show "glob_digests p (fst (downloadCentralRepositoryData E od c)) = glob_digests p c"
    by (simp add: glob_alt)
qed

lemma download_changes_db:
  assumes "oc_db (fst (downloadCentralRepositoryData E od c)) \<noteq> oc_db c"
  obtains dir s where "oe_DownloadImage E (od_image od) = Inr dir"
    "updated_inventory E od dir = Inr (Some s)"
    "oc_db (fst (downloadCentralRepositoryData E od c)) = Some s"
proof -
  have config: "oc_db (setupCentralConfig E dir c) = oc_db c" for dir c
    by (simp add: setupCentralConfig_def split: option.splits)
  obtain dir where dir: "oe_DownloadImage E (od_image od) = Inr dir"
    using assms by (auto simp: downloadCentralRepositoryData_def split: option.splits sum.splits)
  have step: "oc_db (fst (downloadCentralRepositoryData E od c)) \<in> {oc_db c, oc_db (fst (setupPluginInventory E od dir c))}"
    by (auto simp: downloadCentralRepositoryData_def dir config split: option.splits prod.splits)
  with assms have "oc_db (fst (setupPluginInventory E od dir c)) \<noteq> oc_db c" by auto
  then obtain s where s: "updated_inventory E od dir = Inr (Some s)"
    "oc_db (fst (setupPluginInventory E od dir c)) = Some s"
    by (auto simp: setupPluginInventory_def split: sum.splits option.splits)
  with dir step assms that show ?thesis by auto
qed

lemma updated_inventory_Some:
  assumes "updated_inventory E od dir = Inr (Some s)"
  shows "case oe_DownloadImage E (metadata_image E od) of
          Inl _ \<Rightarrow> img_db dir = Some s
        | Inr md \<Rightarrow> UpdatePluginInventoryDatabase (case img_meta md of None \<Rightarrow> absent_metadata | Some m \<Rightarrow> m)
             (case img_db dir of None \<Rightarrow> absent_inventory | Some s0 \<Rightarrow> s0) = (s, None)"
proof (cases "oe_DownloadImage E (metadata_image E od)")
  case (Inr md)
  obtain s1 e where upd: "UpdatePluginInventoryDatabase (case img_meta md of None \<Rightarrow> absent_metadata | Some m \<Rightarrow> m)
      (case img_db dir of None \<Rightarrow> absent_inventory | Some s0 \<Rightarrow> s0) = (s1, e)" by fastforce
  with assms Inr show ?thesis
    by (cases e) (simp_all add: updated_inventory_def)
qed (use assms in \<open>simp add: updated_inventory_def\<close>)

definition refreshes :: "oci_env \<Rightarrow> oci_discovery \<Rightarrow> oci_cache \<Rightarrow> bool" where
  "refreshes E od c \<longleftrightarrow> od_forceInvalidation od \<or> od_forceRefresh od \<or> cacheTTLExpired E od c"

text \<open>The digest files for the current digests, the main one holding the image URI and stamped now.\<close>

definition digests_current :: "oci_env \<Rightarrow> oci_discovery \<Rightarrow> oci_cache \<Rightarrow> bool" where
  "digests_current E od c \<longleftrightarrow>
     (\<exists>d. oe_GetImageDigest E (od_image od) = Inr d \<and>
        glob_digests '''' c = [digest_name '''' d] \<and>
        map_of (oc_files c) (digest_name '''' d) = Some (od_image od, oe_now E) \<and>
        glob_digests ''metadata.'' c = [digest_name ''metadata.'' (metadata_digest E od)])"

lemma check_image:
  assumes "no_file_faults E" "checkImageCache E od c = (c2, Inr (i, m))"
  obtains d where "oe_GetImageDigest E (od_image od) = Inr d"
    "i = '''' \<and> glob_digests '''' c2 = [digest_name '''' d] \<and>
       map_of (oc_files c2) (digest_name '''' d) = Some (od_image od, oe_now E) \<or>
     i = digest_name '''' d \<and> glob_digests '''' c2 = []"
    "m = '''' \<and> glob_digests ''metadata.'' c2 = [digest_name ''metadata.'' (metadata_digest E od)] \<or>
     m = digest_name ''metadata.'' (metadata_digest E od) \<and> glob_digests ''metadata.'' c2 = []"
proof -
  from assms(2) obtain d c1 where d: "oe_GetImageDigest E (od_image od) = Inr d"
    and c1: "checkDigestFileExistence E od d '''' c = (c1, i)"
    and c2: "checkDigestFileExistence E od (metadata_digest E od) ''metadata.'' c1 = (c2, m)"
    by (auto simp: checkImageCache_def Let_def split: sum.splits prod.splits)
  have keep: "glob_digests '''' c2 = glob_digests '''' c1"
    using check_digest_other [OF assms(1), where p = "''metadata.''" and q = "''''" and od = od
        and h = "metadata_digest E od" and c = c1] c2
      is_digest_disjoint by auto
  have val: "map_of (oc_files c2) (digest_name '''' d) = map_of (oc_files c1) (digest_name '''' d)"
    using check_keeps_others [OF assms(1), where p = "''metadata.''" and n = "digest_name '''' d" and od = od
        and h = "metadata_digest E od" and c = c1] c2
    by simp
  show ?thesis
    by (rule that [OF d])
      (use check_digest [OF assms(1), where od = od and h = d and p = "''''" and c = c] c1 keep val
        check_digest [OF assms(1), where od = od and h = "metadata_digest E od" and p = "''metadata.''" and c = c1] c2 in auto)
qed

lemma fetch_refresh:
  "refreshes E od c \<Longrightarrow> fetchInventoryImage E od c =
     (case checkImageCache E od c of
        (c1, Inl e) \<Rightarrow> (c1, Some e)
      | (c1, Inr (i, m)) \<Rightarrow>
          if i = '''' \<and> m = '''' then (resetCacheTTL E c1, None)
          else (case oe_VerifyInventoryImageSignature E (od_image od) of
                  Some e \<Rightarrow> (c1, Some e)
                | None \<Rightarrow> (case downloadCentralRepositoryData E od c1 of
                             (c2, Some e) \<Rightarrow> (c2, Some e)
                           | (c2, None) \<Rightarrow> (finish_refresh E od i m c2, None))))"
  unfolding fetchInventoryImage_def refreshes_def by (rule if_not_P) blast

lemma fetch_skip: "\<not> refreshes E od c \<Longrightarrow> fetchInventoryImage E od c = (c, None)"
  by (simp add: fetchInventoryImage_def refreshes_def)

lemma finish_glob:
  assumes "no_file_faults E"
  shows "glob_digests p (finish_refresh E od i m c) =
    (let g = glob_digests p c;
         g1 = (if i = '''' \<or> i \<in> set g \<or> \<not> is_digest p i then g else g @ [i])
     in if m = '''' \<or> m \<in> set g1 \<or> \<not> is_digest p m then g1 else g1 @ [m])"
  by (simp add: finish_refresh_def Let_def glob_create [OF assms] reset_facts(1) [OF assms])

lemma finish_digests:
  assumes "no_file_faults E"
    "i = '''' \<and> glob_digests '''' c = [digest_name '''' d] \<and>
       map_of (oc_files c) (digest_name '''' d) = Some (od_image od, oe_now E) \<or>
     i = digest_name '''' d \<and> glob_digests '''' c = []"
    "m = '''' \<and> glob_digests ''metadata.'' c = [digest_name ''metadata.'' h] \<or>
     m = digest_name ''metadata.'' h \<and> glob_digests ''metadata.'' c = []"
  shows "glob_digests '''' (finish_refresh E od i m c) = [digest_name '''' d]"
    "map_of (oc_files (finish_refresh E od i m c)) (digest_name '''' d) = Some (od_image od, oe_now E)"
    "glob_digests ''metadata.'' (finish_refresh E od i m c) = [digest_name ''metadata.'' h]"
proof -
  show "glob_digests '''' (finish_refresh E od i m c) = [digest_name '''' d]"
    using assms(2,3) by (elim disjE conjE) (simp_all add: finish_glob [OF assms(1)])
  show "glob_digests ''metadata.'' (finish_refresh E od i m c) = [digest_name ''metadata.'' h]"
    using assms(2,3) by (elim disjE conjE) (simp_all add: finish_glob [OF assms(1)])
  have ne: "digest_name '''' d \<noteq> digest_name ''metadata.'' h"
    using digest_name_other is_digest_name by metis
  show "map_of (oc_files (finish_refresh E od i m c)) (digest_name '''' d) = Some (od_image od, oe_now E)"
    using assms(2,3) ne
    by (elim disjE conjE)
      (simp_all add: finish_refresh_def Let_def assms(1) reset_facts(2) [OF assms(1)])
qed

lemma refresh_digests:
  assumes faults: "no_file_faults E" and fetch: "fetchInventoryImage E od c = (c', None)"
    and refresh: "refreshes E od c"
  shows "digests_current E od c'"
proof -
  obtain c2 r where c2: "checkImageCache E od c = (c2, r)" by (cases "checkImageCache E od c")
  obtain i m where r: "r = Inr (i, m)"
    using fetch by (cases r) (auto simp: fetch_refresh [OF refresh] c2)
  note ck = c2 [unfolded r]
  obtain d where d: "oe_GetImageDigest E (od_image od) = Inr d"
    and i: "i = '''' \<and> glob_digests '''' c2 = [digest_name '''' d] \<and>
       map_of (oc_files c2) (digest_name '''' d) = Some (od_image od, oe_now E) \<or>
     i = digest_name '''' d \<and> glob_digests '''' c2 = []"
    and m: "m = '''' \<and> glob_digests ''metadata.'' c2 = [digest_name ''metadata.'' (metadata_digest E od)] \<or>
     m = digest_name ''metadata.'' (metadata_digest E od) \<and> glob_digests ''metadata.'' c2 = []"
    by (rule check_image [OF faults ck])
  show ?thesis
  proof (cases "i = '''' \<and> m = ''''")
    case True
    then have "c' = resetCacheTTL E c2"
      using fetch by (simp add: fetch_refresh [OF refresh] ck)
    with True i m d show ?thesis
      by (auto simp: digests_current_def reset_facts [OF faults])
  next
    case False
    then have "c' = finish_refresh E od i m (fst (downloadCentralRepositoryData E od c2))"
      using fetch by (auto simp: fetch_refresh [OF refresh] ck split: option.splits prod.splits)
    with d i m show ?thesis
      by (auto simp: digests_current_def intro: finish_digests [OF faults])
  qed
qed

section \<open>Properties\<close>

text \<open>An image reference that survives being written to and scanned from the digest file.\<close>

definition plain_uri :: "string \<Rightarrow> bool" where
  "plain_uri u \<longleftrightarrow> u \<noteq> '''' \<and> length u < 65536 \<and> CHR 0x0A \<notin> set u \<and> CHR 0x0D \<notin> set u"

lemma scan_plain: "plain_uri u \<Longrightarrow> scan_line u = Some u"
proof -
  assume u: "plain_uri u"
  then have line: "takeWhile (\<lambda>ch. ch \<noteq> CHR 0x0A) u = u"
    by (auto simp: plain_uri_def takeWhile_eq_all_conv)
  have "last u \<noteq> CHR 0x0D" "\<not> (u = [] \<or> length u \<ge> 65536)"
    using u last_in_set [of u] by (auto simp: plain_uri_def simp del: last_in_set)
  then show ?thesis
    unfolding scan_line_def Let_def line by simp
qed

text \<open>C3 (safety): the inventory database of a discovery changes only if the signature of its image was
  verified, and then to the database of the downloaded image, restricted by the metadata image when
  there is one.\<close>

theorem database_replaced_only_after_verification:
  assumes "fetchInventoryImage E od c = (c', e)" "oc_db c' \<noteq> oc_db c"
  shows "oe_VerifyInventoryImageSignature E (od_image od) = None \<and>
    (\<exists>dir s. oe_DownloadImage E (od_image od) = Inr dir \<and> oc_db c' = Some s \<and>
       (case oe_DownloadImage E (metadata_image E od) of
          Inl _ \<Rightarrow> img_db dir = Some s
        | Inr md \<Rightarrow> UpdatePluginInventoryDatabase (case img_meta md of None \<Rightarrow> absent_metadata | Some m \<Rightarrow> m)
             (case img_db dir of None \<Rightarrow> absent_inventory | Some s0 \<Rightarrow> s0) = (s, None)))"
proof -
  have ck: "oc_db (fst (checkImageCache E od c)) = oc_db c"
    by (auto simp: checkImageCache_def Let_def split: sum.splits prod.splits)
      (metis check_db fst_conv)
  obtain c1 r where c1: "checkImageCache E od c = (c1, r)" by (cases "checkImageCache E od c")
  with ck have c1_db: "oc_db c1 = oc_db c" by simp
  have refresh: "refreshes E od c"
    using assms fetch_skip [of E od c] by auto
  obtain i m where r: "r = Inr (i, m)"
    using assms c1_db by (cases r) (auto simp: fetch_refresh [OF refresh] c1)
  have dl: "\<not> (i = '''' \<and> m = '''')"
    using assms c1_db by (auto simp: fetch_refresh [OF refresh] c1 r)
  have ver: "oe_VerifyInventoryImageSignature E (od_image od) = None"
    using assms c1_db dl by (auto simp: fetch_refresh [OF refresh] c1 r split: option.splits)
  have db: "oc_db c' = oc_db (fst (downloadCentralRepositoryData E od c1))"
    using assms(1) dl ver
    by (auto simp: fetch_refresh [OF refresh] c1 r finish_db split: prod.splits option.splits)
  have changed: "oc_db (fst (downloadCentralRepositoryData E od c1)) \<noteq> oc_db c1"
    using assms(2) db c1_db by simp
  obtain dir s where dir: "oe_DownloadImage E (od_image od) = Inr dir"
    "updated_inventory E od dir = Inr (Some s)"
    "oc_db (fst (downloadCentralRepositoryData E od c1)) = Some s"
    by (rule download_changes_db [OF changed])
  with ver db updated_inventory_Some [OF dir(2)] show ?thesis by auto
qed

text \<open>After a successful refresh the cache has one digest file per image, for the
  current digests. A later call for the same image within the time to live returns the cache unchanged
  without asking the registry; and a call that does ask keeps the database when the digests are still
  the same.\<close>

theorem refresh_makes_cache_current:
  assumes "no_file_faults E" "fetchInventoryImage E od c = (c', None)" "refreshes E od c"
    "plain_uri (od_image od)" "no_file_faults E'" "od_image od' = od_image od"
    "\<not> od_forceInvalidation od'"
  shows "digests_current E od c' \<and>
    (\<not> od_forceRefresh od' \<and> time_Since (oe_now E') (oe_now E) \<le> seconds (getCacheTTLValue E') \<longrightarrow>
       fetchInventoryImage E' od' c' = (c', None)) \<and>
    (oe_GetImageDigest E' (od_image od) = oe_GetImageDigest E (od_image od) \<and>
     metadata_digest E' od' = metadata_digest E od \<longrightarrow>
       snd (fetchInventoryImage E' od' c') = None \<and> oc_db (fst (fetchInventoryImage E' od' c')) = oc_db c')"
proof (intro conjI impI)
  show cur: "digests_current E od c'" by (rule refresh_digests [OF assms(1-3)])
  then obtain d where d: "oe_GetImageDigest E (od_image od) = Inr d"
    "glob_digests '''' c' = [digest_name '''' d]"
    "map_of (oc_files c') (digest_name '''' d) = Some (od_image od, oe_now E)"
    "glob_digests ''metadata.'' c' = [digest_name ''metadata.'' (metadata_digest E od)]"
    by (auto simp: digests_current_def)
  have ttl: "cacheTTLExpired E' od' c' \<longleftrightarrow> time_Since (oe_now E') (oe_now E) > seconds (getCacheTTLValue E')"
    by (simp add: cacheTTLExpired_def d assms(5,6) scan_plain [OF assms(4)])
  show "fetchInventoryImage E' od' c' = (c', None)"
    if "\<not> od_forceRefresh od' \<and> time_Since (oe_now E') (oe_now E) \<le> seconds (getCacheTTLValue E')"
    using that ttl assms(7) by (simp add: fetchInventoryImage_def)
  have same: "snd (fetchInventoryImage E' od' c') = None \<and> oc_db (fst (fetchInventoryImage E' od' c')) = oc_db c'"
    if same: "oe_GetImageDigest E' (od_image od) = oe_GetImageDigest E (od_image od) \<and>
     metadata_digest E' od' = metadata_digest E od"
  proof (cases "od_forceRefresh od' \<or> cacheTTLExpired E' od' c'")
    case True
    obtain c1 where c1: "checkDigestFileExistence E' od' d '''' c' = (c1, '''')" "oc_db c1 = oc_db c'"
      by (simp add: checkDigestFileExistence_def d assms(7))
    have g1: "glob_digests ''metadata.'' c1 = glob_digests ''metadata.'' c'"
      using check_digest_other [OF assms(5), where p = "''''" and q = "''metadata.''" and od = od' and h = d and c = c'] c1 is_digest_disjoint by auto
    then have "checkDigestFileExistence E' od' (metadata_digest E' od') ''metadata.'' c1 = (c1, '''')"
      using same by (simp add: checkDigestFileExistence_def d assms(7))
    with c1 True same d(1) assms(6,7) show ?thesis
      by (simp add: fetchInventoryImage_def checkImageCache_def)
  next
    case False
    then show ?thesis using assms(7) by (simp add: fetchInventoryImage_def)
  qed
  then show "snd (fetchInventoryImage E' od' c') = None"
    "oc_db (fst (fetchInventoryImage E' od' c')) = oc_db c'"
    if "oe_GetImageDigest E' (od_image od) = oe_GetImageDigest E (od_image od) \<and>
     metadata_digest E' od' = metadata_digest E od" using that by blast+
qed

text \<open>When only the metadata digest has changed and the signature check fails, the check of
  the main digest has already rewritten, and thereby re-stamped, the main digest file. The call
  reports the error, but later calls within the time to live succeed with the old database.\<close>

theorem failed_refresh_restarts_ttl:
  assumes "no_file_faults E" "refreshes E od c" "\<not> od_forceInvalidation od"
    "oe_GetImageDigest E (od_image od) = Inr d" "glob_digests '''' c = [digest_name '''' d]"
    "glob_digests ''metadata.'' c \<noteq> [digest_name ''metadata.'' (metadata_digest E od)]"
    "oe_VerifyInventoryImageSignature E (od_image od) = Some e"
    "plain_uri (od_image od)" "no_file_faults E'" "\<not> od_forceRefresh od"
    "time_Since (oe_now E') (oe_now E) \<le> seconds (getCacheTTLValue E')"
  shows "\<exists>c'. fetchInventoryImage E od c = (c', Some e) \<and> oc_db c' = oc_db c \<and>
    fetchInventoryImage E' od c' = (c', None)"
proof -
  let ?n = "digest_name '''' d" and ?h = "metadata_digest E od"
  define c1 where "c1 = create_file E ?n (od_image od) c"
  have c1: "checkDigestFileExistence E od d '''' c = (c1, '''')"
    using assms(3,5) by (simp add: checkDigestFileExistence_def c1_def)
  obtain c2 m where c2: "checkDigestFileExistence E od ?h ''metadata.'' c1 = (c2, m)"
    by (cases "checkDigestFileExistence E od ?h ''metadata.'' c1")
  have g1: "glob_digests ''metadata.'' c1 = glob_digests ''metadata.'' c" "glob_digests '''' c1 = [?n]"
    using assms(5) by (simp_all add: c1_def glob_create [OF assms(1)])
  then have m: "m \<noteq> ''''"
    using check_digest [OF assms(1), where od = od and h = ?h and p = "''metadata.''" and c = c1] c2 assms(6)
    by auto
  have g2: "glob_digests '''' c2 = [?n]"
    using check_digest_other [OF assms(1), where p = "''metadata.''" and q = "''''" and od = od and h = ?h and c = c1]
      c2 g1(2) is_digest_disjoint by auto
  have v2: "map_of (oc_files c2) ?n = Some (od_image od, oe_now E)"
    using check_keeps_others [OF assms(1), where p = "''metadata.''" and n = ?n and od = od and h = ?h and c = c1]
      c2 assms(1) by (simp add: c1_def)
  have db: "oc_db c2 = oc_db c"
    using check_db [of E od ?h "''metadata.''" c1] fold_remove_fields(3) [of E ?n "od_image od" c]
    unfolding c2 c1_def [symmetric] by simp
  have "fetchInventoryImage E od c = (c2, Some e)"
    using assms(4,7) c1 c2 m by (simp add: fetch_refresh [OF assms(2)] checkImageCache_def)
  moreover have "\<not> cacheTTLExpired E' od c2"
    using assms(9,11) by (simp add: cacheTTLExpired_def g2 v2 scan_plain [OF assms(8)])
  then have "fetchInventoryImage E' od c2 = (c2, None)"
    using assms(3,10) by (intro fetch_skip) (simp add: refreshes_def)
  ultimately show ?thesis using db by blast
qed

section \<open>Witnesses\<close>

definition demo_oci :: oci_env where
  "demo_oci = \<lparr>oe_now = 0, oe_env = Map.empty, oe_DefaultInventoryRefreshTTLSeconds = 1800,
     oe_ParseImage = (\<lambda>i. Inr (i, ''v1'')),
     oe_GetImageDigest = (\<lambda>i. if i = ''r/i'' then Inr ''ab'' else Inl ErrNotExist),
     oe_VerifyInventoryImageSignature = (\<lambda>_. None),
     oe_DownloadImage = (\<lambda>i. if i = ''r/i''
        then Inr \<lparr>img_db = Some absent_inventory, img_meta = None, img_config = None\<rparr>
        else Inl ErrNotExist),
     oe_MkdirTemp = (\<lambda>_. None), oe_CopyFile = (\<lambda>_. None), oe_fails = (\<lambda>_ _. False)\<rparr>"

definition demo_od :: oci_discovery where
  "demo_od = \<lparr>od_name = ''d'', od_image = ''r/i'', od_pluginCriteria = None, od_groupCriteria = None,
     od_useLocalCacheOnly = False, od_forceRefresh = False, od_forceInvalidation = False\<rparr>"

definition empty_cache :: oci_cache where
  "empty_cache = \<lparr>oc_files = [], oc_db = None, oc_config = None\<rparr>"

definition full_cache :: oci_cache where
  "full_cache = \<lparr>oc_files = [(''digest.ab'', ''r/i'', 0), (''metadata.digest.none'', '''', 0)],
     oc_db = Some absent_inventory, oc_config = Some ''''\<rparr>"

lemmas demo_cache_defs = demo_oci_def demo_od_def empty_cache_def full_cache_def

lemma demo_metadata: "metadata_image demo_oci demo_od = ''r/i-metadata:v1''" "metadata_digest demo_oci demo_od = ''''"
  by (simp_all add: metadata_digest_def metadata_image_def GetPluginInventoryMetadataImage_def demo_cache_defs)

lemma demo_faults: "no_file_faults demo_oci"
  by (simp add: no_file_faults_def demo_oci_def)

lemma demo_refreshes: "refreshes demo_oci demo_od empty_cache"
  by (simp add: refreshes_def cacheTTLExpired_def glob_digests_def keys_of_def demo_cache_defs)

lemma demo_uri: "plain_uri (od_image demo_od)"
  by (simp add: plain_uri_def demo_od_def)

lemma demo_ttl: "time_Since (oe_now demo_oci) (oe_now demo_oci) \<le> seconds (getCacheTTLValue demo_oci)"
  by (simp add: time_Since_def seconds_def wrap64_def getCacheTTLValue_def getenv_def demo_oci_def)

lemma demo_fetch: "fetchInventoryImage demo_oci demo_od empty_cache = (full_cache, None)"
proof -
  have check: "checkImageCache demo_oci demo_od empty_cache =
      (empty_cache, Inr (''digest.ab'', ''metadata.digest.none''))"
    unfolding checkImageCache_def demo_metadata
    by (simp add: checkDigestFileExistence_def glob_digests_def keys_of_def digest_name_def demo_cache_defs)
  have download: "downloadCentralRepositoryData demo_oci demo_od empty_cache =
      (empty_cache\<lparr>oc_db := Some absent_inventory, oc_config := Some ''''\<rparr>, None)"
    unfolding downloadCentralRepositoryData_def setupPluginInventory_def updated_inventory_def demo_metadata
    by (simp add: setupCentralConfig_def demo_cache_defs)
  have verified: "oe_VerifyInventoryImageSignature demo_oci (od_image demo_od) = None"
    by (simp add: demo_oci_def)
  show ?thesis
    unfolding fetch_refresh [OF demo_refreshes] check prod.case sum.case verified download
    by (simp add: finish_refresh_def resetCacheTTL_def glob_digests_def keys_of_def create_file_def demo_cache_defs)
qed

theorem database_replaced_only_after_verification_witness:
  "oe_VerifyInventoryImageSignature demo_oci ''r/i'' = None \<and>
   (\<exists>dir s. oe_DownloadImage demo_oci ''r/i'' = Inr dir \<and> oc_db full_cache = Some s \<and> img_db dir = Some s)"
proof -
  have changed: "oc_db full_cache \<noteq> oc_db empty_cache" by (simp add: demo_cache_defs)
  have image: "od_image demo_od = ''r/i''" and md: "oe_DownloadImage demo_oci ''r/i-metadata:v1'' = Inl ErrNotExist"
    by (simp_all add: demo_cache_defs)
  show ?thesis
    using database_replaced_only_after_verification [OF demo_fetch changed]
    unfolding demo_metadata image md by simp
qed

theorem refresh_makes_cache_current_witness:
  "digests_current demo_oci demo_od full_cache \<and>
   fetchInventoryImage demo_oci demo_od full_cache = (full_cache, None)"
proof -
  have flags: "\<not> od_forceInvalidation demo_od" "\<not> od_forceRefresh demo_od" by (simp_all add: demo_od_def)
  from refresh_makes_cache_current [OF demo_faults demo_fetch demo_refreshes demo_uri demo_faults refl flags(1)]
  show ?thesis using flags(2) demo_ttl by blast
qed

theorem failed_refresh_restarts_ttl_witness:
  "\<exists>c'. fetchInventoryImage
      (demo_oci\<lparr>oe_now := 10 ^ 13, oe_VerifyInventoryImageSignature := (\<lambda>_. Some ErrNotExist)\<rparr>) demo_od
      (full_cache\<lparr>oc_files := [(''digest.ab'', ''r/i'', 0)]\<rparr>) = (c', Some ErrNotExist) \<and>
    fetchInventoryImage (demo_oci\<lparr>oe_now := 10 ^ 13\<rparr>) demo_od c' = (c', None)"
proof -
  let ?E = "demo_oci\<lparr>oe_now := 10 ^ 13, oe_VerifyInventoryImageSignature := (\<lambda>_. Some ErrNotExist)\<rparr>"
  let ?E' = "demo_oci\<lparr>oe_now := 10 ^ 13\<rparr>"
  let ?c = "full_cache\<lparr>oc_files := [(''digest.ab'', ''r/i'', 0)]\<rparr>"
  have globs: "glob_digests '''' ?c = [digest_name '''' ''ab'']" "glob_digests ''metadata.'' ?c = []"
    by (simp_all add: glob_digests_def keys_of_def digest_name_def has_prefix_def)
  have "scan_line ''r/i'' = Some ''r/i''"
    using scan_plain [OF demo_uri] by (simp add: demo_od_def)
  then have expired: "refreshes ?E demo_od ?c"
    unfolding refreshes_def cacheTTLExpired_def globs
    by (simp add: digest_name_def time_Since_def seconds_def wrap64_def
        getCacheTTLValue_def getenv_def demo_cache_defs)
  have facts: "no_file_faults ?E" "no_file_faults ?E'" "oe_GetImageDigest ?E (od_image demo_od) = Inr ''ab''"
    "oe_VerifyInventoryImageSignature ?E (od_image demo_od) = Some ErrNotExist"
    "\<not> od_forceInvalidation demo_od" "\<not> od_forceRefresh demo_od"
    "time_Since (oe_now ?E') (oe_now ?E) \<le> seconds (getCacheTTLValue ?E')"
    by (simp_all add: no_file_faults_def demo_cache_defs time_Since_def seconds_def wrap64_def
        getCacheTTLValue_def getenv_def)
  have "glob_digests ''metadata.'' ?c \<noteq> [digest_name ''metadata.'' (metadata_digest ?E demo_od)]"
    unfolding globs by simp
  from failed_refresh_restarts_ttl [OF facts(1) expired facts(5,3) globs(1) this facts(4) demo_uri facts(2,6,7)]
  show ?thesis by blast
qed

section \<open>The time to live on 64 bits\<close>

lemma seconds_exact: "0 \<le> n \<Longrightarrow> n \<le> 9223372036 \<Longrightarrow> seconds n = n * 1000000000"
  unfolding seconds_def wrap64_def by (subst mod_pos_pos_trivial) simp_all

lemma seconds_wraps:
  assumes "9223372036 < n" "n \<le> 18446744073"
  shows "seconds n < 0"
proof -
  have "(n * 1000000000 + 2 ^ 63) mod 2 ^ 64 = (n * 1000000000 + 2 ^ 63 - 2 ^ 64) mod (2 ^ 64 :: int)"
    by (metis mod_diff_right_eq mod_self diff_zero)
  also have "\<dots> = n * 1000000000 + 2 ^ 63 - 2 ^ 64" using assms by (intro mod_pos_pos_trivial) simp_all
  finally show ?thesis using assms by (simp add: seconds_def wrap64_def)
qed

lemma seconds_wraps_again: "seconds 18446744074 = 290448384"
  by (simp add: seconds_def wrap64_def)

text \<open>C35 (bounds): the time to live of the inventory cache is computed on 64 bits. For a digest file that
  matches the image, a value of up to 9223372036 seconds expires the cache exactly when the file is older
  than that; the values above, up to 18446744073, wrap around to a negative duration and the cache always
  counts as expired. Larger values are not covered: they can wrap around to a short positive duration
  (\<open>seconds_wraps_again\<close>).\<close>

theorem cache_ttl_bounds:
  assumes "glob_digests '''' c = [match]" "\<not> oe_fails E FOpen match" "\<not> oe_fails E FStat match"
    "map_of (oc_files c) match = Some (content, mtime)" "scan_line content = Some (od_image od)"
    "0 \<le> oe_now E - mtime" "oe_now E - mtime < 2 ^ 63" "0 \<le> getCacheTTLValue E" "getCacheTTLValue E \<le> 18446744073"
  shows "cacheTTLExpired E od c \<longleftrightarrow>
    9223372036 < getCacheTTLValue E \<or> getCacheTTLValue E * 1000000000 < oe_now E - mtime"
proof -
  have "time_Since (oe_now E) mtime = oe_now E - mtime" using assms(6,7) by (simp add: time_Since_def)
  then have "cacheTTLExpired E od c \<longleftrightarrow> seconds (getCacheTTLValue E) < oe_now E - mtime"
    using assms(1-5) by (simp add: cacheTTLExpired_def)
  then show ?thesis
    using seconds_exact [of "getCacheTTLValue E"] seconds_wraps [of "getCacheTTLValue E"] assms(6,8,9)
    by (cases "getCacheTTLValue E \<le> 9223372036") auto
qed

theorem cache_ttl_bounds_witness:
  "cacheTTLExpired (demo_oci\<lparr>oe_DefaultInventoryRefreshTTLSeconds := 9223372037\<rparr>) demo_od full_cache \<and>
   \<not> cacheTTLExpired (demo_oci\<lparr>oe_DefaultInventoryRefreshTTLSeconds := 9223372036\<rparr>) demo_od full_cache"
proof -
  let ?E = "\<lambda>n. demo_oci\<lparr>oe_DefaultInventoryRefreshTTLSeconds := n\<rparr>"
  have ttl: "getCacheTTLValue (?E n) = n" for n by (simp add: getCacheTTLValue_def getenv_def demo_oci_def)
  have glob: "glob_digests '''' full_cache = [''digest.ab'']" by (simp add: glob_digests_def keys_of_def full_cache_def has_prefix_def)
  have entry: "map_of (oc_files full_cache) ''digest.ab'' = Some (''r/i'', 0)" by (simp add: full_cache_def)
  have scan: "scan_line ''r/i'' = Some (od_image demo_od)" by (simp add: scan_line_def Let_def demo_od_def)
  have "cacheTTLExpired (?E n) demo_od full_cache \<longleftrightarrow>
      9223372036 < getCacheTTLValue (?E n) \<or> getCacheTTLValue (?E n) * 1000000000 < oe_now (?E n) - 0"
    if "0 \<le> n" "n \<le> 18446744073" for n
    by (rule cache_ttl_bounds [OF glob _ _ entry scan]) (simp_all add: that ttl, simp_all add: demo_oci_def)
  then show ?thesis unfolding ttl by (simp add: demo_oci_def)
qed

end
