(* ===== verification/Discovery_Model.thy ===== *)
theory Discovery_Model
  imports Discovery_Cache_Correct Inventory_Db
begin

text \<open>
  Plugin discovery, \<^verbatim>\<open>pkg/discovery\<close>: the options and criteria of \<^verbatim>\<open>interface.go\<close>, the four
  kinds of sources (\<^verbatim>\<open>oci.go\<close> and \<^verbatim>\<open>oci_dbbacked.go\<close>, \<^verbatim>\<open>local.go\<close>, \<^verbatim>\<open>kubernetes.go\<close>,
  \<^verbatim>\<open>rest.go\<close>) and \<^verbatim>\<open>utils.go\<close>.

  The caches of the OCI discoveries are a function from the discovery name to \<open>oci_cache\<close>. The
  cluster client, the HTTP client and the decoders are fields of \<open>disc_env\<close>. The outer option of a
  result is \<open>None\<close> for the nil dereference that the extraction of database rows can end in.
\<close>

section \<open>Sources, options and criteria\<close>

text \<open>The fields of \<^verbatim>\<open>configtypes.PluginDiscovery\<close> the sources read; a nil pointer is \<open>None\<close>.\<close>

record oci_source =
  oci_Name :: string
  oci_Image :: string

record local_source =
  local_Name :: string
  local_Path :: string

record k8s_source =
  k8s_Name :: string
  k8s_Path :: string
  k8s_Context :: string
  k8s_KubeConfigBytes :: string

record rest_source =
  rest_Name :: string
  rest_Endpoint :: string
  rest_BasePath :: string

record plugin_discovery =
  pd_OCI :: "oci_source option"
  pd_Local :: "local_source option"
  pd_Kubernetes :: "k8s_source option"
  pd_REST :: "rest_source option"

definition empty_discovery :: plugin_discovery where
  "empty_discovery = \<lparr>pd_OCI = None, pd_Local = None, pd_Kubernetes = None, pd_REST = None\<rparr>"

record discovery_opts =
  UseLocalCacheOnly :: bool
  ForceRefresh :: bool
  ForceInvalidation :: bool
  PluginDiscoveryCriteria :: "plugin_criteria option"
  GroupDiscoveryCriteria :: "group_criteria option"

type_synonym discovery_option = "discovery_opts \<Rightarrow> discovery_opts"

definition NewDiscoveryOpts :: discovery_opts where
  "NewDiscoveryOpts = \<lparr>UseLocalCacheOnly = False, ForceRefresh = False, ForceInvalidation = False,
     PluginDiscoveryCriteria = None, GroupDiscoveryCriteria = None\<rparr>"

definition WithUseLocalCacheOnly :: discovery_option where
  "WithUseLocalCacheOnly opts = opts\<lparr>UseLocalCacheOnly := True\<rparr>"

definition WithForceRefresh :: discovery_option where
  "WithForceRefresh opts = opts\<lparr>ForceRefresh := True\<rparr>"

definition WithForceInvalidation :: discovery_option where
  "WithForceInvalidation opts = opts\<lparr>ForceInvalidation := True\<rparr>"

definition WithPluginDiscoveryCriteria :: "plugin_criteria \<Rightarrow> discovery_option" where
  "WithPluginDiscoveryCriteria criteria opts = opts\<lparr>PluginDiscoveryCriteria := Some criteria\<rparr>"

definition WithGroupDiscoveryCriteria :: "group_criteria \<Rightarrow> discovery_option" where
  "WithGroupDiscoveryCriteria criteria opts = opts\<lparr>GroupDiscoveryCriteria := Some criteria\<rparr>"

definition apply_options :: "discovery_option list \<Rightarrow> discovery_opts" where
  "apply_options options = fold (\<lambda>option. option) options NewDiscoveryOpts"

section \<open>Environment\<close>

record cluster_client =
  VerifyCLIPluginCRD :: "bool res"
  ListCLIPluginResources :: "cli_plugin list res"
  GetCLIPluginImageRepositoryOverride :: "(string \<times> string) list \<times> err option"

record rest_plugin =
  rp_Name :: string
  rp_Description :: string
  rp_RecommendedVersion :: string
  rp_Artifacts :: "(string \<times> k8s_artifact list) list"
  rp_Optional :: bool
  rp_Target :: string

record disc_env =
  dv_oci :: oci_env
  dv_files :: fetch_env
  dv_BuildScheme :: "err option"
  dv_DecodeCLIPlugin :: "string \<Rightarrow> cli_plugin res"
  dv_NewClient :: "string \<Rightarrow> string \<Rightarrow> string \<Rightarrow> cluster_client res"
  dv_NewRequest :: "string \<Rightarrow> err option"
  dv_Do :: "string \<Rightarrow> (int \<times> string) res"
  dv_DecodePlugins :: "string \<Rightarrow> rest_plugin list res"
  dv_DBCacheRefreshThresholdSeconds :: int
  dv_CLIDiscoverySources :: "plugin_discovery list res"

type_synonym caches = "string \<Rightarrow> oci_cache"

section \<open>OCI discovery\<close>

definition newDBBackedOCIDiscovery :: "string \<Rightarrow> string \<Rightarrow> oci_discovery" where
  "newDBBackedOCIDiscovery name img =
     \<lparr>od_name = name, od_image = img, od_pluginCriteria = None, od_groupCriteria = None,
      od_useLocalCacheOnly = False, od_forceRefresh = False, od_forceInvalidation = False\<rparr>"

definition cache_only_for_testing :: "disc_env \<Rightarrow> bool" where
  "cache_only_for_testing V = env_flag (oe_env (dv_oci V)) ''TEST_TANZU_CLI_USE_DB_CACHE_ONLY''"

definition NewOCIDiscovery :: "disc_env \<Rightarrow> string \<Rightarrow> string \<Rightarrow> discovery_option list \<Rightarrow> oci_discovery" where
  "NewOCIDiscovery V name img options =
     (let opts = apply_options options
      in (newDBBackedOCIDiscovery name img)
           \<lparr>od_pluginCriteria := PluginDiscoveryCriteria opts,
            od_useLocalCacheOnly := (if cache_only_for_testing V then True else UseLocalCacheOnly opts),
            od_forceRefresh := ForceRefresh opts,
            od_forceInvalidation := ForceInvalidation opts\<rparr>)"

definition NewOCIGroupDiscovery :: "disc_env \<Rightarrow> string \<Rightarrow> string \<Rightarrow> discovery_option list \<Rightarrow> oci_discovery" where
  "NewOCIGroupDiscovery V name img options =
     (let opts = apply_options options
      in (newDBBackedOCIDiscovery name img)
           \<lparr>od_groupCriteria := GroupDiscoveryCriteria opts,
            od_useLocalCacheOnly := (if cache_only_for_testing V then True else UseLocalCacheOnly opts),
            od_forceRefresh := ForceRefresh opts,
            od_forceInvalidation := ForceInvalidation opts\<rparr>)"

text \<open>The inventory object of a discovery: the database file of its cache, with relative image
  references resolved against the directory of the discovery's image.\<close>

definition od_inventory :: "oci_discovery \<Rightarrow> oci_cache \<Rightarrow> inv_store" where
  "od_inventory od c =
     (case oc_db c of None \<Rightarrow> absent_inventory | Some s \<Rightarrow> s)\<lparr>is_prefix := filepath_Dir (od_image od)\<rparr>"

definition include_hidden :: "disc_env \<Rightarrow> bool" where
  "include_hidden V = env_flag (oe_env (dv_oci V)) ''TANZU_CLI_INCLUDE_DEACTIVATED_PLUGINS_TEST_ONLY''"

definition discovered_of_entry :: "'v lib \<Rightarrow> string \<Rightarrow> inventory_entry \<Rightarrow> discovered" where
  "discovered_of_entry L source entry =
     \<lparr>d_Name = ie_Name entry, d_Description = ie_Description entry,
      d_RecommendedVersion = ie_RecommendedVersion entry, d_InstalledVersion = '''',
      d_SupportedVersions = snd (SortVersions L (range_keys L (ie_Artifacts entry))),
      d_Distribution = ie_Artifacts entry, d_Optional = False, d_Scope = PluginScopeStandalone,
      d_Source = source, d_ContextName = '''', d_DiscoveryType = DiscoveryTypeOCI,
      d_Target = ie_Target entry, d_Status = PluginStatusNotInstalled\<rparr>"

definition criteria_filter :: "disc_env \<Rightarrow> plugin_criteria option \<Rightarrow> plugin_filter" where
  "criteria_filter V criteria =
     (case criteria of
        None \<Rightarrow> empty_filter\<lparr>f_IncludeHidden := include_hidden V\<rparr>
      | Some pc \<Rightarrow> empty_filter\<lparr>f_Name := pc_Name pc, f_Target := pc_Target pc, f_Version := pc_Version pc,
            f_OS := pc_OS pc, f_Arch := pc_Arch pc, f_IncludeHidden := include_hidden V\<rparr>)"

definition listPluginsFromInventory ::
    "'v lib \<Rightarrow> disc_env \<Rightarrow> oci_discovery \<Rightarrow> oci_cache \<Rightarrow> discovered list res option" where
  "listPluginsFromInventory L V od c =
     (case snd (GetPlugins L (od_inventory od c) (Some (criteria_filter V (od_pluginCriteria od)))) of
        None \<Rightarrow> None
      | Some (entries, Some e) \<Rightarrow> Some (Inl e)
      | Some (entries, None) \<Rightarrow> Some (Inr (map (discovered_of_entry L (od_name od)) entries)))"

definition group_criteria_filter :: "disc_env \<Rightarrow> group_criteria option \<Rightarrow> group_filter" where
  "group_criteria_filter V criteria =
     (case criteria of
        None \<Rightarrow> \<lparr>gf_Vendor = '''', gf_Publisher = '''', gf_Name = '''', gf_Version = '''',
                 gf_IncludeHidden = include_hidden V\<rparr>
      | Some gc \<Rightarrow> \<lparr>gf_Vendor = gc_Vendor gc, gf_Publisher = gc_Publisher gc, gf_Name = gc_Name gc,
                   gf_Version = gc_Version gc, gf_IncludeHidden = include_hidden V\<rparr>)"

definition listGroupsFromInventory ::
    "'v lib \<Rightarrow> disc_env \<Rightarrow> oci_discovery \<Rightarrow> oci_cache \<Rightarrow> plugin_group list res option" where
  "listGroupsFromInventory L V od c =
     (case GetPluginGroups L (od_inventory od c) (group_criteria_filter V (od_groupCriteria od)) of
        None \<Rightarrow> None
      | Some (groups, Some e) \<Rightarrow> Some (Inl e)
      | Some (groups, None) \<Rightarrow> Some (Inr groups))"

definition OCI_List ::
    "'v lib \<Rightarrow> disc_env \<Rightarrow> oci_discovery \<Rightarrow> caches \<Rightarrow> caches \<times> discovered list res option" where
  "OCI_List L V od cs =
     (let (c1, e) = (if od_useLocalCacheOnly od then (cs (od_name od), None)
                     else fetchInventoryImage (dv_oci V) od (cs (od_name od)));
          cs1 = cs(od_name od := c1)
      in case e of
           Some e \<Rightarrow> (cs1, Some (Inl (Wrapf e ''unable to fetch the inventory of discovery %s for plugins'' [od_name od])))
         | None \<Rightarrow> (cs1, listPluginsFromInventory L V od c1))"

definition OCI_GetGroups ::
    "'v lib \<Rightarrow> disc_env \<Rightarrow> oci_discovery \<Rightarrow> caches \<Rightarrow> caches \<times> plugin_group list res option" where
  "OCI_GetGroups L V od cs =
     (let (c1, e) = (if od_useLocalCacheOnly od then (cs (od_name od), None)
                     else fetchInventoryImage (dv_oci V) od (cs (od_name od)));
          cs1 = cs(od_name od := c1)
      in case e of
           Some e \<Rightarrow> (cs1, Some (Inl (Wrapf e ''unable to fetch the inventory of discovery %s for groups'' [od_name od])))
         | None \<Rightarrow> (cs1, listGroupsFromInventory L V od c1))"

section \<open>Local discovery\<close>

definition NewLocalDiscovery :: "disc_env \<Rightarrow> string \<Rightarrow> string" where
  "NewLocalDiscovery V localPath =
     (if filepath_IsAbs localPath then localPath
      else path_join [LocalPluginDistroDir (dv_files V), ''discovery'', localPath])"

definition filepath_Ext :: "string \<Rightarrow> string" where
  "filepath_Ext p =
     (let parts = split_on CHR ''.'' (last (split_on CHR ''/'' p))
      in if length parts < 2 then '''' else CHR ''.'' # last parts)"

definition discovered_of_spec ::
    "'v lib \<Rightarrow> string \<Rightarrow> string \<Rightarrow> string \<Rightarrow> bool \<Rightarrow> string \<Rightarrow> (string \<times> k8s_artifact list) list \<Rightarrow> discovered res" where
  "discovered_of_spec L name description recommended optional target arts =
     (case SortVersions L (range_keys L arts) of
        (Some e, _) \<Rightarrow> Inl (Wrapf e ''error parsing supported versions for plugin %s'' [name])
      | (None, versions) \<Rightarrow>
          Inr (zero_discovered\<lparr>d_Name := name, d_Description := description,
                 d_RecommendedVersion := recommended, d_Optional := optional,
                 d_Target := StringToTarget L target, d_SupportedVersions := versions,
                 d_Distribution := ArtifactsFromK8sV1alpha1 arts\<rparr>))"

definition DiscoveredFromK8sV1alpha1 :: "'v lib \<Rightarrow> cli_plugin \<Rightarrow> discovered res" where
  "DiscoveredFromK8sV1alpha1 L p =
     discovered_of_spec L (cp_Name p) (cps_Description (cp_Spec p)) (cps_RecommendedVersion (cp_Spec p))
       (cps_Optional (cp_Spec p)) (cps_Target (cp_Spec p)) (cps_Artifacts (cp_Spec p))"

fun local_manifest_loop ::
    "'v lib \<Rightarrow> disc_env \<Rightarrow> string \<Rightarrow> string \<Rightarrow> dir_entry list \<Rightarrow> discovered list \<Rightarrow> discovered list res" where
  "local_manifest_loop L V name dir [] plugins = Inr plugins"
| "local_manifest_loop L V name dir (item # items) plugins =
     (let path = path_join [dir, de_Name item]
      in if de_IsDir item \<or> (filepath_Ext path \<noteq> ''.yaml'' \<and> filepath_Ext path \<noteq> ''.yml'')
         then local_manifest_loop L V name dir items plugins
         else (case os_ReadFile (dv_files V) path of
             Inl e \<Rightarrow> Inl (Wrapf e ''error while reading manifest file'' [])
           | Inr b \<Rightarrow>
             (case dv_BuildScheme V of
                Some e \<Rightarrow> Inl (Wrapf e ''failed to create scheme'' [])
              | None \<Rightarrow>
                (case dv_DecodeCLIPlugin V b of
                   Inl e \<Rightarrow> Inl (Wrapf e ''could not decode catalog file'' [])
                 | Inr p \<Rightarrow>
                   (case DiscoveredFromK8sV1alpha1 L p of
                      Inl e \<Rightarrow> Inl e
                    | Inr dp \<Rightarrow>
                        if d_Name dp = '''' then local_manifest_loop L V name dir items plugins
                        else local_manifest_loop L V name dir items
                               (plugins @ [dp\<lparr>d_Source := name, d_DiscoveryType := DiscoveryTypeLocal\<rparr>]))))))"

definition Local_Manifest :: "'v lib \<Rightarrow> disc_env \<Rightarrow> string \<Rightarrow> string \<Rightarrow> discovered list res" where
  "Local_Manifest L V name path =
     (case os_ReadDir (dv_files V) path of
        Inl e \<Rightarrow> Inl (Wrapf e ''error while reading local plugin manifest directory'' [])
      | Inr items \<Rightarrow> local_manifest_loop L V name path items [])"

section \<open>Kubernetes discovery\<close>

text \<open>\<^verbatim>\<open>strings.Replace(s, old, new, 1)\<close> on a string that starts with \<^verbatim>\<open>old\<close>.\<close>

definition replace_prefix :: "string \<Rightarrow> string \<Rightarrow> string \<Rightarrow> string" where
  "replace_prefix s old new = new @ drop (length old) s"

fun replaceImageRepository :: "(string \<times> string) list \<Rightarrow> string list \<Rightarrow> string \<Rightarrow> string" where
  "replaceImageRepository overrides [] img = img"
| "replaceImageRepository overrides (originalRepo # repos) img =
     replaceImageRepository overrides repos
       (if has_prefix img originalRepo then replace_prefix img originalRepo (get_or '''' overrides originalRepo) else img)"

definition override_artifact :: "'v lib \<Rightarrow> (string \<times> string) list \<Rightarrow> k8s_artifact \<Rightarrow> k8s_artifact" where
  "override_artifact L overrides a =
     (if k_Image a \<noteq> ''''
      then a\<lparr>k_Image := replaceImageRepository overrides (range_keys L overrides) (k_Image a)\<rparr> else a)"

definition UpdateArtifactsBasedOnImageRepositoryOverride ::
    "'v lib \<Rightarrow> (string \<times> string) list \<Rightarrow> cli_plugin \<Rightarrow> cli_plugin" where
  "UpdateArtifactsBasedOnImageRepositoryOverride L overrides p =
     p\<lparr>cp_Spec := (cp_Spec p)\<lparr>cps_Artifacts :=
         map (\<lambda>(v, l). (v, map (override_artifact L overrides) l)) (cps_Artifacts (cp_Spec p))\<rparr>\<rparr>"

definition DiscoveredFromK8sV1alpha1WithImageRepositoryOverride ::
    "'v lib \<Rightarrow> cli_plugin \<Rightarrow> (string \<times> string) list \<Rightarrow> discovered res" where
  "DiscoveredFromK8sV1alpha1WithImageRepositoryOverride L p overrides =
     (let q = UpdateArtifactsBasedOnImageRepositoryOverride L overrides p
      in discovered_of_spec L (cp_Name q) (cps_Description (cp_Spec q)) (cps_RecommendedVersion (cp_Spec q))
           (cps_Optional (cp_Spec q)) (cps_Target (cp_Spec q)) (cps_Artifacts (cp_Spec q)))"

fun k8s_plugins_loop ::
    "'v lib \<Rightarrow> string \<Rightarrow> (string \<times> string) list \<Rightarrow> cli_plugin list \<Rightarrow> discovered list \<Rightarrow> discovered list res" where
  "k8s_plugins_loop L name overrides [] plugins = Inr plugins"
| "k8s_plugins_loop L name overrides (p # ps) plugins =
     (case DiscoveredFromK8sV1alpha1WithImageRepositoryOverride L p overrides of
        Inl e \<Rightarrow> Inl e
      | Inr dp \<Rightarrow> k8s_plugins_loop L name overrides ps
                   (plugins @ [dp\<lparr>d_Source := name, d_DiscoveryType := DiscoveryTypeKubernetes\<rparr>]))"

text \<open>A missing custom resource definition, and an unverifiable one whose resources cannot be listed,
  give no plugins and no error. An error of the image repository overrides is only logged.\<close>

definition GetDiscoveredPlugins :: "'v lib \<Rightarrow> string \<Rightarrow> cluster_client \<Rightarrow> discovered list res" where
  "GetDiscoveredPlugins L name client =
     (case VerifyCLIPluginCRD client of
        Inr False \<Rightarrow> Inr []
      | crd \<Rightarrow>
          (case ListCLIPluginResources client of
             Inl e \<Rightarrow> (if isl crd then Inr [] else Inl e)
           | Inr cliplugins \<Rightarrow>
               k8s_plugins_loop L name (fst (GetCLIPluginImageRepositoryOverride client)) cliplugins []))"

definition K8s_Manifest :: "'v lib \<Rightarrow> disc_env \<Rightarrow> string \<Rightarrow> string \<Rightarrow> string \<Rightarrow> string \<Rightarrow> discovered list res" where
  "K8s_Manifest L V name kubeconfigPath kubecontext kubeconfigBytes =
     (case dv_NewClient V kubeconfigPath kubecontext kubeconfigBytes of
        Inl e \<Rightarrow> Inl e
      | Inr client \<Rightarrow> GetDiscoveredPlugins L name client)"

section \<open>REST discovery\<close>

definition doRequest :: "disc_env \<Rightarrow> string \<Rightarrow> rest_plugin list res" where
  "doRequest V u =
     (case dv_Do V u of
        Inl e \<Rightarrow> Inl e
      | Inr (status, body) \<Rightarrow>
          if status < 200 \<or> status \<ge> 400 then Inl (Errorf ''API error, status code: %d'' [])
          else dv_DecodePlugins V body)"

definition DiscoveredFromREST :: "'v lib \<Rightarrow> rest_plugin \<Rightarrow> discovered res" where
  "DiscoveredFromREST L p =
     discovered_of_spec L (rp_Name p) (rp_Description p) (rp_RecommendedVersion p) (rp_Optional p)
       (rp_Target p) (rp_Artifacts p)"

fun rest_plugins_loop ::
    "'v lib \<Rightarrow> string \<Rightarrow> rest_plugin list \<Rightarrow> discovered list \<Rightarrow> discovered list res" where
  "rest_plugins_loop L name [] plugins = Inr plugins"
| "rest_plugins_loop L name (p # ps) plugins =
     (case DiscoveredFromREST L p of
        Inl e \<Rightarrow> Inl e
      | Inr dp \<Rightarrow> rest_plugins_loop L name ps
                   (if d_Name dp = '''' then plugins else plugins @ [dp\<lparr>d_Source := name\<rparr>]))"

definition REST_List :: "'v lib \<Rightarrow> disc_env \<Rightarrow> string \<Rightarrow> string \<Rightarrow> string \<Rightarrow> discovered list res" where
  "REST_List L V name endpoint basePath =
     (let u = endpoint @ ''/'' @ basePath
      in case dv_NewRequest V u of
           Some e \<Rightarrow> Inl e
         | None \<Rightarrow> (case doRequest V u of Inl e \<Rightarrow> Inl e | Inr ps \<Rightarrow> rest_plugins_loop L name ps []))"

section \<open>Discovery objects\<close>

datatype discovery =
    OCIDiscovery oci_discovery
  | LocalDiscovery string string
  | KubernetesDiscovery k8s_source
  | RESTDiscovery rest_source

definition CreateDiscoveryFromV1alpha1 ::
    "disc_env \<Rightarrow> plugin_discovery \<Rightarrow> discovery_option list \<Rightarrow> discovery res" where
  "CreateDiscoveryFromV1alpha1 V pd options =
     (case pd_OCI pd of
        Some oci \<Rightarrow> Inr (OCIDiscovery (NewOCIDiscovery V (oci_Name oci) (oci_Image oci) options))
      | None \<Rightarrow>
        (case pd_Local pd of
           Some l \<Rightarrow> Inr (LocalDiscovery (local_Name l) (NewLocalDiscovery V (local_Path l)))
         | None \<Rightarrow>
           (case pd_Kubernetes pd of
              Some k \<Rightarrow> Inr (KubernetesDiscovery k)
            | None \<Rightarrow>
              (case pd_REST pd of
                 Some r \<Rightarrow> Inr (RESTDiscovery r)
               | None \<Rightarrow> Inl (Errorf ''unknown plugin discovery source'' [])))))"

definition CreateGroupDiscovery ::
    "disc_env \<Rightarrow> plugin_discovery \<Rightarrow> discovery_option list \<Rightarrow> oci_discovery res" where
  "CreateGroupDiscovery V pd options =
     (case pd_OCI pd of
        Some oci \<Rightarrow> Inr (NewOCIGroupDiscovery V (oci_Name oci) (oci_Image oci) options)
      | None \<Rightarrow> Inl (Errorf ''unknown group discovery source'' []))"

fun discovery_Name :: "discovery \<Rightarrow> string" where
  "discovery_Name (OCIDiscovery od) = od_name od"
| "discovery_Name (LocalDiscovery name path) = name"
| "discovery_Name (KubernetesDiscovery k) = k8s_Name k"
| "discovery_Name (RESTDiscovery r) = rest_Name r"

fun discovery_Type :: "discovery \<Rightarrow> string" where
  "discovery_Type (OCIDiscovery od) = DiscoveryTypeOCI"
| "discovery_Type (LocalDiscovery name path) = DiscoveryTypeLocal"
| "discovery_Type (KubernetesDiscovery k) = DiscoveryTypeKubernetes"
| "discovery_Type (RESTDiscovery r) = DiscoveryTypeREST"

fun discovery_List ::
    "'v lib \<Rightarrow> disc_env \<Rightarrow> discovery \<Rightarrow> caches \<Rightarrow> caches \<times> discovered list res option" where
  "discovery_List L V (OCIDiscovery od) cs = OCI_List L V od cs"
| "discovery_List L V (LocalDiscovery name path) cs = (cs, Some (Local_Manifest L V name path))"
| "discovery_List L V (KubernetesDiscovery k) cs =
     (cs, Some (K8s_Manifest L V (k8s_Name k) (k8s_Path k) (k8s_Context k) (k8s_KubeConfigBytes k)))"
| "discovery_List L V (RESTDiscovery r) cs =
     (cs, Some (REST_List L V (rest_Name r) (rest_Endpoint r) (rest_BasePath r)))"

section \<open>Utilities\<close>

definition has_name :: "('a \<Rightarrow> string) \<Rightarrow> 'a option \<Rightarrow> string \<Rightarrow> bool" where
  "has_name name src dn = (case src of None \<Rightarrow> False | Some s \<Rightarrow> name s = dn)"

definition CheckDiscoveryName :: "plugin_discovery \<Rightarrow> string \<Rightarrow> bool" where
  "CheckDiscoveryName ds dn =
     (has_name k8s_Name (pd_Kubernetes ds) dn \<or> has_name local_Name (pd_Local ds) dn \<or>
      has_name rest_Name (pd_REST ds) dn \<or> has_name oci_Name (pd_OCI ds) dn)"

definition compareLocalDiscoverySources :: "plugin_discovery \<Rightarrow> plugin_discovery \<Rightarrow> bool" where
  "compareLocalDiscoverySources ds1 ds2 =
     (case (pd_Local ds1, pd_Local ds2) of
        (Some a, Some b) \<Rightarrow> local_Name a = local_Name b \<and> local_Path a = local_Path b | _ \<Rightarrow> False)"

definition compareOCIDiscoverySources :: "plugin_discovery \<Rightarrow> plugin_discovery \<Rightarrow> bool" where
  "compareOCIDiscoverySources ds1 ds2 =
     (case (pd_OCI ds1, pd_OCI ds2) of
        (Some a, Some b) \<Rightarrow> oci_Name a = oci_Name b \<and> oci_Image a = oci_Image b | _ \<Rightarrow> False)"

definition compareK8sDiscoverySources :: "plugin_discovery \<Rightarrow> plugin_discovery \<Rightarrow> bool" where
  "compareK8sDiscoverySources ds1 ds2 =
     (case (pd_Kubernetes ds1, pd_Kubernetes ds2) of
        (Some a, Some b) \<Rightarrow> k8s_Name a = k8s_Name b \<and> k8s_Path a = k8s_Path b \<and> k8s_Context a = k8s_Context b
      | _ \<Rightarrow> False)"

definition compareRESTDiscoverySources :: "plugin_discovery \<Rightarrow> plugin_discovery \<Rightarrow> bool" where
  "compareRESTDiscoverySources ds1 ds2 =
     (case (pd_REST ds1, pd_REST ds2) of
        (Some a, Some b) \<Rightarrow> rest_Name a = rest_Name b \<and> rest_BasePath a = rest_BasePath b \<and>
                           rest_Endpoint a = rest_Endpoint b
      | _ \<Rightarrow> False)"

definition CompareDiscoverySource :: "plugin_discovery \<Rightarrow> plugin_discovery \<Rightarrow> string \<Rightarrow> bool" where
  "CompareDiscoverySource ds1 ds2 dsType =
     (if dsType = DiscoveryTypeLocal then compareLocalDiscoverySources ds1 ds2
      else if dsType = DiscoveryTypeOCI then compareOCIDiscoverySources ds1 ds2
      else if dsType = DiscoveryTypeKubernetes then compareK8sDiscoverySources ds1 ds2
      else if dsType = DiscoveryTypeREST then compareRESTDiscoverySources ds1 ds2
      else False)"

definition getDiscoverySourceNameAndURL :: "plugin_discovery \<Rightarrow> (string \<times> string) res" where
  "getDiscoverySourceNameAndURL source =
     (case pd_OCI source of
        Some oci \<Rightarrow> Inr (oci_Name oci, oci_Image oci)
      | None \<Rightarrow> Inl (Errorf ''unknown discovery source type'' []))"

definition RefreshDiscoveryDatabaseForSource ::
    "'v lib \<Rightarrow> disc_env \<Rightarrow> plugin_discovery \<Rightarrow> discovery_option list \<Rightarrow> caches \<Rightarrow> (caches \<times> err option) option" where
  "RefreshDiscoveryDatabaseForSource L V source options cs =
     (case CreateDiscoveryFromV1alpha1 V source options of
        Inl e \<Rightarrow> Some (cs, Some e)
      | Inr d \<Rightarrow>
          (case discovery_List L V d cs of
             (cs1, None) \<Rightarrow> None
           | (cs1, Some (Inl e)) \<Rightarrow> Some (cs1, Some e)
           | (cs1, Some (Inr _)) \<Rightarrow> Some (cs1, None)))"

definition refresh_threshold :: "disc_env \<Rightarrow> int" where
  "refresh_threshold V =
     (case oe_env (dv_oci V) ''TANZU_CLI_PLUGIN_DB_CACHE_REFRESH_THRESHOLD_SECONDS'' of
        None \<Rightarrow> dv_DBCacheRefreshThresholdSeconds V
      | Some s \<Rightarrow> (case atoi s of
                    Some v \<Rightarrow> if v \<ge> 0 then v else dv_DBCacheRefreshThresholdSeconds V
                  | None \<Rightarrow> dv_DBCacheRefreshThresholdSeconds V))"

text \<open>Whether the digest file of a source is missing, ambiguous or older than the threshold.\<close>

definition digest_outdated :: "disc_env \<Rightarrow> oci_cache \<Rightarrow> bool" where
  "digest_outdated V c =
     (case glob_digests '''' c of
        [match] \<Rightarrow>
          if oe_fails (dv_oci V) FStat match then False
          else (case map_of (oc_files c) match of
                  None \<Rightarrow> False
                | Some (content, mtime) \<Rightarrow>
                    time_Since (oe_now (dv_oci V)) mtime > seconds (refresh_threshold V))
      | _ \<Rightarrow> True)"

fun refresh_loop :: "'v lib \<Rightarrow> disc_env \<Rightarrow> plugin_discovery list \<Rightarrow> caches \<Rightarrow> (caches \<times> err option) option" where
  "refresh_loop L V [] cs = Some (cs, None)"
| "refresh_loop L V (source # sources) cs =
     (case getDiscoverySourceNameAndURL source of
        Inl e \<Rightarrow> Some (cs, Some e)
      | Inr (name, u) \<Rightarrow>
          if digest_outdated V (cs name)
          then (case RefreshDiscoveryDatabaseForSource L V source [] cs of
                  None \<Rightarrow> None
                | Some (cs1, _) \<Rightarrow> refresh_loop L V sources cs1)
          else refresh_loop L V sources cs)"

definition RefreshDatabase :: "'v lib \<Rightarrow> disc_env \<Rightarrow> caches \<Rightarrow> (caches \<times> err option) option" where
  "RefreshDatabase L V cs =
     (case dv_CLIDiscoverySources V of
        Inl e \<Rightarrow> Some (cs, Some (Wrapf e ''failed to get discovery sources'' []))
      | Inr sources \<Rightarrow> refresh_loop L V sources cs)"

end
