(* ===== verification/Discovery_Correct.thy ===== *)
theory Discovery_Correct
  imports Discovery_Model
begin

text \<open>
  Properties of \<^verbatim>\<open>pkg/discovery\<close> that hold for all kinds of sources: what a discovered plugin says
  about its versions, and when the image repository overrides of a cluster do not depend on the
  iteration order of the override map. The four sources are instances of the locale
  \<open>plugin_source\<close>.
\<close>

section \<open>Discovered plugins\<close>

text \<open>The supported versions are the versions with artifacts.\<close>

definition versions_ok :: "discovered \<Rightarrow> bool" where
  "versions_ok p \<longleftrightarrow> mset (d_SupportedVersions p) = mset (keys_of (d_Distribution p))"

definition versions_sorted :: "'v lib \<Rightarrow> discovered \<Rightarrow> bool" where
  "versions_sorted L p \<longleftrightarrow>
     ((\<forall>v \<in> set (d_SupportedVersions p). NewVersion L v \<noteq> None) \<longrightarrow>
        sorted_wrt (\<lambda>a b. \<not> IsNewVersion L a b) (d_SupportedVersions p))"

definition from_source :: "'v lib \<Rightarrow> string \<Rightarrow> discovered \<Rightarrow> bool" where
  "from_source L name p \<longleftrightarrow> versions_ok p \<and> versions_sorted L p \<and> d_Source p = name"

lemma sort_range_facts:
  assumes "range_law L" "semver_laws L"
  shows "mset (snd (SortVersions L (range_keys L m))) = mset (keys_of m)"
    and "\<forall>v \<in> set (snd (SortVersions L (range_keys L m))). NewVersion L v \<noteq> None \<Longrightarrow>
      sorted_wrt (\<lambda>a b. \<not> IsNewVersion L a b) (snd (SortVersions L (range_keys L m)))"
proof -
  show "mset (snd (SortVersions L (range_keys L m))) = mset (keys_of m)"
    using SortVersions_mset [OF assms(2)] range_keys_mset [OF assms(1)] by metis
  assume "\<forall>v \<in> set (snd (SortVersions L (range_keys L m))). NewVersion L v \<noteq> None"
  then have "\<forall>v \<in> set (range_keys L m). NewVersion L v \<noteq> None"
    by (simp add: SortVersions_set [OF assms(2)])
  then obtain ws where "SortVersions L (range_keys L m) = (None, ws)"
    using SortVersions_total by blast
  with SortVersions_sorted_aux [OF assms(2) this]
  show "sorted_wrt (\<lambda>a b. \<not> IsNewVersion L a b) (snd (SortVersions L (range_keys L m)))" by simp
qed

lemma keys_ArtifactsFromK8s [simp]: "keys_of (ArtifactsFromK8sV1alpha1 m) = keys_of m"
  by (induction m) (auto simp: ArtifactsFromK8sV1alpha1_def keys_of_def)

lemma discovered_of_spec_ok:
  assumes "range_law L" "semver_laws L" "discovered_of_spec L n desc r opt t arts = Inr dp"
  shows "versions_ok dp" "versions_sorted L dp"
proof -
  from assms(3) obtain ws where ws: "SortVersions L (range_keys L arts) = (None, ws)"
    "d_SupportedVersions dp = ws" "keys_of (d_Distribution dp) = keys_of arts"
    by (auto simp: discovered_of_spec_def split: prod.splits option.splits)
  then show "versions_ok dp" "versions_sorted L dp"
    using sort_range_facts [OF assms(1,2), of arts] unfolding versions_ok_def versions_sorted_def ws snd_conv
    by blast+
qed

lemma discovered_of_entry_ok:
  assumes "range_law L" "semver_laws L"
  shows "from_source L name (discovered_of_entry L name e)"
  using sort_range_facts [OF assms, of "ie_Artifacts e"]
  unfolding discovered_of_entry_def from_source_def versions_ok_def versions_sorted_def discovered.simps
  by blast

lemma from_source_tag:
  "versions_ok dp \<Longrightarrow> versions_sorted L dp \<Longrightarrow> from_source L name (dp\<lparr>d_Source := name\<rparr>)"
  "from_source L name dp \<Longrightarrow> from_source L name (dp\<lparr>d_DiscoveryType := t\<rparr>)"
  by (simp_all add: from_source_def versions_ok_def versions_sorted_def)

section \<open>The contract of a source\<close>

text \<open>A source named \<open>name\<close> lists plugins; every plugin it adds to the accumulated ones is tagged
  with the name and has consistent versions.\<close>

locale plugin_source =
  fixes L :: "'v lib" and name :: string
    and loop :: "'x list \<Rightarrow> discovered list \<Rightarrow> discovered list res"
    and convert :: "'x \<Rightarrow> discovered option res"
  assumes convert_ok: "range_law L \<Longrightarrow> semver_laws L \<Longrightarrow> convert x = Inr (Some dp) \<Longrightarrow> from_source L name dp"
    and loop_Nil: "loop [] ps = Inr ps"
    and loop_Cons: "loop (x # xs) ps =
      (case convert x of Inl e \<Rightarrow> Inl e | Inr None \<Rightarrow> loop xs ps | Inr (Some dp) \<Rightarrow> loop xs (ps @ [dp]))"
begin

lemma loop_from_source:
  assumes laws: "range_law L" "semver_laws L"
    and "loop xs ps = Inr qs" "\<forall>p \<in> set ps. from_source L name p"
  shows "\<forall>q \<in> set qs. from_source L name q"
  using assms(3,4)
proof (induction xs arbitrary: ps)
  case (Cons x xs)
  from Cons.prems(1) obtain r where r: "convert x = Inr r"
    by (cases "convert x") (auto simp: loop_Cons)
  show ?case
  proof (cases r)
    case None
    with Cons r show ?thesis by (simp add: loop_Cons)
  next
    case (Some dp)
    with r convert_ok [OF laws] Cons.prems(2) have "\<forall>p \<in> set (ps @ [dp]). from_source L name p" by simp
    from Cons.IH [OF _ this] Cons.prems(1) Some r show ?thesis by (simp add: loop_Cons)
  qed
qed (simp add: loop_Nil)

end

definition k8s_convert :: "'v lib \<Rightarrow> string \<Rightarrow> (string \<times> string) list \<Rightarrow> cli_plugin \<Rightarrow> discovered option res" where
  "k8s_convert L name overrides p =
     (case DiscoveredFromK8sV1alpha1WithImageRepositoryOverride L p overrides of
        Inl e \<Rightarrow> Inl e
      | Inr dp \<Rightarrow> Inr (Some (dp\<lparr>d_Source := name, d_DiscoveryType := DiscoveryTypeKubernetes\<rparr>)))"

definition rest_convert :: "'v lib \<Rightarrow> string \<Rightarrow> rest_plugin \<Rightarrow> discovered option res" where
  "rest_convert L name p =
     (case DiscoveredFromREST L p of
        Inl e \<Rightarrow> Inl e
      | Inr dp \<Rightarrow> Inr (if d_Name dp = '''' then None else Some (dp\<lparr>d_Source := name\<rparr>)))"

definition local_convert :: "'v lib \<Rightarrow> disc_env \<Rightarrow> string \<Rightarrow> string \<Rightarrow> dir_entry \<Rightarrow> discovered option res" where
  "local_convert L V name dir item =
     (let path = path_join [dir, de_Name item]
      in if de_IsDir item \<or> (filepath_Ext path \<noteq> ''.yaml'' \<and> filepath_Ext path \<noteq> ''.yml'') then Inr None
         else (case os_ReadFile (dv_files V) path of
             Inl e \<Rightarrow> Inl (Wrapf e ''error while reading manifest file'' [])
           | Inr b \<Rightarrow>
             (case dv_BuildScheme V of
                Some e \<Rightarrow> Inl (Wrapf e ''failed to create scheme'' [])
              | None \<Rightarrow>
                (case dv_DecodeCLIPlugin V b of
                   Inl e \<Rightarrow> Inl (Wrapf e ''could not decode catalog file'' [])
                 | Inr p \<Rightarrow>
                   (case DiscoveredFromK8sV1alpha1 L p of
                      Inl e \<Rightarrow> Inl e
                    | Inr dp \<Rightarrow>
                        Inr (if d_Name dp = '''' then None
                             else Some (dp\<lparr>d_Source := name, d_DiscoveryType := DiscoveryTypeLocal\<rparr>)))))))"

interpretation k8s_src: plugin_source L name "k8s_plugins_loop L name ov" "k8s_convert L name ov"
  for L :: "'v lib" and name ov
  by unfold_locales
    (auto simp: k8s_convert_def DiscoveredFromK8sV1alpha1WithImageRepositoryOverride_def Let_def
      split: sum.splits intro!: from_source_tag dest: discovered_of_spec_ok)

interpretation rest_src: plugin_source L name "rest_plugins_loop L name" "rest_convert L name"
  for L :: "'v lib" and name
  by unfold_locales
    (auto simp: rest_convert_def DiscoveredFromREST_def split: sum.splits if_splits
      intro!: from_source_tag dest: discovered_of_spec_ok)

lemma local_convert_ok:
  assumes "range_law L" "semver_laws L" "local_convert L V name dir x = Inr (Some dp)"
  shows "from_source L name dp"
proof -
  from assms(3) obtain p dp' where "DiscoveredFromK8sV1alpha1 L p = Inr dp'"
    "dp = dp'\<lparr>d_Source := name, d_DiscoveryType := DiscoveryTypeLocal\<rparr>"
    by (auto simp: local_convert_def Let_def split: sum.splits option.splits if_splits)
  then show ?thesis
    using discovered_of_spec_ok [OF assms(1,2)] by (auto simp: DiscoveredFromK8sV1alpha1_def intro!: from_source_tag)
qed

interpretation local_src: plugin_source L name "local_manifest_loop L V name dir" "local_convert L V name dir"
  for L :: "'v lib" and V name dir
  by unfold_locales
    (auto simp: local_convert_ok local_convert_def Let_def split: sum.splits option.splits)

lemma OCI_List_from_source:
  assumes "range_law L" "semver_laws L" "OCI_List L V od cs = (cs', Some (Inr ps))"
  shows "\<forall>p \<in> set ps. from_source L (od_name od) p"
proof -
  from assms(3) obtain c1 where "listPluginsFromInventory L V od c1 = Some (Inr ps)"
    by (auto simp: OCI_List_def Let_def split: prod.splits option.splits if_splits)
  then show ?thesis
    using discovered_of_entry_ok [OF assms(1,2)]
    by (auto simp: listPluginsFromInventory_def split: option.splits prod.splits)
qed

text \<open>Whatever the kind of source, every plugin it lists carries the name of the source,
  supports exactly the versions it has artifacts for, and lists them in ascending order whenever they
  are all semantic versions.\<close>

theorem discovered_versions_consistent:
  assumes "range_law L" "semver_laws L" "discovery_List L V d cs = (cs', Some (Inr ps))" "p \<in> set ps"
  shows "d_Source p = discovery_Name d \<and>
    mset (d_SupportedVersions p) = mset (keys_of (d_Distribution p)) \<and>
    ((\<forall>v \<in> set (d_SupportedVersions p). NewVersion L v \<noteq> None) \<longrightarrow>
       sorted_wrt (\<lambda>a b. \<not> IsNewVersion L a b) (d_SupportedVersions p))"
proof -
  have "\<forall>p \<in> set ps. from_source L (discovery_Name d) p"
  proof (cases d)
    case (OCIDiscovery od)
    with assms OCI_List_from_source [OF assms(1,2)] show ?thesis by auto
  next
    case (LocalDiscovery name path)
    with assms(3) local_src.loop_from_source [OF assms(1,2)] show ?thesis
      by (fastforce simp: Local_Manifest_def split: sum.splits)
  next
    case (KubernetesDiscovery k)
    with assms(3) k8s_src.loop_from_source [OF assms(1,2)] show ?thesis
      by (fastforce simp: K8s_Manifest_def GetDiscoveredPlugins_def split: sum.splits bool.splits if_splits)
  next
    case (RESTDiscovery r)
    with assms(3) rest_src.loop_from_source [OF assms(1,2)] show ?thesis
      by (fastforce simp: REST_List_def Let_def split: sum.splits option.splits)
  qed
  with assms(4) show ?thesis by (auto simp: from_source_def versions_ok_def versions_sorted_def)
qed

theorem discovered_versions_consistent_witness:
  "\<exists>p. discovery_List dotted_lib
      \<lparr>dv_oci = demo_oci, dv_files = demo_env, dv_BuildScheme = None,
       dv_DecodeCLIPlugin = (\<lambda>_. Inl ErrNotExist), dv_NewClient = (\<lambda>_ _ _. Inl ErrNotExist),
       dv_NewRequest = (\<lambda>_. None), dv_Do = (\<lambda>_. Inr (200, '''')),
       dv_DecodePlugins = (\<lambda>_. Inr [\<lparr>rp_Name = ''p'', rp_Description = '''', rp_RecommendedVersion = ''v2.0.0'',
          rp_Artifacts = [(''v2.0.0'', []), (''v1.10.0'', []), (''v1.9.0'', [])], rp_Optional = False, rp_Target = ''''\<rparr>]),
       dv_DBCacheRefreshThresholdSeconds = 0, dv_CLIDiscoverySources = Inr []\<rparr>
      (RESTDiscovery \<lparr>rest_Name = ''tmc'', rest_Endpoint = ''e'', rest_BasePath = ''b''\<rparr>) (\<lambda>_. empty_cache) =
    ((\<lambda>_. empty_cache), Some (Inr [p])) \<and> d_Source p = ''tmc'' \<and>
    mset (d_SupportedVersions p) = {#''v2.0.0'', ''v1.10.0'', ''v1.9.0''#}"
proof -
  let ?V = "\<lparr>dv_oci = demo_oci, dv_files = demo_env, dv_BuildScheme = None,
       dv_DecodeCLIPlugin = (\<lambda>_. Inl ErrNotExist), dv_NewClient = (\<lambda>_ _ _. Inl ErrNotExist),
       dv_NewRequest = (\<lambda>_. None), dv_Do = (\<lambda>_. Inr (200, '''')),
       dv_DecodePlugins = (\<lambda>_. Inr [\<lparr>rp_Name = ''p'', rp_Description = '''', rp_RecommendedVersion = ''v2.0.0'',
          rp_Artifacts = [(''v2.0.0'', []), (''v1.10.0'', []), (''v1.9.0'', [])], rp_Optional = False, rp_Target = ''''\<rparr>]),
       dv_DBCacheRefreshThresholdSeconds = 0, dv_CLIDiscoverySources = Inr []\<rparr>"
  let ?arts = "[(''v2.0.0'', []), (''v1.10.0'', []), (''v1.9.0'', [])] :: (string \<times> k8s_artifact list) list"
  let ?d = "RESTDiscovery \<lparr>rest_Name = ''tmc'', rest_Endpoint = ''e'', rest_BasePath = ''b''\<rparr>"
  have "\<exists>dp. discovered_of_spec dotted_lib ''p'' '''' ''v2.0.0'' False '''' ?arts = Inr dp \<and>
      d_Name dp = ''p'' \<and> d_Distribution dp = ArtifactsFromK8sV1alpha1 ?arts"
  proof -
    have "fst (SortVersions dotted_lib [''v2.0.0'', ''v1.10.0'', ''v1.9.0'']) = None" by code_simp
    then obtain ws where "SortVersions dotted_lib (range_keys dotted_lib ?arts) = (None, ws)"
      by (cases "SortVersions dotted_lib [''v2.0.0'', ''v1.10.0'', ''v1.9.0'']")
        (simp add: range_keys_def keys_of_def dotted_lib_def)
    then show ?thesis by (simp add: discovered_of_spec_def zero_discovered_def)
  qed
  then obtain dp where dp: "discovered_of_spec dotted_lib ''p'' '''' ''v2.0.0'' False '''' ?arts = Inr dp"
    "d_Name dp = ''p''" "d_Distribution dp = ArtifactsFromK8sV1alpha1 ?arts" by blast
  then have run: "discovery_List dotted_lib ?V ?d (\<lambda>_. empty_cache) =
      ((\<lambda>_. empty_cache), Some (Inr [dp\<lparr>d_Source := ''tmc''\<rparr>]))"
    by (simp add: REST_List_def doRequest_def DiscoveredFromREST_def)
  from discovered_versions_consistent [OF dotted_range_law dotted_semver_laws run, of "dp\<lparr>d_Source := ''tmc''\<rparr>"]
  show ?thesis unfolding run using dp(3) by (auto simp: keys_of_def ArtifactsFromK8sV1alpha1_def)
qed

section \<open>Image repository overrides\<close>

lemma replace_no_match:
  "\<forall>k \<in> set ks. \<not> has_prefix img k \<Longrightarrow> replaceImageRepository ov ks img = img"
  by (induction ks) auto

lemma replace_one_match:
  assumes "distinct ks" "k \<in> set ks" "\<forall>k' \<in> set ks. has_prefix img k' \<longleftrightarrow> k' = k"
    "\<forall>k' \<in> set ks - {k}. \<not> has_prefix (replace_prefix img k (get_or '''' ov k)) k'"
  shows "replaceImageRepository ov ks img = replace_prefix img k (get_or '''' ov k)"
  using assms
proof (induction ks)
  case (Cons k' ks)
  show ?case
  proof (cases "k' = k")
    case True
    with Cons.prems show ?thesis by (auto intro!: replace_no_match)
  next
    case False
    with Cons.prems have "\<not> has_prefix img k'" "k \<in> set ks" by auto
    with Cons show ?thesis by auto
  qed
qed simp

text \<open>If one repository of the override map is a prefix of the image and the replaced
  image starts with none of the others, the override replaces that prefix, whatever the iteration
  order of the map; an image with no matching repository is kept.\<close>

theorem image_override_deterministic:
  assumes "range_law L" "map_ok ov"
  shows "((\<forall>k \<in> set (keys_of ov). \<not> has_prefix (k_Image a) k) \<longrightarrow> override_artifact L ov a = a) \<and>
    (k \<in> set (keys_of ov) \<and> k_Image a \<noteq> '''' \<and> (\<forall>k' \<in> set (keys_of ov). has_prefix (k_Image a) k' \<longleftrightarrow> k' = k) \<and>
     (\<forall>k' \<in> set (keys_of ov) - {k}. \<not> has_prefix (replace_prefix (k_Image a) k (get_or '''' ov k)) k') \<longrightarrow>
     k_Image (override_artifact L ov a) = get_or '''' ov k @ drop (length k) (k_Image a))"
  using assms replace_no_match [of "range_keys L ov" "k_Image a" ov]
    replace_one_match [of "range_keys L ov" k "k_Image a" ov]
  by (auto simp: override_artifact_def replace_prefix_def)

theorem image_override_deterministic_witness:
  "k_Image (override_artifact dotted_lib [(''old.io/a'', ''new.io''), (''other.io'', ''x'')]
     \<lparr>k_Image = ''old.io/a/plugin:v1'', k_URI = '''', k_Digest = '''', k_Type = ''oci'', k_OS = '''', k_Arch = ''''\<rparr>) =
   ''new.io/plugin:v1''"
  using image_override_deterministic [OF dotted_range_law, where ov = "[(''old.io/a'', ''new.io''), (''other.io'', ''x'')]"
      and k = "''old.io/a''" and a = "\<lparr>k_Image = ''old.io/a/plugin:v1'', k_URI = '''', k_Digest = '''', k_Type = ''oci'', k_OS = '''', k_Arch = ''''\<rparr>"]
  by (simp add: keys_of_def has_prefix_def replace_prefix_def get_or_def)

end
