(* ===== verification/Manager_Merge.thy ===== *)
theory Manager_Merge
  imports Discovery_Correct
begin

text \<open>
  How \<^verbatim>\<open>pkg/pluginmanager/manager.go\<close> combines the answers of several discovery sources:
  \<open>mergeDuplicatePlugins\<close>, \<open>mergeDuplicateGroups\<close> and \<open>removeOldPluginsWhenDuplicates\<close>. The two
  merges share the locale \<open>keyed_merge\<close>: a loop over a map from keys to merged elements.

  The distribution of a discovered plugin is always an artifact map here, so the branches of
  \<open>mergePluginEntries\<close> for another distribution type do not occur.
\<close>

section \<open>Merging plugins\<close>

fun add_missing_versions ::
    "artifacts \<Rightarrow> string list \<Rightarrow> artifacts \<Rightarrow> string list \<Rightarrow> artifacts \<times> string list" where
  "add_missing_versions artifacts2 [] artifacts1 supported = (artifacts1, supported)"
| "add_missing_versions artifacts2 (version # versions) artifacts1 supported =
     (case map_of artifacts1 version of
        Some _ \<Rightarrow> add_missing_versions artifacts2 versions artifacts1 supported
      | None \<Rightarrow> add_missing_versions artifacts2 versions
                 (AList.update version (get_or [] artifacts2 version) artifacts1) (supported @ [version]))"

definition mergePluginEntries :: "'v lib \<Rightarrow> discovered \<Rightarrow> discovered \<Rightarrow> discovered" where
  "mergePluginEntries L plugin1 plugin2 =
     (let (arts, supported) = add_missing_versions (d_Distribution plugin2)
             (range_keys L (d_Distribution plugin2)) (d_Distribution plugin1) (d_SupportedVersions plugin1);
          sorted = snd (SortVersions L supported)
      in plugin1
           \<lparr>d_Target := (if d_Target plugin1 = TargetUnknown then d_Target plugin2 else d_Target plugin1),
            d_Status := (if d_Status plugin2 = PluginStatusInstalled then PluginStatusInstalled else d_Status plugin1),
            d_InstalledVersion := (if d_InstalledVersion plugin2 \<noteq> '''' then d_InstalledVersion plugin2
                                   else d_InstalledVersion plugin1),
            d_Source := (if d_Source plugin1 \<noteq> d_Source plugin2
                         then d_Source plugin1 @ ''/'' @ d_Source plugin2 else d_Source plugin1),
            d_DiscoveryType := (if d_DiscoveryType plugin1 \<noteq> d_DiscoveryType plugin2 then ''''
                                else d_DiscoveryType plugin1),
            d_Distribution := arts,
            d_SupportedVersions := sorted,
            d_RecommendedVersion := (if length sorted > 0 then last sorted else d_RecommendedVersion plugin1)\<rparr>)"

definition plugin_merge_key :: "discovered \<Rightarrow> string" where
  "plugin_merge_key p =
     d_Name p @ ''_'' @ (if d_Target p = TargetUnknown then TargetK8s else d_Target p)"

fun merge_plugins_loop ::
    "'v lib \<Rightarrow> discovered list \<Rightarrow> (string \<times> discovered) list \<Rightarrow> (string \<times> discovered) list" where
  "merge_plugins_loop L [] selected = selected"
| "merge_plugins_loop L (p # ps) selected =
     (let key = plugin_merge_key p
      in merge_plugins_loop L ps
           (case map_of selected key of
              None \<Rightarrow> AList.update key p selected
            | Some dp \<Rightarrow> AList.update key (mergePluginEntries L dp p) selected))"

definition mergeDuplicatePlugins :: "'v lib \<Rightarrow> discovered list \<Rightarrow> discovered list" where
  "mergeDuplicatePlugins L plugins =
     (let selected = merge_plugins_loop L plugins []
      in map (\<lambda>key. get_or zero_discovered selected key) (range_keys L selected))"

section \<open>Merging groups\<close>

fun add_missing_group_versions ::
    "(string \<times> group_plugin_entry list) list \<Rightarrow> string list \<Rightarrow>
     (string \<times> group_plugin_entry list) list \<Rightarrow> (string \<times> group_plugin_entry list) list" where
  "add_missing_group_versions versions2 [] versions1 = versions1"
| "add_missing_group_versions versions2 (version # versions) versions1 =
     add_missing_group_versions versions2 versions
       (case map_of versions1 version of
          Some _ \<Rightarrow> versions1
        | None \<Rightarrow> AList.update version (get_or [] versions2 version) versions1)"

definition mergeGroupEntries :: "'v lib \<Rightarrow> plugin_group \<Rightarrow> plugin_group \<Rightarrow> plugin_group" where
  "mergeGroupEntries L group1 group2 =
     (let g = group1\<lparr>g_Versions := add_missing_group_versions (g_Versions group2)
                (range_keys L (g_Versions group2)) (g_Versions group1)\<rparr>
      in if length (g_Versions g) > 0
         then (let latestVersions = snd (SortVersions L [g_RecommendedVersion g, g_RecommendedVersion group2])
               in if g_RecommendedVersion group2 = latestVersions ! 1
                  then g\<lparr>g_RecommendedVersion := g_RecommendedVersion group2, g_Description := g_Description group2\<rparr>
                  else g)
         else g)"

fun merge_groups_loop ::
    "'v lib \<Rightarrow> plugin_group list \<Rightarrow> (string \<times> plugin_group) list \<Rightarrow> (string \<times> plugin_group) list" where
  "merge_groups_loop L [] selected = selected"
| "merge_groups_loop L (g # gs) selected =
     (let key = PluginGroupToID g
      in merge_groups_loop L gs
           (case map_of selected key of
              None \<Rightarrow> AList.update key g selected
            | Some existing \<Rightarrow> AList.update key (mergeGroupEntries L existing g) selected))"

definition zero_group :: plugin_group where
  "zero_group = \<lparr>g_Vendor = '''', g_Publisher = '''', g_Name = '''', g_Description = '''',
     g_Hidden = False, g_RecommendedVersion = '''', g_Versions = []\<rparr>"

definition mergeDuplicateGroups :: "'v lib \<Rightarrow> plugin_group list \<Rightarrow> plugin_group list" where
  "mergeDuplicateGroups L groups =
     (let selected = merge_groups_loop L groups []
      in map (\<lambda>key. get_or zero_group selected key) (range_keys L selected))"

section \<open>Removing old plugins\<close>

definition plugin_version_key :: "discovered \<Rightarrow> string" where
  "plugin_version_key p = d_Name p @ ''-'' @ d_Target p"

fun latest_versions_loop :: "'v lib \<Rightarrow> discovered list \<Rightarrow> (string \<times> 'v) list \<Rightarrow> (string \<times> 'v) list" where
  "latest_versions_loop L [] latest = latest"
| "latest_versions_loop L (p # ps) latest =
     (case NewVersion L (d_RecommendedVersion p) of
        None \<Rightarrow> latest_versions_loop L ps latest
      | Some v \<Rightarrow>
          latest_versions_loop L ps
            (case map_of latest (plugin_version_key p) of
               None \<Rightarrow> AList.update (plugin_version_key p) v latest
             | Some l \<Rightarrow> if CompareV L v l > 0 then AList.update (plugin_version_key p) v latest else latest))"

fun keep_latest_loop :: "'v lib \<Rightarrow> discovered list \<Rightarrow> (string \<times> 'v) list \<Rightarrow> discovered list \<Rightarrow> discovered list" where
  "keep_latest_loop L [] latest result = result"
| "keep_latest_loop L (p # ps) latest result =
     (case map_of latest (plugin_version_key p) of
        None \<Rightarrow> keep_latest_loop L ps latest result
      | Some l \<Rightarrow>
          (case NewVersion L (d_RecommendedVersion p) of
             None \<Rightarrow> keep_latest_loop L ps latest result
           | Some v \<Rightarrow>
               if CompareV L v l = 0
               then keep_latest_loop L ps (AList.delete (plugin_version_key p) latest) (result @ [p])
               else keep_latest_loop L ps latest result))"

definition removeOldPluginsWhenDuplicates :: "'v lib \<Rightarrow> discovered list \<Rightarrow> discovered list" where
  "removeOldPluginsWhenDuplicates L plugins =
     keep_latest_loop L plugins (latest_versions_loop L plugins []) []"

section \<open>Merging by key\<close>

text \<open>A loop that merges every element into the one already selected for its key. The elements of one
  key are folded in their order.\<close>

locale keyed_merge =
  fixes key :: "'a \<Rightarrow> string"
    and merge :: "'a \<Rightarrow> 'a \<Rightarrow> 'a"
    and loop :: "'a list \<Rightarrow> (string \<times> 'a) list \<Rightarrow> (string \<times> 'a) list"
  assumes loop_Nil: "loop [] m = m"
    and loop_Cons: "loop (x # xs) m = loop xs
      (case map_of m (key x) of None \<Rightarrow> AList.update (key x) x m
       | Some y \<Rightarrow> AList.update (key x) (merge y x) m)"
begin

definition folded :: "'a list \<Rightarrow> 'a option" where
  "folded xs = (case xs of [] \<Rightarrow> None | x # xs \<Rightarrow> Some (foldl merge x xs))"

lemma loop_map_ok: "map_ok m \<Longrightarrow> map_ok (loop xs m)"
  by (induction xs arbitrary: m) (auto simp: loop_Nil loop_Cons split: option.splits)

lemma loop_lookup:
  "map_of (loop xs m) k =
     (let ys = filter (\<lambda>x. key x = k) xs
      in case map_of m k of None \<Rightarrow> folded ys | Some y \<Rightarrow> Some (foldl merge y ys))"
proof (induction xs arbitrary: m)
  case (Cons x xs)
  then show ?case
    by (auto simp: loop_Cons folded_def Let_def split: option.splits)
qed (auto simp: loop_Nil folded_def Let_def split: option.splits)

lemma loop_keys: "set (keys_of (loop xs [])) = key ` set xs"
proof -
  have "k \<in> set (keys_of (loop xs [])) \<longleftrightarrow> k \<in> key ` set xs" for k
  proof -
    have "k \<in> set (keys_of (loop xs [])) \<longleftrightarrow> filter (\<lambda>x. key x = k) xs \<noteq> []"
      using map_of_eq_None_keys [of "loop xs []" k] loop_lookup [of xs "[]" k]
      by (auto simp: folded_def Let_def split: list.splits)
    then show ?thesis by (auto simp: filter_empty_conv)
  qed
  then show ?thesis by blast
qed

text \<open>The merged list: one element per key, the fold of the elements of that key.\<close>

lemma merged_list:
  assumes "range_law L" and out: "out = map (\<lambda>k. get_or z (loop xs []) k) (range_keys L (loop xs []))"
  shows "set out = (\<lambda>k. the (folded (filter (\<lambda>x. key x = k) xs))) ` key ` set xs"
    and "length out = card (key ` set xs)"
proof -
  have ok: "map_ok (loop xs [])" by (rule loop_map_ok) simp
  have keys: "set (range_keys L (loop xs [])) = key ` set xs"
    using assms(1) by (simp add: loop_keys)
  have val: "get_or z (loop xs []) k = the (folded (filter (\<lambda>x. key x = k) xs))" if "k \<in> key ` set xs" for k
  proof -
    have "filter (\<lambda>x. key x = k) xs \<noteq> []" using that by (auto simp: filter_empty_conv)
    then show ?thesis
      using loop_lookup [of xs "[]" k] by (auto simp: get_or_def folded_def Let_def split: list.splits)
  qed
  show "set out = (\<lambda>k. the (folded (filter (\<lambda>x. key x = k) xs))) ` key ` set xs"
    unfolding out set_map keys using val by (rule image_cong [OF refl])
  have "distinct (range_keys L (loop xs []))" using assms(1) ok by simp
  from distinct_card [OF this] show "length out = card (key ` set xs)"
    unfolding out keys by simp
qed

end

interpretation merge_plugins: keyed_merge plugin_merge_key "mergePluginEntries L" "merge_plugins_loop L"
  for L :: "'v lib"
  by unfold_locales (simp_all add: Let_def)

interpretation merge_groups: keyed_merge PluginGroupToID "mergeGroupEntries L" "merge_groups_loop L"
  for L :: "'v lib"
  by unfold_locales (simp_all add: Let_def)

end
