(* ===== verification/Manager_Merge_Correct.thy ===== *)
theory Manager_Merge_Correct
  imports Manager_Merge
begin

text \<open>
  Correctness of the merges of \<^verbatim>\<open>pkg/pluginmanager/manager.go\<close>: one result per key, the union of
  the versions with the first source winning, the highest version recommended; and the removal of
  older duplicates as the selection of the first latest plugin of each key.
\<close>

section \<open>Plugins\<close>

definition plugin_ok :: "discovered \<Rightarrow> bool" where
  "plugin_ok p \<longleftrightarrow> map_ok (d_Distribution p) \<and> versions_ok p"

lemma add_missing_map_ok:
  "map_ok a1 \<Longrightarrow> map_ok (fst (add_missing_versions a2 vs a1 s))"
  by (induction vs arbitrary: a1 s) (auto split: option.splits)

lemma add_missing_versions_keys:
  "mset s = mset (keys_of a1) \<Longrightarrow>
     mset (snd (add_missing_versions a2 vs a1 s)) = mset (keys_of (fst (add_missing_versions a2 vs a1 s)))"
proof (induction vs arbitrary: a1 s)
  case (Cons v vs)
  show ?case
  proof (cases "map_of a1 v")
    case None
    then have "keys_of (AList.update v (get_or [] a2 v) a1) = keys_of a1 @ [v]"
      using update_fresh [of v a1] by (simp add: keys_of_def map_of_eq_None_iff)
    with None Cons show ?thesis by simp
  next
    case (Some x)
    with Cons show ?thesis by simp
  qed
qed simp

lemma add_missing_versions_lookup:
  "map_of (fst (add_missing_versions a2 vs a1 s)) v =
     (case map_of a1 v of Some x \<Rightarrow> Some x | None \<Rightarrow> if v \<in> set vs then Some (get_or [] a2 v) else None)"
  by (induction vs arbitrary: a1 s) (auto split: option.splits)

lemma merge_fields:
  "d_Name (mergePluginEntries L p q) = d_Name p"
  "d_Distribution (mergePluginEntries L p q) =
     fst (add_missing_versions (d_Distribution q) (range_keys L (d_Distribution q)) (d_Distribution p) (d_SupportedVersions p))"
  "d_SupportedVersions (mergePluginEntries L p q) =
     snd (SortVersions L (snd (add_missing_versions (d_Distribution q) (range_keys L (d_Distribution q)) (d_Distribution p) (d_SupportedVersions p))))"
  "d_RecommendedVersion (mergePluginEntries L p q) =
     (if d_SupportedVersions (mergePluginEntries L p q) = [] then d_RecommendedVersion p
      else last (d_SupportedVersions (mergePluginEntries L p q)))"
  by (simp_all add: mergePluginEntries_def Let_def split_beta)

lemma merge_ok:
  assumes "range_law L" "semver_laws L" "plugin_ok p" "plugin_ok q"
  shows "plugin_ok (mergePluginEntries L p q)"
    and "map_of (d_Distribution (mergePluginEntries L p q)) = map_of (d_Distribution p @ d_Distribution q)"
proof -
  show "plugin_ok (mergePluginEntries L p q)"
    using assms add_missing_map_ok
      add_missing_versions_keys [of "d_SupportedVersions p" "d_Distribution p"]
    by (simp add: plugin_ok_def versions_ok_def merge_fields SortVersions_mset)
  show "map_of (d_Distribution (mergePluginEntries L p q)) = map_of (d_Distribution p @ d_Distribution q)"
  proof
    fix v
    show "map_of (d_Distribution (mergePluginEntries L p q)) v = map_of (d_Distribution p @ d_Distribution q) v"
      using assms(1) map_of_eq_None_keys [of "d_Distribution q" v]
      by (cases "map_of (d_Distribution q) v"; cases "map_of (d_Distribution p) v")
        (simp_all add: merge_fields add_missing_versions_lookup map_add_def get_or_def)
  qed
qed

lemma fold_merge_ok:
  assumes "range_law L" "semver_laws L" "plugin_ok p" "\<forall>q \<in> set qs. plugin_ok q"
  shows "plugin_ok (foldl (mergePluginEntries L) p qs) \<and>
    map_of (d_Distribution (foldl (mergePluginEntries L) p qs)) = map_of (concat (map d_Distribution (p # qs))) \<and>
    d_Name (foldl (mergePluginEntries L) p qs) = d_Name p"
  using assms(3,4)
proof (induction qs arbitrary: p)
  case (Cons q qs)
  have step: "plugin_ok (mergePluginEntries L p q)"
    "map_of (d_Distribution (mergePluginEntries L p q)) = map_of (d_Distribution p @ d_Distribution q)"
    using Cons.prems merge_ok [OF assms(1,2)] by auto
  with Cons.IH [OF step(1)] Cons.prems(2) show ?case by (simp add: merge_fields)
qed simp

lemma fold_merge_recommended:
  assumes "semver_laws L" "qs \<noteq> []"
    and r: "r = foldl (mergePluginEntries L) p qs"
    and parse: "\<forall>v \<in> set (d_SupportedVersions r). NewVersion L v \<noteq> None"
    and v: "v \<in> set (d_SupportedVersions r)"
  shows "d_RecommendedVersion r \<in> set (d_SupportedVersions r) \<and> \<not> IsNewVersion L v (d_RecommendedVersion r)"
proof -
  have "r = mergePluginEntries L (foldl (mergePluginEntries L) p (butlast qs)) (last qs)"
    unfolding r by (subst append_butlast_last_id [OF assms(2), symmetric]) simp
  then obtain y where y: "r = mergePluginEntries L y (last qs)" by blast
  obtain s where s: "d_SupportedVersions r = snd (SortVersions L s)"
    by (rule that [OF merge_fields(3) [of L y "last qs", folded y]])
  have set: "set (d_SupportedVersions r) = set s" using s assms(1) by simp
  obtain ws where ws: "SortVersions L s = (None, ws)"
    using SortVersions_total [OF parse [unfolded set]] by (elim exE)
  from SortVersions_last_max [OF assms(1) ws, of v] ws s set v
  have "last (d_SupportedVersions r) \<in> set (d_SupportedVersions r) \<and> \<not> IsNewVersion L v (last (d_SupportedVersions r))"
    by simp
  moreover have "d_RecommendedVersion r = last (d_SupportedVersions r)"
    using merge_fields(4) [of L y "last qs"] v unfolding y [symmetric] by auto
  ultimately show ?thesis by simp
qed

text \<open>C30 (functional): merging the plugins of several sources gives one plugin per name and target
  (the unknown target counting as kubernetes). The result for a key offers the artifacts of the first
  plugin of that key that has the version, supports exactly the versions it has artifacts for and,
  when several plugins were merged and all versions are semantic versions, recommends the highest.\<close>

theorem merge_plugins_union:
  assumes "range_law L" "semver_laws L" "\<forall>p \<in> set ps. plugin_ok p"
    and k: "k \<in> plugin_merge_key ` set ps" and same: "same = filter (\<lambda>p. plugin_merge_key p = k) ps"
  shows "length (mergeDuplicatePlugins L ps) = card (plugin_merge_key ` set ps) \<and>
    (\<exists>r \<in> set (mergeDuplicatePlugins L ps).
       d_Name r = d_Name (hd same) \<and> plugin_ok r \<and>
       map_of (d_Distribution r) = map_of (concat (map d_Distribution same)) \<and>
       (length same > 1 \<and> (\<forall>v \<in> set (d_SupportedVersions r). NewVersion L v \<noteq> None) \<longrightarrow>
          (\<forall>v \<in> set (d_SupportedVersions r).
             d_RecommendedVersion r \<in> set (d_SupportedVersions r) \<and> \<not> IsNewVersion L v (d_RecommendedVersion r))))"
proof -
  have out: "mergeDuplicatePlugins L ps =
      map (\<lambda>k. get_or zero_discovered (merge_plugins_loop L ps []) k) (range_keys L (merge_plugins_loop L ps []))"
    by (simp add: mergeDuplicatePlugins_def Let_def)
  obtain q qs where qs: "same = q # qs"
    using k unfolding same by (cases "filter (\<lambda>p. plugin_merge_key p = k) ps") (auto simp: filter_empty_conv)
  let ?r = "foldl (mergePluginEntries L) q qs"
  have ok: "plugin_ok q" "\<forall>p \<in> set qs. plugin_ok p"
  proof -
    have "\<forall>p \<in> set same. plugin_ok p" using assms(3) unfolding same by simp
    then show "plugin_ok q" "\<forall>p \<in> set qs. plugin_ok p" unfolding qs by simp_all
  qed
  have "?r \<in> set (mergeDuplicatePlugins L ps)"
    unfolding merge_plugins.merged_list(1) [OF assms(1) out]
    using k qs same by (auto simp: keyed_merge.folded_def [OF merge_plugins.keyed_merge_axioms] intro!: rev_image_eqI)
  then show ?thesis
    using merge_plugins.merged_list(2) [OF assms(1) out] fold_merge_ok [OF assms(1,2) ok] qs
      fold_merge_recommended [OF assms(2) _ refl, of qs q]
    by (intro conjI bexI [of _ ?r]) auto
qed

definition demo_discovered :: "string \<Rightarrow> string \<Rightarrow> string \<Rightarrow> string \<Rightarrow> discovered" where
  "demo_discovered name target version source =
     zero_discovered\<lparr>d_Name := name, d_Target := target, d_RecommendedVersion := version, d_Source := source,
       d_SupportedVersions := [version], d_Distribution := [(version, [zero_artifact\<lparr>a_Image := source\<rparr>])]\<rparr>"

theorem merge_plugins_union_witness:
  "length (mergeDuplicatePlugins dotted_lib
     [demo_discovered ''p'' '''' ''v1.9.0'' ''s1'', demo_discovered ''p'' TargetK8s ''v1.10.0'' ''s2'']) = 1 \<and>
   (\<exists>r \<in> set (mergeDuplicatePlugins dotted_lib
       [demo_discovered ''p'' '''' ''v1.9.0'' ''s1'', demo_discovered ''p'' TargetK8s ''v1.10.0'' ''s2'']).
      map_of (d_Distribution r) ''v1.9.0'' = Some [zero_artifact\<lparr>a_Image := ''s1''\<rparr>] \<and>
      map_of (d_Distribution r) ''v1.10.0'' = Some [zero_artifact\<lparr>a_Image := ''s2''\<rparr>])"
proof -
  let ?p = "demo_discovered ''p'' '''' ''v1.9.0'' ''s1''" and ?q = "demo_discovered ''p'' TargetK8s ''v1.10.0'' ''s2''"
  have keys: "plugin_merge_key ?p = ''p_kubernetes''" "plugin_merge_key ?q = ''p_kubernetes''"
    by (simp_all add: plugin_merge_key_def demo_discovered_def zero_discovered_def)
  have ok: "\<forall>p \<in> set [?p, ?q]. plugin_ok p"
    by (simp add: plugin_ok_def versions_ok_def keys_of_def demo_discovered_def zero_discovered_def)
  from merge_plugins_union [OF dotted_range_law dotted_semver_laws ok _ refl, of "''p_kubernetes''"] keys
  have "length (mergeDuplicatePlugins dotted_lib [?p, ?q]) = 1 \<and>
    (\<exists>r \<in> set (mergeDuplicatePlugins dotted_lib [?p, ?q]).
       map_of (d_Distribution r) = map_of (d_Distribution ?p @ d_Distribution ?q))"
    by auto
  moreover have "map_of (d_Distribution ?p @ d_Distribution ?q) ''v1.9.0'' = Some [zero_artifact\<lparr>a_Image := ''s1''\<rparr>]"
    "map_of (d_Distribution ?p @ d_Distribution ?q) ''v1.10.0'' = Some [zero_artifact\<lparr>a_Image := ''s2''\<rparr>]"
    by (simp_all add: demo_discovered_def)
  ultimately show ?thesis by metis
qed

section \<open>Groups\<close>

lemma add_group_lookup:
  "map_of (add_missing_group_versions v2 vs v1) v =
     (case map_of v1 v of Some x \<Rightarrow> Some x | None \<Rightarrow> if v \<in> set vs then Some (get_or [] v2 v) else None)"
  by (induction vs arbitrary: v1) (auto split: option.splits)

lemma group_merge_fields:
  "PluginGroupToID (mergeGroupEntries L g h) = PluginGroupToID g"
  "g_Versions (mergeGroupEntries L g h) =
     add_missing_group_versions (g_Versions h) (range_keys L (g_Versions h)) (g_Versions g)"
  "g_Versions (mergeGroupEntries L g h) \<noteq> [] \<Longrightarrow> g_RecommendedVersion (mergeGroupEntries L g h) =
     (if g_RecommendedVersion h = snd (SortVersions L [g_RecommendedVersion g, g_RecommendedVersion h]) ! 1
      then g_RecommendedVersion h else g_RecommendedVersion g)"
  by (simp_all add: mergeGroupEntries_def PluginGroupToID_def Let_def split: if_splits)

lemma group_merge_lookup:
  assumes "range_law L"
  shows "map_of (g_Versions (mergeGroupEntries L g h)) = map_of (g_Versions g @ g_Versions h)"
proof
  fix v
  show "map_of (g_Versions (mergeGroupEntries L g h)) v = map_of (g_Versions g @ g_Versions h) v"
    using assms map_of_eq_None_keys [of "g_Versions h" v]
    by (cases "map_of (g_Versions h) v"; cases "map_of (g_Versions g) v")
      (simp_all add: group_merge_fields add_group_lookup map_add_def get_or_def)
qed

text \<open>No recommended version is newer than the selected one.\<close>

definition recommends_latest :: "'v lib \<Rightarrow> plugin_group list \<Rightarrow> plugin_group \<Rightarrow> bool" where
  "recommends_latest L gs r \<longleftrightarrow>
     g_RecommendedVersion r \<in> g_RecommendedVersion ` set gs \<and>
     (\<forall>g \<in> set gs. \<not> IsNewVersion L (g_RecommendedVersion g) (g_RecommendedVersion r))"

definition group_ok :: "'v lib \<Rightarrow> plugin_group \<Rightarrow> bool" where
  "group_ok L g \<longleftrightarrow> g_Versions g \<noteq> [] \<and> NewVersion L (g_RecommendedVersion g) \<noteq> None"

lemma IsNewVersion_trans:
  assumes "semver_laws L" "\<not> IsNewVersion L a b" "\<not> IsNewVersion L b c" "NewVersion L b \<noteq> None"
  shows "\<not> IsNewVersion L a c"
  using assms semver_trans [OF assms(1)] by (fastforce simp: IsNewVersion_def not_less split: option.splits)

lemma IsNewVersion_irrefl: "semver_laws L \<Longrightarrow> \<not> IsNewVersion L a a"
  using semver_anti [of L] by (auto simp: IsNewVersion_def split: option.splits) (smt (verit))

lemma map_of_hd: "m \<noteq> [] \<Longrightarrow> map_of m (fst (hd m)) = Some (snd (hd m))"
  by (cases m) auto

lemma group_merge_recommended:
  assumes "semver_laws L" "group_ok L g" "group_ok L h"
  shows "g_RecommendedVersion (mergeGroupEntries L g h) \<in> {g_RecommendedVersion g, g_RecommendedVersion h} \<and>
    \<not> IsNewVersion L (g_RecommendedVersion g) (g_RecommendedVersion (mergeGroupEntries L g h)) \<and>
    \<not> IsNewVersion L (g_RecommendedVersion h) (g_RecommendedVersion (mergeGroupEntries L g h))"
proof -
  let ?a = "g_RecommendedVersion g" and ?b = "g_RecommendedVersion h"
  obtain ws where ws: "SortVersions L [?a, ?b] = (None, ws)"
    using SortVersions_total [of "[?a, ?b]" L] assms(2,3) by (auto simp: group_ok_def)
  have len: "length ws = 2" using SortVersions_length [OF assms(1), of "[?a, ?b]"] ws by simp
  then have last: "last ws = ws ! 1" by (cases ws) (auto simp: last_conv_nth length_Suc_conv numeral_2_eq_2)
  have max: "ws ! 1 \<in> {?a, ?b}" "\<not> IsNewVersion L ?a (ws ! 1)" "\<not> IsNewVersion L ?b (ws ! 1)"
    using SortVersions_last_max [OF assms(1) ws, of ?a] SortVersions_last_max [OF assms(1) ws, of ?b]
    by (auto simp: last)
  have nonempty: "g_Versions (mergeGroupEntries L g h) \<noteq> []"
  proof -
    have "map_of (g_Versions (mergeGroupEntries L g h)) (fst (hd (g_Versions g))) = Some (snd (hd (g_Versions g)))"
      using assms(2) by (simp add: group_merge_fields add_group_lookup group_ok_def map_of_hd)
    then show ?thesis by auto
  qed
  have "g_RecommendedVersion (mergeGroupEntries L g h) = (if ?b = ws ! 1 then ?b else ?a)"
    unfolding group_merge_fields(3) [OF nonempty] ws snd_conv ..
  with max show ?thesis by (cases "?b = ws ! 1") simp_all
qed

lemma group_merge_ok:
  assumes "semver_laws L" "range_law L" "group_ok L g" "group_ok L h"
  shows "group_ok L (mergeGroupEntries L g h)"
proof -
  have "map_of (g_Versions (mergeGroupEntries L g h)) (fst (hd (g_Versions g))) = Some (snd (hd (g_Versions g)))"
    using assms(3) by (simp add: group_merge_fields add_group_lookup group_ok_def map_of_hd)
  then show ?thesis
    using group_merge_recommended [OF assms(1,3,4)] assms(3,4) by (auto simp: group_ok_def)
qed

lemma fold_groups:
  assumes "semver_laws L" "range_law L" "group_ok L g" "\<forall>h \<in> set hs. group_ok L h"
  shows "group_ok L (foldl (mergeGroupEntries L) g hs) \<and>
    map_of (g_Versions (foldl (mergeGroupEntries L) g hs)) = map_of (concat (map g_Versions (g # hs))) \<and>
    PluginGroupToID (foldl (mergeGroupEntries L) g hs) = PluginGroupToID g \<and>
    recommends_latest L (g # hs) (foldl (mergeGroupEntries L) g hs)"
  using assms(3,4)
proof (induction hs arbitrary: g)
  case Nil
  then show ?case by (simp add: recommends_latest_def IsNewVersion_irrefl [OF assms(1)])
next
  case (Cons h hs)
  let ?m = "mergeGroupEntries L g h"
  have ok: "group_ok L ?m" "group_ok L g" "group_ok L h"
    using group_merge_ok [OF assms(1,2)] Cons.prems by auto
  have rec: "g_RecommendedVersion ?m \<in> {g_RecommendedVersion g, g_RecommendedVersion h}"
    "\<not> IsNewVersion L (g_RecommendedVersion g) (g_RecommendedVersion ?m)"
    "\<not> IsNewVersion L (g_RecommendedVersion h) (g_RecommendedVersion ?m)"
    using group_merge_recommended [OF assms(1) ok(2,3)] by auto
  have ih: "group_ok L (foldl (mergeGroupEntries L) ?m hs)"
    "map_of (g_Versions (foldl (mergeGroupEntries L) ?m hs)) = map_of (concat (map g_Versions (?m # hs)))"
    "PluginGroupToID (foldl (mergeGroupEntries L) ?m hs) = PluginGroupToID ?m"
    "recommends_latest L (?m # hs) (foldl (mergeGroupEntries L) ?m hs)"
    using Cons.IH [OF ok(1)] Cons.prems by auto
  have "recommends_latest L (g # h # hs) (foldl (mergeGroupEntries L) ?m hs)"
    using ih(4) rec ok(1) IsNewVersion_trans [OF assms(1) rec(2)] IsNewVersion_trans [OF assms(1) rec(3)]
    by (auto simp: recommends_latest_def group_ok_def)
  with ih group_merge_lookup [OF assms(2), of g h] show ?case
    by (simp add: group_merge_fields)
qed

text \<open>Merging the plugin groups of several sources gives one group per identifier. The
  result for an identifier holds, for every version, the plugins of the first group that has the
  version, and recommends the highest of the recommended versions of the merged groups.\<close>

theorem merge_groups_union:
  assumes "range_law L" "semver_laws L" "\<forall>g \<in> set gs. group_ok L g"
    and k: "k \<in> PluginGroupToID ` set gs" and same: "same = filter (\<lambda>g. PluginGroupToID g = k) gs"
  shows "length (mergeDuplicateGroups L gs) = card (PluginGroupToID ` set gs) \<and>
    (\<exists>r \<in> set (mergeDuplicateGroups L gs). PluginGroupToID r = k \<and>
       map_of (g_Versions r) = map_of (concat (map g_Versions same)) \<and> recommends_latest L same r)"
proof -
  have out: "mergeDuplicateGroups L gs =
      map (\<lambda>k. get_or zero_group (merge_groups_loop L gs []) k) (range_keys L (merge_groups_loop L gs []))"
    by (simp add: mergeDuplicateGroups_def Let_def)
  obtain q qs where qs: "same = q # qs"
    using k unfolding same by (cases "filter (\<lambda>p. PluginGroupToID p = k) gs") (auto simp: filter_empty_conv)
  let ?r = "foldl (mergeGroupEntries L) q qs"
  have "\<forall>g \<in> set same. group_ok L g \<and> PluginGroupToID g = k" using assms(3) unfolding same by simp
  then have ok: "group_ok L q" "\<forall>g \<in> set qs. group_ok L g" "PluginGroupToID q = k" unfolding qs by simp_all
  have "?r \<in> set (mergeDuplicateGroups L gs)"
    unfolding merge_groups.merged_list(1) [OF assms(1) out]
    using k qs same by (auto simp: keyed_merge.folded_def [OF merge_groups.keyed_merge_axioms] intro!: rev_image_eqI)
  then show ?thesis
    using merge_groups.merged_list(2) [OF assms(1) out] fold_groups [OF assms(2,1) ok(1,2)] qs ok(3)
    by (intro conjI bexI [of _ ?r]) auto
qed

definition demo_group :: "string \<Rightarrow> string \<Rightarrow> plugin_group" where
  "demo_group version plugin = zero_group\<lparr>g_Vendor := ''v'', g_Publisher := ''p'', g_Name := ''g'',
     g_RecommendedVersion := version,
     g_Versions := [(version, [\<lparr>id_Name = plugin, id_Target = TargetK8s, id_Version = ''v1.0.0'', gp_Mandatory = True\<rparr>])]\<rparr>"

theorem merge_groups_union_witness:
  "length (mergeDuplicateGroups dotted_lib [demo_group ''v1.10.0'' ''a'', demo_group ''v1.9.0'' ''b'']) = 1 \<and>
   (\<exists>r \<in> set (mergeDuplicateGroups dotted_lib [demo_group ''v1.10.0'' ''a'', demo_group ''v1.9.0'' ''b'']).
      PluginGroupToID r = ''v-p/g'' \<and>
      recommends_latest dotted_lib [demo_group ''v1.10.0'' ''a'', demo_group ''v1.9.0'' ''b''] r)"
proof -
  let ?gs = "[demo_group ''v1.10.0'' ''a'', demo_group ''v1.9.0'' ''b'']"
  have ids: "PluginGroupToID (demo_group v a) = ''v-p/g''" for v a
    by (simp add: PluginGroupToID_def group_id_of_def demo_group_def zero_group_def)
  have "NewVersion dotted_lib ''v1.10.0'' \<noteq> None" "NewVersion dotted_lib ''v1.9.0'' \<noteq> None"
    by code_simp+
  then have ok: "\<forall>g \<in> set ?gs. group_ok dotted_lib g"
    by (simp add: group_ok_def demo_group_def)
  from merge_groups_union [OF dotted_range_law dotted_semver_laws ok _ refl, of "''v-p/g''"]
  show ?thesis by (auto simp: ids)
qed

section \<open>Old duplicates\<close>

definition parsed_version :: "'v lib \<Rightarrow> discovered \<Rightarrow> 'v option" where
  "parsed_version L p = NewVersion L (d_RecommendedVersion p)"

lemma latest_versions_bound:
  assumes laws: "semver_laws L"
  shows "map_of m k = Some u \<Longrightarrow>
      \<exists>v. map_of (latest_versions_loop L ps m) k = Some v \<and> CompareV L u v \<le> 0"
    and "p \<in> set ps \<Longrightarrow> plugin_version_key p = k \<Longrightarrow> parsed_version L p = Some u \<Longrightarrow>
      \<exists>v. map_of (latest_versions_loop L ps m) k = Some v \<and> CompareV L u v \<le> 0"
proof -
  have refl: "CompareV L a a \<le> 0" for a using semver_anti [OF laws, of a a] by simp
  have flip: "CompareV L a b > 0 \<Longrightarrow> CompareV L b a \<le> 0" for a b using semver_anti [OF laws, of a b] by simp
  have "(\<forall>u. map_of m k = Some u \<longrightarrow> (\<exists>v. map_of (latest_versions_loop L ps m) k = Some v \<and> CompareV L u v \<le> 0)) \<and>
    (\<forall>p u. p \<in> set ps \<and> plugin_version_key p = k \<and> parsed_version L p = Some u \<longrightarrow>
       (\<exists>v. map_of (latest_versions_loop L ps m) k = Some v \<and> CompareV L u v \<le> 0))"
  proof (induction ps arbitrary: m)
    case Nil
    then show ?case using refl by simp
  next
    case (Cons q ps)
    show ?case
    proof (cases "parsed_version L q")
      case None
      with Cons.IH [of m] show ?thesis by (auto simp: parsed_version_def)
    next
      case (Some w)
      define m' where "m' = (case map_of m (plugin_version_key q) of
          None \<Rightarrow> AList.update (plugin_version_key q) w m
        | Some l \<Rightarrow> if CompareV L w l > 0 then AList.update (plugin_version_key q) w m else m)"
      have loop: "latest_versions_loop L (q # ps) m = latest_versions_loop L ps m'"
        using Some by (simp add: parsed_version_def m'_def)
      have old: "map_of m k = Some u \<Longrightarrow> \<exists>v. map_of m' k = Some v \<and> CompareV L u v \<le> 0" for u
        using refl flip by (auto simp: m'_def split: option.splits)
      have new: "plugin_version_key q = k \<Longrightarrow> \<exists>v. map_of m' k = Some v \<and> CompareV L w v \<le> 0"
        using refl by (auto simp: m'_def split: option.splits)
      have lift: "\<exists>v. map_of m' k = Some v \<and> CompareV L u v \<le> 0 \<Longrightarrow>
          \<exists>v. map_of (latest_versions_loop L ps m') k = Some v \<and> CompareV L u v \<le> 0" for u
        using Cons.IH [of m'] semver_trans [OF laws] by meson
      show ?thesis
        unfolding loop using lift old new Cons.IH [of m'] Some by auto
    qed
  qed
  then show "map_of m k = Some u \<Longrightarrow>
      \<exists>v. map_of (latest_versions_loop L ps m) k = Some v \<and> CompareV L u v \<le> 0"
    and "p \<in> set ps \<Longrightarrow> plugin_version_key p = k \<Longrightarrow> parsed_version L p = Some u \<Longrightarrow>
      \<exists>v. map_of (latest_versions_loop L ps m) k = Some v \<and> CompareV L u v \<le> 0" by blast+
qed

lemma latest_versions_attained:
  "map_of (latest_versions_loop L ps m) k = Some v \<Longrightarrow>
     map_of m k = Some v \<or> (\<exists>p \<in> set ps. plugin_version_key p = k \<and> parsed_version L p = Some v)"
proof (induction ps arbitrary: m)
  case (Cons q ps)
  show ?case
  proof (cases "parsed_version L q")
    case None
    with Cons show ?thesis by (auto simp: parsed_version_def)
  next
    case (Some w)
    then have loop: "latest_versions_loop L (q # ps) m = latest_versions_loop L ps
        (case map_of m (plugin_version_key q) of None \<Rightarrow> AList.update (plugin_version_key q) w m
         | Some l \<Rightarrow> if CompareV L w l > 0 then AList.update (plugin_version_key q) w m else m)"
      by (simp add: parsed_version_def)
    from Cons.IH [OF Cons.prems [unfolded loop]] Some show ?thesis
      by (auto split: option.splits if_splits)
  qed
qed simp

lemma keep_latest_filter:
  "filter (\<lambda>p. plugin_version_key p = k) (keep_latest_loop L ps latest res) =
     filter (\<lambda>p. plugin_version_key p = k) res @
     (case map_of latest k of None \<Rightarrow> []
      | Some l \<Rightarrow> take 1 (filter (\<lambda>p. plugin_version_key p = k \<and>
            (\<exists>v. parsed_version L p = Some v \<and> CompareV L v l = 0)) ps))"
  by (induction ps arbitrary: latest res)
    (auto simp: parsed_version_def split: option.splits)

lemma keep_latest_sub: "set (keep_latest_loop L ps latest res) \<subseteq> set res \<union> set ps"
proof (induction ps arbitrary: latest res)
  case (Cons a ps)
  have "set (keep_latest_loop L ps m (res @ [a])) \<subseteq> set res \<union> set (a # ps)"
    "set (keep_latest_loop L ps m res) \<subseteq> set res \<union> set (a # ps)" for m
    using Cons.IH [of m "res @ [a]"] Cons.IH [of m res] by auto
  then show ?case by (simp split: option.splits)
qed simp

text \<open>A plugin with a semantic version that no plugin of the same name and target exceeds.\<close>

definition is_latest :: "'v lib \<Rightarrow> discovered list \<Rightarrow> discovered \<Rightarrow> bool" where
  "is_latest L ps p \<longleftrightarrow>
     NewVersion L (d_RecommendedVersion p) \<noteq> None \<and>
     (\<forall>q \<in> set ps. plugin_version_key q = plugin_version_key p \<longrightarrow>
        \<not> IsNewVersion L (d_RecommendedVersion q) (d_RecommendedVersion p))"

lemma latest_iff:
  assumes laws: "semver_laws L" and p: "p \<in> set ps" "plugin_version_key p = k"
    and l: "map_of (latest_versions_loop L ps []) k = Some l"
  shows "(\<exists>v. parsed_version L p = Some v \<and> CompareV L v l = 0) \<longleftrightarrow> is_latest L ps p"
proof -
  obtain q where q: "q \<in> set ps" "plugin_version_key q = k" "parsed_version L q = Some l"
    using latest_versions_attained [OF l] by auto
  have bound: "CompareV L u l \<le> 0" if "r \<in> set ps" "plugin_version_key r = k" "parsed_version L r = Some u" for r u
    using latest_versions_bound(2) [OF laws that, of "[]"] l by simp
  show ?thesis
  proof (cases "parsed_version L p")
    case None
    then show ?thesis by (simp add: is_latest_def parsed_version_def)
  next
    case (Some v)
    have le: "CompareV L v l \<le> 0" by (rule bound [OF p Some])
    have "is_latest L ps p" if "CompareV L v l = 0"
    proof -
      have "CompareV L l v \<le> 0" using that semver_anti [OF laws, of v l] by simp
      then have "CompareV L u v \<le> 0" if "r \<in> set ps" "plugin_version_key r = k" "parsed_version L r = Some u" for r u
        using bound [OF that] semver_trans [OF laws] by blast
      then show ?thesis
        using p Some by (fastforce simp: is_latest_def parsed_version_def IsNewVersion_def split: option.splits)
    qed
    moreover have "CompareV L v l = 0" if "is_latest L ps p"
    proof -
      have "\<not> IsNewVersion L (d_RecommendedVersion q) (d_RecommendedVersion p)"
        using that q p by (simp add: is_latest_def)
      then have "CompareV L l v \<le> 0"
        using q(3) Some by (simp add: IsNewVersion_def parsed_version_def)
      with le semver_anti [OF laws, of v l] show ?thesis by simp
    qed
    ultimately show ?thesis using Some by auto
  qed
qed

text \<open>Removing old duplicates keeps, for every name and target, exactly the first
  plugin among those with the highest recommended version, and no plugin whose recommended version is
  not a semantic version.\<close>

theorem remove_old_keeps_first_latest:
  assumes "semver_laws L"
  shows "set (removeOldPluginsWhenDuplicates L ps) \<subseteq> set ps \<and>
    filter (\<lambda>p. plugin_version_key p = k) (removeOldPluginsWhenDuplicates L ps) =
      take 1 (filter (\<lambda>p. plugin_version_key p = k \<and> is_latest L ps p) ps)"
proof (cases "map_of (latest_versions_loop L ps []) k")
  case None
  have "filter (\<lambda>p. plugin_version_key p = k \<and> is_latest L ps p) ps = []"
    using latest_versions_bound(2) [OF assms, of _ ps k _ "[]"] None
    by (fastforce simp: filter_empty_conv is_latest_def parsed_version_def)
  then show ?thesis
    using keep_latest_sub [of L ps _ "[]"] None
    by (auto simp: removeOldPluginsWhenDuplicates_def keep_latest_filter)
next
  case (Some l)
  have "filter (\<lambda>p. plugin_version_key p = k \<and> (\<exists>v. parsed_version L p = Some v \<and> CompareV L v l = 0)) ps =
      filter (\<lambda>p. plugin_version_key p = k \<and> is_latest L ps p) ps"
    using latest_iff [OF assms _ _ Some] by (intro filter_cong) auto
  then show ?thesis
    using keep_latest_sub [of L ps _ "[]"] Some
    by (auto simp: removeOldPluginsWhenDuplicates_def keep_latest_filter)
qed

theorem remove_old_keeps_first_latest_witness:
  "filter (\<lambda>p. plugin_version_key p = ''p-'') (removeOldPluginsWhenDuplicates dotted_lib
     [demo_discovered ''p'' '''' ''v1.9.0'' ''s1'', demo_discovered ''p'' '''' ''v1.10.0'' ''s2'',
      demo_discovered ''p'' '''' ''v1.10.0'' ''s3'']) = [demo_discovered ''p'' '''' ''v1.10.0'' ''s2'']"
proof -
  let ?ps = "[demo_discovered ''p'' '''' ''v1.9.0'' ''s1'', demo_discovered ''p'' '''' ''v1.10.0'' ''s2'',
      demo_discovered ''p'' '''' ''v1.10.0'' ''s3'']"
  have v: "IsNewVersion dotted_lib ''v1.10.0'' ''v1.9.0''" "\<not> IsNewVersion dotted_lib ''v1.9.0'' ''v1.10.0''"
    "\<not> IsNewVersion dotted_lib ''v1.10.0'' ''v1.10.0''" "NewVersion dotted_lib ''v1.10.0'' \<noteq> None" by code_simp+
  have d: "d_RecommendedVersion (demo_discovered n t w s) = w" "plugin_version_key (demo_discovered n t w s) = n @ ''-'' @ t"
    for n t w s by (simp_all add: demo_discovered_def zero_discovered_def plugin_version_key_def)
  have "is_latest dotted_lib ?ps (demo_discovered ''p'' '''' ''v1.10.0'' ''s2'')"
    "\<not> is_latest dotted_lib ?ps (demo_discovered ''p'' '''' ''v1.9.0'' ''s1'')"
    using v by (auto simp: is_latest_def d)
  then show ?thesis
    using remove_old_keeps_first_latest [OF dotted_semver_laws, of ?ps "''p-''"] by (simp add: d)
qed

end
