(* ===== verification/Manager_Discover.thy ===== *)
theory Manager_Discover
  imports Manager_Merge_Correct Plugin_Supplier "HOL-Library.Monad_Syntax"
begin

text \<open>
  The discovery side of the plugin manager: \<^verbatim>\<open>pkg/pluginmanager/manager.go\<close> (collecting plugins
  and groups from the configured sources and from the active contexts),
  \<^verbatim>\<open>default_discoveries.go\<close> and \<^verbatim>\<open>manager_options.go\<close>.

  \<open>mgr_env\<close> collects what the manager calls outside the modelled code: the configuration library,
  process execution, the terminal and failures of file operations. Results are in the option
  monad; \<open>None\<close> is the nil dereference that reading a database or migrating the catalog can end in.
  Log output and the progress spinner are not modelled, except for the quiet mode.
\<close>

section \<open>Environment\<close>

text \<open>The fields of \<^verbatim>\<open>configtypes.Context\<close> the sources read.\<close>

record cli_context =
  ctx_Name :: string
  ctx_ContextType :: string
  ctx_DiscoverySources :: "plugin_discovery list"
  ctx_ClusterOpts :: "(string \<times> string) option"
  ctx_GlobalOpts :: "string option"

record 'b mgr_env =
  me_yaml :: "'b cat_yaml"
  me_disc :: disc_env
  me_build :: build_defaults
  me_hostname :: "string \<Rightarrow> string option"
  me_PluginRoot :: string
  me_MkdirAll :: "string \<Rightarrow> err option"
  me_WriteFile :: "string \<Rightarrow> err option"
  me_Exec :: "(string \<times> string) list \<Rightarrow> string \<Rightarrow> string \<Rightarrow> string \<times> err option"
  me_UnmarshalInfo :: "string \<Rightarrow> plugin_info res"
  me_ActiveContextsList :: "string list res"
  me_ActiveContextsMap :: "(string \<times> cli_context) list res"
  me_ActiveContext :: "string \<Rightarrow> cli_context option res"
  me_FeatureActivated :: "string \<Rightarrow> bool"
  me_GetKubeconfigForContext :: "string \<Rightarrow> string \<Rightarrow> string res"
  me_AskForConfirmation :: "string \<Rightarrow> err option"
  me_UnmarshalManifest :: "string \<Rightarrow> manifest_plugin list res"
  me_UnmarshalPluginYaml :: "string \<Rightarrow> plugin_info res"
  me_Stat :: "string \<Rightarrow> err option"
  me_Abs :: "string \<Rightarrow> string res"
  me_RemoveAll :: "string \<Rightarrow> err option"
  me_CacheDir :: string

abbreviation me_environ :: "'b mgr_env \<Rightarrow> environ" where
  "me_environ E \<equiv> oe_env (dv_oci (me_disc E))"

text \<open>\<open>common.DefaultLocalPluginDistroDir\<close> is a global variable of the program.\<close>

definition at_distro :: "string \<Rightarrow> disc_env \<Rightarrow> disc_env" where
  "at_distro dir V = V\<lparr>dv_files := (dv_files V)\<lparr>LocalPluginDistroDir := dir\<rparr>\<rparr>"

section \<open>Log mode\<close>

record mgr_opts =
  showLogs :: bool

definition NewPluginManagerOpts :: "(mgr_opts \<Rightarrow> mgr_opts) list \<Rightarrow> mgr_opts" where
  "NewPluginManagerOpts opts = fold (\<lambda>opt. opt) opts \<lparr>showLogs = True\<rparr>"

definition DisableLogs :: "mgr_opts \<Rightarrow> mgr_opts" where
  "DisableLogs p = p\<lparr>showLogs := False\<rparr>"

definition EnableLogs :: "mgr_opts \<Rightarrow> mgr_opts" where
  "EnableLogs p = p\<lparr>showLogs := True\<rparr>"

text \<open>The second component of the results is the argument of \<^verbatim>\<open>log.QuietMode\<close>.\<close>

definition SetLogMode :: "environ \<Rightarrow> mgr_opts \<Rightarrow> mgr_opts \<times> bool" where
  "SetLogMode env p =
     (case parse_bool (getenv env ''TANZU_CLI_SHOW_PLUGIN_INSTALLATION_LOGS'') of
        None \<Rightarrow> (p, \<not> showLogs p)
      | Some True \<Rightarrow> (p\<lparr>showLogs := True\<rparr>, False)
      | Some False \<Rightarrow> (p\<lparr>showLogs := False\<rparr>, True))"

definition ResetLogMode :: "mgr_opts \<Rightarrow> mgr_opts \<times> bool" where
  "ResetLogMode p = (p\<lparr>showLogs := True\<rparr>, False)"

section \<open>Discovery sources\<close>

definition appendURLScheme :: "environ \<Rightarrow> string \<Rightarrow> string" where
  "appendURLScheme env endpoint =
     (if getenv env ''TANZU_CLI_E2E_TEST_ENVIRONMENT'' = ''true'' then endpoint
      else let urlSec = split_on CHR '':'' endpoint
           in if length urlSec = 1 then ''https://'' @ hd urlSec
              else if hd urlSec = ''https'' \<or> hd urlSec = ''http'' then endpoint
              else ''https://'' @ endpoint)"

definition defaultDiscoverySourceForK8sTargetedContext :: "string \<Rightarrow> string \<Rightarrow> string \<Rightarrow> plugin_discovery" where
  "defaultDiscoverySourceForK8sTargetedContext name kubeconfig context =
     empty_discovery\<lparr>pd_Kubernetes := Some \<lparr>k8s_Name = ''default-'' @ name, k8s_Path = kubeconfig,
        k8s_Context = context, k8s_KubeConfigBytes = ''''\<rparr>\<rparr>"

definition defaultDiscoverySourceForTMCTargetedContext ::
    "environ \<Rightarrow> string \<Rightarrow> string \<Rightarrow> plugin_discovery" where
  "defaultDiscoverySourceForTMCTargetedContext env name endpoint =
     empty_discovery\<lparr>pd_REST := Some \<lparr>rest_Name = ''default-'' @ name,
        rest_Endpoint = appendURLScheme env endpoint, rest_BasePath = ''v1alpha1/system/binaries/plugins''\<rparr>\<rparr>"

definition defaultDiscoverySourceForTanzuTargetedContext ::
    "'b mgr_env \<Rightarrow> string \<Rightarrow> plugin_discovery res" where
  "defaultDiscoverySourceForTanzuTargetedContext E context =
     (let p = trim_space (getenv (me_environ E) ''TANZU_CLI_PLUGIN_DISCOVERY_PATH_FOR_TANZU_CONTEXT'');
          path = (if p = '''' then ''/discovery'' else p)
      in case me_GetKubeconfigForContext E context path of
           Inl e \<Rightarrow> Inl e
         | Inr bytes \<Rightarrow> Inr (empty_discovery\<lparr>pd_Kubernetes := Some \<lparr>k8s_Name = ''default-'' @ context,
                          k8s_Path = '''', k8s_Context = '''', k8s_KubeConfigBytes = bytes\<rparr>\<rparr>))"

definition defaultDiscoverySourceBasedOnContext :: "'b mgr_env \<Rightarrow> cli_context \<Rightarrow> plugin_discovery list" where
  "defaultDiscoverySourceBasedOnContext E context =
     (if ctx_ContextType context = ContextTypeK8s \<and> ctx_ClusterOpts context \<noteq> None
      then (case the (ctx_ClusterOpts context) of (path, kctx) \<Rightarrow>
              [defaultDiscoverySourceForK8sTargetedContext (ctx_Name context) path kctx])
      else if ctx_ContextType context = ContextTypeTMC \<and> ctx_GlobalOpts context \<noteq> None
      then [defaultDiscoverySourceForTMCTargetedContext (me_environ E) (ctx_Name context) (the (ctx_GlobalOpts context))]
      else if ctx_ContextType context = ContextTypeTanzu \<and>
              me_FeatureActivated E ''features.global.plugin-discovery-for-tanzu-context''
      then (case defaultDiscoverySourceForTanzuTargetedContext E (ctx_Name context) of
              Inl e \<Rightarrow> [] | Inr d \<Rightarrow> [d])
      else [])"

text \<open>\<^verbatim>\<open>fmt.Sprintf("%d", n)\<close>\<close>

function dec_text :: "nat \<Rightarrow> string" where
  "dec_text n = (if n < 10 then [char_of (48 + n)] else dec_text (n div 10) @ [char_of (48 + n mod 10)])"
  by pat_completeness auto
termination
  by (relation "measure (\<lambda>n. n)") auto

declare dec_text.simps [simp del]

definition test_discovery :: "nat \<times> string \<Rightarrow> plugin_discovery" where
  "test_discovery ix = (case ix of (idx, img) \<Rightarrow>
     empty_discovery\<lparr>pd_OCI := Some \<lparr>oci_Name = ''disc_'' @ dec_text idx, oci_Image = img\<rparr>\<rparr>)"

definition GetAdditionalTestPluginDiscoveries :: "'b mgr_env \<Rightarrow> plugin_discovery list" where
  "GetAdditionalTestPluginDiscoveries E =
     (let images = GetAdditionalTestDiscoveryImages (me_environ E)
      in map test_discovery (zip [0..<length images] images))"

definition getPluginDiscoveries :: "'b mgr_env \<Rightarrow> plugin_discovery list" where
  "getPluginDiscoveries E =
     (case dv_CLIDiscoverySources (me_disc E) of Inl _ \<Rightarrow> [] | Inr ds \<Rightarrow> ds) @
     GetAdditionalTestPluginDiscoveries E"

definition errorNoDiscoverySourcesFound :: err where
  "errorNoDiscoverySourcesFound =
     Errorf ''there are no plugin discovery sources available. Please run tanzu plugin source init'' []"

section \<open>Collecting plugins\<close>

fun discover_plugins_loop ::
    "'v lib \<Rightarrow> disc_env \<Rightarrow> discovery_option list \<Rightarrow> plugin_discovery list \<Rightarrow> caches \<Rightarrow>
     discovered list \<Rightarrow> err list \<Rightarrow> (caches \<times> discovered list \<times> err list) option" where
  "discover_plugins_loop L V options [] cs allPlugins errorList = Some (cs, allPlugins, errorList)"
| "discover_plugins_loop L V options (d # pd) cs allPlugins errorList =
     (case CreateDiscoveryFromV1alpha1 V d options of
        Inl e \<Rightarrow> discover_plugins_loop L V options pd cs allPlugins
                  (errorList @ [Wrapf e ''unable to create discovery'' []])
      | Inr discObject \<Rightarrow>
          (case discovery_List L V discObject cs of
             (cs1, None) \<Rightarrow> None
           | (cs1, Some (Inl e)) \<Rightarrow> discover_plugins_loop L V options pd cs1 allPlugins
                (errorList @ [Wrapf e ''unable to list plugins from discovery source %v'' [discovery_Name discObject]])
           | (cs1, Some (Inr plugins)) \<Rightarrow>
                discover_plugins_loop L V options pd cs1 (allPlugins @ plugins) errorList))"

definition discoverSpecificPlugins ::
    "'v lib \<Rightarrow> disc_env \<Rightarrow> plugin_discovery list \<Rightarrow> discovery_option list \<Rightarrow> caches \<Rightarrow>
     (caches \<times> discovered list \<times> err option) option" where
  "discoverSpecificPlugins L V pd options cs = do {
     (cs1, allPlugins, errorList) \<leftarrow> discover_plugins_loop L V options pd cs [] [];
     Some (cs1, allPlugins, NewAggregate L errorList)
   }"

fun discover_groups_loop ::
    "'v lib \<Rightarrow> disc_env \<Rightarrow> discovery_option list \<Rightarrow> plugin_discovery list \<Rightarrow> caches \<Rightarrow>
     plugin_group list \<Rightarrow> (caches \<times> plugin_group list res) option" where
  "discover_groups_loop L V options [] cs allGroups = Some (cs, Inr allGroups)"
| "discover_groups_loop L V options (d # pd) cs allGroups =
     (case CreateGroupDiscovery V d options of
        Inl e \<Rightarrow> Some (cs, Inl (Wrapf e ''unable to create group discovery'' []))
      | Inr groupDisc \<Rightarrow>
          (case OCI_GetGroups L V groupDisc cs of
             (cs1, None) \<Rightarrow> None
           | (cs1, Some (Inl e)) \<Rightarrow> discover_groups_loop L V options pd cs1 allGroups
           | (cs1, Some (Inr groups)) \<Rightarrow> discover_groups_loop L V options pd cs1 (allGroups @ groups)))"

definition discoverSpecificPluginGroups ::
    "'v lib \<Rightarrow> disc_env \<Rightarrow> plugin_discovery list \<Rightarrow> discovery_option list \<Rightarrow> caches \<Rightarrow>
     (caches \<times> plugin_group list res) option" where
  "discoverSpecificPluginGroups L V pd options cs = do {
     (cs1, r) \<leftarrow> discover_groups_loop L V options pd cs [];
     Some (cs1, case r of Inl e \<Rightarrow> Inl e | Inr allGroups \<Rightarrow> Inr (mergeDuplicateGroups L allGroups))
   }"

definition DiscoverStandalonePlugins ::
    "'v lib \<Rightarrow> 'b mgr_env \<Rightarrow> discovery_option list \<Rightarrow> caches \<Rightarrow> (caches \<times> discovered list \<times> err option) option" where
  "DiscoverStandalonePlugins L E options cs =
     (let discoveries = getPluginDiscoveries E
      in if length discoveries = 0 then Some (cs, [], Some errorNoDiscoverySourcesFound)
         else do {
           (cs1, plugins, e) \<leftarrow> discoverSpecificPlugins L (me_disc E) discoveries options cs;
           Some (cs1, mergeDuplicatePlugins L
             (map (\<lambda>p. p\<lparr>d_Scope := PluginScopeStandalone, d_Status := PluginStatusNotInstalled\<rparr>) plugins), e)
         })"

definition DiscoverPluginGroups ::
    "'v lib \<Rightarrow> 'b mgr_env \<Rightarrow> discovery_option list \<Rightarrow> caches \<Rightarrow> (caches \<times> plugin_group list res) option" where
  "DiscoverPluginGroups L E options cs =
     (let discoveries = getPluginDiscoveries E
      in if length discoveries = 0 then Some (cs, Inl errorNoDiscoverySourcesFound)
         else discoverSpecificPluginGroups L (me_disc E) discoveries options cs)"

definition getMatchingRecommendedVersionOfPlugin ::
    "'v lib \<Rightarrow> 'b mgr_env \<Rightarrow> string \<Rightarrow> string \<Rightarrow> string \<Rightarrow> caches \<Rightarrow> (caches \<times> string) option" where
  "getMatchingRecommendedVersionOfPlugin L E pluginName pluginTarget version cs = do {
     (cs1, matchedPlugins, e) \<leftarrow> DiscoverStandalonePlugins L E
        [WithPluginDiscoveryCriteria \<lparr>pc_Name = pluginName, pc_Target = pluginTarget, pc_Version = version,
            pc_OS = '''', pc_Arch = ''''\<rparr>, WithUseLocalCacheOnly] cs;
     Some (cs1, if e \<noteq> None then ''''
                else case matchedPlugins of [p] \<Rightarrow> d_RecommendedVersion p | _ \<Rightarrow> '''')
   }"

text \<open>The loop over the plugins of one context.\<close>

definition context_plugin :: "cli_context \<Rightarrow> discovered \<Rightarrow> discovered" where
  "context_plugin context p =
     p\<lparr>d_Scope := PluginScopeContext, d_Status := PluginStatusNotInstalled, d_ContextName := ctx_Name context,
       d_Target := (if d_Target p = TargetUnknown
                    then (if ctx_ContextType context = ContextTypeTMC then TargetTMC else TargetK8s)
                    else d_Target p)\<rparr>"

fun context_plugins_loop ::
    "'v lib \<Rightarrow> 'b mgr_env \<Rightarrow> cli_context \<Rightarrow> discovered list \<Rightarrow> caches \<Rightarrow> (caches \<times> discovered list) option" where
  "context_plugins_loop L E context [] cs = Some (cs, [])"
| "context_plugins_loop L E context (p # ps) cs =
     (let q = context_plugin context p in do {
        (cs1, matched) \<leftarrow> getMatchingRecommendedVersionOfPlugin L E (d_Name q) (d_Target q) (d_RecommendedVersion q) cs;
        (cs2, qs) \<leftarrow> context_plugins_loop L E context ps cs1;
        Some (cs2, (if matched \<noteq> '''' then q\<lparr>d_RecommendedVersion := matched\<rparr> else q) # qs)
      })"

fun contexts_loop ::
    "'v lib \<Rightarrow> 'b mgr_env \<Rightarrow> cli_context list \<Rightarrow> caches \<Rightarrow> discovered list \<Rightarrow> err list \<Rightarrow>
     (caches \<times> discovered list \<times> err list) option" where
  "contexts_loop L E [] cs plugins errList = Some (cs, plugins, errList)"
| "contexts_loop L E (context # contexts) cs plugins errList = do {
     (cs1, found, e) \<leftarrow> discoverSpecificPlugins L (me_disc E)
        (ctx_DiscoverySources context @ defaultDiscoverySourceBasedOnContext E context) [] cs;
     (cs2, qs) \<leftarrow> context_plugins_loop L E context found cs1;
     contexts_loop L E contexts cs2 (plugins @ removeOldPluginsWhenDuplicates L qs)
       (case e of None \<Rightarrow> errList | Some e \<Rightarrow> errList @ [e])
   }"

definition discoverServerPluginsForGivenContexts ::
    "'v lib \<Rightarrow> 'b mgr_env \<Rightarrow> cli_context list \<Rightarrow> caches \<Rightarrow> (caches \<times> discovered list \<times> err option) option" where
  "discoverServerPluginsForGivenContexts L E contexts cs =
     (if length contexts = 0 then Some (cs, [], None)
      else do {
        (cs1, plugins, errList) \<leftarrow> contexts_loop L E contexts cs [] [];
        Some (cs1, plugins, NewAggregate L errList)
      })"

definition DiscoverServerPlugins ::
    "'v lib \<Rightarrow> 'b mgr_env \<Rightarrow> caches \<Rightarrow> (caches \<times> discovered list \<times> err option) option" where
  "DiscoverServerPlugins L E cs =
     (case me_ActiveContextsMap E of
        Inl e \<Rightarrow> Some (cs, [], Some e)
      | Inr m \<Rightarrow> discoverServerPluginsForGivenContexts L E
                  (List.map_filter (map_of m) (range_keys L m)) cs)"

definition DiscoverPluginsForContextType ::
    "'v lib \<Rightarrow> 'b mgr_env \<Rightarrow> string \<Rightarrow> caches \<Rightarrow> (caches \<times> discovered list \<times> err option) option" where
  "DiscoverPluginsForContextType L E contextType cs =
     (case me_ActiveContext E contextType of
        Inl e \<Rightarrow> Some (cs, [], Some e)
      | Inr None \<Rightarrow> Some (cs, [], Some (Errorf ''there is no active context for the given context type %v'' [contextType]))
      | Inr (Some ctx) \<Rightarrow> discoverServerPluginsForGivenContexts L E [ctx] cs)"

section \<open>Installation status\<close>

definition status_step :: "plugin_info \<Rightarrow> discovered \<Rightarrow> discovered" where
  "status_step installed available =
     (if pi_Name installed = d_Name available \<and> pi_Target installed = d_Target available
      then available\<lparr>d_Status := (if pi_DiscoveredRecommendedVersion installed = d_RecommendedVersion available
                                  then PluginStatusInstalled else PluginStatusUpdateAvailable),
                    d_InstalledVersion := pi_Version installed\<rparr>
      else available)"

definition setAvailablePluginsStatus :: "discovered list \<Rightarrow> plugin_info list \<Rightarrow> discovered list" where
  "setAvailablePluginsStatus availablePlugins installedPlugins =
     fold (\<lambda>i. map (status_step i)) installedPlugins availablePlugins"

definition UpdatePluginsInstallationStatus ::
    "'v lib \<Rightarrow> 'b mgr_env \<Rightarrow> discovered list \<Rightarrow> 'b cat_fs \<Rightarrow> ('b cat_fs \<times> discovered list) option" where
  "UpdatePluginsInstallationStatus L E plugins w = do {
     (w1, r) \<leftarrow> GetInstalledPlugins L (me_yaml E) (me_ActiveContextsList E) w;
     Some (w1, case r of Inl _ \<Rightarrow> plugins | Inr installed \<Rightarrow> setAvailablePluginsStatus plugins installed)
   }"

end
