(* ===== verification/Manager_Install.thy ===== *)
theory Manager_Install
  imports Manager_Discover
begin

text \<open>
  Installing plugins, \<^verbatim>\<open>pkg/pluginmanager/manager.go\<close> and \<^verbatim>\<open>essentials.go\<close>: from a discovery, from
  a plugin group and from a local directory, with the verification before and after the download,
  the binary cache and the entry into the catalog.

  The state \<open>mgr_state\<close> holds the platform (a global variable of \<^verbatim>\<open>pkg/cli\<close> that the ARM
  fallback changes), the catalog, the caches of the discoveries, the files under the plugin root, the
  local distribution directory, the quiet mode of the log, and the trace of the effects outside: downloads, binaries written,
  programs executed, feature flags configured, command trees deleted.
\<close>

section \<open>State\<close>

datatype event =
    EvFetch string
  | EvWrite string string
  | EvExec string string
  | EvFeatureFlags "(string \<times> bool) list"
  | EvTreeDelete plugin_info
  | EvConfirm string

record 'b mgr_state =
  mg_platform :: platform
  mg_cat :: "'b cat_fs"
  mg_caches :: caches
  mg_files :: "(string \<times> string) list"
  mg_distro :: string
  mg_quiet :: bool
  mg_trace :: "event list"

definition log_event :: "event \<Rightarrow> 'b mgr_state \<Rightarrow> 'b mgr_state" where
  "log_event ev s = s\<lparr>mg_trace := mg_trace s @ [ev]\<rparr>"

text \<open>A function body between \<open>SetLogMode\<close> and the deferred \<open>ResetLogMode\<close>.\<close>

definition with_log_mode ::
    "environ \<Rightarrow> (mgr_opts \<Rightarrow> mgr_opts) list \<Rightarrow> ('b mgr_state \<Rightarrow> ('b mgr_state \<times> 'r) option) \<Rightarrow>
     'b mgr_state \<Rightarrow> ('b mgr_state \<times> 'r) option" where
  "with_log_mode env options body s =
     (case SetLogMode env (NewPluginManagerOpts options) of (opts, quiet) \<Rightarrow> do {
        (s1, r) \<leftarrow> body (s\<lparr>mg_quiet := quiet\<rparr>);
        Some (s1\<lparr>mg_quiet := snd (ResetLogMode opts)\<rparr>, r)
      })"

section \<open>Verification of downloads\<close>

text \<open>The images of the OCI discoveries of the configuration, for \<open>GetTrustedRegistries\<close>.\<close>

definition source_images :: "'b mgr_env \<Rightarrow> string option list res" where
  "source_images E =
     (case dv_CLIDiscoverySources (me_disc E) of
        Inl e \<Rightarrow> Inl e
      | Inr ds \<Rightarrow> Inr (map (\<lambda>d. map_option oci_Image (pd_OCI d)) ds))"

definition trusted_registries :: "'b mgr_env \<Rightarrow> string list" where
  "trusted_registries E = GetTrustedRegistries (me_build E) (me_hostname E) (source_images E) (me_environ E)"

fun trusted_loop :: "string list \<Rightarrow> string \<Rightarrow> bool" where
  "trusted_loop [] location = False"
| "trusted_loop (t # ts) location =
     (if t \<noteq> '''' \<and> has_prefix location t then True else trusted_loop ts location)"

definition verifyRegistry :: "'b mgr_env \<Rightarrow> string \<Rightarrow> err option" where
  "verifyRegistry E img =
     (if trusted_loop (trusted_registries E) img then None
      else Some (Errorf ''untrusted registry detected with image %q. Allowed registries are %v'' (img # trusted_registries E)))"

definition files_env :: "'b mgr_env \<Rightarrow> string \<Rightarrow> fetch_env" where
  "files_env E distro = (dv_files (me_disc E))\<lparr>LocalPluginDistroDir := distro\<rparr>"

definition verifyArtifactLocation :: "'b mgr_env \<Rightarrow> string \<Rightarrow> string \<Rightarrow> err option" where
  "verifyArtifactLocation E distro uri =
     (case NewURIArtifact (files_env E distro) uri of
        Inl e \<Rightarrow> Some e
      | Inr (LocalArtifact p) \<Rightarrow> None
      | Inr (HTTPArtifact u) \<Rightarrow>
          if trusted_loop GetTrustedArtifactLocations uri then None
          else Some (Errorf ''untrusted artifact location detected with URI %q. Allowed locations are %v''
                       (uri # GetTrustedArtifactLocations)))"

definition verifyPluginPreDownload :: "'b mgr_env \<Rightarrow> 'b mgr_state \<Rightarrow> discovered \<Rightarrow> string \<Rightarrow> err option" where
  "verifyPluginPreDownload E s p version =
     (let os = GOOS (mg_platform s); arch = GOARCH (mg_platform s)
      in case DescribeArtifact (d_Distribution p) version os arch of
           Inl e \<Rightarrow> Some e
         | Inr a \<Rightarrow>
             if a_Image a \<noteq> '''' then verifyRegistry E (a_Image a)
             else if a_URI a \<noteq> '''' then verifyArtifactLocation E (mg_distro s) (a_URI a)
             else Some (Errorf ''no download information available for artifact %s:%s:%s:%s''
                          [d_Name p, d_RecommendedVersion p, os, arch]))"

definition verifyPluginPostDownload :: "'v lib \<Rightarrow> discovered \<Rightarrow> string \<Rightarrow> string \<Rightarrow> err option" where
  "verifyPluginPostDownload L p srcDigest b =
     (if srcDigest = '''' then None
      else if Sha256Hex L b \<noteq> srcDigest
      then Some (Errorf ''plugin %q has been corrupted during download. source digest: %s, actual digest: %s''
                   [d_Name p, srcDigest, Sha256Hex L b])
      else None)"

text \<open>The location a download contacts.\<close>

definition artifact_location :: "artifacts \<Rightarrow> string \<Rightarrow> platform \<Rightarrow> string" where
  "artifact_location aMap version pf =
     (case GetArtifact aMap version (GOOS pf) (GOARCH pf) of
        Inl _ \<Rightarrow> '''' | Inr a \<Rightarrow> if a_Image a \<noteq> '''' then a_Image a else a_URI a)"

definition fetchAndVerifyPlugin ::
    "'v lib \<Rightarrow> 'b mgr_env \<Rightarrow> discovered \<Rightarrow> string \<Rightarrow> 'b mgr_state \<Rightarrow> 'b mgr_state \<times> string res" where
  "fetchAndVerifyPlugin L E p version s =
     (case verifyPluginPreDownload E s p version of
        Some e \<Rightarrow> (s, Inl (Wrapf e ''%q plugin pre-download verification failed'' [d_Name p]))
      | None \<Rightarrow>
          let os = GOOS (mg_platform s); arch = GOARCH (mg_platform s);
              s1 = log_event (EvFetch (artifact_location (d_Distribution p) version (mg_platform s))) s
          in case Fetch L (files_env E (mg_distro s)) (d_Distribution p) version os arch of
               Inl e \<Rightarrow> (s1, Inl (Wrapf e ''unable to fetch the plugin metadata for plugin %q'' [d_Name p]))
             | Inr b \<Rightarrow>
                 (case GetDigest (d_Distribution p) version os arch of
                    Inl e \<Rightarrow> (s1, Inl e)
                  | Inr d \<Rightarrow>
                      (case verifyPluginPostDownload L p d b of
                         Some e \<Rightarrow> (s1, Inl (Wrapf e ''%q plugin post-download verification failed'' [d_Name p]))
                       | None \<Rightarrow> (s1, Inr b))))"

section \<open>Binaries\<close>

definition exec_plugin :: "'b mgr_env \<Rightarrow> string \<Rightarrow> string \<Rightarrow> 'b mgr_state \<Rightarrow> 'b mgr_state \<times> string \<times> err option" where
  "exec_plugin E path arg s = (log_event (EvExec path arg) s, me_Exec E (mg_files s) path arg)"

definition describePlugin ::
    "'b mgr_env \<Rightarrow> discovered \<Rightarrow> string \<Rightarrow> 'b mgr_state \<Rightarrow> 'b mgr_state \<times> plugin_info res" where
  "describePlugin E p pluginPath s =
     (case exec_plugin E pluginPath ''info'' s of
        (s1, out, Some e) \<Rightarrow> (s1, Inl (Wrapf e ''could not describe plugin %q'' [d_Name p]))
      | (s1, out, None) \<Rightarrow>
          (case me_UnmarshalInfo E out of
             Inl e \<Rightarrow> (s1, Inl (Wrapf e ''could not unmarshal plugin %q description'' [d_Name p]))
           | Inr plugin \<Rightarrow>
               (s1, Inr (plugin\<lparr>pi_InstallationPath := pluginPath, pi_Discovery := d_Source p,
                  pi_DiscoveredRecommendedVersion := d_RecommendedVersion p, pi_Target := d_Target p,
                  pi_Scope := d_Scope p,
                  pi_Status := (if pi_Version plugin = d_RecommendedVersion p then PluginStatusInstalled
                                else PluginStatusUpdateAvailable)\<rparr>))))"

definition plugin_path :: "'b mgr_env \<Rightarrow> platform \<Rightarrow> discovered \<Rightarrow> string \<Rightarrow> string \<Rightarrow> string" where
  "plugin_path E pf p version digest =
     path_join [me_PluginRoot E, d_Name p, version @ ''_'' @ digest @ ''_'' @ d_Target p] @
     (if IsWindows (BuildArch pf) then ''.exe'' else '''')"

definition getPluginFromCache ::
    "'b mgr_env \<Rightarrow> discovered \<Rightarrow> string \<Rightarrow> 'b mgr_state \<Rightarrow> 'b mgr_state \<times> plugin_info option" where
  "getPluginFromCache E p version s =
     (case DescribeArtifact (d_Distribution p) version (GOOS (mg_platform s)) (GOARCH (mg_platform s)) of
        Inl e \<Rightarrow> (s, None)
      | Inr a \<Rightarrow>
          let path = plugin_path E (mg_platform s) p version (a_Digest a)
          in if map_of (mg_files s) path = None then (s, None)
             else (case describePlugin E p path s of
                     (s1, Inl e) \<Rightarrow> (s1, None)
                   | (s1, Inr plugin) \<Rightarrow> (s1, Some plugin)))"

definition write_binary :: "'b mgr_env \<Rightarrow> string \<Rightarrow> string \<Rightarrow> 'b mgr_state \<Rightarrow> 'b mgr_state \<times> err option" where
  "write_binary E path content s =
     (case me_WriteFile E path of
        Some e \<Rightarrow> (s, Some e)
      | None \<Rightarrow> (log_event (EvWrite path content) (s\<lparr>mg_files := AList.update path content (mg_files s)\<rparr>), None))"

definition installAndDescribePlugin ::
    "'v lib \<Rightarrow> 'b mgr_env \<Rightarrow> discovered \<Rightarrow> string \<Rightarrow> string \<Rightarrow> 'b mgr_state \<Rightarrow> 'b mgr_state \<times> plugin_info res" where
  "installAndDescribePlugin L E p version binary s =
     (let path = plugin_path E (mg_platform s) p version (Sha256Hex L binary)
      in case me_MkdirAll E (filepath_Dir path) of
           Some e \<Rightarrow> (s, Inl e)
         | None \<Rightarrow>
             (case write_binary E path binary s of
                (s1, Some e) \<Rightarrow> (s1, Inl (Wrapf e ''could not write file'' []))
              | (s1, None) \<Rightarrow> describePlugin E p path s1))"

definition filepath_Base :: "string \<Rightarrow> string" where
  "filepath_Base p = last (split_on CHR ''/'' p)"

definition TestPluginPathFromPluginPath :: "string \<Rightarrow> string" where
  "TestPluginPathFromPluginPath pluginPath =
     path_join [filepath_Dir pluginPath, ''test-'' @ filepath_Base pluginPath]"

definition doInstallTestPlugin ::
    "'b mgr_env \<Rightarrow> discovered \<Rightarrow> string \<Rightarrow> string \<Rightarrow> 'b mgr_state \<Rightarrow> 'b mgr_state \<times> err option" where
  "doInstallTestPlugin E p pluginPath version s =
     (case FetchTest (files_env E (mg_distro s)) (d_Distribution p) version (GOOS (mg_platform s)) (GOARCH (mg_platform s)) of
        Inl e \<Rightarrow> if getenv (me_environ E) ''TZ_ENFORCE_TEST_PLUGIN'' = ''1''
                 then (s, Some (Wrapf e ''unable to install test plugin for %v:%v'' [d_Name p, version]))
                 else (s, None)
      | Inr binary \<Rightarrow>
          (case write_binary E (TestPluginPathFromPluginPath pluginPath) binary s of
             (s1, Some e) \<Rightarrow> (s1, Some (Wrapf e ''error while saving test plugin binary'' []))
           | (s1, None) \<Rightarrow> (s1, None)))"

section \<open>Entering the plugin into the catalog\<close>

text \<open>The error of \<open>post-install\<close> is only logged.\<close>

definition InitializePlugin :: "'b mgr_env \<Rightarrow> plugin_info \<Rightarrow> 'b mgr_state \<Rightarrow> 'b mgr_state" where
  "InitializePlugin E plugin s = fst (exec_plugin E (pi_InstallationPath plugin) ''post-install'' s)"

definition updatePluginInfoAndInitializePlugin ::
    "'b mgr_env \<Rightarrow> discovered \<Rightarrow> plugin_info \<Rightarrow> 'b mgr_state \<Rightarrow> 'b mgr_state \<times> err option" where
  "updatePluginInfoAndInitializePlugin E p plugin s =
     (case NewContextCatalogUpdater (me_yaml E) (d_ContextName p) (mg_cat s) of
        (w1, Inl e) \<Rightarrow> (s\<lparr>mg_cat := w1\<rparr>, Some e)
      | (w1, Inr c) \<Rightarrow>
          (case Upsert (me_yaml E) plugin w1 c of
             (w2, c2, _) \<Rightarrow>
               let s1 = s\<lparr>mg_cat := fst (Unlock w2 c2)\<rparr>;
                   s2 = InitializePlugin E plugin s1
               in (log_event (EvFeatureFlags (pi_DefaultFeatureFlags plugin)) s2, None)))"

definition verifyInstallAndInitializePlugin ::
    "'v lib \<Rightarrow> 'b mgr_env \<Rightarrow> plugin_info option \<Rightarrow> discovered \<Rightarrow> string \<Rightarrow> bool \<Rightarrow> 'b mgr_state \<Rightarrow>
     'b mgr_state \<times> err option" where
  "verifyInstallAndInitializePlugin L E cached p version installTestPlugin s =
     (let (s1, r) = (case cached of
            Some plugin \<Rightarrow> (s, Inr plugin)
          | None \<Rightarrow> (case fetchAndVerifyPlugin L E p version s of
                       (s', Inl e) \<Rightarrow> (s', Inl e)
                     | (s', Inr binary) \<Rightarrow> installAndDescribePlugin L E p version binary s'))
      in case r of
           Inl e \<Rightarrow> (s1, Some e)
         | Inr plugin \<Rightarrow>
             (case (if installTestPlugin then doInstallTestPlugin E p (pi_InstallationPath plugin) version s1
                    else (s1, None)) of
                (s2, Some e) \<Rightarrow> (s2, Some e)
              | (s2, None) \<Rightarrow> updatePluginInfoAndInitializePlugin E p plugin s2))"

text \<open>The messages of the installation.\<close>

definition getPluginInstallationMessage ::
    "discovered \<Rightarrow> string \<Rightarrow> bool \<Rightarrow> bool \<Rightarrow> string \<times> string \<times> string" where
  "getPluginInstallationMessage p version isPluginInCache isPluginAlreadyInstalled =
     (let q = [CHR 0x27];
          withTarget = (if d_Target p \<noteq> TargetUnknown then ''with target '' @ q @ d_Target p @ q @ '' '' else '''');
          pv = q @ d_Name p @ '':'' @ version @ q
      in (if isPluginInCache
          then (if \<not> isPluginAlreadyInstalled then ''Installing plugin '' @ pv @ '' '' @ withTarget @ ''(from cache)''
                else ''Plugin '' @ pv @ '' '' @ withTarget @ ''is already installed. Reinitializing...'')
          else ''Installing plugin '' @ pv @ '' '' @ withTarget,
          if isPluginInCache
          then (if \<not> isPluginAlreadyInstalled then ''Installed plugin '' @ pv @ '' '' @ withTarget @ ''(from cache)''
                else ''Reinitialized plugin '' @ pv @ '' '' @ withTarget)
          else ''Installed plugin '' @ pv @ '' '' @ withTarget,
          ''Failed to install plugin '' @ pv @ '' '' @ withTarget))"

definition effective_version :: "discovered \<Rightarrow> string \<Rightarrow> string" where
  "effective_version p version =
     (if version = '''' \<or> version = VersionLatest then d_RecommendedVersion p else version)"

definition installOrUpgradePlugin ::
    "'v lib \<Rightarrow> 'b mgr_env \<Rightarrow> discovered \<Rightarrow> string \<Rightarrow> bool \<Rightarrow> 'b mgr_state \<Rightarrow> ('b mgr_state \<times> err option) option" where
  "installOrUpgradePlugin L E p ver installTestPlugin s =
     (let version = effective_version p ver
      in if installTestPlugin
         then Some (verifyInstallAndInitializePlugin L E None p version installTestPlugin s)
         else
           let (s1, plugin) = getPluginFromCache E p version s
           in if d_ContextName p = ''''
              then do {
                (w, _) \<leftarrow> IsPluginInstalled L (me_yaml E) (me_ActiveContextsList E) (d_Name p) (d_Target p) version (mg_cat s1);
                Some (verifyInstallAndInitializePlugin L E plugin p version installTestPlugin (s1\<lparr>mg_cat := w\<rparr>))
              }
              else Some (verifyInstallAndInitializePlugin L E plugin p version installTestPlugin s1))"

section \<open>Installing from discoveries\<close>

definition missingTarget :: "string \<Rightarrow> err" where
  "missingTarget pluginName =
     Errorf ''unable to uniquely identify plugin %v. Please specify the target of the plugin using the --target flag'' [pluginName]"

definition plugin_not_found :: "string \<Rightarrow> string \<Rightarrow> string \<Rightarrow> err" where
  "plugin_not_found pluginName version target =
     (if target \<noteq> TargetUnknown
      then Errorf ''unable to find plugin %v matching version %v for target %s'' [pluginName, version, target]
      else Errorf ''unable to find plugin %v matching version %v'' [pluginName, version])"

definition discover_for_install ::
    "'v lib \<Rightarrow> 'b mgr_env \<Rightarrow> string \<Rightarrow> string \<Rightarrow> string \<Rightarrow> 'b mgr_state \<Rightarrow>
     ('b mgr_state \<times> discovered list \<times> err option) option" where
  "discover_for_install L E pluginName version target s = do {
     (cs, ps, e) \<leftarrow> discoverSpecificPlugins L (at_distro (mg_distro s) (me_disc E)) (getPluginDiscoveries E)
        [WithPluginDiscoveryCriteria \<lparr>pc_Name = pluginName, pc_Target = target, pc_Version = version,
            pc_OS = GOOS (mg_platform s), pc_Arch = GOARCH (mg_platform s)\<rparr>] (mg_caches s);
     Some (s\<lparr>mg_caches := cs\<rparr>, ps, e)
   }"

definition add_err :: "err option \<Rightarrow> err list \<Rightarrow> err list" where
  "add_err e es = (case e of None \<Rightarrow> es | Some e \<Rightarrow> es @ [e])"

text \<open>The AMD platform that stands in for an ARM platform without plugins.\<close>

definition fallback_platform :: "platform \<Rightarrow> platform option" where
  "fallback_platform pf =
     (if BuildArch pf = DarwinARM64 then Some (SetArch DarwinAMD64)
      else if BuildArch pf = WinARM64 then Some (SetArch WinAMD64) else None)"

definition match_plugins :: "string \<Rightarrow> string \<Rightarrow> string \<Rightarrow> discovered list \<Rightarrow> discovered list" where
  "match_plugins pluginName target contextName ps =
     map (\<lambda>p. if contextName \<noteq> '''' then p\<lparr>d_ContextName := contextName\<rparr> else p)
       (filter (\<lambda>p. d_Name p = pluginName \<and> (target = TargetUnknown \<or> target = d_Target p)) ps)"

text \<open>The second half of \<open>installPlugin\<close>: choosing among the plugins found.\<close>

definition install_selected ::
    "'v lib \<Rightarrow> 'b mgr_env \<Rightarrow> string \<Rightarrow> string \<Rightarrow> string \<Rightarrow> string \<Rightarrow> discovered list \<Rightarrow> err list \<Rightarrow>
     'b mgr_state \<Rightarrow> ('b mgr_state \<times> err option) option" where
  "install_selected L E pluginName version target contextName availablePlugins errorList s =
     (if length availablePlugins = 0
      then Some (s, NewAggregate L (errorList @ [plugin_not_found pluginName version target]))
      else
        case match_plugins pluginName target contextName (mergeDuplicatePlugins L availablePlugins) of
          [] \<Rightarrow> Some (s, NewAggregate L (errorList @ [plugin_not_found pluginName version target]))
        | [p] \<Rightarrow> installOrUpgradePlugin L E p (d_RecommendedVersion p) False s
        | matched \<Rightarrow>
            (case List.find (\<lambda>p. d_Target p = target) matched of
               Some p \<Rightarrow> installOrUpgradePlugin L E p (d_RecommendedVersion p) False s
             | None \<Rightarrow> Some (s, NewAggregate L (errorList @ [missingTarget pluginName]))))"

text \<open>The deferred \<open>SetArch\<close> calls put the platform back when the function returns.\<close>

definition installPlugin ::
    "'v lib \<Rightarrow> 'b mgr_env \<Rightarrow> string \<Rightarrow> string \<Rightarrow> string \<Rightarrow> string \<Rightarrow> 'b mgr_state \<Rightarrow>
     ('b mgr_state \<times> err option) option" where
  "installPlugin L E pluginName version target contextName s =
     (if length (getPluginDiscoveries E) = 0 then Some (s, Some errorNoDiscoverySourcesFound)
      else do {
        (s1, ps, e) \<leftarrow> discover_for_install L E pluginName version target s;
        (case (if length ps = 0 then fallback_platform (mg_platform s1) else None) of
           None \<Rightarrow> install_selected L E pluginName version target contextName ps (add_err e []) s1
         | Some amd \<Rightarrow> do {
             (s2, ps2, e2) \<leftarrow> discover_for_install L E pluginName version target (s1\<lparr>mg_platform := amd\<rparr>);
             (s3, r) \<leftarrow> install_selected L E pluginName version target contextName ps2 (add_err e2 (add_err e [])) s2;
             Some (s3\<lparr>mg_platform := SetArch (BuildArch (mg_platform s1))\<rparr>, r)
           })
      })"

definition InstallStandalonePlugin ::
    "'v lib \<Rightarrow> 'b mgr_env \<Rightarrow> string \<Rightarrow> string \<Rightarrow> string \<Rightarrow> 'b mgr_state \<Rightarrow> ('b mgr_state \<times> err option) option" where
  "InstallStandalonePlugin L E pluginName version target s = installPlugin L E pluginName version target '''' s"

definition UpgradePlugin ::
    "'v lib \<Rightarrow> 'b mgr_env \<Rightarrow> string \<Rightarrow> string \<Rightarrow> string \<Rightarrow> 'b mgr_state \<Rightarrow> ('b mgr_state \<times> err option) option" where
  "UpgradePlugin L E pluginName version target s = InstallStandalonePlugin L E pluginName version target s"

section \<open>Installing from groups\<close>

record group_counts =
  numErrors :: nat
  numInstalled :: nat
  mandatoryPluginsExist :: bool
  pluginExist :: bool

fun group_install_loop ::
    "'v lib \<Rightarrow> 'b mgr_env \<Rightarrow> string \<Rightarrow> group_plugin_entry list \<Rightarrow> group_counts \<Rightarrow> 'b mgr_state \<Rightarrow>
     ('b mgr_state \<times> group_counts) option" where
  "group_install_loop L E pluginName [] n s = Some (s, n)"
| "group_install_loop L E pluginName (plugin # plugins) n s =
     (if pluginName = AllPlugins \<or> pluginName = id_Name plugin
      then if gp_Mandatory plugin
           then do {
             (s1, e) \<leftarrow> InstallStandalonePlugin L E (id_Name plugin) (id_Version plugin) (id_Target plugin) s;
             (let n1 = n\<lparr>pluginExist := True, mandatoryPluginsExist := True\<rparr>
              in group_install_loop L E pluginName plugins
                   (if e \<noteq> None then n1\<lparr>numErrors := numErrors n1 + 1\<rparr>
                    else n1\<lparr>numInstalled := numInstalled n1 + 1\<rparr>) s1)
           }
           else group_install_loop L E pluginName plugins (n\<lparr>pluginExist := True\<rparr>) s
      else group_install_loop L E pluginName plugins n s)"

definition group_counts_zero :: group_counts where
  "group_counts_zero = \<lparr>numErrors = 0, numInstalled = 0, mandatoryPluginsExist = False, pluginExist = False\<rparr>"

definition group_result :: "string \<Rightarrow> string \<Rightarrow> group_counts \<Rightarrow> err option" where
  "group_result pluginName groupIDAndVersion n =
     (if \<not> pluginExist n
      then Some (Errorf ''plugin %s is not part of the group %s'' [pluginName, groupIDAndVersion])
      else if \<not> mandatoryPluginsExist n
      then (if pluginName = AllPlugins
            then Some (Errorf ''plugin group %s has no mandatory plugins to install'' [groupIDAndVersion])
            else Some (Errorf ''plugin %s from group %s is not mandatory to install'' [pluginName, groupIDAndVersion]))
      else if numErrors n > 0
      then Some (Errorf ''could not install %d plugin(s) from group %s'' [dec_text (numErrors n), groupIDAndVersion])
      else if numInstalled n = 0
      then Some (Errorf ''plugin %s is not part of the group %s'' [pluginName, groupIDAndVersion])
      else None)"

definition InstallPluginsFromGivenPluginGroup ::
    "'v lib \<Rightarrow> 'b mgr_env \<Rightarrow> string \<Rightarrow> string \<Rightarrow> plugin_group \<Rightarrow> 'b mgr_state \<Rightarrow>
     ('b mgr_state \<times> string \<times> err option) option" where
  "InstallPluginsFromGivenPluginGroup L E pluginName groupIDAndVersion pg s = do {
     (s1, n) \<leftarrow> group_install_loop L E pluginName (get_or [] (g_Versions pg) (g_RecommendedVersion pg)) group_counts_zero s;
     Some (s1, groupIDAndVersion, group_result pluginName groupIDAndVersion n)
   }"

definition with_latest :: "group_identifier \<Rightarrow> group_criteria" where
  "with_latest gi = \<lparr>gc_Vendor = gi_Vendor gi, gc_Publisher = gi_Publisher gi, gc_Name = gi_Name gi,
     gc_Version = (if gi_Version gi = '''' then VersionLatest else gi_Version gi)\<rparr>"

definition GetPluginGroup ::
    "'v lib \<Rightarrow> 'b mgr_env \<Rightarrow> string \<Rightarrow> (mgr_opts \<Rightarrow> mgr_opts) list \<Rightarrow> 'b mgr_state \<Rightarrow>
     ('b mgr_state \<times> plugin_group res) option" where
  "GetPluginGroup L E groupIDAndVersion options = with_log_mode (me_environ E) options (\<lambda>s.
     if length (getPluginDiscoveries E) = 0 then Some (s, Inl errorNoDiscoverySourcesFound)
     else case PluginGroupIdentifierFromID groupIDAndVersion of
          None \<Rightarrow> Some (s, Inl (Errorf ''could not find group %s'' [groupIDAndVersion]))
        | Some gi \<Rightarrow> do {
            (cs, r) \<leftarrow> discoverSpecificPluginGroups L (me_disc E) (getPluginDiscoveries E)
               [WithGroupDiscoveryCriteria (with_latest gi)] (mg_caches s);
            Some (s\<lparr>mg_caches := cs\<rparr>,
              case r of
                Inl e \<Rightarrow> Inl e
              | Inr [] \<Rightarrow> Inl (Errorf ''unable to find plugin group with name %s-%s/%s matching version %s''
                   [gi_Vendor gi, gi_Publisher gi, gi_Name gi, gc_Version (with_latest gi)])
              | Inr (pg # _) \<Rightarrow> Inr pg)
          })"

definition InstallPluginsFromGroup ::
    "'v lib \<Rightarrow> 'b mgr_env \<Rightarrow> string \<Rightarrow> string \<Rightarrow> (mgr_opts \<Rightarrow> mgr_opts) list \<Rightarrow> 'b mgr_state \<Rightarrow>
     ('b mgr_state \<times> string \<times> err option) option" where
  "InstallPluginsFromGroup L E pluginName groupIDAndVersion options s = do {
     (s1, r) \<leftarrow> GetPluginGroup L E groupIDAndVersion options s;
     (case r of
        Inl e \<Rightarrow> Some (s1, '''', Some e)
      | Inr pg \<Rightarrow> InstallPluginsFromGivenPluginGroup L E pluginName
           (g_Vendor pg @ ''-'' @ g_Publisher pg @ ''/'' @ g_Name pg @ '':'' @ g_RecommendedVersion pg) pg s1)
   }"

end
