(* ===== verification/Manager_Local.thy ===== *)
theory Manager_Local
  imports Manager_Install
begin

text \<open>
  The rest of \<^verbatim>\<open>pkg/pluginmanager\<close>: describing and deleting plugins, installing from a local
  directory, cleaning, and the check whether the plugins of a group are installed, which
  \<^verbatim>\<open>essentials.go\<close> uses. The deletion of a command tree from the telemetry cache is the event
  \<open>EvTreeDelete\<close>.
\<close>

section \<open>Describing\<close>

definition describe_matches :: "string \<Rightarrow> string \<Rightarrow> plugin_info list \<Rightarrow> plugin_info list" where
  "describe_matches pluginName target plugins =
     filter (\<lambda>p. pi_Name p = pluginName \<and> (target = TargetUnknown \<or> target = pi_Target p)) plugins"

definition DescribePlugin ::
    "'v lib \<Rightarrow> 'b mgr_env \<Rightarrow> string \<Rightarrow> string \<Rightarrow> 'b cat_fs \<Rightarrow> ('b cat_fs \<times> plugin_info res) option" where
  "DescribePlugin L E pluginName target w = do {
     (w1, r) \<leftarrow> GetInstalledPlugins L (me_yaml E) (me_ActiveContextsList E) w;
     Some (w1, case r of
       Inl e \<Rightarrow> Inl e
     | Inr plugins \<Rightarrow>
         (case describe_matches pluginName target plugins of
            [] \<Rightarrow> Inl (if target \<noteq> TargetUnknown
                       then Errorf ''unable to find plugin %v for target %s'' [pluginName, target]
                       else Errorf ''unable to find plugin %v'' [pluginName])
          | [p] \<Rightarrow> Inr p
          | ps \<Rightarrow> (case List.find (\<lambda>p. pi_Target p = target) ps of
                      Some p \<Rightarrow> Inr p | None \<Rightarrow> Inl (missingTarget pluginName))))
   }"

section \<open>Deleting\<close>

record delete_options =
  do_Target :: string
  do_PluginName :: string
  do_ForceDelete :: bool

definition delete_match :: "delete_options \<Rightarrow> plugin_info \<Rightarrow> bool" where
  "delete_match options p \<longleftrightarrow>
     (pi_Name p = do_PluginName options \<or> do_PluginName options = AllPlugins) \<and>
     (do_Target options = TargetUnknown \<or> do_Target options = pi_Target p)"

text \<open>A catalog that cannot be opened is skipped.\<close>

fun match_catalogs_loop ::
    "'v lib \<Rightarrow> 'b cat_yaml \<Rightarrow> delete_options \<Rightarrow> string list \<Rightarrow> 'b cat_fs \<Rightarrow> plugin_info list \<Rightarrow>
     'b cat_fs \<times> plugin_info list" where
  "match_catalogs_loop L Y options [] w matched = (w, matched)"
| "match_catalogs_loop L Y options (serverName # names) w matched =
     (case NewContextCatalog Y serverName w of
        (w1, Inl e) \<Rightarrow> match_catalogs_loop L Y options names w1 matched
      | (w1, Inr c) \<Rightarrow> match_catalogs_loop L Y options names w1
                       (matched @ filter (delete_match options) (List_plugins L c)))"

definition matchPluginsForDeletion ::
    "'v lib \<Rightarrow> 'b mgr_env \<Rightarrow> delete_options \<Rightarrow> 'b cat_fs \<Rightarrow> 'b cat_fs \<times> plugin_info list res" where
  "matchPluginsForDeletion L E options w =
     (case me_ActiveContextsList E of
        Inl e \<Rightarrow> (w, Inl e)
      | Inr catalogNames \<Rightarrow>
          (case match_catalogs_loop L (me_yaml E) options (catalogNames @ ['''']) w [] of
             (w1, matched) \<Rightarrow> (w1, Inr matched)))"

fun delete_keys_loop ::
    "'b cat_yaml \<Rightarrow> plugin_info list \<Rightarrow> 'b cat_fs \<Rightarrow> context_catalog \<Rightarrow> err list \<Rightarrow>
     'b cat_fs \<times> context_catalog \<times> err list" where
  "delete_keys_loop Y [] w c errList = (w, c, errList)"
| "delete_keys_loop Y (p # ps) w c errList =
     (case Delete Y (PluginNameTarget (pi_Name p) (pi_Target p)) w c of
        (w1, c1, e) \<Rightarrow> delete_keys_loop Y ps w1 c1
          (if e \<noteq> None then errList @ [Errorf ''plugin %q could not be deleted from cache'' [pi_Name p]] else errList))"

fun delete_catalogs_loop ::
    "'b cat_yaml \<Rightarrow> plugin_info list \<Rightarrow> string list \<Rightarrow> 'b cat_fs \<Rightarrow> err list \<Rightarrow> 'b cat_fs \<times> err list" where
  "delete_catalogs_loop Y plugins [] w errList = (w, errList)"
| "delete_catalogs_loop Y plugins (n # names) w errList =
     (case NewContextCatalogUpdater Y n w of
        (w1, Inl e) \<Rightarrow> delete_catalogs_loop Y plugins names w1 errList
      | (w1, Inr c) \<Rightarrow>
          (case delete_keys_loop Y plugins w1 c errList of
             (w2, c2, errList2) \<Rightarrow> delete_catalogs_loop Y plugins names (fst (Unlock w2 c2)) errList2))"

definition doDeletePluginsFromCatalog ::
    "'v lib \<Rightarrow> 'b mgr_env \<Rightarrow> plugin_info list \<Rightarrow> 'b cat_fs \<Rightarrow> 'b cat_fs \<times> err option" where
  "doDeletePluginsFromCatalog L E plugins w =
     (case me_ActiveContextsList E of
        Inl e \<Rightarrow> (w, Some e)
      | Inr catalogNames \<Rightarrow>
          (case delete_catalogs_loop (me_yaml E) plugins (catalogNames @ ['''']) w [] of
             (w1, errList) \<Rightarrow> (w1, NewAggregate L errList)))"

definition confirmation_text :: "delete_options \<Rightarrow> string \<Rightarrow> string" where
  "confirmation_text options uniqueTarget =
     (if do_PluginName options = AllPlugins
      then (if do_Target options = TargetUnknown then ''All plugins will be uninstalled. Are you sure?''
            else ''All plugins for target '' @ [CHR 0x27] @ do_Target options @ [CHR 0x27] @
                 '' will be uninstalled. Are you sure?'')
      else ''Uninstalling plugin '' @ [CHR 0x27] @ do_PluginName options @ [CHR 0x27] @ '' for target '' @
           [CHR 0x27] @ uniqueTarget @ [CHR 0x27] @ ''. Are you sure?'')"

definition nothing_to_delete :: "delete_options \<Rightarrow> err" where
  "nothing_to_delete options =
     (if do_PluginName options = AllPlugins
      then (if do_Target options \<noteq> TargetUnknown
            then Errorf ''unable to find any installed plugins for target %s'' [do_Target options]
            else Errorf ''unable to find any installed plugins'' [])
      else if do_Target options \<noteq> TargetUnknown
      then Errorf ''unable to find plugin %v for target %s'' [do_PluginName options, do_Target options]
      else Errorf ''unable to find plugin %v'' [do_PluginName options])"

definition DeletePlugin ::
    "'v lib \<Rightarrow> 'b mgr_env \<Rightarrow> delete_options \<Rightarrow> 'b mgr_state \<Rightarrow> 'b mgr_state \<times> err option" where
  "DeletePlugin L E options s =
     (case matchPluginsForDeletion L E options (mg_cat s) of
        (w1, Inl e) \<Rightarrow> (s\<lparr>mg_cat := w1\<rparr>, Some e)
      | (w1, Inr []) \<Rightarrow> (s\<lparr>mg_cat := w1\<rparr>, Some (nothing_to_delete options))
      | (w1, Inr (p # ps)) \<Rightarrow>
          let matched = p # ps; s1 = s\<lparr>mg_cat := w1\<rparr>
          in if do_PluginName options \<noteq> AllPlugins \<and> list_ex (\<lambda>q. pi_Target q \<noteq> pi_Target p) matched
             then (s1, Some (missingTarget (do_PluginName options)))
             else
               let uniqueTarget = (if do_PluginName options \<noteq> AllPlugins then pi_Target p else '''');
                   prompt = confirmation_text options uniqueTarget;
                   s2 = (if do_ForceDelete options then s1 else log_event (EvConfirm prompt) s1)
               in case (if do_ForceDelete options then None else me_AskForConfirmation E prompt) of
                    Some e \<Rightarrow> (s2, Some e)
                  | None \<Rightarrow>
                      let s3 = fold (\<lambda>q. log_event (EvTreeDelete q)) matched s2;
                          (w2, e) = doDeletePluginsFromCatalog L E matched (mg_cat s3)
                      in (s3\<lparr>mg_cat := w2\<rparr>, e))"

section \<open>Local sources\<close>

definition local_discovery :: "string \<Rightarrow> dir_entry \<Rightarrow> plugin_discovery" where
  "local_discovery localPath item =
     empty_discovery\<lparr>pd_Local := Some \<lparr>local_Name = '''', local_Path = path_join [localPath, ''discovery'', de_Name item]\<rparr>\<rparr>"

text \<open>An aggregated discovery error is only logged.\<close>

definition discoverPluginsFromLocalSource ::
    "'v lib \<Rightarrow> 'b mgr_env \<Rightarrow> string \<Rightarrow> 'b mgr_state \<Rightarrow> ('b mgr_state \<times> discovered list res) option" where
  "discoverPluginsFromLocalSource L E localPath s =
     (let s1 = s\<lparr>mg_distro := localPath\<rparr>; V = at_distro localPath (me_disc E)
      in case os_ReadDir (dv_files V) (path_join [localPath, ''discovery'']) of
           Inl e \<Rightarrow> Some (s1, Inl (Wrapf e ''error while reading local plugin manifest directory'' []))
         | Inr items \<Rightarrow> do {
             (cs, plugins, e) \<leftarrow> discoverSpecificPlugins L V (map (local_discovery localPath) (filter de_IsDir items)) [] (mg_caches s1);
             Some (s1\<lparr>mg_caches := cs\<rparr>,
               Inr (map (\<lambda>p. p\<lparr>d_Scope := PluginScopeStandalone, d_Status := PluginStatusNotInstalled,
                              d_DiscoveryType := DiscoveryTypeLocal\<rparr>) plugins))
           })"

definition getPluginManifestResource :: "'b mgr_env \<Rightarrow> string \<Rightarrow> manifest_plugin list res" where
  "getPluginManifestResource E path =
     (case os_ReadFile (dv_files (me_disc E)) path of
        Inl e \<Rightarrow> Inl (Wrapf e ''could not find %s file'' [filepath_Base path])
      | Inr b \<Rightarrow> (case me_UnmarshalManifest E b of
                   Inl e \<Rightarrow> Inl (Wrapf e ''could not unmarshal %s'' [filepath_Base path]) | Inr m \<Rightarrow> Inr m))"

definition getPluginInfoResource :: "'b mgr_env \<Rightarrow> string \<Rightarrow> plugin_info res" where
  "getPluginInfoResource E path =
     (case os_ReadFile (dv_files (me_disc E)) path of
        Inl e \<Rightarrow> Inl (Wrapf e ''could not find %s file'' [filepath_Base path])
      | Inr b \<Rightarrow> (case me_UnmarshalPluginYaml E b of
                   Inl e \<Rightarrow> Inl (Wrapf e ''could not unmarshal %s'' [filepath_Base path]) | Inr p \<Rightarrow> Inr p))"

definition getCLIPluginResourceWithLocalDistroFromPluginInfo ::
    "platform \<Rightarrow> plugin_info \<Rightarrow> string \<Rightarrow> cli_plugin" where
  "getCLIPluginResourceWithLocalDistroFromPluginInfo pf plugin pluginBinaryPath =
     \<lparr>cp_Name = pi_Name plugin,
      cp_Spec = \<lparr>cps_Description = pi_Description plugin, cps_RecommendedVersion = pi_Version plugin,
        cps_Artifacts = [(pi_Version plugin,
           [\<lparr>k_Image = '''', k_URI = pluginBinaryPath, k_Digest = '''', k_Type = ''local'',
             k_OS = GOOS pf, k_Arch = GOARCH pf\<rparr>])],
        cps_Optional = False, cps_Target = pi_Target plugin\<rparr>\<rparr>"

definition manifest_version :: "'b mgr_env \<Rightarrow> string \<Rightarrow> manifest_plugin \<Rightarrow> string res" where
  "manifest_version E localPath p =
     (let v = (case mp_Versions p of [] \<Rightarrow> '''' | v # _ \<Rightarrow> v)
      in if v = ''''
         then (case getPluginInfoResource E (path_join [localPath, mp_Name p, ''plugin.yaml'']) of
                 Inl e \<Rightarrow> Inl (Wrapf e ''could not unmarshal plugin.yaml'' []) | Inr info \<Rightarrow> Inr (pi_Version info))
         else Inr v)"

definition local_binary_path :: "platform \<Rightarrow> string \<Rightarrow> manifest_plugin \<Rightarrow> string \<Rightarrow> string" where
  "local_binary_path pf absLocalPath p version =
     path_join [absLocalPath, mp_Target p, mp_Name p, version,
       ''tanzu-'' @ mp_Name p @ ''-'' @ GOOS pf @ ''_'' @ GOARCH pf] @
     (if IsWindows (BuildArch pf) then ''.exe'' else '''')"

fun manifest_loop ::
    "'v lib \<Rightarrow> 'b mgr_env \<Rightarrow> platform \<Rightarrow> string \<Rightarrow> manifest_plugin list \<Rightarrow> discovered list \<Rightarrow> discovered list res" where
  "manifest_loop L E pf localPath [] found = Inr found"
| "manifest_loop L E pf localPath (p # ps) found =
     (if mp_Name p = CoreName then manifest_loop L E pf localPath ps found
      else case manifest_version E localPath p of
          Inl e \<Rightarrow> Inl e
        | Inr version \<Rightarrow>
            (case me_Abs E localPath of
               Inl e \<Rightarrow> Inl e
             | Inr absLocalPath \<Rightarrow>
                 let path = local_binary_path pf absLocalPath p version;
                     info = zero_plugin_info\<lparr>pi_Name := mp_Name p, pi_Description := mp_Description p,
                              pi_Target := mp_Target p, pi_Version := version\<rparr>
                 in if me_Stat E path = Some ErrNotExist
                    then Inl (Wrapf ErrNotExist ''unable to find plugin binary for %q'' [mp_Name p])
                    else (case DiscoveredFromK8sV1alpha1 L (getCLIPluginResourceWithLocalDistroFromPluginInfo pf info path) of
                            Inl e \<Rightarrow> Inl e
                          | Inr dp \<Rightarrow> manifest_loop L E pf localPath ps
                              (found @ [dp\<lparr>d_DiscoveryType := DiscoveryTypeLocal, d_Scope := PluginScopeStandalone,
                                           d_Status := PluginStatusNotInstalled\<rparr>]))))"

definition discoverPluginsFromLocalSourceBasedOnManifestFile ::
    "'v lib \<Rightarrow> 'b mgr_env \<Rightarrow> platform \<Rightarrow> string \<Rightarrow> discovered list res" where
  "discoverPluginsFromLocalSourceBasedOnManifestFile L E pf localPath =
     (if localPath = '''' then Inr []
      else
        let m1 = getPluginManifestResource E (path_join [localPath, ''manifest.yaml'']);
            m2 = getPluginManifestResource E (path_join [localPath, ''plugin_manifest.yaml''])
        in case m2 of
             Inr m \<Rightarrow> manifest_loop L E pf localPath m []
           | Inl e2 \<Rightarrow>
               (case m1 of
                  Inr m \<Rightarrow> manifest_loop L E pf localPath m []
                | Inl e1 \<Rightarrow> (case NewAggregate L [e1, e2] of None \<Rightarrow> Inr [] | Some e \<Rightarrow> Inl e)))"

definition DiscoverPluginsFromLocalSource ::
    "'v lib \<Rightarrow> 'b mgr_env \<Rightarrow> string \<Rightarrow> 'b mgr_state \<Rightarrow> ('b mgr_state \<times> discovered list res) option" where
  "DiscoverPluginsFromLocalSource L E localPath s =
     (if localPath = '''' then Some (s, Inr [])
      else do {
        (s1, r) \<leftarrow> discoverPluginsFromLocalSource L E localPath s;
        Some (s1, case r of
          Inr plugins \<Rightarrow> Inr plugins
        | Inl e \<Rightarrow>
            if me_Stat E (path_join [localPath, ''manifest.yaml'']) = Some ErrNotExist \<and>
               me_Stat E (path_join [localPath, ''plugin_manifest.yaml'']) = Some ErrNotExist
            then Inl e
            else discoverPluginsFromLocalSourceBasedOnManifestFile L E (mg_platform s1) localPath)
      })"

fun install_local_loop ::
    "'v lib \<Rightarrow> 'b mgr_env \<Rightarrow> string \<Rightarrow> string \<Rightarrow> string \<Rightarrow> bool \<Rightarrow> discovered list \<Rightarrow> err list \<Rightarrow>
     'b mgr_state \<Rightarrow> ('b mgr_state \<times> err list) option" where
  "install_local_loop L E pluginName version target test [] errList s = Some (s, errList)"
| "install_local_loop L E pluginName version target test (p # ps) errList s =
     (if pluginName = AllPlugins \<or> d_Target p = target
      then do {
        (s1, e) \<leftarrow> installOrUpgradePlugin L E p version test s;
        install_local_loop L E pluginName version target test ps (add_err e errList) s1
      }
      else install_local_loop L E pluginName version target test ps errList s)"

definition local_not_found :: "string \<Rightarrow> string \<Rightarrow> string \<Rightarrow> err" where
  "local_not_found pluginName version target =
     (if pluginName = AllPlugins
      then (if target \<noteq> TargetUnknown then Errorf ''unable to find any plugins for target %s'' [target]
            else Errorf ''unable to find any plugins at the specified location'' [])
      else plugin_not_found pluginName version target)"

definition InstallPluginsFromLocalSource ::
    "'v lib \<Rightarrow> 'b mgr_env \<Rightarrow> string \<Rightarrow> string \<Rightarrow> string \<Rightarrow> string \<Rightarrow> bool \<Rightarrow> 'b mgr_state \<Rightarrow>
     ('b mgr_state \<times> err option) option" where
  "InstallPluginsFromLocalSource L E pluginName version target localPath installTestPlugin s = do {
     (s1, r) \<leftarrow> DiscoverPluginsFromLocalSource L E localPath (s\<lparr>mg_distro := localPath\<rparr>);
     (case r of
        Inl e \<Rightarrow> Some (s1, Some (Wrapf e ''unable to discover plugins'' []))
      | Inr available \<Rightarrow>
          (case filter (\<lambda>p. (pluginName = AllPlugins \<or> d_Name p = pluginName) \<and>
                            (target = TargetUnknown \<or> target = d_Target p)) available of
             [] \<Rightarrow> Some (s1, Some (local_not_found pluginName version target))
           | [p] \<Rightarrow> installOrUpgradePlugin L E p version installTestPlugin s1
           | matched \<Rightarrow> do {
               (s2, errList) \<leftarrow> install_local_loop L E pluginName version target installTestPlugin matched [] s1;
               Some (s2, NewAggregate L errList)
             }))
   }"

section \<open>Cleaning\<close>

definition Clean :: "'v lib \<Rightarrow> 'b mgr_env \<Rightarrow> 'b mgr_state \<Rightarrow> 'b mgr_state \<times> err option" where
  "Clean L E s =
     (let (w, e1) = CleanCatalogCache (mg_cat s);
          e2 = me_RemoveAll E (path_join [me_CacheDir E, ''plugin_inventory'']);
          e3 = me_RemoveAll E (me_PluginRoot E);
          treeDir = (let custom = getenv (me_environ E) ''TEST_CUSTOM_PLUGIN_COMMAND_TREE_CACHE_DIR''
                     in if custom \<noteq> '''' then custom else path_join [me_CacheDir E, ''plugins_command_tree'']);
          e4 = me_RemoveAll E treeDir
      in (s\<lparr>mg_cat := w,
            mg_caches := (if e2 = None then (\<lambda>_. empty_cache) else mg_caches s),
            mg_files := (if e3 = None then [] else mg_files s)\<rparr>,
          NewAggregate L
            (add_err (map_option (\<lambda>e. Wrapf e ''Failed to clean the plugin command tree cache'' []) e4)
              (add_err (map_option (\<lambda>e. Wrapf e ''Failed to clean the plugin binaries'' []) e3)
                (add_err (map_option (\<lambda>e. Wrapf e ''Failed to clean the plugin inventory cache'' []) e2)
                  (add_err (map_option (\<lambda>e. Wrapf e ''Failed to clean the catalog cache'' []) e1) []))))))"

section \<open>Group status\<close>

fun all_installed_loop :: "(string \<times> plugin_info) list \<Rightarrow> group_plugin_entry list \<Rightarrow> bool" where
  "all_installed_loop m [] = True"
| "all_installed_loop m (p # ps) =
     (if map_of m (GenerateKey [id_Name p, id_Target p, id_Version p]) = None then False
      else all_installed_loop m ps)"

definition isAllPluginsFromGroupInstalled :: "group_plugin_entry list \<Rightarrow> plugin_info list \<Rightarrow> bool" where
  "isAllPluginsFromGroupInstalled plugins installedPlugins =
     all_installed_loop
       (fold (\<lambda>i. AList.update (GenerateKey [pi_Name i, pi_Target i, pi_Version i]) i) installedPlugins []) plugins"

fun new_version_loop :: "'v lib \<Rightarrow> (string \<times> plugin_info) list \<Rightarrow> group_plugin_entry list \<Rightarrow> bool" where
  "new_version_loop L m [] = False"
| "new_version_loop L m (p # ps) =
     (case map_of m (GenerateKey [id_Name p, id_Target p]) of
        None \<Rightarrow> new_version_loop L m ps
      | Some i \<Rightarrow> if IsNewVersion L (id_Version p) (pi_Version i) then True else new_version_loop L m ps)"

definition isNewPluginVersionAvailable :: "'v lib \<Rightarrow> group_plugin_entry list \<Rightarrow> plugin_info list \<Rightarrow> bool" where
  "isNewPluginVersionAvailable L plugins installedPlugins =
     new_version_loop L
       (fold (\<lambda>i. AList.update (GenerateKey [pi_Name i, pi_Target i]) i) installedPlugins []) plugins"

definition IsPluginsFromPluginGroupInstalled ::
    "'v lib \<Rightarrow> 'b mgr_env \<Rightarrow> string \<Rightarrow> string \<Rightarrow> (mgr_opts \<Rightarrow> mgr_opts) list \<Rightarrow> 'b mgr_state \<Rightarrow>
     ('b mgr_state \<times> (bool \<times> bool) res) option" where
  "IsPluginsFromPluginGroupInstalled L E name version options = with_log_mode (me_environ E) options (\<lambda>s. do {
     (w, inst) \<leftarrow> GetInstalledPlugins L (me_yaml E) (me_ActiveContextsList E) (mg_cat s);
     (let s1 = s\<lparr>mg_cat := w\<rparr>; pluginGroupName = (if version \<noteq> '''' then name @ '':'' @ version else name)
      in case inst of
           Inl e \<Rightarrow> Some (s1, Inl (Wrapf e ''failed to get installed plugins'' []))
         | Inr installedPlugins \<Rightarrow>
             (case PluginGroupIdentifierFromID pluginGroupName of
                None \<Rightarrow> Some (s1, Inl (Errorf ''incorrect plugin-group %q specified'' [pluginGroupName]))
              | Some gi \<Rightarrow> do {
                  (cs, r) \<leftarrow> DiscoverPluginGroups L E [WithGroupDiscoveryCriteria (with_latest gi), WithUseLocalCacheOnly] (mg_caches s1);
                  Some (s1\<lparr>mg_caches := cs\<rparr>,
                    case r of
                      Inl e \<Rightarrow> Inl (Wrapf e ''failed to discover plugin groups'' [])
                    | Inr [] \<Rightarrow> Inl (Errorf ''plugin-group %q cannot be found'' [pluginGroupName])
                    | Inr (g # _) \<Rightarrow>
                        let pluginsOfGroup = filter gp_Mandatory (get_or [] (g_Versions g) (g_RecommendedVersion g))
                        in Inr (isAllPluginsFromGroupInstalled pluginsOfGroup installedPlugins,
                                isNewPluginVersionAvailable L pluginsOfGroup installedPlugins))
                }))
   })"

section \<open>Essential plugins\<close>

definition GetEssentialsPluginGroupDetails :: "environ \<Rightarrow> string \<times> string" where
  "GetEssentialsPluginGroupDetails env =
     (if getenv env ''TANZU_CLI_ESSENTIALS_PLUGIN_GROUP_NAME'' \<noteq> ''''
      then getenv env ''TANZU_CLI_ESSENTIALS_PLUGIN_GROUP_NAME'' else ''vmware-tanzucli/essentials'',
      getenv env ''TANZU_CLI_ESSENTIALS_PLUGIN_GROUP_VERSION'')"

definition installPluginsFromEssentialPluginGroup ::
    "'v lib \<Rightarrow> 'b mgr_env \<Rightarrow> string \<Rightarrow> string \<Rightarrow> 'b mgr_state \<Rightarrow> ('b mgr_state \<times> string res) option" where
  "installPluginsFromEssentialPluginGroup L E name version s = do {
     (s1, g, e) \<leftarrow> InstallPluginsFromGroup L E AllPlugins (if version \<noteq> '''' then name @ '':'' @ version else name) [DisableLogs] s;
     Some (s1, case e of Some e \<Rightarrow> Inl (Wrapf e ''failed to install plugins from group'' []) | None \<Rightarrow> Inr g)
   }"

definition InstallPluginsFromEssentialPluginGroup ::
    "'v lib \<Rightarrow> 'b mgr_env \<Rightarrow> 'b mgr_state \<Rightarrow> ('b mgr_state \<times> string res) option" where
  "InstallPluginsFromEssentialPluginGroup L E s =
     (case GetEssentialsPluginGroupDetails (me_environ E) of (name, version) \<Rightarrow> do {
        (s1, r) \<leftarrow> IsPluginsFromPluginGroupInstalled L E name version [DisableLogs] s;
        (case r of
           Inl e \<Rightarrow> Some (s1, Inl (Wrapf e ''failed to check if plugins from group are installed'' []))
         | Inr (installed, updateAvailable) \<Rightarrow>
             if installed \<and> \<not> updateAvailable then Some (s1, Inr '''')
             else do {
               (s2, r2) \<leftarrow> installPluginsFromEssentialPluginGroup L E name version s1;
               Some (s2, case r2 of
                 Inl e \<Rightarrow> Inl (Wrapf e ''failed to install or upgrade essential plugin group'' []) | Inr _ \<Rightarrow> Inr '''')
             })
      })"

end
