(* ===== verification/Manager_Install_Correct.thy ===== *)
theory Manager_Install_Correct
  imports Manager_Install
begin

text \<open>
  Correctness of plugin installation: what an installation downloads, writes and executes, that it
  enters the plugin into the catalog, that the platform is put back after the ARM fallback, and when
  the installation of a group succeeds.
\<close>

section \<open>Effects of an installation\<close>

text \<open>The state after an operation extends the trace by events that satisfy \<open>P\<close> and leaves the
  platform and the local distribution directory.\<close>

definition extends :: "(event \<Rightarrow> bool) \<Rightarrow> 'b mgr_state \<Rightarrow> 'b mgr_state \<Rightarrow> bool" where
  "extends P s s' \<longleftrightarrow> (\<exists>evs. mg_trace s' = mg_trace s @ evs \<and> list_all P evs) \<and>
     mg_platform s' = mg_platform s \<and> mg_distro s' = mg_distro s"

lemma extends_refl [simp, intro]: "extends P s s"
  by (simp add: extends_def)

lemma extends_trans: "extends P s s1 \<Longrightarrow> extends P s1 s2 \<Longrightarrow> extends P s s2"
  by (auto simp: extends_def)

lemma extends_log: "P ev \<Longrightarrow> extends P s (log_event ev s)"
  by (simp add: extends_def log_event_def)

lemma log_event_fields [simp]:
  "mg_files (log_event ev s) = mg_files s" "mg_cat (log_event ev s) = mg_cat s"
  "mg_platform (log_event ev s) = mg_platform s" "mg_distro (log_event ev s) = mg_distro s"
  by (simp_all add: log_event_def)

lemma extends_fields [simp]:
  "extends P s (s'\<lparr>mg_cat := w\<rparr>) = extends P s s'" "extends P s (s'\<lparr>mg_files := f\<rparr>) = extends P s s'"
  "extends P s (s'\<lparr>mg_caches := cs\<rparr>) = extends P s s'" "extends P s (s'\<lparr>mg_quiet := q\<rparr>) = extends P s s'"
  "extends P (s\<lparr>mg_cat := w\<rparr>) s' = extends P s s'" "extends P (s\<lparr>mg_files := f\<rparr>) s' = extends P s s'"
  "extends P (s\<lparr>mg_caches := cs\<rparr>) s' = extends P s s'" "extends P (s\<lparr>mg_quiet := q\<rparr>) s' = extends P s s'"
  by (simp_all add: extends_def)

lemma extends_mono: "extends P s s' \<Longrightarrow> (\<And>ev. P ev \<Longrightarrow> Q ev) \<Longrightarrow> extends Q s s'"
  by (auto simp: extends_def list_all_iff)

fun is_exec :: "event \<Rightarrow> bool" where
  "is_exec (EvExec path arg) = (arg = ''info'' \<or> arg = ''post-install'')"
| "is_exec (EvFeatureFlags fs) = True"
| "is_exec ev = False"

text \<open>What an installation of version \<open>v\<close> of \<open>p\<close> may do on platform \<open>pf\<close> with local
  distribution directory \<open>dir\<close>: contact the location of the plugin's artifact if it is trusted,
  write the fetched binary, with the digest the artifact announces, at the path for its digest, and run the two
  commands of the life cycle.\<close>

fun install_event :: "'v lib \<Rightarrow> 'b mgr_env \<Rightarrow> platform \<Rightarrow> string \<Rightarrow> discovered \<Rightarrow> string \<Rightarrow> event \<Rightarrow> bool" where
  "install_event L E pf dir p v (EvFetch loc) =
     (\<exists>a. GetArtifact (d_Distribution p) v (GOOS pf) (GOARCH pf) = Inr a \<and>
        (a_Image a \<noteq> '''' \<and> loc = a_Image a \<and> (\<exists>t \<in> set (trusted_registries E). t \<noteq> '''' \<and> has_prefix loc t) \<or>
         a_Image a = '''' \<and> loc = a_URI a \<and> verifyArtifactLocation E dir loc = None))"
| "install_event L E pf dir p v (EvWrite path b) =
     (\<exists>a. GetArtifact (d_Distribution p) v (GOOS pf) (GOARCH pf) = Inr a \<and>
        Fetch L (files_env E dir) (d_Distribution p) v (GOOS pf) (GOARCH pf) = Inr b \<and>
        (a_Digest a = '''' \<or> a_Digest a = Sha256Hex L b) \<and>
        path = plugin_path E pf p v (Sha256Hex L b))"
| "install_event L E pf dir p v (EvExec path arg) = (arg = ''info'' \<or> arg = ''post-install'')"
| "install_event L E pf dir p v (EvFeatureFlags fs) = True"
| "install_event L E pf dir p v ev = False"

lemma is_exec_install: "is_exec ev \<Longrightarrow> install_event L E pf dir p v ev"
  by (cases ev) auto

lemma trusted_loop_iff: "trusted_loop ts l \<longleftrightarrow> (\<exists>t \<in> set ts. t \<noteq> '''' \<and> has_prefix l t)"
  by (induction ts) auto

lemma describe_extends: "extends is_exec s (fst (describePlugin E p path s))"
  by (auto simp: describePlugin_def exec_plugin_def intro: extends_log split: prod.splits option.splits sum.splits)

lemma cache_extends: "extends is_exec s (fst (getPluginFromCache E p v s))"
  using describe_extends [of s E p]
  by (auto simp: getPluginFromCache_def Let_def split: sum.splits prod.splits) (metis fst_conv)+

lemma update_extends: "extends is_exec s (fst (updatePluginInfoAndInitializePlugin E p plugin s))"
  by (auto simp: updatePluginInfoAndInitializePlugin_def InitializePlugin_def exec_plugin_def Let_def
      intro!: extends_trans [OF extends_log extends_log] split: prod.splits sum.splits)
    (auto simp: extends_def log_event_def)

lemma fetch_extends:
  assumes "fetchAndVerifyPlugin L E p v s = (s1, r)"
  shows "extends (install_event L E (mg_platform s) (mg_distro s) p v) s s1 \<and> mg_files s1 = mg_files s \<and>
    (\<forall>b. r = Inr b \<longrightarrow> install_event L E (mg_platform s) (mg_distro s) p v
         (EvWrite (plugin_path E (mg_platform s) p v (Sha256Hex L b)) b))"
proof (cases "verifyPluginPreDownload E s p v")
  case (Some e)
  with assms show ?thesis by (auto simp: fetchAndVerifyPlugin_def)
next
  case None
  let ?pf = "mg_platform s"
  obtain a where a: "GetArtifact (d_Distribution p) v (GOOS ?pf) (GOARCH ?pf) = Inr a"
    "a_Image a \<noteq> '''' \<and> verifyRegistry E (a_Image a) = None \<or>
     a_Image a = '''' \<and> verifyArtifactLocation E (mg_distro s) (a_URI a) = None"
    using None by (auto simp: verifyPluginPreDownload_def DescribeArtifact_def Let_def split: sum.splits if_splits)
  have ev: "install_event L E ?pf (mg_distro s) p v (EvFetch (artifact_location (d_Distribution p) v ?pf))"
    using a by (auto simp: artifact_location_def verifyRegistry_def trusted_loop_iff split: if_splits)
  have s1: "s1 = log_event (EvFetch (artifact_location (d_Distribution p) v ?pf)) s"
    using assms None by (auto simp: fetchAndVerifyPlugin_def Let_def split: sum.splits option.splits)
  have "install_event L E ?pf (mg_distro s) p v (EvWrite (plugin_path E ?pf p v (Sha256Hex L b)) b)" if "r = Inr b" for b
    using assms None a that
    by (auto simp: fetchAndVerifyPlugin_def verifyPluginPostDownload_def GetDigest_def Let_def
        split: sum.splits option.splits if_splits)
  with ev show ?thesis by (simp add: s1 extends_log del: install_event.simps)
qed

lemma install_extends:
  assumes "P (EvWrite (plugin_path E (mg_platform s) p v (Sha256Hex L b)) b)" "\<And>ev. is_exec ev \<Longrightarrow> P ev"
  shows "extends P s (fst (installAndDescribePlugin L E p v b s))"
proof -
  let ?path = "plugin_path E (mg_platform s) p v (Sha256Hex L b)"
  have w: "extends P s (fst (write_binary E ?path b s))"
    using assms(1) by (auto simp: write_binary_def extends_def log_event_def split: option.splits)
  have d: "extends P s1 (fst (describePlugin E p ?path s1))" for s1
    using describe_extends assms(2) by (rule extends_mono)
  show ?thesis
    using w extends_trans [OF w d]
    by (auto simp: installAndDescribePlugin_def Let_def split: option.splits prod.splits)
qed

lemma verify_install_extends:
  assumes P_def: "P = install_event L E (mg_platform s) (mg_distro s) p v"
  shows "extends P s (fst (verifyInstallAndInitializePlugin L E cached p v False s))"
proof -
  have exec: "is_exec ev \<Longrightarrow> P ev" for ev by (simp add: P_def is_exec_install)
  have upd: "extends P s1 (fst (updatePluginInfoAndInitializePlugin E p plugin s1))" for s1 plugin
    using update_extends exec by (rule extends_mono)
  show ?thesis
  proof (cases cached)
    case (Some plugin)
    with upd show ?thesis by (simp add: verifyInstallAndInitializePlugin_def)
  next
    case None
    obtain s1 r where f: "fetchAndVerifyPlugin L E p v s = (s1, r)" by fastforce
    note fe = fetch_extends [OF f, folded P_def]
    show ?thesis
    proof (cases r)
      case (Inl e)
      with fe None f show ?thesis by (simp add: verifyInstallAndInitializePlugin_def)
    next
      case (Inr b)
      have pf: "mg_platform s1 = mg_platform s" using fe by (simp add: extends_def)
      have inst: "extends P s1 (fst (installAndDescribePlugin L E p v b s1))"
        using fe Inr exec unfolding pf [symmetric] by (intro install_extends) simp_all
      obtain s2 r2 where i: "installAndDescribePlugin L E p v b s1 = (s2, r2)" by fastforce
      have s2: "extends P s s2" using fe inst i extends_trans by fastforce
      show ?thesis
        using s2 extends_trans [OF s2 upd] None f Inr i
        by (cases r2) (simp_all add: verifyInstallAndInitializePlugin_def)
    qed
  qed
qed

lemma install_or_upgrade_extends:
  assumes "installOrUpgradePlugin L E p ver False s = Some (s', r)"
  shows "extends (install_event L E (mg_platform s) (mg_distro s) p (effective_version p ver)) s s'"
proof -
  let ?v = "effective_version p ver" and ?P = "install_event L E (mg_platform s) (mg_distro s) p (effective_version p ver)"
  obtain s1 plugin where c: "getPluginFromCache E p ?v s = (s1, plugin)" by fastforce
  have s1: "extends ?P s s1"
    using cache_extends [of s E p ?v] is_exec_install extends_mono by (metis c fst_conv)
  then have pf: "mg_platform s1 = mg_platform s" "mg_distro s1 = mg_distro s" by (simp_all add: extends_def)
  obtain w where s': "s' = fst (verifyInstallAndInitializePlugin L E plugin p ?v False (s1\<lparr>mg_cat := w\<rparr>))"
  proof (cases "d_ContextName p = ''''")
    case True
    with assms c that show ?thesis
      by (auto simp: installOrUpgradePlugin_def Let_def bind_eq_Some_conv) (metis fst_conv)
  next
    case False
    have "s1 = s1\<lparr>mg_cat := mg_cat s1\<rparr>" by simp
    with False assms c that [of "mg_cat s1"] show ?thesis
      by (auto simp: installOrUpgradePlugin_def Let_def)
  qed
  have "extends ?P (s1\<lparr>mg_cat := w\<rparr>) s'"
    using verify_install_extends [OF refl, where s = "s1\<lparr>mg_cat := w\<rparr>" and L = L and E = E and p = p and v = ?v and cached = plugin]
    unfolding s' by (simp add: pf)
  with extends_trans [OF s1] show ?thesis by simp
qed

section \<open>What an installation executes\<close>

text \<open>Every program that is run is one that may be run from the start, or was written before.\<close>

fun runs_ok :: "(string \<Rightarrow> bool) \<Rightarrow> event list \<Rightarrow> bool" where
  "runs_ok ok [] = True"
| "runs_ok ok (EvExec path arg # evs) = (ok path \<and> runs_ok ok evs)"
| "runs_ok ok (EvWrite path b # evs) = runs_ok (\<lambda>q. ok q \<or> q = path) evs"
| "runs_ok ok (_ # evs) = runs_ok ok evs"

text \<open>The binary in the plugin root at the path for the digest that the artifact of this platform announces.\<close>

definition cached_binary :: "'b mgr_env \<Rightarrow> 'b mgr_state \<Rightarrow> discovered \<Rightarrow> string \<Rightarrow> string \<Rightarrow> bool" where
  "cached_binary E s p v path \<longleftrightarrow> map_of (mg_files s) path \<noteq> None \<and>
     (\<exists>a. GetArtifact (d_Distribution p) v (GOOS (mg_platform s)) (GOARCH (mg_platform s)) = Inr a \<and>
        path = plugin_path E (mg_platform s) p v (a_Digest a))"

lemma describe_trace:
  assumes "describePlugin E p path s = (s1, r)"
  shows "mg_trace s1 = mg_trace s @ [EvExec path ''info''] \<and> (\<forall>plugin. r = Inr plugin \<longrightarrow> pi_InstallationPath plugin = path)"
  using assms by (auto simp: describePlugin_def exec_plugin_def log_event_def split: prod.splits option.splits sum.splits)

lemma cache_trace:
  assumes "getPluginFromCache E p v s = (s1, r)"
  shows "(mg_trace s1 = mg_trace s \<and> r = None) \<or>
    (\<exists>path. cached_binary E s p v path \<and> mg_trace s1 = mg_trace s @ [EvExec path ''info''] \<and>
       (\<forall>plugin. r = Some plugin \<longrightarrow> pi_InstallationPath plugin = path))"
proof (cases "GetArtifact (d_Distribution p) v (GOOS (mg_platform s)) (GOARCH (mg_platform s))")
  case (Inl e)
  with assms show ?thesis by (simp add: getPluginFromCache_def DescribeArtifact_def)
next
  case (Inr a)
  define path where "path = plugin_path E (mg_platform s) p v (a_Digest a)"
  obtain s2 r2 where d: "describePlugin E p path s = (s2, r2)" by fastforce
  show ?thesis
  proof (cases "map_of (mg_files s) path = None")
    case True
    with assms Inr show ?thesis by (simp add: getPluginFromCache_def DescribeArtifact_def path_def)
  next
    case False
    then have c: "cached_binary E s p v path" using Inr by (simp add: cached_binary_def path_def)
    have "s1 = s2 \<and> r = (case r2 of Inl e \<Rightarrow> None | Inr plugin \<Rightarrow> Some plugin)"
      using assms Inr d False unfolding getPluginFromCache_def DescribeArtifact_def
      by (auto simp: path_def [symmetric] Let_def split: sum.splits)
    with describe_trace [OF d] c show ?thesis by (intro disjI2 exI [of _ path]) (auto split: sum.splits)
  qed
qed

lemma update_trace:
  "mg_trace (fst (updatePluginInfoAndInitializePlugin E p plugin s)) = mg_trace s \<or>
   mg_trace (fst (updatePluginInfoAndInitializePlugin E p plugin s)) =
     mg_trace s @ [EvExec (pi_InstallationPath plugin) ''post-install'', EvFeatureFlags (pi_DefaultFeatureFlags plugin)]"
  by (auto simp: updatePluginInfoAndInitializePlugin_def InitializePlugin_def exec_plugin_def Let_def log_event_def
      split: prod.splits sum.splits)

lemma fetch_trace:
  "fetchAndVerifyPlugin L E p v s = (s1, r) \<Longrightarrow>
   mg_trace s1 = mg_trace s @ [] \<or> (\<exists>loc. mg_trace s1 = mg_trace s @ [EvFetch loc])"
  by (auto simp: fetchAndVerifyPlugin_def Let_def log_event_def split: option.splits sum.splits)

lemma install_describe_trace:
  assumes "installAndDescribePlugin L E p v b s = (s1, r)"
  shows "(mg_trace s1 = mg_trace s \<and> isl r) \<or>
    (\<exists>path. mg_trace s1 = mg_trace s @ [EvWrite path b, EvExec path ''info''] \<and>
       (\<forall>plugin. r = Inr plugin \<longrightarrow> pi_InstallationPath plugin = path))"
  using assms describe_trace [of E p]
  by (auto simp: installAndDescribePlugin_def write_binary_def log_event_def Let_def split: option.splits prod.splits)

lemma update_runs_ok:
  assumes "ok (pi_InstallationPath plugin)"
  shows "\<exists>evs. mg_trace (fst (updatePluginInfoAndInitializePlugin E p plugin s)) = mg_trace s @ evs \<and> runs_ok ok evs"
  using update_trace [of E p plugin s] assms by auto

lemma verify_install_runs_ok:
  assumes "\<And>plugin. cached = Some plugin \<Longrightarrow> ok (pi_InstallationPath plugin)"
  shows "\<exists>evs. mg_trace (fst (verifyInstallAndInitializePlugin L E cached p v False s)) = mg_trace s @ evs \<and> runs_ok ok evs"
proof (cases cached)
  case (Some plugin)
  with update_runs_ok [of ok plugin E p s] assms show ?thesis by (simp add: verifyInstallAndInitializePlugin_def)
next
  case None
  obtain s1 r where f: "fetchAndVerifyPlugin L E p v s = (s1, r)" by fastforce
  then obtain fs where fs: "mg_trace s1 = mg_trace s @ fs" "fs = [] \<or> (\<exists>loc. fs = [EvFetch loc])" using fetch_trace by blast
  show ?thesis
  proof (cases r)
    case (Inl e)
    with None f fs show ?thesis by (auto simp: verifyInstallAndInitializePlugin_def)
  next
    case (Inr b)
    obtain s2 r2 where i: "installAndDescribePlugin L E p v b s1 = (s2, r2)" by fastforce
    show ?thesis
    proof (cases r2)
      case (Inl e)
      with None f fs Inr i install_describe_trace [OF i] show ?thesis by (auto simp: verifyInstallAndInitializePlugin_def)
    next
      case (Inr plugin)
      with install_describe_trace [OF i] obtain path where path: "mg_trace s2 = mg_trace s1 @ [EvWrite path b, EvExec path ''info'']"
          "pi_InstallationPath plugin = path" by auto
      obtain evs where evs: "mg_trace (fst (updatePluginInfoAndInitializePlugin E p plugin s2)) = mg_trace s2 @ evs"
          "runs_ok (\<lambda>q. ok q \<or> q = path) evs"
        using update_runs_ok [of "\<lambda>q. ok q \<or> q = path" plugin E p s2] path(2) by auto
      have "runs_ok ok (fs @ [EvWrite path b, EvExec path ''info''] @ evs)" using fs(2) evs(2) by auto
      moreover have "mg_trace (fst (verifyInstallAndInitializePlugin L E cached p v False s)) =
          mg_trace s @ fs @ [EvWrite path b, EvExec path ''info''] @ evs"
        using None f \<open>r = Inr b\<close> i Inr fs(1) path(1) evs(1) by (simp add: verifyInstallAndInitializePlugin_def)
      ultimately show ?thesis by blast
    qed
  qed
qed

lemma install_or_upgrade_runs_ok:
  assumes "installOrUpgradePlugin L E p ver False s = Some (s', r)"
  shows "\<exists>evs. mg_trace s' = mg_trace s @ evs \<and> runs_ok (cached_binary E s p (effective_version p ver)) evs"
proof -
  let ?v = "effective_version p ver"
  obtain s1 cached where c: "getPluginFromCache E p ?v s = (s1, cached)" by fastforce
  obtain w where s': "s' = fst (verifyInstallAndInitializePlugin L E cached p ?v False (s1\<lparr>mg_cat := w\<rparr>))"
  proof (cases "d_ContextName p = ''''")
    case True
    with assms c that show ?thesis
      by (auto simp: installOrUpgradePlugin_def Let_def bind_eq_Some_conv) (metis fst_conv)
  next
    case False
    have "s1 = s1\<lparr>mg_cat := mg_cat s1\<rparr>" by simp
    with False assms c that [of "mg_cat s1"] show ?thesis
      by (auto simp: installOrUpgradePlugin_def Let_def)
  qed
  obtain es where es: "mg_trace s1 = mg_trace s @ es" "runs_ok (cached_binary E s p ?v) es" "\<forall>ev \<in> set es. \<exists>path. ev = EvExec path ''info''"
      "\<And>plugin. cached = Some plugin \<Longrightarrow> cached_binary E s p ?v (pi_InstallationPath plugin)"
    using cache_trace [OF c] by (elim disjE exE conjE) (auto intro!: that)
  have app: "runs_ok ok (es @ evs) \<longleftrightarrow> runs_ok ok es \<and> runs_ok ok evs" for ok evs
    using es(3) by (induction es) auto
  from verify_install_runs_ok [of cached "cached_binary E s p ?v" L E p ?v "s1\<lparr>mg_cat := w\<rparr>"] es(4)
  obtain evs where "mg_trace s' = mg_trace s1 @ evs" "runs_ok (cached_binary E s p ?v) evs" using s' by auto
  with es(1,2) app show ?thesis by (intro exI [of _ "es @ evs"]) simp
qed

text \<open>C2 (safety): whatever its result, an installation only contacts the location of the plugin's own
  artifact, and only if the registry or location is trusted; it only writes the binary it fetched, at
  the path named by the binary's digest, and only if the digest is the one the artifact announces (or
  the artifact announces none). It executes only a binary it has written before, in this installation and so after
  that verification, or the one that was in the plugin root from the start at the path for the announced digest; and
  that only to describe the plugin and after its installation.\<close>

theorem install_effects_verified:
  assumes "installOrUpgradePlugin L E p ver False s = Some (s', r)"
  shows "\<exists>evs. mg_trace s' = mg_trace s @ evs \<and>
    list_all (install_event L E (mg_platform s) (mg_distro s) p (effective_version p ver)) evs \<and>
    runs_ok (cached_binary E s p (effective_version p ver)) evs"
  using install_or_upgrade_extends [OF assms] install_or_upgrade_runs_ok [OF assms] by (auto simp: extends_def)

section \<open>Installing by name\<close>

fun trusted_event :: "'b mgr_env \<Rightarrow> string \<Rightarrow> event \<Rightarrow> bool" where
  "trusted_event E dir (EvFetch loc) =
     ((\<exists>t \<in> set (trusted_registries E). t \<noteq> '''' \<and> has_prefix loc t) \<or> verifyArtifactLocation E dir loc = None)"
| "trusted_event E dir ev = True"

lemma install_trusted: "install_event L E pf dir p v ev \<Longrightarrow> trusted_event E dir ev"
  by (cases ev) auto

definition plain_platform :: "platform \<Rightarrow> bool" where
  "plain_platform pf \<longleftrightarrow> CHR ''_'' \<notin> set (GOOS pf) \<and> CHR ''_'' \<notin> set (GOARCH pf)"

lemma selected_extends:
  assumes "install_selected L E n v t c ps errs s = Some (s', r)"
  shows "extends (trusted_event E (mg_distro s)) s s'"
proof -
  have inst: "extends (trusted_event E (mg_distro s)) s s''"
    if "installOrUpgradePlugin L E p ver False s = Some (s'', r')" for p ver s'' r'
    using install_or_upgrade_extends [OF that] install_trusted by (rule extends_mono)
  show ?thesis
    using assms inst
    by (auto simp: install_selected_def split: if_splits list.splits option.splits)
qed

lemma discover_for_install_state:
  "discover_for_install L E n v t s = Some (s1, ps, e) \<Longrightarrow> \<exists>cs. s1 = s\<lparr>mg_caches := cs\<rparr>"
  by (auto simp: discover_for_install_def bind_eq_Some_conv)

lemma installPlugin_extends:
  assumes "installPlugin L E n v t c s = Some (s', r)" "plain_platform (mg_platform s)"
  shows "extends (trusted_event E (mg_distro s)) s s'"
proof (cases "length (getPluginDiscoveries E) = 0")
  case True
  with assms(1) show ?thesis by (auto simp: installPlugin_def)
next
  case False
  with assms(1) obtain s1 ps e where d: "discover_for_install L E n v t s = Some (s1, ps, e)"
    and rest: "(case (if length ps = 0 then fallback_platform (mg_platform s1) else None) of
           None \<Rightarrow> install_selected L E n v t c ps (add_err e []) s1
         | Some amd \<Rightarrow> do {
             (s2, ps2, e2) \<leftarrow> discover_for_install L E n v t (s1\<lparr>mg_platform := amd\<rparr>);
             (s3, r) \<leftarrow> install_selected L E n v t c ps2 (add_err e2 (add_err e [])) s2;
             Some (s3\<lparr>mg_platform := SetArch (BuildArch (mg_platform s1))\<rparr>, r)
           }) = Some (s', r)"
    by (auto simp: installPlugin_def bind_eq_Some_conv)
  obtain cs where s1: "s1 = s\<lparr>mg_caches := cs\<rparr>" using discover_for_install_state [OF d] by blast
  show ?thesis
  proof (cases "if length ps = 0 then fallback_platform (mg_platform s1) else None")
    case None
    with rest have "install_selected L E n v t c ps (add_err e []) s1 = Some (s', r)" by simp
    from selected_extends [OF this] show ?thesis by (simp add: s1)
  next
    case (Some amd)
    with rest obtain s2 ps2 e2 s3 where d2: "discover_for_install L E n v t (s1\<lparr>mg_platform := amd\<rparr>) = Some (s2, ps2, e2)"
      and sel: "install_selected L E n v t c ps2 (add_err e2 (add_err e [])) s2 = Some (s3, r)"
      and s': "s' = s3\<lparr>mg_platform := SetArch (BuildArch (mg_platform s1))\<rparr>"
      by (auto simp: bind_eq_Some_conv)
    obtain cs2 where s2: "s2 = s1\<lparr>mg_platform := amd, mg_caches := cs2\<rparr>" using discover_for_install_state [OF d2] by auto
    have "SetArch (BuildArch (mg_platform s)) = mg_platform s"
      using assms(2) by (intro SetArch_BuildArch) (simp_all add: plain_platform_def)
    with selected_extends [OF sel] show ?thesis by (simp add: s' s2 s1 extends_def)
  qed
qed

text \<open>Installing a plugin leaves the platform as it was, also when the plugin was found
  only for the emulated AMD platform, on every path through the function.\<close>

theorem install_restores_platform:
  assumes "installPlugin L E n v t c s = Some (s', r)" "plain_platform (mg_platform s)"
  shows "mg_platform s' = mg_platform s"
  using installPlugin_extends [OF assms] by (simp add: extends_def)

section \<open>Installing groups\<close>

definition group_selected :: "string \<Rightarrow> group_plugin_entry list \<Rightarrow> group_plugin_entry list" where
  "group_selected pluginName plugins =
     filter (\<lambda>p. (pluginName = AllPlugins \<or> pluginName = id_Name p) \<and> gp_Mandatory p) plugins"

text \<open>The results of installing a list of plugins one after the other.\<close>

fun install_results ::
    "'v lib \<Rightarrow> 'b mgr_env \<Rightarrow> group_plugin_entry list \<Rightarrow> 'b mgr_state \<Rightarrow> ('b mgr_state \<times> err option list) option" where
  "install_results L E [] s = Some (s, [])"
| "install_results L E (p # ps) s = do {
     (s1, e) \<leftarrow> InstallStandalonePlugin L E (id_Name p) (id_Version p) (id_Target p) s;
     (s2, es) \<leftarrow> install_results L E ps s1;
     Some (s2, e # es)
   }"

lemma install_results_length: "install_results L E ps s = Some (s', es) \<Longrightarrow> length es = length ps"
  by (induction ps arbitrary: s es) (auto simp: bind_eq_Some_conv)

lemma group_loop_results:
  assumes "group_install_loop L E name ps n s = Some (s', n')"
  shows "\<exists>es. install_results L E (group_selected name ps) s = Some (s', es) \<and>
    numErrors n' = numErrors n + length (filter (\<lambda>e. e \<noteq> None) es) \<and>
    numInstalled n' = numInstalled n + length (filter (\<lambda>e. e = None) es) \<and>
    (mandatoryPluginsExist n' \<longleftrightarrow> mandatoryPluginsExist n \<or> group_selected name ps \<noteq> []) \<and>
    (pluginExist n' \<longleftrightarrow> pluginExist n \<or> (\<exists>p \<in> set ps. name = AllPlugins \<or> name = id_Name p))"
  using assms
proof (induction ps arbitrary: n s)
  case Nil
  then show ?case by (simp add: group_selected_def)
next
  case (Cons p ps)
  show ?case
  proof (cases "(name = AllPlugins \<or> name = id_Name p) \<and> gp_Mandatory p")
    case True
    with Cons.prems obtain s1 e where inst: "InstallStandalonePlugin L E (id_Name p) (id_Version p) (id_Target p) s = Some (s1, e)"
      and rest: "group_install_loop L E name ps
        (let n1 = n\<lparr>pluginExist := True, mandatoryPluginsExist := True\<rparr>
         in if e \<noteq> None then n1\<lparr>numErrors := numErrors n1 + 1\<rparr> else n1\<lparr>numInstalled := numInstalled n1 + 1\<rparr>) s1 = Some (s', n')"
      by (auto simp: bind_eq_Some_conv Let_def)
    from Cons.IH [OF rest] inst True show ?thesis
      by (auto simp: group_selected_def Let_def split: if_splits)
  next
    case False
    then have sel: "group_selected name (p # ps) = group_selected name ps" by (auto simp: group_selected_def)
    from Cons.IH False Cons.prems show ?thesis
      unfolding sel by (cases "name = AllPlugins \<or> name = id_Name p") fastforce+
  qed
qed

text \<open>Installing from a group runs the installation of exactly the mandatory plugins of
  the recommended version that have the requested name (all of them for \<^verbatim>\<open>all\<close>), one after the
  other, going on after failures; it reports success exactly when there is such a plugin and every
  installation succeeded.\<close>

theorem group_install_success_iff:
  assumes "InstallPluginsFromGivenPluginGroup L E name gid pg s = Some (s', g, r)"
    and "sel = group_selected name (get_or [] (g_Versions pg) (g_RecommendedVersion pg))"
  shows "g = gid \<and> (\<exists>es. install_results L E sel s = Some (s', es) \<and>
    (r = None \<longleftrightarrow> sel \<noteq> [] \<and> list_all (\<lambda>e. e = None) es))"
proof -
  let ?ps = "get_or [] (g_Versions pg) (g_RecommendedVersion pg)"
  from assms(1) obtain n where loop: "group_install_loop L E name ?ps group_counts_zero s = Some (s', n)"
    and r: "r = group_result name gid n" "g = gid"
    by (auto simp: InstallPluginsFromGivenPluginGroup_def bind_eq_Some_conv)
  obtain es where es: "install_results L E sel s = Some (s', es)"
    "numErrors n = length (filter (\<lambda>e. e \<noteq> None) es)" "numInstalled n = length (filter (\<lambda>e. e = None) es)"
    "mandatoryPluginsExist n \<longleftrightarrow> sel \<noteq> []" "pluginExist n \<longleftrightarrow> (\<exists>p \<in> set ?ps. name = AllPlugins \<or> name = id_Name p)"
    using group_loop_results [OF loop] assms(2) by (auto simp: group_counts_zero_def)
  have exist: "sel \<noteq> [] \<Longrightarrow> pluginExist n" using es(5) by (auto simp: assms(2) group_selected_def filter_empty_conv)
  have len: "length es = length sel" by (rule install_results_length [OF es(1)])
  have "r = None \<longleftrightarrow> sel \<noteq> [] \<and> list_all (\<lambda>e. e = None) es"
    using es(2-4) exist len
    by (auto simp: r(1) group_result_def list_all_iff filter_empty_conv)
  with es(1) r(2) show ?thesis by blast
qed

lemma install_results_extends:
  assumes "install_results L E ps s = Some (s', es)" "plain_platform (mg_platform s)"
  shows "extends (trusted_event E (mg_distro s)) s s'"
  using assms
proof (induction ps arbitrary: s es)
  case (Cons p ps)
  then obtain s1 e es' where s1: "installPlugin L E (id_Name p) (id_Version p) (id_Target p) '''' s = Some (s1, e)"
    and rest: "install_results L E ps s1 = Some (s', es')"
    by (auto simp: bind_eq_Some_conv InstallStandalonePlugin_def)
  have ext: "extends (trusted_event E (mg_distro s)) s s1" by (rule installPlugin_extends [OF s1 Cons.prems(2)])
  then have "mg_platform s1 = mg_platform s" "mg_distro s1 = mg_distro s" by (simp_all add: extends_def)
  with Cons.IH [OF rest] Cons.prems(2) extends_trans [OF ext] show ?case by simp
qed simp

lemma get_group_extends:
  assumes "GetPluginGroup L E gid options s = Some (s1, r)"
  shows "extends P s s1"
  using assms
  by (auto simp: GetPluginGroup_def with_log_mode_def bind_eq_Some_conv split: prod.splits if_splits option.splits)

text \<open>Installing a whole plugin group contacts trusted registries and locations only and
  leaves the platform as it was, whichever of its plugins fail.\<close>

theorem group_install_trusted:
  assumes "InstallPluginsFromGroup L E name gid options s = Some (s', g, r)" "plain_platform (mg_platform s)"
  shows "\<exists>evs. mg_trace s' = mg_trace s @ evs \<and> list_all (trusted_event E (mg_distro s)) evs \<and>
    mg_platform s' = mg_platform s"
proof -
  from assms(1) obtain s1 q where q: "GetPluginGroup L E gid options s = Some (s1, q)"
    by (auto simp: InstallPluginsFromGroup_def bind_eq_Some_conv)
  have s1: "extends (trusted_event E (mg_distro s)) s s1" by (rule get_group_extends [OF q])
  then have same: "mg_platform s1 = mg_platform s" "mg_distro s1 = mg_distro s" by (simp_all add: extends_def)
  have "extends (trusted_event E (mg_distro s)) s s'"
  proof (cases q)
    case (Inl e)
    with assms(1) q s1 show ?thesis by (simp add: InstallPluginsFromGroup_def)
  next
    case (Inr pg)
    with assms(1) q obtain n where
      "group_install_loop L E name (get_or [] (g_Versions pg) (g_RecommendedVersion pg)) group_counts_zero s1 = Some (s', n)"
      by (auto simp: InstallPluginsFromGroup_def InstallPluginsFromGivenPluginGroup_def bind_eq_Some_conv)
    from group_loop_results [OF this] obtain es sel where "install_results L E sel s1 = Some (s', es)" by blast
    from install_results_extends [OF this] assms(2) same extends_trans [OF s1] show ?thesis by simp
  qed
  then show ?thesis by (auto simp: extends_def)
qed

section \<open>The catalog after an installation\<close>

lemma read_keeps:
  assumes "newContextCatalog Y ctx False w = (w1, r)"
  shows "w1 = w \<or> w1 = w\<lparr>cf_root := True\<rparr>"
  using assms
  by (auto simp: newContextCatalog_def getCatalogCache_def getCatalogCacheBytes_def newSharedCatalog_def
      ensureRoot_def Let_def split: prod.splits sum.splits option.splits if_splits)

text \<open>A catalog file that can be opened, with a well-formed, consistent catalog \<open>c\<close> in it.\<close>

definition catalog_ready :: "'b cat_yaml \<Rightarrow> (string \<Rightarrow> string) \<Rightarrow> catalog \<Rightarrow> 'b cat_fs \<Rightarrow> bool" where
  "catalog_ready Y g c w \<longleftrightarrow> yaml_roundtrip Y \<and> no_faults w \<and> fs_wf w \<and> disk_catalog Y w = Some c \<and>
     catalog_wf c \<and> catalog_consistent c \<and> keyed g c"

lemma ready_root [simp]: "catalog_ready Y g c (w\<lparr>cf_root := True\<rparr>) = catalog_ready Y g c w"
  by (simp add: catalog_ready_def no_faults_def fs_wf_def disk_catalog_def)

lemma IsPluginInstalled_ready:
  assumes "IsPluginInstalled L Y (Inr []) n t v w = Some (w1, b)" "catalog_ready Y g c w"
  shows "catalog_ready Y g c w1"
proof -
  obtain r where "NewContextCatalog Y '''' w = (w1, r)"
    using assms(1)
    by (auto simp: IsPluginInstalled_def GetInstalledPlugins_def MigrateContextPluginsAsStandaloneIfNeeded_def
        split: prod.splits sum.splits)
  then have "w1 = w \<or> w1 = w\<lparr>cf_root := True\<rparr>" unfolding NewContextCatalog_def by (rule read_keeps)
  with assms(2) show ?thesis by auto
qed

lemma update_enters_catalog:
  assumes "catalog_ready (me_yaml E) g c0 (mg_cat s)" "g (pi_InstallationPath plugin) = plugin_key plugin"
    and upd: "updatePluginInfoAndInitializePlugin E p plugin s = (s', r)"
  shows "r = None \<and> (\<exists>w c. NewContextCatalog (me_yaml E) (d_ContextName p) (mg_cat s') = (w, Inr c) \<and>
    cat_lookup (w, c) = spec_cmd (CUpsert plugin) (lookup_in c0 (d_ContextName p)))"
proof -
  let ?Y = "me_yaml E" and ?ctx = "d_ContextName p"
  have ready: "yaml_roundtrip ?Y" "no_faults (mg_cat s)" "fs_wf (mg_cat s)" "disk_catalog ?Y (mg_cat s) = Some c0"
    "catalog_wf c0" "catalog_consistent c0" "keyed g c0" and cmds: "list_all (cmd_keyed g) [CUpsert plugin]"
    using assms(1,2) by (simp_all add: catalog_ready_def)
  have one: "fold (exec_cmd ?Y) [CUpsert plugin] = exec_cmd ?Y (CUpsert plugin)"
    "fold spec_cmd [CUpsert plugin] = spec_cmd (CUpsert plugin)" by (simp_all only: fold_simps id_apply comp_id fun_eq_iff simp_thms)
  from session_run [OF ready cmds, where ctx = ?ctx, unfolded one]
  obtain w1 c1 w2 c2 w3 c3 where run: "NewContextCatalogUpdater ?Y ?ctx (mg_cat s) = (w1, Inr c1)"
    "exec_cmd ?Y (CUpsert plugin) (w1, c1) = (w2, c2)"
    "NewContextCatalog ?Y ?ctx (fst (Unlock w2 c2)) = (w3, Inr c3)"
    "cat_lookup (w3, c3) = spec_cmd (CUpsert plugin) (lookup_in c0 ?ctx)"
    by (elim exE conjE)
  then obtain e where "Upsert ?Y plugin w1 c1 = (w2, c2, e)"
    by (auto simp: cat_upsert_def split: prod.splits)
  with upd run show ?thesis
    by (auto simp: updatePluginInfoAndInitializePlugin_def InitializePlugin_def exec_plugin_def Let_def)
qed

definition described :: "'b mgr_env \<Rightarrow> discovered \<Rightarrow> plugin_info \<Rightarrow> bool" where
  "described E p plugin \<longleftrightarrow>
     pi_Target plugin = d_Target p \<and> pi_DiscoveredRecommendedVersion plugin = d_RecommendedVersion p \<and>
     pi_Discovery plugin = d_Source p \<and> pi_Scope plugin = d_Scope p \<and>
     (\<exists>files out. me_Exec E files (pi_InstallationPath plugin) ''info'' = (out, None) \<and>
        (\<exists>info. me_UnmarshalInfo E out = Inr info \<and> pi_Name plugin = pi_Name info \<and> pi_Version plugin = pi_Version info))"

lemma describe_described:
  assumes "describePlugin E p path s = (s1, Inr plugin)"
  shows "described E p plugin \<and> pi_InstallationPath plugin = path \<and> mg_cat s1 = mg_cat s"
  using assms
  by (auto simp: describePlugin_def exec_plugin_def described_def log_event_def
      split: prod.splits option.splits sum.splits) (metis prod.collapse)+

lemma cache_cat: "mg_cat (fst (getPluginFromCache E p v s)) = mg_cat s"
  by (auto simp: getPluginFromCache_def describePlugin_def exec_plugin_def log_event_def Let_def
      split: sum.splits prod.splits option.splits)

lemma cache_described:
  assumes "getPluginFromCache E p v s = (s1, Some plugin)"
  shows "described E p plugin"
  using assms describe_described [of E p]
  by (auto simp: getPluginFromCache_def Let_def split: sum.splits prod.splits if_splits)

lemma fetch_cat: "mg_cat (fst (fetchAndVerifyPlugin L E p v s)) = mg_cat s"
  by (auto simp: fetchAndVerifyPlugin_def log_event_def Let_def split: sum.splits option.splits)

lemma install_described:
  assumes "installAndDescribePlugin L E p v b s = (s1, Inr plugin)"
  shows "described E p plugin \<and> mg_cat s1 = mg_cat s"
  using assms describe_described [of E p]
  by (auto simp: installAndDescribePlugin_def write_binary_def log_event_def Let_def
      split: sum.splits prod.splits option.splits)

lemma verify_install_plugin:
  assumes "verifyInstallAndInitializePlugin L E cached p v False s = (s', None)"
    "\<And>plugin. cached = Some plugin \<Longrightarrow> described E p plugin"
  obtains s1 plugin where "described E p plugin" "mg_cat s1 = mg_cat s"
    "updatePluginInfoAndInitializePlugin E p plugin s1 = (s', None)"
proof (cases cached)
  case (Some plugin)
  with assms that [of plugin s] show ?thesis by (simp add: verifyInstallAndInitializePlugin_def)
next
  case None
  with assms(1) obtain s1 b s2 plugin where "fetchAndVerifyPlugin L E p v s = (s1, Inr b)"
    "installAndDescribePlugin L E p v b s1 = (s2, Inr plugin)"
    "updatePluginInfoAndInitializePlugin E p plugin s2 = (s', None)"
    by (auto simp: verifyInstallAndInitializePlugin_def Let_def split: prod.splits sum.splits)
  with install_described [of L E p v b s1 s2 plugin] fetch_cat [of L E p v s] that [of plugin s2]
  show ?thesis by simp
qed

text \<open>A successful installation enters the plugin into the catalog: whoever opens the
  catalog of the plugin's context afterwards finds, under the name the installed binary reports and the
  target of the discovered plugin, a plugin with the discovered target, source and recommended version,
  and otherwise the entries that were there before, less the twins of the plugin.\<close>

theorem installed_plugin_is_in_catalog:
  assumes "catalog_ready (me_yaml E) g c0 (mg_cat s)" "me_ActiveContextsList E = Inr []"
    "installOrUpgradePlugin L E p ver False s = Some (s', None)"
    and keyed: "\<And>files path out info. me_Exec E files path ''info'' = (out, None) \<Longrightarrow>
      me_UnmarshalInfo E out = Inr info \<Longrightarrow> g path = PluginNameTarget (pi_Name info) (d_Target p)"
  shows "\<exists>plugin w c. described E p plugin \<and>
    NewContextCatalog (me_yaml E) (d_ContextName p) (mg_cat s') = (w, Inr c) \<and>
    Get c (plugin_key plugin) = (plugin, True) \<and>
    (\<forall>k. k \<noteq> plugin_key plugin \<longrightarrow> k \<notin> set (twin_keys plugin) \<longrightarrow>
       cat_lookup (w, c) k = lookup_in c0 (d_ContextName p) k)"
proof -
  let ?v = "effective_version p ver"
  obtain s1 cached where c: "getPluginFromCache E p ?v s = (s1, cached)" by fastforce
  obtain w where w: "catalog_ready (me_yaml E) g c0 w"
    and run: "verifyInstallAndInitializePlugin L E cached p ?v False (s1\<lparr>mg_cat := w\<rparr>) = (s', None)"
  proof (cases "d_ContextName p = ''''")
    case True
    with assms(2,3) c obtain w b where
      inst: "IsPluginInstalled L (me_yaml E) (Inr []) (d_Name p) (d_Target p) ?v (mg_cat s1) = Some (w, b)"
      and run: "verifyInstallAndInitializePlugin L E cached p ?v False (s1\<lparr>mg_cat := w\<rparr>) = (s', None)"
      by (auto simp: installOrUpgradePlugin_def Let_def bind_eq_Some_conv)
    have "catalog_ready (me_yaml E) g c0 (mg_cat s1)" using assms(1) cache_cat [of E p ?v s] c by simp
    from that [OF IsPluginInstalled_ready [OF inst this] run] show ?thesis .
  next
    case False
    have same: "s1\<lparr>mg_cat := mg_cat s1\<rparr> = s1" by simp
    have "catalog_ready (me_yaml E) g c0 (mg_cat s1)" using assms(1) cache_cat [of E p ?v s] c by simp
    with False assms(3) c that [of "mg_cat s1"] show ?thesis
      unfolding same by (auto simp: installOrUpgradePlugin_def Let_def)
  qed
  obtain s2 plugin where plugin: "described E p plugin" "mg_cat s2 = w"
    "updatePluginInfoAndInitializePlugin E p plugin s2 = (s', None)"
  proof (rule verify_install_plugin [OF run])
    show "described E p plugin" if "cached = Some plugin" for plugin using cache_described c that by simp
  qed (use that in auto)
  have "g (pi_InstallationPath plugin) = plugin_key plugin"
    using plugin(1) keyed unfolding described_def by metis
  from update_enters_catalog [OF w [folded plugin(2)] this plugin(3)]
  obtain w' c where wc: "NewContextCatalog (me_yaml E) (d_ContextName p) (mg_cat s') = (w', Inr c)"
    "cat_lookup (w', c) = spec_cmd (CUpsert plugin) (lookup_in c0 (d_ContextName p))" by blast
  have "Get c (plugin_key plugin) = (plugin, True)"
    using fun_cong [OF wc(2), of "plugin_key plugin"]
    by (auto simp: cat_lookup_def Let_def split: prod.splits if_splits)
  with plugin(1) wc show ?thesis by (intro exI [of _ plugin] exI [of _ w'] exI [of _ c]) simp
qed

section \<open>Witnesses\<close>

definition demo_fetch_env :: fetch_env where
  "demo_fetch_env = demo_env\<lparr>GetFilesMapFromImage := (\<lambda>img. if img = ''t.io/p:v1'' then Inr [(''bin'', ''BIN'')]
     else Inl ErrNotExist)\<rparr>"

definition demo_disc :: "plugin_discovery list \<Rightarrow> disc_env" where
  "demo_disc sources = \<lparr>dv_oci = demo_oci, dv_files = demo_fetch_env, dv_BuildScheme = None,
     dv_DecodeCLIPlugin = (\<lambda>_. Inl ErrNotExist), dv_NewClient = (\<lambda>_ _ _. Inl ErrNotExist),
     dv_NewRequest = (\<lambda>_. None), dv_Do = (\<lambda>_. Inr (200, '''')), dv_DecodePlugins = (\<lambda>_. Inr []),
     dv_DBCacheRefreshThresholdSeconds = 0, dv_CLIDiscoverySources = Inr sources\<rparr>"

definition demo_mgr :: "plugin_discovery list \<Rightarrow> catalog option mgr_env" where
  "demo_mgr sources = \<lparr>me_yaml = mem_yaml, me_disc = demo_disc sources,
     me_build = \<lparr>DefaultAllowedPluginRepositories = ''t.io'', DefaultStandaloneDiscoveryRepository = '''',
        DefaultStandaloneDiscoveryImagePath = '''', DefaultStandaloneDiscoveryImageTag = '''',
        DefaultStandaloneDiscoveryType = '''', DefaultStandaloneDiscoveryLocalPath = ''''\<rparr>,
     me_hostname = (\<lambda>_. None), me_PluginRoot = ''root'', me_MkdirAll = (\<lambda>_. None), me_WriteFile = (\<lambda>_. None),
     me_Exec = (\<lambda>files path arg. ('''', None)),
     me_UnmarshalInfo = (\<lambda>_. Inr (zero_plugin_info\<lparr>pi_Name := ''p'', pi_Version := ''v1.0.0''\<rparr>)),
     me_ActiveContextsList = Inr [], me_ActiveContextsMap = Inr [], me_ActiveContext = (\<lambda>_. Inr None),
     me_FeatureActivated = (\<lambda>_. False), me_GetKubeconfigForContext = (\<lambda>_ _. Inl ErrNotExist),
     me_AskForConfirmation = (\<lambda>_. None), me_UnmarshalManifest = (\<lambda>_. Inl ErrNotExist),
     me_UnmarshalPluginYaml = (\<lambda>_. Inl ErrNotExist), me_Stat = (\<lambda>_. Some ErrNotExist), me_Abs = Inr,
     me_RemoveAll = (\<lambda>_. None), me_CacheDir = ''cache''\<rparr>"

definition demo_mgr_state :: "string \<Rightarrow> string \<Rightarrow> catalog option mgr_state" where
  "demo_mgr_state os arch = \<lparr>mg_platform = \<lparr>GOOS = os, GOARCH = arch\<rparr>, mg_cat = fresh_fs, mg_caches = (\<lambda>_. empty_cache),
     mg_files = [], mg_distro = '''', mg_quiet = False, mg_trace = []\<rparr>"

definition demo_install :: discovered where
  "demo_install = (demo_discovered ''p'' TargetK8s ''v1.0.0'' ''src'')\<lparr>d_Distribution :=
     [(''v1.0.0'', [\<lparr>a_Image = ''t.io/p:v1'', a_URI = '''', a_Digest = ''BIN'', a_OS = ''linux'', a_Arch = ''amd64''\<rparr>])]\<rparr>"

definition rest_src :: plugin_discovery where
  "rest_src = empty_discovery\<lparr>pd_REST := Some \<lparr>rest_Name = ''r'', rest_Endpoint = ''e'', rest_BasePath = ''b''\<rparr>\<rparr>"

lemma demo_ready: "catalog_ready mem_yaml g empty_catalog fresh_fs"
  using mem_yaml_roundtrip fresh_fs_facts empty_catalog_facts by (simp add: catalog_ready_def)

lemma demo_fields [simp]:
  "me_yaml (demo_mgr src) = mem_yaml" "me_ActiveContextsList (demo_mgr src) = Inr []"
  "me_MkdirAll (demo_mgr src) dir = None" "me_WriteFile (demo_mgr src) path = None" "me_Exec (demo_mgr src) fs path arg = ('''', None)"
  "me_UnmarshalInfo (demo_mgr src) out = Inr (zero_plugin_info\<lparr>pi_Name := ''p'', pi_Version := ''v1.0.0''\<rparr>)"
  "mg_cat (demo_mgr_state os arch) = fresh_fs" "mg_platform (demo_mgr_state os arch) = \<lparr>GOOS = os, GOARCH = arch\<rparr>"
  "mg_trace (demo_mgr_state os arch) = []" "mg_distro (demo_mgr_state os arch) = ''''" "mg_files (demo_mgr_state os arch) = []"
  by (simp_all add: demo_mgr_def demo_mgr_state_def)

lemma demo_install_runs:
  "\<exists>s'. installOrUpgradePlugin dotted_lib (demo_mgr []) demo_install '''' False (demo_mgr_state ''linux'' ''amd64'') = Some (s', None)"
proof -
  let ?E = "demo_mgr []" and ?s = "demo_mgr_state ''linux'' ''amd64''" and ?p = demo_install
  have v: "effective_version ?p '''' = ''v1.0.0''" and ctx: "d_ContextName ?p = ''''"
    by (simp_all add: effective_version_def demo_install_def demo_discovered_def zero_discovered_def)
  have art: "GetArtifact (d_Distribution ?p) ''v1.0.0'' ''linux'' ''amd64'' =
      Inr \<lparr>a_Image = ''t.io/p:v1'', a_URI = '''', a_Digest = ''BIN'', a_OS = ''linux'', a_Arch = ''amd64''\<rparr>"
    by (simp add: GetArtifact_def demo_install_def)
  have cache: "getPluginFromCache ?E ?p ''v1.0.0'' ?s = (?s, None)"
    by (simp add: getPluginFromCache_def DescribeArtifact_def art)
  obtain w b where w: "IsPluginInstalled dotted_lib mem_yaml (Inr []) (d_Name ?p) (d_Target ?p) ''v1.0.0'' fresh_fs = Some (w, b)"
    "catalog_ready mem_yaml (\<lambda>_. ''p_kubernetes'') empty_catalog w"
  proof -
    obtain w1 r where "NewContextCatalog mem_yaml '''' fresh_fs = (w1, r)" by fastforce
    then have "\<exists>b. IsPluginInstalled dotted_lib mem_yaml (Inr []) (d_Name ?p) (d_Target ?p) ''v1.0.0'' fresh_fs = Some (w1, b)"
      by (cases r) (auto simp: IsPluginInstalled_def GetInstalledPlugins_def MigrateContextPluginsAsStandaloneIfNeeded_def)
    then obtain b where inst: "IsPluginInstalled dotted_lib mem_yaml (Inr []) (d_Name ?p) (d_Target ?p) ''v1.0.0'' fresh_fs = Some (w1, b)"
      by blast
    from that [OF inst IsPluginInstalled_ready [OF inst demo_ready]] show ?thesis .
  qed
  let ?s1 = "?s\<lparr>mg_cat := w\<rparr>"
  have sha: "Sha256Hex dotted_lib b = b" for b by (simp add: dotted_lib_def)
  have "verifyPluginPreDownload ?E ?s1 ?p ''v1.0.0'' = None"
    by (simp add: verifyPluginPreDownload_def DescribeArtifact_def art verifyRegistry_def trusted_loop_iff
        trusted_registries_def GetTrustedRegistries_def trim_space_def demo_mgr_def has_prefix_def is_space_def
        GetAdditionalTestDiscoveryImages_def)
  moreover have "Fetch dotted_lib (files_env ?E '''') (d_Distribution ?p) ''v1.0.0'' ''linux'' ''amd64'' = Inr ''BIN''"
    by (simp add: Fetch_def art OCIArtifact_Fetch_def files_env_def demo_mgr_def demo_disc_def demo_fetch_env_def
        range_keys_def keys_of_def dotted_lib_def get_or_def)
  ultimately have "\<exists>s2. fetchAndVerifyPlugin dotted_lib ?E ?p ''v1.0.0'' ?s1 = (s2, Inr ''BIN'') \<and> mg_cat s2 = w"
    by (simp add: fetchAndVerifyPlugin_def GetDigest_def art verifyPluginPostDownload_def sha Let_def log_event_def)
  then obtain s2 where s2: "fetchAndVerifyPlugin dotted_lib ?E ?p ''v1.0.0'' ?s1 = (s2, Inr ''BIN'')" "mg_cat s2 = w" by blast
  have "\<exists>s3 plugin. installAndDescribePlugin dotted_lib ?E ?p ''v1.0.0'' ''BIN'' s2 = (s3, Inr plugin) \<and>
      plugin_key plugin = ''p_kubernetes''"
    by (simp add: installAndDescribePlugin_def write_binary_def describePlugin_def exec_plugin_def Let_def)
      (simp add: PluginNameTarget_def demo_install_def demo_discovered_def)
  then obtain s3 plugin where s3: "installAndDescribePlugin dotted_lib ?E ?p ''v1.0.0'' ''BIN'' s2 = (s3, Inr plugin)"
    "plugin_key plugin = ''p_kubernetes''" by blast
  obtain s' r where upd: "updatePluginInfoAndInitializePlugin ?E ?p plugin s3 = (s', r)" by fastforce
  have "mg_cat s3 = w" using install_described [OF s3(1)] s2(2) by simp
  with w(2) have "catalog_ready (me_yaml ?E) (\<lambda>_. ''p_kubernetes'') empty_catalog (mg_cat s3)" by simp
  from update_enters_catalog [OF this _ upd] s3(2) have "r = None" by simp
  with upd s2(1) s3(1) show ?thesis
    by (simp add: installOrUpgradePlugin_def v ctx cache w(1) verifyInstallAndInitializePlugin_def)
qed

theorem install_effects_verified_witness:
  "\<exists>s' evs. installOrUpgradePlugin dotted_lib (demo_mgr []) demo_install '''' False (demo_mgr_state ''linux'' ''amd64'') = Some (s', None) \<and>
     mg_trace s' = evs \<and>
     list_all (install_event dotted_lib (demo_mgr []) \<lparr>GOOS = ''linux'', GOARCH = ''amd64''\<rparr> '''' demo_install
       (effective_version demo_install '''')) evs \<and>
     runs_ok (\<lambda>_. False) evs"
proof -
  obtain s' where run: "installOrUpgradePlugin dotted_lib (demo_mgr []) demo_install '''' False (demo_mgr_state ''linux'' ''amd64'') = Some (s', None)"
    using demo_install_runs by blast
  have "\<not> cached_binary (demo_mgr []) (demo_mgr_state ''linux'' ''amd64'') demo_install v path" for v path
    by (simp add: cached_binary_def)
  then have "cached_binary (demo_mgr []) (demo_mgr_state ''linux'' ''amd64'') demo_install (effective_version demo_install '''') = (\<lambda>_. False)"
    by auto
  with install_effects_verified [OF run] run show ?thesis by auto
qed

theorem installed_plugin_is_in_catalog_witness:
  "\<exists>s' plugin w c. installOrUpgradePlugin dotted_lib (demo_mgr []) demo_install '''' False (demo_mgr_state ''linux'' ''amd64'') = Some (s', None) \<and>
     NewContextCatalog mem_yaml '''' (mg_cat s') = (w, Inr c) \<and> Get c (plugin_key plugin) = (plugin, True) \<and>
     pi_Target plugin = TargetK8s"
proof -
  obtain s' where run: "installOrUpgradePlugin dotted_lib (demo_mgr []) demo_install '''' False (demo_mgr_state ''linux'' ''amd64'') = Some (s', None)"
    using demo_install_runs by blast
  have p: "d_ContextName demo_install = ''''" "d_Target demo_install = TargetK8s"
    by (simp_all add: demo_install_def demo_discovered_def zero_discovered_def)
  have ready: "catalog_ready (me_yaml (demo_mgr [])) (\<lambda>_. ''p_kubernetes'') empty_catalog (mg_cat (demo_mgr_state ''linux'' ''amd64''))"
    using demo_ready by simp
  have "\<exists>plugin w c. described (demo_mgr []) demo_install plugin \<and>
      NewContextCatalog (me_yaml (demo_mgr [])) (d_ContextName demo_install) (mg_cat s') = (w, Inr c) \<and>
      Get c (plugin_key plugin) = (plugin, True) \<and>
      (\<forall>k. k \<noteq> plugin_key plugin \<longrightarrow> k \<notin> set (twin_keys plugin) \<longrightarrow>
         cat_lookup (w, c) k = lookup_in empty_catalog (d_ContextName demo_install) k)"
  proof (rule installed_plugin_is_in_catalog [OF ready _ run])
    fix files path out info
    assume "me_UnmarshalInfo (demo_mgr []) out = Inr info"
    then show "''p_kubernetes'' = PluginNameTarget (pi_Name info) (d_Target demo_install)"
      by (auto simp: demo_mgr_def p PluginNameTarget_def)
  qed simp
  then show ?thesis using run p by (auto simp: described_def)
qed

lemma demo_no_plugins:
  "discover_for_install dotted_lib (demo_mgr [rest_src]) n v t s = Some (s\<lparr>mg_caches := mg_caches s\<rparr>, [], None)"
proof -
  have d: "getPluginDiscoveries (demo_mgr [rest_src]) = [rest_src]"
    by (simp add: getPluginDiscoveries_def GetAdditionalTestPluginDiscoveries_def GetAdditionalTestDiscoveryImages_def
        demo_mgr_def demo_disc_def demo_oci_def getenv_def trim_space_def)
  have "discover_plugins_loop dotted_lib (at_distro dir (me_disc (demo_mgr [rest_src]))) opts [rest_src] cs [] [] = Some (cs, [], [])" for dir opts cs
    by (simp add: rest_src_def empty_discovery_def CreateDiscoveryFromV1alpha1_def REST_List_def doRequest_def
        at_distro_def demo_mgr_def demo_disc_def)
  then show ?thesis
    by (simp add: discover_for_install_def discoverSpecificPlugins_def d dotted_lib_def)
qed

theorem install_restores_platform_witness:
  "\<exists>s' e. installPlugin dotted_lib (demo_mgr [rest_src]) ''p'' '''' '''' '''' (demo_mgr_state ''darwin'' ''arm64'') = Some (s', Some e) \<and>
     mg_platform s' = \<lparr>GOOS = ''darwin'', GOARCH = ''arm64''\<rparr>"
proof -
  have d: "getPluginDiscoveries (demo_mgr [rest_src]) \<noteq> []"
    by (simp add: getPluginDiscoveries_def demo_mgr_def demo_disc_def)
  have agg: "NewAggregate dotted_lib (es @ [e]) = Some (Aggregate (es @ [e]))" for es e by (simp add: dotted_lib_def)
  obtain s' e where run: "installPlugin dotted_lib (demo_mgr [rest_src]) ''p'' '''' '''' '''' (demo_mgr_state ''darwin'' ''arm64'') = Some (s', Some e)"
    by (simp add: installPlugin_def demo_no_plugins d fallback_platform_def BuildArch_def install_selected_def
        agg [of "add_err e es" for e es] agg)
  have "plain_platform (mg_platform (demo_mgr_state ''darwin'' ''arm64''))" by (simp add: plain_platform_def)
  from install_restores_platform [OF run this] run show ?thesis by auto
qed

lemma demo_no_sources: "getPluginDiscoveries (demo_mgr []) = []"
  by (simp add: getPluginDiscoveries_def GetAdditionalTestPluginDiscoveries_def GetAdditionalTestDiscoveryImages_def
      demo_mgr_def demo_disc_def demo_oci_def getenv_def trim_space_def)

theorem group_install_success_iff_witness:
  "\<exists>s' g r es. InstallPluginsFromGivenPluginGroup dotted_lib (demo_mgr []) AllPlugins ''v-p/g:v1.0.0'' (demo_group ''v1.0.0'' ''a'')
       (demo_mgr_state ''linux'' ''amd64'') = Some (s', g, r) \<and> r \<noteq> None \<and> es = [Some errorNoDiscoverySourcesFound]"
proof -
  let ?s = "demo_mgr_state ''linux'' ''amd64''"
  let ?sel = "group_selected AllPlugins (get_or [] (g_Versions (demo_group ''v1.0.0'' ''a'')) (g_RecommendedVersion (demo_group ''v1.0.0'' ''a'')))"
  obtain s' g r where run: "InstallPluginsFromGivenPluginGroup dotted_lib (demo_mgr []) AllPlugins ''v-p/g:v1.0.0''
      (demo_group ''v1.0.0'' ''a'') ?s = Some (s', g, r)"
    by (simp add: InstallPluginsFromGivenPluginGroup_def demo_group_def get_or_def InstallStandalonePlugin_def
        installPlugin_def demo_no_sources)
  have "install_results dotted_lib (demo_mgr []) ?sel ?s = Some (?s, [Some errorNoDiscoverySourcesFound])"
    by (simp add: demo_group_def get_or_def group_selected_def InstallStandalonePlugin_def installPlugin_def demo_no_sources)
  with group_install_success_iff [OF run refl] run show ?thesis by auto
qed

theorem group_install_trusted_witness:
  "\<exists>s' g r. InstallPluginsFromGroup dotted_lib (demo_mgr []) AllPlugins ''v-p/g'' [DisableLogs]
       (demo_mgr_state ''linux'' ''amd64'') = Some (s', g, r) \<and> mg_platform s' = \<lparr>GOOS = ''linux'', GOARCH = ''amd64''\<rparr>"
proof -
  obtain s' g r where run: "InstallPluginsFromGroup dotted_lib (demo_mgr []) AllPlugins ''v-p/g'' [DisableLogs]
       (demo_mgr_state ''linux'' ''amd64'') = Some (s', g, r)"
    using that by (cases "SetLogMode (me_environ (demo_mgr [])) (NewPluginManagerOpts [DisableLogs])")
      (simp add: InstallPluginsFromGroup_def GetPluginGroup_def with_log_mode_def demo_no_sources)
  have "plain_platform (mg_platform (demo_mgr_state ''linux'' ''amd64''))" by (simp add: plain_platform_def)
  from group_install_trusted [OF run this] run show ?thesis by auto
qed

end
