(* ===== verification/Manager_Local_Correct.thy ===== *)
theory Manager_Local_Correct
  imports Manager_Local Manager_Install_Correct
begin

text \<open>
  Correctness of \<open>Manager_Local\<close>: what a deletion removes from the catalogs of all active contexts,
  that a refused deletion changes nothing, and what the installation from a local directory and the
  check of a plugin group report.
\<close>

section \<open>Deleting\<close>

text \<open>A catalog file that can be opened and holds the well-formed, consistent catalog \<open>c\<close>.\<close>

definition catalog_open :: "'b cat_yaml \<Rightarrow> catalog \<Rightarrow> 'b cat_fs \<Rightarrow> bool" where
  "catalog_open Y c w \<longleftrightarrow> yaml_roundtrip Y \<and> no_faults w \<and> fs_wf w \<and> disk_catalog Y w = Some c \<and>
     catalog_wf c \<and> catalog_consistent c"

lemma list_plugins_set:
  assumes "range_law L" "catalog_wf c" "catalog_consistent c"
  shows "set (List_plugins L \<lparr>cc_shared = with_context ctx c, cc_context = ctx, cc_locked = lk\<rparr>) =
    {p. \<exists>k. lookup_in c ctx k = Some p}" (is "?A = ?B")
proof -
  have keys: "set (range_keys L (assoc_of c ctx)) = dom (map_of (assoc_of c ctx))"
    using arg_cong [OF range_keys_mset [OF assms(1), of "assoc_of c ctx"], of set_mset]
    by (simp add: keys_of_def dom_map_of_conv_image_fst)
  have entry: "lookup_in c ctx k = Some (get_or zero_plugin_info (IndexByPath c) (PA_Get (assoc_of c ctx) k))"
    if k: "map_of (assoc_of c ctx) k = Some path" for k path
  proof -
    obtain p where "map_of (IndexByPath c) path = Some p"
      by (rule consistent_entry [OF consistent_assoc_of [OF assms(3)] map_of_SomeD [OF k]])
    with k show ?thesis by (simp add: lookup_in_def PA_Get_def get_or_def)
  qed
  have "lookup_in c ctx k = Some p \<longleftrightarrow>
      k \<in> dom (map_of (assoc_of c ctx)) \<and> p = get_or zero_plugin_info (IndexByPath c) (PA_Get (assoc_of c ctx) k)" for k p
    by (cases "map_of (assoc_of c ctx) k") (auto simp: entry, simp_all add: lookup_in_def)
  then show ?thesis by (auto simp: List_plugins_def cc_plugins_def keys)
qed

lemma delete_keys_facts:
  assumes "cat_inv Y (w, c)" "fs_wf w" "disk_catalog Y w = Some d" "catalog_wf d" "catalog_consistent d"
    "lookup_in d = lookup_in (cc_shared c)"
  shows "\<exists>w' c' d'. delete_keys_loop Y ps w c errs = (w', c', errs) \<and>
    cat_inv Y (w', c') \<and> fs_wf w' \<and> disk_catalog Y w' = Some d' \<and> catalog_wf d' \<and> catalog_consistent d' \<and>
    lookup_in d' = lookup_in (cc_shared c') \<and> cf_handles w' = cf_handles w \<and> cc_context c' = cc_context c \<and>
    (\<forall>ctx k. lookup_in d' ctx k =
       (if ctx = cc_context c \<and> k \<in> plugin_key ` set ps then None else lookup_in d ctx k))"
  using assms
proof (induction ps arbitrary: w c d)
  case Nil
  then show ?case by auto
next
  case (Cons p ps)
  let ?k = "plugin_key p"
  let ?sh = "delete_catalog (cc_context c) ?k (cc_shared c)"
  let ?c1 = "c\<lparr>cc_shared := ?sh\<rparr>"
  obtain w1 where w1: "Delete Y ?k w c = (w1, ?c1, None)" "no_faults w1" "cf_file w1 \<noteq> None"
    "cf_handles w1 = cf_handles w" "cf_dir w1 = cf_dir w" "disk_catalog Y w1 = Some ?sh"
    using cat_delete_facts [OF Cons.prems(1), of ?k] by auto
  have inv: "cat_inv Y (w1, ?c1)"
    using cat_delete_inv [OF Cons.prems(1), of ?k] w1(1) by (simp add: cat_delete_def)
  have wf: "fs_wf w1" using Cons.prems(1,2) w1(5) by (auto simp: fs_wf_def cat_inv_def)
  have sh: "catalog_wf ?sh" "catalog_consistent ?sh" using inv by (simp_all add: cat_inv_def)
  from Cons.IH [OF inv wf w1(6) sh] obtain w' c' d' where
    IH: "delete_keys_loop Y ps w1 ?c1 errs = (w', c', errs)" "cat_inv Y (w', c')" "fs_wf w'" "disk_catalog Y w' = Some d'"
      "catalog_wf d'" "catalog_consistent d'" "lookup_in d' = lookup_in (cc_shared c')" "cf_handles w' = cf_handles w1"
      "cc_context c' = cc_context c"
      "\<forall>ctx k. lookup_in d' ctx k = (if ctx = cc_context c \<and> k \<in> plugin_key ` set ps then None else lookup_in ?sh ctx k)"
    by auto
  have "\<forall>ctx k. lookup_in d' ctx k =
      (if ctx = cc_context c \<and> k \<in> plugin_key ` set (p # ps) then None else lookup_in d ctx k)"
    using IH(10) Cons.prems(6) by (auto simp: lookup_in_delete)
  with IH w1(1,4) show ?case by (intro exI [of _ w'] exI [of _ c'] exI [of _ d']) simp
qed

lemma delete_catalogs_facts:
  assumes "catalog_open Y c w"
  shows "\<exists>w' c'. delete_catalogs_loop Y ps names w errs = (w', errs) \<and> catalog_open Y c' w' \<and>
    cf_handles w' = cf_handles w \<and>
    (\<forall>ctx k. lookup_in c' ctx k = (if ctx \<in> set names \<and> k \<in> plugin_key ` set ps then None else lookup_in c ctx k))"
  using assms
proof (induction names arbitrary: w c)
  case Nil
  then show ?case by auto
next
  case (Cons n names)
  from Cons.prems have op: "yaml_roundtrip Y" "no_faults w" "fs_wf w" "disk_catalog Y w = Some c"
    and c: "catalog_wf c" "catalog_consistent c" by (simp_all add: catalog_open_def)
  let ?cc = "\<lparr>cc_shared = with_context n c, cc_context = n, cc_locked = True\<rparr>"
  obtain w1 where w1: "newContextCatalog Y n True w = (w1, Inr ?cc)" "no_faults w1" "fs_wf w1" "cf_file w1 \<noteq> None"
    "cf_handles w1 = Suc (cf_handles w)" "disk_catalog Y w1 = Some c"
    by (rule open_locked [OF op])
  have inv: "cat_inv Y (w1, ?cc)" using op(1) w1(2,4) c
    by (simp add: cat_inv_def with_context_wf with_context_consistent)
  obtain w2 c2 d where d: "delete_keys_loop Y ps w1 ?cc errs = (w2, c2, errs)" "cat_inv Y (w2, c2)" "fs_wf w2"
    "disk_catalog Y w2 = Some d" "catalog_wf d" "catalog_consistent d" "cf_handles w2 = cf_handles w1"
    "\<forall>ctx k. lookup_in d ctx k = (if ctx = n \<and> k \<in> plugin_key ` set ps then None else lookup_in c ctx k)"
    using delete_keys_facts [OF inv w1(3,6) c, of ps errs] by auto
  have un: "fst (Unlock w2 c2) = lockedfile_Close w2" using d(2) by (simp add: cat_inv_def Unlock_def)
  have "catalog_open Y d (lockedfile_Close w2)"
    using d(2-6) by (simp add: catalog_open_def cat_inv_def lockedfile_Close_def no_faults_def fs_wf_def disk_catalog_def)
  from Cons.IH [OF this] obtain w' c' where
    IH: "delete_catalogs_loop Y ps names (lockedfile_Close w2) errs = (w', errs)" "catalog_open Y c' w'"
      "cf_handles w' = cf_handles (lockedfile_Close w2)"
      "\<forall>ctx k. lookup_in c' ctx k = (if ctx \<in> set names \<and> k \<in> plugin_key ` set ps then None else lookup_in d ctx k)"
    by blast
  have "delete_catalogs_loop Y ps (n # names) w errs = (w', errs)"
    using w1(1) d(1) IH(1) un by (simp add: NewContextCatalogUpdater_def)
  moreover have "\<forall>ctx k. lookup_in c' ctx k =
      (if ctx \<in> set (n # names) \<and> k \<in> plugin_key ` set ps then None else lookup_in c ctx k)"
    using IH(4) d(8) by simp
  ultimately show ?case using IH(2,3) d(7) w1(5) by (intro exI [of _ w'] exI [of _ c']) (simp add: lockedfile_Close_def)
qed

lemma match_catalogs_facts:
  assumes "catalog_open Y c w" "range_law L"
  shows "\<exists>w' ms. match_catalogs_loop L Y opts names w matched = (w', matched @ ms) \<and> catalog_open Y c w' \<and>
    cf_handles w' = cf_handles w \<and>
    set ms = {p. \<exists>n \<in> set names. \<exists>k. lookup_in c n k = Some p \<and> delete_match opts p}"
  using assms(1)
proof (induction names arbitrary: w matched)
  case Nil
  then show ?case by auto
next
  case (Cons n names)
  from Cons.prems have op: "no_faults w" "disk_catalog Y w = Some c" and c: "catalog_wf c" "catalog_consistent c"
    by (simp_all add: catalog_open_def)
  let ?cc = "\<lparr>cc_shared = with_context n c, cc_context = n, cc_locked = False\<rparr>"
  obtain w1 where w1: "newContextCatalog Y n False w = (w1, Inr ?cc)" "cf_handles w1 = cf_handles w"
    by (rule open_read [OF op])
  have "catalog_open Y c w1"
    using read_keeps [OF w1(1)] Cons.prems
    by (auto simp: catalog_open_def no_faults_def fs_wf_def disk_catalog_def)
  from Cons.IH [OF this, of "matched @ filter (delete_match opts) (List_plugins L ?cc)"] w1
    list_plugins_set [OF assms(2) c, of n False]
  show ?case by (auto simp: NewContextCatalog_def)
qed

definition deletable :: "catalog \<Rightarrow> string list \<Rightarrow> delete_options \<Rightarrow> plugin_info set" where
  "deletable c names opts = {p. \<exists>n \<in> set names. \<exists>k. lookup_in c n k = Some p \<and> delete_match opts p}"

text \<open>The confirmation the user is asked for, with the target of the plugin when a single plugin is deleted.\<close>

definition confirmed :: "'b mgr_env \<Rightarrow> delete_options \<Rightarrow> plugin_info set \<Rightarrow> bool" where
  "confirmed E opts M \<longleftrightarrow> do_ForceDelete opts \<or>
     (\<exists>p \<in> M. me_AskForConfirmation E
        (confirmation_text opts (if do_PluginName opts \<noteq> AllPlugins then pi_Target p else '''')) = None)"

lemma fold_log_cat [simp]: "mg_cat (fold (\<lambda>q. log_event (ev q)) ps s) = mg_cat s"
  by (induction ps arbitrary: s) (auto simp: log_event_def)

lemma log_event_cat [simp]: "mg_cat (log_event ev s) = mg_cat s"
  by (simp add: log_event_def)

text \<open>C7 (functional): deleting a plugin succeeds exactly when some entry of the catalogs of the active
  contexts or of the stand-alone catalog matches, all matches have one target (unless all plugins are
  deleted) and the deletion is forced or confirmed. It then removes the keys of the matching plugins
  from all these catalogs and nothing else; a deletion that is refused or finds nothing changes no
  catalog. The lock is released in every case.\<close>

theorem delete_removes_exactly:
  assumes "catalog_open (me_yaml E) c (mg_cat s)" "me_ActiveContextsList E = Inr ctxs" "range_law L" "aggregate_law L"
    and "DeletePlugin L E opts s = (s', r)" "M = deletable c (ctxs @ ['''']) opts"
  shows "(r = None \<longleftrightarrow> M \<noteq> {} \<and> (do_PluginName opts = AllPlugins \<or> (\<exists>t. \<forall>p \<in> M. pi_Target p = t)) \<and> confirmed E opts M) \<and>
    (\<exists>c'. catalog_open (me_yaml E) c' (mg_cat s') \<and> cf_handles (mg_cat s') = cf_handles (mg_cat s) \<and>
      (\<forall>ctx k. lookup_in c' ctx k =
         (if r = None \<and> ctx \<in> set (ctxs @ ['''']) \<and> k \<in> plugin_key ` M then None else lookup_in c ctx k)))"
proof -
  let ?Y = "me_yaml E" and ?names = "ctxs @ ['''']"
  obtain w1 ms where m: "match_catalogs_loop L ?Y opts ?names (mg_cat s) [] = (w1, ms)"
    "catalog_open ?Y c w1" "cf_handles w1 = cf_handles (mg_cat s)" "set ms = M"
    using match_catalogs_facts [OF assms(1,3), of opts ?names "[]"] assms(6) by (auto simp: deletable_def)
  obtain w2 c2 where d: "delete_catalogs_loop ?Y ms ?names w1 [] = (w2, [])" "catalog_open ?Y c2 w2"
    "cf_handles w2 = cf_handles w1"
    "\<forall>ctx k. lookup_in c2 ctx k = (if ctx \<in> set ?names \<and> k \<in> plugin_key ` set ms then None else lookup_in c ctx k)"
    using delete_catalogs_facts [OF m(2), of ms ?names "[]"] by blast
  have none: "NewAggregate L [] = None" using assms(4) by simp
  show ?thesis
  proof (cases ms)
    case Nil
    with assms(2,5) m show ?thesis by (auto simp: DeletePlugin_def matchPluginsForDeletion_def intro!: exI [of _ c])
  next
    case (Cons p ps)
    have match: "matchPluginsForDeletion L E opts (mg_cat s) = (w1, Inr (p # ps))"
      using m(1) assms(2) Cons by (simp add: matchPluginsForDeletion_def)
    have del: "doDeletePluginsFromCatalog L E (p # ps) w1 = (w2, None)"
      using d(1) assms(2) none Cons by (simp add: doDeletePluginsFromCatalog_def)
    have M: "M = insert p (set ps)" using m(4) Cons by simp
    let ?t = "if do_PluginName opts \<noteq> AllPlugins then pi_Target p else ''''"
    let ?amb = "do_PluginName opts \<noteq> AllPlugins \<and> list_ex (\<lambda>q. pi_Target q \<noteq> pi_Target p) (p # ps)"
    have amb: "?amb \<longleftrightarrow> \<not> (do_PluginName opts = AllPlugins \<or> (\<exists>t. \<forall>p \<in> M. pi_Target p = t))"
      unfolding M by (auto simp: list_ex_iff)
    have conf: "confirmed E opts M \<longleftrightarrow> do_ForceDelete opts \<or> me_AskForConfirmation E (confirmation_text opts ?t) = None"
      if "\<not> ?amb"
      using that unfolding confirmed_def M by (auto simp: list_ex_iff)
    show ?thesis
    proof (cases "\<not> ?amb \<and> confirmed E opts M")
      case True
      with assms(5) del conf have "r = None" "mg_cat s' = w2"
        by (auto simp: DeletePlugin_def match Let_def split: if_splits option.splits)
      with True amb M m(3,4) d(2-4) Cons show ?thesis by auto
    next
      case False
      with assms(5) conf have "r \<noteq> None" "mg_cat s' = w1"
        by (auto simp: DeletePlugin_def match Let_def split: if_splits option.splits) (metis option.distinct(1))+
      with False amb m(2,3) show ?thesis by (auto intro!: exI [of _ c])
    qed
  qed
qed

definition demo_options :: delete_options where
  "demo_options = \<lparr>do_Target = TargetK8s, do_PluginName = ''a'', do_ForceDelete = False\<rparr>"

theorem delete_removes_exactly_witness:
  "\<exists>s' c'. DeletePlugin dotted_lib (demo_mgr []) demo_options
      ((demo_mgr_state ''linux'' ''amd64'')\<lparr>mg_cat := fs_with (upsert_catalog '''' (demo_plugin ''a'' TargetK8s) empty_catalog)\<rparr>) = (s', None) \<and>
    catalog_open mem_yaml c' (mg_cat s') \<and> lookup_in c' '''' ''a_kubernetes'' = None"
proof -
  let ?p = "demo_plugin ''a'' TargetK8s" and ?E = "demo_mgr []"
  let ?c = "upsert_catalog '''' ?p empty_catalog"
  let ?s = "(demo_mgr_state ''linux'' ''amd64'')\<lparr>mg_cat := fs_with ?c\<rparr>"
  have free: "path_free empty_catalog ?p" by (simp add: path_free_def empty_catalog_def)
  have "catalog_wf ?c" "catalog_consistent ?c"
    using empty_catalog_facts free by (simp_all add: catalog_wf_upsert catalog_consistent_upsert)
  then have "catalog_open (me_yaml ?E) ?c (mg_cat ?s)"
    using mem_yaml_roundtrip fs_with_facts by (simp add: catalog_open_def)
  moreover obtain s' r where run: "DeletePlugin dotted_lib ?E demo_options ?s = (s', r)" by fastforce
  ultimately have res: "(r = None \<longleftrightarrow> deletable ?c ([] @ ['''']) demo_options \<noteq> {} \<and>
      (do_PluginName demo_options = AllPlugins \<or> (\<exists>t. \<forall>p \<in> deletable ?c ([] @ ['''']) demo_options. pi_Target p = t)) \<and>
      confirmed ?E demo_options (deletable ?c ([] @ ['''']) demo_options)) \<and>
    (\<exists>c'. catalog_open (me_yaml ?E) c' (mg_cat s') \<and> cf_handles (mg_cat s') = cf_handles (mg_cat ?s) \<and>
      (\<forall>ctx k. lookup_in c' ctx k = (if r = None \<and> ctx \<in> set ([] @ ['''']) \<and>
         k \<in> plugin_key ` deletable ?c ([] @ ['''']) demo_options then None else lookup_in ?c ctx k)))"
    by (intro delete_removes_exactly [OF _ _ dotted_range_law dotted_aggregate_law run refl]) simp_all
  have p: "?p \<in> deletable ?c ([] @ ['''']) demo_options"
    using lookup_in_upsert [OF empty_catalog_facts(2) free, of "''''" "''''" "plugin_key ?p"]
    by (auto simp: deletable_def delete_match_def demo_options_def)
  moreover have "\<forall>q \<in> deletable ?c ([] @ ['''']) demo_options. pi_Target q = TargetK8s"
    by (auto simp: deletable_def delete_match_def demo_options_def)
  moreover have "confirmed ?E demo_options (deletable ?c ([] @ ['''']) demo_options)"
    using p by (auto simp: confirmed_def demo_mgr_def)
  ultimately have r: "r = None" using res by blast
  from res obtain c' where c': "catalog_open (me_yaml ?E) c' (mg_cat s')"
    "\<forall>k. k \<in> plugin_key ` deletable ?c ([] @ ['''']) demo_options \<longrightarrow> lookup_in c' '''' k = None"
    unfolding r by (elim conjE exE) simp
  have "plugin_key ?p \<in> plugin_key ` deletable ?c ([] @ ['''']) demo_options" using p by (rule imageI)
  with c'(2) have "lookup_in c' '''' (plugin_key ?p) = None" by blast
  with run r c'(1) show ?thesis by (auto simp: PluginNameTarget_def)
qed

section \<open>Local sources\<close>

lemma install_local_skips:
  assumes "\<forall>p \<in> set ps. d_Target p \<noteq> target" "pluginName \<noteq> AllPlugins"
  shows "install_local_loop L E pluginName version target test ps errs s = Some (s, errs)"
  using assms by (induction ps) auto

text \<open>When a plugin name without a target matches several plugins of a local source, none of
  which lacks a target, the installation reports success although it installs nothing; the same
  ambiguity is an error when installing from a discovery.\<close>

theorem ambiguous_local_install_does_nothing:
  assumes "aggregate_law L" "pluginName \<noteq> AllPlugins"
    and "DiscoverPluginsFromLocalSource L E localPath (s\<lparr>mg_distro := localPath\<rparr>) = Some (s1, Inr available)"
    and "matched = filter (\<lambda>p. d_Name p = pluginName) available" "2 \<le> length matched"
    and "\<forall>p \<in> set matched. d_Target p \<noteq> TargetUnknown"
  shows "InstallPluginsFromLocalSource L E pluginName version TargetUnknown localPath test s = Some (s1, None)"
proof -
  obtain p q ps where ps: "matched = p # q # ps" using assms(5) by (cases matched rule: remdups_adj.cases) auto
  have sel: "filter (\<lambda>p. (pluginName = AllPlugins \<or> d_Name p = pluginName) \<and>
      (TargetUnknown = TargetUnknown \<or> TargetUnknown = d_Target p)) available = p # q # ps"
    using assms(2,4) ps by simp
  have "install_local_loop L E pluginName version TargetUnknown test (p # q # ps) [] s1 = Some (s1, [])"
    using assms(2,6) ps by (intro install_local_skips) simp_all
  with assms(1,3) sel show ?thesis
    unfolding InstallPluginsFromLocalSource_def by simp
qed

section \<open>Group status\<close>

lemma fold_update_None: "map_of (fold (\<lambda>i. AList.update (f i) i) xs []) k = None \<longleftrightarrow> (\<forall>i \<in> set xs. f i \<noteq> k)"
  by (induction xs rule: rev_induct) auto

lemma fold_update_SomeD: "map_of (fold (\<lambda>i. AList.update (f i) i) xs []) k = Some i \<Longrightarrow> i \<in> set xs \<and> f i = k"
  by (induction xs rule: rev_induct) (auto split: if_splits)

definition plain_parts :: "string list \<Rightarrow> bool" where
  "plain_parts xs \<longleftrightarrow> (\<forall>x \<in> set xs. CHR '':'' \<notin> set x)"

lemma GenerateKey_eq:
  "plain_parts xs \<Longrightarrow> plain_parts ys \<Longrightarrow> xs \<noteq> [] \<Longrightarrow> ys \<noteq> [] \<Longrightarrow> GenerateKey xs = GenerateKey ys \<longleftrightarrow> xs = ys"
  unfolding plain_parts_def by (metis GenerateKey_inject)

lemma all_installed_loop_iff:
  "all_installed_loop m ps \<longleftrightarrow> (\<forall>p \<in> set ps. map_of m (GenerateKey [id_Name p, id_Target p, id_Version p]) \<noteq> None)"
  by (induction ps) auto

lemma new_version_loop_iff:
  "new_version_loop L m ps \<longleftrightarrow> (\<exists>p \<in> set ps. \<exists>i. map_of m (GenerateKey [id_Name p, id_Target p]) = Some i \<and>
     IsNewVersion L (id_Version p) (pi_Version i))"
  by (induction ps) (auto split: option.splits)

text \<open>The status of a group: all its plugins are installed exactly when for each there is
  an installed plugin with its name, target and version; an update is available exactly when for one of
  them the plugin installed with its name and target has an older version.\<close>

theorem group_status_exact:
  assumes "\<forall>p \<in> set plugins. plain_parts [id_Name p, id_Target p, id_Version p]"
    "\<forall>i \<in> set installed. plain_parts [pi_Name i, pi_Target i, pi_Version i]"
    "distinct (map (\<lambda>i. (pi_Name i, pi_Target i)) installed)"
  shows "(isAllPluginsFromGroupInstalled plugins installed \<longleftrightarrow>
      (\<forall>p \<in> set plugins. \<exists>i \<in> set installed. pi_Name i = id_Name p \<and> pi_Target i = id_Target p \<and> pi_Version i = id_Version p)) \<and>
    (isNewPluginVersionAvailable L plugins installed \<longleftrightarrow>
      (\<exists>p \<in> set plugins. \<exists>i \<in> set installed. pi_Name i = id_Name p \<and> pi_Target i = id_Target p \<and>
         IsNewVersion L (id_Version p) (pi_Version i)))"
proof -
  let ?m3 = "fold (\<lambda>i. AList.update (GenerateKey [pi_Name i, pi_Target i, pi_Version i]) i) installed []"
  let ?m2 = "fold (\<lambda>i. AList.update (GenerateKey [pi_Name i, pi_Target i]) i) installed []"
  have three: "map_of ?m3 (GenerateKey [id_Name p, id_Target p, id_Version p]) \<noteq> None \<longleftrightarrow>
      (\<exists>i \<in> set installed. pi_Name i = id_Name p \<and> pi_Target i = id_Target p \<and> pi_Version i = id_Version p)"
    if "p \<in> set plugins" for p
  proof -
    have "GenerateKey [pi_Name i, pi_Target i, pi_Version i] = GenerateKey [id_Name p, id_Target p, id_Version p] \<longleftrightarrow>
        pi_Name i = id_Name p \<and> pi_Target i = id_Target p \<and> pi_Version i = id_Version p" if "i \<in> set installed" for i
      using assms(1,2) that \<open>p \<in> set plugins\<close> by (simp add: GenerateKey_eq)
    then show ?thesis unfolding fold_update_None by blast
  qed
  have two: "map_of ?m2 (GenerateKey [id_Name p, id_Target p]) = Some i \<longleftrightarrow>
      i \<in> set installed \<and> pi_Name i = id_Name p \<and> pi_Target i = id_Target p" if "p \<in> set plugins" for p i
  proof -
    have eq: "GenerateKey [pi_Name j, pi_Target j] = GenerateKey [id_Name p, id_Target p] \<longleftrightarrow>
        pi_Name j = id_Name p \<and> pi_Target j = id_Target p" if "j \<in> set installed" for j
      using assms(1,2) that \<open>p \<in> set plugins\<close> by (simp add: GenerateKey_eq plain_parts_def)
    have same: "a = b" if "a \<in> set installed" "b \<in> set installed" "pi_Name a = pi_Name b" "pi_Target a = pi_Target b" for a b
      using assms(3) that by (simp add: distinct_map inj_on_def)
    let ?f = "\<lambda>i. GenerateKey [pi_Name i, pi_Target i]" and ?k = "GenerateKey [id_Name p, id_Target p]"
    show ?thesis
    proof
      assume "map_of ?m2 ?k = Some i"
      from fold_update_SomeD [of ?f, OF this] eq [of i] show "i \<in> set installed \<and> pi_Name i = id_Name p \<and> pi_Target i = id_Target p" by blast
    next
      assume i: "i \<in> set installed \<and> pi_Name i = id_Name p \<and> pi_Target i = id_Target p"
      with eq fold_update_None [of ?f installed ?k] obtain j where j: "map_of ?m2 ?k = Some j" by fastforce
      from fold_update_SomeD [of ?f, OF this] eq [of j] have "j \<in> set installed" "pi_Name j = id_Name p" "pi_Target j = id_Target p" by blast+
      with same [of i j] i j show "map_of ?m2 ?k = Some i" by simp
    qed
  qed
  show ?thesis
    unfolding isAllPluginsFromGroupInstalled_def isNewPluginVersionAvailable_def all_installed_loop_iff new_version_loop_iff
    using three two by blast
qed

definition demo_entry :: "string \<Rightarrow> string \<Rightarrow> group_plugin_entry" where
  "demo_entry n v = \<lparr>id_Name = n, id_Target = TargetK8s, id_Version = v, gp_Mandatory = True\<rparr>"

theorem group_status_exact_witness:
  "\<not> isAllPluginsFromGroupInstalled [demo_entry ''a'' ''v1.1.0''] [(demo_plugin ''a'' TargetK8s)\<lparr>pi_Version := ''v1.0.0''\<rparr>] \<and>
   isNewPluginVersionAvailable dotted_lib [demo_entry ''a'' ''v1.1.0''] [(demo_plugin ''a'' TargetK8s)\<lparr>pi_Version := ''v1.0.0''\<rparr>]"
proof -
  let ?i = "(demo_plugin ''a'' TargetK8s)\<lparr>pi_Version := ''v1.0.0''\<rparr>"
  have "IsNewVersion dotted_lib ''v1.1.0'' ''v1.0.0''" by code_simp
  then show ?thesis
    using group_status_exact [of "[demo_entry ''a'' ''v1.1.0'']" "[?i]" dotted_lib]
    by (simp add: plain_parts_def demo_entry_def)
qed

definition local_mgr :: "catalog option mgr_env" where
  "local_mgr = (demo_mgr [])\<lparr>me_disc := (demo_disc [])\<lparr>dv_files := demo_env\<lparr>os_ReadFile := (\<lambda>_. Inr ''manifest'')\<rparr>\<rparr>,
     me_UnmarshalManifest := (\<lambda>_. Inr (map (\<lambda>t. \<lparr>mp_Name = ''p'', mp_Target = t, mp_Description = '''', mp_Versions = [''v1.0.0'']\<rparr>)
       [TargetK8s, TargetTMC])), me_Stat := (\<lambda>_. None)\<rparr>"

lemma local_mgr_manifest:
  "\<exists>ps. discoverPluginsFromLocalSourceBasedOnManifestFile dotted_lib local_mgr pf ''d'' = Inr ps \<and>
     map d_Name ps = [''p'', ''p''] \<and> map d_Target ps = [TargetK8s, TargetTMC]"
proof -
  have sort: "SortVersions dotted_lib (range_keys dotted_lib [(''v1.0.0'', as :: k8s_artifact list)]) = (None, [''v1.0.0''])" for as
    by (simp add: range_keys_def keys_of_def) code_simp
  have target: "StringToTarget dotted_lib t = t" for t by (simp add: dotted_lib_def)
  have "getPluginManifestResource local_mgr f = Inr (map (\<lambda>t. \<lparr>mp_Name = ''p'', mp_Target = t, mp_Description = '''', mp_Versions = [''v1.0.0'']\<rparr>)
       [TargetK8s, TargetTMC])" for f
    by (simp add: getPluginManifestResource_def local_mgr_def demo_disc_def)
  moreover have "me_Abs local_mgr = Inr" "me_Stat local_mgr path = None" for path
    by (simp_all add: local_mgr_def demo_mgr_def)
  ultimately show ?thesis
    by (simp add: discoverPluginsFromLocalSourceBasedOnManifestFile_def manifest_version_def Let_def
        DiscoveredFromK8sV1alpha1_def discovered_of_spec_def getCLIPluginResourceWithLocalDistroFromPluginInfo_def sort target)
qed

theorem ambiguous_local_install_does_nothing_witness:
  "\<exists>s1. InstallPluginsFromLocalSource dotted_lib local_mgr ''p'' '''' TargetUnknown ''d'' False (demo_mgr_state ''linux'' ''amd64'') =
     Some (s1, None)"
proof -
  let ?s = "(demo_mgr_state ''linux'' ''amd64'')\<lparr>mg_distro := ''d''\<rparr>"
  obtain ps where ps: "discoverPluginsFromLocalSourceBasedOnManifestFile dotted_lib local_mgr (mg_platform ?s) ''d'' = Inr ps"
    "map d_Name ps = [''p'', ''p'']" "map d_Target ps = [TargetK8s, TargetTMC]"
    using local_mgr_manifest [of "mg_platform ?s"] by (elim exE conjE)
  have stat: "me_Stat local_mgr path = None" for path by (simp add: local_mgr_def)
  have dir: "discoverPluginsFromLocalSource dotted_lib local_mgr ''d'' ?s =
      Some (?s, Inl (Wrapf (Errorf ''no dir'' []) ''error while reading local plugin manifest directory'' []))"
    by (simp add: discoverPluginsFromLocalSource_def local_mgr_def demo_disc_def demo_env_def at_distro_def)
  have "DiscoverPluginsFromLocalSource dotted_lib local_mgr ''d'' ?s = Some (?s, Inr ps)"
    using ps(1) by (simp add: DiscoverPluginsFromLocalSource_def dir stat)
  moreover from ps(2) have same: "ps = filter (\<lambda>p. d_Name p = ''p'') ps" and "length ps = 2" by auto
  moreover from ps(3) have "\<forall>p \<in> set ps. d_Target p \<noteq> TargetUnknown" by auto
  ultimately have "InstallPluginsFromLocalSource dotted_lib local_mgr ''p'' '''' TargetUnknown ''d'' False
      (demo_mgr_state ''linux'' ''amd64'') = Some (?s, None)"
    by (intro ambiguous_local_install_does_nothing [OF dotted_aggregate_law _ _ same]) simp_all
  then show ?thesis by blast
qed

end
