(* ===== verification/Catalog_Locks.thy ===== *)
theory Catalog_Locks
  imports Manager_Local_Correct
begin

text \<open>
  The write lock of the catalog under faults. As long as the file can be read and decoded, every
  operation gives back the lock it took, whatever else fails, so that another invocation of the CLI is
  never blocked for good; and the indices and associations that the operations write fit together.
\<close>

section \<open>Faults do not move\<close>

definition readable :: "'b cat_yaml \<Rightarrow> 'b cat_fs \<Rightarrow> bool" where
  "readable Y w \<longleftrightarrow> cf_fault w OpReadAll = None \<and> (\<forall>b. \<exists>raw. UnmarshalCatalog Y b = Inr raw)"

text \<open>The balance of handles an operation leaves, the faults being those of the machine.\<close>

definition balanced :: "'b cat_fs \<Rightarrow> 'b cat_fs \<Rightarrow> bool" where
  "balanced w w' \<longleftrightarrow> cf_handles w' = cf_handles w \<and> cf_fault w' = cf_fault w"

lemma balanced_refl [simp]: "balanced w w"
  by (simp add: balanced_def)

lemma balanced_trans: "balanced w1 w2 \<Longrightarrow> balanced w2 w3 \<Longrightarrow> balanced w1 w3"
  by (simp add: balanced_def)

lemma balanced_readable: "balanced w w' \<Longrightarrow> readable Y w \<Longrightarrow> readable Y w'"
  by (simp add: balanced_def readable_def)

lemma mkdir_balanced: "balanced w (fst (mkdir_cache w))"
  by (simp add: mkdir_cache_def balanced_def split: option.split)

lemma ensureRoot_balanced: "balanced w (fst (ensureRoot w))"
  by (simp add: ensureRoot_def balanced_def split: option.split)

lemma newShared_balanced: "balanced w (fst (newSharedCatalog w))"
  using ensureRoot_balanced [of w] by (cases "ensureRoot w") (simp add: newSharedCatalog_def split: option.split)

lemma write_balanced: "balanced w (fst (write_catalog_bytes Y out w))"
  by (simp add: write_catalog_bytes_def write_handle_def balanced_def Let_def split: option.split)

lemma save_balanced: "balanced w (fst (saveCatalogCache Y c l w))"
proof -
  have put: "balanced w (fst (case MarshalCatalog Y c of Inl e \<Rightarrow> (w1, Some (Wrapf e msg [])) | Inr out \<Rightarrow> write_catalog_bytes Y out w1))"
    if "balanced w w1" for w1 msg
    using that write_balanced [of w1] by (auto split: sum.split intro: balanced_trans)
  obtain w1 e where m: "mkdir_cache w = (w1, e)" by force
  then have "balanced w w1" using mkdir_balanced [of w] by simp
  then show ?thesis
    unfolding saveCatalogCache_def m Let_def using put
    by (cases "cf_fault w OpStat"; cases "cf_file w"; cases e) auto
qed

section \<open>Sessions\<close>

text \<open>Opening the catalog for writing takes one handle exactly when the session knows of it.\<close>

lemma open_handles:
  assumes "readable Y w" "newContextCatalog Y ctx True w = (w1, r)"
  shows "cf_fault w1 = cf_fault w \<and>
    (case r of Inl e \<Rightarrow> cf_handles w1 = cf_handles w
     | Inr c \<Rightarrow> cf_handles w1 = cf_handles w + (if cc_locked c then 1 else 0))"
proof -
  define w0 where "w0 = (if cf_file w = None then fst (mkdir_cache w) else w)"
  have b0: "balanced w w0" by (simp add: w0_def mkdir_balanced)
  have r0: "readable Y w0" by (rule balanced_readable [OF b0 assms(1)])
  obtain w2 e where edit: "lockedfile_Edit Y w0 = (w2, e)" by force
  show ?thesis
  proof (cases e)
    case None
    then have h: "cf_handles w2 = Suc (cf_handles w0)" "cf_fault w2 = cf_fault w0"
      using edit by (auto simp: lockedfile_Edit_def split: option.splits if_splits)
    obtain raw where raw: "UnmarshalCatalog Y (case cf_file w2 of None \<Rightarrow> EmptyFile Y | Some b \<Rightarrow> b) = Inr raw"
      using assms(1) by (auto simp: readable_def)
    have "getCatalogCache Y True w = (w2, True, Inr (catalog_of_raw raw))"
      using r0 h(2) edit None raw
      by (simp add: getCatalogCache_def getCatalogCacheBytes_def w0_def [symmetric] readable_def Let_def)
    with assms(2) h b0 show ?thesis by (auto simp: newContextCatalog_def balanced_def Let_def)
  next
    case (Some e')
    then have same: "w2 = w0" using edit by (auto simp: lockedfile_Edit_def split: option.splits if_splits)
    obtain w3 c where "getCatalogCache Y True w = (w3, False, c)" "balanced w w3"
    proof (cases "os_IsNotExist e'")
      case True
      obtain w3 c where "newSharedCatalog w0 = (w3, c)" "balanced w0 w3"
        using newShared_balanced [of w0] by (metis prod.collapse)
      with that [of w3 c] balanced_trans [OF b0] True Some edit same show ?thesis
        by (simp add: getCatalogCache_def getCatalogCacheBytes_def w0_def [symmetric])
    next
      case False
      with that [of w0 "Inl e'"] b0 Some edit same show ?thesis
        by (simp add: getCatalogCache_def getCatalogCacheBytes_def w0_def [symmetric])
    qed
    with assms(2) show ?thesis by (auto simp: newContextCatalog_def balanced_def Let_def split: sum.splits)
  qed
qed

lemma upsert_balanced: "Upsert Y p w c = (w', c', e) \<Longrightarrow> balanced w w' \<and> cc_locked c' = cc_locked c"
  using save_balanced [of w Y "upsert_catalog (cc_context c) p (cc_shared c)" True]
  by (auto simp: Upsert_def Let_def split: if_splits prod.splits)

lemma delete_balanced: "Delete Y k w c = (w', c', e) \<Longrightarrow> balanced w w' \<and> cc_locked c' = cc_locked c"
  using save_balanced [of w Y "delete_catalog (cc_context c) k (cc_shared c)" True]
  by (auto simp: Delete_def Let_def split: if_splits prod.splits)

lemma delete_keys_balanced:
  "delete_keys_loop Y ps w c es = (w', c', es') \<Longrightarrow> balanced w w' \<and> cc_locked c' = cc_locked c"
proof (induction ps arbitrary: w c es)
  case (Cons p ps)
  obtain w1 c1 e where d: "Delete Y (PluginNameTarget (pi_Name p) (pi_Target p)) w c = (w1, c1, e)"
    by (metis prod_cases3)
  with Cons show ?case using delete_balanced [OF d] by (fastforce intro: balanced_trans)
qed simp

lemma close_session:
  assumes "readable Y w" "newContextCatalog Y ctx True w = (w1, Inr c)" "balanced w1 w2" "cc_locked c2 = cc_locked c"
  shows "balanced w (fst (Unlock w2 c2))"
  using open_handles [OF assms(1,2)] assms(3,4) by (auto simp: balanced_def Unlock_def lockedfile_Close_def)

lemma open_failed:
  assumes "readable Y w" "newContextCatalog Y ctx True w = (w1, Inl e)"
  shows "balanced w w1"
  using open_handles [OF assms] by (simp add: balanced_def)

lemma delete_catalogs_balanced:
  "readable Y w \<Longrightarrow> delete_catalogs_loop Y ps names w es = (w', es') \<Longrightarrow> balanced w w'"
proof (induction names arbitrary: w es)
  case (Cons n names)
  obtain w1 r where o: "newContextCatalog Y n True w = (w1, r)" by force
  show ?case
  proof (cases r)
    case (Inl e)
    note b = open_failed [OF Cons.prems(1) o [unfolded Inl]]
    with Cons.prems o Inl have "delete_catalogs_loop Y ps names w1 es = (w', es')"
      by (simp add: NewContextCatalogUpdater_def)
    with Cons.IH [OF balanced_readable [OF b Cons.prems(1)]] b show ?thesis by (blast intro: balanced_trans)
  next
    case (Inr c)
    obtain w2 c2 es2 where d: "delete_keys_loop Y ps w1 c es = (w2, c2, es2)" by (metis prod_cases3)
    have b: "balanced w (fst (Unlock w2 c2))"
      using close_session [OF Cons.prems(1) o [unfolded Inr]] delete_keys_balanced [OF d] by blast
    have "delete_catalogs_loop Y ps names (fst (Unlock w2 c2)) es2 = (w', es')"
      using Cons.prems(2) o Inr d by (simp add: NewContextCatalogUpdater_def)
    with Cons.IH [OF balanced_readable [OF b Cons.prems(1)]] b show ?thesis by (blast intro: balanced_trans)
  qed
qed simp

section \<open>The plugin manager\<close>

lemma read_handles: "newContextCatalog Y ctx False w = (w1, r) \<Longrightarrow> balanced w w1"
proof -
  assume o: "newContextCatalog Y ctx False w = (w1, r)"
  obtain l c where "getCatalogCache Y False w = (w1, l, c)"
    using o by (auto simp: newContextCatalog_def Let_def split: prod.splits sum.splits)
  then show ?thesis
    using newShared_balanced [of w]
    by (auto simp: getCatalogCache_def getCatalogCacheBytes_def Let_def split: option.splits sum.splits if_splits prod.splits)
qed

lemma match_catalogs_balanced: "match_catalogs_loop L Y opts names w ms = (w', r) \<Longrightarrow> balanced w w'"
proof (induction names arbitrary: w ms)
  case (Cons n names)
  obtain w1 c where o: "newContextCatalog Y n False w = (w1, c)" by force
  have "\<exists>ms'. match_catalogs_loop L Y opts names w1 ms' = (w', r)"
    using Cons.prems o by (auto simp: NewContextCatalog_def split: sum.splits)
  with Cons.IH read_handles [OF o] show ?case by (blast intro: balanced_trans)
qed simp

lemma matchPlugins_balanced: "matchPluginsForDeletion L E opts w = (w', r) \<Longrightarrow> balanced w w'"
  by (auto simp: matchPluginsForDeletion_def split: sum.splits prod.splits dest: match_catalogs_balanced)

lemma doDelete_balanced:
  "readable (me_yaml E) w \<Longrightarrow> doDeletePluginsFromCatalog L E ps w = (w', r) \<Longrightarrow> balanced w w'"
  by (auto simp: doDeletePluginsFromCatalog_def split: sum.splits prod.splits dest: delete_catalogs_balanced)

lemma DeletePlugin_balanced:
  assumes "readable (me_yaml E) (mg_cat s)"
  shows "balanced (mg_cat s) (mg_cat (fst (DeletePlugin L E opts s)))"
proof -
  obtain w1 r where m: "matchPluginsForDeletion L E opts (mg_cat s) = (w1, r)" by force
  note b1 = matchPlugins_balanced [OF m]
  have "balanced w1 w2" if "doDeletePluginsFromCatalog L E ps w1 = (w2, e)" for ps w2 e
    by (rule doDelete_balanced [OF balanced_readable [OF b1 assms] that])
  then have "balanced (mg_cat s) w2" if "doDeletePluginsFromCatalog L E ps w1 = (w2, e)" for ps w2 e
    using b1 that by (blast intro: balanced_trans)
  then show ?thesis
    using b1 unfolding DeletePlugin_def m Let_def
    by (auto split: sum.splits list.splits if_splits option.splits prod.splits)
qed

lemma updatePlugin_balanced:
  assumes "readable (me_yaml E) (mg_cat s)"
  shows "balanced (mg_cat s) (mg_cat (fst (updatePluginInfoAndInitializePlugin E p plugin s)))"
proof -
  obtain w1 r where o: "newContextCatalog (me_yaml E) (d_ContextName p) True (mg_cat s) = (w1, r)" by force
  show ?thesis
  proof (cases r)
    case (Inl e)
    with open_failed [OF assms o [unfolded Inl]] o show ?thesis
      by (simp add: updatePluginInfoAndInitializePlugin_def NewContextCatalogUpdater_def)
  next
    case (Inr c)
    obtain w2 c2 e where u: "Upsert (me_yaml E) plugin w1 c = (w2, c2, e)" by (metis prod_cases3)
    have "balanced (mg_cat s) (fst (Unlock w2 c2))"
      using close_session [OF assms o [unfolded Inr]] upsert_balanced [OF u] by blast
    with o Inr u show ?thesis
      by (simp add: updatePluginInfoAndInitializePlugin_def NewContextCatalogUpdater_def InitializePlugin_def exec_plugin_def Let_def)
  qed
qed

text \<open>C8 (liveness): the write lock of the catalog is always given back. If the catalog file can be read and
  decoded, deleting plugins and entering an installed plugin into the catalog release every handle they
  took, whichever of the other file operations fail, so no later invocation waits for the lock forever.\<close>

theorem catalog_lock_released:
  assumes "readable (me_yaml E) (mg_cat s)"
  shows "cf_handles (mg_cat (fst (DeletePlugin L E options s))) = cf_handles (mg_cat s) \<and>
    cf_handles (mg_cat (fst (updatePluginInfoAndInitializePlugin E p plugin s))) = cf_handles (mg_cat s)"
  using DeletePlugin_balanced [OF assms, of L options] updatePlugin_balanced [OF assms, of p plugin] by (simp add: balanced_def)

text \<open>The witness: the catalog file cannot be written.\<close>

theorem catalog_lock_released_witness:
  "cf_handles (mg_cat (fst (DeletePlugin dotted_lib (demo_mgr []) demo_options
     ((demo_mgr_state ''linux'' ''amd64'')\<lparr>mg_cat := (fs_with empty_catalog)\<lparr>cf_fault := (\<lambda>_. None)(OpWrite := Some ErrNotExist)\<rparr>\<rparr>)))) = 0"
proof -
  let ?w = "(fs_with empty_catalog)\<lparr>cf_fault := (\<lambda>_. None)(OpWrite := Some ErrNotExist)\<rparr>"
  let ?s = "(demo_mgr_state ''linux'' ''amd64'')\<lparr>mg_cat := ?w\<rparr>"
  have "readable (me_yaml (demo_mgr [])) (mg_cat ?s)" by (simp add: readable_def mem_yaml_def)
  then show ?thesis using catalog_lock_released [of "demo_mgr []" ?s dotted_lib demo_options demo_install zero_plugin_info]
    by (simp add: fs_with_def)
qed

section \<open>Well-formed data\<close>

lemma remove_twins_ok: "map_ok pa \<Longrightarrow> map_ok (remove_unknown_twins idx ks pa)"
  by (induction ks arbitrary: pa) (simp_all add: PA_Remove_def split: option.splits)

lemma clean_catalog_wf: "catalog_wf c \<Longrightarrow> catalog_wf (clean_catalog L c)"
  by (auto simp: catalog_wf_def clean_catalog_def clean_association_def remove_twins_ok comp_def case_prod_unfold)

lemma remove_twins_subset: "set (remove_unknown_twins idx ks pa) \<subseteq> set pa"
proof (induction ks arbitrary: pa)
  case (Cons k ks)
  have "set (PA_Remove pa k') \<subseteq> set pa" for k' by (auto simp: PA_Remove_def dest: set_delete_values)
  then have "set (remove_unknown_twins idx ks (PA_Remove pa k')) \<subseteq> set pa" for k' using Cons.IH by (rule order_trans [rotated])
  with Cons.IH show ?case by (simp split: option.split)
qed simp

lemma same_indices_consistent:
  "IndexByPath c' = IndexByPath c \<Longrightarrow> IndexByName c' = IndexByName c \<Longrightarrow> assoc_consistent c' pa = assoc_consistent c pa"
  unfolding assoc_consistent_def by (simp only:)

lemma catalog_consistent_clean:
  assumes "catalog_consistent c"
  shows "catalog_consistent (clean_catalog L c)"
proof -
  have same: "assoc_consistent (clean_catalog L c) pa = assoc_consistent c pa" for pa
    by (rule same_indices_consistent) (simp_all add: clean_catalog_def)
  have sub: "assoc_consistent c pa \<Longrightarrow> assoc_consistent c (clean_association L idx pa)" for idx pa
    by (erule assoc_consistent_sub) (simp add: clean_association_def remove_twins_subset)
  show ?thesis
    using assms unfolding catalog_consistent_def same by (auto simp: clean_catalog_def intro!: sub)
qed

lemma set_fold_copy:
  "x \<in> set (fold (\<lambda>k. AList.update k (f k)) ks m) \<Longrightarrow> x \<in> set m \<or> (\<exists>k \<in> set ks. x = (k, f k))"
proof (induction ks arbitrary: m)
  case (Cons k ks)
  from Cons.prems have "x \<in> set (fold (\<lambda>k. AList.update k (f k)) ks (AList.update k (f k) m))" by simp
  from Cons.IH [OF this] show ?case by (auto dest!: set_update_values)
qed simp

lemma catalog_consistent_migrate_context:
  assumes "range_law L" "catalog_consistent c"
  shows "catalog_consistent (migrate_context L ac c)"
proof -
  let ?spa = "get_or [] (ServerPlugins c) ac"
  have same: "assoc_consistent (migrate_context L ac c) pa = assoc_consistent c pa" for pa
    by (rule same_indices_consistent) (simp_all add: migrate_context_def Let_def)
  have spa: "assoc_consistent c ?spa"
    using assms(2) by (cases "map_of (ServerPlugins c) ac")
      (auto simp: get_or_def assoc_consistent_def catalog_consistent_def dest!: map_of_SomeD)
  have "(k, PA_Get ?spa k) \<in> set ?spa" if "k \<in> set (range_keys L ?spa)" for k
  proof -
    have "k \<in> set (keys_of ?spa)" using that assms(1) by simp
    then obtain path where "map_of ?spa k = Some path"
      by (cases "map_of ?spa k") (auto simp: keys_of_def map_of_eq_None_iff)
    then have "(k, path) \<in> set ?spa" "PA_Get ?spa k = path" by (rule map_of_SomeD, simp only: PA_Get_def get_or_def option.case)
    then show ?thesis by simp
  qed
  then have "set (StandAlonePlugins (migrate_context L ac c)) \<subseteq> set (StandAlonePlugins c) \<union> set ?spa"
    by (auto simp: migrate_context_def Let_def dest!: set_fold_copy)
  then have "assoc_consistent c (StandAlonePlugins (migrate_context L ac c))"
    using assms(2) assoc_consistent_Un [OF _ spa] unfolding catalog_consistent_def by blast
  moreover have "\<forall>(ctx, pa) \<in> set (ServerPlugins (migrate_context L ac c)). assoc_consistent c pa"
    using assms(2) by (auto simp: migrate_context_def Let_def catalog_consistent_def dest!: set_delete_values)
  ultimately show ?thesis unfolding catalog_consistent_def same by blast
qed

lemma catalog_consistent_migrate:
  "range_law L \<Longrightarrow> catalog_consistent c \<Longrightarrow> catalog_consistent (migrate_catalog L acs c)"
  unfolding migrate_catalog_def by (induction acs arbitrary: c) (auto intro: catalog_consistent_migrate_context)

text \<open>C36 (invariant): the indices and the associations of the catalog fit together after every operation on it: entering a plugin
  at a path that no plugin with another key uses, deleting, cleaning up the twins, migrating the plugins of contexts.
  Every entry of every association, of standalone plugins and of each context, points to a plugin in the path index whose
  own path and key are those of the entry, and the name index lists the path under the key.\<close>

theorem catalog_operations_keep_consistency:
  assumes "range_law L" "catalog_consistent c" "path_free c p"
    and "c' \<in> {upsert_catalog ctx p c, delete_catalog ctx k c, clean_catalog L c, migrate_catalog L activeContexts c}"
    and "pa \<in> set (StandAlonePlugins c' # map snd (ServerPlugins c'))" "(key, path) \<in> set pa"
  shows "\<exists>q. map_of (IndexByPath c') path = Some q \<and> pi_InstallationPath q = path \<and>
    PluginNameTarget (pi_Name q) (pi_Target q) = key \<and> path \<in> set (get_or [] (IndexByName c') key)"
proof -
  have "catalog_consistent c'"
    using assms(4) catalog_consistent_upsert [OF assms(2,3)] catalog_consistent_delete [OF assms(2)]
      catalog_consistent_clean [OF assms(2)] catalog_consistent_migrate [OF assms(1,2)] by blast
  then have "assoc_consistent c' pa" using assms(5) by (auto simp: catalog_consistent_def)
  from consistent_entry [OF this assms(6)] show ?thesis by blast
qed

text \<open>The plugin that replaces its twin.\<close>

theorem catalog_operations_keep_consistency_witness:
  "\<exists>q. map_of (IndexByPath (upsert_catalog '''' (demo_plugin ''a'' TargetGlobal) twin_catalog))
     (pi_InstallationPath (demo_plugin ''a'' TargetGlobal)) = Some q \<and> plugin_key q = plugin_key (demo_plugin ''a'' TargetGlobal)"
proof -
  let ?p = "demo_plugin ''a'' TargetGlobal" and ?c = "upsert_catalog '''' (demo_plugin ''a'' TargetGlobal) twin_catalog"
  have "catalog_consistent twin_catalog" "path_free twin_catalog ?p" by code_simp+
  moreover have "(plugin_key ?p, pi_InstallationPath ?p) \<in> set (StandAlonePlugins ?c)" by code_simp
  ultimately show ?thesis
    using catalog_operations_keep_consistency [OF dotted_range_law, of twin_catalog ?p ?c "''''" "''''" "[]" "StandAlonePlugins ?c"
      "plugin_key ?p" "pi_InstallationPath ?p"] by auto
qed

end
