(* ===== verification/Command_Map.thy ===== *)
theory Command_Map
  imports Manager_Local_Correct
begin

text \<open>
  The commands of plugins, \<^verbatim>\<open>pkg/cli/plugin_cmd.go\<close> and \<^verbatim>\<open>pkg/cli/runner.go\<close>: the cobra
  command built for a plugin or for an entry of its command map, where in the command tree the
  entries of the map go, and how such a command runs the plugin binary.

  A \<open>command\<close> holds the fields of the \<^verbatim>\<open>cobra.Command\<close> literal of the source; the closures
  \<open>RunE\<close>, \<open>ValidArgsFunction\<close> and the help function are the definitions of that name, applied to
  the variables they capture (\<open>cmd_Plugin\<close>, \<open>cmd_Src\<close>, \<open>cmd_Dst\<close>). A missing command
  (\<^verbatim>\<open>nil\<close>) in a command map is \<open>None\<close>.
\<close>

section \<open>Paths\<close>

text \<open>\<open>strings.Fields\<close>\<close>

definition str_fields :: "string \<Rightarrow> string list" where
  "str_fields s = filter (\<lambda>w. w \<noteq> '''') (split_on CHR '' '' (map (\<lambda>c. if is_space c then CHR '' '' else c) s))"

definition hierarchyFromPath :: "string \<Rightarrow> string list" where
  "hierarchyFromPath cmdPath = str_fields cmdPath"

definition pathFromHierarchy :: "string list \<Rightarrow> string" where
  "pathFromHierarchy hierarchy = join '' '' hierarchy"

definition alternateRemapLocation :: "plugin_info \<Rightarrow> string \<Rightarrow> string" where
  "alternateRemapLocation p remapLocation =
     (if pi_Target p = TargetK8s
      then let cmdHierarchy = split_on CHR '' '' remapLocation
           in if length cmdHierarchy = 1 then ''kubernetes '' @ cmdHierarchy ! 0
              else if length cmdHierarchy = 2 \<and> cmdHierarchy ! 0 = ''kubernetes'' then cmdHierarchy ! 1
              else ''''
      else '''')"

section \<open>Commands\<close>

record command =
  cmd_Use :: string
  cmd_Short :: string
  cmd_Hidden :: bool
  cmd_Aliases :: "string list"
  cmd_Annotations :: "(string \<times> string) list"
  cmd_Plugin :: "(string \<times> string) option"
  cmd_Src :: "string list"
  cmd_Dst :: "string list"

definition getCmdForPluginEx :: "plugin_info \<Rightarrow> string \<Rightarrow> command_map_entry option \<Rightarrow> command" where
  "getCmdForPluginEx p cmdName mapEntry =
     (let src = (case mapEntry of None \<Rightarrow> [] | Some e \<Rightarrow> hierarchyFromPath (cme_SourceCommandPath e));
          dst = (case mapEntry of None \<Rightarrow> [] | Some e \<Rightarrow> hierarchyFromPath (cme_DestinationCommandPath e))
      in \<lparr>cmd_Use = cmdName,
          cmd_Short = (case mapEntry of
              None \<Rightarrow> pi_Description p
            | Some e \<Rightarrow> if cme_Description e \<noteq> '''' then cme_Description e
                        else if length src > 0 then pi_Description p @ '' '' @ cmdName @ '' functionality''
                        else pi_Description p),
          cmd_Hidden = (if length src > 0 then False else pi_Hidden p),
          cmd_Aliases = (case mapEntry of
              Some e \<Rightarrow> if length src > 0 then cme_Aliases e else pi_Aliases p
            | None \<Rightarrow> pi_Aliases p),
          cmd_Annotations = [(''group'', pi_Group p), (''scope'', pi_Scope p), (''type'', ''plugin''),
            (''pluginInstallationPath'', pi_InstallationPath p), (''cmdSrcPath'', join '' '' src)],
          cmd_Plugin = Some (pi_Name p, pi_InstallationPath p),
          cmd_Src = src, cmd_Dst = dst\<rparr>)"

definition GetCmdForPlugin :: "plugin_info \<Rightarrow> command" where
  "GetCmdForPlugin p = getCmdForPluginEx p (pi_Name p) None"

fun has_plugin_level_map :: "command_map_entry list \<Rightarrow> bool" where
  "has_plugin_level_map [] = False"
| "has_plugin_level_map (e # es) = (if cme_SourceCommandPath e = '''' then True else has_plugin_level_map es)"

definition GetUnmappedCmdForPlugin :: "plugin_info \<Rightarrow> command option" where
  "GetUnmappedCmdForPlugin p =
     (if has_plugin_level_map (pi_CommandMap p) then None else Some (GetCmdForPlugin p))"

definition GetTestCmdForPlugin :: "plugin_info \<Rightarrow> command" where
  "GetTestCmdForPlugin p =
     \<lparr>cmd_Use = pi_Name p, cmd_Short = pi_Description p, cmd_Hidden = False, cmd_Aliases = [], cmd_Annotations = [],
      cmd_Plugin = Some (pi_Name p, pi_InstallationPath p), cmd_Src = [], cmd_Dst = []\<rparr>"

section \<open>The command map\<close>

text \<open>The processor holds the types of the active contexts.\<close>

record command_map_processor =
  activeContextTypes :: "string list"

definition NewCommandMapProcessor :: "(string \<times> 'c) list \<Rightarrow> command_map_processor" where
  "NewCommandMapProcessor contextMap = \<lparr>activeContextTypes = keys_of contextMap\<rparr>"

definition isMapEntryAllowed :: "command_map_processor \<Rightarrow> command_map_entry \<Rightarrow> bool" where
  "isMapEntryAllowed cmp mapEntry \<longleftrightarrow>
     length (cme_RequiredContextType mapEntry) = 0 \<or>
     list_ex (\<lambda>ctxType. ctxType \<in> set (cme_RequiredContextType mapEntry)) (activeContextTypes cmp)"

type_synonym cmd_map = "(string \<times> command option) list"

fun map_entries_loop ::
    "command_map_processor \<Rightarrow> plugin_info \<Rightarrow> command_map_entry list \<Rightarrow> cmd_map \<Rightarrow> cmd_map" where
  "map_entries_loop cmp p [] m = m"
| "map_entries_loop cmp p (e # es) m =
     (let cmdHierarchy = hierarchyFromPath (cme_DestinationCommandPath e)
      in if \<not> isMapEntryAllowed cmp e \<or> length cmdHierarchy = 0 then map_entries_loop cmp p es m
         else
           let dstPath = pathFromHierarchy cmdHierarchy;
               m1 = AList.update dstPath (Some (getCmdForPluginEx p (last cmdHierarchy) (Some e))) m;
               alt = alternateRemapLocation p dstPath
           in map_entries_loop cmp p es
                (if alt \<noteq> ''''
                 then AList.update alt
                        (Some (getCmdForPluginEx p (last cmdHierarchy) (Some (e\<lparr>cme_DestinationCommandPath := alt\<rparr>)))) m1
                 else m1))"

definition mark_removed :: "string \<Rightarrow> cmd_map \<Rightarrow> cmd_map" where
  "mark_removed path m = (if map_of m path = None then AList.update path None m else m)"

fun overrides_loop ::
    "command_map_processor \<Rightarrow> plugin_info \<Rightarrow> command_map_entry list \<Rightarrow> cmd_map \<Rightarrow> cmd_map" where
  "overrides_loop cmp p [] m = m"
| "overrides_loop cmp p (e # es) m =
     (let cmdHierarchy = hierarchyFromPath (cme_Overrides e)
      in if \<not> isMapEntryAllowed cmp e \<or> cme_Overrides e = '''' \<or> length cmdHierarchy = 0
         then overrides_loop cmp p es m
         else
           let dstPathToRemove = pathFromHierarchy cmdHierarchy;
               m1 = mark_removed dstPathToRemove m;
               alt = alternateRemapLocation p dstPathToRemove
           in overrides_loop cmp p es (if alt \<noteq> '''' then mark_removed alt m1 else m1))"

definition GetCommandMapForPlugin :: "command_map_processor \<Rightarrow> plugin_info \<Rightarrow> cmd_map" where
  "GetCommandMapForPlugin cmp p =
     overrides_loop cmp p (pi_CommandMap p) (map_entries_loop cmp p (pi_CommandMap p) [])"

section \<open>Running a command\<close>

text \<open>Processes: \<open>px_Stat\<close> tells whether a path exists and is a directory, \<open>px_Run\<close> runs a
  program with arguments in an environment.\<close>

record proc_env =
  px_Stat :: "string \<Rightarrow> bool option"
  px_Run :: "string \<Rightarrow> string list \<Rightarrow> environ \<Rightarrow> string \<times> string \<times> err option"

record runner =
  rn_name :: string
  rn_args :: "string list"
  rn_pluginAbsPath :: string

definition NewRunner :: "string \<Rightarrow> string \<Rightarrow> string list \<Rightarrow> runner" where
  "NewRunner name path args = \<lparr>rn_name = name, rn_args = args, rn_pluginAbsPath = path\<rparr>"

definition runner_run ::
    "proc_env \<Rightarrow> platform \<Rightarrow> environ \<Rightarrow> runner \<Rightarrow> string \<Rightarrow> string \<times> string \<times> err option" where
  "runner_run X pf env r pluginPath =
     (let path = (if IsWindows (BuildArch pf) \<and> \<not> has_suffix pluginPath ''.exe'' then pluginPath @ ''.exe'' else pluginPath)
      in case px_Stat X path of
           None \<Rightarrow> ('''', '''', Some (Errorf ''plugin %q does not exist, try using tanzu plugin install %s to install or tanzu plugin list to find plugins'' [rn_name r, rn_name r]))
         | Some isDir \<Rightarrow>
             if isDir then ('''', '''', Some (Errorf ''%q is a directory'' [path]))
             else px_Run X path (rn_args r) env)"

definition runner_Run :: "proc_env \<Rightarrow> platform \<Rightarrow> environ \<Rightarrow> runner \<Rightarrow> err option" where
  "runner_Run X pf env r = snd (snd (runner_run X pf env r (rn_pluginAbsPath r)))"

definition runner_RunTest :: "proc_env \<Rightarrow> platform \<Rightarrow> environ \<Rightarrow> runner \<Rightarrow> err option" where
  "runner_RunTest X pf env r =
     snd (snd (runner_run X pf env r (TestPluginPathFromPluginPath (rn_pluginAbsPath r))))"

definition runner_RunOutput :: "proc_env \<Rightarrow> platform \<Rightarrow> environ \<Rightarrow> runner \<Rightarrow> string \<times> string \<times> err option" where
  "runner_RunOutput X pf env r = runner_run X pf env r (rn_pluginAbsPath r)"

definition setupPluginEnv :: "string \<Rightarrow> string list \<Rightarrow> string list \<Rightarrow> environ \<Rightarrow> environ" where
  "setupPluginEnv argv0 srcHierarchy dstHierarchy env =
     (let numParts = length dstHierarchy;
          env1 = env(''TANZU_BIN'' \<mapsto> argv0)
      in if numParts > 0
         then (if numParts > 1 then env1(''TANZU_CLI_INVOKED_GROUP'' \<mapsto> join '' '' (take (numParts - 1) dstHierarchy)) else env1)
                (''TANZU_CLI_INVOKED_COMMAND'' \<mapsto> dstHierarchy ! (numParts - 1),
                 ''TANZU_CLI_COMMAND_MAPPED_FROM'' \<mapsto> pathFromHierarchy srcHierarchy)
         else env1)"

text \<open>The \<open>RunE\<close> closure of a plugin command; the result also holds the new environment.\<close>

definition cmd_RunE ::
    "proc_env \<Rightarrow> platform \<Rightarrow> string list \<Rightarrow> command \<Rightarrow> string list \<Rightarrow> environ \<Rightarrow> environ \<times> err option" where
  "cmd_RunE X pf argv c args env =
     (case cmd_Plugin c of
        None \<Rightarrow> (env, None)
      | Some (name, path) \<Rightarrow>
          let env1 = setupPluginEnv (hd argv) (cmd_Src c) (cmd_Dst c) env
          in (env1, runner_Run X pf env1 (NewRunner name path (cmd_Src c @ args))))"

abbreviation ShellCompDirectiveError :: int where "ShellCompDirectiveError \<equiv> 1"

definition trim_newlines :: "string \<Rightarrow> string" where
  "trim_newlines s =
     rev (dropWhile (\<lambda>c. c = CHR ''\<newline>'') (rev (dropWhile (\<lambda>c. c = CHR ''\<newline>'') s)))"

text \<open>The lines of the output of a completion request; \<open>None\<close> is the panic of \<^verbatim>\<open>lastLine[0]\<close> on
  an empty last line.\<close>

definition completion_result :: "string \<Rightarrow> (string list \<times> int) option" where
  "completion_result output =
     (let ls = split_on CHR ''\<newline>'' (trim_newlines output);
          lastLine = last ls; ls1 = butlast ls
      in case lastLine of
           [] \<Rightarrow> None
         | c # rest \<Rightarrow>
             Some (ls1, if c = CHR '':'' then (case atoi rest of Some marker \<Rightarrow> marker | None \<Rightarrow> ShellCompDirectiveError)
                        else ShellCompDirectiveError))"

definition cmd_ValidArgs ::
    "proc_env \<Rightarrow> platform \<Rightarrow> string list \<Rightarrow> command \<Rightarrow> string list \<Rightarrow> string \<Rightarrow> environ \<Rightarrow>
     environ \<times> (string list \<times> int) option" where
  "cmd_ValidArgs X pf argv c args toComplete env =
     (case cmd_Plugin c of
        None \<Rightarrow> (env, Some ([], ShellCompDirectiveError))
      | Some (name, path) \<Rightarrow>
          let env1 = setupPluginEnv (hd argv) (cmd_Src c) (cmd_Dst c) env
          in (env1,
              case runner_RunOutput X pf env1 (NewRunner name path ([''__complete''] @ cmd_Src c @ args @ [toComplete])) of
                (output, errOutput, Some e) \<Rightarrow> Some ([], ShellCompDirectiveError)
              | (output, errOutput, None) \<Rightarrow> completion_result output))"

fun help_args_loop :: "string list \<Rightarrow> string list" where
  "help_args_loop [] = []"
| "help_args_loop (a # as) = (if a = ''help'' then drop 1 as else help_args_loop as)"

definition getHelpArguments :: "string list \<Rightarrow> string list" where
  "getHelpArguments cliArgs = help_args_loop cliArgs @ [''-h'']"

definition cmd_HelpFunc ::
    "proc_env \<Rightarrow> platform \<Rightarrow> string list \<Rightarrow> command \<Rightarrow> environ \<Rightarrow> environ \<times> err option" where
  "cmd_HelpFunc X pf argv c env =
     (case cmd_Plugin c of
        None \<Rightarrow> (env, None)
      | Some (name, path) \<Rightarrow>
          let env1 = setupPluginEnv (hd argv) (cmd_Src c) (cmd_Dst c) env
          in (env1, runner_Run X pf env1 (NewRunner name path (cmd_Src c @ getHelpArguments argv))))"

end
