(* ===== verification/Command_Map_Correct.thy ===== *)
theory Command_Map_Correct
  imports Command_Map
begin

text \<open>
  Correctness of the command map: which paths of the command tree a plugin claims, which command goes
  there, and which paths it removes.
\<close>

section \<open>Paths\<close>

definition plain_word :: "string \<Rightarrow> bool" where
  "plain_word w \<longleftrightarrow> w \<noteq> '''' \<and> list_all (\<lambda>c. \<not> is_space c) w"

lemma space_is_space [simp]: "is_space CHR '' ''"
  by (simp add: is_space_def)

lemma plain_word_fresh: "plain_word w \<Longrightarrow> CHR '' '' \<notin> set w"
  by (auto simp: plain_word_def list_all_iff)

lemma split_on_subset: "p \<in> set (split_on c s) \<Longrightarrow> set p \<subseteq> set s"
proof (induction s arbitrary: p)
  case (Cons x xs)
  obtain y ys where sp: "split_on c xs = y # ys" by (cases "split_on c xs") auto
  with Cons.IH have "set y \<subseteq> set xs" "\<And>q. q \<in> set ys \<Longrightarrow> set q \<subseteq> set xs" by auto
  with Cons.prems sp show ?case by (fastforce split: if_splits)
qed auto

lemma fields_words: "w \<in> set (str_fields s) \<Longrightarrow> plain_word w"
proof -
  let ?f = "\<lambda>c. if is_space c then CHR '' '' else c"
  assume "w \<in> set (str_fields s)"
  then have w: "w \<noteq> ''''" "w \<in> set (split_on CHR '' '' (map ?f s))" by (auto simp: str_fields_def)
  have "\<not> is_space c" if "c \<in> set w" for c
  proof
    assume "is_space c"
    moreover have "c \<in> set (map ?f s)" using split_on_subset [OF w(2)] that by (rule subsetD)
    ultimately have "c = CHR '' ''" by (auto split: if_splits)
    with split_on_pieces_fresh [OF w(2)] that show False by simp
  qed
  with w(1) show ?thesis by (simp add: plain_word_def list_all_iff)
qed

lemma set_join: "set (join sep ws) \<subseteq> set sep \<union> \<Union> (set ` set ws)"
  by (induction sep ws rule: join.induct) auto

lemma fields_join:
  assumes "\<forall>w \<in> set ws. plain_word w"
  shows "str_fields (join '' '' ws) = ws"
proof (cases "ws = []")
  case True
  then show ?thesis by (simp add: str_fields_def)
next
  case False
  have "(if is_space c then CHR '' '' else c) = c" if "c \<in> set (join '' '' ws)" for c
    using that set_join [of "'' ''" ws] assms by (auto simp: plain_word_def list_all_iff)
  then have "map (\<lambda>c. if is_space c then CHR '' '' else c) (join '' '' ws) = join '' '' ws" by (simp add: map_idI)
  moreover have "split_on CHR '' '' (join '' '' ws) = ws"
    using False assms by (intro split_on_join) (auto dest: plain_word_fresh)
  moreover have "filter (\<lambda>w. w \<noteq> '''') ws = ws"
    using assms by (intro filter_True) (auto simp: plain_word_def)
  ultimately show ?thesis by (simp add: str_fields_def)
qed

lemma path_hierarchy:
  "(\<forall>w \<in> set h. plain_word w) \<Longrightarrow> hierarchyFromPath (pathFromHierarchy h) = h"
  by (simp add: hierarchyFromPath_def pathFromHierarchy_def fields_join)

lemma hierarchy_words: "w \<in> set (hierarchyFromPath s) \<Longrightarrow> plain_word w"
  by (simp add: hierarchyFromPath_def fields_words)

section \<open>The paths an entry claims\<close>

definition claimed_paths :: "plugin_info \<Rightarrow> string \<Rightarrow> string list" where
  "claimed_paths p path =
     (let h = hierarchyFromPath path; d = pathFromHierarchy h; a = alternateRemapLocation p d
      in if h = [] then [] else if a \<noteq> '''' then [d, a] else [d])"

definition mapped_command :: "plugin_info \<Rightarrow> command_map_entry \<Rightarrow> string \<Rightarrow> command" where
  "mapped_command p e k =
     getCmdForPluginEx p (last (hierarchyFromPath k)) (Some (e\<lparr>cme_DestinationCommandPath := k\<rparr>))"

lemma plain_kubernetes: "plain_word ''kubernetes''"
  by (simp add: plain_word_def is_space_def)

lemma alternate_hierarchy:
  assumes "\<forall>w \<in> set h. plain_word w" "h \<noteq> []" "alternateRemapLocation p (pathFromHierarchy h) \<noteq> ''''"
  shows "last (hierarchyFromPath (alternateRemapLocation p (pathFromHierarchy h))) = last h"
proof -
  have sp: "split_on CHR '' '' (pathFromHierarchy h) = h"
    unfolding pathFromHierarchy_def using assms(1,2) by (intro split_on_join) (auto dest: plain_word_fresh)
  have "hierarchyFromPath (''kubernetes '' @ x) = [''kubernetes'', x]" if "plain_word x" for x
    using path_hierarchy [of "[''kubernetes'', x]"] that plain_kubernetes by (simp add: pathFromHierarchy_def)
  moreover have "hierarchyFromPath x = [x]" if "plain_word x" for x
    using path_hierarchy [of "[x]"] that by (simp add: pathFromHierarchy_def)
  ultimately show ?thesis
    using assms unfolding alternateRemapLocation_def sp Let_def
    by (auto split: if_splits simp: length_Suc_conv numeral_2_eq_2)
qed

lemma getCmd_destination:
  "hierarchyFromPath (cme_DestinationCommandPath e) = hierarchyFromPath k \<Longrightarrow>
   getCmdForPluginEx p n (Some e) = getCmdForPluginEx p n (Some (e\<lparr>cme_DestinationCommandPath := k\<rparr>))"
  by (simp add: getCmdForPluginEx_def Let_def)

lemma mapped_destination:
  assumes "h = hierarchyFromPath (cme_DestinationCommandPath e)" "h \<noteq> []"
  shows "getCmdForPluginEx p (last h) (Some e) = mapped_command p e (pathFromHierarchy h)"
proof -
  have "hierarchyFromPath (pathFromHierarchy h) = h"
    using assms(1) hierarchy_words by (intro path_hierarchy) auto
  with assms(1) show ?thesis
    unfolding mapped_command_def by (simp add: getCmd_destination [of e "pathFromHierarchy h"])
qed

lemma entries_loop_lookup:
  "map_of (map_entries_loop cmp p es m) k =
     (case filter (\<lambda>e. isMapEntryAllowed cmp e \<and> k \<in> set (claimed_paths p (cme_DestinationCommandPath e))) es of
        [] \<Rightarrow> map_of m k | fs \<Rightarrow> Some (Some (mapped_command p (last fs) k)))"
proof (induction es arbitrary: m)
  case Nil
  then show ?case by simp
next
  case (Cons e es)
  let ?P = "\<lambda>e. isMapEntryAllowed cmp e \<and> k \<in> set (claimed_paths p (cme_DestinationCommandPath e))"
  let ?h = "hierarchyFromPath (cme_DestinationCommandPath e)"
  let ?d = "pathFromHierarchy ?h" and ?a = "alternateRemapLocation p (pathFromHierarchy ?h)"
  show ?case
  proof (cases "\<not> isMapEntryAllowed cmp e \<or> ?h = []")
    case True
    then have "\<not> ?P e" by (auto simp: claimed_paths_def)
    then have "filter ?P (e # es) = filter ?P es" by (simp only: filter.simps if_False)
    with True Cons.IH [of m] show ?thesis by (simp only:) simp
  next
    case False
    then have h: "?h \<noteq> []" and allowed: "isMapEntryAllowed cmp e" by auto
    have alt: "last (hierarchyFromPath ?a) = last ?h" if "?a \<noteq> ''''"
      using alternate_hierarchy [OF _ h that] hierarchy_words by blast
    have step: "map_of (if ?a \<noteq> '''' then AList.update ?a (Some (getCmdForPluginEx p (last ?h) (Some (e\<lparr>cme_DestinationCommandPath := ?a\<rparr>))))
          (AList.update ?d (Some (getCmdForPluginEx p (last ?h) (Some e))) m)
        else AList.update ?d (Some (getCmdForPluginEx p (last ?h) (Some e))) m) k =
        (if ?P e then Some (Some (mapped_command p e k)) else map_of m k)"
      using h allowed alt by (auto simp: claimed_paths_def Let_def mapped_destination [OF refl h] mapped_command_def)
    have "map_of (map_entries_loop cmp p (e # es) m) k =
        (case filter ?P es of [] \<Rightarrow> (if ?P e then Some (Some (mapped_command p e k)) else map_of m k)
         | fs \<Rightarrow> Some (Some (mapped_command p (last fs) k)))"
      unfolding step [symmetric] Cons.IH [symmetric] using False by (simp add: Let_def)
    then show ?thesis by (auto split: list.splits)
  qed
qed

lemma map_of_mark_removed: "map_of (mark_removed path m) k = (if k = path \<and> map_of m k = None then Some None else map_of m k)"
  by (auto simp: mark_removed_def)

lemma overrides_loop_lookup:
  "map_of (overrides_loop cmp p es m) k =
     (if map_of m k = None \<and> list_ex (\<lambda>e. isMapEntryAllowed cmp e \<and> k \<in> set (claimed_paths p (cme_Overrides e))) es
      then Some None else map_of m k)"
proof (induction es arbitrary: m)
  case Nil
  then show ?case by simp
next
  case (Cons e es)
  let ?h = "hierarchyFromPath (cme_Overrides e)"
  let ?d = "pathFromHierarchy ?h" and ?a = "alternateRemapLocation p (pathFromHierarchy ?h)"
  let ?Q = "\<lambda>e. isMapEntryAllowed cmp e \<and> k \<in> set (claimed_paths p (cme_Overrides e))"
  have empty: "hierarchyFromPath '''' = []" by (simp add: hierarchyFromPath_def str_fields_def)
  show ?case
  proof (cases "\<not> isMapEntryAllowed cmp e \<or> cme_Overrides e = '''' \<or> length ?h = 0")
    case True
    with empty have "\<not> ?Q e" by (auto simp: claimed_paths_def)
    then have "list_ex ?Q (e # es) = list_ex ?Q es" by (simp only: list_ex_Cons_iff simp_thms)
    with True Cons.IH [of m] show ?thesis by (simp only:) (simp add: Let_def)
  next
    case False
    then have unfold: "overrides_loop cmp p (e # es) m =
        overrides_loop cmp p es (if ?a \<noteq> '''' then mark_removed ?a (mark_removed ?d m) else mark_removed ?d m)"
      unfolding overrides_loop.simps Let_def by (rule if_not_P)
    have Q: "?Q e \<longleftrightarrow> k = ?d \<or> ?a \<noteq> '''' \<and> k = ?a" using False by (auto simp: claimed_paths_def Let_def)
    have "map_of (if ?a \<noteq> '''' then mark_removed ?a (mark_removed ?d m) else mark_removed ?d m) k =
        (if map_of m k = None \<and> ?Q e then Some None else map_of m k)"
      unfolding Q by (cases "?a = ''''") (auto simp: map_of_mark_removed)
    then show ?thesis unfolding unfold Cons.IH list_ex_Cons_iff by (cases "?Q e") auto
  qed
qed

text \<open>C6 (functional): the command map of a plugin. A path is in the map exactly when an entry that is
  allowed for the active contexts claims it, as destination or as override, directly or as the
  alternate location of a kubernetes plugin. The last entry with that destination provides the
  command, named after the last word of the path; a path that is only overridden is mapped to no
  command, which removes it.\<close>

theorem command_map_exact:
  "map_of (GetCommandMapForPlugin cmp p) k =
     (case filter (\<lambda>e. isMapEntryAllowed cmp e \<and> k \<in> set (claimed_paths p (cme_DestinationCommandPath e))) (pi_CommandMap p) of
        [] \<Rightarrow> if list_ex (\<lambda>e. isMapEntryAllowed cmp e \<and> k \<in> set (claimed_paths p (cme_Overrides e))) (pi_CommandMap p)
              then Some None else None
      | fs \<Rightarrow> Some (Some (mapped_command p (last fs) k)))"
  unfolding GetCommandMapForPlugin_def overrides_loop_lookup entries_loop_lookup
  by (auto split: list.splits)

end
