(* ===== verification/Cli_Config.thy ===== *)
theory Cli_Config
  imports Cli_Types
begin

text \<open>
  \<^verbatim>\<open>pkg/config/config.go\<close>: the environment variables of the configuration file, the opt-in to
  the customer experience programme and the acceptance of the licence agreement.

  The configuration file is written and read by the library \<^verbatim>\<open>tanzu-plugin-runtime/config\<close>: \<open>cfg_store\<close> is
  what it stores, and a call of it fails with the error \<open>cx_fault\<close> gives for the operation. The
  prompts of \<^verbatim>\<open>component\<close> and \<^verbatim>\<open>golang.org/x/mod/semver\<close> are parameters too.
\<close>

record cfg_store =
  cs_CEIPOptIn :: string
  cs_EULAStatus :: string
  cs_EULAAcceptedVersions :: "string list"

datatype cfg_op = OpSetCEIPOptIn | OpSetEULAStatus | OpGetEULAAcceptedVersions | OpSetEULAAcceptedVersions

datatype prompt_kind = PromptCEIP | PromptEULA

record cfg_env =
  cx_fault :: "cfg_op \<Rightarrow> err option"
  cx_Prompt :: "prompt_kind \<Rightarrow> string res"
  cx_semver_IsValid :: "string \<Rightarrow> bool"
  cx_semver_MajorMinor :: "string \<Rightarrow> string"
  cx_CurrentEULAVersion :: string

abbreviation EULAStatusAccepted :: string where "EULAStatusAccepted \<equiv> ''accepted''"
abbreviation EULAStatusShown :: string where "EULAStatusShown \<equiv> ''shown''"

section \<open>Environment variables\<close>

fun env_loop :: "(string \<times> string) list \<Rightarrow> string list \<Rightarrow> environ \<Rightarrow> environ" where
  "env_loop envMap [] env = env"
| "env_loop envMap (k # ks) env =
     env_loop envMap ks (if env k = None then env(k \<mapsto> get_or '''' envMap k) else env)"

definition ConfigureEnvVariables :: "'v lib \<Rightarrow> (string \<times> string) list option \<Rightarrow> environ \<Rightarrow> environ" where
  "ConfigureEnvVariables L envMap env =
     (case envMap of None \<Rightarrow> env | Some m \<Rightarrow> env_loop m (range_keys L m) env)"

section \<open>Customer experience programme\<close>

definition getCEIPUserOptIn :: "cfg_env \<Rightarrow> environ \<Rightarrow> bool res" where
  "getCEIPUserOptIn X env =
     (let v = getenv env ''TANZU_CLI_CEIP_OPT_IN_PROMPT_ANSWER''
      in if v \<noteq> '''' then Inr (equal_fold v ''Yes'')
         else case cx_Prompt X PromptCEIP of Inl e \<Rightarrow> Inl e | Inr answer \<Rightarrow> Inr (equal_fold answer ''Yes''))"

definition ConfigureCEIPOptIn :: "cfg_env \<Rightarrow> environ \<Rightarrow> cfg_store \<Rightarrow> cfg_store \<times> err option" where
  "ConfigureCEIPOptIn X env s =
     (if cs_CEIPOptIn s \<noteq> '''' then (s, None)
      else case getCEIPUserOptIn X env of
          Inl e \<Rightarrow> (s, Some (Wrapf e ''failed to get CEIP Opt-In status'' []))
        | Inr v \<Rightarrow>
            (case cx_fault X OpSetCEIPOptIn of
               Some e \<Rightarrow> (s, Some (Wrapf e ''failed to update the CEIP Opt-In status'' []))
             | None \<Rightarrow> (s\<lparr>cs_CEIPOptIn := format_bool v\<rparr>, None)))"

section \<open>Licence agreement\<close>

fun compatible_loop :: "cfg_env \<Rightarrow> string list \<Rightarrow> bool" where
  "compatible_loop X [] = False"
| "compatible_loop X (v # vs) =
     (if cx_semver_IsValid X v \<and> cx_semver_MajorMinor X v = cx_semver_MajorMinor X (cx_CurrentEULAVersion X)
      then True else compatible_loop X vs)"

definition IsCompatibleEULAAccepted :: "cfg_env \<Rightarrow> string list \<Rightarrow> bool" where
  "IsCompatibleEULAAccepted X acceptedVersions =
     (if cx_CurrentEULAVersion X = '''' \<or> \<not> cx_semver_IsValid X (cx_CurrentEULAVersion X) then True
      else if length acceptedVersions = 0 then False
      else compatible_loop X acceptedVersions)"

definition GetEULAAcceptedVersions :: "cfg_env \<Rightarrow> cfg_store \<Rightarrow> string list res" where
  "GetEULAAcceptedVersions X s =
     (case cx_fault X OpGetEULAAcceptedVersions of Some e \<Rightarrow> Inl e | None \<Rightarrow> Inr (cs_EULAAcceptedVersions s))"

definition UpdateEULAAcceptance :: "cfg_env \<Rightarrow> string \<Rightarrow> cfg_store \<Rightarrow> cfg_store \<times> err option" where
  "UpdateEULAAcceptance X status s =
     (case cx_fault X OpSetEULAStatus of
        Some e \<Rightarrow> (s, Some (Wrapf e ''failed update EULA status'' []))
      | None \<Rightarrow>
          let s1 = s\<lparr>cs_EULAStatus := status\<rparr>
          in if status = EULAStatusAccepted \<and> cx_CurrentEULAVersion X \<noteq> ''''
             then (case GetEULAAcceptedVersions X s1 of
                     Inl e \<Rightarrow> (s1, Some (Wrapf e ''unable to get accepted eula versions'' []))
                   | Inr acceptedVersions \<Rightarrow>
                       if cx_CurrentEULAVersion X \<in> set acceptedVersions then (s1, None)
                       else (case cx_fault X OpSetEULAAcceptedVersions of
                               Some e \<Rightarrow> (s1, Some (Wrapf e ''unable to update accepted eula version'' []))
                             | None \<Rightarrow> (s1\<lparr>cs_EULAAcceptedVersions := acceptedVersions @ [cx_CurrentEULAVersion X]\<rparr>, None)))
             else (s1, None))"

definition promptForEULA :: "cfg_env \<Rightarrow> environ \<Rightarrow> bool res" where
  "promptForEULA X env =
     (let v = getenv env ''TANZU_CLI_EULA_PROMPT_ANSWER''
      in if v \<noteq> '''' then Inr (equal_fold v ''Yes'')
         else case cx_Prompt X PromptEULA of
             Inl e \<Rightarrow> Inl (Wrapf e ''prompt failed'' []) | Inr answer \<Rightarrow> Inr (equal_fold answer ''Yes''))"

definition ConfigureEULA :: "cfg_env \<Rightarrow> environ \<Rightarrow> bool \<Rightarrow> cfg_store \<Rightarrow> cfg_store \<times> err option" where
  "ConfigureEULA X env alwaysPrompt s =
     (let r = GetEULAAcceptedVersions X s;
          acceptedVersions = (case r of Inl e \<Rightarrow> [] | Inr vs \<Rightarrow> vs);
          compatibleAcceptedEULAFound = (case r of Inl e \<Rightarrow> False | Inr vs \<Rightarrow> IsCompatibleEULAAccepted X vs)
      in if \<not> alwaysPrompt \<and> cs_EULAStatus s = EULAStatusAccepted \<and> compatibleAcceptedEULAFound then (s, None)
         else case promptForEULA X env of
             Inl e \<Rightarrow> (s, Some (Wrapf e ''failed to get EULA status'' []))
           | Inr accepted \<Rightarrow>
               if accepted
               then (case cx_fault X OpSetEULAAcceptedVersions of
                       Some e \<Rightarrow> (s, Some (Wrapf e ''unable to update accepted eula version'' []))
                     | None \<Rightarrow> UpdateEULAAcceptance X EULAStatusAccepted (s\<lparr>cs_EULAAcceptedVersions := acceptedVersions\<rparr>))
               else UpdateEULAAcceptance X EULAStatusShown s)"

section \<open>Properties\<close>

lemma compatible_loop_iff:
  "compatible_loop X vs \<longleftrightarrow> (\<exists>v \<in> set vs. cx_semver_IsValid X v \<and>
     cx_semver_MajorMinor X v = cx_semver_MajorMinor X (cx_CurrentEULAVersion X))"
  by (induction vs) auto

lemma update_acceptance:
  assumes "UpdateEULAAcceptance X EULAStatusAccepted s = (s', None)"
  shows "cs_EULAStatus s' = EULAStatusAccepted \<and> IsCompatibleEULAAccepted X (cs_EULAAcceptedVersions s') \<and>
    set (cs_EULAAcceptedVersions s) \<subseteq> set (cs_EULAAcceptedVersions s')"
  using assms
  by (auto simp: UpdateEULAAcceptance_def IsCompatibleEULAAccepted_def GetEULAAcceptedVersions_def compatible_loop_iff Let_def
      split: option.splits if_splits)

lemma update_shown:
  "UpdateEULAAcceptance X EULAStatusShown s = (s', None) \<Longrightarrow> cs_EULAStatus s' = EULAStatusShown"
  by (auto simp: UpdateEULAAcceptance_def Let_def split: option.splits)

lemma ConfigureEULA_accepted:
  assumes "ConfigureEULA X env always s = (s', None)" "cs_EULAStatus s' = EULAStatusAccepted"
  shows "IsCompatibleEULAAccepted X (cs_EULAAcceptedVersions s')"
proof (cases "GetEULAAcceptedVersions X s")
  case (Inl e)
  then show ?thesis
    using assms update_acceptance [of X] update_shown [of X]
    by (auto simp: ConfigureEULA_def Let_def split: if_splits sum.splits option.splits)
next
  case (Inr vs)
  then have "vs = cs_EULAAcceptedVersions s" by (simp add: GetEULAAcceptedVersions_def split: option.splits)
  with Inr show ?thesis
    using assms update_acceptance [of X] update_shown [of X]
    by (auto simp: ConfigureEULA_def Let_def split: if_splits sum.splits option.splits)
qed

end
