(* ===== verification/Command_Root.thy ===== *)
theory Command_Root
  imports Command_Map_Correct Cli_Config "HOL-Library.Monad_Syntax"
begin

text \<open>
  The command tree of the CLI, \<^verbatim>\<open>pkg/command/root.go\<close>: the core commands, the commands of the
  installed plugins, the remapping of commands and what is skipped for which command.

  The tree itself is kept by \<^verbatim>\<open>github.com/spf13/cobra\<close>: a \<open>cobra\<close> record holds its operations on a
  heap \<open>'h\<close> of commands, which are identified by numbers (the pointers); \<open>cobra_laws\<close> states what
  its documentation promises. A \<^verbatim>\<open>nil\<close> dereference is the result \<open>None\<close> of the definitions with an
  option result.
\<close>

section \<open>Cobra\<close>

type_synonym cid = nat

record 'h cobra =
  cb_Name :: "command \<Rightarrow> string"
  cb_new :: "command \<Rightarrow> 'h \<Rightarrow> 'h \<times> cid"
  cb_get :: "'h \<Rightarrow> cid \<Rightarrow> command"
  cb_Commands :: "'h \<Rightarrow> cid \<Rightarrow> cid list"
  cb_Parent :: "'h \<Rightarrow> cid \<Rightarrow> cid option"
  cb_AddCommand :: "cid \<Rightarrow> cid \<Rightarrow> 'h \<Rightarrow> 'h"
  cb_RemoveCommand :: "cid \<Rightarrow> cid \<Rightarrow> 'h \<Rightarrow> 'h"
  cb_set :: "cid \<Rightarrow> command \<Rightarrow> 'h \<Rightarrow> 'h"

abbreviation cname :: "'h cobra \<Rightarrow> 'h \<Rightarrow> cid \<Rightarrow> string" where
  "cname C h x \<equiv> cb_Name C (cb_get C h x)"

section \<open>Finding commands\<close>

definition matchOnCommandNameAndAliases :: "'h cobra \<Rightarrow> 'h \<Rightarrow> cid \<Rightarrow> string \<Rightarrow> bool" where
  "matchOnCommandNameAndAliases C h cmd v \<longleftrightarrow> cname C h cmd = v \<or> v \<in> set (cmd_Aliases (cb_get C h cmd))"

definition findSubCommand :: "'h cobra \<Rightarrow> 'h \<Rightarrow> cid \<Rightarrow> cid \<Rightarrow> cid option" where
  "findSubCommand C h rootCmd subCmd =
     List.find (\<lambda>x. cname C h x = cname C h subCmd) (cb_Commands C h rootCmd)"

text \<open>The command at a path and its parent; an absent command still has a parent when the path without
  its last word exists. The hierarchy is never empty.\<close>

fun findSubCommandByHierarchy :: "'h cobra \<Rightarrow> 'h \<Rightarrow> cid \<Rightarrow> string list \<Rightarrow> cid option \<times> cid option" where
  "findSubCommandByHierarchy C h cmd [] = (None, None)"
| "findSubCommandByHierarchy C h cmd [w] =
     (case List.find (\<lambda>x. matchOnCommandNameAndAliases C h x w) (cb_Commands C h cmd) of
        Some x \<Rightarrow> (Some x, cb_Parent C h x) | None \<Rightarrow> (None, Some cmd))"
| "findSubCommandByHierarchy C h cmd (w # v # ws) =
     (case List.find (\<lambda>x. cname C h x = w) (cb_Commands C h cmd) of
        Some x \<Rightarrow> findSubCommandByHierarchy C h x (v # ws) | None \<Rightarrow> (None, None))"

definition findSubCommandByPath :: "'h cobra \<Rightarrow> 'h \<Rightarrow> cid \<Rightarrow> string \<Rightarrow> cid option \<times> cid option" where
  "findSubCommandByPath C h rootCmd path = findSubCommandByHierarchy C h rootCmd (split_on CHR '' '' path)"

definition isPluginRootCmdTargeted :: "plugin_info \<Rightarrow> bool" where
  "isPluginRootCmdTargeted p \<longleftrightarrow>
     pi_Target p = TargetGlobal \<or> pi_Target p = TargetK8s \<or> pi_Target p = TargetUnknown"

definition isStandalonePluginCommand :: "command \<Rightarrow> bool" where
  "isStandalonePluginCommand c \<longleftrightarrow> map_of (cmd_Annotations c) ''scope'' = Some PluginScopeStandalone"

definition isPluginCommand :: "command \<Rightarrow> bool" where
  "isPluginCommand c \<longleftrightarrow> map_of (cmd_Annotations c) ''type'' = Some ''plugin''"

section \<open>Adding the plugins\<close>

text \<open>The inner \<^verbatim>\<open>continue\<close> of the source continues the innermost loop, so that an entry is appended
  for every element of \<open>InvokedAs\<close>.\<close>

definition convert_plugin :: "plugin_info \<Rightarrow> plugin_info" where
  "convert_plugin p =
     p\<lparr>pi_CommandMap := pi_CommandMap p @
         map (\<lambda>path. \<lparr>cme_SourceCommandPath = '''', cme_DestinationCommandPath = path, cme_Overrides = '''',
               cme_Description = '''', cme_Aliases = [], cme_RequiredContextType = []\<rparr>) (pi_InvokedAs p)\<rparr>"

definition convertInvokedAs :: "plugin_info list \<Rightarrow> plugin_info list" where
  "convertInvokedAs plugins = map convert_plugin plugins"

record target_cmds =
  k8sCmd :: cid
  tmcCmd :: cid
  opsCmd :: cid
  tpeCmd :: cid

definition mapTargetToCmd :: "target_cmds \<Rightarrow> string \<Rightarrow> cid option" where
  "mapTargetToCmd T target =
     map_of [(TargetK8s, k8sCmd T), (TargetTMC, tmcCmd T), (TargetOperations, opsCmd T)] target"

fun target_plugins_loop :: "'h cobra \<Rightarrow> target_cmds \<Rightarrow> plugin_info list \<Rightarrow> 'h \<Rightarrow> 'h" where
  "target_plugins_loop C T [] h = h"
| "target_plugins_loop C T (p # ps) h =
     target_plugins_loop C T ps
       (case mapTargetToCmd T (pi_Target p) of
          None \<Rightarrow> h
        | Some targetCmd \<Rightarrow>
            (case GetUnmappedCmdForPlugin p of
               None \<Rightarrow> h
             | Some cmd \<Rightarrow> (case cb_new C cmd h of (h1, x) \<Rightarrow> cb_AddCommand C targetCmd x h1)))"

definition setupTargetPlugins ::
    "'v lib \<Rightarrow> 'h cobra \<Rightarrow> target_cmds \<Rightarrow> 'b cat_yaml \<Rightarrow> string list res \<Rightarrow> 'b cat_fs \<Rightarrow> 'h \<Rightarrow>
     ('b cat_fs \<times> 'h \<times> err option) option" where
  "setupTargetPlugins L C T Y activeContexts w h = do {
     (w1, r) \<leftarrow> GetInstalledPlugins L Y activeContexts w;
     Some (case r of
       Inl e \<Rightarrow> (w1, h, Some (Wrapf e ''unable to find installed plugins'' []))
     | Inr plugins \<Rightarrow> (w1, target_plugins_loop C T (convertInvokedAs plugins) h, None))
   }"

text \<open>The first pass over the plugins; the lists are the names masked by another plugin and by a core
  command.\<close>

fun root_plugins_loop ::
    "'h cobra \<Rightarrow> cid \<Rightarrow> plugin_info list \<Rightarrow> 'h \<times> string list \<times> string list \<Rightarrow> 'h \<times> string list \<times> string list" where
  "root_plugins_loop C rootCmd [] st = st"
| "root_plugins_loop C rootCmd (p # ps) (h, byPlugin, byCore) =
     (if \<not> isPluginRootCmdTargeted p then root_plugins_loop C rootCmd ps (h, byPlugin, byCore)
      else case GetUnmappedCmdForPlugin p of
          None \<Rightarrow> root_plugins_loop C rootCmd ps (h, byPlugin, byCore)
        | Some c \<Rightarrow>
            (case cb_new C c h of
               (h1, cmd) \<Rightarrow>
                 (case findSubCommand C h1 rootCmd cmd of
                    None \<Rightarrow> root_plugins_loop C rootCmd ps (cb_AddCommand C rootCmd cmd h1, byPlugin, byCore)
                  | Some matchedCmd \<Rightarrow>
                      if (pi_Scope p = PluginScopeContext \<or> pi_Target p = TargetGlobal) \<and>
                         isStandalonePluginCommand (cb_get C h1 matchedCmd)
                      then root_plugins_loop C rootCmd ps
                             (cb_AddCommand C rootCmd cmd (cb_RemoveCommand C rootCmd matchedCmd h1),
                              byPlugin @ [cname C h1 matchedCmd], byCore)
                      else if pi_Name p \<noteq> ''login''
                      then root_plugins_loop C rootCmd ps
                             (if isPluginCommand (cb_get C h1 matchedCmd)
                              then (h1, byPlugin @ [pi_Name p], byCore)
                              else (h1, byPlugin, byCore @ [pi_Name p]))
                      else root_plugins_loop C rootCmd ps (h1, byPlugin, byCore))))"

section \<open>Remapping\<close>

fun merge_cmd_map :: "'h cobra \<Rightarrow> cmd_map \<Rightarrow> string list \<Rightarrow> cmd_map \<times> string list \<Rightarrow> cmd_map \<times> string list" where
  "merge_cmd_map C m [] st = st"
| "merge_cmd_map C m (pathKey # ks) (result, masked) =
     (case map_of m pathKey of
        None \<Rightarrow> merge_cmd_map C m ks (result, masked)
      | Some newCmd \<Rightarrow>
          if map_of result pathKey \<noteq> None
          then merge_cmd_map C m ks (result, case newCmd of None \<Rightarrow> masked | Some c \<Rightarrow> masked @ [cb_Name C c])
          else merge_cmd_map C m ks (AList.update pathKey newCmd result, masked))"

fun replacement_loop ::
    "'v lib \<Rightarrow> 'h cobra \<Rightarrow> command_map_processor \<Rightarrow> plugin_info list \<Rightarrow> cmd_map \<times> string list \<Rightarrow> cmd_map \<times> string list" where
  "replacement_loop L C cmp [] st = st"
| "replacement_loop L C cmp (p # ps) st =
     (let m = GetCommandMapForPlugin cmp p
      in replacement_loop L C cmp ps (merge_cmd_map C m (range_keys L m) st))"

definition buildReplacementMap ::
    "'v lib \<Rightarrow> 'h cobra \<Rightarrow> (string \<times> 'c) list res \<Rightarrow> plugin_info list \<Rightarrow> cmd_map \<times> string list" where
  "buildReplacementMap L C activeContextMap plugins =
     (case activeContextMap of
        Inl e \<Rightarrow> ([], [])
      | Inr m \<Rightarrow> replacement_loop L C (NewCommandMapProcessor m) plugins ([], []))"

fun remap_loop :: "'h cobra \<Rightarrow> cid \<Rightarrow> cmd_map \<Rightarrow> string list \<Rightarrow> 'h \<Rightarrow> 'h option" where
  "remap_loop C rootCmd m [] h = Some h"
| "remap_loop C rootCmd m (pathKey # ks) h =
     (case map_of m pathKey of
        None \<Rightarrow> remap_loop C rootCmd m ks h
      | Some cmd \<Rightarrow>
          (case findSubCommandByPath C h rootCmd pathKey of
             (matchedCmd, parentCmd) \<Rightarrow>
               (case parentCmd of
                  Some parent \<Rightarrow>
                    if isPluginCommand (cb_get C h parent) then remap_loop C rootCmd m ks h
                    else (case matchedCmd of
                            None \<Rightarrow>
                              (case cmd of
                                 None \<Rightarrow> None
                               | Some c \<Rightarrow> (case cb_new C c h of
                                     (h1, x) \<Rightarrow> remap_loop C rootCmd m ks (cb_AddCommand C parent x h1)))
                          | Some matched \<Rightarrow>
                              let h1 = cb_RemoveCommand C parent matched h
                              in (case cmd of
                                    None \<Rightarrow> remap_loop C rootCmd m ks h1
                                  | Some c \<Rightarrow> (case cb_new C c h1 of
                                        (h2, x) \<Rightarrow> remap_loop C rootCmd m ks (cb_AddCommand C parent x h2))))
                | None \<Rightarrow>
                    (case matchedCmd of
                       None \<Rightarrow> (case cmd of None \<Rightarrow> None | Some c \<Rightarrow> remap_loop C rootCmd m ks h)
                     | Some matched \<Rightarrow> remap_loop C rootCmd m ks h))))"

definition remapCommandTree ::
    "'v lib \<Rightarrow> 'h cobra \<Rightarrow> (string \<times> 'c) list res \<Rightarrow> cid \<Rightarrow> plugin_info list \<Rightarrow> 'h \<Rightarrow> 'h option" where
  "remapCommandTree L C activeContextMap rootCmd plugins h =
     (let m = fst (buildReplacementMap L C activeContextMap plugins)
      in remap_loop C rootCmd m (range_keys L m) h)"

definition hide_if_empty :: "'h cobra \<Rightarrow> cid \<Rightarrow> 'h \<Rightarrow> 'h" where
  "hide_if_empty C x h =
     (if length (cb_Commands C h x) = 0 then cb_set C x ((cb_get C h x)\<lparr>cmd_Hidden := True\<rparr>) h else h)"

definition updateTargetCommandGroupVisibility :: "'h cobra \<Rightarrow> target_cmds \<Rightarrow> 'h \<Rightarrow> 'h" where
  "updateTargetCommandGroupVisibility C T h = fold (hide_if_empty C) [k8sCmd T, tmcCmd T, opsCmd T, tpeCmd T] h"

fun requires_context_check :: "'h cobra \<Rightarrow> 'h \<Rightarrow> cid \<Rightarrow> command_map_entry list \<Rightarrow> bool" where
  "requires_context_check C h rootCmd [] = False"
| "requires_context_check C h rootCmd (e # es) =
     (if cme_SourceCommandPath e = '''' \<and> fst (findSubCommandByPath C h rootCmd (cme_DestinationCommandPath e)) \<noteq> None
      then True else requires_context_check C h rootCmd es)"

definition findPluginsRequiringActiveContextCheck ::
    "'h cobra \<Rightarrow> 'h \<Rightarrow> cid \<Rightarrow> plugin_info list \<Rightarrow> plugin_info list \<times> plugin_info list" where
  "findPluginsRequiringActiveContextCheck C h rootCmd plugins =
     (filter (\<lambda>p. requires_context_check C h rootCmd (pi_CommandMap p)) plugins,
      filter (\<lambda>p. \<not> requires_context_check C h rootCmd (pi_CommandMap p)) plugins)"

text \<open>The aliases that more than one command below the root has, with the names of these commands.\<close>

fun alias_loop :: "string list \<Rightarrow> string \<Rightarrow> (string \<times> string list) list \<Rightarrow> (string \<times> string list) list" where
  "alias_loop [] name m = m"
| "alias_loop (a # as) name m =
     alias_loop as name (case map_of m a of None \<Rightarrow> AList.update a [name] m
                         | Some names \<Rightarrow> AList.update a (names @ [name]) m)"

definition duplicateAliasWarning :: "'v lib \<Rightarrow> 'h cobra \<Rightarrow> 'h \<Rightarrow> cid \<Rightarrow> (string \<times> string list) list" where
  "duplicateAliasWarning L C h rootCmd =
     (let m = fold (\<lambda>x. alias_loop (cmd_Aliases (cb_get C h x)) (cname C h x)) (cb_Commands C h rootCmd) []
      in filter (\<lambda>(a, names). length names > 1) (map (\<lambda>a. (a, get_or [] m a)) (range_keys L m)))"

section \<open>What is skipped for which command\<close>

fun isSkipCommand :: "string list \<Rightarrow> string \<Rightarrow> bool" where
  "isSkipCommand [] commandPath = False"
| "isSkipCommand (cmdPath # paths) commandPath =
     (if has_prefix commandPath cmdPath then True else isSkipCommand paths commandPath)"

definition shouldSkipTelemetryCollection :: "string \<Rightarrow> bool" where
  "shouldSkipTelemetryCollection commandPath =
     isSkipCommand [''tanzu __complete'', ''tanzu completion'', ''tanzu version'', ''tanzu context current'',
       ''tanzu telemetry''] commandPath"

definition shouldSkipPrompts :: "string \<Rightarrow> bool" where
  "shouldSkipPrompts commandPath =
     isSkipCommand [''tanzu __complete'', ''tanzu completion'', ''tanzu version'', ''tanzu config set'',
       ''tanzu config eula'', ''tanzu ceip-participation set'', ''tanzu pinniped-auth'', ''tanzu context current'',
       ''tanzu context get-token''] commandPath"

definition shouldSkipEssentialPlugins :: "string \<Rightarrow> bool" where
  "shouldSkipEssentialPlugins commandPath =
     isSkipCommand [''tanzu __complete'', ''tanzu completion'', ''tanzu version'', ''tanzu config set'',
       ''tanzu context current'', ''tanzu context get-token'', ''tanzu config eula'', ''tanzu ceip-participation set'',
       ''tanzu pinniped-auth'', ''tanzu plugin clean'', ''tanzu plugin source''] commandPath"

definition shouldSkipVersionCheck :: "string \<Rightarrow> bool" where
  "shouldSkipVersionCheck commandPath =
     isSkipCommand [''tanzu __complete'', ''tanzu completion'', ''tanzu version'', ''tanzu context current'',
       ''tanzu context get-token'', ''tanzu pinniped-auth''] commandPath"

definition shouldSkipGlobalInit :: "string \<Rightarrow> bool" where
  "shouldSkipGlobalInit commandPath =
     isSkipCommand [''tanzu __complete'', ''tanzu completion'', ''tanzu version'', ''tanzu context current'',
       ''tanzu context get-token''] commandPath"

section \<open>Creating the root command\<close>

definition group_cmd :: "string \<Rightarrow> string \<Rightarrow> string \<Rightarrow> string \<Rightarrow> command" where
  "group_cmd use short alias grp =
     \<lparr>cmd_Use = use, cmd_Short = short, cmd_Hidden = False, cmd_Aliases = [alias], cmd_Annotations = [(''group'', grp)],
      cmd_Plugin = None, cmd_Src = [], cmd_Dst = []\<rparr>"

definition target_group_cmds :: "command list" where
  "target_group_cmds =
     [group_cmd ''kubernetes'' ''Commands that interact with a Kubernetes endpoint'' ''k8s'' ''Target'',
      group_cmd ''mission-control'' ''Commands that provide functionality for Tanzu Mission Control'' ''tmc'' ''Target'',
      group_cmd ''operations'' ''Commands that support Kubernetes operations for Tanzu Platform for Kubernetes'' ''ops'' ''Target'',
      group_cmd ''platform-engineering'' ''Commands that provide functionality for Tanzu Platform Engineering'' ''tpe'' ''Extra'']"

definition newRootCmd :: command where
  "newRootCmd = \<lparr>cmd_Use = ''tanzu'', cmd_Short = ''The Tanzu CLI'', cmd_Hidden = False, cmd_Aliases = [],
     cmd_Annotations = [], cmd_Plugin = None, cmd_Src = [], cmd_Dst = []\<rparr>"

fun add_commands :: "'h cobra \<Rightarrow> cid \<Rightarrow> command list \<Rightarrow> 'h \<Rightarrow> 'h \<times> cid list" where
  "add_commands C rootCmd [] h = (h, [])"
| "add_commands C rootCmd (c # cs) h =
     (case cb_new C c h of
        (h1, x) \<Rightarrow> (case add_commands C rootCmd cs (cb_AddCommand C rootCmd x h1) of (h2, xs) \<Rightarrow> (h2, x # xs)))"

text \<open>\<open>rv_coreCmds\<close> and \<open>rv_lastCmds\<close> are the commands of the other files of the package, added before and
  after the target groups; the calls to the configuration
  library are the fields of \<open>root_env\<close>.\<close>

record root_env =
  rv_coreCmds :: "command list"
  rv_lastCmds :: "command list"
  rv_CLIId :: string
  rv_NewUUID :: string
  rv_SetCLIId :: "string \<Rightarrow> err option"
  rv_CopyLegacyConfigDir :: "err option"

definition ensureCLIInstanceID :: "root_env \<Rightarrow> string res" where
  "ensureCLIInstanceID R =
     (if rv_CLIId R \<noteq> '''' then Inr (rv_CLIId R)
      else case rv_SetCLIId R (rv_NewUUID R) of None \<Rightarrow> Inr (rv_NewUUID R) | Some e \<Rightarrow> Inl e)"

text \<open>The plugins whose plugin-level map overwrites an existing command are mapped only when their
  context type is active, if the feature is on.\<close>

definition plugins_to_remap ::
    "'v lib \<Rightarrow> 'b mgr_env \<Rightarrow> 'h cobra \<Rightarrow> 'h \<Rightarrow> cid \<Rightarrow> plugin_info list \<Rightarrow> plugin_info list" where
  "plugins_to_remap L E C h rootCmd plugins =
     (if me_FeatureActivated E ''features.global.plugin-override-on-active-context-type''
      then (case findPluginsRequiringActiveContextCheck C h rootCmd plugins of
              (pluginsToCheck, remainingPlugins) \<Rightarrow>
                (case FilterPluginsByActiveContextType L (me_ActiveContextsMap E) pluginsToCheck of
                   Inl e \<Rightarrow> plugins | Inr allowed \<Rightarrow> remainingPlugins @ allowed))
      else plugins)"

definition initial_tree :: "root_env \<Rightarrow> 'h cobra \<Rightarrow> 'h \<Rightarrow> 'h \<times> cid \<times> target_cmds" where
  "initial_tree R C h0 =
     (case cb_new C newRootCmd h0 of
        (h1, rootCmd) \<Rightarrow>
          (case add_commands C rootCmd (rv_coreCmds R) h1 of
             (h2, coreIds) \<Rightarrow>
               (case add_commands C rootCmd target_group_cmds h2 of
                  (h3, ids) \<Rightarrow>
                    (fst (add_commands C rootCmd (rv_lastCmds R) h3), rootCmd,
                     \<lparr>k8sCmd = ids ! 0, tmcCmd = ids ! 1, opsCmd = ids ! 2, tpeCmd = ids ! 3\<rparr>))))"

definition plugin_tree ::
    "'v lib \<Rightarrow> 'b mgr_env \<Rightarrow> 'h cobra \<Rightarrow> target_cmds \<Rightarrow> cid \<Rightarrow> plugin_info list \<Rightarrow> 'h \<Rightarrow> ('h \<times> string list \<times> string list) option" where
  "plugin_tree L E C T rootCmd plugins h =
     (case root_plugins_loop C rootCmd plugins (h, [], []) of
        (h1, byPlugin, byCore) \<Rightarrow> do {
          h2 \<leftarrow> remapCommandTree L C (me_ActiveContextsMap E) rootCmd (plugins_to_remap L E C h1 rootCmd plugins) h1;
          Some (updateTargetCommandGroupVisibility C T h2, byPlugin, byCore)
        })"

text \<open>The calls that change the configuration or the telemetry client, in their order.\<close>

datatype root_effect =
    ReConfigureEnvVariables
  | ReSetCLIId string
  | ReSetInstalledPlugins "plugin_info list"
  | ReUpdateCSPIssuer
  | ReUpdatePlatformEndpoints

record 'h root_cmd =
  rc_heap :: 'h
  rc_root :: cid
  rc_maskedByCore :: "string list"

definition createRootCmd ::
    "'v lib \<Rightarrow> 'b mgr_env \<Rightarrow> root_env \<Rightarrow> 'h cobra \<Rightarrow> 'b cat_fs \<Rightarrow> 'h \<Rightarrow>
     ('b cat_fs \<times> root_effect list \<times> 'h root_cmd res) option" where
  "createRootCmd L E R C w h0 =
     (case initial_tree R C h0 of
        (h3, rootCmd, T) \<Rightarrow>
          (case ensureCLIInstanceID R of
             Inl e \<Rightarrow> Some (w, [ReConfigureEnvVariables], Inl (Wrapf e ''failed to ensure CLI ID'' []))
           | Inr cliID \<Rightarrow>
               let fx1 = ReConfigureEnvVariables # (if rv_CLIId R \<noteq> '''' then [] else [ReSetCLIId cliID])
               in do {
                 (w1, h4, e) \<leftarrow> setupTargetPlugins L C T (me_yaml E) (me_ActiveContextsList E) w h3;
                 (case e of
                    Some e \<Rightarrow> Some (w1, fx1, Inl e)
                  | None \<Rightarrow> do {
                      (w2, r) \<leftarrow> GetInstalledPlugins L (me_yaml E) (me_ActiveContextsList E) w1;
                      (case r of
                         Inl e \<Rightarrow> Some (w2, fx1, Inl e)
                       | Inr installed \<Rightarrow>
                           let plugins = convertInvokedAs installed; fx2 = fx1 @ [ReSetInstalledPlugins plugins]
                           in case rv_CopyLegacyConfigDir R of
                                Some e \<Rightarrow> Some (w2, fx2,
                                  Inl (Wrapf e ''failed to copy legacy configuration directory to new location'' []))
                              | None \<Rightarrow> do {
                                  (h5, byPlugin, byCore) \<leftarrow> plugin_tree L E C T rootCmd plugins h4;
                                  w3 \<leftarrow> (if length byPlugin > 0
                                         then DeleteIncorrectPluginEntriesFromCatalog L (me_yaml E) w2 else Some w2);
                                  Some (w3, fx2 @ [ReUpdateCSPIssuer, ReUpdatePlatformEndpoints],
                                    Inr \<lparr>rc_heap = h5, rc_root = rootCmd, rc_maskedByCore = byCore\<rparr>)
                                })
                    })
               }))"

text \<open>The root command is created once.\<close>

definition NewRootCmd ::
    "'v lib \<Rightarrow> 'b mgr_env \<Rightarrow> root_env \<Rightarrow> 'h cobra \<Rightarrow> 'h root_cmd option \<Rightarrow> 'b cat_fs \<Rightarrow> 'h \<Rightarrow>
     ('b cat_fs \<times> root_effect list \<times> 'h root_cmd res) option" where
  "NewRootCmd L E R C globalRootCmd w h =
     (case globalRootCmd of
        Some root \<Rightarrow> Some (w, [], Inr root)
      | None \<Rightarrow> createRootCmd L E R C w h)"

section \<open>Running a command\<close>

text \<open>What \<open>PersistentPreRunE\<close> does, in its order, besides the changes to the configuration.\<close>

datatype prerun_step =
    PreGlobalInit | PreSetLastVersion | PreMutualExclusion | PreTelemetry | PreConfigureEULA | PreConfigureCEIP
  | PreRefreshDatabase | PreEssentialPlugins | PreActiveHelp

record prerun_env =
  pr_InitializationRequired :: bool
  pr_EnsureMutualExclusive :: "err option"
  pr_config :: cfg_env
  pr_environ :: environ

definition checkGlobalInit :: "prerun_env \<Rightarrow> prerun_step list" where
  "checkGlobalInit P = (if pr_InitializationRequired P then [PreGlobalInit] else [])"

definition installEssentialPlugins :: "prerun_step list" where
  "installEssentialPlugins = [PreRefreshDatabase, PreEssentialPlugins]"

definition prompt_steps :: "prerun_env \<Rightarrow> cfg_store \<Rightarrow> cfg_store \<times> prerun_step list \<times> err option" where
  "prompt_steps P cfg =
     (case ConfigureEULA (pr_config P) (pr_environ P) False cfg of
        (cfg1, Some e) \<Rightarrow> (cfg1, [PreConfigureEULA], Some e)
      | (cfg1, None) \<Rightarrow>
          if cs_EULAStatus cfg1 \<noteq> EULAStatusAccepted
          then (cfg1, [PreConfigureEULA], Some (Errorf ''agreement not accepted'' []))
          else (case ConfigureCEIPOptIn (pr_config P) (pr_environ P) cfg1 of
                  (cfg2, e) \<Rightarrow> (cfg2, [PreConfigureEULA, PreConfigureCEIP], e)))"

definition PersistentPreRunE ::
    "prerun_env \<Rightarrow> string \<Rightarrow> cfg_store \<Rightarrow> cfg_store \<times> prerun_step list \<times> err option" where
  "PersistentPreRunE P commandPath cfg =
     (let s1 = (if shouldSkipGlobalInit commandPath then [] else checkGlobalInit P @ [PreSetLastVersion]) @ [PreMutualExclusion]
      in case pr_EnsureMutualExclusive P of
           Some e \<Rightarrow> (cfg, s1, Some e)
         | None \<Rightarrow>
             let s2 = s1 @ (if shouldSkipTelemetryCollection commandPath then [] else [PreTelemetry])
             in case (if shouldSkipPrompts commandPath then (cfg, [], None) else prompt_steps P cfg) of
                  (cfg1, s3, Some e) \<Rightarrow> (cfg1, s2 @ s3, Some e)
                | (cfg1, s3, None) \<Rightarrow>
                    (cfg1, s2 @ s3 @ (if shouldSkipEssentialPlugins commandPath then [] else installEssentialPlugins) @
                       [PreActiveHelp], None))"

text \<open>The exit code \<open>Execute\<close> reports to telemetry: that of the plugin process if it failed
  (\<open>Inr\<close>), 1 for any other error.\<close>

definition exit_code :: "(err + int) option \<Rightarrow> int" where
  "exit_code executionErr = (case executionErr of None \<Rightarrow> 0 | Some (Inl e) \<Rightarrow> 1 | Some (Inr code) \<Rightarrow> code)"

end
