(* ===== verification/Command_Root_Correct.thy ===== *)
theory Command_Root_Correct
  imports Command_Root
begin

text \<open>
  Correctness of the command tree: adding the plugins keeps the names below the root distinct and never
  removes a core command; of several plugins that claim a path the first one gets it; the essential
  plugins are installed only once the licence agreement is accepted.
\<close>

section \<open>The laws of cobra\<close>

text \<open>\<open>A h\<close> is the set of the commands allocated so far.\<close>

definition new_law :: "'h cobra \<Rightarrow> ('h \<Rightarrow> cid set) \<Rightarrow> bool" where
  "new_law C A \<longleftrightarrow> (\<forall>c h h' x. cb_new C c h = (h', x) \<longrightarrow>
     x \<notin> A h \<and> A h' = insert x (A h) \<and> cb_get C h' = (cb_get C h)(x := c) \<and>
     cb_Commands C h' = (cb_Commands C h)(x := []) \<and> cb_Parent C h' = (cb_Parent C h)(x := None))"

definition add_law :: "'h cobra \<Rightarrow> ('h \<Rightarrow> cid set) \<Rightarrow> bool" where
  "add_law C A \<longleftrightarrow> (\<forall>p x h. let h' = cb_AddCommand C p x h in p \<noteq> x \<longrightarrow>
     A h' = A h \<and> cb_get C h' = cb_get C h \<and> cb_Parent C h' = (cb_Parent C h)(x := Some p) \<and>
     (\<forall>q. q \<noteq> p \<longrightarrow> cb_Commands C h' q = cb_Commands C h q) \<and>
     mset (cb_Commands C h' p) = add_mset x (mset (cb_Commands C h p)))"

definition remove_law :: "'h cobra \<Rightarrow> ('h \<Rightarrow> cid set) \<Rightarrow> bool" where
  "remove_law C A \<longleftrightarrow> (\<forall>p x h. let h' = cb_RemoveCommand C p x h in x \<in> set (cb_Commands C h p) \<longrightarrow>
     A h' = A h \<and> cb_get C h' = cb_get C h \<and> cb_Parent C h' = (cb_Parent C h)(x := None) \<and>
     (\<forall>q. q \<noteq> p \<longrightarrow> cb_Commands C h' q = cb_Commands C h q) \<and>
     mset (cb_Commands C h' p) = mset (cb_Commands C h p) - {#x#})"

definition cobra_laws :: "'h cobra \<Rightarrow> ('h \<Rightarrow> cid set) \<Rightarrow> bool" where
  "cobra_laws C A \<longleftrightarrow> new_law C A \<and> add_law C A \<and> remove_law C A"

lemma cobra_new:
  assumes "cobra_laws C A" "cb_new C c h = (h', x)"
  shows "x \<notin> A h" "A h' = insert x (A h)" "cb_get C h' = (cb_get C h)(x := c)"
    "cb_Commands C h' = (cb_Commands C h)(x := [])"
  using assms by (simp_all add: cobra_laws_def new_law_def)

lemma cobra_add:
  assumes "cobra_laws C A" "p \<noteq> x"
  shows "A (cb_AddCommand C p x h) = A h" "cb_get C (cb_AddCommand C p x h) = cb_get C h"
    "mset (cb_Commands C (cb_AddCommand C p x h) p) = add_mset x (mset (cb_Commands C h p))"
  using assms by (simp_all add: cobra_laws_def add_law_def Let_def)

lemma cobra_remove:
  assumes "cobra_laws C A" "x \<in> set (cb_Commands C h p)"
  shows "A (cb_RemoveCommand C p x h) = A h" "cb_get C (cb_RemoveCommand C p x h) = cb_get C h"
    "mset (cb_Commands C (cb_RemoveCommand C p x h) p) = mset (cb_Commands C h p) - {#x#}"
  using assms by (simp_all add: cobra_laws_def remove_law_def Let_def)

section \<open>The commands below the root\<close>

definition root_ok :: "'h cobra \<Rightarrow> ('h \<Rightarrow> cid set) \<Rightarrow> cid \<Rightarrow> 'h \<Rightarrow> bool" where
  "root_ok C A r h \<longleftrightarrow> r \<in> A h \<and> set (cb_Commands C h r) \<subseteq> A h \<and> distinct (map (cname C h) (cb_Commands C h r))"

text \<open>What a step of the loop keeps: the names stay distinct, no name disappears and no command but a
  stand-alone plugin command is removed; no command is changed.\<close>

definition root_step :: "'h cobra \<Rightarrow> ('h \<Rightarrow> cid set) \<Rightarrow> cid \<Rightarrow> 'h \<Rightarrow> 'h \<Rightarrow> bool" where
  "root_step C A r h h' \<longleftrightarrow> root_ok C A r h' \<and> A h \<subseteq> A h' \<and> (\<forall>x \<in> A h. cb_get C h' x = cb_get C h x) \<and>
     (\<forall>x \<in> set (cb_Commands C h r). isStandalonePluginCommand (cb_get C h x) \<or> x \<in> set (cb_Commands C h' r)) \<and>
     cname C h ` set (cb_Commands C h r) \<subseteq> cname C h' ` set (cb_Commands C h' r)"

lemma root_step_refl: "root_ok C A r h \<Longrightarrow> root_step C A r h h"
  by (simp add: root_step_def)

lemma root_step_trans:
  assumes "root_ok C A r h1" "root_step C A r h1 h2" "root_step C A r h2 h3"
  shows "root_step C A r h1 h3"
proof -
  have kept: "isStandalonePluginCommand (cb_get C h1 x) \<or> x \<in> set (cb_Commands C h3 r)"
    if "x \<in> set (cb_Commands C h1 r)" for x
  proof -
    have "cb_get C h2 x = cb_get C h1 x" using assms(1,2) that by (auto simp: root_ok_def root_step_def)
    moreover have "isStandalonePluginCommand (cb_get C h1 x) \<or> x \<in> set (cb_Commands C h2 r)"
      using assms(2) that by (simp add: root_step_def)
    moreover have "isStandalonePluginCommand (cb_get C h2 x) \<or> x \<in> set (cb_Commands C h3 r)"
      if "x \<in> set (cb_Commands C h2 r)" using assms(3) that by (simp add: root_step_def)
    ultimately show ?thesis by auto
  qed
  from assms(2,3) have "\<forall>x \<in> A h1. cb_get C h3 x = cb_get C h1 x" "A h1 \<subseteq> A h3" "root_ok C A r h3"
    "cname C h1 ` set (cb_Commands C h1 r) \<subseteq> cname C h3 ` set (cb_Commands C h3 r)"
    unfolding root_step_def by fastforce+
  with kept show ?thesis by (simp add: root_step_def)
qed

lemma new_step:
  assumes "cobra_laws C A" "root_ok C A r h" "cb_new C c h = (h1, x)"
  shows "root_step C A r h h1" "cb_Commands C h1 r = cb_Commands C h r" "x \<notin> set (cb_Commands C h1 r)"
    "cb_get C h1 x = c" "x \<in> A h1"
proof -
  note new = cobra_new [OF assms(1,3)]
  have r: "r \<noteq> x" using new(1) assms(2) by (auto simp: root_ok_def)
  then show same: "cb_Commands C h1 r = cb_Commands C h r" by (simp add: new(4))
  have old: "y \<noteq> x" if "y \<in> A h" for y using that new(1) by auto
  have ch: "y \<in> A h" if "y \<in> set (cb_Commands C h r)" for y using that assms(2) by (auto simp: root_ok_def)
  then show "x \<notin> set (cb_Commands C h1 r)" using same new(1) by auto
  have names: "map (cname C h1) (cb_Commands C h1 r) = map (cname C h) (cb_Commands C h r)"
    unfolding same using ch old by (simp add: new(3))
  have "cname C h1 ` set (cb_Commands C h1 r) = cname C h ` set (cb_Commands C h r)"
    using arg_cong [OF names, of set] by simp
  moreover have "distinct (map (cname C h1) (cb_Commands C h1 r))"
    unfolding names using assms(2) by (simp add: root_ok_def)
  then have "root_ok C A r h1"
    using assms(2) unfolding root_ok_def same new(2) by blast
  ultimately show "root_step C A r h h1"
    using same old by (auto simp: root_step_def new(2,3))
  show "cb_get C h1 x = c" "x \<in> A h1" by (simp_all add: new(2,3))
qed

lemma add_step:
  assumes "cobra_laws C A" "root_ok C A r h" "r \<noteq> x" "x \<in> A h" "cname C h x \<notin> cname C h ` set (cb_Commands C h r)"
  shows "root_step C A r h (cb_AddCommand C r x h)" "x \<in> set (cb_Commands C (cb_AddCommand C r x h) r)"
proof -
  note add = cobra_add [OF assms(1,3)]
  have set: "set (cb_Commands C (cb_AddCommand C r x h) r) = insert x (set (cb_Commands C h r))"
    by (metis add(3) set_mset_add_mset_insert set_mset_mset)
  have "mset (map (cname C h) (cb_Commands C (cb_AddCommand C r x h) r)) = mset (map (cname C h) (x # cb_Commands C h r))"
    by (simp add: add(3))
  then have "distinct (map (cname C h) (cb_Commands C (cb_AddCommand C r x h) r)) = distinct (map (cname C h) (x # cb_Commands C h r))"
    by (rule mset_eq_imp_distinct_iff)
  with assms(2,4,5) show "root_step C A r h (cb_AddCommand C r x h)"
    by (auto simp: root_step_def root_ok_def add set)
  show "x \<in> set (cb_Commands C (cb_AddCommand C r x h) r)" by (simp add: set)
qed

lemma replace_step:
  assumes "cobra_laws C A" "root_ok C A r h" "x \<in> A h" "m \<in> set (cb_Commands C h r)" "cname C h x = cname C h m"
    "isStandalonePluginCommand (cb_get C h m)" "r \<noteq> x"
  shows "root_step C A r h (cb_AddCommand C r x (cb_RemoveCommand C r m h))"
    "x \<in> set (cb_Commands C (cb_AddCommand C r x (cb_RemoveCommand C r m h)) r)"
proof -
  let ?h1 = "cb_RemoveCommand C r m h"
  note rem = cobra_remove [OF assms(1,4)] and add = cobra_add [OF assms(1,7), of ?h1]
  have dist: "distinct (map (cname C h) (cb_Commands C h r))" using assms(2) by (simp add: root_ok_def)
  then have d1: "distinct (cb_Commands C h r)" by (rule distinct_map [THEN iffD1, THEN conjunct1])
  have ms: "mset (cb_Commands C ?h1 r) = mset (remove1 m (cb_Commands C h r))" using rem(3) by simp
  have set1: "set (cb_Commands C ?h1 r) = set (cb_Commands C h r) - {m}"
    using mset_eq_setD [OF ms] d1 by (simp add: set_remove1_eq)
  have set2: "set (cb_Commands C (cb_AddCommand C r x ?h1) r) = insert x (set (cb_Commands C h r) - {m})"
    using set1 by (metis add(3) set_mset_add_mset_insert set_mset_mset)
  have "mset (cb_Commands C (cb_AddCommand C r x ?h1) r) = mset (x # remove1 m (cb_Commands C h r))" using add(3) ms by simp
  then have "mset (map (cname C h) (cb_Commands C (cb_AddCommand C r x ?h1) r)) = mset (map (cname C h) (x # remove1 m (cb_Commands C h r)))"
    by (simp only: mset_map)
  then have "distinct (map (cname C h) (cb_Commands C (cb_AddCommand C r x ?h1) r)) = distinct (map (cname C h) (x # remove1 m (cb_Commands C h r)))"
    by (rule mset_eq_imp_distinct_iff)
  moreover have "cname C h m \<notin> cname C h ` (set (cb_Commands C h r) - {m})"
    using dist assms(4) by (auto simp: distinct_map inj_on_def)
  ultimately have "distinct (map (cname C h) (cb_Commands C (cb_AddCommand C r x ?h1) r))"
    using dist d1 assms(5) by (auto simp: distinct_map set_remove1_eq intro: inj_on_diff)
  with assms(2,3,6) assms(5) show "root_step C A r h (cb_AddCommand C r x ?h1)"
    by (auto simp: root_step_def root_ok_def add rem set2)
  show "x \<in> set (cb_Commands C (cb_AddCommand C r x ?h1) r)" by (simp add: set2)
qed

section \<open>Adding the plugins\<close>

text \<open>The step the loop takes for one plugin.\<close>

lemma find_none_name: "findSubCommand C h r x = None \<Longrightarrow> cname C h x \<notin> cname C h ` set (cb_Commands C h r)"
  by (auto simp: findSubCommand_def find_None_iff)

lemma find_some_name:
  "findSubCommand C h r x = Some m \<Longrightarrow> m \<in> set (cb_Commands C h r) \<and> cname C h m = cname C h x"
  by (auto simp: findSubCommand_def find_Some_iff)

lemma plugin_step:
  assumes "cobra_laws C A" "root_ok C A r h"
  obtains h1 bp1 bc1 where
    "root_plugins_loop C r (p # ps) (h, bp, bc) = root_plugins_loop C r ps (h1, bp1, bc1)"
    "root_step C A r h h1"
    "isPluginRootCmdTargeted p \<and> \<not> has_plugin_level_map (pi_CommandMap p) \<longrightarrow>
       cb_Name C (GetCmdForPlugin p) \<in> cname C h1 ` set (cb_Commands C h1 r)"
proof (cases "isPluginRootCmdTargeted p \<and> \<not> has_plugin_level_map (pi_CommandMap p)")
  case False
  then show ?thesis
    using that [of h bp bc] root_step_refl [OF assms(2)] by (auto simp: GetUnmappedCmdForPlugin_def)
next
  case True
  let ?c = "GetCmdForPlugin p"
  obtain h1 x where new: "cb_new C ?c h = (h1, x)" by (cases "cb_new C ?c h")
  note n = new_step [OF assms new]
  have ok1: "root_ok C A r h1" using n(1) by (simp add: root_step_def)
  have rx: "r \<noteq> x" using cobra_new(1) [OF assms(1) new] assms(2) by (auto simp: root_ok_def)
  have name: "cname C h1 x = cb_Name C ?c" by (simp add: n(4))
  have unfold: "root_plugins_loop C r (p # ps) (h, bp, bc) =
     (case findSubCommand C h1 r x of
        None \<Rightarrow> root_plugins_loop C r ps (cb_AddCommand C r x h1, bp, bc)
      | Some m \<Rightarrow>
          if (pi_Scope p = PluginScopeContext \<or> pi_Target p = TargetGlobal) \<and> isStandalonePluginCommand (cb_get C h1 m)
          then root_plugins_loop C r ps (cb_AddCommand C r x (cb_RemoveCommand C r m h1), bp @ [cname C h1 m], bc)
          else if pi_Name p \<noteq> ''login''
          then root_plugins_loop C r ps (if isPluginCommand (cb_get C h1 m) then (h1, bp @ [pi_Name p], bc) else (h1, bp, bc @ [pi_Name p]))
          else root_plugins_loop C r ps (h1, bp, bc))"
    using True by (simp add: GetUnmappedCmdForPlugin_def new)
  show ?thesis
  proof (cases "findSubCommand C h1 r x")
    case None
    note a = add_step [OF assms(1) ok1 rx n(5) find_none_name [OF None]]
    have "cb_Name C ?c \<in> cname C (cb_AddCommand C r x h1) ` set (cb_Commands C (cb_AddCommand C r x h1) r)"
      using a(2) name cobra_add(2) [OF assms(1) rx, of h1] by (metis imageI)
    moreover have "root_plugins_loop C r (p # ps) (h, bp, bc) = root_plugins_loop C r ps (cb_AddCommand C r x h1, bp, bc)"
      unfolding unfold by (simp add: None)
    ultimately show ?thesis using that root_step_trans [OF assms(2) n(1) a(1)] by blast
  next
    case (Some m)
    then have m: "m \<in> set (cb_Commands C h1 r)" "cname C h1 m = cname C h1 x" using find_some_name by metis+
    then have kept: "cb_Name C ?c \<in> cname C h1 ` set (cb_Commands C h1 r)" using name by (metis imageI)
    show ?thesis
    proof (cases "(pi_Scope p = PluginScopeContext \<or> pi_Target p = TargetGlobal) \<and> isStandalonePluginCommand (cb_get C h1 m)")
      case rep: True
      let ?h2 = "cb_AddCommand C r x (cb_RemoveCommand C r m h1)"
      note s = replace_step [OF assms(1) ok1 n(5) m(1) m(2) [symmetric] conjunct2 [OF rep] rx]
      have "cname C ?h2 x = cb_Name C ?c"
        using name cobra_add(2) [OF assms(1) rx] cobra_remove(2) [OF assms(1) m(1)] by simp
      with s(2) have "cb_Name C ?c \<in> cname C ?h2 ` set (cb_Commands C ?h2 r)" by (metis imageI)
      moreover have "root_plugins_loop C r (p # ps) (h, bp, bc) = root_plugins_loop C r ps (?h2, bp @ [cname C h1 m], bc)"
        unfolding unfold using Some rep by simp
      ultimately show ?thesis using that root_step_trans [OF assms(2) n(1) s(1)] by blast
    next
      case False
      then have "\<exists>bp1 bc1. root_plugins_loop C r (p # ps) (h, bp, bc) = root_plugins_loop C r ps (h1, bp1, bc1)"
        unfolding unfold by (simp add: Some del: root_plugins_loop.simps) metis
      then show ?thesis using that kept n(1) by blast
    qed
  qed
qed

lemma root_plugins_loop_step:
  assumes "cobra_laws C A" "root_ok C A r h" "root_plugins_loop C r ps (h, bp, bc) = (h', bp', bc')"
  shows "root_step C A r h h' \<and> (\<forall>p \<in> set ps. isPluginRootCmdTargeted p \<and> \<not> has_plugin_level_map (pi_CommandMap p) \<longrightarrow>
       cb_Name C (GetCmdForPlugin p) \<in> cname C h' ` set (cb_Commands C h' r))"
  using assms(2,3)
proof (induction ps arbitrary: h bp bc)
  case Nil
  then show ?case by (simp add: root_step_refl)
next
  case (Cons p ps)
  obtain h1 bp1 bc1 where
    st: "root_plugins_loop C r (p # ps) (h, bp, bc) = root_plugins_loop C r ps (h1, bp1, bc1)"
      "root_step C A r h h1"
      "isPluginRootCmdTargeted p \<and> \<not> has_plugin_level_map (pi_CommandMap p) \<longrightarrow>
         cb_Name C (GetCmdForPlugin p) \<in> cname C h1 ` set (cb_Commands C h1 r)"
    by (rule plugin_step [OF assms(1) Cons.prems(1)])
  have ok1: "root_ok C A r h1" using st(2) by (simp add: root_step_def)
  note ih = Cons.IH [OF ok1 Cons.prems(2) [unfolded st(1)]]
  have "cname C h1 ` set (cb_Commands C h1 r) \<subseteq> cname C h' ` set (cb_Commands C h' r)"
    using ih by (simp add: root_step_def)
  with st(3) ih root_step_trans [OF Cons.prems(1) st(2)] show ?case by auto
qed

text \<open>C5 (invariant): adding the commands of the installed plugins below the root. The names below the root
  stay distinct, a command that is not a stand-alone plugin command is neither removed nor changed, and
  every root-level plugin without a plugin-level map is reachable under its name (through its own
  command or the one that masks it).\<close>

theorem root_tree_keeps_core:
  assumes "cobra_laws C A" "root_ok C A rootCmd h"
    "root_plugins_loop C rootCmd plugins (h, [], []) = (h', byPlugin, byCore)"
  shows "distinct (map (cname C h') (cb_Commands C h' rootCmd)) \<and>
    (\<forall>x \<in> set (cb_Commands C h rootCmd). isStandalonePluginCommand (cb_get C h x) \<or>
       x \<in> set (cb_Commands C h' rootCmd) \<and> cb_get C h' x = cb_get C h x) \<and>
    (\<forall>p \<in> set plugins. isPluginRootCmdTargeted p \<and> \<not> has_plugin_level_map (pi_CommandMap p) \<longrightarrow>
       cb_Name C (GetCmdForPlugin p) \<in> cname C h' ` set (cb_Commands C h' rootCmd))"
proof -
  note st = root_plugins_loop_step [OF assms]
  then have "cb_get C h' x = cb_get C h x" if "x \<in> set (cb_Commands C h rootCmd)" for x
    using assms(2) that by (auto simp: root_step_def root_ok_def)
  with st show ?thesis by (auto simp: root_step_def root_ok_def)
qed

text \<open>A cobra tree kept in functions, for the witnesses.\<close>

type_synonym demo_heap = "nat \<times> (cid \<Rightarrow> command) \<times> (cid \<Rightarrow> cid list) \<times> (cid \<Rightarrow> cid option)"

definition demo_cobra :: "demo_heap cobra" where
  "demo_cobra = \<lparr>cb_Name = (\<lambda>c. takeWhile (\<lambda>x. x \<noteq> CHR '' '') (cmd_Use c)),
     cb_new = (\<lambda>c (n, g, k, q). ((Suc n, g(n := c), k(n := []), q(n := None)), n)),
     cb_get = (\<lambda>(n, g, k, q). g), cb_Commands = (\<lambda>(n, g, k, q). k), cb_Parent = (\<lambda>(n, g, k, q). q),
     cb_AddCommand = (\<lambda>p x (n, g, k, q). (n, g, k(p := k p @ [x]), q(x := Some p))),
     cb_RemoveCommand = (\<lambda>p x (n, g, k, q). (n, g, k(p := remove1 x (k p)), q(x := None))),
     cb_set = (\<lambda>x c (n, g, k, q). (n, g(x := c), k, q))\<rparr>"

definition demo_alloc :: "demo_heap \<Rightarrow> cid set" where
  "demo_alloc h = {..<fst h}"

definition demo_root :: demo_heap where
  "demo_root = (2, (\<lambda>x. newRootCmd)(1 := newRootCmd\<lparr>cmd_Use := ''plugin''\<rparr>), (\<lambda>x. [])(0 := [1]), (\<lambda>x. None)(1 := Some 0))"

lemma demo_cobra_laws: "cobra_laws demo_cobra demo_alloc"
  by (auto simp: cobra_laws_def new_law_def add_law_def remove_law_def demo_cobra_def demo_alloc_def Let_def)

lemma demo_root_ok: "root_ok demo_cobra demo_alloc 0 demo_root"
  by (simp add: root_ok_def demo_root_def demo_alloc_def demo_cobra_def)

lemma demo_plugin_unmapped [simp]: "pi_CommandMap (demo_plugin n t) = []"
  by (simp add: demo_plugin_def zero_plugin_info_def)

theorem root_tree_keeps_core_witness:
  "\<exists>h' byPlugin byCore. root_plugins_loop demo_cobra 0 [demo_plugin ''plugin'' '''', demo_plugin ''b'' TargetK8s] (demo_root, [], []) =
     (h', byPlugin, byCore) \<and>
   1 \<in> set (cb_Commands demo_cobra h' 0) \<and> distinct (map (cname demo_cobra h') (cb_Commands demo_cobra h' 0)) \<and>
   ''b'' \<in> cname demo_cobra h' ` set (cb_Commands demo_cobra h' 0)"
proof -
  let ?ps = "[demo_plugin ''plugin'' '''', demo_plugin ''b'' TargetK8s]"
  obtain h' bp bc where run: "root_plugins_loop demo_cobra 0 ?ps (demo_root, [], []) = (h', bp, bc)"
    by (metis prod_cases3)
  note facts = root_tree_keeps_core [OF demo_cobra_laws demo_root_ok run]
  have root: "set (cb_Commands demo_cobra demo_root 0) = {1}" "\<not> isStandalonePluginCommand (cb_get demo_cobra demo_root 1)"
    by (simp_all add: demo_root_def demo_cobra_def isStandalonePluginCommand_def newRootCmd_def)
  have "isPluginRootCmdTargeted (demo_plugin ''b'' TargetK8s)" "\<not> has_plugin_level_map (pi_CommandMap (demo_plugin ''b'' TargetK8s))"
    "cb_Name demo_cobra (GetCmdForPlugin (demo_plugin ''b'' TargetK8s)) = ''b''"
    by (simp_all add: isPluginRootCmdTargeted_def GetCmdForPlugin_def getCmdForPluginEx_def demo_cobra_def Let_def)
  with facts have "''b'' \<in> cname demo_cobra h' ` set (cb_Commands demo_cobra h' 0)" by (metis list.set_intros)
  moreover have "1 \<in> set (cb_Commands demo_cobra h' 0)" using facts root by auto
  ultimately show ?thesis using run facts by blast
qed

section \<open>Remapping\<close>

lemma merge_cmd_map_lookup:
  "distinct ks \<Longrightarrow> map_of (fst (merge_cmd_map C m ks (res, masked))) k =
     (case map_of res k of Some c \<Rightarrow> Some c | None \<Rightarrow> if k \<in> set ks then map_of m k else None)"
proof (induction ks arbitrary: res masked k)
  case Nil
  then show ?case by (simp split: option.splits)
next
  case (Cons a ks)
  then have a: "a \<notin> set ks" and IH: "\<And>res masked k. map_of (fst (merge_cmd_map C m ks (res, masked))) k =
     (case map_of res k of Some c \<Rightarrow> Some c | None \<Rightarrow> if k \<in> set ks then map_of m k else None)" by auto
  show ?case
    using a by (cases "map_of m a"; cases "map_of res a"; cases "k = a") (auto simp: IH split: option.splits)
qed

definition claims_path :: "command_map_processor \<Rightarrow> string \<Rightarrow> plugin_info \<Rightarrow> bool" where
  "claims_path cmp k p \<longleftrightarrow> map_of (GetCommandMapForPlugin cmp p) k \<noteq> None"

lemma mark_removed_ok: "map_ok m \<Longrightarrow> map_ok (mark_removed k m)"
  by (simp add: mark_removed_def)

lemma entries_ok: "map_ok m \<Longrightarrow> map_ok (map_entries_loop cmp p es m)"
  by (induction es arbitrary: m) (simp_all add: Let_def)

lemma overrides_ok: "map_ok m \<Longrightarrow> map_ok (overrides_loop cmp p es m)"
  by (induction es arbitrary: m) (simp_all add: Let_def mark_removed_ok)

lemma command_map_ok: "map_ok (GetCommandMapForPlugin cmp p)"
  by (simp add: GetCommandMapForPlugin_def overrides_ok entries_ok)

lemma replacement_lookup:
  assumes "range_law L"
  shows "map_of (fst (replacement_loop L C cmp ps (res, masked))) k =
     (case map_of res k of Some c \<Rightarrow> Some c
      | None \<Rightarrow> (case List.find (claims_path cmp k) ps of None \<Rightarrow> None | Some p \<Rightarrow> map_of (GetCommandMapForPlugin cmp p) k))"
proof (induction ps arbitrary: res masked)
  case Nil
  then show ?case by (simp split: option.splits)
next
  case (Cons p ps)
  let ?m = "GetCommandMapForPlugin cmp p"
  obtain res1 masked1 where st: "merge_cmd_map C ?m (range_keys L ?m) (res, masked) = (res1, masked1)" by force
  have "map_of res1 k = (case map_of res k of Some c \<Rightarrow> Some c | None \<Rightarrow> map_of ?m k)"
    using merge_cmd_map_lookup [of "range_keys L ?m" C ?m res masked k] assms st
    by (auto simp: command_map_ok keys_of_def split: option.splits) (metis map_of_eq_None_iff)+
  with Cons.IH [of res1 masked1] st show ?case
    by (auto simp: Let_def claims_path_def [of cmp k p] split: option.splits)
qed

text \<open>When several plugins map a command to the same path, the first one in the list of
  plugins gets it, whatever the order in which Go ranges over the maps; a path that no plugin claims
  is left alone. Without the active contexts nothing is remapped.\<close>

theorem first_plugin_wins:
  assumes "range_law L"
  shows "map_of (fst (buildReplacementMap L C activeContextMap plugins)) k =
     (case activeContextMap of
        Inl e \<Rightarrow> None
      | Inr m \<Rightarrow>
          (case List.find (claims_path (NewCommandMapProcessor m) k) plugins of
             None \<Rightarrow> None | Some p \<Rightarrow> map_of (GetCommandMapForPlugin (NewCommandMapProcessor m) p) k))"
  using replacement_lookup [OF assms, of C _ plugins "[]" "[]" k]
  by (simp add: buildReplacementMap_def split: sum.splits option.splits)

lemma plain_word_path: "plain_word w \<Longrightarrow> pathFromHierarchy (hierarchyFromPath w) = w"
  using path_hierarchy [of "[w]"] by (simp add: pathFromHierarchy_def)

lemma plain_word_hierarchy: "plain_word w \<Longrightarrow> hierarchyFromPath w = [w]"
  using path_hierarchy [of "[w]"] by (simp add: pathFromHierarchy_def)

lemma split_plain_word: "plain_word w \<Longrightarrow> split_on CHR '' '' w = [w]"
  using split_on_join [of "[w]" "CHR '' ''"] by (simp add: plain_word_fresh)

lemma override_only_map:
  assumes "pi_CommandMap p = [e]" "cme_DestinationCommandPath e = ''''" "plain_word (cme_Overrides e)"
    "pi_Target p \<noteq> TargetK8s" "isMapEntryAllowed cmp e"
  shows "GetCommandMapForPlugin cmp p = [(cme_Overrides e, None)]"
proof -
  have "hierarchyFromPath '''' = []" by (simp add: hierarchyFromPath_def str_fields_def)
  moreover have "cme_Overrides e \<noteq> ''''" using assms(3) by (auto simp: plain_word_def)
  moreover have "alternateRemapLocation p (cme_Overrides e) = ''''" using assms(4) by (simp add: alternateRemapLocation_def)
  ultimately show ?thesis
    using assms plain_word_hierarchy [OF assms(3)]
    by (simp add: GetCommandMapForPlugin_def Let_def mark_removed_def pathFromHierarchy_def)
qed

text \<open>A plugin whose command map removes a top-level command that does not exist makes the
  construction of the command tree dereference \<^verbatim>\<open>nil\<close>: \<open>remapCommandTree\<close> adds the missing command
  although there is nothing to add.\<close>

theorem override_of_missing_command_panics:
  assumes "range_law L" "pi_CommandMap p = [e]" "cme_DestinationCommandPath e = ''''" "plain_word (cme_Overrides e)"
    "pi_Target p \<noteq> TargetK8s" "isMapEntryAllowed (NewCommandMapProcessor m) e"
    "\<not> isPluginCommand (cb_get C h rootCmd)"
    "\<forall>x \<in> set (cb_Commands C h rootCmd). \<not> matchOnCommandNameAndAliases C h x (cme_Overrides e)"
  shows "remapCommandTree L C (Inr m) rootCmd [p] h = None"
proof -
  let ?w = "cme_Overrides e"
  have keys: "range_keys L [(?w, v)] = [?w]" for v :: "command option"
    using range_keys_mset [OF assms(1), of "[(?w, v)]"] by (simp add: keys_of_def)
  have "fst (buildReplacementMap L C (Inr m) [p]) = [(?w, None)]"
    by (simp add: buildReplacementMap_def override_only_map [OF assms(2-6)] keys Let_def)
  moreover have "findSubCommandByPath C h rootCmd ?w = (None, Some rootCmd)"
    using assms(8) by (simp add: findSubCommandByPath_def split_plain_word [OF assms(4)] find_None_iff split: option.split)
  ultimately show ?thesis using assms(7) by (simp add: remapCommandTree_def keys Let_def)
qed

definition demo_override :: command_map_entry where
  "demo_override = \<lparr>cme_SourceCommandPath = ''run'', cme_DestinationCommandPath = '''', cme_Overrides = ''login'',
     cme_Description = '''', cme_Aliases = [], cme_RequiredContextType = []\<rparr>"

theorem override_of_missing_command_panics_witness:
  "remapCommandTree dotted_lib demo_cobra (Inr ([] :: (string \<times> unit) list)) 0
     [(demo_plugin ''a'' '''')\<lparr>pi_CommandMap := [demo_override]\<rparr>] demo_root = None"
  by (rule override_of_missing_command_panics [OF dotted_range_law, where e = demo_override])
    (simp_all add: demo_override_def plain_word_def is_space_def isMapEntryAllowed_def isPluginCommand_def demo_cobra_def
      demo_root_def newRootCmd_def matchOnCommandNameAndAliases_def)

theorem first_plugin_wins_witness:
  "map_of (fst (buildReplacementMap dotted_lib demo_cobra (Inr ([] :: (string \<times> unit) list))
     [(demo_plugin ''a'' '''')\<lparr>pi_CommandMap := [demo_override]\<rparr>,
      (demo_plugin ''b'' '''')\<lparr>pi_CommandMap := [demo_override\<lparr>cme_DestinationCommandPath := ''login''\<rparr>]\<rparr>])) ''login'' = Some None"
proof -
  have "GetCommandMapForPlugin (NewCommandMapProcessor ([] :: (string \<times> unit) list)) ((demo_plugin ''a'' '''')\<lparr>pi_CommandMap := [demo_override]\<rparr>) =
      [(''login'', None)]"
    by (subst override_only_map [where e = demo_override])
      (simp_all add: demo_override_def plain_word_def is_space_def isMapEntryAllowed_def)
  then show ?thesis unfolding first_plugin_wins [OF dotted_range_law] by (simp add: claims_path_def)
qed

section \<open>Before a command runs\<close>


lemma isSkip_iff: "isSkipCommand paths c \<longleftrightarrow> (\<exists>p \<in> set paths. has_prefix c p)"
  by (induction paths) auto

lemma skip_prompts_essential: "shouldSkipPrompts c \<Longrightarrow> shouldSkipEssentialPlugins c"
  unfolding shouldSkipPrompts_def shouldSkipEssentialPlugins_def isSkip_iff by auto

lemma prompt_steps_accepted:
  assumes "prompt_steps P cfg = (cfg', s, None)"
  shows "cs_EULAStatus cfg' = EULAStatusAccepted \<and> IsCompatibleEULAAccepted (pr_config P) (cs_EULAAcceptedVersions cfg')"
proof -
  obtain cfg1 e where c1: "ConfigureEULA (pr_config P) (pr_environ P) False cfg = (cfg1, e)" by force
  with assms have e: "e = None" and acc: "cs_EULAStatus cfg1 = EULAStatusAccepted"
    by (auto simp: prompt_steps_def split: option.splits if_splits)
  obtain cfg2 e2 where c2: "ConfigureCEIPOptIn (pr_config P) (pr_environ P) cfg1 = (cfg2, e2)" by force
  have "cfg' = cfg2" using assms c1 c2 e acc by (simp add: prompt_steps_def)
  moreover have "cs_EULAStatus cfg2 = cs_EULAStatus cfg1" "cs_EULAAcceptedVersions cfg2 = cs_EULAAcceptedVersions cfg1"
    using c2 by (auto simp: ConfigureCEIPOptIn_def split: if_splits sum.splits option.splits)
  ultimately show ?thesis using acc ConfigureEULA_accepted [of "pr_config P" "pr_environ P" False cfg cfg1] c1 e by simp
qed

text \<open>C4 (safety): nothing is installed behind the user's back. When the hook that runs before a command gets
  to the installation of the essential plugins, the command is one that prompts, the stored status of
  the licence agreement is accepted, and a version compatible with the current one is among the accepted
  ones; and when the hook fails no plugin is installed.\<close>

theorem no_install_without_agreement:
  assumes "PersistentPreRunE P commandPath cfg = (cfg', steps, e)" "PreEssentialPlugins \<in> set steps"
  shows "e = None \<and> \<not> shouldSkipPrompts commandPath \<and> cs_EULAStatus cfg' = EULAStatusAccepted \<and>
    (cx_semver_IsValid (pr_config P) (cx_CurrentEULAVersion (pr_config P)) \<and> cx_CurrentEULAVersion (pr_config P) \<noteq> '''' \<longrightarrow>
      (\<exists>v \<in> set (cs_EULAAcceptedVersions cfg'). cx_semver_IsValid (pr_config P) v \<and>
         cx_semver_MajorMinor (pr_config P) v = cx_semver_MajorMinor (pr_config P) (cx_CurrentEULAVersion (pr_config P))))"
proof -
  obtain cfg1 s3 e3 where r: "(if shouldSkipPrompts commandPath then (cfg, [], None) else prompt_steps P cfg) = (cfg1, s3, e3)"
    by (metis prod_cases3)
  have no3: "PreEssentialPlugins \<notin> set s3"
    using r by (auto simp: prompt_steps_def split: if_splits prod.splits option.splits)
  have "e3 = None \<and> e = None \<and> cfg' = cfg1 \<and> \<not> shouldSkipEssentialPlugins commandPath"
    using assms r no3 by (auto simp: PersistentPreRunE_def checkGlobalInit_def Let_def split: option.splits if_splits)
  moreover from this have "\<not> shouldSkipPrompts commandPath" using skip_prompts_essential by auto
  ultimately show ?thesis using r prompt_steps_accepted [of P cfg cfg1 s3]
    by (auto simp: IsCompatibleEULAAccepted_def compatible_loop_iff split: if_splits)
qed

definition demo_prerun :: prerun_env where
  "demo_prerun = \<lparr>pr_InitializationRequired = False, pr_EnsureMutualExclusive = None,
     pr_config = \<lparr>cx_fault = (\<lambda>x. None), cx_Prompt = (\<lambda>x. Inr ''Yes''), cx_semver_IsValid = (\<lambda>v. True),
       cx_semver_MajorMinor = take 4, cx_CurrentEULAVersion = ''v1.0.0''\<rparr>,
     pr_environ = (\<lambda>x. None)\<rparr>"

theorem no_install_without_agreement_witness:
  "\<exists>cfg' steps. PersistentPreRunE demo_prerun ''tanzu plugin list''
     \<lparr>cs_CEIPOptIn = '''', cs_EULAStatus = '''', cs_EULAAcceptedVersions = []\<rparr> = (cfg', steps, None) \<and>
   PreEssentialPlugins \<in> set steps \<and>
   (\<exists>v \<in> set (cs_EULAAcceptedVersions cfg'). take 4 v = ''v1.0'')"
proof -
  let ?r = "PersistentPreRunE demo_prerun ''tanzu plugin list'' \<lparr>cs_CEIPOptIn = '''', cs_EULAStatus = '''', cs_EULAAcceptedVersions = []\<rparr>"
  have "PreEssentialPlugins \<in> set (fst (snd ?r)) \<and> snd (snd ?r) = None" by code_simp
  then obtain cfg' steps where "?r = (cfg', steps, None)" "PreEssentialPlugins \<in> set steps" by (metis prod.collapse)
  with no_install_without_agreement [of demo_prerun "''tanzu plugin list''"] show ?thesis
    by (fastforce simp: demo_prerun_def)
qed

end
