(* ===== verification/Data_Store.thy ===== *)
theory Data_Store
  imports Cli_Types
begin

text \<open>
  The key-value store of the CLI, \<^verbatim>\<open>pkg/datastore/data_store.go\<close>, and the last executed version it
  holds, \<^verbatim>\<open>pkg/lastversion/last_version.go\<close>.

  The store is one YAML file under a file lock. \<open>ds_fs\<close> is its directory, its content, the number of
  lock handles the process holds, and whether the variable \<open>lockFile\<close> is set; an operation on the file
  fails with the error \<open>ds_fault\<close> gives for it. A stored value is a YAML value of type \<open>'y\<close>; encoding and
  decoding are parameters.
\<close>

section \<open>The file\<close>

datatype ds_op = DsEdit | DsReadAll | DsRead | DsStat | DsTruncate | DsSeek | DsWrite

record 'b ds_fs =
  ds_file :: "'b option"
  ds_handles :: nat
  ds_lockFile :: bool
  ds_fault :: "ds_op \<Rightarrow> err option"

record ('b, 'y) ds_yaml =
  ds_EmptyFile :: 'b
  ds_Marshal :: "(string \<times> 'y) list \<Rightarrow> 'b res"
  ds_Unmarshal :: "'b \<Rightarrow> (string \<times> 'y) list option res"

text \<open>\<open>os.ErrNotExist\<close>, which \<open>os.IsNotExist\<close> recognises.\<close>

definition ds_NotExist :: err where
  "ds_NotExist = Errorf ''file does not exist'' []"

definition getDataStorePath :: "environ \<Rightarrow> string \<Rightarrow> string" where
  "getDataStorePath env home =
     (let customDSFile = getenv env ''TEST_CUSTOM_DATA_STORE_FILE''
      in if customDSFile \<noteq> '''' then customDSFile else path_join [home, ''.config'', ''tanzu'', ''.data-store.yaml''])"

text \<open>A failed \<^verbatim>\<open>MkdirAll\<close> shows as a failure of \<^verbatim>\<open>Edit\<close>. \<^verbatim>\<open>Edit\<close> creates the file and sets
  \<open>lockFile\<close>, to \<^verbatim>\<open>nil\<close> when it fails.\<close>

definition getDataStoreBytes :: "('b, 'y) ds_yaml \<Rightarrow> bool \<Rightarrow> 'b ds_fs \<Rightarrow> 'b ds_fs \<times> 'b res" where
  "getDataStoreBytes Y setWriteLock w =
     (if setWriteLock
      then (case ds_fault w DsEdit of
              Some e \<Rightarrow> (w\<lparr>ds_lockFile := False\<rparr>, Inl e)
            | None \<Rightarrow>
                let b = (case ds_file w of None \<Rightarrow> ds_EmptyFile Y | Some b \<Rightarrow> b);
                    w1 = w\<lparr>ds_file := Some b, ds_handles := Suc (ds_handles w), ds_lockFile := True\<rparr>
                in (w1, case ds_fault w DsReadAll of Some e \<Rightarrow> Inl e | None \<Rightarrow> Inr b))
      else (w, case ds_fault w DsRead of
                 Some e \<Rightarrow> Inl e
               | None \<Rightarrow> (case ds_file w of None \<Rightarrow> Inl ds_NotExist | Some b \<Rightarrow> Inr b)))"

text \<open>A missing file is the content \<^verbatim>\<open>nil\<close>.\<close>

definition getDataStoreContent ::
    "('b, 'y) ds_yaml \<Rightarrow> bool \<Rightarrow> 'b ds_fs \<Rightarrow> 'b ds_fs \<times> (string \<times> 'y) list option res" where
  "getDataStoreContent Y setWriteLock w =
     (case getDataStoreBytes Y setWriteLock w of
        (w1, Inl e) \<Rightarrow> (w1, if e = ds_NotExist then Inr None else Inl e)
      | (w1, Inr b) \<Rightarrow>
          (case ds_Unmarshal Y b of
             Inl e \<Rightarrow> (w1, Inl (Wrapf e ''could not decode data store file'' []))
           | Inr content \<Rightarrow> (w1, Inr content)))"

text \<open>The deferred \<^verbatim>\<open>Close\<close> releases the lock on every path; the variable keeps the closed handle.\<close>

definition saveAndClose :: "('b, 'y) ds_yaml \<Rightarrow> (string \<times> 'y) list \<Rightarrow> 'b ds_fs \<Rightarrow> 'b ds_fs \<times> err option" where
  "saveAndClose Y content w =
     (if \<not> ds_lockFile w then (w, Some (Errorf ''cannot save the data store file as it is not locked'' []))
      else
        let w1 = w\<lparr>ds_handles := ds_handles w - 1\<rparr>;
            put = (\<lambda>b v. v\<lparr>ds_file := map_option (\<lambda>_. b) (ds_file v)\<rparr>)
        in case (if ds_fault w DsStat \<noteq> None then ds_fault w DsStat
                 else if ds_file w = None then Some ds_NotExist else None) of
             Some e \<Rightarrow> (w1, Some (Wrapf e ''could not stat the data store file'' []))
           | None \<Rightarrow>
               (case ds_Marshal Y content of
                  Inl e \<Rightarrow> (w1, Some (Wrapf e ''failed to encode the data store file'' []))
                | Inr out \<Rightarrow>
                    (case ds_fault w DsTruncate of
                       Some e \<Rightarrow> (w1, Some (Wrapf e ''failed to truncate the data store file'' []))
                     | None \<Rightarrow>
                         let w2 = put (ds_EmptyFile Y) w1
                         in (case ds_fault w DsSeek of
                               Some e \<Rightarrow> (w2, Some (Wrapf e ''failed to reset the data store file'' []))
                             | None \<Rightarrow>
                                 (case ds_fault w DsWrite of
                                    Some e \<Rightarrow> (w2, Some (Wrapf e ''failed to write the data store file'' []))
                                  | None \<Rightarrow> (put out w2, None))))))"

section \<open>Operations\<close>

text \<open>The result \<open>Inr None\<close> is no error and no value: there is no data store.\<close>

definition GetDataStoreValue :: "('b, 'y) ds_yaml \<Rightarrow> ('y \<Rightarrow> 'a res) \<Rightarrow> string \<Rightarrow> 'b ds_fs \<Rightarrow> 'a option res" where
  "GetDataStoreValue Y decode key w =
     (case snd (getDataStoreContent Y False w) of
        Inl e \<Rightarrow> Inl e
      | Inr None \<Rightarrow> Inr None
      | Inr (Some content) \<Rightarrow>
          (case map_of content key of
             None \<Rightarrow> Inl (Errorf ''key %s not found in the data store'' [key])
           | Some v \<Rightarrow> (case decode v of Inl e \<Rightarrow> Inl e | Inr a \<Rightarrow> Inr (Some a))))"

definition SetDataStoreValue :: "('b, 'y) ds_yaml \<Rightarrow> string \<Rightarrow> 'y \<Rightarrow> 'b ds_fs \<Rightarrow> 'b ds_fs \<times> err option" where
  "SetDataStoreValue Y key v w =
     (case getDataStoreContent Y True w of
        (w1, Inl e) \<Rightarrow> (w1, Some e)
      | (w1, Inr content) \<Rightarrow>
          saveAndClose Y (AList.update key v (case content of None \<Rightarrow> [] | Some m \<Rightarrow> m)) w1)"

definition DeleteDataStoreValue :: "('b, 'y) ds_yaml \<Rightarrow> string \<Rightarrow> 'b ds_fs \<Rightarrow> 'b ds_fs \<times> err option" where
  "DeleteDataStoreValue Y key w =
     (case getDataStoreContent Y True w of
        (w1, Inl e) \<Rightarrow> (w1, Some e)
      | (w1, Inr content) \<Rightarrow>
          let m = (case content of None \<Rightarrow> [] | Some m \<Rightarrow> m)
          in if map_of m key = None
             then (fst (saveAndClose Y m w1), Some (Errorf ''key %s not found in the data store'' [key]))
             else saveAndClose Y (AList.delete key m) w1)"

section \<open>The last executed version\<close>

text \<open>The feature \<^verbatim>\<open>features.global.context-target-v2\<close> that versions before 1.3.0 left in the configuration:
  its value, \<open>None\<close> if it is absent, and the failures of the configuration library.\<close>

record feature_flag =
  ff_value :: "bool option"
  ff_DeleteFault :: "err option"

definition OlderThan1_3_0 :: string where
  "OlderThan1_3_0 = ''olderThan1_3_0''"

definition lastExecutedCLIVersionKey :: string where
  "lastExecutedCLIVersionKey = ''lastExecutedCLIVersion''"

text \<open>Errors leave the version empty.\<close>

definition stored_version :: "('b, 'y) ds_yaml \<Rightarrow> ('y \<Rightarrow> string res) \<Rightarrow> 'b ds_fs \<Rightarrow> string" where
  "stored_version Y decode w =
     (case GetDataStoreValue Y decode lastExecutedCLIVersionKey w of Inr (Some v) \<Rightarrow> v | _ \<Rightarrow> '''')"

definition GetLastExecutedCLIVersion ::
    "('b, 'y) ds_yaml \<Rightarrow> ('y \<Rightarrow> string res) \<Rightarrow> feature_flag \<Rightarrow> 'b ds_fs \<Rightarrow> string" where
  "GetLastExecutedCLIVersion Y decode ff w =
     (if ff_value ff = Some True then OlderThan1_3_0 else stored_version Y decode w)"

definition SetLastExecutedCLIVersion ::
    "('b, 'y) ds_yaml \<Rightarrow> ('y \<Rightarrow> string res) \<Rightarrow> (string \<Rightarrow> 'y) \<Rightarrow> string \<Rightarrow> feature_flag \<times> 'b ds_fs \<Rightarrow> feature_flag \<times> 'b ds_fs" where
  "SetLastExecutedCLIVersion Y decode encode buildVersion = (\<lambda>(ff, w).
     let w1 = (if stored_version Y decode w \<noteq> buildVersion
               then fst (SetDataStoreValue Y lastExecutedCLIVersionKey (encode buildVersion) w) else w)
     in (if ff_value ff = Some True \<and> ff_DeleteFault ff = None then ff\<lparr>ff_value := None\<rparr> else ff, w1))"

section \<open>The contract of a store of values\<close>

text \<open>What the users of the store rely on, between writes that do not fail.\<close>

datatype 'y store_cmd = StorePut string 'y | StoreDelete string

fun spec_store :: "'y store_cmd \<Rightarrow> (string \<rightharpoonup> 'y) \<Rightarrow> (string \<rightharpoonup> 'y)" where
  "spec_store (StorePut k v) m = m(k \<mapsto> v)"
| "spec_store (StoreDelete k) m = m(k := None)"

locale value_store =
  fixes inv :: "'s \<Rightarrow> bool" and look :: "'s \<Rightarrow> string \<rightharpoonup> 'y"
    and put :: "string \<Rightarrow> 'y \<Rightarrow> 's \<Rightarrow> 's" and del :: "string \<Rightarrow> 's \<Rightarrow> 's"
  assumes put_inv: "inv s \<Longrightarrow> inv (put k v s)"
    and del_inv: "inv s \<Longrightarrow> inv (del k s)"
    and put_look: "inv s \<Longrightarrow> look (put k v s) = (look s)(k \<mapsto> v)"
    and del_look: "inv s \<Longrightarrow> look (del k s) = (look s)(k := None)"
begin

fun run_store :: "'y store_cmd \<Rightarrow> 's \<Rightarrow> 's" where
  "run_store (StorePut k v) s = put k v s"
| "run_store (StoreDelete k) s = del k s"

lemma run_store_inv: "inv s \<Longrightarrow> inv (run_store c s)"
  by (cases c) (simp_all add: put_inv del_inv)

lemma run_store_look: "inv s \<Longrightarrow> look (run_store c s) = spec_store c (look s)"
  by (cases c) (simp_all add: put_look del_look)

lemma run_refines: "inv s \<Longrightarrow> inv (fold run_store cs s) \<and> look (fold run_store cs s) = fold spec_store cs (look s)"
  by (induction cs arbitrary: s) (simp_all add: run_store_inv run_store_look)

end

definition ds_laws :: "('b, 'y) ds_yaml \<Rightarrow> bool" where
  "ds_laws Y \<longleftrightarrow> ds_Unmarshal Y (ds_EmptyFile Y) = Inr None \<and>
     (\<forall>b m. ds_Unmarshal Y b = Inr (Some m) \<longrightarrow> map_ok m) \<and>
     (\<forall>m. map_ok m \<longrightarrow> (\<exists>b m'. ds_Marshal Y m = Inr b \<and> ds_Unmarshal Y b = Inr (Some m') \<and> map_of m' = map_of m))"

definition ds_content :: "('b, 'y) ds_yaml \<Rightarrow> 'b ds_fs \<Rightarrow> (string \<times> 'y) list" where
  "ds_content Y w =
     (case ds_file w of None \<Rightarrow> []
      | Some b \<Rightarrow> (case ds_Unmarshal Y b of Inr (Some m) \<Rightarrow> m | _ \<Rightarrow> []))"

text \<open>No operation on the file fails and the file can be decoded.\<close>

definition ds_ok :: "('b, 'y) ds_yaml \<Rightarrow> 'b ds_fs \<Rightarrow> bool" where
  "ds_ok Y w \<longleftrightarrow> ds_laws Y \<and> (\<forall>x. ds_fault w x = None) \<and>
     (\<forall>b. ds_file w = Some b \<longrightarrow> (\<exists>m. ds_Unmarshal Y b = Inr m))"

lemma ds_content_ok: "ds_ok Y w \<Longrightarrow> map_ok (ds_content Y w)"
  by (auto simp: ds_ok_def ds_laws_def ds_content_def split: option.splits sum.splits)

lemma open_store:
  assumes "ds_ok Y w"
  obtains b m where "getDataStoreContent Y True w = (w\<lparr>ds_file := Some b, ds_handles := Suc (ds_handles w), ds_lockFile := True\<rparr>, Inr m)"
    "(case m of None \<Rightarrow> [] | Some m \<Rightarrow> m) = ds_content Y w"
proof (cases "ds_file w")
  case None
  with assms that [of "ds_EmptyFile Y" None] show ?thesis
    by (simp add: getDataStoreContent_def getDataStoreBytes_def ds_ok_def ds_laws_def ds_content_def Let_def)
next
  case (Some b)
  with assms obtain m where "ds_Unmarshal Y b = Inr m" by (auto simp: ds_ok_def)
  with assms Some that [of b m] show ?thesis
    by (simp add: getDataStoreContent_def getDataStoreBytes_def ds_ok_def ds_content_def Let_def split: option.split)
qed

lemma save_store:
  assumes "ds_ok Y w" "map_ok m"
  shows "\<exists>b'. saveAndClose Y m (w\<lparr>ds_file := Some b, ds_handles := Suc (ds_handles w), ds_lockFile := True\<rparr>) =
      (w\<lparr>ds_file := Some b', ds_lockFile := True\<rparr>, None) \<and> ds_ok Y (w\<lparr>ds_file := Some b', ds_lockFile := True\<rparr>) \<and>
      map_of (ds_content Y (w\<lparr>ds_file := Some b', ds_lockFile := True\<rparr>)) = map_of m"
proof -
  obtain b' m' where "ds_Marshal Y m = Inr b'" "ds_Unmarshal Y b' = Inr (Some m')" "map_of m' = map_of m"
    using assms by (auto simp: ds_ok_def ds_laws_def)
  with assms(1) show ?thesis
    by (intro exI [of _ b']) (simp add: saveAndClose_def ds_ok_def ds_content_def)
qed

text \<open>A write keeps the store usable and releases the lock.\<close>

lemma set_value:
  assumes "ds_ok Y w" "SetDataStoreValue Y k v w = (w', e)"
  shows "e = None \<and> ds_ok Y w' \<and> ds_handles w' = ds_handles w \<and>
    map_of (ds_content Y w') = (map_of (ds_content Y w))(k \<mapsto> v)"
proof -
  obtain b m where o: "getDataStoreContent Y True w = (w\<lparr>ds_file := Some b, ds_handles := Suc (ds_handles w), ds_lockFile := True\<rparr>, Inr m)"
    "(case m of None \<Rightarrow> [] | Some m \<Rightarrow> m) = ds_content Y w"
    by (rule open_store [OF assms(1)])
  have "map_ok (AList.update k v (ds_content Y w))" using ds_content_ok [OF assms(1)] by simp
  from save_store [OF assms(1) this, of b] assms(2) show ?thesis
    by (auto simp: SetDataStoreValue_def o fun_eq_iff)
qed

lemma delete_value:
  assumes "ds_ok Y w" "DeleteDataStoreValue Y k w = (w', e)"
  shows "(e = None \<longleftrightarrow> map_of (ds_content Y w) k \<noteq> None) \<and> ds_ok Y w' \<and> ds_handles w' = ds_handles w \<and>
    map_of (ds_content Y w') = (map_of (ds_content Y w))(k := None)"
proof -
  obtain b m where o: "getDataStoreContent Y True w = (w\<lparr>ds_file := Some b, ds_handles := Suc (ds_handles w), ds_lockFile := True\<rparr>, Inr m)"
    "(case m of None \<Rightarrow> [] | Some m \<Rightarrow> m) = ds_content Y w"
    by (rule open_store [OF assms(1)])
  note ok = ds_content_ok [OF assms(1)]
  from ok have "map_ok (AList.delete k (ds_content Y w))" by simp
  from save_store [OF assms(1) ok, of b] save_store [OF assms(1) this, of b] assms(2) show ?thesis
    by (auto simp: DeleteDataStoreValue_def o Let_def fun_eq_iff delete_conv split: if_splits)
qed

interpretation data_store: value_store "ds_ok Y" "\<lambda>w. map_of (ds_content Y w)"
    "\<lambda>k v w. fst (SetDataStoreValue Y k v w)" "\<lambda>k w. fst (DeleteDataStoreValue Y k w)" for Y :: "('b, 'y) ds_yaml"
  using set_value [of Y] delete_value [of Y] by unfold_locales (metis prod.collapse)+

section \<open>Properties\<close>

fun store_run :: "('b, 'y) ds_yaml \<Rightarrow> 'y store_cmd \<Rightarrow> 'b ds_fs \<Rightarrow> 'b ds_fs" where
  "store_run Y (StorePut k v) w = fst (SetDataStoreValue Y k v w)"
| "store_run Y (StoreDelete k) w = fst (DeleteDataStoreValue Y k w)"

lemma store_run_eq: "store_run Y = data_store.run_store Y"
proof (intro ext)
  fix c w
  show "store_run Y c w = data_store.run_store Y c w" by (cases c) simp_all
qed

lemma get_value:
  assumes "ds_ok Y w" "ds_file w \<noteq> None"
  shows "GetDataStoreValue Y decode k w =
    (case map_of (ds_content Y w) k of
       Some v \<Rightarrow> (case decode v of Inl e \<Rightarrow> Inl e | Inr a \<Rightarrow> Inr (Some a))
     | None \<Rightarrow> if snd (getDataStoreContent Y False w) = Inr None then Inr None
               else Inl (Errorf ''key %s not found in the data store'' [k]))"
proof -
  obtain b m where b: "ds_file w = Some b" "ds_Unmarshal Y b = Inr m" using assms by (auto simp: ds_ok_def)
  with assms(1) have "snd (getDataStoreContent Y False w) = Inr m"
    by (simp add: getDataStoreContent_def getDataStoreBytes_def ds_ok_def)
  with b show ?thesis by (simp add: GetDataStoreValue_def ds_content_def split: option.split)
qed

lemma get_found:
  assumes "ds_ok Y w" "map_of (ds_content Y w) k = Some v" "decode v = Inr a"
  shows "GetDataStoreValue Y decode k w = Inr (Some a)"
proof -
  have "ds_file w \<noteq> None" using assms(2) by (auto simp: ds_content_def split: option.splits)
  with assms show ?thesis by (simp add: get_value)
qed

lemma get_missing:
  assumes "ds_ok Y w" "map_of (ds_content Y w) k = None"
  shows "\<forall>a. GetDataStoreValue Y decode k w \<noteq> Inr (Some a)"
proof (cases "ds_file w")
  case None
  with assms(1) show ?thesis
    by (simp add: GetDataStoreValue_def getDataStoreContent_def getDataStoreBytes_def ds_ok_def)
next
  case (Some b)
  with assms show ?thesis by (auto simp: get_value)
qed

text \<open>C14 (refinement): the data store refines a map. After any sequence of writes and deletions of values, on
  a file that can be decoded and without faults, reading a key returns exactly the value the same sequence
  leaves in a map, and the lock is free again.\<close>

theorem data_store_refines:
  assumes "ds_ok Y w" "w' = fold (store_run Y) cs w" "m = fold spec_store cs (map_of (ds_content Y w))"
  shows "(\<forall>v a. m k = Some v \<and> decode v = Inr a \<longrightarrow> GetDataStoreValue Y decode k w' = Inr (Some a)) \<and>
    (m k = None \<longrightarrow> (\<forall>a. GetDataStoreValue Y decode k w' \<noteq> Inr (Some a))) \<and> ds_handles w' = ds_handles w"
proof -
  have ref: "ds_ok Y w'" "map_of (ds_content Y w') = m"
    using data_store.run_refines [OF assms(1), of cs] by (simp_all add: assms(2,3) store_run_eq)
  have step: "ds_handles (store_run Y c w) = ds_handles w \<and> ds_ok Y (store_run Y c w)" if "ds_ok Y w" for c w
    using set_value [OF that] delete_value [OF that] by (cases c) (simp_all, (metis prod.collapse)+)
  have "ds_ok Y w \<Longrightarrow> ds_handles (fold (store_run Y) cs w) = ds_handles w"
    by (induction cs arbitrary: w) (simp_all add: step)
  with assms(1,2) ref get_found [OF ref(1), of k _ decode] get_missing [OF ref(1), of k decode] show ?thesis by simp
qed

text \<open>A store kept as an association list, for the witnesses.\<close>

definition mem_store :: "((string \<times> string) list option, string) ds_yaml" where
  "mem_store = \<lparr>ds_EmptyFile = None, ds_Marshal = (\<lambda>m. Inr (Some m)),
     ds_Unmarshal = (\<lambda>b. if map_ok (case b of None \<Rightarrow> [] | Some m \<Rightarrow> m) then Inr b else Inl ds_NotExist)\<rparr>"

definition new_store :: "(string \<times> string) list option ds_fs" where
  "new_store = \<lparr>ds_file = None, ds_handles = 0, ds_lockFile = False, ds_fault = (\<lambda>_. None)\<rparr>"

lemma new_store_ok: "ds_ok mem_store new_store"
  by (auto simp: ds_ok_def ds_laws_def mem_store_def new_store_def split: if_splits)

theorem data_store_refines_witness:
  "GetDataStoreValue mem_store Inr ''a'' (fold (store_run mem_store) [StorePut ''a'' ''1'', StorePut ''b'' ''2'', StoreDelete ''b''] new_store) =
     Inr (Some ''1'')"
proof -
  have "ds_content mem_store new_store = []" by (simp add: ds_content_def new_store_def)
  then show ?thesis
    using data_store_refines [OF new_store_ok refl refl, of "[StorePut ''a'' ''1'', StorePut ''b'' ''2'', StoreDelete ''b'']" "''a''" Inr]
    by simp
qed

text \<open>The recorded version is read back by the next run.\<close>

lemma last_version_read_back:
  assumes "ds_ok Y w" "\<forall>v. decode (encode v) = Inr v" "ff_DeleteFault ff = None"
    "SetLastExecutedCLIVersion Y decode encode buildVersion (ff, w) = (ff', w')"
  shows "GetLastExecutedCLIVersion Y decode ff' w' = buildVersion"
proof -
  obtain w1 e where s: "SetDataStoreValue Y lastExecutedCLIVersionKey (encode buildVersion) w = (w1, e)" by force
  from set_value [OF assms(1) s] have "stored_version Y decode w1 = buildVersion"
    using get_found [of Y w1 lastExecutedCLIVersionKey "encode buildVersion" decode buildVersion] assms(2)
    by (simp add: stored_version_def)
  with assms(3,4) s show ?thesis
    by (auto simp: SetLastExecutedCLIVersion_def GetLastExecutedCLIVersion_def Let_def split: if_splits)
qed

end
