(* ===== verification/Global_Init.thy ===== *)
theory Global_Init
  imports Data_Store Manager_Local_Correct
begin

text \<open>
  The initializations the CLI performs once after an upgrade: \<^verbatim>\<open>pkg/globalinit/\<close> (the registry of
  initializers, the refresh of the plugin catalog, the update of the default discovery source) and
  \<^verbatim>\<open>pkg/centralconfiginit/\<close> (the invalidation of inventory caches without a central configuration).

  \<open>None\<close> is a panic: the catalog updater of an unreadable catalog is \<^verbatim>\<open>nil\<close>, as is the \<^verbatim>\<open>OCI\<close>
  field of a discovery source of another type.
\<close>

section \<open>The registry\<close>

record 's initializer =
  in_name :: string
  in_trigger :: "'s \<Rightarrow> bool option"
  in_init :: "'s \<Rightarrow> ('s \<times> err option) option"

definition RegisterInitializer ::
    "string \<Rightarrow> ('s \<Rightarrow> bool option) \<Rightarrow> ('s \<Rightarrow> ('s \<times> err option) option) \<Rightarrow> 's initializer list \<Rightarrow> 's initializer list" where
  "RegisterInitializer name trigger initialization initializers =
     initializers @ [\<lparr>in_name = name, in_trigger = trigger, in_init = initialization\<rparr>]"

definition ResetInitializers :: "'s initializer list" where
  "ResetInitializers = []"

fun InitializationRequired :: "'s initializer list \<Rightarrow> 's \<Rightarrow> bool option" where
  "InitializationRequired [] s = Some False"
| "InitializationRequired (i # is) s =
     (case in_trigger i s of None \<Rightarrow> None | Some True \<Rightarrow> Some True | Some False \<Rightarrow> InitializationRequired is s)"

fun perform_loop :: "'s initializer list \<Rightarrow> 's \<Rightarrow> err list \<Rightarrow> ('s \<times> err list) option" where
  "perform_loop [] s errorList = Some (s, errorList)"
| "perform_loop (i # is) s errorList =
     (case in_trigger i s of
        None \<Rightarrow> None
      | Some False \<Rightarrow> perform_loop is s errorList
      | Some True \<Rightarrow>
          (case in_init i s of
             None \<Rightarrow> None
           | Some (s1, None) \<Rightarrow> perform_loop is s1 errorList
           | Some (s1, Some e) \<Rightarrow>
               perform_loop is s1 (errorList @ [Wrapf e (''error running the '' @ [CHR 0x27] @ ''%s'' @ [CHR 0x27] @ '' global initializer'') [in_name i]])))"

definition PerformInitializations :: "'v lib \<Rightarrow> 's initializer list \<Rightarrow> 's \<Rightarrow> ('s \<times> err option) option" where
  "PerformInitializations L initializers s =
     (case perform_loop initializers s [] of None \<Rightarrow> None | Some (s1, errorList) \<Rightarrow> Some (s1, NewAggregate L errorList))"

section \<open>The state\<close>

text \<open>The catalog, the data store, the feature flag, the discovery sources of the configuration and their
  inventory caches. \<open>GetCLIDiscoverySource\<close> and \<open>SetCLIDiscoverySource\<close> are the configuration
  library's.\<close>

record ('b, 'd) gi_state =
  gi_cat :: "'b cat_fs"
  gi_ds :: "'d ds_fs"
  gi_feature :: feature_flag
  gi_sources :: "plugin_discovery list res"
  gi_caches :: caches

record ('b, 'd, 'y) gi_env =
  gx_mgr :: "'b mgr_env"
  gx_store :: "('d, 'y) ds_yaml"
  gx_decode :: "'y \<Rightarrow> string res"
  gx_encode :: "string \<Rightarrow> 'y"
  gx_BuildVersion :: string
  gx_Info :: "string \<Rightarrow> string res"
  gx_GetCLIDiscoverySource :: "plugin_discovery list res \<Rightarrow> string \<Rightarrow> plugin_discovery option res"
  gx_SetCLIDiscoverySource :: "plugin_discovery \<Rightarrow> plugin_discovery list res \<Rightarrow> plugin_discovery list res \<times> err option"

definition older_than_1_3 :: "('b, 'd, 'y) gi_env \<Rightarrow> ('b, 'd) gi_state \<Rightarrow> bool" where
  "older_than_1_3 X s =
     (GetLastExecutedCLIVersion (gx_store X) (gx_decode X) (gi_feature s) (gi_ds s) = OlderThan1_3_0)"

section \<open>The plugin catalog\<close>

definition triggerForPreCommandRemapping :: "('b, 'd, 'y) gi_env \<Rightarrow> ('b, 'd) gi_state \<Rightarrow> bool" where
  "triggerForPreCommandRemapping X s = older_than_1_3 X s"

definition refreshPluginInfo :: "('b, 'd, 'y) gi_env \<Rightarrow> plugin_info \<Rightarrow> string \<Rightarrow> plugin_info res" where
  "refreshPluginInfo X plugin pluginPath =
     (case gx_Info X pluginPath of
        Inl e \<Rightarrow> Inl (Wrapf e ''could not get the info for plugin %q'' [pi_Name plugin])
      | Inr bytesInfo \<Rightarrow>
          (case me_UnmarshalInfo (gx_mgr X) bytesInfo of
             Inl e \<Rightarrow> Inl (Wrapf e ''could not unmarshal plugin %q info'' [pi_Name plugin])
           | Inr newInfo \<Rightarrow>
               Inr (plugin\<lparr>pi_InvokedAs := pi_InvokedAs newInfo,
                           pi_SupportedContextType := pi_SupportedContextType newInfo,
                           pi_CommandMap := pi_CommandMap newInfo\<rparr>)))"

text \<open>When the catalog cannot be opened, \<^verbatim>\<open>c.Unlock()\<close> is called on a \<^verbatim>\<open>nil\<close> catalog.\<close>

fun refresh_plugins_loop :: "('b, 'd, 'y) gi_env \<Rightarrow> plugin_info list \<Rightarrow> 'b cat_fs \<Rightarrow> 'b cat_fs option" where
  "refresh_plugins_loop X [] w = Some w"
| "refresh_plugins_loop X (p # ps) w =
     (case refreshPluginInfo X p (pi_InstallationPath p) of
        Inl e \<Rightarrow> refresh_plugins_loop X ps w
      | Inr pInfo \<Rightarrow>
          (case NewContextCatalogUpdater (me_yaml (gx_mgr X)) '''' w of
             (w1, Inl e) \<Rightarrow> None
           | (w1, Inr c) \<Rightarrow>
               (case Upsert (me_yaml (gx_mgr X)) pInfo w1 c of
                  (w2, c2, e) \<Rightarrow> refresh_plugins_loop X ps (fst (Unlock w2 c2)))))"

definition refreshPluginCatalog ::
    "'v lib \<Rightarrow> ('b, 'd, 'y) gi_env \<Rightarrow> ('b, 'd) gi_state \<Rightarrow> (('b, 'd) gi_state \<times> err option) option" where
  "refreshPluginCatalog L X s =
     (case GetInstalledPlugins L (me_yaml (gx_mgr X)) (me_ActiveContextsList (gx_mgr X)) (gi_cat s) of
        None \<Rightarrow> None
      | Some (w1, Inl e) \<Rightarrow> Some (s\<lparr>gi_cat := w1\<rparr>, Some e)
      | Some (w1, Inr plugins) \<Rightarrow>
          if length plugins = 0 then Some (s\<lparr>gi_cat := w1\<rparr>, None)
          else (case refresh_plugins_loop X (sort_by PluginInfo_Less plugins) w1 of
                  None \<Rightarrow> None
                | Some w2 \<Rightarrow> Some (s\<lparr>gi_cat := w2\<rparr>, None)))"

section \<open>The default discovery source\<close>

abbreviation TanzuCLIDefaultCentralPluginDiscoveryImage :: string where
  "TanzuCLIDefaultCentralPluginDiscoveryImage \<equiv> ''projects.packages.broadcom.com/tanzu_cli/plugins/plugin-inventory:latest''"

abbreviation TanzuCLIOldCentralPluginDiscoveryImage :: string where
  "TanzuCLIOldCentralPluginDiscoveryImage \<equiv> ''projects.registry.vmware.com/tanzu_cli/plugins/plugin-inventory:latest''"

abbreviation DefaultStandaloneDiscoveryName :: string where
  "DefaultStandaloneDiscoveryName \<equiv> ''default''"

definition triggerForPluginDiscoverySourceUpdater :: "('b, 'd, 'y) gi_env \<Rightarrow> ('b, 'd) gi_state \<Rightarrow> bool" where
  "triggerForPluginDiscoverySourceUpdater X s = older_than_1_3 X s"

definition updatePluginDiscoverySource ::
    "('b, 'd, 'y) gi_env \<Rightarrow> ('b, 'd) gi_state \<Rightarrow> ('b, 'd) gi_state \<times> err option" where
  "updatePluginDiscoverySource X s =
     (case gx_GetCLIDiscoverySource X (gi_sources s) DefaultStandaloneDiscoveryName of
        Inl e \<Rightarrow> (s, Some e)
      | Inr None \<Rightarrow> (s, None)
      | Inr (Some ds) \<Rightarrow>
          (case pd_OCI ds of
             None \<Rightarrow> (s, None)
           | Some oci \<Rightarrow>
               if oci_Image oci \<noteq> TanzuCLIOldCentralPluginDiscoveryImage then (s, None)
               else (case gx_SetCLIDiscoverySource X
                       (ds\<lparr>pd_OCI := Some (oci\<lparr>oci_Image := TanzuCLIDefaultCentralPluginDiscoveryImage\<rparr>)\<rparr>) (gi_sources s) of
                       (sources1, e) \<Rightarrow> (s\<lparr>gi_sources := sources1\<rparr>, e))))"

section \<open>The central configuration\<close>

text \<open>The file of a source exists when its cache has a central configuration.\<close>

fun config_missing :: "caches \<Rightarrow> plugin_discovery list \<Rightarrow> bool option" where
  "config_missing cs [] = Some False"
| "config_missing cs (source # sources) =
     (case pd_OCI source of
        None \<Rightarrow> None
      | Some oci \<Rightarrow> if oc_config (cs (oci_Name oci)) = None then Some True else config_missing cs sources)"

definition triggerForInventoryCacheInvalidation :: "('b, 'd) gi_state \<Rightarrow> bool option" where
  "triggerForInventoryCacheInvalidation s =
     (case gi_sources s of Inl e \<Rightarrow> Some False | Inr sources \<Rightarrow> config_missing (gi_caches s) sources)"

fun invalidate_loop ::
    "'v lib \<Rightarrow> disc_env \<Rightarrow> plugin_discovery list \<Rightarrow> caches \<Rightarrow> err list \<Rightarrow> (caches \<times> err list) option" where
  "invalidate_loop L V [] cs errorList = Some (cs, errorList)"
| "invalidate_loop L V (source # sources) cs errorList =
     (case pd_OCI source of
        None \<Rightarrow> None
      | Some oci \<Rightarrow>
          if oc_config (cs (oci_Name oci)) = None
          then (case RefreshDiscoveryDatabaseForSource L V source [WithForceInvalidation] cs of
                  None \<Rightarrow> None
                | Some (cs1, e) \<Rightarrow>
                    invalidate_loop L V sources cs1 (case e of None \<Rightarrow> errorList | Some e \<Rightarrow> errorList @ [e]))
          else invalidate_loop L V sources cs errorList)"

definition invalidateInventoryCache ::
    "'v lib \<Rightarrow> ('b, 'd, 'y) gi_env \<Rightarrow> ('b, 'd) gi_state \<Rightarrow> (('b, 'd) gi_state \<times> err option) option" where
  "invalidateInventoryCache L X s =
     (case gi_sources s of
        Inl e \<Rightarrow> Some (s, None)
      | Inr sources \<Rightarrow>
          (case invalidate_loop L (me_disc (gx_mgr X)) sources (gi_caches s) [] of
             None \<Rightarrow> None
           | Some (cs1, errorList) \<Rightarrow> Some (s\<lparr>gi_caches := cs1\<rparr>, NewAggregate L errorList)))"

section \<open>The initializers of the CLI\<close>

text \<open>In the order in which the packages register them.\<close>

definition cli_initializers :: "'v lib \<Rightarrow> ('b, 'd, 'y) gi_env \<Rightarrow> ('b, 'd) gi_state initializer list" where
  "cli_initializers L X =
     RegisterInitializer ''Central Config Initializer'' triggerForInventoryCacheInvalidation (invalidateInventoryCache L X)
       (RegisterInitializer ''Plugin Discovery Source Updater''
          (\<lambda>s. Some (triggerForPluginDiscoverySourceUpdater X s)) (\<lambda>s. Some (updatePluginDiscoverySource X s))
          (RegisterInitializer ''Plugin Info Catalog Initializer''
             (\<lambda>s. Some (triggerForPreCommandRemapping X s)) (refreshPluginCatalog L X) []))"

definition record_version :: "('b, 'd, 'y) gi_env \<Rightarrow> ('b, 'd) gi_state \<Rightarrow> ('b, 'd) gi_state" where
  "record_version X s =
     (case SetLastExecutedCLIVersion (gx_store X) (gx_decode X) (gx_encode X) (gx_BuildVersion X) (gi_feature s, gi_ds s) of
        (ff, w) \<Rightarrow> s\<lparr>gi_feature := ff, gi_ds := w\<rparr>)"

section \<open>Invalidated caches have a central configuration\<close>

definition config_creatable :: "oci_env \<Rightarrow> bool" where
  "config_creatable E \<longleftrightarrow> \<not> oe_fails E FCreate ''central_config.yaml'' \<and> oe_CopyFile E ''central_config.yaml'' = None"

lemma create_file_config [simp]: "oc_config (create_file E n content c) = oc_config c"
  by (simp add: create_file_def)

lemma remove_file_config [simp]: "oc_config (remove_file E n c) = oc_config c"
  by (simp add: remove_file_def)

lemma fold_remove_config [simp]: "oc_config (fold (remove_file E) ns c) = oc_config c"
  by (induction ns arbitrary: c) simp_all

lemma reset_config [simp]: "oc_config (resetCacheTTL E c) = oc_config c"
  by (simp add: resetCacheTTL_def split: list.split option.split)

lemma finish_config [simp]: "oc_config (finish_refresh E od i m c) = oc_config c"
  by (simp add: finish_refresh_def Let_def)

lemma check_digest_config: "checkDigestFileExistence E od h p c = (c1, f) \<Longrightarrow> oc_config c1 = oc_config c"
  by (auto simp: checkDigestFileExistence_def Let_def split: list.splits if_splits)

lemma check_digest_invalidated:
  "checkDigestFileExistence E od h p c = (c1, f) \<Longrightarrow> od_forceInvalidation od \<Longrightarrow> f \<noteq> ''''"
  by (auto simp: checkDigestFileExistence_def digest_name_def Let_def split: list.splits if_splits)

lemma check_image_config: "checkImageCache E od c = (c1, r) \<Longrightarrow> oc_config c1 = oc_config c"
  by (auto simp: checkImageCache_def Let_def split: sum.splits prod.splits dest!: check_digest_config)

lemma check_image_invalidated:
  "checkImageCache E od c = (c1, Inr (i, m)) \<Longrightarrow> od_forceInvalidation od \<Longrightarrow> i \<noteq> ''''"
  by (auto simp: checkImageCache_def Let_def split: sum.splits prod.splits dest!: check_digest_invalidated)

lemma setup_config:
  "setupPluginInventory E od dir c = (c1, e) \<Longrightarrow> oc_config c1 = oc_config c"
  by (auto simp: setupPluginInventory_def split: sum.splits option.splits)

lemma download_config:
  assumes "downloadCentralRepositoryData E od c = (c1, e)"
  shows "oc_config c \<noteq> None \<longrightarrow> oc_config c1 \<noteq> None" "e = None \<Longrightarrow> config_creatable E \<Longrightarrow> oc_config c1 \<noteq> None"
  using assms
  by (auto simp: downloadCentralRepositoryData_def setupCentralConfig_def config_creatable_def split: option.splits sum.splits prod.splits if_splits
      dest!: setup_config)

lemma fetch_config_mono:
  assumes "fetchInventoryImage E od c = (c1, e)" "oc_config c \<noteq> None"
  shows "oc_config c1 \<noteq> None"
proof -
  obtain c2 r where ch: "checkImageCache E od c = (c2, r)" by force
  obtain c3 e3 where dl: "downloadCentralRepositoryData E od c2 = (c3, e3)" by force
  have "oc_config c2 \<noteq> None" "oc_config c3 \<noteq> None"
    using check_image_config [OF ch] download_config(1) [OF dl] assms(2) by auto
  with assms ch dl show ?thesis
    by (auto simp: fetchInventoryImage_def split: if_splits sum.splits option.splits)
qed

lemma fetch_config_created:
  assumes "fetchInventoryImage E od c = (c1, None)" "od_forceInvalidation od" "config_creatable E"
  shows "oc_config c1 \<noteq> None"
proof -
  obtain c2 r where ch: "checkImageCache E od c = (c2, r)" by force
  obtain c3 e3 where dl: "downloadCentralRepositoryData E od c2 = (c3, e3)" by force
  show ?thesis
    using assms ch dl check_image_invalidated [of E od c c2] download_config(2) [OF dl]
    by (auto simp: fetchInventoryImage_def split: if_splits sum.splits option.splits)
qed

lemma refresh_source:
  assumes "RefreshDiscoveryDatabaseForSource L V source [WithForceInvalidation] cs = Some (cs1, e)"
    "pd_OCI source = Some oci" "config_creatable (dv_oci V)" "\<not> cache_only_for_testing V"
  shows "(\<forall>n. oc_config (cs n) \<noteq> None \<longrightarrow> oc_config (cs1 n) \<noteq> None) \<and> (e = None \<longrightarrow> oc_config (cs1 (oci_Name oci)) \<noteq> None)"
proof -
  define od where "od = NewOCIDiscovery V (oci_Name oci) (oci_Image oci) [WithForceInvalidation]"
  have od: "od_forceInvalidation od" "\<not> od_useLocalCacheOnly od" "od_name od = oci_Name oci"
    using assms(4)
    by (simp_all add: od_def NewOCIDiscovery_def apply_options_def WithForceInvalidation_def NewDiscoveryOpts_def
        newDBBackedOCIDiscovery_def Let_def)
  obtain c1 e1 where f: "fetchInventoryImage (dv_oci V) od (cs (oci_Name oci)) = (c1, e1)" by force
  have "cs1 = cs(oci_Name oci := c1)" "e = None \<longrightarrow> e1 = None"
    using assms(1,2) f od(2,3)
    by (auto simp: RefreshDiscoveryDatabaseForSource_def CreateDiscoveryFromV1alpha1_def od_def [symmetric] OCI_List_def Let_def
        split: option.splits sum.splits prod.splits)
  then show ?thesis
    using fetch_config_mono [OF f] fetch_config_created [of "dv_oci V" od "cs (oci_Name oci)" c1] f od(1) assms(3) by auto
qed

lemma invalidate_loop_done:
  assumes "invalidate_loop L V sources cs es = Some (cs', [])" "config_creatable (dv_oci V)" "\<not> cache_only_for_testing V"
  shows "es = [] \<and> (\<forall>n. oc_config (cs n) \<noteq> None \<longrightarrow> oc_config (cs' n) \<noteq> None) \<and> config_missing cs' sources = Some False"
  using assms(1)
proof (induction sources arbitrary: cs es)
  case (Cons source sources)
  then obtain oci where oci: "pd_OCI source = Some oci" by (auto split: option.splits)
  show ?case
  proof (cases "oc_config (cs (oci_Name oci)) = None")
    case True
    with Cons.prems oci obtain cs1 e where r: "RefreshDiscoveryDatabaseForSource L V source [WithForceInvalidation] cs = Some (cs1, e)"
      "invalidate_loop L V sources cs1 (case e of None \<Rightarrow> es | Some e \<Rightarrow> es @ [e]) = Some (cs', [])"
      by (auto split: option.splits)
    note ref = refresh_source [OF r(1) oci assms(2,3)]
    from Cons.IH [OF r(2)] ref oci show ?thesis by (auto split: option.splits)
  next
    case False
    with Cons.prems oci Cons.IH [of cs es] show ?thesis by auto
  qed
qed simp

section \<open>Initialization happens once\<close>

lemma invalidate_done:
  assumes "invalidateInventoryCache L X s = Some (s1, None)" "aggregate_law L"
    "config_creatable (dv_oci (me_disc (gx_mgr X)))" "\<not> cache_only_for_testing (me_disc (gx_mgr X))"
  shows "triggerForInventoryCacheInvalidation s1 = Some False \<and> gi_feature s1 = gi_feature s \<and> gi_ds s1 = gi_ds s"
proof (cases "gi_sources s")
  case (Inl e)
  with assms(1) show ?thesis by (simp add: invalidateInventoryCache_def triggerForInventoryCacheInvalidation_def)
next
  case (Inr sources)
  with assms(1,2) obtain cs' where "invalidate_loop L (me_disc (gx_mgr X)) sources (gi_caches s) [] = Some (cs', [])"
    "s1 = s\<lparr>gi_caches := cs'\<rparr>"
    by (auto simp: invalidateInventoryCache_def split: option.splits)
  with invalidate_loop_done [OF this(1) assms(3,4)] Inr show ?thesis
    by (simp add: triggerForInventoryCacheInvalidation_def)
qed

lemma refresh_catalog_frame:
  "refreshPluginCatalog L X s = Some (s1, e) \<Longrightarrow> gi_feature s1 = gi_feature s \<and> gi_ds s1 = gi_ds s"
  by (auto simp: refreshPluginCatalog_def split: option.splits sum.splits if_splits)

lemma update_source_frame:
  "updatePluginDiscoverySource X s = (s1, e) \<Longrightarrow> gi_feature s1 = gi_feature s \<and> gi_ds s1 = gi_ds s"
  by (auto simp: updatePluginDiscoverySource_def split: option.splits sum.splits if_splits prod.splits)

lemma perform_loop_errors: "perform_loop is s es = Some (s1, []) \<Longrightarrow> es = []"
proof (induction "is" arbitrary: s es)
  case (Cons i "is")
  show ?case using Cons.prems by (auto split: option.splits bool.splits dest!: Cons.IH)
qed simp

lemma perform_step:
  assumes "perform_loop (i # is) s [] = Some (s', [])"
  obtains s1 where "perform_loop is s1 [] = Some (s', [])"
    "(in_trigger i s = Some False \<and> s1 = s) \<or> (in_trigger i s = Some True \<and> in_init i s = Some (s1, None))"
proof (cases "in_trigger i s = Some True")
  case True
  with assms obtain s1 e where i: "in_init i s = Some (s1, e)" by (auto split: option.splits)
  with assms True have "e = None" using perform_loop_errors by (fastforce split: option.splits)
  with assms True i that [of s1] show ?thesis by simp
next
  case False
  with assms that [of s] show ?thesis by (auto split: option.splits bool.splits)
qed

lemma performed:
  assumes "PerformInitializations L (cli_initializers L X) s = Some (s', None)" "aggregate_law L"
    "config_creatable (dv_oci (me_disc (gx_mgr X)))" "\<not> cache_only_for_testing (me_disc (gx_mgr X))"
  shows "triggerForInventoryCacheInvalidation s' = Some False \<and> gi_feature s' = gi_feature s \<and> gi_ds s' = gi_ds s"
proof -
  have run: "perform_loop (cli_initializers L X) s [] = Some (s', [])"
    using assms(1,2) by (auto simp: PerformInitializations_def split: option.splits)
  note run' = run [unfolded cli_initializers_def RegisterInitializer_def append.simps]
  obtain s1 where s1: "perform_loop [\<lparr>in_name = ''Plugin Discovery Source Updater'',
        in_trigger = \<lambda>s. Some (triggerForPluginDiscoverySourceUpdater X s), in_init = \<lambda>s. Some (updatePluginDiscoverySource X s)\<rparr>,
      \<lparr>in_name = ''Central Config Initializer'', in_trigger = triggerForInventoryCacheInvalidation,
        in_init = invalidateInventoryCache L X\<rparr>] s1 [] = Some (s', [])"
    and f1: "gi_feature s1 = gi_feature s \<and> gi_ds s1 = gi_ds s"
    by (rule perform_step [OF run']) (auto dest: refresh_catalog_frame)
  obtain s2 where s2: "perform_loop [\<lparr>in_name = ''Central Config Initializer'', in_trigger = triggerForInventoryCacheInvalidation,
        in_init = invalidateInventoryCache L X\<rparr>] s2 [] = Some (s', [])"
    and f2: "gi_feature s2 = gi_feature s1 \<and> gi_ds s2 = gi_ds s1"
    by (rule perform_step [OF s1]) (auto dest: update_source_frame)
  obtain s3 where "perform_loop [] s3 [] = Some (s', [])"
    "triggerForInventoryCacheInvalidation s3 = Some False \<and> gi_feature s3 = gi_feature s2 \<and> gi_ds s3 = gi_ds s2"
    by (rule perform_step [OF s2]) (auto dest: invalidate_done [OF _ assms(2-4)])
  with f1 f2 show ?thesis by simp
qed

lemma trigger_frame:
  "triggerForInventoryCacheInvalidation (s\<lparr>gi_feature := ff, gi_ds := w\<rparr>) = triggerForInventoryCacheInvalidation s"
  by (simp add: triggerForInventoryCacheInvalidation_def split: sum.split)

text \<open>C15 (functional): the global initialization of the CLI happens once. After the initializations ran without an
  error and the version of the CLI was recorded, none of the initializers asks to run again, provided the
  data store works and the central configuration file can be written.\<close>

theorem initialization_runs_once:
  assumes "PerformInitializations L (cli_initializers L X) s = Some (s', None)" "aggregate_law L"
    "config_creatable (dv_oci (me_disc (gx_mgr X)))" "\<not> cache_only_for_testing (me_disc (gx_mgr X))"
    "ds_ok (gx_store X) (gi_ds s)" "\<forall>v. gx_decode X (gx_encode X v) = Inr v" "ff_DeleteFault (gi_feature s) = None"
    "gx_BuildVersion X \<noteq> OlderThan1_3_0"
  shows "InitializationRequired (cli_initializers L X) (record_version X s') = Some False"
proof -
  note fin = performed [OF assms(1-4)]
  obtain ff w where r: "SetLastExecutedCLIVersion (gx_store X) (gx_decode X) (gx_encode X) (gx_BuildVersion X) (gi_feature s, gi_ds s) = (ff, w)"
    by force
  have "GetLastExecutedCLIVersion (gx_store X) (gx_decode X) ff w = gx_BuildVersion X"
    by (rule last_version_read_back [OF assms(5-7) r])
  moreover have "record_version X s' = s'\<lparr>gi_feature := ff, gi_ds := w\<rparr>" using fin r by (simp add: record_version_def)
  ultimately have "\<not> older_than_1_3 X (record_version X s')" "triggerForInventoryCacheInvalidation (record_version X s') = Some False"
    using assms(8) fin by (simp_all add: older_than_1_3_def trigger_frame)
  then show ?thesis
    by (simp add: cli_initializers_def RegisterInitializer_def triggerForPreCommandRemapping_def triggerForPluginDiscoverySourceUpdater_def)
qed

definition demo_gi_env :: "(catalog option, (string \<times> string) list option, string) gi_env" where
  "demo_gi_env = \<lparr>gx_mgr = demo_mgr [], gx_store = mem_store, gx_decode = Inr, gx_encode = id, gx_BuildVersion = ''v1.5.0'',
     gx_Info = (\<lambda>_. Inl ErrNotExist), gx_GetCLIDiscoverySource = (\<lambda>_ _. Inr None), gx_SetCLIDiscoverySource = (\<lambda>_ s. (s, None))\<rparr>"

definition demo_gi :: "(catalog option, (string \<times> string) list option) gi_state" where
  "demo_gi = \<lparr>gi_cat = fresh_fs, gi_ds = new_store, gi_feature = \<lparr>ff_value = Some True, ff_DeleteFault = None\<rparr>,
     gi_sources = Inr [], gi_caches = (\<lambda>_. empty_cache)\<rparr>"

theorem initialization_runs_once_witness:
  "InitializationRequired (cli_initializers dotted_lib demo_gi_env) demo_gi = Some True \<and>
   (\<exists>s. PerformInitializations dotted_lib (cli_initializers dotted_lib demo_gi_env) demo_gi = Some (s, None) \<and>
      InitializationRequired (cli_initializers dotted_lib demo_gi_env) (record_version demo_gi_env s) = Some False)"
proof -
  have first: "InitializationRequired (cli_initializers dotted_lib demo_gi_env) demo_gi = Some True"
    by (simp add: cli_initializers_def RegisterInitializer_def triggerForPreCommandRemapping_def older_than_1_3_def
        GetLastExecutedCLIVersion_def demo_gi_def)
  have "map_option snd (PerformInitializations dotted_lib (cli_initializers dotted_lib demo_gi_env) demo_gi) = Some None"
    by code_simp
  then obtain s where s: "PerformInitializations dotted_lib (cli_initializers dotted_lib demo_gi_env) demo_gi = Some (s, None)"
    by auto
  have "InitializationRequired (cli_initializers dotted_lib demo_gi_env) (record_version demo_gi_env s) = Some False"
    by (rule initialization_runs_once [OF s dotted_aggregate_law])
      (simp_all add: demo_gi_env_def demo_gi_def new_store_ok OlderThan1_3_0_def config_creatable_def cache_only_for_testing_def
        env_flag_def parse_bool_or_false_def parse_bool_def getenv_def demo_mgr_def demo_disc_def demo_oci_def)
  with first s show ?thesis by blast
qed

end
