(* ===== verification/Recommended_Version.thy ===== *)
theory Recommended_Version
  imports Data_Store Discovery_Cache
begin

text \<open>
  The central configuration, \<^verbatim>\<open>pkg/centralconfig/\<close>, and the recommendation of newer versions of the CLI
  that rests on it, \<^verbatim>\<open>pkg/recommendedversion/recommended_version.go\<close>.

  The central configuration is the optional file the refresh of an inventory cache leaves
  (\<open>oc_config\<close> of \<open>Discovery_Cache\<close>); YAML is a parameter, with one decoder for each type of value.
\<close>

section \<open>Central configuration\<close>

record service_endpoints =
  UCPEndpoint :: string
  TMCEndpoint :: string
  HubEndpoint :: string

record 'y cc_yaml =
  cc_Unmarshal :: "string \<Rightarrow> (string \<times> 'y) list option res"
  cc_string :: "'y \<Rightarrow> string res"
  cc_strings :: "'y \<Rightarrow> string list res"
  cc_string_map :: "'y \<Rightarrow> (string \<times> string) list res"
  cc_service_maps :: "'y \<Rightarrow> (string \<times> service_endpoints) list res"
  cc_versions :: "'y \<Rightarrow> string list res"

text \<open>A reader of the file at a path; the file may be absent or unreadable.\<close>

record cc_reader =
  cc_file :: "string option"
  cc_ReadFile :: "err option"

definition parseConfigFile :: "'y cc_yaml \<Rightarrow> cc_reader \<Rightarrow> (string \<times> 'y) list res" where
  "parseConfigFile Z c =
     (case cc_file c of
        None \<Rightarrow> Inr []
      | Some bytes \<Rightarrow>
          (case cc_ReadFile c of
             Some e \<Rightarrow> Inl e
           | None \<Rightarrow> (case cc_Unmarshal Z bytes of
                        Inl e \<Rightarrow> Inl e | Inr None \<Rightarrow> Inr [] | Inr (Some content) \<Rightarrow> Inr content)))"

definition extractValue :: "('y \<Rightarrow> 'a res) \<Rightarrow> (string \<times> 'y) list \<Rightarrow> string \<Rightarrow> 'a option res" where
  "extractValue decode values key =
     (case map_of values key of
        None \<Rightarrow> Inr None
      | Some v \<Rightarrow> (case decode v of Inl e \<Rightarrow> Inl e | Inr a \<Rightarrow> Inr (Some a)))"

definition KeyNotFoundError :: "string \<Rightarrow> err" where
  "KeyNotFoundError key = Errorf (''key '' @ [CHR 0x27] @ ''%s'' @ [CHR 0x27] @ '' not found in central config'') [key]"

definition GetCentralConfigEntry :: "'y cc_yaml \<Rightarrow> cc_reader \<Rightarrow> ('y \<Rightarrow> 'a res) \<Rightarrow> string \<Rightarrow> 'a res" where
  "GetCentralConfigEntry Z c decode key =
     (case parseConfigFile Z c of
        Inl e \<Rightarrow> Inl e
      | Inr values \<Rightarrow>
          (case extractValue decode values key of
             Inl e \<Rightarrow> Inl e | Inr None \<Rightarrow> Inl (KeyNotFoundError key) | Inr (Some a) \<Rightarrow> Inr a))"

definition GetDefaultTanzuEndpoint :: "'y cc_yaml \<Rightarrow> cc_reader \<Rightarrow> string res" where
  "GetDefaultTanzuEndpoint Z c = GetCentralConfigEntry Z c (cc_string Z) ''cli.core.tanzu_default_endpoint''"

definition parse_seconds :: "string res \<Rightarrow> int res" where
  "parse_seconds r =
     (case r of
        Inl e \<Rightarrow> Inl e
      | Inr secondsStr \<Rightarrow> (case atoi secondsStr of
                            None \<Rightarrow> Inl (Errorf ''strconv.ParseInt: parsing %q'' [secondsStr]) | Some n \<Rightarrow> Inr n))"

definition GetPluginDBCacheRefreshThresholdSeconds :: "'y cc_yaml \<Rightarrow> cc_reader \<Rightarrow> int res" where
  "GetPluginDBCacheRefreshThresholdSeconds Z c =
     parse_seconds (GetCentralConfigEntry Z c (cc_string Z)
       ''cli.core.tanzu_cli_default_plugin_db_cache_refresh_threshold_seconds'')"

definition GetInventoryRefreshTTLSeconds :: "'y cc_yaml \<Rightarrow> cc_reader \<Rightarrow> int res" where
  "GetInventoryRefreshTTLSeconds Z c =
     parse_seconds (GetCentralConfigEntry Z c (cc_string Z) ''cli.core.tanzu_cli_default_inventory_refresh_ttl_seconds'')"

definition GetTanzuPlatformEndpointToServiceEndpointMap :: "'y cc_yaml \<Rightarrow> cc_reader \<Rightarrow> (string \<times> service_endpoints) list res" where
  "GetTanzuPlatformEndpointToServiceEndpointMap Z c =
     GetCentralConfigEntry Z c (cc_service_maps Z) ''cli.core.tanzu_endpoint_map''"

definition defaultSaaSEndpoints :: "string list" where
  "defaultSaaSEndpoints = [''https://(www.)?platform(.)*.tanzu.broadcom.com'', ''https://api.tanzu(.)*.cloud.vmware.com'']"

definition GetTanzuPlatformSaaSEndpointList :: "'y cc_yaml \<Rightarrow> cc_reader \<Rightarrow> string list" where
  "GetTanzuPlatformSaaSEndpointList Z c =
     (case GetCentralConfigEntry Z c (cc_strings Z) ''cli.core.tanzu_cli_platform_saas_endpoints_as_regular_expression'' of
        Inl e \<Rightarrow> defaultSaaSEndpoints | Inr l \<Rightarrow> l)"

definition GetTanzuConfigEndpointUpdateVersion :: "'y cc_yaml \<Rightarrow> cc_reader \<Rightarrow> string res" where
  "GetTanzuConfigEndpointUpdateVersion Z c =
     GetCentralConfigEntry Z c (cc_string Z) ''cli.core.tanzu_cli_config_endpoint_update_version''"

definition GetTanzuConfigEndpointUpdateMapping :: "'y cc_yaml \<Rightarrow> cc_reader \<Rightarrow> (string \<times> string) list res" where
  "GetTanzuConfigEndpointUpdateMapping Z c =
     GetCentralConfigEntry Z c (cc_string_map Z) ''cli.core.tanzu_cli_config_endpoint_update_mapping''"

text \<open>The variables the package initializes from the default central configuration.\<close>

record cc_defaults =
  DefaultTanzuPlatformEndpoint :: string
  DefaultPluginDBCacheRefreshThresholdSeconds :: int
  DefaultInventoryRefreshTTLSeconds :: int

definition central_config_init :: "'y cc_yaml \<Rightarrow> cc_reader \<Rightarrow> cc_defaults" where
  "central_config_init Z c =
     \<lparr>DefaultTanzuPlatformEndpoint =
        (case GetDefaultTanzuEndpoint Z c of
           Inr e \<Rightarrow> if e \<noteq> '''' then e else ''https://api.tanzu.cloud.vmware.com''
         | Inl _ \<Rightarrow> ''https://api.tanzu.cloud.vmware.com''),
      DefaultPluginDBCacheRefreshThresholdSeconds =
        (case GetPluginDBCacheRefreshThresholdSeconds Z c of Inr n \<Rightarrow> if n > 0 then n else 86400 | Inl _ \<Rightarrow> 86400),
      DefaultInventoryRefreshTTLSeconds =
        (case GetInventoryRefreshTTLSeconds Z c of Inr n \<Rightarrow> if n > 0 then n else 1800 | Inl _ \<Rightarrow> 1800)\<rparr>"

section \<open>Recommended versions\<close>

fun findRecommendedMajorVersion :: "'v lib \<Rightarrow> string list \<Rightarrow> string \<Rightarrow> bool \<Rightarrow> string" where
  "findRecommendedMajorVersion L [] currentVersion includePreReleases = ''''"
| "findRecommendedMajorVersion L (newVersion # vs) currentVersion includePreReleases =
     (if \<not> includePreReleases \<and> IsPreRelease L newVersion
      then findRecommendedMajorVersion L vs currentVersion includePreReleases
      else if IsSameMajor L newVersion currentVersion then ''''
      else if \<not> IsNewVersion L newVersion currentVersion then '''' else newVersion)"

fun findRecommendedMinorVersion :: "'v lib \<Rightarrow> string list \<Rightarrow> string \<Rightarrow> bool \<Rightarrow> string" where
  "findRecommendedMinorVersion L [] currentVersion includePreReleases = ''''"
| "findRecommendedMinorVersion L (newVersion # vs) currentVersion includePreReleases =
     (if \<not> includePreReleases \<and> IsPreRelease L newVersion
      then findRecommendedMinorVersion L vs currentVersion includePreReleases
      else if IsSameMajor L newVersion currentVersion
      then (if IsSameMinor L newVersion currentVersion then ''''
            else if \<not> IsNewVersion L newVersion currentVersion then '''' else newVersion)
      else findRecommendedMinorVersion L vs currentVersion includePreReleases)"

fun findRecommendedPatchVersion :: "'v lib \<Rightarrow> string list \<Rightarrow> string \<Rightarrow> bool \<Rightarrow> string" where
  "findRecommendedPatchVersion L [] currentVersion includePreReleases = ''''"
| "findRecommendedPatchVersion L (newVersion # vs) currentVersion includePreReleases =
     (if \<not> includePreReleases \<and> IsPreRelease L newVersion
      then findRecommendedPatchVersion L vs currentVersion includePreReleases
      else if IsSameMinor L newVersion currentVersion
      then (if \<not> IsNewVersion L newVersion currentVersion then '''' else newVersion)
      else findRecommendedPatchVersion L vs currentVersion includePreReleases)"

text \<open>The map \<open>alreadyPresent\<close> is the set of the versions taken so far.\<close>

fun trim_versions_loop :: "string list \<Rightarrow> string list \<Rightarrow> string list" where
  "trim_versions_loop [] finalVersions = finalVersions"
| "trim_versions_loop (newVersion # vs) finalVersions =
     (let trimmedVersion = trim_space newVersion
      in if trimmedVersion \<noteq> '''' \<and> trimmedVersion \<notin> set finalVersions
         then trim_versions_loop vs (finalVersions @ [trimmedVersion]) else trim_versions_loop vs finalVersions)"

definition sortRecommendedVersionsDescending :: "'v lib \<Rightarrow> string list \<Rightarrow> string list res" where
  "sortRecommendedVersionsDescending L recommendedVersions =
     (case SortVersions L (trim_versions_loop recommendedVersions []) of
        (Some e, _) \<Rightarrow> Inl e | (None, finalVersions) \<Rightarrow> Inr (rev finalVersions))"

text \<open>On 64 bits; a negative value is a delay in seconds.\<close>

definition getRecommendationDelayInSeconds :: "environ \<Rightarrow> int" where
  "getRecommendationDelayInSeconds env =
     (let delayOverride = getenv env ''TANZU_CLI_RECOMMEND_VERSION_DELAY_DAYS''
      in if delayOverride \<noteq> ''''
         then (case atoi delayOverride of
                 None \<Rightarrow> 86400
               | Some v \<Rightarrow> if v \<ge> 0 then wrap64 (v * 86400) else wrap64 (- v))
         else 86400)"

text \<open>\<open>time.Time{}\<close> in nanoseconds since the epoch.\<close>

definition zero_time :: int where
  "zero_time = - 62135596800000000000"

record ('b, 'y) rv_env =
  rv_store :: "('b, 'y) ds_yaml"
  rv_decodeTime :: "'y \<Rightarrow> int res"
  rv_encodeTime :: "int \<Rightarrow> 'y"
  rv_environ :: environ
  rv_now :: int
  rv_Version :: string

definition shouldCheckVersion :: "('b, 'y) rv_env \<Rightarrow> 'b ds_fs \<Rightarrow> bool" where
  "shouldCheckVersion R w =
     (let delay = getRecommendationDelayInSeconds (rv_environ R)
      in if delay = 0 then False
         else case GetDataStoreValue (rv_store R) (rv_decodeTime R) ''lastVersionCheck'' w of
             Inl e \<Rightarrow> True
           | Inr v \<Rightarrow> time_Since (rv_now R) (case v of None \<Rightarrow> zero_time | Some t \<Rightarrow> t) > seconds delay)"

text \<open>The versions the message lists, and the store with the time of the message.\<close>

definition printVersionRecommendations ::
    "'v lib \<Rightarrow> ('b, 'y) rv_env \<Rightarrow> string \<Rightarrow> string \<Rightarrow> string \<Rightarrow> 'b ds_fs \<Rightarrow> 'b ds_fs \<times> string list" where
  "printVersionRecommendations L R currentVersion minor patch w =
     (if (minor = '''' \<or> \<not> IsNewVersion L minor currentVersion) \<and> (patch = '''' \<or> \<not> IsNewVersion L patch currentVersion)
      then (w, [])
      else (fst (SetDataStoreValue (rv_store R) ''lastVersionCheck'' (rv_encodeTime R (rv_now R)) w),
            filter (\<lambda>v. v \<noteq> '''' \<and> IsNewVersion L v currentVersion) [minor, patch]))"

definition CheckRecommendedCLIVersion ::
    "'v lib \<Rightarrow> ('b, 'y) rv_env \<Rightarrow> 'z cc_yaml \<Rightarrow> cc_reader \<Rightarrow> 'b ds_fs \<Rightarrow> 'b ds_fs \<times> string list" where
  "CheckRecommendedCLIVersion L R Z c w =
     (if \<not> shouldCheckVersion R w then (w, [])
      else case GetCentralConfigEntry Z c (cc_versions Z) ''cli.core.cli_recommended_versions'' of
          Inl e \<Rightarrow> (w, [])
        | Inr versions \<Rightarrow>
            (case sortRecommendedVersionsDescending L versions of
               Inl e \<Rightarrow> (w, [])
             | Inr recommendedVersions \<Rightarrow>
                 let currentVersion = rv_Version R;
                     includePreReleases = IsPreRelease L currentVersion;
                     minor = findRecommendedMinorVersion L recommendedVersions currentVersion includePreReleases;
                     patch = findRecommendedPatchVersion L recommendedVersions currentVersion includePreReleases
                 in printVersionRecommendations L R currentVersion minor patch w))"

section \<open>Properties\<close>

lemma trim_versions_set:
  "set (trim_versions_loop vs acc) = set acc \<union> {v. v \<noteq> '''' \<and> v \<in> trim_space ` set vs}"
  by (induction vs arbitrary: acc) (auto simp: Let_def)

definition admissible :: "'v lib \<Rightarrow> string \<Rightarrow> string \<Rightarrow> bool" where
  "admissible L currentVersion v \<longleftrightarrow> IsPreRelease L currentVersion \<or> \<not> IsPreRelease L v"

text \<open>The latest of the versions of a list that satisfy a condition.\<close>

definition latest_with :: "'v lib \<Rightarrow> (string \<Rightarrow> bool) \<Rightarrow> string set \<Rightarrow> string \<Rightarrow> bool" where
  "latest_with L P V v \<longleftrightarrow> v \<in> V \<and> P v \<and> (\<forall>u \<in> V. P u \<longrightarrow> \<not> IsNewVersion L u v)"

lemma find_latest:
  assumes "sorted_wrt (\<lambda>a b. \<not> IsNewVersion L b a) vs" "List.find P vs = Some v" "\<not> IsNewVersion L v v"
  shows "latest_with L P (set vs) v"
  using assms
proof (induction vs)
  case (Cons a vs)
  then show ?case by (auto simp: latest_with_def split: if_splits)
qed simp

lemma new_irrefl: "semver_laws L \<Longrightarrow> \<not> IsNewVersion L v v"
  using semver_anti [of L] by (auto simp: IsNewVersion_def split: option.splits) (metis add_cancel_left_left less_add_same_cancel1 less_asym)

lemma sorted_descending:
  assumes "semver_laws L" "sortRecommendedVersionsDescending L versions = Inr vs"
  shows "sorted_wrt (\<lambda>a b. \<not> IsNewVersion L b a) vs" "set vs = {v. v \<noteq> '''' \<and> v \<in> trim_space ` set versions}"
proof -
  obtain ws where ws: "SortVersions L (trim_versions_loop versions []) = (None, ws)" "vs = rev ws"
    using assms(2) by (auto simp: sortRecommendedVersionsDescending_def split: prod.splits option.splits)
  show "sorted_wrt (\<lambda>a b. \<not> IsNewVersion L b a) vs"
    using SortVersions_sorted_aux [OF assms(1) ws(1)] by (simp add: ws(2) sorted_wrt_rev)
  show "set vs = {v. v \<noteq> '''' \<and> v \<in> trim_space ` set versions}"
    using SortVersions_set [OF assms(1), of "trim_versions_loop versions []"] ws trim_versions_set [of versions "[]"] by simp
qed

lemma find_minor:
  "findRecommendedMinorVersion L vs cur (IsPreRelease L cur) =
     (case List.find (\<lambda>v. admissible L cur v \<and> IsSameMajor L v cur) vs of
        None \<Rightarrow> '''' | Some v \<Rightarrow> if IsSameMinor L v cur \<or> \<not> IsNewVersion L v cur then '''' else v)"
  by (induction vs) (auto simp: admissible_def)

lemma find_patch:
  "findRecommendedPatchVersion L vs cur (IsPreRelease L cur) =
     (case List.find (\<lambda>v. admissible L cur v \<and> IsSameMinor L v cur) vs of
        None \<Rightarrow> '''' | Some v \<Rightarrow> if \<not> IsNewVersion L v cur then '''' else v)"
  by (induction vs) (auto simp: admissible_def)

lemma new_trans:
  assumes "semver_laws L" "IsNewVersion L u c" "\<not> IsNewVersion L u v" "NewVersion L v \<noteq> None"
  shows "IsNewVersion L v c"
proof -
  obtain a b d where "NewVersion L u = Some a" "NewVersion L c = Some b" "NewVersion L v = Some d"
    using assms by (auto simp: IsNewVersion_def split: option.splits)
  with assms semver_trans [OF assms(1), of a d b] show ?thesis by (fastforce simp: IsNewVersion_def)
qed

lemma sorted_exists:
  assumes "\<forall>v. v \<noteq> '''' \<and> v \<in> trim_space ` set versions \<longrightarrow> NewVersion L v \<noteq> None"
  shows "\<exists>vs. sortRecommendedVersionsDescending L versions = Inr vs"
proof -
  have "\<forall>v \<in> set (trim_versions_loop versions []). NewVersion L v \<noteq> None"
    using assms unfolding trim_versions_set by auto
  from SortVersions_total [OF this] show ?thesis by (auto simp: sortRecommendedVersionsDescending_def)
qed

text \<open>The recommendation of newer versions. When a check is due, every version that is printed is
  newer than the running one and the latest recommended version of its major or of its minor version
  (pre-releases count only for a running pre-release); and whenever a newer patch of the running version
  is recommended, something is printed.\<close>

theorem recommendations_exact:
  assumes "semver_laws L" "shouldCheckVersion R w"
    "GetCentralConfigEntry Z c (cc_versions Z) ''cli.core.cli_recommended_versions'' = Inr versions"
    "V = {v. v \<noteq> '''' \<and> v \<in> trim_space ` set versions}" "\<forall>v \<in> V. NewVersion L v \<noteq> None"
    "CheckRecommendedCLIVersion L R Z c w = (w', printed)"
  shows "(\<forall>v \<in> set printed. IsNewVersion L v (rv_Version R) \<and>
      (latest_with L (\<lambda>v. admissible L (rv_Version R) v \<and> IsSameMajor L v (rv_Version R)) V v \<or>
       latest_with L (\<lambda>v. admissible L (rv_Version R) v \<and> IsSameMinor L v (rv_Version R)) V v)) \<and>
    (\<forall>u \<in> V. admissible L (rv_Version R) u \<and> IsSameMinor L u (rv_Version R) \<and> IsNewVersion L u (rv_Version R) \<longrightarrow> printed \<noteq> [])"
proof -
  let ?cur = "rv_Version R"
  obtain vs where vs: "sortRecommendedVersionsDescending L versions = Inr vs"
    using sorted_exists [of versions L] assms(4,5) by auto
  note sorted = sorted_descending [OF assms(1) vs, folded assms(4)]
  have latest: "latest_with L P V v" if "List.find P vs = Some v" for P v
    using find_latest [OF sorted(1) that new_irrefl [OF assms(1)]] sorted(2) by simp
  let ?minor = "findRecommendedMinorVersion L vs ?cur (IsPreRelease L ?cur)"
  let ?patch = "findRecommendedPatchVersion L vs ?cur (IsPreRelease L ?cur)"
  have run: "(w', printed) = printVersionRecommendations L R ?cur ?minor ?patch w"
    using assms(2,3,6) vs by (simp add: CheckRecommendedCLIVersion_def Let_def)
  then have printed: "printed = filter (\<lambda>v. v \<noteq> '''' \<and> IsNewVersion L v ?cur) [?minor, ?patch]"
    by (auto simp: printVersionRecommendations_def split: if_splits)
  have minor: "latest_with L (\<lambda>v. admissible L ?cur v \<and> IsSameMajor L v ?cur) V ?minor" if "?minor \<noteq> ''''"
    using that latest unfolding find_minor by (auto split: option.splits if_splits)
  have patch: "latest_with L (\<lambda>v. admissible L ?cur v \<and> IsSameMinor L v ?cur) V ?patch" if "?patch \<noteq> ''''"
    using that latest unfolding find_patch by (auto split: option.splits if_splits)
  have "?patch \<in> set printed" if u: "u \<in> V" "admissible L ?cur u" "IsSameMinor L u ?cur" "IsNewVersion L u ?cur" for u
  proof -
    have "List.find (\<lambda>v. admissible L ?cur v \<and> IsSameMinor L v ?cur) vs \<noteq> None"
      using u sorted(2) by (auto simp: find_None_iff)
    then obtain p where p: "List.find (\<lambda>v. admissible L ?cur v \<and> IsSameMinor L v ?cur) vs = Some p" by auto
    from latest [OF this] u have "p \<in> V" "\<not> IsNewVersion L u p" by (auto simp: latest_with_def)
    then have "IsNewVersion L p ?cur" "p \<noteq> ''''" using new_trans [OF assms(1) u(4)] assms(4,5) by auto
    moreover from this p have "?patch = p" unfolding find_patch by simp
    ultimately show ?thesis unfolding printed set_filter by simp
  qed
  moreover have "IsNewVersion L v ?cur \<and> (v = ?minor \<or> v = ?patch) \<and> v \<noteq> ''''" if "v \<in> set printed" for v
    using that unfolding printed set_filter by auto
  ultimately show ?thesis using minor patch by fastforce
qed

text \<open>The message is printed at most once per period. After it was printed and its time stored, no check made
  within the configured delay, computed on 64 bits, prints anything.\<close>

theorem recommendation_once_per_period:
  assumes "ds_ok (rv_store R) w" "\<forall>t. rv_decodeTime R (rv_encodeTime R t) = Inr t"
    "CheckRecommendedCLIVersion L R Z c w = (w', printed)" "printed \<noteq> []"
    "R' = R\<lparr>rv_now := later\<rparr>" "time_Since later (rv_now R) \<le> seconds (getRecommendationDelayInSeconds (rv_environ R))"
  shows "CheckRecommendedCLIVersion L R' Z' c' w' = (w', [])"
proof -
  obtain w1 e where st: "SetDataStoreValue (rv_store R) ''lastVersionCheck'' (rv_encodeTime R (rv_now R)) w = (w1, e)" by force
  from set_value [OF assms(1) st] assms(2)
  have get: "GetDataStoreValue (rv_store R) (rv_decodeTime R) ''lastVersionCheck'' w1 = Inr (Some (rv_now R))"
    by (intro get_found [where v = "rv_encodeTime R (rv_now R)"]) simp_all
  have "w' = w1"
    using assms(3,4) st
    by (auto simp: CheckRecommendedCLIVersion_def printVersionRecommendations_def Let_def split: if_splits sum.splits)
  with get assms(5,6) have "\<not> shouldCheckVersion R' w'" by (simp add: shouldCheckVersion_def Let_def)
  then show ?thesis by (simp add: CheckRecommendedCLIVersion_def)
qed

section \<open>Witnesses\<close>

definition demo_cc :: "string list cc_yaml" where
  "demo_cc = \<lparr>cc_Unmarshal = (\<lambda>b. Inr (Some [(''cli.core.cli_recommended_versions'', [''v1.5.0'', '' v1.4.2 '', ''v1.4.1''])])),
     cc_string = (\<lambda>_. Inl ds_NotExist), cc_strings = Inr, cc_string_map = (\<lambda>_. Inl ds_NotExist), cc_service_maps = (\<lambda>_. Inl ds_NotExist), cc_versions = Inr\<rparr>"

definition demo_reader :: cc_reader where
  "demo_reader = \<lparr>cc_file = Some ''x'', cc_ReadFile = None\<rparr>"

text \<open>A store of times.\<close>

definition time_store :: "((string \<times> int) list option, int) ds_yaml" where
  "time_store = \<lparr>ds_EmptyFile = None, ds_Marshal = (\<lambda>m. Inr (Some m)),
     ds_Unmarshal = (\<lambda>b. if map_ok (case b of None \<Rightarrow> [] | Some m \<Rightarrow> m) then Inr b else Inl ds_NotExist)\<rparr>"

definition no_times :: "(string \<times> int) list option ds_fs" where
  "no_times = \<lparr>ds_file = None, ds_handles = 0, ds_lockFile = False, ds_fault = (\<lambda>_. None)\<rparr>"

lemma no_times_ok: "ds_ok time_store no_times"
  by (auto simp: ds_ok_def ds_laws_def time_store_def no_times_def split: if_splits)

definition demo_rv :: "int \<Rightarrow> ((string \<times> int) list option, int) rv_env" where
  "demo_rv t = \<lparr>rv_store = time_store, rv_decodeTime = Inr, rv_encodeTime = id, rv_environ = (\<lambda>_. None), rv_now = t,
     rv_Version = ''v1.4.0''\<rparr>"

lemma demo_check: "shouldCheckVersion (demo_rv 0) no_times"
  by code_simp

lemma demo_printed: "snd (CheckRecommendedCLIVersion dotted_lib (demo_rv 0) demo_cc demo_reader no_times) = [''v1.5.0'', ''v1.4.2'']"
  by code_simp

theorem recommendations_exact_witness:
  "latest_with dotted_lib (\<lambda>v. admissible dotted_lib ''v1.4.0'' v \<and> IsSameMajor dotted_lib v ''v1.4.0'') {''v1.5.0'', ''v1.4.2'', ''v1.4.1''} ''v1.5.0'' \<or>
   latest_with dotted_lib (\<lambda>v. admissible dotted_lib ''v1.4.0'' v \<and> IsSameMinor dotted_lib v ''v1.4.0'') {''v1.5.0'', ''v1.4.2'', ''v1.4.1''} ''v1.5.0''"
proof -
  let ?r = "CheckRecommendedCLIVersion dotted_lib (demo_rv 0) demo_cc demo_reader no_times"
  let ?V = "{''v1.5.0'', ''v1.4.2'', ''v1.4.1''}"
  have V: "?V = {v. v \<noteq> '''' \<and> v \<in> trim_space ` set [''v1.5.0'', '' v1.4.2 '', ''v1.4.1'']}"
    by (auto simp: trim_space_def is_space_def)
  have entry: "GetCentralConfigEntry demo_cc demo_reader (cc_versions demo_cc) ''cli.core.cli_recommended_versions'' =
      Inr [''v1.5.0'', '' v1.4.2 '', ''v1.4.1'']" by code_simp
  have "list_all (\<lambda>v. NewVersion dotted_lib v \<noteq> None) [''v1.5.0'', ''v1.4.2'', ''v1.4.1'']" by code_simp
  then have parse: "\<forall>v \<in> ?V. NewVersion dotted_lib v \<noteq> None" by (simp add: list_all_iff)
  have "?r = (fst ?r, [''v1.5.0'', ''v1.4.2''])" using demo_printed by (metis prod.collapse)
  from recommendations_exact [OF dotted_semver_laws demo_check entry V parse this] show ?thesis
    by (simp add: demo_rv_def)
qed

theorem recommendation_once_per_period_witness:
  "\<exists>w'. CheckRecommendedCLIVersion dotted_lib (demo_rv 0) demo_cc demo_reader no_times = (w', [''v1.5.0'', ''v1.4.2'']) \<and>
     CheckRecommendedCLIVersion dotted_lib (demo_rv 5) demo_cc demo_reader w' = (w', [])"
proof -
  obtain w' where r: "CheckRecommendedCLIVersion dotted_lib (demo_rv 0) demo_cc demo_reader no_times = (w', [''v1.5.0'', ''v1.4.2''])"
    using demo_printed by (metis prod.collapse)
  have ok: "ds_ok (rv_store (demo_rv 0)) no_times" using no_times_ok by (simp add: demo_rv_def)
  have "CheckRecommendedCLIVersion dotted_lib (demo_rv 5) demo_cc demo_reader w' = (w', [])"
    by (rule recommendation_once_per_period [OF ok _ r, where later = 5])
      (simp_all add: demo_rv_def getRecommendationDelayInSeconds_def getenv_def time_Since_def seconds_def wrap64_def)
  with r show ?thesis by blast
qed

end
