(* ===== verification/Airgapped_Bundle.thy ===== *)
theory Airgapped_Bundle
  imports Manager_Local Inventory_Roundtrip
begin

text \<open>
  Plugin bundles for air-gapped repositories, \<^verbatim>\<open>pkg/airgapped/\<close>: selecting plugins and groups from an
  inventory, downloading their images into a bundle with a migration manifest and a metadata database, and
  uploading a bundle to another repository. \<open>JoinURL\<close> of \<^verbatim>\<open>pkg/utils/url.go\<close> is here too.

  Images are values of type \<open>'i\<close>; the operations of the image processor, the archive and the directories are
  fields of \<open>bundle_env\<close>. A bundle is the archive: the tar files of the images by name, the bytes of the
  manifest file (if there is one) and the metadata database. \<open>None\<close> is a panic.
\<close>

section \<open>Data\<close>

record image_copy_info =
  SourceTarFilePath :: string
  RelativeImagePath :: string

record image_publish_info =
  SourceFilePath :: string
  RelativeImagePathWithTag :: string

record migration_manifest =
  RelativeInventoryImagePathWithTag :: string
  InventoryMetadataImage :: "image_publish_info option"
  ImagesToCopy :: "image_copy_info list"

record 'i plugin_bundle =
  bu_tars :: "(string \<times> 'i) list"
  bu_manifest :: "string option"
  bu_metadata :: meta_store

record 'i bundle_env =
  bx_oci :: oci_env
  bx_CopyImageToTar :: "string \<Rightarrow> 'i res"
  bx_MkdirTemp :: "nat \<Rightarrow> err option"
  bx_Stat :: "string \<Rightarrow> err option"
  bx_WriteFile :: "string \<Rightarrow> err option"
  bx_MarshalManifest :: "migration_manifest \<Rightarrow> string res"
  bx_UnmarshalManifest :: "string \<Rightarrow> migration_manifest res"
  bx_Tarinate :: "string \<Rightarrow> err option"
  bx_UnTarinate :: "string \<Rightarrow> 'i plugin_bundle res"
  bx_JoinPath :: "string \<Rightarrow> string \<Rightarrow> string res"
  bx_CopyImageFromTar :: "string \<Rightarrow> string \<Rightarrow> err option"
  bx_PushImage :: "string \<Rightarrow> err option"
  bx_meta :: meta_store

section \<open>Helpers\<close>

definition quoted :: "string \<Rightarrow> string" where
  "quoted s = [CHR 0x27] @ s @ [CHR 0x27]"

text \<open>The string up to the last occurrence of a character, or \<open>None\<close> without one.\<close>

definition before_last :: "char \<Rightarrow> string \<Rightarrow> string option" where
  "before_last c s = (if c \<in> set s then Some (rev (drop 1 (dropWhile (\<lambda>x. x \<noteq> c) (rev s)))) else None)"

definition GetImageRelativePath :: "string \<Rightarrow> string \<Rightarrow> bool \<Rightarrow> string" where
  "GetImageRelativePath img basePath withTag =
     (let relativePath = trim_prefix img basePath
      in if withTag then relativePath
         else case before_last CHR ''@'' relativePath of
             Some p \<Rightarrow> p
           | None \<Rightarrow> (case before_last CHR '':'' relativePath of Some p \<Rightarrow> p | None \<Rightarrow> relativePath))"

text \<open>\<open>bx_JoinPath\<close> is \<^verbatim>\<open>url.Parse\<close> followed by \<^verbatim>\<open>JoinPath\<close> and \<^verbatim>\<open>String\<close>.\<close>

definition JoinURL :: "'i bundle_env \<Rightarrow> string \<Rightarrow> string \<Rightarrow> string res" where
  "JoinURL B baseURL relativeURL =
     (if baseURL = '''' then Inl (Errorf ''base url is empty'' [])
      else
        let schemaNotPresent = (\<not> has_prefix baseURL ''http://'' \<and> \<not> has_prefix baseURL ''https://'')
        in case bx_JoinPath B (if schemaNotPresent then ''https://'' @ baseURL else baseURL) relativeURL of
             Inl e \<Rightarrow> Inl e
           | Inr joined \<Rightarrow> Inr (if schemaNotPresent then trim_prefix joined ''https://'' else joined))"

section \<open>Selecting plugins and groups\<close>

definition migration_filter :: "string \<Rightarrow> string \<Rightarrow> string \<Rightarrow> plugin_filter" where
  "migration_filter name target version =
     empty_filter\<lparr>f_Name := name, f_Target := target, f_Version := version, f_IncludeHidden := True\<rparr>"

definition getPluginFromPluginID :: "'v lib \<Rightarrow> string \<Rightarrow> inv_store \<Rightarrow> inventory_entry list res option" where
  "getPluginFromPluginID L pluginID pi =
     (case ParsePluginID pluginID of
        (pluginName, pluginTarget, version) \<Rightarrow>
          let pluginVersion = (if version = '''' then VersionLatest else version)
          in case snd (GetPlugins L pi (Some (migration_filter pluginName (StringToTarget L pluginTarget) pluginVersion))) of
               None \<Rightarrow> None
             | Some (pluginEntries, Some e) \<Rightarrow> Some (Inl (Wrapf e ''unable to read plugins from database'' []))
             | Some (pluginEntries, None) \<Rightarrow>
                 Some (if length pluginEntries = 0 then Inl (Errorf ''no plugins found for pluginID %q'' [pluginID])
                       else if length pluginEntries > 1
                       then Inl (Errorf (''more than one plugins found for pluginID '' @ quoted ''%s'' @
                               ''. Please specify the uniquely identifiable pluginID in the form of '' @ quoted ''name@target'') [pluginID])
                       else Inr pluginEntries))"

text \<open>Only the artifacts of the recommended version are kept.\<close>

definition keep_recommended :: "inventory_entry \<Rightarrow> inventory_entry" where
  "keep_recommended e = e\<lparr>ie_Artifacts := filter (\<lambda>(v, _). v = ie_RecommendedVersion e) (ie_Artifacts e)\<rparr>"

fun group_plugins_loop ::
    "'v lib \<Rightarrow> inv_store \<Rightarrow> plugin_group \<Rightarrow> group_plugin_entry list \<Rightarrow> inventory_entry list \<Rightarrow> inventory_entry list res option" where
  "group_plugins_loop L pi pg [] allPluginEntries = Some (Inr allPluginEntries)"
| "group_plugins_loop L pi pg (p # ps) allPluginEntries =
     (case snd (GetPlugins L pi (Some (migration_filter (id_Name p) (id_Target p) (id_Version p)))) of
        None \<Rightarrow> None
      | Some (pluginEntries, Some e) \<Rightarrow> Some (Inl (Wrapf e ''unable to get plugins in plugin group %v'' [PluginGroupToID pg]))
      | Some (pluginEntries, None) \<Rightarrow>
          group_plugins_loop L pi pg ps (allPluginEntries @ map keep_recommended pluginEntries))"

fun groups_plugins_loop ::
    "'v lib \<Rightarrow> inv_store \<Rightarrow> plugin_group list \<Rightarrow> inventory_entry list \<Rightarrow> inventory_entry list res option" where
  "groups_plugins_loop L pi [] allPluginEntries = Some (Inr allPluginEntries)"
| "groups_plugins_loop L pi (pg # pgs) allPluginEntries =
     (case group_plugins_loop L pi pg (concat (map (get_or [] (g_Versions pg)) (range_keys L (g_Versions pg)))) allPluginEntries of
        None \<Rightarrow> None
      | Some (Inl e) \<Rightarrow> Some (Inl e)
      | Some (Inr entries) \<Rightarrow> groups_plugins_loop L pi pgs entries)"

definition getAllPluginGroupsAndPluginEntriesFromPluginGroupVersion ::
    "'v lib \<Rightarrow> string \<Rightarrow> inv_store \<Rightarrow> (plugin_group list \<times> inventory_entry list) res option" where
  "getAllPluginGroupsAndPluginEntriesFromPluginGroupVersion L pgID pi =
     (case PluginGroupIdentifierFromID pgID of
        None \<Rightarrow> Some (Inl (Errorf ''incorrect plugin group %q specified'' [pgID]))
      | Some pgi \<Rightarrow>
          (case GetPluginGroups L pi \<lparr>gf_Vendor = gi_Vendor pgi, gf_Publisher = gi_Publisher pgi, gf_Name = gi_Name pgi,
                   gf_Version = (if gi_Version pgi = '''' then VersionLatest else gi_Version pgi), gf_IncludeHidden = True\<rparr> of
             None \<Rightarrow> None
           | Some (pluginGroups, Some e) \<Rightarrow> Some (Inl (Wrapf e ''unable to get plugin groups'' []))
           | Some (pluginGroups, None) \<Rightarrow>
               if length pluginGroups = 0 then Some (Inl (Errorf ''incorrect plugin group %q specified'' [pgID]))
               else (case groups_plugins_loop L pi pluginGroups [] of
                       None \<Rightarrow> None
                     | Some (Inl e) \<Rightarrow> Some (Inl e)
                     | Some (Inr entries) \<Rightarrow> Some (Inr (pluginGroups, entries)))))"

type_synonym selection = "inventory_entry list \<times> plugin_group list"

fun select_groups_loop :: "'v lib \<Rightarrow> inv_store \<Rightarrow> string \<Rightarrow> string list \<Rightarrow> selection \<Rightarrow> selection res option" where
  "select_groups_loop L pi essential [] sel = Some (Inr sel)"
| "select_groups_loop L pi essential (groupID # ids) (entries, groups) =
     (case getAllPluginGroupsAndPluginEntriesFromPluginGroupVersion L groupID pi of
        None \<Rightarrow> None
      | Some (Inl e) \<Rightarrow>
          if groupID = essential then select_groups_loop L pi essential ids (entries, groups) else Some (Inl e)
      | Some (Inr (gs, es)) \<Rightarrow> select_groups_loop L pi essential ids (entries @ es, groups @ gs))"

fun select_plugins_loop :: "'v lib \<Rightarrow> inv_store \<Rightarrow> string list \<Rightarrow> selection \<Rightarrow> selection res option" where
  "select_plugins_loop L pi [] sel = Some (Inr sel)"
| "select_plugins_loop L pi (pluginID # ids) (entries, groups) =
     (case getPluginFromPluginID L pluginID pi of
        None \<Rightarrow> None
      | Some (Inl e) \<Rightarrow> Some (Inl e)
      | Some (Inr es) \<Rightarrow> select_plugins_loop L pi ids (entries @ es, groups))"

record download_options =
  dl_PluginInventoryImage :: string
  dl_ToTar :: string
  dl_Groups :: "string list"
  dl_Plugins :: "string list"
  dl_RefreshConfigOnly :: bool
  dl_DryRun :: bool

definition essential_group :: "environ \<Rightarrow> string" where
  "essential_group env =
     (case GetEssentialsPluginGroupDetails env of (name, version) \<Rightarrow> if version \<noteq> '''' then name @ '':'' @ version else name)"

definition select_from_inventory :: "'v lib \<Rightarrow> environ \<Rightarrow> download_options \<Rightarrow> inv_store \<Rightarrow> selection res option" where
  "select_from_inventory L env opts pi =
     (if length (dl_Groups opts) = 0 \<and> length (dl_Plugins opts) = 0
      then if dl_RefreshConfigOnly opts then Some (Inr ([], []))
           else (case GetPluginGroups L pi \<lparr>gf_Vendor = '''', gf_Publisher = '''', gf_Name = '''', gf_Version = '''', gf_IncludeHidden = True\<rparr> of
                   None \<Rightarrow> None
                 | Some (gs, Some e) \<Rightarrow> Some (Inl (Wrapf e ''unable to read all plugin groups from database'' []))
                 | Some (gs, None) \<Rightarrow>
                     (case snd (GetPlugins L pi (Some (empty_filter\<lparr>f_IncludeHidden := True\<rparr>))) of
                        None \<Rightarrow> None
                      | Some (es, Some e) \<Rightarrow> Some (Inl (Wrapf e ''unable to read all plugins from database'' []))
                      | Some (es, None) \<Rightarrow> Some (Inr (es, gs))))
      else (case select_groups_loop L pi (essential_group env) (dl_Groups opts @ [essential_group env]) ([], []) of
              None \<Rightarrow> None
            | Some (Inl e) \<Rightarrow> Some (Inl e)
            | Some (Inr sel) \<Rightarrow> select_plugins_loop L pi (dl_Plugins opts) sel))"

definition getSelectedPluginInfo :: "'v lib \<Rightarrow> 'i bundle_env \<Rightarrow> download_options \<Rightarrow> selection res option" where
  "getSelectedPluginInfo L B opts =
     (case bx_MkdirTemp B 3 of
        Some e \<Rightarrow> Some (Inl (Wrapf e ''unable to create temp directory'' []))
      | None \<Rightarrow>
          (case oe_DownloadImage (bx_oci B) (dl_PluginInventoryImage opts) of
             Inl e \<Rightarrow> Some (Inl (Wrapf e (''failed to download plugin inventory image '' @ quoted ''%s'') [dl_PluginInventoryImage opts]))
           | Inr files \<Rightarrow>
               (case select_from_inventory L (oe_env (bx_oci B)) opts
                  ((case img_db files of None \<Rightarrow> absent_inventory | Some s \<Rightarrow> s)\<lparr>is_prefix := filepath_Dir (dl_PluginInventoryImage opts)\<rparr>) of
                  None \<Rightarrow> None
                | Some (Inl e) \<Rightarrow> Some (Inl e)
                | Some (Inr (es, gs)) \<Rightarrow>
                    Some (Inr (RemoveDuplicatePluginInventoryEntries es, RemoveDuplicatePluginGroups gs)))))"

section \<open>Downloading a bundle\<close>

abbreviation pluginInventoryFileNameTar :: string where
  "pluginInventoryFileNameTar \<equiv> ''plugin-inventory-image.tar.gz''"

definition tarfileName :: "inventory_entry \<Rightarrow> string \<Rightarrow> artifact \<Rightarrow> string" where
  "tarfileName pe version a =
     ie_Name pe @ ''-'' @ ie_Target pe @ ''-'' @ a_OS a @ ''_'' @ a_Arch a @ ''-'' @ version @ ''.tar.gz''"

text \<open>What the nested loops over the entries, their versions and the artifacts visit, in order.\<close>

definition bundle_artifacts :: "'v lib \<Rightarrow> inventory_entry list \<Rightarrow> (inventory_entry \<times> string \<times> artifact) list" where
  "bundle_artifacts L pluginEntries =
     concat (map (\<lambda>pe. concat (map (\<lambda>version. map (\<lambda>a. (pe, version, a)) (get_or [] (ie_Artifacts pe) version))
       (range_keys L (ie_Artifacts pe)))) pluginEntries)"

definition copy_info :: "string \<Rightarrow> inventory_entry \<times> string \<times> artifact \<Rightarrow> image_copy_info" where
  "copy_info inventoryImage = (\<lambda>(pe, version, a).
     \<lparr>SourceTarFilePath = tarfileName pe version a,
      RelativeImagePath = GetImageRelativePath (a_Image a) (filepath_Dir inventoryImage) False\<rparr>)"

text \<open>Each image is saved under its tar file name; a later file of the same name replaces an earlier one.\<close>

fun save_images_loop ::
    "'i bundle_env \<Rightarrow> string \<Rightarrow> (inventory_entry \<times> string \<times> artifact) list \<Rightarrow> (string \<times> 'i) list \<Rightarrow> image_copy_info list \<Rightarrow>
     ((string \<times> 'i) list \<times> image_copy_info list) res" where
  "save_images_loop B inventoryImage [] files allImages = Inr (files, allImages)"
| "save_images_loop B inventoryImage ((pe, version, a) # xs) files allImages =
     (case bx_CopyImageToTar B (a_Image a) of
        Inl e \<Rightarrow> Inl e
      | Inr tar \<Rightarrow> save_images_loop B inventoryImage xs (AList.update (tarfileName pe version a) tar files)
                     (allImages @ [copy_info inventoryImage (pe, version, a)]))"

definition downloadImagesAsTarFile ::
    "'v lib \<Rightarrow> 'i bundle_env \<Rightarrow> download_options \<Rightarrow> inventory_entry list \<Rightarrow>
     (string \<times> (string \<times> 'i) list \<times> image_copy_info list) res" where
  "downloadImagesAsTarFile L B opts pluginEntries =
     (let img = dl_PluginInventoryImage opts
      in case bx_CopyImageToTar B img of
           Inl e \<Rightarrow> Inl e
         | Inr tar \<Rightarrow>
             (case save_images_loop B img (bundle_artifacts L pluginEntries) [(pluginInventoryFileNameTar, tar)]
                [\<lparr>SourceTarFilePath = pluginInventoryFileNameTar, RelativeImagePath = GetImageRelativePath img (filepath_Dir img) False\<rparr>] of
                Inl e \<Rightarrow> Inl e
              | Inr (files, allImages) \<Rightarrow> Inr (GetImageRelativePath img (filepath_Dir img) True, files, allImages)))"

definition saveAndGetImagesToCopy where
  "saveAndGetImagesToCopy L B opts pluginEntries = downloadImagesAsTarFile L B opts pluginEntries"

definition getListOfImages :: "'v lib \<Rightarrow> download_options \<Rightarrow> inventory_entry list \<Rightarrow> string list" where
  "getListOfImages L opts pluginEntries =
     dl_PluginInventoryImage opts # map (\<lambda>(pe, version, a). a_Image a) (bundle_artifacts L pluginEntries)"

fun insert_plugin_ids :: "plugin_identifier list \<Rightarrow> meta_store \<Rightarrow> meta_store \<times> err option" where
  "insert_plugin_ids [] m = (m, None)"
| "insert_plugin_ids (i # is) m =
     (case InsertPluginIdentifier i m of (m1, Some e) \<Rightarrow> (m1, Some e) | (m1, None) \<Rightarrow> insert_plugin_ids is m1)"

fun insert_group_ids :: "group_identifier list \<Rightarrow> meta_store \<Rightarrow> meta_store \<times> err option" where
  "insert_group_ids [] m = (m, None)"
| "insert_group_ids (i # is) m =
     (case InsertPluginGroupIdentifier i m of (m1, Some e) \<Rightarrow> (m1, Some e) | (m1, None) \<Rightarrow> insert_group_ids is m1)"

definition plugin_ids :: "'v lib \<Rightarrow> inventory_entry list \<Rightarrow> plugin_identifier list" where
  "plugin_ids L pes =
     concat (map (\<lambda>pe. map (\<lambda>v. \<lparr>id_Name = ie_Name pe, id_Target = ie_Target pe, id_Version = v\<rparr>)
       (range_keys L (ie_Artifacts pe))) pes)"

definition group_ids :: "'v lib \<Rightarrow> plugin_group list \<Rightarrow> group_identifier list" where
  "group_ids L pgs =
     concat (map (\<lambda>pg. map (\<lambda>v. \<lparr>gi_Vendor = g_Vendor pg, gi_Publisher = g_Publisher pg, gi_Name = g_Name pg, gi_Version = v\<rparr>)
       (range_keys L (g_Versions pg))) pgs)"

definition savePluginInventoryMetadata ::
    "'v lib \<Rightarrow> 'i bundle_env \<Rightarrow> download_options \<Rightarrow> plugin_group list \<Rightarrow> inventory_entry list \<Rightarrow> (meta_store \<times> image_publish_info) res" where
  "savePluginInventoryMetadata L B opts pgs pes =
     (case CreateInventoryMetadataDBSchema (bx_meta B) of
        (m0, Some e) \<Rightarrow> Inl e
      | (m0, None) \<Rightarrow>
          (case insert_plugin_ids (plugin_ids L pes) m0 of
             (m1, Some e) \<Rightarrow> Inl e
           | (m1, None) \<Rightarrow>
               (case insert_group_ids (group_ids L pgs) m1 of
                  (m2, Some e) \<Rightarrow> Inl e
                | (m2, None) \<Rightarrow>
                    (case GetPluginInventoryMetadataImage (bx_oci B) (dl_PluginInventoryImage opts) of
                       Inl e \<Rightarrow> Inl e
                     | Inr img \<Rightarrow>
                         Inr (m2, \<lparr>SourceFilePath = ''plugin_inventory_metadata.db'',
                           RelativeImagePathWithTag = GetImageRelativePath img (filepath_Dir (dl_PluginInventoryImage opts)) True\<rparr>)))))"

definition savePluginMigrationManifestFile ::
    "'i bundle_env \<Rightarrow> string \<Rightarrow> image_copy_info list \<Rightarrow> image_publish_info \<Rightarrow> string res" where
  "savePluginMigrationManifestFile B relativePath imagesToCopy info =
     (case bx_MarshalManifest B \<lparr>RelativeInventoryImagePathWithTag = relativePath, InventoryMetadataImage = Some info,
              ImagesToCopy = imagesToCopy\<rparr> of
        Inl e \<Rightarrow> Inl e
      | Inr bytes \<Rightarrow> (case bx_WriteFile B ''plugin_migration_manifest.yaml'' of Some e \<Rightarrow> Inl e | None \<Rightarrow> Inr bytes))"

definition verifyTarFile :: "'i bundle_env \<Rightarrow> string \<Rightarrow> err option" where
  "verifyTarFile B toTar =
     (case bx_Stat B (filepath_Dir toTar) of
        Some e \<Rightarrow> Some (Wrapf e ''invalid path for %q'' [filepath_Dir toTar])
      | None \<Rightarrow>
          if bx_Stat B toTar = None then Some (Errorf (''the file '' @ quoted ''%s'' @ '' already exists'') [toTar])
          else (case bx_WriteFile B toTar of None \<Rightarrow> None | Some e \<Rightarrow> Some (Wrapf e ''invalid path for %q'' [toTar])))"

definition validateOptions :: "'i bundle_env \<Rightarrow> download_options \<Rightarrow> err option" where
  "validateOptions B opts =
     (case (if dl_DryRun opts then None else verifyTarFile B (dl_ToTar opts)) of
        Some e \<Rightarrow> Some e
      | None \<Rightarrow> oe_VerifyInventoryImageSignature (bx_oci B) (dl_PluginInventoryImage opts))"

text \<open>What a successful call leaves: the list of images of a dry run, or the archive.\<close>

datatype 'i download_result = ImageList "string list" | SavedBundle "'i plugin_bundle"

definition save_bundle ::
    "'v lib \<Rightarrow> 'i bundle_env \<Rightarrow> download_options \<Rightarrow> selection \<Rightarrow> 'i plugin_bundle res" where
  "save_bundle L B opts = (\<lambda>(entries, groups).
     case saveAndGetImagesToCopy L B opts entries of
       Inl e \<Rightarrow> Inl (Wrapf e ''error while downloading and saving plugin images'' [])
     | Inr (relativePath, tars, imagesToCopy) \<Rightarrow>
         (case savePluginInventoryMetadata L B opts groups entries of
            Inl e \<Rightarrow> Inl (Wrapf e ''error while saving plugin inventory metadata'' [])
          | Inr (meta, info) \<Rightarrow>
              (case savePluginMigrationManifestFile B relativePath imagesToCopy info of
                 Inl e \<Rightarrow> Inl (Wrapf e ''error while saving plugin migration manifest'' [])
               | Inr bytes \<Rightarrow>
                   (case bx_Tarinate B (dl_ToTar opts) of
                      Some e \<Rightarrow> Inl (Wrapf e ''error while creating archive file'' [])
                    | None \<Rightarrow> Inr \<lparr>bu_tars = tars, bu_manifest = Some bytes, bu_metadata = meta\<rparr>))))"

definition DownloadPluginBundle :: "'v lib \<Rightarrow> 'i bundle_env \<Rightarrow> download_options \<Rightarrow> 'i download_result res option" where
  "DownloadPluginBundle L B opts =
     (case validateOptions B opts of
        Some e \<Rightarrow> Some (Inl e)
      | None \<Rightarrow>
          (case (case bx_MkdirTemp B 1 of Some e \<Rightarrow> Some e | None \<Rightarrow> bx_MkdirTemp B 2) of
             Some e \<Rightarrow> Some (Inl (Wrapf e ''unable to create temp directory'' []))
           | None \<Rightarrow>
               (case getSelectedPluginInfo L B opts of
                  None \<Rightarrow> None
                | Some (Inl e) \<Rightarrow> Some (Inl (Wrapf e ''error while getting selected plugin and plugin group information'' []))
                | Some (Inr sel) \<Rightarrow>
                    Some (if dl_DryRun opts then Inr (ImageList (getListOfImages L opts (fst sel)))
                          else case save_bundle L B opts sel of Inl e \<Rightarrow> Inl e | Inr b \<Rightarrow> Inr (SavedBundle b)))))"

section \<open>Uploading a bundle\<close>

text \<open>What the upload published: images at repository paths, and the metadata database at an image.\<close>

record 'i published =
  pb_images :: "(string \<times> 'i) list"
  pb_metadata :: "(string \<times> meta_store) list"

fun upload_images_loop ::
    "'i bundle_env \<Rightarrow> string \<Rightarrow> (string \<times> 'i) list \<Rightarrow> image_copy_info list \<Rightarrow> 'i published \<Rightarrow> 'i published \<times> err option" where
  "upload_images_loop B repo tars [] p = (p, None)"
| "upload_images_loop B repo tars (ic # ics) p =
     (case JoinURL B repo (RelativeImagePath ic) of
        Inl e \<Rightarrow> (p, Some (Wrapf e ''error while constructing the repo image path'' []))
      | Inr repoImagePath \<Rightarrow>
          (case (map_of tars (SourceTarFilePath ic), bx_CopyImageFromTar B (SourceTarFilePath ic) repoImagePath) of
             (None, _) \<Rightarrow> (p, Some (Wrapf ErrNotExist ''error while uploading image'' []))
           | (Some tar, Some e) \<Rightarrow> (p, Some (Wrapf e ''error while uploading image'' []))
           | (Some tar, None) \<Rightarrow>
               upload_images_loop B repo tars ics (p\<lparr>pb_images := pb_images p @ [(repoImagePath, tar)]\<rparr>)))"

definition mergePluginInventoryMetadata :: "'i bundle_env \<Rightarrow> string \<Rightarrow> meta_store \<Rightarrow> meta_store res" where
  "mergePluginInventoryMetadata B metadataImage bundled =
     (case oe_DownloadImage (bx_oci B) metadataImage of
        Inl _ \<Rightarrow> Inr bundled
      | Inr files \<Rightarrow>
          (case MergeInventoryMetadataDatabase (case img_meta files of None \<Rightarrow> absent_metadata | Some m \<Rightarrow> m) bundled of
             (m, Some e) \<Rightarrow> Inl e | (m, None) \<Rightarrow> Inr m))"

text \<open>The end of the upload: the merged metadata database is published.\<close>

definition publish_metadata ::
    "'i bundle_env \<Rightarrow> string \<Rightarrow> meta_store \<Rightarrow> migration_manifest \<Rightarrow> image_publish_info \<Rightarrow> 'i published \<Rightarrow> 'i published \<times> err option" where
  "publish_metadata B repo bundled manifest info p1 =
     (case JoinURL B repo (RelativeImagePathWithTag info) of
        Inl e \<Rightarrow> (p1, Some (Wrapf e ''error while constructing the plugin inventory metadata image with tag'' []))
      | Inr metadataImage \<Rightarrow>
          (case mergePluginInventoryMetadata B metadataImage bundled of
             Inl e \<Rightarrow> (p1, Some (Wrapf e ''error while merging the plugin inventory metadata database before uploading metadata image'' []))
           | Inr m \<Rightarrow>
               (case bx_PushImage B metadataImage of
                  Some e \<Rightarrow> (p1, Some (Wrapf e ''error while uploading image'' []))
                | None \<Rightarrow>
                    let p2 = p1\<lparr>pb_metadata := pb_metadata p1 @ [(metadataImage, m)]\<rparr>
                    in (case JoinURL B repo (RelativeInventoryImagePathWithTag manifest) of
                          Inl e \<Rightarrow> (p2, Some (Wrapf e ''error while constructing the image URL'' []))
                        | Inr joinedURL \<Rightarrow> (p2, None)))))"

definition UploadPluginBundle :: "'i bundle_env \<Rightarrow> string \<Rightarrow> string \<Rightarrow> ('i published \<times> err option) option" where
  "UploadPluginBundle B tarFile repo =
     (let p0 = \<lparr>pb_images = [], pb_metadata = []\<rparr>
      in case bx_MkdirTemp B 1 of
           Some e \<Rightarrow> Some (p0, Some (Wrapf e ''unable to create temp directory'' []))
         | None \<Rightarrow>
             (case bx_UnTarinate B tarFile of
                Inl e \<Rightarrow> Some (p0, Some (Wrapf e ''unable to extract provided file'' []))
              | Inr bun \<Rightarrow>
                  (case bu_manifest bun of
                     None \<Rightarrow> Some (p0, Some (Wrapf ErrNotExist ''error while reading plugin migration manifest'' []))
                   | Some bytes \<Rightarrow>
                       (case bx_UnmarshalManifest B bytes of
                          Inl e \<Rightarrow> Some (p0, Some (Wrapf e ''error while parsing plugin migration manifest'' []))
                        | Inr manifest \<Rightarrow>
                            (case upload_images_loop B repo (bu_tars bun) (ImagesToCopy manifest) p0 of
                               (p1, Some e) \<Rightarrow> Some (p1, Some e)
                             | (p1, None) \<Rightarrow>
                                 map_option (\<lambda>info. publish_metadata B repo (bu_metadata bun) manifest info p1)
                                   (InventoryMetadataImage manifest))))))"

end
