(* ===== verification/Airgapped_Correct.thy ===== *)
theory Airgapped_Correct
  imports Airgapped_Bundle Manager_Install_Correct
begin

text \<open>
  A bundle that was downloaded and uploaded makes exactly the selected plugins available in the other
  repository, besides the ones published there before.
\<close>

section \<open>Downloading\<close>

definition tar_of :: "inventory_entry \<times> string \<times> artifact \<Rightarrow> string" where
  "tar_of = (\<lambda>(pe, version, a). tarfileName pe version a)"

lemma save_images:
  assumes "save_images_loop B img xs files imgs = Inr (files', imgs')" "distinct (map tar_of xs)"
  shows "imgs' = imgs @ map (copy_info img) xs \<and>
    (\<forall>(pe, v, a) \<in> set xs. \<exists>tar. bx_CopyImageToTar B (a_Image a) = Inr tar \<and> map_of files' (tarfileName pe v a) = Some tar) \<and>
    (\<forall>k. k \<notin> tar_of ` set xs \<longrightarrow> map_of files' k = map_of files k)"
  using assms
proof (induction xs arbitrary: files imgs)
  case (Cons x xs)
  obtain pe v a where x: "x = (pe, v, a)" by (cases x)
  from Cons.prems(1) obtain tar where t: "bx_CopyImageToTar B (a_Image a) = Inr tar"
    "save_images_loop B img xs (AList.update (tarfileName pe v a) tar files) (imgs @ [copy_info img x]) = Inr (files', imgs')"
    by (auto simp: x split: sum.splits)
  have n: "tarfileName pe v a \<notin> tar_of ` set xs" "distinct (map tar_of xs)"
    using Cons.prems(2) by (auto simp: x tar_of_def)
  note ih = Cons.IH [OF t(2) n(2)]
  have "map_of files' (tarfileName pe v a) = Some tar" using ih n(1) by simp
  with ih t(1) show ?case by (auto simp: x tar_of_def)
qed simp

section \<open>Metadata\<close>

lemma insert_plugins:
  "insert_plugin_ids is m = (m', None) \<Longrightarrow> distinct (ms_plugins m) \<Longrightarrow>
   ms_plugins m' = ms_plugins m @ is \<and> ms_groups m' = ms_groups m \<and> distinct (ms_plugins m @ is)"
proof (induction "is" arbitrary: m)
  case (Cons i "is")
  then obtain m1 where m1: "InsertPluginIdentifier i m = (m1, None)" "insert_plugin_ids is m1 = (m', None)"
    by (auto split: prod.splits option.splits)
  then have s: "i \<notin> set (ms_plugins m)" "m1 = m\<lparr>ms_plugins := ms_plugins m @ [i]\<rparr>"
    by (auto simp: InsertPluginIdentifier_def split: option.splits if_splits)
  with Cons.prems(2) Cons.IH [OF m1(2)] show ?case by simp
qed simp

lemma insert_groups:
  "insert_group_ids is m = (m', None) \<Longrightarrow> ms_plugins m' = ms_plugins m \<and> ms_groups m' = ms_groups m @ is"
proof (induction "is" arbitrary: m)
  case (Cons i "is")
  then obtain m1 where m1: "InsertPluginGroupIdentifier i m = (m1, None)" "insert_group_ids is m1 = (m', None)"
    by (auto split: prod.splits option.splits)
  then have s: "m1 = m\<lparr>ms_groups := ms_groups m @ [i]\<rparr>"
    by (auto simp: InsertPluginGroupIdentifier_def split: option.splits if_splits)
  with Cons.IH [OF m1(2)] show ?case by simp
qed simp

lemma saved_metadata:
  assumes "savePluginInventoryMetadata L B opts pgs pes = Inr (m, info)" "ms_plugins (bx_meta B) = []" "ms_groups (bx_meta B) = []"
  shows "ms_plugins m = plugin_ids L pes \<and> ms_groups m = group_ids L pgs \<and> distinct (plugin_ids L pes)"
proof -
  from assms(1) obtain m0 m1 where st: "CreateInventoryMetadataDBSchema (bx_meta B) = (m0, None)"
    "insert_plugin_ids (plugin_ids L pes) m0 = (m1, None)" "insert_group_ids (group_ids L pgs) m1 = (m, None)"
    by (auto simp: savePluginInventoryMetadata_def split: prod.splits option.splits sum.splits)
  have "ms_plugins m0 = []" "ms_groups m0 = []"
    using st(1) assms(2,3) by (auto simp: CreateInventoryMetadataDBSchema_def split: option.splits)
  with insert_plugins [OF st(2)] insert_groups [OF st(3)] show ?thesis by auto
qed

section \<open>Uploading\<close>

lemma uploaded:
  assumes "upload_images_loop B repo tars ics p = (p', None)"
  shows "\<forall>ic \<in> set ics. \<exists>url tar. JoinURL B repo (RelativeImagePath ic) = Inr url \<and>
      map_of tars (SourceTarFilePath ic) = Some tar \<and> (url, tar) \<in> set (pb_images p')"
    "set (pb_images p) \<subseteq> set (pb_images p')" "pb_metadata p' = pb_metadata p"
proof -
  have "(\<forall>ic \<in> set ics. \<exists>url tar. JoinURL B repo (RelativeImagePath ic) = Inr url \<and>
      map_of tars (SourceTarFilePath ic) = Some tar \<and> (url, tar) \<in> set (pb_images p')) \<and>
    set (pb_images p) \<subseteq> set (pb_images p') \<and> pb_metadata p' = pb_metadata p"
    using assms
  proof (induction ics arbitrary: p)
    case (Cons ic ics)
    from Cons.prems obtain url tar where st: "JoinURL B repo (RelativeImagePath ic) = Inr url"
      "map_of tars (SourceTarFilePath ic) = Some tar"
      "upload_images_loop B repo tars ics (p\<lparr>pb_images := pb_images p @ [(url, tar)]\<rparr>) = (p', None)"
      by (auto split: sum.splits option.splits prod.splits)
    from Cons.IH [OF st(3)] st(1,2) show ?case by auto
  qed simp
  then show "\<forall>ic \<in> set ics. \<exists>url tar. JoinURL B repo (RelativeImagePath ic) = Inr url \<and>
      map_of tars (SourceTarFilePath ic) = Some tar \<and> (url, tar) \<in> set (pb_images p')"
    "set (pb_images p) \<subseteq> set (pb_images p')" "pb_metadata p' = pb_metadata p" by blast+
qed

text \<open>The metadata published in the repository before.\<close>

definition known_metadata :: "'i bundle_env \<Rightarrow> string \<Rightarrow> meta_store" where
  "known_metadata B img =
     (case oe_DownloadImage (bx_oci B) img of Inl _ \<Rightarrow> absent_metadata
      | Inr files \<Rightarrow> (case img_meta files of None \<Rightarrow> absent_metadata | Some m \<Rightarrow> m))"

lemma merged_metadata:
  "mergePluginInventoryMetadata B img bundled = Inr m \<Longrightarrow>
   set (ms_plugins m) = set (ms_plugins bundled) \<union> set (ms_plugins (known_metadata B img)) \<and>
   set (ms_groups m) = set (ms_groups bundled) \<union> set (ms_groups (known_metadata B img))"
  by (auto simp: mergePluginInventoryMetadata_def known_metadata_def MergeInventoryMetadataDatabase_def absent_metadata_def
      set_insert_or_replace split: sum.splits prod.splits option.splits if_splits)

section \<open>The round trip\<close>

lemma downloaded:
  assumes "DownloadPluginBundle L B opts = Some (Inr (SavedBundle b))"
    "getSelectedPluginInfo L B opts = Some (Inr (entries, groups))"
  obtains relativePath tars imagesToCopy meta info bytes where
    "downloadImagesAsTarFile L B opts entries = Inr (relativePath, tars, imagesToCopy)"
    "savePluginInventoryMetadata L B opts groups entries = Inr (meta, info)"
    "bx_MarshalManifest B \<lparr>RelativeInventoryImagePathWithTag = relativePath, InventoryMetadataImage = Some info, ImagesToCopy = imagesToCopy\<rparr> = Inr bytes"
    "b = \<lparr>bu_tars = tars, bu_manifest = Some bytes, bu_metadata = meta\<rparr>"
proof -
  from assms have sb: "save_bundle L B opts (entries, groups) = Inr b"
    by (auto simp: DownloadPluginBundle_def split: option.splits if_splits sum.splits)
  then obtain relativePath tars imagesToCopy where 1: "downloadImagesAsTarFile L B opts entries = Inr (relativePath, tars, imagesToCopy)"
    by (auto simp: save_bundle_def saveAndGetImagesToCopy_def split: sum.splits)
  from sb 1 obtain meta info where 2: "savePluginInventoryMetadata L B opts groups entries = Inr (meta, info)"
    by (auto simp: save_bundle_def saveAndGetImagesToCopy_def split: sum.splits)
  from sb 1 2 obtain bytes where 3: "savePluginMigrationManifestFile B relativePath imagesToCopy info = Inr bytes"
    "b = \<lparr>bu_tars = tars, bu_manifest = Some bytes, bu_metadata = meta\<rparr>"
    by (auto simp: save_bundle_def saveAndGetImagesToCopy_def split: sum.splits option.splits)
  from 3(1) have "bx_MarshalManifest B \<lparr>RelativeInventoryImagePathWithTag = relativePath, InventoryMetadataImage = Some info, ImagesToCopy = imagesToCopy\<rparr> = Inr bytes"
    by (auto simp: savePluginMigrationManifestFile_def split: sum.splits option.splits)
  with 1 2 3(2) that show ?thesis by blast
qed

lemma downloaded_images:
  assumes "downloadImagesAsTarFile L B opts entries = Inr (relativePath, tars, imgs)" "distinct (map tar_of (bundle_artifacts L entries))"
    "(pe, v, a) \<in> set (bundle_artifacts L entries)"
  shows "\<exists>tar. bx_CopyImageToTar B (a_Image a) = Inr tar \<and> map_of tars (tarfileName pe v a) = Some tar \<and>
    copy_info (dl_PluginInventoryImage opts) (pe, v, a) \<in> set imgs"
proof -
  obtain files0 imgs0 where s: "save_images_loop B (dl_PluginInventoryImage opts) (bundle_artifacts L entries) files0 imgs0 = Inr (tars, imgs)"
    using assms(1) by (auto simp: downloadImagesAsTarFile_def Let_def split: sum.splits)
  from save_images [OF s assms(2)] assms(3) show ?thesis by fastforce
qed

lemma uploaded_bundle:
  assumes "UploadPluginBundle B tarFile repo = Some (p, None)" "bx_UnTarinate B tarFile = Inr b" "bu_manifest b = Some bytes"
    "bx_UnmarshalManifest B bytes = Inr manifest" "InventoryMetadataImage manifest = Some info"
  obtains p1 img m where "upload_images_loop B repo (bu_tars b) (ImagesToCopy manifest) \<lparr>pb_images = [], pb_metadata = []\<rparr> = (p1, None)"
    "JoinURL B repo (RelativeImagePathWithTag info) = Inr img" "mergePluginInventoryMetadata B img (bu_metadata b) = Inr m"
    "p = p1\<lparr>pb_metadata := pb_metadata p1 @ [(img, m)]\<rparr>"
proof -
  obtain p1 where up: "upload_images_loop B repo (bu_tars b) (ImagesToCopy manifest) \<lparr>pb_images = [], pb_metadata = []\<rparr> = (p1, None)"
    "publish_metadata B repo (bu_metadata b) manifest info p1 = (p, None)"
    using assms by (auto simp: UploadPluginBundle_def Let_def split: option.splits prod.splits)
  then show ?thesis
    using that by (auto simp: publish_metadata_def Let_def split: sum.splits option.splits)
qed

text \<open>C9 (roundtrip): an air-gapped migration. When a bundle was downloaded and then uploaded to a repository, every image
  of the selected plugins is published in that repository at the path it has relative to the inventory
  image, with the content it was downloaded with; and the published metadata lists exactly the selected
  plugin and group versions, besides those the repository listed before, so that an inventory restricted
  by it offers exactly these.\<close>

theorem airgapped_migration:
  assumes "DownloadPluginBundle L B opts = Some (Inr (SavedBundle b))"
    "getSelectedPluginInfo L B opts = Some (Inr (entries, groups))" "distinct (map tar_of (bundle_artifacts L entries))"
    "ms_plugins (bx_meta B) = []" "ms_groups (bx_meta B) = []"
    "\<forall>m bytes. bx_MarshalManifest B m = Inr bytes \<longrightarrow> bx_UnmarshalManifest B bytes = Inr m"
    "bx_UnTarinate B tarFile = Inr b" "UploadPluginBundle B tarFile repo = Some (p, None)"
  shows "(\<forall>(pe, v, a) \<in> set (bundle_artifacts L entries). \<exists>url tar.
      JoinURL B repo (GetImageRelativePath (a_Image a) (filepath_Dir (dl_PluginInventoryImage opts)) False) = Inr url \<and>
      bx_CopyImageToTar B (a_Image a) = Inr tar \<and> (url, tar) \<in> set (pb_images p)) \<and>
    (\<exists>img m. pb_metadata p = [(img, m)] \<and>
      set (ms_plugins m) = set (plugin_ids L entries) \<union> set (ms_plugins (known_metadata B img)) \<and>
      set (ms_groups m) = set (group_ids L groups) \<union> set (ms_groups (known_metadata B img)) \<and>
      (\<forall>s s'. UpdatePluginInventoryDatabase m s = (s', None) \<longrightarrow>
         (\<forall>r. r \<in> set (is_plugins s') \<longleftrightarrow> r \<in> set (is_plugins s) \<and>
            \<lparr>id_Name = pr_name r, id_Target = pr_target r, id_Version = pr_version r\<rparr> \<in>
              set (plugin_ids L entries) \<union> set (ms_plugins (known_metadata B img)))))"
proof -
  obtain relativePath tars imgs meta info bytes where d:
    "downloadImagesAsTarFile L B opts entries = Inr (relativePath, tars, imgs)"
    "savePluginInventoryMetadata L B opts groups entries = Inr (meta, info)"
    "bx_MarshalManifest B \<lparr>RelativeInventoryImagePathWithTag = relativePath, InventoryMetadataImage = Some info, ImagesToCopy = imgs\<rparr> = Inr bytes"
    "b = \<lparr>bu_tars = tars, bu_manifest = Some bytes, bu_metadata = meta\<rparr>"
    by (rule downloaded [OF assms(1,2)])
  let ?man = "\<lparr>RelativeInventoryImagePathWithTag = relativePath, InventoryMetadataImage = Some info, ImagesToCopy = imgs\<rparr>"
  have man: "bu_manifest b = Some bytes" "bx_UnmarshalManifest B bytes = Inr ?man" "InventoryMetadataImage ?man = Some info"
    using d(3,4) assms(6) by simp_all
  obtain p1 img m where u: "upload_images_loop B repo (bu_tars b) (ImagesToCopy ?man) \<lparr>pb_images = [], pb_metadata = []\<rparr> = (p1, None)"
    "mergePluginInventoryMetadata B img (bu_metadata b) = Inr m" "p = p1\<lparr>pb_metadata := pb_metadata p1 @ [(img, m)]\<rparr>"
    by (rule uploaded_bundle [OF assms(8,7) man])
  note up = uploaded [OF u(1)]
  have images: "\<exists>url tar. JoinURL B repo (GetImageRelativePath (a_Image a) (filepath_Dir (dl_PluginInventoryImage opts)) False) = Inr url \<and>
      bx_CopyImageToTar B (a_Image a) = Inr tar \<and> (url, tar) \<in> set (pb_images p)"
    if "(pe, v, a) \<in> set (bundle_artifacts L entries)" for pe v a
    using downloaded_images [OF d(1) assms(3) that] up(1) by (fastforce simp: u(3) d(4) copy_info_def)
  have meta: "pb_metadata p = [(img, m)]" using up(3) by (simp add: u(3))
  have ids: "set (ms_plugins m) = set (plugin_ids L entries) \<union> set (ms_plugins (known_metadata B img))"
    "set (ms_groups m) = set (group_ids L groups) \<union> set (ms_groups (known_metadata B img))"
    using merged_metadata [OF u(2)] saved_metadata [OF d(2) assms(4,5)] by (simp_all add: d(4))
  have "r \<in> set (is_plugins s') \<longleftrightarrow> r \<in> set (is_plugins s) \<and>
      \<lparr>id_Name = pr_name r, id_Target = pr_target r, id_Version = pr_version r\<rparr> \<in> set (ms_plugins m)"
    if "UpdatePluginInventoryDatabase m s = (s', None)" for s s' r
    using that by (auto simp: UpdatePluginInventoryDatabase_def split: option.splits)
  with images meta ids show ?thesis by blast
qed

text \<open>A selection that lists a version of a plugin twice cannot be bundled: a plugin given by a shortened
  version keeps the artifacts of every version that matches, and when a selected group lists one of the older
  ones, the metadata database rejects the second identifier and the whole download fails.\<close>

theorem overlapping_selection_fails:
  assumes "getSelectedPluginInfo L B opts = Some (Inr (entries, groups))" "\<not> dl_DryRun opts"
    "\<not> distinct (plugin_ids L entries)" "ms_plugins (bx_meta B) = []" "ms_groups (bx_meta B) = []"
  shows "\<exists>e. DownloadPluginBundle L B opts = Some (Inl e)"
proof -
  have "DownloadPluginBundle L B opts \<noteq> Some (Inr (SavedBundle b))" for b
  proof
    assume "DownloadPluginBundle L B opts = Some (Inr (SavedBundle b))"
    then obtain meta info where "savePluginInventoryMetadata L B opts groups entries = Inr (meta, info)"
      by (rule downloaded [OF _ assms(1)])
    with saved_metadata [OF _ assms(4,5)] assms(3) show False by blast
  qed
  moreover have "(\<exists>e. DownloadPluginBundle L B opts = Some (Inl e)) \<or> (\<exists>b. DownloadPluginBundle L B opts = Some (Inr (SavedBundle b)))"
    using assms(1,2) unfolding DownloadPluginBundle_def
    by (cases "validateOptions B opts"; cases "bx_MkdirTemp B 1"; cases "bx_MkdirTemp B 2"; cases "save_bundle L B opts (entries, groups)")
      simp_all
  ultimately show ?thesis by blast
qed

section \<open>Witnesses\<close>

definition demo_inventory :: inv_store where
  "demo_inventory = demo_store\<lparr>is_plugins := [demo_row ''a'' ''kubernetes'' ''v1.0.0'' ''linux''], is_groups := []\<rparr>"

definition demo_opts :: download_options where
  "demo_opts = \<lparr>dl_PluginInventoryImage = ''r/i:v1'', dl_ToTar = ''d/b.tar'', dl_Groups = [], dl_Plugins = [],
     dl_RefreshConfigOnly = False, dl_DryRun = False\<rparr>"

definition demo_bx :: "migration_manifest \<Rightarrow> string plugin_bundle \<Rightarrow> string bundle_env" where
  "demo_bx man b = \<lparr>bx_oci = demo_oci\<lparr>oe_DownloadImage := (\<lambda>i. if i = ''r/i:v1''
        then Inr \<lparr>img_db = Some demo_inventory, img_meta = None, img_config = None\<rparr> else Inl ErrNotExist)\<rparr>,
     bx_CopyImageToTar = Inr, bx_MkdirTemp = (\<lambda>_. None), bx_Stat = (\<lambda>f. if f = ''d/b.tar'' then Some ErrNotExist else None),
     bx_WriteFile = (\<lambda>_. None), bx_MarshalManifest = (\<lambda>m. if m = man then Inr ''m'' else Inl ErrNotExist),
     bx_UnmarshalManifest = (\<lambda>_. Inr man), bx_Tarinate = (\<lambda>_. None), bx_UnTarinate = (\<lambda>_. Inr b),
     bx_JoinPath = (\<lambda>u v. Inr (u @ v)), bx_CopyImageFromTar = (\<lambda>_ _. None), bx_PushImage = (\<lambda>_. None),
     bx_meta = demo_meta []\<rparr>"

definition demo_man :: migration_manifest where
  "demo_man = \<lparr>RelativeInventoryImagePathWithTag = ''/i:v1'',
     InventoryMetadataImage = Some \<lparr>SourceFilePath = ''plugin_inventory_metadata.db'', RelativeImagePathWithTag = ''/i:v1-metadata:v1''\<rparr>,
     ImagesToCopy = [\<lparr>SourceTarFilePath = pluginInventoryFileNameTar, RelativeImagePath = ''/i''\<rparr>,
       \<lparr>SourceTarFilePath = ''a-kubernetes-linux_amd64-v1.0.0.tar.gz'', RelativeImagePath = ''/av1.0.0linux''\<rparr>]\<rparr>"

definition demo_bundle :: "string plugin_bundle" where
  "demo_bundle = \<lparr>bu_tars = [], bu_manifest = None, bu_metadata = demo_meta []\<rparr>"

lemma save_images_untar: "save_images_loop (B\<lparr>bx_UnTarinate := f\<rparr>) img xs files imgs = save_images_loop B img xs files imgs"
  by (induction xs arbitrary: files imgs) (auto split: sum.split)

lemma download_untar: "DownloadPluginBundle L (B\<lparr>bx_UnTarinate := f\<rparr>) opts = DownloadPluginBundle L B opts"
  by (simp add: DownloadPluginBundle_def validateOptions_def verifyTarFile_def getSelectedPluginInfo_def save_bundle_def
      saveAndGetImagesToCopy_def downloadImagesAsTarFile_def savePluginInventoryMetadata_def savePluginMigrationManifestFile_def
      save_images_untar Let_def cong: option.case_cong sum.case_cong if_cong prod.case_cong)

lemma selection_untar: "getSelectedPluginInfo L (B\<lparr>bx_UnTarinate := f\<rparr>) opts = getSelectedPluginInfo L B opts"
  by (simp add: getSelectedPluginInfo_def cong: option.case_cong sum.case_cong)

lemma demo_bx_untar: "demo_bx man b = (demo_bx man demo_bundle)\<lparr>bx_UnTarinate := (\<lambda>_. Inr b)\<rparr>"
  by (simp add: demo_bx_def)

theorem airgapped_migration_witness:
  "\<exists>b p. DownloadPluginBundle dotted_lib (demo_bx demo_man b) demo_opts = Some (Inr (SavedBundle b)) \<and>
     UploadPluginBundle (demo_bx demo_man b) ''d/b.tar'' ''mirror'' = Some (p, None) \<and>
     (''mirror/av1.0.0linux'', ''r/av1.0.0linux'') \<in> set (pb_images p)"
proof -
  have "case DownloadPluginBundle dotted_lib (demo_bx demo_man demo_bundle) demo_opts of
      Some (Inr (SavedBundle b)) \<Rightarrow> bu_tars b = [(pluginInventoryFileNameTar, ''r/i:v1''),
          (''a-kubernetes-linux_amd64-v1.0.0.tar.gz'', ''r/av1.0.0linux'')] \<and> bu_manifest b = Some ''m''
    | _ \<Rightarrow> False" by code_simp
  then obtain b where b: "DownloadPluginBundle dotted_lib (demo_bx demo_man demo_bundle) demo_opts = Some (Inr (SavedBundle b))"
    "bu_tars b = [(pluginInventoryFileNameTar, ''r/i:v1''), (''a-kubernetes-linux_amd64-v1.0.0.tar.gz'', ''r/av1.0.0linux'')]"
    "bu_manifest b = Some ''m''"
    by (auto split: option.splits sum.splits download_result.splits)
  have dl: "DownloadPluginBundle dotted_lib (demo_bx demo_man b) demo_opts = Some (Inr (SavedBundle b))"
    by (subst demo_bx_untar) (simp only: download_untar b(1))
  have "\<exists>p. UploadPluginBundle (demo_bx demo_man b) ''d/b.tar'' ''mirror'' = Some (p, None)"
    by (simp add: UploadPluginBundle_def publish_metadata_def mergePluginInventoryMetadata_def JoinURL_def has_prefix_def trim_prefix_def
        demo_bx_def demo_man_def b(2,3) Let_def)
  then obtain p where up: "UploadPluginBundle (demo_bx demo_man b) ''d/b.tar'' ''mirror'' = Some (p, None)" by blast
  have "case getSelectedPluginInfo dotted_lib (demo_bx demo_man demo_bundle) demo_opts of
      Some (Inr (es, gs)) \<Rightarrow> distinct (map tar_of (bundle_artifacts dotted_lib es)) \<and>
        list_ex (\<lambda>(pe, v, a). a_Image a = ''r/av1.0.0linux'') (bundle_artifacts dotted_lib es)
    | _ \<Rightarrow> False" by code_simp
  then obtain es gs where sel: "getSelectedPluginInfo dotted_lib (demo_bx demo_man demo_bundle) demo_opts = Some (Inr (es, gs))"
    "distinct (map tar_of (bundle_artifacts dotted_lib es))"
    "list_ex (\<lambda>(pe, v, a). a_Image a = ''r/av1.0.0linux'') (bundle_artifacts dotted_lib es)"
    by (auto split: option.splits sum.splits)
  have sel1: "getSelectedPluginInfo dotted_lib (demo_bx demo_man b) demo_opts = Some (Inr (es, gs))"
    by (subst demo_bx_untar) (simp only: selection_untar sel(1))
  obtain pe v a where pva: "(pe, v, a) \<in> set (bundle_artifacts dotted_lib es)" "a_Image a = ''r/av1.0.0linux''"
    using sel(3) by (auto simp: list_ex_iff)
  have "\<forall>m bytes. bx_MarshalManifest (demo_bx demo_man b) m = Inr bytes \<longrightarrow> bx_UnmarshalManifest (demo_bx demo_man b) bytes = Inr m"
    "ms_plugins (bx_meta (demo_bx demo_man b)) = []" "ms_groups (bx_meta (demo_bx demo_man b)) = []"
    "bx_UnTarinate (demo_bx demo_man b) ''d/b.tar'' = Inr b"
    by (simp_all add: demo_bx_def demo_meta_def)
  from airgapped_migration [OF dl sel1 sel(2) this(2,3,1,4) up] pva
  have "\<exists>url tar. JoinURL (demo_bx demo_man b) ''mirror'' (GetImageRelativePath ''r/av1.0.0linux'' (filepath_Dir (dl_PluginInventoryImage demo_opts)) False) = Inr url \<and>
      bx_CopyImageToTar (demo_bx demo_man b) ''r/av1.0.0linux'' = Inr tar \<and> (url, tar) \<in> set (pb_images p)" by fastforce
  moreover have "GetImageRelativePath ''r/av1.0.0linux'' (filepath_Dir (dl_PluginInventoryImage demo_opts)) False = ''/av1.0.0linux''"
    by code_simp
  ultimately have "(''mirror/av1.0.0linux'', ''r/av1.0.0linux'') \<in> set (pb_images p)"
    by (simp add: JoinURL_def has_prefix_def trim_prefix_def demo_bx_def Let_def)
  with dl up show ?thesis by blast
qed

text \<open>A group that lists an older patch of the plugin that is also selected by its shortened version.\<close>

definition overlap_inventory :: inv_store where
  "overlap_inventory = demo_store\<lparr>is_plugins := [demo_row ''a'' ''kubernetes'' ''v1.0.0'' ''linux'', demo_row ''a'' ''kubernetes'' ''v1.1.0'' ''linux''],
     is_groups := [\<lparr>gr_vendor = ''v'', gr_publisher = ''p'', gr_groupName = ''g'', gr_groupVersion = ''v2.0.0'', gr_description = '''',
       gr_pluginName = ''a'', gr_target = ''kubernetes'', gr_pluginVersion = ''v1.0.0'', gr_mandatory = ''true'', gr_hidden = ''false''\<rparr>]\<rparr>"

definition overlap_bx :: "string bundle_env" where
  "overlap_bx = (demo_bx demo_man demo_bundle)\<lparr>bx_oci := demo_oci\<lparr>oe_DownloadImage := (\<lambda>i.
     Inr \<lparr>img_db = Some overlap_inventory, img_meta = None, img_config = None\<rparr>)\<rparr>\<rparr>"

definition overlap_opts :: download_options where
  "overlap_opts = demo_opts\<lparr>dl_Groups := [''v-p/g''], dl_Plugins := [''a:v1'']\<rparr>"

theorem overlapping_selection_fails_witness:
  "\<exists>e. DownloadPluginBundle dotted_lib overlap_bx overlap_opts = Some (Inl e)"
proof -
  have "case getSelectedPluginInfo dotted_lib overlap_bx overlap_opts of
      Some (Inr (es, gs)) \<Rightarrow> \<not> distinct (plugin_ids dotted_lib es) | _ \<Rightarrow> False" by code_simp
  then obtain es gs where sel: "getSelectedPluginInfo dotted_lib overlap_bx overlap_opts = Some (Inr (es, gs))"
    "\<not> distinct (plugin_ids dotted_lib es)"
    by (auto split: option.splits sum.splits)
  show ?thesis
    by (rule overlapping_selection_fails [OF sel(1) _ sel(2)])
      (simp_all add: overlap_opts_def demo_opts_def overlap_bx_def demo_bx_def demo_meta_def)
qed

end
