(* ===== verification/Plugin_Cmd_Tree.thy ===== *)
theory Plugin_Cmd_Tree
  imports Command_Map "HOL-Library.Sublist"
begin

text \<open>
  The cache of the command trees of plugins, \<^verbatim>\<open>pkg/plugincmdtree/\<close>, which the telemetry client uses to tell
  the sub-commands of a plugin from its arguments.

  The tree of a plugin is built from the documentation the plugin generates, one file for each command, and
  from the help text of each command. The goroutines that read the aliases run one for each node and write to
  that node only, so their results are those of calling them in order; which of several errors \<^verbatim>\<open>Wait\<close>
  returns is a parameter. A Go map that may be \<^verbatim>\<open>nil\<close> is an option; \<open>None\<close> as the result of an operation is a panic.
\<close>

section \<open>Data\<close>

datatype command_node = CommandNode
  (Subcommands: "(string \<times> command_node) list")
  (NodeAliases: "string list")
  (AliasProcessed: bool)

definition NewCommandNode :: command_node where
  "NewCommandNode = CommandNode [] [] False"

type_synonym command_tree = "(string \<times> command_node option) list"

text \<open>\<open>ct_Find\<close> is \<^verbatim>\<open>rootCmd.Find\<close>: the source path annotation of the command found. \<open>ct_GenerateDocs\<close> runs
  \<^verbatim>\<open>generate-docs\<close> in an empty directory, \<open>ct_ReadDir\<close> lists the files (and whether they are directories).\<close>

record ctree_env =
  ct_proc :: proc_env
  ct_platform :: platform
  ct_environ :: environ
  ct_IsValidTarget :: "string \<Rightarrow> bool"
  ct_Find :: "string list \<Rightarrow> string res"
  ct_GenerateDocs :: "plugin_info \<Rightarrow> err option"
  ct_ReadDir :: "plugin_info \<Rightarrow> (string \<times> bool) list res"
  ct_firstError :: "err list \<Rightarrow> err"

text \<open>The cache file: YAML in a type \<open>'b\<close>. A failed \<^verbatim>\<open>WriteFile\<close> either leaves the file or has truncated it.\<close>

datatype write_fault = OpenFails err | WriteFails err

record 'b ctree_fs =
  cf_tree :: "'b option"
  cf_write :: "write_fault option"
  cf_remove :: "err option"

record 'b ctree_yaml =
  ct_NoBytes :: 'b
  ct_Marshal :: "command_tree option \<Rightarrow> 'b res"
  ct_Unmarshal :: "'b \<Rightarrow> command_tree option res"

section \<open>Aliases\<close>

definition getTargetAliases :: "string \<Rightarrow> string list" where
  "getTargetAliases target =
     (if target = TargetK8s then [''k8s'', ''kubernetes'']
      else if target = TargetTMC then [''tmc'', ''mission-control'']
      else if target = TargetOperations then [''ops'', ''operations''] else [])"

definition re_space :: "char \<Rightarrow> bool" where
  "re_space c \<longleftrightarrow> c \<in> {CHR '' '', CHR 0x09, CHR 0x0A, CHR 0x0C, CHR 0x0D}"

text \<open>The text after the first occurrence of a string.\<close>

fun after_first :: "string \<Rightarrow> string \<Rightarrow> string option" where
  "after_first pat [] = (if pat = [] then Some [] else None)"
| "after_first pat (c # s) = (if has_prefix (c # s) pat then Some (trim_prefix (c # s) pat) else after_first pat s)"

text \<open>The regular expression \<^verbatim>\<open>Aliases:\s*(.*)\<close>: white space is skipped, line ends included, then the rest of the line
  is taken.\<close>

definition extractAliases :: "string \<Rightarrow> string list" where
  "extractAliases out =
     (case after_first ''Aliases:'' out of
        None \<Rightarrow> []
      | Some s \<Rightarrow> split_on CHR '','' (takeWhile (\<lambda>c. c \<noteq> CHR 0x0A) (dropWhile re_space s)))"

definition alias_args :: "ctree_env \<Rightarrow> string \<Rightarrow> string list \<Rightarrow> string list" where
  "alias_args E cmdSrcPath aliasArgs =
     (let a1 = (if length aliasArgs > 0 \<and> ct_IsValidTarget E (aliasArgs ! 0) then drop 1 aliasArgs else aliasArgs);
          a2 = drop 1 a1
      in (if cmdSrcPath \<noteq> '''' then split_on CHR '' '' cmdSrcPath @ a2 else a2) @ [''-h''])"

definition getPluginCommandAlias :: "ctree_env \<Rightarrow> plugin_info \<Rightarrow> string \<Rightarrow> string list \<Rightarrow> string list res" where
  "getPluginCommandAlias E p cmdSrcPath aliasArgs =
     (case runner_RunOutput (ct_proc E) (ct_platform E) (ct_environ E)
             (NewRunner (pi_Name p) (pi_InstallationPath p) (alias_args E cmdSrcPath aliasArgs)) of
        (stdout, stderr, Some e) \<Rightarrow> Inl e
      | (stdout, stderr, None) \<Rightarrow> Inr (remdups (map trim_space (extractAliases stdout))))"

section \<open>Building a tree\<close>

text \<open>The words of the destination path of an entry, as long as they are those of the command from a position on.\<close>

fun remapped_at :: "string list \<Rightarrow> string list \<Rightarrow> bool" where
  "remapped_at [] cmdNames = True"
| "remapped_at (destCmd # ds) cmdNames =
     (if trim_space destCmd = '''' then remapped_at ds cmdNames
      else case cmdNames of [] \<Rightarrow> False | c # cs \<Rightarrow> if c \<noteq> destCmd then False else remapped_at ds cs)"

definition adjustCmdNamesForPluginTarget :: "string list \<Rightarrow> plugin_info \<Rightarrow> string list" where
  "adjustCmdNamesForPluginTarget cmdNames p =
     (if length cmdNames < 2 then cmdNames
      else if pi_Target p = TargetGlobal then cmdNames
      else if \<exists>cmdMap \<in> set (pi_CommandMap p).
                remapped_at (split_on CHR '' '' (cme_DestinationCommandPath cmdMap)) (drop 1 cmdNames) then cmdNames
      else [cmdNames ! 0, pi_Target p] @ drop 1 cmdNames)"

text \<open>What happens at a node when its name is met: its aliases are determined once. The list collects the
  errors of the goroutines.\<close>

definition process_node ::
    "ctree_env \<Rightarrow> plugin_info \<Rightarrow> string \<Rightarrow> string list \<Rightarrow> command_node \<Rightarrow> err list \<Rightarrow> (command_node \<times> err list) res" where
  "process_node E p cmdName aliasArgs current errs =
     (if cmdName = ''tanzu'' \<or> AliasProcessed current then Inr (current, errs)
      else if cmdName = pi_Target p
      then Inr (CommandNode (Subcommands current) (getTargetAliases (pi_Target p)) True, errs)
      else case ct_Find E aliasArgs of
          Inl e \<Rightarrow> Inl e
        | Inr cmdSrcPath \<Rightarrow>
            Inr (case getPluginCommandAlias E p cmdSrcPath aliasArgs of
                   Inl e \<Rightarrow> (CommandNode (Subcommands current) (NodeAliases current) True, errs @ [e])
                 | Inr cmdAlias \<Rightarrow> (CommandNode (Subcommands current) cmdAlias True, errs)))"

fun add_path ::
    "ctree_env \<Rightarrow> plugin_info \<Rightarrow> string list \<Rightarrow> string list \<Rightarrow> command_node \<Rightarrow> err list \<Rightarrow> (command_node \<times> err list) res" where
  "add_path E p [] aliasArgs current errs = Inr (current, errs)"
| "add_path E p (cmdName # cmdNames) aliasArgs current errs =
     (let aliasArgs1 = (if cmdName \<noteq> ''tanzu'' then aliasArgs @ [cmdName] else aliasArgs)
      in case process_node E p cmdName aliasArgs1 (get_or NewCommandNode (Subcommands current) cmdName) errs of
           Inl e \<Rightarrow> Inl e
         | Inr (child, errs1) \<Rightarrow>
             (case add_path E p cmdNames aliasArgs1 child errs1 of
                Inl e \<Rightarrow> Inl e
              | Inr (child2, errs2) \<Rightarrow>
                  Inr (CommandNode (AList.update cmdName child2 (Subcommands current)) (NodeAliases current)
                         (AliasProcessed current), errs2)))"

fun add_paths ::
    "ctree_env \<Rightarrow> plugin_info \<Rightarrow> string list list \<Rightarrow> command_node \<Rightarrow> err list \<Rightarrow> (command_node \<times> err list) res" where
  "add_paths E p [] cmdTreeRoot errs = Inr (cmdTreeRoot, errs)"
| "add_paths E p (cmdNames # ps) cmdTreeRoot errs =
     (case add_path E p cmdNames [] cmdTreeRoot errs of
        Inl e \<Rightarrow> Inl e
      | Inr (t, errs1) \<Rightarrow> add_paths E p ps t errs1)"

text \<open>The command names of the documentation files; those of a plugin of the Kubernetes target count twice, below
  the target and at the root.\<close>

definition doc_paths :: "plugin_info \<Rightarrow> (string \<times> bool) list \<Rightarrow> string list list" where
  "doc_paths p files =
     concat (map (\<lambda>(name, dir).
       if dir \<or> \<not> has_suffix name ''.md'' then []
       else let cmdNames = split_on CHR ''_'' (trim_suffix name ''.md'')
            in if pi_Target p = TargetK8s then [adjustCmdNamesForPluginTarget cmdNames p, cmdNames]
               else [adjustCmdNamesForPluginTarget cmdNames p]) files)"

definition constructPluginCommandTree :: "ctree_env \<Rightarrow> plugin_info \<Rightarrow> command_node option res" where
  "constructPluginCommandTree E p =
     (case ct_GenerateDocs E p of
        Some e \<Rightarrow> Inl (Wrapf e ''failed to generate docs for the plugin %q'' [pi_Name p])
      | None \<Rightarrow>
          (case ct_ReadDir E p of
             Inl e \<Rightarrow> Inl (Wrapf e ''error while reading local plugin command tree directory'' [])
           | Inr files \<Rightarrow>
               (case add_paths E p (doc_paths p files) NewCommandNode [] of
                  Inl e \<Rightarrow> Inl e
                | Inr (cmdTreeRoot, errs) \<Rightarrow>
                    if errs \<noteq> [] then Inl (Wrapf (ct_firstError E errs) ''failed to generate command alias'' [])
                    else Inr (map_of (Subcommands cmdTreeRoot) ''tanzu''))))"

section \<open>The cache\<close>

text \<open>The cache in memory is the map, or \<^verbatim>\<open>nil\<close> when the file has no entry \<^verbatim>\<open>commandTree\<close>.\<close>

definition getPluginCommandTree :: "'b ctree_yaml \<Rightarrow> 'b ctree_fs \<Rightarrow> command_tree option res" where
  "getPluginCommandTree Y w =
     (case cf_tree w of
        None \<Rightarrow> Inr (Some [])
      | Some b \<Rightarrow> (case ct_Unmarshal Y b of
                     Inl e \<Rightarrow> Inl (Wrapf e ''failed to unmarshal the  plugin command tree '' []) | Inr ctr \<Rightarrow> Inr ctr))"

definition NewCache :: "'b ctree_yaml \<Rightarrow> 'b ctree_fs \<Rightarrow> command_tree option res" where
  "NewCache Y w = getPluginCommandTree Y w"

definition savePluginCommandTree ::
    "'b ctree_yaml \<Rightarrow> command_tree option \<Rightarrow> 'b ctree_fs \<Rightarrow> 'b ctree_fs \<times> err option" where
  "savePluginCommandTree Y c w =
     (case ct_Marshal Y c of
        Inl e \<Rightarrow> (w, Some (Wrapf e ''failed to marshal plugin command tree'' []))
      | Inr data \<Rightarrow>
          (case cf_write w of
             Some (OpenFails e) \<Rightarrow> (w, Some (Wrapf e ''failed to write the command tree to %q file '' []))
           | Some (WriteFails e) \<Rightarrow> (w\<lparr>cf_tree := Some (ct_NoBytes Y)\<rparr>, Some (Wrapf e ''failed to write the command tree to %q file '' []))
           | None \<Rightarrow> (w\<lparr>cf_tree := Some data\<rparr>, None)))"

text \<open>Storing into a \<^verbatim>\<open>nil\<close> map panics.\<close>

definition constructAndAddTree ::
    "ctree_env \<Rightarrow> 'b ctree_yaml \<Rightarrow> plugin_info \<Rightarrow> command_tree option \<Rightarrow> 'b ctree_fs \<Rightarrow>
     (command_tree option \<times> 'b ctree_fs \<times> err option) option" where
  "constructAndAddTree E Y p c w =
     (if Option.bind c (\<lambda>m. map_of m (pi_InstallationPath p)) \<noteq> None then Some (c, w, None)
      else case constructPluginCommandTree E p of
          Inl e \<Rightarrow> Some (c, w, Some (Wrapf e ''failed to generate command tree for plugin %q'' [pi_Name p]))
        | Inr t \<Rightarrow>
            (case c of
               None \<Rightarrow> None
             | Some m \<Rightarrow>
                 let c1 = Some (AList.update (pi_InstallationPath p) t m)
                 in (case savePluginCommandTree Y c1 w of (w1, e) \<Rightarrow> Some (c1, w1, e))))"

definition GetPluginTree ::
    "ctree_env \<Rightarrow> 'b ctree_yaml \<Rightarrow> plugin_info \<Rightarrow> command_tree option \<Rightarrow> 'b ctree_fs \<Rightarrow>
     (command_tree option \<times> 'b ctree_fs \<times> command_node option res) option" where
  "GetPluginTree E Y p c w =
     (case constructAndAddTree E Y p c w of
        None \<Rightarrow> None
      | Some (c1, w1, Some e) \<Rightarrow> Some (c1, w1, Inl e)
      | Some (c1, w1, None) \<Rightarrow>
          Some (c1, w1,
            (case Option.bind c1 (\<lambda>m. map_of m (pi_InstallationPath p)) of
               None \<Rightarrow> Inl (Errorf ''failed to get the command tree for plugin'' [pi_Name p, pi_Version p, pi_Target p, pi_InstallationPath p])
             | Some t \<Rightarrow> Inr t)))"

definition DeletePluginTree ::
    "'b ctree_yaml \<Rightarrow> plugin_info \<Rightarrow> command_tree option \<Rightarrow> 'b ctree_fs \<Rightarrow> command_tree option \<times> 'b ctree_fs \<times> err option" where
  "DeletePluginTree Y p c w =
     (case c of
        None \<Rightarrow> (c, w, None)
      | Some m \<Rightarrow>
          if map_of m (pi_InstallationPath p) = None then (c, w, None)
          else let c1 = Some (AList.delete (pi_InstallationPath p) m)
               in (case savePluginCommandTree Y c1 w of (w1, e) \<Rightarrow> (c1, w1, e)))"

definition DeleteTree :: "command_tree option \<Rightarrow> 'b ctree_fs \<Rightarrow> command_tree option \<times> 'b ctree_fs \<times> err option" where
  "DeleteTree c w =
     (case cf_remove w of
        Some e \<Rightarrow> (Some [], w, Some e)
      | None \<Rightarrow> (Some [], w\<lparr>cf_tree := None\<rparr>, None))"

section \<open>The commands of a tree\<close>

fun in_tree :: "string list \<Rightarrow> command_node \<Rightarrow> bool" where
  "in_tree [] t \<longleftrightarrow> True"
| "in_tree (n # ns) t \<longleftrightarrow> (case map_of (Subcommands t) n of None \<Rightarrow> False | Some c \<Rightarrow> in_tree ns c)"

lemma in_tree_new [simp]: "in_tree q NewCommandNode \<longleftrightarrow> q = []"
  by (cases q) (simp_all add: NewCommandNode_def)

lemma in_tree_cong: "Subcommands t = Subcommands t' \<Longrightarrow> in_tree q t = in_tree q t'"
  by (cases q) simp_all

lemma process_node_subs:
  "process_node E p n as c errs = Inr (c', errs') \<Longrightarrow> Subcommands c' = Subcommands c"
  by (auto simp: process_node_def split: if_splits sum.splits)

lemma add_path_in_tree:
  "add_path E p names as t errs = Inr (t', errs') \<Longrightarrow> in_tree q t' \<longleftrightarrow> in_tree q t \<or> prefix q names"
proof (induction names arbitrary: as t errs t' errs' q)
  case (Cons n names)
  let ?as = "if n \<noteq> ''tanzu'' then as @ [n] else as" and ?old = "get_or NewCommandNode (Subcommands t) n"
  from Cons.prems obtain child e1 child2 where
    child: "process_node E p n ?as ?old errs = Inr (child, e1)" and
    child2: "add_path E p names ?as child e1 = Inr (child2, errs')" and
    t': "t' = CommandNode (AList.update n child2 (Subcommands t)) (NodeAliases t) (AliasProcessed t)"
    by (auto simp: Let_def split: sum.splits)
  have sub: "in_tree ns child2 \<longleftrightarrow> in_tree ns ?old \<or> prefix ns names" for ns
    using Cons.IH [OF child2, of ns] in_tree_cong [OF process_node_subs [OF child], of ns] by simp
  show ?case
  proof (cases q)
    case (Cons m ns)
    then show ?thesis
      using sub [of ns] by (cases "m = n") (auto simp: t' map_of_update get_or_def split: option.splits)
  qed simp
qed auto

lemma add_paths_in_tree:
  "add_paths E p ps t errs = Inr (t', errs') \<Longrightarrow> in_tree q t' \<longleftrightarrow> in_tree q t \<or> (\<exists>names \<in> set ps. prefix q names)"
proof (induction ps arbitrary: t errs)
  case (Cons names ps)
  then obtain t1 e1 where "add_path E p names [] t errs = Inr (t1, e1)" "add_paths E p ps t1 e1 = Inr (t', errs')"
    by (auto split: sum.splits)
  with Cons.IH [of t1 e1] add_path_in_tree show ?case by auto
qed simp

text \<open>The command tree of a plugin has exactly the commands the plugin documents: a sequence of
  words is a path of the tree exactly when it begins the name of a documented command, with the target
  inserted where the command is not remapped, and for the Kubernetes target also without it.\<close>

theorem command_tree_exact:
  assumes "constructPluginCommandTree E p = Inr (Some t)" "ct_ReadDir E p = Inr files"
  shows "in_tree q t \<longleftrightarrow> (\<exists>names \<in> set (doc_paths p files). prefix (''tanzu'' # q) names)"
proof -
  obtain r where r: "add_paths E p (doc_paths p files) NewCommandNode [] = Inr (r, [])" "map_of (Subcommands r) ''tanzu'' = Some t"
    using assms by (auto simp: constructPluginCommandTree_def split: option.splits sum.splits if_splits)
  show ?thesis using add_paths_in_tree [OF r(1), of "''tanzu'' # q"] r(2) by simp
qed

section \<open>The cache over several invocations\<close>

text \<open>The field \<open>AliasProcessed\<close> is not stored.\<close>

primrec strip :: "command_node \<Rightarrow> command_node" where
  "strip (CommandNode subs aliases processed) = CommandNode (map (map_prod id strip) subs) aliases False"

definition ctree_laws :: "'b ctree_yaml \<Rightarrow> bool" where
  "ctree_laws Y \<longleftrightarrow> (\<forall>m data. ct_Marshal Y (Some m) = Inr data \<longrightarrow>
     ct_Unmarshal Y data = Inr (Some (map (map_prod id (map_option strip)) m)))"

lemma strip_strip [simp]: "strip (strip t) = strip t"
  by (induction t) (auto simp: map_prod_def)

lemma map_of_strip [simp]: "map_of (map (map_prod id f) m) k = map_option f (map_of m k)"
  by (induction m) auto

text \<open>The tree of a plugin is built once. After a successful request for it, a later invocation of the CLI
  reads the same commands and aliases from the file, without running the plugin and without writing.\<close>

theorem command_tree_cached:
  assumes "ctree_laws Y" "NewCache Y w = Inr c" "GetPluginTree E Y p c w = Some (c1, w1, Inr t)"
  shows "\<exists>c2 t2. NewCache Y w1 = Inr c2 \<and> GetPluginTree E' Y p c2 w1 = Some (c2, w1, Inr t2) \<and>
    map_option strip t2 = map_option strip t"
proof -
  obtain m where m: "constructAndAddTree E Y p c w = Some (Some m, w1, None)" "c1 = Some m" "map_of m (pi_InstallationPath p) = Some t"
    using assms(3) by (auto simp: GetPluginTree_def split: option.splits prod.splits bind_splits)
  have again: "GetPluginTree E' Y p (Some m2) w1 = Some (Some m2, w1, Inr t2)" if "map_of m2 (pi_InstallationPath p) = Some t2" for m2 t2
    using that by (simp add: GetPluginTree_def constructAndAddTree_def)
  show ?thesis
  proof (cases "c = Some m \<and> w1 = w")
    case True
    then show ?thesis using again [OF m(3)] assms(2) by auto
  next
    case False
    then obtain data where d: "ct_Marshal Y (Some m) = Inr data" "w1 = w\<lparr>cf_tree := Some data\<rparr>"
      using m(1) by (auto simp: constructAndAddTree_def savePluginCommandTree_def Let_def
          split: if_splits sum.splits option.splits write_fault.splits prod.splits)
    let ?m2 = "map (map_prod id (map_option strip)) m"
    have "NewCache Y w1 = Inr (Some ?m2)"
      using assms(1) d by (simp add: NewCache_def getPluginCommandTree_def ctree_laws_def)
    moreover have "map_of ?m2 (pi_InstallationPath p) = Some (map_option strip t)" using m(3) by simp
    ultimately show ?thesis using again by (force simp: option.map_comp comp_def)
  qed
qed

text \<open>A failed write of the cache file makes the CLI panic later. The file has been truncated, reading
  it back gives a \<^verbatim>\<open>nil\<close> map, and the next request for the tree of a plugin whose tree can be
  built stores into that map.\<close>

theorem truncated_cache_panics:
  assumes "ct_Unmarshal Y (ct_NoBytes Y) = Inr None" "map_of m (pi_InstallationPath p) = None"
    "constructPluginCommandTree E p = Inr t" "ct_Marshal Y (Some (AList.update (pi_InstallationPath p) t m)) = Inr data"
    "cf_write w = Some (WriteFails e)" "constructPluginCommandTree E' p' = Inr t'"
  shows "\<exists>c1 w1 e'. GetPluginTree E Y p (Some m) w = Some (c1, w1, Inl e') \<and> NewCache Y w1 = Inr None \<and>
    GetPluginTree E' Y p' None w1 = None"
  using assms by (simp add: GetPluginTree_def constructAndAddTree_def savePluginCommandTree_def NewCache_def getPluginCommandTree_def Let_def)

section \<open>An example\<close>

definition demo_ctree :: ctree_env where
  "demo_ctree = \<lparr>ct_proc = \<lparr>px_Stat = (\<lambda>_. Some False), px_Run = (\<lambda>_ args _. if args = [''-h'']
       then (''Aliases:'' @ [CHR 0x0A] @ ''  cluster, cl'' @ [CHR 0x0A], '''', None) else ('''', '''', None))\<rparr>,
     ct_platform = \<lparr>GOOS = ''linux'', GOARCH = ''amd64''\<rparr>, ct_environ = (\<lambda>_. None),
     ct_IsValidTarget = (\<lambda>t. t = TargetK8s), ct_Find = (\<lambda>_. Inr ''''), ct_GenerateDocs = (\<lambda>_. None),
     ct_ReadDir = (\<lambda>_. Inr [(''tanzu.md'', False), (''tanzu_cluster.md'', False), (''tanzu_cluster_list.md'', False)]),
     ct_firstError = hd\<rparr>"


definition demo_cluster :: plugin_info where
  "demo_cluster = zero_plugin_info\<lparr>pi_Name := ''cluster'', pi_Target := TargetK8s, pi_InstallationPath := ''/p/cluster''\<rparr>"

definition ctree_mem :: "command_tree option option ctree_yaml" where
  "ctree_mem = \<lparr>ct_NoBytes = None, ct_Marshal = (\<lambda>c. Inr (Some (map_option (map (map_prod id (map_option strip))) c))),
     ct_Unmarshal = (\<lambda>b. case b of None \<Rightarrow> Inr None | Some c \<Rightarrow> Inr c)\<rparr>"

definition no_ctree :: "write_fault option \<Rightarrow> command_tree option option ctree_fs" where
  "no_ctree f = \<lparr>cf_tree = None, cf_write = f, cf_remove = None\<rparr>"

lemma demo_tree_built: "case constructPluginCommandTree demo_ctree demo_cluster of Inr (Some t) \<Rightarrow> True | _ \<Rightarrow> False"
  by code_simp

theorem command_tree_exact_witness:
  "\<exists>t. constructPluginCommandTree demo_ctree demo_cluster = Inr (Some t) \<and> in_tree [''kubernetes'', ''cluster'', ''list''] t \<and>
     in_tree [''cluster'', ''list''] t \<and> \<not> in_tree [''cluster'', ''get''] t"
proof -
  obtain t where t: "constructPluginCommandTree demo_ctree demo_cluster = Inr (Some t)"
    using demo_tree_built by (auto split: sum.splits option.splits)
  let ?files = "[(''tanzu.md'', False), (''tanzu_cluster.md'', False), (''tanzu_cluster_list.md'', False)]"
  have files: "ct_ReadDir demo_ctree demo_cluster = Inr ?files" by (simp add: demo_ctree_def)
  note ex = command_tree_exact [OF t files]
  have "\<exists>names \<in> set (doc_paths demo_cluster ?files). prefix (''tanzu'' # [''kubernetes'', ''cluster'', ''list'']) names"
    "\<exists>names \<in> set (doc_paths demo_cluster ?files). prefix (''tanzu'' # [''cluster'', ''list'']) names"
    "\<not> (\<exists>names \<in> set (doc_paths demo_cluster ?files). prefix (''tanzu'' # [''cluster'', ''get'']) names)"
    by code_simp+
  with t ex show ?thesis by blast
qed

theorem command_tree_cached_witness:
  "\<exists>c1 w1 t c2 t2. GetPluginTree demo_ctree ctree_mem demo_cluster (Some []) (no_ctree None) = Some (c1, w1, Inr t) \<and>
     NewCache ctree_mem w1 = Inr c2 \<and> GetPluginTree (demo_ctree\<lparr>ct_GenerateDocs := (\<lambda>_. Some (Errorf ''x'' []))\<rparr>) ctree_mem demo_cluster c2 w1 = Some (c2, w1, Inr t2)"
proof -
  have "case GetPluginTree demo_ctree ctree_mem demo_cluster (Some []) (no_ctree None) of Some (c1, w1, r) \<Rightarrow> \<not> isl r | None \<Rightarrow> False"
    by code_simp
  then obtain c1 w1 t where g: "GetPluginTree demo_ctree ctree_mem demo_cluster (Some []) (no_ctree None) = Some (c1, w1, Inr t)"
    by (auto split: option.splits prod.splits) (metis sum.collapse(2))
  have "ctree_laws ctree_mem" "NewCache ctree_mem (no_ctree None) = Inr (Some [])"
    by (simp_all add: ctree_laws_def ctree_mem_def no_ctree_def NewCache_def getPluginCommandTree_def)
  from command_tree_cached [OF this g] g show ?thesis by metis
qed

theorem truncated_cache_panics_witness:
  "\<exists>c1 w1 e'. GetPluginTree demo_ctree ctree_mem demo_cluster (Some []) (no_ctree (Some (WriteFails (Errorf ''no space'' [])))) = Some (c1, w1, Inl e') \<and>
    NewCache ctree_mem w1 = Inr None \<and> GetPluginTree demo_ctree ctree_mem demo_cluster None w1 = None"
proof -
  obtain t where t: "constructPluginCommandTree demo_ctree demo_cluster = Inr (Some t)"
    using demo_tree_built by (auto split: sum.splits option.splits)
  show ?thesis
    by (rule truncated_cache_panics [OF _ _ t _ _ t]) (simp_all add: ctree_mem_def no_ctree_def)
qed

end
