(* ===== verification/Telemetry.thy ===== *)
theory Telemetry
  imports Plugin_Cmd_Tree
begin

text \<open>
  The usage metrics of the CLI, \<^verbatim>\<open>pkg/telemetry/\<close>: what is recorded about a command before and after it ran
  (\<^verbatim>\<open>client.go\<close>, \<^verbatim>\<open>flags.go\<close>, \<^verbatim>\<open>metrics_helper.go\<close>), the database the records go to
  (\<^verbatim>\<open>sqlite_metrics_db.go\<close>) and its lock (\<^verbatim>\<open>metrics_db_lock.go\<close>).

  The state is the record of the current command, the command tree cache, the configured source of metrics and
  the database: its rows, whether the table exists, whether this process holds the lock. Operations on the
  database and the lock fail with the errors of \<open>md_fault\<close>. Times are nanoseconds, \<open>None\<close> the zero time; in the rows
  they are milliseconds. JSON is a parameter. \<open>None\<close> as the result of an operation is a panic.
\<close>

section \<open>Flag names\<close>

definition isFlagArg :: "string \<Rightarrow> bool" where
  "isFlagArg arg \<longleftrightarrow> (length arg \<ge> 3 \<and> take 2 arg = ''--'') \<or> (length arg \<ge> 2 \<and> arg ! 0 = CHR ''-'' \<and> arg ! 1 \<noteq> CHR ''-'')"

fun traverse_flags :: "string list \<Rightarrow> string list \<Rightarrow> string list" where
  "traverse_flags [] flags = flags"
| "traverse_flags (arg # args) flags =
     (if arg = ''--'' then flags
      else if has_prefix arg ''--'' \<and> CHR ''='' \<notin> set arg then traverse_flags args (flags @ [arg])
      else if has_prefix arg ''-'' \<and> CHR ''='' \<notin> set arg \<and> length arg = 2 then traverse_flags args (flags @ [arg])
      else if isFlagArg arg
      then traverse_flags args (flags @ [if CHR ''='' \<in> set arg then split_on CHR ''='' arg ! 0 else arg])
      else traverse_flags args flags)"

text \<open>The number of bytes of the first UTF-8 sequence; an invalid byte counts alone.\<close>

definition byte_in :: "nat \<Rightarrow> nat \<Rightarrow> string \<Rightarrow> nat \<Rightarrow> bool" where
  "byte_in lo hi s i \<longleftrightarrow> i < length s \<and> lo \<le> (of_char (s ! i) :: nat) \<and> (of_char (s ! i) :: nat) \<le> hi"

definition rune_size :: "string \<Rightarrow> nat" where
  "rune_size s =
     (let cont = byte_in 0x80 0xBF s
      in if byte_in 0xC2 0xDF s 0 \<and> cont 1 then 2
         else if (byte_in 0xE0 0xE0 s 0 \<and> byte_in 0xA0 0xBF s 1 \<or> byte_in 0xE1 0xEC s 0 \<and> cont 1 \<or>
                  byte_in 0xED 0xED s 0 \<and> byte_in 0x80 0x9F s 1 \<or> byte_in 0xEE 0xEF s 0 \<and> cont 1) \<and> cont 2 then 3
         else if (byte_in 0xF0 0xF0 s 0 \<and> byte_in 0x90 0xBF s 1 \<or> byte_in 0xF1 0xF3 s 0 \<and> cont 1 \<or>
                  byte_in 0xF4 0xF4 s 0 \<and> byte_in 0x80 0x8F s 1) \<and> cont 2 \<and> cont 3 then 4
         else 1)"

lemma rune_size_pos [simp]: "0 < rune_size s"
  by (simp add: rune_size_def Let_def)

text \<open>\<^verbatim>\<open>strings.Split(s, "")\<close>.\<close>

function explode_utf8 :: "string \<Rightarrow> string list" where
  "explode_utf8 s = (if s = [] then [] else take (rune_size s) s # explode_utf8 (drop (rune_size s) s))"
  by auto
termination by (relation "measure length") simp_all

definition processFlagNames :: "string list \<Rightarrow> string list" where
  "processFlagNames flags =
     concat (map (\<lambda>flag. if length flag \<ge> 3 \<and> flag ! 0 = CHR ''-'' \<and> flag ! 1 \<noteq> CHR ''-'' then explode_utf8 (drop 1 flag)
                         else [dropWhile (\<lambda>c. c = CHR ''-'') flag]) flags)"

definition TraverseFlagNames :: "string list \<Rightarrow> string list" where
  "TraverseFlagNames args = processFlagNames (traverse_flags args [])"

section \<open>State and environment\<close>

record op_metrics =
  om_CliID :: string
  om_StartTime :: "int option"
  om_EndTime :: "int option"
  om_NameArg :: string
  om_CommandName :: string
  om_ExitStatus :: int
  om_PluginName :: string
  om_Flags :: string
  om_CliVersion :: string
  om_PluginVersion :: string
  om_Target :: string
  om_Endpoint :: string
  om_IsInternal :: bool
  om_Error :: string

record op_row =
  or_cliVersion :: string
  or_osName :: string
  or_osArch :: string
  or_pluginName :: string
  or_pluginVersion :: string
  or_command :: string
  or_cliID :: string
  or_commandStartTSMsec :: int
  or_commandEndTSMsec :: int
  or_target :: string
  or_nameArg :: string
  or_endpoint :: string
  or_flags :: string
  or_exitStatus :: int
  or_isInternal :: bool
  or_error :: string

datatype metrics_op = MdMkdir | MdOpen | MdCreate | MdLock | MdUnlock | MdQuery | MdInsert | MdDelete

record metrics_db =
  md_table :: bool
  md_rows :: "op_row list"
  md_locked :: bool
  md_fault :: "metrics_op \<Rightarrow> err option"

text \<open>A context of the configuration, as far as the metrics use it; a metadata value that is not a string is
  \<open>None\<close>.\<close>

record global_opts =
  go_Endpoint :: string
  go_RefreshToken :: string

record tele_context =
  tx_GlobalOpts :: "global_opts option"
  tx_AdditionalMetadata :: "(string \<times> string option) list"
  tx_JSON :: string

text \<open>The keys of the metadata of a Tanzu context, constants of the plugin runtime.\<close>

record metadata_keys =
  ProjectNameKey :: string
  ProjectIDKey :: string
  OrgIDKey :: string
  SpaceNameKey :: string
  ClusterGroupNameKey :: string

record 'b tele_env =
  te_keys :: metadata_keys
  te_ctree :: ctree_env
  te_yaml :: "'b ctree_yaml"
  te_Version :: string
  te_now :: int
  te_CLIId :: "string res"
  te_dbFile :: string
  te_SetTelemetryOptions :: "err option"
  te_json :: "(string \<times> string) list \<Rightarrow> string"
  te_environ :: environ
  te_platform :: platform
  te_ActiveContextsMap :: "(string \<times> tele_context) list option"
  te_CEIPOptIn :: string

record 'b tele_state =
  ts_metrics :: op_metrics
  ts_ctree :: "'b ctree_fs"
  ts_source :: "string option"
  ts_plugins :: "plugin_info list"
  ts_db :: metrics_db

record flag_value =
  fv_Name :: string
  fv_Value :: string
  fv_Type :: string

text \<open>The cobra command that runs: its path, its annotations and the flags that are set.\<close>

record tele_cmd =
  tm_CommandPath :: string
  tm_Annotations :: "(string \<times> string) list"
  tm_Flags :: "flag_value list"

section \<open>Endpoints\<close>

definition stringValue :: "string option option \<Rightarrow> string" where
  "stringValue val = (case val of None \<Rightarrow> '''' | Some None \<Rightarrow> '''' | Some (Some str) \<Rightarrow> str)"

definition computeEndpointSHAForTanzuContext :: "'v lib \<Rightarrow> metadata_keys \<Rightarrow> tele_context \<Rightarrow> string" where
  "computeEndpointSHAForTanzuContext L K ctx =
     (let meta = (\<lambda>k. stringValue (map_of (tx_AdditionalMetadata ctx) k));
          projectVal = (if meta (ProjectIDKey K) \<noteq> '''' then meta (ProjectIDKey K) else meta (ProjectNameKey K));
          endpoint = (case tx_GlobalOpts ctx of None \<Rightarrow> '''' | Some g \<Rightarrow> go_Endpoint g)
      in Sha256Hex L (endpoint @ meta (OrgIDKey K) @ projectVal @ meta (SpaceNameKey K) @ meta (ClusterGroupNameKey K)))"

definition computeEndpointSHAForTMCContext :: "'v lib \<Rightarrow> tele_context \<Rightarrow> string" where
  "computeEndpointSHAForTMCContext L ctx =
     (case tx_GlobalOpts ctx of None \<Rightarrow> '''' | Some g \<Rightarrow> Sha256Hex L (go_Endpoint g @ go_RefreshToken g))"

definition computeEndpointSHAForK8sContext :: "'v lib \<Rightarrow> tele_context \<Rightarrow> string" where
  "computeEndpointSHAForK8sContext L ctx = Sha256Hex L (tx_JSON ctx)"

definition computeEndpointSHAWithCtxTypePrefix :: "'v lib \<Rightarrow> metadata_keys \<Rightarrow> (string \<times> tele_context) list \<Rightarrow> string \<Rightarrow> string" where
  "computeEndpointSHAWithCtxTypePrefix L K curCtx targetType =
     (let k8s = map_option (\<lambda>ctx. ContextTypeK8s @ '':'' @ computeEndpointSHAForK8sContext L ctx) (map_of curCtx ContextTypeK8s);
          tanzu = map_option (\<lambda>ctx. ContextTypeTanzu @ '':'' @ computeEndpointSHAForTanzuContext L K ctx) (map_of curCtx ContextTypeTanzu);
          tmc = map_option (\<lambda>ctx. ContextTypeTMC @ '':'' @ computeEndpointSHAForTMCContext L ctx) (map_of curCtx ContextTypeTMC);
          first = (\<lambda>a b. case a of Some s \<Rightarrow> s | None \<Rightarrow> (case b of Some s \<Rightarrow> s | None \<Rightarrow> ''''))
      in if targetType = TargetK8s then first k8s tanzu
         else if targetType = TargetTMC then first tmc None
         else if targetType = TargetGlobal then first tanzu k8s else '''')"

definition getEndpointSHAWithCtxTypePrefix :: "'v lib \<Rightarrow> 'b tele_env \<Rightarrow> plugin_info \<Rightarrow> string" where
  "getEndpointSHAWithCtxTypePrefix L T p =
     (case te_ActiveContextsMap T of None \<Rightarrow> '''' | Some m \<Rightarrow> computeEndpointSHAWithCtxTypePrefix L (te_keys T) m (pi_Target p))"


section \<open>The command path of a plugin command\<close>

text \<open>A sub-command by name, else by alias; the sub-commands are visited in the order of the map.\<close>

definition subCommandMatchingArg :: "'v lib \<Rightarrow> command_node \<Rightarrow> string \<Rightarrow> command_node option" where
  "subCommandMatchingArg L current arg =
     (case map_of (Subcommands current) arg of
        Some subCMD \<Rightarrow> Some subCMD
      | None \<Rightarrow> List.find (\<lambda>subCMD. arg \<in> set (NodeAliases subCMD))
                  (map (\<lambda>k. the (map_of (Subcommands current) k)) (range_keys L (Subcommands current))))"

fun parse_path_loop :: "'v lib \<Rightarrow> string list \<Rightarrow> command_node option \<Rightarrow> string \<Rightarrow> string" where
  "parse_path_loop L [] current cmdPath = cmdPath"
| "parse_path_loop L (arg # args) current cmdPath =
     (case current of
        None \<Rightarrow> cmdPath
      | Some node \<Rightarrow>
          if Subcommands node = [] then cmdPath
          else if arg = ''--'' then cmdPath
          else if isFlagArg arg then parse_path_loop L args current cmdPath
          else (case subCommandMatchingArg L node arg of
                  None \<Rightarrow> parse_path_loop L args current cmdPath
                | Some subCMD \<Rightarrow>
                    parse_path_loop L args (Some subCMD) ((if cmdPath \<noteq> '''' then cmdPath @ '' '' else cmdPath) @ arg)))"

definition parsePluginCommandPath ::
    "'v lib \<Rightarrow> 'b tele_env \<Rightarrow> plugin_info \<Rightarrow> string list \<Rightarrow> 'b ctree_fs \<Rightarrow> ('b ctree_fs \<times> string res) option" where
  "parsePluginCommandPath L T p args w =
     (case NewCache (te_yaml T) w of
        Inl e \<Rightarrow> Some (w, Inl (Wrapf e ''failed to get plugin command tree cache'' []))
      | Inr c \<Rightarrow>
          (case GetPluginTree (te_ctree T) (te_yaml T) p c w of
             None \<Rightarrow> None
           | Some (c1, w1, Inl e) \<Rightarrow> Some (w1, Inl e)
           | Some (c1, w1, Inr pct) \<Rightarrow> Some (w1, Inr (parse_path_loop L args pct ''''))))"

section \<open>Metrics before and after a command\<close>

definition isHashRequiredForCmdFlags :: "string \<Rightarrow> bool" where
  "isHashRequiredForCmdFlags cmdPath =
     (let cmds = split_on CHR '' '' cmdPath
      in if length cmds < 2 then False else if cmds ! 1 = ''plugin'' then False else True)"

definition isHashRequiredForCmdArgs :: "string \<Rightarrow> bool" where
  "isHashRequiredForCmdArgs cmdPath =
     (let cmds = split_on CHR '' '' cmdPath
      in if length cmds < 2 then False else if cmds ! 1 = ''plugin'' then False else True)"

definition getIsInternalMetric :: "environ \<Rightarrow> bool" where
  "getIsInternalMetric env \<longleftrightarrow> to_lower (trim_space (getenv env ''TANZU_CLI_SUPERCOLLIDER_ENVIRONMENT'')) = ''staging''"

definition isCoreCommand :: "tele_cmd \<Rightarrow> bool" where
  "isCoreCommand cmd \<longleftrightarrow> map_of (tm_Annotations cmd) ''type'' \<noteq> Some ''plugin''"

text \<open>\<^verbatim>\<open>json.Marshal\<close> sorts the keys of a map.\<close>

definition json_of_map :: "'b tele_env \<Rightarrow> (string \<times> string) list \<Rightarrow> string" where
  "json_of_map T m = te_json T (map (\<lambda>k. (k, the (map_of m k))) (sort_by (<) (remdups (map fst m))))"

definition flagNamesToJSONString :: "'b tele_env \<Rightarrow> string list \<Rightarrow> string" where
  "flagNamesToJSONString T flagNames = json_of_map T (map (\<lambda>n. (n, '''')) flagNames)"

definition common_metrics :: "'b tele_env \<Rightarrow> string \<Rightarrow> op_metrics \<Rightarrow> op_metrics" where
  "common_metrics T cliID m =
     m\<lparr>om_CliID := cliID, om_CliVersion := te_Version T, om_IsInternal := getIsInternalMetric (te_environ T),
       om_StartTime := Some (te_now T)\<rparr>"

definition core_flag_map :: "'v lib \<Rightarrow> bool \<Rightarrow> flag_value list \<Rightarrow> (string \<times> string) list" where
  "core_flag_map L hashRequired flags =
     map (\<lambda>f. (fv_Name f, if \<not> hashRequired \<or> fv_Value f = '''' \<or> fv_Type f = ''bool'' then fv_Value f
                           else Sha256Hex L (fv_Value f))) flags"

definition updateMetricsForCoreCommand ::
    "'v lib \<Rightarrow> 'b tele_env \<Rightarrow> tele_cmd \<Rightarrow> string list \<Rightarrow> string \<Rightarrow> op_metrics \<Rightarrow> op_metrics" where
  "updateMetricsForCoreCommand L T cmd args cliID m =
     (let path = tm_CommandPath cmd;
          m1 = (common_metrics T cliID m)\<lparr>om_CommandName := join '' '' (drop 1 (split_on CHR '' '' path))\<rparr>;
          m2 = (if length args \<noteq> 0
                then m1\<lparr>om_NameArg := if isHashRequiredForCmdArgs path then Sha256Hex L (args ! 0) else args ! 0\<rparr> else m1);
          flagMap = core_flag_map L (isHashRequiredForCmdFlags path) (tm_Flags cmd)
      in if length flagMap \<noteq> 0 then m2\<lparr>om_Flags := json_of_map T flagMap\<rparr> else m2)"

definition pluginInfoFromCommand :: "plugin_info list \<Rightarrow> tele_cmd \<Rightarrow> plugin_info option" where
  "pluginInfoFromCommand installed cmd =
     (case map_of (tm_Annotations cmd) ''pluginInstallationPath'' of
        None \<Rightarrow> None
      | Some path \<Rightarrow> if path = '''' then None else List.find (\<lambda>p. path = pi_InstallationPath p) installed)"

definition updateMetricsForPlugin ::
    "'v lib \<Rightarrow> 'b tele_env \<Rightarrow> tele_cmd \<Rightarrow> string list \<Rightarrow> string \<Rightarrow> 'b tele_state \<Rightarrow> 'b tele_state option" where
  "updateMetricsForPlugin L T cmd args cliID s =
     (let m1 = common_metrics T cliID (ts_metrics s);
          flagNames = TraverseFlagNames args;
          m2 = (if length flagNames > 0 then m1\<lparr>om_Flags := flagNamesToJSONString T flagNames\<rparr> else m1)
      in case pluginInfoFromCommand (ts_plugins s) cmd of
           None \<Rightarrow> Some (s\<lparr>ts_metrics := m2\<rparr>)
         | Some p \<Rightarrow>
             let m3 = m2\<lparr>om_PluginName := pi_Name p, om_PluginVersion := pi_Version p, om_Target := pi_Target p,
                        om_Endpoint := getEndpointSHAWithCtxTypePrefix L T p\<rparr>;
                 cobraParsedCMDPath = drop 1 (split_on CHR '' '' (tm_CommandPath cmd))
             in (case parsePluginCommandPath L T p (cobraParsedCMDPath @ args) (ts_ctree s) of
                   None \<Rightarrow> None
                 | Some (w1, r) \<Rightarrow>
                     Some (s\<lparr>ts_ctree := w1, ts_metrics := m3\<lparr>om_CommandName :=
                       (case r of Inl e \<Rightarrow> join '' '' cobraParsedCMDPath | Inr cmdPath \<Rightarrow> cmdPath)\<rparr>\<rparr>)))"

definition ensureMetricsSource :: "'b tele_env \<Rightarrow> 'b tele_state \<Rightarrow> 'b tele_state \<times> err option" where
  "ensureMetricsSource T s =
     (if ts_source s = Some (te_dbFile T) then (s, None)
      else case te_SetTelemetryOptions T of
          Some e \<Rightarrow> (s, Some e)
        | None \<Rightarrow> (s\<lparr>ts_source := Some (te_dbFile T)\<rparr>, None))"

definition UpdateCmdPreRunMetrics ::
    "'v lib \<Rightarrow> 'b tele_env \<Rightarrow> tele_cmd \<Rightarrow> string list \<Rightarrow> 'b tele_state \<Rightarrow> ('b tele_state \<times> err option) option" where
  "UpdateCmdPreRunMetrics L T cmd args s =
     (case ensureMetricsSource T s of
        (s1, Some e) \<Rightarrow> Some (s1, Some (Wrapf e ''failed to ensure metrics source in the configuration file'' []))
      | (s1, None) \<Rightarrow>
          (case te_CLIId T of
             Inl e \<Rightarrow> Some (s1, Some (Wrapf e ''unable to get CLI Instance ID'' []))
           | Inr cliID \<Rightarrow>
               if isCoreCommand cmd
               then Some (s1\<lparr>ts_metrics := updateMetricsForCoreCommand L T cmd args cliID (ts_metrics s1)\<rparr>, None)
               else map_option (\<lambda>s2. (s2, None)) (updateMetricsForPlugin L T cmd args cliID s1)))"

text \<open>The argument is the exit code, or \<open>None\<close> for a \<^verbatim>\<open>nil\<close> pointer.\<close>

definition UpdateCmdPostRunMetrics :: "'b tele_env \<Rightarrow> int option \<Rightarrow> 'b tele_state \<Rightarrow> 'b tele_state \<times> err option" where
  "UpdateCmdPostRunMetrics T metrics s =
     (case metrics of
        None \<Rightarrow> (s, Some (Errorf ''post metrics data is required for update'' []))
      | Some code \<Rightarrow> (s\<lparr>ts_metrics := (ts_metrics s)\<lparr>om_ExitStatus := code, om_EndTime := Some (te_now T)\<rparr>\<rparr>, None))"

section \<open>The database\<close>

abbreviation TanzuCLITelemetryMaxRowCount :: nat where "TanzuCLITelemetryMaxRowCount \<equiv> 10000"
abbreviation metricsSendThresholdRowCount :: nat where "metricsSendThresholdRowCount \<equiv> 10"
abbreviation metricsSendMinTimeoutSecs :: nat where "metricsSendMinTimeoutSecs \<equiv> 2"

definition AcquireTanzuMetricDBLock :: "metrics_db \<Rightarrow> metrics_db \<times> err option" where
  "AcquireTanzuMetricDBLock d =
     (case md_fault d MdLock of
        Some e \<Rightarrow> (d, Some (Wrapf e ''cannot acquire lock for Tanzu CLI metrics DB'' []))
      | None \<Rightarrow> (d\<lparr>md_locked := True\<rparr>, None))"

definition ReleaseTanzuMetricDBLock :: "metrics_db \<Rightarrow> metrics_db option" where
  "ReleaseTanzuMetricDBLock d =
     (if \<not> md_locked d then Some d
      else case md_fault d MdUnlock of Some e \<Rightarrow> None | None \<Rightarrow> Some (d\<lparr>md_locked := False\<rparr>))"

text \<open>A body that runs with the lock held, which is released when the body has returned.\<close>

definition with_db_lock :: "(metrics_db \<Rightarrow> metrics_db \<times> 'a res) \<Rightarrow> metrics_db \<Rightarrow> (metrics_db \<times> 'a res) option" where
  "with_db_lock body d =
     (case AcquireTanzuMetricDBLock d of
        (d1, Some e) \<Rightarrow> Some (d1, Inl e)
      | (d1, None) \<Rightarrow> (case body d1 of (d2, r) \<Rightarrow> map_option (\<lambda>d3. (d3, r)) (ReleaseTanzuMetricDBLock d2)))"

definition query_count :: "metrics_db \<Rightarrow> nat res" where
  "query_count d =
     (case md_fault d MdQuery of
        Some e \<Rightarrow> Inl (Wrapf e ''failed to execute the DB query : %v'' [''SELECT count(*) FROM tanzu_cli_operations''])
      | None \<Rightarrow>
          if \<not> md_table d
          then Inl (Wrapf (Errorf ''no such table'' []) ''failed to execute the DB query : %v'' [''SELECT count(*) FROM tanzu_cli_operations''])
          else Inr (length (md_rows d)))"

definition isDBRowCountThresholdReached :: "metrics_db \<Rightarrow> bool res" where
  "isDBRowCountThresholdReached d =
     (case query_count d of Inl e \<Rightarrow> Inl e | Inr n \<Rightarrow> Inr (n \<ge> TanzuCLITelemetryMaxRowCount))"

definition metrics_CreateSchema :: "metrics_db \<Rightarrow> metrics_db \<times> err option" where
  "metrics_CreateSchema d =
     (case md_fault d MdMkdir of
        Some e \<Rightarrow> (d, Some e)
      | None \<Rightarrow>
          (case md_fault d MdOpen of
             Some e \<Rightarrow> (d, Some (Wrapf e ''failed to open the DB'' []))
           | None \<Rightarrow>
               (case md_fault d MdCreate of
                  Some e \<Rightarrow> (d, Some (Wrapf e ''error while creating tables to the database'' []))
                | None \<Rightarrow> (d\<lparr>md_table := True\<rparr>, None))))"

definition unix_milli :: "int option \<Rightarrow> int" where
  "unix_milli t = (case t of None \<Rightarrow> - 62135596800000 | Some n \<Rightarrow> n div 1000000)"

definition metric_row :: "platform \<Rightarrow> op_metrics \<Rightarrow> op_row" where
  "metric_row pf m =
     \<lparr>or_cliVersion = om_CliVersion m, or_osName = GOOS pf, or_osArch = GOARCH pf, or_pluginName = om_PluginName m,
      or_pluginVersion = om_PluginVersion m, or_command = om_CommandName m, or_cliID = om_CliID m,
      or_commandStartTSMsec = unix_milli (om_StartTime m), or_commandEndTSMsec = unix_milli (om_EndTime m),
      or_target = om_Target m, or_nameArg = om_NameArg m, or_endpoint = om_Endpoint m, or_flags = om_Flags m,
      or_exitStatus = om_ExitStatus m, or_isInternal = om_IsInternal m, or_error = om_Error m\<rparr>"

definition row_key :: "op_row \<Rightarrow> string \<times> string \<times> int" where
  "row_key r = (or_cliID r, or_command r, or_commandStartTSMsec r)"

text \<open>The primary key is the instance, the command and the start time.\<close>

definition insert_row :: "op_row \<Rightarrow> metrics_db \<Rightarrow> metrics_db \<times> unit res" where
  "insert_row row d =
     (case md_fault d MdInsert of
        Some e \<Rightarrow> (d, Inl (Wrapf e ''unable to insert clioperations row %v'' []))
      | None \<Rightarrow>
          if row_key row \<in> row_key ` set (md_rows d)
          then (d, Inl (Wrapf (Errorf ''UNIQUE constraint failed'' []) ''unable to insert clioperations row %v'' []))
          else (d\<lparr>md_rows := md_rows d @ [row]\<rparr>, Inr ()))"

definition SaveOperationMetric :: "platform \<Rightarrow> op_metrics \<Rightarrow> metrics_db \<Rightarrow> (metrics_db \<times> unit res) option" where
  "SaveOperationMetric pf m =
     with_db_lock (\<lambda>d.
       case md_fault d MdOpen of
         Some e \<Rightarrow> (d, Inl (Wrapf e ''failed to open the DB'' []))
       | None \<Rightarrow>
           (case isDBRowCountThresholdReached d of
              Inl e \<Rightarrow> (d, Inl (Wrapf e ''failed to validate the DB size threshold'' []))
            | Inr atThreshold \<Rightarrow>
                if atThreshold then (d, Inl (Errorf ''metrics DB size threshold reached'' []))
                else insert_row (metric_row pf m) d))"

definition GetRowCount :: "metrics_db \<Rightarrow> (metrics_db \<times> nat res) option" where
  "GetRowCount =
     with_db_lock (\<lambda>d. (d, case md_fault d MdOpen of Some e \<Rightarrow> Inl (Wrapf e ''failed to open the DB'' []) | None \<Rightarrow> query_count d))"

definition ClearMetricData :: "metrics_db \<Rightarrow> (metrics_db \<times> unit res) option" where
  "ClearMetricData =
     with_db_lock (\<lambda>d.
       case md_fault d MdOpen of
         Some e \<Rightarrow> (d, Inl (Wrapf e ''failed to open the DB'' []))
       | None \<Rightarrow>
           (case md_fault d MdDelete of
              Some e \<Rightarrow> (d, Inl (Wrapf e ''failed to execute the DB query : %v'' [''DELETE FROM tanzu_cli_operations'']))
            | None \<Rightarrow> (d\<lparr>md_rows := []\<rparr>, Inr ())))"

section \<open>Saving and sending\<close>

definition SaveMetrics :: "'b tele_env \<Rightarrow> 'b tele_state \<Rightarrow> ('b tele_state \<times> err option) option" where
  "SaveMetrics T s =
     (if om_StartTime (ts_metrics s) = None then Some (s, None)
      else case metrics_CreateSchema (ts_db s) of
          (d1, Some e) \<Rightarrow> Some (s\<lparr>ts_db := d1\<rparr>, Some (Wrapf e ''unable to create the telemetry schema'' []))
        | (d1, None) \<Rightarrow>
            map_option (\<lambda>(d2, r). (s\<lparr>ts_db := d2\<rparr>, case r of Inl e \<Rightarrow> Some e | Inr _ \<Rightarrow> None))
              (if \<not> parse_bool_or_false (te_CEIPOptIn T) then ClearMetricData d1
               else SaveOperationMetric (te_platform T) (ts_metrics s) d1))"

definition shouldSendTelemetryData :: "'b tele_env \<Rightarrow> metrics_db \<Rightarrow> (metrics_db \<times> bool) option" where
  "shouldSendTelemetryData T d =
     (if \<not> parse_bool_or_false (te_CEIPOptIn T) then Some (d, False)
      else map_option (\<lambda>(d1, r). (d1, case r of Inl e \<Rightarrow> False | Inr n \<Rightarrow> n \<ge> metricsSendThresholdRowCount)) (GetRowCount d))"

text \<open>One second for every thousand rows that were begun, at least two.\<close>

definition getTimeout :: "metrics_db \<Rightarrow> (metrics_db \<times> nat) option" where
  "getTimeout d =
     map_option (\<lambda>(d1, r). (d1, case r of Inl e \<Rightarrow> metricsSendMinTimeoutSecs
       | Inr n \<Rightarrow> max ((n + 999) div 1000) metricsSendMinTimeoutSecs)) (GetRowCount d)"

definition getTelemetryPluginInstalled :: "plugin_info list \<Rightarrow> plugin_info res" where
  "getTelemetryPluginInstalled installed =
     (case List.find (\<lambda>p. pi_Name p = ''telemetry'' \<and> pi_Target p = TargetGlobal) installed of
        Some p \<Rightarrow> Inr p
      | None \<Rightarrow> Inl (Errorf ''telemetry plugin not found, it is required to send telemetry data to supercollider, please install the plugin'' []))"

text \<open>The plugin process drains the database itself; \<open>itoa\<close> formats the timeout. The result lists the
  arguments of the process that was run.\<close>

definition SendMetrics ::
    "'b tele_env \<Rightarrow> (nat \<Rightarrow> string) \<Rightarrow> nat \<Rightarrow> 'b tele_state \<Rightarrow> ('b tele_state \<times> runner option \<times> err option) option" where
  "SendMetrics T itoa timeoutInSecs s =
     (case shouldSendTelemetryData T (ts_db s) of
        None \<Rightarrow> None
      | Some (d1, False) \<Rightarrow> Some (s\<lparr>ts_db := d1\<rparr>, None, None)
      | Some (d1, True) \<Rightarrow>
          (case getTelemetryPluginInstalled (ts_plugins s) of
             Inl e \<Rightarrow> Some (s\<lparr>ts_db := d1\<rparr>, None, Some (Wrapf e ''unable to get the telemetry plugin'' []))
           | Inr p \<Rightarrow>
               (case (if timeoutInSecs = 0 then getTimeout d1 else Some (d1, timeoutInSecs)) of
                  None \<Rightarrow> None
                | Some (d2, timeout) \<Rightarrow>
                    let r = NewRunner (pi_Name p) (pi_InstallationPath p)
                              ([''cli-usage-analytics'', ''collect'', ''-q''] @ [''--timeout'', itoa timeout])
                    in (case runner_RunOutput (ct_proc (te_ctree T)) (te_platform T) (te_environ T) r of
                          (stdout, stdErr, e) \<Rightarrow>
                            Some (s\<lparr>ts_db := d2\<rparr>, Some r, map_option (\<lambda>e. Wrapf e stdErr []) e)))))"

end
