(* ===== verification/Telemetry_Correct.thy ===== *)
theory Telemetry_Correct
  imports Telemetry Semver_Utils
begin

text \<open>
  What the usage metrics reveal and how much is kept: the record of a command does not depend on the values of
  flags and on arguments of plugin commands, and on those of core commands only through a hash; nothing is
  kept or sent without the user's consent; the database stays bounded and its lock free. At the end, waiting for that lock.
\<close>

section \<open>Plugin commands\<close>

primrec tree_words :: "command_node \<Rightarrow> string list" where
  "tree_words (CommandNode subs aliases processed) =
     aliases @ map fst subs @ concat (map snd (map (map_prod id tree_words) subs))"

text \<open>Two arguments the record must not distinguish: flags with different values after the equals sign, and
  arguments that are no flags and name no command.\<close>

definition same_shape :: "string set \<Rightarrow> string \<Rightarrow> string \<Rightarrow> bool" where
  "same_shape ws a b \<longleftrightarrow> a = b \<or>
     (\<exists>n v v'. a = n @ ''='' @ v \<and> b = n @ ''='' @ v' \<and> CHR ''='' \<notin> set n \<and> has_prefix n ''-'') \<or>
     (\<forall>x \<in> {a, b}. \<not> isFlagArg x \<and> x \<noteq> ''--'' \<and> x \<notin> ws)"

lemma flag_with_value:
  assumes "CHR ''='' \<notin> set n" "has_prefix n ''-''"
  shows "isFlagArg (n @ ''='' @ v)" "n @ ''='' @ v \<noteq> ''--''" "split_on CHR ''='' (n @ ''='' @ v) ! 0 = n"
proof -
  obtain n' where n: "n = CHR ''-'' # n'" using assms(2) by (auto simp: has_prefix_iff)
  show "isFlagArg (n @ ''='' @ v)" using n by (cases n') (auto simp: isFlagArg_def)
  have "CHR ''='' \<in> set (n @ ''='' @ v)" "CHR ''='' \<notin> set ''--''" by simp_all
  then show "n @ ''='' @ v \<noteq> ''--''" by metis
  show "split_on CHR ''='' (n @ ''='' @ v) ! 0 = n" using split_on_append [OF assms(1), of v] by simp
qed

lemma no_flag_skipped:
  assumes "\<not> isFlagArg x" "x \<noteq> ''--''"
  shows "traverse_flags (x # args) flags = traverse_flags args flags"
proof -
  have "\<not> has_prefix x ''--''" "\<not> (has_prefix x ''-'' \<and> length x = 2)"
    using assms by (auto simp: isFlagArg_def has_prefix_def take_Cons' nth_Cons' length_Suc_conv numeral_2_eq_2 split: if_splits)
  then show ?thesis using assms by auto
qed

lemma traverse_same:
  "list_all2 (same_shape ws) args args' \<Longrightarrow> traverse_flags args flags = traverse_flags args' flags"
proof (induction args args' arbitrary: flags rule: list_all2_induct)
  case (Cons a as b bs)
  consider "a = b" | n v v' where "a = n @ ''='' @ v" "b = n @ ''='' @ v'" "CHR ''='' \<notin> set n" "has_prefix n ''-''"
    | "\<not> isFlagArg a" "a \<noteq> ''--''" "\<not> isFlagArg b" "b \<noteq> ''--''"
    using Cons.hyps(1) by (auto simp: same_shape_def)
  then show ?case
  proof cases
    case 2
    then show ?thesis using Cons.IH flag_with_value [OF 2(3,4)] by simp
  next
    case 3
    show ?thesis unfolding no_flag_skipped [OF 3(1,2)] no_flag_skipped [OF 3(3,4)] by (rule Cons.IH)
  qed (simp add: Cons.IH)
qed simp


lemma sub_words:
  assumes "range_law L" "subCommandMatchingArg L node arg = Some c"
  shows "arg \<in> set (tree_words node) \<and> set (tree_words c) \<subseteq> set (tree_words node)"
proof -
  obtain subs aliases pr where node: "node = CommandNode subs aliases pr" by (cases node)
  have sub: "set (tree_words c) \<subseteq> set (tree_words node)" if "map_of subs k = Some c" for k c
    using map_of_SomeD [OF that] by (force simp: node)
  have own: "set (NodeAliases c) \<subseteq> set (tree_words c)" for c by (cases c) auto
  show ?thesis
  proof (cases "map_of subs arg")
    case None
    with assms(2) have "List.find (\<lambda>s. arg \<in> set (NodeAliases s)) (map (\<lambda>k. the (map_of subs k)) (range_keys L subs)) = Some c"
      by (simp add: subCommandMatchingArg_def node)
    then obtain k where k: "k \<in> set (range_keys L subs)" "c = the (map_of subs k)" "arg \<in> set (NodeAliases c)"
      by (auto simp: find_Some_iff) (metis nth_mem)
    then have "map_of subs k = Some c" using assms(1) by (auto simp: keys_of_def map_of_eq_None_iff dest!: weak_map_of_SomeI)
    with sub own k(3) show ?thesis by blast
  next
    case (Some d)
    with assms(2) have "d = c" by (simp add: subCommandMatchingArg_def node)
    then show ?thesis using Some sub map_of_SomeD [OF Some] by (force simp: node)
  qed
qed

lemma parse_same:
  assumes "range_law L" "list_all2 (same_shape ws) args args'" "\<And>t. cur = Some t \<Longrightarrow> set (tree_words t) \<subseteq> ws"
  shows "parse_path_loop L args cur path = parse_path_loop L args' cur path"
  using assms(2,3)
proof (induction args args' arbitrary: cur path rule: list_all2_induct)
  case (Cons a as b bs)
  show ?case
  proof (cases cur)
    case (Some t)
    have sub: "set (tree_words c) \<subseteq> ws" "x \<in> ws" if "subCommandMatchingArg L t x = Some c" for x c
      using sub_words [OF assms(1) that] Cons.prems [OF Some] by blast+
    consider "a = b" | "isFlagArg a" "a \<noteq> ''--''" "isFlagArg b" "b \<noteq> ''--''"
      | "\<not> isFlagArg a" "a \<noteq> ''--''" "a \<notin> ws" "\<not> isFlagArg b" "b \<noteq> ''--''" "b \<notin> ws"
      using Cons.hyps(1) flag_with_value by (auto simp: same_shape_def)
    moreover have stay: "parse_path_loop L as (Some t) path = parse_path_loop L bs (Some t) path" for path
      using Cons.IH [of "Some t"] Cons.prems [OF Some] by simp
    moreover have go: "parse_path_loop L as (Some c) path = parse_path_loop L bs (Some c) path"
      if "subCommandMatchingArg L t x = Some c" for x c path
      using Cons.IH [of "Some c"] sub(1) [OF that] by simp
    ultimately show ?thesis
    proof cases
      case 1
      then show ?thesis using Some stay go [of b] by (cases "subCommandMatchingArg L t b") simp_all
    next
      case 2
      then show ?thesis using Some stay by simp
    next
      case 3
      then have "subCommandMatchingArg L t a = None" "subCommandMatchingArg L t b = None"
        using sub by (meson not_Some_eq)+
      with 3 show ?thesis using Some stay by simp
    qed
  qed simp
qed simp

text \<open>C16 (safety): what is recorded before a plugin command runs does not depend on the values given to flags after an
  equals sign, nor on arguments that are no flags and name no command or alias of the tree of the plugin. A value attached
  to a short flag, as in \<^verbatim>\<open>-psecret\<close>, is not protected: its letters are recorded as names of flags
  (\<open>attached_short_value_recorded\<close>).\<close>

theorem plugin_metrics_private:
  assumes "range_law L" "\<not> isCoreCommand cmd" "list_all2 (same_shape ws) args args'"
    "\<forall>p c c1 w1 t. pluginInfoFromCommand (ts_plugins s) cmd = Some p \<and> NewCache (te_yaml T) (ts_ctree s) = Inr c \<and>
       GetPluginTree (te_ctree T) (te_yaml T) p c (ts_ctree s) = Some (c1, w1, Inr (Some t)) \<longrightarrow> set (tree_words t) \<subseteq> ws"
  shows "UpdateCmdPreRunMetrics L T cmd args s = UpdateCmdPreRunMetrics L T cmd args' s"
proof -
  have flags: "TraverseFlagNames args = TraverseFlagNames args'"
    using traverse_same [OF assms(3)] by (simp add: TraverseFlagNames_def)
  have "list_all2 (same_shape ws) (pre @ args) (pre @ args')" for pre
    using assms(3) by (auto simp: list_all2_appendI list_all2_refl same_shape_def)
  then have path: "parse_path_loop L (pre @ args) cur q = parse_path_loop L (pre @ args') cur q"
    if "\<And>t. cur = Some t \<Longrightarrow> set (tree_words t) \<subseteq> ws" for pre cur q
    using parse_same [OF assms(1)] that by blast
  have parse: "parsePluginCommandPath L T p (pre @ args) (ts_ctree s) = parsePluginCommandPath L T p (pre @ args') (ts_ctree s)"
    if p: "pluginInfoFromCommand (ts_plugins s) cmd = Some p" for p pre
  proof (cases "\<exists>c c1 w1 cur. NewCache (te_yaml T) (ts_ctree s) = Inr c \<and>
      GetPluginTree (te_ctree T) (te_yaml T) p c (ts_ctree s) = Some (c1, w1, Inr cur)")
    case True
    then obtain c c1 w1 cur where c: "NewCache (te_yaml T) (ts_ctree s) = Inr c"
      "GetPluginTree (te_ctree T) (te_yaml T) p c (ts_ctree s) = Some (c1, w1, Inr cur)" by blast
    with assms(4) have "set (tree_words t) \<subseteq> ws" if "cur = Some t" for t using that p by blast
    with c path [of cur pre "''''"] show ?thesis by (simp add: parsePluginCommandPath_def)
  next
    case False
    then show ?thesis by (auto simp: parsePluginCommandPath_def split: sum.splits option.splits prod.splits)
  qed
  have "updateMetricsForPlugin L T cmd args i s1 = updateMetricsForPlugin L T cmd args' i s1" if "ts_ctree s1 = ts_ctree s" "ts_plugins s1 = ts_plugins s" for i s1
    using that parse by (simp add: updateMetricsForPlugin_def flags Let_def split: option.splits)
  moreover have "ts_ctree (fst (ensureMetricsSource T s)) = ts_ctree s" "ts_plugins (fst (ensureMetricsSource T s)) = ts_plugins s"
    by (auto simp: ensureMetricsSource_def split: option.splits)
  ultimately show ?thesis
    using assms(2) by (auto simp: UpdateCmdPreRunMetrics_def split: prod.splits option.splits sum.splits)
qed


section \<open>Core commands\<close>

text \<open>Two values of a flag with the same hash; values of boolean flags and empty values are not hashed.\<close>

definition same_hash :: "'v lib \<Rightarrow> flag_value \<Rightarrow> flag_value \<Rightarrow> bool" where
  "same_hash L f g \<longleftrightarrow> fv_Name f = fv_Name g \<and> fv_Type f = fv_Type g \<and>
     (fv_Value f = fv_Value g \<or>
      fv_Type f \<noteq> ''bool'' \<and> fv_Value f \<noteq> '''' \<and> fv_Value g \<noteq> '''' \<and> Sha256Hex L (fv_Value f) = Sha256Hex L (fv_Value g))"

lemma core_flags_same:
  "list_all2 (same_hash L) flags flags' \<Longrightarrow> core_flag_map L True flags = core_flag_map L True flags'"
  by (induction rule: list_all2_induct) (auto simp: core_flag_map_def same_hash_def)

text \<open>The metrics of a core command, other than one below \<^verbatim>\<open>tanzu plugin\<close>, depend on its arguments and on
  the values of its flags only through their hashes (empty and boolean values apart), and on no argument
  but the first.\<close>

theorem core_metrics_private:
  assumes "isCoreCommand cmd" "split_on CHR '' '' (tm_CommandPath cmd) = root # sub # path" "sub \<noteq> ''plugin''"
    "list_all2 (same_hash L) (tm_Flags cmd) flags'" "cmd' = cmd\<lparr>tm_Flags := flags'\<rparr>"
    "map (Sha256Hex L) (take 1 args) = map (Sha256Hex L) (take 1 args')"
  shows "UpdateCmdPreRunMetrics L T cmd args s = UpdateCmdPreRunMetrics L T cmd' args' s"
proof -
  have hash: "isHashRequiredForCmdArgs (tm_CommandPath cmd)" "isHashRequiredForCmdFlags (tm_CommandPath cmd)"
    using assms(2,3) by (simp_all add: isHashRequiredForCmdArgs_def isHashRequiredForCmdFlags_def)
  have arg: "args = [] \<longleftrightarrow> args' = []" "args \<noteq> [] \<Longrightarrow> Sha256Hex L (args ! 0) = Sha256Hex L (args' ! 0)"
    using assms(6) by (cases args; cases args'; simp)+
  have "updateMetricsForCoreCommand L T cmd args i m = updateMetricsForCoreCommand L T cmd' args' i m" for i m
    using arg by (simp add: updateMetricsForCoreCommand_def assms(5) hash core_flags_same [OF assms(4)] Let_def)
  moreover have "isCoreCommand cmd'" using assms(1,5) by (simp add: isCoreCommand_def)
  ultimately show ?thesis using assms(1)
    by (auto simp: UpdateCmdPreRunMetrics_def split: prod.splits option.splits sum.splits)
qed

section \<open>The database\<close>

definition metrics_ok :: "metrics_db \<Rightarrow> bool" where
  "metrics_ok d \<longleftrightarrow> length (md_rows d) \<le> TanzuCLITelemetryMaxRowCount \<and> distinct (map row_key (md_rows d)) \<and> \<not> md_locked d"

lemma with_db_lock_frame:
  assumes "with_db_lock body d = Some (d', r)" "\<not> md_locked d"
    "\<And>d1 d2 r. body d1 = (d2, r) \<Longrightarrow> md_locked d1 \<Longrightarrow> md_rows d1 = md_rows d \<Longrightarrow> P (md_rows d2) \<and> md_locked d2" "P (md_rows d)"
  shows "P (md_rows d') \<and> \<not> md_locked d'"
  using assms by (fastforce simp: with_db_lock_def AcquireTanzuMetricDBLock_def ReleaseTanzuMetricDBLock_def
      split: option.splits prod.splits if_splits)

definition rows_ok :: "op_row list \<Rightarrow> bool" where
  "rows_ok rows \<longleftrightarrow> length rows \<le> TanzuCLITelemetryMaxRowCount \<and> distinct (map row_key rows)"

lemma insert_row_ok:
  "insert_row r d = (d', x) \<Longrightarrow> rows_ok (md_rows d) \<Longrightarrow> length (md_rows d) < TanzuCLITelemetryMaxRowCount \<Longrightarrow>
     rows_ok (md_rows d') \<and> md_locked d' = md_locked d"
  by (auto simp: insert_row_def rows_ok_def split: option.splits if_splits)

lemma save_row_ok:
  assumes "SaveOperationMetric pf m d = Some (d', r)" "\<not> md_locked d" "rows_ok (md_rows d)"
  shows "rows_ok (md_rows d') \<and> \<not> md_locked d'"
  by (rule with_db_lock_frame [where P = rows_ok, OF assms(1) [unfolded SaveOperationMetric_def] assms(2) _ assms(3)])
    (use assms(3) insert_row_ok in \<open>fastforce simp: isDBRowCountThresholdReached_def query_count_def split: option.splits sum.splits if_splits\<close>)

lemma clear_ok:
  assumes "ClearMetricData d = Some (d', r)" "\<not> md_locked d" "rows_ok (md_rows d)"
  shows "rows_ok (md_rows d') \<and> \<not> md_locked d'"
  by (rule with_db_lock_frame [where P = rows_ok, OF assms(1) [unfolded ClearMetricData_def] assms(2) _ assms(3)])
    (use assms(3) in \<open>auto simp: rows_ok_def split: option.splits\<close>)

lemma count_ok:
  assumes "GetRowCount d = Some (d', r)" "\<not> md_locked d"
  shows "md_rows d' = md_rows d \<and> \<not> md_locked d'"
  by (rule with_db_lock_frame [where P = "\<lambda>rows. rows = md_rows d", OF assms(1) [unfolded GetRowCount_def] assms(2)]) auto

lemma metrics_ok_alt: "metrics_ok d \<longleftrightarrow> rows_ok (md_rows d) \<and> \<not> md_locked d"
  by (auto simp: metrics_ok_def rows_ok_def)

text \<open>C17 (invariant): the metrics database stays bounded and usable. Saving and sending keep at most 10000 rows with
  distinct keys, and leave the lock free, whichever operation fails.\<close>

theorem metrics_database_bounded:
  assumes "metrics_ok (ts_db s)"
  shows "(\<forall>s' e. SaveMetrics T s = Some (s', e) \<longrightarrow> metrics_ok (ts_db s')) \<and>
    (\<forall>s' r e. SendMetrics T itoa timeout s = Some (s', r, e) \<longrightarrow> metrics_ok (ts_db s'))"
proof (intro conjI allI impI)
  fix s' e assume run: "SaveMetrics T s = Some (s', e)"
  obtain d1 e1 where d1: "metrics_CreateSchema (ts_db s) = (d1, e1)" by force
  then have "metrics_ok d1" using assms by (auto simp: metrics_CreateSchema_def metrics_ok_def split: option.splits)
  then show "metrics_ok (ts_db s')"
    using run d1 assms save_row_ok [of _ _ d1] clear_ok [of d1]
    by (auto simp: SaveMetrics_def metrics_ok_alt split: if_splits option.splits prod.splits)
next
  fix s' r e assume run: "SendMetrics T itoa timeout s = Some (s', r, e)"
  have should: "metrics_ok d'" if "shouldSendTelemetryData T d = Some (d', b)" "metrics_ok d" for d d' b
    using that count_ok [of d] by (auto simp: shouldSendTelemetryData_def metrics_ok_alt split: if_splits)
  have time: "metrics_ok d'" if "getTimeout d = Some (d', n)" "metrics_ok d" for d d' n
    using that count_ok [of d] by (auto simp: getTimeout_def metrics_ok_alt)
  show "metrics_ok (ts_db s')"
    using run assms should time
    by (auto simp: SendMetrics_def Let_def split: option.splits prod.splits bool.splits sum.splits if_splits)
qed

text \<open>Without consent nothing is kept and nothing is sent. When the user has not opted in, saving the
  metrics of a command without an error leaves no row in the database, and sending runs no process.\<close>

theorem opt_out_respected:
  assumes "\<not> parse_bool_or_false (te_CEIPOptIn T)"
  shows "(SaveMetrics T s = Some (s', None) \<and> om_StartTime (ts_metrics s) \<noteq> None \<longrightarrow> md_rows (ts_db s') = []) \<and>
    SendMetrics T itoa timeout s = Some (s, None, None)"
proof -
  have "md_rows d' = []" if "ClearMetricData d = Some (d', Inr u)" for d d' u
    using that by (auto simp: ClearMetricData_def with_db_lock_def AcquireTanzuMetricDBLock_def ReleaseTanzuMetricDBLock_def
        split: option.splits if_splits prod.splits)
  then show ?thesis using assms
    by (auto simp: SaveMetrics_def SendMetrics_def shouldSendTelemetryData_def split: if_splits prod.splits option.splits sum.splits)
      (metis (full_types) old.unit.exhaust sumE)
qed

section \<open>Witnesses\<close>

definition demo_tele :: "string \<Rightarrow> command_tree option option tele_env" where
  "demo_tele optIn = \<lparr>te_keys = \<lparr>ProjectNameKey = ''p'', ProjectIDKey = ''i'', OrgIDKey = ''o'', SpaceNameKey = ''s'', ClusterGroupNameKey = ''c''\<rparr>,
     te_ctree = demo_ctree, te_yaml = ctree_mem, te_Version = ''v1.5.0'', te_now = 5000000, te_CLIId = Inr ''id'', te_dbFile = ''db'',
     te_SetTelemetryOptions = None, te_json = concat \<circ> map fst, te_environ = (\<lambda>_. None), te_platform = \<lparr>GOOS = ''linux'', GOARCH = ''amd64''\<rparr>,
     te_ActiveContextsMap = None, te_CEIPOptIn = optIn\<rparr>"

definition demo_tstate :: "command_tree option option tele_state" where
  "demo_tstate = \<lparr>ts_metrics = \<lparr>om_CliID = '''', om_StartTime = None, om_EndTime = None, om_NameArg = '''', om_CommandName = '''', om_ExitStatus = 0,
       om_PluginName = '''', om_Flags = '''', om_CliVersion = '''', om_PluginVersion = '''', om_Target = '''', om_Endpoint = '''', om_IsInternal = False, om_Error = ''''\<rparr>,
     ts_ctree = no_ctree None, ts_source = None, ts_plugins = [demo_cluster],
     ts_db = \<lparr>md_table = False, md_rows = [], md_locked = False, md_fault = (\<lambda>_. None)\<rparr>\<rparr>"

definition demo_cluster_cmd :: tele_cmd where
  "demo_cluster_cmd = \<lparr>tm_CommandPath = ''tanzu cluster'', tm_Annotations = [(''type'', ''plugin''), (''pluginInstallationPath'', ''/p/cluster'')], tm_Flags = []\<rparr>"

theorem plugin_metrics_private_witness:
  "UpdateCmdPreRunMetrics dotted_lib (demo_tele ''true'') demo_cluster_cmd [''list'', ''--name=mine'', ''prod''] demo_tstate =
   UpdateCmdPreRunMetrics dotted_lib (demo_tele ''true'') demo_cluster_cmd [''list'', ''--name=other'', ''staging''] demo_tstate"
proof (rule plugin_metrics_private [where ws = "UNIV - {''prod'', ''staging''}"])
  show "range_law dotted_lib" by (rule dotted_range_law)
  show "\<not> isCoreCommand demo_cluster_cmd" by code_simp
  have "same_shape (UNIV - {''prod'', ''staging''}) ''--name=mine'' ''--name=other''"
    unfolding same_shape_def by (intro disjI2 disjI1 exI [of _ "''--name''"] exI [of _ "''mine''"] exI [of _ "''other''"]) (simp add: has_prefix_def)
  moreover have "\<not> isFlagArg ''prod''" "\<not> isFlagArg ''staging''" by code_simp+
  ultimately show "list_all2 (same_shape (UNIV - {''prod'', ''staging''})) [''list'', ''--name=mine'', ''prod''] [''list'', ''--name=other'', ''staging'']"
    by (simp add: same_shape_def)
  have "case GetPluginTree demo_ctree ctree_mem demo_cluster (Some []) (no_ctree None) of
      Some (c1, w1, Inr (Some t)) \<Rightarrow> ''prod'' \<notin> set (tree_words t) \<and> ''staging'' \<notin> set (tree_words t) | _ \<Rightarrow> True"
    "pluginInfoFromCommand (ts_plugins demo_tstate) demo_cluster_cmd = Some demo_cluster"
    by code_simp+
  then show "\<forall>p c c1 w1 t. pluginInfoFromCommand (ts_plugins demo_tstate) demo_cluster_cmd = Some p \<and>
     NewCache (te_yaml (demo_tele ''true'')) (ts_ctree demo_tstate) = Inr c \<and>
     GetPluginTree (te_ctree (demo_tele ''true'')) (te_yaml (demo_tele ''true'')) p c (ts_ctree demo_tstate) = Some (c1, w1, Inr (Some t)) \<longrightarrow>
     set (tree_words t) \<subseteq> UNIV - {''prod'', ''staging''}"
    by (auto simp: demo_tele_def demo_tstate_def NewCache_def getPluginCommandTree_def no_ctree_def)
qed

theorem core_metrics_private_witness:
  "UpdateCmdPreRunMetrics (dotted_lib\<lparr>Sha256Hex := (\<lambda>s. if s = ''a'' \<or> s = ''b'' then ''h'' else s)\<rparr>) (demo_tele ''true'')
     \<lparr>tm_CommandPath = ''tanzu context create'', tm_Annotations = [], tm_Flags = [\<lparr>fv_Name = ''token'', fv_Value = ''a'', fv_Type = ''string''\<rparr>]\<rparr> [''b''] demo_tstate =
   UpdateCmdPreRunMetrics (dotted_lib\<lparr>Sha256Hex := (\<lambda>s. if s = ''a'' \<or> s = ''b'' then ''h'' else s)\<rparr>) (demo_tele ''true'')
     \<lparr>tm_CommandPath = ''tanzu context create'', tm_Annotations = [], tm_Flags = [\<lparr>fv_Name = ''token'', fv_Value = ''b'', fv_Type = ''string''\<rparr>]\<rparr> [''a''] demo_tstate"
  by (rule core_metrics_private [where root = "''tanzu''" and sub = "''context''" and path = "[''create'']"])
    (simp_all add: isCoreCommand_def same_hash_def)

theorem metrics_database_bounded_witness:
  "\<exists>s' e. SaveMetrics (demo_tele ''true'') (demo_tstate\<lparr>ts_metrics := (ts_metrics demo_tstate)\<lparr>om_StartTime := Some 0\<rparr>\<rparr>) = Some (s', e) \<and>
     length (md_rows (ts_db s')) = 1 \<and> metrics_ok (ts_db s')"
proof -
  let ?s = "demo_tstate\<lparr>ts_metrics := (ts_metrics demo_tstate)\<lparr>om_StartTime := Some 0\<rparr>\<rparr>"
  have "case SaveMetrics (demo_tele ''true'') ?s of Some (s', e) \<Rightarrow> length (md_rows (ts_db s')) = 1 | None \<Rightarrow> False" by code_simp
  then obtain s' e where "SaveMetrics (demo_tele ''true'') ?s = Some (s', e)" "length (md_rows (ts_db s')) = 1"
    by (auto split: option.splits)
  moreover have "metrics_ok (ts_db ?s)" by (simp add: metrics_ok_def demo_tstate_def)
  ultimately show ?thesis using metrics_database_bounded [of ?s "demo_tele ''true''"] by blast
qed

theorem opt_out_respected_witness:
  "SendMetrics (demo_tele ''false'') (\<lambda>n. ''1'') 0 demo_tstate = Some (demo_tstate, None, None)"
proof -
  have "\<not> parse_bool_or_false (te_CEIPOptIn (demo_tele ''false''))" by code_simp
  from opt_out_respected [OF this] show ?thesis by blast
qed


text \<open>The value attached to a short flag is recorded letter by letter, as if it were a list of short flags.\<close>

lemma attached_short_value_recorded: "TraverseFlagNames [''-psecret''] = [''p'', ''s'', ''e'', ''c'', ''r'', ''e'', ''t'']"
  by code_simp

text \<open>
  Waiting for the lock of the metrics database with a timeout, \<^verbatim>\<open>getFileLockWithTimeout\<close> of \<^verbatim>\<open>pkg/telemetry/metrics_db_lock.go\<close>.
  A goroutine takes the file lock, the caller waits for its result or for the timer. The state is the file lock, which other
  processes take and release as well, the channel \<^verbatim>\<open>cancel\<close>, and where the goroutine and the caller are. The channel
  \<^verbatim>\<open>result\<close> has no buffer: sending is one step with receiving.
\<close>

section \<open>The state and its steps\<close>

datatype lock_owner = FreeLock | OwnLock | OtherLock

text \<open>The goroutine is in \<^verbatim>\<open>flock.Lock()\<close>, at its \<^verbatim>\<open>select\<close> with the error of \<^verbatim>\<open>Lock\<close>, or at its end; the caller waits or has returned.\<close>

datatype lock_goroutine = Locking | Selecting "err option" | Ended

datatype lock_caller = Waiting | Returned "err option"

record lock_run =
  lr_owner :: lock_owner
  lr_cancelled :: bool
  lr_goroutine :: lock_goroutine
  lr_caller :: lock_caller

inductive lock_step :: "lock_run \<Rightarrow> lock_run \<Rightarrow> bool" where
  locked: "lr_goroutine s = Locking \<Longrightarrow> lr_owner s = FreeLock \<Longrightarrow> lock_step s (s\<lparr>lr_owner := OwnLock, lr_goroutine := Selecting None\<rparr>)"
| lock_fails: "lr_goroutine s = Locking \<Longrightarrow> lock_step s (s\<lparr>lr_goroutine := Selecting (Some e)\<rparr>)"
| close_lock: "lr_goroutine s = Selecting r \<Longrightarrow> lr_cancelled s \<Longrightarrow>
    lock_step s (s\<lparr>lr_owner := (if r = None then FreeLock else lr_owner s), lr_goroutine := Ended\<rparr>)"
| deliver: "lr_goroutine s = Selecting r \<Longrightarrow> lr_caller s = Waiting \<Longrightarrow>
    lock_step s (s\<lparr>lr_goroutine := Ended, lr_caller := Returned r\<rparr>)"
| timeout: "lr_caller s = Waiting \<Longrightarrow>
    lock_step s (s\<lparr>lr_cancelled := True, lr_caller := Returned (Some (Errorf ''timeout waiting for lock'' []))\<rparr>)"
| other_locks: "lr_owner s = FreeLock \<Longrightarrow> lock_step s (s\<lparr>lr_owner := OtherLock\<rparr>)"
| other_unlocks: "lr_owner s = OtherLock \<Longrightarrow> lock_step s (s\<lparr>lr_owner := FreeLock\<rparr>)"

inductive_cases lock_stepE: "lock_step s s'"

text \<open>What comes before: the directory of the lock is made when it does not exist, then the lock file is opened.\<close>

definition getFileLockWithTimeout :: "bool \<Rightarrow> err option \<Rightarrow> err option \<Rightarrow> lock_owner \<Rightarrow> lock_run res" where
  "getFileLockWithTimeout dirMissing mkdirAll newMutex owner =
     (case (if dirMissing then mkdirAll else None) of
        Some e \<Rightarrow> Inl e
      | None \<Rightarrow>
          (case newMutex of
             Some e \<Rightarrow> Inl e
           | None \<Rightarrow> Inr \<lparr>lr_owner = owner, lr_cancelled = False, lr_goroutine = Locking, lr_caller = Waiting\<rparr>))"

abbreviation lock_steps :: "lock_run \<Rightarrow> lock_run \<Rightarrow> bool" where
  "lock_steps \<equiv> lock_step\<^sup>*\<^sup>*"

section \<open>The invariant\<close>

definition lock_inv :: "lock_run \<Rightarrow> bool" where
  "lock_inv s \<longleftrightarrow>
     (lr_cancelled s \<longrightarrow> (\<exists>e. lr_caller s = Returned (Some e))) \<and>
     (case lr_goroutine s of
        Locking \<Rightarrow> lr_owner s \<noteq> OwnLock \<and> (lr_caller s = Waiting \<or> lr_cancelled s)
      | Selecting r \<Rightarrow> (lr_owner s = OwnLock \<longleftrightarrow> r = None) \<and> (lr_caller s = Waiting \<or> lr_cancelled s)
      | Ended \<Rightarrow> (lr_owner s = OwnLock \<longleftrightarrow> lr_caller s = Returned None) \<and> lr_caller s \<noteq> Waiting)"

lemma lock_inv_step: "lock_step s s' \<Longrightarrow> lock_inv s \<Longrightarrow> lock_inv s'"
  by (induction rule: lock_step.induct) (auto simp: lock_inv_def split: lock_goroutine.splits)

lemma lock_inv_steps: "lock_steps s s' \<Longrightarrow> lock_inv s \<Longrightarrow> lock_inv s'"
  by (induction rule: rtranclp_induct) (auto intro: lock_inv_step)

lemma lock_inv_start: "getFileLockWithTimeout m d n owner = Inr s \<Longrightarrow> owner \<noteq> OwnLock \<Longrightarrow> lock_inv s"
  by (auto simp: getFileLockWithTimeout_def lock_inv_def split: option.splits if_splits)

text \<open>C37 (liveness): when the caller of \<^verbatim>\<open>getFileLockWithTimeout\<close> has returned and the goroutine has ended, in every interleaving with the
  timer and other processes, this process holds the lock exactly if the caller got no error; the goroutine never waits at
  its select for ever; and a caller that got no error holds the lock at once.\<close>

theorem lock_held_iff_returned:
  assumes "getFileLockWithTimeout dirMissing mkdirAll newMutex owner = Inr s0" "owner \<noteq> OwnLock" "lock_steps s0 s"
  shows "(lr_goroutine s = Ended \<longrightarrow> lr_caller s \<noteq> Waiting \<and> (lr_owner s = OwnLock \<longleftrightarrow> lr_caller s = Returned None)) \<and>
     (lr_caller s = Returned None \<longrightarrow> lr_owner s = OwnLock) \<and>
     (\<forall>r. lr_goroutine s = Selecting r \<longrightarrow> (\<exists>s'. lock_step s s' \<and> lr_goroutine s' = Ended))"
proof -
  have inv: "lock_inv s" using lock_inv_steps [OF assms(3) lock_inv_start [OF assms(1,2)]] .
  have "\<exists>s'. lock_step s s' \<and> lr_goroutine s' = Ended" if "lr_goroutine s = Selecting r" for r
  proof (cases "lr_cancelled s")
    case True
    with close_lock [OF that] show ?thesis by fastforce
  next
    case False
    with inv that have "lr_caller s = Waiting" by (auto simp: lock_inv_def)
    with deliver [OF that] show ?thesis by fastforce
  qed
  with inv show ?thesis by (auto simp: lock_inv_def split: lock_goroutine.splits)
qed

theorem lock_held_iff_returned_witness:
  "\<exists>s. lock_steps \<lparr>lr_owner = OtherLock, lr_cancelled = False, lr_goroutine = Locking, lr_caller = Waiting\<rparr> s \<and>
     lr_goroutine s = Ended \<and> lr_owner s \<noteq> OwnLock \<and> lr_caller s = Returned (Some (Errorf ''timeout waiting for lock'' []))"
proof -
  let ?e = "Some (Errorf ''timeout waiting for lock'' [])"
  let ?s0 = "\<lparr>lr_owner = OtherLock, lr_cancelled = False, lr_goroutine = Locking, lr_caller = Waiting\<rparr>"
  let ?s1 = "\<lparr>lr_owner = OtherLock, lr_cancelled = True, lr_goroutine = Locking, lr_caller = Returned ?e\<rparr>"
  let ?s2 = "\<lparr>lr_owner = FreeLock, lr_cancelled = True, lr_goroutine = Locking, lr_caller = Returned ?e\<rparr>"
  let ?s3 = "\<lparr>lr_owner = OwnLock, lr_cancelled = True, lr_goroutine = Selecting None, lr_caller = Returned ?e\<rparr>"
  let ?s4 = "\<lparr>lr_owner = FreeLock, lr_cancelled = True, lr_goroutine = Ended, lr_caller = Returned ?e\<rparr>"
  have "lock_step ?s0 ?s1" using timeout [of ?s0] by simp
  moreover have "lock_step ?s1 ?s2" using other_unlocks [of ?s1] by simp
  moreover have "lock_step ?s2 ?s3" using locked [of ?s2] by simp
  moreover have "lock_step ?s3 ?s4" using close_lock [of ?s3 None] by simp
  ultimately have run: "lock_steps ?s0 ?s4" by (meson converse_rtranclp_into_rtranclp rtranclp.rtrancl_refl)
  have "getFileLockWithTimeout False None None OtherLock = Inr ?s0" by (simp add: getFileLockWithTimeout_def)
  from lock_held_iff_returned [OF this _ run] run show ?thesis by (intro exI [of _ ?s4]) simp
qed

end
