(* ===== verification/Registry_Trust.thy ===== *)
theory Registry_Trust
  imports Global_Init
begin

text \<open>
  Trust in image registries: the certificate options of a registry and the files of an image
  (\<^verbatim>\<open>pkg/registry/helpers.go\<close>, \<^verbatim>\<open>client.go\<close>), the verification of signatures
  (\<^verbatim>\<open>pkg/cosignhelper/cosignverify.go\<close>, \<^verbatim>\<open>sigverifier/signature_verification.go\<close>), and the commands that change the
  discovery sources (\<^verbatim>\<open>pkg/command/discovery_source.go\<close>, \<^verbatim>\<open>pkg/config/discovery.go\<close>), which check a source before it
  is saved.

  References, certificate pools, keys (of type \<open>'k\<close>) and signatures are those of the libraries; files that are
  written are an association list from paths to contents.
\<close>

section \<open>Certificates\<close>

record cert_options =
  CACertPaths :: "string list"
  SkipCertVerify :: bool
  Insecure :: bool

record cert =
  ce_SkipCertVerify :: string
  ce_Insecure :: string
  ce_CACertData :: string

record 'k reg_env =
  rg_platform :: platform
  rg_environ :: environ
  rg_CertExists :: "string \<Rightarrow> bool"
  rg_GetCert :: "string \<Rightarrow> cert res"
  rg_RegistryStr :: "string \<Rightarrow> string res"
  rg_DecodeString :: "string \<Rightarrow> string res"
  rg_WindowsCAFile :: "string res"
  rg_RegistryCertFile :: "string res"
  rg_projectsRegistryCA :: string
  rg_WriteFile :: "string \<Rightarrow> err option"
  rg_SystemCertPool :: "err option"
  rg_AppendCerts :: "string \<Rightarrow> bool"
  rg_PublicKeyFromFile :: "string \<Rightarrow> 'k res"
  rg_PluginDBKeyV2 :: "'k res"
  rg_PluginDBKey :: "'k res"
  rg_ParseReference :: "string \<Rightarrow> bool \<Rightarrow> string res"
  rg_VerifyImageSignatures :: "string \<Rightarrow> bool \<Rightarrow> 'k \<Rightarrow> err option"

type_synonym files = "(string \<times> string) list"

definition updateCACertData :: "'k reg_env \<Rightarrow> string \<Rightarrow> cert_options \<times> files \<Rightarrow> (cert_options \<times> files) res" where
  "updateCACertData G caCertData = (\<lambda>(opts, fs).
     if caCertData = '''' then Inr (opts, fs)
     else case rg_DecodeString G caCertData of
         Inl e \<Rightarrow> Inl (Wrapf e ''unable to decode the base64-encoded custom registry CA certificate string'' [])
       | Inr caCertBytes \<Rightarrow>
           if length caCertBytes = 0 then Inr (opts, fs)
           else (case rg_RegistryCertFile G of
                   Inl e \<Rightarrow> Inl e
                 | Inr filePath \<Rightarrow>
                     (case rg_WriteFile G filePath of
                        Some e \<Rightarrow> Inl (Wrapf e ''failed to write the custom image registry CA cert to file %s'' [filePath])
                      | None \<Rightarrow> Inr (opts\<lparr>CACertPaths := CACertPaths opts @ [filePath]\<rparr>, AList.update filePath caCertBytes fs))))"

definition checkForProxyConfigAndUpdateCert :: "'k reg_env \<Rightarrow> cert_options \<times> files \<Rightarrow> (cert_options \<times> files) res" where
  "checkForProxyConfigAndUpdateCert G = updateCACertData G (getenv (rg_environ G) ''PROXY_CA_CERT'')"

definition updateRegistryCertOptions :: "'k reg_env \<Rightarrow> cert \<Rightarrow> cert_options \<times> files \<Rightarrow> (cert_options \<times> files) res" where
  "updateRegistryCertOptions G c = (\<lambda>(opts, fs).
     let o1 = (if ce_SkipCertVerify c \<noteq> '''' then opts\<lparr>SkipCertVerify := parse_bool_or_false (ce_SkipCertVerify c)\<rparr> else opts);
         o2 = (if ce_Insecure c \<noteq> '''' then o1\<lparr>Insecure := parse_bool_or_false (ce_Insecure c)\<rparr> else o1)
     in updateCACertData G (ce_CACertData c) (o2, fs))"

definition AddRegistryTrustedRootCertsFileForWindows :: "'k reg_env \<Rightarrow> cert_options \<times> files \<Rightarrow> (cert_options \<times> files) res" where
  "AddRegistryTrustedRootCertsFileForWindows G = (\<lambda>(opts, fs).
     case rg_WindowsCAFile G of
       Inl e \<Rightarrow> Inl e
     | Inr filePath \<Rightarrow>
         (case rg_WriteFile G filePath of
            Some e \<Rightarrow> Inl (Wrapf e ''failed to write the registry trusted CA cert to file %s'' [filePath])
          | None \<Rightarrow> Inr (opts\<lparr>CACertPaths := CACertPaths opts @ [filePath]\<rparr>, AList.update filePath (rg_projectsRegistryCA G) fs)))"

definition GetRegistryCertOptions :: "'k reg_env \<Rightarrow> string \<Rightarrow> files \<Rightarrow> (cert_options \<times> files) res" where
  "GetRegistryCertOptions G registryHost fs =
     (let st0 = (\<lparr>CACertPaths = [], SkipCertVerify = False, Insecure = False\<rparr>, fs)
      in case (if GOOS (rg_platform G) = ''windows'' then AddRegistryTrustedRootCertsFileForWindows G st0 else Inr st0) of
           Inl e \<Rightarrow> Inl e
         | Inr st \<Rightarrow>
             let proxy = (\<lambda>st. case checkForProxyConfigAndUpdateCert G st of
                    Inl e \<Rightarrow> Inl (Wrapf e ''failed to check for proxy config and update the cert'' []) | Inr st' \<Rightarrow> Inr st')
             in if \<not> rg_CertExists G registryHost then proxy st
                else (case rg_GetCert G registryHost of
                        Inl e \<Rightarrow> Inl (Wrapf e ''failed to get the custom certificate configuration for host %q'' [registryHost])
                      | Inr c \<Rightarrow>
                          (case updateRegistryCertOptions G c st of
                             Inl e \<Rightarrow> Inl (Wrapf e ''failed to updated the registry cert options'' [])
                           | Inr st1 \<Rightarrow> proxy st1)))"

definition GetRegistryName :: "'k reg_env \<Rightarrow> string \<Rightarrow> string res" where
  "GetRegistryName G imageName =
     (case rg_RegistryStr G imageName of
        Inl e \<Rightarrow> Inl (Wrapf e ''unable to fetch registry name from image %q'' [imageName]) | Inr r \<Rightarrow> Inr r)"

section \<open>Files of an image\<close>

text \<open>A layer is the stream of its archive entries: a regular file with its content, another entry, or a read
  error.\<close>

datatype tar_entry = RegularFile string string | OtherEntry string | BrokenEntry err

type_synonym layer = "tar_entry list res"

fun tar_loop :: "tar_entry list \<Rightarrow> files \<Rightarrow> files res" where
  "tar_loop [] fs = Inr fs"
| "tar_loop (RegularFile name content # es) fs = tar_loop es (AList.update name content fs)"
| "tar_loop (OtherEntry name # es) fs = tar_loop es fs"
| "tar_loop (BrokenEntry e # es) fs = Inl e"

definition getFilesFromLayer :: "layer \<Rightarrow> files res" where
  "getFilesFromLayer imgLayer = (case imgLayer of Inl e \<Rightarrow> Inl e | Inr es \<Rightarrow> tar_loop es [])"

fun file_content_loop :: "'v lib \<Rightarrow> string \<Rightarrow> layer list \<Rightarrow> string res" where
  "file_content_loop L filename [] = Inl (Errorf ''cannot find file from the image'' [])"
| "file_content_loop L filename (l # ls) =
     (case getFilesFromLayer l of
        Inl e \<Rightarrow> Inl e
      | Inr fs \<Rightarrow>
          (case List.find (\<lambda>k. filename = '''' \<or> k = filename) (range_keys L fs) of
             Some k \<Rightarrow> Inr (the (map_of fs k))
           | None \<Rightarrow> file_content_loop L filename ls))"

definition getFileContentFromImage :: "'v lib \<Rightarrow> layer list res \<Rightarrow> string \<Rightarrow> string res" where
  "getFileContentFromImage L layers filename = (case layers of Inl e \<Rightarrow> Inl e | Inr ls \<Rightarrow> file_content_loop L filename ls)"

text \<open>Each layer replaces the map of the layer before it.\<close>

fun all_files_loop :: "layer list \<Rightarrow> files \<Rightarrow> files res" where
  "all_files_loop [] fs = Inr fs"
| "all_files_loop (l # ls) fs = (case getFilesFromLayer l of Inl e \<Rightarrow> Inl e | Inr fs1 \<Rightarrow> all_files_loop ls fs1)"

definition getAllFilesContentFromImage :: "layer list res \<Rightarrow> files res" where
  "getAllFilesContentFromImage layers =
     (case layers of
        Inl e \<Rightarrow> Inl e
      | Inr ls \<Rightarrow>
          (case all_files_loop ls [] of
             Inl e \<Rightarrow> Inl e
           | Inr fs \<Rightarrow> if length fs \<noteq> 0 then Inr fs else Inl (Errorf ''cannot find file from the image'' [])))"

section \<open>Signatures\<close>

fun cert_pool_loop :: "'k reg_env \<Rightarrow> files \<Rightarrow> string list \<Rightarrow> err option" where
  "cert_pool_loop G fs [] = None"
| "cert_pool_loop G fs (path # ps) =
     (case map_of fs path of
        None \<Rightarrow> Some (Wrapf ErrNotExist ''failed reading CA certificates from %s'' [path])
      | Some certs \<Rightarrow>
          if \<not> rg_AppendCerts G certs then Some (Errorf ''failed adding CA certificates from %s'' [path])
          else cert_pool_loop G fs ps)"

definition newHTTPTransport :: "'k reg_env \<Rightarrow> cert_options \<Rightarrow> files \<Rightarrow> err option" where
  "newHTTPTransport G opts fs =
     (case rg_SystemCertPool G of Some e \<Rightarrow> Some e | None \<Rightarrow> cert_pool_loop G fs (CACertPaths opts))"

fun collect_keys :: "'k res list \<Rightarrow> 'k list res" where
  "collect_keys [] = Inr []"
| "collect_keys (Inl e # ks) = Inl (Wrapf e ''loading default public key'' [])"
| "collect_keys (Inr k # ks) = (case collect_keys ks of Inl e \<Rightarrow> Inl e | Inr r \<Rightarrow> Inr (k # r))"

definition public_keys :: "'k reg_env \<Rightarrow> string \<Rightarrow> 'k list res" where
  "public_keys G publicKeyPath =
     (if publicKeyPath \<noteq> ''''
      then (case rg_PublicKeyFromFile G publicKeyPath of
              Inl e \<Rightarrow> Inl (Wrapf e ''loading custom public key'' []) | Inr k \<Rightarrow> Inr [k])
      else collect_keys [rg_PluginDBKeyV2 G, rg_PluginDBKey G])"

text \<open>The errors of the keys up to the first one that verifies the image.\<close>

fun key_errors :: "'k reg_env \<Rightarrow> string \<Rightarrow> bool \<Rightarrow> 'k list \<Rightarrow> err list" where
  "key_errors G ref keychain [] = []"
| "key_errors G ref keychain (k # ks) =
     (case rg_VerifyImageSignatures G ref keychain k of
        None \<Rightarrow> []
      | Some e \<Rightarrow> Wrapf e ''failed validating the signature of the image'' [] # key_errors G ref keychain ks)"

fun verify_images_loop :: "'v lib \<Rightarrow> 'k reg_env \<Rightarrow> cert_options \<Rightarrow> 'k list \<Rightarrow> string list \<Rightarrow> err option" where
  "verify_images_loop L G opts pubKeys [] = None"
| "verify_images_loop L G opts pubKeys (img # imgs) =
     (case rg_ParseReference G img (Insecure opts) of
        Inl e \<Rightarrow> Some (Wrapf e ''parsing reference'' [])
      | Inr ref \<Rightarrow>
          let authenticated = split_on CHR '','' (getenv (rg_environ G) ''TANZU_CLI_AUTHENTICATED_REGISTRY'');
              keychain = (case rg_RegistryStr G ref of Inl e \<Rightarrow> False | Inr host \<Rightarrow> ContainsRegistry authenticated host);
              arrErr = key_errors G ref keychain pubKeys
          in if length arrErr = length pubKeys then NewAggregate L arrErr
             else verify_images_loop L G opts pubKeys imgs)"

definition cosign_Verify :: "'v lib \<Rightarrow> 'k reg_env \<Rightarrow> string \<Rightarrow> cert_options \<Rightarrow> files \<Rightarrow> string list \<Rightarrow> err option" where
  "cosign_Verify L G publicKeyPath opts fs imgs =
     (case newHTTPTransport G opts fs of
        Some e \<Rightarrow> Some (Wrapf e ''creating registry HTTP transport'' [])
      | None \<Rightarrow>
          (case public_keys G publicKeyPath of
             Inl e \<Rightarrow> Some e
           | Inr pubKeys \<Rightarrow> verify_images_loop L G opts pubKeys imgs))"

definition getPluginDiscoveryImagesSkippedForSignatureVerification :: "environ \<Rightarrow> string list" where
  "getPluginDiscoveryImagesSkippedForSignatureVerification env =
     filter (\<lambda>i. i \<noteq> '''') (map trim_space (split_on CHR '',''
       (getenv env ''TANZU_CLI_PLUGIN_DISCOVERY_IMAGE_SIGNATURE_VERIFICATION_SKIP_LIST'')))"

definition verifyInventoryImageSignature :: "'v lib \<Rightarrow> 'k reg_env \<Rightarrow> string \<Rightarrow> cert_options \<Rightarrow> files \<Rightarrow> string \<Rightarrow> err option" where
  "verifyInventoryImageSignature L G publicKeyPath opts fs img =
     (if trim_space img \<in> set (getPluginDiscoveryImagesSkippedForSignatureVerification (rg_environ G)) then None
      else cosign_Verify L G publicKeyPath opts fs [img])"

definition getCosignVerifierRegistryOptions :: "'k reg_env \<Rightarrow> string \<Rightarrow> files \<Rightarrow> (cert_options \<times> files) res" where
  "getCosignVerifierRegistryOptions G img fs =
     (case GetRegistryName G (trim_space img) of
        Inl e \<Rightarrow> Inl e
      | Inr registryName \<Rightarrow>
          (case GetRegistryCertOptions G registryName fs of
             Inl e \<Rightarrow> Inl (Wrapf e ''unable to get the registry certificate configuration'' [])
           | Inr st \<Rightarrow> Inr st))"

text \<open>The process exits when the verification fails.\<close>

datatype sig_result = SigReturned "err option" | SigExit

definition VerifyInventoryImageSignature :: "'v lib \<Rightarrow> 'k reg_env \<Rightarrow> files \<Rightarrow> string \<Rightarrow> sig_result" where
  "VerifyInventoryImageSignature L G fs img =
     (case getCosignVerifierRegistryOptions G img fs of
        Inl e \<Rightarrow> SigReturned (Some (Wrapf (Wrapf e ''unable to prepare the registry options for cosign verification'' [])
                    ''failed to initialize the cosign verifier'' []))
      | Inr (opts, fs1) \<Rightarrow>
          (case verifyInventoryImageSignature L G (getenv (rg_environ G) ''TANZU_CLI_PLUGIN_DISCOVERY_IMAGE_SIGNATURE_PUBLIC_KEY_PATH'')
                  opts fs1 img of
             Some e \<Rightarrow> SigExit
           | None \<Rightarrow> SigReturned None))"

section \<open>Discovery sources\<close>

text \<open>The discovery sources of the configuration file, of type \<open>'c\<close>, and the operations of the configuration
  library on them. \<open>sx_Sources\<close> is \<open>None\<close> when there is no list, which an empty list is not.\<close>

record 'c source_env =
  sx_Sources :: "'c \<Rightarrow> plugin_discovery list option"
  sx_Get :: "'c \<Rightarrow> string \<Rightarrow> plugin_discovery option res"
  sx_Set :: "plugin_discovery \<Rightarrow> 'c \<Rightarrow> 'c \<times> err option"
  sx_Delete :: "string \<Rightarrow> 'c \<Rightarrow> 'c \<times> err option"

definition oci_discovery_source :: "string \<Rightarrow> string \<Rightarrow> plugin_discovery" where
  "oci_discovery_source name img =
     \<lparr>pd_OCI = Some \<lparr>oci_Name = name, oci_Image = img\<rparr>, pd_Local = None, pd_Kubernetes = None, pd_REST = None\<rparr>"

definition PopulateDefaultCentralDiscovery :: "'c source_env \<Rightarrow> bool \<Rightarrow> 'c \<Rightarrow> 'c \<times> err option" where
  "PopulateDefaultCentralDiscovery S force cfg =
     (if force \<or> sx_Sources S cfg = None
      then sx_Set S (oci_discovery_source DefaultStandaloneDiscoveryName TanzuCLIDefaultCentralPluginDiscoveryImage) cfg
      else (cfg, None))"

definition createDiscoverySource :: "string \<Rightarrow> string \<Rightarrow> plugin_discovery res" where
  "createDiscoverySource dsName uri =
     (if dsName = '''' then Inl (Errorf ''discovery source name cannot be empty'' []) else Inr (oci_discovery_source dsName uri))"

definition checkDiscoverySource :: "'v lib \<Rightarrow> disc_env \<Rightarrow> plugin_discovery \<Rightarrow> caches \<Rightarrow> (caches \<times> err option) option" where
  "checkDiscoverySource L V source cs = RefreshDiscoveryDatabaseForSource L V source [WithForceRefresh] cs"

definition updateDiscoverySource ::
    "'v lib \<Rightarrow> disc_env \<Rightarrow> 'c source_env \<Rightarrow> string \<Rightarrow> string \<Rightarrow> 'c \<times> caches \<Rightarrow> (('c \<times> caches) \<times> err option) option" where
  "updateDiscoverySource L V S discoveryName uri = (\<lambda>(cfg, cs).
     case sx_Get S cfg discoveryName of
       Inr (Some _) \<Rightarrow>
         (case createDiscoverySource discoveryName uri of
            Inl e \<Rightarrow> Some ((cfg, cs), Some e)
          | Inr newDiscoverySource \<Rightarrow>
              (case checkDiscoverySource L V newDiscoverySource cs of
                 None \<Rightarrow> None
               | Some (cs1, Some e) \<Rightarrow> Some ((cfg, cs1), Some e)
               | Some (cs1, None) \<Rightarrow> (case sx_Set S newDiscoverySource cfg of (cfg1, e) \<Rightarrow> Some ((cfg1, cs1), e))))
     | _ \<Rightarrow> Some ((cfg, cs), Some (Errorf ''discovery %q does not exist'' [discoveryName])))"

definition deleteDiscoverySource :: "'c source_env \<Rightarrow> string \<Rightarrow> 'c \<Rightarrow> 'c \<times> err option" where
  "deleteDiscoverySource S discoveryName cfg =
     (case sx_Get S cfg discoveryName of
        Inr (Some _) \<Rightarrow> sx_Delete S discoveryName cfg
      | _ \<Rightarrow> (cfg, Some (Errorf ''discovery %q does not exist'' [discoveryName])))"

text \<open>\<^verbatim>\<open>*discoverySource\<close> panics when there is no such source and no error.\<close>

definition initDiscoverySource ::
    "'v lib \<Rightarrow> disc_env \<Rightarrow> 'c source_env \<Rightarrow> 'c \<times> caches \<Rightarrow> (('c \<times> caches) \<times> err option) option" where
  "initDiscoverySource L V S = (\<lambda>(cfg, cs).
     case PopulateDefaultCentralDiscovery S True cfg of
       (cfg1, Some e) \<Rightarrow> Some ((cfg1, cs), Some e)
     | (cfg1, None) \<Rightarrow>
         (case sx_Get S cfg1 DefaultStandaloneDiscoveryName of
            Inl e \<Rightarrow> Some ((cfg1, cs), None)
          | Inr None \<Rightarrow> None
          | Inr (Some source) \<Rightarrow> map_option (\<lambda>(cs1, e). ((cfg1, cs1), None)) (checkDiscoverySource L V source cs)))"

section \<open>Properties\<close>

lemma key_errors_length: "length (key_errors G ref kc ks) \<le> length ks"
  by (induction ks) (auto split: option.splits)

lemma key_errors_all:
  "length (key_errors G ref kc ks) = length ks \<longleftrightarrow> (\<forall>k \<in> set ks. rg_VerifyImageSignatures G ref kc k \<noteq> None)"
  using key_errors_length [of G ref kc] by (induction ks) (auto split: option.splits)

definition trusted_key :: "'k reg_env \<Rightarrow> 'k \<Rightarrow> bool" where
  "trusted_key G k \<longleftrightarrow>
     (let path = getenv (rg_environ G) ''TANZU_CLI_PLUGIN_DISCOVERY_IMAGE_SIGNATURE_PUBLIC_KEY_PATH''
      in if path \<noteq> '''' then rg_PublicKeyFromFile G path = Inr k else Inr k \<in> {rg_PluginDBKeyV2 G, rg_PluginDBKey G})"

lemma public_keys_trusted:
  assumes "public_keys G (getenv (rg_environ G) ''TANZU_CLI_PLUGIN_DISCOVERY_IMAGE_SIGNATURE_PUBLIC_KEY_PATH'') = Inr ks"
  shows "ks \<noteq> [] \<and> (\<forall>k \<in> set ks. trusted_key G k)"
  using assms
  by (cases "rg_PluginDBKeyV2 G"; cases "rg_PluginDBKey G")
    (auto simp: public_keys_def trusted_key_def Let_def split: if_splits sum.splits)

text \<open>C18 (safety): an inventory image is accepted only if it was verified. When the verification returns without an
  error, the image is on the user's skip list, or its signature verifies with a trusted key: the key of the
  configured file if there is one, else one of the two built-in keys.\<close>

theorem only_verified_images_accepted:
  assumes "aggregate_law L" "VerifyInventoryImageSignature L G fs img = SigReturned None"
  shows "trim_space img \<in> set (getPluginDiscoveryImagesSkippedForSignatureVerification (rg_environ G)) \<or>
    (\<exists>k ref keychain insecure. trusted_key G k \<and> rg_ParseReference G img insecure = Inr ref \<and>
       rg_VerifyImageSignatures G ref keychain k = None)"
proof (rule disjCI)
  assume no: "\<not> (\<exists>k ref keychain insecure. trusted_key G k \<and> rg_ParseReference G img insecure = Inr ref \<and>
       rg_VerifyImageSignatures G ref keychain k = None)"
  have loop: "verify_images_loop L G opts ks [img] \<noteq> None" if "ks \<noteq> []" "\<forall>k \<in> set ks. trusted_key G k" for opts ks
  proof (cases "rg_ParseReference G img (Insecure opts)")
    case (Inr ref)
    with no that(2) have "length (key_errors G ref kc ks) = length ks" for kc by (auto simp: key_errors_all)
    moreover from this that(1) have "key_errors G ref kc ks \<noteq> []" for kc by (metis length_0_conv)
    ultimately show ?thesis using Inr assms(1) by (simp add: Let_def aggregate_law_def)
  qed simp
  let ?path = "getenv (rg_environ G) ''TANZU_CLI_PLUGIN_DISCOVERY_IMAGE_SIGNATURE_PUBLIC_KEY_PATH''"
  have cosign: "cosign_Verify L G ?path opts fs1 [img] \<noteq> None" for opts fs1
    using loop [of _ opts] public_keys_trusted [of G]
    by (auto simp: cosign_Verify_def simp del: verify_images_loop.simps split: option.splits sum.splits)
  obtain opts fs1 where "verifyInventoryImageSignature L G ?path opts fs1 img = None"
    using assms(2) by (auto simp: VerifyInventoryImageSignature_def split: sum.splits option.splits)
  with cosign [of opts fs1] show "trim_space img \<in> set (getPluginDiscoveryImagesSkippedForSignatureVerification (rg_environ G))"
    unfolding verifyInventoryImageSignature_def by (metis (full_types))
qed

text \<open>The exit of the process counts as an error for the callers of the verification.\<close>

definition as_error :: "sig_result \<Rightarrow> err option" where
  "as_error r = (case r of SigReturned e \<Rightarrow> e | SigExit \<Rightarrow> Some (Errorf ''exit status 1'' []))"

lemma as_error_None: "as_error r = None \<longleftrightarrow> r = SigReturned None"
  by (auto simp: as_error_def split: sig_result.splits)

lemma fetch_db_verified:
  assumes "fetchInventoryImage E od c = (c', e)" "oc_db c' \<noteq> oc_db c"
  shows "oe_VerifyInventoryImageSignature E (od_image od) = None"
proof -
  obtain c1 r where c1: "checkImageCache E od c = (c1, r)" by force
  have "oc_db c1 = oc_db c"
    using c1 by (auto simp: checkImageCache_def Let_def split: sum.splits prod.splits) (metis check_db fst_conv)+
  then show ?thesis
    using assms c1 by (auto simp: fetchInventoryImage_def reset_facts split: if_splits sum.splits option.splits prod.splits)
qed

lemma force_refresh_source:
  assumes "checkDiscoverySource L V (oci_discovery_source name uri) cs = Some (cs1, e)" "oc_db (cs1 n) \<noteq> oc_db (cs n)"
  shows "n = name \<and> oe_VerifyInventoryImageSignature (dv_oci V) uri = None"
proof -
  define od where "od = NewOCIDiscovery V name uri [WithForceRefresh]"
  have od: "od_name od = name" "od_image od = uri"
    by (simp_all add: od_def NewOCIDiscovery_def newDBBackedOCIDiscovery_def Let_def)
  obtain c1 e1 where f: "fetchInventoryImage (dv_oci V) od (cs name) = (c1, e1)" by force
  have "cs1 = cs(name := c1) \<or> cs1 = cs"
    using assms(1) f od(1)
    by (auto simp: checkDiscoverySource_def RefreshDiscoveryDatabaseForSource_def CreateDiscoveryFromV1alpha1_def
        oci_discovery_source_def od_def [symmetric] OCI_List_def Let_def split: option.splits sum.splits prod.splits if_splits)
  then have "n = name" "oc_db c1 \<noteq> oc_db (cs name)" using assms(2) by (auto split: if_splits)
  with fetch_db_verified [OF f] od(2) show ?thesis by simp
qed

text \<open>A discovery source is checked before it is saved. The update of a source changes the configuration only
  after the inventory of the new image was refreshed without an error, and then to the new image; and it changes the
  cached database of no other source, and of this one only if the new image is on the skip list or verified
  with a trusted key.\<close>

theorem source_update_checked_first:
  assumes "aggregate_law L" "oe_VerifyInventoryImageSignature (dv_oci V) = (\<lambda>img. as_error (VerifyInventoryImageSignature L G fs img))"
    "updateDiscoverySource L V S name uri (cfg, cs) = Some ((cfg', cs'), e)"
  shows "(cfg' \<noteq> cfg \<longrightarrow> checkDiscoverySource L V (oci_discovery_source name uri) cs = Some (cs', None) \<and>
      cfg' = fst (sx_Set S (oci_discovery_source name uri) cfg)) \<and>
    (\<forall>n. oc_db (cs' n) \<noteq> oc_db (cs n) \<longrightarrow> n = name \<and> VerifyInventoryImageSignature L G fs uri = SigReturned None)"
proof -
  have "cs' = cs \<or> (\<exists>e'. checkDiscoverySource L V (oci_discovery_source name uri) cs = Some (cs', e'))"
    "cfg' \<noteq> cfg \<longrightarrow> checkDiscoverySource L V (oci_discovery_source name uri) cs = Some (cs', None) \<and>
      cfg' = fst (sx_Set S (oci_discovery_source name uri) cfg)"
    using assms(3) by (auto simp: updateDiscoverySource_def createDiscoverySource_def split: sum.splits option.splits if_splits prod.splits)
  then show ?thesis using force_refresh_source [of L V name uri cs cs'] assms(2) as_error_None by fastforce
qed

text \<open>Only the last layer of an image counts. The files of all earlier layers are dropped, although the
  function is to return all files of the image.\<close>

theorem only_last_layer_returned:
  assumes "\<forall>l \<in> set ls. \<exists>fs. getFilesFromLayer l = Inr fs" "getFilesFromLayer l = Inr fs" "fs \<noteq> []"
  shows "getAllFilesContentFromImage (Inr (ls @ [l])) = Inr fs"
proof -
  have "all_files_loop (ls @ [l]) acc = Inr fs" for acc
    using assms(1,2) by (induction ls arbitrary: acc) (auto split: sum.splits)
  then show ?thesis using assms(3) by (simp add: getAllFilesContentFromImage_def)
qed

section \<open>Witnesses\<close>

definition demo_reg :: "nat reg_env" where
  "demo_reg = \<lparr>rg_platform = \<lparr>GOOS = ''linux'', GOARCH = ''amd64''\<rparr>, rg_environ = (\<lambda>_. None), rg_CertExists = (\<lambda>_. False),
     rg_GetCert = (\<lambda>_. Inl ErrNotExist), rg_RegistryStr = Inr, rg_DecodeString = Inr, rg_WindowsCAFile = Inr ''w'', rg_RegistryCertFile = Inr ''c'',
     rg_projectsRegistryCA = ''ca'', rg_WriteFile = (\<lambda>_. None), rg_SystemCertPool = None, rg_AppendCerts = (\<lambda>_. True),
     rg_PublicKeyFromFile = (\<lambda>_. Inl ErrNotExist), rg_PluginDBKeyV2 = Inr 2, rg_PluginDBKey = Inr 1, rg_ParseReference = (\<lambda>i _. Inr i),
     rg_VerifyImageSignatures = (\<lambda>ref _ k. if k = 1 \<and> ref = ''r/i'' then None else Some (Errorf ''no signature'' []))\<rparr>"

lemma demo_verified: "VerifyInventoryImageSignature dotted_lib demo_reg [] ''r/i'' = SigReturned None"
  by code_simp

theorem only_verified_images_accepted_witness:
  "\<exists>k ref keychain. trusted_key demo_reg k \<and> rg_VerifyImageSignatures demo_reg ref keychain k = None"
proof -
  have "trim_space ''r/i'' \<notin> set (getPluginDiscoveryImagesSkippedForSignatureVerification (rg_environ demo_reg))" by code_simp
  with only_verified_images_accepted [OF dotted_aggregate_law demo_verified] show ?thesis by blast
qed

definition demo_sources :: "(string \<times> plugin_discovery) list source_env" where
  "demo_sources = \<lparr>sx_Sources = (\<lambda>c. Some (map snd c)), sx_Get = (\<lambda>c n. Inr (map_of c n)),
     sx_Set = (\<lambda>d c. (case pd_OCI d of None \<Rightarrow> c | Some o1 \<Rightarrow> AList.update (oci_Name o1) d c, None)),
     sx_Delete = (\<lambda>n c. (AList.delete n c, None))\<rparr>"

definition demo_signed :: oci_env where
  "demo_signed = demo_oci\<lparr>oe_VerifyInventoryImageSignature := (\<lambda>img. as_error (VerifyInventoryImageSignature dotted_lib demo_reg [] img))\<rparr>"

theorem only_last_layer_returned_witness:
  "getAllFilesContentFromImage (Inr ([Inr [RegularFile ''a'' ''1'']] @ [Inr [RegularFile ''b'' ''2'']])) = Inr [(''b'', ''2'')]"
  by (rule only_last_layer_returned) (simp_all add: getFilesFromLayer_def)


theorem source_update_checked_first_witness:
  "\<exists>cfg' cs' e. updateDiscoverySource dotted_lib ((demo_disc [])\<lparr>dv_oci := demo_signed\<rparr>) demo_sources ''d'' ''r/i''
       ([(''d'', oci_discovery_source ''d'' ''old'')], \<lambda>_. empty_cache) = Some ((cfg', cs'), e) \<and>
     cfg' = [(''d'', oci_discovery_source ''d'' ''r/i'')] \<and>
     checkDiscoverySource dotted_lib ((demo_disc [])\<lparr>dv_oci := demo_signed\<rparr>) (oci_discovery_source ''d'' ''r/i'') (\<lambda>_. empty_cache) = Some (cs', None)"
proof -
  let ?V = "(demo_disc [])\<lparr>dv_oci := demo_signed\<rparr>" and ?cfg = "[(''d'', oci_discovery_source ''d'' ''old'')]"
  have "case updateDiscoverySource dotted_lib ?V demo_sources ''d'' ''r/i'' (?cfg, \<lambda>_. empty_cache) of
      Some ((c, _), _) \<Rightarrow> map_option pd_OCI (map_of c ''d'') = Some (Some \<lparr>oci_Name = ''d'', oci_Image = ''r/i''\<rparr>) | None \<Rightarrow> False" by code_simp
  then obtain cfg' cs' e where u: "updateDiscoverySource dotted_lib ?V demo_sources ''d'' ''r/i'' (?cfg, \<lambda>_. empty_cache) = Some ((cfg', cs'), e)"
    "map_option pd_OCI (map_of cfg' ''d'') = Some (Some \<lparr>oci_Name = ''d'', oci_Image = ''r/i''\<rparr>)"
    by (auto split: option.splits)
  then have "cfg' \<noteq> ?cfg" by (auto simp: oci_discovery_source_def)
  moreover have "oe_VerifyInventoryImageSignature (dv_oci ?V) = (\<lambda>img. as_error (VerifyInventoryImageSignature dotted_lib demo_reg [] img))"
    by (simp add: demo_signed_def)
  ultimately have "checkDiscoverySource dotted_lib ?V (oci_discovery_source ''d'' ''r/i'') (\<lambda>_. empty_cache) = Some (cs', None) \<and>
      cfg' = fst (sx_Set demo_sources (oci_discovery_source ''d'' ''r/i'') ?cfg)"
    using source_update_checked_first [OF dotted_aggregate_law _ u(1)] by blast
  with u(1) show ?thesis by (auto simp: demo_sources_def oci_discovery_source_def)
qed

end
