(* ===== verification/Registry_Client.thy ===== *)
theory Registry_Client
  imports Registry_Trust
begin

text \<open>
  The client of image registries, \<^verbatim>\<open>pkg/registry/client.go\<close>, and the image operations over it,
  \<^verbatim>\<open>pkg/carvelhelpers/\<close>. The commands of imgpkg and the registry API are parameters; an operation returns the commands it ran
  with their flags. Every command uses the certificates and the verification that are configured for the host of its image.
\<close>

section \<open>Commands of imgpkg\<close>

record registry_flags =
  rf_CACertPaths :: "string list"
  rf_VerifyCerts :: bool
  rf_Insecure :: bool
  rf_Anon :: bool

datatype imgpkg_cmd =
    CopyToTar bool string string registry_flags
  | CopyFromTar string string registry_flags
  | Pull bool string string registry_flags
  | Push string "string list" registry_flags
  | TagResolve string registry_flags

fun cmd_flags :: "imgpkg_cmd \<Rightarrow> registry_flags" where
  "cmd_flags (CopyToTar b img tarFile f) = f"
| "cmd_flags (CopyFromTar tarFile repo f) = f"
| "cmd_flags (Pull b img dir f) = f"
| "cmd_flags (Push img paths f) = f"
| "cmd_flags (TagResolve img f) = f"

text \<open>The options of a registry are the flags of its commands; copying from an archive and pushing are never anonymous.\<close>

record 'k image_env =
  ig_reg :: "'k reg_env"
  ig_NewRegistry :: "registry_flags \<Rightarrow> err option"
  ig_run :: "imgpkg_cmd \<Rightarrow> err option"
  ig_IsBundle :: "string \<Rightarrow> bool"
  ig_ParseReference :: "string \<Rightarrow> string res"
  ig_ListTags :: "registry_flags \<Rightarrow> string \<Rightarrow> string list res"
  ig_Get :: "registry_flags \<Rightarrow> string \<Rightarrow> (layer list res) res res"
  ig_Digest :: "registry_flags \<Rightarrow> string \<Rightarrow> (string \<times> string) res"
  ig_MkdirTemp :: "string res"
  ig_GetDigest :: "string \<Rightarrow> string res"

type_synonym 'a ran = "imgpkg_cmd list \<times> 'a res"

section \<open>The client\<close>

definition registry_New :: "'k image_env \<Rightarrow> registry_flags \<Rightarrow> registry_flags res" where
  "registry_New I opts = (case ig_NewRegistry I opts of Some e \<Rightarrow> Inl (Wrapf e ''failed to initialize registry client'' []) | None \<Rightarrow> Inr opts)"

definition ListImageTags :: "'k image_env \<Rightarrow> registry_flags \<Rightarrow> string \<Rightarrow> string list res" where
  "ListImageTags I r imageName = (case ig_ParseReference I imageName of Inl e \<Rightarrow> Inl e | Inr ref \<Rightarrow> ig_ListTags I r ref)"

definition registry_image :: "'k image_env \<Rightarrow> registry_flags \<Rightarrow> string \<Rightarrow> (layer list res) res" where
  "registry_image I r imageWithTag =
     (case ig_ParseReference I imageWithTag of
        Inl e \<Rightarrow> Inl e
      | Inr ref \<Rightarrow> (case ig_Get I r ref of Inl e \<Rightarrow> Inl (Wrapf e ''Collecting images'' []) | Inr img \<Rightarrow> img))"

definition registry_GetFile :: "'v lib \<Rightarrow> 'k image_env \<Rightarrow> registry_flags \<Rightarrow> string \<Rightarrow> string \<Rightarrow> string res" where
  "registry_GetFile L I r imageWithTag filename =
     (case registry_image I r imageWithTag of Inl e \<Rightarrow> Inl e | Inr layers \<Rightarrow> getFileContentFromImage L layers filename)"

definition registry_GetFiles :: "'k image_env \<Rightarrow> registry_flags \<Rightarrow> string \<Rightarrow> files res" where
  "registry_GetFiles I r imageWithTag =
     (case registry_image I r imageWithTag of Inl e \<Rightarrow> Inl e | Inr layers \<Rightarrow> getAllFilesContentFromImage layers)"

definition registry_GetImageDigest :: "'k image_env \<Rightarrow> registry_flags \<Rightarrow> string \<Rightarrow> (string \<times> string) res" where
  "registry_GetImageDigest I r imageWithTag =
     (case ig_ParseReference I imageWithTag of Inl e \<Rightarrow> Inl e | Inr ref \<Rightarrow> ig_Digest I r ref)"

definition run_cmd :: "'k image_env \<Rightarrow> imgpkg_cmd \<Rightarrow> unit ran" where
  "run_cmd I c = ([c], case ig_run I c of Some e \<Rightarrow> Inl e | None \<Rightarrow> Inr ())"

definition registry_CopyImageToTar :: "'k image_env \<Rightarrow> registry_flags \<Rightarrow> string \<Rightarrow> string \<Rightarrow> unit ran" where
  "registry_CopyImageToTar I r sourceImageName destTarFile =
     run_cmd I (CopyToTar (ig_IsBundle I sourceImageName) sourceImageName destTarFile r)"

definition registry_CopyImageFromTar :: "'k image_env \<Rightarrow> registry_flags \<Rightarrow> string \<Rightarrow> string \<Rightarrow> unit ran" where
  "registry_CopyImageFromTar I r sourceTarFile destImageRepo =
     run_cmd I (CopyFromTar sourceTarFile destImageRepo (r\<lparr>rf_Anon := False\<rparr>))"

definition downloadBundleOrImage :: "'k image_env \<Rightarrow> registry_flags \<Rightarrow> string \<Rightarrow> string \<Rightarrow> bool \<Rightarrow> unit ran" where
  "downloadBundleOrImage I r imageName outputDir isBundle = run_cmd I (Pull isBundle imageName outputDir r)"

definition DownloadBundle :: "'k image_env \<Rightarrow> registry_flags \<Rightarrow> string \<Rightarrow> string \<Rightarrow> unit ran" where
  "DownloadBundle I r imageName outputDir = downloadBundleOrImage I r imageName outputDir True"

definition registry_DownloadImage :: "'k image_env \<Rightarrow> registry_flags \<Rightarrow> string \<Rightarrow> string \<Rightarrow> unit ran" where
  "registry_DownloadImage I r imageName outputDir = downloadBundleOrImage I r imageName outputDir False"

definition registry_PushImage :: "'k image_env \<Rightarrow> registry_flags \<Rightarrow> string \<Rightarrow> string list \<Rightarrow> unit ran" where
  "registry_PushImage I r imageWithTag filePaths = run_cmd I (Push imageWithTag filePaths (r\<lparr>rf_Anon := False\<rparr>))"

definition registry_ResolveImage :: "'k image_env \<Rightarrow> registry_flags \<Rightarrow> string \<Rightarrow> unit ran" where
  "registry_ResolveImage I r imageWithTag = run_cmd I (TagResolve imageWithTag r)"

section \<open>Image operations\<close>

text \<open>The registry of a host: anonymous unless the host is among the authenticated ones.\<close>

definition authenticated :: "'k reg_env \<Rightarrow> string \<Rightarrow> bool" where
  "authenticated G registryHost \<longleftrightarrow> ContainsRegistry (split_on CHR '','' (getenv (rg_environ G) ''TANZU_CLI_AUTHENTICATED_REGISTRY'')) registryHost"

definition registry_opts :: "'k reg_env \<Rightarrow> string \<Rightarrow> cert_options \<Rightarrow> registry_flags" where
  "registry_opts G registryHost c =
     \<lparr>rf_CACertPaths = CACertPaths c, rf_VerifyCerts = (\<not> SkipCertVerify c), rf_Insecure = Insecure c, rf_Anon = (\<not> authenticated G registryHost)\<rparr>"

definition newRegistry :: "'k image_env \<Rightarrow> string \<Rightarrow> files \<Rightarrow> (registry_flags \<times> files) res" where
  "newRegistry I registryHost fs =
     (case GetRegistryCertOptions (ig_reg I) registryHost fs of
        Inl e \<Rightarrow> Inl (Wrapf e ''unable to get the registry certificate configuration'' [])
      | Inr (c, fs1) \<Rightarrow> map_sum id (\<lambda>r. (r, fs1)) (registry_New I (registry_opts (ig_reg I) registryHost c)))"

text \<open>What all operations begin with. The files are those of the certificates.\<close>

definition with_registry :: "'k image_env \<Rightarrow> string \<Rightarrow> (registry_flags \<Rightarrow> 'a ran) \<Rightarrow> files \<Rightarrow> files \<times> 'a ran" where
  "with_registry I img op fs =
     (case GetRegistryName (ig_reg I) img of
        Inl e \<Rightarrow> (fs, [], Inl e)
      | Inr registryName \<Rightarrow>
          (case newRegistry I registryName fs of
             Inl e \<Rightarrow> (fs, [], Inl (Wrapf e ''unable to initialize registry'' []))
           | Inr (reg, fs1) \<Rightarrow> (fs1, op reg)))"

definition CopyImageToTar :: "'k image_env \<Rightarrow> string \<Rightarrow> string \<Rightarrow> files \<Rightarrow> files \<times> unit ran" where
  "CopyImageToTar I sourceImageName destTarFile = with_registry I sourceImageName (\<lambda>r. registry_CopyImageToTar I r sourceImageName destTarFile)"

definition CopyImageFromTar :: "'k image_env \<Rightarrow> string \<Rightarrow> string \<Rightarrow> files \<Rightarrow> files \<times> unit ran" where
  "CopyImageFromTar I sourceTarFile destImageRepo = with_registry I destImageRepo (\<lambda>r. registry_CopyImageFromTar I r sourceTarFile destImageRepo)"

definition wrap_ran :: "string \<Rightarrow> string list \<Rightarrow> 'a ran \<Rightarrow> 'a ran" where
  "wrap_ran msg args = map_prod id (map_sum (\<lambda>e. Wrapf e msg args) id)"

definition DownloadImageAndSaveFilesToDir :: "'k image_env \<Rightarrow> string \<Rightarrow> string \<Rightarrow> files \<Rightarrow> files \<times> unit ran" where
  "DownloadImageAndSaveFilesToDir I imageWithTag destinationDir =
     with_registry I imageWithTag (\<lambda>r. wrap_ran ''error downloading image'' [] (registry_DownloadImage I r imageWithTag destinationDir))"

definition carvel_GetFilesMapFromImage :: "'k image_env \<Rightarrow> string \<Rightarrow> files \<Rightarrow> files \<times> files ran" where
  "carvel_GetFilesMapFromImage I imageWithTag = with_registry I imageWithTag (\<lambda>r. ([], registry_GetFiles I r imageWithTag))"

definition GetImageDigest :: "'k image_env \<Rightarrow> string \<Rightarrow> files \<Rightarrow> files \<times> (string \<times> string) ran" where
  "GetImageDigest I imageWithTag =
     with_registry I imageWithTag (\<lambda>r. wrap_ran ''error getting the image digest'' [] ([], registry_GetImageDigest I r imageWithTag))"

definition PushImage :: "'k image_env \<Rightarrow> string \<Rightarrow> string list \<Rightarrow> files \<Rightarrow> files \<times> unit ran" where
  "PushImage I imageWithTag filePaths = with_registry I imageWithTag (\<lambda>r. registry_PushImage I r imageWithTag filePaths)"

definition carvel_ResolveImage :: "'k image_env \<Rightarrow> string \<Rightarrow> files \<Rightarrow> files \<times> unit ran" where
  "carvel_ResolveImage I imageWithTag = with_registry I imageWithTag (\<lambda>r. registry_ResolveImage I r imageWithTag)"

definition GetFileDigestFromImage :: "'k image_env \<Rightarrow> string \<Rightarrow> string \<Rightarrow> files \<Rightarrow> files \<times> string ran" where
  "GetFileDigestFromImage I imageWithTag fileName fs =
     (case ig_MkdirTemp I of
        Inl e \<Rightarrow> (fs, [], Inl (Wrapf e ''unable to create temporary directory'' []))
      | Inr tempDir \<Rightarrow>
          (case DownloadImageAndSaveFilesToDir I imageWithTag tempDir fs of
             (fs1, cmds, Inl e) \<Rightarrow> (fs1, cmds, Inl (Wrapf e ''unable to find image at %q'' [imageWithTag]))
           | (fs1, cmds, Inr _) \<Rightarrow>
               let path = path_join [tempDir, fileName]
               in (fs1, cmds, map_sum (\<lambda>e. Wrapf e ''unable to calculate digest for path %v'' [path]) id (ig_GetDigest I path))))"

text \<open>
  Every command that an image operation runs uses the certificates, the verification and the credentials that are
  configured for the host of its image.
\<close>

datatype image_op =
    OpCopyToTar string string
  | OpCopyFromTar string string
  | OpDownload string string
  | OpPush string "string list"
  | OpResolve string
  | OpFileDigest string string

fun op_image :: "image_op \<Rightarrow> string" where
  "op_image (OpCopyToTar img tarFile) = img"
| "op_image (OpCopyFromTar tarFile repo) = repo"
| "op_image (OpDownload img dir) = img"
| "op_image (OpPush img paths) = img"
| "op_image (OpResolve img) = img"
| "op_image (OpFileDigest img name) = img"

fun run_op :: "'k image_env \<Rightarrow> image_op \<Rightarrow> files \<Rightarrow> files \<times> imgpkg_cmd list" where
  "run_op I (OpCopyToTar img tarFile) fs = map_prod id fst (CopyImageToTar I img tarFile fs)"
| "run_op I (OpCopyFromTar tarFile repo) fs = map_prod id fst (CopyImageFromTar I tarFile repo fs)"
| "run_op I (OpDownload img dir) fs = map_prod id fst (DownloadImageAndSaveFilesToDir I img dir fs)"
| "run_op I (OpPush img paths) fs = map_prod id fst (PushImage I img paths fs)"
| "run_op I (OpResolve img) fs = map_prod id fst (carvel_ResolveImage I img fs)"
| "run_op I (OpFileDigest img name) fs = map_prod id fst (GetFileDigestFromImage I img name fs)"

fun cmd_image :: "imgpkg_cmd \<Rightarrow> string" where
  "cmd_image (CopyToTar b img tarFile f) = img"
| "cmd_image (CopyFromTar tarFile repo f) = repo"
| "cmd_image (Pull b img dir f) = img"
| "cmd_image (Push img paths f) = img"
| "cmd_image (TagResolve img f) = img"

text \<open>
  What the configuration allows the flags of a command to be: verification is skipped and plain connections are used only when the
  certificate entry of the host says so, and every certificate file that is trusted holds a certificate that is configured: the one
  of the projects registry on Windows, the one of the proxy, or the one of the host.
\<close>

definition cert_of_host :: "'k reg_env \<Rightarrow> string \<Rightarrow> cert \<Rightarrow> bool" where
  "cert_of_host G host c \<longleftrightarrow> rg_CertExists G host \<and> rg_GetCert G host = Inr c"

definition configured_ca :: "'k reg_env \<Rightarrow> string \<Rightarrow> string \<Rightarrow> bool" where
  "configured_ca G host ca \<longleftrightarrow>
     GOOS (rg_platform G) = ''windows'' \<and> ca = rg_projectsRegistryCA G \<or>
     rg_DecodeString G (getenv (rg_environ G) ''PROXY_CA_CERT'') = Inr ca \<or>
     (\<exists>c. cert_of_host G host c \<and> rg_DecodeString G (ce_CACertData c) = Inr ca)"

definition paths_configured :: "'k reg_env \<Rightarrow> string \<Rightarrow> string list \<Rightarrow> files \<Rightarrow> bool" where
  "paths_configured G host ps fs \<longleftrightarrow> (\<forall>p \<in> set ps. \<exists>ca. map_of fs p = Some ca \<and> configured_ca G host ca)"

definition flags_trusted :: "'k reg_env \<Rightarrow> string \<Rightarrow> files \<Rightarrow> registry_flags \<Rightarrow> bool" where
  "flags_trusted G host fs f \<longleftrightarrow>
     (rf_VerifyCerts f \<or> (\<exists>c. cert_of_host G host c \<and> parse_bool_or_false (ce_SkipCertVerify c))) \<and>
     (rf_Insecure f \<longrightarrow> (\<exists>c. cert_of_host G host c \<and> parse_bool_or_false (ce_Insecure c))) \<and>
     (authenticated G host \<longrightarrow> \<not> rf_Anon f) \<and>
     paths_configured G host (rf_CACertPaths f) fs"

definition op_trusted :: "'k image_env \<Rightarrow> string \<Rightarrow> files \<Rightarrow> imgpkg_cmd list \<Rightarrow> bool" where
  "op_trusted I img fs' cmds \<longleftrightarrow>
     (\<forall>c \<in> set cmds. cmd_image c = img \<and>
        (\<exists>host. GetRegistryName (ig_reg I) img = Inr host \<and> flags_trusted (ig_reg I) host fs' (cmd_flags c)))"

text \<open>Writing a configured certificate keeps that all trusted files hold configured ones, also when it replaces one of them.\<close>

lemma updateCACertData_paths:
  assumes "updateCACertData G data (opts, fs) = Inr (opts', fs')" "paths_configured G host (CACertPaths opts) fs"
    and "\<And>ca. rg_DecodeString G data = Inr ca \<Longrightarrow> configured_ca G host ca"
  shows "paths_configured G host (CACertPaths opts') fs' \<and> SkipCertVerify opts' = SkipCertVerify opts \<and> Insecure opts' = Insecure opts"
proof (cases "data = ''''")
  case True
  with assms(1,2) show ?thesis by (simp add: updateCACertData_def)
next
  case False
  then obtain ca where ca: "rg_DecodeString G data = Inr ca"
    using assms(1) by (cases "rg_DecodeString G data") (simp_all add: updateCACertData_def)
  show ?thesis
  proof (cases "ca = []")
    case True
    with False ca assms(1,2) show ?thesis by (simp add: updateCACertData_def)
  next
    case nonempty: False
    with False ca assms(1) obtain p where "rg_RegistryCertFile G = Inr p"
      by (cases "rg_RegistryCertFile G") (simp_all add: updateCACertData_def)
    moreover from this nonempty False ca assms(1) have "rg_WriteFile G p = None"
      by (cases "rg_WriteFile G p") (simp_all add: updateCACertData_def)
    ultimately have "opts' = opts\<lparr>CACertPaths := CACertPaths opts @ [p]\<rparr>" "fs' = AList.update p ca fs"
      using nonempty False ca assms(1) by (simp_all add: updateCACertData_def)
    with assms(2) assms(3) [OF ca] show ?thesis by (auto simp: paths_configured_def update_conv')
  qed
qed

lemma updateRegistryCertOptions_trusted:
  assumes "updateRegistryCertOptions G c (opts, fs) = Inr (opts', fs')" "paths_configured G host (CACertPaths opts) fs" "cert_of_host G host c"
    and "\<not> SkipCertVerify opts" "\<not> Insecure opts"
  shows "paths_configured G host (CACertPaths opts') fs' \<and> (SkipCertVerify opts' \<longrightarrow> parse_bool_or_false (ce_SkipCertVerify c)) \<and>
     (Insecure opts' \<longrightarrow> parse_bool_or_false (ce_Insecure c))"
proof -
  have ca: "\<And>ca. rg_DecodeString G (ce_CACertData c) = Inr ca \<Longrightarrow> configured_ca G host ca"
    using assms(3) by (auto simp: configured_ca_def)
  from updateCACertData_paths [OF assms(1) [unfolded updateRegistryCertOptions_def Let_def prod.case] _ ca] assms(2,4,5)
  show ?thesis by (auto split: if_splits)
qed

lemma windows_paths:
  assumes "AddRegistryTrustedRootCertsFileForWindows G (opts, fs) = Inr (opts', fs')" "CACertPaths opts = []" "GOOS (rg_platform G) = ''windows''"
  shows "paths_configured G host (CACertPaths opts') fs' \<and> SkipCertVerify opts' = SkipCertVerify opts \<and> Insecure opts' = Insecure opts"
  using assms by (auto simp: AddRegistryTrustedRootCertsFileForWindows_def paths_configured_def configured_ca_def update_conv'
      split: sum.splits option.splits)

lemma cert_options_trusted:
  assumes "GetRegistryCertOptions G host fs = Inr (opts, fs')"
  shows "paths_configured G host (CACertPaths opts) fs' \<and>
     (SkipCertVerify opts \<longrightarrow> (\<exists>c. cert_of_host G host c \<and> parse_bool_or_false (ce_SkipCertVerify c))) \<and>
     (Insecure opts \<longrightarrow> (\<exists>c. cert_of_host G host c \<and> parse_bool_or_false (ce_Insecure c)))"
proof -
  have proxy: "\<And>ca. rg_DecodeString G (getenv (rg_environ G) ''PROXY_CA_CERT'') = Inr ca \<Longrightarrow> configured_ca G host ca"
    by (simp add: configured_ca_def)
  let ?st0 = "(\<lparr>CACertPaths = [], SkipCertVerify = False, Insecure = False\<rparr>, fs)"
  obtain o1 fs1 where st1: "(if GOOS (rg_platform G) = ''windows'' then AddRegistryTrustedRootCertsFileForWindows G ?st0 else Inr ?st0) = Inr (o1, fs1)"
    using assms by (auto simp: GetRegistryCertOptions_def Let_def split: sum.splits)
  have o1: "paths_configured G host (CACertPaths o1) fs1 \<and> \<not> SkipCertVerify o1 \<and> \<not> Insecure o1"
    using st1 windows_paths [of G _ fs o1 fs1 host] by (auto simp: paths_configured_def split: if_splits)
  show ?thesis
  proof (cases "rg_CertExists G host")
    case False
    then have "updateCACertData G (getenv (rg_environ G) ''PROXY_CA_CERT'') (o1, fs1) = Inr (opts, fs')"
      using assms st1 by (simp add: GetRegistryCertOptions_def Let_def checkForProxyConfigAndUpdateCert_def split: sum.splits)
    from updateCACertData_paths [OF this _ proxy] o1 show ?thesis by simp
  next
    case True
    then obtain c o2 fs2 where c: "cert_of_host G host c" and u: "updateRegistryCertOptions G c (o1, fs1) = Inr (o2, fs2)"
      and p: "updateCACertData G (getenv (rg_environ G) ''PROXY_CA_CERT'') (o2, fs2) = Inr (opts, fs')"
      using assms st1
      by (auto simp: GetRegistryCertOptions_def Let_def checkForProxyConfigAndUpdateCert_def cert_of_host_def split: sum.splits)
    from updateRegistryCertOptions_trusted [OF u _ c] o1 have "paths_configured G host (CACertPaths o2) fs2"
      "SkipCertVerify o2 \<longrightarrow> parse_bool_or_false (ce_SkipCertVerify c)" "Insecure o2 \<longrightarrow> parse_bool_or_false (ce_Insecure c)" by simp_all
    with updateCACertData_paths [OF p _ proxy] c show ?thesis by auto
  qed
qed

text \<open>An operation over the registry of an image is trusted when the commands of its body are, for the flags of the registry.\<close>

lemma with_registry_trusted:
  assumes "with_registry I img body fs = (fs', cmds, r)"
    and "\<And>f c. c \<in> set (fst (body f)) \<Longrightarrow> cmd_image c = img \<and> (cmd_flags c = f \<or> cmd_flags c = f\<lparr>rf_Anon := False\<rparr>)"
  shows "op_trusted I img fs' cmds"
proof (cases "cmds = []")
  case True
  then show ?thesis by (simp add: op_trusted_def)
next
  case False
  with assms(1) obtain host opts where
    host: "GetRegistryName (ig_reg I) img = Inr host" "GetRegistryCertOptions (ig_reg I) host fs = Inr (opts, fs')"
    and body: "body (registry_opts (ig_reg I) host opts) = (cmds, r)"
    by (auto simp: with_registry_def newRegistry_def registry_New_def split: sum.splits prod.splits option.splits)
  show ?thesis
    unfolding op_trusted_def
  proof (intro ballI conjI exI)
    fix c assume c: "c \<in> set cmds"
    then have f: "cmd_image c = img" "cmd_flags c = registry_opts (ig_reg I) host opts \<or>
        cmd_flags c = (registry_opts (ig_reg I) host opts)\<lparr>rf_Anon := False\<rparr>"
      using assms(2) [of c "registry_opts (ig_reg I) host opts"] body by simp_all
    show "cmd_image c = img" by (fact f)
    show "GetRegistryName (ig_reg I) img = Inr host" by (fact host)
    show "flags_trusted (ig_reg I) host fs' (cmd_flags c)"
      using f(2) cert_options_trusted [OF host(2)] by (elim disjE) (simp_all add: flags_trusted_def registry_opts_def)
  qed
qed

lemmas client_ops = CopyImageToTar_def CopyImageFromTar_def DownloadImageAndSaveFilesToDir_def PushImage_def carvel_ResolveImage_def
lemmas client_cmds = registry_CopyImageToTar_def registry_CopyImageFromTar_def registry_DownloadImage_def downloadBundleOrImage_def
  registry_PushImage_def registry_ResolveImage_def run_cmd_def wrap_ran_def

lemma download_trusted:
  assumes "DownloadImageAndSaveFilesToDir I img dir fs = (fs', cmds, r)"
  shows "op_trusted I img fs' cmds"
  by (rule with_registry_trusted [OF assms [unfolded client_ops]]) (auto simp: client_cmds)

lemma file_digest_effects:
  assumes "ig_MkdirTemp I = Inr tempDir" "DownloadImageAndSaveFilesToDir I img tempDir fs = (fs1, cmds1, r1)"
  shows "map_prod id fst (GetFileDigestFromImage I img name fs) = (fs1, cmds1)"
proof (cases r1)
  case (Inl e)
  with assms show ?thesis by (simp add: GetFileDigestFromImage_def)
next
  case (Inr u)
  with assms show ?thesis by (cases u) (simp add: GetFileDigestFromImage_def Let_def)
qed

text \<open>C19 (safety): every command of imgpkg that an image operation runs is for the image of the operation; it skips the verification of
  certificates or uses plain connections only when the certificate entry of the host of the image says so, trusts only files that hold
  a certificate configured for Windows, the proxy or the host, and carries credentials when the host is among the authenticated registries.\<close>

theorem image_operations_trusted:
  assumes "run_op I oper fs = (fs', cmds)"
  shows "op_trusted I (op_image oper) fs' cmds"
proof (cases oper)
  case (OpCopyToTar img tarFile)
  then obtain r where "CopyImageToTar I img tarFile fs = (fs', cmds, r)" using assms by (cases "CopyImageToTar I img tarFile fs") auto
  from with_registry_trusted [OF this [unfolded client_ops]] OpCopyToTar show ?thesis by (auto simp: client_cmds)
next
  case (OpCopyFromTar tarFile repo)
  then obtain r where "CopyImageFromTar I tarFile repo fs = (fs', cmds, r)" using assms by (cases "CopyImageFromTar I tarFile repo fs") auto
  from with_registry_trusted [OF this [unfolded client_ops]] OpCopyFromTar show ?thesis by (auto simp: client_cmds)
next
  case (OpDownload img dir)
  then obtain r where "DownloadImageAndSaveFilesToDir I img dir fs = (fs', cmds, r)"
    using assms by (cases "DownloadImageAndSaveFilesToDir I img dir fs") auto
  from download_trusted [OF this] OpDownload show ?thesis by simp
next
  case (OpPush img paths)
  then obtain r where "PushImage I img paths fs = (fs', cmds, r)" using assms by (cases "PushImage I img paths fs") auto
  from with_registry_trusted [OF this [unfolded client_ops]] OpPush show ?thesis by (auto simp: client_cmds)
next
  case (OpResolve img)
  then obtain r where "carvel_ResolveImage I img fs = (fs', cmds, r)" using assms by (cases "carvel_ResolveImage I img fs") auto
  from with_registry_trusted [OF this [unfolded client_ops]] OpResolve show ?thesis by (auto simp: client_cmds)
next
  case (OpFileDigest img name)
  show ?thesis
  proof (cases "ig_MkdirTemp I")
    case (Inl e)
    with OpFileDigest assms show ?thesis by (auto simp: GetFileDigestFromImage_def op_trusted_def)
  next
    case (Inr tempDir)
    obtain fs1 cmds1 r1 where d: "DownloadImageAndSaveFilesToDir I img tempDir fs = (fs1, cmds1, r1)"
      by (metis prod.collapse)
    from file_digest_effects [OF Inr d] OpFileDigest assms have "fs' = fs1" "cmds = cmds1" by simp_all
    with download_trusted [OF d] OpFileDigest show ?thesis by simp
  qed
qed

definition demo_images :: "nat image_env" where
  "demo_images = \<lparr>ig_reg = demo_reg\<lparr>rg_CertExists := (\<lambda>h. h = ''r''), rg_RegistryStr := (\<lambda>_. Inr ''r''),
       rg_GetCert := (\<lambda>_. Inr \<lparr>ce_SkipCertVerify = ''false'', ce_Insecure = '''', ce_CACertData = ''pem''\<rparr>)\<rparr>,
     ig_NewRegistry = (\<lambda>_. None), ig_run = (\<lambda>_. None), ig_IsBundle = (\<lambda>_. False), ig_ParseReference = Inr, ig_ListTags = (\<lambda>_ _. Inr []),
     ig_Get = (\<lambda>_ _. Inr (Inr (Inr []))), ig_Digest = (\<lambda>_ _. Inr ('''', '''')), ig_MkdirTemp = Inr ''t'', ig_GetDigest = Inr\<rparr>"

theorem image_operations_trusted_witness:
  "\<exists>cmds. run_op demo_images (OpFileDigest ''r/i'' ''f'') [] = ([(''c'', ''pem'')], cmds) \<and> cmds \<noteq> [] \<and>
     op_trusted demo_images ''r/i'' [(''c'', ''pem'')] cmds"
proof -
  let ?cmds = "[Pull False ''r/i'' ''t'' \<lparr>rf_CACertPaths = [''c''], rf_VerifyCerts = True, rf_Insecure = False, rf_Anon = True\<rparr>]"
  have "run_op demo_images (OpFileDigest ''r/i'' ''f'') [] = ([(''c'', ''pem'')], ?cmds)" by code_simp
  from image_operations_trusted [OF this] this show ?thesis by auto
qed

end
