(* ===== verification/Kube_Config.thy ===== *)
theory Kube_Config
  imports Telemetry Registry_Trust
begin

text \<open>
  Contexts of the CLI and the kubeconfig files they refer to: \<^verbatim>\<open>pkg/auth/utils/kubeconfig/kubeconfig.go\<close>,
  \<^verbatim>\<open>pkg/auth/tanzu/kubeconfig.go\<close>, \<^verbatim>\<open>pkg/auth/tkg/kube_config.go\<close>, and the operations on kubeconfigs of
  \<^verbatim>\<open>pkg/command/context.go\<close>.

  A kubeconfig is three maps and the name of the current context. Files hold bytes of a type \<open>'b\<close>; decoding, encoding
  and merging are those of \<^verbatim>\<open>clientcmd\<close> and \<^verbatim>\<open>mergo\<close>.
\<close>

section \<open>Contexts\<close>

text \<open>A value of the metadata of a context is an \<^verbatim>\<open>interface{}\<close>. The map may be \<^verbatim>\<open>nil\<close>.\<close>

datatype meta_value = MString string | MBool bool | MIdp string | MOther

record server_auth =
  sa_Issuer :: string
  sa_UserName :: string
  sa_Permissions :: "string list"
  sa_AccessToken :: string
  sa_IDToken :: string
  sa_RefreshToken :: string
  sa_Type :: string
  sa_Expiration :: int

record global_server =
  gs_Endpoint :: string
  gs_Auth :: server_auth

record cluster_server =
  cs_Endpoint :: string
  cs_Path :: string
  cs_Context :: string
  cs_IsManagementCluster :: bool

record config_context =
  kx_Name :: string
  kx_ContextType :: string
  kx_GlobalOpts :: "global_server option"
  kx_ClusterOpts :: "cluster_server option"
  kx_AdditionalMetadata :: "(string \<times> meta_value) list option"

text \<open>The keys of the metadata are constants of the plugin runtime; the code relies on them being distinct.\<close>

record context_keys = metadata_keys +
  OrgNameKey :: string
  TanzuHubEndpointKey :: string
  TanzuMissionControlEndpointKey :: string
  TanzuIdpTypeKey :: string
  TanzuAuthEndpointKey :: string
  CSPIdpType :: string
  UAAIdpType :: string

definition context_keys_law :: "context_keys \<Rightarrow> bool" where
  "context_keys_law K \<longleftrightarrow> distinct [ProjectNameKey K, ProjectIDKey K, OrgIDKey K, SpaceNameKey K, ClusterGroupNameKey K, OrgNameKey K,
     TanzuHubEndpointKey K, TanzuMissionControlEndpointKey K, TanzuIdpTypeKey K, TanzuAuthEndpointKey K] \<and> CSPIdpType K \<noteq> UAAIdpType K"

definition demo_context_keys :: context_keys where
  "demo_context_keys = \<lparr>ProjectNameKey = ''projectName'', ProjectIDKey = ''projectID'', OrgIDKey = ''orgID'', SpaceNameKey = ''space'',
     ClusterGroupNameKey = ''clusterGroup'', OrgNameKey = ''orgName'', TanzuHubEndpointKey = ''hub'',
     TanzuMissionControlEndpointKey = ''tmc'', TanzuIdpTypeKey = ''idpType'', TanzuAuthEndpointKey = ''auth'',
     CSPIdpType = ''csp'', UAAIdpType = ''uaa''\<rparr>"

lemma demo_context_keys_law: "context_keys_law demo_context_keys"
  by code_simp

definition meta_get :: "config_context \<Rightarrow> string \<Rightarrow> meta_value option" where
  "meta_get ctx k = Option.bind (kx_AdditionalMetadata ctx) (\<lambda>m. map_of m k)"

section \<open>Kubeconfigs\<close>

record exec_config =
  ex_APIVersion :: string
  ex_Command :: string
  ex_Args :: "string list"
  ex_InteractiveMode :: string

record kube_context =
  kc_Cluster :: string
  kc_AuthInfo :: string
  kc_Namespace :: string

record kube_cluster =
  ku_Server :: string
  ku_InsecureSkipTLSVerify :: bool
  ku_CertificateAuthorityData :: string

record kube_config =
  kf_Clusters :: "(string \<times> kube_cluster) list"
  kf_AuthInfos :: "(string \<times> exec_config option) list"
  kf_Contexts :: "(string \<times> kube_context) list"
  kf_CurrentContext :: string

record 'b kube_codec =
  ky_Load :: "'b \<Rightarrow> kube_config res"
  ky_Write :: "kube_config \<Rightarrow> 'b res"
  ky_NoBytes :: 'b
  ky_Merge :: "kube_config \<Rightarrow> kube_config \<Rightarrow> kube_config res"
  ky_DefaultFile :: string

record 'b kube_fs =
  kw_files :: "string \<Rightarrow> 'b option"
  kw_load :: "string \<Rightarrow> err option"
  kw_write :: "string \<Rightarrow> write_fault option"

definition LoadFromFile :: "'b kube_codec \<Rightarrow> 'b kube_fs \<Rightarrow> string \<Rightarrow> kube_config res" where
  "LoadFromFile Y w path =
     (case kw_load w path of
        Some e \<Rightarrow> Inl e
      | None \<Rightarrow> (case kw_files w path of None \<Rightarrow> Inl ErrNotExist | Some b \<Rightarrow> ky_Load Y b))"

definition WriteToFile :: "'b kube_codec \<Rightarrow> kube_config \<Rightarrow> string \<Rightarrow> 'b kube_fs \<Rightarrow> 'b kube_fs \<times> err option" where
  "WriteToFile Y k path w =
     (case ky_Write Y k of
        Inl e \<Rightarrow> (w, Some e)
      | Inr b \<Rightarrow>
          (case kw_write w path of
             Some (OpenFails e) \<Rightarrow> (w, Some e)
           | Some (WriteFails e) \<Rightarrow> (w\<lparr>kw_files := (kw_files w)(path \<mapsto> ky_NoBytes Y)\<rparr>, Some e)
           | None \<Rightarrow> (w\<lparr>kw_files := (kw_files w)(path \<mapsto> b)\<rparr>, None)))"

section \<open>Operations on kubeconfig files\<close>

definition MergeKubeConfigWithoutSwitchContext :: "'b kube_codec \<Rightarrow> 'b \<Rightarrow> string \<Rightarrow> 'b kube_fs \<Rightarrow> 'b kube_fs \<times> err option" where
  "MergeKubeConfigWithoutSwitchContext Y kubeConfig mergeFile0 w =
     (let mergeFile = (if mergeFile0 = '''' then ky_DefaultFile Y else mergeFile0)
      in case ky_Load Y kubeConfig of
           Inl e \<Rightarrow> (w, Some (Wrapf e ''unable to load kubeconfig'' []))
         | Inr newConfig \<Rightarrow>
             if kw_files w mergeFile = None then WriteToFile Y newConfig mergeFile w
             else (case LoadFromFile Y w mergeFile of
                     Inl e \<Rightarrow> (w, Some (Wrapf e ''unable to load kube config'' []))
                   | Inr dest \<Rightarrow>
                       (case ky_Merge Y dest newConfig of
                          Inl e \<Rightarrow> (w, Some (Wrapf e ''failed to merge config'' []))
                        | Inr merged \<Rightarrow> WriteToFile Y (merged\<lparr>kf_CurrentContext := kf_CurrentContext dest\<rparr>) mergeFile w)))"

definition SetCurrentContext :: "'b kube_codec \<Rightarrow> string \<Rightarrow> string \<Rightarrow> 'b kube_fs \<Rightarrow> 'b kube_fs \<times> err option" where
  "SetCurrentContext Y kubeConfigPath contextName w =
     (case LoadFromFile Y w kubeConfigPath of
        Inl e \<Rightarrow> (w, Some (Wrapf e ''unable to load kubeconfig'' []))
      | Inr config \<Rightarrow>
          if contextName = '''' then (w, Some (Errorf ''context is not provided'' []))
          else if contextName \<in> set (keys_of (kf_Contexts config))
          then WriteToFile Y (config\<lparr>kf_CurrentContext := contextName\<rparr>) kubeConfigPath w
          else (w, Some (Errorf ''context %q does not exist'' [contextName])))"

definition DeleteContextFromKubeConfig :: "'b kube_codec \<Rightarrow> string \<Rightarrow> string \<Rightarrow> 'b kube_fs \<Rightarrow> 'b kube_fs \<times> err option" where
  "DeleteContextFromKubeConfig Y kubeconfigPath context w =
     (case LoadFromFile Y w kubeconfigPath of
        Inl e \<Rightarrow> (w, Some (Wrapf e ''unable to load kubeconfig'' []))
      | Inr config \<Rightarrow>
          (case map_of (kf_Contexts config) context of
             None \<Rightarrow> (w, None)
           | Some c \<Rightarrow>
               let config' = config\<lparr>kf_Contexts := AList.delete context (kf_Contexts config),
                     kf_Clusters := AList.delete (kc_Cluster c) (kf_Clusters config),
                     kf_AuthInfos := AList.delete (kc_AuthInfo c) (kf_AuthInfos config),
                     kf_CurrentContext := (if kf_CurrentContext config = context then '''' else kf_CurrentContext config)\<rparr>
               in (case WriteToFile Y config' kubeconfigPath w of
                     (w1, Some e) \<Rightarrow> (w1, Some (Wrapf e ''failed to delete the kubeconfig context %s'' [context]))
                   | (w1, None) \<Rightarrow> (w1, None))))"

definition loadKubeconfigAndEnsureContext :: "'b kube_codec \<Rightarrow> 'b kube_fs \<Rightarrow> string \<Rightarrow> string \<Rightarrow> 'b res" where
  "loadKubeconfigAndEnsureContext Y w kubeConfigPath context =
     (case LoadFromFile Y w kubeConfigPath of
        Inl e \<Rightarrow> Inl e
      | Inr config \<Rightarrow> ky_Write Y (if context \<noteq> '''' then config\<lparr>kf_CurrentContext := context\<rparr> else config))"

definition MergeAndSaveKubeconfigBytes ::
    "'b kube_codec \<Rightarrow> 'b \<Rightarrow> string option \<Rightarrow> 'b kube_fs \<Rightarrow> 'b kube_fs \<times> (string \<times> string) res" where
  "MergeAndSaveKubeconfigBytes Y kubeconfigBytes options w =
     (let mergeFilePath = (case options of Some p \<Rightarrow> if p \<noteq> '''' then p else ky_DefaultFile Y | None \<Rightarrow> ky_DefaultFile Y)
      in case MergeKubeConfigWithoutSwitchContext Y kubeconfigBytes mergeFilePath w of
           (w1, Some e) \<Rightarrow> (w1, Inl (Wrapf e ''unable to merge cluster kubeconfig to the Tanzu local kubeconfig path'' []))
         | (w1, None) \<Rightarrow>
             (w1, (case ky_Load Y kubeconfigBytes of
                     Inl e \<Rightarrow> Inl (Wrapf e ''unable to load kubeconfig'' [])
                   | Inr config \<Rightarrow> Inr (mergeFilePath, kf_CurrentContext config))))"

section \<open>Kubeconfigs the CLI makes\<close>

record 'b kube_env =
  kv_keys :: context_keys
  kv_codec :: "'b kube_codec"
  kv_environ :: environ
  kv_ReadFile :: "string \<Rightarrow> string res"
  kv_GetCert :: "string \<Rightarrow> cert option"
  kv_Base64Decode :: "string \<Rightarrow> string res"
  kv_Base64Encode :: "string \<Rightarrow> string"
  kv_LocalDir :: "string res"
  kv_MkdirAll :: "string \<Rightarrow> err option"

definition kubeconfigContextName :: "string \<Rightarrow> string" where
  "kubeconfigContextName tanzuContextName = ''tanzu-cli-'' @ tanzuContextName"

definition kubeconfigClusterName :: "string \<Rightarrow> string" where
  "kubeconfigClusterName tanzuContextName = ''tanzu-cli-'' @ tanzuContextName"

definition kubeconfigUserName :: "string \<Rightarrow> string" where
  "kubeconfigUserName tanzuContextName = ''tanzu-cli-'' @ tanzuContextName @ ''-user''"

definition getExecConfig :: "config_context \<Rightarrow> exec_config" where
  "getExecConfig c = \<lparr>ex_APIVersion = ''client.authentication.k8s.io/v1'', ex_Command = ''tanzu'',
     ex_Args = [''context'', ''get-token'', kx_Name c], ex_InteractiveMode = ''IfAvailable''\<rparr>"

definition tanzuLocalKubeConfigPath :: "'b kube_env \<Rightarrow> string res" where
  "tanzuLocalKubeConfigPath V =
     (case kv_LocalDir V of
        Inl e \<Rightarrow> Inl (Wrapf e ''could not locate local tanzu dir'' [])
      | Inr localDir \<Rightarrow>
          let path = path_join [localDir, ''kube'']
          in (case kv_MkdirAll V path of Some e \<Rightarrow> Inl e | None \<Rightarrow> Inr (path_join [path, ''config''])))"

text \<open>The certificate data and the TLS verification of the kubeconfig: the file of the flag, else what is stored for
  the authentication endpoint. A metadata value of another type makes the assertion panic.\<close>

definition tanzu_tls :: "'b kube_env \<Rightarrow> config_context \<Rightarrow> string \<Rightarrow> bool \<Rightarrow> (string \<times> bool) res option" where
  "tanzu_tls V c endpointCACertPath skipTLSVerify =
     (if endpointCACertPath \<noteq> ''''
      then Some (case kv_ReadFile V endpointCACertPath of
             Inl e \<Rightarrow> Inl (Wrapf e ''error reading CA certificate file %s'' [endpointCACertPath])
           | Inr bytes \<Rightarrow> Inr (bytes, skipTLSVerify))
      else if skipTLSVerify then Some (Inr ('''', skipTLSVerify))
      else (case meta_get c (TanzuAuthEndpointKey (kv_keys V)) of
              None \<Rightarrow> Some (Inr ('''', skipTLSVerify))
            | Some (MString ep) \<Rightarrow>
                Some (Inr (case kv_GetCert V ep of
                   None \<Rightarrow> ('''', skipTLSVerify)
                 | Some certInfo \<Rightarrow>
                     ((case kv_Base64Decode V (ce_CACertData certInfo) of Inl e \<Rightarrow> '''' | Inr d \<Rightarrow> d),
                      (case parse_bool (ce_SkipCertVerify certInfo) of None \<Rightarrow> skipTLSVerify | Some b \<Rightarrow> b))))
            | Some _ \<Rightarrow> None))"

definition org_server_url :: "string \<Rightarrow> string \<Rightarrow> string" where
  "org_server_url endpoint orgID =
     (let url = trim_space endpoint;
          url1 = (if \<not> has_prefix url ''https://'' \<and> \<not> has_prefix url ''http://'' then ''https://'' @ url else url)
      in url1 @ ''/org/'' @ orgID)"

definition tanzu_kubeconfig :: "config_context \<Rightarrow> string \<Rightarrow> string \<Rightarrow> bool \<Rightarrow> kube_config" where
  "tanzu_kubeconfig c serverURL caData skip =
     \<lparr>kf_Clusters = [(kubeconfigClusterName (kx_Name c),
         \<lparr>ku_Server = serverURL, ku_InsecureSkipTLSVerify = skip, ku_CertificateAuthorityData = caData\<rparr>)],
      kf_AuthInfos = [(kubeconfigUserName (kx_Name c), Some (getExecConfig c))],
      kf_Contexts = [(kubeconfigContextName (kx_Name c),
         \<lparr>kc_Cluster = kubeconfigClusterName (kx_Name c), kc_AuthInfo = kubeconfigUserName (kx_Name c), kc_Namespace = ''''\<rparr>)],
      kf_CurrentContext = kubeconfigContextName (kx_Name c)\<rparr>"

definition GetTanzuKubeconfig ::
    "'b kube_env \<Rightarrow> config_context \<Rightarrow> string \<Rightarrow> string \<Rightarrow> string \<Rightarrow> bool \<Rightarrow> 'b kube_fs \<Rightarrow>
     ('b kube_fs \<times> (string \<times> string \<times> string) res) option" where
  "GetTanzuKubeconfig V c endpoint orgID endpointCACertPath skipTLSVerify w =
     (let serverURL = org_server_url endpoint orgID
      in case tanzu_tls V c endpointCACertPath skipTLSVerify of
           None \<Rightarrow> None
         | Some (Inl e) \<Rightarrow> Some (w, Inl e)
         | Some (Inr (caData, skip)) \<Rightarrow>
             (case ky_Write (kv_codec V) (tanzu_kubeconfig c serverURL caData skip) of
                Inl e \<Rightarrow> Some (w, Inl (Wrapf e ''failed to marshal the tanzu kubeconfig'' []))
              | Inr kubeconfigBytes \<Rightarrow>
                  (case tanzuLocalKubeConfigPath V of
                     Inl e \<Rightarrow> Some (w, Inl (Wrapf e ''unable to get the Tanzu local kubeconfig path'' []))
                   | Inr kubeconfigPath \<Rightarrow>
                       (case MergeKubeConfigWithoutSwitchContext (kv_codec V) kubeconfigBytes kubeconfigPath w of
                          (w1, Some e) \<Rightarrow> Some (w1, Inl (Wrapf e ''failed to merge the tanzu kubeconfig'' []))
                        | (w1, None) \<Rightarrow> Some (w1, Inr (kubeconfigPath, kubeconfigContextName (kx_Name c), serverURL))))))"

section \<open>The active resource of a Tanzu context\<close>

definition getProjectValueForKubeconfig :: "string \<Rightarrow> string \<Rightarrow> string" where
  "getProjectValueForKubeconfig projectName projectID = (if projectID \<noteq> '''' then projectID else projectName)"

definition validateActiveResourceOptions :: "string \<Rightarrow> string \<Rightarrow> string \<Rightarrow> string \<Rightarrow> err option" where
  "validateActiveResourceOptions project projectID space clustergroup =
     (if space \<noteq> '''' \<and> clustergroup \<noteq> '''' then Some (Errorf ''either space or clustergroup can be set as active resource. Please provide either --space or --clustergroup option'' [])
      else if project = '''' \<and> projectID = '''' \<and> space \<noteq> '''' then Some (Errorf ''space cannot be set without project. Please set the project'' [])
      else if project = '''' \<and> projectID = '''' \<and> clustergroup \<noteq> '''' then Some (Errorf ''clustergroup cannot be set without project. Please set the project'' [])
      else None)"

text \<open>The next two panic on a context without \<^verbatim>\<open>ClusterOpts\<close>; their callers check that first, so they take its value.\<close>

definition prepareClusterServerURL :: "cluster_server \<Rightarrow> string \<Rightarrow> string \<Rightarrow> string \<Rightarrow> string" where
  "prepareClusterServerURL opts project spaceName clustergroupName =
     (let serverURL = cs_Endpoint opts
      in if project = '''' then serverURL
         else let url = serverURL @ ''/project/'' @ project
              in if spaceName \<noteq> '''' then url @ ''/space/'' @ spaceName
                 else if clustergroupName \<noteq> '''' then url @ ''/clustergroup/'' @ clustergroupName
                 else url)"

definition prepareKubeContextName :: "string \<Rightarrow> string \<Rightarrow> string \<Rightarrow> string \<Rightarrow> string" where
  "prepareKubeContextName name project spaceName clustergroupName =
     (let contextName = ''tanzu-cli-'' @ name
      in if project = '''' then contextName
         else let n = contextName @ '':'' @ project
              in if spaceName \<noteq> '''' then n @ '':'' @ spaceName
                 else if clustergroupName \<noteq> '''' then n @ '':'' @ clustergroupName
                 else n)"

definition getKubeContextAndCluster :: "kube_config \<Rightarrow> cluster_server \<Rightarrow> (kube_context \<times> kube_cluster) res" where
  "getKubeContextAndCluster kcfg opts =
     (case map_of (kf_Contexts kcfg) (cs_Context opts) of
        None \<Rightarrow> Inl (Errorf ''kubecontext %q doesn't exist'' [cs_Context opts])
      | Some kubeCtx \<Rightarrow>
          (case map_of (kf_Clusters kcfg) (kc_Cluster kubeCtx) of
             None \<Rightarrow> Inl (Errorf ''kubecluster %q doesn't exist'' [kc_Cluster kubeCtx])
           | Some kubeCluster \<Rightarrow> Inr (kubeCtx, kubeCluster)))"

definition updateContextInPlace :: "kube_config \<Rightarrow> cluster_server \<Rightarrow> string \<Rightarrow> kube_config res" where
  "updateContextInPlace kcfg opts newServerURL =
     (case getKubeContextAndCluster kcfg opts of
        Inl e \<Rightarrow> Inl e
      | Inr (kubeCtx, kubeCluster) \<Rightarrow>
          Inr (kcfg\<lparr>kf_Clusters := AList.update (kc_Cluster kubeCtx) (kubeCluster\<lparr>ku_Server := newServerURL\<rparr>) (kf_Clusters kcfg)\<rparr>))"

definition updateContextWithNewName ::
    "kube_config \<Rightarrow> cluster_server \<Rightarrow> string \<Rightarrow> string \<Rightarrow> (kube_config \<times> cluster_server) res" where
  "updateContextWithNewName kcfg opts newKubeContextName newServerURL =
     (case getKubeContextAndCluster kcfg opts of
        Inl e \<Rightarrow> Inl e
      | Inr (kubeCtx, kubeCluster) \<Rightarrow>
          let clusters = AList.delete (kc_Cluster kubeCtx) (kf_Clusters kcfg);
              contexts = AList.delete (cs_Context opts) (kf_Contexts kcfg)
          in Inr (kcfg\<lparr>kf_Contexts := AList.update newKubeContextName (kubeCtx\<lparr>kc_Cluster := newKubeContextName\<rparr>) contexts,
                       kf_Clusters := AList.update newKubeContextName (kubeCluster\<lparr>ku_Server := newServerURL\<rparr>) clusters,
                       kf_CurrentContext := (if kf_CurrentContext kcfg = cs_Context opts then newKubeContextName else kf_CurrentContext kcfg)\<rparr>,
                  opts\<lparr>cs_Context := newKubeContextName\<rparr>))"

definition updateTanzuContextKubeconfig ::
    "'b kube_env \<Rightarrow> config_context \<Rightarrow> string \<Rightarrow> string \<Rightarrow> string \<Rightarrow> string \<Rightarrow> 'b kube_fs \<Rightarrow>
     'b kube_fs \<times> config_context \<times> err option" where
  "updateTanzuContextKubeconfig V ctx projectName projectID spaceName clustergroupName w =
     (case kx_ClusterOpts ctx of
        None \<Rightarrow> (w, ctx, Some (Errorf ''invalid context. Kubeconfig details are missing in the context'' []))
      | Some opts \<Rightarrow>
          (case LoadFromFile (kv_codec V) w (cs_Path opts) of
             Inl e \<Rightarrow> (w, ctx, Some (Wrapf e ''unable to load kubeconfig'' []))
           | Inr kcfg \<Rightarrow>
               let projectVal = getProjectValueForKubeconfig projectName projectID;
                   newServerURL = prepareClusterServerURL opts projectVal spaceName clustergroupName;
                   updated = (if env_flag (kv_environ V) ''TANZU_CLI_USE_STABLE_KUBE_CONTEXT_NAME''
                      then (case updateContextInPlace kcfg opts newServerURL of Inl e \<Rightarrow> Inl e | Inr k \<Rightarrow> Inr (k, opts))
                      else updateContextWithNewName kcfg opts (prepareKubeContextName (kx_Name ctx) projectName spaceName clustergroupName) newServerURL)
               in (case updated of
                     Inl e \<Rightarrow> (w, ctx, Some e)
                   | Inr (k, opts') \<Rightarrow>
                       let ctx' = ctx\<lparr>kx_ClusterOpts := Some opts'\<rparr>
                       in (case WriteToFile (kv_codec V) k (cs_Path opts) w of
                             (w1, Some e) \<Rightarrow> (w1, ctx', Some (Wrapf e ''failed to update the context kubeconfig file'' []))
                           | (w1, None) \<Rightarrow> (w1, ctx', None)))))"

end
