(* ===== verification/Login_Handler.thy ===== *)
theory Login_Handler
  imports Kube_Config "HOL-Library.Signed_Division"
begin

text \<open>
  The login of \<^verbatim>\<open>pkg/auth/common/login_handler.go\<close>: options, the exchange of a refresh token, and the login through
  the browser. There the local callback server and the prompt for a pasted code run concurrently; they are a step
  relation on the token of the handler, the flag that the exchange is complete, and the phase of the prompt.

  Requests to the issuer are the function \<open>lx_Exchange\<close> (of a code) and \<open>lx_Refresh\<close> (of a refresh token); the stored
  certificates are \<open>lx_GetCert\<close>, and what is stored is returned by the operation that stores it. Times are
  nanoseconds.
\<close>

section \<open>Handlers\<close>

record oauth_token =
  ot_AccessToken :: string
  ot_RefreshToken :: string
  ot_Expiry :: int
  ot_id_token :: "string option"

record auth_token =
  tk_IDToken :: string
  tk_TokenType :: string
  tk_ExpiresIn :: int
  tk_AccessToken :: string
  tk_RefreshToken :: string

abbreviation APITokenType :: string where "APITokenType \<equiv> ''api-token''"
abbreviation IDTokenType :: string where "IDTokenType \<equiv> ''id-token''"

record oauth_config =
  oc_RedirectURL :: string
  oc_ClientID :: string
  oc_ClientSecret :: string
  oc_AuthURL :: string
  oc_TokenURL :: string

record login_handler =
  lh_issuer :: string
  lh_clientID :: string
  lh_clientSecret :: string
  lh_listenAddr :: string
  lh_callbackPath :: string
  lh_oauthConfig :: oauth_config
  lh_refreshToken :: string
  lh_orgID :: string
  lh_idpType :: string
  lh_tlsSkipVerify :: bool
  lh_caCertData :: string
  lh_suppressInteractive :: bool

datatype tls_config = TlsInsecure | TlsRootCA string

record login_env =
  lx_environ :: environ
  lx_keys :: context_keys
  lx_now :: int
  lx_GetCert :: "string \<Rightarrow> cert option"
  lx_Hostname :: "string \<Rightarrow> string res"
  lx_Base64Decode :: "string \<Rightarrow> string res"
  lx_AppendCerts :: "string \<Rightarrow> bool"
  lx_Refresh :: "oauth_config \<Rightarrow> tls_config option \<Rightarrow> string \<Rightarrow> oauth_token res"
  lx_Exchange :: "oauth_config \<Rightarrow> tls_config option \<Rightarrow> string \<Rightarrow> oauth_token res"
  lx_Pkce :: "err option"
  lx_State :: "string res"
  lx_Listen :: "string \<Rightarrow> string res"
  lx_isTTY :: bool

definition NewTanzuLoginHandler ::
    "string \<Rightarrow> string \<Rightarrow> string \<Rightarrow> string \<Rightarrow> string \<Rightarrow> string \<Rightarrow> string \<Rightarrow> string \<Rightarrow> login_handler" where
  "NewTanzuLoginHandler issuer issuerAuthURL issuerTokenURL clientID clientSecret listenAddr callbackPath idpType =
     \<lparr>lh_issuer = issuer, lh_clientID = clientID, lh_clientSecret = clientSecret, lh_listenAddr = listenAddr,
      lh_callbackPath = callbackPath,
      lh_oauthConfig = \<lparr>oc_RedirectURL = ''http://'' @ listenAddr @ callbackPath, oc_ClientID = clientID,
        oc_ClientSecret = clientSecret, oc_AuthURL = issuerAuthURL, oc_TokenURL = issuerTokenURL\<rparr>,
      lh_refreshToken = '''', lh_orgID = '''', lh_idpType = idpType, lh_tlsSkipVerify = False, lh_caCertData = '''',
      lh_suppressInteractive = False\<rparr>"

section \<open>Options\<close>

datatype login_option =
    WithRefreshToken string
  | WithOrgID string
  | WithCertInfo bool string
  | WithClientIDAndSecret string string
  | WithSuppressInteractive bool
  | WithListenerPort nat
  | WithListenerPortFromEnv string

text \<open>\<^verbatim>\<open>ParseUint(s, 10, 16)\<close>: digits only, at most 65535. \<open>fmt.Sprint\<close> of the result has no leading zeros.\<close>

definition parse_port :: "string \<Rightarrow> nat option" where
  "parse_port s = (if s = '''' then None
     else case digits_val 0 s of None \<Rightarrow> None | Some n \<Rightarrow> if n < 65536 then Some n else None)"

fun digits_of :: "nat \<Rightarrow> string" where
  "digits_of n = (if n < 10 then [char_of (48 + n)] else digits_of (n div 10) @ [char_of (48 + n mod 10)])"

definition JoinHostPort :: "nat \<Rightarrow> string" where
  "JoinHostPort port = ''127.0.0.1:'' @ digits_of port"

fun apply_option :: "environ \<Rightarrow> login_option \<Rightarrow> login_handler \<Rightarrow> login_handler res" where
  "apply_option env (WithRefreshToken t) h = Inr (h\<lparr>lh_refreshToken := t\<rparr>)"
| "apply_option env (WithOrgID orgID) h = Inr (h\<lparr>lh_orgID := orgID\<rparr>)"
| "apply_option env (WithCertInfo skip caCertData) h = Inr (h\<lparr>lh_tlsSkipVerify := skip, lh_caCertData := caCertData\<rparr>)"
| "apply_option env (WithClientIDAndSecret clientID clientSecret) h =
     Inr (h\<lparr>lh_clientID := clientID, lh_clientSecret := clientSecret,
       lh_oauthConfig := (lh_oauthConfig h)\<lparr>oc_ClientID := clientID, oc_ClientSecret := clientSecret\<rparr>\<rparr>)"
| "apply_option env (WithSuppressInteractive suppress) h = Inr (h\<lparr>lh_suppressInteractive := suppress\<rparr>)"
| "apply_option env (WithListenerPort port) h = Inr (h\<lparr>lh_listenAddr := JoinHostPort port\<rparr>)"
| "apply_option env (WithListenerPortFromEnv var) h =
     (if getenv env var = '''' then Inr h
      else case parse_port (getenv env var) of
          None \<Rightarrow> Inl (Wrapf (Errorf ''strconv.ParseUint: parsing %q'' [getenv env var]) ''failed to parse %s as uint16'' [var])
        | Some port \<Rightarrow> Inr (h\<lparr>lh_listenAddr := JoinHostPort port\<rparr>))"

fun apply_options :: "environ \<Rightarrow> login_option list \<Rightarrow> login_handler \<Rightarrow> login_handler res" where
  "apply_options env [] h = Inr h"
| "apply_options env (opt # opts) h =
     (case apply_option env opt h of Inl e \<Rightarrow> Inl e | Inr h1 \<Rightarrow> apply_options env opts h1)"

section \<open>TLS\<close>

definition GetTLSConfig :: "login_env \<Rightarrow> string \<Rightarrow> string \<Rightarrow> bool \<Rightarrow> tls_config option" where
  "GetTLSConfig E endpoint certData skipVerify =
     (let saved = lx_GetCert E endpoint;
          savedCertData = (case saved of None \<Rightarrow> '''' | Some c \<Rightarrow> ce_CACertData c);
          savedSkipVerify = (case saved of None \<Rightarrow> False | Some c \<Rightarrow> parse_bool_or_false (ce_SkipCertVerify c))
      in if savedSkipVerify \<or> skipVerify then Some TlsInsecure
         else let caCertData = (if certData \<noteq> '''' then certData else savedCertData)
              in if caCertData = '''' then None
                 else (case lx_Base64Decode E caCertData of
                         Inl e \<Rightarrow> None
                       | Inr decoded \<Rightarrow> if lx_AppendCerts E decoded then Some (TlsRootCA decoded) else None))"

definition getTLSConfig :: "login_env \<Rightarrow> login_handler \<Rightarrow> tls_config option" where
  "getTLSConfig E h = GetTLSConfig E (lh_issuer h) (lh_caCertData h) (lh_tlsSkipVerify h)"

text \<open>What is passed to \<^verbatim>\<open>config.SetCert\<close>, if anything: the host and its entry.\<close>

definition updateCertMap :: "login_env \<Rightarrow> login_handler \<Rightarrow> (string \<times> cert) option" where
  "updateCertMap E h =
     (if \<not> (lh_tlsSkipVerify h \<or> lh_caCertData h \<noteq> '''') then None
      else case lx_Hostname E (lh_issuer h) of
          Inl e \<Rightarrow> None
        | Inr hostname \<Rightarrow>
            let host = (if hostname = '''' then lh_issuer h else hostname);
                skip = format_bool (lh_tlsSkipVerify h)
            in (case lx_GetCert E host of
                  Some found \<Rightarrow>
                    if ce_CACertData found \<noteq> lh_caCertData h \<or> ce_SkipCertVerify found \<noteq> skip
                    then Some (host, \<lparr>ce_SkipCertVerify = skip, ce_Insecure = ce_Insecure found, ce_CACertData = lh_caCertData h\<rparr>)
                    else None
                | None \<Rightarrow> Some (host, \<lparr>ce_SkipCertVerify = skip, ce_Insecure = '''', ce_CACertData = lh_caCertData h\<rparr>)))"

section \<open>Tokens\<close>

definition contextTokenTLS :: "login_env \<Rightarrow> login_handler \<Rightarrow> tls_config option" where
  "contextTokenTLS E h = (if lh_idpType h = UAAIdpType (lx_keys E) then getTLSConfig E h else None)"

definition getTokenUsingAuthCode :: "login_env \<Rightarrow> login_handler \<Rightarrow> string \<Rightarrow> oauth_token res" where
  "getTokenUsingAuthCode E h code = lx_Exchange E (lh_oauthConfig h) (contextTokenTLS E h) code"

text \<open>\<^verbatim>\<open>time.Until\<close> saturates, \<^verbatim>\<open>int64\<close> of the seconds truncates. The type assertion on \<^verbatim>\<open>id_token\<close> panics without one.\<close>

definition until_seconds :: "int \<Rightarrow> int \<Rightarrow> int" where
  "until_seconds now t = (max (- (2 ^ 63)) (min (2 ^ 63 - 1) (t - now))) sdiv 1000000000"

definition token_of :: "login_env \<Rightarrow> oauth_token \<Rightarrow> auth_token option" where
  "token_of E t =
     (case ot_id_token t of
        None \<Rightarrow> None
      | Some idToken \<Rightarrow>
          Some \<lparr>tk_IDToken = idToken, tk_TokenType = IDTokenType, tk_ExpiresIn = until_seconds (lx_now E) (ot_Expiry t),
                tk_AccessToken = ot_AccessToken t, tk_RefreshToken = ot_RefreshToken t\<rparr>)"

definition getTokenWithRefreshToken :: "login_env \<Rightarrow> login_handler \<Rightarrow> auth_token res option" where
  "getTokenWithRefreshToken E h =
     (case lx_Refresh E (lh_oauthConfig h) (getTLSConfig E h) (lh_refreshToken h) of
        Inl e \<Rightarrow> Some (Inl e)
      | Inr t \<Rightarrow> map_option Inr (token_of E t))"

section \<open>The login through the browser\<close>

text \<open>The prompt waits for a code, exchanges one, or has ended. Without a terminal there is no prompt.\<close>

datatype prompt_phase = PromptWaiting | PromptExchanging string | PromptEnded

record exchange_state =
  xs_token :: "oauth_token option"
  xs_done :: bool
  xs_callback :: "string option"
  xs_prompt :: prompt_phase

definition start_exchange :: "login_env \<Rightarrow> exchange_state" where
  "start_exchange E = \<lparr>xs_token = None, xs_done = False, xs_callback = None, xs_prompt = (if lx_isTTY E then PromptWaiting else PromptEnded)\<rparr>"

text \<open>\<open>callbackHandler\<close> runs under a mutex, which it holds as long as \<open>xs_callback\<close> has a code. A request carries its code
  and state parameters (empty when missing); \<open>expected\<close> is the state the handler generated. Up to the exchange, and
  with the answer of the issuer after it: the result of the exchange is stored, \<^verbatim>\<open>nil\<close> if it failed.\<close>

definition callbackHandler :: "string \<Rightarrow> string \<Rightarrow> string \<Rightarrow> exchange_state \<Rightarrow> exchange_state" where
  "callbackHandler expected code state s =
     (if xs_token s \<noteq> None then s
      else if code = '''' then s\<lparr>xs_done := True\<rparr>
      else if state \<noteq> expected then s\<lparr>xs_done := True\<rparr>
      else s\<lparr>xs_callback := Some code\<rparr>)"

definition callback_answered :: "oauth_token option \<Rightarrow> exchange_state \<Rightarrow> exchange_state" where
  "callback_answered token s = s\<lparr>xs_token := token, xs_done := True, xs_callback := None\<rparr>"

text \<open>The goroutine of the prompt reads a code and exchanges it, not under the mutex, and stores the result in the same
  way; the two may interleave. Once the exchange is complete its context is cancelled, so the prompt returns an
  error and an exchange under way may fail.\<close>

datatype exchange_event = Callback string string | Answered | PromptFailed | Pasted string | Redeemed

inductive exchange_step :: "login_env \<Rightarrow> login_handler \<Rightarrow> string \<Rightarrow> exchange_state \<Rightarrow> exchange_event \<Rightarrow> exchange_state \<Rightarrow> bool"
  for E h expected where
  callback: "xs_callback s = None \<Longrightarrow>
     exchange_step E h expected s (Callback code state) (callbackHandler expected code state s)"
| callback_redeemed: "xs_callback s = Some code \<Longrightarrow> getTokenUsingAuthCode E h code = Inr t \<Longrightarrow>
     exchange_step E h expected s Answered (callback_answered (Some t) s)"
| callback_not_redeemed: "xs_callback s = Some code \<Longrightarrow> isl (getTokenUsingAuthCode E h code) \<or> xs_done s \<Longrightarrow>
     exchange_step E h expected s Answered (callback_answered None s)"
| prompt_failed: "xs_prompt s = PromptWaiting \<Longrightarrow>
     exchange_step E h expected s PromptFailed (s\<lparr>xs_prompt := PromptEnded, xs_done := True\<rparr>)"
| prompt_code: "xs_prompt s = PromptWaiting \<Longrightarrow>
     exchange_step E h expected s (Pasted code) (s\<lparr>xs_prompt := PromptExchanging code\<rparr>)"
| prompt_redeemed: "xs_prompt s = PromptExchanging code \<Longrightarrow> getTokenUsingAuthCode E h code = Inr t \<Longrightarrow>
     exchange_step E h expected s Redeemed (s\<lparr>xs_token := Some t, xs_prompt := PromptEnded, xs_done := True\<rparr>)"
| prompt_not_redeemed: "xs_prompt s = PromptExchanging code \<Longrightarrow> isl (getTokenUsingAuthCode E h code) \<or> xs_done s \<Longrightarrow>
     exchange_step E h expected s Redeemed (s\<lparr>xs_token := None, xs_prompt := PromptEnded, xs_done := True\<rparr>)"

inductive_cases exchange_stepE: "exchange_step E h expected s ev s'"

inductive_simps exchange_step_simps:
  "exchange_step E h expected s (Callback code state) s'"
  "exchange_step E h expected s Answered s'"
  "exchange_step E h expected s PromptFailed s'"
  "exchange_step E h expected s (Pasted code) s'"
  "exchange_step E h expected s Redeemed s'"

inductive exchange_run :: "login_env \<Rightarrow> login_handler \<Rightarrow> string \<Rightarrow> exchange_event list \<Rightarrow> exchange_state \<Rightarrow> bool"
  for E h expected where
  start: "exchange_run E h expected [] (start_exchange E)"
| step: "exchange_run E h expected evs s \<Longrightarrow> exchange_step E h expected s ev s' \<Longrightarrow> exchange_run E h expected (evs @ [ev]) s'"

text \<open>\<open>browserLogin\<close> up to the wait, and after it with the token the handler then has.\<close>

definition open_listener :: "login_env \<Rightarrow> login_handler \<Rightarrow> (login_handler \<times> string) res option" where
  "open_listener E h =
     (case lx_Pkce E of
        Some e \<Rightarrow> Some (Inl (Wrapf e ''failed to generate PKCE code'' []))
      | None \<Rightarrow>
          (case lx_State E of
             Inl e \<Rightarrow> Some (Inl (Wrapf e ''failed to generate state parameter'' []))
           | Inr state \<Rightarrow>
               (case lx_Listen E (lh_listenAddr h) of
                  Inl e \<Rightarrow> if \<not> lx_isTTY E
                           then Some (Inl (Errorf ''login failed: must have either a localhost listener or stdin must be a TTY'' []))
                           else None
                | Inr addr \<Rightarrow>
                    Some (Inr (h\<lparr>lh_oauthConfig := (lh_oauthConfig h)\<lparr>oc_RedirectURL := ''http://'' @ addr @ lh_callbackPath h\<rparr>\<rparr>,
                               state)))))"

definition finish_browser_login :: "login_env \<Rightarrow> login_handler \<Rightarrow> oauth_token option \<Rightarrow> (auth_token res \<times> (string \<times> cert) option) option" where
  "finish_browser_login E h final =
     (case final of
        None \<Rightarrow> Some (Inl (Errorf ''token issuer %s did not return expected tokens'' [lh_issuer h]), None)
      | Some t \<Rightarrow>
          (case token_of E t of
             None \<Rightarrow> None
           | Some tok \<Rightarrow>
               Some (if tk_IDToken tok = '''' then (Inl (Errorf ''token issuer %s did not return expected tokens'' [lh_issuer h]), None)
                     else (Inr tok, updateCertMap E h))))"

text \<open>A login with its events: the requests to the local server, the answers, and what the prompt did.\<close>

inductive browserLogin ::
    "login_env \<Rightarrow> login_handler \<Rightarrow> exchange_event list \<Rightarrow> (auth_token res \<times> (string \<times> cert) option) option \<Rightarrow> bool"
  for E h where
  not_started: "open_listener E h = Some (Inl e) \<Longrightarrow> browserLogin E h [] (Some (Inl e, None))"
| no_listener: "open_listener E h = None \<Longrightarrow> browserLogin E h [] None"
| finished: "open_listener E h = Some (Inr (h1, expected)) \<Longrightarrow> exchange_run E h1 expected evs s \<Longrightarrow> xs_done s \<Longrightarrow>
     browserLogin E h evs (finish_browser_login E h1 (xs_token s))"

inductive DoLogin ::
    "login_env \<Rightarrow> login_handler \<Rightarrow> exchange_event list \<Rightarrow> (auth_token res \<times> (string \<times> cert) option) option \<Rightarrow> bool"
  for E h where
  refresh_panics: "lh_refreshToken h \<noteq> '''' \<Longrightarrow> getTokenWithRefreshToken E h = None \<Longrightarrow> DoLogin E h [] None"
| refreshed: "lh_refreshToken h \<noteq> '''' \<Longrightarrow> getTokenWithRefreshToken E h = Some (Inr tok) \<Longrightarrow>
     DoLogin E h [] (Some (Inr tok, if lh_suppressInteractive h then updateCertMap E h else None))"
| refresh_failed: "lh_refreshToken h \<noteq> '''' \<Longrightarrow> getTokenWithRefreshToken E h = Some (Inl e) \<Longrightarrow> lh_suppressInteractive h \<Longrightarrow>
     DoLogin E h [] (Some (Inl e, None))"
| interactive: "lh_refreshToken h = '''' \<or> (getTokenWithRefreshToken E h = Some (Inl e) \<and> \<not> lh_suppressInteractive h) \<Longrightarrow>
     browserLogin E h evs r \<Longrightarrow> DoLogin E h evs r"

section \<open>Properties\<close>

text \<open>A token of the handler, or a code being exchanged, comes from an event; a token completes the exchange.\<close>

definition authorised :: "login_env \<Rightarrow> login_handler \<Rightarrow> string \<Rightarrow> exchange_event list \<Rightarrow> oauth_token \<Rightarrow> bool" where
  "authorised E h expected evs t \<longleftrightarrow>
     (\<exists>ev \<in> set evs. case ev of
        Callback code state \<Rightarrow> code \<noteq> '''' \<and> state = expected \<and> getTokenUsingAuthCode E h code = Inr t
      | Pasted code \<Rightarrow> getTokenUsingAuthCode E h code = Inr t
      | _ \<Rightarrow> False)"

lemma exchange_run_invariant:
  assumes "exchange_run E h expected evs s"
  shows "(\<forall>t. xs_token s = Some t \<longrightarrow> authorised E h expected evs t \<and> xs_done s) \<and>
    (\<forall>code. xs_prompt s = PromptExchanging code \<longrightarrow> Pasted code \<in> set evs) \<and>
    (\<forall>code. xs_callback s = Some code \<longrightarrow> code \<noteq> '''' \<and> Callback code expected \<in> set evs)"
  using assms
proof (induction rule: exchange_run.induct)
  case start
  show ?case by (simp add: start_exchange_def)
next
  case (step evs s ev s')
  have new: "authorised E h expected (evs @ [ev]) t" if "authorised E h expected evs t \<or> authorised E h expected [ev] t" for t
    using that by (auto simp: authorised_def)
  from step.hyps(2) show ?case
  proof (cases rule: exchange_step.cases)
    case (callback code state)
    then show ?thesis using step.IH new by (auto simp: callbackHandler_def)
  next
    case (callback_redeemed code t)
    then have "code \<noteq> ''''" "Callback code expected \<in> set evs" using step.IH by blast+
    then have "authorised E h expected evs t" using callback_redeemed by (force simp: authorised_def)
    then show ?thesis using callback_redeemed step.IH new by (auto simp: callback_answered_def)
  next
    case (callback_not_redeemed code) then show ?thesis using step.IH by (auto simp: callback_answered_def)
  next
    case prompt_failed then show ?thesis using step.IH new by auto
  next
    case (prompt_code code) then show ?thesis using step.IH new by auto
  next
    case (prompt_redeemed code t)
    then have "Pasted code \<in> set evs" using step.IH by blast
    then have "authorised E h expected evs t" using prompt_redeemed by (force simp: authorised_def)
    then show ?thesis using prompt_redeemed step.IH new by auto
  next
    case (prompt_not_redeemed code) then show ?thesis using step.IH by simp
  qed
qed

text \<open>What a login may store: nothing, unless the handler was given certificate information.\<close>

lemma open_listener_options:
  "open_listener E h = Some (Inr (h1, expected)) \<Longrightarrow> lh_tlsSkipVerify h1 = lh_tlsSkipVerify h \<and> lh_caCertData h1 = lh_caCertData h"
  by (auto simp: open_listener_def split: option.splits sum.splits if_splits)

lemma login_without_certificate:
  assumes "DoLogin E h evs (Some (r, saved))" "\<not> lh_tlsSkipVerify h" "lh_caCertData h = ''''"
  shows "saved = None"
proof -
  have u: "updateCertMap E k = None" if "\<not> lh_tlsSkipVerify k" "lh_caCertData k = ''''" for k
    using that by (simp add: updateCertMap_def)
  have "saved = None" if "browserLogin E h evs (Some (r, saved))"
    using that
  proof (cases rule: browserLogin.cases)
    case (finished h1 expected s)
    then show ?thesis using u [of h1] open_listener_options assms(2,3)
      by (auto simp: finish_browser_login_def split: option.splits if_splits)
  qed
  with assms(1) u [OF assms(2,3)] show ?thesis by (cases rule: DoLogin.cases) (auto split: if_splits)
qed

text \<open>C20 (safety): every token a login returns was granted for what the user presented in that login. Either it comes from
  the refresh token, without any event; or, only if there was none or it was refused and the login may be interactive,
  one of the events of this login is a request to the local server with the state parameter this login generated,
  or a code pasted at the prompt, and the token is what the issuer gave for that code; whatever requests arrive
  in whatever order. A request with another state contributes nothing.\<close>

theorem login_token_authorised:
  assumes "DoLogin E h evs (Some (Inr tok, saved))"
  shows "(\<exists>t. lh_refreshToken h \<noteq> '''' \<and> lx_Refresh E (lh_oauthConfig h) (getTLSConfig E h) (lh_refreshToken h) = Inr t \<and>
       token_of E t = Some tok \<and> evs = []) \<or>
    ((lh_refreshToken h = '''' \<or> (\<not> lh_suppressInteractive h \<and>
        isl (lx_Refresh E (lh_oauthConfig h) (getTLSConfig E h) (lh_refreshToken h)))) \<and>
     (\<exists>h1 expected t. open_listener E h = Some (Inr (h1, expected)) \<and> token_of E t = Some tok \<and>
       (\<exists>ev \<in> set evs. case ev of
          Callback code state \<Rightarrow> code \<noteq> '''' \<and> state = expected \<and> getTokenUsingAuthCode E h1 code = Inr t
        | Pasted code \<Rightarrow> getTokenUsingAuthCode E h1 code = Inr t
        | _ \<Rightarrow> False)))"
proof -
  have browser: "\<exists>h1 expected t. open_listener E h = Some (Inr (h1, expected)) \<and> token_of E t = Some tok \<and>
      authorised E h1 expected evs t" if "browserLogin E h evs (Some (Inr tok, saved))"
    using that
  proof (cases rule: browserLogin.cases)
    case (finished h1 expected s)
    then obtain t where "xs_token s = Some t" "token_of E t = Some tok"
      by (auto simp: finish_browser_login_def split: option.splits if_splits)
    with finished exchange_run_invariant show ?thesis by blast
  qed
  show ?thesis using assms
  proof (cases rule: DoLogin.cases)
    case refreshed
    then show ?thesis by (auto simp: getTokenWithRefreshToken_def split: sum.splits)
  next
    case (interactive e)
    then show ?thesis using browser by (auto simp: authorised_def getTokenWithRefreshToken_def split: sum.splits)
  qed
qed

text \<open>An issuer that grants one code, a terminal, and one request to the local server.\<close>

definition demo_token :: oauth_token where
  "demo_token = \<lparr>ot_AccessToken = ''access'', ot_RefreshToken = ''refresh'', ot_Expiry = 3600000000000, ot_id_token = Some ''id''\<rparr>"

definition demo_login :: login_env where
  "demo_login = \<lparr>lx_environ = Map.empty, lx_keys = demo_context_keys, lx_now = 0, lx_GetCert = (\<lambda>_. None), lx_Hostname = (\<lambda>i. Inr i),
     lx_Base64Decode = (\<lambda>s. Inr s), lx_AppendCerts = (\<lambda>_. True), lx_Refresh = (\<lambda>_ _ _. Inl (Errorf ''expired'' [])),
     lx_Exchange = (\<lambda>_ _ code. if code = ''good'' then Inr demo_token else Inl (Errorf ''invalid code'' [])),
     lx_Pkce = None, lx_State = Inr ''s3cret'', lx_Listen = (\<lambda>_. Inr ''127.0.0.1:40000''), lx_isTTY = True\<rparr>"

definition demo_handler :: login_handler where
  "demo_handler = NewTanzuLoginHandler ''issuer'' ''auth'' ''token'' ''client'' '''' ''127.0.0.1:0'' ''/callback'' ''csp''"

lemmas demo_defs = demo_login_def demo_handler_def demo_token_def NewTanzuLoginHandler_def

abbreviation demo_granted :: auth_token where
  "demo_granted \<equiv> \<lparr>tk_IDToken = ''id'', tk_TokenType = IDTokenType, tk_ExpiresIn = 3600, tk_AccessToken = ''access'',
     tk_RefreshToken = ''refresh''\<rparr>"

lemma demo_browser:
  "browserLogin demo_login demo_handler [Callback ''good'' ''s3cret'', Answered] (Some (Inr demo_granted, None))"
proof -
  let ?h = "demo_handler\<lparr>lh_oauthConfig := (lh_oauthConfig demo_handler)\<lparr>oc_RedirectURL := ''http://127.0.0.1:40000/callback''\<rparr>\<rparr>"
  let ?u = "\<lparr>xs_token = None, xs_done = False, xs_callback = Some ''good'', xs_prompt = PromptWaiting\<rparr>"
  let ?s = "\<lparr>xs_token = Some demo_token, xs_done = True, xs_callback = None, xs_prompt = PromptWaiting\<rparr>"
  have "exchange_run demo_login ?h ''s3cret'' ([] @ [Callback ''good'' ''s3cret'']) ?u"
    by (rule exchange_run.step [OF exchange_run.start]) (simp add: exchange_step_simps callbackHandler_def start_exchange_def demo_defs)
  from exchange_run.step [OF this, of Answered ?s]
  have "exchange_run demo_login ?h ''s3cret'' [Callback ''good'' ''s3cret'', Answered] ?s"
    by (simp add: exchange_step_simps callback_answered_def getTokenUsingAuthCode_def demo_defs)
  then have "browserLogin demo_login demo_handler [Callback ''good'' ''s3cret'', Answered] (finish_browser_login demo_login ?h (xs_token ?s))"
    by (intro browserLogin.finished [where h = demo_handler and expected = "''s3cret''"]) (simp_all add: open_listener_def demo_defs)
  moreover have "finish_browser_login demo_login ?h (xs_token ?s) = Some (Inr demo_granted, None)"
    by code_simp
  ultimately show ?thesis by simp
qed

theorem login_token_authorised_witness:
  "\<exists>h1 expected t. open_listener demo_login demo_handler = Some (Inr (h1, expected)) \<and> ''s3cret'' = expected \<and>
     getTokenUsingAuthCode demo_login h1 ''good'' = Inr t"
proof -
  have r: "lh_refreshToken demo_handler = ''''" by (simp add: demo_defs)
  have "DoLogin demo_login demo_handler [Callback ''good'' ''s3cret'', Answered] (Some (Inr demo_granted, None))"
    by (rule DoLogin.interactive [OF disjI1 [OF r] demo_browser])
  from login_token_authorised [OF this] r show ?thesis by auto
qed

text \<open>A pasted code can discard the token. When the local server has received a token while a pasted code is
  still being exchanged, the failed exchange sets the token back to none, and the login reports an error.\<close>

theorem pasted_code_discards_token:
  assumes "open_listener E h = Some (Inr (h1, expected))" "lx_isTTY E" "good \<noteq> ''''"
    "getTokenUsingAuthCode E h1 good = Inr t" "getTokenUsingAuthCode E h1 bad = Inl e"
  shows "\<exists>s s'. exchange_run E h1 expected [Pasted bad, Callback good expected, Answered] s \<and> xs_token s = Some t \<and> xs_done s \<and>
    exchange_run E h1 expected [Pasted bad, Callback good expected, Answered, Redeemed] s' \<and> xs_token s' = None \<and>
    browserLogin E h [Pasted bad, Callback good expected, Answered, Redeemed]
      (Some (Inl (Errorf ''token issuer %s did not return expected tokens'' [lh_issuer h1]), None))"
proof -
  define s1 where "s1 = \<lparr>xs_token = None :: oauth_token option, xs_done = False, xs_callback = None, xs_prompt = PromptExchanging bad\<rparr>"
  define s where "s = \<lparr>xs_token = Some t, xs_done = True, xs_callback = None, xs_prompt = PromptExchanging bad\<rparr>"
  define s' where "s' = \<lparr>xs_token = None :: oauth_token option, xs_done = True, xs_callback = None, xs_prompt = PromptEnded\<rparr>"
  have "exchange_run E h1 expected ([] @ [Pasted bad]) s1"
    by (rule exchange_run.step [OF exchange_run.start]) (simp add: exchange_step_simps start_exchange_def s1_def assms(2))
  then have "exchange_run E h1 expected (([] @ [Pasted bad]) @ [Callback good expected]) (s1\<lparr>xs_callback := Some good\<rparr>)"
    by (rule exchange_run.step) (simp add: exchange_step_simps callbackHandler_def s1_def assms)
  then have r: "exchange_run E h1 expected ((([] @ [Pasted bad]) @ [Callback good expected]) @ [Answered]) s"
    by (rule exchange_run.step) (simp add: exchange_step_simps callback_answered_def s1_def s_def assms)
  then have run: "exchange_run E h1 expected (((([] @ [Pasted bad]) @ [Callback good expected]) @ [Answered]) @ [Redeemed]) s'"
    by (rule exchange_run.step) (auto simp: exchange_step_simps s_def s'_def assms(5))
  moreover have "browserLogin E h (((([] @ [Pasted bad]) @ [Callback good expected]) @ [Answered]) @ [Redeemed])
      (finish_browser_login E h1 (xs_token s'))"
    by (rule browserLogin.finished [OF assms(1) run]) (simp add: s'_def)
  ultimately show ?thesis using r
    by (intro exI [of _ s] exI [of _ s']) (simp add: s_def s'_def finish_browser_login_def)
qed

theorem pasted_code_discards_token_witness:
  "\<exists>s'. exchange_run demo_login (demo_handler\<lparr>lh_oauthConfig := (lh_oauthConfig demo_handler)\<lparr>oc_RedirectURL := ''http://127.0.0.1:40000/callback''\<rparr>\<rparr>)
     ''s3cret'' [Pasted ''bad'', Callback ''good'' ''s3cret'', Answered, Redeemed] s' \<and> xs_token s' = None"
  using pasted_code_discards_token [of demo_login demo_handler
      "demo_handler\<lparr>lh_oauthConfig := (lh_oauthConfig demo_handler)\<lparr>oc_RedirectURL := ''http://127.0.0.1:40000/callback''\<rparr>\<rparr>"
      "''s3cret''" "''good''" demo_token "''bad''" "Errorf ''invalid code'' []"]
  by (auto simp: open_listener_def getTokenUsingAuthCode_def demo_defs)

end
