(* ===== verification/Auth_Tokens.thy ===== *)
theory Auth_Tokens
  imports Login_Handler Recommended_Version
begin

text \<open>
  Access tokens: \<^verbatim>\<open>pkg/auth/common/token.go\<close>, \<^verbatim>\<open>pkg/auth/csp/csp.go\<close>, \<^verbatim>\<open>tanzu.go\<close>, \<^verbatim>\<open>pkg/auth/uaa/uaa.go\<close>, \<^verbatim>\<open>tanzu.go\<close>.
  When a stored token counts as expired, how it is renewed, and which issuer is used.

  Times are nanoseconds since the epoch, durations 64-bit integers (\<open>wrap64\<close>). The claims of a token are what the
  parameter \<open>ax_ParseUnverified\<close> finds in it; requests and their decoding are parameters, and \<open>ax_DoLogin\<close> is an outcome of
  the login (hypothesis \<open>login_law\<close>).
\<close>

section \<open>Claims\<close>

text \<open>A claim is a string, a list (of strings and other values), or something else.\<close>

datatype claim = ClString string | ClList "string option list" | ClOther

record claims =
  cl_Username :: string
  cl_Permissions :: "string list"
  cl_OrgID :: string

record 'y auth_env =
  ax_login :: login_env
  ax_DoLogin :: "login_handler \<Rightarrow> (auth_token res \<times> (string \<times> cert) option) option"
  ax_ParseUnverified :: "string \<Rightarrow> (string \<times> claim) list option res"
  ax_Post :: "string \<Rightarrow> string \<Rightarrow> (int \<times> string) res"
  ax_Get :: "string \<Rightarrow> string \<Rightarrow> (int \<times> string) res"
  ax_json_token :: "string \<Rightarrow> auth_token res"
  ax_json_org :: "string \<Rightarrow> string res"
  ax_url_encode :: "string \<Rightarrow> string"
  ax_yaml :: "'y cc_yaml"
  ax_reader :: cc_reader
  ax_yaml_metadata :: "'y \<Rightarrow> (string \<times> string) res"
  ax_yaml_issuers :: "'y \<Rightarrow> (string \<times> string \<times> string) list res"
  ax_yaml_bool :: "'y \<Rightarrow> bool res"

abbreviation ax_keys :: "'y auth_env \<Rightarrow> context_keys" where "ax_keys A \<equiv> lx_keys (ax_login A)"
abbreviation ax_environ :: "'y auth_env \<Rightarrow> environ" where "ax_environ A \<equiv> lx_environ (ax_login A)"
abbreviation ax_now :: "'y auth_env \<Rightarrow> int" where "ax_now A \<equiv> lx_now (ax_login A)"

definition login_law :: "'y auth_env \<Rightarrow> bool" where
  "login_law A \<longleftrightarrow> (\<forall>h. \<exists>evs. DoLogin (ax_login A) h evs (ax_DoLogin A h))"

text \<open>Type assertions: a string, a list; the elements of the list are asserted to be strings without a check.\<close>

definition claim_string :: "(string \<times> claim) list \<Rightarrow> string \<Rightarrow> string option" where
  "claim_string c k = (case map_of c k of Some (ClString s) \<Rightarrow> Some s | _ \<Rightarrow> None)"

definition claim_list :: "(string \<times> claim) list \<Rightarrow> string \<Rightarrow> string option list" where
  "claim_list c k = (case map_of c k of Some (ClList l) \<Rightarrow> l | _ \<Rightarrow> [])"

definition claim_permissions :: "string option list \<Rightarrow> string list option" where
  "claim_permissions p = (if None \<in> set p then None else Some (map the p))"

definition ParseToken :: "'y auth_env \<Rightarrow> string \<Rightarrow> string \<Rightarrow> claims res option" where
  "ParseToken A accessToken idpType =
     (case ax_ParseUnverified A accessToken of
        Inl e \<Rightarrow> Some (Inl e)
      | Inr None \<Rightarrow> Some (Inl (Errorf ''could not parse claims'' []))
      | Inr (Some c) \<Rightarrow>
          let uaa = (idpType = UAAIdpType (ax_keys A));
              p = claim_list c (if uaa then ''scope'' else ''perms'')
          in (case claim_string c (if uaa then ''user_name'' else ''username'') of
                None \<Rightarrow> Some (Inl (Errorf ''could not parse username from token'' []))
              | Some uname \<Rightarrow>
                  (case (if uaa then Some '''' else claim_string c ''context_name'') of
                     None \<Rightarrow> Some (Inl (Errorf ''could not parse orgID from token'' []))
                   | Some orgID \<Rightarrow>
                       map_option (\<lambda>perm. Inr \<lparr>cl_Username = uname, cl_Permissions = perm, cl_OrgID = orgID\<rparr>) (claim_permissions p))))"

section \<open>Expiration\<close>

definition unix_time :: "int \<Rightarrow> int" where
  "unix_time t = t div 1000000000"

definition IsExpired :: "int \<Rightarrow> int \<Rightarrow> bool" where
  "IsExpired now0 tokenExpiry =
     (let now = unix_time now0;
          halfDur = wrap64 (wrap64 (- ((unix_time tokenExpiry - now) sdiv 2)) * 1000000000)
      in unix_time (tokenExpiry + halfDur) < now)"

definition expires_at :: "int \<Rightarrow> int \<Rightarrow> int" where
  "expires_at now expiresIn = now + seconds expiresIn"

section \<open>Renewal\<close>

text \<open>The function that gets a token may return neither a token nor an error; dereferencing it then panics.\<close>

definition GetToken ::
    "'y auth_env \<Rightarrow> server_auth \<Rightarrow> (string \<Rightarrow> string \<Rightarrow> string \<Rightarrow> string \<Rightarrow> auth_token option res option) \<Rightarrow> string \<Rightarrow>
     (server_auth \<times> err option) option" where
  "GetToken A g tokenGetter idpType =
     (if \<not> IsExpired (ax_now A) (sa_Expiration g) then Some (g, None)
      else case tokenGetter (sa_RefreshToken g) (sa_AccessToken g) (sa_Issuer g) (sa_Type g) of
          None \<Rightarrow> None
        | Some (Inl e) \<Rightarrow> Some (g, Some e)
        | Some (Inr None) \<Rightarrow> None
        | Some (Inr (Some token)) \<Rightarrow>
            (case ParseToken A (tk_AccessToken token) idpType of
               None \<Rightarrow> None
             | Some (Inl e) \<Rightarrow> Some (g, Some e)
             | Some (Inr c) \<Rightarrow>
                 Some (g\<lparr>sa_RefreshToken := tk_RefreshToken token, sa_AccessToken := tk_AccessToken token,
                         sa_IDToken := tk_IDToken token, sa_Expiration := expires_at (ax_now A) (tk_ExpiresIn token),
                         sa_Permissions := cl_Permissions c\<rparr>, None)))"

section \<open>UAA\<close>

definition getIssuerEndpoints :: "string \<Rightarrow> string \<times> string" where
  "getIssuerEndpoints issuerURL = (issuerURL @ ''/oauth/authorize'', issuerURL @ ''/oauth/token'')"

definition GetClientSecret :: "environ \<Rightarrow> string" where
  "GetClientSecret env = (if env_flag env ''TANZU_CLI_NO_UAA_CLIENT_SECRET'' then '''' else ''tanzu_intentionally_not_a_secret'')"

definition GetAlternateClientID :: "environ \<Rightarrow> string" where
  "GetAlternateClientID env = (if env_flag env ''TANZU_CLI_USE_ALTERNATE_UAA_CLIENT'' then ''tp_cli_app_ext'' else ''tp_cli_app'')"

text \<open>A login: the token, and the certificate entry it stores in the configuration, if any.\<close>

definition run_login ::
    "'y auth_env \<Rightarrow> login_handler \<Rightarrow> login_option list \<Rightarrow> (auth_token res \<times> (string \<times> cert) option) option" where
  "run_login A h opts =
     (case apply_options (ax_environ A) opts h of
        Inl e \<Rightarrow> Some (Inl e, None)
      | Inr h1 \<Rightarrow> ax_DoLogin A h1)"

definition uaa_TanzuLogin ::
    "'y auth_env \<Rightarrow> string \<Rightarrow> login_option list \<Rightarrow> (auth_token res \<times> (string \<times> cert) option) option" where
  "uaa_TanzuLogin A issuerURL opts =
     (case getIssuerEndpoints issuerURL of (authURL, tokenURL) \<Rightarrow>
        run_login A (NewTanzuLoginHandler issuerURL authURL tokenURL ''tp_cli_app'' '''' ''127.0.0.1:0'' ''/callback''
                       (UAAIdpType (ax_keys A))) opts)"

abbreviation OAuthLocalListenerPort :: string where "OAuthLocalListenerPort \<equiv> ''TANZU_CLI_OAUTH_LOCAL_LISTENER_PORT''"

text \<open>Neither of the two that get tokens passes certificate information, so they store nothing (\<open>login_stores_no_certificate\<close>).\<close>

definition uaa_GetTokens :: "'y auth_env \<Rightarrow> string \<Rightarrow> string \<Rightarrow> string \<Rightarrow> string \<Rightarrow> auth_token option res option" where
  "uaa_GetTokens A refreshOrAPIToken accessToken issuer tokenType =
     (let env = ax_environ A;
          clientID = (if tokenType = APITokenType then GetAlternateClientID env else ''tp_cli_app'');
          opts = [WithRefreshToken refreshOrAPIToken, WithListenerPortFromEnv OAuthLocalListenerPort,
                  WithClientIDAndSecret clientID (GetClientSecret env)] @
                 (if tokenType = APITokenType then [WithSuppressInteractive True] else [])
      in map_option (\<lambda>(r, saved). map_sum id Some r) (uaa_TanzuLogin A issuer opts))"

section \<open>CSP\<close>

abbreviation StgIssuer :: string where "StgIssuer \<equiv> ''https://console-stg.cloud.vmware.com/csp/gateway/am/api''"
abbreviation ProdIssuer :: string where "ProdIssuer \<equiv> ''https://console.cloud.vmware.com/csp/gateway/am/api''"
abbreviation StgIssuerTCSP :: string where "StgIssuerTCSP \<equiv> ''https://console-stg.tanzu.broadcom.com/csp/gateway/am/api''"
abbreviation ProdIssuerTCSP :: string where "ProdIssuerTCSP \<equiv> ''https://console.tanzu.broadcom.com/csp/gateway/am/api''"

definition DefaultKnownIssuers :: "(string \<times> string \<times> string) list" where
  "DefaultKnownIssuers =
     [(StgIssuer, ''https://console-stg.cloud.vmware.com/csp/gateway/discovery'',
         ''https://console-stg.cloud.vmware.com/csp/gateway/am/api/auth/authorize''),
      (ProdIssuer, ''https://console.cloud.vmware.com/csp/gateway/discovery'',
         ''https://console.cloud.vmware.com/csp/gateway/am/api/auth/authorize''),
      (StgIssuerTCSP, ''https://console-stg.tanzu.broadcom.com/csp/gateway/discovery'',
         ''https://console-stg.tanzu.broadcom.com/csp/gateway/am/api/auth/authorize''),
      (ProdIssuerTCSP, ''https://console.tanzu.broadcom.com/csp/gateway/discovery'',
         ''https://console.tanzu.broadcom.com/csp/gateway/am/api/auth/authorize'')]"

definition getCSPMetadataFromCentralConfig :: "'y auth_env \<Rightarrow> string \<times> string" where
  "getCSPMetadataFromCentralConfig A =
     (case GetCentralConfigEntry (ax_yaml A) (ax_reader A) (ax_yaml_metadata A)
             (if env_flag (ax_environ A) ''TANZU_CLI_USE_TANZU_CLOUD_SERVICE_PROVIDER'' then ''cli.core.tanzu_tcsp_metadata''
              else ''cli.core.tanzu_default_csp_metadata'') of
        Inl e \<Rightarrow> ('''', '''') | Inr m \<Rightarrow> m)"

text \<open>The production and the staging issuer.\<close>

definition GetCSPMetadata :: "'y auth_env \<Rightarrow> string \<times> string" where
  "GetCSPMetadata A =
     (case getCSPMetadataFromCentralConfig A of (production, staging) \<Rightarrow>
        (if production = '''' then ProdIssuerTCSP else production, if staging = '''' then StgIssuerTCSP else staging))"

definition GetIssuer :: "'y auth_env \<Rightarrow> bool \<Rightarrow> string" where
  "GetIssuer A staging = (case GetCSPMetadata A of (p, s) \<Rightarrow> if staging then s else p)"

definition getCSPKnownEndpointsFromCentralConfig :: "'y auth_env \<Rightarrow> (string \<times> string \<times> string) list res" where
  "getCSPKnownEndpointsFromCentralConfig A =
     GetCentralConfigEntry (ax_yaml A) (ax_reader A) (ax_yaml_issuers A) ''cli.core.tanzu_csp_known_issuer_endpoints''"

definition getCSPKnownIssuersEndpoints :: "'y auth_env \<Rightarrow> (string \<times> string \<times> string) list" where
  "getCSPKnownIssuersEndpoints A =
     (case getCSPKnownEndpointsFromCentralConfig A of Inr eps \<Rightarrow> eps | Inl e \<Rightarrow> DefaultKnownIssuers)"

definition GetIssuerUpdateFlagFromCentralConfig :: "'y auth_env \<Rightarrow> bool" where
  "GetIssuerUpdateFlagFromCentralConfig A =
     (case GetCentralConfigEntry (ax_yaml A) (ax_reader A) (ax_yaml_bool A) ''cli.core.tanzu_cli_config_csp_issuer_update_flag'' of
        Inl e \<Rightarrow> False | Inr b \<Rightarrow> b)"

definition csp_TanzuLogin ::
    "'y auth_env \<Rightarrow> string \<Rightarrow> login_option list \<Rightarrow> (auth_token res \<times> (string \<times> cert) option) option" where
  "csp_TanzuLogin A issuerURL opts =
     (case get_or ('''', '''') (getCSPKnownIssuersEndpoints A) issuerURL of (authURL, tokenURL) \<Rightarrow>
        run_login A (NewTanzuLoginHandler issuerURL authURL tokenURL ''tanzu-cli-client-id'' '''' ''127.0.0.1:0'' ''/callback''
                       (CSPIdpType (ax_keys A))) opts)"

definition GetOrgNameFromOrgID :: "'y auth_env \<Rightarrow> string \<Rightarrow> string \<Rightarrow> string \<Rightarrow> string res" where
  "GetOrgNameFromOrgID A orgID accessToken issuer =
     (case ax_Get A (issuer @ ''/orgs/'' @ orgID) accessToken of
        Inl e \<Rightarrow> Inl (Wrapf e ''failed to obtain the CSP organization information'' [])
      | Inr (status, body) \<Rightarrow>
          if status \<noteq> 200 then Inl (Errorf ''failed to obtain the CSP organization information: %s'' [body])
          else (case ax_json_org A body of
                  Inl e \<Rightarrow> Inl (Wrapf e ''could not unmarshal CSP organization information'' []) | Inr name \<Rightarrow> Inr name))"

definition GetAccessTokenFromAPIToken :: "'y auth_env \<Rightarrow> string \<Rightarrow> string \<Rightarrow> auth_token res" where
  "GetAccessTokenFromAPIToken A apiToken issuer =
     (case ax_Post A (issuer @ ''/auth/api-tokens/authorize'') (''refresh_token='' @ ax_url_encode A apiToken) of
        Inl e \<Rightarrow> Inl (Wrapf e ''Failed to obtain access token. Please provide valid VMware Cloud Services API-token'' [])
      | Inr (status, body) \<Rightarrow>
          if status \<noteq> 200 then Inl (Errorf ''Failed to obtain access token. Please provide valid VMware Cloud Services API-token -- %s'' [body])
          else (case ax_json_token A body of
                  Inl e \<Rightarrow> Inl (Wrapf e ''could not unmarshal auth token'' []) | Inr token \<Rightarrow> Inr token))"

definition getOrgIDFromAccessToken :: "'y auth_env \<Rightarrow> string \<Rightarrow> string res option" where
  "getOrgIDFromAccessToken A accessToken = map_option (map_sum id cl_OrgID) (ParseToken A accessToken (CSPIdpType (ax_keys A)))"

definition csp_GetTokens :: "'y auth_env \<Rightarrow> string \<Rightarrow> string \<Rightarrow> string \<Rightarrow> string \<Rightarrow> auth_token option res option" where
  "csp_GetTokens A refreshOrAPIToken accessToken issuer tokenType =
     (if tokenType = APITokenType then Some (map_sum id Some (GetAccessTokenFromAPIToken A refreshOrAPIToken issuer))
      else if tokenType = IDTokenType
      then (case getOrgIDFromAccessToken A accessToken of
              None \<Rightarrow> None
            | Some (Inl e) \<Rightarrow> Some (Inl (Wrapf e ''failed to get the CSP OrgID from the existing access token'' []))
            | Some (Inr orgID) \<Rightarrow>
                map_option (\<lambda>(r, saved). map_sum id Some r) (csp_TanzuLogin A issuer
                  [WithRefreshToken refreshOrAPIToken, WithOrgID orgID, WithListenerPortFromEnv OAuthLocalListenerPort]))
      else Some (Inr None))"

section \<open>Properties\<close>

lemma apply_options_certificate:
  "apply_options env opts h = Inr h1 \<Longrightarrow> \<forall>skip ca. WithCertInfo skip ca \<notin> set opts \<Longrightarrow>
   lh_tlsSkipVerify h1 = lh_tlsSkipVerify h \<and> lh_caCertData h1 = lh_caCertData h"
proof (induction opts arbitrary: h)
  case (Cons opt opts)
  then obtain h2 where h2: "apply_option env opt h = Inr h2" "apply_options env opts h2 = Inr h1" by (auto split: sum.splits)
  then have "lh_tlsSkipVerify h2 = lh_tlsSkipVerify h \<and> lh_caCertData h2 = lh_caCertData h"
    using Cons.prems(2) by (cases opt) (auto split: if_splits option.splits)
  with Cons.IH [OF h2(2)] Cons.prems(2) show ?case by auto
qed simp

lemma run_login_certificate:
  assumes "login_law A" "run_login A h opts = Some (r, saved)" "\<not> lh_tlsSkipVerify h" "lh_caCertData h = ''''"
    "\<forall>skip ca. WithCertInfo skip ca \<notin> set opts"
  shows "saved = None"
proof (cases "apply_options (ax_environ A) opts h")
  case (Inl e)
  then show ?thesis using assms(2) by (simp add: run_login_def)
next
  case (Inr h1)
  moreover obtain evs where "DoLogin (ax_login A) h1 evs (ax_DoLogin A h1)" using assms(1) by (auto simp: login_law_def)
  ultimately show ?thesis
    using login_without_certificate [of "ax_login A" h1 evs r saved] apply_options_certificate [OF Inr assms(5)] assms(2-4)
    by (simp add: run_login_def)
qed

lemma login_stores_no_certificate:
  assumes "login_law A" "\<forall>skip ca. WithCertInfo skip ca \<notin> set opts"
  shows "uaa_TanzuLogin A issuer opts = Some (r, saved) \<Longrightarrow> saved = None"
    and "csp_TanzuLogin A issuer opts = Some (r, saved) \<Longrightarrow> saved = None"
  using run_login_certificate [OF assms(1) _ _ _ assms(2), where r = r and saved = saved]
  by (auto simp: uaa_TanzuLogin_def csp_TanzuLogin_def NewTanzuLoginHandler_def split: prod.splits)

lemma wrap64_id: "- (2 ^ 63) \<le> n \<Longrightarrow> n < 2 ^ 63 \<Longrightarrow> wrap64 n = n"
  by (simp add: wrap64_def)

lemma half_sdiv: fixes d :: int shows "d sdiv 2 = (if d < 0 then - (- d div 2) else d div 2)"
  by (auto simp: signed_divide_int_def sgn_if)

lemma unix_time_add: "unix_time (t + k * 1000000000) = unix_time t + k"
  by (simp add: unix_time_def)

lemma is_expired_iff:
  assumes "\<bar>unix_time e - unix_time now\<bar> \<le> 18446744073"
  shows "IsExpired now e \<longleftrightarrow> unix_time e < unix_time now"
proof -
  define d where "d = unix_time e - unix_time now"
  have d: "- 18446744073 \<le> d" "d \<le> 18446744073" using assms by (auto simp: d_def)
  have half: "\<bar>d sdiv 2\<bar> \<le> 9223372036" using d by (auto simp: half_sdiv)
  then have "wrap64 (- (d sdiv 2)) = - (d sdiv 2)" "wrap64 (- (d sdiv 2) * 1000000000) = - (d sdiv 2) * 1000000000"
    by (auto intro!: wrap64_id)
  then have "IsExpired now e \<longleftrightarrow> unix_time e - d sdiv 2 < unix_time now"
    using unix_time_add [of e "- (d sdiv 2)"] by (simp add: IsExpired_def Let_def d_def)
  also have "\<dots> \<longleftrightarrow> d < d sdiv 2" by (auto simp: d_def)
  also have "\<dots> \<longleftrightarrow> d < 0" by (auto simp: half_sdiv)
  finally show ?thesis by (simp add: d_def)
qed

lemma unix_time_mono: "t \<le> t' \<Longrightarrow> unix_time t \<le> unix_time t'"
  by (simp add: unix_time_def zdiv_mono1)

lemma fresh_token_valid:
  assumes "0 \<le> n" "n \<le> 9223372036" "now \<le> t" "unix_time t \<le> unix_time now + n"
  shows "\<not> IsExpired t (expires_at now n)"
proof -
  have "expires_at now n = now + n * 1000000000"
    using assms by (simp add: expires_at_def seconds_def wrap64_id)
  then have "unix_time (expires_at now n) = unix_time now + n" by (simp add: unix_time_add)
  moreover have "unix_time now \<le> unix_time t" using assms by (simp add: unix_time_mono)
  ultimately show ?thesis using assms by (subst is_expired_iff) auto
qed

text \<open>A stored token counts as expired exactly when the second of its expiration has passed, for every pair of
  times at most 18446744073 seconds apart, where the 64-bit computation does not wrap around. The subtraction of
  half the remaining life, of which the code speaks, changes nothing: it is compared with the current time.\<close>

theorem expiry_exact:
  assumes "\<bar>unix_time expiry - unix_time now\<bar> \<le> 18446744073"
  shows "IsExpired now expiry \<longleftrightarrow> expiry div 1000000000 < now div 1000000000"
  using is_expired_iff [OF assms] by (simp add: unix_time_def)

theorem expiry_exact_witness:
  "\<not> IsExpired 1700000000999999999 1700000000000000000 \<and> IsExpired 1700000001000000000 1700000000999999999 \<and>
   \<not> IsExpired 1700000000000000000 1700000001000000000"
  using expiry_exact [of 1700000000000000000 1700000000999999999] expiry_exact [of 1700000000999999999 1700000001000000000]
    expiry_exact [of 1700000001000000000 1700000000000000000]
  by (simp add: unix_time_def)

end
