(* ===== verification/Context_Create.thy ===== *)
theory Context_Create
  imports Auth_Tokens
begin

text \<open>
  Creating contexts: \<^verbatim>\<open>pkg/command/context.go\<close> (choice of the kind of context and the four ways to make one),
  \<^verbatim>\<open>pkg/command/login_helper.go\<close> (endpoints of the services of the platform).

  The package variables the flags and prompts set are the record \<open>ctx_vars\<close>. The configuration file is of type \<open>'c\<close>, with
  the operations of the configuration library in \<open>config_lib\<close>. Prompts answer by their message.
\<close>

section \<open>Variables and environment\<close>

record ctx_vars =
  v_ctxName :: string
  v_endpoint :: string
  v_kubeConfig :: string
  v_kubeContext :: string
  v_endpointCACertPath :: string
  v_skipTLSVerify :: bool
  v_forceCSP :: bool
  v_staging :: bool
  v_contextTypeStr :: string
  v_targetStr :: string
  v_tanzuHubEndpoint :: string
  v_tanzuTMCEndpoint :: string
  v_tanzuUCPEndpoint :: string
  v_tanzuAuthEndpoint :: string

record 'c config_lib =
  cl_ContextExists :: "'c \<Rightarrow> string \<Rightarrow> bool res"
  cl_GetContext :: "'c \<Rightarrow> string \<Rightarrow> config_context res"
  cl_AddContext :: "config_context \<Rightarrow> bool \<Rightarrow> 'c \<Rightarrow> 'c \<times> err option"
  cl_SetContext :: "config_context \<Rightarrow> bool \<Rightarrow> 'c \<Rightarrow> 'c \<times> err option"
  cl_RemoveContext :: "string \<Rightarrow> 'c \<Rightarrow> 'c \<times> err option"
  cl_SetActiveContext :: "string \<Rightarrow> 'c \<Rightarrow> 'c \<times> err option"
  cl_RemoveActiveContext :: "string \<Rightarrow> 'c \<Rightarrow> 'c \<times> err option"
  cl_ActiveContexts :: "'c \<Rightarrow> (string \<times> config_context) list res"
  cl_KnownContexts :: "'c \<Rightarrow> config_context list res"
  cl_CurrentContext :: "'c \<Rightarrow> string \<Rightarrow> string"
  cl_EndpointFromContext :: "config_context \<Rightarrow> string res"
  cl_SetCert :: "string \<Rightarrow> cert \<Rightarrow> 'c \<Rightarrow> 'c \<times> err option"

record ('b, 'c, 'y) ctx_env =
  cv_kube :: "'b kube_env"
  cv_auth :: "'y auth_env"
  cv_lib :: "'c config_lib"
  cv_Prompt :: "string \<Rightarrow> string \<Rightarrow> string res"
  cv_Confirm :: "err option"
  cv_UrlParse :: "string \<Rightarrow> (string \<times> string \<times> string) res"
  cv_Regexp :: "string \<Rightarrow> (string \<Rightarrow> bool) option"
  cv_IsValidContextType :: "string \<Rightarrow> bool"
  cv_IsValidTarget :: "string \<Rightarrow> bool"
  cv_StringToContextType :: "string \<Rightarrow> string"
  cv_TargetToContextType :: "string \<Rightarrow> string"
  cv_ServerVersion :: "'b \<Rightarrow> err option"
  cv_PinnipedKubeconfig :: "string \<Rightarrow> string \<Rightarrow> bool \<Rightarrow> 'b kube_fs \<Rightarrow> 'b kube_fs \<times> (string \<times> string) res"
  cv_HubMetadata :: "string \<Rightarrow> (int \<times> string) res"
  cv_json_organization :: "string \<Rightarrow> (string \<times> string) res"
  cv_NewUUID :: string

abbreviation cv_keys :: "('b, 'c, 'y) ctx_env \<Rightarrow> context_keys" where "cv_keys X \<equiv> ax_keys (cv_auth X)"
abbreviation cv_environ :: "('b, 'c, 'y) ctx_env \<Rightarrow> environ" where "cv_environ X \<equiv> ax_environ (cv_auth X)"

record ('b, 'c) ctx_state =
  st_vars :: ctx_vars
  st_config :: 'c
  st_kube :: "'b kube_fs"

section \<open>Endpoints of the platform\<close>

definition ensure_scheme :: "string \<Rightarrow> string" where
  "ensure_scheme ep = (if \<not> has_prefix ep ''http://'' \<and> \<not> has_prefix ep ''https://'' then ''https://'' @ ep else ep)"

definition isTanzuPlatformSaaSEndpoint :: "('b, 'c, 'y) ctx_env \<Rightarrow> ctx_vars \<Rightarrow> string \<Rightarrow> bool" where
  "isTanzuPlatformSaaSEndpoint X v tpEndpoint =
     (if v_forceCSP v then True
      else if tpEndpoint = '''' then False
      else list_ex (\<lambda>r. case cv_Regexp X r of None \<Rightarrow> False | Some matches \<Rightarrow> matches (ensure_scheme tpEndpoint))
             (GetTanzuPlatformSaaSEndpointList (ax_yaml (cv_auth X)) (ax_reader (cv_auth X))))"

definition configureServiceEndpointsIfNotConfigured :: "string \<Rightarrow> string \<Rightarrow> string \<Rightarrow> ctx_vars \<Rightarrow> ctx_vars \<times> bool" where
  "configureServiceEndpointsIfNotConfigured hubEndpoint tmcEndpoint ucpEndpoint v =
     (let v1 = (if v_tanzuHubEndpoint v = '''' \<and> hubEndpoint \<noteq> '''' then v\<lparr>v_tanzuHubEndpoint := hubEndpoint @ ''/hub''\<rparr> else v);
          v2 = (if v_tanzuUCPEndpoint v1 = '''' then v1\<lparr>v_tanzuUCPEndpoint := ucpEndpoint\<rparr> else v1);
          v3 = (if v_tanzuTMCEndpoint v2 = '''' then v2\<lparr>v_tanzuTMCEndpoint := tmcEndpoint\<rparr> else v2)
      in (v3, v_tanzuHubEndpoint v3 \<noteq> '''' \<and> v_tanzuTMCEndpoint v3 \<noteq> '''' \<and> v_tanzuUCPEndpoint v3 \<noteq> ''''))"

text \<open>The iteration over the map of the central configuration stops at the first endpoint that is equal up to case.\<close>

definition configureTanzuPlatformServiceEndpointsForSaas ::
    "'v lib \<Rightarrow> ('b, 'c, 'y) ctx_env \<Rightarrow> string \<Rightarrow> ctx_vars \<Rightarrow> ctx_vars \<times> err option" where
  "configureTanzuPlatformServiceEndpointsForSaas L X tpEndpoint v =
     (let m = (case GetTanzuPlatformEndpointToServiceEndpointMap (ax_yaml (cv_auth X)) (ax_reader (cv_auth X)) of
                 Inl e \<Rightarrow> [] | Inr m \<Rightarrow> m)
      in case List.find (\<lambda>ep. equal_fold tpEndpoint ep) (range_keys L m) of
           Some ep \<Rightarrow>
             (case map_of m ep of
                None \<Rightarrow> (v, None)
              | Some s \<Rightarrow> (fst (configureServiceEndpointsIfNotConfigured (HubEndpoint s) (TMCEndpoint s) (UCPEndpoint s) v), None))
         | None \<Rightarrow>
             (case cv_UrlParse X tpEndpoint of
                Inl e \<Rightarrow> (v, Some e)
              | Inr (scheme, host, path) \<Rightarrow>
                  if host = '''' then (v, Some (Errorf ''invalid URL: %s'' [tpEndpoint]))
                  else let h = trim_prefix host ''www.''
                       in (fst (configureServiceEndpointsIfNotConfigured (scheme @ ''://api.'' @ h) (scheme @ ''://ops.'' @ h)
                                  (scheme @ ''://ucp.'' @ h) v), None)))"

definition configureTanzuPlatformServiceEndpointsForSM ::
    "('b, 'c, 'y) ctx_env \<Rightarrow> string \<Rightarrow> ctx_vars \<Rightarrow> ctx_vars \<times> err option" where
  "configureTanzuPlatformServiceEndpointsForSM X tpEndpoint v =
     (case cv_UrlParse X tpEndpoint of
        Inl e \<Rightarrow> (v, Some e)
      | Inr (scheme0, host, path) \<Rightarrow>
          let scheme = (if scheme0 = '''' then ''https'' else scheme0)
          in if host = '''' then (v, Some (Errorf ''invalid URL: %s'' [tpEndpoint]))
             else let base = scheme @ ''://'' @ trim_prefix host ''www.''
                  in (v\<lparr>v_tanzuHubEndpoint := base @ ''/hub'', v_tanzuTMCEndpoint := base, v_tanzuUCPEndpoint := base,
                        v_tanzuAuthEndpoint := base @ ''/auth''\<rparr>, None))"

definition configureTanzuPlatformServiceEndpoints ::
    "'v lib \<Rightarrow> ('b, 'c, 'y) ctx_env \<Rightarrow> string \<Rightarrow> ctx_vars \<Rightarrow> ctx_vars \<times> err option" where
  "configureTanzuPlatformServiceEndpoints L X tpEndpoint v =
     (let env = cv_environ X
      in case configureServiceEndpointsIfNotConfigured (getenv env ''TANZU_CLI_HUB_ENDPOINT'') (getenv env ''TANZU_CLI_K8S_OPS_ENDPOINT'')
                (getenv env ''TANZU_CLI_UCP_ENDPOINT'') v of
           (v1, True) \<Rightarrow> (v1, None)
         | (v1, False) \<Rightarrow>
             if tpEndpoint = '''' then (v1, Some (Errorf ''invalid endpoint'' []))
             else let ep = ensure_scheme tpEndpoint
                  in if isTanzuPlatformSaaSEndpoint X v1 ep then configureTanzuPlatformServiceEndpointsForSaas L X ep v1
                     else configureTanzuPlatformServiceEndpointsForSM X ep v1)"

section \<open>Which kind of context\<close>

datatype ctx_creation = contextMissionControl | contextK8SClusterEndpoint | contextLocalKubeconfig | contextTanzu

definition creation_name :: "ctx_creation \<Rightarrow> string" where
  "creation_name k = (case k of
     contextMissionControl \<Rightarrow> ''Mission Control''
   | contextK8SClusterEndpoint \<Rightarrow> ''Kubernetes (Cluster Endpoint)''
   | contextLocalKubeconfig \<Rightarrow> ''Kubernetes (Local Kubeconfig)''
   | contextTanzu \<Rightarrow> ''Tanzu'')"

definition stringToContextCreationType :: "string \<Rightarrow> ctx_creation option" where
  "stringToContextCreationType s =
     (if s = creation_name contextMissionControl then Some contextMissionControl
      else if s = creation_name contextTanzu then Some contextTanzu
      else if s = creation_name contextK8SClusterEndpoint then Some contextK8SClusterEndpoint
      else if s = creation_name contextLocalKubeconfig then Some contextLocalKubeconfig else None)"

definition promptContextType :: "('b, 'c, 'y) ctx_env \<Rightarrow> ctx_creation option res" where
  "promptContextType X =
     (case cv_Prompt X ''Select context creation type'' (creation_name contextTanzu) of
        Inl e \<Rightarrow> Inl e | Inr s \<Rightarrow> Inr (stringToContextCreationType s))"

definition promptKubernetesContextType :: "('b, 'c, 'y) ctx_env \<Rightarrow> ctx_creation option res" where
  "promptKubernetesContextType X =
     (case cv_Prompt X ''Select the kubernetes context type'' (creation_name contextLocalKubeconfig) of
        Inl e \<Rightarrow> Inl e | Inr s \<Rightarrow> Inr (stringToContextCreationType s))"

definition promptEndpoint :: "('b, 'c, 'y) ctx_env \<Rightarrow> string \<Rightarrow> string res" where
  "promptEndpoint X defaultEndpoint = map_sum id trim_space (cv_Prompt X ''Enter control plane endpoint'' defaultEndpoint)"

definition promptContextName :: "('b, 'c, 'y) ctx_env \<Rightarrow> string \<Rightarrow> string res" where
  "promptContextName X defaultCtxName = map_sum id trim_space (cv_Prompt X ''Give the context a name'' defaultCtxName)"

definition getContextType :: "('b, 'c, 'y) ctx_env \<Rightarrow> ctx_vars \<Rightarrow> string" where
  "getContextType X v =
     (if v_contextTypeStr v \<noteq> '''' then cv_StringToContextType X (v_contextTypeStr v)
      else if v_targetStr v \<noteq> '''' then cv_TargetToContextType X (to_lower (v_targetStr v))
      else '''')"

definition isGlobalContext :: "ctx_vars \<Rightarrow> string \<Rightarrow> bool" where
  "isGlobalContext v ep \<longleftrightarrow> contains_str ep ''cloud.vmware.com'' \<or> v_forceCSP v"

definition sanitizeEndpoint :: "string \<Rightarrow> string" where
  "sanitizeEndpoint ep = (if length (split_on CHR '':'' ep) = 1 then ep @ '':443'' else ep)"

text \<open>\<open>Inr None\<close>: neither the flags nor the prompt gave a kind, which the prompt for all kinds then follows.\<close>

definition creation_from_flags :: "('b, 'c, 'y) ctx_env \<Rightarrow> ctx_vars \<Rightarrow> ctx_creation option res" where
  "creation_from_flags X v =
     (let contextType = getContextType X v; ep = v_endpoint v
      in if contextType = ContextTypeTMC then Inr (Some contextMissionControl)
         else if contextType = ContextTypeTanzu \<or> (ep \<noteq> '''' \<and> isTanzuPlatformSaaSEndpoint X v ep) then Inr (Some contextTanzu)
         else if ep \<noteq> '''' \<and> isGlobalContext v ep then Inr (Some contextMissionControl)
         else if ep \<noteq> '''' then Inr (Some contextK8SClusterEndpoint)
         else if v_kubeContext v \<noteq> '''' then Inr (Some contextLocalKubeconfig)
         else if contextType = ContextTypeK8s then promptKubernetesContextType X
         else Inr None)"

definition creation_kind :: "('b, 'c, 'y) ctx_env \<Rightarrow> ctx_vars \<Rightarrow> ctx_creation option res" where
  "creation_kind X v =
     (case creation_from_flags X v of
        Inl e \<Rightarrow> Inl e
      | Inr (Some k) \<Rightarrow> Inr (Some k)
      | Inr None \<Rightarrow> promptContextType X)"

section \<open>Making the context\<close>

definition check_new_name :: "('b, 'c, 'y) ctx_env \<Rightarrow> 'c \<Rightarrow> string \<Rightarrow> unit res" where
  "check_new_name X cfg name =
     (case cl_ContextExists (cv_lib X) cfg name of
        Inl e \<Rightarrow> Inl e
      | Inr True \<Rightarrow> Inl (Errorf ''context %q already exists'' [name])
      | Inr False \<Rightarrow> Inr ())"

text \<open>The endpoint and the name, from the flags or the prompts, and the check of the name.\<close>

definition ask_endpoint_and_name ::
    "('b, 'c, 'y) ctx_env \<Rightarrow> string \<Rightarrow> ('b, 'c) ctx_state \<Rightarrow> ('b, 'c) ctx_state \<times> unit res" where
  "ask_endpoint_and_name X defaultEndpoint s =
     (let v = st_vars s
      in case (if v_endpoint v = '''' then promptEndpoint X defaultEndpoint else Inr (v_endpoint v)) of
           Inl e \<Rightarrow> (s\<lparr>st_vars := v\<lparr>v_endpoint := ''''\<rparr>\<rparr>, Inl e)
         | Inr ep \<Rightarrow>
             let v1 = v\<lparr>v_endpoint := ep\<rparr>
             in (case (if v_ctxName v1 = '''' then promptContextName X '''' else Inr (v_ctxName v1)) of
                   Inl e \<Rightarrow> (s\<lparr>st_vars := v1\<lparr>v_ctxName := ''''\<rparr>\<rparr>, Inl e)
                 | Inr name \<Rightarrow> (s\<lparr>st_vars := v1\<lparr>v_ctxName := name\<rparr>\<rparr>, check_new_name X (st_config s) name)))"

definition createContextWithKubeconfig ::
    "('b, 'c, 'y) ctx_env \<Rightarrow> ('b, 'c) ctx_state \<Rightarrow> ('b, 'c) ctx_state \<times> config_context res" where
  "createContextWithKubeconfig X s =
     (let v = st_vars s
      in case (if v_kubeConfig v = '''' \<and> v_kubeContext v = '''' then cv_Prompt X ''Enter path to kubeconfig (if any)'' ''''
               else Inr (if v_kubeConfig v = '''' then ky_DefaultFile (kv_codec (cv_kube X)) else v_kubeConfig v)) of
           Inl e \<Rightarrow> (s, Inl e)
         | Inr kc \<Rightarrow>
             let v1 = v\<lparr>v_kubeConfig := trim_space kc\<rparr>
             in (case (if v_kubeConfig v1 \<noteq> '''' \<and> v_kubeContext v1 = '''' then cv_Prompt X ''Enter kube context to use'' ''''
                       else Inr (v_kubeContext v1)) of
                   Inl e \<Rightarrow> (s\<lparr>st_vars := v1\<rparr>, Inl e)
                 | Inr kctx \<Rightarrow>
                     let v2 = v1\<lparr>v_kubeContext := trim_space kctx\<rparr>
                     in (case (if v_ctxName v2 = '''' then cv_Prompt X ''Give the context a name'' '''' else Inr (v_ctxName v2)) of
                           Inl e \<Rightarrow> (s\<lparr>st_vars := v2\<rparr>, Inl e)
                         | Inr name \<Rightarrow>
                             let v3 = v2\<lparr>v_ctxName := trim_space name\<rparr>
                             in (s\<lparr>st_vars := v3\<rparr>,
                                 (case check_new_name X (st_config s) (v_ctxName v3) of
                                    Inl e \<Rightarrow> Inl e
                                  | Inr () \<Rightarrow>
                                      Inr \<lparr>kx_Name = v_ctxName v3, kx_ContextType = ContextTypeK8s, kx_GlobalOpts = None,
                                           kx_ClusterOpts = Some \<lparr>cs_Endpoint = v_endpoint v3, cs_Path = v_kubeConfig v3,
                                             cs_Context = v_kubeContext v3, cs_IsManagementCluster = True\<rparr>,
                                           kx_AdditionalMetadata = None\<rparr>)))))"

definition no_auth :: server_auth where
  "no_auth = \<lparr>sa_Issuer = '''', sa_UserName = '''', sa_Permissions = [], sa_AccessToken = '''', sa_IDToken = '''',
     sa_RefreshToken = '''', sa_Type = '''', sa_Expiration = - 62135596800 * 1000000000\<rparr>"

definition createContextWithTMCEndpoint ::
    "('b, 'c, 'y) ctx_env \<Rightarrow> ('b, 'c) ctx_state \<Rightarrow> ('b, 'c) ctx_state \<times> config_context res" where
  "createContextWithTMCEndpoint X s =
     (case ask_endpoint_and_name X '''' s of
        (s1, Inl e) \<Rightarrow> (s1, Inl e)
      | (s1, Inr ()) \<Rightarrow>
          let ep = v_endpoint (st_vars s1)
          in (s1, if getenv (cv_environ X) ''TANZU_CLI_E2E_TEST_ENVIRONMENT'' \<noteq> ''true'' \<and>
                     (has_prefix ep ''https:'' \<or> has_prefix ep ''http:'')
                  then Inl (Errorf ''TMC endpoint URL %s should not contain http or https scheme. It should be of the format host[:port]'' [ep])
                  else Inr \<lparr>kx_Name = v_ctxName (st_vars s1), kx_ContextType = ContextTypeTMC,
                            kx_GlobalOpts = Some \<lparr>gs_Endpoint = sanitizeEndpoint ep, gs_Auth = no_auth\<rparr>,
                            kx_ClusterOpts = None, kx_AdditionalMetadata = None\<rparr>))"

abbreviation isPinnipedEndpointKey :: string where "isPinnipedEndpointKey \<equiv> ''isPinnipedEndpoint''"

definition createContextWithClusterEndpoint ::
    "('b, 'c, 'y) ctx_env \<Rightarrow> ('b, 'c) ctx_state \<Rightarrow> ('b, 'c) ctx_state \<times> config_context res" where
  "createContextWithClusterEndpoint X s =
     (case ask_endpoint_and_name X '''' s of
        (s1, Inl e) \<Rightarrow> (s1, Inl e)
      | (s1, Inr ()) \<Rightarrow>
          let v = st_vars s1
          in (case cv_PinnipedKubeconfig X (v_endpoint v) (v_endpointCACertPath v) (v_skipTLSVerify v) (st_kube s1) of
                (w, Inl e) \<Rightarrow> (s1\<lparr>st_vars := v\<lparr>v_kubeConfig := '''', v_kubeContext := ''''\<rparr>, st_kube := w\<rparr>, Inl e)
              | (w, Inr (kc, kctx)) \<Rightarrow>
                  (s1\<lparr>st_vars := v\<lparr>v_kubeConfig := kc, v_kubeContext := kctx\<rparr>, st_kube := w\<rparr>,
                   Inr \<lparr>kx_Name = v_ctxName v, kx_ContextType = ContextTypeK8s, kx_GlobalOpts = None,
                        kx_ClusterOpts = Some \<lparr>cs_Endpoint = v_endpoint v, cs_Path = kc, cs_Context = kctx, cs_IsManagementCluster = True\<rparr>,
                        kx_AdditionalMetadata = Some [(isPinnipedEndpointKey, MBool True)]\<rparr>)))"

definition getIDPType :: "('b, 'c, 'y) ctx_env \<Rightarrow> ctx_vars \<Rightarrow> string \<Rightarrow> string" where
  "getIDPType X v ep = (if isTanzuPlatformSaaSEndpoint X v ep then CSPIdpType (cv_keys X) else UAAIdpType (cv_keys X))"

definition DefaultPlatformEndpoint :: "('b, 'c, 'y) ctx_env \<Rightarrow> string" where
  "DefaultPlatformEndpoint X = DefaultTanzuPlatformEndpoint (central_config_init (ax_yaml (cv_auth X)) (ax_reader (cv_auth X)))"

definition createContextWithTanzuEndpoint ::
    "'v lib \<Rightarrow> ('b, 'c, 'y) ctx_env \<Rightarrow> ('b, 'c) ctx_state \<Rightarrow> ('b, 'c) ctx_state \<times> config_context res" where
  "createContextWithTanzuEndpoint L X s =
     (case ask_endpoint_and_name X (DefaultPlatformEndpoint X) s of
        (s1, Inl e) \<Rightarrow> (s1, Inl e)
      | (s1, Inr ()) \<Rightarrow>
          (case configureTanzuPlatformServiceEndpoints L X (v_endpoint (st_vars s1)) (st_vars s1) of
             (v, Some e) \<Rightarrow> (s1\<lparr>st_vars := v\<rparr>, Inl e)
           | (v, None) \<Rightarrow>
               let K = cv_keys X;
                   meta = [(TanzuMissionControlEndpointKey K, MString (v_tanzuTMCEndpoint v)),
                           (TanzuHubEndpointKey K, MString (v_tanzuHubEndpoint v)),
                           (TanzuIdpTypeKey K, MIdp (getIDPType X v (v_endpoint v)))]
               in (s1\<lparr>st_vars := v\<rparr>,
                   Inr \<lparr>kx_Name = v_ctxName v, kx_ContextType = ContextTypeTanzu,
                        kx_GlobalOpts = Some \<lparr>gs_Endpoint = v_tanzuUCPEndpoint v, gs_Auth = no_auth\<rparr>,
                        kx_ClusterOpts = Some \<lparr>cs_Endpoint = '''', cs_Path = '''', cs_Context = '''', cs_IsManagementCluster = False\<rparr>,
                        kx_AdditionalMetadata = Some (if v_tanzuAuthEndpoint v \<noteq> ''''
                          then AList.update (TanzuAuthEndpointKey K) (MString (v_tanzuAuthEndpoint v)) meta else meta)\<rparr>)))"

text \<open>Without a kind the function that makes the context is \<^verbatim>\<open>nil\<close> and calling it panics.\<close>

definition createContextUsingContextType ::
    "'v lib \<Rightarrow> ('b, 'c, 'y) ctx_env \<Rightarrow> ctx_creation option \<Rightarrow> ('b, 'c) ctx_state \<Rightarrow> (('b, 'c) ctx_state \<times> config_context res) option" where
  "createContextUsingContextType L X kind s =
     (case kind of
        None \<Rightarrow> None
      | Some contextMissionControl \<Rightarrow> Some (createContextWithTMCEndpoint X s)
      | Some contextK8SClusterEndpoint \<Rightarrow> Some (createContextWithClusterEndpoint X s)
      | Some contextLocalKubeconfig \<Rightarrow> Some (createContextWithKubeconfig X s)
      | Some contextTanzu \<Rightarrow> Some (createContextWithTanzuEndpoint L X s))"

definition createNewContext ::
    "'v lib \<Rightarrow> ('b, 'c, 'y) ctx_env \<Rightarrow> ('b, 'c) ctx_state \<Rightarrow> (('b, 'c) ctx_state \<times> config_context res) option" where
  "createNewContext L X s =
     (case creation_kind X (st_vars s) of
        Inl e \<Rightarrow> Some (s, Inl e)
      | Inr kind \<Rightarrow> createContextUsingContextType L X kind s)"

end
