(* ===== verification/Context_Login.thy ===== *)
theory Context_Login
  imports Context_Create
begin

text \<open>
  Logging in: \<^verbatim>\<open>pkg/command/context.go\<close> (authentication of a new context, its kubeconfig, saving it) and
  \<^verbatim>\<open>pkg/command/login.go\<close>. An operation that panics returns \<open>None\<close>.
\<close>

section \<open>Authentication\<close>

definition set_auth :: "server_auth \<Rightarrow> config_context \<Rightarrow> config_context option" where
  "set_auth a c =
     (case kx_GlobalOpts c of
        None \<Rightarrow> None
      | Some g \<Rightarrow>
          Some (c\<lparr>kx_GlobalOpts := Some (g\<lparr>gs_Auth := a\<rparr>),
                  kx_AdditionalMetadata := (case kx_AdditionalMetadata c of None \<Rightarrow> Some [] | Some m \<Rightarrow> Some m)\<rparr>))"

definition auth_of ::
    "('b, 'c, 'y) ctx_env \<Rightarrow> string \<Rightarrow> claims \<Rightarrow> auth_token \<Rightarrow> string \<Rightarrow> string \<Rightarrow> server_auth" where
  "auth_of X issuer cl token refreshToken type =
     \<lparr>sa_Issuer = issuer, sa_UserName = cl_Username cl, sa_Permissions = cl_Permissions cl,
      sa_AccessToken = tk_AccessToken token, sa_IDToken = tk_IDToken token, sa_RefreshToken = refreshToken, sa_Type = type,
      sa_Expiration = expires_at (ax_now (cv_auth X)) (tk_ExpiresIn token)\<rparr>"

text \<open>The claims of a token, and the context with its authorization.\<close>

definition finish_auth ::
    "('b, 'c, 'y) ctx_env \<Rightarrow> config_context \<Rightarrow> string \<Rightarrow> string \<Rightarrow> auth_token \<Rightarrow> string \<Rightarrow> string \<Rightarrow>
     (config_context \<times> claims res) option" where
  "finish_auth X c idpType issuer token refreshToken type =
     (case ParseToken (cv_auth X) (tk_AccessToken token) idpType of
        None \<Rightarrow> None
      | Some (Inl e) \<Rightarrow> Some (c, Inl e)
      | Some (Inr cl) \<Rightarrow> map_option (\<lambda>c1. (c1, Inr cl)) (set_auth (auth_of X issuer cl token refreshToken type) c))"

definition doCSPAPITokenAuthAndUpdateContext ::
    "('b, 'c, 'y) ctx_env \<Rightarrow> ctx_vars \<Rightarrow> config_context \<Rightarrow> string \<Rightarrow> (config_context \<times> claims res) option" where
  "doCSPAPITokenAuthAndUpdateContext X v c apiTokenValue =
     (let issuer = GetIssuer (cv_auth X) (v_staging v)
      in case GetAccessTokenFromAPIToken (cv_auth X) apiTokenValue issuer of
           Inl e \<Rightarrow> Some (c, Inl (Wrapf e ''failed to get the token from CSP'' []))
         | Inr token \<Rightarrow> finish_auth X c (CSPIdpType (cv_keys X)) issuer token apiTokenValue APITokenType)"

text \<open>The certificate options of a login with UAA.\<close>

definition cert_login_options :: "('b, 'c, 'y) ctx_env \<Rightarrow> ctx_vars \<Rightarrow> login_option list res" where
  "cert_login_options X v =
     (case (if v_endpointCACertPath v = '''' then Inr ''''
            else map_sum id (kv_Base64Encode (cv_kube X)) (kv_ReadFile (cv_kube X) (v_endpointCACertPath v))) of
        Inl e \<Rightarrow> Inl (Wrapf e ''error reading certificate file %s'' [v_endpointCACertPath v])
      | Inr endpointCACertData \<Rightarrow>
          Inr (if v_skipTLSVerify v \<or> endpointCACertData \<noteq> '''' then [WithCertInfo (v_skipTLSVerify v) endpointCACertData] else []))"

text \<open>What a login stores is saved before its result is used; an error of saving it is only logged.\<close>

definition store_cert :: "('b, 'c, 'y) ctx_env \<Rightarrow> (string \<times> cert) option \<Rightarrow> 'c \<Rightarrow> 'c" where
  "store_cert X saved cfg = (case saved of None \<Rightarrow> cfg | Some (host, cert) \<Rightarrow> fst (cl_SetCert (cv_lib X) host cert cfg))"

definition doUAAAPITokenAuthAndUpdateContext ::
    "('b, 'c, 'y) ctx_env \<Rightarrow> ctx_vars \<Rightarrow> 'c \<Rightarrow> config_context \<Rightarrow> string \<Rightarrow> string \<Rightarrow>
     ('c \<times> config_context \<times> claims res) option" where
  "doUAAAPITokenAuthAndUpdateContext X v cfg c uaaEndpoint apiTokenValue =
     (case cert_login_options X v of
        Inl e \<Rightarrow> Some (cfg, c, Inl e)
      | Inr certOpts \<Rightarrow>
          (case uaa_TanzuLogin (cv_auth X) uaaEndpoint
                  ([WithSuppressInteractive True, WithRefreshToken apiTokenValue,
                    WithClientIDAndSecret (GetAlternateClientID (cv_environ X)) (GetClientSecret (cv_environ X))] @ certOpts) of
             None \<Rightarrow> None
           | Some (Inl e, saved) \<Rightarrow> Some (store_cert X saved cfg, c, Inl (Wrapf e ''failed to get token from UAA'' []))
           | Some (Inr token, saved) \<Rightarrow>
               map_option (Pair (store_cert X saved cfg))
                 (finish_auth X c (UAAIdpType (cv_keys X)) uaaEndpoint token (tk_RefreshToken token) APITokenType)))"

text \<open>The type of the identity provider must be of type \<^verbatim>\<open>IdpType\<close>, or the assertion panics.\<close>

definition doInteractiveLoginAndUpdateContext ::
    "('b, 'c, 'y) ctx_env \<Rightarrow> ctx_vars \<Rightarrow> 'c \<Rightarrow> config_context \<Rightarrow> string \<Rightarrow> ('c \<times> config_context \<times> claims res) option" where
  "doInteractiveLoginAndUpdateContext X v cfg c issuerURL =
     (let env = cv_environ X; orgID = getenv env ''TANZU_CLI_CLOUD_SERVICES_ORGANIZATION_ID'';
          opts = (if orgID \<noteq> '''' then [WithOrgID orgID] else []) @ [WithListenerPortFromEnv OAuthLocalListenerPort]
      in case meta_get c (TanzuIdpTypeKey (cv_keys X)) of
           Some (MIdp idpType) \<Rightarrow>
             (let login = (if idpType = CSPIdpType (cv_keys X) then map_option (\<lambda>(r, saved). (map_sum Inr id r, saved)) (csp_TanzuLogin (cv_auth X) issuerURL opts)
                    else if idpType = UAAIdpType (cv_keys X)
                    then (case cert_login_options X v of
                            Inl e \<Rightarrow> Some (Inl (Inl e), None)
                          | Inr certOpts \<Rightarrow> map_option (\<lambda>(r, saved). (map_sum Inr id r, saved))
                              (uaa_TanzuLogin (cv_auth X) issuerURL (opts @ certOpts)))
                    else Some (Inl (Inl (Errorf ''invalid IDP type found.'' [])), None))
              in case login of
                   None \<Rightarrow> None
                 | Some (Inl (Inl e), saved) \<Rightarrow> Some (store_cert X saved cfg, c, Inl e)
                 | Some (Inl (Inr e), saved) \<Rightarrow> Some (store_cert X saved cfg, c, Inl (Wrapf e ''failed to get the token'' []))
                 | Some (Inr token, saved) \<Rightarrow>
                     map_option (Pair (store_cert X saved cfg))
                       (finish_auth X c idpType issuerURL token (tk_RefreshToken token) (tk_TokenType token)))
         | _ \<Rightarrow> None)"

definition doCSPAuthentication ::
    "('b, 'c, 'y) ctx_env \<Rightarrow> ctx_vars \<Rightarrow> 'c \<Rightarrow> config_context \<Rightarrow> ('c \<times> config_context \<times> claims res) option" where
  "doCSPAuthentication X v cfg c =
     (case cv_environ X ''TANZU_API_TOKEN'' of
        Some apiTokenValue \<Rightarrow> map_option (Pair cfg) (doCSPAPITokenAuthAndUpdateContext X v c apiTokenValue)
      | None \<Rightarrow> doInteractiveLoginAndUpdateContext X v cfg c (GetIssuer (cv_auth X) (v_staging v)))"

definition doUAAAuthentication ::
    "('b, 'c, 'y) ctx_env \<Rightarrow> ctx_vars \<Rightarrow> 'c \<Rightarrow> config_context \<Rightarrow> ('c \<times> config_context \<times> claims res) option" where
  "doUAAAuthentication X v cfg c =
     (case meta_get c (TanzuAuthEndpointKey (cv_keys X)) of
        None \<Rightarrow> Some (cfg, c, Inl (Errorf ''auth endpoint not set'' []))
      | Some (MString uaaEndpoint) \<Rightarrow>
          (case cv_environ X ''TANZU_API_TOKEN'' of
             Some apiTokenValue \<Rightarrow> doUAAAPITokenAuthAndUpdateContext X v cfg c uaaEndpoint apiTokenValue
           | None \<Rightarrow> doInteractiveLoginAndUpdateContext X v cfg c uaaEndpoint)
      | Some _ \<Rightarrow> None)"

section \<open>Organizations\<close>

definition trim_right_slash :: "string \<Rightarrow> string" where
  "trim_right_slash s = rev (dropWhile (\<lambda>c. c = CHR '' '' \<or> c = CHR ''/'') (rev s))"

text \<open>The identifier and the name of the organization, from the metadata of the deployment.\<close>

definition getOrgFromSelfManagedEndpoint :: "('b, 'c, 'y) ctx_env \<Rightarrow> config_context \<Rightarrow> (string \<times> string) res option" where
  "getOrgFromSelfManagedEndpoint X c =
     (case meta_get c (TanzuHubEndpointKey (cv_keys X)) of
        None \<Rightarrow> Some (Inl (Errorf ''Hub endpoint not set'' []))
      | Some (MString ep) \<Rightarrow>
          Some (case cv_HubMetadata X (trim_right_slash ep @ ''/assets/env-config/env-config.json'') of
             Inl e \<Rightarrow> Inl (Wrapf e ''failed to get tanzu platform deployment metadata'' [])
           | Inr (status, body) \<Rightarrow>
               if status \<noteq> 200 then Inl (Errorf ''failed to get tanzu platform deployment metadata'' [])
               else (case cv_json_organization X body of
                       Inl e \<Rightarrow> Inl (Wrapf e ''error parsing http response body '' []) | Inr org \<Rightarrow> Inr org))
      | Some _ \<Rightarrow> None)"

definition getSelfManagedOrg :: "('b, 'c, 'y) ctx_env \<Rightarrow> config_context \<Rightarrow> (string \<times> string) option" where
  "getSelfManagedOrg X c =
     (case getOrgFromSelfManagedEndpoint X c of
        None \<Rightarrow> None
      | Some r \<Rightarrow>
          let (orgID, orgName) = (case r of
                Inr (i, n) \<Rightarrow> if i \<noteq> '''' then (i, if n \<noteq> '''' then n else ''self-managed'') else ('''', ''self-managed'')
              | Inl e \<Rightarrow> ('''', ''self-managed''))
          in Some ((case cv_environ X ''TANZU_CLI_SM_ORGANIZATION_ID'' of Some i \<Rightarrow> i | None \<Rightarrow> orgID),
                   (case cv_environ X ''TANZU_CLI_SM_ORGANIZATION_NAME'' of Some n \<Rightarrow> n | None \<Rightarrow> orgName)))"

definition getCSPOrganizationName :: "('b, 'c, 'y) ctx_env \<Rightarrow> ctx_vars \<Rightarrow> config_context \<Rightarrow> claims \<Rightarrow> string res" where
  "getCSPOrganizationName X v c cl =
     (case kx_GlobalOpts c of
        None \<Rightarrow> Inl (Errorf ''invalid context %q. Missing authorization fields'' [])
      | Some g \<Rightarrow> GetOrgNameFromOrgID (cv_auth X) (cl_OrgID cl) (sa_AccessToken (gs_Auth g)) (GetIssuer (cv_auth X) (v_staging v)))"

section \<open>Saving the context\<close>

definition meta_put :: "string \<Rightarrow> meta_value \<Rightarrow> config_context \<Rightarrow> config_context option" where
  "meta_put k x c = map_option (\<lambda>m. c\<lparr>kx_AdditionalMetadata := Some (AList.update k x m)\<rparr>) (kx_AdditionalMetadata c)"

text \<open>Storing into metadata that is \<^verbatim>\<open>nil\<close> panics: also the metadata of an existing context of this name.\<close>

definition updateTanzuContextMetadata ::
    "('b, 'c, 'y) ctx_env \<Rightarrow> 'c \<Rightarrow> ctx_vars \<Rightarrow> string \<Rightarrow> string \<Rightarrow> config_context \<Rightarrow> config_context res option" where
  "updateTanzuContextMetadata X cfg v orgID orgName c =
     (let K = cv_keys X;
          services = (\<lambda>c. Option.bind (meta_put (TanzuHubEndpointKey K) (MString (v_tanzuHubEndpoint v)) c)
                            (meta_put (TanzuMissionControlEndpointKey K) (MString (v_tanzuTMCEndpoint v))))
      in case cl_ContextExists (cv_lib X) cfg (kx_Name c) of
           Inl e \<Rightarrow> Some (Inl e)
         | Inr False \<Rightarrow>
             map_option Inr (Option.bind (Option.bind (meta_put (OrgIDKey K) (MString orgID) c)
                                            (meta_put (OrgNameKey K) (MString orgName))) services)
         | Inr True \<Rightarrow>
             (case cl_GetContext (cv_lib X) cfg (kx_Name c) of
                Inl e \<Rightarrow> Some (Inl e)
              | Inr existing \<Rightarrow> map_option Inr (services (c\<lparr>kx_AdditionalMetadata := kx_AdditionalMetadata existing\<rparr>))))"

definition updateContextWithTanzuKubeconfig ::
    "('b, 'c, 'y) ctx_env \<Rightarrow> string \<Rightarrow> string \<Rightarrow> string \<Rightarrow> bool \<Rightarrow> config_context \<Rightarrow> 'b kube_fs \<Rightarrow>
     ('b kube_fs \<times> config_context res) option" where
  "updateContextWithTanzuKubeconfig X ep orgID epCACertPath skipTLSVerify c w =
     (case GetTanzuKubeconfig (cv_kube X) c ep orgID epCACertPath skipTLSVerify w of
        None \<Rightarrow> None
      | Some (w1, Inl e) \<Rightarrow> Some (w1, Inl e)
      | Some (w1, Inr (kubeCfg, kubeCtx, orgEndpoint)) \<Rightarrow>
          let opts = (case kx_ClusterOpts c of
                Some o1 \<Rightarrow> o1
              | None \<Rightarrow> \<lparr>cs_Endpoint = '''', cs_Path = '''', cs_Context = '''', cs_IsManagementCluster = False\<rparr>)
          in Some (w1, Inr (c\<lparr>kx_ClusterOpts := Some (opts\<lparr>cs_Path := kubeCfg, cs_Context := kubeCtx, cs_Endpoint := orgEndpoint\<rparr>)\<rparr>)))"

text \<open>The precondition of the next one is that there are \<^verbatim>\<open>ClusterOpts\<close>; it takes their value.\<close>

definition syncCurrentKubeContext :: "('b, 'c, 'y) ctx_env \<Rightarrow> cluster_server \<Rightarrow> 'b kube_fs \<Rightarrow> 'b kube_fs \<times> err option" where
  "syncCurrentKubeContext X opts w =
     (if env_flag (cv_environ X) ''TANZU_CLI_SKIP_UPDATE_KUBECONFIG_ON_CONTEXT_USE'' then (w, None)
      else SetCurrentContext (kv_codec (cv_kube X)) (cs_Path opts) (cs_Context opts) w)"

definition save_login ::
    "('b, 'c, 'y) ctx_env \<Rightarrow> config_context \<Rightarrow> ('b, 'c) ctx_state \<Rightarrow> ('b, 'c) ctx_state \<times> err option" where
  "save_login X c s =
     (case cl_AddContext (cv_lib X) c True (st_config s) of
        (cfg, Some e) \<Rightarrow> (s\<lparr>st_config := cfg\<rparr>, Some e)
      | (cfg, None) \<Rightarrow>
          (case kx_ClusterOpts c of
             None \<Rightarrow> (s\<lparr>st_config := cfg\<rparr>, None)
           | Some opts \<Rightarrow>
               (case syncCurrentKubeContext X opts (st_kube s) of
                  (w, Some e) \<Rightarrow> (s\<lparr>st_config := cfg, st_kube := w\<rparr>, Some (Wrapf e ''unable to update current kube context'' []))
                | (w, None) \<Rightarrow> (s\<lparr>st_config := cfg, st_kube := w\<rparr>, None))))"

definition updateContextOnTanzuLogin ::
    "('b, 'c, 'y) ctx_env \<Rightarrow> (string \<Rightarrow> string \<Rightarrow> bool \<Rightarrow> string) option \<Rightarrow> claims \<Rightarrow> string \<Rightarrow>
     config_context \<Rightarrow> ('b, 'c) ctx_state \<Rightarrow> (('b, 'c) ctx_state \<times> config_context \<times> err option) option" where
  "updateContextOnTanzuLogin X generateContextName cl orgName c0 s =
     (let v = st_vars s;
          c = (case generateContextName of
                 None \<Rightarrow> c0
               | Some f \<Rightarrow> c0\<lparr>kx_Name := f orgName (v_tanzuUCPEndpoint v) (v_staging v)\<rparr>)
      in case updateTanzuContextMetadata X (st_config s) v (cl_OrgID cl) orgName c of
           None \<Rightarrow> None
         | Some (Inl e) \<Rightarrow> Some (s, c, Some e)
         | Some (Inr c1) \<Rightarrow>
             (case updateContextWithTanzuKubeconfig X (v_tanzuUCPEndpoint v) (cl_OrgID cl) (v_endpointCACertPath v) (v_skipTLSVerify v)
                     c1 (st_kube s) of
                None \<Rightarrow> None
              | Some (w, Inl e) \<Rightarrow> Some (s\<lparr>st_kube := w\<rparr>, c1, Some e)
              | Some (w, Inr c2) \<Rightarrow> (case save_login X c2 (s\<lparr>st_kube := w\<rparr>) of (s1, e) \<Rightarrow> Some (s1, c2, e))))"

section \<open>Login to the platform\<close>

definition globalTanzuLoginUAA ::
    "('b, 'c, 'y) ctx_env \<Rightarrow> (string \<Rightarrow> string \<Rightarrow> bool \<Rightarrow> string) option \<Rightarrow> config_context \<Rightarrow> ('b, 'c) ctx_state \<Rightarrow>
     (('b, 'c) ctx_state \<times> config_context \<times> err option) option" where
  "globalTanzuLoginUAA X generateContextName c s =
     (case doUAAAuthentication X (st_vars s) (st_config s) c of
        None \<Rightarrow> None
      | Some (cfg, c1, Inl e) \<Rightarrow> Some (s\<lparr>st_config := cfg\<rparr>, c1, Some e)
      | Some (cfg, c1, Inr cl) \<Rightarrow>
          (case getSelfManagedOrg X c1 of
             None \<Rightarrow> None
           | Some (orgID, orgName) \<Rightarrow>
               updateContextOnTanzuLogin X generateContextName (cl\<lparr>cl_OrgID := orgID\<rparr>) orgName c1 (s\<lparr>st_config := cfg\<rparr>)))"

definition globalTanzuLoginCSP ::
    "('b, 'c, 'y) ctx_env \<Rightarrow> (string \<Rightarrow> string \<Rightarrow> bool \<Rightarrow> string) option \<Rightarrow> config_context \<Rightarrow> ('b, 'c) ctx_state \<Rightarrow>
     (('b, 'c) ctx_state \<times> config_context \<times> err option) option" where
  "globalTanzuLoginCSP X generateContextName c s =
     (case doCSPAuthentication X (st_vars s) (st_config s) c of
        None \<Rightarrow> None
      | Some (cfg, c1, Inl e) \<Rightarrow> Some (s\<lparr>st_config := cfg\<rparr>, c1, Some e)
      | Some (cfg, c1, Inr cl) \<Rightarrow>
          (case getCSPOrganizationName X (st_vars s) c1 cl of
             Inl e \<Rightarrow> Some (s\<lparr>st_config := cfg\<rparr>, c1, Some e)
           | Inr orgName \<Rightarrow> updateContextOnTanzuLogin X generateContextName cl orgName c1 (s\<lparr>st_config := cfg\<rparr>)))"

definition globalTanzuLogin ::
    "('b, 'c, 'y) ctx_env \<Rightarrow> (string \<Rightarrow> string \<Rightarrow> bool \<Rightarrow> string) option \<Rightarrow> config_context \<Rightarrow> ('b, 'c) ctx_state \<Rightarrow>
     (('b, 'c) ctx_state \<times> config_context \<times> err option) option" where
  "globalTanzuLogin X generateContextName c s =
     (let idp = meta_get c (TanzuIdpTypeKey (cv_keys X))
      in if idp = Some (MIdp (CSPIdpType (cv_keys X))) then globalTanzuLoginCSP X generateContextName c s
         else if idp = Some (MIdp (UAAIdpType (cv_keys X))) then globalTanzuLoginUAA X generateContextName c s
         else Some (s, c, Some (Errorf ''invalid IDP type found.'' [])))"

definition promptAPIToken :: "('b, 'c, 'y) ctx_env \<Rightarrow> ctx_vars \<Rightarrow> string res" where
  "promptAPIToken X v =
     (case cv_UrlParse X (GetIssuer (cv_auth X) (v_staging v)) of
        Inl e \<Rightarrow> Inl (Wrapf e ''failed to parse the issuer URL'' [])
      | Inr u \<Rightarrow> map_sum id trim_space (cv_Prompt X ''API Token'' ''''))"

definition globalLogin ::
    "('b, 'c, 'y) ctx_env \<Rightarrow> config_context \<Rightarrow> ('b, 'c) ctx_state \<Rightarrow> (('b, 'c) ctx_state \<times> err option) option" where
  "globalLogin X c s =
     (case (case cv_environ X ''TANZU_API_TOKEN'' of Some t \<Rightarrow> Inr t | None \<Rightarrow> promptAPIToken X (st_vars s)) of
        Inl e \<Rightarrow> Some (s, Some e)
      | Inr apiTokenValue \<Rightarrow>
          (case doCSPAPITokenAuthAndUpdateContext X (st_vars s) c apiTokenValue of
             None \<Rightarrow> None
           | Some (c1, Inl e) \<Rightarrow> Some (s, Some e)
           | Some (c1, Inr cl) \<Rightarrow> (case cl_AddContext (cv_lib X) c1 True (st_config s) of (cfg, e) \<Rightarrow> Some (s\<lparr>st_config := cfg\<rparr>, e))))"

definition GetServerKubernetesVersion :: "('b, 'c, 'y) ctx_env \<Rightarrow> string \<Rightarrow> string \<Rightarrow> 'b kube_fs \<Rightarrow> err option" where
  "GetServerKubernetesVersion X kubeconfigPath context w =
     (case loadKubeconfigAndEnsureContext (kv_codec (cv_kube X)) w kubeconfigPath context of
        Inl e \<Rightarrow> Some (Errorf ''unable to read kubeconfig'' [])
      | Inr bytes \<Rightarrow> cv_ServerVersion X bytes)"

definition k8sLogin :: "('b, 'c, 'y) ctx_env \<Rightarrow> config_context \<Rightarrow> ('b, 'c) ctx_state \<Rightarrow> ('b, 'c) ctx_state \<times> err option" where
  "k8sLogin X c s =
     (case kx_ClusterOpts c of
        None \<Rightarrow> (s, Some (Errorf ''not yet implemented'' []))
      | Some opts \<Rightarrow>
          if cs_Path opts = '''' \<or> cs_Context opts = '''' then (s, Some (Errorf ''not yet implemented'' []))
          else (case GetServerKubernetesVersion X (cs_Path opts) (cs_Context opts) (st_kube s) of
                  Some e \<Rightarrow> (s, Some (Wrapf e ''failed to create context %q for a kubernetes cluster'' [kx_Name c]))
                | None \<Rightarrow> save_login X c s))"

text \<open>\<open>createCtx\<close> up to the synchronization of plugins, whose errors are only logged.\<close>

definition validateContextCreateFlagValues :: "ctx_vars \<Rightarrow> err option" where
  "validateContextCreateFlagValues v =
     (if v_contextTypeStr v = ContextTypeTanzu \<and> v_kubeConfig v \<noteq> ''''
      then Some (Errorf ''the --kubeconfig flag is not applicable when creating a context of type tanzu'' [])
      else if v_contextTypeStr v = ContextTypeTanzu \<and> v_kubeContext v \<noteq> ''''
      then Some (Errorf ''the --kubecontext flag is not applicable when creating a context of type tanzu'' [])
      else None)"

definition login_new_context ::
    "('b, 'c, 'y) ctx_env \<Rightarrow> config_context \<Rightarrow> ('b, 'c) ctx_state \<Rightarrow> (('b, 'c) ctx_state \<times> err option) option" where
  "login_new_context X ctx s =
     (if kx_ContextType ctx = ContextTypeK8s then Some (k8sLogin X ctx s)
      else if kx_ContextType ctx = ContextTypeTanzu then map_option (\<lambda>(s1, c1, e). (s1, e)) (globalTanzuLogin X None ctx s)
      else globalLogin X ctx s)"

definition createCtx ::
    "'v lib \<Rightarrow> ('b, 'c, 'y) ctx_env \<Rightarrow> string list \<Rightarrow> ('b, 'c) ctx_state \<Rightarrow> (('b, 'c) ctx_state \<times> err option) option" where
  "createCtx L X args s0 =
     (if args \<noteq> [] \<and> v_ctxName (st_vars s0) \<noteq> ''''
      then Some (s0, Some (Errorf ''cannot specify the context name as an argument and with the --name flag at the same time'' []))
      else let s = (case args of [] \<Rightarrow> s0 | name # _ \<Rightarrow> s0\<lparr>st_vars := (st_vars s0)\<lparr>v_ctxName := name\<rparr>\<rparr>)
           in case validateContextCreateFlagValues (st_vars s) of
                Some e \<Rightarrow> Some (s, Some e)
              | None \<Rightarrow>
                  if \<not> cv_IsValidContextType X (v_contextTypeStr (st_vars s)) then Some (s, Some (Errorf ''invalid context type specified'' []))
                  else (case createNewContext L X s of
                          None \<Rightarrow> None
                        | Some (s1, Inl e) \<Rightarrow> Some (s1, Some e)
                        | Some (s1, Inr ctx) \<Rightarrow> login_new_context X ctx s1))"

section \<open>The login command\<close>

definition isSubdomain :: "('b, 'c, 'y) ctx_env \<Rightarrow> string \<Rightarrow> string \<Rightarrow> bool" where
  "isSubdomain X parent child =
     (case (cv_UrlParse X parent, cv_UrlParse X child) of
        (Inr (pscheme, phost, ppath), Inr (cscheme, chost, cpath)) \<Rightarrow>
          pscheme = cscheme \<and> (phost = chost \<or> has_suffix chost phost) \<and> ppath = cpath
      | _ \<Rightarrow> False)"

definition prepareTanzuContextName ::
    "'v lib \<Rightarrow> ('b, 'c, 'y) ctx_env \<Rightarrow> ctx_vars \<Rightarrow> string \<Rightarrow> string \<Rightarrow> bool \<Rightarrow> string" where
  "prepareTanzuContextName L X v orgName ucpEndpoint isStaging =
     (let base = (if getIDPType X v (v_endpoint v) = UAAIdpType (cv_keys X) then ''tpsm''
                  else map (\<lambda>c. if c = CHR '' '' then CHR ''_'' else c) orgName @ (if isStaging then ''-staging'' else ''''))
      in if isSubdomain X (DefaultPlatformEndpoint X) ucpEndpoint then base
         else base @ ''-'' @ take 8 (Sha256Hex L ucpEndpoint))"

definition getString :: "meta_value option \<Rightarrow> string" where
  "getString x = (case x of Some (MString s) \<Rightarrow> s | _ \<Rightarrow> '''')"

definition updateKubeConfigForContext ::
    "('b, 'c, 'y) ctx_env \<Rightarrow> config_context \<Rightarrow> 'b kube_fs \<Rightarrow> 'b kube_fs \<times> config_context \<times> err option" where
  "updateKubeConfigForContext X c w =
     (let K = cv_keys X; str = (\<lambda>k. getString (meta_get c k))
      in updateTanzuContextKubeconfig (cv_kube X) c (str (ProjectNameKey K)) (str (ProjectIDKey K)) (str (SpaceNameKey K))
           (str (ClusterGroupNameKey K)) w)"

text \<open>An error of updating the kubeconfig ends the command without an error.\<close>

definition login ::
    "'v lib \<Rightarrow> ('b, 'c, 'y) ctx_env \<Rightarrow> string \<Rightarrow> ('b, 'c) ctx_state \<Rightarrow> (('b, 'c) ctx_state \<times> err option) option" where
  "login L X loginEndpoint s0 =
     (let s = s0\<lparr>st_vars := (st_vars s0)\<lparr>v_endpoint := loginEndpoint, v_ctxName := cv_NewUUID X\<rparr>\<rparr>
      in case createContextUsingContextType L X (Some contextTanzu) s of
           None \<Rightarrow> None
         | Some (s1, Inl e) \<Rightarrow> Some (s1, Some e)
         | Some (s1, Inr ctx) \<Rightarrow>
             (case globalTanzuLogin X (Some (prepareTanzuContextName L X (st_vars s1))) ctx s1 of
                None \<Rightarrow> None
              | Some (s2, c2, Some e) \<Rightarrow> Some (s2, Some e)
              | Some (s2, c2, None) \<Rightarrow>
                  (case updateKubeConfigForContext X c2 (st_kube s2) of
                     (w, c3, Some e) \<Rightarrow> Some (s2\<lparr>st_kube := w\<rparr>, None)
                   | (w, c3, None) \<Rightarrow>
                       (case cl_SetContext (cv_lib X) c3 False (st_config s2) of
                          (cfg, Some e) \<Rightarrow> Some (s2\<lparr>st_kube := w, st_config := cfg\<rparr>, Some (Wrapf e ''failed updating the context %q after kubeconfig update'' []))
                        | (cfg, None) \<Rightarrow> Some (s2\<lparr>st_kube := w, st_config := cfg\<rparr>, None)))))"

end
