(* ===== verification/Context_Commands.thy ===== *)
theory Context_Commands
  imports Context_Login Manager_Install
begin

text \<open>
  The commands on existing contexts: \<^verbatim>\<open>pkg/command/context.go\<close> (list, get, delete, use, unset, get-token, the active
  resource), the synchronization of contexts and servers (\<^verbatim>\<open>pkg/config/context.go\<close>), and the updates of
  contexts at start-up (\<^verbatim>\<open>pkg/command/root.go\<close>, \<^verbatim>\<open>root_initializers.go\<close>).
\<close>

section \<open>Choosing a context\<close>

definition rpad :: "string \<Rightarrow> nat \<Rightarrow> string" where
  "rpad s padding = s @ replicate (padding - length s) (CHR '' '')"

definition context_info :: "('b, 'c, 'y) ctx_env \<Rightarrow> config_context \<Rightarrow> string res" where
  "context_info X ctx =
     (case cl_EndpointFromContext (cv_lib X) ctx of
        Inl e \<Rightarrow> Inl e
      | Inr info \<Rightarrow>
          Inr (case kx_ClusterOpts ctx of
                 Some opts \<Rightarrow> if info = '''' \<and> kx_ContextType ctx = ContextTypeK8s then cs_Path opts @ '':'' @ cs_Context opts else info
               | None \<Rightarrow> info))"

fun prompt_contexts_loop ::
    "('b, 'c, 'y) ctx_env \<Rightarrow> config_context list \<Rightarrow> (string \<times> config_context) list \<Rightarrow> (string \<times> config_context) list res" where
  "prompt_contexts_loop X [] m = Inr m"
| "prompt_contexts_loop X (ctx # ctxs) m =
     (case context_info X ctx of
        Inl e \<Rightarrow> Inl e
      | Inr info \<Rightarrow> prompt_contexts_loop X ctxs (AList.update (rpad (kx_Name ctx) 20 @ ''('' @ info @ '')'') ctx m))"

definition getKeys :: "(string \<times> config_context) list \<Rightarrow> string list" where
  "getKeys m = sort_by (\<lambda>a b. a < b) (keys_of m)"

text \<open>A choice that is no option gives a \<^verbatim>\<open>nil\<close> context, which the callers dereference. Without contexts the first
  option is out of range.\<close>

definition getCtxPromptMessage :: "('b, 'c, 'y) ctx_env \<Rightarrow> config_context list \<Rightarrow> config_context res option" where
  "getCtxPromptMessage X ctxs =
     (case prompt_contexts_loop X ctxs [] of
        Inl e \<Rightarrow> Some (Inl e)
      | Inr contexts \<Rightarrow>
          (case getKeys contexts of
             [] \<Rightarrow> None
           | ctxKey # _ \<Rightarrow>
               (case cv_Prompt X ''Select a context'' ctxKey of
                  Inl e \<Rightarrow> Some (Inl e)
                | Inr key \<Rightarrow> map_option Inr (map_of contexts key))))"

definition promptCtx :: "('b, 'c, 'y) ctx_env \<Rightarrow> 'c \<Rightarrow> config_context res option" where
  "promptCtx X cfg =
     (case cl_KnownContexts (cv_lib X) cfg of
        Inl e \<Rightarrow> Some (Inl e)
      | Inr ctxs \<Rightarrow> if ctxs = [] then Some (Inl (Errorf ''no contexts found'' [])) else getCtxPromptMessage X ctxs)"

definition promptActiveCtx :: "'v lib \<Rightarrow> ('b, 'c, 'y) ctx_env \<Rightarrow> 'c \<Rightarrow> config_context res option" where
  "promptActiveCtx L X cfg =
     (case cl_ActiveContexts (cv_lib X) cfg of
        Inl e \<Rightarrow> Some (Inl e)
      | Inr m \<Rightarrow> if m = [] then Some (Inl (Errorf ''no active contexts found'' []))
                 else getCtxPromptMessage X (List.map_filter (map_of m) (range_keys L m)))"

text \<open>The name of the context of a command: its argument, else the prompt.\<close>

definition chosen_name :: "('b, 'c, 'y) ctx_env \<Rightarrow> 'c \<Rightarrow> string list \<Rightarrow> string res option" where
  "chosen_name X cfg args =
     (case args of name # _ \<Rightarrow> Some (Inr name) | [] \<Rightarrow> map_option (map_sum id kx_Name) (promptCtx X cfg))"

definition getCtx :: "('b, 'c, 'y) ctx_env \<Rightarrow> 'c \<Rightarrow> string list \<Rightarrow> config_context res option" where
  "getCtx X cfg args =
     (case args of [] \<Rightarrow> promptCtx X cfg | name # _ \<Rightarrow> Some (cl_GetContext (cv_lib X) cfg name))"

section \<open>Deleting\<close>

definition isPinnipedEndpointContext :: "config_context \<Rightarrow> bool" where
  "isPinnipedEndpointContext ctx \<longleftrightarrow>
     kx_ContextType ctx = ContextTypeK8s \<and> meta_get ctx isPinnipedEndpointKey = Some (MBool True)"

text \<open>An error is only logged.\<close>

definition deleteKubeconfigContext :: "('b, 'c, 'y) ctx_env \<Rightarrow> config_context \<Rightarrow> 'b kube_fs \<Rightarrow> 'b kube_fs" where
  "deleteKubeconfigContext X ctx w =
     (if kx_ContextType ctx = ContextTypeTanzu \<or> isPinnipedEndpointContext ctx
      then (case kx_ClusterOpts ctx of
              None \<Rightarrow> w
            | Some opts \<Rightarrow> fst (DeleteContextFromKubeConfig (kv_codec (cv_kube X)) (cs_Path opts) (cs_Context opts) w))
      else w)"

definition deleteCtx ::
    "('b, 'c, 'y) ctx_env \<Rightarrow> bool \<Rightarrow> string list \<Rightarrow> ('b, 'c) ctx_state \<Rightarrow> (('b, 'c) ctx_state \<times> err option) option" where
  "deleteCtx X unattended args s =
     (case chosen_name X (st_config s) args of
        None \<Rightarrow> None
      | Some (Inl e) \<Rightarrow> Some (s, Some e)
      | Some (Inr name) \<Rightarrow>
          Some (case cl_GetContext (cv_lib X) (st_config s) name of
             Inl e \<Rightarrow> (s, Some e)
           | Inr ctx \<Rightarrow>
               if \<not> unattended \<and> cv_Confirm X \<noteq> None then (s, None)
               else (case cl_RemoveContext (cv_lib X) name (st_config s) of
                       (cfg, Some e) \<Rightarrow> (s\<lparr>st_config := cfg\<rparr>, Some e)
                     | (cfg, None) \<Rightarrow> (s\<lparr>st_config := cfg, st_kube := deleteKubeconfigContext X ctx (st_kube s)\<rparr>, None))))"

section \<open>Activating and deactivating\<close>

definition useCtx ::
    "('b, 'c, 'y) ctx_env \<Rightarrow> string list \<Rightarrow> ('b, 'c) ctx_state \<Rightarrow> (('b, 'c) ctx_state \<times> err option) option" where
  "useCtx X args s0 =
     (case chosen_name X (st_config s0) args of
        None \<Rightarrow> None
      | Some (Inl e) \<Rightarrow> Some (s0, Some e)
      | Some (Inr name) \<Rightarrow>
          let s = s0\<lparr>st_vars := (st_vars s0)\<lparr>v_ctxName := name\<rparr>\<rparr>
          in Some (case cl_GetContext (cv_lib X) (st_config s) name of
               Inl e \<Rightarrow> (s, Some e)
             | Inr ctx \<Rightarrow>
                 (case (case kx_ClusterOpts ctx of None \<Rightarrow> (st_kube s, None) | Some opts \<Rightarrow> syncCurrentKubeContext X opts (st_kube s)) of
                    (w, Some e) \<Rightarrow> (s\<lparr>st_kube := w\<rparr>, Some (Wrapf e ''unable to update current kube context'' []))
                  | (w, None) \<Rightarrow>
                      (case cl_SetActiveContext (cv_lib X) name (st_config s) of
                         (cfg, e) \<Rightarrow> (s\<lparr>st_kube := w, st_config := cfg\<rparr>, e)))))"

text \<open>The error of reading the active contexts is looked at only after the cases, and overwritten by them.\<close>

definition unsetGivenContext ::
    "'v lib \<Rightarrow> ('b, 'c, 'y) ctx_env \<Rightarrow> string \<Rightarrow> string \<Rightarrow> 'c \<Rightarrow> 'c \<times> err option" where
  "unsetGivenContext L X name contextType cfg =
     (let r = cl_ActiveContexts (cv_lib X) cfg;
          m = (case r of Inl e \<Rightarrow> [] | Inr m \<Rightarrow> m);
          err0 = (case r of Inl e \<Rightarrow> Some e | Inr m \<Rightarrow> None)
      in if contextType \<noteq> '''' \<and> name \<noteq> ''''
         then (if map_option kx_Name (map_of m contextType) = Some name then cl_RemoveActiveContext (cv_lib X) contextType cfg
               else (cfg, Some (Errorf ''The provided context %v does not exist or is not active for the given context type %v'' [name, contextType])))
         else if contextType \<noteq> ''''
         then (if map_of m contextType \<noteq> None then cl_RemoveActiveContext (cv_lib X) contextType cfg else (cfg, err0))
         else if name \<noteq> ''''
         then (case List.find (\<lambda>ct. map_option kx_Name (map_of m ct) = Some name) (range_keys L m) of
                 Some ct \<Rightarrow> cl_RemoveActiveContext (cv_lib X) ct cfg
               | None \<Rightarrow> (cfg, Some (Errorf ''The provided context %v is not active or does not exist'' [name])))
         else (cfg, err0))"

definition unsetCtx ::
    "'v lib \<Rightarrow> ('b, 'c, 'y) ctx_env \<Rightarrow> string list \<Rightarrow> ('b, 'c) ctx_state \<Rightarrow> (('b, 'c) ctx_state \<times> err option) option" where
  "unsetCtx L X args s =
     (let v = st_vars s
      in if \<not> cv_IsValidContextType X (v_contextTypeStr v) then Some (s, Some (Errorf ''invalid context type specified'' []))
         else if \<not> cv_IsValidTarget X (v_targetStr v) then Some (s, Some (Errorf ''invalid target specified'' []))
         else let contextType = getContextType X v; name = (case args of [] \<Rightarrow> '''' | n # _ \<Rightarrow> n)
              in (case (if name = '''' \<and> contextType = '''' then map_option (map_sum id kx_Name) (promptActiveCtx L X (st_config s))
                        else Some (Inr name)) of
                    None \<Rightarrow> None
                  | Some (Inl e) \<Rightarrow> Some (s, Some e)
                  | Some (Inr n) \<Rightarrow>
                      (case unsetGivenContext L X n contextType (st_config s) of (cfg, e) \<Rightarrow> Some (s\<lparr>st_config := cfg\<rparr>, e))))"

section \<open>Tokens\<close>

text \<open>The result is the token and its expiration, which are printed.\<close>

definition getToken ::
    "('b, 'c, 'y) ctx_env \<Rightarrow> string \<Rightarrow> 'c \<Rightarrow> ('c \<times> (string \<times> int) res) option" where
  "getToken X name cfg =
     (case cl_GetContext (cv_lib X) cfg name of
        Inl e \<Rightarrow> Some (cfg, Inl e)
      | Inr ctx \<Rightarrow>
          if kx_ContextType ctx \<noteq> ContextTypeTanzu then Some (cfg, Inl (Errorf ''context %q is not of type tanzu'' [name]))
          else (case kx_GlobalOpts ctx of
                  None \<Rightarrow> Some (cfg, Inl (Errorf ''invalid context %q . Missing the authorization fields in the context'' [name]))
                | Some g \<Rightarrow>
                    if \<not> IsExpired (ax_now (cv_auth X)) (sa_Expiration (gs_Auth g))
                    then Some (cfg, Inr (sa_AccessToken (gs_Auth g), sa_Expiration (gs_Auth g)))
                    else
                      let idpType = (case meta_get ctx (TanzuIdpTypeKey (cv_keys X)) of
                             Some (MString s) \<Rightarrow> s | _ \<Rightarrow> CSPIdpType (cv_keys X));
                          tokenGetter = (if idpType = CSPIdpType (cv_keys X) then csp_GetTokens (cv_auth X) else uaa_GetTokens (cv_auth X))
                      in (case GetToken (cv_auth X) (gs_Auth g) tokenGetter idpType of
                            None \<Rightarrow> None
                          | Some (a, Some e) \<Rightarrow> Some (cfg, Inl (Wrapf e ''failed to refresh the token'' []))
                          | Some (a, None) \<Rightarrow>
                              (case cl_SetContext (cv_lib X) (ctx\<lparr>kx_GlobalOpts := Some (g\<lparr>gs_Auth := a\<rparr>)\<rparr>) False cfg of
                                 (cfg1, Some e) \<Rightarrow> Some (cfg1, Inl (Wrapf e ''failed updating the context after token refresh'' []))
                               | (cfg1, None) \<Rightarrow> Some (cfg1, Inr (sa_AccessToken a, sa_Expiration a))))))"

section \<open>The active resource\<close>

definition set_resource :: "context_keys \<Rightarrow> string \<Rightarrow> string \<Rightarrow> string \<Rightarrow> string \<Rightarrow> config_context \<Rightarrow> config_context" where
  "set_resource K project projectID space clustergroup ctx =
     ctx\<lparr>kx_AdditionalMetadata := Some (AList.update (ClusterGroupNameKey K) (MString clustergroup)
       (AList.update (SpaceNameKey K) (MString space) (AList.update (ProjectIDKey K) (MString projectID)
         (AList.update (ProjectNameKey K) (MString project) (case kx_AdditionalMetadata ctx of None \<Rightarrow> [] | Some m \<Rightarrow> m)))))\<rparr>"

definition setTanzuCtxActiveResource ::
    "('b, 'c, 'y) ctx_env \<Rightarrow> string \<Rightarrow> string \<Rightarrow> string \<Rightarrow> string \<Rightarrow> string \<Rightarrow> ('b, 'c) ctx_state \<Rightarrow> ('b, 'c) ctx_state \<times> err option" where
  "setTanzuCtxActiveResource X name project projectID space clustergroup s =
     (case validateActiveResourceOptions project projectID space clustergroup of
        Some e \<Rightarrow> (s, Some e)
      | None \<Rightarrow>
          (case cl_GetContext (cv_lib X) (st_config s) name of
             Inl e \<Rightarrow> (s, Some e)
           | Inr ctx0 \<Rightarrow>
               if kx_ContextType ctx0 \<noteq> ContextTypeTanzu then (s, Some (Errorf ''context %q is not of type tanzu'' [name]))
               else
                 let ctx = set_resource (cv_keys X) project projectID space clustergroup ctx0
                 in (case updateTanzuContextKubeconfig (cv_kube X) ctx project projectID space clustergroup (st_kube s) of
                       (w, ctx1, Some e) \<Rightarrow> (s\<lparr>st_kube := w\<rparr>, Some (Wrapf e ''failed to update the tanzu context kubeconfig'' []))
                     | (w, ctx1, None) \<Rightarrow>
                         (case cl_SetContext (cv_lib X) ctx1 False (st_config s) of
                            (cfg, Some e) \<Rightarrow> (s\<lparr>st_kube := w, st_config := cfg\<rparr>, Some (Wrapf e ''failed updating the context %q with the active tanzu resource'' []))
                          | (cfg, None) \<Rightarrow> (s\<lparr>st_kube := w, st_config := cfg\<rparr>, None)))))"

section \<open>Listing\<close>

abbreviation NA :: string where "NA \<equiv> ''n/a''"

text \<open>The client configuration: the known contexts and the name of the current one of each type.\<close>

definition is_current :: "('b, 'c, 'y) ctx_env \<Rightarrow> 'c \<Rightarrow> config_context \<Rightarrow> bool" where
  "is_current X cfg ctx \<longleftrightarrow> kx_Name ctx = cl_CurrentContext (cv_lib X) cfg (kx_ContextType ctx)"

definition getContextsToDisplay ::
    "('b, 'c, 'y) ctx_env \<Rightarrow> 'c \<Rightarrow> config_context list \<Rightarrow> string \<Rightarrow> bool \<Rightarrow> config_context list \<times> bool" where
  "getContextsToDisplay X cfg known contextType onlyCurrent =
     (let out = filter (\<lambda>ctx. (contextType = '''' \<or> kx_ContextType ctx = contextType) \<and> (onlyCurrent \<longrightarrow> is_current X cfg ctx)) known
      in (out, list_ex (\<lambda>ctx. kx_ContextType ctx = ContextTypeTanzu) out))"

definition cluster_columns :: "config_context \<Rightarrow> string \<Rightarrow> string \<times> string \<times> string" where
  "cluster_columns ctx d =
     (case kx_ClusterOpts ctx of None \<Rightarrow> (d, d, d) | Some opts \<Rightarrow> (cs_Endpoint opts, cs_Path opts, cs_Context opts))"

text \<open>A value that is no string panics.\<close>

definition meta_column :: "config_context \<Rightarrow> string \<Rightarrow> string option" where
  "meta_column ctx k = (case meta_get ctx k of None \<Rightarrow> Some '''' | Some (MString s) \<Rightarrow> Some s | Some _ \<Rightarrow> None)"

definition output_row :: "('b, 'c, 'y) ctx_env \<Rightarrow> 'c \<Rightarrow> config_context \<Rightarrow> (string \<times> string) list option" where
  "output_row X cfg ctx =
     (let K = cv_keys X;
          row = (\<lambda>project projectID space clustergroup (ep, path, kctx).
            [(''Name'', kx_Name ctx), (''IsActive'', format_bool (is_current X cfg ctx)), (''Type'', kx_ContextType ctx),
             (''Project'', project), (''ProjectID'', projectID), (''Space'', space), (''ClusterGroup'', clustergroup),
             (''Endpoint'', ep), (''KubeconfigPath'', path), (''KubeContext'', kctx)])
      in if kx_ContextType ctx = ContextTypeTMC
         then Some (row NA NA NA NA (case kx_GlobalOpts ctx of None \<Rightarrow> NA | Some g \<Rightarrow> gs_Endpoint g, NA, NA))
         else if kx_ContextType ctx = ContextTypeTanzu
         then Option.bind (meta_column ctx (ProjectNameKey K)) (\<lambda>project.
              Option.bind (meta_column ctx (ProjectIDKey K)) (\<lambda>projectID.
              Option.bind (meta_column ctx (SpaceNameKey K)) (\<lambda>space.
              map_option (\<lambda>cg. row project projectID space cg (cluster_columns ctx '''')) (meta_column ctx (ClusterGroupNameKey K)))))
         else Some (row NA NA NA NA (cluster_columns ctx NA)))"

text \<open>The columns that are required or, if dynamic, filled in some row; and the table.\<close>

definition column_filled :: "(string \<times> string) list list \<Rightarrow> string \<Rightarrow> bool" where
  "column_filled rows col \<longleftrightarrow> list_ex (\<lambda>row. case map_of row col of None \<Rightarrow> False | Some x \<Rightarrow> x \<noteq> NA \<and> x \<noteq> '''') rows"

definition renderDynamicTable :: "(string \<times> string) list list \<Rightarrow> string list \<Rightarrow> string list \<Rightarrow> string list \<times> string list list" where
  "renderDynamicTable rows requiredColumns dynamicColumns =
     (case rows of
        [] \<Rightarrow> ([], [])
      | first # _ \<Rightarrow>
          let shown = (\<lambda>(col, x). ContainsString requiredColumns col \<or> (ContainsString dynamicColumns col \<and> column_filled rows col))
          in (map fst (filter shown first), map (\<lambda>row. map snd (filter shown row)) rows))"

definition listed_columns :: "bool \<Rightarrow> bool \<Rightarrow> string list \<times> string list" where
  "listed_columns tanzuContextExists showAllColumns =
     (let dynamic = (if tanzuContextExists then [''ClusterGroup''] @ (if showAllColumns then [''ProjectID''] else []) else []);
          required = [''Name'', ''IsActive'', ''Type''] @ (if tanzuContextExists then [''Project'', ''Space''] else []) @
            (if showAllColumns then [''Endpoint'', ''KubeconfigPath'', ''KubeContext''] @ dynamic else [])
      in (required, dynamic))"

definition displayContextListOutputWithDynamicColumns ::
    "('b, 'c, 'y) ctx_env \<Rightarrow> (config_context \<Rightarrow> config_context \<Rightarrow> bool) \<Rightarrow> ctx_vars \<Rightarrow> 'c \<Rightarrow> config_context list \<Rightarrow> bool \<Rightarrow> bool \<Rightarrow>
     (string list \<times> string list list) option" where
  "displayContextListOutputWithDynamicColumns X lt v cfg known onlyCurrent showAllColumns =
     (let ctxs = sort_by lt (fst (getContextsToDisplay X cfg known (getContextType X v) onlyCurrent));
          rows = map (output_row X cfg) ctxs;
          (required, dynamic) = listed_columns (list_ex (\<lambda>ctx. kx_ContextType ctx = ContextTypeTanzu) ctxs) showAllColumns
      in if None \<in> set rows then None else Some (renderDynamicTable (map the rows) required dynamic))"

section \<open>Completion\<close>

definition completionFormatCtxs :: "('b, 'c, 'y) ctx_env \<Rightarrow> config_context list \<Rightarrow> string list" where
  "completionFormatCtxs X ctxs =
     sort_by (\<lambda>a b. a < b)
       (map (\<lambda>ctx. let info = (case cl_EndpointFromContext (cv_lib X) ctx of Inl e \<Rightarrow> '''' | Inr i \<Rightarrow> i);
                       info' = (case kx_ClusterOpts ctx of
                          Some opts \<Rightarrow> if info = '''' \<and> kx_ContextType ctx = ContextTypeK8s then cs_Path opts @ '':'' @ cs_Context opts else info
                        | None \<Rightarrow> info)
                   in kx_Name ctx @ [CHR 0x09] @ info') ctxs)"

section \<open>What the context recommends\<close>

definition install_recommended_step ::
    "'v lib \<Rightarrow> 'b mgr_env \<Rightarrow> discovered \<Rightarrow> ('b mgr_state \<times> err list) option \<Rightarrow> ('b mgr_state \<times> err list) option" where
  "install_recommended_step L E p st =
     (case st of
        None \<Rightarrow> None
      | Some (s, errList) \<Rightarrow>
          (case InstallStandalonePlugin L E (d_Name p) (d_RecommendedVersion p) (d_Target p) s of
             None \<Rightarrow> None
           | Some (s1, None) \<Rightarrow> Some (s1, errList)
           | Some (s1, Some e) \<Rightarrow> Some (s1, errList @ [e])))"

definition syncContextPlugins ::
    "'v lib \<Rightarrow> 'b mgr_env \<Rightarrow> string \<Rightarrow> 'b mgr_state \<Rightarrow> ('b mgr_state \<times> err option) option" where
  "syncContextPlugins L E contextType s =
     (if env_flag (me_environ E) ''TANZU_CLI_SKIP_CONTEXT_RECOMMENDED_PLUGIN_INSTALLATION'' then Some (s, None)
      else case DiscoverPluginsForContextType L E contextType (mg_caches s) of
          None \<Rightarrow> None
        | Some (cs, plugins, Some e) \<Rightarrow> Some (s\<lparr>mg_caches := cs\<rparr>, Some e)
        | Some (cs, plugins, None) \<Rightarrow>
            if plugins = [] then Some (s\<lparr>mg_caches := cs\<rparr>, None)
            else (case UpdatePluginsInstallationStatus L E plugins (mg_cat s) of
                    None \<Rightarrow> None
                  | Some (w, known) \<Rightarrow>
                      let s1 = s\<lparr>mg_caches := cs, mg_cat := w\<rparr>;
                          needed = filter (\<lambda>p. d_Status p = PluginStatusNotInstalled \<or> d_Status p = PluginStatusUpdateAvailable)
                                     (sort_by Discovered_Less known)
                      in if needed = [] then Some (s1, None)
                         else map_option (\<lambda>(s2, errList). (s2, NewAggregate L errList))
                                (fold (install_recommended_step L E) needed (Some (s1, [])))))"

end
