(* ===== verification/Context_Updates.thy ===== *)
theory Context_Updates
  imports Context_Commands
begin

text \<open>
  Changes to the stored contexts at start-up: \<^verbatim>\<open>pkg/config/context.go\<close> (contexts and the servers of older versions),
  \<^verbatim>\<open>pkg/command/root.go\<close> (the issuer of Tanzu contexts), \<^verbatim>\<open>pkg/command/root_initializers.go\<close> (endpoints that
  have moved). What was done is remembered in the data store, so that it is done once.
\<close>

section \<open>Updates that run once\<close>

text \<open>The data store with the codecs of the values kept in it.\<close>

record ('d, 'z) once_env =
  on_yaml :: "('d, 'z) ds_yaml"
  on_bool :: "'z \<Rightarrow> bool res"
  on_of_bool :: "bool \<Rightarrow> 'z"
  on_string :: "'z \<Rightarrow> string res"
  on_of_string :: "string \<Rightarrow> 'z"

definition stored_or :: "'a \<Rightarrow> 'a option res \<Rightarrow> 'a" where
  "stored_or d r = (case r of Inr (Some x) \<Rightarrow> x | _ \<Rightarrow> d)"

text \<open>Each context that is to be changed is changed and saved; the result tells whether all were saved.\<close>

fun update_contexts_loop ::
    "'c config_lib \<Rightarrow> (config_context \<Rightarrow> bool) \<Rightarrow> (config_context \<Rightarrow> config_context option) \<Rightarrow> config_context list \<Rightarrow> 'c \<times> bool \<Rightarrow>
     ('c \<times> bool) option" where
  "update_contexts_loop C eligible change [] st = Some st"
| "update_contexts_loop C eligible change (ctx # ctxs) (cfg, ok) =
     (if \<not> eligible ctx then update_contexts_loop C eligible change ctxs (cfg, ok)
      else case change ctx of
          None \<Rightarrow> None
        | Some ctx1 \<Rightarrow>
            (case cl_SetContext C ctx1 False cfg of
               (cfg1, e) \<Rightarrow> update_contexts_loop C eligible change ctxs (cfg1, ok \<and> e = None)))"

section \<open>Issuers\<close>

definition isEligibleForTCSPIssuerUpdate :: "config_context \<Rightarrow> bool" where
  "isEligibleForTCSPIssuerUpdate ctx \<longleftrightarrow>
     (kx_ContextType ctx = ContextTypeTanzu \<or> kx_ContextType ctx = ContextTypeTMC) \<and>
     (case kx_GlobalOpts ctx of
        None \<Rightarrow> False | Some g \<Rightarrow> sa_Issuer (gs_Auth g) = StgIssuer \<or> sa_Issuer (gs_Auth g) = ProdIssuer)"

definition move_issuer :: "int \<Rightarrow> server_auth \<Rightarrow> server_auth" where
  "move_issuer now a =
     (let a1 = a\<lparr>sa_Issuer := (if sa_Issuer a = StgIssuer then StgIssuerTCSP
                                else if sa_Issuer a = ProdIssuer then ProdIssuerTCSP else sa_Issuer a)\<rparr>
      in if sa_Type a = IDTokenType then a1\<lparr>sa_Expiration := now - 10 * 1000000000, sa_RefreshToken := ''Invalid''\<rparr> else a1)"

definition change_issuer :: "int \<Rightarrow> config_context \<Rightarrow> config_context" where
  "change_issuer now ctx =
     ctx\<lparr>kx_GlobalOpts := map_option (\<lambda>g. g\<lparr>gs_Auth := move_issuer now (gs_Auth g)\<rparr>) (kx_GlobalOpts ctx)\<rparr>"

abbreviation isCLIContextsUpdatedToTCSPIssuers :: string where
  "isCLIContextsUpdatedToTCSPIssuers \<equiv> ''isCLIContextsUpdatedToTCSPIssuers''"

definition updateConfigWithTanzuCSPIssuer ::
    "('b, 'c, 'y) ctx_env \<Rightarrow> ('d, 'z) once_env \<Rightarrow> 'c \<times> 'd ds_fs \<Rightarrow> ('c \<times> 'd ds_fs) option" where
  "updateConfigWithTanzuCSPIssuer X S = (\<lambda>(cfg, d).
     if \<not> GetIssuerUpdateFlagFromCentralConfig (cv_auth X) then Some (cfg, d)
     else if stored_or False (GetDataStoreValue (on_yaml S) (on_bool S) isCLIContextsUpdatedToTCSPIssuers d) then Some (cfg, d)
     else case cl_KnownContexts (cv_lib X) cfg of
         Inl e \<Rightarrow> Some (cfg, d)
       | Inr known \<Rightarrow>
           if known = [] then Some (cfg, d)
           else map_option (\<lambda>(cfg1, ok).
                  (cfg1, if ok then fst (SetDataStoreValue (on_yaml S) isCLIContextsUpdatedToTCSPIssuers (on_of_bool S True) d) else d))
                (update_contexts_loop (cv_lib X) isEligibleForTCSPIssuerUpdate
                   (\<lambda>ctx. Some (change_issuer (ax_now (cv_auth X)) ctx)) known (cfg, True)))"

section \<open>Endpoints\<close>

text \<open>\<^verbatim>\<open>strings.Replace(s, old, new, 1)\<close>\<close>

fun replace_first :: "string \<Rightarrow> string \<Rightarrow> string \<Rightarrow> string" where
  "replace_first old new s =
     (if has_prefix s old then new @ drop (length old) s
      else case s of [] \<Rightarrow> [] | x # xs \<Rightarrow> x # replace_first old new xs)"

text \<open>An endpoint of the metadata that is no string panics.\<close>

definition replace_meta :: "string \<Rightarrow> string \<Rightarrow> string \<Rightarrow> config_context \<Rightarrow> config_context option" where
  "replace_meta k oldEndpoint newEndpoint ctx =
     (case meta_get ctx k of
        None \<Rightarrow> Some ctx
      | Some (MString ep) \<Rightarrow> meta_put k (MString (replace_first oldEndpoint newEndpoint ep)) ctx
      | Some _ \<Rightarrow> None)"

definition update_endpoint_step :: "context_keys \<Rightarrow> string \<Rightarrow> string \<Rightarrow> config_context \<Rightarrow> config_context option" where
  "update_endpoint_step K oldEndpoint newEndpoint ctx =
     Option.bind (replace_meta (TanzuHubEndpointKey K) oldEndpoint newEndpoint
         (ctx\<lparr>kx_GlobalOpts := map_option (\<lambda>g. g\<lparr>gs_Endpoint := replace_first oldEndpoint newEndpoint (gs_Endpoint g)\<rparr>) (kx_GlobalOpts ctx),
              kx_ClusterOpts := map_option (\<lambda>o1. o1\<lparr>cs_Endpoint := replace_first oldEndpoint newEndpoint (cs_Endpoint o1)\<rparr>) (kx_ClusterOpts ctx)\<rparr>))
       (replace_meta (TanzuMissionControlEndpointKey K) oldEndpoint newEndpoint)"

definition updateEndpointsInTanzuContext ::
    "'v lib \<Rightarrow> context_keys \<Rightarrow> (string \<times> string) list \<Rightarrow> config_context \<Rightarrow> config_context option" where
  "updateEndpointsInTanzuContext L K endpointUpdateMap ctx =
     fold (\<lambda>old st. Option.bind st (update_endpoint_step K old (get_or '''' endpointUpdateMap old)))
       (range_keys L endpointUpdateMap) (Some ctx)"

definition isValidContextForEndpointUpdates :: "config_context \<Rightarrow> bool" where
  "isValidContextForEndpointUpdates ctx \<longleftrightarrow> kx_ContextType ctx = ContextTypeTanzu \<or> kx_ContextType ctx = ContextTypeTMC"

abbreviation existingEndpointUpdateVersionKey :: string where
  "existingEndpointUpdateVersionKey \<equiv> ''existingEndpointUpdateVersion''"

definition updateConfigWithTanzuPlatformEndpointChanges ::
    "'v lib \<Rightarrow> ('b, 'c, 'y) ctx_env \<Rightarrow> ('d, 'z) once_env \<Rightarrow> 'c \<times> 'd ds_fs \<Rightarrow> ('c \<times> 'd ds_fs) option" where
  "updateConfigWithTanzuPlatformEndpointChanges L X S = (\<lambda>(cfg, d).
     let A = cv_auth X
     in case GetTanzuConfigEndpointUpdateVersion (ax_yaml A) (ax_reader A) of
          Inl e \<Rightarrow> Some (cfg, d)
        | Inr requested \<Rightarrow>
            if requested = '''' \<or>
               requested = stored_or '''' (GetDataStoreValue (on_yaml S) (on_string S) existingEndpointUpdateVersionKey d)
            then Some (cfg, d)
            else (case cl_KnownContexts (cv_lib X) cfg of
                    Inl e \<Rightarrow> Some (cfg, d)
                  | Inr known \<Rightarrow>
                      if known = [] then Some (cfg, d)
                      else (case GetTanzuConfigEndpointUpdateMapping (ax_yaml A) (ax_reader A) of
                              Inl e \<Rightarrow> Some (cfg, d)
                            | Inr m \<Rightarrow>
                                map_option (\<lambda>(cfg1, ok).
                                    (cfg1, if ok then fst (SetDataStoreValue (on_yaml S) existingEndpointUpdateVersionKey (on_of_string S requested) d) else d))
                                  (update_contexts_loop (cv_lib X) isValidContextForEndpointUpdates
                                     (updateEndpointsInTanzuContext L (cv_keys X) m) known (cfg, True)))))"

section \<open>Contexts and servers\<close>

record 's client_config =
  cc_KnownContexts :: "config_context list"
  cc_CurrentContext :: "string \<Rightarrow> string"
  cc_KnownServers :: "(string \<times> 's) list"
  cc_CurrentServer :: string

record context_server_sha =
  ContextsSha :: string
  CurrentContextsSha :: string
  ServersSha :: string
  CurrentServerSha :: string

text \<open>A server is given with its type. \<open>PopulateContexts\<close> adds the contexts of servers that have none.\<close>

record ('c, 's, 'd, 'z) sync_env =
  sy_lib :: "'c config_lib"
  sy_GetClientConfig :: "'c \<Rightarrow> 's client_config res"
  sy_PopulateContexts :: "'s client_config \<Rightarrow> 's client_config"
  sy_ActiveContextsList :: "'s client_config \<Rightarrow> string list"
  sy_MarshalContexts :: "config_context list \<Rightarrow> string res"
  sy_MarshalServers :: "(string \<times> 's) list \<Rightarrow> string res"
  sy_store :: "('d, 'z) ds_yaml"
  sy_shas :: "'z \<Rightarrow> context_server_sha res"
  sy_of_shas :: "context_server_sha option \<Rightarrow> 'z"

definition computeShasForSync :: "'v lib \<Rightarrow> ('c, 's, 'd, 'z) sync_env \<Rightarrow> 's client_config \<Rightarrow> context_server_sha option" where
  "computeShasForSync L Y cfg =
     (case (sy_MarshalContexts Y (filter (\<lambda>c. kx_ContextType c \<noteq> ContextTypeTanzu) (cc_KnownContexts cfg)),
            sy_MarshalServers Y (filter (\<lambda>s. fst s \<noteq> ContextTypeTanzu) (cc_KnownServers cfg))) of
        (Inr ctxBytes, Inr serverBytes) \<Rightarrow>
          Some \<lparr>ContextsSha = Sha256Hex L ctxBytes, CurrentContextsSha = Sha256Hex L (cc_CurrentContext cfg ContextTypeK8s),
                ServersSha = Sha256Hex L serverBytes, CurrentServerSha = Sha256Hex L (cc_CurrentServer cfg)\<rparr>
      | _ \<Rightarrow> None)"

abbreviation lastContextServerShasKey :: string where "lastContextServerShasKey \<equiv> ''lastContextServerShas''"

definition no_shas :: context_server_sha where
  "no_shas = \<lparr>ContextsSha = '''', CurrentContextsSha = '''', ServersSha = '''', CurrentServerSha = ''''\<rparr>"

definition shouldSyncContextsAndServers :: "'v lib \<Rightarrow> ('c, 's, 'd, 'z) sync_env \<Rightarrow> 's client_config \<Rightarrow> 'd ds_fs \<Rightarrow> bool" where
  "shouldSyncContextsAndServers L Y cfg d =
     (case GetDataStoreValue (sy_store Y) (sy_shas Y) lastContextServerShasKey d of
        Inl e \<Rightarrow> True
      | Inr prev \<Rightarrow> computeShasForSync L Y cfg \<noteq> Some (case prev of Some shas \<Rightarrow> shas | None \<Rightarrow> no_shas))"

definition saveContextAndServerShas :: "'v lib \<Rightarrow> ('c, 's, 'd, 'z) sync_env \<Rightarrow> 's client_config \<Rightarrow> 'd ds_fs \<Rightarrow> 'd ds_fs \<times> err option" where
  "saveContextAndServerShas L Y cfg d =
     SetDataStoreValue (sy_store Y) lastContextServerShasKey (sy_of_shas Y (computeShasForSync L Y cfg)) d"

fun each_until_error :: "('a \<Rightarrow> 'c \<Rightarrow> 'c \<times> err option) \<Rightarrow> 'a list \<Rightarrow> 'c \<Rightarrow> 'c \<times> err option" where
  "each_until_error f [] cfg = (cfg, None)"
| "each_until_error f (x # xs) cfg =
     (case f x cfg of (cfg1, Some e) \<Rightarrow> (cfg1, Some e) | (cfg1, None) \<Rightarrow> each_until_error f xs cfg1)"

definition SyncContextsAndServers ::
    "'v lib \<Rightarrow> ('c, 's, 'd, 'z) sync_env \<Rightarrow> 'c \<times> 'd ds_fs \<Rightarrow> ('c \<times> 'd ds_fs) \<times> err option" where
  "SyncContextsAndServers L Y = (\<lambda>(c, d).
     case sy_GetClientConfig Y c of
       Inl e \<Rightarrow> ((c, d), Some (Wrapf e ''failed to get client config'' []))
     | Inr cfg0 \<Rightarrow>
         if \<not> shouldSyncContextsAndServers L Y cfg0 d then ((c, d), None)
         else let cfg = sy_PopulateContexts Y cfg0
              in (case each_until_error (\<lambda>ctx. cl_SetContext (sy_lib Y) ctx False) (cc_KnownContexts cfg) c of
                    (c1, Some e) \<Rightarrow> ((c1, d), Some (Wrapf e ''failed to set context'' []))
                  | (c1, None) \<Rightarrow>
                      (case each_until_error (cl_SetActiveContext (sy_lib Y)) (sy_ActiveContextsList Y cfg) c1 of
                         (c2, Some e) \<Rightarrow> ((c2, d), Some (Wrapf e ''failed to set active context'' []))
                       | (c2, None) \<Rightarrow>
                           (case sy_GetClientConfig Y c2 of
                              Inl e \<Rightarrow> ((c2, d), None)
                            | Inr cfg2 \<Rightarrow> ((c2, fst (saveContextAndServerShas L Y cfg2 d)), None)))))"

end
