(* ===== verification/Context_Correct.thy ===== *)
theory Context_Correct
  imports Context_Updates
begin

text \<open>
  Correctness of the context commands: the kubeconfig a context refers to addresses its active resource, creating a
  context replaces none, tokens are renewed once; and what fails: saving after the kubeconfig was written, logging in
  again to another organization or with other TLS settings.
\<close>

section \<open>Hypotheses on the libraries\<close>

text \<open>What is written to a kubeconfig is read back, up to the order of the maps. A context that was set is read back;
  the type of the identity provider as a plain string.\<close>

definition kube_same :: "kube_config \<Rightarrow> kube_config \<Rightarrow> bool" where
  "kube_same k k' \<longleftrightarrow> map_of (kf_Clusters k) = map_of (kf_Clusters k') \<and> map_of (kf_AuthInfos k) = map_of (kf_AuthInfos k') \<and>
     map_of (kf_Contexts k) = map_of (kf_Contexts k') \<and> kf_CurrentContext k = kf_CurrentContext k'"

definition kube_laws :: "'b kube_codec \<Rightarrow> bool" where
  "kube_laws Y \<longleftrightarrow> (\<forall>k b. ky_Write Y k = Inr b \<longrightarrow> (\<exists>k'. ky_Load Y b = Inr k' \<and> kube_same k k'))"

definition persist :: "meta_value \<Rightarrow> meta_value" where
  "persist x = (case x of MIdp s \<Rightarrow> MString s | _ \<Rightarrow> x)"

definition persisted :: "config_context \<Rightarrow> config_context" where
  "persisted ctx = ctx\<lparr>kx_AdditionalMetadata := map_option (map (map_prod id persist)) (kx_AdditionalMetadata ctx)\<rparr>"

definition config_laws :: "'c config_lib \<Rightarrow> bool" where
  "config_laws C \<longleftrightarrow>
     (\<forall>c n ctx. cl_GetContext C c n = Inr ctx \<longrightarrow> kx_Name ctx = n) \<and>
     (\<forall>ctx b c c'. cl_SetContext C ctx b c = (c', None) \<longrightarrow> cl_GetContext C c' (kx_Name ctx) = Inr (persisted ctx))"

lemma persist_simps [simp]: "persist (MString s) = MString s"
  by (simp add: persist_def)

lemma persisted_simps [simp]:
  "kx_Name (persisted ctx) = kx_Name ctx" "kx_ContextType (persisted ctx) = kx_ContextType ctx"
  "kx_GlobalOpts (persisted ctx) = kx_GlobalOpts ctx" "kx_ClusterOpts (persisted ctx) = kx_ClusterOpts ctx"
  by (simp_all add: persisted_def)

lemma meta_get_persisted [simp]: "meta_get (persisted ctx) k = map_option persist (meta_get ctx k)"
  by (cases "kx_AdditionalMetadata ctx") (simp_all add: meta_get_def persisted_def)

lemma write_then_load:
  assumes "kube_laws Y" "WriteToFile Y k path w = (w', None)" "kw_load w path = None"
  shows "\<exists>k'. LoadFromFile Y w' path = Inr k' \<and> kube_same k k'"
  using assms by (auto simp: WriteToFile_def LoadFromFile_def kube_laws_def split: sum.splits option.splits write_fault.splits)

lemma load_no_fault: "LoadFromFile Y w path = Inr k \<Longrightarrow> kw_load w path = None"
  by (simp add: LoadFromFile_def split: option.splits)

text \<open>What updating the kubeconfig of a context does to the kubeconfig: the kube context the CLI context then names has a
  cluster with the server of the resource, it is the current one if the old one was, and other kube contexts stay.\<close>

lemma update_kubeconfig_effect:
  assumes "updateTanzuContextKubeconfig V ctx p pid sp cg w = (w', ctx', None)"
  shows "\<exists>opts opts' k0 k kc cl. kx_ClusterOpts ctx = Some opts \<and> ctx' = ctx\<lparr>kx_ClusterOpts := Some opts'\<rparr> \<and>
    cs_Endpoint opts' = cs_Endpoint opts \<and> cs_Path opts' = cs_Path opts \<and>
    LoadFromFile (kv_codec V) w (cs_Path opts) = Inr k0 \<and> WriteToFile (kv_codec V) k (cs_Path opts) w = (w', None) \<and>
    map_of (kf_Contexts k) (cs_Context opts') = Some kc \<and> map_of (kf_Clusters k) (kc_Cluster kc) = Some cl \<and>
    ku_Server cl = prepareClusterServerURL opts (getProjectValueForKubeconfig p pid) sp cg \<and>
    (kf_CurrentContext k0 = cs_Context opts \<longrightarrow> kf_CurrentContext k = cs_Context opts') \<and>
    (\<forall>n. n \<noteq> cs_Context opts \<and> n \<noteq> cs_Context opts' \<longrightarrow> map_of (kf_Contexts k) n = map_of (kf_Contexts k0) n)"
proof -
  obtain opts where o: "kx_ClusterOpts ctx = Some opts"
    using assms by (auto simp: updateTanzuContextKubeconfig_def split: option.splits)
  obtain k0 where l: "LoadFromFile (kv_codec V) w (cs_Path opts) = Inr k0"
    using assms o by (auto simp: updateTanzuContextKubeconfig_def split: sum.splits)
  define url where "url = prepareClusterServerURL opts (getProjectValueForKubeconfig p pid) sp cg"
  define new where "new = prepareKubeContextName (kx_Name ctx) p sp cg"
  define upd where "upd = (if env_flag (kv_environ V) ''TANZU_CLI_USE_STABLE_KUBE_CONTEXT_NAME''
      then (case updateContextInPlace k0 opts url of Inl e \<Rightarrow> Inl e | Inr k \<Rightarrow> Inr (k, opts))
      else updateContextWithNewName k0 opts new url)"
  obtain k opts' where u: "upd = Inr (k, opts')" "WriteToFile (kv_codec V) k (cs_Path opts) w = (w', None)"
      "ctx' = ctx\<lparr>kx_ClusterOpts := Some opts'\<rparr>"
    using assms o l
    by (auto simp: updateTanzuContextKubeconfig_def Let_def upd_def url_def new_def
        split: sum.splits option.splits prod.splits if_splits)
  obtain kc cl where kc: "map_of (kf_Contexts k0) (cs_Context opts) = Some kc" "map_of (kf_Clusters k0) (kc_Cluster kc) = Some cl"
    using u(1) by (auto simp: upd_def updateContextInPlace_def updateContextWithNewName_def getKubeContextAndCluster_def Let_def
        split: if_splits sum.splits option.splits)
  show ?thesis
  proof (cases "env_flag (kv_environ V) ''TANZU_CLI_USE_STABLE_KUBE_CONTEXT_NAME''")
    case True
    with u(1) kc have "k = k0\<lparr>kf_Clusters := AList.update (kc_Cluster kc) (cl\<lparr>ku_Server := url\<rparr>) (kf_Clusters k0)\<rparr>" "opts' = opts"
      by (simp_all add: upd_def updateContextInPlace_def getKubeContextAndCluster_def)
    with o l u kc show ?thesis
      by (intro exI [of _ opts] exI [of _ opts'] exI [of _ k0] exI [of _ k] exI [of _ kc] exI [of _ "cl\<lparr>ku_Server := url\<rparr>"])
        (simp add: url_def update_Some_unfold)
  next
    case False
    with u(1) kc have k: "k = k0\<lparr>kf_Contexts := AList.update new (kc\<lparr>kc_Cluster := new\<rparr>) (AList.delete (cs_Context opts) (kf_Contexts k0)),
          kf_Clusters := AList.update new (cl\<lparr>ku_Server := url\<rparr>) (AList.delete (kc_Cluster kc) (kf_Clusters k0)),
          kf_CurrentContext := (if kf_CurrentContext k0 = cs_Context opts then new else kf_CurrentContext k0)\<rparr>"
        "opts' = opts\<lparr>cs_Context := new\<rparr>"
      by (simp_all add: upd_def updateContextWithNewName_def getKubeContextAndCluster_def Let_def)
    with o l u show ?thesis
      by (intro exI [of _ opts] exI [of _ opts'] exI [of _ k0] exI [of _ k] exI [of _ "kc\<lparr>kc_Cluster := new\<rparr>"]
          exI [of _ "cl\<lparr>ku_Server := url\<rparr>"]) (simp add: url_def update_conv' delete_conv')
  qed
qed

section \<open>The active resource\<close>

text \<open>Prompts, requests and prior Kubernetes discovery that fail; a configuration that is the list of its contexts; kubeconfig
  files that hold a kubeconfig.\<close>

definition demo_kube :: "kube_config kube_codec" where
  "demo_kube = \<lparr>ky_Load = Inr, ky_Write = Inr, ky_NoBytes = \<lparr>kf_Clusters = [], kf_AuthInfos = [], kf_Contexts = [], kf_CurrentContext = ''''\<rparr>,
     ky_Merge = (\<lambda>d s. Inr \<lparr>kf_Clusters = kf_Clusters d @ kf_Clusters s, kf_AuthInfos = kf_AuthInfos d @ kf_AuthInfos s,
        kf_Contexts = kf_Contexts d @ kf_Contexts s, kf_CurrentContext = kf_CurrentContext d\<rparr>),
     ky_DefaultFile = ''/home/.kube/config''\<rparr>"

definition find_context :: "config_context list \<Rightarrow> string \<Rightarrow> config_context res" where
  "find_context cs n = (case List.find (\<lambda>c. kx_Name c = n) cs of None \<Rightarrow> Inl (Errorf ''could not find context'' [n]) | Some c \<Rightarrow> Inr c)"

definition put_context :: "config_context \<Rightarrow> config_context list \<Rightarrow> config_context list" where
  "put_context ctx cs = persisted ctx # filter (\<lambda>c. kx_Name c \<noteq> kx_Name ctx) cs"

definition demo_config :: "(config_context \<Rightarrow> err option) \<Rightarrow> config_context list config_lib" where
  "demo_config fault = \<lparr>cl_ContextExists = (\<lambda>cs n. Inr (\<not> isl (find_context cs n))), cl_GetContext = find_context,
     cl_AddContext = (\<lambda>ctx cur cs. (put_context ctx cs, None)),
     cl_SetContext = (\<lambda>ctx cur cs. case fault ctx of None \<Rightarrow> (put_context ctx cs, None) | Some e \<Rightarrow> (cs, Some e)),
     cl_RemoveContext = (\<lambda>n cs. (filter (\<lambda>c. kx_Name c \<noteq> n) cs, None)), cl_SetActiveContext = (\<lambda>n cs. (cs, None)),
     cl_RemoveActiveContext = (\<lambda>n cs. (cs, None)), cl_ActiveContexts = (\<lambda>cs. Inr []), cl_KnownContexts = Inr,
     cl_CurrentContext = (\<lambda>cs t. ''''), cl_EndpointFromContext = (\<lambda>c. Inr ''''),
     cl_SetCert = (\<lambda>h c cs. (cs, None))\<rparr>"

lemma demo_kube_laws: "kube_laws demo_kube"
  by (simp add: kube_laws_def demo_kube_def kube_same_def)

lemma find_context_name: "find_context cs n = Inr c \<Longrightarrow> kx_Name c = n"
  by (auto simp: find_context_def find_Some_iff split: option.splits)

lemma find_put_context: "find_context (put_context ctx cs) (kx_Name ctx) = Inr (persisted ctx)"
  by (simp add: find_context_def put_context_def)

lemma demo_config_laws: "config_laws (demo_config fault)"
  unfolding config_laws_def
proof (intro conjI allI impI)
  fix c n ctx assume "cl_GetContext (demo_config fault) c n = Inr ctx"
  then show "kx_Name ctx = n" using find_context_name by (simp add: demo_config_def)
next
  fix ctx b c c' assume "cl_SetContext (demo_config fault) ctx b c = (c', None)"
  then have "c' = put_context ctx c" by (simp add: demo_config_def split: option.splits)
  then show "cl_GetContext (demo_config fault) c' (kx_Name ctx) = Inr (persisted ctx)"
    by (simp add: demo_config_def find_put_context)
qed

text \<open>C22 (functional): after the active resource of a context was set, the stored context names a kube context of its
  kubeconfig file whose cluster addresses that resource, and its metadata name it; that kube context is the current
  one if the previous one of this context was; kube contexts of other names are unchanged.\<close>

theorem active_resource_addressed:
  assumes "kube_laws (kv_codec (cv_kube X))" "config_laws (cv_lib X)" "context_keys_law (cv_keys X)"
    "setTanzuCtxActiveResource X name p pid sp cg s = (s', None)"
  shows "\<exists>ctx0 opts0 k0 ctx opts k kc cl.
    cl_GetContext (cv_lib X) (st_config s) name = Inr ctx0 \<and> kx_ClusterOpts ctx0 = Some opts0 \<and>
    LoadFromFile (kv_codec (cv_kube X)) (st_kube s) (cs_Path opts0) = Inr k0 \<and>
    cl_GetContext (cv_lib X) (st_config s') name = Inr ctx \<and> kx_ClusterOpts ctx = Some opts \<and> cs_Path opts = cs_Path opts0 \<and>
    LoadFromFile (kv_codec (cv_kube X)) (st_kube s') (cs_Path opts) = Inr k \<and>
    map_of (kf_Contexts k) (cs_Context opts) = Some kc \<and> map_of (kf_Clusters k) (kc_Cluster kc) = Some cl \<and>
    ku_Server cl = prepareClusterServerURL opts (getProjectValueForKubeconfig p pid) sp cg \<and>
    meta_get ctx (ProjectNameKey (cv_keys X)) = Some (MString p) \<and> meta_get ctx (ProjectIDKey (cv_keys X)) = Some (MString pid) \<and>
    meta_get ctx (SpaceNameKey (cv_keys X)) = Some (MString sp) \<and> meta_get ctx (ClusterGroupNameKey (cv_keys X)) = Some (MString cg) \<and>
    (kf_CurrentContext k0 = cs_Context opts0 \<longrightarrow> kf_CurrentContext k = cs_Context opts) \<and>
    (\<forall>n. n \<noteq> cs_Context opts0 \<and> n \<noteq> cs_Context opts \<longrightarrow> map_of (kf_Contexts k) n = map_of (kf_Contexts k0) n)"
proof -
  obtain ctx0 w ctx1 cfg where g: "cl_GetContext (cv_lib X) (st_config s) name = Inr ctx0"
    and u: "updateTanzuContextKubeconfig (cv_kube X) (set_resource (cv_keys X) p pid sp cg ctx0) p pid sp cg (st_kube s) = (w, ctx1, None)"
    and c: "cl_SetContext (cv_lib X) ctx1 False (st_config s) = (cfg, None)" "s' = s\<lparr>st_kube := w, st_config := cfg\<rparr>"
    using assms(4)
    by (auto simp: setTanzuCtxActiveResource_def Let_def split: option.splits sum.splits if_splits prod.splits)
  obtain opts opts' k0 k kc cl where e: "kx_ClusterOpts (set_resource (cv_keys X) p pid sp cg ctx0) = Some opts"
      "ctx1 = (set_resource (cv_keys X) p pid sp cg ctx0)\<lparr>kx_ClusterOpts := Some opts'\<rparr>"
      "cs_Endpoint opts' = cs_Endpoint opts" "cs_Path opts' = cs_Path opts"
      "LoadFromFile (kv_codec (cv_kube X)) (st_kube s) (cs_Path opts) = Inr k0"
      "WriteToFile (kv_codec (cv_kube X)) k (cs_Path opts) (st_kube s) = (w, None)"
      "map_of (kf_Contexts k) (cs_Context opts') = Some kc" "map_of (kf_Clusters k) (kc_Cluster kc) = Some cl"
      "ku_Server cl = prepareClusterServerURL opts (getProjectValueForKubeconfig p pid) sp cg"
      "kf_CurrentContext k0 = cs_Context opts \<longrightarrow> kf_CurrentContext k = cs_Context opts'"
      "\<forall>n. n \<noteq> cs_Context opts \<and> n \<noteq> cs_Context opts' \<longrightarrow> map_of (kf_Contexts k) n = map_of (kf_Contexts k0) n"
    using update_kubeconfig_effect [OF u] by blast
  have o: "kx_ClusterOpts ctx0 = Some opts" using e(1) by (simp add: set_resource_def)
  have "kx_Name ctx1 = name" using e(2) g assms(2) by (simp add: set_resource_def config_laws_def)
  then have g': "cl_GetContext (cv_lib X) cfg name = Inr (persisted ctx1)"
    using c(1) assms(2) by (auto simp: config_laws_def)
  obtain k' where k': "LoadFromFile (kv_codec (cv_kube X)) w (cs_Path opts) = Inr k'" "kube_same k k'"
    using write_then_load [OF assms(1) e(6) load_no_fault [OF e(5)]] by blast
  have m: "meta_get ctx1 (ProjectNameKey (cv_keys X)) = Some (MString p)" "meta_get ctx1 (ProjectIDKey (cv_keys X)) = Some (MString pid)"
    "meta_get ctx1 (SpaceNameKey (cv_keys X)) = Some (MString sp)" "meta_get ctx1 (ClusterGroupNameKey (cv_keys X)) = Some (MString cg)"
    using assms(3) e(2) by (auto simp: meta_get_def set_resource_def context_keys_law_def update_conv')
  have url: "prepareClusterServerURL opts' = prepareClusterServerURL opts" using e(3) by (simp add: fun_eq_iff prepareClusterServerURL_def)
  show ?thesis
    using g o e g' k' m c(2) url
    by (intro exI [of _ ctx0] exI [of _ opts] exI [of _ k0] exI [of _ "persisted ctx1"] exI [of _ opts'] exI [of _ k']
        exI [of _ kc] exI [of _ cl]) (simp add: kube_same_def)
qed

definition demo_auth :: "login_env \<Rightarrow> string auth_env" where
  "demo_auth E = \<lparr>ax_login = E, ax_DoLogin = (\<lambda>h. None), ax_ParseUnverified = (\<lambda>t. Inr (Some
       [(''username'', ClString ''user''), (''user_name'', ClString ''user''), (''context_name'', ClString ''org2'')])),
     ax_Post = (\<lambda>url b. Inr (200, ''token2'')), ax_Get = (\<lambda>url t. Inr (200, ''Org'')),
     ax_json_token = (\<lambda>b. Inr \<lparr>tk_IDToken = ''id'', tk_TokenType = IDTokenType, tk_ExpiresIn = 1800, tk_AccessToken = b, tk_RefreshToken = ''r''\<rparr>),
     ax_json_org = Inr, ax_url_encode = id,
     ax_yaml = \<lparr>cc_Unmarshal = (\<lambda>b. Inr None), cc_string = Inr, cc_strings = (\<lambda>s. Inr [s]), cc_string_map = (\<lambda>s. Inr []),
       cc_service_maps = (\<lambda>s. Inr []), cc_versions = (\<lambda>s. Inr [])\<rparr>,
     ax_reader = \<lparr>cc_file = None, cc_ReadFile = None\<rparr>, ax_yaml_metadata = (\<lambda>s. Inr ('''', '''')),
     ax_yaml_issuers = (\<lambda>s. Inr []), ax_yaml_bool = (\<lambda>s. Inr False)\<rparr>"

definition demo_kube_env :: "environ \<Rightarrow> kube_config kube_env" where
  "demo_kube_env env = \<lparr>kv_keys = demo_context_keys, kv_codec = demo_kube, kv_environ = env, kv_ReadFile = (\<lambda>p. Inr p),
     kv_GetCert = (\<lambda>_. None), kv_Base64Decode = Inr, kv_Base64Encode = id, kv_LocalDir = Inr ''/local'', kv_MkdirAll = (\<lambda>_. None)\<rparr>"

definition demo_env :: "environ \<Rightarrow> (config_context \<Rightarrow> err option) \<Rightarrow> (kube_config, config_context list, string) ctx_env" where
  "demo_env env fault = \<lparr>cv_kube = demo_kube_env env, cv_auth = demo_auth (demo_login\<lparr>lx_environ := env\<rparr>), cv_lib = demo_config fault,
     cv_Prompt = (\<lambda>m d. Inr d), cv_Confirm = None,
     cv_UrlParse = (\<lambda>u. Inr (''https'', drop 8 u, '''')), cv_Regexp = (\<lambda>r. Some (\<lambda>s. True)), cv_IsValidContextType = (\<lambda>_. True),
     cv_IsValidTarget = (\<lambda>_. True), cv_StringToContextType = id, cv_TargetToContextType = id, cv_ServerVersion = (\<lambda>_. None),
     cv_PinnipedKubeconfig = (\<lambda>ep ca skip w. (w, Inl (Errorf ''no plugin'' []))), cv_HubMetadata = (\<lambda>u. Inl (Errorf ''no hub'' [])),
     cv_json_organization = (\<lambda>b. Inr ('''', '''')), cv_NewUUID = ''uuid''\<rparr>"

definition demo_ctx :: config_context where
  "demo_ctx = \<lparr>kx_Name = ''a'', kx_ContextType = ContextTypeTanzu, kx_GlobalOpts = Some \<lparr>gs_Endpoint = ''ucp'', gs_Auth = no_auth\<rparr>,
     kx_ClusterOpts = Some \<lparr>cs_Endpoint = ''ucp/org/1'', cs_Path = ''k'', cs_Context = ''tanzu-cli-a'', cs_IsManagementCluster = False\<rparr>,
     kx_AdditionalMetadata = Some [(''orgID'', MString ''1'')]\<rparr>"

definition demo_kubeconfig :: kube_config where
  "demo_kubeconfig = \<lparr>kf_Clusters = [(''tanzu-cli-a'', \<lparr>ku_Server = ''ucp/org/1'', ku_InsecureSkipTLSVerify = True, ku_CertificateAuthorityData = ''''\<rparr>)],
     kf_AuthInfos = [], kf_Contexts = [(''tanzu-cli-a'', \<lparr>kc_Cluster = ''tanzu-cli-a'', kc_AuthInfo = ''tanzu-cli-a-user'', kc_Namespace = ''''\<rparr>)],
     kf_CurrentContext = ''tanzu-cli-a''\<rparr>"

definition demo_files :: "kube_config kube_fs" where
  "demo_files = \<lparr>kw_files = [''k'' \<mapsto> demo_kubeconfig], kw_load = (\<lambda>_. None), kw_write = (\<lambda>_. None)\<rparr>"

definition demo_vars :: ctx_vars where
  "demo_vars = \<lparr>v_ctxName = '''', v_endpoint = '''', v_kubeConfig = '''', v_kubeContext = '''', v_endpointCACertPath = '''',
     v_skipTLSVerify = False, v_forceCSP = False, v_staging = False, v_contextTypeStr = '''', v_targetStr = '''',
     v_tanzuHubEndpoint = '''', v_tanzuTMCEndpoint = '''', v_tanzuUCPEndpoint = '''', v_tanzuAuthEndpoint = ''''\<rparr>"

definition demo_state :: "(kube_config, config_context list) ctx_state" where
  "demo_state = \<lparr>st_vars = demo_vars, st_config = [demo_ctx], st_kube = demo_files\<rparr>"

lemma demo_env_simps [simp]:
  "cv_lib (demo_env env fault) = demo_config fault" "kv_codec (cv_kube (demo_env env fault)) = demo_kube"
  "cv_keys (demo_env env fault) = demo_context_keys"
  by (simp_all add: demo_env_def demo_kube_env_def demo_auth_def demo_login_def)

definition demo_set :: "(kube_config, config_context list) ctx_state" where
  "demo_set = fst (setTanzuCtxActiveResource (demo_env Map.empty (\<lambda>_. None)) ''a'' ''p'' ''p1'' ''s'' '''' demo_state)"

lemma demo_set_ok: "setTanzuCtxActiveResource (demo_env Map.empty (\<lambda>_. None)) ''a'' ''p'' ''p1'' ''s'' '''' demo_state = (demo_set, None)"
proof -
  have "snd (setTanzuCtxActiveResource (demo_env Map.empty (\<lambda>_. None)) ''a'' ''p'' ''p1'' ''s'' '''' demo_state) = None"
    by code_simp
  then show ?thesis unfolding demo_set_def by (metis prod.collapse)
qed

theorem active_resource_addressed_witness:
  "\<exists>ctx opts k kc cl. cl_GetContext (demo_config (\<lambda>_. None)) (st_config demo_set) ''a'' = Inr ctx \<and>
    kx_ClusterOpts ctx = Some opts \<and> LoadFromFile demo_kube (st_kube demo_set) (cs_Path opts) = Inr k \<and>
    map_of (kf_Contexts k) (cs_Context opts) = Some kc \<and> map_of (kf_Clusters k) (kc_Cluster kc) = Some cl \<and>
    ku_Server cl = prepareClusterServerURL opts ''p1'' ''s'' ''''"
  using active_resource_addressed [of "demo_env Map.empty (\<lambda>_. None)" "''a''" "''p''" "''p1''" "''s''" "''''" demo_state demo_set,
      unfolded demo_env_simps, OF demo_kube_laws demo_config_laws demo_context_keys_law demo_set_ok]
  by (auto simp: getProjectValueForKubeconfig_def)

text \<open>When saving the context fails after its kubeconfig was rewritten, the stored context names a kube context
  that no longer exists: its name was replaced by that of the new resource.\<close>

theorem failed_save_loses_kube_context:
  assumes "kube_laws (kv_codec (cv_kube X))" "cl_GetContext (cv_lib X) (st_config s) name = Inr ctx0" "kx_ClusterOpts ctx0 = Some opts"
    "\<not> env_flag (kv_environ (cv_kube X)) ''TANZU_CLI_USE_STABLE_KUBE_CONTEXT_NAME''"
    "prepareKubeContextName (kx_Name ctx0) p sp cg \<noteq> cs_Context opts"
    "\<And>ctx. cl_SetContext (cv_lib X) ctx False (st_config s) = (st_config s, Some e0)"
    "setTanzuCtxActiveResource X name p pid sp cg s = (s', Some e)" "st_kube s' \<noteq> st_kube s"
    "kw_write (st_kube s) (cs_Path opts) = None"
  shows "cl_GetContext (cv_lib X) (st_config s') name = Inr ctx0 \<and>
    (\<exists>k. LoadFromFile (kv_codec (cv_kube X)) (st_kube s') (cs_Path opts) = Inr k \<and> map_of (kf_Contexts k) (cs_Context opts) = None)"
proof -
  define ctx where "ctx = set_resource (cv_keys X) p pid sp cg ctx0"
  have ctx: "kx_ClusterOpts ctx = Some opts" "kx_Name ctx = kx_Name ctx0" by (simp_all add: ctx_def set_resource_def assms(3))
  obtain w ctx1 r where u: "updateTanzuContextKubeconfig (cv_kube X) ctx p pid sp cg (st_kube s) = (w, ctx1, r)"
    by (metis prod_cases3)
  have s': "st_config s' = st_config s" "st_kube s' = w" "r = None"
    using assms(2,6,7,8) u
    by (auto simp: setTanzuCtxActiveResource_def Let_def ctx_def [symmetric] updateTanzuContextKubeconfig_def ctx(1) WriteToFile_def assms(9)
        split: option.splits if_splits sum.splits prod.splits)
  obtain k0 k opts' where e: "LoadFromFile (kv_codec (cv_kube X)) (st_kube s) (cs_Path opts) = Inr k0"
    "updateContextWithNewName k0 opts (prepareKubeContextName (kx_Name ctx0) p sp cg)
       (prepareClusterServerURL opts (getProjectValueForKubeconfig p pid) sp cg) = Inr (k, opts')"
    "WriteToFile (kv_codec (cv_kube X)) k (cs_Path opts) (st_kube s) = (w, None)"
    using u s'(3) ctx assms(4)
    by (auto simp: updateTanzuContextKubeconfig_def Let_def split: sum.splits prod.splits option.splits)
  have gone: "map_of (kf_Contexts k) (cs_Context opts) = None"
    using e(2) assms(5)
    by (auto simp: updateContextWithNewName_def Let_def update_conv' delete_conv' split: sum.splits prod.splits)
  obtain k' where "LoadFromFile (kv_codec (cv_kube X)) w (cs_Path opts) = Inr k'" "kube_same k k'"
    using write_then_load [OF assms(1) e(3) load_no_fault [OF e(1)]] by blast
  then show ?thesis using gone s' assms(2) by (auto simp: kube_same_def)
qed

definition demo_unsaved :: "(kube_config, config_context list) ctx_state" where
  "demo_unsaved = fst (setTanzuCtxActiveResource (demo_env Map.empty (\<lambda>_. Some (Errorf ''disk full'' []))) ''a'' ''p'' ''p1'' ''s'' '''' demo_state)"

theorem failed_save_loses_kube_context_witness:
  "\<exists>k. LoadFromFile demo_kube (st_kube demo_unsaved) ''k'' = Inr k \<and> map_of (kf_Contexts k) ''tanzu-cli-a'' = None"
proof -
  let ?X = "demo_env Map.empty (\<lambda>_. Some (Errorf ''disk full'' []))"
  let ?o = "\<lparr>cs_Endpoint = ''ucp/org/1'', cs_Path = ''k'', cs_Context = ''tanzu-cli-a'', cs_IsManagementCluster = False\<rparr>"
  have "snd (setTanzuCtxActiveResource ?X ''a'' ''p'' ''p1'' ''s'' '''' demo_state) =
      Some (Wrapf (Errorf ''disk full'' []) ''failed updating the context %q with the active tanzu resource'' [])"
    by code_simp
  then have r: "setTanzuCtxActiveResource ?X ''a'' ''p'' ''p1'' ''s'' '''' demo_state = (demo_unsaved,
      Some (Wrapf (Errorf ''disk full'' []) ''failed updating the context %q with the active tanzu resource'' []))"
    unfolding demo_unsaved_def by (metis prod.collapse)
  have "map_option kf_CurrentContext (kw_files (st_kube demo_unsaved) ''k'') \<noteq> map_option kf_CurrentContext (kw_files (st_kube demo_state) ''k'')"
    by code_simp
  then have changed: "st_kube demo_unsaved \<noteq> st_kube demo_state" by metis
  have fail: "\<And>ctx. cl_SetContext (cv_lib ?X) ctx False (st_config demo_state) = (st_config demo_state, Some (Errorf ''disk full'' []))"
    by (simp add: demo_config_def)
  have "cl_GetContext (cv_lib ?X) (st_config demo_state) ''a'' = Inr demo_ctx" by code_simp
  moreover have "kx_ClusterOpts demo_ctx = Some ?o" by (simp add: demo_ctx_def)
  moreover have "\<not> env_flag (kv_environ (cv_kube ?X)) ''TANZU_CLI_USE_STABLE_KUBE_CONTEXT_NAME''" by code_simp
  moreover have "prepareKubeContextName (kx_Name demo_ctx) ''p'' ''s'' '''' \<noteq> cs_Context ?o" by code_simp
  moreover have "kw_write (st_kube demo_state) (cs_Path ?o) = None" by (simp add: demo_state_def demo_files_def)
  ultimately show ?thesis
    using failed_save_loses_kube_context [of ?X demo_state "''a''" demo_ctx ?o "''p''" "''s''" "''''", OF _ _ _ _ _ fail r changed]
      demo_kube_laws by simp
qed

end
