(* ===== verification/Context_Safety.thy ===== *)
theory Context_Safety
  imports Context_Correct
begin

text \<open>
  What the context commands keep: creating a context replaces none, a renewed token is the stored one and is renewed once;
  and what logging in again under the same name leaves behind.
\<close>

section \<open>Names of contexts\<close>

lemma set_auth_name: "set_auth a c = Some c' \<Longrightarrow> kx_Name c' = kx_Name c \<and> kx_ContextType c' = kx_ContextType c"
  by (auto simp: set_auth_def split: option.splits)

lemma finish_auth_name: "finish_auth X c idp i t r ty = Some (c', x) \<Longrightarrow> kx_Name c' = kx_Name c"
  by (auto simp: finish_auth_def dest: set_auth_name split: option.splits sum.splits)

lemma api_token_name: "doCSPAPITokenAuthAndUpdateContext X v c t = Some (c', x) \<Longrightarrow> kx_Name c' = kx_Name c"
  by (auto simp: doCSPAPITokenAuthAndUpdateContext_def Let_def dest: finish_auth_name split: sum.splits)

text \<open>What authentication leaves in the configuration: at most one more certificate entry, and only if the flags gave
  certificate information.\<close>

definition cert_only :: "('b, 'c, 'y) ctx_env \<Rightarrow> ctx_vars \<Rightarrow> 'c \<Rightarrow> 'c \<Rightarrow> bool" where
  "cert_only X v cfg cfg' \<longleftrightarrow> cfg' = cfg \<or>
     ((v_skipTLSVerify v \<or> v_endpointCACertPath v \<noteq> '''') \<and> (\<exists>host cert. cfg' = fst (cl_SetCert (cv_lib X) host cert cfg)))"

lemma cert_only_refl [simp]: "cert_only X v cfg cfg"
  by (simp add: cert_only_def)

lemma cert_only_store:
  "saved = None \<or> v_skipTLSVerify v \<or> v_endpointCACertPath v \<noteq> '''' \<Longrightarrow> cert_only X v cfg (store_cert X saved cfg)"
  by (auto simp: cert_only_def store_cert_def split: option.splits)

lemma cert_login_options_none:
  "cert_login_options X v = Inr opts \<Longrightarrow> WithCertInfo skip ca \<in> set opts \<Longrightarrow> v_skipTLSVerify v \<or> v_endpointCACertPath v \<noteq> ''''"
  by (auto simp: cert_login_options_def split: sum.splits if_splits)

lemma uaa_saves:
  assumes "login_law (cv_auth X)" "uaa_TanzuLogin (cv_auth X) issuer opts = Some (r, saved)"
    "cert_login_options X v = Inr certOpts" "\<forall>skip ca. WithCertInfo skip ca \<in> set opts \<longrightarrow> WithCertInfo skip ca \<in> set certOpts"
  shows "cert_only X v cfg (store_cert X saved cfg)"
proof (rule cert_only_store, rule ccontr)
  assume "\<not> (saved = None \<or> v_skipTLSVerify v \<or> v_endpointCACertPath v \<noteq> '''')"
  with cert_login_options_none [OF assms(3)] assms(4) login_stores_no_certificate(1) [OF assms(1) _ assms(2)]
  show False by blast
qed

lemma uaa_api_token_name:
  assumes "doUAAAPITokenAuthAndUpdateContext X v cfg c ep t = Some (cfg', c', x)" "login_law (cv_auth X)"
  shows "kx_Name c' = kx_Name c \<and> cert_only X v cfg cfg'"
proof (cases "cert_login_options X v")
  case (Inl e)
  then show ?thesis using assms(1) by (simp add: doUAAAPITokenAuthAndUpdateContext_def)
next
  case (Inr certOpts)
  define opts where "opts = [WithSuppressInteractive True, WithRefreshToken t,
    WithClientIDAndSecret (GetAlternateClientID (cv_environ X)) (GetClientSecret (cv_environ X))] @ certOpts"
  have no: "\<forall>skip ca. WithCertInfo skip ca \<in> set opts \<longrightarrow> WithCertInfo skip ca \<in> set certOpts" by (simp add: opts_def)
  have eq: "doUAAAPITokenAuthAndUpdateContext X v cfg c ep t =
      (case uaa_TanzuLogin (cv_auth X) ep opts of
         None \<Rightarrow> None
       | Some (Inl e, saved) \<Rightarrow> Some (store_cert X saved cfg, c, Inl (Wrapf e ''failed to get token from UAA'' []))
       | Some (Inr token, saved) \<Rightarrow> map_option (Pair (store_cert X saved cfg))
           (finish_auth X c (UAAIdpType (cv_keys X)) ep token (tk_RefreshToken token) APITokenType))"
    unfolding doUAAAPITokenAuthAndUpdateContext_def Inr sum.case opts_def ..
  note run = assms(1) [unfolded eq]
  show ?thesis
  proof (cases "uaa_TanzuLogin (cv_auth X) ep opts")
    case None
    with run show ?thesis by simp
  next
    case (Some p)
    obtain r saved where p: "p = (r, saved)" by (cases p)
    from uaa_saves [OF assms(2) Some [unfolded p] Inr no] have c: "cert_only X v cfg (store_cert X saved cfg)" .
    show ?thesis
    proof (cases r)
      case (Inl e)
      with run Some p c show ?thesis by simp
    next
      case (Inr token)
      with run Some p c show ?thesis by (auto dest: finish_auth_name)
    qed
  qed
qed

lemma interactive_name:
  assumes "doInteractiveLoginAndUpdateContext X v cfg c i = Some (cfg', c', x)" "login_law (cv_auth X)"
  shows "kx_Name c' = kx_Name c \<and> cert_only X v cfg cfg'"
proof -
  define opts where "opts = (if getenv (cv_environ X) ''TANZU_CLI_CLOUD_SERVICES_ORGANIZATION_ID'' \<noteq> ''''
    then [WithOrgID (getenv (cv_environ X) ''TANZU_CLI_CLOUD_SERVICES_ORGANIZATION_ID'')] else []) @
    [WithListenerPortFromEnv OAuthLocalListenerPort]"
  have no: "\<forall>skip ca. WithCertInfo skip ca \<notin> set opts" by (simp add: opts_def)
  have csp: "cert_only X v cfg (store_cert X saved cfg)"
    if "csp_TanzuLogin (cv_auth X) i opts = Some (r, saved)" for r saved
    by (rule cert_only_store) (simp add: login_stores_no_certificate(2) [OF assms(2) no that])
  define L where "L idpType = (if idpType = CSPIdpType (cv_keys X)
      then map_option (\<lambda>(r, saved). (map_sum Inr id r, saved)) (csp_TanzuLogin (cv_auth X) i opts)
      else if idpType = UAAIdpType (cv_keys X)
      then (case cert_login_options X v of
              Inl e \<Rightarrow> Some (Inl (Inl e), None)
            | Inr certOpts \<Rightarrow> map_option (\<lambda>(r, saved). (map_sum Inr id r, saved)) (uaa_TanzuLogin (cv_auth X) i (opts @ certOpts)))
      else Some (Inl (Inl (Errorf ''invalid IDP type found.'' [])), None))" for idpType
  have saved: "cert_only X v cfg (store_cert X saved cfg)" if "L idp = Some (z, saved)" for idp z saved
  proof -
    have "cert_only X v cfg (store_cert X saved cfg)" if "uaa_TanzuLogin (cv_auth X) i (opts @ o1) = Some (r, saved)"
      "cert_login_options X v = Inr o1" for r o1
      using uaa_saves [OF assms(2) that] no by simp
    with that csp show ?thesis by (auto simp: L_def cert_only_store split: if_splits sum.splits)
  qed
  have eq: "doInteractiveLoginAndUpdateContext X v cfg c i =
      (case meta_get c (TanzuIdpTypeKey (cv_keys X)) of
         Some (MIdp idpType) \<Rightarrow>
           (case L idpType of
              None \<Rightarrow> None
            | Some (Inl (Inl e), saved) \<Rightarrow> Some (store_cert X saved cfg, c, Inl e)
            | Some (Inl (Inr e), saved) \<Rightarrow> Some (store_cert X saved cfg, c, Inl (Wrapf e ''failed to get the token'' []))
            | Some (Inr token, saved) \<Rightarrow> map_option (Pair (store_cert X saved cfg))
                (finish_auth X c idpType i token (tk_RefreshToken token) (tk_TokenType token)))
       | _ \<Rightarrow> None)"
    unfolding doInteractiveLoginAndUpdateContext_def Let_def L_def opts_def ..
  note run = assms(1) [unfolded eq]
  then obtain idp where idp: "meta_get c (TanzuIdpTypeKey (cv_keys X)) = Some (MIdp idp)"
    by (cases "meta_get c (TanzuIdpTypeKey (cv_keys X))") (simp_all split: meta_value.splits)
  show ?thesis
  proof (cases "L idp")
    case None
    with run idp show ?thesis by simp
  next
    case (Some p)
    obtain r saved where p: "p = (r, saved)" by (cases p)
    from saved [OF Some [unfolded p]] have c: "cert_only X v cfg (store_cert X saved cfg)" .
    show ?thesis
    proof (cases r)
      case (Inl e)
      with run Some p c idp show ?thesis by (cases e) simp_all
    next
      case (Inr token)
      with run Some p c idp show ?thesis by (auto dest: finish_auth_name)
    qed
  qed
qed

lemma csp_name:
  "doCSPAuthentication X v cfg c = Some (cfg', c', x) \<Longrightarrow> login_law (cv_auth X) \<Longrightarrow>
   kx_Name c' = kx_Name c \<and> cert_only X v cfg cfg'"
  by (auto simp: doCSPAuthentication_def dest: api_token_name interactive_name split: option.splits)

lemma uaa_name:
  "doUAAAuthentication X v cfg c = Some (cfg', c', x) \<Longrightarrow> login_law (cv_auth X) \<Longrightarrow>
   kx_Name c' = kx_Name c \<and> cert_only X v cfg cfg'"
  by (auto simp: doUAAAuthentication_def dest: uaa_api_token_name interactive_name split: option.splits meta_value.splits)

lemma meta_put_name: "meta_put k x c = Some c' \<Longrightarrow> kx_Name c' = kx_Name c"
  by (auto simp: meta_put_def)

lemma metadata_name: "updateTanzuContextMetadata X cfg v i n c = Some (Inr c') \<Longrightarrow> kx_Name c' = kx_Name c"
  by (auto simp: updateTanzuContextMetadata_def Let_def bind_eq_Some_conv dest!: meta_put_name split: sum.splits bool.splits)

lemma tanzu_kubeconfig_name:
  "updateContextWithTanzuKubeconfig X ep i ca sk c w = Some (w', Inr c') \<Longrightarrow> kx_Name c' = kx_Name c"
  by (auto simp: updateContextWithTanzuKubeconfig_def split: option.splits sum.splits prod.splits)

section \<open>What is saved\<close>

text \<open>The configuration a step leaves: the old one, or the result of adding one context to it.\<close>

definition adds_context :: "'c config_lib \<Rightarrow> string \<Rightarrow> 'c \<Rightarrow> 'c \<Rightarrow> bool" where
  "adds_context C name cfg cfg' \<longleftrightarrow> cfg' = cfg \<or> (\<exists>ctx. kx_Name ctx = name \<and> cfg' = fst (cl_AddContext C ctx True cfg))"

lemma adds_context_refl [simp]: "adds_context C name cfg cfg"
  by (simp add: adds_context_def)

lemma save_login_adds: "save_login X c s = (s', e) \<Longrightarrow> adds_context (cv_lib X) (kx_Name c) (st_config s) (st_config s')"
  unfolding adds_context_def save_login_def
  by (cases "cl_AddContext (cv_lib X) c True (st_config s)") (auto intro!: exI [of _ c] split: option.splits prod.splits)

lemma tanzu_login_adds:
  "updateContextOnTanzuLogin X None cl n c s = Some (s', c', e) \<Longrightarrow>
   adds_context (cv_lib X) (kx_Name c) (st_config s) (st_config s')"
  by (auto simp: updateContextOnTanzuLogin_def Let_def dest!: metadata_name tanzu_kubeconfig_name save_login_adds
      split: option.splits sum.splits prod.splits)

text \<open>A certificate entry first, then a context.\<close>

definition cert_then_context :: "('b, 'c, 'y) ctx_env \<Rightarrow> ctx_vars \<Rightarrow> string \<Rightarrow> 'c \<Rightarrow> 'c \<Rightarrow> bool" where
  "cert_then_context X v name cfg cfg' \<longleftrightarrow> (\<exists>cfg1. cert_only X v cfg cfg1 \<and> adds_context (cv_lib X) name cfg1 cfg')"

lemma cert_then_contextI: "cert_only X v cfg cfg1 \<Longrightarrow> adds_context (cv_lib X) name cfg1 cfg' \<Longrightarrow> cert_then_context X v name cfg cfg'"
  by (auto simp: cert_then_context_def)

lemma only_adds: "adds_context (cv_lib X) name cfg cfg' \<Longrightarrow> cert_then_context X v name cfg cfg'"
  by (rule cert_then_contextI [OF cert_only_refl])

lemma only_cert: "cert_only X v cfg cfg' \<Longrightarrow> cert_then_context X v name cfg cfg'"
  by (rule cert_then_contextI [OF _ adds_context_refl])

lemma login_then_adds:
  assumes "updateContextOnTanzuLogin X None cl n c1 (s\<lparr>st_config := cfg\<rparr>) = Some (s', c', e)"
    "kx_Name c1 = name" "cert_only X v (st_config s) cfg"
  shows "cert_then_context X v name (st_config s) (st_config s')"
  using tanzu_login_adds [OF assms(1)] assms(2,3) by (auto intro: cert_then_contextI)

lemma globalTanzuLogin_adds:
  assumes "login_law (cv_auth X)" "globalTanzuLogin X None c s = Some (s', c', e)"
  shows "cert_then_context X (st_vars s) (kx_Name c) (st_config s) (st_config s')"
proof -
  have csp: ?thesis if g: "globalTanzuLoginCSP X None c s = Some (s', c', e)"
  proof -
    obtain cfg c1 x where a: "doCSPAuthentication X (st_vars s) (st_config s) c = Some (cfg, c1, x)"
      using g by (auto simp: globalTanzuLoginCSP_def split: option.splits)
    from csp_name [OF a assms(1)] g show ?thesis
      by (auto simp: globalTanzuLoginCSP_def a only_cert login_then_adds split: sum.splits)
  qed
  have uaa: ?thesis if g: "globalTanzuLoginUAA X None c s = Some (s', c', e)"
  proof -
    obtain cfg c1 x where a: "doUAAAuthentication X (st_vars s) (st_config s) c = Some (cfg, c1, x)"
      using g by (auto simp: globalTanzuLoginUAA_def split: option.splits)
    from uaa_name [OF a assms(1)] g show ?thesis
      by (auto simp: globalTanzuLoginUAA_def a only_cert login_then_adds split: sum.splits option.splits)
  qed
  show ?thesis using assms(2) csp uaa by (auto simp: globalTanzuLogin_def Let_def only_adds split: if_splits)
qed

lemma globalLogin_adds:
  "globalLogin X c s = Some (s', e) \<Longrightarrow> adds_context (cv_lib X) (kx_Name c) (st_config s) (st_config s')"
  unfolding globalLogin_def
  by (auto simp: adds_context_def dest!: api_token_name split: option.splits sum.splits prod.splits)

lemma k8sLogin_adds: "k8sLogin X c s = (s', e) \<Longrightarrow> adds_context (cv_lib X) (kx_Name c) (st_config s) (st_config s')"
  by (auto simp: k8sLogin_def dest!: save_login_adds split: option.splits if_splits)

lemma login_new_context_adds:
  "login_new_context X ctx s = Some (s', e) \<Longrightarrow> login_law (cv_auth X) \<Longrightarrow>
   cert_then_context X (st_vars s) (kx_Name ctx) (st_config s) (st_config s')"
  by (auto simp: login_new_context_def intro: globalTanzuLogin_adds only_adds globalLogin_adds k8sLogin_adds split: if_splits)

section \<open>New names are checked\<close>

text \<open>A context that is made has a name that does not exist in the configuration, which stays as it was, as do the flags of
  the certificate.\<close>

definition same_flags :: "ctx_vars \<Rightarrow> ctx_vars \<Rightarrow> bool" where
  "same_flags v v' \<longleftrightarrow> v_skipTLSVerify v' = v_skipTLSVerify v \<and> v_endpointCACertPath v' = v_endpointCACertPath v"

definition makes_new :: "('b, 'c, 'y) ctx_env \<Rightarrow> ('b, 'c) ctx_state \<Rightarrow> ('b, 'c) ctx_state \<times> config_context res \<Rightarrow> bool" where
  "makes_new X s r \<longleftrightarrow> st_config (fst r) = st_config s \<and> same_flags (st_vars s) (st_vars (fst r)) \<and>
     (\<forall>ctx. snd r = Inr ctx \<longrightarrow> cl_ContextExists (cv_lib X) (st_config s) (kx_Name ctx) = Inr False)"

lemma check_new_name_ok: "check_new_name X cfg name = Inr u \<Longrightarrow> cl_ContextExists (cv_lib X) cfg name = Inr False"
  by (auto simp: check_new_name_def split: sum.splits bool.splits)

lemma ask_name:
  "ask_endpoint_and_name X d s = (s', r) \<Longrightarrow> st_config s' = st_config s \<and> same_flags (st_vars s) (st_vars s') \<and>
   (\<forall>u. r = Inr u \<longrightarrow> cl_ContextExists (cv_lib X) (st_config s) (v_ctxName (st_vars s')) = Inr False)"
  by (auto simp: ask_endpoint_and_name_def Let_def same_flags_def dest: check_new_name_ok split: sum.splits)

text \<open>The endpoints of the platform change neither the name nor those flags.\<close>

definition keeps_name :: "ctx_vars \<Rightarrow> ctx_vars \<Rightarrow> bool" where
  "keeps_name v v' \<longleftrightarrow> v_ctxName v' = v_ctxName v \<and> same_flags v v'"

lemma not_configured_name: "keeps_name v (fst (configureServiceEndpointsIfNotConfigured h t u v))"
  by (simp add: configureServiceEndpointsIfNotConfigured_def Let_def keeps_name_def same_flags_def)

lemma keeps_name_refl [simp]: "keeps_name v v"
  by (simp add: keeps_name_def same_flags_def)

lemma keeps_name_trans: "keeps_name v v1 \<Longrightarrow> keeps_name v1 v2 \<Longrightarrow> keeps_name v v2"
  by (simp add: keeps_name_def same_flags_def)

lemma saas_name: "keeps_name v (fst (configureTanzuPlatformServiceEndpointsForSaas L X ep v))"
  unfolding configureTanzuPlatformServiceEndpointsForSaas_def Let_def
  by (simp add: not_configured_name split: option.split sum.split)

lemma sm_name: "keeps_name v (fst (configureTanzuPlatformServiceEndpointsForSM X ep v))"
  by (simp add: configureTanzuPlatformServiceEndpointsForSM_def Let_def keeps_name_def same_flags_def split: sum.split)

lemma endpoints_name: "keeps_name v (fst (configureTanzuPlatformServiceEndpoints L X ep v))"
proof -
  define r where "r = configureServiceEndpointsIfNotConfigured (getenv (cv_environ X) ''TANZU_CLI_HUB_ENDPOINT'')
    (getenv (cv_environ X) ''TANZU_CLI_K8S_OPS_ENDPOINT'') (getenv (cv_environ X) ''TANZU_CLI_UCP_ENDPOINT'') v"
  obtain v1 b where r: "r = (v1, b)" by (cases r)
  then have "keeps_name v v1" using not_configured_name unfolding r_def by (metis fst_conv)
  then show ?thesis
    unfolding configureTanzuPlatformServiceEndpoints_def Let_def r_def [symmetric] r
    by (auto intro: keeps_name_trans saas_name sm_name split: bool.split)
qed

lemma case_unit_same [simp]: "(case u of () \<Rightarrow> x) = x"
  by (simp split: unit.split)

lemma makes_new_kubeconfig: "makes_new X s (createContextWithKubeconfig X s)"
  unfolding createContextWithKubeconfig_def Let_def
  by (simp add: makes_new_def same_flags_def check_new_name_ok split: sum.split split del: if_split)

lemma makes_new_after_asking:
  assumes "ask_endpoint_and_name X d s = (s1, r)" "\<And>e. r = Inl e \<Longrightarrow> x = (s1, Inl e)"
    "r = Inr () \<Longrightarrow> st_config (fst x) = st_config s1 \<and> same_flags (st_vars s1) (st_vars (fst x)) \<and> (\<forall>ctx. snd x = Inr ctx \<longrightarrow> kx_Name ctx = v_ctxName (st_vars s1))"
  shows "makes_new X s x"
  using assms ask_name [OF assms(1)] by (cases r) (auto simp: makes_new_def same_flags_def)

lemma makes_new_tmc: "makes_new X s (createContextWithTMCEndpoint X s)"
proof -
  obtain s1 r where a: "ask_endpoint_and_name X '''' s = (s1, r)" by (cases "ask_endpoint_and_name X '''' s")
  show ?thesis by (rule makes_new_after_asking [OF a]) (simp_all add: createContextWithTMCEndpoint_def a Let_def same_flags_def)
qed

lemma makes_new_cluster: "makes_new X s (createContextWithClusterEndpoint X s)"
proof -
  obtain s1 r where a: "ask_endpoint_and_name X '''' s = (s1, r)" by (cases "ask_endpoint_and_name X '''' s")
  show ?thesis
    by (rule makes_new_after_asking [OF a]) (simp_all add: createContextWithClusterEndpoint_def a Let_def same_flags_def split: prod.split sum.split)
qed

lemma makes_new_tanzu: "makes_new X s (createContextWithTanzuEndpoint L X s)"
proof -
  obtain s1 r where a: "ask_endpoint_and_name X (DefaultPlatformEndpoint X) s = (s1, r)"
    by (cases "ask_endpoint_and_name X (DefaultPlatformEndpoint X) s")
  obtain v e where v: "configureTanzuPlatformServiceEndpoints L X (v_endpoint (st_vars s1)) (st_vars s1) = (v, e)"
    by (cases "configureTanzuPlatformServiceEndpoints L X (v_endpoint (st_vars s1)) (st_vars s1)")
  then have "keeps_name (st_vars s1) v" using endpoints_name by (metis fst_conv)
  then show ?thesis
    by (intro makes_new_after_asking [OF a]) (simp_all add: keeps_name_def createContextWithTanzuEndpoint_def a v Let_def split: option.split)
qed

lemma createNewContext_new: "createNewContext L X s = Some r \<Longrightarrow> makes_new X s r"
  by (auto simp: createNewContext_def createContextUsingContextType_def makes_new_kubeconfig makes_new_tmc makes_new_cluster
      makes_new_tanzu split: sum.splits option.splits ctx_creation.splits) (auto simp: makes_new_def same_flags_def)

text \<open>What the configuration library guarantees of the two operations: certificate entries and contexts are kept apart, and
  adding a context leaves those of other names as they are.\<close>

definition context_store_laws :: "'c config_lib \<Rightarrow> bool" where
  "context_store_laws C \<longleftrightarrow>
     (\<forall>host cert cfg n. cl_GetContext C (fst (cl_SetCert C host cert cfg)) n = cl_GetContext C cfg n) \<and>
     (\<forall>ctx current cfg n. n \<noteq> kx_Name ctx \<longrightarrow> cl_GetContext C (fst (cl_AddContext C ctx current cfg)) n = cl_GetContext C cfg n) \<and>
     (\<forall>cfg n. cl_ContextExists C cfg n = Inr False \<longrightarrow> isl (cl_GetContext C cfg n))"

lemma cert_only_contexts: "context_store_laws (cv_lib X) \<Longrightarrow> cert_only X v cfg cfg1 \<Longrightarrow> cl_GetContext (cv_lib X) cfg1 = cl_GetContext (cv_lib X) cfg"
  by (auto simp: context_store_laws_def cert_only_def fun_eq_iff)

text \<open>C21 (safety): creating a context, of whatever kind and with whatever outcome, leaves every context of the configuration
  as it is: no context is ever replaced. The configuration gains at most the certificate entry of the issuer the
  user logged in to, and that only if the flags gave a certificate or skipped its verification, and then at most one
  context, of a name that did not exist.\<close>

theorem create_never_replaces:
  assumes "login_law (cv_auth X)" "context_store_laws (cv_lib X)" "createCtx L X args s = Some (s', e)"
  shows "(\<forall>n ctx. cl_GetContext (cv_lib X) (st_config s) n = Inr ctx \<longrightarrow> cl_GetContext (cv_lib X) (st_config s') n = Inr ctx) \<and>
    (\<exists>cfg. (cfg = st_config s \<or> ((v_skipTLSVerify (st_vars s) \<or> v_endpointCACertPath (st_vars s) \<noteq> '''') \<and>
              (\<exists>host cert. cfg = fst (cl_SetCert (cv_lib X) host cert (st_config s))))) \<and>
       (st_config s' = cfg \<or> (\<exists>ctx. cl_ContextExists (cv_lib X) (st_config s) (kx_Name ctx) = Inr False \<and>
          st_config s' = fst (cl_AddContext (cv_lib X) ctx True cfg))))"
proof -
  define s1 where "s1 = (case args of [] \<Rightarrow> s | name # _ \<Rightarrow> s\<lparr>st_vars := (st_vars s)\<lparr>v_ctxName := name\<rparr>\<rparr>)"
  have c1: "st_config s1 = st_config s" "same_flags (st_vars s) (st_vars s1)"
    by (simp_all add: s1_def same_flags_def split: list.splits)
  consider "st_config s' = st_config s"
    | s2 err where "createNewContext L X s1 = Some (s2, Inl err)" "s' = s2"
    | s2 ctx where "createNewContext L X s1 = Some (s2, Inr ctx)" "login_new_context X ctx s2 = Some (s', e)"
    using assms(3) c1(1) by (auto simp: createCtx_def Let_def s1_def [symmetric] split: if_splits option.splits sum.splits)
  then obtain cfg where cfg: "cert_only X (st_vars s) (st_config s) cfg" "st_config s' = cfg \<or>
      (\<exists>ctx. cl_ContextExists (cv_lib X) (st_config s) (kx_Name ctx) = Inr False \<and> st_config s' = fst (cl_AddContext (cv_lib X) ctx True cfg))"
  proof cases
    case 1 then show ?thesis using that [of "st_config s"] by simp
  next
    case 2
    with createNewContext_new [OF 2(1)] c1 that [of "st_config s"] show ?thesis by (simp add: makes_new_def)
  next
    case 3
    from createNewContext_new [OF 3(1)] c1
    have n: "cl_ContextExists (cv_lib X) (st_config s) (kx_Name ctx) = Inr False" "st_config s2 = st_config s"
        "same_flags (st_vars s) (st_vars s2)"
      by (auto simp: makes_new_def same_flags_def)
    from login_new_context_adds [OF 3(2) assms(1)] obtain cfg where "cert_only X (st_vars s2) (st_config s) cfg"
        "adds_context (cv_lib X) (kx_Name ctx) cfg (st_config s')"
      by (auto simp: cert_then_context_def n(2))
    moreover from this(2) n(1) have "st_config s' = cfg \<or> (\<exists>ctx. cl_ContextExists (cv_lib X) (st_config s) (kx_Name ctx) = Inr False \<and>
        st_config s' = fst (cl_AddContext (cv_lib X) ctx True cfg))"
      unfolding adds_context_def by metis
    ultimately show ?thesis using n(3) by (intro that [of cfg]) (simp_all add: cert_only_def same_flags_def)
  qed
  have "cl_GetContext (cv_lib X) (st_config s') n = Inr c" if g: "cl_GetContext (cv_lib X) (st_config s) n = Inr c" for n c
  proof -
    have same: "cl_GetContext (cv_lib X) cfg n = Inr c" using cert_only_contexts [OF assms(2) cfg(1)] g by simp
    have "n \<noteq> kx_Name ctx" if "cl_ContextExists (cv_lib X) (st_config s) (kx_Name ctx) = Inr False" for ctx
      using assms(2) g that by (force simp: context_store_laws_def)
    moreover have "cl_GetContext (cv_lib X) (fst (cl_AddContext (cv_lib X) ctx True cfg)) n = Inr c" if "n \<noteq> kx_Name ctx" for ctx
      using assms(2) that same by (simp add: context_store_laws_def)
    ultimately show ?thesis using same cfg(2) by metis
  qed
  with cfg show ?thesis by (auto simp: cert_only_def)
qed

text \<open>A login whose every outcome is an error, and one context that is made for a kubeconfig.\<close>

definition refused_auth :: "string auth_env" where
  "refused_auth = (demo_auth (demo_login\<lparr>lx_Pkce := Some (Errorf ''no entropy'' [])\<rparr>))\<lparr>ax_DoLogin := (\<lambda>h.
     Some (Inl (if lh_refreshToken h \<noteq> '''' \<and> lh_suppressInteractive h then Errorf ''expired'' []
                else Wrapf (Errorf ''no entropy'' []) ''failed to generate PKCE code'' []), None))\<rparr>"

lemma refused_login_law: "login_law refused_auth"
proof -
  let ?E = "ax_login refused_auth"
  have r: "getTokenWithRefreshToken ?E h = Some (Inl (Errorf ''expired'' []))" for h
    by (simp add: refused_auth_def demo_auth_def demo_login_def getTokenWithRefreshToken_def)
  have "open_listener ?E h = Some (Inl (Wrapf (Errorf ''no entropy'' []) ''failed to generate PKCE code'' []))" for h
    by (simp add: refused_auth_def demo_auth_def open_listener_def)
  from browserLogin.not_started [OF this]
  have b: "browserLogin ?E h [] (Some (Inl (Wrapf (Errorf ''no entropy'' []) ''failed to generate PKCE code'' []), None))" for h .
  have d: "ax_DoLogin refused_auth h = Some (Inl (if lh_refreshToken h \<noteq> '''' \<and> lh_suppressInteractive h then Errorf ''expired'' []
      else Wrapf (Errorf ''no entropy'' []) ''failed to generate PKCE code'' []), None)" for h
    by (simp add: refused_auth_def)
  have "DoLogin ?E h [] (ax_DoLogin refused_auth h)" for h
  proof (cases "lh_refreshToken h \<noteq> '''' \<and> lh_suppressInteractive h")
    case True
    with DoLogin.refresh_failed [of h ?E, OF _ r] show ?thesis by (simp add: d)
  next
    case False
    with DoLogin.interactive [OF _ b, of h "Errorf ''expired'' []"] r show ?thesis by (auto simp: d)
  qed
  then show ?thesis by (auto simp: login_law_def)
qed

lemma find_put_other: "n \<noteq> kx_Name ctx \<Longrightarrow> find_context (put_context ctx cs) n = find_context cs n"
proof -
  have "List.find (\<lambda>c. kx_Name c = n) (filter (\<lambda>c. kx_Name c \<noteq> kx_Name ctx) cs) = List.find (\<lambda>c. kx_Name c = n) cs"
    if "n \<noteq> kx_Name ctx"
    using that by (induction cs) auto
  then show "n \<noteq> kx_Name ctx \<Longrightarrow> ?thesis" by (auto simp: find_context_def put_context_def persisted_def)
qed

lemma demo_store_laws: "context_store_laws (demo_config fault)"
  by (auto simp: context_store_laws_def demo_config_def find_put_other)

definition demo_named :: "(kube_config, config_context list) ctx_state" where
  "demo_named = demo_state\<lparr>st_vars := demo_vars\<lparr>v_kubeConfig := ''k'', v_kubeContext := ''tanzu-cli-a'',
     v_contextTypeStr := ''kubernetes''\<rparr>\<rparr>"

abbreviation refused_env :: "(kube_config, config_context list, string) ctx_env" where
  "refused_env \<equiv> (demo_env Map.empty (\<lambda>_. None))\<lparr>cv_auth := refused_auth\<rparr>"

definition demo_created :: "((kube_config, config_context list) ctx_state \<times> err option) option" where
  "demo_created = createCtx dotted_lib refused_env [''b''] demo_named"

theorem create_never_replaces_witness:
  "\<exists>ctx. find_context [demo_ctx] (kx_Name ctx) = Inl (Errorf ''could not find context'' [kx_Name ctx]) \<and>
     map_option (\<lambda>r. st_config (fst r)) demo_created = Some (put_context ctx [demo_ctx])"
proof -
  have "map_option (\<lambda>r. (length (st_config (fst r)), snd r)) demo_created = Some (2, None)" by code_simp
  then obtain s' where s': "createCtx dotted_lib refused_env [''b''] demo_named = Some (s', None)"
      "length (st_config s') = 2"
    by (auto simp: demo_created_def)
  have c: "st_config demo_named = [demo_ctx]" "v_endpointCACertPath (st_vars demo_named) = ''''"
      "\<not> v_skipTLSVerify (st_vars demo_named)"
    by (simp_all add: demo_named_def demo_state_def demo_vars_def)
  with s'(2) have "st_config s' \<noteq> st_config demo_named" by auto
  have l: "login_law (cv_auth refused_env)" "context_store_laws (cv_lib refused_env)"
    by (simp_all add: refused_login_law demo_store_laws)
  have lib: "cl_AddContext (demo_config f) ctx b cs = (put_context ctx cs, None)"
    "cl_ContextExists (demo_config f) cs n = Inr (\<not> isl (find_context cs n))" for f ctx b cs n
    by (simp_all add: demo_config_def)
  from create_never_replaces [OF l s'(1)] c \<open>st_config s' \<noteq> st_config demo_named\<close>
  obtain ctx where ctx: "isl (find_context [demo_ctx] (kx_Name ctx))" "st_config s' = put_context ctx [demo_ctx]"
    by (auto simp: lib)
  then have "find_context [demo_ctx] (kx_Name ctx) = Inl (Errorf ''could not find context'' [kx_Name ctx])"
    by (simp add: find_context_def split: option.splits if_splits)
  with ctx(2) s'(1) show ?thesis by (auto simp: demo_created_def)
qed

section \<open>Tokens\<close>

text \<open>The token that was printed is the stored one: as long as it has not expired, asking for it again,
  with any answers of the issuer, prints the same token and expiration and changes nothing.\<close>

theorem token_renewed_once:
  assumes "config_laws (cv_lib X)" "getToken X name cfg = Some (cfg1, Inr (tok, expiry))"
    "cv_lib X' = cv_lib X" "\<not> IsExpired (ax_now (cv_auth X')) expiry"
  shows "getToken X' name cfg1 = Some (cfg1, Inr (tok, expiry))"
proof -
  obtain ctx g where g: "cl_GetContext (cv_lib X) cfg name = Inr ctx" "kx_ContextType ctx = ContextTypeTanzu" "kx_GlobalOpts ctx = Some g"
    using assms(2) by (auto simp: getToken_def split: sum.splits if_splits option.splits)
  show ?thesis
  proof (cases "IsExpired (ax_now (cv_auth X)) (sa_Expiration (gs_Auth g))")
    case False
    then have "cfg1 = cfg \<and> tok = sa_AccessToken (gs_Auth g) \<and> expiry = sa_Expiration (gs_Auth g)"
      using assms(2) g by (simp add: getToken_def)
    then show ?thesis using assms(3,4) g by (simp add: getToken_def)
  next
    case True
    then obtain a where a: "cl_SetContext (cv_lib X) (ctx\<lparr>kx_GlobalOpts := Some (g\<lparr>gs_Auth := a\<rparr>)\<rparr>) False cfg = (cfg1, None)"
        "tok = sa_AccessToken a" "expiry = sa_Expiration a"
      using assms(2) g by (auto simp: getToken_def Let_def split: option.splits prod.splits)
    have "kx_Name ctx = name" using assms(1) g(1) by (simp add: config_laws_def)
    then have "cl_GetContext (cv_lib X) cfg1 name = Inr (persisted (ctx\<lparr>kx_GlobalOpts := Some (g\<lparr>gs_Auth := a\<rparr>)\<rparr>))"
      using assms(1) a(1) by (fastforce simp: config_laws_def)
    then show ?thesis using assms(3,4) a g by (simp add: getToken_def)
  qed
qed

definition demo_token_ctx :: config_context where
  "demo_token_ctx = demo_ctx\<lparr>kx_GlobalOpts := Some \<lparr>gs_Endpoint = ''ucp'',
     gs_Auth = no_auth\<lparr>sa_Type := APITokenType, sa_AccessToken := ''token1''\<rparr>\<rparr>\<rparr>"

definition demo_renewed :: "(config_context list \<times> (string \<times> int) res) option" where
  "demo_renewed = getToken (demo_env Map.empty (\<lambda>_. None)) ''a'' [demo_token_ctx]"

theorem token_renewed_once_witness:
  "\<exists>cfg1. demo_renewed = Some (cfg1, Inr (''token2'', 1800 * 1000000000)) \<and>
     getToken ((demo_env Map.empty (\<lambda>_. None))\<lparr>cv_auth := demo_auth (demo_login\<lparr>lx_now := 900 * 1000000000\<rparr>)\<rparr>) ''a'' cfg1 = Some (cfg1, Inr (''token2'', 1800 * 1000000000))"
proof -
  let ?X = "demo_env Map.empty (\<lambda>_. None)"
  let ?X' = "?X\<lparr>cv_auth := demo_auth (demo_login\<lparr>lx_now := 900 * 1000000000\<rparr>)\<rparr>"
  have "map_option snd demo_renewed = Some (Inr (''token2'', 1800 * 1000000000))" by code_simp
  then obtain cfg1 where r: "getToken ?X ''a'' [demo_token_ctx] = Some (cfg1, Inr (''token2'', 1800 * 1000000000))"
    by (auto simp: demo_renewed_def)
  have "\<not> IsExpired (ax_now (cv_auth ?X')) (1800 * 1000000000)" by code_simp
  moreover have "cv_lib ?X' = cv_lib ?X" by simp
  ultimately show ?thesis
    using token_renewed_once [OF _ r, of ?X'] demo_config_laws r by (auto simp: demo_renewed_def)
qed

section \<open>Logging in again\<close>

lemma meta_put_get: "meta_put k x c = Some c' \<Longrightarrow> meta_get c' k' = (if k' = k then Some x else meta_get c k')"
  by (auto simp: meta_put_def meta_get_def update_conv')

text \<open>Logging in under the name of a context that exists stores the organization of the old context in the
  metadata, while the endpoint of the cluster is that of the organization of the new login.\<close>

theorem relogin_keeps_organization:
  assumes "context_keys_law (cv_keys X)"
    "updateContextOnTanzuLogin X generateContextName cl orgName c s = Some (s', c', None)"
    "cl_ContextExists (cv_lib X) (st_config s) (kx_Name c') = Inr True"
    "cl_GetContext (cv_lib X) (st_config s) (kx_Name c') = Inr old" "meta_get old (OrgIDKey (cv_keys X)) = Some (MString oldID)"
  shows "st_config s' = fst (cl_AddContext (cv_lib X) c' True (st_config s)) \<and>
    meta_get c' (OrgIDKey (cv_keys X)) = Some (MString oldID) \<and>
    map_option cs_Endpoint (kx_ClusterOpts c') = Some (org_server_url (v_tanzuUCPEndpoint (st_vars s)) (cl_OrgID cl))"
proof -
  define c0 where "c0 = (case generateContextName of None \<Rightarrow> c
      | Some f \<Rightarrow> c\<lparr>kx_Name := f orgName (v_tanzuUCPEndpoint (st_vars s)) (v_staging (st_vars s))\<rparr>)"
  obtain c1 w where u: "updateTanzuContextMetadata X (st_config s) (st_vars s) (cl_OrgID cl) orgName c0 = Some (Inr c1)"
      "updateContextWithTanzuKubeconfig X (v_tanzuUCPEndpoint (st_vars s)) (cl_OrgID cl) (v_endpointCACertPath (st_vars s))
         (v_skipTLSVerify (st_vars s)) c1 (st_kube s) = Some (w, Inr c')"
      "save_login X c' (s\<lparr>st_kube := w\<rparr>) = (s', None)"
    using assms(2) by (auto simp: updateContextOnTanzuLogin_def Let_def c0_def [symmetric] split: option.splits sum.splits prod.splits)
  have n: "kx_Name c0 = kx_Name c'" using metadata_name [OF u(1)] tanzu_kubeconfig_name [OF u(2)] by simp
  obtain y where y: "meta_put (TanzuHubEndpointKey (cv_keys X)) (MString (v_tanzuHubEndpoint (st_vars s)))
        (c0\<lparr>kx_AdditionalMetadata := kx_AdditionalMetadata old\<rparr>) = Some y"
      "meta_put (TanzuMissionControlEndpointKey (cv_keys X)) (MString (v_tanzuTMCEndpoint (st_vars s))) y = Some c1"
    using u(1) assms(3,4) n by (auto simp: updateTanzuContextMetadata_def Let_def bind_eq_Some_conv)
  have "OrgIDKey (cv_keys X) \<noteq> TanzuHubEndpointKey (cv_keys X)" "OrgIDKey (cv_keys X) \<noteq> TanzuMissionControlEndpointKey (cv_keys X)"
    using assms(1) by (auto simp: context_keys_law_def)
  then have "meta_get c1 (OrgIDKey (cv_keys X)) = meta_get old (OrgIDKey (cv_keys X))"
    using meta_put_get [OF y(1), of "OrgIDKey (cv_keys X)"] meta_put_get [OF y(2), of "OrgIDKey (cv_keys X)"]
    by (simp add: meta_get_def)
  moreover have "meta_get c' k = meta_get c1 k \<and>
      map_option cs_Endpoint (kx_ClusterOpts c') = Some (org_server_url (v_tanzuUCPEndpoint (st_vars s)) (cl_OrgID cl))" for k
    using u(2) by (auto simp: updateContextWithTanzuKubeconfig_def GetTanzuKubeconfig_def Let_def meta_get_def
        split: option.splits sum.splits prod.splits)
  moreover have "st_config s' = fst (cl_AddContext (cv_lib X) c' True (st_config s))"
    using u(3) by (auto simp: save_login_def split: prod.splits option.splits)
  ultimately show ?thesis using assms(5) by simp
qed

definition demo_relogin :: "((kube_config, config_context list) ctx_state \<times> config_context \<times> err option) option" where
  "demo_relogin = updateContextOnTanzuLogin (demo_env Map.empty (\<lambda>_. None)) (Some (\<lambda>n ep st. ''a''))
     \<lparr>cl_Username = ''user'', cl_Permissions = [], cl_OrgID = ''2''\<rparr> ''Org'' (demo_ctx\<lparr>kx_Name := ''uuid''\<rparr>)
     (demo_state\<lparr>st_vars := demo_vars\<lparr>v_tanzuUCPEndpoint := ''ucp''\<rparr>\<rparr>)"


theorem relogin_keeps_organization_witness:
  "\<exists>s' c'. demo_relogin = Some (s', c', None) \<and> meta_get c' ''orgID'' = Some (MString ''1'') \<and>
     map_option cs_Endpoint (kx_ClusterOpts c') = Some ''https://ucp/org/2''"
proof -
  have "map_option (\<lambda>(s', c', e). (kx_Name c', e)) demo_relogin = Some (''a'', None)" by code_simp
  then obtain s' c' where r: "demo_relogin = Some (s', c', None)" "kx_Name c' = ''a''" by auto
  let ?X = "demo_env Map.empty (\<lambda>_. None)"
  let ?s = "demo_state\<lparr>st_vars := demo_vars\<lparr>v_tanzuUCPEndpoint := ''ucp''\<rparr>\<rparr>"
  have "cl_ContextExists (cv_lib ?X) (st_config ?s) ''a'' = Inr True" "cl_GetContext (cv_lib ?X) (st_config ?s) ''a'' = Inr demo_ctx"
    "meta_get demo_ctx (OrgIDKey (cv_keys ?X)) = Some (MString ''1'')" "context_keys_law (cv_keys ?X)"
    "org_server_url ''ucp'' ''2'' = ''https://ucp/org/2''" "OrgIDKey (cv_keys ?X) = ''orgID''"
    by code_simp+
  then have "meta_get c' ''orgID'' = Some (MString ''1'')" "map_option cs_Endpoint (kx_ClusterOpts c') = Some ''https://ucp/org/2''"
    using relogin_keeps_organization [OF _ r(1) [unfolded demo_relogin_def], of demo_ctx "''1''"] r(2) by simp_all
  with r(1) show ?thesis by blast
qed

end
