(* ===== verification/Pinniped_Login.thy ===== *)
theory Pinniped_Login
  imports Context_Create
begin

text \<open>
  Kubeconfigs of clusters that authenticate with Pinniped: \<^verbatim>\<open>pkg/auth/tkg/\<close>, \<^verbatim>\<open>pkg/auth/wcp/discovery.go\<close>,
  \<^verbatim>\<open>pkg/auth/utils/net/\<close>, \<^verbatim>\<open>pkg/command/context_tkg_helper.go\<close>. The cluster publishes its address and its issuer in
  public configuration maps; the CLI reads them, writes a kubeconfig whose user runs the \<^verbatim>\<open>pinniped-auth\<close> plugin, and merges
  it into the kubeconfig file. Requests, certificate pools, JSON and the execution of the plugin are fields of \<open>pinniped_env\<close>.
  Addresses are those the request constructor accepts.
\<close>

section \<open>Environment\<close>

record tkg_tls =
  tl_RootCAs :: "string list"
  tl_InsecureSkipVerify :: bool

record pinniped_info =
  pq_ClusterName :: string
  pq_Issuer :: string
  pq_IssuerCABundle :: string
  pq_ConciergeEndpoint :: string
  pq_ConciergeIsClusterScoped :: bool

text \<open>\<open>pn_AppendCertsFromPEM\<close> gives the certificates of a PEM text, none when there is no valid one; \<open>pn_Get\<close> answers with
  the status and the body, which may fail to be read.\<close>

record 'b pinniped_env =
  pn_SystemCertPool :: "string list res"
  pn_AppendCertsFromPEM :: "string \<Rightarrow> string list"
  pn_ParseURL :: "string \<Rightarrow> string res"
  pn_Get :: "tkg_tls \<Rightarrow> string \<Rightarrow> (int \<times> string res) res"
  pn_DecodeClusterInfo :: "string \<Rightarrow> 'b res"
  pn_DecodePinnipedInfo :: "string \<Rightarrow> pinniped_info res"
  pn_MarshalConfig :: "kube_config \<Rightarrow> 'b res"
  pn_InstalledPlugins :: "plugin_info list res"
  pn_NewRootCmd :: "err option"
  pn_Execute :: "string list \<Rightarrow> 'b \<times> string \<times> err option"
  pn_ErrorText :: "err \<Rightarrow> string"

section \<open>Connections\<close>

definition tkg_GetTLSConfig :: "'b pinniped_env \<Rightarrow> 'b kube_env \<Rightarrow> string \<Rightarrow> bool \<Rightarrow> tkg_tls res" where
  "tkg_GetTLSConfig P V caCertPath skipTLSVerify =
     (if caCertPath \<noteq> '''' \<and> skipTLSVerify then Inl (Errorf ''do not provide a cert when skipping TLS verification'' [])
      else case pn_SystemCertPool P of
        Inl e \<Rightarrow> Inl e
      | Inr pool \<Rightarrow>
          if caCertPath = '''' then Inr \<lparr>tl_RootCAs = pool, tl_InsecureSkipVerify = skipTLSVerify\<rparr>
          else (case kv_ReadFile V caCertPath of
                  Inl e \<Rightarrow> Inl (Wrapf e (''failed reading CA certificates from '' @ [CHR 0x27] @ ''%s'' @ [CHR 0x27]) [caCertPath])
                | Inr certs \<Rightarrow>
                    if pn_AppendCertsFromPEM P certs = []
                    then Inl (Errorf (''failed adding CA certificates from '' @ [CHR 0x27] @ ''%s'' @ [CHR 0x27]) [caCertPath])
                    else Inr \<lparr>tl_RootCAs = pool @ pn_AppendCertsFromPEM P certs, tl_InsecureSkipVerify = skipTLSVerify\<rparr>))"

text \<open>\<^verbatim>\<open>strings.TrimRight(s, " /")\<close>\<close>

definition trim_right_blank_slash :: "string \<Rightarrow> string" where
  "trim_right_blank_slash s = rev (dropWhile (\<lambda>c. c = CHR '' '' \<or> c = CHR ''/'') (rev s))"

definition public_config_map :: "string \<Rightarrow> string \<Rightarrow> string" where
  "public_config_map server name = server @ ''/api/v1/namespaces/kube-public/configmaps/'' @ name"

definition api_server_url :: "string \<Rightarrow> string" where
  "api_server_url clusterAPIServerURL =
     (let u = trim_space clusterAPIServerURL
      in if \<not> has_prefix u ''https://'' \<and> \<not> has_prefix u ''http://'' then ''https://'' @ u else u)"

text \<open>The cluster is the first one of the iteration over the map.\<close>

definition GetClusterInfoFromCluster ::
    "'v lib \<Rightarrow> 'b pinniped_env \<Rightarrow> 'b kube_env \<Rightarrow> string \<Rightarrow> string \<Rightarrow> string \<Rightarrow> bool \<Rightarrow> kube_cluster res" where
  "GetClusterInfoFromCluster L P V clusterAPIServerURL configmapName endpointCACertPath skipTLSVerify =
     (let u = api_server_url clusterAPIServerURL
      in case pn_ParseURL P u of
           Inl e \<Rightarrow> Inl (Wrapf e ''failed to parse endpoint URL'' [])
         | Inr _ \<Rightarrow>
             (case tkg_GetTLSConfig P V endpointCACertPath skipTLSVerify of
                Inl e \<Rightarrow> Inl (Wrapf e ''failed to get the TLS configuration'' [])
              | Inr tls \<Rightarrow>
                  (case pn_Get P tls (public_config_map (trim_right_blank_slash u) configmapName) of
                     Inl e \<Rightarrow> Inl (Wrapf e ''failed to get cluster-info from the end-point'' [])
                   | Inr (status, body) \<Rightarrow>
                       if status \<noteq> 200 then Inl (Errorf ''failed to get cluster-info from the end-point'' [])
                       else (case body of
                           Inl e \<Rightarrow> Inl (Wrapf e ''failed to read the response body'' [])
                         | Inr responseBody \<Rightarrow>
                             (case pn_DecodeClusterInfo P responseBody of
                                Inl e \<Rightarrow> Inl (Wrapf e ''error parsing http response body '' [])
                              | Inr kubeconfig \<Rightarrow>
                                  (case ky_Load (kv_codec V) kubeconfig of
                                     Inl e \<Rightarrow> Inl (Wrapf e ''failed to load the kubeconfig'' [])
                                   | Inr config \<Rightarrow>
                                       (case range_keys L (kf_Clusters config) of
                                          [] \<Rightarrow> Inl (Errorf ''failed to get cluster information '' [])
                                        | k # _ \<Rightarrow> Inr (the (map_of (kf_Clusters config) k)))))))))"

text \<open>\<open>pn_ParseURL\<close> gives the host name of the address, without port and without the brackets of an IPv6 address.\<close>

definition SetPort :: "'b pinniped_env \<Rightarrow> string \<Rightarrow> string \<Rightarrow> string res" where
  "SetPort P endpoint portOverride =
     (let result = (\<lambda>p. ''https://'' @ p @ '':'' @ portOverride)
      in if has_prefix endpoint ''https:'' \<or> has_prefix endpoint ''http:'' then map_sum id result (pn_ParseURL P endpoint)
         else Inr (result (hd (split_on CHR '':'' endpoint))))"

text \<open>\<^verbatim>\<open>nil\<close> without an error when the cluster has no such configuration map.\<close>

definition GetPinnipedInfoFromCluster ::
    "'b pinniped_env \<Rightarrow> kube_cluster \<Rightarrow> string option \<Rightarrow> pinniped_info option res" where
  "GetPinnipedInfoFromCluster P clusterInfo discoveryPort =
     (case (case discoveryPort of None \<Rightarrow> Inr (trim_right_blank_slash (ku_Server clusterInfo)) | Some port \<Rightarrow> SetPort P (ku_Server clusterInfo) port) of
        Inl e \<Rightarrow> Inl (Wrapf e ''failed to override discovery port'' [])
      | Inr endpoint \<Rightarrow>
          (case pn_Get P \<lparr>tl_RootCAs = pn_AppendCertsFromPEM P (ku_CertificateAuthorityData clusterInfo), tl_InsecureSkipVerify = False\<rparr>
                  (public_config_map endpoint ''pinniped-info'') of
             Inl e \<Rightarrow> Inl (Wrapf e ''failed to get pinniped-info from the cluster'' [])
           | Inr (status, body) \<Rightarrow>
               if status = 404 then Inr None
               else if status \<noteq> 200 then Inl (Errorf ''failed to get pinniped-info from the cluster. Status code: %+v'' [])
               else (case body of
                   Inl e \<Rightarrow> Inl (Wrapf e ''failed to read the response body'' [])
                 | Inr responseBody \<Rightarrow>
                     (case pn_DecodePinnipedInfo P responseBody of
                        Inl e \<Rightarrow> Inl (Wrapf e ''error parsing http response body'' []) | Inr info \<Rightarrow> Inr (Some info)))))"

section \<open>The kubeconfig\<close>

definition pinniped_args :: "environ \<Rightarrow> (string \<Rightarrow> string) \<Rightarrow> kube_cluster \<Rightarrow> pinniped_info \<Rightarrow> string \<Rightarrow> string list" where
  "pinniped_args env b64 cluster info audience =
     [''pinniped-auth'', ''login'', ''--enable-concierge'',
      ''--concierge-authenticator-name=tkg-jwt-authenticator'', ''--concierge-authenticator-type=jwt'',
      ''--concierge-is-cluster-scoped='' @ format_bool (pq_ConciergeIsClusterScoped info),
      ''--concierge-endpoint='' @ (if pq_ConciergeEndpoint info = '''' then ku_Server cluster else pq_ConciergeEndpoint info),
      ''--concierge-ca-bundle-data='' @ b64 (ku_CertificateAuthorityData cluster),
      ''--issuer='' @ pq_Issuer info, ''--scopes=offline_access,openid,pinniped:request-audience'',
      ''--ca-bundle-data='' @ pq_IssuerCABundle info, ''--request-audience='' @ audience] @
     (if pq_ConciergeIsClusterScoped info then [] else [''--concierge-namespace=pinniped-concierge'']) @
     (if getenv env ''TANZU_CLI_PINNIPED_AUTH_LOGIN_SKIP_BROWSER'' \<noteq> '''' then [''--skip-browser''] else [])"

definition GetPinnipedKubeconfig :: "'b kube_env \<Rightarrow> kube_cluster \<Rightarrow> pinniped_info \<Rightarrow> string \<Rightarrow> string \<Rightarrow> kube_config" where
  "GetPinnipedKubeconfig V cluster info clustername audience =
     (let username = ''tanzu-cli-'' @ clustername; contextName = username @ ''@'' @ clustername
      in \<lparr>kf_Clusters = [(clustername, cluster)],
          kf_AuthInfos = [(username, Some \<lparr>ex_APIVersion = ''client.authentication.k8s.io/v1beta1'', ex_Command = ''tanzu'',
             ex_Args = pinniped_args (kv_environ V) (kv_Base64Encode V) cluster info audience, ex_InteractiveMode = ''''\<rparr>)],
          kf_Contexts = [(contextName, \<lparr>kc_Cluster = clustername, kc_AuthInfo = username, kc_Namespace = ''''\<rparr>)],
          kf_CurrentContext = contextName\<rparr>)"

definition KubeconfigWithPinnipedAuthLoginPlugin ::
    "'v lib \<Rightarrow> 'b pinniped_env \<Rightarrow> 'b kube_env \<Rightarrow> string \<Rightarrow> string option \<Rightarrow> string option \<times> string \<Rightarrow> string \<Rightarrow> bool \<Rightarrow> 'b kube_fs \<Rightarrow>
     'b kube_fs \<times> (string \<times> string) res" where
  "KubeconfigWithPinnipedAuthLoginPlugin L P V endpoint options strategy endpointCACertPath skipTLSVerify w =
     (case strategy of (discoveryPort, configMap) \<Rightarrow>
      case GetClusterInfoFromCluster L P V endpoint configMap endpointCACertPath skipTLSVerify of
        Inl e \<Rightarrow> (w, Inl (Wrapf e ''failed to get cluster-info'' []))
      | Inr clusterInfo \<Rightarrow>
          (case GetPinnipedInfoFromCluster P clusterInfo discoveryPort of
             Inl e \<Rightarrow> (w, Inl (Wrapf e ''failed to get pinniped-info'' []))
           | Inr None \<Rightarrow> (w, Inl (Errorf ''failed to get pinniped-info from cluster'' []))
           | Inr (Some info) \<Rightarrow>
               (case pn_MarshalConfig P (GetPinnipedKubeconfig V clusterInfo info (pq_ClusterName info) (pq_Issuer info)) of
                  Inl e \<Rightarrow> (w, Inl (Wrapf e ''unable to marshall the kubeconfig'' []))
                | Inr kubeconfigBytes \<Rightarrow> MergeAndSaveKubeconfigBytes (kv_codec V) kubeconfigBytes options w)))"

section \<open>The kubeconfig of a cluster endpoint\<close>

record tkg_fetcher =
  tf_Endpoint :: string
  tf_InsecureSkipTLSVerify :: bool
  tf_EndpointCACertPath :: string

definition NewTKGKubeconfigFetcher :: "string \<Rightarrow> string \<Rightarrow> bool \<Rightarrow> tkg_fetcher" where
  "NewTKGKubeconfigFetcher endpoint endpointCACertPath insecureSkipTLSVerify =
     \<lparr>tf_Endpoint = endpoint, tf_InsecureSkipTLSVerify = insecureSkipTLSVerify, tf_EndpointCACertPath = endpointCACertPath\<rparr>"

definition isPinnipedPluginInstalled :: "'b pinniped_env \<Rightarrow> bool res" where
  "isPinnipedPluginInstalled P =
     map_sum id (\<lambda>ps. list_ex (\<lambda>p. pi_Name p = ''pinniped-auth'') ps) (pn_InstalledPlugins P)"

definition getKubeconfigUsingPinnipedAuthPlugin :: "'b pinniped_env \<Rightarrow> 'b kube_env \<Rightarrow> tkg_fetcher \<Rightarrow> 'b res" where
  "getKubeconfigUsingPinnipedAuthPlugin P V tf =
     (case pn_NewRootCmd P of
        Some e \<Rightarrow> Inl e
      | None \<Rightarrow>
          let args = [''pinniped-auth'', ''kubeconfig'', ''get'', ''--endpoint'', tf_Endpoint tf];
              run = (\<lambda>args1. case pn_Execute P (args1 @ (if tf_InsecureSkipTLSVerify tf then [''--insecure-skip-tls-verify''] else [])) of
                       (sOut, sErr, Some e) \<Rightarrow> Inl (Wrapf e sErr []) | (sOut, sErr, None) \<Rightarrow> Inr sOut)
          in if tf_EndpointCACertPath tf = '''' then run args
             else (case kv_ReadFile V (tf_EndpointCACertPath tf) of
                     Inl e \<Rightarrow> Inl (Wrapf e ''error reading CA certificate file %s'' [tf_EndpointCACertPath tf])
                   | Inr fileBytes \<Rightarrow> run (args @ [''--endpoint-ca-bundle-b64'', kv_Base64Encode V fileBytes])))"

definition IsVSphereSupervisor :: "'b pinniped_env \<Rightarrow> tkg_tls \<Rightarrow> string \<Rightarrow> bool res" where
  "IsVSphereSupervisor P tls endpoint = map_sum id (\<lambda>(status, body). status = 200) (pn_Get P tls (endpoint @ ''/wcp/loginbanner''))"

text \<open>The endpoint, and for a supervisor also the certificate and the verification, are those of the package variables.\<close>

definition pinniped_login_failed :: "err \<Rightarrow> err" where
  "pinniped_login_failed e = Wrapf e ''error creating kubeconfig with tanzu pinniped-auth login plugin: %v'' []"

definition vSphereSupervisorLogin ::
    "'v lib \<Rightarrow> 'b pinniped_env \<Rightarrow> 'b kube_env \<Rightarrow> ctx_vars \<Rightarrow> string \<Rightarrow> 'b kube_fs \<Rightarrow> 'b kube_fs \<times> (string \<times> string) res" where
  "vSphereSupervisorLogin L P V v endpoint w =
     map_prod id (map_sum pinniped_login_failed id)
       (KubeconfigWithPinnipedAuthLoginPlugin L P V endpoint None (Some ''443'', ''vip-cluster-info'')
          (v_endpointCACertPath v) (v_skipTLSVerify v) w)"

definition getKubeconfigForPriorTKGVersion ::
    "'v lib \<Rightarrow> 'b pinniped_env \<Rightarrow> 'b kube_env \<Rightarrow> ctx_vars \<Rightarrow> tkg_fetcher \<Rightarrow> 'b kube_fs \<Rightarrow> 'b kube_fs \<times> (string \<times> string) res" where
  "getKubeconfigForPriorTKGVersion L P V v tf w =
     (case tkg_GetTLSConfig P V (tf_EndpointCACertPath tf) (tf_InsecureSkipTLSVerify tf) of
        Inl e \<Rightarrow> (w, Inl (Wrapf e ''failed to get TLS config'' []))
      | Inr tls \<Rightarrow>
          (case IsVSphereSupervisor P tls (v_endpoint v) of
             Inl e \<Rightarrow> (w, Inl (pinniped_login_failed e))
           | Inr True \<Rightarrow>
               map_prod id (map_sum (\<lambda>e. Wrapf e ''error login into the vSphere Supervisor: %v'' []) id)
                 (vSphereSupervisorLogin L P V v (v_endpoint v) w)
           | Inr False \<Rightarrow>
               map_prod id (map_sum pinniped_login_failed id)
                 (KubeconfigWithPinnipedAuthLoginPlugin L P V (v_endpoint v) None (None, ''cluster-info'')
                    (tf_EndpointCACertPath tf) (tf_InsecureSkipTLSVerify tf) w)))"

definition unknown_kubeconfig_command :: string where
  "unknown_kubeconfig_command = ''unknown command '' @ [CHR 0x22] @ ''kubeconfig'' @ [CHR 0x22] @ '' for '' @ [CHR 0x22] @ ''pinniped-auth'' @ [CHR 0x22]"

definition fetch_GetPinnipedKubeconfig ::
    "'v lib \<Rightarrow> 'b pinniped_env \<Rightarrow> 'b kube_env \<Rightarrow> ctx_vars \<Rightarrow> tkg_fetcher \<Rightarrow> 'b kube_fs \<Rightarrow> 'b kube_fs \<times> (string \<times> string) res" where
  "fetch_GetPinnipedKubeconfig L P V v tf w =
     (case isPinnipedPluginInstalled P of
        Inl e \<Rightarrow> (w, Inl (Wrapf e (''failed to determine if the '' @ [CHR 0x27] @ ''pinniped-auth'' @ [CHR 0x27] @ '' plugin is installed'') []))
      | Inr False \<Rightarrow> (w, Inl (Errorf ''the pinniped-auth plugin is not installed'' []))
      | Inr True \<Rightarrow>
          (case getKubeconfigUsingPinnipedAuthPlugin P V tf of
             Inl e \<Rightarrow> if contains_str (pn_ErrorText P e) unknown_kubeconfig_command
                      then getKubeconfigForPriorTKGVersion L P V v tf w else (w, Inl e)
           | Inr kubeconfigBytes \<Rightarrow> MergeAndSaveKubeconfigBytes (kv_codec V) kubeconfigBytes None w))"

end
