(* ===== verification/Kube_Merge.thy ===== *)
theory Kube_Merge
  imports Context_Safety
begin

text \<open>
  What merging a kubeconfig into a file does. \<^verbatim>\<open>mergo.Merge\<close> without an option only fills what is empty: entries that the
  file already has keep their values. A login under the name of a context whose cluster is in the file therefore leaves
  the old address of the cluster there.
\<close>

section \<open>Merging\<close>

text \<open>What the library documents: entries of the source that the destination lacks are added, and fields of the
  destination that are not empty stay.\<close>

definition adds_entries :: "(string \<times> 'a) list \<Rightarrow> (string \<times> 'a) list \<Rightarrow> (string \<times> 'a) list \<Rightarrow> bool" where
  "adds_entries d n m \<longleftrightarrow> dom (map_of m) = dom (map_of d) \<union> dom (map_of n) \<and>
     (\<forall>k. map_of d k = None \<longrightarrow> map_of m k = map_of n k) \<and> (\<forall>k. map_of n k = None \<longrightarrow> map_of m k = map_of d k)"

definition fills_cluster :: "kube_cluster \<Rightarrow> kube_cluster \<Rightarrow> bool" where
  "fills_cluster cl cl' \<longleftrightarrow>
     (ku_Server cl \<noteq> '''' \<longrightarrow> ku_Server cl' = ku_Server cl) \<and>
     (ku_CertificateAuthorityData cl \<noteq> '''' \<longrightarrow> ku_CertificateAuthorityData cl' = ku_CertificateAuthorityData cl) \<and>
     (ku_InsecureSkipTLSVerify cl \<longrightarrow> ku_InsecureSkipTLSVerify cl')"

definition fills_clusters :: "(string \<times> kube_cluster) list \<Rightarrow> (string \<times> kube_cluster) list \<Rightarrow> bool" where
  "fills_clusters d m \<longleftrightarrow> (\<forall>c cl. map_of d c = Some cl \<longrightarrow> (\<exists>cl'. map_of m c = Some cl' \<and> fills_cluster cl cl'))"

definition merge_laws :: "'b kube_codec \<Rightarrow> bool" where
  "merge_laws Y \<longleftrightarrow>
     (\<forall>d n m. ky_Merge Y d n = Inr m \<longrightarrow>
        adds_entries (kf_Clusters d) (kf_Clusters n) (kf_Clusters m) \<and> adds_entries (kf_AuthInfos d) (kf_AuthInfos n) (kf_AuthInfos m) \<and>
        adds_entries (kf_Contexts d) (kf_Contexts n) (kf_Contexts m) \<and> fills_clusters (kf_Clusters d) (kf_Clusters m))"

text \<open>A merge that succeeds leaves a kubeconfig that has the contexts of both, the current context of the file, and the
  clusters the file had.\<close>

lemma merged_into_file:
  assumes "kube_laws Y" "merge_laws Y" "LoadFromFile Y w path = Inr k0" "path \<noteq> ''''"
    and "MergeKubeConfigWithoutSwitchContext Y b path w = (w', None)"
  shows "\<exists>n k. ky_Load Y b = Inr n \<and> LoadFromFile Y w' path = Inr k \<and> kf_CurrentContext k = kf_CurrentContext k0 \<and>
    fills_clusters (kf_Clusters k0) (kf_Clusters k) \<and> adds_entries (kf_Clusters k0) (kf_Clusters n) (kf_Clusters k) \<and>
    adds_entries (kf_AuthInfos k0) (kf_AuthInfos n) (kf_AuthInfos k) \<and> adds_entries (kf_Contexts k0) (kf_Contexts n) (kf_Contexts k)"
proof -
  have ex: "kw_files w path \<noteq> None" using assms(3) by (auto simp: LoadFromFile_def split: option.splits)
  obtain n where n: "ky_Load Y b = Inr n"
    using assms(4,5) by (auto simp: MergeKubeConfigWithoutSwitchContext_def split: sum.splits)
  obtain m where m: "ky_Merge Y k0 n = Inr m" "WriteToFile Y (m\<lparr>kf_CurrentContext := kf_CurrentContext k0\<rparr>) path w = (w', None)"
    using assms(4,5) ex n by (auto simp: MergeKubeConfigWithoutSwitchContext_def assms(3) split: sum.splits)
  from write_then_load [OF assms(1) m(2) load_no_fault [OF assms(3)]] obtain k where
    k: "LoadFromFile Y w' path = Inr k" "kube_same (m\<lparr>kf_CurrentContext := kf_CurrentContext k0\<rparr>) k" by blast
  have "fills_clusters (kf_Clusters k0) (kf_Clusters m)" "adds_entries (kf_Clusters k0) (kf_Clusters n) (kf_Clusters m)"
    "adds_entries (kf_AuthInfos k0) (kf_AuthInfos n) (kf_AuthInfos m)" "adds_entries (kf_Contexts k0) (kf_Contexts n) (kf_Contexts m)"
    using assms(2) m(1) by (simp_all add: merge_laws_def)
  then show ?thesis using n k by (intro exI [of _ n] exI [of _ k]) (simp add: kube_same_def fills_clusters_def adds_entries_def)
qed

lemma new_file:
  assumes "kube_laws Y" "kw_files w path = None" "kw_load w path = None" "path \<noteq> ''''"
    and "MergeKubeConfigWithoutSwitchContext Y b path w = (w', None)"
  shows "\<exists>n k. ky_Load Y b = Inr n \<and> LoadFromFile Y w' path = Inr k \<and> kube_same n k"
proof -
  obtain n where n: "ky_Load Y b = Inr n" "WriteToFile Y n path w = (w', None)"
    using assms(2,4,5) by (auto simp: MergeKubeConfigWithoutSwitchContext_def split: sum.splits)
  from write_then_load [OF assms(1) n(2) assms(3)] n(1) show ?thesis by blast
qed

section \<open>Logging in again\<close>

lemma path_join_config: "path_join [a, ''config''] \<noteq> ''''"
  by (cases a) (simp_all add: path_join_def)

lemma local_path_nonempty: "tanzuLocalKubeConfigPath V = Inr path \<Longrightarrow> path \<noteq> ''''"
  using path_join_config by (auto simp: tanzuLocalKubeConfigPath_def Let_def split: sum.splits option.splits)

lemma set_current_keeps:
  assumes "kube_laws Y" "LoadFromFile Y w path = Inr k" "SetCurrentContext Y path n w = (w', None)"
  shows "\<exists>k'. LoadFromFile Y w' path = Inr k' \<and> map_of (kf_Clusters k') = map_of (kf_Clusters k)"
proof -
  have "WriteToFile Y (k\<lparr>kf_CurrentContext := n\<rparr>) path w = (w', None)"
    using assms(2,3) by (auto simp: SetCurrentContext_def split: if_splits)
  from write_then_load [OF assms(1) this load_no_fault [OF assms(2)]] show ?thesis by (auto simp: kube_same_def)
qed

lemma tanzu_kubeconfig_merged:
  assumes "updateContextWithTanzuKubeconfig X ep orgID ca skip c w = Some (w', Inr c')"
    and "tanzuLocalKubeConfigPath (cv_kube X) = Inr path"
  shows "\<exists>b opts. MergeKubeConfigWithoutSwitchContext (kv_codec (cv_kube X)) b path w = (w', None) \<and>
    kx_ClusterOpts c' = Some opts \<and> cs_Path opts = path"
  using assms by (auto simp: updateContextWithTanzuKubeconfig_def GetTanzuKubeconfig_def Let_def
      split: option.splits sum.splits prod.splits)

text \<open>C26 (error): logging in to another organization under the name of an existing context succeeds, and the context gets the
  address of the new organization, while its metadata and the cluster in the kubeconfig file, with its certificate, stay
  those of the old one.\<close>

theorem relogin_addresses_old_organization:
  assumes "context_keys_law (cv_keys X)" "kube_laws (kv_codec (cv_kube X))" "merge_laws (kv_codec (cv_kube X))"
    and run: "updateContextOnTanzuLogin X generateContextName cl orgName c s = Some (s', c', None)"
    and old: "cl_ContextExists (cv_lib X) (st_config s) (kx_Name c') = Inr True"
      "cl_GetContext (cv_lib X) (st_config s) (kx_Name c') = Inr old" "meta_get old (OrgIDKey (cv_keys X)) = Some (MString oldID)"
    and path: "tanzuLocalKubeConfigPath (cv_kube X) = Inr path"
    and load: "LoadFromFile (kv_codec (cv_kube X)) (st_kube s) path = Inr k0"
      "map_of (kf_Clusters k0) (kubeconfigClusterName (kx_Name c')) = Some cl0"
  shows "meta_get c' (OrgIDKey (cv_keys X)) = Some (MString oldID) \<and>
    map_option cs_Endpoint (kx_ClusterOpts c') = Some (org_server_url (v_tanzuUCPEndpoint (st_vars s)) (cl_OrgID cl)) \<and>
    (\<exists>k cl1. LoadFromFile (kv_codec (cv_kube X)) (st_kube s') path = Inr k \<and>
       map_of (kf_Clusters k) (kubeconfigClusterName (kx_Name c')) = Some cl1 \<and> fills_cluster cl0 cl1)"
proof -
  let ?Y = "kv_codec (cv_kube X)"
  obtain c1 w where u: "updateContextWithTanzuKubeconfig X (v_tanzuUCPEndpoint (st_vars s)) (cl_OrgID cl)
        (v_endpointCACertPath (st_vars s)) (v_skipTLSVerify (st_vars s)) c1 (st_kube s) = Some (w, Inr c')"
      "save_login X c' (s\<lparr>st_kube := w\<rparr>) = (s', None)"
    using run by (auto simp: updateContextOnTanzuLogin_def Let_def split: option.splits sum.splits prod.splits)
  from tanzu_kubeconfig_merged [OF u(1) path] obtain b opts where
    b: "MergeKubeConfigWithoutSwitchContext ?Y b path (st_kube s) = (w, None)" and opts: "kx_ClusterOpts c' = Some opts" "cs_Path opts = path"
    by blast
  from merged_into_file [OF assms(2,3) load(1) local_path_nonempty [OF path] b] obtain k where
    k: "LoadFromFile ?Y w path = Inr k" "fills_clusters (kf_Clusters k0) (kf_Clusters k)" by blast
  from k(2) load(2) obtain cl1 where cl1: "map_of (kf_Clusters k) (kubeconfigClusterName (kx_Name c')) = Some cl1" "fills_cluster cl0 cl1"
    by (auto simp: fills_clusters_def)
  have sync: "\<exists>w'. syncCurrentKubeContext X opts w = (w', None) \<and> st_kube s' = w'"
    using u(2) opts(1) by (auto simp: save_login_def split: prod.splits option.splits)
  have "\<exists>k'. LoadFromFile ?Y (st_kube s') path = Inr k' \<and> map_of (kf_Clusters k') = map_of (kf_Clusters k)"
  proof (cases "env_flag (cv_environ X) ''TANZU_CLI_SKIP_UPDATE_KUBECONFIG_ON_CONTEXT_USE''")
    case True
    then show ?thesis using sync k(1) by (auto simp: syncCurrentKubeContext_def)
  next
    case False
    then show ?thesis using sync set_current_keeps [OF assms(2) k(1)] opts(2) by (auto simp: syncCurrentKubeContext_def)
  qed
  then show ?thesis using relogin_keeps_organization [OF assms(1) run old] cl1 by fastforce
qed

section \<open>Witness\<close>

lemma adds_append: "adds_entries d n (d @ n)"
  by (auto simp: adds_entries_def map_add_def dom_def split: option.splits)

lemma demo_merge_laws: "merge_laws demo_kube"
proof -
  have "fills_clusters d (d @ n)" for d n
    by (simp add: fills_clusters_def fills_cluster_def map_add_def)
  then show ?thesis by (auto simp: merge_laws_def demo_kube_def adds_append)
qed

definition relogin_state :: "(kube_config, config_context list) ctx_state" where
  "relogin_state = demo_state\<lparr>st_vars := demo_vars\<lparr>v_tanzuUCPEndpoint := ''ucp''\<rparr>,
     st_kube := demo_files\<lparr>kw_files := [''/local/kube/config'' \<mapsto> demo_kubeconfig]\<rparr>\<rparr>"

definition relogin_run :: "((kube_config, config_context list) ctx_state \<times> config_context \<times> err option) option" where
  "relogin_run = updateContextOnTanzuLogin (demo_env Map.empty (\<lambda>_. None)) (Some (\<lambda>n ep st. ''a''))
     \<lparr>cl_Username = ''user'', cl_Permissions = [], cl_OrgID = ''2''\<rparr> ''Org'' (demo_ctx\<lparr>kx_Name := ''uuid''\<rparr>) relogin_state"

theorem relogin_addresses_old_organization_witness:
  "\<exists>s' c' k cl1. relogin_run = Some (s', c', None) \<and> map_option cs_Endpoint (kx_ClusterOpts c') = Some ''https://ucp/org/2'' \<and>
     LoadFromFile demo_kube (st_kube s') ''/local/kube/config'' = Inr k \<and> map_of (kf_Clusters k) ''tanzu-cli-a'' = Some cl1 \<and>
     ku_Server cl1 = ''ucp/org/1''"
proof -
  let ?X = "demo_env Map.empty (\<lambda>_. None)"
  have "map_option (\<lambda>(s', c', e). (kx_Name c', e)) relogin_run = Some (''a'', None)" by code_simp
  then obtain s' c' where r: "relogin_run = Some (s', c', None)" "kx_Name c' = ''a''" by auto
  have ok: "cl_ContextExists (cv_lib ?X) (st_config relogin_state) ''a'' = Inr True"
    "cl_GetContext (cv_lib ?X) (st_config relogin_state) ''a'' = Inr demo_ctx"
    "meta_get demo_ctx (OrgIDKey (cv_keys ?X)) = Some (MString ''1'')" "context_keys_law (cv_keys ?X)"
    "tanzuLocalKubeConfigPath (cv_kube ?X) = Inr ''/local/kube/config''" "org_server_url ''ucp'' ''2'' = ''https://ucp/org/2''"
    "kubeconfigClusterName ''a'' = ''tanzu-cli-a''" "v_tanzuUCPEndpoint (st_vars relogin_state) = ''ucp''"
    by code_simp+
  have load: "LoadFromFile demo_kube (st_kube relogin_state) ''/local/kube/config'' = Inr demo_kubeconfig"
    by (simp add: LoadFromFile_def relogin_state_def demo_files_def demo_kube_def)
  have cl0: "map_of (kf_Clusters demo_kubeconfig) ''tanzu-cli-a'' =
      Some \<lparr>ku_Server = ''ucp/org/1'', ku_InsecureSkipTLSVerify = True, ku_CertificateAuthorityData = ''''\<rparr>"
    by (simp add: demo_kubeconfig_def)
  from relogin_addresses_old_organization [of ?X, unfolded demo_env_simps, OF _ demo_kube_laws demo_merge_laws
      r(1) [unfolded relogin_run_def], unfolded r(2) ok(7)] ok load cl0
  obtain k cl1 where "map_option cs_Endpoint (kx_ClusterOpts c') = Some ''https://ucp/org/2''"
    "LoadFromFile demo_kube (st_kube s') ''/local/kube/config'' = Inr k" "map_of (kf_Clusters k) ''tanzu-cli-a'' = Some cl1"
    "ku_Server cl1 = ''ucp/org/1''"
    by (fastforce simp: fills_cluster_def)
  with r(1) show ?thesis by blast
qed

end
