(* ===== verification/Pinniped_Correct.thy ===== *)
theory Pinniped_Correct
  imports Pinniped_Login Kube_Merge
begin

text \<open>
  The connections of a login with Pinniped and their TLS configurations, and a context created for a cluster
  endpoint names a kube context of the file it refers to.
\<close>

section \<open>Connections of a login\<close>

text \<open>The connections to the endpoint: the certificates of the system and of the user's file, verified unless the user skips it.\<close>

definition endpoint_tls :: "'b pinniped_env \<Rightarrow> 'b kube_env \<Rightarrow> string \<Rightarrow> bool \<Rightarrow> tkg_tls \<Rightarrow> bool" where
  "endpoint_tls P V ca skip tls \<longleftrightarrow> tl_InsecureSkipVerify tls = skip \<and>
     (\<exists>sys. pn_SystemCertPool P = Inr sys \<and>
        (if ca = '''' then tl_RootCAs tls = sys
         else \<not> skip \<and> (\<exists>pem. kv_ReadFile V ca = Inr pem \<and> pn_AppendCertsFromPEM P pem \<noteq> [] \<and>
           tl_RootCAs tls = sys @ pn_AppendCertsFromPEM P pem)))"

definition endpoint_map :: "string \<Rightarrow> string \<Rightarrow> string" where
  "endpoint_map ep configmap = public_config_map (trim_right_blank_slash (api_server_url ep)) configmap"

text \<open>A cluster of the kubeconfig which the endpoint publishes over such a connection.\<close>

definition published_cluster ::
    "'b pinniped_env \<Rightarrow> 'b kube_env \<Rightarrow> string \<Rightarrow> string \<Rightarrow> bool \<Rightarrow> kube_cluster \<Rightarrow> bool" where
  "published_cluster P V ep ca skip c \<longleftrightarrow>
     (\<exists>tls configmap body kc config k. endpoint_tls P V ca skip tls \<and> configmap \<in> {''cluster-info'', ''vip-cluster-info''} \<and>
        pn_Get P tls (endpoint_map ep configmap) = Inr (200, Inr body) \<and> pn_DecodeClusterInfo P body = Inr kc \<and>
        ky_Load (kv_codec V) kc = Inr config \<and> map_of (kf_Clusters config) k = Some c)"

text \<open>The connections to that cluster: verified with the certificate of the published kubeconfig and nothing else.\<close>

definition cluster_tls :: "'b pinniped_env \<Rightarrow> kube_cluster \<Rightarrow> tkg_tls" where
  "cluster_tls P c = \<lparr>tl_RootCAs = pn_AppendCertsFromPEM P (ku_CertificateAuthorityData c), tl_InsecureSkipVerify = False\<rparr>"

definition pinniped_info_url :: "'b pinniped_env \<Rightarrow> kube_cluster \<Rightarrow> string \<Rightarrow> bool" where
  "pinniped_info_url P c u \<longleftrightarrow>
     (\<exists>ep. (ep = trim_right_blank_slash (ku_Server c) \<or> SetPort P (ku_Server c) ''443'' = Inr ep) \<and>
        u = public_config_map ep ''pinniped-info'')"

definition login_connection :: "'b pinniped_env \<Rightarrow> 'b kube_env \<Rightarrow> string \<Rightarrow> string \<Rightarrow> bool \<Rightarrow> tkg_tls \<Rightarrow> string \<Rightarrow> bool" where
  "login_connection P V ep ca skip tls u \<longleftrightarrow>
     endpoint_tls P V ca skip tls \<and> u \<in> {ep @ ''/wcp/loginbanner'', endpoint_map ep ''cluster-info'', endpoint_map ep ''vip-cluster-info''} \<or>
     (\<exists>c. published_cluster P V ep ca skip c \<and> tls = cluster_tls P c \<and> pinniped_info_url P c u)"

lemma get_simps:
  "pn_SystemCertPool (P\<lparr>pn_Get := g\<rparr>) = pn_SystemCertPool P" "pn_AppendCertsFromPEM (P\<lparr>pn_Get := g\<rparr>) = pn_AppendCertsFromPEM P"
  "pn_ParseURL (P\<lparr>pn_Get := g\<rparr>) = pn_ParseURL P" "pn_Get (P\<lparr>pn_Get := g\<rparr>) = g"
  "pn_DecodeClusterInfo (P\<lparr>pn_Get := g\<rparr>) = pn_DecodeClusterInfo P"
  "pn_DecodePinnipedInfo (P\<lparr>pn_Get := g\<rparr>) = pn_DecodePinnipedInfo P" "pn_MarshalConfig (P\<lparr>pn_Get := g\<rparr>) = pn_MarshalConfig P"
  "pn_InstalledPlugins (P\<lparr>pn_Get := g\<rparr>) = pn_InstalledPlugins P" "pn_NewRootCmd (P\<lparr>pn_Get := g\<rparr>) = pn_NewRootCmd P"
  "pn_Execute (P\<lparr>pn_Get := g\<rparr>) = pn_Execute P" "pn_ErrorText (P\<lparr>pn_Get := g\<rparr>) = pn_ErrorText P"
  by simp_all

lemma tls_config_get: "tkg_GetTLSConfig (P\<lparr>pn_Get := g\<rparr>) V ca skip = tkg_GetTLSConfig P V ca skip"
  unfolding tkg_GetTLSConfig_def get_simps ..

lemma set_port_get: "SetPort (P\<lparr>pn_Get := g\<rparr>) u port = SetPort P u port"
  unfolding SetPort_def get_simps ..

lemma tls_config_endpoint: "tkg_GetTLSConfig P V ca skip = Inr tls \<Longrightarrow> endpoint_tls P V ca skip tls"
  by (auto simp: tkg_GetTLSConfig_def endpoint_tls_def split: if_splits sum.splits)

text \<open>Two environments that answer the connections of a login alike.\<close>

definition same_answers :: "'b pinniped_env \<Rightarrow> 'b kube_env \<Rightarrow> string \<Rightarrow> string \<Rightarrow> bool \<Rightarrow> (tkg_tls \<Rightarrow> string \<Rightarrow> (int \<times> string res) res) \<Rightarrow> bool" where
  "same_answers P V ep ca skip h \<longleftrightarrow> (\<forall>tls u. login_connection P V ep ca skip tls u \<longrightarrow> h tls u = pn_Get P tls u)"

lemma cluster_info_same:
  assumes "same_answers P V ep ca skip h" "cm = ''cluster-info'' \<or> cm = ''vip-cluster-info''"
  shows "GetClusterInfoFromCluster L (P\<lparr>pn_Get := h\<rparr>) V ep cm ca skip = GetClusterInfoFromCluster L P V ep cm ca skip"
proof (cases "tkg_GetTLSConfig P V ca skip")
  case (Inl e)
  then show ?thesis unfolding GetClusterInfoFromCluster_def get_simps tls_config_get Inl by (simp cong: sum.case_cong)
next
  case (Inr tls)
  then have "h tls (endpoint_map ep cm) = pn_Get P tls (endpoint_map ep cm)"
    using assms tls_config_endpoint [OF Inr] by (auto simp: same_answers_def login_connection_def)
  then show ?thesis
    unfolding GetClusterInfoFromCluster_def get_simps tls_config_get Inr Let_def endpoint_map_def by (simp cong: sum.case_cong)
qed

lemma cluster_info_published:
  assumes "range_law L" "GetClusterInfoFromCluster L P V ep cm ca skip = Inr c" "cm = ''cluster-info'' \<or> cm = ''vip-cluster-info''"
  shows "published_cluster P V ep ca skip c"
proof -
  from assms(2) obtain tls body kc config k ks where
    r: "tkg_GetTLSConfig P V ca skip = Inr tls" "pn_Get P tls (endpoint_map ep cm) = Inr (200, Inr body)"
      "pn_DecodeClusterInfo P body = Inr kc" "ky_Load (kv_codec V) kc = Inr config"
      "range_keys L (kf_Clusters config) = k # ks" "c = the (map_of (kf_Clusters config) k)"
    by (auto simp: GetClusterInfoFromCluster_def Let_def endpoint_map_def split: sum.splits if_splits prod.splits list.splits)
  have "k \<in> set (keys_of (kf_Clusters config))" using range_keys_set [OF assms(1)] r(5) by (metis list.set_intros(1))
  then obtain c' where "map_of (kf_Clusters config) k = Some c'"
    by (cases "map_of (kf_Clusters config) k") (auto simp: keys_of_def map_of_eq_None_iff)
  then have "map_of (kf_Clusters config) k = Some c" using r(6) by simp
  with r(2-4) assms(3) tls_config_endpoint [OF r(1)] show ?thesis unfolding published_cluster_def by blast
qed

lemma pinniped_info_same:
  assumes "same_answers P V ep ca skip h" "published_cluster P V ep ca skip c" "port = None \<or> port = Some ''443''"
  shows "GetPinnipedInfoFromCluster (P\<lparr>pn_Get := h\<rparr>) c port = GetPinnipedInfoFromCluster P c port"
proof -
  have "h (cluster_tls P c) u = pn_Get P (cluster_tls P c) u" if "pinniped_info_url P c u" for u
    using assms(1,2) that unfolding same_answers_def login_connection_def by blast
  then have "h (cluster_tls P c) (public_config_map ep' ''pinniped-info'') = pn_Get P (cluster_tls P c) (public_config_map ep' ''pinniped-info'')"
    if "ep' = trim_right_blank_slash (ku_Server c) \<or> SetPort P (ku_Server c) ''443'' = Inr ep'" for ep'
    using that unfolding pinniped_info_url_def by blast
  then show ?thesis using assms(3)
    unfolding GetPinnipedInfoFromCluster_def get_simps set_port_get cluster_tls_def [symmetric]
    by (cases "SetPort P (ku_Server c) ''443''") auto
qed

lemma kubeconfig_same:
  assumes "same_answers P V ep ca skip h" "range_law L" "st \<in> {(None, ''cluster-info''), (Some ''443'', ''vip-cluster-info'')}"
  shows "KubeconfigWithPinnipedAuthLoginPlugin L (P\<lparr>pn_Get := h\<rparr>) V ep opt st ca skip w =
    KubeconfigWithPinnipedAuthLoginPlugin L P V ep opt st ca skip w"
proof -
  obtain port cm where st: "st = (port, cm)" by force
  have c: "cm = ''cluster-info'' \<or> cm = ''vip-cluster-info''" and p: "port = None \<or> port = Some ''443''"
    using assms(3) st by auto
  show ?thesis
    unfolding KubeconfigWithPinnipedAuthLoginPlugin_def st prod.case cluster_info_same [OF assms(1) c] get_simps
    by (cases "GetClusterInfoFromCluster L P V ep cm ca skip")
      (simp_all add: pinniped_info_same [OF assms(1) cluster_info_published [OF assms(2) _ c] p])
qed

text \<open>C23 (safety): what a login to a cluster endpoint does depends only on the answers of these connections, with the TLS
  configurations given here: to the endpoint, verified with the certificates of the system and of the user's file unless the user skips
  the verification; and to the cluster that the endpoint publishes, always verified, with the certificate of the published kubeconfig
  alone, whatever the user skips. An endpoint or a published cluster with an \<^verbatim>\<open>http://\<close> address is connected to without TLS, and
  these configurations have no effect there.\<close>

theorem pinniped_login_verified:
  assumes "range_law L"
    and "\<forall>tls u. login_connection P V (v_endpoint v) (v_endpointCACertPath v) (v_skipTLSVerify v) tls u \<longrightarrow> h tls u = pn_Get P tls u"
  shows "fetch_GetPinnipedKubeconfig L (P\<lparr>pn_Get := h\<rparr>) V v
      (NewTKGKubeconfigFetcher (v_endpoint v) (v_endpointCACertPath v) (v_skipTLSVerify v)) w =
    fetch_GetPinnipedKubeconfig L P V v
      (NewTKGKubeconfigFetcher (v_endpoint v) (v_endpointCACertPath v) (v_skipTLSVerify v)) w"
proof -
  let ?ep = "v_endpoint v" and ?ca = "v_endpointCACertPath v" and ?skip = "v_skipTLSVerify v"
  let ?tf = "NewTKGKubeconfigFetcher ?ep ?ca ?skip"
  have same: "same_answers P V ?ep ?ca ?skip h" using assms(2) by (simp add: same_answers_def)
  have kubeconfigs: "KubeconfigWithPinnipedAuthLoginPlugin L (P\<lparr>pn_Get := h\<rparr>) V ?ep None (None, ''cluster-info'') ?ca ?skip w =
      KubeconfigWithPinnipedAuthLoginPlugin L P V ?ep None (None, ''cluster-info'') ?ca ?skip w"
    "KubeconfigWithPinnipedAuthLoginPlugin L (P\<lparr>pn_Get := h\<rparr>) V ?ep None (Some ''443'', ''vip-cluster-info'') ?ca ?skip w =
      KubeconfigWithPinnipedAuthLoginPlugin L P V ?ep None (Some ''443'', ''vip-cluster-info'') ?ca ?skip w"
    by (rule kubeconfig_same [OF same assms(1)]; simp)+
  have "getKubeconfigForPriorTKGVersion L (P\<lparr>pn_Get := h\<rparr>) V v ?tf w = getKubeconfigForPriorTKGVersion L P V v ?tf w"
  proof (cases "tkg_GetTLSConfig P V ?ca ?skip")
    case (Inl e)
    then show ?thesis by (simp add: getKubeconfigForPriorTKGVersion_def NewTKGKubeconfigFetcher_def tls_config_get)
  next
    case (Inr tls)
    then have "h tls (?ep @ ''/wcp/loginbanner'') = pn_Get P tls (?ep @ ''/wcp/loginbanner'')"
      using same tls_config_endpoint [OF Inr] by (auto simp: same_answers_def login_connection_def)
    then have "IsVSphereSupervisor (P\<lparr>pn_Get := h\<rparr>) tls ?ep = IsVSphereSupervisor P tls ?ep"
      unfolding IsVSphereSupervisor_def get_simps by simp
    note eqs = this Inr kubeconfigs
    show ?thesis
      by (simp add: eqs getKubeconfigForPriorTKGVersion_def NewTKGKubeconfigFetcher_def vSphereSupervisorLogin_def tls_config_get
          split: sum.split bool.split)
  qed
  then show ?thesis
    unfolding fetch_GetPinnipedKubeconfig_def isPinnipedPluginInstalled_def getKubeconfigUsingPinnipedAuthPlugin_def get_simps by (simp only:)
qed

section \<open>The context names a kube context\<close>

definition has_current :: "kube_config \<Rightarrow> bool" where
  "has_current k \<longleftrightarrow> kf_CurrentContext k \<in> dom (map_of (kf_Contexts k))"

text \<open>The plugin prints a kubeconfig with a current context, and decoding the JSON of a kubeconfig gives the same one.\<close>

definition kubeconfig_sources :: "'b kube_codec \<Rightarrow> 'b pinniped_env \<Rightarrow> bool" where
  "kubeconfig_sources Y P \<longleftrightarrow>
     (\<forall>args sOut sErr k. pn_Execute P args = (sOut, sErr, None) \<longrightarrow> ky_Load Y sOut = Inr k \<longrightarrow> has_current k) \<and>
     (\<forall>k b k'. pn_MarshalConfig P k = Inr b \<longrightarrow> ky_Load Y b = Inr k' \<longrightarrow> kube_same k k')"

lemma has_current_same: "kube_same k k' \<Longrightarrow> has_current k = has_current k'"
  by (simp add: has_current_def kube_same_def)

lemma pinniped_has_current: "has_current (GetPinnipedKubeconfig V cl info n a)"
  by (simp add: has_current_def GetPinnipedKubeconfig_def Let_def)

definition kube_context_saved :: "'b kube_codec \<Rightarrow> 'b kube_fs \<Rightarrow> 'b kube_fs \<times> (string \<times> string) res \<Rightarrow> bool" where
  "kube_context_saved Y w r \<longleftrightarrow>
     (\<forall>w' path kctx. r = (w', Inr (path, kctx)) \<longrightarrow>
        path = ky_DefaultFile Y \<and>
        (\<exists>k. LoadFromFile Y w' path = Inr k \<and> kctx \<in> dom (map_of (kf_Contexts k)) \<and>
           (\<forall>k0. LoadFromFile Y w path = Inr k0 \<longrightarrow>
              kf_CurrentContext k = kf_CurrentContext k0 \<and> dom (map_of (kf_Contexts k0)) \<subseteq> dom (map_of (kf_Contexts k)))))"

lemma kube_context_saved_map [simp]:
  "kube_context_saved Y w (map_prod id (map_sum f id) r) = kube_context_saved Y w r"
  by (cases r; cases "snd r") (auto simp: kube_context_saved_def)

lemma merge_saves:
  assumes "kube_laws Y" "merge_laws Y" "kw_load w (ky_DefaultFile Y) = None" "ky_DefaultFile Y \<noteq> ''''"
    and "\<And>k. ky_Load Y b = Inr k \<Longrightarrow> has_current k"
  shows "kube_context_saved Y w (MergeAndSaveKubeconfigBytes Y b None w)"
  unfolding kube_context_saved_def
proof (intro allI impI)
  fix w' path kctx assume run: "MergeAndSaveKubeconfigBytes Y b None w = (w', Inr (path, kctx))"
  then have m: "MergeKubeConfigWithoutSwitchContext Y b (ky_DefaultFile Y) w = (w', None)" and p: "path = ky_DefaultFile Y"
    and kctx: "\<And>n. ky_Load Y b = Inr n \<Longrightarrow> kctx = kf_CurrentContext n"
    by (auto simp: MergeAndSaveKubeconfigBytes_def Let_def split: prod.splits option.splits sum.splits)
  have "\<exists>k. LoadFromFile Y w' path = Inr k \<and> kctx \<in> dom (map_of (kf_Contexts k)) \<and>
      (\<forall>k0. LoadFromFile Y w path = Inr k0 \<longrightarrow>
         kf_CurrentContext k = kf_CurrentContext k0 \<and> dom (map_of (kf_Contexts k0)) \<subseteq> dom (map_of (kf_Contexts k)))"
  proof (cases "LoadFromFile Y w path")
    case (Inl e)
    have "kw_files w path = None"
    proof (rule ccontr)
      assume "kw_files w path \<noteq> None"
      then show False using m Inl assms(4) p by (auto simp: MergeKubeConfigWithoutSwitchContext_def Let_def split: sum.splits)
    qed
    from new_file [OF assms(1) this _ _ m [folded p]] assms(3,4) p obtain n k where
      "ky_Load Y b = Inr n" "LoadFromFile Y w' path = Inr k" "kube_same n k" by auto
    then show ?thesis using assms(5) kctx Inl by (auto simp: has_current_def kube_same_def)
  next
    case (Inr k0)
    from merged_into_file [OF assms(1,2) Inr _ m [folded p]] assms(4) p obtain n k where
      "ky_Load Y b = Inr n" "LoadFromFile Y w' path = Inr k" "kf_CurrentContext k = kf_CurrentContext k0"
      "adds_entries (kf_Contexts k0) (kf_Contexts n) (kf_Contexts k)" by auto
    then show ?thesis using assms(5) [of n] kctx Inr by (auto simp: has_current_def adds_entries_def)
  qed
  then show "path = ky_DefaultFile Y \<and> (\<exists>k. LoadFromFile Y w' path = Inr k \<and> kctx \<in> dom (map_of (kf_Contexts k)) \<and>
      (\<forall>k0. LoadFromFile Y w path = Inr k0 \<longrightarrow>
         kf_CurrentContext k = kf_CurrentContext k0 \<and> dom (map_of (kf_Contexts k0)) \<subseteq> dom (map_of (kf_Contexts k))))"
    using p by blast
qed

lemma plugin_config_saves:
  assumes "kube_laws Y" "merge_laws Y" "kubeconfig_sources Y P" "kw_load w (ky_DefaultFile Y) = None" "ky_DefaultFile Y \<noteq> ''''"
    and "Y = kv_codec V"
  shows "kube_context_saved Y w (KubeconfigWithPinnipedAuthLoginPlugin L P V ep None st ca skip w)"
proof -
  have failed: "kube_context_saved Y w (w, Inl e)" for e by (simp add: kube_context_saved_def)
  have saved: "kube_context_saved Y w (MergeAndSaveKubeconfigBytes Y b None w)"
    if "pn_MarshalConfig P (GetPinnipedKubeconfig V cl info n a) = Inr b" for cl info n a b
  proof (rule merge_saves [OF assms(1,2,4,5)])
    fix k assume "ky_Load Y b = Inr k"
    then have "kube_same (GetPinnipedKubeconfig V cl info n a) k" using that assms(3) by (auto simp: kubeconfig_sources_def)
    then show "has_current k" using has_current_same pinniped_has_current by blast
  qed
  show ?thesis
    unfolding KubeconfigWithPinnipedAuthLoginPlugin_def assms(6) [symmetric]
    by (auto simp: failed saved split: prod.split sum.split option.split)
qed

lemma fetch_saves:
  assumes "kube_laws Y" "merge_laws Y" "kubeconfig_sources Y P" "kw_load w (ky_DefaultFile Y) = None" "ky_DefaultFile Y \<noteq> ''''"
    and "Y = kv_codec V"
  shows "kube_context_saved Y w (fetch_GetPinnipedKubeconfig L P V v tf w)"
proof -
  have failed: "kube_context_saved Y w (w, Inl e)" for e by (simp add: kube_context_saved_def)
  have prior: "kube_context_saved Y w (getKubeconfigForPriorTKGVersion L P V v tf w)"
    unfolding getKubeconfigForPriorTKGVersion_def vSphereSupervisorLogin_def
    by (auto simp: failed plugin_config_saves [OF assms] split: sum.split bool.split)
  have saved: "kube_context_saved Y w (MergeAndSaveKubeconfigBytes Y b None w)"
    if "getKubeconfigUsingPinnipedAuthPlugin P V tf = Inr b" for b
  proof (rule merge_saves [OF assms(1,2,4,5)])
    fix k assume k: "ky_Load Y b = Inr k"
    from that obtain args sErr where "pn_Execute P args = (b, sErr, None)"
      by (auto simp: getKubeconfigUsingPinnipedAuthPlugin_def Let_def split: option.splits sum.splits prod.splits if_splits)
    then show "has_current k" using k assms(3) by (auto simp: kubeconfig_sources_def)
  qed
  show ?thesis
    unfolding fetch_GetPinnipedKubeconfig_def assms(6) [symmetric]
    by (auto simp: failed prior saved split: sum.split bool.split)
qed

text \<open>A context that is created for a cluster endpoint names a kube context which the kubeconfig file it names
  contains; the file keeps its contexts and its current context.\<close>

theorem cluster_context_has_kube_context:
  assumes "kube_laws (kv_codec V)" "merge_laws (kv_codec V)" "kubeconfig_sources (kv_codec V) P"
    and "kw_load (st_kube s) (ky_DefaultFile (kv_codec V)) = None" "ky_DefaultFile (kv_codec V) \<noteq> ''''"
    and provider: "\<And>ep ca skip w. cv_PinnipedKubeconfig X ep ca skip w =
      fetch_GetPinnipedKubeconfig L P V (v\<lparr>v_endpoint := ep, v_endpointCACertPath := ca, v_skipTLSVerify := skip\<rparr>)
        (NewTKGKubeconfigFetcher ep ca skip) w"
    and run: "createContextWithClusterEndpoint X s = (s', Inr ctx)"
  shows "\<exists>opts k. kx_ClusterOpts ctx = Some opts \<and> LoadFromFile (kv_codec V) (st_kube s') (cs_Path opts) = Inr k \<and>
     cs_Context opts \<in> dom (map_of (kf_Contexts k)) \<and>
     (\<forall>k0. LoadFromFile (kv_codec V) (st_kube s) (cs_Path opts) = Inr k0 \<longrightarrow>
        kf_CurrentContext k = kf_CurrentContext k0 \<and> dom (map_of (kf_Contexts k0)) \<subseteq> dom (map_of (kf_Contexts k)))"
proof -
  obtain s1 where s1: "ask_endpoint_and_name X '''' s = (s1, Inr ())"
    using run by (auto simp: createContextWithClusterEndpoint_def split: prod.splits sum.splits)
  have kube: "st_kube s1 = st_kube s"
    using s1 by (auto simp: ask_endpoint_and_name_def Let_def split: sum.splits)
  let ?r = "fetch_GetPinnipedKubeconfig L P V (v\<lparr>v_endpoint := v_endpoint (st_vars s1), v_endpointCACertPath := v_endpointCACertPath (st_vars s1),
      v_skipTLSVerify := v_skipTLSVerify (st_vars s1)\<rparr>)
     (NewTKGKubeconfigFetcher (v_endpoint (st_vars s1)) (v_endpointCACertPath (st_vars s1)) (v_skipTLSVerify (st_vars s1))) (st_kube s)"
  from run s1 obtain w kc kctx opts where r: "?r = (w, Inr (kc, kctx))" "st_kube s' = w" "kx_ClusterOpts ctx = Some opts"
      "cs_Path opts = kc" "cs_Context opts = kctx"
    by (auto simp: createContextWithClusterEndpoint_def Let_def provider kube split: prod.splits sum.splits)
  from fetch_saves [OF assms(1-5) refl, of L] r(1) show ?thesis
    unfolding kube_context_saved_def r(2-5) [symmetric] by (metis r(2-5))
qed

section \<open>Witnesses\<close>

definition demo_cluster :: kube_cluster where
  "demo_cluster = \<lparr>ku_Server = ''https://c:6443'', ku_InsecureSkipTLSVerify = False, ku_CertificateAuthorityData = ''ca''\<rparr>"

text \<open>A cluster of a prior version; the plugin does not know the command.\<close>

definition demo_pinniped :: "kube_config pinniped_env" where
  "demo_pinniped =
     \<lparr>pn_SystemCertPool = Inr [''sys''], pn_AppendCertsFromPEM = (\<lambda>s. [s]), pn_ParseURL = Inr,
      pn_Get = (\<lambda>tls u. if u \<in> {public_config_map ''https://c:6443'' ''cluster-info'', public_config_map ''https://c:6443'' ''pinniped-info''}
         then Inr (200, Inr '''') else Inr (404, Inr '''')),
      pn_DecodeClusterInfo = (\<lambda>_. Inr \<lparr>kf_Clusters = [(''c'', demo_cluster)], kf_AuthInfos = [], kf_Contexts = [], kf_CurrentContext = ''''\<rparr>),
      pn_DecodePinnipedInfo = (\<lambda>_. Inr \<lparr>pq_ClusterName = ''c'', pq_Issuer = ''issuer'', pq_IssuerCABundle = '''', pq_ConciergeEndpoint = '''',
         pq_ConciergeIsClusterScoped = True\<rparr>),
      pn_MarshalConfig = Inr, pn_InstalledPlugins = Inr [zero_plugin_info\<lparr>pi_Name := ''pinniped-auth''\<rparr>], pn_NewRootCmd = None,
      pn_Execute = (\<lambda>args. (ky_NoBytes demo_kube, '''', Some ErrNotExist)), pn_ErrorText = (\<lambda>_. unknown_kubeconfig_command)\<rparr>"

definition demo_provider :: "string \<Rightarrow> string \<Rightarrow> bool \<Rightarrow> kube_config kube_fs \<Rightarrow> kube_config kube_fs \<times> (string \<times> string) res" where
  "demo_provider ep ca skip w =
     fetch_GetPinnipedKubeconfig dotted_lib demo_pinniped (demo_kube_env Map.empty)
       (demo_vars\<lparr>v_endpoint := ep, v_endpointCACertPath := ca, v_skipTLSVerify := skip\<rparr>) (NewTKGKubeconfigFetcher ep ca skip) w"

definition cluster_env :: "(kube_config, config_context list, string) ctx_env" where
  "cluster_env = (demo_env Map.empty (\<lambda>_. None))\<lparr>cv_PinnipedKubeconfig := demo_provider\<rparr>"

definition cluster_state :: "(kube_config, config_context list) ctx_state" where
  "cluster_state = demo_state\<lparr>st_vars := demo_vars\<lparr>v_endpoint := ''https://c:6443'', v_ctxName := ''new''\<rparr>\<rparr>"

definition cluster_run :: "(kube_config, config_context list) ctx_state \<times> config_context res" where
  "cluster_run = createContextWithClusterEndpoint cluster_env cluster_state"

theorem cluster_context_has_kube_context_witness:
  "\<exists>s' ctx opts k. cluster_run = (s', Inr ctx) \<and> kx_ClusterOpts ctx = Some opts \<and>
     LoadFromFile demo_kube (st_kube s') (cs_Path opts) = Inr k \<and> cs_Context opts \<in> dom (map_of (kf_Contexts k))"
proof -
  have "map_sum (\<lambda>_. ()) kx_Name (snd cluster_run) = Inr ''new''" by code_simp
  then obtain ctx where "snd cluster_run = Inr ctx" by (cases "snd cluster_run") auto
  then obtain s' where run: "cluster_run = (s', Inr ctx)" by (metis prod.collapse)
  have "kubeconfig_sources demo_kube demo_pinniped"
    by (simp add: kubeconfig_sources_def demo_pinniped_def demo_kube_def kube_same_def)
  moreover have "kw_load (st_kube cluster_state) (ky_DefaultFile demo_kube) = None" "ky_DefaultFile demo_kube \<noteq> ''''"
    by (simp_all add: cluster_state_def demo_state_def demo_files_def demo_kube_def)
  moreover have "cv_PinnipedKubeconfig cluster_env = demo_provider" "kv_codec (demo_kube_env Map.empty) = demo_kube"
    by (simp_all add: cluster_env_def demo_kube_env_def)
  ultimately show ?thesis
    using cluster_context_has_kube_context [of "demo_kube_env Map.empty" demo_pinniped cluster_state cluster_env dotted_lib demo_vars s' ctx]
      demo_kube_laws demo_merge_laws run
    by (auto simp: demo_provider_def cluster_run_def)
qed

text \<open>The user skips the verification; an attacker answers every connection to the cluster that does not verify its certificate,
  and every connection to the endpoint over other certificates.\<close>

definition attacked_answers :: "tkg_tls \<Rightarrow> string \<Rightarrow> (int \<times> string res) res" where
  "attacked_answers tls u =
     (if tls \<in> {\<lparr>tl_RootCAs = [''sys''], tl_InsecureSkipVerify = True\<rparr>, \<lparr>tl_RootCAs = [''ca''], tl_InsecureSkipVerify = False\<rparr>}
      then pn_Get demo_pinniped tls u else Inr (200, Inr ''forged''))"

theorem pinniped_login_verified_witness:
  "\<exists>w. fetch_GetPinnipedKubeconfig dotted_lib (demo_pinniped\<lparr>pn_Get := attacked_answers\<rparr>) (demo_kube_env Map.empty)
     (demo_vars\<lparr>v_endpoint := ''https://c:6443'', v_endpointCACertPath := '''', v_skipTLSVerify := True\<rparr>)
     (NewTKGKubeconfigFetcher ''https://c:6443'' '''' True) demo_files = (w, Inr (''/home/.kube/config'', ''tanzu-cli-c@c''))"
proof -
  let ?v = "demo_vars\<lparr>v_endpoint := ''https://c:6443'', v_endpointCACertPath := '''', v_skipTLSVerify := True\<rparr>"
  let ?run = "\<lambda>P. fetch_GetPinnipedKubeconfig dotted_lib P (demo_kube_env Map.empty) ?v
     (NewTKGKubeconfigFetcher (v_endpoint ?v) (v_endpointCACertPath ?v) (v_skipTLSVerify ?v)) demo_files"
  have c: "c = demo_cluster" if "published_cluster demo_pinniped (demo_kube_env Map.empty) ep ca skip c" for ep ca skip c
    using that by (auto simp: published_cluster_def demo_pinniped_def demo_kube_env_def demo_kube_def split: if_splits)
  have t: "cluster_tls demo_pinniped demo_cluster = \<lparr>tl_RootCAs = [''ca''], tl_InsecureSkipVerify = False\<rparr>"
    by (simp add: cluster_tls_def demo_pinniped_def demo_cluster_def)
  have e: "tls = \<lparr>tl_RootCAs = [''sys''], tl_InsecureSkipVerify = True\<rparr>"
    if "endpoint_tls demo_pinniped (demo_kube_env Map.empty) '''' True tls" for tls
    using that by (cases tls) (simp add: endpoint_tls_def demo_pinniped_def)
  have "attacked_answers tls u = pn_Get demo_pinniped tls u"
    if "login_connection demo_pinniped (demo_kube_env Map.empty) ep '''' True tls u" for ep tls u
  proof -
    have "tls \<in> {\<lparr>tl_RootCAs = [''sys''], tl_InsecureSkipVerify = True\<rparr>, \<lparr>tl_RootCAs = [''ca''], tl_InsecureSkipVerify = False\<rparr>}"
      using that c e t unfolding login_connection_def by blast
    then show ?thesis unfolding attacked_answers_def by (rule if_P)
  qed
  then have "\<forall>tls u. login_connection demo_pinniped (demo_kube_env Map.empty) (v_endpoint ?v) (v_endpointCACertPath ?v) (v_skipTLSVerify ?v) tls u \<longrightarrow>
      attacked_answers tls u = pn_Get demo_pinniped tls u" by simp
  from pinniped_login_verified [OF dotted_range_law this, where w = demo_files]
  have "?run (demo_pinniped\<lparr>pn_Get := attacked_answers\<rparr>) = ?run demo_pinniped" .
  moreover have "map_sum (\<lambda>_. ()) id (snd (?run demo_pinniped)) = Inr (''/home/.kube/config'', ''tanzu-cli-c@c'')" by code_simp
  ultimately show ?thesis
    by (cases "?run demo_pinniped"; cases "snd (?run demo_pinniped)") auto
qed

end
