(* ===== verification/Inventory_Publish.thy ===== *)
theory Inventory_Publish
  imports Inventory_Roundtrip
begin

text \<open>
  Publishing: the builder plugin's inventory commands, \<^verbatim>\<open>cmd/plugin/builder/inventory/\<close>. They fetch the inventory database
  of a repository (or take a local file), add plugins or a group of plugins from a manifest to it or change their
  activation, and push the database back.

  The state is the database files on disk and the databases in the images of the repository. The digests of the
  binaries are fetched concurrently: \<open>px_schedule\<close> is the order in which the fetches end. A failed push leaves
  the repository as it was.
\<close>

section \<open>State\<close>

record group_manifest_plugin =
  gm_Name :: string
  gm_Target :: string
  gm_IsContextScoped :: bool
  gm_Version :: string

record update_options =
  uo_Repository :: string
  uo_InventoryImageTag :: string
  uo_ManifestFile :: string
  uo_Publisher :: string
  uo_Vendor :: string
  uo_InventoryDBFile :: string
  uo_DeactivatePlugins :: bool
  uo_ValidateOnly :: bool

record group_update_options =
  gu_Repository :: string
  gu_InventoryImageTag :: string
  gu_PluginGroupManifestFile :: string
  gu_Publisher :: string
  gu_Vendor :: string
  gu_GroupName :: string
  gu_GroupVersion :: string
  gu_Description :: string
  gu_InventoryDBFile :: string
  gu_DeactivatePluginGroup :: bool
  gu_Override :: bool

record digest_task =
  dt_image :: string
  dt_filename :: string
  dt_arch :: string

record pub_env =
  px_environ :: environ
  px_ReadFile :: "string \<Rightarrow> string res"
  px_yaml_manifest :: "string \<Rightarrow> manifest_plugin list res"
  px_yaml_group_manifest :: "string \<Rightarrow> group_manifest_plugin list res"
  px_Digest :: "string \<Rightarrow> string \<Rightarrow> string res"
  px_schedule :: "digest_task list \<Rightarrow> digest_task list"
  px_CreateTemp :: "string res"
  px_MkdirTemp :: "string res"
  px_TempDir :: string
  px_Copy :: "string \<Rightarrow> err option"
  px_Pull :: "string \<Rightarrow> err option"
  px_Push :: "string \<Rightarrow> err option"
  px_Resolve :: "string \<Rightarrow> err option"
  px_empty :: inv_store

record pub_state =
  pu_remote :: "string \<Rightarrow> inv_store option"
  pu_local :: "string \<Rightarrow> inv_store"

abbreviation LinuxAMD64 :: string where "LinuxAMD64 \<equiv> ''linux_amd64''"
abbreviation LinuxARM64 :: string where "LinuxARM64 \<equiv> ''linux_arm64''"

definition MinOSArch :: "string list" where "MinOSArch = [LinuxAMD64, DarwinAMD64, WinAMD64]"

definition AllOSArch :: "string list" where
  "AllOSArch = [LinuxAMD64, DarwinAMD64, WinAMD64, LinuxARM64, DarwinARM64, WinARM64]"

definition IsRequiredOSArch :: "string \<Rightarrow> bool" where
  "IsRequiredOSArch osArch \<longleftrightarrow> osArch \<in> set MinOSArch"

section \<open>The database file\<close>

definition db_image_path :: "string \<Rightarrow> string \<Rightarrow> string" where
  "db_image_path repository tag = repository @ ''/plugin-inventory:'' @ tag"

text \<open>An operation on the database in a file, which \<^verbatim>\<open>NewSQLiteInventory\<close> opens with an empty prefix.\<close>

definition on_db :: "string \<Rightarrow> (inv_store \<Rightarrow> inv_store \<times> err option) \<Rightarrow> pub_state \<Rightarrow> pub_state \<times> err option" where
  "on_db path f s =
     (case f ((pu_local s path)\<lparr>is_file := path, is_prefix := ''''\<rparr>) of
        (d, e) \<Rightarrow> (s\<lparr>pu_local := (pu_local s)(path := d)\<rparr>, e))"

text \<open>\<^verbatim>\<open>DownloadImageAndSaveFilesToDir\<close>: the database of the image becomes a file of the directory.\<close>

definition download_db :: "pub_env \<Rightarrow> string \<Rightarrow> string \<Rightarrow> pub_state \<Rightarrow> (pub_state \<times> string) res" where
  "download_db E img dir s =
     (case px_Pull E img of
        Some e \<Rightarrow> Inl (Wrapf e ''error while pulling database from the image: %q'' [img])
      | None \<Rightarrow>
          (case pu_remote s img of
             None \<Rightarrow> Inl (Wrapf (Errorf ''image not found'' [img]) ''error while pulling database from the image: %q'' [img])
           | Some d \<Rightarrow> let f = path_join [dir, ''plugin_inventory.db'']
                       in Inr (s\<lparr>pu_local := (pu_local s)(f := d\<lparr>is_file := f\<rparr>)\<rparr>, f)))"

definition push_db :: "pub_env \<Rightarrow> string \<Rightarrow> string \<Rightarrow> pub_state \<Rightarrow> pub_state \<times> err option" where
  "push_db E img dbFile s =
     (case px_Push E img of
        Some e \<Rightarrow> (s, Some (Wrapf e ''error while publishing inventory database to the repository as image: %q'' [img]))
      | None \<Rightarrow> (s\<lparr>pu_remote := (pu_remote s)(img \<mapsto> pu_local s dbFile)\<rparr>, None))"

definition CopyFile :: "pub_env \<Rightarrow> string \<Rightarrow> string \<Rightarrow> pub_state \<Rightarrow> pub_state \<times> err option" where
  "CopyFile E sourceFile destFile s =
     (if \<not> is_exists (pu_local s sourceFile) then (s, Some (Errorf ''no such file'' [sourceFile]))
      else case px_Copy E destFile of
          Some e \<Rightarrow> (s, Some e)
        | None \<Rightarrow> (s\<lparr>pu_local := (pu_local s)(destFile := (pu_local s sourceFile)\<lparr>is_file := destFile\<rparr>)\<rparr>, None))"

definition getInventoryDBFile :: "pub_env \<Rightarrow> update_options \<Rightarrow> pub_state \<Rightarrow> pub_state \<times> string res" where
  "getInventoryDBFile E opts s =
     (if uo_InventoryDBFile opts \<noteq> ''''
      then if uo_ValidateOnly opts
           then (case px_CreateTemp E of
                   Inl e \<Rightarrow> (s, Inl e)
                 | Inr tempFile \<Rightarrow>
                     (case CopyFile E (uo_InventoryDBFile opts) tempFile s of
                        (s1, Some e) \<Rightarrow> (s1, Inl e) | (s1, None) \<Rightarrow> (s1, Inr tempFile)))
           else (s, Inr (uo_InventoryDBFile opts))
      else (case px_MkdirTemp E of
              Inl e \<Rightarrow> (s, Inl (Wrapf e ''unable to create temporary directory'' []))
            | Inr dir \<Rightarrow>
                (case download_db E (db_image_path (uo_Repository opts) (uo_InventoryImageTag opts)) dir s of
                   Inl e \<Rightarrow> (s, Inl e) | Inr (s1, f) \<Rightarrow> (s1, Inr f))))"

definition putInventoryDBFile :: "pub_env \<Rightarrow> update_options \<Rightarrow> string \<Rightarrow> pub_state \<Rightarrow> pub_state \<times> err option" where
  "putInventoryDBFile E opts dbFile s =
     (if uo_ValidateOnly opts then (s, None)
      else if uo_InventoryDBFile opts \<noteq> '''' then (s, None)
      else push_db E (db_image_path (uo_Repository opts) (uo_InventoryImageTag opts)) dbFile s)"

section \<open>Entries from a manifest\<close>

definition ReadPluginManifest ::
    "(string \<Rightarrow> string res) \<Rightarrow> (string \<Rightarrow> manifest_plugin list res) \<Rightarrow> string \<Rightarrow> manifest_plugin list res" where
  "ReadPluginManifest readFile unmarshal pluginManifestFile =
     (case readFile pluginManifestFile of
        Inl e \<Rightarrow> Inl (Wrapf e ''fail to read the plugin manifest file'' [])
      | Inr data \<Rightarrow> map_sum (\<lambda>e. Wrapf e ''fail to read the plugin manifest file'' []) id (unmarshal data))"

definition plugin_image_base :: "update_options \<Rightarrow> manifest_plugin \<Rightarrow> string \<Rightarrow> string \<Rightarrow> string" where
  "plugin_image_base opts p osArch version =
     uo_Vendor opts @ ''/'' @ uo_Publisher opts @ ''/'' @ arch_OS osArch @ ''/'' @ arch_Arch osArch @ ''/'' @ mp_Target p @ ''/'' @
     mp_Name p @ '':'' @ version"

definition plugin_image :: "update_options \<Rightarrow> manifest_plugin \<Rightarrow> string \<Rightarrow> string \<Rightarrow> string" where
  "plugin_image opts p osArch version = uo_Repository opts @ ''/'' @ plugin_image_base opts p osArch version"

definition digest_tasks :: "update_options \<Rightarrow> manifest_plugin list \<Rightarrow> digest_task list" where
  "digest_tasks opts plugins =
     concat (map (\<lambda>p. concat (map (\<lambda>osArch. map (\<lambda>version.
       \<lparr>dt_image = plugin_image opts p osArch version, dt_filename = MakeArtifactName (mp_Name p) osArch, dt_arch = osArch\<rparr>)
       (mp_Versions p)) AllOSArch)) plugins)"

text \<open>One fetch, with the map of digests and the errors so far.\<close>

definition fetchPluginBinaryDigestFromImage ::
    "pub_env \<Rightarrow> digest_task \<Rightarrow> (string \<times> string) list \<times> err list \<Rightarrow> (string \<times> string) list \<times> err list" where
  "fetchPluginBinaryDigestFromImage E t = (\<lambda>(m, errs).
     case px_Digest E (dt_image t) (dt_filename t) of
       Inl e \<Rightarrow>
         if IsRequiredOSArch (dt_arch t)
         then (AList.update (dt_image t) '''' m,
               errs @ [Wrapf e ''error while getting plugin binary digest from the image %q'' [dt_image t]])
         else (m, errs)
     | Inr digest \<Rightarrow> (AList.update (dt_image t) digest m, errs))"

definition fetchPluginBinaryDigest ::
    "'v lib \<Rightarrow> pub_env \<Rightarrow> update_options \<Rightarrow> manifest_plugin list \<Rightarrow> (string \<times> string) list \<times> err option" where
  "fetchPluginBinaryDigest L E opts plugins =
     (case fold (fetchPluginBinaryDigestFromImage E) (px_schedule E (digest_tasks opts plugins)) ([], []) of
        (m, errs) \<Rightarrow> (m, if errs = [] then None else NewAggregate L errs))"

definition manifest_entry :: "update_options \<Rightarrow> manifest_plugin \<Rightarrow> inventory_entry" where
  "manifest_entry opts p =
     \<lparr>ie_Name = mp_Name p, ie_Target = mp_Target p, ie_Description = mp_Description p, ie_Publisher = uo_Publisher opts,
      ie_Vendor = uo_Vendor opts, ie_RecommendedVersion = '''', ie_Hidden = uo_DeactivatePlugins opts, ie_Artifacts = []\<rparr>"

definition add_artifact :: "string \<Rightarrow> artifact \<Rightarrow> inventory_entry \<Rightarrow> inventory_entry" where
  "add_artifact version a e =
     e\<lparr>ie_Artifacts := AList.update version (get_or [] (ie_Artifacts e) version @ [a]) (ie_Artifacts e)\<rparr>"

definition arch_artifact :: "update_options \<Rightarrow> manifest_plugin \<Rightarrow> string \<Rightarrow> string \<Rightarrow> string \<Rightarrow> artifact" where
  "arch_artifact opts p osArch version digest =
     \<lparr>a_Image = plugin_image_base opts p osArch version, a_URI = '''', a_Digest = digest, a_OS = arch_OS osArch, a_Arch = arch_Arch osArch\<rparr>"

definition updatePluginInventoryEntry ::
    "update_options \<Rightarrow> (string \<times> string) list \<Rightarrow> manifest_plugin \<Rightarrow> string \<Rightarrow> string \<Rightarrow> inventory_entry option \<Rightarrow>
     inventory_entry option res" where
  "updatePluginInventoryEntry opts digests p osArch version entry =
     (let found = (if uo_ValidateOnly opts then Some '''' else map_of digests (plugin_image opts p osArch version))
      in case found of
           None \<Rightarrow> Inr entry
         | Some digest \<Rightarrow>
             if \<not> uo_ValidateOnly opts \<and> digest = ''''
             then Inl (Errorf ''plugin binary digest cannot be empty for image %q'' [plugin_image opts p osArch version])
             else Inr (Some (add_artifact version (arch_artifact opts p osArch version digest)
                    (case entry of None \<Rightarrow> manifest_entry opts p | Some e \<Rightarrow> e))))"

fun entry_versions_loop ::
    "update_options \<Rightarrow> (string \<times> string) list \<Rightarrow> manifest_plugin \<Rightarrow> string \<Rightarrow> string list \<Rightarrow> inventory_entry option \<Rightarrow>
     inventory_entry option res" where
  "entry_versions_loop opts digests p osArch [] entry = Inr entry"
| "entry_versions_loop opts digests p osArch (version # versions) entry =
     (case updatePluginInventoryEntry opts digests p osArch version entry of
        Inl e \<Rightarrow> Inl e | Inr entry1 \<Rightarrow> entry_versions_loop opts digests p osArch versions entry1)"

fun entry_archs_loop ::
    "update_options \<Rightarrow> (string \<times> string) list \<Rightarrow> manifest_plugin \<Rightarrow> string list \<Rightarrow> inventory_entry option \<Rightarrow>
     inventory_entry option res" where
  "entry_archs_loop opts digests p [] entry = Inr entry"
| "entry_archs_loop opts digests p (osArch # archs) entry =
     (case entry_versions_loop opts digests p osArch (mp_Versions p) entry of
        Inl e \<Rightarrow> Inl e | Inr entry1 \<Rightarrow> entry_archs_loop opts digests p archs entry1)"

fun entries_loop ::
    "update_options \<Rightarrow> (string \<times> string) list \<Rightarrow> manifest_plugin list \<Rightarrow> inventory_entry option list \<Rightarrow>
     inventory_entry option list res" where
  "entries_loop opts digests [] entries = Inr entries"
| "entries_loop opts digests (p # plugins) entries =
     (case entry_archs_loop opts digests p AllOSArch None of
        Inl e \<Rightarrow> Inl e | Inr entry \<Rightarrow> entries_loop opts digests plugins (entries @ [entry]))"

definition preparePluginInventoryEntriesFromManifest ::
    "'v lib \<Rightarrow> pub_env \<Rightarrow> update_options \<Rightarrow> inventory_entry option list res" where
  "preparePluginInventoryEntriesFromManifest L E opts =
     (case ReadPluginManifest (px_ReadFile E) (px_yaml_manifest E) (uo_ManifestFile opts) of
        Inl e \<Rightarrow> Inl e
      | Inr plugins \<Rightarrow>
          (case (if uo_ValidateOnly opts then ([], None) else fetchPluginBinaryDigest L E opts plugins) of
             (digests, Some e) \<Rightarrow> Inl e
           | (digests, None) \<Rightarrow> entries_loop opts digests plugins []))"

section \<open>Plugins\<close>

text \<open>An entry is missing when no binary of the plugin is available or it has no versions; the update then panics.\<close>

fun update_entries_loop ::
    "(inventory_entry \<Rightarrow> inv_store \<Rightarrow> inv_store \<times> err option) \<Rightarrow> string \<Rightarrow> inventory_entry option list \<Rightarrow> pub_state \<Rightarrow>
     (pub_state \<times> err option) option" where
  "update_entries_loop updater dbFile [] s = Some (s, None)"
| "update_entries_loop updater dbFile (None # entries) s = None"
| "update_entries_loop updater dbFile (Some p # entries) s =
     (case on_db dbFile (updater p) s of
        (s1, Some e) \<Rightarrow> Some (s1, Some e)
      | (s1, None) \<Rightarrow> update_entries_loop updater dbFile entries s1)"

definition genericInventoryUpdater ::
    "'v lib \<Rightarrow> pub_env \<Rightarrow> update_options \<Rightarrow> (inventory_entry \<Rightarrow> inv_store \<Rightarrow> inv_store \<times> err option) \<Rightarrow> pub_state \<Rightarrow>
     (pub_state \<times> err option) option" where
  "genericInventoryUpdater L E opts updater s =
     (case getInventoryDBFile E opts s of
        (s1, Inl e) \<Rightarrow> Some (s1, Some e)
      | (s1, Inr dbFile) \<Rightarrow>
          (case preparePluginInventoryEntriesFromManifest L E opts of
             Inl e \<Rightarrow> Some (s1, Some (Wrapf e ''error while updating plugin inventory database'' []))
           | Inr entries \<Rightarrow>
               (case update_entries_loop updater dbFile entries s1 of
                  None \<Rightarrow> None
                | Some (s2, Some e) \<Rightarrow> Some (s2, Some e)
                | Some (s2, None) \<Rightarrow> Some (putInventoryDBFile E opts dbFile s2))))"

definition pluginAddFunc :: "'v lib \<Rightarrow> inventory_entry \<Rightarrow> inv_store \<Rightarrow> inv_store \<times> err option" where
  "pluginAddFunc L p d =
     (case InsertPlugin L p d of
        (d1, Some e) \<Rightarrow> (d1, Some (Wrapf e ''error while inserting plugin'' [ie_Name p, ie_Target p])) | (d1, None) \<Rightarrow> (d1, None))"

definition activateDeactivateFunc :: "'v lib \<Rightarrow> inventory_entry \<Rightarrow> inv_store \<Rightarrow> inv_store \<times> err option" where
  "activateDeactivateFunc L p d =
     (case UpdatePluginActivationState L p d of
        (d1, Some e) \<Rightarrow> (d1, Some (Wrapf e ''error while updating plugin'' [ie_Name p, ie_Target p])) | (d1, None) \<Rightarrow> (d1, None))"

definition PluginAdd :: "'v lib \<Rightarrow> pub_env \<Rightarrow> update_options \<Rightarrow> pub_state \<Rightarrow> (pub_state \<times> err option) option" where
  "PluginAdd L E opts s = genericInventoryUpdater L E opts (pluginAddFunc L) s"

definition publish_activation :: "'v lib \<Rightarrow> pub_env \<Rightarrow> update_options \<Rightarrow> pub_state \<Rightarrow> (pub_state \<times> err option) option" where
  "publish_activation L E opts s = genericInventoryUpdater L E opts (activateDeactivateFunc L) s"

section \<open>Groups\<close>

definition ReadPluginGroupManifest ::
    "(string \<Rightarrow> string res) \<Rightarrow> (string \<Rightarrow> group_manifest_plugin list res) \<Rightarrow> string \<Rightarrow> group_manifest_plugin list res" where
  "ReadPluginGroupManifest readFile unmarshal pluginGroupManifestFile =
     (case readFile pluginGroupManifestFile of
        Inl e \<Rightarrow> Inl (Wrapf e ''fail to read the plugin-group manifest file'' [])
      | Inr data \<Rightarrow> map_sum (\<lambda>e. Wrapf e ''fail to read the plugin-group manifest file'' []) id (unmarshal data))"

fun group_entries_loop :: "group_manifest_plugin list \<Rightarrow> group_plugin_entry list \<Rightarrow> group_plugin_entry list res" where
  "group_entries_loop [] plugins = Inr plugins"
| "group_entries_loop (p # ps) plugins =
     (let version = trim_space (gm_Version p)
      in if version = ''''
         then Inl (Errorf ''invalid version for plugin %q, target %q. plugin version cannot be empty for plugin group'' [gm_Name p, gm_Target p])
         else group_entries_loop ps (plugins @ [\<lparr>id_Name = trim_space (gm_Name p), id_Target = gm_Target p, id_Version = version,
                gp_Mandatory = \<not> gm_IsContextScoped p\<rparr>]))"

definition getPluginGroupFromManifest :: "pub_env \<Rightarrow> group_update_options \<Rightarrow> plugin_group res" where
  "getPluginGroupFromManifest E opts =
     (case ReadPluginGroupManifest (px_ReadFile E) (px_yaml_group_manifest E) (gu_PluginGroupManifestFile opts) of
        Inl e \<Rightarrow> Inl e
      | Inr manifest \<Rightarrow>
          (case group_entries_loop manifest [] of
             Inl e \<Rightarrow> Inl e
           | Inr plugins \<Rightarrow>
               Inr \<lparr>g_Vendor = gu_Vendor opts, g_Publisher = gu_Publisher opts, g_Name = trim_space (gu_GroupName opts),
                    g_Description = trim_space (gu_Description opts), g_Hidden = gu_DeactivatePluginGroup opts,
                    g_RecommendedVersion = '''', g_Versions = [(gu_GroupVersion opts, plugins)]\<rparr>))"

definition group_getInventoryDBFile :: "pub_env \<Rightarrow> group_update_options \<Rightarrow> pub_state \<Rightarrow> pub_state \<times> string res" where
  "group_getInventoryDBFile E opts s =
     (if gu_InventoryDBFile opts \<noteq> '''' then (s, Inr (gu_InventoryDBFile opts))
      else let img = db_image_path (gu_Repository opts) (gu_InventoryImageTag opts)
           in (case px_MkdirTemp E of
                 Inl e \<Rightarrow> (s, Inl (Wrapf e ''unable to create temporary directory'' []))
               | Inr dir \<Rightarrow>
                   (case download_db E img dir s of
                      Inl e \<Rightarrow> (s, Inl (Wrapf e ''error while downloading inventory database from the repository as image: %q'' [img]))
                    | Inr (s1, f) \<Rightarrow> (s1, Inr f))))"

definition group_putInventoryDBFile :: "pub_env \<Rightarrow> group_update_options \<Rightarrow> string \<Rightarrow> pub_state \<Rightarrow> pub_state \<times> err option" where
  "group_putInventoryDBFile E opts dbFile s =
     (if gu_InventoryDBFile opts \<noteq> '''' then (s, None)
      else let img = db_image_path (gu_Repository opts) (gu_InventoryImageTag opts)
           in (case push_db E img dbFile s of
                 (s1, None) \<Rightarrow> (s1, None)
               | (s1, Some e) \<Rightarrow> (s1, Some (Wrapf e ''error while publishing inventory database to the repository as image: %q'' [img]))))"

definition PluginGroupAdd :: "'v lib \<Rightarrow> pub_env \<Rightarrow> group_update_options \<Rightarrow> pub_state \<Rightarrow> (pub_state \<times> err option) option" where
  "PluginGroupAdd L E opts s =
     (case group_getInventoryDBFile E opts s of
        (s1, Inl e) \<Rightarrow> Some (s1, Some e)
      | (s1, Inr dbFile) \<Rightarrow>
          (case getPluginGroupFromManifest E opts of
             Inl e \<Rightarrow> Some (s1, Some (Wrapf e ''error while reading plugin group'' []))
           | Inr pg \<Rightarrow>
               (case InsertPluginGroup L (px_environ E) pg (gu_Override opts)
                       ((pu_local s1 dbFile)\<lparr>is_file := dbFile, is_prefix := ''''\<rparr>) of
                  None \<Rightarrow> None
                | Some (d, Some e) \<Rightarrow>
                    Some (s1\<lparr>pu_local := (pu_local s1)(dbFile := d)\<rparr>, Some (Wrapf e ''error while inserting plugin group'' [g_Name pg]))
                | Some (d, None) \<Rightarrow>
                    Some (group_putInventoryDBFile E opts dbFile (s1\<lparr>pu_local := (pu_local s1)(dbFile := d)\<rparr>)))))"

definition publish_group_activation :: "'v lib \<Rightarrow> pub_env \<Rightarrow> group_update_options \<Rightarrow> pub_state \<Rightarrow> pub_state \<times> err option" where
  "publish_group_activation L E opts s =
     (case group_getInventoryDBFile E opts s of
        (s1, Inl e) \<Rightarrow> (s1, Some e)
      | (s1, Inr dbFile) \<Rightarrow>
          let pg = \<lparr>g_Vendor = gu_Vendor opts, g_Publisher = gu_Publisher opts, g_Name = gu_GroupName opts, g_Description = '''',
                     g_Hidden = gu_DeactivatePluginGroup opts, g_RecommendedVersion = '''', g_Versions = [(gu_GroupVersion opts, [])]\<rparr>
          in (case on_db dbFile (UpdatePluginGroupActivationState L (px_environ E) pg) s1 of
                (s2, Some e) \<Rightarrow> (s2, Some (Wrapf e ''error while updating activation state of plugin group'' [g_Name pg]))
              | (s2, None) \<Rightarrow> group_putInventoryDBFile E opts dbFile s2))"

section \<open>A new inventory\<close>

text \<open>The database file is removed before the schema is created in an empty one.\<close>

definition InitializeInventory :: "pub_env \<Rightarrow> string \<Rightarrow> string \<Rightarrow> bool \<Rightarrow> pub_state \<Rightarrow> pub_state \<times> err option" where
  "InitializeInventory E repository tag override s =
     (let img = db_image_path repository tag; dbFile = path_join [px_TempDir E, ''plugin_inventory.db'']
      in if \<not> override \<and> px_Resolve E img = None
         then (s, Some (Errorf ''%q image already exists on the repository. Use `--override` flag to override the content'' [img]))
         else (case on_db dbFile CreateSchema (s\<lparr>pu_local := (pu_local s)(dbFile := px_empty E)\<rparr>) of
                 (s1, Some e) \<Rightarrow> (s1, Some (Wrapf e ''error while creating database'' []))
               | (s1, None) \<Rightarrow>
                   (case px_Push E img of
                      Some e \<Rightarrow> (s1, Some (Wrapf e ''error while publishing database to the repository as image: %q'' [img]))
                    | None \<Rightarrow> (s1\<lparr>pu_remote := (pu_remote s1)(img \<mapsto> pu_local s1 dbFile)\<rparr>, None))))"

end
