(* ===== verification/Inventory_Publish_Correct.thy ===== *)
theory Inventory_Publish_Correct
  imports Inventory_Publish
begin

text \<open>
  Correctness of publishing: what was published is found by the queries of the discovery, with the digests of the binaries,
  whatever the order of the concurrent fetches; an operation that fails leaves the repository as it was.
\<close>

section \<open>Digests\<close>

definition digest_of :: "pub_env \<Rightarrow> digest_task \<Rightarrow> string option" where
  "digest_of E t = (case px_Digest E (dt_image t) (dt_filename t) of Inr d \<Rightarrow> Some d | Inl e \<Rightarrow> None)"

lemma digest_step:
  assumes "fetchPluginBinaryDigestFromImage E t (m0, errs0) = (m1, [])"
  shows "errs0 = []" "IsRequiredOSArch (dt_arch t) \<Longrightarrow> digest_of E t \<noteq> None"
    "map_of m1 = (case digest_of E t of Some d \<Rightarrow> (map_of m0)(dt_image t \<mapsto> d) | None \<Rightarrow> map_of m0)"
  using assms by (auto simp: fetchPluginBinaryDigestFromImage_def digest_of_def split: sum.splits if_splits)

lemma digest_fold_errs: "fold (fetchPluginBinaryDigestFromImage E) ts (m0, errs0) = (m, []) \<Longrightarrow> errs0 = []"
proof (induction ts arbitrary: m0 errs0)
  case (Cons t ts)
  obtain m1 errs1 where f: "fetchPluginBinaryDigestFromImage E t (m0, errs0) = (m1, errs1)"
    by (cases "fetchPluginBinaryDigestFromImage E t (m0, errs0)")
  with Cons have "errs1 = []" by simp
  with f show ?case using digest_step(1) by metis
qed simp

lemma digest_fold:
  assumes "fold (fetchPluginBinaryDigestFromImage E) ts (m0, []) = (m, [])" 
    "\<forall>t \<in> set ts. \<forall>t' \<in> set ts. dt_image t = dt_image t' \<longrightarrow> digest_of E t = digest_of E t'"
  shows "(\<forall>t \<in> set ts. IsRequiredOSArch (dt_arch t) \<longrightarrow> digest_of E t \<noteq> None) \<and>
    (\<forall>t \<in> set ts. map_of m (dt_image t) = (case digest_of E t of Some d \<Rightarrow> Some d | None \<Rightarrow> map_of m0 (dt_image t))) \<and>
    (\<forall>img. img \<notin> dt_image ` set ts \<longrightarrow> map_of m img = map_of m0 img)"
  using assms
proof (induction ts arbitrary: m0)
  case Nil
  then show ?case by simp
next
  case (Cons t ts)
  obtain m1 errs1 where f: "fetchPluginBinaryDigestFromImage E t (m0, []) = (m1, errs1)"
    by (cases "fetchPluginBinaryDigestFromImage E t (m0, [])")
  with Cons.prems(1) have rest: "fold (fetchPluginBinaryDigestFromImage E) ts (m1, errs1) = (m, [])" by simp
  then have e: "errs1 = []" by (rule digest_fold_errs)
  note st = digest_step [OF f [unfolded e]]
  have same: "digest_of E u = digest_of E u'" if "u \<in> set (t # ts)" "u' \<in> set (t # ts)" "dt_image u = dt_image u'" for u u'
    using Cons.prems(2) that by blast
  then have "\<forall>t \<in> set ts. \<forall>t' \<in> set ts. dt_image t = dt_image t' \<longrightarrow> digest_of E t = digest_of E t'" by (meson list.set_intros(2))
  from Cons.IH [OF rest [unfolded e] this]
  have IH: "\<And>u. u \<in> set ts \<Longrightarrow> IsRequiredOSArch (dt_arch u) \<Longrightarrow> digest_of E u \<noteq> None"
    "\<And>u. u \<in> set ts \<Longrightarrow> map_of m (dt_image u) = (case digest_of E u of Some d \<Rightarrow> Some d | None \<Rightarrow> map_of m1 (dt_image u))"
    "\<And>img. img \<notin> dt_image ` set ts \<Longrightarrow> map_of m img = map_of m1 img" by blast+
  have "map_of m (dt_image u) = (case digest_of E u of Some d \<Rightarrow> Some d | None \<Rightarrow> map_of m0 (dt_image u))" if u: "u \<in> set (t # ts)" for u
  proof (cases "dt_image u \<in> dt_image ` set ts")
    case True
    then obtain u' where u': "u' \<in> set ts" "dt_image u' = dt_image u" by auto
    have d: "digest_of E u' = digest_of E u" by (rule same) (use u u' in auto)
    have d': "digest_of E t = digest_of E u" if "dt_image t = dt_image u" by (rule same) (use u that in auto)
    show ?thesis
    proof (cases "digest_of E u")
      case None
      then have "map_of m1 (dt_image u) = map_of m0 (dt_image u)" using d' unfolding st(3) by (cases "digest_of E t") (auto simp del: map_of_eq_None_keys)
      with None IH(2) [OF u'(1)] show ?thesis unfolding u'(2) d by simp
    next
      case (Some x)
      with IH(2) [OF u'(1)] show ?thesis unfolding u'(2) d by simp
    qed
  next
    case False
    with u have ut: "u = t" by auto
    show ?thesis using IH(3) [OF False] st(3) unfolding ut by (cases "digest_of E t") simp_all
  qed
  moreover have "map_of m img = map_of m0 img" if "img \<notin> dt_image ` set (t # ts)" for img
    using that IH(3) [of img] st(3) by (cases "digest_of E t") simp_all
  ultimately show ?case using IH(1) st(2) by auto
qed

text \<open>Each image holds the binary of one file name.\<close>

definition images_ok :: "update_options \<Rightarrow> manifest_plugin list \<Rightarrow> bool" where
  "images_ok opts plugins \<longleftrightarrow>
     (\<forall>t \<in> set (digest_tasks opts plugins). \<forall>t' \<in> set (digest_tasks opts plugins).
        dt_image t = dt_image t' \<longrightarrow> dt_filename t = dt_filename t')"

definition schedule_law :: "pub_env \<Rightarrow> bool" where
  "schedule_law E \<longleftrightarrow> (\<forall>ts. mset (px_schedule E ts) = mset ts)"

text \<open>The digest of the binary of a plugin, if it can be fetched.\<close>

definition binary_digest :: "pub_env \<Rightarrow> update_options \<Rightarrow> manifest_plugin \<Rightarrow> string \<Rightarrow> string \<Rightarrow> string option" where
  "binary_digest E opts p osArch v =
     (case px_Digest E (plugin_image opts p osArch v) (MakeArtifactName (mp_Name p) osArch) of Inr d \<Rightarrow> Some d | Inl e \<Rightarrow> None)"

lemma fetch_digests:
  assumes "aggregate_law L" "schedule_law E" "images_ok opts plugins" "fetchPluginBinaryDigest L E opts plugins = (m, None)"
    "p \<in> set plugins" "osArch \<in> set AllOSArch" "v \<in> set (mp_Versions p)"
  shows "map_of m (plugin_image opts p osArch v) = binary_digest E opts p osArch v"
    "IsRequiredOSArch osArch \<Longrightarrow> binary_digest E opts p osArch v \<noteq> None"
proof -
  let ?ts = "px_schedule E (digest_tasks opts plugins)"
  define t where "t = \<lparr>dt_image = plugin_image opts p osArch v, dt_filename = MakeArtifactName (mp_Name p) osArch, dt_arch = osArch\<rparr>"
  have ts: "set ?ts = set (digest_tasks opts plugins)" using assms(2) unfolding schedule_law_def by (metis set_mset_mset)
  have t: "t \<in> set ?ts" unfolding ts t_def using assms(5-7) by (auto simp: digest_tasks_def)
  obtain errs where f: "fold (fetchPluginBinaryDigestFromImage E) ?ts ([], []) = (m, errs)" "errs = []"
    using assms(1,4) by (auto simp: fetchPluginBinaryDigest_def split: prod.splits if_splits)
  have same: "\<forall>t \<in> set ?ts. \<forall>t' \<in> set ?ts. dt_image t = dt_image t' \<longrightarrow> digest_of E t = digest_of E t'"
    using assms(3) unfolding ts images_ok_def digest_of_def by metis
  have d: "digest_of E t = binary_digest E opts p osArch v" by (simp add: digest_of_def binary_digest_def t_def)
  note r = digest_fold [OF f(1) [unfolded f(2)] same]
  show "map_of m (plugin_image opts p osArch v) = binary_digest E opts p osArch v"
  proof -
    have "map_of m (dt_image t) = (case digest_of E t of Some d \<Rightarrow> Some d | None \<Rightarrow> map_of [] (dt_image t))" using r t by blast
    then have "map_of m (dt_image t) = digest_of E t" by (cases "digest_of E t") simp_all
    with d show ?thesis by (simp add: t_def)
  qed
  show "IsRequiredOSArch osArch \<Longrightarrow> binary_digest E opts p osArch v \<noteq> None"
    using r t d by (metis digest_task.select_convs(3) t_def)
qed

section \<open>Entries\<close>

text \<open>The artifacts of the entry made so far.\<close>

definition artifacts_are :: "artifacts \<Rightarrow> (string \<times> artifact) set \<Rightarrow> bool" where
  "artifacts_are m A \<longleftrightarrow> (\<forall>v a. a \<in> set (get_or [] m v) \<longleftrightarrow> (v, a) \<in> A) \<and> set (keys_of m) = fst ` A"

definition entry_has :: "update_options \<Rightarrow> manifest_plugin \<Rightarrow> inventory_entry option \<Rightarrow> (string \<times> artifact) set \<Rightarrow> bool" where
  "entry_has opts p entry A \<longleftrightarrow>
     (case entry of
        None \<Rightarrow> A = {}
      | Some e \<Rightarrow> (\<exists>m. e = (manifest_entry opts p)\<lparr>ie_Artifacts := m\<rparr> \<and> artifacts_are m A))"

lemma artifacts_are_update:
  "artifacts_are m A \<Longrightarrow> artifacts_are (AList.update v (get_or [] m v @ [a]) m) (insert (v, a) A)"
  by (auto simp: artifacts_are_def keys_of_def dom_update)

definition artifacts_for ::
    "update_options \<Rightarrow> (string \<times> string) list \<Rightarrow> manifest_plugin \<Rightarrow> string \<Rightarrow> string set \<Rightarrow> (string \<times> artifact) set" where
  "artifacts_for opts digests p osArch V =
     {(v, arch_artifact opts p osArch v d) | v d. v \<in> V \<and> map_of digests (plugin_image opts p osArch v) = Some d}"

lemma add_artifact_has:
  assumes "entry_has opts p entry A"
  shows "entry_has opts p (Some (add_artifact v a (case entry of None \<Rightarrow> manifest_entry opts p | Some e \<Rightarrow> e))) (insert (v, a) A)"
proof -
  obtain m where m: "(case entry of None \<Rightarrow> manifest_entry opts p | Some e \<Rightarrow> e) = (manifest_entry opts p)\<lparr>ie_Artifacts := m\<rparr>"
      "artifacts_are m A"
  proof (cases entry)
    case None
    with assms have "artifacts_are [] A" by (simp add: entry_has_def artifacts_are_def get_or_def keys_of_def)
    moreover have "manifest_entry opts p = (manifest_entry opts p)\<lparr>ie_Artifacts := []\<rparr>" by (simp add: manifest_entry_def)
    ultimately show ?thesis using that [of "[]"] None by simp
  next
    case (Some e)
    with assms that show ?thesis by (auto simp: entry_has_def)
  qed
  show ?thesis unfolding m(1) using artifacts_are_update [OF m(2), of v a] by (auto simp: entry_has_def add_artifact_def)
qed

lemma entry_step:
  assumes "entry_has opts p entry A" "\<not> uo_ValidateOnly opts"
    "updatePluginInventoryEntry opts digests p osArch v entry = Inr entry'"
  shows "entry_has opts p entry' (A \<union> artifacts_for opts digests p osArch {v})"
proof (cases "map_of digests (plugin_image opts p osArch v)")
  case None
  with assms show ?thesis by (simp add: updatePluginInventoryEntry_def artifacts_for_def)
next
  case (Some d)
  then have "artifacts_for opts digests p osArch {v} = {(v, arch_artifact opts p osArch v d)}" by (auto simp: artifacts_for_def)
  then show ?thesis
    using Some assms add_artifact_has [OF assms(1), of v "arch_artifact opts p osArch v d"]
    by (simp add: updatePluginInventoryEntry_def split: if_splits)
qed

lemma entry_versions:
  assumes "entry_has opts p entry A" "\<not> uo_ValidateOnly opts" "entry_versions_loop opts digests p osArch vs entry = Inr entry'"
  shows "entry_has opts p entry' (A \<union> artifacts_for opts digests p osArch (set vs))"
  using assms
proof (induction vs arbitrary: entry A)
  case Nil
  then show ?case by (simp add: artifacts_for_def)
next
  case (Cons v vs)
  then obtain e1 where e1: "updatePluginInventoryEntry opts digests p osArch v entry = Inr e1"
      "entry_versions_loop opts digests p osArch vs e1 = Inr entry'"
    by (auto split: sum.splits)
  have "artifacts_for opts digests p osArch (set (v # vs)) =
      artifacts_for opts digests p osArch {v} \<union> artifacts_for opts digests p osArch (set vs)"
    by (auto simp: artifacts_for_def)
  with Cons.IH [OF entry_step [OF Cons.prems(1,2) e1(1)] Cons.prems(2) e1(2)] show ?case by (simp add: Un_assoc)
qed

lemma entry_archs:
  assumes "entry_has opts p entry A" "\<not> uo_ValidateOnly opts" "entry_archs_loop opts digests p archs entry = Inr entry'"
  shows "entry_has opts p entry' (A \<union> (\<Union>osArch \<in> set archs. artifacts_for opts digests p osArch (set (mp_Versions p))))"
  using assms
proof (induction archs arbitrary: entry A)
  case (Cons a archs)
  then obtain e1 where e1: "entry_versions_loop opts digests p a (mp_Versions p) entry = Inr e1"
      "entry_archs_loop opts digests p archs e1 = Inr entry'"
    by (auto split: sum.splits)
  from Cons.IH [OF entry_versions [OF Cons.prems(1,2) e1(1)] Cons.prems(2) e1(2)] show ?case by (simp add: Un_assoc)
qed simp

lemma entries_all:
  assumes "entries_loop opts digests plugins entries = Inr entries'"
  shows "\<exists>new. entries' = entries @ new \<and> list_all2 (\<lambda>p e. entry_archs_loop opts digests p AllOSArch None = Inr e) plugins new"
  using assms
proof (induction plugins arbitrary: entries)
  case (Cons p plugins)
  then obtain e where e: "entry_archs_loop opts digests p AllOSArch None = Inr e"
      "entries_loop opts digests plugins (entries @ [e]) = Inr entries'"
    by (auto split: sum.splits)
  from Cons.IH [OF e(2)] obtain new where "entries' = (entries @ [e]) @ new"
      "list_all2 (\<lambda>p e. entry_archs_loop opts digests p AllOSArch None = Inr e) plugins new" by blast
  with e(1) show ?case by (intro exI [of _ "e # new"]) simp
qed simp


section \<open>Inserting\<close>

text \<open>A database with more rows of plugins.\<close>

definition store_adds :: "inv_store \<Rightarrow> plugin_row list \<Rightarrow> inv_store \<Rightarrow> bool" where
  "store_adds d rows d' \<longleftrightarrow> is_plugins d' = is_plugins d @ rows \<and> is_groups d' = is_groups d \<and> is_exists d' = is_exists d \<and>
     is_schema d' = is_schema d \<and> is_fault d' = is_fault d \<and> is_rows_err d' = is_rows_err d"

lemma pluginAddFunc_ok: "pluginAddFunc L e d = (d', None) \<Longrightarrow> d' = d\<lparr>is_plugins := is_plugins d @ entry_rows L e\<rparr>"
  by (auto simp: pluginAddFunc_def InsertPlugin_def entry_rows_def dest: insert_versions_ok split: prod.splits option.splits)

lemma add_entries_ok:
  assumes "update_entries_loop (pluginAddFunc L) f entries s = Some (s', None)"
  shows "\<exists>es. entries = map Some es \<and> pu_remote s' = pu_remote s \<and> store_adds (pu_local s f) (concat (map (entry_rows L) es)) (pu_local s' f)"
  using assms
proof (induction entries arbitrary: s)
  case Nil
  then show ?case by (simp add: store_adds_def)
next
  case (Cons entry entries)
  then obtain e s1 where e: "entry = Some e" "on_db f (pluginAddFunc L e) s = (s1, None)"
      "update_entries_loop (pluginAddFunc L) f entries s1 = Some (s', None)"
    by (cases entry) (auto split: prod.splits option.splits)
  have s1: "pu_remote s1 = pu_remote s" "store_adds (pu_local s f) (entry_rows L e) (pu_local s1 f)"
    using e(2) by (auto simp: on_db_def store_adds_def dest!: pluginAddFunc_ok split: prod.splits)
  from Cons.IH [OF e(3)] obtain es where "entries = map Some es" "pu_remote s' = pu_remote s1"
      "store_adds (pu_local s1 f) (concat (map (entry_rows L) es)) (pu_local s' f)" by blast
  with e(1) s1 show ?case by (intro exI [of _ "e # es"]) (simp add: store_adds_def)
qed

text \<open>The rows of an entry made from the manifest.\<close>

definition manifest_row :: "update_options \<Rightarrow> manifest_plugin \<Rightarrow> string \<Rightarrow> string \<Rightarrow> string \<Rightarrow> plugin_row" where
  "manifest_row opts p osArch v digest = entry_row (manifest_entry opts p) v (arch_artifact opts p osArch v digest)"

lemma entry_row_artifacts [simp]: "entry_row (e\<lparr>ie_Artifacts := m\<rparr>) v a = entry_row e v a"
  by (simp add: entry_row_def)

lemma entry_rows_of_manifest:
  assumes "range_law L" "entry_archs_loop opts digests p AllOSArch None = Inr (Some e)" "\<not> uo_ValidateOnly opts"
    "\<And>osArch v. osArch \<in> set AllOSArch \<Longrightarrow> v \<in> set (mp_Versions p) \<Longrightarrow>
       map_of digests (plugin_image opts p osArch v) = binary_digest E opts p osArch v"
  shows "r \<in> set (entry_rows L e) \<longleftrightarrow>
    (\<exists>osArch \<in> set AllOSArch. \<exists>v \<in> set (mp_Versions p). \<exists>dg. binary_digest E opts p osArch v = Some dg \<and> r = manifest_row opts p osArch v dg)"
proof -
  define A where "A = (\<Union>osArch \<in> set AllOSArch. artifacts_for opts digests p osArch (set (mp_Versions p)))"
  have "entry_has opts p None {}" by (simp add: entry_has_def)
  from entry_archs [OF this assms(3,2)] obtain m where m: "e = (manifest_entry opts p)\<lparr>ie_Artifacts := m\<rparr>" "artifacts_are m A"
    by (auto simp: entry_has_def A_def)
  have A: "(v, a) \<in> A \<longleftrightarrow> v \<in> set (mp_Versions p) \<and>
      (\<exists>osArch \<in> set AllOSArch. \<exists>dg. binary_digest E opts p osArch v = Some dg \<and> a = arch_artifact opts p osArch v dg)" for v a
    using assms(4) by (auto simp: A_def artifacts_for_def) blast+
  have "r \<in> set (entry_rows L e) \<longleftrightarrow> (\<exists>v a. a \<in> set (get_or [] m v) \<and> r = entry_row (manifest_entry opts p) v a)"
  proof -
    have "v \<in> set (range_keys L m)" if "a \<in> set (get_or [] m v)" for v a
      using get_or_key [OF that] assms(1) by simp
    then show ?thesis by (auto simp: entry_rows_def m(1))
  qed
  also have "\<dots> \<longleftrightarrow> (\<exists>v a. (v, a) \<in> A \<and> r = entry_row (manifest_entry opts p) v a)"
    using m(2) by (simp add: artifacts_are_def)
  finally show ?thesis unfolding A manifest_row_def by blast
qed

section \<open>Published plugins are found\<close>

definition manifest_ok :: "'v lib \<Rightarrow> manifest_plugin \<Rightarrow> bool" where
  "manifest_ok L p \<longleftrightarrow> mp_Name p \<noteq> '''' \<and> CHR ''_'' \<notin> set (mp_Name p) \<and> StringToTarget L (to_lower (mp_Target p)) = mp_Target p \<and>
     '''' \<notin> set (mp_Versions p)"

definition manifest_rows :: "pub_env \<Rightarrow> update_options \<Rightarrow> manifest_plugin list \<Rightarrow> plugin_row set" where
  "manifest_rows E opts plugins = {manifest_row opts p osArch v dg | p osArch v dg.
     p \<in> set plugins \<and> osArch \<in> set AllOSArch \<and> v \<in> set (mp_Versions p) \<and> binary_digest E opts p osArch v = Some dg}"

lemma manifest_row_ok: "manifest_ok L p \<Longrightarrow> v \<in> set (mp_Versions p) \<Longrightarrow> row_ok L (manifest_row opts p osArch v dg)"
  by (auto simp: manifest_ok_def row_ok_def row_target_def manifest_row_def manifest_entry_def entry_row_def)

lemma manifest_row_simps:
  "pr_name (manifest_row opts p osArch v dg) = mp_Name p" "pr_target (manifest_row opts p osArch v dg) = mp_Target p"
  "pr_version (manifest_row opts p osArch v dg) = v"
  "row_artifact (uo_Repository opts) (manifest_row opts p osArch v dg) =
     \<lparr>a_Image = plugin_image opts p osArch v, a_URI = '''', a_Digest = dg, a_OS = arch_OS osArch, a_Arch = arch_Arch osArch\<rparr>"
  by (simp_all add: manifest_row_def manifest_entry_def entry_row_def row_artifact_def arch_artifact_def plugin_image_def)

lemma plugin_add_rows:
  assumes "range_law L" "aggregate_law L" "schedule_law E" "\<not> uo_ValidateOnly opts" "uo_InventoryDBFile opts = ''''"
    "ReadPluginManifest (px_ReadFile E) (px_yaml_manifest E) (uo_ManifestFile opts) = Inr plugins" "images_ok opts plugins" "PluginAdd L E opts s = Some (s', None)"
  shows "\<exists>d d' rows. pu_remote s (db_image_path (uo_Repository opts) (uo_InventoryImageTag opts)) = Some d \<and>
    pu_remote s' = (pu_remote s)(db_image_path (uo_Repository opts) (uo_InventoryImageTag opts) \<mapsto> d') \<and> store_adds d rows d' \<and>
    set rows = manifest_rows E opts plugins \<and>
    (\<forall>p \<in> set plugins. \<forall>v \<in> set (mp_Versions p). \<forall>osArch \<in> set MinOSArch. binary_digest E opts p osArch v \<noteq> None)"
proof -
  let ?img = "db_image_path (uo_Repository opts) (uo_InventoryImageTag opts)"
  obtain s1 f entries s2 where g: "getInventoryDBFile E opts s = (s1, Inr f)"
      "preparePluginInventoryEntriesFromManifest L E opts = Inr entries"
      "update_entries_loop (pluginAddFunc L) f entries s1 = Some (s2, None)" "putInventoryDBFile E opts f s2 = (s', None)"
    using assms(8) by (auto simp: PluginAdd_def genericInventoryUpdater_def split: prod.splits sum.splits option.splits)
  obtain d where d: "pu_remote s ?img = Some d" "pu_remote s1 = pu_remote s" "pu_local s1 f = d\<lparr>is_file := f\<rparr>"
    using g(1) assms(5) by (auto simp: getInventoryDBFile_def download_db_def Let_def split: sum.splits option.splits prod.splits)
  obtain m where m: "fetchPluginBinaryDigest L E opts plugins = (m, None)" "entries_loop opts m plugins [] = Inr entries"
    using g(2) assms(4,6) by (auto simp: preparePluginInventoryEntriesFromManifest_def split: prod.splits option.splits)
  obtain es where es: "entries = map Some es" "pu_remote s2 = pu_remote s1"
      "store_adds (pu_local s1 f) (concat (map (entry_rows L) es)) (pu_local s2 f)"
    using add_entries_ok [OF g(3)] by blast
  have s': "pu_remote s' = (pu_remote s)(?img \<mapsto> pu_local s2 f)"
    using g(4) assms(4,5) es(2) d(2) by (auto simp: putInventoryDBFile_def push_db_def split: option.splits)
  have adds: "store_adds d (concat (map (entry_rows L) es)) (pu_local s2 f)" using es(3) d(3) by (simp add: store_adds_def)
  note dig = fetch_digests [OF assms(2,3,7) m(1)]
  from entries_all [OF m(2)] es(1)
  have all: "list_all2 (\<lambda>p e. entry_archs_loop opts m p AllOSArch None = Inr (Some e)) plugins es" by (simp add: list_all2_map2)
  have rows: "r \<in> set (entry_rows L e) \<longleftrightarrow> (\<exists>osArch \<in> set AllOSArch. \<exists>v \<in> set (mp_Versions p). \<exists>dg.
      binary_digest E opts p osArch v = Some dg \<and> r = manifest_row opts p osArch v dg)" if "(p, e) \<in> set (zip plugins es)" for p e r
  proof -
    have "entry_archs_loop opts m p AllOSArch None = Inr (Some e)" "p \<in> set plugins"
      using all that by (auto simp: list_all2_iff dest: set_zip_leftD)
    then show ?thesis using entry_rows_of_manifest [OF assms(1) _ assms(4) dig(1)] by simp
  qed
  have len: "length plugins = length es" using all by (rule list_all2_lengthD)
  have "set (concat (map (entry_rows L) es)) = manifest_rows E opts plugins"
  proof (intro set_eqI iffI)
    fix r assume "r \<in> set (concat (map (entry_rows L) es))"
    then obtain e where "e \<in> set es" "r \<in> set (entry_rows L e)" by auto
    then obtain p where p: "(p, e) \<in> set (zip plugins es)" using len by (metis in_set_impl_in_set_zip2)
    then have "p \<in> set plugins" by (rule set_zip_leftD)
    then show "r \<in> manifest_rows E opts plugins" using rows [OF p] \<open>r \<in> set (entry_rows L e)\<close> unfolding manifest_rows_def by blast
  next
    fix r assume "r \<in> manifest_rows E opts plugins"
    then obtain p osArch v dg where p: "p \<in> set plugins" "osArch \<in> set AllOSArch" "v \<in> set (mp_Versions p)"
        "binary_digest E opts p osArch v = Some dg" "r = manifest_row opts p osArch v dg" unfolding manifest_rows_def by blast
    then obtain e where e: "(p, e) \<in> set (zip plugins es)" using len by (metis in_set_impl_in_set_zip1)
    then have "e \<in> set es" by (rule set_zip_rightD)
    moreover have "r \<in> set (entry_rows L e)" using rows [OF e] p by blast
    ultimately show "r \<in> set (concat (map (entry_rows L) es))" by auto
  qed
  moreover have "\<forall>p \<in> set plugins. \<forall>v \<in> set (mp_Versions p). \<forall>osArch \<in> set MinOSArch. binary_digest E opts p osArch v \<noteq> None"
    using dig(2) by (auto simp: IsRequiredOSArch_def MinOSArch_def AllOSArch_def)
  ultimately show ?thesis using d(1) s' adds by blast
qed

text \<open>C10 (functional): after plugins were added to the inventory of a repository, the queries of the discovery list for
  every name and target without a quote exactly what they listed before and the binaries of the manifest's plugins that are in
  the repository, with their digests; none that a plugin must have is missing. Other images are unchanged.\<close>

theorem published_plugins_listed:
  fixes opts :: update_options
  defines "img \<equiv> db_image_path (uo_Repository opts) (uo_InventoryImageTag opts)"
  assumes "range_law L" "aggregate_law L" "schedule_law E" "\<not> uo_ValidateOnly opts" "uo_InventoryDBFile opts = ''''"
    "ReadPluginManifest (px_ReadFile E) (px_yaml_manifest E) (uo_ManifestFile opts) = Inr plugins" "images_ok opts plugins" "\<forall>p \<in> set plugins. manifest_ok L p"
    "pu_remote s img = Some d" "reachable_store d" "list_all (row_ok L) (is_plugins d)" "is_rows_err d = None"
    "PluginAdd L E opts s = Some (s', None)"
  shows "\<exists>d'. pu_remote s' = (pu_remote s)(img \<mapsto> d') \<and>
    (\<forall>p \<in> set plugins. \<forall>v \<in> set (mp_Versions p). \<forall>osArch \<in> set MinOSArch. binary_digest E opts p osArch v \<noteq> None) \<and>
    (\<forall>n t. n \<noteq> '''' \<and> plain n \<and> plain t \<longrightarrow>
      (\<exists>ps. snd (GetPlugins L (d'\<lparr>is_prefix := uo_Repository opts\<rparr>) (Some (exact_filter n t))) = Some (ps, None) \<and>
        (\<forall>v a. listed ps n t v a \<longleftrightarrow>
          (\<exists>r \<in> set (is_plugins d). row_key r = (n, t) \<and> pr_version r = v \<and> a = row_artifact (uo_Repository opts) r) \<or>
          (\<exists>p \<in> set plugins. \<exists>osArch \<in> set AllOSArch. \<exists>dg. mp_Name p = n \<and> mp_Target p = t \<and> v \<in> set (mp_Versions p) \<and>
             binary_digest E opts p osArch v = Some dg \<and>
             a = \<lparr>a_Image = plugin_image opts p osArch v, a_URI = '''', a_Digest = dg, a_OS = arch_OS osArch, a_Arch = arch_Arch osArch\<rparr>))))"
proof -
  obtain d' rows where d': "pu_remote s' = (pu_remote s)(img \<mapsto> d')" "store_adds d rows d'" "set rows = manifest_rows E opts plugins"
      "\<forall>p \<in> set plugins. \<forall>v \<in> set (mp_Versions p). \<forall>osArch \<in> set MinOSArch. binary_digest E opts p osArch v \<noteq> None"
    using plugin_add_rows [OF assms(2-8) assms(14)] assms(10) unfolding img_def by auto
  let ?d = "d'\<lparr>is_prefix := uo_Repository opts\<rparr>"
  have ok: "reachable_store ?d" "is_rows_err ?d = None" "is_plugins ?d = is_plugins d @ rows"
    using d'(2) assms(11,13) by (simp_all add: store_adds_def reachable_store_def)
  have "row_ok L r" if "r \<in> manifest_rows E opts plugins" for r
    using that assms(9) by (auto simp: manifest_rows_def manifest_row_ok)
  then have rows_ok: "list_all (row_ok L) (is_plugins ?d)" using assms(12) ok(3) d'(3) by (auto simp: list_all_iff)
  have "\<exists>ps. snd (GetPlugins L ?d (Some (exact_filter n t))) = Some (ps, None) \<and>
      (\<forall>v a. listed ps n t v a \<longleftrightarrow>
        (\<exists>r \<in> set (is_plugins d) \<union> manifest_rows E opts plugins. row_key r = (n, t) \<and> pr_version r = v \<and> a = row_artifact (uo_Repository opts) r))"
    if n: "n \<noteq> ''''" and nt: "plain n" "plain t" for n t
  proof -
    have "f_Version (exact_filter n t) \<noteq> VersionLatest" by (simp add: exact_filter_def empty_filter_def VersionLatest_def)
    from query_listed [OF ok(1) rows_ok ok(2) this plain_exact_filter [OF nt]] obtain ps where
      ps: "GetPlugins L ?d (Some (exact_filter n t)) = (exact_filter n t, Some (ps, None))"
      and listed: "\<And>n' t' v a. listed ps n' t' v a \<longleftrightarrow> (\<exists>r \<in> set (is_plugins ?d). pr_name r = n' \<and> pr_target r = t' \<and> pr_version r = v \<and>
          list_all (plugin_cond_holds r) (plugin_conds (exact_filter n t)) \<and> a = row_artifact (is_prefix ?d) r)" by blast
    have "listed ps n t v a \<longleftrightarrow> (\<exists>r \<in> set (is_plugins d) \<union> manifest_rows E opts plugins. row_key r = (n, t) \<and> pr_version r = v \<and>
        a = row_artifact (uo_Repository opts) r)" for v a
      unfolding listed ok(3) set_append d'(3) by (intro bex_cong refl) (use exact_filter_holds [OF n] in auto)
    with ps show ?thesis by (intro exI [of _ ps]) simp
  qed
  note q = this
  have new: "(\<exists>r \<in> manifest_rows E opts plugins. row_key r = (n, t) \<and> pr_version r = v \<and> a = row_artifact (uo_Repository opts) r) \<longleftrightarrow>
      (\<exists>p \<in> set plugins. \<exists>osArch \<in> set AllOSArch. \<exists>dg. mp_Name p = n \<and> mp_Target p = t \<and> v \<in> set (mp_Versions p) \<and>
         binary_digest E opts p osArch v = Some dg \<and>
         a = \<lparr>a_Image = plugin_image opts p osArch v, a_URI = '''', a_Digest = dg, a_OS = arch_OS osArch, a_Arch = arch_Arch osArch\<rparr>)"
    (is "?l \<longleftrightarrow> ?r") for n t v a
  proof
    assume ?l
    then obtain r where r: "r \<in> manifest_rows E opts plugins" "row_key r = (n, t)" "pr_version r = v"
        "a = row_artifact (uo_Repository opts) r" by blast
    then obtain p osArch dg where "p \<in> set plugins" "osArch \<in> set AllOSArch" "v \<in> set (mp_Versions p)"
        "binary_digest E opts p osArch v = Some dg" "r = manifest_row opts p osArch v dg"
      unfolding manifest_rows_def by (auto simp: manifest_row_simps)
    with r show ?r by (intro bexI [of _ p] bexI [of _ osArch] exI [of _ dg]) (simp_all add: manifest_row_simps)
  next
    assume ?r
    then obtain p osArch dg where p: "p \<in> set plugins" "osArch \<in> set AllOSArch" "mp_Name p = n" "mp_Target p = t"
        "v \<in> set (mp_Versions p)" "binary_digest E opts p osArch v = Some dg"
        "a = \<lparr>a_Image = plugin_image opts p osArch v, a_URI = '''', a_Digest = dg, a_OS = arch_OS osArch, a_Arch = arch_Arch osArch\<rparr>"
      by blast
    then have "manifest_row opts p osArch v dg \<in> manifest_rows E opts plugins" unfolding manifest_rows_def by blast
    then show ?l by (rule bexI [rotated]) (simp add: manifest_row_simps p)
  qed
  show ?thesis using d'(1,4) q unfolding bex_Un new by blast
qed


definition demo_pub_env :: pub_env where
  "demo_pub_env = \<lparr>px_environ = Map.empty, px_ReadFile = Inr,
     px_yaml_manifest = (\<lambda>d. Inr [\<lparr>mp_Name = ''c'', mp_Target = ''global'', mp_Description = ''d'', mp_Versions = [''v1.0.0'', ''v1.1.0'']\<rparr>]),
     px_yaml_group_manifest = (\<lambda>d. Inr []),
     px_Digest = (\<lambda>img f. if has_suffix f ''arm64'' then Inl (Errorf ''not found'' [img]) else Inr (''sha-'' @ f)),
     px_schedule = rev, px_CreateTemp = Inr ''/tmp/x'', px_MkdirTemp = Inr ''/tmp/d'', px_TempDir = ''/tmp'', px_Copy = (\<lambda>_. None),
     px_Pull = (\<lambda>_. None), px_Push = (\<lambda>_. None), px_Resolve = (\<lambda>_. None), px_empty = demo_store\<lparr>is_plugins := []\<rparr>\<rparr>"

definition demo_opts :: update_options where
  "demo_opts = \<lparr>uo_Repository = ''reg'', uo_InventoryImageTag = ''latest'', uo_ManifestFile = ''m'', uo_Publisher = ''tkg'', uo_Vendor = ''vmware'',
     uo_InventoryDBFile = '''', uo_DeactivatePlugins = False, uo_ValidateOnly = False\<rparr>"

definition demo_repo :: pub_state where
  "demo_repo = \<lparr>pu_remote = [''reg/plugin-inventory:latest'' \<mapsto> demo_store], pu_local = (\<lambda>_. demo_store)\<rparr>"

definition demo_published :: "(pub_state \<times> err option) option" where
  "demo_published = PluginAdd dotted_lib demo_pub_env demo_opts demo_repo"

lemma demo_published_ok: "\<exists>s'. demo_published = Some (s', None)"
proof -
  have "map_option snd demo_published = Some None" by code_simp
  then show ?thesis by auto
qed

lemma demo_schedule: "schedule_law demo_pub_env"
  by (simp add: schedule_law_def demo_pub_env_def)

theorem published_plugins_listed_witness:
  "\<exists>s' d' ps. demo_published = Some (s', None) \<and> pu_remote s' ''reg/plugin-inventory:latest'' = Some d' \<and>
    snd (GetPlugins dotted_lib (d'\<lparr>is_prefix := ''reg''\<rparr>) (Some (exact_filter ''c'' ''global''))) = Some (ps, None) \<and>
    listed ps ''c'' ''global'' ''v1.1.0'' \<lparr>a_Image = ''reg/vmware/tkg/linux/amd64/global/c:v1.1.0'', a_URI = '''',
       a_Digest = ''sha-tanzu-c-linux_amd64'', a_OS = ''linux'', a_Arch = ''amd64''\<rparr>"
proof -
  let ?p = "\<lparr>mp_Name = ''c'', mp_Target = ''global'', mp_Description = ''d'', mp_Versions = [''v1.0.0'', ''v1.1.0'']\<rparr>"
  obtain s' where s': "PluginAdd dotted_lib demo_pub_env demo_opts demo_repo = Some (s', None)"
    using demo_published_ok by (auto simp: demo_published_def)
  have img: "db_image_path (uo_Repository demo_opts) (uo_InventoryImageTag demo_opts) = ''reg/plugin-inventory:latest''" by code_simp
  have h: "\<not> uo_ValidateOnly demo_opts" "uo_InventoryDBFile demo_opts = ''''" "images_ok demo_opts [?p]"
    "ReadPluginManifest (px_ReadFile demo_pub_env) (px_yaml_manifest demo_pub_env) (uo_ManifestFile demo_opts) = Inr [?p]" "\<forall>p \<in> set [?p]. manifest_ok dotted_lib p"
    "plugin_image demo_opts ?p LinuxAMD64 ''v1.1.0'' = ''reg/vmware/tkg/linux/amd64/global/c:v1.1.0''"
    "binary_digest demo_pub_env demo_opts ?p LinuxAMD64 ''v1.1.0'' = Some ''sha-tanzu-c-linux_amd64''"
    "arch_OS LinuxAMD64 = ''linux''" "arch_Arch LinuxAMD64 = ''amd64''" "LinuxAMD64 \<in> set AllOSArch" "uo_Repository demo_opts = ''reg''"
    by code_simp+
  have r: "pu_remote demo_repo (db_image_path (uo_Repository demo_opts) (uo_InventoryImageTag demo_opts)) = Some demo_store"
    unfolding img by (simp add: demo_repo_def)
  note main = published_plugins_listed [OF dotted_range_law dotted_aggregate_law demo_schedule h(1,2,4,3,5) r demo_store_facts(1-3) s']
  then obtain d' where d': "pu_remote s' = (pu_remote demo_repo)(''reg/plugin-inventory:latest'' \<mapsto> d')"
    and q: "\<forall>n t. n \<noteq> '''' \<and> plain n \<and> plain t \<longrightarrow> (\<exists>ps. snd (GetPlugins dotted_lib (d'\<lparr>is_prefix := ''reg''\<rparr>) (Some (exact_filter n t))) = Some (ps, None) \<and>
        (\<forall>v a. listed ps n t v a \<longleftrightarrow>
          (\<exists>r \<in> set (is_plugins demo_store). row_key r = (n, t) \<and> pr_version r = v \<and> a = row_artifact ''reg'' r) \<or>
          (\<exists>p \<in> set [?p]. \<exists>osArch \<in> set AllOSArch. \<exists>dg. mp_Name p = n \<and> mp_Target p = t \<and> v \<in> set (mp_Versions p) \<and>
             binary_digest demo_pub_env demo_opts p osArch v = Some dg \<and>
             a = \<lparr>a_Image = plugin_image demo_opts p osArch v, a_URI = '''', a_Digest = dg, a_OS = arch_OS osArch, a_Arch = arch_Arch osArch\<rparr>)))"
    unfolding img unfolding h(11) by (elim exE conjE) (rule that; assumption)
  let ?a = "\<lparr>a_Image = plugin_image demo_opts ?p LinuxAMD64 ''v1.1.0'', a_URI = '''',
         a_Digest = ''sha-tanzu-c-linux_amd64'', a_OS = arch_OS LinuxAMD64, a_Arch = arch_Arch LinuxAMD64\<rparr>"
  have new: "\<exists>p \<in> set [?p]. \<exists>osArch \<in> set AllOSArch. \<exists>dg. mp_Name p = ''c'' \<and> mp_Target p = ''global'' \<and> ''v1.1.0'' \<in> set (mp_Versions p) \<and>
      binary_digest demo_pub_env demo_opts p osArch ''v1.1.0'' = Some dg \<and>
      ?a = \<lparr>a_Image = plugin_image demo_opts p osArch ''v1.1.0'', a_URI = '''', a_Digest = dg, a_OS = arch_OS osArch, a_Arch = arch_Arch osArch\<rparr>"
    by (intro bexI [of _ ?p] bexI [of _ LinuxAMD64] exI [of _ "''sha-tanzu-c-linux_amd64''"]) (use h(7,10) in simp_all)
  have c: "''c'' \<noteq> '''' \<and> plain ''c'' \<and> plain ''global''" by (simp add: plain_def)
  obtain ps where ps: "snd (GetPlugins dotted_lib (d'\<lparr>is_prefix := ''reg''\<rparr>) (Some (exact_filter ''c'' ''global''))) = Some (ps, None)"
      "listed ps ''c'' ''global'' ''v1.1.0'' ?a"
    using q [rule_format, OF c] new by blast
  show ?thesis using s' d' ps unfolding h(6,8,9) demo_published_def
    by (intro exI [of _ s'] exI [of _ d'] exI [of _ ps]) simp
qed

section \<open>Failures\<close>

lemma getInventoryDBFile_remote: "getInventoryDBFile E opts s = (s', r) \<Longrightarrow> pu_remote s' = pu_remote s"
  by (auto simp: getInventoryDBFile_def CopyFile_def download_db_def Let_def split: if_splits sum.splits option.splits prod.splits)

lemma group_getInventoryDBFile_remote: "group_getInventoryDBFile E opts s = (s', r) \<Longrightarrow> pu_remote s' = pu_remote s"
  by (auto simp: group_getInventoryDBFile_def download_db_def Let_def split: if_splits sum.splits option.splits)

lemma on_db_remote: "on_db f u s = (s', e) \<Longrightarrow> pu_remote s' = pu_remote s"
  by (auto simp: on_db_def split: prod.splits)

lemma update_entries_remote: "update_entries_loop u f entries s = Some (s', e) \<Longrightarrow> pu_remote s' = pu_remote s"
  by (induction u f entries s rule: update_entries_loop.induct) (auto dest: on_db_remote split: prod.splits option.splits)

lemma push_db_remote: "push_db E img f s = (s', Some e) \<Longrightarrow> pu_remote s' = pu_remote s"
  by (auto simp: push_db_def split: option.splits)

lemma updater_remote:
  assumes "genericInventoryUpdater L E opts u s = Some (s', r)" "r \<noteq> None \<or> uo_ValidateOnly opts"
  shows "pu_remote s' = pu_remote s"
  using assms
  by (auto simp: genericInventoryUpdater_def putInventoryDBFile_def split: prod.splits sum.splits option.splits if_splits
      dest!: getInventoryDBFile_remote update_entries_remote dest: push_db_remote)

lemma group_put_remote: "group_putInventoryDBFile E opts f s = (s', Some e) \<Longrightarrow> pu_remote s' = pu_remote s"
  by (auto simp: group_putInventoryDBFile_def Let_def split: if_splits prod.splits option.splits dest: push_db_remote)

text \<open>A publishing operation that fails, and a validation whatever its result, leaves every image of the
  repository as it was.\<close>

theorem failed_publish_keeps_repository:
  assumes "PluginAdd L E opts s = Some (s', r) \<or> publish_activation L E opts s = Some (s', r) \<or>
      PluginGroupAdd L E gopts s = Some (s', r) \<or> publish_group_activation L E gopts s = (s', r)"
    "r = Some e \<or> (uo_ValidateOnly opts \<and> PluginAdd L E opts s = Some (s', r))"
  shows "pu_remote s' = pu_remote s"
proof -
  have "pu_remote s' = pu_remote s" if "PluginGroupAdd L E gopts s = Some (s', Some e)"
    using that by (auto simp: PluginGroupAdd_def split: prod.splits sum.splits option.splits
      dest!: group_getInventoryDBFile_remote group_put_remote)
  moreover have "pu_remote s' = pu_remote s" if "publish_group_activation L E gopts s = (s', Some e)"
    using that by (auto simp: publish_group_activation_def Let_def split: prod.splits sum.splits option.splits
      dest!: group_getInventoryDBFile_remote on_db_remote group_put_remote)
  ultimately show ?thesis using assms updater_remote unfolding PluginAdd_def publish_activation_def by blast
qed

theorem failed_publish_keeps_repository_witness:
  "\<exists>s'. PluginAdd dotted_lib (demo_pub_env\<lparr>px_Push := (\<lambda>_. Some (Errorf ''denied'' []))\<rparr>) demo_opts demo_repo =
      Some (s', Some (Wrapf (Errorf ''denied'' []) ''error while publishing inventory database to the repository as image: %q''
        [''reg/plugin-inventory:latest''])) \<and> pu_remote s' = pu_remote demo_repo"
proof -
  let ?E = "demo_pub_env\<lparr>px_Push := (\<lambda>_. Some (Errorf ''denied'' []))\<rparr>"
  let ?e = "Wrapf (Errorf ''denied'' []) ''error while publishing inventory database to the repository as image: %q'' [''reg/plugin-inventory:latest'']"
  have "map_option snd (PluginAdd dotted_lib ?E demo_opts demo_repo) = Some (Some ?e)" by code_simp
  then obtain s' where s': "PluginAdd dotted_lib ?E demo_opts demo_repo = Some (s', Some ?e)" by auto
  then show ?thesis using failed_publish_keeps_repository [of dotted_lib ?E demo_opts demo_repo s' "Some ?e" undefined ?e] by blast
qed

end
