(* ===== verification/Worker_Pool.thy ===== *)
theory Worker_Pool
  imports Tanzu_Prelude
begin

text \<open>
  Goroutines that work on shared state, as the builder uses them. The main goroutine adds each task to a wait group, puts a
  token into the channel \<^verbatim>\<open>guard\<close>, whose buffer holds \<open>limit\<close> tokens, and starts the goroutine of the task; then it
  waits for the group. A goroutine runs its \<open>body\<close> in atomic steps, sends the error it returned, if any, to the channel
  \<^verbatim>\<open>fatalErrors\<close>, whose buffer holds \<open>cap\<close> errors and which is read only after the waiting, takes a token from \<^verbatim>\<open>guard\<close>
  and leaves the group. Sending to a full buffer, taking from an empty one and waiting for a group that is not empty block.
\<close>

datatype ('p, 'e) thread = Pending | Running 'p | Reporting 'e | Leaving | Finishing | Finished

datatype ('p, 'e) goes_on = Continue 'p | Return "'e option"

record ('s, 'p, 'e) pool =
  pl_threads :: "('p, 'e) thread list"
  pl_shared :: 's
  pl_main :: nat
  pl_added :: bool
  pl_guard :: nat
  pl_wg :: nat
  pl_errs :: "'e list"
  pl_waited :: bool

text \<open>The next step of the goroutine of task \<open>i\<close>, if it has started and is not blocked.\<close>

definition worker_move ::
    "nat \<Rightarrow> (nat \<Rightarrow> 'p \<Rightarrow> 's \<Rightarrow> 's \<times> ('p, 'e) goes_on) \<Rightarrow> nat \<Rightarrow> ('s, 'p, 'e) pool \<Rightarrow> ('s, 'p, 'e) pool option" where
  "worker_move cap body i P =
     (let goto = (\<lambda>t. P\<lparr>pl_threads := (pl_threads P)[i := t]\<rparr>)
      in case pl_threads P ! i of
           Pending \<Rightarrow> None
         | Running p \<Rightarrow>
             (case body i p (pl_shared P) of
                (s, Continue q) \<Rightarrow> Some (goto (Running q)\<lparr>pl_shared := s\<rparr>)
              | (s, Return None) \<Rightarrow> Some (goto Leaving\<lparr>pl_shared := s\<rparr>)
              | (s, Return (Some e)) \<Rightarrow> Some (goto (Reporting e)\<lparr>pl_shared := s\<rparr>))
         | Reporting e \<Rightarrow> if length (pl_errs P) < cap then Some (goto Leaving\<lparr>pl_errs := pl_errs P @ [e]\<rparr>) else None
         | Leaving \<Rightarrow> if pl_guard P = 0 then None else Some (goto Finishing\<lparr>pl_guard := pl_guard P - 1\<rparr>)
         | Finishing \<Rightarrow> if pl_wg P = 0 then None else Some (goto Finished\<lparr>pl_wg := pl_wg P - 1\<rparr>)
         | Finished \<Rightarrow> None)"

text \<open>The next step of the main goroutine: for the next task \<^verbatim>\<open>wg.Add(1)\<close>, then the token and the start; at the end \<^verbatim>\<open>wg.Wait()\<close>.\<close>

definition main_move :: "nat \<Rightarrow> 'p \<Rightarrow> ('s, 'p, 'e) pool \<Rightarrow> ('s, 'p, 'e) pool option" where
  "main_move limit start P =
     (if pl_main P < length (pl_threads P)
      then if \<not> pl_added P then Some (P\<lparr>pl_added := True, pl_wg := pl_wg P + 1\<rparr>)
           else if pl_guard P < limit
           then Some (P\<lparr>pl_threads := (pl_threads P)[pl_main P := Running start], pl_guard := pl_guard P + 1,
                        pl_main := pl_main P + 1, pl_added := False\<rparr>)
           else None
      else if pl_wg P = 0 \<and> \<not> pl_waited P then Some (P\<lparr>pl_waited := True\<rparr>) else None)"

text \<open>The goroutines have the indices of their tasks, the main one the next index.\<close>

definition pool_move ::
    "nat \<Rightarrow> nat \<Rightarrow> 'p \<Rightarrow> (nat \<Rightarrow> 'p \<Rightarrow> 's \<Rightarrow> 's \<times> ('p, 'e) goes_on) \<Rightarrow> nat \<Rightarrow> ('s, 'p, 'e) pool \<Rightarrow> ('s, 'p, 'e) pool option" where
  "pool_move limit cap start body i P =
     (if i < length (pl_threads P) then worker_move cap body i P
      else if i = length (pl_threads P) then main_move limit start P else None)"

inductive pool_step ::
    "nat \<Rightarrow> nat \<Rightarrow> 'p \<Rightarrow> (nat \<Rightarrow> 'p \<Rightarrow> 's \<Rightarrow> 's \<times> ('p, 'e) goes_on) \<Rightarrow> ('s, 'p, 'e) pool \<Rightarrow> ('s, 'p, 'e) pool \<Rightarrow> bool"
  for limit cap start body where
  move: "pool_move limit cap start body i P = Some P' \<Longrightarrow> pool_step limit cap start body P P'"

definition new_pool :: "nat \<Rightarrow> 's \<Rightarrow> ('s, 'p, 'e) pool" where
  "new_pool n s = \<lparr>pl_threads = replicate n Pending, pl_shared = s, pl_main = 0, pl_added = False, pl_guard = 0, pl_wg = 0,
     pl_errs = [], pl_waited = False\<rparr>"

text \<open>The main goroutine goes on after the waiting.\<close>

definition pool_done :: "('s, 'p, 'e) pool \<Rightarrow> bool" where
  "pool_done P \<longleftrightarrow> pl_waited P"

text \<open>The run of a schedule, a list of the goroutines that take the steps.\<close>

fun pool_run ::
    "nat \<Rightarrow> nat \<Rightarrow> 'p \<Rightarrow> (nat \<Rightarrow> 'p \<Rightarrow> 's \<Rightarrow> 's \<times> ('p, 'e) goes_on) \<Rightarrow> nat list \<Rightarrow> ('s, 'p, 'e) pool \<Rightarrow> ('s, 'p, 'e) pool option" where
  "pool_run limit cap start body [] P = Some P"
| "pool_run limit cap start body (i # is) P =
     (case pool_move limit cap start body i P of None \<Rightarrow> None | Some P1 \<Rightarrow> pool_run limit cap start body is P1)"

lemma pool_run_count:
  "pool_run limit cap start body is P = Some P' \<Longrightarrow> (pool_step limit cap start body ^^ length is) P P'"
proof (induction "is" arbitrary: P)
  case (Cons i "is")
  then obtain P1 where "pool_move limit cap start body i P = Some P1" "pool_run limit cap start body is P1 = Some P'"
    by (auto split: option.splits)
  then have "pool_step limit cap start body P P1" "(pool_step limit cap start body ^^ length is) P1 P'"
    using Cons.IH by (auto intro: pool_step.move)
  then show ?case unfolding list.size(4) add_Suc_right add_0_right by (rule relpowp_Suc_I2)
qed simp

lemma pool_run_steps:
  "pool_run limit cap start body is P = Some P' \<Longrightarrow> (pool_step limit cap start body)\<^sup>*\<^sup>* P P'"
  by (auto dest: pool_run_count intro: relpowp_imp_rtranclp)

lemma pool_step_cases:
  assumes "pool_step limit cap start body P P'"
  obtains (Add) "pl_main P < length (pl_threads P)" "\<not> pl_added P" "P' = P\<lparr>pl_added := True, pl_wg := pl_wg P + 1\<rparr>"
    | (Start) "pl_main P < length (pl_threads P)" "pl_added P" "pl_guard P < limit"
        "P' = P\<lparr>pl_threads := (pl_threads P)[pl_main P := Running start], pl_guard := pl_guard P + 1, pl_main := pl_main P + 1, pl_added := False\<rparr>"
    | (Wait) "length (pl_threads P) \<le> pl_main P" "pl_wg P = 0" "\<not> pl_waited P" "P' = P\<lparr>pl_waited := True\<rparr>"
    | (Work) i p s r where "i < length (pl_threads P)" "pl_threads P ! i = Running p" "body i p (pl_shared P) = (s, r)"
        "P' = P\<lparr>pl_threads := (pl_threads P)[i := (case r of Continue q \<Rightarrow> Running q | Return None \<Rightarrow> Leaving | Return (Some e) \<Rightarrow> Reporting e)],
            pl_shared := s\<rparr>"
    | (Report) i e where "i < length (pl_threads P)" "pl_threads P ! i = Reporting e" "length (pl_errs P) < cap"
        "P' = P\<lparr>pl_threads := (pl_threads P)[i := Leaving], pl_errs := pl_errs P @ [e]\<rparr>"
    | (Leave) i where "i < length (pl_threads P)" "pl_threads P ! i = Leaving" "0 < pl_guard P"
        "P' = P\<lparr>pl_threads := (pl_threads P)[i := Finishing], pl_guard := pl_guard P - 1\<rparr>"
    | (Finish) i where "i < length (pl_threads P)" "pl_threads P ! i = Finishing" "0 < pl_wg P"
        "P' = P\<lparr>pl_threads := (pl_threads P)[i := Finished], pl_wg := pl_wg P - 1\<rparr>"
  using assms
proof (cases rule: pool_step.cases)
  case (move i)
  show thesis
  proof (cases "i < length (pl_threads P)")
    case True
    with move have w: "worker_move cap body i P = Some P'" by (simp add: pool_move_def)
    show thesis
    proof (cases "pl_threads P ! i")
      case (Running p)
      obtain s r where b: "body i p (pl_shared P) = (s, r)" by (cases "body i p (pl_shared P)")
      show thesis by (rule Work [OF True Running b]) (use w Running b in \<open>auto simp: worker_move_def split: goes_on.splits option.splits\<close>)
    qed (use w True Report Leave Finish in \<open>auto simp: worker_move_def split: if_splits\<close>)
  next
    case False
    with move have "main_move limit start P = Some P'" by (auto simp: pool_move_def split: if_splits)
    with Add Start Wait show thesis by (auto simp: main_move_def split: if_splits)
  qed
qed

section \<open>What the channels and the wait group count\<close>

fun holds_guard :: "('p, 'e) thread \<Rightarrow> bool" where
  "holds_guard (Running _) = True" | "holds_guard (Reporting _) = True" | "holds_guard Leaving = True" | "holds_guard _ = False"

fun in_group :: "('p, 'e) thread \<Rightarrow> bool" where
  "in_group Finishing = True" | "in_group t = holds_guard t"

fun may_report :: "('p, 'e) thread \<Rightarrow> bool" where
  "may_report Pending = True" | "may_report (Running _) = True" | "may_report (Reporting _) = True" | "may_report _ = False"

definition count_of :: "('a \<Rightarrow> bool) \<Rightarrow> 'a list \<Rightarrow> nat" where
  "count_of Q ts = length (filter Q ts)"

lemma count_of_update:
  "i < length ts \<Longrightarrow> count_of Q (ts[i := t]) + (if Q (ts ! i) then 1 else 0) = count_of Q ts + (if Q t then 1 else 0)"
proof (induction ts arbitrary: i)
  case (Cons a ts)
  then show ?case using Cons.IH [of "i - 1"] by (cases i) (auto simp: count_of_def)
qed simp

lemma count_of_pos: "i < length ts \<Longrightarrow> Q (ts ! i) \<Longrightarrow> 0 < count_of Q ts"
  by (auto simp: count_of_def filter_empty_conv)

lemma count_of_zero: "(\<And>i. i < length ts \<Longrightarrow> \<not> Q (ts ! i)) \<Longrightarrow> count_of Q ts = 0"
  by (auto simp: count_of_def filter_empty_conv in_set_conv_nth)

text \<open>The token of each goroutine is in \<^verbatim>\<open>guard\<close> until it leaves, the group counts the goroutines that have not finished, and
  each goroutine has sent at most one error.\<close>

definition pool_ok :: "('s, 'p, 'e) pool \<Rightarrow> bool" where
  "pool_ok P \<longleftrightarrow> pl_guard P = count_of holds_guard (pl_threads P) \<and>
     pl_wg P = count_of in_group (pl_threads P) + (if pl_added P then 1 else 0) \<and>
     length (pl_errs P) + count_of may_report (pl_threads P) \<le> length (pl_threads P) \<and>
     pl_main P \<le> length (pl_threads P) \<and> (pl_added P \<longrightarrow> pl_main P < length (pl_threads P)) \<and>
     (\<forall>i < length (pl_threads P). pl_threads P ! i = Pending \<longleftrightarrow> pl_main P \<le> i) \<and>
     (pl_waited P \<longrightarrow> \<not> pl_added P \<and> (\<forall>i < length (pl_threads P). pl_threads P ! i = Finished))"

lemma new_pool_ok: "pool_ok (new_pool n s)"
  by (simp add: pool_ok_def new_pool_def count_of_def)

lemma all_finished:
  assumes "count_of in_group ts = 0" "\<forall>i < length ts. ts ! i \<noteq> Pending" "i < length ts"
  shows "ts ! i = Finished"
  using assms count_of_pos [of i ts in_group] by (cases "ts ! i") auto

lemma pool_ok_update:
  assumes "pool_ok P" "i < length (pl_threads P)" "pl_threads P ! i = t0" "t0 \<noteq> Pending" "t0 \<noteq> Finished" "t \<noteq> Pending"
    and "pl_guard P' + (if holds_guard t0 then 1 else 0) = pl_guard P + (if holds_guard t then 1 else 0)"
    and "pl_wg P' + (if in_group t0 then 1 else 0) = pl_wg P + (if in_group t then 1 else 0)"
    and "length (pl_errs P') + (if may_report t then 1 else 0) \<le> length (pl_errs P) + (if may_report t0 then 1 else 0)"
    and "pl_threads P' = (pl_threads P)[i := t]" "pl_main P' = pl_main P" "pl_added P' = pl_added P" "pl_waited P' = pl_waited P"
  shows "pool_ok P'"
proof -
  note n = count_of_update [OF assms(2), where t = t, unfolded assms(3)]
  have "\<not> pl_waited P" using assms(1-3,5) by (auto simp: pool_ok_def)
  moreover have "(pl_threads P)[i := t] ! j = Pending \<longleftrightarrow> pl_main P \<le> j" if "j < length (pl_threads P)" for j
    using assms(1-4,6) that by (cases "j = i") (auto simp: pool_ok_def)
  ultimately show ?thesis
    using assms(1,7-13) n [of holds_guard] n [of in_group] n [of may_report] unfolding pool_ok_def
    by (simp split: if_splits)
qed

lemma pool_ok_step:
  assumes "pool_step limit cap start body P P'" "pool_ok P"
  shows "pool_ok P'"
  using assms(1)
proof (cases rule: pool_step_cases)
  case Add
  with assms(2) show ?thesis by (auto simp: pool_ok_def)
next
  case Start
  then have "pl_threads P ! pl_main P = Pending" using assms(2) by (auto simp: pool_ok_def)
  then show ?thesis
    using Start assms(2) count_of_update [OF Start(1), of holds_guard "Running start"]
      count_of_update [OF Start(1), of in_group "Running start"] count_of_update [OF Start(1), of may_report "Running start"]
    by (auto simp: pool_ok_def nth_list_update)
next
  case Wait
  then show ?thesis using assms(2) all_finished [of "pl_threads P"] by (auto simp: pool_ok_def)
next
  case (Work i p s r)
  show ?thesis
    by (rule pool_ok_update [OF assms(2) Work(1,2)]) (auto simp: Work(4) split: goes_on.split option.split)
next
  case (Report i e)
  show ?thesis by (rule pool_ok_update [OF assms(2) Report(1,2)]) (auto simp: Report(4))
next
  case (Leave i)
  show ?thesis by (rule pool_ok_update [OF assms(2) Leave(1,2)]) (use Leave(3) in \<open>auto simp: Leave(4)\<close>)
next
  case (Finish i)
  show ?thesis by (rule pool_ok_update [OF assms(2) Finish(1,2)]) (use Finish(3) in \<open>auto simp: Finish(4)\<close>)
qed

lemma pool_ok_steps: "(pool_step limit cap start body)\<^sup>*\<^sup>* P P' \<Longrightarrow> pool_ok P \<Longrightarrow> pool_ok P'"
  by (induction rule: rtranclp_induct) (auto dest: pool_ok_step)

lemma done_all_finished: "pool_ok P \<Longrightarrow> pool_done P \<Longrightarrow> i < length (pl_threads P) \<Longrightarrow> pl_threads P ! i = Finished"
  by (simp add: pool_ok_def pool_done_def)

lemma step_length: "pool_step limit cap start body P P' \<Longrightarrow> length (pl_threads P') = length (pl_threads P)"
  by (erule pool_step_cases) auto

section \<open>Termination and progress\<close>

text \<open>A pool whose bodies make progress: each step of a goroutine leads to a smaller rank.\<close>

locale worker_pool =
  fixes limit :: nat and start :: 'p and body :: "nat \<Rightarrow> 'p \<Rightarrow> 's \<Rightarrow> 's \<times> ('p, 'e) goes_on" and rank :: "'p \<Rightarrow> nat"
  assumes some_worker: "0 < limit"
    and body_rank: "body i p s = (s', Continue p') \<Longrightarrow> rank p' < rank p"
begin

definition weight :: "('p, 'e) thread \<Rightarrow> nat" where
  "weight t = (case t of Pending \<Rightarrow> rank start + 6 | Running p \<Rightarrow> rank p + 4 | Reporting e \<Rightarrow> 3 | Leaving \<Rightarrow> 2 | Finishing \<Rightarrow> 1 | Finished \<Rightarrow> 0)"

definition work_left :: "('s, 'p, 'e) pool \<Rightarrow> nat" where
  "work_left P = sum_list (map weight (pl_threads P)) + (if pl_added P then 0 else 1) + (if pl_waited P then 0 else 1)"

lemma sum_list_update:
  "i < length ts \<Longrightarrow> sum_list (map weight (ts[i := t])) + weight (ts ! i) = sum_list (map weight ts) + weight t"
  by (induction ts arbitrary: i) (auto split: nat.splits)

lemma step_decreases:
  assumes "pool_step limit cap start body P P'" "pool_ok P"
  shows "work_left P' < work_left P"
  using assms(1)
proof (cases rule: pool_step_cases)
  case Start
  then have "pl_threads P ! pl_main P = Pending" using assms(2) by (auto simp: pool_ok_def)
  then show ?thesis using Start sum_list_update [OF Start(1), of "Running start"] by (simp add: work_left_def weight_def)
next
  case (Work i p s r)
  define t where "t = (case r of Continue q \<Rightarrow> Running q | Return None \<Rightarrow> Leaving | Return (Some e) \<Rightarrow> Reporting e)"
  have "weight t < weight (pl_threads P ! i)"
    using Work(2,3) body_rank by (auto simp: t_def weight_def split: goes_on.split option.split)
  with sum_list_update [OF Work(1), of t] have "sum_list (map weight ((pl_threads P)[i := t])) < sum_list (map weight (pl_threads P))"
    by linarith
  then show ?thesis by (simp add: work_left_def Work(4) t_def)
next
  case (Report i e)
  then show ?thesis using sum_list_update [OF Report(1), of Leaving] by (simp add: work_left_def weight_def)
next
  case (Leave i)
  then show ?thesis using sum_list_update [OF Leave(1), of Finishing] by (simp add: work_left_def weight_def)
next
  case (Finish i)
  then show ?thesis using sum_list_update [OF Finish(1), of Finished] by (simp add: work_left_def weight_def)
qed (simp_all add: work_left_def)

lemma steps_bounded:
  "(pool_step limit cap start body ^^ k) P P' \<Longrightarrow> pool_ok P \<Longrightarrow> k + work_left P' \<le> work_left P"
proof (induction k arbitrary: P')
  case (Suc k)
  then obtain Q where q: "(pool_step limit cap start body ^^ k) P Q" "pool_step limit cap start body Q P'" by auto
  have "pool_ok Q" using pool_ok_steps [OF relpowp_imp_rtranclp [OF q(1)] Suc.prems(2)] .
  with Suc.IH [OF q(1) Suc.prems(2)] step_decreases [OF q(2)] show ?case by simp
qed simp

lemma new_pool_bounded:
  assumes "(pool_step limit cap start body ^^ k) (new_pool n s) P'"
  shows "k \<le> n * (rank start + 6) + 1"
proof -
  have "pool_ok P'" using pool_ok_steps [OF relpowp_imp_rtranclp [OF assms] new_pool_ok] .
  then have "0 < work_left P'" by (auto simp: work_left_def pool_ok_def)
  moreover have "work_left (new_pool n s) = n * (rank start + 6) + 2"
    by (simp add: work_left_def new_pool_def weight_def sum_list_replicate)
  ultimately show ?thesis using steps_bounded [OF assms new_pool_ok] by linarith
qed

text \<open>No goroutine is blocked for ever, if the channel of the errors has room for one error of each.\<close>

lemma progress:
  assumes "pool_ok P" "\<not> pool_done P" "length (pl_threads P) \<le> cap"
  shows "\<exists>P'. pool_step limit cap start body P P'"
proof (cases "\<exists>i < length (pl_threads P). in_group (pl_threads P ! i)")
  case True
  then obtain i where i: "i < length (pl_threads P)" "in_group (pl_threads P ! i)" by blast
  have "\<exists>P'. worker_move cap body i P = Some P'"
  proof (cases "pl_threads P ! i")
    case (Running p)
    obtain s r where "body i p (pl_shared P) = (s, r)" by (cases "body i p (pl_shared P)")
    with Running show ?thesis by (auto simp: worker_move_def split: goes_on.split option.split)
  next
    case (Reporting e)
    then have "length (pl_errs P) < length (pl_threads P)"
      using assms(1) count_of_pos [of i "pl_threads P" may_report] i(1) by (simp add: pool_ok_def)
    with Reporting assms(3) show ?thesis by (simp add: worker_move_def)
  next
    case Leaving
    then have "0 < pl_guard P" using assms(1) count_of_pos [of i "pl_threads P" holds_guard] i(1) by (simp add: pool_ok_def)
    with Leaving show ?thesis by (simp add: worker_move_def)
  next
    case Finishing
    then have "0 < pl_wg P" using assms(1) count_of_pos [of i "pl_threads P" in_group] i(1) by (simp add: pool_ok_def)
    with Finishing show ?thesis by (simp add: worker_move_def)
  qed (use i in simp_all)
  with i(1) show ?thesis by (auto simp: pool_move_def intro!: pool_step.move [of limit cap start body i])
next
  case False
  then have "\<not> holds_guard (pl_threads P ! i)" if "i < length (pl_threads P)" for i
    using that by (cases "pl_threads P ! i") auto
  then have g: "pl_guard P = 0" using assms(1) count_of_zero [of "pl_threads P" holds_guard] by (simp add: pool_ok_def)
  have "count_of in_group (pl_threads P) = 0" using False count_of_zero by blast
  then have w: "pl_wg P = (if pl_added P then 1 else 0)" using assms(1) by (simp add: pool_ok_def)
  have "\<exists>P'. main_move limit start P = Some P'"
    using g w some_worker assms(1,2) by (auto simp: main_move_def pool_ok_def pool_done_def)
  then show ?thesis by (auto simp: pool_move_def intro!: pool_step.move [of limit cap start body "length (pl_threads P)"])
qed

end

end
