(* ===== verification/Plugin_Packages.thy ===== *)
theory Plugin_Packages
  imports Inventory_Publish Worker_Pool
begin

text \<open>
  Packages of plugins: \<^verbatim>\<open>cmd/plugin/builder/plugin/build-packages.go\<close> and \<^verbatim>\<open>publish-packages.go\<close>. A package is a tar file
  that holds the image of one plugin binary; building pushes the binary to a local registry and saves the image from there,
  publishing pushes the tar files to the repository. The files are handled by concurrent goroutines (\<open>Worker_Pool\<close>), with the
  channels \<^verbatim>\<open>guard\<close> and \<^verbatim>\<open>fatalErrors\<close> at the capacities the code gives them.

  The state is the files and the images; the content of an image and of its tar file is that of the binary.
\<close>

section \<open>State\<close>

record package_task =
  pt_plugin :: manifest_plugin
  pt_arch :: string
  pt_version :: string

record package_state =
  kg_files :: "string \<Rightarrow> string option"
  kg_images :: "string \<Rightarrow> string option"
  kg_err :: "err option"

record package_env =
  ke_DirExists :: "string \<Rightarrow> bool"
  ke_MkdirAll :: "string \<Rightarrow> err option"
  ke_Stat :: "string \<Rightarrow> err option"
  ke_yaml_manifest :: "string \<Rightarrow> manifest_plugin list res"
  ke_Push :: "string \<Rightarrow> err option"
  ke_Pull :: "string \<Rightarrow> err option"
  ke_Write :: "string \<Rightarrow> err option"
  ke_NumCPU :: int

record build_options =
  bo_BinaryArtifactDir :: string
  bo_PackageArtifactDir :: string
  bo_LocalOCIRegistry :: string
  bo_pluginManifestFile :: string

record publish_options =
  po_PackageArtifactDir :: string
  po_Publisher :: string
  po_Vendor :: string
  po_Repository :: string
  po_DryRun :: bool
  po_pluginManifestFile :: string

definition read_file :: "package_state \<Rightarrow> string \<Rightarrow> string res" where
  "read_file s path = (case kg_files s path of None \<Rightarrow> Inl (Errorf ''no such file or directory'' [path]) | Some d \<Rightarrow> Inr d)"

definition GetMaxParallelism :: "package_env \<Rightarrow> nat" where
  "GetMaxParallelism E = nat (if ke_NumCPU E - 2 < 2 then 2 else ke_NumCPU E - 2)"

definition GetPluginArchiveRelativePath :: "manifest_plugin \<Rightarrow> string \<Rightarrow> string \<Rightarrow> string" where
  "GetPluginArchiveRelativePath p osArch version =
     path_join [arch_OS osArch, arch_Arch osArch, mp_Target p, mp_Name p, version, mp_Name p @ ''-'' @ osArch @ ''.tar'']"

text \<open>One goroutine for each plugin, platform and version.\<close>

definition package_tasks :: "manifest_plugin list \<Rightarrow> package_task list" where
  "package_tasks plugins =
     concat (map (\<lambda>p. concat (map (\<lambda>osArch. map (\<lambda>version. \<lparr>pt_plugin = p, pt_arch = osArch, pt_version = version\<rparr>)
       (mp_Versions p)) AllOSArch)) plugins)"

text \<open>The capacity of the channel of the errors.\<close>

definition GetNumberOfIndividualPluginBinariesFromManifest :: "manifest_plugin list \<Rightarrow> nat" where
  "GetNumberOfIndividualPluginBinariesFromManifest plugins =
     fold (\<lambda>p n. n + length (mp_Versions p)) plugins 0 * length AllOSArch"

text \<open>\<^verbatim>\<open>PathExists\<close>: any other error than a missing file counts as existing.\<close>

definition PathExists :: "package_env \<Rightarrow> package_state \<Rightarrow> string \<Rightarrow> bool" where
  "PathExists E s path \<longleftrightarrow> ke_Stat E path \<noteq> None \<or> kg_files s path \<noteq> None"

definition ValidatePluginBinary :: "package_env \<Rightarrow> package_state \<Rightarrow> string \<Rightarrow> bool res" where
  "ValidatePluginBinary E s path =
     (case ke_Stat E path of
        Some e \<Rightarrow> Inl e
      | None \<Rightarrow> (case kg_files s path of None \<Rightarrow> Inl (Errorf ''no such file or directory'' [path]) | Some d \<Rightarrow> Inr (d \<noteq> '''')))"

section \<open>Building\<close>

definition binary_path :: "build_options \<Rightarrow> package_task \<Rightarrow> string" where
  "binary_path opts t =
     path_join [bo_BinaryArtifactDir opts, arch_OS (pt_arch t), arch_Arch (pt_arch t), mp_Target (pt_plugin t), mp_Name (pt_plugin t),
       pt_version t, MakeArtifactName (mp_Name (pt_plugin t)) (pt_arch t)]"

definition local_image :: "build_options \<Rightarrow> package_task \<Rightarrow> string" where
  "local_image opts t =
     bo_LocalOCIRegistry opts @ ''/plugins/'' @ arch_OS (pt_arch t) @ ''/'' @ arch_Arch (pt_arch t) @ ''/'' @ mp_Name (pt_plugin t) @
     '':'' @ pt_version t"

definition tar_path :: "string \<Rightarrow> package_task \<Rightarrow> string" where
  "tar_path dir t = path_join [dir, GetPluginArchiveRelativePath (pt_plugin t) (pt_arch t) (pt_version t)]"

datatype build_phase = Checking | Saving

type_synonym error_info = "string \<times> err"

text \<open>\<open>generatePluginPackage\<close> in two steps: checking the binary and pushing it to the local registry; saving the image. The
  error it returns is sent to the channel with the path of the binary.\<close>

definition generatePluginPackage ::
    "package_env \<Rightarrow> build_options \<Rightarrow> package_task list \<Rightarrow> nat \<Rightarrow> build_phase \<Rightarrow> package_state \<Rightarrow>
     package_state \<times> (build_phase, error_info) goes_on" where
  "generatePluginPackage E opts tasks i phase s =
     (let t = tasks ! i; path = binary_path opts t; img = local_image opts t; tar = tar_path (bo_PackageArtifactDir opts) t
      in case phase of
           Checking \<Rightarrow>
             if \<not> PathExists E s path then (s, Return None)
             else (case ValidatePluginBinary E s path of
                     Inl e \<Rightarrow> (s, Return (Some (path, e)))
                   | Inr False \<Rightarrow> (s, Return (Some (path, Errorf ''invalid plugin binary :%v'' [path])))
                   | Inr True \<Rightarrow>
                       (case ke_Push E img of
                          Some e \<Rightarrow> (s, Return (Some (path, Wrapf e ''unable to push package to temporary registry for plugin'' [])))
                        | None \<Rightarrow> (s\<lparr>kg_images := (kg_images s)(img := kg_files s path)\<rparr>, Continue Saving)))
         | Saving \<Rightarrow>
             (case (case ke_Write E tar of Some e \<Rightarrow> Some e | None \<Rightarrow> ke_Pull E img) of
                Some e \<Rightarrow> (s, Return (Some (path, Wrapf e ''unable to generate package for plugin'' [])))
              | None \<Rightarrow> (s\<lparr>kg_files := (kg_files s)(tar := kg_images s img)\<rparr>, Return None)))"

text \<open>The part before the goroutines, and the part after them, with the errors that were sent to the channel; \<open>None\<close> is the
  exit with status 1.\<close>

definition build_manifest_file :: "build_options \<Rightarrow> string" where
  "build_manifest_file opts =
     (if bo_pluginManifestFile opts = '''' then path_join [bo_BinaryArtifactDir opts, ''plugin_manifest.yaml''] else bo_pluginManifestFile opts)"

definition start_build :: "package_env \<Rightarrow> build_options \<Rightarrow> package_state \<Rightarrow> manifest_plugin list res" where
  "start_build E opts s =
     (case (if ke_DirExists E (bo_PackageArtifactDir opts) then None else ke_MkdirAll E (bo_PackageArtifactDir opts)) of
        Some e \<Rightarrow> Inl e
      | None \<Rightarrow> ReadPluginManifest (read_file s) (ke_yaml_manifest E) (build_manifest_file opts))"

definition finish_build ::
    "package_env \<Rightarrow> build_options \<Rightarrow> error_info list \<Rightarrow> package_state \<Rightarrow> (package_state \<times> err option) option" where
  "finish_build E opts errors s =
     (if errors \<noteq> [] then None
      else let target = path_join [bo_PackageArtifactDir opts, ''plugin_manifest.yaml'']
           in Some (case read_file s (build_manifest_file opts) of
                Inl e \<Rightarrow> (s, Some (Wrapf e ''unable to copy plugin manifest file'' []))
              | Inr d \<Rightarrow>
                  (case ke_Write E target of
                     Some e \<Rightarrow> (s, Some (Wrapf e ''unable to copy plugin manifest file'' []))
                   | None \<Rightarrow> (s\<lparr>kg_files := (kg_files s)(target \<mapsto> d)\<rparr>, None))))"

text \<open>\<open>BuildPluginPackages\<close> has several outcomes, one for each interleaving of the goroutines.\<close>

inductive BuildPluginPackages ::
    "package_env \<Rightarrow> build_options \<Rightarrow> package_state \<Rightarrow> (package_state \<times> err option) option \<Rightarrow> bool"
  for E opts s where
  failed: "start_build E opts s = Inl e \<Longrightarrow> BuildPluginPackages E opts s (Some (s, Some e))"
| built: "start_build E opts s = Inr plugins \<Longrightarrow>
    (pool_step (GetMaxParallelism E) (GetNumberOfIndividualPluginBinariesFromManifest plugins) Checking
       (generatePluginPackage E opts (package_tasks plugins)))\<^sup>*\<^sup>* (new_pool (length (package_tasks plugins)) s) P \<Longrightarrow>
    pool_done P \<Longrightarrow> BuildPluginPackages E opts s (finish_build E opts (pl_errs P) (pl_shared P))"

section \<open>Publishing\<close>

definition remote_image :: "publish_options \<Rightarrow> package_task \<Rightarrow> string" where
  "remote_image opts t =
     po_Repository opts @ ''/'' @ po_Vendor opts @ ''/'' @ po_Publisher opts @ ''/'' @ arch_OS (pt_arch t) @ ''/'' @ arch_Arch (pt_arch t) @ ''/'' @
     mp_Target (pt_plugin t) @ ''/'' @ mp_Name (pt_plugin t) @ '':'' @ pt_version t"

datatype publish_phase = Pushing | Looking

definition publishPluginPackage ::
    "package_env \<Rightarrow> publish_options \<Rightarrow> package_task \<Rightarrow> package_state \<Rightarrow> package_state \<times> err option" where
  "publishPluginPackage E opts t s =
     (let tar = tar_path (po_PackageArtifactDir opts) t; img = remote_image opts t
      in if \<not> PathExists E s tar \<or> po_DryRun opts then (s, None)
         else (case ke_Push E img of
                 Some e \<Rightarrow> (s, Some (Wrapf e ''unable to publish plugin'' [img]))
               | None \<Rightarrow> (s\<lparr>kg_images := (kg_images s)(img := kg_files s tar)\<rparr>, None)))"

text \<open>The goroutine stores the result in the variable \<^verbatim>\<open>err\<close> of the enclosing function, which all of them share, and then
  looks at that variable (once here: the code reads it again for the error it sends, which is only logged).\<close>

definition publish_body ::
    "package_env \<Rightarrow> publish_options \<Rightarrow> package_task list \<Rightarrow> nat \<Rightarrow> publish_phase \<Rightarrow> package_state \<Rightarrow>
     package_state \<times> (publish_phase, error_info) goes_on" where
  "publish_body E opts tasks i phase s =
     (case phase of
        Pushing \<Rightarrow> (case publishPluginPackage E opts (tasks ! i) s of (s1, e) \<Rightarrow> (s1\<lparr>kg_err := e\<rparr>, Continue Looking))
      | Looking \<Rightarrow>
          (s, Return (case kg_err s of None \<Rightarrow> None | Some e \<Rightarrow> Some (tar_path (po_PackageArtifactDir opts) (tasks ! i), e))))"

definition start_publish :: "package_env \<Rightarrow> publish_options \<Rightarrow> package_state \<Rightarrow> manifest_plugin list res" where
  "start_publish E opts s =
     (if \<not> ke_DirExists E (po_PackageArtifactDir opts)
      then Inl (Errorf ''invalid package artifact directory %q'' [po_PackageArtifactDir opts])
      else ReadPluginManifest (read_file s) (ke_yaml_manifest E)
             (if po_pluginManifestFile opts = '''' then path_join [po_PackageArtifactDir opts, ''plugin_manifest.yaml'']
              else po_pluginManifestFile opts))"

inductive PublishPluginPackages ::
    "package_env \<Rightarrow> publish_options \<Rightarrow> package_state \<Rightarrow> (package_state \<times> err option) option \<Rightarrow> bool"
  for E opts s where
  failed: "start_publish E opts s = Inl e \<Longrightarrow> PublishPluginPackages E opts s (Some (s, Some e))"
| published: "start_publish E opts s = Inr plugins \<Longrightarrow>
    (pool_step (GetMaxParallelism E) (GetNumberOfIndividualPluginBinariesFromManifest plugins) Pushing
       (publish_body E opts (package_tasks plugins)))\<^sup>*\<^sup>* (new_pool (length (package_tasks plugins)) (s\<lparr>kg_err := None\<rparr>)) P \<Longrightarrow>
    pool_done P \<Longrightarrow>
    PublishPluginPackages E opts s (if pl_errs P \<noteq> [] then None else Some (pl_shared P, None))"

end
