(* ===== verification/Plugin_Compile.thy ===== *)
theory Plugin_Compile
  imports Plugin_Packages
begin

text \<open>
  Compiling plugins: \<^verbatim>\<open>cmd/plugin/builder/command/cli_compile.go\<close>. The state is the files of the artifacts directory and the
  \<^verbatim>\<open>go\<close> commands that were run. The plugins are built by concurrent goroutines whose effects are apart from each other, so
  they are taken one after the other, in the order \<open>cm_schedule\<close> in which they end.
\<close>

section \<open>Arguments\<close>

record compile_args =
  ca_Version :: string
  ca_SourcePath :: string
  ca_ArtifactsDir :: string
  ca_LDFlags :: string
  ca_Tags :: string
  ca_GoFlags :: string
  ca_Match :: string
  ca_GoPrivate :: string
  ca_PluginScopeAssociationFile :: string
  ca_TargetArch :: "string list"
  ca_GroupByOSArch :: bool
  ca_DebugSymbols :: bool

text \<open>The package variables that \<open>setGlobals\<close> initializes.\<close>

record compile_globals =
  gl_version :: string
  gl_artifactsDir :: string
  gl_ldflags :: string
  gl_tags :: string
  gl_goprivate :: string
  gl_goflags :: string
  gl_targetArch :: "string list"
  gl_groupByOSArch :: bool

definition setGlobals :: "compile_args \<Rightarrow> compile_globals" where
  "setGlobals a =
     \<lparr>gl_version = ca_Version a, gl_artifactsDir = ca_ArtifactsDir a,
      gl_ldflags = ca_LDFlags a @ '' -X 'github.com/vmware-tanzu/tanzu-plugin-runtime/plugin/buildinfo.Version='' @ ca_Version a @ [CHR 0x27] @
        (if ca_DebugSymbols a then '''' else '' -w -s''),
      gl_tags = ca_Tags a, gl_goprivate = ca_GoPrivate a,
      gl_goflags = (if ca_GoFlags a \<noteq> '''' then ''-gcflags=all=-l '' @ ca_GoFlags a else ''-gcflags=all=-l''),
      gl_targetArch = ca_TargetArch a, gl_groupByOSArch = ca_GroupByOSArch a\<rparr>"

record go_command =
  go_dir :: string
  go_args :: "string list"
  go_env :: "string list option"

record plugin_descriptor =
  de_Name :: string
  de_Description :: string
  de_Target :: string
  de_Version :: string

record built_plugin =
  bp_desc :: plugin_descriptor
  bp_path :: string
  bp_testPath :: string
  bp_modPath :: string
  bp_target :: string

record plugin_manifest =
  mf_CreatedTime :: int
  mf_Plugins :: "manifest_plugin list"

record group_manifest =
  gf_CreatedTime :: int
  gf_Plugins :: "group_manifest_plugin list"

record scope_entry =
  sc_Name :: string
  sc_Target :: string
  sc_IsContextScoped :: bool

record compile_env =
  cm_environ :: environ
  cm_Environ :: "string list"
  cm_platform :: platform
  cm_now :: int
  cm_Go :: "go_command \<Rightarrow> string res"
  cm_ReadDir :: "string \<Rightarrow> (string \<times> bool) list res"
  cm_Match :: "string \<Rightarrow> string \<Rightarrow> bool"
  cm_Stat :: "string \<Rightarrow> err option"
  cm_ReadFile :: "string \<Rightarrow> string res"
  cm_Write :: "string \<Rightarrow> err option"
  cm_Abs :: "string \<Rightarrow> string res"
  cm_IsValidTarget :: "string \<Rightarrow> bool"
  cm_json_descriptor :: "string \<Rightarrow> plugin_descriptor res"
  cm_yaml_metadata :: "string \<Rightarrow> string res"
  cm_yaml_descriptor :: "plugin_descriptor \<Rightarrow> string res"
  cm_yaml_manifest :: "plugin_manifest \<Rightarrow> string res"
  cm_read_manifest :: "string \<Rightarrow> plugin_manifest res"
  cm_yaml_group :: "group_manifest \<Rightarrow> string res"
  cm_read_group :: "string \<Rightarrow> group_manifest res"
  cm_yaml_scopes :: "string \<Rightarrow> scope_entry list res"
  cm_schedule :: "string list \<Rightarrow> string list"

record compile_state =
  co_files :: "string \<Rightarrow> string option"
  co_commands :: "go_command list"

section \<open>Commands\<close>

definition goCommand :: "compile_env \<Rightarrow> compile_globals \<Rightarrow> string list \<Rightarrow> go_command" where
  "goCommand E G args =
     \<lparr>go_dir = '''', go_args = args,
      go_env = (if gl_goprivate G \<noteq> '''' then Some (cm_Environ E @ [''GOPRIVATE='' @ gl_goprivate G]) else None)\<rparr>"

definition run_go :: "compile_env \<Rightarrow> go_command \<Rightarrow> compile_state \<Rightarrow> compile_state \<times> string res" where
  "run_go E cmd s = (s\<lparr>co_commands := co_commands s @ [cmd]\<rparr>, cm_Go E cmd)"

definition write_artifact :: "compile_env \<Rightarrow> string \<Rightarrow> string \<Rightarrow> compile_state \<Rightarrow> compile_state \<times> err option" where
  "write_artifact E path d s =
     (case cm_Write E path of Some e \<Rightarrow> (s, Some e) | None \<Rightarrow> (s\<lparr>co_files := (co_files s)(path \<mapsto> d)\<rparr>, None))"

definition CGOEnabled :: "environ \<Rightarrow> string" where
  "CGOEnabled env = (if getenv env ''CGO_ENABLED'' \<noteq> '''' then ''CGO_ENABLED='' @ getenv env ''CGO_ENABLED'' else ''CGO_ENABLED=0'')"

text \<open>The platforms, with the environment of their compilation.\<close>

definition archMap :: "environ \<Rightarrow> (string \<times> string list) list" where
  "archMap env =
     [(''linux_386'', [CGOEnabled env, ''GOARCH=386'', ''GOOS=linux'']),
      (LinuxAMD64, [CGOEnabled env, ''GOARCH=amd64'', ''GOOS=linux'']),
      (LinuxARM64, [CGOEnabled env, ''GOARCH=arm64'', ''GOOS=linux'']),
      (DarwinAMD64, [''GOARCH=amd64'', ''GOOS=darwin'']), (DarwinARM64, [''GOARCH=arm64'', ''GOOS=darwin'']),
      (''windows_386'', [''GOARCH=386'', ''GOOS=windows'']),
      (WinAMD64, [''GOARCH=amd64'', ''GOOS=windows'']), (WinARM64, [''GOARCH=arm64'', ''GOOS=windows''])]"

definition getBuildArch :: "'v lib \<Rightarrow> compile_env \<Rightarrow> string list \<Rightarrow> string list" where
  "getBuildArch L E arch =
     concat (map (\<lambda>a. if a = ''all'' then range_keys L (archMap (cm_environ E))
                       else if a = ''local'' then [BuildArch (cm_platform E)] else [a]) arch)"

text \<open>The platforms to compile for; one that is unknown is only logged, unless it is the local one, whose missing builder
  panics later.\<close>

fun selected_targets ::
    "compile_env \<Rightarrow> string list \<Rightarrow> (string \<times> string list option) list \<Rightarrow> (string \<times> string list option) list" where
  "selected_targets E [] m = m"
| "selected_targets E (a # archs) m =
     selected_targets E archs
       (if a = ''all'' then map (map_prod id Some) (archMap (cm_environ E))
        else if a = ''local'' then AList.update (BuildArch (cm_platform E)) (map_of (archMap (cm_environ E)) (BuildArch (cm_platform E))) m
        else case map_of (archMap (cm_environ E)) a of None \<Rightarrow> m | Some env \<Rightarrow> AList.update a (Some env) m)"

definition output_dir :: "compile_globals \<Rightarrow> string \<Rightarrow> string \<Rightarrow> string \<Rightarrow> string \<Rightarrow> bool \<Rightarrow> string" where
  "output_dir G artifactsDir arch target pluginName isTest =
     path_join ([artifactsDir] @ (if gl_groupByOSArch G then [arch_OS arch, arch_Arch arch, target] else []) @ [pluginName, gl_version G] @
       (if isTest then [''test''] else []))"

definition build_command ::
    "compile_env \<Rightarrow> compile_globals \<Rightarrow> string \<Rightarrow> string \<Rightarrow> string list \<Rightarrow> string \<Rightarrow> go_command" where
  "build_command E G targetPath modPath env out =
     (let cmd = goCommand E G [''build'']
      in cmd\<lparr>go_args := go_args cmd @ (if gl_goflags G \<noteq> '''' then split_on CHR '' '' (gl_goflags G) else []) @ [''-o'', out] @
               [''-ldflags'', gl_ldflags G, ''-tags'', gl_tags G] @ [''./'' @ targetPath],
             go_env := Some ((case go_env cmd of None \<Rightarrow> [] | Some env0 \<Rightarrow> env0) @ cm_Environ E @ env), go_dir := modPath\<rparr>)"

fun build_targets_loop ::
    "compile_env \<Rightarrow> compile_globals \<Rightarrow> string \<Rightarrow> string \<Rightarrow> string \<Rightarrow> string \<Rightarrow> string \<Rightarrow> bool \<Rightarrow> (string \<times> string list option) list \<Rightarrow>
     string list \<Rightarrow> compile_state \<Rightarrow> (compile_state \<times> err option) option" where
  "build_targets_loop E G targetPath artifactsDir pluginName target modPath isTest targets [] s = Some (s, None)"
| "build_targets_loop E G targetPath artifactsDir pluginName target modPath isTest targets (arch # archs) s =
     (case map_of targets arch of
        Some (Some env) \<Rightarrow>
          let pn = (if isTest then pluginName @ ''-test'' else pluginName);
              out = path_join [output_dir G artifactsDir arch target pluginName isTest, MakeArtifactName pn arch]
          in (case run_go E (build_command E G targetPath modPath env out) s of
                (s1, Inl e) \<Rightarrow> Some (s1, Some e)
              | (s1, Inr b) \<Rightarrow> build_targets_loop E G targetPath artifactsDir pluginName target modPath isTest targets archs s1)
      | _ \<Rightarrow> None)"

definition buildTargets ::
    "'v lib \<Rightarrow> compile_env \<Rightarrow> compile_globals \<Rightarrow> string \<Rightarrow> string \<Rightarrow> string \<Rightarrow> string \<Rightarrow> string \<Rightarrow> bool \<Rightarrow> compile_state \<Rightarrow>
     (compile_state \<times> err option) option" where
  "buildTargets L E G targetPath artifactsDir pluginName target modPath isTest s =
     (let targets = selected_targets E (gl_targetArch G) []
      in build_targets_loop E G targetPath artifactsDir pluginName target modPath isTest targets (range_keys L targets) s)"

definition compile_plugin ::
    "'v lib \<Rightarrow> compile_env \<Rightarrow> compile_globals \<Rightarrow> built_plugin \<Rightarrow> compile_state \<Rightarrow> (compile_state \<times> err option) option" where
  "compile_plugin L E G p s =
     (case cm_Abs E (gl_artifactsDir G) of
        Inl e \<Rightarrow> Some (s, Some e)
      | Inr dir \<Rightarrow>
          let name = de_Name (bp_desc p)
          in (case buildTargets L E G (bp_path p) dir name (bp_target p) (bp_modPath p) False s of
                None \<Rightarrow> None
              | Some (s1, Some e) \<Rightarrow> Some (s1, Some e)
              | Some (s1, None) \<Rightarrow>
                  (case (if bp_testPath p \<noteq> '''' then buildTargets L E G (bp_testPath p) dir name (bp_target p) (bp_modPath p) True s1
                         else Some (s1, None)) of
                     None \<Rightarrow> None
                   | Some (s2, Some e) \<Rightarrow> Some (s2, Some e)
                   | Some (s2, None) \<Rightarrow>
                       if gl_groupByOSArch G then Some (s2, None)
                       else (case cm_yaml_descriptor E (bp_desc p) of
                               Inl e \<Rightarrow> Some (s2, Some e)
                             | Inr b \<Rightarrow> Some (write_artifact E (path_join [dir, name, ''plugin.yaml'']) b s2)))))"

section \<open>One plugin\<close>

definition getPluginTarget :: "compile_env \<Rightarrow> compile_globals \<Rightarrow> plugin_descriptor \<Rightarrow> string \<Rightarrow> string res" where
  "getPluginTarget E G pd pluginPath =
     (if \<not> gl_groupByOSArch G then Inr ''''
      else if cm_IsValidTarget E (de_Target pd) then Inr (de_Target pd)
      else case cm_ReadFile E (path_join [pluginPath, ''metadata.yaml'']) of
          Inl e \<Rightarrow> Inl e
        | Inr b \<Rightarrow> cm_yaml_metadata E b)"

definition describe_plugin ::
    "compile_env \<Rightarrow> compile_globals \<Rightarrow> string \<Rightarrow> compile_state \<Rightarrow> compile_state \<times> string res" where
  "describe_plugin E G path s =
     (let cmd = goCommand E G [''run'', ''-ldflags'', gl_ldflags G, ''-tags'', gl_tags G]
      in if cm_Stat E (path_join [path, ''go.mod'']) = None
         then (case run_go E ((goCommand E G [''mod'', ''download''])\<lparr>go_dir := path\<rparr>) s of
                 (s1, Inl e) \<Rightarrow> (s1, Inl e)
               | (s1, Inr out) \<Rightarrow> run_go E (cmd\<lparr>go_dir := path, go_args := go_args cmd @ [''./.'', ''info'']\<rparr>) s1)
         else run_go E (cmd\<lparr>go_args := go_args cmd @ [''./'' @ path, ''info'']\<rparr>) s)"

definition buildPlugin ::
    "'v lib \<Rightarrow> compile_env \<Rightarrow> compile_globals \<Rightarrow> string \<Rightarrow> compile_state \<Rightarrow> (compile_state \<times> built_plugin res) option" where
  "buildPlugin L E G path s =
     (case describe_plugin E G path s of
        (s1, Inl e) \<Rightarrow> Some (s1, Inl e)
      | (s1, Inr b) \<Rightarrow>
          (case cm_json_descriptor E b of
             Inl e \<Rightarrow> Some (s1, Inl e)
           | Inr desc \<Rightarrow>
               (case (cm_Stat E (path_join [path, ''test'']), getenv (cm_environ E) ''TZ_ENFORCE_TEST_PLUGIN'' = ''1'') of
                  (Some e, True) \<Rightarrow> Some (s1, Inl e)
                | (testErr, _) \<Rightarrow>
                    let testPath = (if testErr = None then path_join [path, ''test''] else '''')
                    in (case cm_Stat E (path_join [path, ''README.md'']) of
                          Some e \<Rightarrow> Some (s1, Inl e)
                        | None \<Rightarrow>
                            (case getPluginTarget E G desc path of
                               Inl e \<Rightarrow> Some (s1, Inl e)
                             | Inr target \<Rightarrow>
                                 let p = (if cm_Stat E (path_join [path, ''go.mod'']) = None
                                          then \<lparr>bp_desc = desc, bp_path = ''.'', bp_testPath = (if testPath = '''' then '''' else ''test''),
                                                bp_modPath = path, bp_target = target\<rparr>
                                          else \<lparr>bp_desc = desc, bp_path = path, bp_testPath = testPath, bp_modPath = '''', bp_target = target\<rparr>)
                                 in (case compile_plugin L E G p s1 of
                                       None \<Rightarrow> None
                                     | Some (s2, Some e) \<Rightarrow> Some (s2, Inl e)
                                     | Some (s2, None) \<Rightarrow> Some (s2, Inr p)))))))"

section \<open>Manifests\<close>

definition same_plugin :: "manifest_plugin \<Rightarrow> manifest_plugin \<Rightarrow> bool" where
  "same_plugin p q \<longleftrightarrow> mp_Name p = mp_Name q \<and> mp_Target p = mp_Target q"

definition findpluginInManifest :: "manifest_plugin list \<Rightarrow> manifest_plugin \<Rightarrow> manifest_plugin option" where
  "findpluginInManifest plugins plugin = List.find (\<lambda>p. same_plugin p plugin) plugins"

definition mergePluginManifest :: "plugin_manifest \<Rightarrow> plugin_manifest \<Rightarrow> plugin_manifest" where
  "mergePluginManifest base incoming =
     base\<lparr>mf_Plugins := mf_Plugins base @ filter (\<lambda>p. findpluginInManifest (mf_Plugins base) p = None) (mf_Plugins incoming)\<rparr>"

definition findpluginInPluginGroupManifest ::
    "group_manifest_plugin list \<Rightarrow> group_manifest_plugin \<Rightarrow> group_manifest_plugin option" where
  "findpluginInPluginGroupManifest plugins plugin =
     List.find (\<lambda>p. gm_Name p = gm_Name plugin \<and> gm_Target p = gm_Target plugin) plugins"

definition mergePluginGroupManifest :: "group_manifest \<Rightarrow> group_manifest \<Rightarrow> group_manifest" where
  "mergePluginGroupManifest base incoming =
     base\<lparr>gf_Plugins := gf_Plugins base @ filter (\<lambda>p. findpluginInPluginGroupManifest (gf_Plugins base) p = None) (gf_Plugins incoming)\<rparr>"

definition read_artifact :: "compile_state \<Rightarrow> string \<Rightarrow> string res" where
  "read_artifact s path = (case co_files s path of None \<Rightarrow> Inl (Errorf ''no such file or directory'' [path]) | Some d \<Rightarrow> Inr d)"

fun write_manifests_loop :: "compile_env \<Rightarrow> string \<Rightarrow> string \<Rightarrow> string list \<Rightarrow> compile_state \<Rightarrow> compile_state \<times> err option" where
  "write_manifests_loop E dir b [] s = (s, None)"
| "write_manifests_loop E dir b (osArch # archs) s =
     (case write_artifact E (path_join [dir, arch_OS osArch, arch_Arch osArch, ''plugin_manifest.yaml'']) b s of
        (s1, Some e) \<Rightarrow> (s1, Some e)
      | (s1, None) \<Rightarrow> write_manifests_loop E dir b archs s1)"

definition savePluginManifest ::
    "'v lib \<Rightarrow> compile_env \<Rightarrow> compile_globals \<Rightarrow> plugin_manifest \<Rightarrow> compile_state \<Rightarrow> compile_state \<times> err option" where
  "savePluginManifest L E G manifest s =
     (let dir = gl_artifactsDir G
      in if gl_groupByOSArch G
         then let existing = (case read_artifact s (path_join [dir, ''plugin_manifest.yaml'']) of Inl e \<Rightarrow> Inl e | Inr b \<Rightarrow> cm_read_manifest E b);
                  merged = (case existing of
                     Inr m \<Rightarrow> if env_flag (cm_environ E) ''PLUGIN_BUNDLE_OVERWRITE'' then manifest else mergePluginManifest manifest m
                   | Inl e \<Rightarrow> manifest)
              in (case cm_yaml_manifest E merged of
                    Inl e \<Rightarrow> (s, Some e)
                  | Inr b \<Rightarrow> write_manifests_loop E dir b (getBuildArch L E (gl_targetArch G) @ ['''']) s)
         else (case cm_yaml_manifest E manifest of
                 Inl e \<Rightarrow> (s, Some e)
               | Inr b \<Rightarrow> write_artifact E (path_join [dir, ''manifest.yaml'']) b s))"

definition plugin_scope :: "scope_entry list \<Rightarrow> string \<Rightarrow> string \<Rightarrow> bool" where
  "plugin_scope scopes name target =
     (case List.find (\<lambda>p. sc_Name p = name \<and> sc_Target p = target) scopes of None \<Rightarrow> False | Some p \<Rightarrow> sc_IsContextScoped p)"

text \<open>A plugin without versions panics.\<close>

definition group_manifest_entry :: "scope_entry list \<Rightarrow> manifest_plugin \<Rightarrow> group_manifest_plugin option" where
  "group_manifest_entry scopes p =
     (case mp_Versions p of
        [] \<Rightarrow> None
      | v # _ \<Rightarrow> Some \<lparr>gm_Name = mp_Name p, gm_Target = mp_Target p, gm_IsContextScoped = plugin_scope scopes (mp_Name p) (mp_Target p),
                      gm_Version = v\<rparr>)"

definition savePluginGroupManifest ::
    "compile_env \<Rightarrow> compile_globals \<Rightarrow> string \<Rightarrow> manifest_plugin list \<Rightarrow> compile_state \<Rightarrow> (compile_state \<times> err option) option" where
  "savePluginGroupManifest E G scopeFile plugins s =
     (if \<not> gl_groupByOSArch G \<or> scopeFile = '''' then Some (s, None)
      else (case (case cm_ReadFile E scopeFile of Inl e \<Rightarrow> Inl e | Inr b \<Rightarrow> cm_yaml_scopes E b) of
              Inl e \<Rightarrow> Some (s, Some e)
            | Inr scopes \<Rightarrow>
                let entries = map (group_manifest_entry scopes) plugins
                in if None \<in> set entries then None
                   else
                     let generated = \<lparr>gf_CreatedTime = cm_now E, gf_Plugins = map the entries\<rparr>;
                         path = path_join [gl_artifactsDir G, ''plugin_group_manifest.yaml''];
                         existing = (case read_artifact s path of Inl e \<Rightarrow> Inl e | Inr b \<Rightarrow> cm_read_group E b);
                         merged = (case existing of
                            Inr m \<Rightarrow> if env_flag (cm_environ E) ''PLUGIN_BUNDLE_OVERWRITE'' then generated else mergePluginGroupManifest generated m
                          | Inl e \<Rightarrow> generated)
                     in Some (case cm_yaml_group E merged of Inl e \<Rightarrow> (s, Some e) | Inr b \<Rightarrow> write_artifact E path b s)))"

section \<open>Compile\<close>

fun build_plugins_loop ::
    "'v lib \<Rightarrow> compile_env \<Rightarrow> compile_globals \<Rightarrow> string list \<Rightarrow> compile_state \<times> manifest_plugin list \<times> err list \<Rightarrow>
     (compile_state \<times> manifest_plugin list \<times> err list) option" where
  "build_plugins_loop L E G [] st = Some st"
| "build_plugins_loop L E G (path # paths) (s, plugins, errs) =
     (case buildPlugin L E G path s of
        None \<Rightarrow> None
      | Some (s1, Inl e) \<Rightarrow> build_plugins_loop L E G paths (s1, plugins, errs @ [e])
      | Some (s1, Inr p) \<Rightarrow>
          build_plugins_loop L E G paths
            (s1, plugins @ [\<lparr>mp_Name = de_Name (bp_desc p), mp_Target = bp_target p, mp_Description = de_Description (bp_desc p),
                             mp_Versions = [de_Version (bp_desc p)]\<rparr>], errs))"

text \<open>\<open>None\<close>: the program panics, or exits with status 1 because a plugin could not be built.\<close>

definition Compile :: "'v lib \<Rightarrow> compile_env \<Rightarrow> compile_args \<Rightarrow> compile_state \<Rightarrow> (compile_state \<times> err option) option" where
  "Compile L E a s =
     (let G = setGlobals a
      in case cm_ReadDir E (ca_SourcePath a) of
           Inl e \<Rightarrow> Some (s, Some e)
         | Inr entries \<Rightarrow>
             (case build_plugins_loop L E G (cm_schedule E (map (\<lambda>f. path_join [ca_SourcePath a, fst f])
                     (filter (\<lambda>f. snd f \<and> cm_Match E (ca_Match a) (fst f)) entries))) (s, [], []) of
                None \<Rightarrow> None
              | Some (s1, plugins, errs) \<Rightarrow>
                  if errs \<noteq> [] then None
                  else (case savePluginManifest L E G \<lparr>mf_CreatedTime = cm_now E, mf_Plugins = plugins\<rparr> s1 of
                          (s2, Some e) \<Rightarrow> Some (s2, Some e)
                        | (s2, None) \<Rightarrow> savePluginGroupManifest E G (ca_PluginScopeAssociationFile a) plugins s2)))"

section \<open>What was compiled\<close>

definition plugin_key :: "manifest_plugin \<Rightarrow> string \<times> string" where
  "plugin_key p = (mp_Name p, mp_Target p)"

definition manifest_map :: "manifest_plugin list \<Rightarrow> string \<times> string \<Rightarrow> manifest_plugin option" where
  "manifest_map plugins = map_of (map (\<lambda>p. (plugin_key p, p)) plugins)"

lemma find_in_manifest: "findpluginInManifest plugins p = None \<longleftrightarrow> plugin_key p \<notin> plugin_key ` set plugins"
  by (simp add: findpluginInManifest_def find_None_iff same_plugin_def plugin_key_def image_iff) metis

lemma manifest_map_filter:
  "manifest_map (filter (\<lambda>p. plugin_key p \<notin> K) plugins) k = (if k \<in> K then None else manifest_map plugins k)"
  by (induction plugins) (auto simp: manifest_map_def)

lemma manifest_map_None: "manifest_map plugins k = None \<longleftrightarrow> k \<notin> plugin_key ` set plugins"
  by (simp add: manifest_map_def map_of_eq_None_iff image_image)

text \<open>Merging the manifest of earlier builds into the new one keeps one entry for each name and target, that of the
  new build where there is one: as a map it is the old manifest overridden by the new one.\<close>

theorem merged_manifest_overrides:
  assumes "distinct (map plugin_key (mf_Plugins base))" "distinct (map plugin_key (mf_Plugins old))"
  shows "manifest_map (mf_Plugins (mergePluginManifest base old)) = manifest_map (mf_Plugins old) ++ manifest_map (mf_Plugins base) \<and>
    distinct (map plugin_key (mf_Plugins (mergePluginManifest base old))) \<and>
    mf_CreatedTime (mergePluginManifest base old) = mf_CreatedTime base"
proof -
  let ?K = "plugin_key ` set (mf_Plugins base)"
  have m: "mf_Plugins (mergePluginManifest base old) = mf_Plugins base @ filter (\<lambda>p. plugin_key p \<notin> ?K) (mf_Plugins old)"
    by (simp add: mergePluginManifest_def find_in_manifest)
  have app: "manifest_map (xs @ ys) = manifest_map ys ++ manifest_map xs" for xs ys by (simp add: manifest_map_def)
  have "manifest_map (mf_Plugins (mergePluginManifest base old)) k = (manifest_map (mf_Plugins old) ++ manifest_map (mf_Plugins base)) k" for k
    unfolding m app using manifest_map_None [of "mf_Plugins base" k]
    by (auto simp: map_add_def manifest_map_filter split: option.splits)
  moreover have "distinct (map plugin_key (mf_Plugins (mergePluginManifest base old)))"
    unfolding m using assms by (auto simp: distinct_map_filter)
  ultimately show ?thesis by (auto simp: mergePluginManifest_def)
qed

theorem merged_manifest_overrides_witness:
  "map_option mp_Versions (manifest_map (mf_Plugins (mergePluginManifest
     \<lparr>mf_CreatedTime = 2, mf_Plugins = [\<lparr>mp_Name = ''a'', mp_Target = ''global'', mp_Description = '''', mp_Versions = [''v2'']\<rparr>]\<rparr>
     \<lparr>mf_CreatedTime = 1, mf_Plugins = [\<lparr>mp_Name = ''b'', mp_Target = ''global'', mp_Description = '''', mp_Versions = [''v1'']\<rparr>,
        \<lparr>mp_Name = ''a'', mp_Target = ''global'', mp_Description = '''', mp_Versions = [''v1'']\<rparr>]\<rparr>)) (''a'', ''global'')) = Some [''v2'']"
  by (subst merged_manifest_overrides [THEN conjunct1]) (simp_all add: plugin_key_def manifest_map_def)

end
