(* ===== verification/Plugin_Packages_Correct.thy ===== *)
theory Plugin_Packages_Correct
  imports Plugin_Packages
begin

text \<open>
  Correctness of building and publishing packages under every interleaving of the goroutines: both end; when the local images
  of the plugins differ every package holds the binary of its plugin. And two races: plugins that differ only in
  their target share a local image; the result of a push is lost in a shared variable.
\<close>

section \<open>Termination\<close>

fun build_rank :: "build_phase \<Rightarrow> nat" where
  "build_rank Checking = 1" | "build_rank Saving = 0"

fun publish_rank :: "publish_phase \<Rightarrow> nat" where
  "publish_rank Pushing = 1" | "publish_rank Looking = 0"

lemma some_parallelism: "0 < GetMaxParallelism E"
  by (simp add: GetMaxParallelism_def)

interpretation build: worker_pool "GetMaxParallelism E" Checking "generatePluginPackage E opts tasks" build_rank for E opts tasks
  by unfold_locales
    (auto simp: some_parallelism generatePluginPackage_def Let_def split: build_phase.splits if_splits sum.splits bool.splits option.splits)

interpretation publish: worker_pool "GetMaxParallelism E" Pushing "publish_body E opts tasks" publish_rank for E opts tasks
  by unfold_locales (auto simp: some_parallelism publish_body_def split: publish_phase.splits option.splits prod.splits)

text \<open>The channel of the errors has room for one error of each goroutine.\<close>

lemma capacity: "GetNumberOfIndividualPluginBinariesFromManifest plugins = length (package_tasks plugins)"
proof -
  have "length (package_tasks plugins) = sum_list (map (\<lambda>p. length AllOSArch * length (mp_Versions p)) plugins)"
    by (induction plugins) (simp_all add: package_tasks_def length_concat comp_def sum_list_triv)
  moreover have "fold (\<lambda>p n. n + length (mp_Versions p)) plugins k = k + sum_list (map (\<lambda>p. length (mp_Versions p)) plugins)" for k
    by (induction plugins arbitrary: k) simp_all
  ultimately show ?thesis
    by (simp add: GetNumberOfIndividualPluginBinariesFromManifest_def sum_list_const_mult mult.commute)
qed

abbreviation building ::
    "package_env \<Rightarrow> build_options \<Rightarrow> manifest_plugin list \<Rightarrow> (package_state, build_phase, error_info) pool \<Rightarrow>
     (package_state, build_phase, error_info) pool \<Rightarrow> bool" where
  "building E opts plugins \<equiv> pool_step (GetMaxParallelism E) (GetNumberOfIndividualPluginBinariesFromManifest plugins) Checking
     (generatePluginPackage E opts (package_tasks plugins))"

abbreviation publishing ::
    "package_env \<Rightarrow> publish_options \<Rightarrow> manifest_plugin list \<Rightarrow> (package_state, publish_phase, error_info) pool \<Rightarrow>
     (package_state, publish_phase, error_info) pool \<Rightarrow> bool" where
  "publishing E opts plugins \<equiv> pool_step (GetMaxParallelism E) (GetNumberOfIndividualPluginBinariesFromManifest plugins) Pushing
     (publish_body E opts (package_tasks plugins))"

lemma steps_length: "(pool_step limit cap start body ^^ k) P Q \<Longrightarrow> length (pl_threads Q) = length (pl_threads P)"
  by (induction k arbitrary: Q) (auto dest: step_length)

lemma new_pool_reaches:
  assumes "(pool_step limit cap start body ^^ k) (new_pool n s) P"
  shows "pool_ok P" "length (pl_threads P) = n"
  using pool_ok_steps [OF relpowp_imp_rtranclp [OF assms] new_pool_ok] steps_length [OF assms] by (simp_all add: new_pool_def)

text \<open>C11 (termination): the goroutines that build and those that publish packages never wait for each other for ever, with the
  channels \<^verbatim>\<open>guard\<close> and \<^verbatim>\<open>fatalErrors\<close> at the capacities of the code and the errors read only after the waiting: with \<open>n\<close>
  plugins, platforms and versions no run has more than \<open>7 n + 1\<close> steps; as long as the main goroutine has not got
  past \<^verbatim>\<open>wg.Wait()\<close> some goroutine has a next step; and when it has, each of them has finished, has given its token back and
  has sent at most one error.\<close>

theorem package_goroutines_end:
  "((building E bopts plugins ^^ k) (new_pool (length (package_tasks plugins)) s) P \<longrightarrow>
    k \<le> 7 * length (package_tasks plugins) + 1 \<and> (pool_done P \<or> (\<exists>P'. building E bopts plugins P P')) \<and>
    (pool_done P \<longrightarrow> (\<forall>t \<in> set (pl_threads P). t = Finished) \<and> pl_guard P = 0 \<and> length (pl_errs P) \<le> length (package_tasks plugins))) \<and>
   ((publishing E popts plugins ^^ k) (new_pool (length (package_tasks plugins)) s) Q \<longrightarrow>
    k \<le> 7 * length (package_tasks plugins) + 1 \<and> (pool_done Q \<or> (\<exists>Q'. publishing E popts plugins Q Q')) \<and>
    (pool_done Q \<longrightarrow> (\<forall>t \<in> set (pl_threads Q). t = Finished) \<and> pl_guard Q = 0 \<and> length (pl_errs Q) \<le> length (package_tasks plugins)))"
proof -
  let ?n = "length (package_tasks plugins)" and ?cap = "GetNumberOfIndividualPluginBinariesFromManifest plugins"
  have fin: "(\<forall>t \<in> set (pl_threads R). t = Finished) \<and> pl_guard R = 0 \<and> length (pl_errs R) \<le> length (pl_threads R)"
    if "pool_ok R" "pool_done R" for R :: "('s, 'p, 'e) pool"
  proof -
    have all: "\<forall>t \<in> set (pl_threads R). t = Finished" using done_all_finished [OF that] by (auto simp: in_set_conv_nth)
    then have "filter holds_guard (pl_threads R) = []" by (auto simp: filter_empty_conv)
    with all that(1) show ?thesis by (simp add: pool_ok_def count_of_def)
  qed
  have "k \<le> 7 * ?n + 1 \<and> (pool_done P \<or> (\<exists>P'. building E bopts plugins P P')) \<and>
      (pool_done P \<longrightarrow> (\<forall>t \<in> set (pl_threads P). t = Finished) \<and> pl_guard P = 0 \<and> length (pl_errs P) \<le> ?n)"
    if r: "(building E bopts plugins ^^ k) (new_pool ?n s) P"
    using build.new_pool_bounded [OF r] build.progress [of P ?cap E bopts "package_tasks plugins"] new_pool_reaches [OF r] fin [of P]
    by (auto simp: capacity mult.commute)
  moreover have "k \<le> 7 * ?n + 1 \<and> (pool_done Q \<or> (\<exists>Q'. publishing E popts plugins Q Q')) \<and>
      (pool_done Q \<longrightarrow> (\<forall>t \<in> set (pl_threads Q). t = Finished) \<and> pl_guard Q = 0 \<and> length (pl_errs Q) \<le> ?n)"
    if r: "(publishing E popts plugins ^^ k) (new_pool ?n s) Q"
    using publish.new_pool_bounded [OF r] publish.progress [of Q ?cap E popts "package_tasks plugins"] new_pool_reaches [OF r] fin [of Q]
    by (auto simp: capacity mult.commute)
  ultimately show ?thesis by blast
qed

section \<open>Every package holds its binary\<close>

definition tasks_ok :: "build_options \<Rightarrow> package_task list \<Rightarrow> bool" where
  "tasks_ok opts tasks \<longleftrightarrow> distinct (map (local_image opts) tasks) \<and> distinct (map (tar_path (bo_PackageArtifactDir opts)) tasks) \<and>
     set (map (tar_path (bo_PackageArtifactDir opts)) tasks) \<inter> set (map (binary_path opts) tasks) = {} \<and>
     path_join [bo_PackageArtifactDir opts, ''plugin_manifest.yaml''] \<notin> set (map (tar_path (bo_PackageArtifactDir opts)) tasks)"

text \<open>What holds of one goroutine, its binary as it was at the start, the shared state and the errors sent.\<close>

definition thread_inv ::
    "build_options \<Rightarrow> package_state \<Rightarrow> package_task \<Rightarrow> (build_phase, error_info) thread \<Rightarrow> package_state \<Rightarrow> error_info list \<Rightarrow> bool" where
  "thread_inv opts s0 t th s errs \<longleftrightarrow>
     (case th of
        Running Saving \<Rightarrow> kg_images s (local_image opts t) = kg_files s0 (binary_path opts t)
      | Pending \<Rightarrow> True
      | Running Checking \<Rightarrow> True
      | Reporting e \<Rightarrow> True
      | _ \<Rightarrow> errs \<noteq> [] \<or> kg_files s0 (binary_path opts t) = None \<or>
          kg_files s (tar_path (bo_PackageArtifactDir opts) t) = kg_files s0 (binary_path opts t))"

definition build_inv ::
    "build_options \<Rightarrow> package_state \<Rightarrow> package_task list \<Rightarrow> (package_state, build_phase, error_info) pool \<Rightarrow> bool" where
  "build_inv opts s0 tasks P \<longleftrightarrow> length (pl_threads P) = length tasks \<and>
     (\<forall>i < length tasks. thread_inv opts s0 (tasks ! i) (pl_threads P ! i) (pl_shared P) (pl_errs P)) \<and>
     (\<forall>i < length tasks. kg_files (pl_shared P) (binary_path opts (tasks ! i)) = kg_files s0 (binary_path opts (tasks ! i)))"

text \<open>The effect of one step of the goroutine \<open>i\<close>: it may set its own image and its own tar file.\<close>

lemma body_effect:
  assumes "generatePluginPackage E opts tasks i phase s = (s', r)"
  defines "t \<equiv> tasks ! i"
  shows "(\<forall>img. img \<noteq> local_image opts t \<longrightarrow> kg_images s' img = kg_images s img) \<and>
    (\<forall>path. path \<noteq> tar_path (bo_PackageArtifactDir opts) t \<longrightarrow> kg_files s' path = kg_files s path) \<and>
    (case r of
       Continue q \<Rightarrow> phase = Checking \<and> q = Saving \<and> kg_images s' (local_image opts t) = kg_files s (binary_path opts t)
     | Return None \<Rightarrow> (phase = Checking \<and> kg_files s (binary_path opts t) = None) \<or>
         (phase = Saving \<and> kg_files s' (tar_path (bo_PackageArtifactDir opts) t) = kg_images s (local_image opts t))
     | Return (Some e) \<Rightarrow> True)"
  using assms
  by (auto simp: generatePluginPackage_def Let_def PathExists_def split: build_phase.splits if_splits sum.splits bool.splits option.splits)

text \<open>A step that keeps the shared state, and one that works on it.\<close>

lemma build_inv_moves:
  assumes "build_inv opts s0 tasks P" "pl_threads P' = (pl_threads P)[i := th]" "pl_shared P' = pl_shared P"
    "pl_errs P \<noteq> [] \<longrightarrow> pl_errs P' \<noteq> []" "i < length tasks \<Longrightarrow> thread_inv opts s0 (tasks ! i) th (pl_shared P) (pl_errs P')"
  shows "build_inv opts s0 tasks P'"
proof -
  have "thread_inv opts s0 (tasks ! j) ((pl_threads P)[i := th] ! j) (pl_shared P) (pl_errs P')" if j: "j < length tasks" for j
  proof (cases "j = i")
    case True
    with assms(1,5) j show ?thesis by (simp add: build_inv_def)
  next
    case False
    with assms(1,4) j show ?thesis
      by (auto simp: build_inv_def thread_inv_def split: thread.splits build_phase.splits)
  qed
  with assms(1-3) show ?thesis by (simp add: build_inv_def)
qed

lemma build_inv_work:
  assumes "tasks_ok opts tasks" "build_inv opts s0 tasks P"
    and Work: "i < length (pl_threads P)" "pl_threads P ! i = Running p"
      "generatePluginPackage E opts tasks i p (pl_shared P) = (s, r)"
      "P' = P\<lparr>pl_threads := (pl_threads P)[i := (case r of Continue q \<Rightarrow> Running q | Return None \<Rightarrow> Leaving | Return (Some e) \<Rightarrow> Reporting e)],
         pl_shared := s\<rparr>"
  shows "build_inv opts s0 tasks P'"
proof -
  let ?dir = "bo_PackageArtifactDir opts"
  have len: "length (pl_threads P) = length tasks" using assms(2) by (simp add: build_inv_def)
  with Work have i: "i < length tasks" by simp
  have inv: "\<And>j. j < length tasks \<Longrightarrow> thread_inv opts s0 (tasks ! j) (pl_threads P ! j) (pl_shared P) (pl_errs P)"
    "\<And>j. j < length tasks \<Longrightarrow> kg_files (pl_shared P) (binary_path opts (tasks ! j)) = kg_files s0 (binary_path opts (tasks ! j))"
    using assms(2) by (simp_all add: build_inv_def)
  note eff = body_effect [OF Work(3)]
  have bin: "kg_files s (binary_path opts (tasks ! j)) = kg_files s0 (binary_path opts (tasks ! j))" if "j < length tasks" for j
  proof -
    have "binary_path opts (tasks ! j) \<noteq> tar_path ?dir (tasks ! i)"
    proof
      assume "binary_path opts (tasks ! j) = tar_path ?dir (tasks ! i)"
      moreover have "binary_path opts (tasks ! j) \<in> binary_path opts ` set tasks" "tar_path ?dir (tasks ! i) \<in> tar_path ?dir ` set tasks"
        using that i by simp_all
      ultimately show False using assms(1) by (auto simp: tasks_ok_def)
    qed
    then show ?thesis using eff inv(2) [OF that] by simp
  qed
  have "thread_inv opts s0 (tasks ! j) (pl_threads P' ! j) s (pl_errs P)" if j: "j < length tasks" for j
  proof (cases "j = i")
    case True
    have th: "pl_threads P' ! i = (case r of Continue q \<Rightarrow> Running q | Return None \<Rightarrow> Leaving | Return (Some e) \<Rightarrow> Reporting e)"
      using Work(1,4) by simp
    have "thread_inv opts s0 (tasks ! i) (Running p) (pl_shared P) (pl_errs P)" using inv(1) [OF i] Work(2) by simp
    then show ?thesis
      using eff inv(2) [OF i] unfolding True th by (auto simp: thread_inv_def split: option.splits goes_on.splits)
  next
    case False
    then have "local_image opts (tasks ! j) \<noteq> local_image opts (tasks ! i)" "tar_path ?dir (tasks ! j) \<noteq> tar_path ?dir (tasks ! i)"
      using assms(1) i j by (auto simp: tasks_ok_def distinct_conv_nth)
    then show ?thesis using eff inv(1) [OF j] False Work(4) by (auto simp: thread_inv_def split: thread.splits build_phase.splits)
  qed
  with bin len Work(4) show ?thesis by (simp add: build_inv_def)
qed

lemma build_inv_step:
  assumes "tasks_ok opts tasks" "build_inv opts s0 tasks P"
    "pool_step limit cap Checking (generatePluginPackage E opts tasks) P P'"
  shows "build_inv opts s0 tasks P'"
  using assms(3)
proof (cases rule: pool_step_cases)
  case Add with assms(2) show ?thesis by (simp add: build_inv_def)
next
  case Start
  show ?thesis by (rule build_inv_moves [OF assms(2)]) (auto simp: Start(4) thread_inv_def)
next
  case Wait with assms(2) show ?thesis by (simp add: build_inv_def)
next
  case (Work i p s r)
  show ?thesis by (rule build_inv_work [OF assms(1,2) Work])
next
  case (Report i e)
  show ?thesis by (rule build_inv_moves [OF assms(2)]) (auto simp: Report(4) thread_inv_def)
next
  case (Leave i)
  have "thread_inv opts s0 (tasks ! i) (pl_threads P ! i) (pl_shared P) (pl_errs P)" if "i < length tasks"
    using assms(2) that by (simp add: build_inv_def)
  then show ?thesis by (intro build_inv_moves [OF assms(2)]) (auto simp: Leave(2,4) thread_inv_def)
next
  case (Finish i)
  have "thread_inv opts s0 (tasks ! i) (pl_threads P ! i) (pl_shared P) (pl_errs P)" if "i < length tasks"
    using assms(2) that by (simp add: build_inv_def)
  then show ?thesis by (intro build_inv_moves [OF assms(2)]) (auto simp: Finish(2,4) thread_inv_def)
qed

lemma build_inv_reachable:
  assumes "(pool_step limit cap Checking (generatePluginPackage E opts tasks))\<^sup>*\<^sup>* (new_pool (length tasks) s0) P" "tasks_ok opts tasks"
  shows "build_inv opts s0 tasks P"
  using assms(1)
proof induction
  case base
  then show ?case by (simp add: build_inv_def new_pool_def thread_inv_def)
next
  case (step P P')
  with build_inv_step [OF assms(2)] show ?case by blast
qed

text \<open>C12 (safety): when no two plugins of the manifest share a local image, a build that succeeds leaves, under every interleaving
  of its goroutines, the binary of each plugin, platform and version in the package of that plugin.\<close>

theorem packages_hold_their_binaries:
  assumes "start_build E opts s = Inr plugins" "tasks_ok opts (package_tasks plugins)"
    "BuildPluginPackages E opts s (Some (s', None))" "t \<in> set (package_tasks plugins)" "kg_files s (binary_path opts t) = Some d"
  shows "kg_files s' (tar_path (bo_PackageArtifactDir opts) t) = Some d"
  using assms(3)
proof (cases rule: BuildPluginPackages.cases)
  case (built plugins' P)
  then have pl: "plugins' = plugins" using assms(1) by simp
  have inv: "build_inv opts s (package_tasks plugins) P"
    using build_inv_reachable [OF built(3) [unfolded pl] assms(2)] .
  obtain i where i: "i < length (package_tasks plugins)" "package_tasks plugins ! i = t"
    using assms(4) by (auto simp: in_set_conv_nth)
  have "pl_threads P ! i = Finished"
    using done_all_finished [OF pool_ok_steps [OF built(3) new_pool_ok] built(4)] i(1) inv by (simp add: build_inv_def)
  moreover have "thread_inv opts s t (pl_threads P ! i) (pl_shared P) (pl_errs P)" using inv i by (auto simp: build_inv_def)
  moreover have ok: "pl_errs P = []" "Some (s', None) = finish_build E opts [] (pl_shared P)"
    using built(1) by (auto simp: finish_build_def split: if_splits)
  ultimately have "kg_files (pl_shared P) (tar_path (bo_PackageArtifactDir opts) t) = Some d"
    using assms(5) by (simp add: thread_inv_def)
  moreover have "tar_path (bo_PackageArtifactDir opts) t \<noteq> path_join [bo_PackageArtifactDir opts, ''plugin_manifest.yaml'']"
    using assms(2) imageI [OF assms(4), of "tar_path (bo_PackageArtifactDir opts)"] by (auto simp: tasks_ok_def simp del: imageI)
  ultimately show ?thesis using ok by (auto simp: finish_build_def Let_def split: sum.splits option.splits)
qed

section \<open>Plugins for two targets\<close>

definition demo_plugin :: "string \<Rightarrow> manifest_plugin" where
  "demo_plugin target = \<lparr>mp_Name = ''cluster'', mp_Target = target, mp_Description = '''', mp_Versions = [''v1.0.0'']\<rparr>"

definition demo_package_env :: "manifest_plugin list \<Rightarrow> package_env" where
  "demo_package_env plugins = \<lparr>ke_DirExists = (\<lambda>_. True), ke_MkdirAll = (\<lambda>_. None), ke_Stat = (\<lambda>_. None), ke_yaml_manifest = (\<lambda>_. Inr plugins),
     ke_Push = (\<lambda>img. if img = ''reg/vmware/tkg/linux/amd64/kubernetes/cluster:v1.0.0'' then Some (Errorf ''denied'' []) else None),
     ke_Pull = (\<lambda>_. None), ke_Write = (\<lambda>_. None), ke_NumCPU = 2\<rparr>"

definition demo_build_options :: build_options where
  "demo_build_options = \<lparr>bo_BinaryArtifactDir = ''bin'', bo_PackageArtifactDir = ''pkg'', bo_LocalOCIRegistry = ''local'', bo_pluginManifestFile = ''''\<rparr>"

definition demo_package_state :: package_state where
  "demo_package_state = \<lparr>kg_files = [''bin/plugin_manifest.yaml'' \<mapsto> ''m'', ''pkg/plugin_manifest.yaml'' \<mapsto> ''m'',
       ''bin/linux/amd64/kubernetes/cluster/v1.0.0/tanzu-cluster-linux_amd64'' \<mapsto> ''k8s binary'',
       ''bin/linux/amd64/mission-control/cluster/v1.0.0/tanzu-cluster-linux_amd64'' \<mapsto> ''tmc binary'',
       ''pkg/linux/amd64/kubernetes/cluster/v1.0.0/cluster-linux_amd64.tar'' \<mapsto> ''k8s binary'',
       ''pkg/linux/amd64/mission-control/cluster/v1.0.0/cluster-linux_amd64.tar'' \<mapsto> ''tmc binary''],
     kg_images = Map.empty, kg_err = None\<rparr>"

text \<open>The main goroutine starts the goroutine \<open>i\<close>, which runs to its end when its binary is missing; \<open>m\<close> is the index of the main one.\<close>

definition starts :: "nat \<Rightarrow> nat list" where
  "starts m = [m, m]"

definition runs_alone :: "nat \<Rightarrow> nat list \<Rightarrow> nat list" where
  "runs_alone m is = concat (map (\<lambda>i. starts m @ [i, i, i]) is)"

text \<open>The first goroutine pushes its binary, the others run, the one of the second target pushes; then both save.\<close>

definition demo_schedule :: "nat list" where
  "demo_schedule = starts 12 @ [0] @ runs_alone 12 [1, 2, 3, 4, 5] @ starts 12 @ [6, 0, 0, 0, 6, 6, 6] @ runs_alone 12 [7, 8, 9, 10, 11] @ [12]"

definition demo_two_targets :: "manifest_plugin list" where
  "demo_two_targets = [demo_plugin ''kubernetes'', demo_plugin ''mission-control'']"

definition run_build :: "manifest_plugin list \<Rightarrow> nat list \<Rightarrow> (package_state, build_phase, error_info) pool option" where
  "run_build plugins schedule =
     pool_run (GetMaxParallelism (demo_package_env plugins)) (GetNumberOfIndividualPluginBinariesFromManifest plugins) Checking
       (generatePluginPackage (demo_package_env plugins) demo_build_options (package_tasks plugins)) schedule
       (new_pool (length (package_tasks plugins)) demo_package_state)"

definition demo_build :: "(package_state, build_phase, error_info) pool option" where
  "demo_build = run_build demo_two_targets demo_schedule"

text \<open>Two plugins of the same name and version for different targets share their image in the local registry: there is
  an interleaving in which the build reports success and the package of one holds the binary of the other.\<close>

theorem targets_share_local_image:
  "\<exists>s'. BuildPluginPackages (demo_package_env demo_two_targets) demo_build_options demo_package_state (Some (s', None)) \<and>
     kg_files s' ''pkg/linux/amd64/kubernetes/cluster/v1.0.0/cluster-linux_amd64.tar'' = Some ''tmc binary''"
proof -
  let ?E = "demo_package_env demo_two_targets"
  let ?tar = "''pkg/linux/amd64/kubernetes/cluster/v1.0.0/cluster-linux_amd64.tar''"
  have "map_option (\<lambda>P. (pool_done P, pl_errs P, kg_files (pl_shared P) ?tar, read_file (pl_shared P) (build_manifest_file demo_build_options)))
      demo_build = Some (True, [], Some ''tmc binary'', Inr ''m'')" by code_simp
  then obtain P where P: "run_build demo_two_targets demo_schedule = Some P" "pool_done P" "pl_errs P = []"
      "kg_files (pl_shared P) ?tar = Some ''tmc binary''"
      "read_file (pl_shared P) (build_manifest_file demo_build_options) = Inr ''m''" by (auto simp: demo_build_def)
  have "start_build ?E demo_build_options demo_package_state = Inr demo_two_targets" by code_simp
  from BuildPluginPackages.built [OF this pool_run_steps [OF P(1) [unfolded run_build_def]] P(2)]
  have "BuildPluginPackages ?E demo_build_options demo_package_state (finish_build ?E demo_build_options (pl_errs P) (pl_shared P))" .
  moreover have "path_join [bo_PackageArtifactDir demo_build_options, ''plugin_manifest.yaml''] \<noteq> ?tar"
    "ke_Write ?E (path_join [bo_PackageArtifactDir demo_build_options, ''plugin_manifest.yaml'']) = None" by code_simp+
  ultimately show ?thesis using P(3-5) by (auto simp: finish_build_def Let_def)
qed

theorem packages_hold_their_binaries_witness:
  "\<exists>s'. BuildPluginPackages (demo_package_env [demo_plugin ''kubernetes'']) demo_build_options demo_package_state (Some (s', None)) \<and>
     kg_files s' ''pkg/linux/amd64/kubernetes/cluster/v1.0.0/cluster-linux_amd64.tar'' = Some ''k8s binary''"
proof -
  let ?E = "demo_package_env [demo_plugin ''kubernetes'']"
  let ?P = "run_build [demo_plugin ''kubernetes''] (starts 6 @ starts 6 @ [0, 1, 1, 1, 0, 0, 0] @ runs_alone 6 [2, 3, 4, 5] @ [6])"
  have "map_option (\<lambda>P. (pool_done P, pl_errs P, read_file (pl_shared P) (build_manifest_file demo_build_options))) ?P =
      Some (True, [], Inr ''m'')" by code_simp
  then obtain P where P: "?P = Some P" "pool_done P" "pl_errs P = []"
      "read_file (pl_shared P) (build_manifest_file demo_build_options) = Inr ''m''" by auto
  have start: "start_build ?E demo_build_options demo_package_state = Inr [demo_plugin ''kubernetes'']" by code_simp
  from BuildPluginPackages.built [OF this pool_run_steps [OF P(1) [unfolded run_build_def]] P(2)]
  have "BuildPluginPackages ?E demo_build_options demo_package_state (finish_build ?E demo_build_options (pl_errs P) (pl_shared P))" .
  moreover have "ke_Write ?E (path_join [bo_PackageArtifactDir demo_build_options, ''plugin_manifest.yaml'']) = None" by code_simp
  ultimately obtain s' where s': "BuildPluginPackages ?E demo_build_options demo_package_state (Some (s', None))"
    using P(3,4) by (auto simp: finish_build_def Let_def)
  let ?t = "\<lparr>pt_plugin = demo_plugin ''kubernetes'', pt_arch = LinuxAMD64, pt_version = ''v1.0.0''\<rparr>"
  have "tasks_ok demo_build_options (package_tasks [demo_plugin ''kubernetes''])"
    "?t \<in> set (package_tasks [demo_plugin ''kubernetes''])" "kg_files demo_package_state (binary_path demo_build_options ?t) = Some ''k8s binary''"
    "tar_path (bo_PackageArtifactDir demo_build_options) ?t = ''pkg/linux/amd64/kubernetes/cluster/v1.0.0/cluster-linux_amd64.tar''"
    by code_simp+
  then show ?thesis using packages_hold_their_binaries [OF start _ s', of ?t] s' by auto
qed

theorem package_goroutines_end_witness:
  "\<exists>P. demo_build = Some P \<and> length demo_schedule \<le> 7 * length (package_tasks demo_two_targets) + 1 \<and>
     pool_done P \<and> (\<forall>t \<in> set (pl_threads P). t = Finished)"
proof -
  have "map_option pool_done demo_build = Some True" by code_simp
  then obtain P where P: "run_build demo_two_targets demo_schedule = Some P" "pool_done P" by (auto simp: demo_build_def)
  show ?thesis
    using P package_goroutines_end [where E = "demo_package_env demo_two_targets" and bopts = demo_build_options and
        plugins = demo_two_targets and k = "length demo_schedule" and s = demo_package_state and P = P]
      pool_run_count [OF P(1) [unfolded run_build_def]]
    unfolding demo_build_def by blast
qed

section \<open>Lost results\<close>

definition demo_publish_options :: publish_options where
  "demo_publish_options = \<lparr>po_PackageArtifactDir = ''pkg'', po_Publisher = ''tkg'', po_Vendor = ''vmware'', po_Repository = ''reg'', po_DryRun = False,
     po_pluginManifestFile = ''''\<rparr>"

text \<open>The push of the first goroutine fails; before it looks at the variable another goroutine stores its success.\<close>

definition demo_publish :: "(package_state, publish_phase, error_info) pool option" where
  "demo_publish = pool_run (GetMaxParallelism (demo_package_env demo_two_targets))
     (GetNumberOfIndividualPluginBinariesFromManifest demo_two_targets) Pushing
     (publish_body (demo_package_env demo_two_targets) demo_publish_options (package_tasks demo_two_targets))
     (starts 12 @ [0] @ starts 12 @ [1, 0, 0, 0, 1, 1, 1] @ concat (map (\<lambda>i. starts 12 @ [i, i, i, i]) [2, 3, 4, 5, 6, 7, 8, 9, 10, 11]) @ [12])
     (new_pool (length (package_tasks demo_two_targets)) (demo_package_state\<lparr>kg_err := None\<rparr>))"

text \<open>There is an interleaving in which publishing reports success although the push of a package has failed and its
  image is not in the repository: the goroutines share the variable that holds the result.\<close>

theorem failed_push_unreported:
  "\<exists>s'. PublishPluginPackages (demo_package_env demo_two_targets) demo_publish_options demo_package_state (Some (s', None)) \<and>
     kg_images s' ''reg/vmware/tkg/linux/amd64/kubernetes/cluster:v1.0.0'' = None \<and>
     kg_images s' ''reg/vmware/tkg/linux/amd64/mission-control/cluster:v1.0.0'' = Some ''tmc binary''"
proof -
  let ?E = "demo_package_env demo_two_targets"
  have "map_option (\<lambda>P. (pool_done P, pl_errs P, kg_images (pl_shared P) ''reg/vmware/tkg/linux/amd64/kubernetes/cluster:v1.0.0'',
      kg_images (pl_shared P) ''reg/vmware/tkg/linux/amd64/mission-control/cluster:v1.0.0'')) demo_publish =
    Some (True, [], None, Some ''tmc binary'')" by code_simp
  then obtain P where P: "demo_publish = Some P" "pool_done P" "pl_errs P = []"
      "kg_images (pl_shared P) ''reg/vmware/tkg/linux/amd64/kubernetes/cluster:v1.0.0'' = None"
      "kg_images (pl_shared P) ''reg/vmware/tkg/linux/amd64/mission-control/cluster:v1.0.0'' = Some ''tmc binary''" by auto
  have "start_publish ?E demo_publish_options demo_package_state = Inr demo_two_targets" by code_simp
  from PublishPluginPackages.published [OF this pool_run_steps [OF P(1) [unfolded demo_publish_def]] P(2)]
  have "PublishPluginPackages ?E demo_publish_options demo_package_state (Some (pl_shared P, None))" using P(3) by simp
  with P(4,5) show ?thesis by blast
qed

end
