(* ===== verification/Plugin_Compile_Correct.thy ===== *)
theory Plugin_Compile_Correct
  imports Plugin_Compile Plugin_Packages_Correct
begin

text \<open>
  What the compiler of plugins promises to the packager: the binaries are written where the packages are built from.
\<close>

section \<open>Paths\<close>

lemma join_nonempty: "xs \<noteq> [] \<Longrightarrow> (\<forall>x \<in> set xs. x \<noteq> []) \<Longrightarrow> join sep xs \<noteq> []"
  by (induction sep xs rule: join.induct) auto

lemma join_join: "xs \<noteq> [] \<Longrightarrow> join sep (join sep xs # ys) = join sep (xs @ ys)"
proof (induction sep xs rule: join.induct)
  case (2 sep x)
  then show ?case by simp
next
  case (3 sep x y xs)
  then show ?case by (cases ys) (auto simp: Let_def)
qed simp

lemma path_join_nested: "path_join (path_join xs # ys) = path_join (xs @ ys)"
proof (cases "filter (\<lambda>p. p \<noteq> []) xs = []")
  case True
  then show ?thesis by (simp add: path_join_def)
next
  case False
  then have "path_join xs \<noteq> []" unfolding path_join_def by (rule join_nonempty) auto
  with False show ?thesis by (simp add: path_join_def join_join)
qed

section \<open>Commands\<close>

definition writes_to :: "string \<Rightarrow> go_command \<Rightarrow> bool" where
  "writes_to out c \<longleftrightarrow> (\<exists>xs ys. go_args c = xs @ [''-o'', out] @ ys)"

text \<open>The command of one platform, and that later commands are only appended.\<close>

lemma build_command_writes: "writes_to out (build_command E G targetPath modPath env out)"
  by (auto simp: writes_to_def build_command_def Let_def)
    (metis append.assoc append_Cons append_Nil)+

lemma run_go_commands: "run_go E c s = (s', r) \<Longrightarrow> co_commands s' = co_commands s @ [c]"
  by (auto simp: run_go_def)

definition later :: "compile_state \<Rightarrow> compile_state \<Rightarrow> bool" where
  "later s s' \<longleftrightarrow> set (co_commands s) \<subseteq> set (co_commands s')"

lemma later_refl [simp]: "later s s"
  by (simp add: later_def)

lemma later_trans [trans]: "later s s' \<Longrightarrow> later s' s'' \<Longrightarrow> later s s''"
  by (auto simp: later_def)

definition binary_out :: "compile_globals \<Rightarrow> string \<Rightarrow> string \<Rightarrow> string \<Rightarrow> string \<Rightarrow> string" where
  "binary_out G dir pluginName target arch =
     path_join [output_dir G dir arch target pluginName False, MakeArtifactName pluginName arch]"

lemma build_targets_loop_later:
  "build_targets_loop E G targetPath dir pluginName target modPath isTest targets archs s = Some (s', r) \<Longrightarrow> later s s'"
proof (induction archs arbitrary: s)
  case (Cons arch archs)
  then show ?case
    by (fastforce simp: Let_def later_def dest!: run_go_commands split: option.splits prod.splits sum.splits)
qed simp

lemma build_targets_loop_writes:
  "build_targets_loop E G targetPath dir pluginName target modPath False targets archs s = Some (s', None) \<Longrightarrow> arch \<in> set archs \<Longrightarrow>
   \<exists>c \<in> set (co_commands s'). writes_to (binary_out G dir pluginName target arch) c"
proof (induction archs arbitrary: s)
  case (Cons a archs)
  from Cons.prems(1) obtain env s1 b where env: "map_of targets a = Some (Some env)"
    and s1: "run_go E (build_command E G targetPath modPath env (binary_out G dir pluginName target a)) s = (s1, Inr b)"
    and more: "build_targets_loop E G targetPath dir pluginName target modPath False targets archs s1 = Some (s', None)"
    by (auto simp: Let_def binary_out_def split: option.splits prod.splits sum.splits)
  show ?case
  proof (cases "arch = a")
    case True
    have "build_command E G targetPath modPath env (binary_out G dir pluginName target a) \<in> set (co_commands s')"
      using run_go_commands [OF s1] build_targets_loop_later [OF more] by (auto simp: later_def)
    then show ?thesis using build_command_writes True by blast
  next
    case False
    then show ?thesis using Cons.IH [OF more] Cons.prems(2) by simp
  qed
qed simp

lemma buildTargets_writes:
  assumes "range_law L" "buildTargets L E G targetPath dir pluginName target modPath False s = Some (s', None)"
    and "arch \<in> fst ` set (selected_targets E (gl_targetArch G) [])"
  shows "\<exists>c \<in> set (co_commands s'). writes_to (binary_out G dir pluginName target arch) c"
  by (rule build_targets_loop_writes [OF assms(2) [unfolded buildTargets_def Let_def]]) (use assms(1,3) in \<open>simp add: keys_of_def\<close>)

lemma buildTargets_later: "buildTargets L E G targetPath dir pluginName target modPath isTest s = Some (s', r) \<Longrightarrow> later s s'"
  by (auto simp: buildTargets_def Let_def dest: build_targets_loop_later)

lemma later_writes: "later s s' \<Longrightarrow> \<exists>c \<in> set (co_commands s). writes_to out c \<Longrightarrow> \<exists>c \<in> set (co_commands s'). writes_to out c"
  by (auto simp: later_def)

lemma write_artifact_later: "write_artifact E path d s = (s', r) \<Longrightarrow> later s s'"
  by (auto simp: write_artifact_def later_def split: option.splits)

lemma compile_plugin_writes:
  assumes L: "range_law L" and c: "compile_plugin L E G p s = Some (s', None)" and dir: "cm_Abs E (gl_artifactsDir G) = Inr dir"
    and arch: "arch \<in> fst ` set (selected_targets E (gl_targetArch G) [])"
  shows "\<exists>c \<in> set (co_commands s'). writes_to (binary_out G dir (de_Name (bp_desc p)) (bp_target p) arch) c"
proof -
  from c dir obtain s1 where
    s1: "buildTargets L E G (bp_path p) dir (de_Name (bp_desc p)) (bp_target p) (bp_modPath p) False s = Some (s1, None)"
    and more: "later s1 s'"
    by (auto simp: compile_plugin_def Let_def split: option.splits prod.splits sum.splits if_splits
        dest: buildTargets_later write_artifact_later intro: later_trans)
  show ?thesis by (rule later_writes [OF more buildTargets_writes [OF L s1 arch]])
qed

lemma compile_plugin_later: "compile_plugin L E G p s = Some (s', r) \<Longrightarrow> later s s'"
  by (auto simp: compile_plugin_def Let_def split: option.splits prod.splits sum.splits if_splits
      dest!: buildTargets_later write_artifact_later intro: later_trans)

lemma describe_plugin_later: "describe_plugin E G path s = (s', r) \<Longrightarrow> later s s'"
  by (auto simp: describe_plugin_def Let_def later_def dest!: run_go_commands split: prod.splits sum.splits if_splits)

lemma buildPlugin_compiles:
  assumes "buildPlugin L E G path s = Some (s', Inr p)"
  shows "\<exists>s1. compile_plugin L E G p s1 = Some (s', None)"
proof -
  obtain s1 r where d: "describe_plugin E G path s = (s1, r)" by force
  from assms show ?thesis unfolding buildPlugin_def d
    by (auto simp: Let_def split: option.splits prod.splits sum.splits bool.splits)
qed

lemma buildPlugin_later:
  assumes "buildPlugin L E G path s = Some (s', r)"
  shows "later s s'"
proof -
  obtain s1 r1 where d: "describe_plugin E G path s = (s1, r1)" by force
  from assms show ?thesis unfolding buildPlugin_def d using describe_plugin_later [OF d]
    by (auto simp: Let_def split: option.splits prod.splits sum.splits bool.splits dest!: compile_plugin_later intro: later_trans)
qed

section \<open>All plugins\<close>

text \<open>The entry of a plugin in the manifest, and what is known of it: its commands were run.\<close>

definition built_entry :: "built_plugin \<Rightarrow> manifest_plugin" where
  "built_entry p =
     \<lparr>mp_Name = de_Name (bp_desc p), mp_Target = bp_target p, mp_Description = de_Description (bp_desc p),
      mp_Versions = [de_Version (bp_desc p)]\<rparr>"

definition compiled_to :: "compile_env \<Rightarrow> compile_globals \<Rightarrow> string \<Rightarrow> compile_state \<Rightarrow> manifest_plugin \<Rightarrow> bool" where
  "compiled_to E G dir s p \<longleftrightarrow>
     (\<forall>arch \<in> fst ` set (selected_targets E (gl_targetArch G) []).
        \<exists>c \<in> set (co_commands s). writes_to (binary_out G dir (mp_Name p) (mp_Target p) arch) c)"

lemma compiled_to_later: "later s s' \<Longrightarrow> compiled_to E G dir s p \<Longrightarrow> compiled_to E G dir s' p"
  unfolding compiled_to_def by (blast intro: later_writes)

lemma build_plugins_loop_errors:
  "build_plugins_loop L E G paths (s, plugins, errs) = Some (s', plugins', errs') \<Longrightarrow> errs' = [] \<Longrightarrow> errs = []"
  by (induction paths arbitrary: s plugins errs) (fastforce split: option.splits prod.splits sum.splits)+

lemma build_plugins_loop_compiled:
  assumes "range_law L" "cm_Abs E (gl_artifactsDir G) = Inr dir"
  shows "build_plugins_loop L E G paths (s, plugins, []) = Some (s', plugins', []) \<Longrightarrow> \<forall>p \<in> set plugins. compiled_to E G dir s p \<Longrightarrow>
     (\<forall>p \<in> set plugins'. compiled_to E G dir s' p) \<and> length plugins' = length plugins + length paths"
proof (induction paths arbitrary: s plugins)
  case (Cons path paths)
  from Cons.prems(1) obtain s1 p where p: "buildPlugin L E G path s = Some (s1, Inr p)"
    and more: "build_plugins_loop L E G paths (s1, plugins @ [built_entry p], []) = Some (s', plugins', [])"
    by (auto simp: built_entry_def split: option.splits prod.splits sum.splits dest: build_plugins_loop_errors)
  from buildPlugin_compiles [OF p] obtain s0 where "compile_plugin L E G p s0 = Some (s1, None)" ..
  then have "compiled_to E G dir s1 (built_entry p)"
    unfolding compiled_to_def built_entry_def using compile_plugin_writes [OF assms(1) _ assms(2)] by simp
  with Cons.prems(2) buildPlugin_later [OF p] have "\<forall>q \<in> set (plugins @ [built_entry p]). compiled_to E G dir s1 q"
    by (auto intro: compiled_to_later)
  from Cons.IH [OF more this] show ?case by simp
qed simp

lemma binary_out_path:
  "gl_groupByOSArch G \<Longrightarrow> pt_version t = gl_version G \<Longrightarrow>
   binary_out G (bo_BinaryArtifactDir opts) (mp_Name (pt_plugin t)) (mp_Target (pt_plugin t)) (pt_arch t) = binary_path opts t"
  by (simp add: binary_out_def binary_path_def output_dir_def path_join_nested)

text \<open>C13 (functional): compiler and packager agree. When all plugins of a source directory compile, there is one manifest entry for each
  of their directories, and for every task that packages an entry, for a platform that was selected and the version that was
  compiled, a \<^verbatim>\<open>go build\<close> was run that writes the very file which the task reads.\<close>

theorem compiled_binaries_are_packaged:
  assumes "range_law L" "gl_groupByOSArch G" "cm_Abs E (gl_artifactsDir G) = Inr (bo_BinaryArtifactDir opts)"
    and run: "build_plugins_loop L E G paths (s, [], []) = Some (s', plugins, [])"
  shows "length plugins = length paths \<and>
    (\<forall>t \<in> set (package_tasks plugins). pt_version t = gl_version G \<and> pt_arch t \<in> fst ` set (selected_targets E (gl_targetArch G) []) \<longrightarrow>
       (\<exists>c \<in> set (co_commands s'). writes_to (binary_path opts t) c))"
proof -
  have built: "(\<forall>p \<in> set plugins. compiled_to E G (bo_BinaryArtifactDir opts) s' p) \<and> length plugins = length paths"
    using build_plugins_loop_compiled [OF assms(1,3) run] by simp
  have "pt_plugin t \<in> set plugins" if "t \<in> set (package_tasks plugins)" for t
    using that by (auto simp: package_tasks_def)
  with built show ?thesis
    unfolding compiled_to_def using binary_out_path [OF assms(2)] by fastforce
qed

definition demo_compile_env :: compile_env where
  "demo_compile_env =
     \<lparr>cm_environ = (\<lambda>x. None), cm_Environ = [], cm_platform = \<lparr>GOOS = ''linux'', GOARCH = ''amd64''\<rparr>, cm_now = 0,
      cm_Go = (\<lambda>c. Inr (last (go_args c))), cm_ReadDir = (\<lambda>d. Inr [(''cluster'', True), (''notes'', False)]),
      cm_Match = (\<lambda>g n. True), cm_Stat = (\<lambda>p. None), cm_ReadFile = (\<lambda>p. Inr ''global''), cm_Write = (\<lambda>p. None),
      cm_Abs = (\<lambda>d. Inr (''/work/'' @ d)), cm_IsValidTarget = (\<lambda>t. t \<noteq> ''''),
      cm_json_descriptor = (\<lambda>b. Inr \<lparr>de_Name = ''cluster'', de_Description = b, de_Target = ''kubernetes'', de_Version = ''v1''\<rparr>),
      cm_yaml_metadata = Inr, cm_yaml_descriptor = (\<lambda>d. Inr ''d''), cm_yaml_manifest = (\<lambda>m. Inr ''m''),
      cm_read_manifest = (\<lambda>b. Inl (Errorf b [])), cm_yaml_group = (\<lambda>g. Inr ''g''), cm_read_group = (\<lambda>b. Inl (Errorf b [])),
      cm_yaml_scopes = (\<lambda>b. Inr []), cm_schedule = id\<rparr>"

definition demo_compile_args :: compile_args where
  "demo_compile_args =
     \<lparr>ca_Version = ''v1'', ca_SourcePath = ''cmd'', ca_ArtifactsDir = ''out'', ca_LDFlags = '''', ca_Tags = '''', ca_GoFlags = '''',
      ca_Match = ''*'', ca_GoPrivate = '''', ca_PluginScopeAssociationFile = '''', ca_TargetArch = [''linux_amd64''],
      ca_GroupByOSArch = True, ca_DebugSymbols = False\<rparr>"

theorem compiled_binaries_are_packaged_witness:
  "\<exists>s' plugins. build_plugins_loop dotted_lib demo_compile_env (setGlobals demo_compile_args) [''cmd/cluster'']
       (\<lparr>co_files = (\<lambda>p. None), co_commands = []\<rparr>, [], []) = Some (s', plugins, []) \<and>
     (\<exists>c \<in> set (co_commands s'). writes_to ''/work/out/linux/amd64/kubernetes/cluster/v1/tanzu-cluster-linux_amd64'' c)"
proof -
  let ?G = "setGlobals demo_compile_args"
  let ?t = "\<lparr>pt_plugin = \<lparr>mp_Name = ''cluster'', mp_Target = ''kubernetes'', mp_Description = ''info'', mp_Versions = [''v1'']\<rparr>,
      pt_arch = LinuxAMD64, pt_version = ''v1''\<rparr>"
  let ?opts = "demo_build_options\<lparr>bo_BinaryArtifactDir := ''/work/out''\<rparr>"
  have run: "map_option (\<lambda>(s, r). r) (build_plugins_loop dotted_lib demo_compile_env ?G [''cmd/cluster'']
       (\<lparr>co_files = (\<lambda>p. None), co_commands = []\<rparr>, [], [])) = Some ([pt_plugin ?t], [])" by code_simp
  then obtain s' where s': "build_plugins_loop dotted_lib demo_compile_env ?G [''cmd/cluster'']
       (\<lparr>co_files = (\<lambda>p. None), co_commands = []\<rparr>, [], []) = Some (s', [pt_plugin ?t], [])" by auto
  have facts: "gl_groupByOSArch ?G" "cm_Abs demo_compile_env (gl_artifactsDir ?G) = Inr (bo_BinaryArtifactDir ?opts)"
      "?t \<in> set (package_tasks [pt_plugin ?t])" "pt_version ?t = gl_version ?G"
      "pt_arch ?t \<in> fst ` set (selected_targets demo_compile_env (gl_targetArch ?G) [])"
      "binary_path ?opts ?t = ''/work/out/linux/amd64/kubernetes/cluster/v1/tanzu-cluster-linux_amd64''" by code_simp+
  from compiled_binaries_are_packaged [OF dotted_range_law facts(1,2) s'] facts(3-5)
  have "\<exists>c \<in> set (co_commands s'). writes_to (binary_path ?opts ?t) c" by blast
  with s' facts(6) show ?thesis by auto
qed

end
