(* ===== verification/Plugin_Commands.thy ===== *)
theory Plugin_Commands
  imports Manager_Local_Correct Context_Commands
begin

text \<open>
  The plugin commands: \<^verbatim>\<open>pkg/command/plugin.go\<close>, \<^verbatim>\<open>plugin_search.go\<close> and \<^verbatim>\<open>plugin_group.go\<close>. A command is a function of
  its flags, its arguments and the state of the plugin manager; what it hands to the output writer of the runtime library is
  a table. \<open>sort_by\<close> is stable, where \<^verbatim>\<open>sort.Sort\<close> leaves the order of entries of the same key open.
\<close>

section \<open>Flags and output\<close>

record plugin_flags =
  fl_local :: string
  fl_version :: string
  fl_forceDelete :: bool
  fl_outputFormat :: string
  fl_targetStr :: string
  fl_targetChanged :: bool
  fl_group :: string
  fl_groupID :: string
  fl_pluginName :: string
  fl_showAllColumns :: bool
  fl_showDetails :: bool
  fl_showNonMandatory :: bool

record table =
  tb_keys :: "string list"
  tb_dynamic :: "string list"
  tb_rows :: "string list list"

definition isTableOutputFormat :: "plugin_flags \<Rightarrow> bool" where
  "isTableOutputFormat fl \<longleftrightarrow> fl_outputFormat fl = '''' \<or> fl_outputFormat fl = ''table''"

definition getTarget :: "'v lib \<Rightarrow> plugin_flags \<Rightarrow> string" where
  "getTarget L fl = StringToTarget L (to_lower (fl_targetStr fl))"

text \<open>\<open>validTarget\<close> is \<^verbatim>\<open>IsValidTarget\<close> of the runtime library for an optional target.\<close>

definition invalidTargetMsg :: err where
  "invalidTargetMsg = Errorf ''invalid target specified'' []"

section \<open>Listing\<close>

record plugin_list_info =
  li_name :: string
  li_description :: string
  li_target :: string
  li_installed :: string
  li_recommended :: string
  li_status :: string
  li_contextName :: string
  li_active :: bool

definition pluginListInfo_Less :: "plugin_list_info \<Rightarrow> plugin_list_info \<Rightarrow> bool" where
  "pluginListInfo_Less p q =
     (if li_name p \<noteq> li_name q then li_name p < li_name q else li_target p < li_target q)"

interpretation plugin_list_order: weak_order pluginListInfo_Less
  by unfold_locales (auto simp: pluginListInfo_Less_def split: if_splits)

text \<open>The first recommended plugin of the name and target is marked as installed.\<close>

fun getRecommendedPluginVersion :: "plugin_info \<Rightarrow> discovered list \<Rightarrow> discovered list \<times> string" where
  "getRecommendedPluginVersion p [] = ([], '''')"
| "getRecommendedPluginVersion p (d # ds) =
     (if pi_Name p = d_Name d \<and> pi_Target p = d_Target d
      then (d\<lparr>d_Status := PluginStatusInstalled\<rparr> # ds, d_RecommendedVersion d)
      else (case getRecommendedPluginVersion p ds of (ds1, v) \<Rightarrow> (d # ds1, v)))"

definition installed_info :: "(plugin_info \<Rightarrow> bool) \<Rightarrow> plugin_info \<Rightarrow> string \<Rightarrow> plugin_list_info" where
  "installed_info active p recommended =
     \<lparr>li_name = pi_Name p, li_description = pi_Description p, li_target = pi_Target p, li_installed = pi_Version p,
      li_recommended = recommended,
      li_status = (if recommended \<noteq> '''' \<and> pi_Version p \<noteq> recommended then ''update needed'' else PluginStatusInstalled),
      li_contextName = '''', li_active = active p\<rparr>"

definition missing_info :: "discovered \<Rightarrow> plugin_list_info" where
  "missing_info d =
     \<lparr>li_name = d_Name d, li_description = d_Description d, li_target = d_Target d, li_installed = '''',
      li_recommended = d_RecommendedVersion d, li_status = PluginStatusNotInstalled, li_contextName = d_ContextName d,
      li_active = False\<rparr>"

text \<open>The variables are the recommended plugins, the rows and whether a synchronization is required.\<close>

fun installed_rows_loop ::
    "(plugin_info \<Rightarrow> bool) \<Rightarrow> plugin_info list \<Rightarrow> discovered list \<Rightarrow> plugin_list_info list \<Rightarrow> bool \<Rightarrow>
     discovered list \<times> plugin_list_info list \<times> bool" where
  "installed_rows_loop active [] recs rows sync = (recs, rows, sync)"
| "installed_rows_loop active (p # ps) recs rows sync =
     (case getRecommendedPluginVersion p recs of
        (recs1, v) \<Rightarrow>
          installed_rows_loop active ps recs1 (rows @ [installed_info active p v])
            (sync \<or> (v \<noteq> '''' \<and> pi_Version p \<noteq> v)))"

definition plugin_list ::
    "(plugin_info \<Rightarrow> bool) \<Rightarrow> plugin_info list \<Rightarrow> discovered list \<Rightarrow> plugin_list_info list \<times> bool" where
  "plugin_list active installed recommended =
     (case installed_rows_loop active installed recommended [] False of
        (recs, rows, sync) \<Rightarrow>
          let missing = filter (\<lambda>d. d_Status d \<noteq> PluginStatusInstalled) recs
          in (sort_by pluginListInfo_Less (rows @ map missing_info missing), sync \<or> missing \<noteq> []))"

definition list_row :: "plugin_list_info \<Rightarrow> string list" where
  "list_row p = [li_name p, li_description p, li_target p, li_installed p, li_recommended p, li_status p, format_bool (li_active p)]"

definition displayInstalledPlugins ::
    "plugin_flags \<Rightarrow> (plugin_info \<Rightarrow> bool) \<Rightarrow> plugin_info list \<Rightarrow> discovered list \<Rightarrow> table \<times> bool" where
  "displayInstalledPlugins fl active installed recommended =
     (case plugin_list active installed recommended of
        (plugins, sync) \<Rightarrow>
          let columns = [''Name'', ''Description'', ''Target'', ''Installed'', ''Recommended'', ''Status'']
          in if isTableOutputFormat fl
             then (\<lparr>tb_keys = columns @ (if fl_showAllColumns fl then [''Active''] else []), tb_dynamic = [''Recommended''],
                    tb_rows = map list_row plugins\<rparr>, sync)
             else (\<lparr>tb_keys = columns @ [''Active'', ''Context'', ''Version''], tb_dynamic = [],
                    tb_rows = map (\<lambda>p. list_row p @ [li_contextName p, li_installed p]) plugins\<rparr>, False))"

definition list_command ::
    "'v lib \<Rightarrow> 'b mgr_env \<Rightarrow> plugin_flags \<Rightarrow> 'b mgr_state \<Rightarrow> ('b mgr_state \<times> (table \<times> bool) \<times> err option) option" where
  "list_command L E fl s = do {
     (w, r) \<leftarrow> GetInstalledPlugins L (me_yaml E) (me_ActiveContextsList E) (mg_cat s);
     (cs, recommended, e) \<leftarrow> DiscoverServerPlugins L E (mg_caches s);
     Some (s\<lparr>mg_cat := w, mg_caches := cs\<rparr>,
       displayInstalledPlugins fl (IsPluginActive L (me_ActiveContextsMap E)) (case r of Inl _ \<Rightarrow> [] | Inr ps \<Rightarrow> ps) recommended,
       NewAggregate L (add_err e (case r of Inl e1 \<Rightarrow> [e1] | Inr _ \<Rightarrow> [])))
   }"

section \<open>Groups\<close>

definition displayGroupContentAsTable :: "plugin_group \<Rightarrow> bool \<Rightarrow> table list" where
  "displayGroupContentAsTable pg showAll =
     (let rows = (\<lambda>mandatory. map (\<lambda>p. [id_Name p, id_Target p, id_Version p])
                    (filter (\<lambda>p. gp_Mandatory p = mandatory) (get_or [] (g_Versions pg) (g_RecommendedVersion pg))));
          tab = (\<lambda>mandatory. \<lparr>tb_keys = [''Name'', ''Target'', ''Version''], tb_dynamic = [], tb_rows = rows mandatory\<rparr>)
      in [tab True] @ (if showAll then [tab False] else []))"

definition displayGroupContentAsList :: "plugin_flags \<Rightarrow> plugin_group \<Rightarrow> table" where
  "displayGroupContentAsList fl pg =
     (let gID = PluginGroupToID pg @ '':'' @ g_RecommendedVersion pg
      in \<lparr>tb_keys = [''Group'', ''PluginName'', ''PluginTarget'', ''PluginVersion'', ''Context-Scoped''], tb_dynamic = [],
          tb_rows = map (\<lambda>p. [gID, id_Name p, id_Target p, id_Version p, format_bool (\<not> gp_Mandatory p)])
            (filter (\<lambda>p. fl_showNonMandatory fl \<or> gp_Mandatory p) (get_or [] (g_Versions pg) (g_RecommendedVersion pg)))\<rparr>)"

definition displayGroupsFound :: "plugin_group list \<Rightarrow> table" where
  "displayGroupsFound groups =
     \<lparr>tb_keys = [''group'', ''description'', ''latest''], tb_dynamic = [],
      tb_rows = map (\<lambda>pg. [PluginGroupToID pg, g_Description pg, g_RecommendedVersion pg]) groups\<rparr>"

record detailed_object =
  ob_Name :: string
  ob_Description :: string
  ob_Target :: string
  ob_Latest :: string
  ob_Versions :: "string list"

text \<open>The versions of a group are sorted in place; an error of the sorting, which keeps the order, is ignored.\<close>

definition group_versions :: "'v lib \<Rightarrow> plugin_group \<Rightarrow> string list" where
  "group_versions L pg = snd (SortVersions L (range_keys L (g_Versions pg)))"

definition displayGroupDetails :: "'v lib \<Rightarrow> plugin_group list \<Rightarrow> detailed_object list" where
  "displayGroupDetails L groups =
     map (\<lambda>pg. \<lparr>ob_Name = PluginGroupToID pg, ob_Description = g_Description pg, ob_Target = '''', ob_Latest = g_RecommendedVersion pg,
                ob_Versions = group_versions L pg\<rparr>) groups"

datatype shown = Tables "table list" | Details "detailed_object list"

definition group_search_command ::
    "'v lib \<Rightarrow> 'b mgr_env \<Rightarrow> plugin_flags \<Rightarrow> caches \<Rightarrow> (caches \<times> shown res) option" where
  "group_search_command L E fl cs =
     (let search = (\<lambda>options. do {
            (cs1, r) \<leftarrow> DiscoverPluginGroups L E options cs;
            Some (cs1, case r of
              Inl e \<Rightarrow> Inl e
            | Inr groups \<Rightarrow>
                let ordered = sort_by PluginGroup_Less groups
                in Inr (if fl_showDetails fl then Details (displayGroupDetails L ordered) else Tables [displayGroupsFound ordered]))
          })
      in if fl_groupID fl = '''' then search []
         else case PluginGroupIdentifierFromID (fl_groupID fl) of
             None \<Rightarrow> Some (cs, Inl (Errorf ''incorrect plugin-group %q specified'' [fl_groupID fl]))
           | Some gi \<Rightarrow>
               search [WithGroupDiscoveryCriteria
                 \<lparr>gc_Vendor = gi_Vendor gi, gc_Publisher = gi_Publisher gi, gc_Name = gi_Name gi, gc_Version = ''''\<rparr>])"

definition group_get_command ::
    "'v lib \<Rightarrow> 'b mgr_env \<Rightarrow> plugin_flags \<Rightarrow> string \<Rightarrow> caches \<Rightarrow> (caches \<times> shown res) option" where
  "group_get_command L E fl gID cs =
     (case PluginGroupIdentifierFromID gID of
        None \<Rightarrow> Some (cs, Inl (Errorf ''incorrect plugin-group %q specified'' [gID]))
      | Some gi \<Rightarrow> do {
          (cs1, r) \<leftarrow> DiscoverPluginGroups L E [WithGroupDiscoveryCriteria (with_latest gi)] cs;
          Some (cs1, case r of
            Inl e \<Rightarrow> Inl e
          | Inr [] \<Rightarrow> Inl (Errorf ''plugin-group %q cannot be found'' [gID])
          | Inr (pg # _) \<Rightarrow>
              Inr (Tables (if isTableOutputFormat fl then displayGroupContentAsTable pg (fl_showNonMandatory fl)
                           else [displayGroupContentAsList fl pg])))
        })"

section \<open>Searching\<close>

definition displayPluginsFound :: "discovered list \<Rightarrow> table" where
  "displayPluginsFound plugins =
     \<lparr>tb_keys = [''Name'', ''Description'', ''Target'', ''Latest''], tb_dynamic = [],
      tb_rows = map (\<lambda>p. [d_Name p, d_Description p, d_Target p, d_RecommendedVersion p]) plugins\<rparr>"

definition displayPluginDetails :: "discovered list \<Rightarrow> detailed_object list" where
  "displayPluginDetails plugins =
     map (\<lambda>p. \<lparr>ob_Name = d_Name p, ob_Description = d_Description p, ob_Target = d_Target p, ob_Latest = d_RecommendedVersion p,
               ob_Versions = d_SupportedVersions p\<rparr>) plugins"

definition plugin_criteria_of :: "string \<Rightarrow> string \<Rightarrow> discovery_option" where
  "plugin_criteria_of name target =
     WithPluginDiscoveryCriteria \<lparr>pc_Name = name, pc_Target = target, pc_Version = '''', pc_OS = '''', pc_Arch = ''''\<rparr>"

definition search_command ::
    "'v lib \<Rightarrow> 'b mgr_env \<Rightarrow> (string \<Rightarrow> bool) \<Rightarrow> plugin_flags \<Rightarrow> 'b mgr_state \<Rightarrow> ('b mgr_state \<times> shown option \<times> err option) option" where
  "search_command L E validTarget fl s =
     (let display = (\<lambda>plugins. let ordered = sort_by Discovered_Less plugins
            in if fl_showDetails fl then Details (displayPluginDetails ordered) else Tables [displayPluginsFound ordered])
      in if \<not> validTarget (fl_targetStr fl) then Some (s, None, Some invalidTargetMsg)
         else if fl_local fl \<noteq> ''''
         then (case me_Abs E (fl_local fl) of
                 Inl e \<Rightarrow> Some (s, None, Some e)
               | Inr local \<Rightarrow> do {
                   (s1, r) \<leftarrow> DiscoverPluginsFromLocalSource L E local s;
                   Some (s1, Some (display (case r of Inl _ \<Rightarrow> [] | Inr ps \<Rightarrow> ps)),
                     NewAggregate L (case r of
                       Inl e \<Rightarrow> [Wrapf e ''there was an error while discovering plugins from local source'' []] | Inr _ \<Rightarrow> []))
                 })
         else do {
           (cs, plugins, e) \<leftarrow> DiscoverStandalonePlugins L E
              [plugin_criteria_of (fl_pluginName fl) (StringToTarget L (fl_targetStr fl))] (mg_caches s);
           Some (s\<lparr>mg_caches := cs\<rparr>, Some (display plugins),
             NewAggregate L (case e of
               Some e1 \<Rightarrow> [Wrapf e1 ''there was an error while discovering standalone plugins'' []] | None \<Rightarrow> []))
         })"

section \<open>Describing, installing, uninstalling\<close>

definition describe_command ::
    "'v lib \<Rightarrow> 'b mgr_env \<Rightarrow> (string \<Rightarrow> bool) \<Rightarrow> plugin_flags \<Rightarrow> string list \<Rightarrow> 'b mgr_state \<Rightarrow> ('b mgr_state \<times> string list res) option" where
  "describe_command L E validTarget fl args s =
     (case args of
        [pluginName] \<Rightarrow>
          if \<not> validTarget (fl_targetStr fl) then Some (s, Inl invalidTargetMsg)
          else do {
            (w, r) \<leftarrow> DescribePlugin L E pluginName (getTarget L fl) (mg_cat s);
            Some (s\<lparr>mg_cat := w\<rparr>, map_sum id (\<lambda>pd.
              [pi_Name pd, pi_Version pd, pi_Status pd, pi_Target pd, pi_Description pd, pi_InstallationPath pd]) r)
          }
      | _ \<Rightarrow> Some (s, Inl (Errorf ''must provide one plugin name as a positional argument'' [])))"

definition installPluginsForPluginGroup ::
    "'v lib \<Rightarrow> 'b mgr_env \<Rightarrow> plugin_flags \<Rightarrow> string list \<Rightarrow> 'b mgr_state \<Rightarrow> ('b mgr_state \<times> err option) option" where
  "installPluginsForPluginGroup L E fl args s =
     (let pluginName = (case args of [] \<Rightarrow> AllPlugins | a # _ \<Rightarrow> a)
      in if pluginName = AllPlugins
         then do {
           (s1, r) \<leftarrow> GetPluginGroup L E (fl_group fl) [] s;
           (case r of
              Inl e \<Rightarrow> Some (s1, Some e)
            | Inr pg \<Rightarrow> do {
                (s2, groupWithVersion, e) \<leftarrow> InstallPluginsFromGivenPluginGroup L E pluginName
                   (g_Vendor pg @ ''-'' @ g_Publisher pg @ ''/'' @ g_Name pg @ '':'' @ g_RecommendedVersion pg) pg s1;
                Some (s2, e)
              })
         }
         else do {
           (s1, groupWithVersion, e) \<leftarrow> InstallPluginsFromGroup L E pluginName (fl_group fl) [] s;
           Some (s1, e)
         })"

definition install_command ::
    "'v lib \<Rightarrow> 'b mgr_env \<Rightarrow> (string \<Rightarrow> bool) \<Rightarrow> plugin_flags \<Rightarrow> string list \<Rightarrow> 'b mgr_state \<Rightarrow> ('b mgr_state \<times> err option) option" where
  "install_command L E validTarget fl args s =
     (if \<not> validTarget (fl_targetStr fl) then Some (s, Some invalidTargetMsg)
      else if fl_group fl \<noteq> '''' then installPluginsForPluginGroup L E fl args s
      else if fl_local fl \<noteq> ''''
      then (case args of
              [] \<Rightarrow> Some (s, Some (Errorf ''missing plugin name or '%s' as an argument'' [AllPlugins]))
            | pluginName # _ \<Rightarrow>
                (case me_Abs E (fl_local fl) of
                   Inl e \<Rightarrow> Some (s, Some e)
                 | Inr local \<Rightarrow> InstallPluginsFromLocalSource L E pluginName (fl_version fl) (getTarget L fl) local False s))
      else (case args of
              [] \<Rightarrow> Some (s, Some (Errorf ''missing plugin name as an argument or the use of --group'' []))
            | pluginName # _ \<Rightarrow>
                if pluginName = AllPlugins
                then Some (s, Some (Errorf ''the '%s' argument can only be used with the '--group' flag'' [AllPlugins]))
                else InstallStandalonePlugin L E pluginName (fl_version fl) (getTarget L fl) s))"

definition upgrade_command ::
    "'v lib \<Rightarrow> 'b mgr_env \<Rightarrow> (string \<Rightarrow> bool) \<Rightarrow> plugin_flags \<Rightarrow> string list \<Rightarrow> 'b mgr_state \<Rightarrow> ('b mgr_state \<times> err option) option" where
  "upgrade_command L E validTarget fl args s =
     (case args of
        [pluginName] \<Rightarrow>
          if \<not> validTarget (fl_targetStr fl) then Some (s, Some invalidTargetMsg)
          else UpgradePlugin L E pluginName VersionLatest (getTarget L fl) s
      | _ \<Rightarrow> Some (s, Some (Errorf ''must provide plugin name as positional argument'' [])))"

definition uninstall_command ::
    "'v lib \<Rightarrow> 'b mgr_env \<Rightarrow> (string \<Rightarrow> bool) \<Rightarrow> plugin_flags \<Rightarrow> string list \<Rightarrow> 'b mgr_state \<Rightarrow> 'b mgr_state \<times> err option" where
  "uninstall_command L E validTarget fl args s =
     (case args of
        [pluginName] \<Rightarrow>
          if \<not> validTarget (fl_targetStr fl) then (s, Some invalidTargetMsg)
          else if pluginName = AllPlugins \<and> getTarget L fl = TargetUnknown
          then (s, Some (Errorf ''the '%s' argument can only be used with the '--target' flag'' [AllPlugins]))
          else DeletePlugin L E \<lparr>do_Target = getTarget L fl, do_PluginName = pluginName, do_ForceDelete = fl_forceDelete fl\<rparr> s
      | _ \<Rightarrow> (s, Some (Errorf ''must provide one plugin name as a positional argument'' [])))"

section \<open>Synchronizing\<close>

fun sync_loop ::
    "'v lib \<Rightarrow> 'b mgr_env \<Rightarrow> (string \<times> cli_context) list \<Rightarrow> 'b mgr_state \<Rightarrow> err list \<Rightarrow> ('b mgr_state \<times> err list) option" where
  "sync_loop L E [] s errList = Some (s, errList)"
| "sync_loop L E ((contextType, context) # contexts) s errList =
     (if trim_space (ctx_Name context) \<noteq> ''''
      then do {
        (s1, e) \<leftarrow> syncContextPlugins L E contextType s;
        sync_loop L E contexts s1 (add_err e errList)
      }
      else sync_loop L E contexts s errList)"

definition syncPlugins :: "'v lib \<Rightarrow> 'b mgr_env \<Rightarrow> 'b mgr_state \<Rightarrow> ('b mgr_state \<times> err option) option" where
  "syncPlugins L E s =
     (case me_ActiveContextsMap E of
        Inl e \<Rightarrow> Some (s, Some e)
      | Inr m \<Rightarrow>
          if \<not> list_ex (\<lambda>(k, context). trim_space (ctx_Name context) \<noteq> '''') m then Some (s, None)
          else do {
            (s1, errList) \<leftarrow> sync_loop L E (List.map_filter (\<lambda>k. map_option (Pair k) (map_of m k)) (range_keys L m)) s [];
            Some (s1, NewAggregate L errList)
          })"

end
