(* ===== verification/Plugin_Completion.thy ===== *)
theory Plugin_Completion
  imports Plugin_Commands
begin

text \<open>
  Shell completion of the plugin commands: \<^verbatim>\<open>pkg/command/plugin.go\<close>, \<^verbatim>\<open>plugin_group.go\<close> and \<^verbatim>\<open>completion_helper.go\<close>. A completion
  is a word, or a word and its description with a tab between them; the shell is told by directives what to do with the list.
  \<open>activeHelp\<close> is the marker that \<^verbatim>\<open>cobra.AppendActiveHelp\<close> puts on a message.
\<close>

section \<open>Completions\<close>

datatype directive = DirectiveError | NoSpace | NoFileComp | KeepOrder

type_synonym completion = "string list \<times> directive set"

abbreviation tab :: char where "tab \<equiv> CHR 0x09"

definition compGlobalTarget :: string where "compGlobalTarget = ''global'' @ [tab] @ ''Applicable globally''"
definition compK8sTarget :: string where "compK8sTarget = ''k8s'' @ [tab] @ ''Interactions with a Kubernetes endpoint''"
definition compTMCTarget :: string where "compTMCTarget = ''tmc'' @ [tab] @ ''Interactions with a Tanzu Mission Control endpoint''"
definition compOpsTarget :: string where
  "compOpsTarget = ''ops'' @ [tab] @ ''Kubernetes operations for Tanzu Platform for Kubernetes''"

definition all_target_comps :: completion where
  "all_target_comps = ([compGlobalTarget, compK8sTarget, compTMCTarget, compOpsTarget], {NoFileComp})"

definition completionGetOutputFormats :: completion where
  "completionGetOutputFormats =
     ([''table'' @ [tab] @ ''Output results in human-readable format'', ''json'' @ [tab] @ ''Output results in JSON format'',
       ''yaml'' @ [tab] @ ''Output results in YAML format''], {NoFileComp})"

definition activeHelpNoMoreArgs :: "(string \<Rightarrow> string) \<Rightarrow> string list \<Rightarrow> string list" where
  "activeHelpNoMoreArgs activeHelp comps =
     comps @ [activeHelp ''This command does not take any more arguments (but may accept flags).'']"

definition noMoreCompletions :: "(string \<Rightarrow> string) \<Rightarrow> completion" where
  "noMoreCompletions activeHelp = (activeHelpNoMoreArgs activeHelp [], {NoFileComp})"

definition needs_target_flag :: completion where
  "needs_target_flag = ([''--target''], {NoFileComp})"

definition compTargetToCompString :: "string \<Rightarrow> string" where
  "compTargetToCompString target =
     (if target = TargetGlobal then compGlobalTarget else if target = TargetK8s then compK8sTarget
      else if target = TargetTMC then compTMCTarget else if target = TargetOperations then compOpsTarget else target)"

definition sort_strings :: "string list \<Rightarrow> string list" where
  "sort_strings = sort_by (\<lambda>a b. a < b)"

section \<open>Merging entries of the same name\<close>

text \<open>\<^verbatim>\<open>strings.Cut\<close> at the first tab.\<close>

definition comp_name :: "string \<Rightarrow> string" where
  "comp_name entry = takeWhile (\<lambda>c. c \<noteq> tab) entry"

definition multiple_entries :: "string \<Rightarrow> string" where
  "multiple_entries name = name @ [tab] @ ''Multiple entries for plugin '' @ name @ ''. You will need to use the --target flag.''"

fun merge_completions_loop :: "string list \<Rightarrow> string \<Rightarrow> string \<Rightarrow> string list \<Rightarrow> string list" where
  "merge_completions_loop [] prevName mergedComp merged = merged @ [mergedComp]"
| "merge_completions_loop (entry # comps) prevName mergedComp merged =
     (let name = comp_name entry
      in if name \<noteq> prevName
         then merge_completions_loop comps name entry (if mergedComp \<noteq> '''' then merged @ [mergedComp] else merged)
         else merge_completions_loop comps prevName (multiple_entries name) merged)"

definition completionMergeSimilarPlugins :: "string list \<Rightarrow> string list" where
  "completionMergeSimilarPlugins completions = merge_completions_loop (sort_strings completions) '''' '''' []"

section \<open>Installed plugins\<close>

definition compCheckIfTargetFlagNeededForInstalled ::
    "'v lib \<Rightarrow> 'b mgr_env \<Rightarrow> plugin_flags \<Rightarrow> string \<Rightarrow> 'b mgr_state \<Rightarrow> ('b mgr_state \<times> bool) option" where
  "compCheckIfTargetFlagNeededForInstalled L E fl name s =
     (if fl_targetChanged fl then Some (s, False)
      else do {
        (w, r) \<leftarrow> GetInstalledPlugins L (me_yaml E) (me_ActiveContextsList E) (mg_cat s);
        Some (s\<lparr>mg_cat := w\<rparr>, case r of Inl _ \<Rightarrow> False | Inr ps \<Rightarrow> length (filter (\<lambda>p. pi_Name p = name) ps) > 1)
      })"

definition installed_comp :: "plugin_info \<Rightarrow> string" where
  "installed_comp p = pi_Name p @ [tab] @ ''Target: '' @ pi_Target p @ '' for '' @ pi_Name p"

definition completeInstalledPlugins ::
    "'v lib \<Rightarrow> 'b mgr_env \<Rightarrow> (string \<Rightarrow> string) \<Rightarrow> plugin_flags \<Rightarrow> string list \<Rightarrow> 'b mgr_state \<Rightarrow> ('b mgr_state \<times> completion) option" where
  "completeInstalledPlugins L E activeHelp fl args s =
     (case args of
        [] \<Rightarrow> do {
          (w, r) \<leftarrow> GetInstalledPlugins L (me_yaml E) (me_ActiveContextsList E) (mg_cat s);
          Some (s\<lparr>mg_cat := w\<rparr>, case r of
            Inl _ \<Rightarrow> ([], {NoFileComp})
          | Inr ps \<Rightarrow>
              let target = getTarget L fl
              in (completionMergeSimilarPlugins
                    (map installed_comp (filter (\<lambda>p. target = TargetUnknown \<or> target = pi_Target p) ps)), {NoFileComp}))
        }
      | [name] \<Rightarrow> do {
          (s1, needed) \<leftarrow> compCheckIfTargetFlagNeededForInstalled L E fl name s;
          Some (s1, if needed then needs_target_flag else noMoreCompletions activeHelp)
        }
      | _ \<Rightarrow> Some (s, noMoreCompletions activeHelp))"

definition completeDeletePlugin ::
    "'v lib \<Rightarrow> 'b mgr_env \<Rightarrow> (string \<Rightarrow> string) \<Rightarrow> plugin_flags \<Rightarrow> string list \<Rightarrow> 'b mgr_state \<Rightarrow> ('b mgr_state \<times> completion) option" where
  "completeDeletePlugin L E activeHelp fl args s =
     (case args of
        [] \<Rightarrow> do {
          (s1, comps, directives) \<leftarrow> completeInstalledPlugins L E activeHelp fl args s;
          Some (s1, (if \<not> fl_targetChanged fl then ''all'' @ [tab] @ ''All plugins for a target. You will need to use the --target flag.''
                     else ''all'' @ [tab] @ ''All plugins of target '' @ StringToTarget L (fl_targetStr fl)) # comps,
                insert KeepOrder directives)
        }
      | [name] \<Rightarrow>
          if name = AllPlugins
          then Some (s, if \<not> fl_targetChanged fl then needs_target_flag else noMoreCompletions activeHelp)
          else do {
            (s1, needed) \<leftarrow> compCheckIfTargetFlagNeededForInstalled L E fl name s;
            Some (s1, if needed then needs_target_flag else noMoreCompletions activeHelp)
          }
      | _ \<Rightarrow> Some (s, noMoreCompletions activeHelp))"

definition suggested_targets :: "string list \<Rightarrow> completion" where
  "suggested_targets targets =
     (if targets = [] then all_target_comps else (sort_strings (map compTargetToCompString targets), {NoFileComp}))"

definition completeTargetsForInstalledPlugins ::
    "'v lib \<Rightarrow> 'b mgr_env \<Rightarrow> string list \<Rightarrow> 'b mgr_state \<Rightarrow> ('b mgr_state \<times> completion) option" where
  "completeTargetsForInstalledPlugins L E args s =
     (case args of
        [pluginName] \<Rightarrow>
          if pluginName = AllPlugins then Some (s, all_target_comps)
          else do {
            (w, r) \<leftarrow> GetInstalledPlugins L (me_yaml E) (me_ActiveContextsList E) (mg_cat s);
            Some (s\<lparr>mg_cat := w\<rparr>, case r of
              Inl _ \<Rightarrow> all_target_comps
            | Inr ps \<Rightarrow> suggested_targets (map pi_Target (filter (\<lambda>p. pi_Name p = pluginName) ps)))
          }
      | _ \<Rightarrow> Some (s, all_target_comps))"

section \<open>Available plugins\<close>

definition compCheckIfTargetFlagNeededForAllPlugins ::
    "'v lib \<Rightarrow> 'b mgr_env \<Rightarrow> plugin_flags \<Rightarrow> string \<Rightarrow> 'b mgr_state \<Rightarrow> ('b mgr_state \<times> bool) option" where
  "compCheckIfTargetFlagNeededForAllPlugins L E fl pluginName s =
     (if fl_targetChanged fl then Some (s, False)
      else do {
        (cs, plugins, e) \<leftarrow> DiscoverStandalonePlugins L E [plugin_criteria_of pluginName '''', WithUseLocalCacheOnly] (mg_caches s);
        Some (s\<lparr>mg_caches := cs\<rparr>, e = None \<and> length plugins > 1)
      })"

definition available_comp :: "discovered \<Rightarrow> string" where
  "available_comp p = d_Name p @ [tab] @ d_Description p"

definition completionAllPluginsFromLocal ::
    "'v lib \<Rightarrow> 'b mgr_env \<Rightarrow> plugin_flags \<Rightarrow> 'b mgr_state \<Rightarrow> ('b mgr_state \<times> string list) option" where
  "completionAllPluginsFromLocal L E fl s =
     (case me_Abs E (fl_local fl) of
        Inl _ \<Rightarrow> Some (s, [])
      | Inr local \<Rightarrow> do {
          (s1, r) \<leftarrow> DiscoverPluginsFromLocalSource L E local s;
          Some (s1, case r of
            Inl _ \<Rightarrow> []
          | Inr plugins \<Rightarrow>
              let target = getTarget L fl;
                  comps = map available_comp (filter (\<lambda>p. target = TargetUnknown \<or> target = d_Target p) plugins)
              in if comps = [] then []
                 else completionMergeSimilarPlugins (comps @ [AllPlugins @ [tab] @ ''All plugins of the local source'']))
        })"

definition completionAllPluginsFromGroup ::
    "'v lib \<Rightarrow> 'b mgr_env \<Rightarrow> plugin_flags \<Rightarrow> 'b mgr_state \<Rightarrow> ('b mgr_state \<times> string list) option" where
  "completionAllPluginsFromGroup L E fl s =
     (case PluginGroupIdentifierFromID (fl_group fl) of
        None \<Rightarrow> Some (s, [])
      | Some gi \<Rightarrow> do {
          (cs, r) \<leftarrow> DiscoverPluginGroups L E [WithGroupDiscoveryCriteria (with_latest gi), WithUseLocalCacheOnly] (mg_caches s);
          Some (s\<lparr>mg_caches := cs\<rparr>, case r of
            Inl _ \<Rightarrow> []
          | Inr [] \<Rightarrow> []
          | Inr (pg # _) \<Rightarrow>
              completionMergeSimilarPlugins
                (map id_Name (filter (\<lambda>p. fl_showNonMandatory fl \<or> gp_Mandatory p) (get_or [] (g_Versions pg) (g_RecommendedVersion pg))) @
                 [AllPlugins]))
        })"

text \<open>An empty result of the cache leads to a second attempt that may download the inventory.\<close>

definition completionAllPlugins ::
    "'v lib \<Rightarrow> 'b mgr_env \<Rightarrow> plugin_flags \<Rightarrow> 'b mgr_state \<Rightarrow> ('b mgr_state \<times> string list) option" where
  "completionAllPlugins L E fl s =
     (if fl_local fl \<noteq> '''' then completionAllPluginsFromLocal L E fl s
      else if fl_group fl \<noteq> '''' then completionAllPluginsFromGroup L E fl s
      else
        let criteria = plugin_criteria_of '''' (StringToTarget L (fl_targetStr fl))
        in do {
          (cs, plugins, e) \<leftarrow> DiscoverStandalonePlugins L E [criteria, WithUseLocalCacheOnly] (mg_caches s);
          (cs1, plugins1, e1) \<leftarrow> (if e = None \<and> plugins = [] then DiscoverStandalonePlugins L E [criteria] cs else Some (cs, plugins, e));
          Some (s\<lparr>mg_caches := cs1\<rparr>, if e1 \<noteq> None then [] else completionMergeSimilarPlugins (map available_comp plugins1))
        })"

definition completeAllPluginsToInstall ::
    "'v lib \<Rightarrow> 'b mgr_env \<Rightarrow> (string \<Rightarrow> string) \<Rightarrow> plugin_flags \<Rightarrow> string list \<Rightarrow> 'b mgr_state \<Rightarrow> ('b mgr_state \<times> completion) option" where
  "completeAllPluginsToInstall L E activeHelp fl args s =
     (case args of
        [] \<Rightarrow> do { (s1, comps) \<leftarrow> completionAllPlugins L E fl s; Some (s1, comps, {NoFileComp}) }
      | [name] \<Rightarrow> do {
          (s1, needed) \<leftarrow> compCheckIfTargetFlagNeededForAllPlugins L E fl name s;
          Some (s1, if needed then needs_target_flag else noMoreCompletions activeHelp)
        }
      | _ \<Rightarrow> Some (s, noMoreCompletions activeHelp))"

definition completePluginVersions ::
    "'v lib \<Rightarrow> 'b mgr_env \<Rightarrow> (string \<Rightarrow> string) \<Rightarrow> plugin_flags \<Rightarrow> string list \<Rightarrow> 'b mgr_state \<Rightarrow> ('b mgr_state \<times> completion) option" where
  "completePluginVersions L E activeHelp fl args s =
     (case args of
        [] \<Rightarrow> Some (s, [activeHelp ''You must first specify a plugin name to be able to complete its version''], {NoFileComp})
      | name # _ \<Rightarrow> do {
          (cs, plugins, e) \<leftarrow> DiscoverStandalonePlugins L E
             [plugin_criteria_of name (StringToTarget L (fl_targetStr fl)), WithUseLocalCacheOnly] (mg_caches s);
          Some (s\<lparr>mg_caches := cs\<rparr>,
            if e \<noteq> None then ([], {NoFileComp})
            else case plugins of
                [] \<Rightarrow> ([activeHelp (if fl_targetStr fl = '''' then ''Unable to find plugin '' @ name
                          else ''Unable to find plugin '' @ name @ '' for target '' @ fl_targetStr fl)], {NoFileComp})
              | [p] \<Rightarrow> (rev (d_SupportedVersions p), {NoFileComp, KeepOrder})
              | _ \<Rightarrow> ([activeHelp ''Unable to uniquely identify this plugin. Please specify a target using the --target flag''], {NoFileComp}))
        })"

definition completeTargetsForAllPlugins ::
    "'v lib \<Rightarrow> 'b mgr_env \<Rightarrow> string list \<Rightarrow> 'b mgr_state \<Rightarrow> ('b mgr_state \<times> completion) option" where
  "completeTargetsForAllPlugins L E args s =
     (case args of
        [pluginName] \<Rightarrow> do {
          (cs, plugins, e) \<leftarrow> DiscoverStandalonePlugins L E [plugin_criteria_of pluginName '''', WithUseLocalCacheOnly] (mg_caches s);
          Some (s\<lparr>mg_caches := cs\<rparr>, if e \<noteq> None then all_target_comps else suggested_targets (map d_Target plugins))
        }
      | _ \<Rightarrow> Some (s, all_target_comps))"

section \<open>Groups\<close>

definition completeGroupNames :: "'v lib \<Rightarrow> 'b mgr_env \<Rightarrow> caches \<Rightarrow> (caches \<times> completion) option" where
  "completeGroupNames L E cs = do {
     (cs1, r) \<leftarrow> DiscoverPluginGroups L E [WithUseLocalCacheOnly] cs;
     (cs2, r1) \<leftarrow> (case r of Inr [] \<Rightarrow> DiscoverPluginGroups L E [] cs1 | _ \<Rightarrow> Some (cs1, r));
     Some (cs2, (case r1 of Inl _ \<Rightarrow> []
                 | Inr groups \<Rightarrow> sort_strings (map (\<lambda>g. PluginGroupToID g @ [tab] @ g_Description g) groups)), {NoFileComp})
   }"

definition completeGroupVersions ::
    "'v lib \<Rightarrow> 'b mgr_env \<Rightarrow> (string \<Rightarrow> string) \<Rightarrow> string \<Rightarrow> caches \<Rightarrow> (caches \<times> completion) option" where
  "completeGroupVersions L E activeHelp gID cs =
     (case PluginGroupIdentifierFromID gID of
        None \<Rightarrow> Some (cs, [activeHelp (''Invalid group format: '' @ gID)], {NoFileComp})
      | Some gi \<Rightarrow> do {
          (cs1, r) \<leftarrow> DiscoverPluginGroups L E
             [WithGroupDiscoveryCriteria \<lparr>gc_Vendor = gi_Vendor gi, gc_Publisher = gi_Publisher gi, gc_Name = gi_Name gi, gc_Version = ''''\<rparr>,
              WithUseLocalCacheOnly] cs;
          Some (cs1, case r of
            Inl _ \<Rightarrow> ([], {DirectiveError})
          | Inr [] \<Rightarrow> ([activeHelp (''There is no group named: '' @ gID)], {NoFileComp})
          | Inr (pg # _) \<Rightarrow> (map (\<lambda>v. gID @ '':'' @ v) (rev (group_versions L pg)), {NoFileComp, KeepOrder}))
        })"

definition completeGroupsAndVersion ::
    "'v lib \<Rightarrow> 'b mgr_env \<Rightarrow> (string \<Rightarrow> string) \<Rightarrow> string \<Rightarrow> caches \<Rightarrow> (caches \<times> completion) option" where
  "completeGroupsAndVersion L E activeHelp toComplete cs =
     (if CHR '':'' \<in> set toComplete
      then completeGroupVersions L E activeHelp (takeWhile (\<lambda>c. c \<noteq> CHR '':'') toComplete) cs
      else do { (cs1, comps, directives) \<leftarrow> completeGroupNames L E cs; Some (cs1, comps, {NoFileComp, NoSpace}) })"

definition completeGroupGet ::
    "'v lib \<Rightarrow> 'b mgr_env \<Rightarrow> (string \<Rightarrow> string) \<Rightarrow> string list \<Rightarrow> string \<Rightarrow> caches \<Rightarrow> (caches \<times> completion) option" where
  "completeGroupGet L E activeHelp args toComplete cs =
     (if args \<noteq> [] then Some (cs, noMoreCompletions activeHelp) else completeGroupsAndVersion L E activeHelp toComplete cs)"

end
