(* ===== verification/Plugin_Commands_Correct.thy ===== *)
theory Plugin_Commands_Correct
  imports Plugin_Commands Plugin_Completion
begin

text \<open>
  Correctness of the plugin commands: the list of plugins, the guards of the commands, and what the completions offer.
\<close>

section \<open>What the list shows\<close>

text \<open>The plugins are looked up by name and target, which identify them.\<close>

definition info_key :: "plugin_info \<Rightarrow> string \<times> string" where "info_key p = (pi_Name p, pi_Target p)"
definition disc_key :: "discovered \<Rightarrow> string \<times> string" where "disc_key d = (d_Name d, d_Target d)"

definition recommended_version :: "discovered list \<Rightarrow> string \<times> string \<Rightarrow> string" where
  "recommended_version recs k = get_or '''' (map (\<lambda>d. (disc_key d, d_RecommendedVersion d)) recs) k"

definition mark_installed :: "(string \<times> string) set \<Rightarrow> discovered \<Rightarrow> discovered" where
  "mark_installed K d = (if disc_key d \<in> K then d\<lparr>d_Status := PluginStatusInstalled\<rparr> else d)"

lemma disc_key_mark [simp]: "disc_key (mark_installed K d) = disc_key d" "d_RecommendedVersion (mark_installed K d) = d_RecommendedVersion d"
  by (simp_all add: mark_installed_def disc_key_def)

lemma mark_installed_twice: "mark_installed K (mark_installed K' d) = mark_installed (K \<union> K') d"
  by (simp add: mark_installed_def disc_key_def)

lemma recommended_version_mark [simp]: "recommended_version (map (mark_installed K) recs) k = recommended_version recs k"
  by (simp add: recommended_version_def comp_def)

lemma getRecommendedPluginVersion_Cons:
  "getRecommendedPluginVersion p (d # ds) =
     (if disc_key d = info_key p then (mark_installed {info_key p} d # ds, d_RecommendedVersion d)
      else (mark_installed {info_key p} d # fst (getRecommendedPluginVersion p ds), snd (getRecommendedPluginVersion p ds)))"
  by (auto simp: disc_key_def info_key_def mark_installed_def split: prod.split)

lemma recommended_version_Cons [simp]:
  "recommended_version [] k = ''''"
  "recommended_version (d # ds) k = (if disc_key d = k then d_RecommendedVersion d else recommended_version ds k)"
  by (simp_all add: recommended_version_def get_or_def)

lemma getRecommendedPluginVersion_eq:
  "distinct (map disc_key recs) \<Longrightarrow>
   getRecommendedPluginVersion p recs = (map (mark_installed {info_key p}) recs, recommended_version recs (info_key p))"
proof (induction recs)
  case (Cons d recs)
  have "disc_key d = info_key p \<Longrightarrow> map (mark_installed {info_key p}) recs = recs"
    using Cons.prems by (intro map_idI) (auto simp: mark_installed_def image_iff)
  with Cons show ?case unfolding getRecommendedPluginVersion_Cons by simp
qed simp

lemma installed_rows_loop_eq:
  "distinct (map disc_key recs) \<Longrightarrow>
   installed_rows_loop active ps recs rows sync =
     (map (mark_installed (info_key ` set ps)) recs,
      rows @ map (\<lambda>p. installed_info active p (recommended_version recs (info_key p))) ps,
      sync \<or> (\<exists>p \<in> set ps. recommended_version recs (info_key p) \<notin> {'''', pi_Version p}))"
proof (induction ps arbitrary: recs rows sync)
  case Nil
  have "mark_installed {} = id" by (auto simp: mark_installed_def)
  then show ?case by simp
next
  case (Cons p ps)
  have keys: "distinct (map disc_key (map (mark_installed {info_key p}) recs))" using Cons.prems by (simp add: comp_def)
  show ?case
    unfolding installed_rows_loop.simps getRecommendedPluginVersion_eq [OF Cons.prems] prod.case Cons.IH [OF keys]
    by (auto simp: mark_installed_twice Un_commute)
qed


text \<open>C24 (functional): for distinct recommended plugins, the list shows every installed plugin once, with the version its context
  recommends, and every recommended plugin that is not installed once, in the order of names and targets; the note that asks for
  a synchronization is printed exactly when some recommended plugin is not installed in its recommended version.\<close>

theorem list_shows_each_plugin:
  assumes "distinct (map disc_key recs)" "distinct (map info_key installed)" "isTableOutputFormat fl"
    and "\<forall>d \<in> set recs. d_Status d \<noteq> PluginStatusInstalled \<and> d_RecommendedVersion d \<noteq> ''''"
  shows "\<exists>rows. tb_rows (fst (displayInstalledPlugins fl active installed recs)) = map list_row rows \<and>
    mset rows = mset (map (\<lambda>p. installed_info active p (recommended_version recs (info_key p))) installed) +
                mset (map missing_info (filter (\<lambda>d. disc_key d \<notin> info_key ` set installed) recs)) \<and>
    sorted_wrt (\<lambda>p q. \<not> pluginListInfo_Less q p) rows \<and>
    (snd (displayInstalledPlugins fl active installed recs) \<longleftrightarrow>
       (\<exists>d \<in> set recs. \<forall>p \<in> set installed. info_key p = disc_key d \<longrightarrow> pi_Version p \<noteq> d_RecommendedVersion d))"
proof -
  let ?rv = "recommended_version recs" and ?K = "info_key ` set installed"
  have missing: "filter (\<lambda>d. d_Status d \<noteq> PluginStatusInstalled) (map (mark_installed ?K) recs) = filter (\<lambda>d. disc_key d \<notin> ?K) recs"
    using assms(4) by (induction recs) (auto simp: mark_installed_def)
  have rv: "?rv (disc_key d) = d_RecommendedVersion d" if "d \<in> set recs" for d
    using assms(1) that by (induction recs) auto
  have no_rv: "?rv k = ''''" if "k \<notin> disc_key ` set recs" for k
    using that by (induction recs) auto
  have sync: "(\<exists>p \<in> set installed. ?rv (info_key p) \<notin> {'''', pi_Version p}) \<or> filter (\<lambda>d. disc_key d \<notin> ?K) recs \<noteq> [] \<longleftrightarrow>
      (\<exists>d \<in> set recs. \<forall>p \<in> set installed. info_key p = disc_key d \<longrightarrow> pi_Version p \<noteq> d_RecommendedVersion d)" (is "?old \<or> ?new \<longleftrightarrow> ?some")
  proof
    assume "?old \<or> ?new"
    then show ?some
    proof
      assume ?old
      then obtain p where p: "p \<in> set installed" "?rv (info_key p) \<noteq> ''''" "?rv (info_key p) \<noteq> pi_Version p" by auto
      with no_rv obtain d where d: "d \<in> set recs" "info_key p = disc_key d" by blast
      from assms(2) p(1) have "q = p" if "q \<in> set installed" "info_key q = info_key p" for q
        using that by (metis eq_key_imp_eq_value distinct_map inj_onD)
      with p(3) d rv [OF d(1)] show ?some by (metis d(2))
    next
      assume ?new
      then obtain d where "d \<in> set recs" "disc_key d \<notin> ?K" by (auto simp: filter_empty_conv)
      then show ?some by (metis image_eqI)
    qed
  next
    assume ?some
    then obtain d where d: "d \<in> set recs" "\<forall>p \<in> set installed. info_key p = disc_key d \<longrightarrow> pi_Version p \<noteq> d_RecommendedVersion d" by blast
    show "?old \<or> ?new"
    proof (cases "disc_key d \<in> ?K")
      case True
      then obtain p where "p \<in> set installed" "info_key p = disc_key d" by force
      with d rv [OF d(1)] assms(4) have ?old by (intro bexI [of _ p]) auto
      then show ?thesis ..
    qed (use d(1) in \<open>auto simp: filter_empty_conv\<close>)
  qed
  have eq: "plugin_list active installed recs =
      (sort_by pluginListInfo_Less (map (\<lambda>p. installed_info active p (?rv (info_key p))) installed @
         map missing_info (filter (\<lambda>d. disc_key d \<notin> ?K) recs)), ?old \<or> ?new)"
    unfolding plugin_list_def installed_rows_loop_eq [OF assms(1)] prod.case Let_def missing by simp
  show ?thesis
    unfolding sync [symmetric] displayInstalledPlugins_def eq prod.case Let_def
    using assms(3) by (intro exI conjI) (auto intro: plugin_list_order.sort_sorted)
qed

definition demo_flags :: plugin_flags where
  "demo_flags =
     \<lparr>fl_local = '''', fl_version = ''latest'', fl_forceDelete = False, fl_outputFormat = '''', fl_targetStr = '''', fl_targetChanged = False,
      fl_group = '''', fl_groupID = '''', fl_pluginName = '''', fl_showAllColumns = False, fl_showDetails = False, fl_showNonMandatory = False\<rparr>"

definition demo_recommended :: "string \<Rightarrow> string \<Rightarrow> discovered" where
  "demo_recommended name version =
     \<lparr>d_Name = name, d_Description = '''', d_RecommendedVersion = version, d_InstalledVersion = '''', d_SupportedVersions = [version],
      d_Distribution = [], d_Optional = False, d_Scope = PluginScopeContext, d_Source = '''', d_ContextName = ''prod'',
      d_DiscoveryType = '''', d_Target = TargetK8s, d_Status = PluginStatusNotInstalled\<rparr>"

theorem list_shows_each_plugin_witness:
  "snd (displayInstalledPlugins demo_flags (\<lambda>p. True) [] [demo_recommended ''b'' ''v1'', demo_recommended ''a'' ''v1'']) \<and>
   tb_rows (fst (displayInstalledPlugins demo_flags (\<lambda>p. True) [] [demo_recommended ''b'' ''v1'', demo_recommended ''a'' ''v1''])) =
     [[''a'', '''', TargetK8s, '''', ''v1'', PluginStatusNotInstalled, ''false''], [''b'', '''', TargetK8s, '''', ''v1'', PluginStatusNotInstalled, ''false'']]"
proof -
  let ?recs = "[demo_recommended ''b'' ''v1'', demo_recommended ''a'' ''v1'']"
  have h: "distinct (map disc_key ?recs)" "isTableOutputFormat demo_flags"
      "\<forall>d \<in> set ?recs. d_Status d \<noteq> PluginStatusInstalled \<and> d_RecommendedVersion d \<noteq> ''''" by code_simp+
  have "snd (displayInstalledPlugins demo_flags (\<lambda>p. True) [] ?recs)"
    using list_shows_each_plugin [OF h(1) _ h(2,3), of "[]" "\<lambda>p. True"] by auto
  moreover have "tb_rows (fst (displayInstalledPlugins demo_flags (\<lambda>p. True) [] ?recs)) =
     [[''a'', '''', TargetK8s, '''', ''v1'', PluginStatusNotInstalled, ''false''], [''b'', '''', TargetK8s, '''', ''v1'', PluginStatusNotInstalled, ''false'']]"
    by code_simp
  ultimately show ?thesis by blast
qed

text \<open>
  Correctness of the completion of plugin commands: entries of the same name are merged, and the suggested targets identify the
  plugins.
\<close>

section \<open>Merging\<close>

definition merged_entry :: "string list \<Rightarrow> string \<Rightarrow> string" where
  "merged_entry comps n = (case filter (\<lambda>c. comp_name c = n) comps of [c] \<Rightarrow> c | _ \<Rightarrow> multiple_entries n)"

definition comp_ok :: "string \<Rightarrow> bool" where
  "comp_ok c \<longleftrightarrow> comp_name c \<noteq> '''' \<and> (\<forall>x \<in> set c. tab \<le> x)"

lemma merged_entry_Cons:
  "merged_entry (c # cs) n =
     (if comp_name c \<noteq> n then merged_entry cs n else if n \<in> comp_name ` set cs then multiple_entries n else c)"
proof (cases "filter (\<lambda>d. comp_name d = n) cs")
  case Nil
  then show ?thesis by (auto simp: merged_entry_def filter_empty_conv)
next
  case (Cons d ds)
  then have "d \<in> set (filter (\<lambda>d. comp_name d = n) cs)" by simp
  then have "n \<in> comp_name ` set cs" by auto
  with Cons show ?thesis by (auto simp: merged_entry_def)
qed

lemma sorted_distinct_remdups_adj: "sorted xs \<Longrightarrow> distinct (remdups_adj xs)" for xs :: "'a :: linorder list"
  by (induction xs rule: remdups_adj.induct) auto

lemma remdups_adj_head:
  obtains ns where "remdups_adj (x # xs) = x # ns"
  by (metis hd_remdups_adj list.distinct(1) list.exhaust_sel list.sel(1) remdups_adj_Nil_iff)

lemma merge_loop_groups:
  "distinct (remdups_adj (prev # map comp_name cs)) \<Longrightarrow> m \<noteq> '''' \<Longrightarrow> \<forall>c \<in> set cs. comp_ok c \<Longrightarrow>
   merge_completions_loop cs prev m out =
     out @ (if prev \<in> comp_name ` set cs then multiple_entries prev else m) #
       map (merged_entry cs) (tl (remdups_adj (prev # map comp_name cs)))"
proof (induction cs arbitrary: prev m out)
  case (Cons c cs)
  have ne: "c \<noteq> ''''" using Cons.prems(3) by (auto simp: comp_ok_def comp_name_def)
  show ?case
  proof (cases "comp_name c = prev")
    case True
    obtain ns where ns: "remdups_adj (prev # map comp_name cs) = prev # ns" by (rule remdups_adj_head)
    with Cons.prems(1) True have "prev \<notin> set ns" "distinct (prev # ns)" by auto
    then show ?thesis
      using Cons True ns by (auto simp: merged_entry_Cons multiple_entries_def intro!: map_cong)
  next
    case False
    let ?n = "comp_name c"
    obtain ns where ns: "remdups_adj (?n # map comp_name cs) = ?n # ns" by (rule remdups_adj_head)
    have groups: "remdups_adj (prev # map comp_name (c # cs)) = prev # ?n # ns"
      using False ns by simp
    have "set (?n # ns) = insert ?n (comp_name ` set cs)"
      using ns by (metis remdups_adj_set list.simps(15) set_map)
    with Cons.prems(1) groups have out: "prev \<notin> comp_name ` set cs" "?n \<notin> set ns" "distinct (?n # ns)" by auto
    then show ?thesis
      using Cons False ns groups ne by (auto simp: merged_entry_Cons intro!: map_cong)
  qed
qed simp

text \<open>Sorting the entries brings those of one name together.\<close>

lemma comp_name_mono: "c \<le> d \<Longrightarrow> \<forall>x \<in> set c. tab \<le> x \<Longrightarrow> \<forall>x \<in> set d. tab \<le> x \<Longrightarrow> comp_name c \<le> comp_name d"
proof (induction c arbitrary: d)
  case (Cons a c)
  then show ?case by (cases d) (auto simp: comp_name_def)
qed (simp add: comp_name_def)

lemma sorted_sort_strings: "sorted (sort_strings cs)"
  using string_order.sort_sorted [of cs] by (simp add: sort_strings_def not_less)

lemma sorted_names: "\<forall>c \<in> set cs. comp_ok c \<Longrightarrow> sorted (map comp_name (sort_strings cs))"
  using sorted_sort_strings [of cs]
  by (auto simp: sorted_map sort_strings_def comp_ok_def intro!: comp_name_mono elim!: sorted_wrt_mono_rel [rotated])

lemma merged_completions:
  assumes "cs \<noteq> []" "\<forall>c \<in> set cs. comp_ok c"
  shows "\<exists>names. distinct names \<and> set names = comp_name ` set cs \<and>
    completionMergeSimilarPlugins cs = map (merged_entry (sort_strings cs)) names"
proof -
  obtain c ds where sort: "sort_strings cs = c # ds" using assms(1) by (cases "sort_strings cs") (auto simp: sort_strings_def)
  have ok: "\<forall>d \<in> set (c # ds). comp_ok d" using assms(2) unfolding sort [symmetric] by (simp add: sort_strings_def)
  let ?names = "remdups_adj (map comp_name (c # ds))"
  have distinct: "distinct ?names" using sorted_names [OF assms(2)] unfolding sort by (rule sorted_distinct_remdups_adj)
  obtain ns where ns: "?names = comp_name c # ns" unfolding list.map by (rule remdups_adj_head)
  have "completionMergeSimilarPlugins cs = merge_completions_loop ds (comp_name c) c []"
    using ok by (simp add: completionMergeSimilarPlugins_def sort comp_ok_def)
  also have "\<dots> = (if comp_name c \<in> comp_name ` set ds then multiple_entries (comp_name c) else c) # map (merged_entry ds) ns"
    using ok distinct ns by (subst merge_loop_groups) (auto simp: comp_ok_def comp_name_def)
  also have "\<dots> = map (merged_entry (c # ds)) ?names"
    using distinct ns by (auto simp: merged_entry_Cons intro!: map_cong)
  finally have "completionMergeSimilarPlugins cs = map (merged_entry (sort_strings cs)) ?names" unfolding sort .
  moreover have "set ?names = comp_name ` set cs"
    unfolding sort [symmetric] by (simp add: sort_strings_def)
  ultimately show ?thesis using distinct by blast
qed


section \<open>Installed plugins\<close>

definition plugin_word :: "string \<Rightarrow> bool" where
  "plugin_word n \<longleftrightarrow> n \<noteq> '''' \<and> (\<forall>x \<in> set n. tab < x)"

lemma comp_name_tab [simp]: "\<forall>x \<in> set n. tab < x \<Longrightarrow> comp_name (n @ tab # rest) = n"
  unfolding comp_name_def by (subst takeWhile_append2) auto

lemma comp_name_entry [simp]: "plugin_word (pi_Name p) \<Longrightarrow> comp_name (installed_comp p) = pi_Name p"
  by (simp add: installed_comp_def plugin_word_def)

lemma comp_name_multiple [simp]: "plugin_word n \<Longrightarrow> comp_name (multiple_entries n) = n"
  by (simp add: multiple_entries_def plugin_word_def)

lemma entry_text: "\<forall>x \<in> set (''Target: '' @ '' for ''). tab < x"
  by code_simp

lemma comp_ok_entry: "plugin_word (pi_Name p) \<Longrightarrow> plugin_word (pi_Target p) \<Longrightarrow> comp_ok (installed_comp p)"
  using entry_text unfolding comp_ok_def installed_comp_def by (auto simp: plugin_word_def less_imp_le)

lemma entry_not_multiple: "plugin_word (pi_Name p) \<Longrightarrow> plugin_word n \<Longrightarrow> installed_comp p \<noteq> multiple_entries n"
proof
  assume w: "plugin_word (pi_Name p)" "plugin_word n" and eq: "installed_comp p = multiple_entries n"
  then have "pi_Name p = n" by (metis comp_name_entry comp_name_multiple)
  with eq show False by (simp add: installed_comp_def multiple_entries_def)
qed

lemma comp_name_merged:
  "\<forall>c \<in> set cs. plugin_word (comp_name c) \<Longrightarrow> n \<in> comp_name ` set cs \<Longrightarrow> comp_name (merged_entry cs n) = n"
  by (induction cs) (auto simp: merged_entry_Cons)

lemma merged_multiple:
  "\<forall>c \<in> set cs. c \<noteq> multiple_entries n \<Longrightarrow> n \<in> comp_name ` set cs \<Longrightarrow>
   merged_entry cs n = multiple_entries n \<longleftrightarrow> length (filter (\<lambda>c. comp_name c = n) cs) > 1"
  by (induction cs) (auto simp: merged_entry_Cons filter_empty_conv image_iff)

lemma length_filter_sort: "length (filter P (sort_strings cs)) = length (filter P cs)"
  by (metis mset_filter mset_sort_by size_mset sort_strings_def)

text \<open>Without a target, the completion of installed plugins offers every name exactly once, and an entry stands for
  several plugins exactly if the completion of the next word asks for the target flag.\<close>

theorem installed_completion_exact:
  assumes "GetInstalledPlugins L (me_yaml E) (me_ActiveContextsList E) (mg_cat s) = Some (w, Inr ps)" "ps \<noteq> []"
    and words: "\<forall>p \<in> set ps. plugin_word (pi_Name p) \<and> plugin_word (pi_Target p)"
    and "\<not> fl_targetChanged fl" "getTarget L fl = TargetUnknown"
  shows "\<exists>comps. completeInstalledPlugins L E activeHelp fl [] s = Some (s\<lparr>mg_cat := w\<rparr>, comps, {NoFileComp}) \<and>
    distinct (map comp_name comps) \<and> comp_name ` set comps = pi_Name ` set ps \<and>
    (\<forall>n \<in> pi_Name ` set ps. multiple_entries n \<in> set comps \<longleftrightarrow>
       compCheckIfTargetFlagNeededForInstalled L E fl n s = Some (s\<lparr>mg_cat := w\<rparr>, True))"
proof -
  let ?cs = "map installed_comp ps" and ?sorted = "sort_strings (map installed_comp ps)"
  have set: "set ?sorted = set ?cs" by (simp add: sort_strings_def)
  have names: "comp_name ` set ?cs = pi_Name ` set ps" using words by (force simp: image_image)
  have ok: "\<forall>c \<in> set ?cs. comp_ok c" using words by (auto intro: comp_ok_entry)
  from merged_completions [OF _ ok] assms(2) obtain ns where ns: "distinct ns" "set ns = comp_name ` set ?cs"
    "completionMergeSimilarPlugins ?cs = map (merged_entry ?sorted) ns" by auto
  have word: "\<forall>c \<in> set ?sorted. plugin_word (comp_name c)" using words unfolding set by auto
  have name: "comp_name (merged_entry ?sorted n) = n" if "n \<in> set ns" for n
    using that ns(2) by (intro comp_name_merged [OF word]) (simp add: set)
  then have map_names: "map comp_name (map (merged_entry ?sorted) ns) = ns" by (simp add: comp_def map_idI)
  have many: "multiple_entries n \<in> set (map (merged_entry ?sorted) ns) \<longleftrightarrow> length (filter (\<lambda>p. pi_Name p = n) ps) > 1" if n: "n \<in> pi_Name ` set ps" for n
  proof -
    have w: "plugin_word n" using n words by auto
    have mem: "n \<in> set ns" using n ns(2) names by simp
    have "multiple_entries n \<in> set (map (merged_entry ?sorted) ns) \<longleftrightarrow> merged_entry ?sorted n = multiple_entries n"
    proof
      assume "multiple_entries n \<in> set (map (merged_entry ?sorted) ns)"
      then obtain m where m: "m \<in> set ns" "merged_entry ?sorted m = multiple_entries n" by auto
      with name [OF m(1)] w have "m = n" by simp
      with m(2) show "merged_entry ?sorted n = multiple_entries n" by simp
    next
      assume "merged_entry ?sorted n = multiple_entries n"
      with mem show "multiple_entries n \<in> set (map (merged_entry ?sorted) ns)" by (metis image_eqI list.set_map)
    qed
    also have "\<dots> \<longleftrightarrow> length (filter (\<lambda>c. comp_name c = n) ?sorted) > 1"
      using words w mem ns(2) by (intro merged_multiple) (auto simp: set entry_not_multiple)
    also have "length (filter (\<lambda>c. comp_name c = n) ?sorted) = length (filter (\<lambda>p. pi_Name p = n) ps)"
      using words unfolding length_filter_sort filter_map length_map by (intro arg_cong [of _ _ length] filter_cong) auto
    finally show ?thesis .
  qed
  have run: "completeInstalledPlugins L E activeHelp fl [] s = Some (s\<lparr>mg_cat := w\<rparr>, map (merged_entry ?sorted) ns, {NoFileComp})"
    using assms by (simp add: completeInstalledPlugins_def ns(3))
  have ask: "compCheckIfTargetFlagNeededForInstalled L E fl n s = Some (s\<lparr>mg_cat := w\<rparr>, length (filter (\<lambda>p. pi_Name p = n) ps) > 1)" for n
    using assms by (simp add: compCheckIfTargetFlagNeededForInstalled_def)
  show ?thesis
  proof (intro exI conjI ballI)
    show "distinct (map comp_name (map (merged_entry ?sorted) ns))" unfolding map_names by (rule ns(1))
    show "comp_name ` set (map (merged_entry ?sorted) ns) = pi_Name ` set ps"
      unfolding names [symmetric] ns(2) [symmetric] by (metis list.set_map map_names)
    show "multiple_entries n \<in> set (map (merged_entry ?sorted) ns) \<longleftrightarrow>
        compCheckIfTargetFlagNeededForInstalled L E fl n s = Some (s\<lparr>mg_cat := w\<rparr>, True)" if "n \<in> pi_Name ` set ps" for n
      unfolding many [OF that] ask by simp
  qed (rule run)
qed


definition demo_catalog :: catalog where
  "demo_catalog = upsert_catalog '''' (demo_plugin ''a'' TargetK8s) (upsert_catalog '''' (demo_plugin ''a'' TargetTMC)
     (upsert_catalog '''' (demo_plugin ''b'' TargetGlobal) empty_catalog))"

definition demo_state_with_plugins :: "catalog option mgr_state" where
  "demo_state_with_plugins = (demo_mgr_state ''linux'' ''amd64'')\<lparr>mg_cat := fs_with demo_catalog\<rparr>"

lemma demo_installed:
  "\<exists>w. GetInstalledPlugins dotted_lib (me_yaml (demo_mgr [])) (me_ActiveContextsList (demo_mgr [])) (mg_cat demo_state_with_plugins) =
     Some (w, Inr [demo_plugin ''b'' TargetGlobal, demo_plugin ''a'' TargetTMC, demo_plugin ''a'' TargetK8s])"
proof -
  have "map_option snd (GetInstalledPlugins dotted_lib (me_yaml (demo_mgr [])) (me_ActiveContextsList (demo_mgr []))
      (mg_cat demo_state_with_plugins)) = Some (Inr [demo_plugin ''b'' TargetGlobal, demo_plugin ''a'' TargetTMC, demo_plugin ''a'' TargetK8s])"
    by code_simp
  then show ?thesis by auto
qed

lemma demo_words:
  "\<forall>p \<in> set [demo_plugin ''b'' TargetGlobal, demo_plugin ''a'' TargetTMC, demo_plugin ''a'' TargetK8s].
     plugin_word (pi_Name p) \<and> plugin_word (pi_Target p)"
  by code_simp

theorem installed_completion_exact_witness:
  "\<exists>s' comps. completeInstalledPlugins dotted_lib (demo_mgr []) id demo_flags [] demo_state_with_plugins = Some (s', comps, {NoFileComp}) \<and>
     distinct (map comp_name comps) \<and> comp_name ` set comps = {''a'', ''b''}"
proof -
  obtain w where w: "GetInstalledPlugins dotted_lib (me_yaml (demo_mgr [])) (me_ActiveContextsList (demo_mgr [])) (mg_cat demo_state_with_plugins) =
     Some (w, Inr [demo_plugin ''b'' TargetGlobal, demo_plugin ''a'' TargetTMC, demo_plugin ''a'' TargetK8s])"
    using demo_installed by blast
  have flags: "\<not> fl_targetChanged demo_flags" "getTarget dotted_lib demo_flags = TargetUnknown" by code_simp+
  from installed_completion_exact [OF w _ demo_words flags, of id] show ?thesis by (auto simp: insert_commute)
qed

section \<open>Suggested targets\<close>

text \<open>The short names of the targets, as the runtime library reads them.\<close>

definition short_targets :: "'v lib \<Rightarrow> bool" where
  "short_targets L \<longleftrightarrow> StringToTarget L ''global'' = TargetGlobal \<and> StringToTarget L ''k8s'' = TargetK8s \<and>
     StringToTarget L ''tmc'' = TargetTMC \<and> StringToTarget L ''ops'' = TargetOperations"

definition known_target :: "string \<Rightarrow> bool" where
  "known_target t \<longleftrightarrow> t \<in> {TargetGlobal, TargetK8s, TargetTMC, TargetOperations}"

lemma target_words:
  "to_lower (comp_name compGlobalTarget) = ''global''" "to_lower (comp_name compK8sTarget) = ''k8s''"
  "to_lower (comp_name compTMCTarget) = ''tmc''" "to_lower (comp_name compOpsTarget) = ''ops''"
  by code_simp+

lemma suggested_target:
  "short_targets L \<Longrightarrow> known_target t \<Longrightarrow> getTarget L (fl\<lparr>fl_targetStr := comp_name (compTargetToCompString t)\<rparr>) = t"
  by (auto simp: getTarget_def compTargetToCompString_def target_words short_targets_def known_target_def)

text \<open>The completion of the target flag suggests exactly the targets of the installed plugins of a name, and with
  each of them the plugin is described, though without the flag it may be ambiguous.\<close>

theorem suggested_targets_identify:
  assumes inst: "GetInstalledPlugins L (me_yaml E) (me_ActiveContextsList E) (mg_cat s) = Some (w, Inr ps)"
    and ps: "distinct (map info_key ps)" "\<forall>p \<in> set ps. known_target (pi_Target p)" "name \<in> pi_Name ` set ps" "name \<noteq> AllPlugins"
    and L: "short_targets L" and valid: "\<forall>t. known_target t \<longrightarrow> validTarget (comp_name (compTargetToCompString t))"
  shows "\<exists>comps. completeTargetsForInstalledPlugins L E [name] s = Some (s\<lparr>mg_cat := w\<rparr>, comps, {NoFileComp}) \<and>
    set comps = {compTargetToCompString (pi_Target p) | p. p \<in> set ps \<and> pi_Name p = name} \<and>
    (\<forall>p \<in> set ps. pi_Name p = name \<longrightarrow>
       describe_command L E validTarget (fl\<lparr>fl_targetStr := comp_name (compTargetToCompString (pi_Target p))\<rparr>) [name] s =
         Some (s\<lparr>mg_cat := w\<rparr>, Inr [name, pi_Version p, pi_Status p, pi_Target p, pi_Description p, pi_InstallationPath p]))"
proof -
  let ?named = "filter (\<lambda>p. pi_Name p = name) ps"
  have "?named \<noteq> []" using ps(3) by (auto simp: filter_empty_conv)
  then have "completeTargetsForInstalledPlugins L E [name] s =
      Some (s\<lparr>mg_cat := w\<rparr>, sort_strings (map compTargetToCompString (map pi_Target ?named)), {NoFileComp})"
    using inst ps(4) by (simp add: completeTargetsForInstalledPlugins_def suggested_targets_def)
  moreover have "describe_command L E validTarget (fl\<lparr>fl_targetStr := comp_name (compTargetToCompString (pi_Target p))\<rparr>) [name] s =
         Some (s\<lparr>mg_cat := w\<rparr>, Inr [name, pi_Version p, pi_Status p, pi_Target p, pi_Description p, pi_InstallationPath p])"
    if p: "p \<in> set ps" "pi_Name p = name" for p
  proof -
    have known: "known_target (pi_Target p)" using ps(2) p(1) by blast
    have "pi_Target p \<noteq> TargetUnknown" using known by (auto simp: known_target_def)
    then have "describe_matches name (pi_Target p) ps = filter (\<lambda>q. info_key q = info_key p) ps"
      using p(2) by (auto simp: describe_matches_def info_key_def intro!: filter_cong)
    also have "\<dots> = [p]" using ps(1) p(1) by (induction ps) (auto simp: filter_empty_conv image_iff)
    finally show ?thesis
      using inst known L valid p(2) by (simp add: describe_command_def DescribePlugin_def suggested_target)
  qed
  ultimately show ?thesis by (intro exI conjI) (auto simp: sort_strings_def)
qed

definition short_lib :: "(nat list \<times> string \<times> string) lib" where
  "short_lib = dotted_lib\<lparr>StringToTarget := (\<lambda>t. if t = ''k8s'' then TargetK8s else if t = ''tmc'' then TargetTMC
      else if t = ''ops'' then TargetOperations else t)\<rparr>"


lemma short_installed:
  "\<exists>w. GetInstalledPlugins short_lib (me_yaml (demo_mgr [])) (me_ActiveContextsList (demo_mgr [])) (mg_cat demo_state_with_plugins) =
     Some (w, Inr [demo_plugin ''b'' TargetGlobal, demo_plugin ''a'' TargetTMC, demo_plugin ''a'' TargetK8s])"
proof -
  have "map_option snd (GetInstalledPlugins short_lib (me_yaml (demo_mgr [])) (me_ActiveContextsList (demo_mgr []))
      (mg_cat demo_state_with_plugins)) = Some (Inr [demo_plugin ''b'' TargetGlobal, demo_plugin ''a'' TargetTMC, demo_plugin ''a'' TargetK8s])"
    by code_simp
  then show ?thesis by auto
qed

theorem suggested_targets_identify_witness:
  "\<exists>s' comps r. completeTargetsForInstalledPlugins short_lib (demo_mgr []) [''a''] demo_state_with_plugins = Some (s', comps, {NoFileComp}) \<and>
     set comps = {compTMCTarget, compK8sTarget} \<and>
     describe_command short_lib (demo_mgr []) (\<lambda>t. t \<in> {''global'', ''k8s'', ''tmc'', ''ops''})
       (demo_flags\<lparr>fl_targetStr := comp_name (compTargetToCompString TargetTMC)\<rparr>) [''a''] demo_state_with_plugins = Some (s', Inr (''a'' # r))"
proof -
  let ?ps = "[demo_plugin ''b'' TargetGlobal, demo_plugin ''a'' TargetTMC, demo_plugin ''a'' TargetK8s]"
  let ?valid = "\<lambda>t. t \<in> {''global'', ''k8s'', ''tmc'', ''ops''}"
  obtain w where w: "GetInstalledPlugins short_lib (me_yaml (demo_mgr [])) (me_ActiveContextsList (demo_mgr [])) (mg_cat demo_state_with_plugins) =
     Some (w, Inr ?ps)" using short_installed by blast
  have ps: "distinct (map info_key ?ps)" "\<forall>p \<in> set ?ps. known_target (pi_Target p)" "''a'' \<in> pi_Name ` set ?ps" "''a'' \<noteq> AllPlugins"
    and lib: "short_targets short_lib" by code_simp+
  have words: "comp_name compGlobalTarget = ''global''" "comp_name compK8sTarget = ''k8s''" "comp_name compTMCTarget = ''tmc''"
    "comp_name compOpsTarget = ''ops''" by code_simp+
  have valid: "\<forall>t. known_target t \<longrightarrow> ?valid (comp_name (compTargetToCompString t))"
    by (auto simp: known_target_def compTargetToCompString_def words)
  have both: "compTargetToCompString TargetTMC = compTMCTarget" "compTargetToCompString TargetK8s = compK8sTarget" by code_simp+
  from suggested_targets_identify [OF w ps lib valid, of demo_flags] obtain comps where comps:
    "completeTargetsForInstalledPlugins short_lib (demo_mgr []) [''a''] demo_state_with_plugins =
       Some (demo_state_with_plugins\<lparr>mg_cat := w\<rparr>, comps, {NoFileComp})"
    "set comps = {compTargetToCompString (pi_Target p) | p. p \<in> set ?ps \<and> pi_Name p = ''a''}"
    "\<forall>p \<in> set ?ps. pi_Name p = ''a'' \<longrightarrow>
       describe_command short_lib (demo_mgr []) ?valid (demo_flags\<lparr>fl_targetStr := comp_name (compTargetToCompString (pi_Target p))\<rparr>) [''a'']
         demo_state_with_plugins =
         Some (demo_state_with_plugins\<lparr>mg_cat := w\<rparr>, Inr [''a'', pi_Version p, pi_Status p, pi_Target p, pi_Description p, pi_InstallationPath p])"
    by (elim exE conjE) (rule that; assumption)
  have "{p. p \<in> set ?ps \<and> pi_Name p = ''a''} = {demo_plugin ''a'' TargetTMC, demo_plugin ''a'' TargetK8s}" by auto
  then have "set comps = (\<lambda>p. compTargetToCompString (pi_Target p)) ` {demo_plugin ''a'' TargetTMC, demo_plugin ''a'' TargetK8s}"
    unfolding comps(2) by (simp flip: image_Collect)
  then have "set comps = {compTMCTarget, compK8sTarget}" using both by simp
  with comps(1,3) show ?thesis by (metis demo_plugin_simps(1,2) list.set_intros(1,2))
qed

end
