(* ===== verification/Config_Commands.thy ===== *)
theory Config_Commands
  imports Registry_Trust Plugin_Completion Cli_Config
begin

text \<open>
  The configuration commands: \<^verbatim>\<open>pkg/command/config.go\<close>, \<^verbatim>\<open>cert.go\<close>, \<^verbatim>\<open>ceip_participation.go\<close>, \<^verbatim>\<open>eula.go\<close> and
  \<^verbatim>\<open>org_validation_helper.go\<close>. The configuration, of type \<open>'c\<close>, belongs to the runtime library; \<open>conf_lib\<close> holds its operations.
\<close>

section \<open>The configuration library\<close>

record host_cert = cert +
  ce_Host :: string

record 'c conf_lib =
  nf_GetCerts :: "'c \<Rightarrow> host_cert list"
  nf_GetCert :: "string \<Rightarrow> 'c \<Rightarrow> host_cert option"
  nf_SetCert :: "host_cert \<Rightarrow> 'c \<Rightarrow> 'c \<times> err option"
  nf_DeleteCert :: "string \<Rightarrow> 'c \<Rightarrow> 'c \<times> err option"
  nf_GetFeatures :: "'c \<Rightarrow> (string \<times> (string \<times> string) list) list res"
  nf_SetFeature :: "string \<Rightarrow> string \<Rightarrow> string \<Rightarrow> 'c \<Rightarrow> 'c \<times> err option"
  nf_DeleteFeature :: "string \<Rightarrow> string \<Rightarrow> 'c \<Rightarrow> 'c \<times> err option"
  nf_ConfigureFeatureFlags :: "(string \<times> bool) list \<Rightarrow> 'c \<Rightarrow> 'c \<times> err option"
  nf_GetEnvs :: "'c \<Rightarrow> (string \<times> string) list res"
  nf_SetEnv :: "string \<Rightarrow> string \<Rightarrow> 'c \<Rightarrow> 'c \<times> err option"
  nf_DeleteEnv :: "string \<Rightarrow> 'c \<Rightarrow> 'c \<times> err option"
  nf_SetCEIPOptIn :: "string \<Rightarrow> 'c \<Rightarrow> 'c \<times> err option"
  nf_GetCEIPOptIn :: "'c \<Rightarrow> string res"

text \<open>What the library documents of certificates and environment variables: an operation that fails changes nothing, one that
  succeeds changes the entry it names and no other.\<close>

definition stores :: "('c \<Rightarrow> 'k \<Rightarrow> 'v option) \<Rightarrow> 'k \<Rightarrow> 'v option \<Rightarrow> 'c \<Rightarrow> 'c \<times> err option \<Rightarrow> bool" where
  "stores get k v cfg r \<longleftrightarrow> get (fst r) = (if snd r = None then (get cfg)(k := v) else get cfg)"

definition cert_laws :: "'c conf_lib \<Rightarrow> bool" where
  "cert_laws N \<longleftrightarrow>
     (\<forall>c cfg. stores (\<lambda>cfg h. nf_GetCert N h cfg) (ce_Host c) (Some c) cfg (nf_SetCert N c cfg)) \<and>
     (\<forall>h cfg. stores (\<lambda>cfg h. nf_GetCert N h cfg) h None cfg (nf_DeleteCert N h cfg))"

section \<open>Certificates\<close>

record cert_flags =
  cr_host :: string
  cr_caCertPath :: string
  cr_skipCertVerify :: string
  cr_insecure :: string

record file_env =
  fn_ReadFile :: "string \<Rightarrow> string res"
  fn_Base64Encode :: "string \<Rightarrow> string"

definition read_ca :: "file_env \<Rightarrow> string \<Rightarrow> string res" where
  "read_ca F caCertPath =
     (case fn_ReadFile F caCertPath of
        Inl e \<Rightarrow> Inl (Wrapf e ''error reading CA certificate file %s'' [caCertPath]) | Inr b \<Rightarrow> Inr (fn_Base64Encode F b))"

definition createCert :: "file_env \<Rightarrow> cert_flags \<Rightarrow> host_cert res" where
  "createCert F f =
     (case (if cr_caCertPath f \<noteq> '''' then read_ca F (cr_caCertPath f) else Inr '''') of
        Inl e \<Rightarrow> Inl e
      | Inr d \<Rightarrow> Inr \<lparr>ce_SkipCertVerify = cr_skipCertVerify f, ce_Insecure = cr_insecure f, ce_CACertData = d, ce_Host = cr_host f\<rparr>)"

definition updateCert :: "file_env \<Rightarrow> host_cert \<Rightarrow> cert_flags \<Rightarrow> host_cert res" where
  "updateCert F c f =
     (case (if cr_caCertPath f \<noteq> ''''
            then map_sum id (\<lambda>d. c\<lparr>ce_CACertData := d, ce_SkipCertVerify := ''false''\<rparr>) (read_ca F (cr_caCertPath f)) else Inr c) of
        Inl e \<Rightarrow> Inl e
      | Inr c1 \<Rightarrow>
          let c2 = (if cr_skipCertVerify f \<noteq> ''''
                    then (if cr_skipCertVerify f \<noteq> ''false'' then c1\<lparr>ce_SkipCertVerify := cr_skipCertVerify f, ce_CACertData := ''''\<rparr>
                          else c1\<lparr>ce_SkipCertVerify := cr_skipCertVerify f\<rparr>)
                    else c1)
          in Inr (if cr_insecure f \<noteq> '''' then c2\<lparr>ce_Insecure := cr_insecure f\<rparr> else c2))"

definition validateBooleanOption :: "string \<Rightarrow> string \<Rightarrow> err option" where
  "validateBooleanOption v option =
     (if v \<noteq> '''' \<and> \<not> equal_fold v ''true'' \<and> \<not> equal_fold v ''false''
      then Some (Errorf ''incorrect boolean argument for '%s' option: %q'' [option, v]) else None)"

definition areNoUpdateOptionsSpecified :: "cert_flags \<Rightarrow> bool" where
  "areNoUpdateOptionsSpecified f \<longleftrightarrow>
     (cr_skipCertVerify f = '''' \<or> equal_fold (cr_skipCertVerify f) ''false'') \<and> cr_insecure f = '''' \<and> cr_caCertPath f = ''''"

definition areBothSkipCertAndCACertSpecified :: "cert_flags \<Rightarrow> bool" where
  "areBothSkipCertAndCACertSpecified f \<longleftrightarrow>
     cr_skipCertVerify f \<noteq> '''' \<and> \<not> equal_fold (cr_skipCertVerify f) ''false'' \<and> cr_caCertPath f \<noteq> ''''"

definition validateUpdateOptionCombination :: "cert_flags \<Rightarrow> err option" where
  "validateUpdateOptionCombination f =
     (if areNoUpdateOptionsSpecified f then Some (Errorf ''please specify at least one update option'' [])
      else if areBothSkipCertAndCACertSpecified f
      then Some (Errorf ''please specify only one valid option either --skip-cert-verify or --ca-cert'' [])
      else None)"

definition validateUpdateOptions :: "cert_flags \<Rightarrow> err option" where
  "validateUpdateOptions f =
     (case validateBooleanOption (cr_skipCertVerify f) ''--skip-cert-verify'' of
        Some e \<Rightarrow> Some e
      | None \<Rightarrow>
          (case validateBooleanOption (cr_insecure f) ''--insecure'' of
             Some e \<Rightarrow> Some e | None \<Rightarrow> validateUpdateOptionCombination f))"

definition validate_add :: "cert_flags \<Rightarrow> err option" where
  "validate_add f =
     (if cr_skipCertVerify f \<noteq> '''' \<and> \<not> equal_fold (cr_skipCertVerify f) ''true'' \<and> \<not> equal_fold (cr_skipCertVerify f) ''false''
      then Some (Errorf ''incorrect boolean argument for --skip-cert-verify option : %q'' [cr_skipCertVerify f])
      else if cr_insecure f \<noteq> '''' \<and> \<not> equal_fold (cr_insecure f) ''true'' \<and> \<not> equal_fold (cr_insecure f) ''false''
      then Some (Errorf ''incorrect boolean argument for --insecure option : %q'' [cr_insecure f])
      else if equal_fold (cr_skipCertVerify f) ''false'' \<and> equal_fold (cr_insecure f) ''false'' \<and> cr_caCertPath f = ''''
      then Some (Errorf ''please specify at least one additional valid option apart from --host'' [])
      else if \<not> equal_fold (cr_skipCertVerify f) ''false'' \<and> cr_caCertPath f \<noteq> ''''
      then Some (Errorf ''please specify only one valid option either --skip-cert-verify or --ca-cert'' [])
      else None)"

definition cert_add_command :: "'c conf_lib \<Rightarrow> file_env \<Rightarrow> cert_flags \<Rightarrow> 'c \<Rightarrow> 'c \<times> err option" where
  "cert_add_command N F f cfg =
     (case validate_add f of
        Some e \<Rightarrow> (cfg, Some e)
      | None \<Rightarrow>
          if nf_GetCert N (cr_host f) cfg \<noteq> None
          then (cfg, Some (Errorf ''certificate configuration for host %q already exist'' [cr_host f]))
          else (case createCert F f of Inl e \<Rightarrow> (cfg, Some e) | Inr c \<Rightarrow> nf_SetCert N c cfg))"

text \<open>The entry is deleted before the new one is stored.\<close>

definition cert_update_command :: "'c conf_lib \<Rightarrow> file_env \<Rightarrow> string \<Rightarrow> cert_flags \<Rightarrow> 'c \<Rightarrow> 'c \<times> err option" where
  "cert_update_command N F uHost f cfg =
     (case validateUpdateOptions f of
        Some e \<Rightarrow> (cfg, Some e)
      | None \<Rightarrow>
          (case nf_GetCert N uHost cfg of
             None \<Rightarrow> (cfg, Some (Errorf ''certificate configuration for host %q does not exist'' [uHost]))
           | Some c \<Rightarrow>
               (case updateCert F (c\<lparr>ce_Host := uHost\<rparr>) f of
                  Inl e \<Rightarrow> (cfg, Some e)
                | Inr c1 \<Rightarrow>
                    (case nf_DeleteCert N uHost cfg of
                       (cfg1, Some e) \<Rightarrow> (cfg1, Some e)
                     | (cfg1, None) \<Rightarrow> nf_SetCert N c1 cfg1))))"

definition cert_delete_command :: "'c conf_lib \<Rightarrow> string \<Rightarrow> 'c \<Rightarrow> 'c \<times> err option" where
  "cert_delete_command N aHost cfg = nf_DeleteCert N aHost cfg"

definition cert_list_command :: "'c conf_lib \<Rightarrow> 'c \<Rightarrow> table" where
  "cert_list_command N cfg =
     (let shown = (\<lambda>v. if v = '''' then ''Not configured'' else v)
      in \<lparr>tb_keys = [''host'', ''ca-certificate'', ''skip-cert-verification'', ''insecure''], tb_dynamic = [],
          tb_rows = map (\<lambda>c. [ce_Host c, if ce_CACertData c \<noteq> '''' then ''<REDACTED>'' else ''Not configured'',
            shown (ce_SkipCertVerify c), shown (ce_Insecure c)]) (nf_GetCerts N cfg)\<rparr>)"

definition completeCertHosts :: "'c conf_lib \<Rightarrow> (string \<Rightarrow> string) \<Rightarrow> string list \<Rightarrow> 'c \<Rightarrow> completion" where
  "completeCertHosts N activeHelp args cfg =
     (if args \<noteq> [] then noMoreCompletions activeHelp
      else (sort_strings (map (\<lambda>c. ce_Host c @ [tab] @ ''Insecure: '' @ ce_Insecure c @ '', Skip cert verification: '' @ ce_SkipCertVerify c)
              (nf_GetCerts N cfg)), {NoFileComp}))"

definition completeAddCert :: "(string \<Rightarrow> string) \<Rightarrow> cert_flags \<Rightarrow> completion" where
  "completeAddCert activeHelp f = (if cr_host f = '''' then ([], {NoFileComp}) else noMoreCompletions activeHelp)"

section \<open>Settings\<close>

definition wrong_path :: "string \<Rightarrow> err" where
  "wrong_path p = Errorf ''unable to parse config path parameter into parts'' [p]"

definition setConfiguration :: "'c conf_lib \<Rightarrow> string \<Rightarrow> string \<Rightarrow> 'c \<Rightarrow> 'c \<times> err option" where
  "setConfiguration N pathParam v cfg =
     (let paramArray = split_on CHR ''.'' pathParam
      in if length paramArray < 2 then (cfg, Some (wrong_path pathParam))
         else if hd paramArray = ''features''
         then (if length paramArray \<noteq> 3 then (cfg, Some (Errorf ''unable to parse config path parameter into three parts'' [join ''.'' paramArray]))
               else if v \<noteq> ''true'' \<and> v \<noteq> ''false''
               then (cfg, Some (Errorf ''invalid value provided only boolean true or false are accepted'' []))
               else nf_SetFeature N (paramArray ! 1) (paramArray ! 2) v cfg)
         else if hd paramArray = ''env''
         then (if length paramArray \<noteq> 2 then (cfg, Some (Errorf ''unable to parse config path parameter into two parts'' [join ''.'' paramArray]))
               else nf_SetEnv N (paramArray ! 1) v cfg)
         else (cfg, Some (Errorf ''unsupported config path parameter'' [hd paramArray])))"

definition set_command :: "'c conf_lib \<Rightarrow> string list \<Rightarrow> 'c \<Rightarrow> 'c \<times> err option" where
  "set_command N args cfg =
     (case args of
        [p, v] \<Rightarrow> setConfiguration N p v cfg
      | _ \<Rightarrow> (cfg, Some (if length args < 2 then Errorf ''both PATH and <value> are required'' []
                        else Errorf ''only PATH and <value> are allowed'' [])))"

definition unsetFeatures :: "'c conf_lib \<Rightarrow> string list \<Rightarrow> 'c \<Rightarrow> 'c \<times> err option" where
  "unsetFeatures N paramArray cfg =
     (if length paramArray \<noteq> 3 then (cfg, Some (Errorf ''unable to parse config path parameter into three parts'' [join ''.'' paramArray]))
      else nf_DeleteFeature N (paramArray ! 1) (paramArray ! 2) cfg)"

definition unsetEnvs :: "'c conf_lib \<Rightarrow> string list \<Rightarrow> 'c \<Rightarrow> 'c \<times> err option" where
  "unsetEnvs N paramArray cfg =
     (if length paramArray \<noteq> 2 then (cfg, Some (Errorf ''unable to parse config path parameter into two parts'' [join ''.'' paramArray]))
      else nf_DeleteEnv N (paramArray ! 1) cfg)"

definition unsetConfiguration :: "'c conf_lib \<Rightarrow> string \<Rightarrow> 'c \<Rightarrow> 'c \<times> err option" where
  "unsetConfiguration N pathParam cfg =
     (let paramArray = split_on CHR ''.'' pathParam
      in if length paramArray < 2 then (cfg, Some (wrong_path pathParam))
         else if hd paramArray = ''features'' then unsetFeatures N paramArray cfg
         else if hd paramArray = ''env'' then unsetEnvs N paramArray cfg
         else (cfg, Some (Errorf ''unsupported config path parameter'' [hd paramArray])))"

definition unset_command :: "'c conf_lib \<Rightarrow> string list \<Rightarrow> 'c \<Rightarrow> 'c \<times> err option" where
  "unset_command N args cfg =
     (case args of
        [p] \<Rightarrow> unsetConfiguration N p cfg
      | _ \<Rightarrow> (cfg, Some (if args = [] then Errorf ''PATH is required'' [] else Errorf ''only PATH is allowed'' [])))"

text \<open>The variables of the configuration, sorted, whose value in the shell is another one.\<close>

definition warningForShadowedEnvVars :: "'c conf_lib \<Rightarrow> environ \<Rightarrow> 'c \<Rightarrow> (string \<times> string) list" where
  "warningForShadowedEnvVars N env cfg =
     (let varsInConfig = (case nf_GetEnvs N cfg of Inl _ \<Rightarrow> [] | Inr m \<Rightarrow> m)
      in map (\<lambda>name. (name, if getenv env name = '''' then [CHR 0x27, CHR 0x27] else getenv env name))
           (filter (\<lambda>name. getenv env name \<noteq> get_or '''' varsInConfig name) (sort_strings (keys_of varsInConfig))))"

fun feature_flags_loop :: "'c conf_lib \<Rightarrow> plugin_info list \<Rightarrow> 'c \<Rightarrow> 'c \<times> err option" where
  "feature_flags_loop N [] cfg = (cfg, None)"
| "feature_flags_loop N (p # ps) cfg =
     (case nf_ConfigureFeatureFlags N (pi_DefaultFeatureFlags p) cfg of
        (cfg1, Some e) \<Rightarrow> (cfg1, Some e) | (cfg1, None) \<Rightarrow> feature_flags_loop N ps cfg1)"

definition init_command ::
    "'v lib \<Rightarrow> 'b mgr_env \<Rightarrow> 'c conf_lib \<Rightarrow> 'b mgr_state \<Rightarrow> 'c \<Rightarrow> ('b mgr_state \<times> 'c \<times> err option) option" where
  "init_command L E N s cfg = do {
     (w, r) \<leftarrow> GetInstalledPlugins L (me_yaml E) (me_ActiveContextsList E) (mg_cat s);
     Some (s\<lparr>mg_cat := w\<rparr>, case r of Inl e \<Rightarrow> (cfg, Some e) | Inr plugins \<Rightarrow> feature_flags_loop N plugins cfg)
   }"

text \<open>\<open>quote\<close> is the format \<^verbatim>\<open>%q\<close> of the standard library.\<close>

definition completionGetEnvAndFeatures :: "'v lib \<Rightarrow> 'c conf_lib \<Rightarrow> (string \<Rightarrow> string) \<Rightarrow> 'c \<Rightarrow> string list" where
  "completionGetEnvAndFeatures L N quote cfg =
     (let envs = (case nf_GetEnvs N cfg of Inl _ \<Rightarrow> [] | Inr m \<Rightarrow>
                    map (\<lambda>name. ''env.'' @ name @ [tab] @ ''Value: '' @ quote (get_or '''' m name)) (range_keys L m))
      in case nf_GetFeatures N cfg of
           Inl _ \<Rightarrow> envs
         | Inr flags \<Rightarrow>
             sort_strings (envs @ concat (map (\<lambda>p.
               map (\<lambda>name. ''features.'' @ p @ ''.'' @ name @ [tab] @ ''Value: '' @ quote (get_or '''' (get_or [] flags p) name))
                 (range_keys L (get_or [] flags p))) (range_keys L flags))))"

definition completeSetConfig :: "'v lib \<Rightarrow> 'c conf_lib \<Rightarrow> (string \<Rightarrow> string) \<Rightarrow> (string \<Rightarrow> string) \<Rightarrow> string list \<Rightarrow> 'c \<Rightarrow> completion" where
  "completeSetConfig L N quote activeHelp args cfg =
     (case args of
        [] \<Rightarrow> (activeHelp ''You can modify the below entries, or provide a new one'' # completionGetEnvAndFeatures L N quote cfg, {NoFileComp})
      | [_] \<Rightarrow> ([activeHelp ''You must provide a value as a second argument''], {NoFileComp})
      | _ \<Rightarrow> noMoreCompletions activeHelp)"

definition completeUnsetConfig :: "'v lib \<Rightarrow> 'c conf_lib \<Rightarrow> (string \<Rightarrow> string) \<Rightarrow> (string \<Rightarrow> string) \<Rightarrow> string list \<Rightarrow> 'c \<Rightarrow> completion" where
  "completeUnsetConfig L N quote activeHelp args cfg =
     (if args \<noteq> [] then noMoreCompletions activeHelp else (completionGetEnvAndFeatures L N quote cfg, {NoFileComp}))"

section \<open>Participation and licence\<close>

definition ceip_set_command :: "'c conf_lib \<Rightarrow> string \<Rightarrow> 'c \<Rightarrow> 'c \<times> err option" where
  "ceip_set_command N arg cfg =
     (if \<not> equal_fold arg ''true'' \<and> \<not> equal_fold arg ''false'' then (cfg, Some (Errorf ''incorrect boolean argument: %q'' [arg]))
      else case nf_SetCEIPOptIn N (format_bool (equal_fold arg ''true'')) cfg of
          (cfg1, Some e) \<Rightarrow> (cfg1, Some (Wrapf e ''failed to update the configuration'' [])) | (cfg1, None) \<Rightarrow> (cfg1, None))"

definition ceip_get_command :: "'c conf_lib \<Rightarrow> 'c \<Rightarrow> string res" where
  "ceip_get_command N cfg =
     (case nf_GetCEIPOptIn N cfg of
        Inl e \<Rightarrow> Inl (Wrapf e ''failed to get the CEIP opt-in status'' [])
      | Inr v \<Rightarrow> Inr (if equal_fold v ''true'' then ''Opt-in'' else ''Opt-out''))"

definition completeCeipSet :: "(string \<Rightarrow> string) \<Rightarrow> string list \<Rightarrow> completion" where
  "completeCeipSet activeHelp args =
     (if args \<noteq> [] then noMoreCompletions activeHelp
      else ([''true'' @ [tab] @ ''Accept to participate'', ''false'' @ [tab] @ ''Refuse to participate''], {KeepOrder, NoFileComp}))"

definition eula_accept_command :: "cfg_env \<Rightarrow> cfg_store \<Rightarrow> cfg_store \<times> err option" where
  "eula_accept_command X cs = UpdateEULAAcceptance X EULAStatusAccepted cs"

section \<open>Scopes of an organization\<close>

text \<open>The entry of the central configuration; \<open>None\<close> when its key is missing.\<close>

definition getTAPScopesFromCentralConfig :: "string list option res \<Rightarrow> string list res" where
  "getTAPScopesFromCentralConfig entry = (case entry of Inl e \<Rightarrow> Inl e | Inr None \<Rightarrow> Inr [] | Inr (Some scopes) \<Rightarrow> Inr scopes)"

definition validateTokenForTAPScopes :: "environ \<Rightarrow> string list \<Rightarrow> string list res \<Rightarrow> bool \<times> err option" where
  "validateTokenForTAPScopes env permissions scopes =
     (if env_flag env ''TANZU_CLI_SKIP_TAP_SCOPES_VALIDATION_ON_TANZU_CONTEXT'' then (True, None)
      else case scopes of
          Inl e \<Rightarrow> (False, Some (Wrapf e ''error retrieving Tanzu Platform for Kubernetes scopes from the central config'' []))
        | Inr tapScopes \<Rightarrow>
            (tapScopes = [] \<or> list_ex (\<lambda>scope. list_ex (\<lambda>perm. has_suffix perm (''/'' @ scope)) permissions) tapScopes, None))"

text \<open>
  Correctness of the configuration commands: a certificate entry never both trusts a certificate and skips the verification, what
  an update loses, and the words that completion offers for unsetting name exactly the entries of the configuration.
\<close>

section \<open>Certificates\<close>

datatype cert_command =
  CertAdd cert_flags
| CertUpdate string cert_flags
| CertDelete string

definition run_cert :: "'c conf_lib \<Rightarrow> file_env \<Rightarrow> cert_command \<Rightarrow> 'c \<Rightarrow> 'c" where
  "run_cert N F c cfg =
     fst (case c of CertAdd f \<Rightarrow> cert_add_command N F f cfg | CertUpdate h f \<Rightarrow> cert_update_command N F h f cfg
          | CertDelete h \<Rightarrow> cert_delete_command N h cfg)"

definition exclusive :: "host_cert \<Rightarrow> bool" where
  "exclusive c \<longleftrightarrow> ce_CACertData c = '''' \<or> equal_fold (ce_SkipCertVerify c) ''false''"

definition certs_ok :: "'c conf_lib \<Rightarrow> 'c \<Rightarrow> bool" where
  "certs_ok N cfg \<longleftrightarrow> (\<forall>h c. nf_GetCert N h cfg = Some c \<longrightarrow> exclusive c \<and> ce_Host c = h)"

lemma set_cert_ok:
  "cert_laws N \<Longrightarrow> certs_ok N cfg \<Longrightarrow> exclusive c \<Longrightarrow> certs_ok N (fst (nf_SetCert N c cfg))"
  by (auto simp: cert_laws_def stores_def certs_ok_def fun_upd_def fun_eq_iff split: if_splits)

lemma delete_cert_ok: "cert_laws N \<Longrightarrow> certs_ok N cfg \<Longrightarrow> certs_ok N (fst (nf_DeleteCert N h cfg))"
  by (auto simp: cert_laws_def stores_def certs_ok_def fun_upd_def fun_eq_iff split: if_splits)

lemma createCert_exclusive:
  "validate_add f = None \<Longrightarrow> createCert F f = Inr c \<Longrightarrow> exclusive c"
  by (auto simp: validate_add_def createCert_def exclusive_def split: if_splits sum.splits)

lemma equal_fold_refl [simp]: "equal_fold v v"
  by (simp add: equal_fold_def)

lemma updateCert_exclusive:
  "validateUpdateOptions f = None \<Longrightarrow> exclusive c \<Longrightarrow> updateCert F c f = Inr c' \<Longrightarrow> exclusive c'"
  by (cases "read_ca F (cr_caCertPath f)")
    (auto simp: validateUpdateOptions_def validateUpdateOptionCombination_def areBothSkipCertAndCACertSpecified_def
      updateCert_def exclusive_def Let_def split: if_splits sum.splits option.splits)

lemma run_cert_ok:
  assumes "cert_laws N" "certs_ok N cfg"
  shows "certs_ok N (run_cert N F c cfg)"
proof (cases c)
  case (CertAdd f)
  then show ?thesis
    using assms by (auto simp: run_cert_def cert_add_command_def split: option.splits sum.splits intro: set_cert_ok createCert_exclusive)
next
  case (CertUpdate h f)
  have "exclusive (c0\<lparr>ce_Host := h'\<rparr>) = exclusive c0" for c0 :: host_cert and h' by (simp add: exclusive_def)
  with CertUpdate assms delete_cert_ok [OF assms, of h] show ?thesis
    by (fastforce simp: run_cert_def cert_update_command_def certs_ok_def [of N cfg] split: option.splits sum.splits prod.splits
        intro: set_cert_ok dest: updateCert_exclusive)
next
  case (CertDelete h)
  then show ?thesis using assms by (simp add: run_cert_def cert_delete_command_def delete_cert_ok)
qed

text \<open>C25 (invariant): however the certificate commands are combined, and whichever operation of the configuration fails, no entry both
  holds a certificate and skips the verification of the server.\<close>

theorem certs_exclusive:
  assumes "cert_laws N" "\<forall>h. nf_GetCert N h cfg = None"
    and "nf_GetCert N h (fold (run_cert N F) cmds cfg) = Some c"
  shows "ce_CACertData c = '''' \<or> equal_fold (ce_SkipCertVerify c) ''false''"
proof -
  have "certs_ok N cfg" using assms(2) by (simp add: certs_ok_def)
  then have "certs_ok N (fold (run_cert N F) cmds cfg)"
    by (induction cmds arbitrary: cfg) (simp_all add: run_cert_ok [OF assms(1)])
  with assms(3) show ?thesis by (auto simp: certs_ok_def exclusive_def)
qed

text \<open>A certificate that is given together with a spelling of \<open>false\<close> other than the lower-case one passes the
  validation and is dropped: the update succeeds and the entry has no certificate.\<close>

theorem update_drops_certificate:
  assumes "cert_laws N" "nf_GetCert N h cfg = Some c" "cr_caCertPath f \<noteq> ''''"
    and "equal_fold (cr_skipCertVerify f) ''false''" "cr_skipCertVerify f \<noteq> ''false''" "cr_insecure f = ''''"
    and run: "cert_update_command N F h f cfg = (cfg', None)"
  shows "\<exists>c'. nf_GetCert N h cfg' = Some c' \<and> ce_CACertData c' = ''''"
proof -
  have ne: "cr_skipCertVerify f \<noteq> ''''" using assms(4) by (auto simp: equal_fold_def to_lower_def)
  have valid: "validateUpdateOptions f = None"
    using assms(3-6) by (simp add: validateUpdateOptions_def validateBooleanOption_def validateUpdateOptionCombination_def
        areNoUpdateOptionsSpecified_def areBothSkipCertAndCACertSpecified_def)
  from run valid assms(2) obtain c1 cfg1 where c1: "updateCert F (c\<lparr>ce_Host := h\<rparr>) f = Inr c1"
    and set: "nf_SetCert N c1 cfg1 = (cfg', None)"
    by (auto simp: cert_update_command_def split: sum.splits prod.splits option.splits)
  from c1 have "ce_CACertData c1 = ''''" "ce_Host c1 = h"
    using assms(3,5,6) ne by (cases "read_ca F (cr_caCertPath f)"; auto simp: updateCert_def Let_def)+
  moreover have "nf_GetCert N (ce_Host c1) cfg' = Some c1"
    using assms(1) set by (auto simp: cert_laws_def stores_def) (metis (no_types, lifting) fst_conv fun_upd_same snd_conv)
  ultimately show ?thesis by auto
qed

text \<open>A configuration of the runtime library for certificates: a map.\<close>

definition map_conf :: "(string \<Rightarrow> host_cert option) conf_lib" where
  "map_conf =
     \<lparr>nf_GetCerts = (\<lambda>_. []), nf_GetCert = (\<lambda>h m. m h), nf_SetCert = (\<lambda>c m. (m(ce_Host c \<mapsto> c), None)),
      nf_DeleteCert = (\<lambda>h m. (m(h := None), None)), nf_GetFeatures = (\<lambda>_. Inr []), nf_SetFeature = (\<lambda>p f v m. (m, None)),
      nf_DeleteFeature = (\<lambda>p f m. (m, None)), nf_ConfigureFeatureFlags = (\<lambda>fs m. (m, None)), nf_GetEnvs = (\<lambda>_. Inr []),
      nf_SetEnv = (\<lambda>k v m. (m, None)), nf_DeleteEnv = (\<lambda>k m. (m, None)), nf_SetCEIPOptIn = (\<lambda>v m. (m, None)),
      nf_GetCEIPOptIn = (\<lambda>_. Inr '''')\<rparr>"

lemma map_conf_laws: "cert_laws map_conf"
  by (simp add: cert_laws_def stores_def map_conf_def)

definition demo_files :: file_env where
  "demo_files = \<lparr>fn_ReadFile = Inr, fn_Base64Encode = id\<rparr>"

definition cert_args :: "string \<Rightarrow> string \<Rightarrow> cert_flags" where
  "cert_args ca skip = \<lparr>cr_host = ''h'', cr_caCertPath = ca, cr_skipCertVerify = skip, cr_insecure = ''''\<rparr>"

theorem certs_exclusive_witness:
  "\<exists>c. nf_GetCert map_conf ''h'' (fold (run_cert map_conf demo_files) [CertAdd (cert_args ''ca'' ''false''), CertUpdate ''h'' (cert_args '''' ''true'')]
      Map.empty) = Some c \<and> ce_SkipCertVerify c = ''true'' \<and> ce_CACertData c = ''''"
proof -
  let ?cmds = "[CertAdd (cert_args ''ca'' ''false''), CertUpdate ''h'' (cert_args '''' ''true'')]"
  have "map_option ce_SkipCertVerify (nf_GetCert map_conf ''h'' (fold (run_cert map_conf demo_files) ?cmds Map.empty)) = Some ''true''"
    by code_simp
  then obtain c where c: "nf_GetCert map_conf ''h'' (fold (run_cert map_conf demo_files) ?cmds Map.empty) = Some c"
    "ce_SkipCertVerify c = ''true''" by auto
  have "\<not> equal_fold ''true'' ''false''" by code_simp
  with certs_exclusive [OF map_conf_laws _ c(1)] c(2) have "ce_CACertData c = ''''" by (simp add: map_conf_def)
  with c show ?thesis by blast
qed

theorem update_drops_certificate_witness:
  "\<exists>cfg' c'. cert_update_command map_conf demo_files ''h'' (cert_args ''ca'' ''False'') (run_cert map_conf demo_files (CertAdd (cert_args ''old'' ''false'')) Map.empty) =
     (cfg', None) \<and> nf_GetCert map_conf ''h'' cfg' = Some c' \<and> ce_CACertData c' = ''''"
proof -
  let ?cfg = "run_cert map_conf demo_files (CertAdd (cert_args ''old'' ''false'')) Map.empty"
  have "map_option ce_Host (nf_GetCert map_conf ''h'' ?cfg) = Some ''h''" by code_simp
  then obtain c where c: "nf_GetCert map_conf ''h'' ?cfg = Some c" by auto
  have "snd (cert_update_command map_conf demo_files ''h'' (cert_args ''ca'' ''False'') ?cfg) = None" by code_simp
  then obtain cfg' where run: "cert_update_command map_conf demo_files ''h'' (cert_args ''ca'' ''False'') ?cfg = (cfg', None)"
    by (cases "cert_update_command map_conf demo_files ''h'' (cert_args ''ca'' ''False'') ?cfg") auto
  have f: "cr_caCertPath (cert_args ''ca'' ''False'') \<noteq> ''''" "equal_fold (cr_skipCertVerify (cert_args ''ca'' ''False'')) ''false''"
    "cr_skipCertVerify (cert_args ''ca'' ''False'') \<noteq> ''false''" "cr_insecure (cert_args ''ca'' ''False'') = ''''" by code_simp+
  from update_drops_certificate [OF map_conf_laws c f run] run show ?thesis by blast
qed

section \<open>Settings\<close>

definition setting_name :: "string \<Rightarrow> bool" where
  "setting_name k \<longleftrightarrow> CHR ''.'' \<notin> set k \<and> tab \<notin> set k"

lemma comp_name_before_tab: "tab \<notin> set n \<Longrightarrow> comp_name (n @ tab # rest) = n"
  unfolding comp_name_def by (subst takeWhile_append2) auto

lemma images_as_comprehensions:
  "g ` A \<union> (\<Union>(p, fs) \<in> F. h p ` B fs) = {g k | k. k \<in> A} \<union> {h p k | p fs k. (p, fs) \<in> F \<and> k \<in> B fs}"
  by auto

text \<open>The completion of \<open>unset\<close> offers exactly the variables and features of the configuration, and unsetting an
  offered word deletes exactly the entry it stands for.\<close>

theorem offered_settings_unset:
  assumes "range_law L" "nf_GetEnvs N cfg = Inr envs" "nf_GetFeatures N cfg = Inr flags" "map_ok flags"
    and "\<forall>k \<in> set (keys_of envs). setting_name k"
    and "\<forall>(p, fs) \<in> set flags. setting_name p \<and> (\<forall>k \<in> set (keys_of fs). setting_name k)"
  shows "comp_name ` set (fst (completeUnsetConfig L N quote activeHelp [] cfg)) =
      {''env.'' @ k | k. k \<in> set (keys_of envs)} \<union>
      {''features.'' @ p @ ''.'' @ k | p fs k. (p, fs) \<in> set flags \<and> k \<in> set (keys_of fs)} \<and>
    (\<forall>k \<in> set (keys_of envs). unset_command N [''env.'' @ k] cfg = nf_DeleteEnv N k cfg) \<and>
    (\<forall>(p, fs) \<in> set flags. \<forall>k \<in> set (keys_of fs). unset_command N [''features.'' @ p @ ''.'' @ k] cfg = nf_DeleteFeature N p k cfg)"
proof -
  have flag: "(p, fs) \<in> set flags \<Longrightarrow> get_or [] flags p = fs" for p fs
    using assms(4) by (simp add: get_or_def)
  let ?env = "\<lambda>k. ''env.'' @ k @ tab # ''Value: '' @ quote (get_or '''' envs k)"
  let ?flag = "\<lambda>p fs k. ''features.'' @ p @ ''.'' @ k @ tab # ''Value: '' @ quote (get_or '''' fs k)"
  have comps: "set (fst (completeUnsetConfig L N quote activeHelp [] cfg)) =
      ?env ` set (keys_of envs) \<union> (\<Union>(p, fs) \<in> set flags. ?flag p fs ` set (keys_of fs))"
  proof -
    have "set (fst (completeUnsetConfig L N quote activeHelp [] cfg)) = ?env ` set (keys_of envs) \<union>
        (\<Union>p \<in> set (keys_of flags). ?flag p (get_or [] flags p) ` set (keys_of (get_or [] flags p)))"
      using assms(1-3) by (simp add: completeUnsetConfig_def completionGetEnvAndFeatures_def Let_def sort_strings_def)
    also have "(\<Union>p \<in> set (keys_of flags). ?flag p (get_or [] flags p) ` set (keys_of (get_or [] flags p))) =
        (\<Union>x \<in> set flags. ?flag (fst x) (get_or [] flags (fst x)) ` set (keys_of (get_or [] flags (fst x))))"
      unfolding keys_of_def [of flags] by simp
    also have "\<dots> = (\<Union>(p, fs) \<in> set flags. ?flag p fs ` set (keys_of fs))"
      by (intro SUP_cong refl) (clarsimp simp: flag)
    finally show ?thesis .
  qed
  have env: "comp_name (?env k) = ''env.'' @ k" if "k \<in> set (keys_of envs)" for k
    using that assms(5) comp_name_before_tab [of "''env.'' @ k"] by (auto simp: setting_name_def)
  have flag_name: "comp_name (?flag p fs k) = ''features.'' @ p @ ''.'' @ k" if "(p, fs) \<in> set flags" "k \<in> set (keys_of fs)" for p fs k
    using that assms(6) comp_name_before_tab [of "''features.'' @ p @ ''.'' @ k"] by (auto simp: setting_name_def)
  have "comp_name ` ?env ` set (keys_of envs) = (\<lambda>k. ''env.'' @ k) ` set (keys_of envs)"
    unfolding image_image by (rule image_cong [OF refl env])
  moreover have word: "comp_name ` ?flag p fs ` set (keys_of fs) = (\<lambda>k. ''features.'' @ p @ ''.'' @ k) ` set (keys_of fs)"
    if "(p, fs) \<in> set flags" for p fs
    unfolding image_image by (rule image_cong [OF refl flag_name [OF that]])
  then have "(\<Union>x \<in> set flags. comp_name ` (case x of (p, fs) \<Rightarrow> ?flag p fs ` set (keys_of fs))) =
      (\<Union>x \<in> set flags. case x of (p, fs) \<Rightarrow> (\<lambda>k. ''features.'' @ p @ ''.'' @ k) ` set (keys_of fs))"
  proof (intro SUP_cong refl)
    fix x assume x: "x \<in> set flags"
    obtain p fs where "x = (p, fs)" by force
    with x show "comp_name ` (case x of (p, fs) \<Rightarrow> ?flag p fs ` set (keys_of fs)) =
        (case x of (p, fs) \<Rightarrow> (\<lambda>k. ''features.'' @ p @ ''.'' @ k) ` set (keys_of fs))"
      by (simp only: prod.case word)
  qed
  ultimately have "comp_name ` set (fst (completeUnsetConfig L N quote activeHelp [] cfg)) =
      (\<lambda>k. ''env.'' @ k) ` set (keys_of envs) \<union> (\<Union>(p, fs) \<in> set flags. (\<lambda>k. ''features.'' @ p @ ''.'' @ k) ` set (keys_of fs))"
    unfolding comps image_Un image_UN by (simp only:)
  then have "comp_name ` set (fst (completeUnsetConfig L N quote activeHelp [] cfg)) =
      {''env.'' @ k | k. k \<in> set (keys_of envs)} \<union>
      {''features.'' @ p @ ''.'' @ k | p fs k. (p, fs) \<in> set flags \<and> k \<in> set (keys_of fs)}"
    unfolding images_as_comprehensions .
  moreover have "unset_command N [''env.'' @ k] cfg = nf_DeleteEnv N k cfg" if "k \<in> set (keys_of envs)" for k
    using that assms(5) by (auto simp: setting_name_def unset_command_def unsetConfiguration_def unsetEnvs_def Let_def go_str)
  moreover have "unset_command N [''features.'' @ p @ ''.'' @ k] cfg = nf_DeleteFeature N p k cfg" if "(p, fs) \<in> set flags" "k \<in> set (keys_of fs)" for p fs k
    using that assms(6) by (auto simp: setting_name_def unset_command_def unsetConfiguration_def unsetFeatures_def Let_def go_str)
  ultimately show ?thesis by (intro conjI ballI) (simp_all only: split: prod.splits, blast+)
qed

theorem offered_settings_unset_witness:
  "comp_name ` set (fst (completeUnsetConfig dotted_lib (map_conf\<lparr>nf_GetEnvs := (\<lambda>_. Inr [(''PROXY'', ''x'')]),
      nf_GetFeatures := (\<lambda>_. Inr [(''global'', [(''abc'', ''true'')])])\<rparr>) id id [] Map.empty)) = {''env.PROXY'', ''features.global.abc''}"
proof -
  let ?N = "map_conf\<lparr>nf_GetEnvs := (\<lambda>_. Inr [(''PROXY'', ''x'')]), nf_GetFeatures := (\<lambda>_. Inr [(''global'', [(''abc'', ''true'')])])\<rparr>"
  have "comp_name ` set (fst (completeUnsetConfig dotted_lib ?N id id [] Map.empty)) =
      {''env.'' @ k | k. k \<in> set (keys_of [(''PROXY'', ''x'')])} \<union>
      {''features.'' @ p @ ''.'' @ k | p fs k. (p, fs) \<in> set [(''global'', [(''abc'', ''true'')])] \<and> k \<in> set (keys_of fs)}"
    by (rule offered_settings_unset [OF dotted_range_law, THEN conjunct1]) (simp_all add: setting_name_def keys_of_def)
  then show ?thesis by (auto simp: keys_of_def)
qed

end
