(* ===== verification/Cluster_Query.thy ===== *)
theory Cluster_Query
  imports Discovery_Model
begin

text \<open>
  Queries of the resources a cluster serves, \<^verbatim>\<open>pkg/capabilities/discovery/\<close>. A query names a group and perhaps a
  resource and versions; running it asks the discovery API and remembers what did not match. The API client and the
  functions of the schema package are parameters. \<open>serves\<close> says that a client reads a given server: then a query finds
  exactly what the server provides.
\<close>

section \<open>The discovery API\<close>

record api_group =
  ag_Name :: string
  ag_Versions :: "string list"

record api_resource_list =
  rl_GroupVersion :: string
  rl_APIResources :: "string list"

record discovery_client =
  dc_ServerGroups :: "api_group list res"
  dc_ServerGroupsAndResources :: "(api_group list \<times> api_resource_list list) res"
  dc_ServerResourcesForGroupVersion :: "string \<Rightarrow> api_resource_list option \<times> err option"
  dc_ServerVersion :: "err option"

record schema_lib =
  sc_ParseGroupVersion :: "string \<Rightarrow> (string \<times> string) res"
  sc_GV_String :: "string \<Rightarrow> string \<Rightarrow> string"
  sc_GVR_String :: "string \<Rightarrow> string \<Rightarrow> string \<Rightarrow> string"
  sc_IsNotFound :: "err \<Rightarrow> bool"
  sc_Error :: "err \<Rightarrow> string"

section \<open>A query\<close>

text \<open>\<^verbatim>\<open>versions\<close> is \<open>None\<close> for the nil slice; \<^verbatim>\<open>resource\<close> carries whether it was set.\<close>

record query_gvr =
  qr_name :: string
  qr_group :: string
  qr_resource :: string
  qr_resource_IsSet :: bool
  qr_versions :: "string list option"
  qr_unmatchedGVRs :: "string list"

definition Group :: "string \<Rightarrow> string \<Rightarrow> query_gvr" where
  "Group queryName grp =
     \<lparr>qr_name = queryName, qr_group = grp, qr_resource = '''', qr_resource_IsSet = False, qr_versions = None,
      qr_unmatchedGVRs = []\<rparr>"

text \<open>Called without arguments, \<^verbatim>\<open>WithVersions\<close> sets the nil slice.\<close>

definition WithVersions :: "string list \<Rightarrow> query_gvr \<Rightarrow> query_gvr" where
  "WithVersions versions q = q\<lparr>qr_versions := (if versions = [] then None else Some versions)\<rparr>"

definition WithResource :: "string \<Rightarrow> query_gvr \<Rightarrow> query_gvr" where
  "WithResource resource q = q\<lparr>qr_resource := resource, qr_resource_IsSet := True\<rparr>"

definition containsEmpty :: "string list \<Rightarrow> bool" where
  "containsEmpty strs \<longleftrightarrow> (\<exists>s \<in> set strs. trim_space s = '''')"

definition query_errors :: "query_gvr \<Rightarrow> err list" where
  "query_errors q =
     (if qr_resource_IsSet q \<and> qr_resource q = ''''
      then [Errorf ''WithResource method must have non-empty string argument; omit method to indicate any resource'' []] else []) @
     (case qr_versions q of
        None \<Rightarrow> []
      | Some vs \<Rightarrow>
          if containsEmpty vs
          then [Errorf ''WithVersions method must be comprised of non-empty string argument(s); omit method to indicate any version'' []]
          else [])"

definition query_validate :: "'v lib \<Rightarrow> discovery_client option \<Rightarrow> query_gvr \<Rightarrow> err option" where
  "query_validate L cfg q =
     (if cfg = None then Some (Errorf ''clusterQueryClientConfig must not be nil'' []) else NewAggregate L (query_errors q))"

definition containsGroup :: "api_group list \<Rightarrow> string \<Rightarrow> bool" where
  "containsGroup groups grp \<longleftrightarrow> list_ex (\<lambda>g. equal_fold (ag_Name g) grp) groups"

definition groupFromGroupList :: "api_group list \<Rightarrow> string \<Rightarrow> api_group option" where
  "groupFromGroupList groups grp = find (\<lambda>g. equal_fold (ag_Name g) grp) groups"

definition resourceExists :: "api_resource_list option list \<Rightarrow> string \<Rightarrow> bool" where
  "resourceExists resources resource \<longleftrightarrow>
     list_ex (\<lambda>l. case l of None \<Rightarrow> False | Some l \<Rightarrow> resource \<in> set (rl_APIResources l)) resources"

fun resourceListInGroup :: "schema_lib \<Rightarrow> api_resource_list list \<Rightarrow> string \<Rightarrow> api_resource_list list res" where
  "resourceListInGroup S [] grp = Inr []"
| "resourceListInGroup S (l # ls) grp =
     (case sc_ParseGroupVersion S (rl_GroupVersion l) of
        Inl e \<Rightarrow> Inl e
      | Inr (g, _) \<Rightarrow>
          map_sum id (\<lambda>found. if equal_fold g grp then l # found else found) (resourceListInGroup S ls grp))"

section \<open>What did not match\<close>

definition unmatchedGroupResource :: "schema_lib \<Rightarrow> discovery_client \<Rightarrow> query_gvr \<Rightarrow> string res" where
  "unmatchedGroupResource S D q =
     (let gvr = sc_GVR_String S (qr_group q) '''' (qr_resource q)
      in case dc_ServerGroupsAndResources D of
           Inl e \<Rightarrow> Inl (Wrapf e ''failed to discover server group and resource'' [])
         | Inr (groups, resources) \<Rightarrow>
             if \<not> containsGroup groups (qr_group q) then Inr gvr
             else if qr_resource q = '''' then Inr ''''
             else (case resourceListInGroup S resources (qr_group q) of
                     Inl e \<Rightarrow> Inl (Wrapf e ''failed to find resource list in %s group'' [qr_group q])
                   | Inr rscList \<Rightarrow> Inr (if resourceExists (map Some rscList) (qr_resource q) then '''' else gvr)))"

definition unmatchedGroupVersions :: "schema_lib \<Rightarrow> discovery_client \<Rightarrow> query_gvr \<Rightarrow> string list \<Rightarrow> string list res" where
  "unmatchedGroupVersions S D q versions =
     (case dc_ServerGroups D of
        Inl e \<Rightarrow> Inl (Wrapf e ''failed to discover server groups'' [])
      | Inr groups \<Rightarrow>
          let unmatched = (case groupFromGroupList groups (qr_group q) of
                None \<Rightarrow> versions
              | Some grp \<Rightarrow> filter (\<lambda>v. \<not> list_ex (\<lambda>gv. equal_fold gv v) (ag_Versions grp)) versions)
          in Inr (map (\<lambda>v. sc_GVR_String S (qr_group q) v (qr_resource q)) unmatched))"

definition not_found :: "schema_lib \<Rightarrow> string \<Rightarrow> err \<Rightarrow> bool" where
  "not_found S gv e \<longleftrightarrow>
     sc_IsNotFound S e \<or>
     contains_str (sc_Error S e) (''GroupVersion '' @ [CHR 0x22] @ gv @ [CHR 0x22] @ '' not found'')"

text \<open>The loop goes on to look for the resource after a version was not found.\<close>

fun gvr_loop :: "schema_lib \<Rightarrow> discovery_client \<Rightarrow> query_gvr \<Rightarrow> string list \<Rightarrow> string list \<Rightarrow> string list res" where
  "gvr_loop S D q [] unmatched = Inr unmatched"
| "gvr_loop S D q (ver # vers) unmatched =
     (let gvr = sc_GVR_String S (qr_group q) ver (qr_resource q);
          gv = sc_GV_String S (qr_group q) ver
      in case dc_ServerResourcesForGroupVersion D gv of (resources, e) \<Rightarrow>
           (case (case e of None \<Rightarrow> Inr unmatched | Some e \<Rightarrow> if not_found S gv e then Inr (unmatched @ [gvr]) else Inl e) of
              Inl e \<Rightarrow> Inl e
            | Inr unmatched1 \<Rightarrow>
                gvr_loop S D q vers (if resourceExists [resources] (qr_resource q) then unmatched1 else unmatched1 @ [gvr])))"

definition unmatchedGroupVersionResources :: "schema_lib \<Rightarrow> discovery_client \<Rightarrow> query_gvr \<Rightarrow> string list \<Rightarrow> string list res" where
  "unmatchedGroupVersionResources S D q versions = gvr_loop S D q versions []"

section \<open>Running a query\<close>

definition run_unmatched :: "schema_lib \<Rightarrow> discovery_client \<Rightarrow> query_gvr \<Rightarrow> string list res" where
  "run_unmatched S D q =
     (case qr_versions q of
        None \<Rightarrow>
          (case unmatchedGroupResource S D q of
             Inl e \<Rightarrow> Inl (Wrapf e ''failed to discover unmatched GroupResource'' [])
           | Inr u \<Rightarrow> Inr (if u \<noteq> '''' then [u] else []))
      | Some versions \<Rightarrow>
          if qr_resource q = ''''
          then (case unmatchedGroupVersions S D q versions of
                  Inl e \<Rightarrow> Inl (Wrapf e ''failed to discover unmatched GroupVersions'' []) | Inr us \<Rightarrow> Inr us)
          else (case unmatchedGroupVersionResources S D q versions of
                  Inl e \<Rightarrow> Inl (Wrapf e ''failed to discover unmatched GroupVersionResources'' []) | Inr us \<Rightarrow> Inr us))"

definition query_Run ::
    "'v lib \<Rightarrow> schema_lib \<Rightarrow> discovery_client option \<Rightarrow> query_gvr \<Rightarrow> query_gvr \<times> bool res" where
  "query_Run L S cfg q =
     (case (query_validate L cfg q, cfg) of
        (None, Some D) \<Rightarrow>
          (case run_unmatched S D q of
             Inl e \<Rightarrow> (q, Inl e) | Inr unmatched \<Rightarrow> (q\<lparr>qr_unmatchedGVRs := unmatched\<rparr>, Inr (unmatched = [])))
      | (Some e, _) \<Rightarrow> (q, Inl (Wrapf e ''failed GroupVersionResource API query validation'' [])))"

definition query_Reason :: "query_gvr \<Rightarrow> err" where
  "query_Reason q = Errorf ''GVRs=%v status=unmatched presence=true'' (qr_unmatchedGVRs q)"

section \<open>Several queries\<close>

record query_result =
  qs_Found :: bool
  qs_NotFoundReason :: "err option"

record cluster_query =
  cq_targets :: "query_gvr list"
  cq_config :: "discovery_client option"
  cq_results :: "(string \<times> query_result) list"

definition client_Query :: "discovery_client option \<Rightarrow> query_gvr list \<Rightarrow> cluster_query" where
  "client_Query config targets = \<lparr>cq_targets = targets, cq_config = config, cq_results = []\<rparr>"

definition ForQuery :: "(string \<times> query_result) list \<Rightarrow> string \<Rightarrow> query_result option" where
  "ForQuery results queryName = map_of results queryName"

definition query_result_of :: "query_gvr \<Rightarrow> bool \<Rightarrow> query_result" where
  "query_result_of q ok = \<lparr>qs_Found = ok, qs_NotFoundReason = (if ok then None else Some (query_Reason q))\<rparr>"

text \<open>The variables are the targets that were run, the results and whether all were found.\<close>

fun execute_loop ::
    "'v lib \<Rightarrow> schema_lib \<Rightarrow> discovery_client option \<Rightarrow> query_gvr list \<Rightarrow> query_gvr list \<Rightarrow> (string \<times> query_result) list \<Rightarrow> bool \<Rightarrow>
     query_gvr list \<times> (string \<times> query_result) list \<times> bool res" where
  "execute_loop L S cfg [] visited results success = (visited, results, Inr success)"
| "execute_loop L S cfg (t # ts) visited results success =
     (case query_Run L S cfg t of
        (t1, Inl e) \<Rightarrow> (visited @ t1 # ts, results, Inl e)
      | (t1, Inr ok) \<Rightarrow>
          execute_loop L S cfg ts (visited @ [t1]) (AList.update (qr_name t) (query_result_of t1 ok) results) (success \<and> ok))"

definition Execute :: "'v lib \<Rightarrow> schema_lib \<Rightarrow> cluster_query \<Rightarrow> cluster_query \<times> bool res" where
  "Execute L S c =
     (if \<not> distinct (map qr_name (cq_targets c)) then (c, Inl (Errorf ''query target names must be unique'' []))
      else case execute_loop L S (cq_config c) (cq_targets c) [] (cq_results c) True of
             (targets, results, r) \<Rightarrow> (c\<lparr>cq_targets := targets, cq_results := results\<rparr>, r))"

definition PreparedQuery :: "'v lib \<Rightarrow> schema_lib \<Rightarrow> discovery_client option \<Rightarrow> query_gvr list \<Rightarrow> cluster_query \<times> bool res" where
  "PreparedQuery L S config targets = Execute L S (client_Query config targets)"

text \<open>
  The client of a cluster, \<^verbatim>\<open>pkg/cluster/client.go\<close>: connecting, looking for the resource definition of plugins, listing
  them, and the configuration maps that override image repositories. The operations of the Kubernetes libraries, with the
  factories of the options, are fields of \<open>k8s_lib\<close>; a REST configuration is a value of type \<open>'r\<close> with the fields that
  the code sets.
\<close>

section \<open>The Kubernetes libraries\<close>

record 'r rest_config =
  rc_base :: 'r
  rc_QPS :: int
  rc_Burst :: int
  rc_Timeout :: "int option"

record config_map =
  cm_Data :: "(string \<times> string) list"

record ('k, 'r) k8s_lib =
  kb_schema :: schema_lib
  kb_GetDefaultFilename :: string
  kb_RESTConfigFromKubeConfig :: "string \<Rightarrow> 'r res"
  kb_LoadFromFile :: "string \<Rightarrow> 'k res"
  kb_ClientConfig :: "'k \<Rightarrow> string \<Rightarrow> 'r res"
  kb_HTTPClientFor :: "'r rest_config \<Rightarrow> err option"
  kb_NewDynamicRESTMapper :: "'r rest_config \<Rightarrow> err option"
  kb_NewCrtClient :: "'r rest_config \<Rightarrow> err option"
  kb_NewDiscoveryClient :: "'r rest_config \<Rightarrow> discovery_client res"
  kb_NewDynamicClient :: "'r rest_config \<Rightarrow> err option"
  kb_ListCLIPlugins :: "'r rest_config \<Rightarrow> string \<Rightarrow> cli_plugin list res"
  kb_ListConfigMaps :: "'r rest_config \<Rightarrow> string \<Rightarrow> string \<Rightarrow> config_map list res"
  kb_UnmarshalMap :: "string \<Rightarrow> (string \<times> string) list \<times> err option"

section \<open>Connecting\<close>

record 'r client =
  ct_rest :: "'r rest_config"
  ct_DiscoveryClient :: discovery_client

record client_source =
  cu_kubeConfigBytes :: string
  cu_kubeConfigPath :: string
  cu_currentContext :: string

text \<open>The bytes of a kubeconfig take precedence over its path and context.\<close>

definition client_source_of :: "('k, 'r) k8s_lib \<Rightarrow> string \<Rightarrow> string \<Rightarrow> string \<Rightarrow> client_source" where
  "client_source_of K kubeConfigPath contextStr kubeConfigBytes =
     (if kubeConfigBytes = ''''
      then \<lparr>cu_kubeConfigBytes = '''', cu_kubeConfigPath = (if kubeConfigPath = '''' then kb_GetDefaultFilename K else kubeConfigPath),
            cu_currentContext = contextStr\<rparr>
      else \<lparr>cu_kubeConfigBytes = kubeConfigBytes, cu_kubeConfigPath = '''', cu_currentContext = ''''\<rparr>)"

definition rest_config_of :: "('k, 'r) k8s_lib \<Rightarrow> client_source \<Rightarrow> 'r res" where
  "rest_config_of K c =
     (if cu_kubeConfigBytes c \<noteq> ''''
      then (case kb_RESTConfigFromKubeConfig K (cu_kubeConfigBytes c) of
              Inl e \<Rightarrow> Inl (Wrapf e ''Unable to set up rest config due to : %v'' []) | Inr r \<Rightarrow> Inr r)
      else (case kb_LoadFromFile K (cu_kubeConfigPath c) of
              Inl _ \<Rightarrow> Inl (Errorf ''Failed to load Kubeconfig file from %q'' [cu_kubeConfigPath c])
            | Inr config \<Rightarrow>
                (case kb_ClientConfig K config (cu_currentContext c) of
                   Inl e \<Rightarrow> Inl (Wrapf e ''Unable to set up rest config due to : %v'' []) | Inr r \<Rightarrow> Inr r)))"

definition DefaultQPS :: int where "DefaultQPS = 200"
definition DefaultBurst :: int where "DefaultBurst = 200"

definition check_step :: "err option \<Rightarrow> string \<Rightarrow> 'a res \<Rightarrow> 'a res" where
  "check_step e msg r = (case e of Some e \<Rightarrow> Inl (Wrapf e msg []) | None \<Rightarrow> r)"

definition getK8sClients :: "('k, 'r) k8s_lib \<Rightarrow> client_source \<Rightarrow> int \<Rightarrow> 'r client res" where
  "getK8sClients K c timeout =
     (case rest_config_of K c of
        Inl e \<Rightarrow> Inl e
      | Inr base \<Rightarrow>
          let r = \<lparr>rc_base = base, rc_QPS = DefaultQPS, rc_Burst = DefaultBurst,
                   rc_Timeout = (if timeout \<noteq> 0 then Some timeout else None)\<rparr>
          in check_step (kb_HTTPClientFor K r) ''Error getting http client due to : %v''
               (check_step (kb_NewDynamicRESTMapper K r) ''Unable to set up rest mapper due to : %v''
                  (check_step (kb_NewCrtClient K r) ''Error getting controller client due to : %v''
                     (case kb_NewDiscoveryClient K r of
                        Inl e \<Rightarrow> Inl (Wrapf e ''Error getting discovery client due to : %v'' [])
                      | Inr D \<Rightarrow>
                          check_step (dc_ServerVersion D) ''Failed to invoke API on cluster : %v''
                            (check_step (kb_NewDynamicClient K r) ''Error getting dynamic client due to : %v''
                               (Inr \<lparr>ct_rest = r, ct_DiscoveryClient = D\<rparr>))))))"

section \<open>Plugins of the cluster\<close>

definition crd_query :: query_gvr where
  "crd_query = WithResource ''cliplugins'' (Group ''cliPlugins'' ''cli.tanzu.vmware.com'')"

definition client_VerifyCLIPluginCRD :: "'v lib \<Rightarrow> ('k, 'r) k8s_lib \<Rightarrow> 'r client \<Rightarrow> bool res" where
  "client_VerifyCLIPluginCRD L K c = snd (PreparedQuery L (kb_schema K) (Some (ct_DiscoveryClient c)) [crd_query])"

definition client_ListCLIPluginResources :: "('k, 'r) k8s_lib \<Rightarrow> 'r client \<Rightarrow> cli_plugin list res" where
  "client_ListCLIPluginResources K c = kb_ListCLIPlugins K (ct_rest c) ''''"

text \<open>The maps of one configuration map are entered in the order of the iteration.\<close>

fun repo_map_loop :: "(string \<times> string) list \<Rightarrow> string list \<Rightarrow> (string \<times> string) list \<Rightarrow> (string \<times> string) list res" where
  "repo_map_loop irm [] imageRepoMap = Inr imageRepoMap"
| "repo_map_loop irm (k # ks) imageRepoMap =
     (if map_of imageRepoMap k \<noteq> None
      then Inl (Errorf ''multiple references of image repository %q found while doing image repository override'' [k])
      else repo_map_loop irm ks (AList.update k (get_or '''' irm k) imageRepoMap))"

fun consolidate_loop ::
    "'v lib \<Rightarrow> ('k, 'r) k8s_lib \<Rightarrow> config_map list \<Rightarrow> (string \<times> string) list \<Rightarrow> (string \<times> string) list res" where
  "consolidate_loop L K [] imageRepoMap = Inr imageRepoMap"
| "consolidate_loop L K (cm # cms) imageRepoMap =
     (case map_of (cm_Data cm) ''imageRepoMap'' of
        None \<Rightarrow> consolidate_loop L K cms imageRepoMap
      | Some mapString \<Rightarrow>
          let irm = fst (kb_UnmarshalMap K mapString)
          in case repo_map_loop irm (range_keys L irm) imageRepoMap of
               Inl e \<Rightarrow> Inl e
             | Inr imageRepoMap1 \<Rightarrow> consolidate_loop L K cms imageRepoMap1)"

definition ConsolidateImageRepoMaps :: "'v lib \<Rightarrow> ('k, 'r) k8s_lib \<Rightarrow> config_map list \<Rightarrow> (string \<times> string) list res" where
  "ConsolidateImageRepoMaps L K cmList = consolidate_loop L K cmList []"

definition CLIPluginImageRepositoryOverrideLabel :: string where
  "CLIPluginImageRepositoryOverrideLabel = ''cli.tanzu.vmware.com/cliplugin-image-repository-override''"

definition TanzuCLISystemNamespace :: string where
  "TanzuCLISystemNamespace = ''tanzu-cli-system''"

definition client_GetCLIPluginImageRepositoryOverride ::
    "'v lib \<Rightarrow> ('k, 'r) k8s_lib \<Rightarrow> 'r client \<Rightarrow> (string \<times> string) list res" where
  "client_GetCLIPluginImageRepositoryOverride L K c =
     (case kb_ListConfigMaps K (ct_rest c) TanzuCLISystemNamespace CLIPluginImageRepositoryOverrideLabel of
        Inl e \<Rightarrow> Inl e
      | Inr cmList \<Rightarrow> ConsolidateImageRepoMaps L K cmList)"

section \<open>The client as the discovery uses it\<close>

definition client_interface :: "'v lib \<Rightarrow> ('k, 'r) k8s_lib \<Rightarrow> 'r client \<Rightarrow> cluster_client" where
  "client_interface L K c =
     \<lparr>VerifyCLIPluginCRD = client_VerifyCLIPluginCRD L K c,
      ListCLIPluginResources = client_ListCLIPluginResources K c,
      GetCLIPluginImageRepositoryOverride =
        (case client_GetCLIPluginImageRepositoryOverride L K c of Inl e \<Rightarrow> ([], Some e) | Inr m \<Rightarrow> (m, None))\<rparr>"

definition cluster_NewClient ::
    "'v lib \<Rightarrow> ('k, 'r) k8s_lib \<Rightarrow> int \<Rightarrow> string \<Rightarrow> string \<Rightarrow> string \<Rightarrow> cluster_client res" where
  "cluster_NewClient L K timeout kubeConfigPath contextStr kubeConfigBytes =
     map_sum id (client_interface L K) (getK8sClients K (client_source_of K kubeConfigPath contextStr kubeConfigBytes) timeout)"

end
