(* ===== verification/Cluster_Query_Correct.thy ===== *)
theory Cluster_Query_Correct
  imports Cluster_Query
begin

text \<open>
  A query finds exactly what the server provides: \<open>serves\<close> is what the client library documents of a client that
  reads a server, \<open>provides\<close> the meaning of a query on the server's groups, versions and resources.
\<close>

section \<open>The server and its client\<close>

text \<open>A server is a list of groups with a version and the names of its resources.\<close>

type_synonym server = "(string \<times> string \<times> string list) list"

definition name_ok :: "string \<Rightarrow> bool" where
  "name_ok s \<longleftrightarrow> CHR ''/'' \<notin> set s \<and> to_lower s = s"

definition resource_list :: "schema_lib \<Rightarrow> string \<times> string \<times> string list \<Rightarrow> api_resource_list" where
  "resource_list S x = (case x of (g, v, r) \<Rightarrow> \<lparr>rl_GroupVersion = sc_GV_String S g v, rl_APIResources = r\<rparr>)"

definition server_ok :: "server \<Rightarrow> bool" where
  "server_ok srv \<longleftrightarrow> distinct (map (\<lambda>(g, v, r). (g, v)) srv) \<and> (\<forall>(g, v, r) \<in> set srv. name_ok g \<and> name_ok v)"

definition groups_of_server :: "api_group list \<Rightarrow> server \<Rightarrow> bool" where
  "groups_of_server gs srv \<longleftrightarrow>
     distinct (map ag_Name gs) \<and> (\<forall>a \<in> set gs. ag_Versions a \<noteq> []) \<and>
     (\<forall>g v. (\<exists>a \<in> set gs. ag_Name a = g \<and> v \<in> set (ag_Versions a)) \<longleftrightarrow> (\<exists>r. (g, v, r) \<in> set srv))"

definition schema_laws :: "schema_lib \<Rightarrow> bool" where
  "schema_laws S \<longleftrightarrow>
     (\<forall>g v. name_ok g \<longrightarrow> name_ok v \<longrightarrow> sc_ParseGroupVersion S (sc_GV_String S g v) = Inr (g, v)) \<and>
     (\<forall>g v r. sc_GVR_String S g v r \<noteq> '''')"

definition serves :: "schema_lib \<Rightarrow> discovery_client \<Rightarrow> server \<Rightarrow> bool" where
  "serves S D srv \<longleftrightarrow>
     (\<exists>gs. groups_of_server gs srv \<and> dc_ServerGroups D = Inr gs \<and>
        dc_ServerGroupsAndResources D = Inr (gs, map (resource_list S) srv)) \<and>
     (\<forall>x \<in> set srv. dc_ServerResourcesForGroupVersion D (sc_GV_String S (fst x) (fst (snd x))) = (Some (resource_list S x), None)) \<and>
     (\<forall>g v. name_ok g \<longrightarrow> name_ok v \<longrightarrow> (\<forall>r. (g, v, r) \<notin> set srv) \<longrightarrow>
        (\<exists>e. sc_IsNotFound S e \<and> dc_ServerResourcesForGroupVersion D (sc_GV_String S g v) = (None, Some e)))"

section \<open>What a query means\<close>

definition provides_version :: "server \<Rightarrow> string \<Rightarrow> string \<Rightarrow> string \<Rightarrow> bool" where
  "provides_version srv g resource v \<longleftrightarrow> (\<exists>r. (g, v, r) \<in> set srv \<and> (resource = '''' \<or> resource \<in> set r))"

definition provides :: "server \<Rightarrow> query_gvr \<Rightarrow> bool" where
  "provides srv q \<longleftrightarrow>
     (case qr_versions q of
        None \<Rightarrow> \<exists>v. provides_version srv (qr_group q) (qr_resource q) v
      | Some vs \<Rightarrow> \<forall>v \<in> set vs. provides_version srv (qr_group q) (qr_resource q) v)"

text \<open>What the reason of a query that was not found lists.\<close>

definition missing :: "schema_lib \<Rightarrow> server \<Rightarrow> query_gvr \<Rightarrow> string set" where
  "missing S srv q =
     (case qr_versions q of
        None \<Rightarrow> if provides srv q then {} else {sc_GVR_String S (qr_group q) '''' (qr_resource q)}
      | Some vs \<Rightarrow> (\<lambda>v. sc_GVR_String S (qr_group q) v (qr_resource q)) `
                   {v \<in> set vs. \<not> provides_version srv (qr_group q) (qr_resource q) v})"

definition query_ok :: "query_gvr \<Rightarrow> bool" where
  "query_ok q \<longleftrightarrow> query_errors q = [] \<and> name_ok (qr_group q) \<and> (case qr_versions q of None \<Rightarrow> True | Some vs \<Rightarrow> \<forall>v \<in> set vs. name_ok v)"

lemma missing_empty: "missing S srv q = {} \<longleftrightarrow> provides srv q"
  by (auto simp: missing_def provides_def split: option.splits)

lemma equal_fold_names: "name_ok a \<Longrightarrow> name_ok b \<Longrightarrow> equal_fold a b \<longleftrightarrow> a = b"
  by (simp add: equal_fold_def name_ok_def)

section \<open>The three kinds of queries\<close>

lemma resources_in_group:
  assumes "schema_laws S" "name_ok grp" "\<forall>(g, v, r) \<in> set srv. name_ok g \<and> name_ok v"
  shows "resourceListInGroup S (map (resource_list S) srv) grp = Inr (map (resource_list S) (filter (\<lambda>(g, v, r). g = grp) srv))"
  using assms(3)
  by (induction srv)
    (use assms(1,2) in \<open>auto simp: resource_list_def schema_laws_def equal_fold_names split: prod.splits\<close>)

lemma server_groups_ok:
  "server_ok srv \<Longrightarrow> groups_of_server gs srv \<Longrightarrow> a \<in> set gs \<Longrightarrow> name_ok (ag_Name a) \<and> (\<forall>v \<in> set (ag_Versions a). name_ok v)"
  unfolding server_ok_def groups_of_server_def by (cases "ag_Versions a") fastforce+

lemma group_served:
  assumes "groups_of_server gs srv"
  shows "(\<exists>a \<in> set gs. ag_Name a = g) \<longleftrightarrow> (\<exists>v r. (g, v, r) \<in> set srv)"
proof
  assume "\<exists>a \<in> set gs. ag_Name a = g"
  then obtain a v where "a \<in> set gs" "ag_Name a = g" "v \<in> set (ag_Versions a)"
    using assms by (metis groups_of_server_def list.set_sel(1))
  then show "\<exists>v r. (g, v, r) \<in> set srv" using assms by (metis groups_of_server_def)
next
  assume "\<exists>v r. (g, v, r) \<in> set srv"
  then show "\<exists>a \<in> set gs. ag_Name a = g" using assms by (metis groups_of_server_def)
qed

lemma one_version:
  assumes "server_ok srv" "(g, v, r) \<in> set srv" "(g, v, r') \<in> set srv"
  shows "r' = r"
proof -
  have "inj_on (\<lambda>(g, v, r). (g, v)) (set srv)" using assms(1) by (simp add: server_ok_def distinct_map)
  from inj_onD [OF this _ assms(2,3)] show ?thesis by simp
qed

lemma group_resource_exact:
  assumes "schema_laws S" "serves S D srv" "server_ok srv" "name_ok (qr_group q)" "qr_versions q = None"
  shows "unmatchedGroupResource S D q =
     Inr (if provides srv q then '''' else sc_GVR_String S (qr_group q) '''' (qr_resource q))"
proof -
  from assms(2) obtain gs where gs: "groups_of_server gs srv"
    "dc_ServerGroupsAndResources D = Inr (gs, map (resource_list S) srv)" by (auto simp: serves_def)
  have grp: "containsGroup gs (qr_group q) \<longleftrightarrow> (\<exists>v r. (qr_group q, v, r) \<in> set srv)"
    unfolding group_served [OF gs(1), symmetric]
    using server_groups_ok [OF assms(3) gs(1)] assms(4) by (auto simp: containsGroup_def list_ex_iff equal_fold_names)
  have res: "resourceListInGroup S (map (resource_list S) srv) (qr_group q) =
      Inr (map (resource_list S) (filter (\<lambda>(g, v, r). g = qr_group q) srv))"
    using resources_in_group [OF assms(1,4)] assms(3) by (simp add: server_ok_def)
  have ex: "resourceExists (map Some (map (resource_list S) (filter (\<lambda>(g, v, r). g = qr_group q) srv))) (qr_resource q) \<longleftrightarrow>
      (\<exists>v r. (qr_group q, v, r) \<in> set srv \<and> qr_resource q \<in> set r)"
    by (fastforce simp: resourceExists_def list_ex_iff resource_list_def)
  show ?thesis
    unfolding unmatchedGroupResource_def gs(2) Let_def by (auto simp: grp res ex provides_def provides_version_def assms(5) simp del: map_map)
qed

lemma group_versions_exact:
  assumes "serves S D srv" "server_ok srv" "name_ok (qr_group q)" "\<forall>v \<in> set vs. name_ok v" "qr_resource q = ''''"
  shows "unmatchedGroupVersions S D q vs =
     Inr (map (\<lambda>v. sc_GVR_String S (qr_group q) v '''') (filter (\<lambda>v. \<not> provides_version srv (qr_group q) '''' v) vs))"
proof -
  from assms(1) obtain gs where gs: "groups_of_server gs srv" "dc_ServerGroups D = Inr gs" by (auto simp: serves_def)
  note names = server_groups_ok [OF assms(2) gs(1)]
  have served: "provides_version srv (qr_group q) '''' v \<longleftrightarrow> (\<exists>a \<in> set gs. ag_Name a = qr_group q \<and> v \<in> set (ag_Versions a))" for v
    unfolding provides_version_def using gs(1) [unfolded groups_of_server_def] by metis
  show ?thesis
  proof (cases "groupFromGroupList gs (qr_group q)")
    case None
    then have "\<not> provides_version srv (qr_group q) '''' v" for v
      unfolding served using names assms(3) by (auto simp: groupFromGroupList_def find_None_iff equal_fold_names)
    then show ?thesis using None gs(2) assms(5) by (simp add: unmatchedGroupVersions_def)
  next
    case (Some a)
    then have a: "a \<in> set gs" "ag_Name a = qr_group q"
      using names assms(3) by (auto simp: groupFromGroupList_def find_Some_iff equal_fold_names)
    have uniq: "b = a" if "b \<in> set gs" "ag_Name b = qr_group q" for b
    proof -
      have "inj_on ag_Name (set gs)" using gs(1) by (simp add: groups_of_server_def distinct_map)
      from inj_onD [OF this _ that(1) a(1)] a(2) that(2) show ?thesis by simp
    qed
    have "list_ex (\<lambda>gv. equal_fold gv v) (ag_Versions a) \<longleftrightarrow> provides_version srv (qr_group q) '''' v" if "v \<in> set vs" for v
    proof -
      have "(\<exists>b \<in> set gs. ag_Name b = qr_group q \<and> v \<in> set (ag_Versions b)) \<longleftrightarrow> v \<in> set (ag_Versions a)" using a uniq by metis
      moreover have "list_ex (\<lambda>gv. equal_fold gv v) (ag_Versions a) \<longleftrightarrow> v \<in> set (ag_Versions a)"
        unfolding list_ex_iff using names [OF a(1)] assms(4) that by (metis equal_fold_names)
      ultimately show ?thesis by (simp only: served)
    qed
    then have "filter (\<lambda>v. \<not> list_ex (\<lambda>gv. equal_fold gv v) (ag_Versions a)) vs =
        filter (\<lambda>v. \<not> provides_version srv (qr_group q) '''' v) vs" by (intro filter_cong) simp_all
    then show ?thesis using Some gs(2) assms(5) by (simp add: unmatchedGroupVersions_def)
  qed
qed

lemma gvr_step:
  assumes "serves S D srv" "server_ok srv" "name_ok (qr_group q)" "name_ok v" "qr_resource q \<noteq> ''''"
  shows "\<exists>us. set us = (if provides_version srv (qr_group q) (qr_resource q) v then {} else {sc_GVR_String S (qr_group q) v (qr_resource q)}) \<and>
     (\<forall>vs unmatched. gvr_loop S D q (v # vs) unmatched = gvr_loop S D q vs (unmatched @ us))"
proof (cases "\<exists>r. (qr_group q, v, r) \<in> set srv")
  case True
  then obtain r where r: "(qr_group q, v, r) \<in> set srv" by blast
  then have D: "dc_ServerResourcesForGroupVersion D (sc_GV_String S (qr_group q) v) = (Some (resource_list S (qr_group q, v, r)), None)"
    using assms(1) by (auto simp: serves_def)
  note uniq = one_version [OF assms(2) r]
  have "provides_version srv (qr_group q) (qr_resource q) v \<longleftrightarrow> qr_resource q \<in> set r"
    unfolding provides_version_def using r uniq assms(5) by metis
  then show ?thesis
    by (intro exI [of _ "if qr_resource q \<in> set r then [] else [sc_GVR_String S (qr_group q) v (qr_resource q)]"])
      (simp add: D resourceExists_def resource_list_def)
next
  case False
  then obtain e where "sc_IsNotFound S e" "dc_ServerResourcesForGroupVersion D (sc_GV_String S (qr_group q) v) = (None, Some e)"
    using assms(1,3,4) unfolding serves_def by blast
  then show ?thesis using False
    by (intro exI [of _ "replicate 2 (sc_GVR_String S (qr_group q) v (qr_resource q))"])
      (simp add: not_found_def resourceExists_def provides_version_def numeral_2_eq_2 Let_def)
qed

lemma gvr_loop_exact:
  assumes "serves S D srv" "server_ok srv" "name_ok (qr_group q)" "\<forall>v \<in> set vs. name_ok v" "qr_resource q \<noteq> ''''"
  shows "\<exists>us. gvr_loop S D q vs unmatched = Inr (unmatched @ us) \<and>
     set us = (\<lambda>v. sc_GVR_String S (qr_group q) v (qr_resource q)) ` {v \<in> set vs. \<not> provides_version srv (qr_group q) (qr_resource q) v}"
  using assms(4)
proof (induction vs arbitrary: unmatched)
  case Nil
  then show ?case by simp
next
  case (Cons v vs)
  from gvr_step [OF assms(1-3) _ assms(5), of v] Cons.prems obtain us where
    us: "set us = (if provides_version srv (qr_group q) (qr_resource q) v then {} else {sc_GVR_String S (qr_group q) v (qr_resource q)})"
    "\<And>vs unmatched. gvr_loop S D q (v # vs) unmatched = gvr_loop S D q vs (unmatched @ us)" by auto
  from Cons.IH [of "unmatched @ us"] Cons.prems obtain us1 where
    us1: "gvr_loop S D q vs (unmatched @ us) = Inr ((unmatched @ us) @ us1)"
    "set us1 = (\<lambda>v. sc_GVR_String S (qr_group q) v (qr_resource q)) ` {v \<in> set vs. \<not> provides_version srv (qr_group q) (qr_resource q) v}"
    by auto
  show ?case
    unfolding us(2) us1(1) using us(1) us1(2) by (intro exI [of _ "us @ us1"]) (auto split: if_splits)
qed

section \<open>Running queries\<close>

lemma run_exact:
  assumes "schema_laws S" "serves S D srv" "server_ok srv" "query_ok q"
  shows "\<exists>us. run_unmatched S D q = Inr us \<and> set us = missing S srv q"
proof (cases "qr_versions q")
  case None
  have ne: "sc_GVR_String S (qr_group q) '''' (qr_resource q) \<noteq> ''''" using assms(1) by (simp add: schema_laws_def)
  have "unmatchedGroupResource S D q = Inr (if provides srv q then '''' else sc_GVR_String S (qr_group q) '''' (qr_resource q))"
    using group_resource_exact [OF assms(1-3) _ None] assms(4) by (simp add: query_ok_def)
  then show ?thesis using None ne by (simp add: run_unmatched_def missing_def)
next
  case (Some vs)
  then have vs: "name_ok (qr_group q)" "\<forall>v \<in> set vs. name_ok v" using assms(4) by (auto simp: query_ok_def)
  show ?thesis
  proof (cases "qr_resource q = ''''")
    case True
    then show ?thesis using group_versions_exact [OF assms(2,3) vs True] Some
      by (simp add: run_unmatched_def missing_def)
  next
    case False
    from gvr_loop_exact [OF assms(2,3) vs False, of "[]"] show ?thesis using Some False
      by (auto simp: run_unmatched_def missing_def unmatchedGroupVersionResources_def)
  qed
qed

lemma query_run_exact:
  assumes "aggregate_law L" "schema_laws S" "serves S D srv" "server_ok srv" "query_ok q"
  shows "\<exists>us. query_Run L S (Some D) q = (q\<lparr>qr_unmatchedGVRs := us\<rparr>, Inr (provides srv q)) \<and> set us = missing S srv q"
proof -
  from run_exact [OF assms(2-5)] obtain us where us: "run_unmatched S D q = Inr us" "set us = missing S srv q" by blast
  moreover have "us = [] \<longleftrightarrow> provides srv q" using us(2) missing_empty [of S srv q] by (metis set_empty)
  moreover have "query_validate L (Some D) q = None" using assms(1,5) by (simp add: query_validate_def query_ok_def)
  ultimately show ?thesis by (auto simp: query_Run_def)
qed

text \<open>The recorded result says whether the query is provided; otherwise its reason has the form of \<^verbatim>\<open>Reason\<close> with the missing versions.\<close>

definition result_exact :: "schema_lib \<Rightarrow> server \<Rightarrow> (string \<times> query_result) list \<Rightarrow> query_gvr \<Rightarrow> bool" where
  "result_exact S srv results q \<longleftrightarrow>
     (\<exists>r. ForQuery results (qr_name q) = Some r \<and> qs_Found r = provides srv q \<and>
        (case qs_NotFoundReason r of
           None \<Rightarrow> provides srv q
         | Some e \<Rightarrow> \<not> provides srv q \<and> (\<exists>us. e = Errorf ''GVRs=%v status=unmatched presence=true'' us \<and> set us = missing S srv q)))"

lemma query_result_exact:
  assumes "ForQuery results (qr_name q) = Some (query_result_of (q\<lparr>qr_unmatchedGVRs := us\<rparr>) (provides srv q))" "set us = missing S srv q"
  shows "result_exact S srv results q"
  using assms by (simp add: result_exact_def query_result_of_def query_Reason_def)

lemma execute_loop_exact:
  assumes "aggregate_law L" "schema_laws S" "serves S D srv" "server_ok srv"
    and "\<forall>q \<in> set ts. query_ok q" "distinct (map qr_name ts)"
  shows "\<exists>ts' results'. execute_loop L S (Some D) ts visited results success = (ts', results', Inr (success \<and> (\<forall>q \<in> set ts. provides srv q))) \<and>
     (\<forall>q \<in> set ts. result_exact S srv results' q) \<and>
     (\<forall>n. n \<notin> qr_name ` set ts \<longrightarrow> ForQuery results' n = ForQuery results n)"
  using assms(5,6)
proof (induction ts arbitrary: visited results success)
  case Nil
  then show ?case by simp
next
  case (Cons q ts)
  from query_run_exact [OF assms(1-4), of q] Cons.prems obtain us where
    us: "query_Run L S (Some D) q = (q\<lparr>qr_unmatchedGVRs := us\<rparr>, Inr (provides srv q))" "set us = missing S srv q" by auto
  let ?results = "AList.update (qr_name q) (query_result_of (q\<lparr>qr_unmatchedGVRs := us\<rparr>) (provides srv q)) results"
  from Cons.IH [of "visited @ [q\<lparr>qr_unmatchedGVRs := us\<rparr>]" ?results "success \<and> provides srv q"] Cons.prems
  obtain ts' results' where ih:
    "execute_loop L S (Some D) ts (visited @ [q\<lparr>qr_unmatchedGVRs := us\<rparr>]) ?results (success \<and> provides srv q) =
       (ts', results', Inr ((success \<and> provides srv q) \<and> (\<forall>q \<in> set ts. provides srv q)))"
    "\<forall>q \<in> set ts. result_exact S srv results' q"
    "\<forall>n. n \<notin> qr_name ` set ts \<longrightarrow> ForQuery results' n = ForQuery ?results n" by auto
  have "ForQuery results' (qr_name q) = ForQuery ?results (qr_name q)" using ih(3) Cons.prems(2) by simp
  then have "result_exact S srv results' q" by (intro query_result_exact [OF _ us(2)]) (simp add: ForQuery_def)
  then show ?case using us(1) ih by (auto simp: ForQuery_def)
qed

text \<open>C32 (equivalence): queries with different names on a cluster find exactly what its server provides: the result is true if
  and only if every query is provided, the result of each query says so, and the reason of one that is not provided lists exactly
  the versions that are missing.\<close>

theorem query_execution_exact:
  assumes "aggregate_law L" "schema_laws S" "serves S D srv" "server_ok srv"
    and "\<forall>q \<in> set ts. query_ok q" "distinct (map qr_name ts)"
  shows "\<exists>c. PreparedQuery L S (Some D) ts = (c, Inr (\<forall>q \<in> set ts. provides srv q)) \<and>
     (\<forall>q \<in> set ts. result_exact S srv (cq_results c) q)"
proof -
  from execute_loop_exact [OF assms, of "[]" "[]" True] obtain ts' results' where
    "execute_loop L S (Some D) ts [] [] True = (ts', results', Inr (\<forall>q \<in> set ts. provides srv q))"
    "\<forall>q \<in> set ts. result_exact S srv results' q" by auto
  then show ?thesis using assms(6) by (simp add: PreparedQuery_def client_Query_def Execute_def)
qed

section \<open>A client of every server\<close>

definition demo_schema :: schema_lib where
  "demo_schema =
     \<lparr>sc_ParseGroupVersion = (\<lambda>s. case split_on CHR ''/'' s of [v] \<Rightarrow> Inr ('''', v) | [g, v] \<Rightarrow> Inr (g, v)
        | _ \<Rightarrow> Inl (Errorf ''unexpected GroupVersion string: %v'' [s])),
      sc_GV_String = (\<lambda>g v. if g = '''' then v else g @ [CHR ''/''] @ v),
      sc_GVR_String = (\<lambda>g v r. g @ [CHR ''/''] @ v @ '', Resource='' @ r),
      sc_IsNotFound = (\<lambda>e. case e of Errorf m _ \<Rightarrow> m = ''not found'' | _ \<Rightarrow> False),
      sc_Error = (\<lambda>_. '''')\<rparr>"

definition client_of :: "schema_lib \<Rightarrow> server \<Rightarrow> discovery_client" where
  "client_of S srv =
     (let gs = map (\<lambda>g. \<lparr>ag_Name = g, ag_Versions = map (\<lambda>x. fst (snd x)) (filter (\<lambda>x. fst x = g) srv)\<rparr>) (remdups (map fst srv))
      in \<lparr>dc_ServerGroups = Inr gs, dc_ServerGroupsAndResources = Inr (gs, map (resource_list S) srv),
          dc_ServerResourcesForGroupVersion = (\<lambda>gv. case find (\<lambda>x. sc_GV_String S (fst x) (fst (snd x)) = gv) srv of
             Some x \<Rightarrow> (Some (resource_list S x), None) | None \<Rightarrow> (None, Some (Errorf ''not found'' []))),
          dc_ServerVersion = None\<rparr>)"

lemma demo_schema_laws: "schema_laws demo_schema"
  by (auto simp: schema_laws_def demo_schema_def name_ok_def split_on_append split_on_fresh)

lemma client_of_serves: "server_ok srv \<Longrightarrow> serves demo_schema (client_of demo_schema srv) srv"
proof -
  assume ok: "server_ok srv"
  let ?S = demo_schema
  have inj: "g = g' \<and> v = v'" if "name_ok g" "name_ok v" "name_ok g'" "name_ok v'" "sc_GV_String ?S g v = sc_GV_String ?S g' v'" for g v g' v'
    using demo_schema_laws that unfolding schema_laws_def by (metis Inr_inject prod.inject)
  have names: "name_ok (fst x) \<and> name_ok (fst (snd x))" if "x \<in> set srv" for x
    using ok that by (cases x) (auto simp: server_ok_def)
  have same: "y = x" if "x \<in> set srv" "y \<in> set srv" "sc_GV_String ?S (fst y) (fst (snd y)) = sc_GV_String ?S (fst x) (fst (snd x))" for x y
    using inj [of "fst y" "fst (snd y)" "fst x" "fst (snd x)"] names that one_version [OF ok] by (metis prod.collapse)
  have find: "find (\<lambda>y. sc_GV_String ?S (fst y) (fst (snd y)) = sc_GV_String ?S (fst x) (fst (snd x))) srv = Some x" if x: "x \<in> set srv" for x
  proof -
    obtain y where y: "find (\<lambda>y. sc_GV_String ?S (fst y) (fst (snd y)) = sc_GV_String ?S (fst x) (fst (snd x))) srv = Some y"
      using x by (metis (mono_tags, lifting) find_None_iff not_None_eq)
    then have "y \<in> set srv" "sc_GV_String ?S (fst y) (fst (snd y)) = sc_GV_String ?S (fst x) (fst (snd x))"
      by (auto simp: find_Some_iff)
    then have "y = x" by (rule same [OF x])
    then show ?thesis using y by simp
  qed
  have none: "find (\<lambda>y. sc_GV_String ?S (fst y) (fst (snd y)) = sc_GV_String ?S g v) srv = None"
    if "name_ok g" "name_ok v" "\<forall>r. (g, v, r) \<notin> set srv" for g v
    unfolding find_None_iff using inj [of _ _ g v] names that by (metis prod.collapse)
  show ?thesis
    unfolding serves_def
  proof (intro conjI)
    show "\<exists>gs. groups_of_server gs srv \<and> dc_ServerGroups (client_of ?S srv) = Inr gs \<and>
        dc_ServerGroupsAndResources (client_of ?S srv) = Inr (gs, map (resource_list ?S) srv)"
      by (auto simp: client_of_def Let_def groups_of_server_def comp_def filter_empty_conv image_iff) force+
  qed (auto simp: client_of_def Let_def find none, simp add: demo_schema_def)
qed

definition demo_server :: server where
  "demo_server = [(''apps'', ''v1'', [''deployments'']), (''cli'', ''v1'', [''cliplugins'']), (''cli'', ''v2'', [])]"

definition demo_queries :: "query_gvr list" where
  "demo_queries =
     [WithResource ''cliplugins'' (Group ''plugins'' ''cli''), WithVersions [''v1'', ''v2''] (Group ''versions'' ''cli''),
      WithVersions [''v1'', ''v3''] (WithResource ''cliplugins'' (Group ''both'' ''cli''))]"

theorem query_execution_exact_witness:
  "\<exists>c. PreparedQuery dotted_lib demo_schema (Some (client_of demo_schema demo_server)) demo_queries = (c, Inr False) \<and>
     (\<forall>q \<in> set demo_queries. result_exact demo_schema demo_server (cq_results c) q)"
proof -
  have ok: "server_ok demo_server" "\<forall>q \<in> set demo_queries. query_ok q" "distinct (map qr_name demo_queries)"
    by (auto simp: demo_server_def demo_queries_def server_ok_def name_ok_def query_ok_def query_errors_def containsEmpty_def
        Group_def WithVersions_def WithResource_def to_lower_def lower_char_def trim_space_def is_space_def Let_def)
  have no: "(\<forall>q \<in> set demo_queries. provides demo_server q) = False"
    by (auto simp: demo_server_def demo_queries_def provides_def provides_version_def Group_def WithVersions_def WithResource_def)
  show ?thesis
    using query_execution_exact [OF dotted_aggregate_law demo_schema_laws client_of_serves [OF ok(1)] ok] unfolding no .
qed

text \<open>A missing version of a query with a resource is listed twice.\<close>

lemma missing_version_listed_twice:
  "fst (query_Run dotted_lib demo_schema (Some (client_of demo_schema demo_server))
      (WithVersions [''v3''] (WithResource ''cliplugins'' (Group ''q'' ''cli'')))) =
   (WithVersions [''v3''] (WithResource ''cliplugins'' (Group ''q'' ''cli'')))\<lparr>qr_unmatchedGVRs :=
     replicate 2 (sc_GVR_String demo_schema ''cli'' ''v3'' ''cliplugins'')\<rparr>"
  by code_simp

end
