(* ===== verification/Cluster_Client_Correct.thy ===== *)
theory Cluster_Client_Correct
  imports Cluster_Query Cluster_Query_Correct Manager_Install_Correct
begin

text \<open>
  What the discovery of plugins finds over the client of a cluster: the maps that override image repositories are united when
  they are disjoint, and the plugins are listed exactly when the server provides their resource.
\<close>

section \<open>Overrides of image repositories\<close>

text \<open>The maps that the configuration maps hold, as decoded.\<close>

definition repo_maps :: "('k, 'r) k8s_lib \<Rightarrow> config_map list \<Rightarrow> (string \<times> string) list list" where
  "repo_maps K cms = map (\<lambda>s. fst (kb_UnmarshalMap K s)) (List.map_filter (\<lambda>cm. map_of (cm_Data cm) ''imageRepoMap'') cms)"

definition decodes_maps :: "('k, 'r) k8s_lib \<Rightarrow> bool" where
  "decodes_maps K \<longleftrightarrow> (\<forall>s. map_ok (fst (kb_UnmarshalMap K s)))"

lemma repo_map_loop_eq:
  "distinct ks \<Longrightarrow>
   (if set ks \<inter> set (keys_of m) = {} then \<exists>m'. repo_map_loop irm ks m = Inr m' \<and> map_of m' = map_of m ++ (\<lambda>k. if k \<in> set ks then Some (get_or '''' irm k) else None)
    else isl (repo_map_loop irm ks m))"
proof (induction ks arbitrary: m)
  case Nil
  then show ?case by simp
next
  case (Cons k ks)
  let ?m = "AList.update k (get_or '''' irm k) m"
  show ?case
  proof (cases "k \<in> set (keys_of m)")
    case True
    then show ?thesis by (simp add: map_of_eq_None_keys)
  next
    case False
    have keys: "set (keys_of ?m) = insert k (set (keys_of m))" by (simp only: keys_of_def set_keys_update)
    have loop: "repo_map_loop irm (k # ks) m = repo_map_loop irm ks ?m" using False by (simp add: map_of_eq_None_keys)
    have "map_of ?m ++ (\<lambda>x. if x \<in> set ks then Some (get_or '''' irm x) else None) =
        map_of m ++ (\<lambda>x. if x \<in> set (k # ks) then Some (get_or '''' irm x) else None)"
      using Cons.prems by (auto simp: map_add_def fun_eq_iff)
    then show ?thesis using Cons.IH [of ?m] Cons.prems False unfolding loop keys by (auto split: if_splits)
  qed
qed

lemma repo_map_step:
  assumes "range_law L" "map_ok irm"
  shows "if set (keys_of irm) \<inter> set (keys_of m) = {} then \<exists>m'. repo_map_loop irm (range_keys L irm) m = Inr m' \<and> map_of m' = map_of m ++ map_of irm
     else isl (repo_map_loop irm (range_keys L irm) m)"
proof -
  have "(if k \<in> set (range_keys L irm) then Some (get_or '''' irm k) else None) = map_of irm k" for k
    using map_of_eq_None_keys [of irm k] by (cases "map_of irm k") (simp_all add: get_or_def assms(1))
  then have "(\<lambda>k. if k \<in> set (range_keys L irm) then Some (get_or '''' irm k) else None) = map_of irm" by (rule ext)
  then show ?thesis using repo_map_loop_eq [of "range_keys L irm" m irm] assms by (simp cong: if_cong)
qed

text \<open>The maps are united when no repository is overridden twice; otherwise it is an error, in every order of iteration.\<close>

lemma repo_maps_Cons:
  "repo_maps K (cm # cms) =
     (case map_of (cm_Data cm) ''imageRepoMap'' of None \<Rightarrow> repo_maps K cms | Some s \<Rightarrow> fst (kb_UnmarshalMap K s) # repo_maps K cms)"
  by (simp add: repo_maps_def map_filter_def split: option.splits)

fun disjoint_maps :: "(string \<times> string) list list \<Rightarrow> string set \<Rightarrow> bool" where
  "disjoint_maps [] taken \<longleftrightarrow> True"
| "disjoint_maps (m # ms) taken \<longleftrightarrow> set (keys_of m) \<inter> taken = {} \<and> disjoint_maps ms (taken \<union> set (keys_of m))"

lemma consolidate_loop_eq:
  assumes "range_law L" "decodes_maps K"
  shows "if disjoint_maps (repo_maps K cms) (set (keys_of m))
     then \<exists>m'. consolidate_loop L K cms m = Inr m' \<and> map_of m' = foldl (++) (map_of m) (map map_of (repo_maps K cms))
     else isl (consolidate_loop L K cms m)"
proof (induction cms arbitrary: m)
  case Nil
  then show ?case by (simp add: repo_maps_def map_filter_def)
next
  case (Cons cm cms)
  show ?case
  proof (cases "map_of (cm_Data cm) ''imageRepoMap''")
    case None
    then show ?thesis using Cons.IH [of m] by (simp add: repo_maps_Cons)
  next
    case (Some s)
    let ?irm = "fst (kb_UnmarshalMap K s)"
    have step: "if set (keys_of ?irm) \<inter> set (keys_of m) = {} then \<exists>m'. repo_map_loop ?irm (range_keys L ?irm) m = Inr m' \<and> map_of m' = map_of m ++ map_of ?irm
       else isl (repo_map_loop ?irm (range_keys L ?irm) m)"
      using repo_map_step [OF assms(1)] assms(2) unfolding decodes_maps_def by blast
    show ?thesis
    proof (cases "set (keys_of ?irm) \<inter> set (keys_of m) = {}")
      case True
      with step obtain m' where m': "repo_map_loop ?irm (range_keys L ?irm) m = Inr m'" "map_of m' = map_of m ++ map_of ?irm" by auto
      have "dom (map_of m') = dom (map_of m) \<union> dom (map_of ?irm)" unfolding m'(2) by auto
      then have "set (keys_of m') = set (keys_of m) \<union> set (keys_of ?irm)" by (simp add: keys_of_def dom_map_of_conv_image_fst)
      then show ?thesis using Cons.IH [of m'] Some m' True by (simp add: repo_maps_Cons cong: if_cong)
    next
      case False
      then show ?thesis using step Some by (auto simp: repo_maps_Cons isl_def)
    qed
  qed
qed

lemma consolidated:
  assumes "range_law L" "decodes_maps K"
  shows "if disjoint_maps (repo_maps K cms) {}
     then \<exists>m'. ConsolidateImageRepoMaps L K cms = Inr m' \<and> map_of m' = foldl (++) Map.empty (map map_of (repo_maps K cms))
     else isl (ConsolidateImageRepoMaps L K cms)"
  using consolidate_loop_eq [OF assms, of cms "[]"] by (simp add: ConsolidateImageRepoMaps_def keys_of_def cong: if_cong)

section \<open>Discovery over a connected client\<close>

lemma crd_query_exact:
  assumes "aggregate_law L" "schema_laws (kb_schema K)" "serves (kb_schema K) (ct_DiscoveryClient c) srv" "server_ok srv"
  shows "client_VerifyCLIPluginCRD L K c = Inr (provides srv crd_query)"
proof -
  have "query_ok crd_query" by code_simp
  from query_run_exact [OF assms this] show ?thesis
    by (auto simp: client_VerifyCLIPluginCRD_def PreparedQuery_def Execute_def client_Query_def)
qed

text \<open>C31 (safety): the plugins a cluster recommends are discovered over a connected client if and only if its server provides their
  resource; image repositories are overridden by the united maps of the cluster, and not at all when two maps override the same
  repository: the error of that conflict is logged (\<^verbatim>\<open>kubernetes.go:100\<close>) and the discovery goes on as if the cluster had no maps.\<close>

theorem cluster_discovery_exact:
  assumes "range_law L" "aggregate_law L" "schema_laws (kb_schema K)" "decodes_maps K"
    and connected: "getK8sClients K (client_source_of K path ctx bytes) timeout = Inr c"
    and server: "serves (kb_schema K) (ct_DiscoveryClient c) srv" "server_ok srv"
    and V: "dv_NewClient V = cluster_NewClient L K timeout"
    and listed: "kb_ListCLIPlugins K (ct_rest c) '''' = Inr ps"
      "kb_ListConfigMaps K (ct_rest c) TanzuCLISystemNamespace CLIPluginImageRepositoryOverrideLabel = Inr cms"
  shows "\<exists>overrides. K8s_Manifest L V name path ctx bytes =
       (if provides srv crd_query then k8s_plugins_loop L name overrides ps [] else Inr []) \<and>
     map_of overrides = (if disjoint_maps (repo_maps K cms) {} then foldl (++) Map.empty (map map_of (repo_maps K cms)) else Map.empty)"
proof -
  let ?r = "client_GetCLIPluginImageRepositoryOverride L K c"
  let ?overrides = "case ?r of Inl e \<Rightarrow> [] | Inr m \<Rightarrow> m"
  have "K8s_Manifest L V name path ctx bytes = (if provides srv crd_query then k8s_plugins_loop L name ?overrides ps [] else Inr [])"
    by (simp add: K8s_Manifest_def V cluster_NewClient_def connected GetDiscoveredPlugins_def client_interface_def
        crd_query_exact [OF assms(2,3) server] client_ListCLIPluginResources_def listed(1) split: sum.split)
  moreover have "map_of ?overrides = (if disjoint_maps (repo_maps K cms) {} then foldl (++) Map.empty (map map_of (repo_maps K cms)) else Map.empty)"
    using consolidated [OF assms(1,4), of cms] by (auto simp: client_GetCLIPluginImageRepositoryOverride_def listed(2) isl_def split: if_splits)
  ultimately show ?thesis by blast
qed

definition demo_k8s :: "(string, string) k8s_lib" where
  "demo_k8s =
     \<lparr>kb_schema = demo_schema, kb_GetDefaultFilename = ''config'', kb_RESTConfigFromKubeConfig = Inr, kb_LoadFromFile = Inr,
      kb_ClientConfig = (\<lambda>k ctx. Inr k), kb_HTTPClientFor = (\<lambda>_. None), kb_NewDynamicRESTMapper = (\<lambda>_. None),
      kb_NewCrtClient = (\<lambda>_. None),
      kb_NewDiscoveryClient = (\<lambda>_. Inr (client_of demo_schema [(''cli.tanzu.vmware.com'', ''v1alpha1'', [''cliplugins''])])),
      kb_NewDynamicClient = (\<lambda>_. None),
      kb_ListCLIPlugins = (\<lambda>_ _. Inr [\<lparr>cp_Name = ''p'', cp_Spec = \<lparr>cps_Description = '''', cps_RecommendedVersion = ''v1.0.0'',
         cps_Artifacts = [(''v1.0.0'', [\<lparr>k_Image = ''repo/p'', k_URI = '''', k_Digest = '''', k_Type = '''', k_OS = ''linux'', k_Arch = ''amd64''\<rparr>])],
         cps_Optional = False, cps_Target = ''''\<rparr>\<rparr>]),
      kb_ListConfigMaps = (\<lambda>_ _ _. Inr (map (\<lambda>m. \<lparr>cm_Data = [(''imageRepoMap'', m)]\<rparr>) [''mirror'', ''other''])),
      kb_UnmarshalMap = (\<lambda>m. ([(''repo'', m)], None))\<rparr>"

definition demo_cluster_env :: disc_env where
  "demo_cluster_env = (demo_disc [])\<lparr>dv_NewClient := cluster_NewClient dotted_lib demo_k8s 5\<rparr>"

theorem cluster_discovery_exact_witness:
  "\<exists>r ps. kb_ListCLIPlugins demo_k8s r '''' = Inr ps \<and>
     K8s_Manifest dotted_lib demo_cluster_env ''k'' '''' '''' '''' = k8s_plugins_loop dotted_lib ''k'' [] ps []"
proof -
  let ?srv = "[(''cli.tanzu.vmware.com'', ''v1alpha1'', [''cliplugins''])]"
  obtain c where c: "getK8sClients demo_k8s (client_source_of demo_k8s '''' '''' '''') 5 = Inr c"
      "ct_DiscoveryClient c = client_of demo_schema ?srv"
    by (simp add: getK8sClients_def rest_config_of_def client_source_of_def demo_k8s_def check_step_def client_of_def Let_def)
  have ok: "server_ok ?srv" "provides ?srv crd_query" "kb_schema demo_k8s = demo_schema" "decodes_maps demo_k8s"
    by (auto simp: server_ok_def name_ok_def to_lower_def lower_char_def crd_query_def Group_def WithResource_def provides_def
        provides_version_def demo_k8s_def decodes_maps_def)
  obtain ps cms where listed: "kb_ListCLIPlugins demo_k8s (ct_rest c) '''' = Inr ps"
      "kb_ListConfigMaps demo_k8s (ct_rest c) TanzuCLISystemNamespace CLIPluginImageRepositoryOverrideLabel = Inr cms"
      "repo_maps demo_k8s cms = [[(''repo'', ''mirror'')], [(''repo'', ''other'')]]"
    by (auto simp: demo_k8s_def repo_maps_def map_filter_def)
  have V: "dv_NewClient demo_cluster_env = cluster_NewClient dotted_lib demo_k8s 5" by (simp add: demo_cluster_env_def)
  have "serves (kb_schema demo_k8s) (ct_DiscoveryClient c) ?srv" using client_of_serves [OF ok(1)] by (simp add: c(2) ok(3))
  from cluster_discovery_exact [OF dotted_range_law dotted_aggregate_law _ ok(4) c(1) this ok(1) V listed(1,2)]
  obtain overrides where "K8s_Manifest dotted_lib demo_cluster_env ''k'' '''' '''' '''' =
      k8s_plugins_loop dotted_lib ''k'' overrides ps []" "map_of overrides = Map.empty"
    using demo_schema_laws ok(2,3) by (auto simp: listed(3) keys_of_def)
  then show ?thesis using listed(1) by auto
qed

end
