(* ===== verification/Context_Output.thy ===== *)
theory Context_Output
  imports Context_Commands Plugin_Completion
begin

text \<open>
  What the context commands show, \<^verbatim>\<open>pkg/command/context.go\<close>: the current context, the list in its two layouts, the
  message and the plugins of \<^verbatim>\<open>tanzu context use\<close>, and the completion of contexts, kube contexts and the arguments of
  \<^verbatim>\<open>tanzu context create\<close>. What is printed is a value: lines, or the columns of a table with their values.
\<close>

section \<open>The current context\<close>

text \<open>The active resource of a context as the configuration library reports it, \<^verbatim>\<open>GetTanzuContextActiveResource\<close>.\<close>

record resource_info =
  ri_OrgID :: string
  ri_OrgName :: string
  ri_ProjectName :: string
  ri_ProjectID :: string
  ri_SpaceName :: string
  ri_ClusterGroupName :: string

datatype printed = Line string | Attributes "(string \<times> string) list"

definition printShortContext :: "(string \<Rightarrow> resource_info res) \<Rightarrow> config_context \<Rightarrow> printed" where
  "printShortContext activeResource ctx =
     Line (kx_Name ctx @
       (if kx_ContextType ctx = ContextTypeTanzu
        then (case activeResource (kx_Name ctx) of
                Inl e \<Rightarrow> ''''
              | Inr r \<Rightarrow>
                  if ri_ProjectName r \<noteq> ''''
                  then '':'' @ ri_ProjectName r @
                    (if ri_SpaceName r \<noteq> '''' then '':'' @ ri_SpaceName r
                     else if ri_ClusterGroupName r \<noteq> '''' then '':'' @ ri_ClusterGroupName r else '''')
                  else '''')
        else ''''))"

definition getTanzuResourceScopePath :: "resource_info \<Rightarrow> string" where
  "getTanzuResourceScopePath r =
     (if ri_OrgID r = '''' then ''''
      else ''/'' @
        (if ri_ProjectName r \<noteq> ''''
         then ''projects/'' @ ri_ProjectName r @
           (if ri_SpaceName r \<noteq> '''' then ''/spaces/'' @ ri_SpaceName r
            else if ri_ClusterGroupName r \<noteq> '''' then ''/clustergroups/'' @ ri_ClusterGroupName r else '''')
         else ''''))"

definition in_parentheses :: "string \<Rightarrow> string \<Rightarrow> string" where
  "in_parentheses name ident = name @ '' ('' @ ident @ '')''"

definition resource_attributes :: "resource_info \<Rightarrow> (string \<times> string) list" where
  "resource_attributes r =
     (if ri_OrgID r \<noteq> '''' then [(''Organization'', in_parentheses (ri_OrgName r) (ri_OrgID r))] else []) @
     [(''Project'', if ri_ProjectName r \<noteq> '''' then in_parentheses (ri_ProjectName r) (ri_ProjectID r) else ''none set'')] @
     (if ri_SpaceName r \<noteq> '''' then [(''Space'', ri_SpaceName r)]
      else if ri_ClusterGroupName r \<noteq> '''' then [(''Cluster Group'', ri_ClusterGroupName r)] else []) @
     [(''Scope Path'', getTanzuResourceScopePath r)]"

definition printContext :: "(string \<Rightarrow> resource_info res) \<Rightarrow> config_context \<Rightarrow> printed" where
  "printContext activeResource ctx =
     Attributes ([(''Name'', kx_Name ctx), (''Type'', kx_ContextType ctx)] @
       (if kx_ContextType ctx = ContextTypeTanzu
        then (case activeResource (kx_Name ctx) of Inl e \<Rightarrow> [] | Inr r \<Rightarrow> resource_attributes r) else []) @
       (if kx_ContextType ctx \<noteq> ContextTypeTMC
        then (case kx_ClusterOpts ctx of
                None \<Rightarrow> [(''Kube Config'', ''''), (''Kube Context'', '''')]
              | Some opts \<Rightarrow> [(''Kube Config'', cs_Path opts), (''Kube Context'', cs_Context opts)])
        else []))"

fun current_loop ::
    "(config_context \<Rightarrow> printed) \<Rightarrow> bool \<Rightarrow> (string \<times> config_context) list \<Rightarrow> string list \<Rightarrow> printed list" where
  "current_loop pr ignoreTMCCtx m [] = []"
| "current_loop pr ignoreTMCCtx m (ctxType # ts) =
     (if ignoreTMCCtx \<and> ctxType = ContextTypeTMC then current_loop pr ignoreTMCCtx m ts
      else (case map_of m ctxType of None \<Rightarrow> [] | Some ctx \<Rightarrow> [pr ctx]) @ current_loop pr ignoreTMCCtx m ts)"

definition current_command ::
    "'v lib \<Rightarrow> ('b, 'c, 'y) ctx_env \<Rightarrow> ('c \<Rightarrow> string \<Rightarrow> resource_info res) \<Rightarrow> bool \<Rightarrow> 'c \<Rightarrow> printed list res" where
  "current_command L X GetActiveResource shortCtx cfg =
     (case cl_ActiveContexts (cv_lib X) cfg of
        Inl e \<Rightarrow> Inl e
      | Inr m \<Rightarrow>
          if m = [] then Inr [Line ''There is no active context'']
          else Inr (current_loop (if shortCtx then printShortContext (GetActiveResource cfg) else printContext (GetActiveResource cfg))
                      (length m > 1) m (range_keys L m)))"

section \<open>The list\<close>

record list_view_row =
  lw_Name :: string
  lw_Type :: string
  lw_IsManagementCluster :: string
  lw_IsCurrent :: string
  lw_Endpoint :: string
  lw_KubeConfigPath :: string
  lw_KubeContext :: string
  lw_AdditionalMetadata :: "(string \<times> meta_value) list option"

definition list_view_row_of :: "('b, 'c, 'y) ctx_env \<Rightarrow> (config_context \<Rightarrow> bool) \<Rightarrow> 'c \<Rightarrow> config_context \<Rightarrow> list_view_row" where
  "list_view_row_of X IsManagementCluster cfg ctx =
     (let (ep, path, kctx) =
        (if kx_ContextType ctx = ContextTypeTMC
         then (case kx_GlobalOpts ctx of None \<Rightarrow> '''' | Some g \<Rightarrow> gs_Endpoint g, '''', '''')
         else cluster_columns ctx '''')
      in \<lparr>lw_Name = kx_Name ctx, lw_Type = kx_ContextType ctx, lw_IsManagementCluster = format_bool (IsManagementCluster ctx),
          lw_IsCurrent = format_bool (is_current X cfg ctx), lw_Endpoint = ep, lw_KubeConfigPath = path, lw_KubeContext = kctx,
          lw_AdditionalMetadata = kx_AdditionalMetadata ctx\<rparr>)"

fun list_view_loop ::
    "('b, 'c, 'y) ctx_env \<Rightarrow> (config_context \<Rightarrow> bool) \<Rightarrow> 'c \<Rightarrow> string \<Rightarrow> bool \<Rightarrow> config_context list \<Rightarrow> list_view_row list" where
  "list_view_loop X im cfg contextType onlyCurrent [] = []"
| "list_view_loop X im cfg contextType onlyCurrent (ctx # ctxs) =
     (if contextType \<noteq> '''' \<and> kx_ContextType ctx \<noteq> contextType then list_view_loop X im cfg contextType onlyCurrent ctxs
      else if onlyCurrent \<and> \<not> is_current X cfg ctx then list_view_loop X im cfg contextType onlyCurrent ctxs
      else list_view_row_of X im cfg ctx # list_view_loop X im cfg contextType onlyCurrent ctxs)"

definition displayContextListOutputListView ::
    "('b, 'c, 'y) ctx_env \<Rightarrow> (config_context \<Rightarrow> bool) \<Rightarrow> (config_context \<Rightarrow> config_context \<Rightarrow> bool) \<Rightarrow> ctx_vars \<Rightarrow> 'c \<Rightarrow>
     config_context list \<Rightarrow> bool \<Rightarrow> list_view_row list" where
  "displayContextListOutputListView X im lt v cfg known onlyCurrent =
     list_view_loop X im cfg (getContextType X v) onlyCurrent (sort_by lt known)"

datatype listing = DynamicTable "string list" "string list list" | ListView "list_view_row list"

text \<open>A metadata value of a shown context that is no string panics in the dynamic table.\<close>

definition listCtx ::
    "('b, 'c, 'y) ctx_env \<Rightarrow> (config_context \<Rightarrow> bool) \<Rightarrow> (config_context \<Rightarrow> config_context \<Rightarrow> bool) \<Rightarrow> ctx_vars \<Rightarrow> string \<Rightarrow> bool \<Rightarrow>
     bool \<Rightarrow> 'c \<Rightarrow> listing res option" where
  "listCtx X im lt v outputFormat onlyCurrent showAllColumns cfg =
     (case cl_KnownContexts (cv_lib X) cfg of
        Inl e \<Rightarrow> Some (Inl e)
      | Inr known \<Rightarrow>
          if \<not> cv_IsValidContextType X (v_contextTypeStr v) then Some (Inl (Errorf ''invalid context type specified'' []))
          else if \<not> cv_IsValidTarget X (v_targetStr v) then Some (Inl (Errorf ''invalid target specified'' []))
          else if outputFormat = '''' \<or> outputFormat = ''table''
          then map_option (\<lambda>(header, rows). Inr (DynamicTable header rows))
                 (displayContextListOutputWithDynamicColumns X lt v cfg known onlyCurrent showAllColumns)
          else Some (Inr (ListView (displayContextListOutputListView X im lt v cfg known onlyCurrent))))"

section \<open>Using a context\<close>

text \<open>\<open>sprint\<close> formats a value of the metadata.\<close>

definition meta_suffix :: "(meta_value \<Rightarrow> string) \<Rightarrow> config_context \<Rightarrow> string \<Rightarrow> (string \<Rightarrow> string) \<Rightarrow> string" where
  "meta_suffix sprint ctx k label =
     (case meta_get ctx k of None \<Rightarrow> '''' | Some x \<Rightarrow> if x = MString '''' then '''' else label (sprint x))"

definition use_suffix :: "context_keys \<Rightarrow> (meta_value \<Rightarrow> string) \<Rightarrow> config_context \<Rightarrow> string" where
  "use_suffix K sprint ctx =
     ''('' @ ''Type: '' @ kx_ContextType ctx @
     (if kx_ContextType ctx = ContextTypeTanzu
      then meta_suffix sprint ctx (ProjectNameKey K) (\<lambda>s. '', Project: '' @ s) @
           meta_suffix sprint ctx (ProjectIDKey K) (\<lambda>s. '' ('' @ s @ '')'') @
           meta_suffix sprint ctx (SpaceNameKey K) (\<lambda>s. '', Space: '' @ s) @
           meta_suffix sprint ctx (ClusterGroupNameKey K) (\<lambda>s. '', ClusterGroup: '' @ s)
      else '''') @ '')''"

text \<open>The whole command: what is logged, and the warning when the plugins cannot be synchronized.\<close>

definition use_command ::
    "'v lib \<Rightarrow> 'd mgr_env \<Rightarrow> ('b, 'c, 'y) ctx_env \<Rightarrow> (meta_value \<Rightarrow> string) \<Rightarrow> string list \<Rightarrow> ('b, 'c) ctx_state \<Rightarrow> 'd mgr_state \<Rightarrow>
     (('b, 'c) ctx_state \<times> 'd mgr_state \<times> string list \<times> err option) option" where
  "use_command L E X sprint args s g =
     (case useCtx X args s of
        None \<Rightarrow> None
      | Some (s1, Some e) \<Rightarrow> Some (s1, g, [], Some e)
      | Some (s1, None) \<Rightarrow>
          (let name = v_ctxName (st_vars s1)
           in case cl_GetContext (cv_lib X) (st_config s) name of
                Inl e \<Rightarrow> Some (s1, g, [], Some e)
              | Inr ctx \<Rightarrow>
                  let msg = ''Successfully activated context '' @ name @ '' '' @ use_suffix (cv_keys X) sprint ctx
                  in if kx_ContextType ctx = ContextTypeTanzu then Some (s1, g, [msg], None)
                     else (case syncContextPlugins L E (kx_ContextType ctx) g of
                             None \<Rightarrow> None
                           | Some (g1, None) \<Rightarrow> Some (s1, g1, [msg], None)
                           | Some (g1, Some e) \<Rightarrow>
                               Some (s1, g1, [msg, ''unable to automatically sync the plugins recommended by the active context''], None))))"

section \<open>Completion\<close>

definition complete_contexts :: "('b, 'c, 'y) ctx_env \<Rightarrow> (string \<Rightarrow> string) \<Rightarrow> string list \<Rightarrow> config_context list res \<Rightarrow> completion" where
  "complete_contexts X activeHelp args ctxs =
     (if args \<noteq> [] then noMoreCompletions activeHelp
      else case ctxs of Inl e \<Rightarrow> ([], {NoFileComp}) | Inr cs \<Rightarrow> (completionFormatCtxs X cs, {NoFileComp}))"

definition completeAllContexts :: "('b, 'c, 'y) ctx_env \<Rightarrow> (string \<Rightarrow> string) \<Rightarrow> ctx_vars \<Rightarrow> 'c \<Rightarrow> string list \<Rightarrow> completion" where
  "completeAllContexts X activeHelp v cfg args =
     (let ct = getContextType X v
      in complete_contexts X activeHelp args
           (map_sum id (filter (\<lambda>ctx. ct = '''' \<or> ct = kx_ContextType ctx)) (cl_KnownContexts (cv_lib X) cfg)))"

definition completeTanzuContexts :: "('b, 'c, 'y) ctx_env \<Rightarrow> (string \<Rightarrow> string) \<Rightarrow> 'c \<Rightarrow> string list \<Rightarrow> completion" where
  "completeTanzuContexts X activeHelp cfg args =
     complete_contexts X activeHelp args
       (map_sum id (filter (\<lambda>ctx. kx_ContextType ctx = ContextTypeTanzu)) (cl_KnownContexts (cv_lib X) cfg))"

definition completeActiveContexts ::
    "'v lib \<Rightarrow> ('b, 'c, 'y) ctx_env \<Rightarrow> (string \<Rightarrow> string) \<Rightarrow> ctx_vars \<Rightarrow> 'c \<Rightarrow> string list \<Rightarrow> completion" where
  "completeActiveContexts L X activeHelp v cfg args =
     (let ct = getContextType X v
      in complete_contexts X activeHelp args
           (map_sum id (\<lambda>m. filter (\<lambda>ctx. ct = '''' \<or> ct = kx_ContextType ctx) (List.map_filter (map_of m) (range_keys L m)))
              (cl_ActiveContexts (cv_lib X) cfg)))"

text \<open>The variable of the flag is set to the default file when it is empty. \<open>rawConfig\<close> loads a kubeconfig as \<^verbatim>\<open>clientcmd\<close> does.\<close>

definition completeKubeContext ::
    "'v lib \<Rightarrow> 'b kube_codec \<Rightarrow> (string \<Rightarrow> kube_config res) \<Rightarrow> ctx_vars \<Rightarrow> ctx_vars \<times> completion" where
  "completeKubeContext L Y rawConfig v0 =
     (let v = (if v_kubeConfig v0 = '''' then v0\<lparr>v_kubeConfig := ky_DefaultFile Y\<rparr> else v0)
      in case rawConfig (v_kubeConfig v) of
           Inl e \<Rightarrow> (v, [], {NoFileComp})
         | Inr k \<Rightarrow>
             (v, sort_strings (map (\<lambda>n. case map_of (kf_Contexts k) n of
                     None \<Rightarrow> n @ [tab] @ ''@''
                   | Some c \<Rightarrow> n @ [tab] @ kc_AuthInfo c @ ''@'' @ kc_Cluster c) (range_keys L (kf_Contexts k))), {NoFileComp}))"

definition completeCreateCtx :: "(string \<Rightarrow> string) \<Rightarrow> ctx_vars \<Rightarrow> string list \<Rightarrow> completion" where
  "completeCreateCtx activeHelp v args =
     (if args = [] then ([activeHelp ''Please specify a name for the context''], {NoFileComp})
      else if v_endpoint v = '''' \<and> v_kubeContext v = '''' then ([''--''], {NoFileComp, NoSpace})
      else ([], {NoFileComp}))"

end
