(* ===== verification/Context_Output_Correct.thy ===== *)
theory Context_Output_Correct
  imports Context_Output Context_Correct
begin

text \<open>
  What the context commands show agrees with the configuration: the current context is one, whatever the order of the map; its
  short form is the name of its kube context; both layouts of the list show the same contexts in the same order.
\<close>

section \<open>The current context\<close>

text \<open>The active contexts as the configuration library keeps them: one for each type, and a Tanzu or a Kubernetes one.\<close>

definition exclusive_contexts :: "(string \<times> config_context) list \<Rightarrow> bool" where
  "exclusive_contexts m \<longleftrightarrow> map_ok m \<and> set (keys_of m) \<subseteq> {ContextTypeTMC, ContextTypeTanzu, ContextTypeK8s} \<and>
     \<not> {ContextTypeTanzu, ContextTypeK8s} \<subseteq> set (keys_of m)"

lemma in_keys: "t \<in> set (keys_of m) \<Longrightarrow> \<exists>c. map_of m t = Some c"
  by (metis keys_of_def map_of_eq_None_iff not_None_eq set_map)

lemma current_loop_filter:
  "set ts \<subseteq> set (keys_of m) \<Longrightarrow>
   current_loop pr ig m ts = map (\<lambda>t. pr (the (map_of m t))) (filter (\<lambda>t. \<not> (ig \<and> t = ContextTypeTMC)) ts)"
proof (induction ts)
  case Nil
  then show ?case by simp
next
  case (Cons t ts)
  then obtain ctx where "map_of m t = Some ctx" using in_keys [of t m] by auto
  with Cons show ?case by auto
qed

lemma exclusive_single:
  assumes "exclusive_contexts m" "m \<noteq> []" "mset ts = mset (keys_of m)"
  shows "\<exists>t. filter (\<lambda>t. \<not> (1 < length m \<and> t = ContextTypeTMC)) ts = [t] \<and> t \<in> set (keys_of m) \<and> (t = ContextTypeTMC \<longrightarrow> length m = 1)"
proof -
  have "distinct (keys_of m)" using assms(1) by (simp add: exclusive_contexts_def keys_of_def)
  with mset_eq_imp_distinct_iff [OF assms(3)] have d0: "distinct ts" by simp
  have d: "set ts = set (keys_of m)" "length ts = length m"
    using mset_eq_setD [OF assms(3)] mset_eq_length [OF assms(3)] by (simp_all add: keys_of_def)
  obtain T where T: "T \<noteq> ContextTypeTMC" "set ts \<subseteq> {ContextTypeTMC, T}"
  proof (cases "ContextTypeTanzu \<in> set ts")
    case True
    then show ?thesis using that [of ContextTypeTanzu] assms(1) d(1) by (auto simp: exclusive_contexts_def)
  next
    case False
    then show ?thesis using that [of ContextTypeK8s] assms(1) d(1) by (auto simp: exclusive_contexts_def)
  qed
  from d(2) assms(2) have "ts \<noteq> []" by auto
  then obtain a us where ts: "ts = a # us" by (cases ts) auto
  show ?thesis
  proof (cases us)
    case Nil
    then show ?thesis using ts d by (auto simp flip: d(1))
  next
    case (Cons b vs)
    have "vs = []"
    proof (rule ccontr)
      assume "vs \<noteq> []"
      then obtain c ws where "vs = c # ws" by (cases vs) auto
      with ts Cons d0 T(2) show False by auto
    qed
    with ts Cons have "ts = [a, b]" by simp
    moreover from this d0 T(2) have "(a = ContextTypeTMC \<and> b = T) \<or> (a = T \<and> b = ContextTypeTMC)" by auto
    moreover have "length m > 1" using d(2) \<open>ts = [a, b]\<close> by simp
    ultimately show ?thesis using T(1) d(1) by (elim disjE) auto
  qed
qed

text \<open>With the active contexts that the configuration allows, \<^verbatim>\<open>tanzu context current\<close> shows exactly one context,
  the same for every order in which the map is read: the mission control context only when it is the only one.\<close>

theorem current_shows_one:
  assumes "range_law L" "cl_ActiveContexts (cv_lib X) cfg = Inr m" "m \<noteq> []" "exclusive_contexts m"
  shows "\<exists>t ctx. map_of m t = Some ctx \<and> (t = ContextTypeTMC \<longrightarrow> m = [(t, ctx)]) \<and>
     current_command L X G shortCtx cfg = Inr [if shortCtx then printShortContext (G cfg) ctx else printContext (G cfg) ctx]"
proof -
  from exclusive_single [OF assms(4,3) range_keys_mset [OF assms(1), of m]] obtain t where
    t: "filter (\<lambda>t. \<not> (1 < length m \<and> t = ContextTypeTMC)) (range_keys L m) = [t]" "t \<in> set (keys_of m)"
      "t = ContextTypeTMC \<longrightarrow> length m = 1" by blast
  from in_keys [OF t(2)] obtain ctx where c: "map_of m t = Some ctx" by blast
  have "t = ContextTypeTMC \<longrightarrow> m = [(t, ctx)]" using t(3) c by (cases m) (auto split: if_splits)
  moreover have "current_command L X G shortCtx cfg = Inr [if shortCtx then printShortContext (G cfg) ctx else printContext (G cfg) ctx]"
    using assms(1-3) t(1) c by (simp add: current_command_def current_loop_filter)
  ultimately show ?thesis using c by blast
qed

section \<open>The short form and the kube context\<close>

definition meta_text :: "config_context \<Rightarrow> string \<Rightarrow> string" where
  "meta_text ctx k = (case meta_get ctx k of Some (MString s) \<Rightarrow> s | _ \<Rightarrow> '''')"

text \<open>The library reports the strings of the metadata.\<close>

definition active_resource_law :: "('b, 'c, 'y) ctx_env \<Rightarrow> ('c \<Rightarrow> string \<Rightarrow> resource_info res) \<Rightarrow> bool" where
  "active_resource_law X G \<longleftrightarrow> (\<forall>cfg n ctx. cl_GetContext (cv_lib X) cfg n = Inr ctx \<longrightarrow> kx_ContextType ctx = ContextTypeTanzu \<longrightarrow>
     G cfg n = Inr \<lparr>ri_OrgID = meta_text ctx (OrgIDKey (cv_keys X)), ri_OrgName = meta_text ctx (OrgNameKey (cv_keys X)),
       ri_ProjectName = meta_text ctx (ProjectNameKey (cv_keys X)), ri_ProjectID = meta_text ctx (ProjectIDKey (cv_keys X)),
       ri_SpaceName = meta_text ctx (SpaceNameKey (cv_keys X)), ri_ClusterGroupName = meta_text ctx (ClusterGroupNameKey (cv_keys X))\<rparr>)"

lemma short_context_name:
  assumes "kx_ContextType ctx = ContextTypeTanzu" "G (kx_Name ctx) = Inr r"
  shows "\<exists>s. printShortContext G ctx = Line s \<and>
    prepareKubeContextName (kx_Name ctx) (ri_ProjectName r) (ri_SpaceName r) (ri_ClusterGroupName r) = ''tanzu-cli-'' @ s"
  using assms by (simp add: printShortContext_def prepareKubeContextName_def Let_def)

lemma update_kubeconfig_name:
  assumes "updateTanzuContextKubeconfig V ctx p pid sp cg w = (w', ctx', None)"
    and "\<not> env_flag (kv_environ V) ''TANZU_CLI_USE_STABLE_KUBE_CONTEXT_NAME''"
  shows "\<exists>opts. kx_ClusterOpts ctx' = Some opts \<and> cs_Context opts = prepareKubeContextName (kx_Name ctx) p sp cg \<and>
    kx_Name ctx' = kx_Name ctx \<and> kx_ContextType ctx' = kx_ContextType ctx \<and> meta_get ctx' = meta_get ctx"
  using assms
  by (auto simp: updateTanzuContextKubeconfig_def updateContextWithNewName_def Let_def meta_get_def fun_eq_iff
      split: option.splits sum.splits prod.splits)

text \<open>C38 (functional): after the active resource of a context was set, the short form of the context that \<^verbatim>\<open>tanzu context current\<close>
  shows is the name of its kube context, without the prefix of the CLI, unless the user asked for stable names.\<close>

theorem short_form_names_kube_context:
  assumes "config_laws (cv_lib X)" "context_keys_law (cv_keys X)" "active_resource_law X G"
    and "setTanzuCtxActiveResource X name p pid sp cg s = (s', None)"
    and "\<not> env_flag (kv_environ (cv_kube X)) ''TANZU_CLI_USE_STABLE_KUBE_CONTEXT_NAME''"
  shows "\<exists>ctx opts short. cl_GetContext (cv_lib X) (st_config s') name = Inr ctx \<and> kx_ClusterOpts ctx = Some opts \<and>
     printShortContext (G (st_config s')) ctx = Line short \<and> cs_Context opts = ''tanzu-cli-'' @ short"
proof -
  let ?K = "cv_keys X"
  obtain ctx0 w ctx1 cfg where g: "cl_GetContext (cv_lib X) (st_config s) name = Inr ctx0" "kx_ContextType ctx0 = ContextTypeTanzu"
    and u: "updateTanzuContextKubeconfig (cv_kube X) (set_resource ?K p pid sp cg ctx0) p pid sp cg (st_kube s) = (w, ctx1, None)"
    and c: "cl_SetContext (cv_lib X) ctx1 False (st_config s) = (cfg, None)" "s' = s\<lparr>st_kube := w, st_config := cfg\<rparr>"
    using assms(4) by (auto simp: setTanzuCtxActiveResource_def Let_def split: option.splits sum.splits if_splits prod.splits)
  obtain opts where o: "kx_ClusterOpts ctx1 = Some opts" "cs_Context opts = prepareKubeContextName (kx_Name ctx0) p sp cg"
    "kx_Name ctx1 = kx_Name ctx0" "kx_ContextType ctx1 = ContextTypeTanzu" "meta_get ctx1 = meta_get (set_resource ?K p pid sp cg ctx0)"
    using update_kubeconfig_name [OF u assms(5)] g(2) by (auto simp: set_resource_def)
  have n: "kx_Name ctx0 = name" using g(1) assms(1) by (simp add: config_laws_def)
  have g': "cl_GetContext (cv_lib X) cfg name = Inr (persisted ctx1)"
    using c(1) assms(1) o(3) n by (auto simp: config_laws_def)
  have m: "meta_text (persisted ctx1) (ProjectNameKey ?K) = p" "meta_text (persisted ctx1) (SpaceNameKey ?K) = sp"
    "meta_text (persisted ctx1) (ClusterGroupNameKey ?K) = cg"
    using assms(2) by (auto simp: meta_text_def o(5)) (auto simp: meta_get_def set_resource_def context_keys_law_def update_conv')
  obtain r where r: "G cfg name = Inr r" "ri_ProjectName r = p" "ri_SpaceName r = sp" "ri_ClusterGroupName r = cg"
    using assms(3) g' o(4) m by (auto simp: active_resource_law_def)
  have "kx_ContextType (persisted ctx1) = ContextTypeTanzu" "G cfg (kx_Name (persisted ctx1)) = Inr r"
    using o(3,4) n r(1) by simp_all
  from short_context_name [where G = "G cfg", OF this] r(2-) o n c(2) g' show ?thesis by auto
qed

section \<open>The two layouts of the list\<close>

lemma sorted_unique:
  assumes "sorted_wrt R xs" "sorted_wrt R ys" "mset xs = mset ys" "\<And>a b. a \<in> set xs \<Longrightarrow> b \<in> set xs \<Longrightarrow> R a b \<Longrightarrow> R b a \<Longrightarrow> a = b"
  shows "xs = ys"
  using assms
proof (induction xs arbitrary: ys)
  case Nil
  then show ?case by simp
next
  case (Cons x xs)
  from Cons.prems(3) obtain y ys' where ys: "ys = y # ys'" by (cases ys) auto
  have "x = y"
  proof (rule ccontr)
    assume "x \<noteq> y"
    with mset_eq_setD [OF Cons.prems(3)] ys have "x \<in> set ys'" "y \<in> set xs" by auto
    with Cons.prems(1,2,4) ys show False using \<open>x \<noteq> y\<close> by auto
  qed
  with Cons.prems ys have "xs = ys'" by (intro Cons.IH) auto
  with \<open>x = y\<close> ys show ?case by simp
qed

text \<open>The order of the library: by name first.\<close>

definition context_order :: "(config_context \<Rightarrow> config_context \<Rightarrow> bool) \<Rightarrow> bool" where
  "context_order lt \<longleftrightarrow> weak_order lt \<and> (\<forall>a b. kx_Name a \<noteq> kx_Name b \<longrightarrow> lt a b \<or> lt b a)"

lemma sort_filter:
  assumes "context_order lt" "distinct (map kx_Name xs)"
  shows "sort_by lt (filter P xs) = filter P (sort_by lt xs)"
proof (rule sorted_unique)
  have w: "weak_order lt" using assms(1) by (simp add: context_order_def)
  show "sorted_wrt (\<lambda>a b. \<not> lt b a) (sort_by lt (filter P xs))" "sorted_wrt (\<lambda>a b. \<not> lt b a) (filter P (sort_by lt xs))"
    using weak_order.sort_sorted [OF w] by (auto intro: sorted_wrt_filter)
  show "mset (sort_by lt (filter P xs)) = mset (filter P (sort_by lt xs))" by simp
  fix a b assume "a \<in> set (sort_by lt (filter P xs))" "b \<in> set (sort_by lt (filter P xs))" "\<not> lt b a" "\<not> lt a b"
  then show "a = b" using assms by (auto simp: context_order_def distinct_map inj_on_def)
qed

lemma list_view_filter:
  "list_view_loop X im cfg ct cur ctxs =
     map (list_view_row_of X im cfg) (filter (\<lambda>ctx. (ct = '''' \<or> kx_ContextType ctx = ct) \<and> (cur \<longrightarrow> is_current X cfg ctx)) ctxs)"
  by (induction ctxs) auto

lemma output_row_head:
  "output_row X cfg ctx = Some row \<Longrightarrow>
     \<exists>cs. row = [(''Name'', kx_Name ctx), (''IsActive'', format_bool (is_current X cfg ctx)), (''Type'', kx_ContextType ctx)] @ cs"
  by (cases "cluster_columns ctx (if kx_ContextType ctx = ContextTypeTanzu then [] else NA)")
    (auto simp: output_row_def Let_def split: if_splits Option.bind_splits)

text \<open>The list of contexts as a table and in its other layouts shows the same contexts in the same order, with the
  same name, type and mark of the current one, provided the names of the contexts are different.\<close>

theorem list_layouts_agree:
  assumes "context_order lt" "cl_KnownContexts (cv_lib X) cfg = Inr known" "distinct (map kx_Name known)"
    and "listCtx X im lt v ''table'' cur wide cfg = Some (Inr (DynamicTable header rows))"
    and "listCtx X im lt v ''json'' cur wide cfg = Some (Inr (ListView vs))"
  shows "map (take 3) rows = map (\<lambda>r. [lw_Name r, lw_IsCurrent r, lw_Type r]) vs"
proof -
  define ct where "ct = getContextType X v"
  define ctxs where "ctxs = filter (\<lambda>ctx. (ct = '''' \<or> kx_ContextType ctx = ct) \<and> (cur \<longrightarrow> is_current X cfg ctx)) (sort_by lt known)"
  define req where "req = fst (listed_columns (list_ex (\<lambda>ctx. kx_ContextType ctx = ContextTypeTanzu) ctxs) wide)"
  define dyn where "dyn = snd (listed_columns (list_ex (\<lambda>ctx. kx_ContextType ctx = ContextTypeTanzu) ctxs) wide)"
  have vs: "vs = map (list_view_row_of X im cfg) ctxs"
    using assms(2,5) by (auto simp: listCtx_def displayContextListOutputListView_def list_view_filter ctxs_def ct_def split: if_splits)
  have shown: "sort_by lt (fst (getContextsToDisplay X cfg known ct cur)) = ctxs"
    using sort_filter [OF assms(1,3)] by (simp add: getContextsToDisplay_def Let_def ctxs_def)
  have t: "None \<notin> set (map (output_row X cfg) ctxs)" "(header, rows) = renderDynamicTable (map the (map (output_row X cfg) ctxs)) req dyn"
    using assms(2,4) shown
    by (auto simp: listCtx_def displayContextListOutputWithDynamicColumns_def Let_def ct_def req_def dyn_def
        split: if_splits prod.splits)
  have req: "{''Name'', ''IsActive'', ''Type''} \<subseteq> set req" by (auto simp: req_def listed_columns_def Let_def)
  have row: "take 3 (map snd (filter (\<lambda>(col, x). ContainsString req col \<or> (ContainsString dyn col \<and> column_filled rs col)) (the (output_row X cfg ctx)))) =
      [kx_Name ctx, format_bool (is_current X cfg ctx), kx_ContextType ctx]" if "ctx \<in> set ctxs" for ctx rs
  proof -
    have "output_row X cfg ctx \<noteq> None" using t(1) that by (metis imageI set_map)
    then obtain r where r: "output_row X cfg ctx = Some r" by blast
    from output_row_head [OF this] req show ?thesis by (auto simp: r)
  qed
  have "map (take 3) rows = map (\<lambda>ctx. [kx_Name ctx, format_bool (is_current X cfg ctx), kx_ContextType ctx]) ctxs"
  proof (cases ctxs)
    case Nil
    with t(2) show ?thesis by (simp add: renderDynamicTable_def)
  next
    case (Cons c cs)
    then obtain f rs where f: "map the (map (output_row X cfg) ctxs) = f # rs" by auto
    have "rows = map (\<lambda>row. map snd (filter (\<lambda>(col, x). ContainsString req col \<or> (ContainsString dyn col \<and> column_filled (f # rs) col)) row)) (f # rs)"
      using t(2) unfolding f by (simp only: renderDynamicTable_def Let_def list.case prod.inject)
    with row show ?thesis unfolding f [symmetric] by (simp only: map_map o_def) (rule map_cong, simp_all)
  qed
  then show ?thesis unfolding vs by (simp add: list_view_row_of_def Let_def split: prod.splits)
qed

section \<open>Witnesses\<close>

definition demo_tmc_ctx :: config_context where
  "demo_tmc_ctx = \<lparr>kx_Name = ''t'', kx_ContextType = ContextTypeTMC, kx_GlobalOpts = None, kx_ClusterOpts = None, kx_AdditionalMetadata = None\<rparr>"

definition demo_active_env :: "(kube_config, config_context list, string) ctx_env" where
  "demo_active_env = (let X = demo_env Map.empty (\<lambda>_. None)
     in X\<lparr>cv_lib := (cv_lib X)\<lparr>cl_ActiveContexts := (\<lambda>cs. Inr (map (\<lambda>c. (kx_ContextType c, c)) cs))\<rparr>\<rparr>)"

definition demo_resource :: "config_context list \<Rightarrow> string \<Rightarrow> resource_info res" where
  "demo_resource cs n = map_sum id (\<lambda>ctx.
     \<lparr>ri_OrgID = meta_text ctx ''orgID'', ri_OrgName = meta_text ctx ''orgName'', ri_ProjectName = meta_text ctx ''projectName'',
      ri_ProjectID = meta_text ctx ''projectID'', ri_SpaceName = meta_text ctx ''space'', ri_ClusterGroupName = meta_text ctx ''clusterGroup''\<rparr>)
     (find_context cs n)"

theorem current_shows_one_witness:
  "\<exists>t ctx. map_of [(ContextTypeTMC, demo_tmc_ctx), (ContextTypeTanzu, demo_ctx)] t = Some ctx \<and>
     current_command dotted_lib demo_active_env demo_resource True [demo_tmc_ctx, demo_ctx] = Inr [printShortContext (demo_resource [demo_tmc_ctx, demo_ctx]) ctx] \<and>
     t \<noteq> ContextTypeTMC"
proof -
  let ?m = "[(ContextTypeTMC, demo_tmc_ctx), (ContextTypeTanzu, demo_ctx)]"
  have "cl_ActiveContexts (cv_lib demo_active_env) [demo_tmc_ctx, demo_ctx] = Inr ?m"
    by (simp add: demo_active_env_def demo_tmc_ctx_def demo_ctx_def)
  moreover have "exclusive_contexts ?m" by (simp add: exclusive_contexts_def keys_of_def)
  ultimately obtain t ctx where t: "map_of ?m t = Some ctx" "t = ContextTypeTMC \<longrightarrow> ?m = [(t, ctx)]"
    "current_command dotted_lib demo_active_env demo_resource True [demo_tmc_ctx, demo_ctx] =
       Inr [if True then printShortContext (demo_resource [demo_tmc_ctx, demo_ctx]) ctx else printContext (demo_resource [demo_tmc_ctx, demo_ctx]) ctx]"
    using current_shows_one [OF dotted_range_law, of demo_active_env "[demo_tmc_ctx, demo_ctx]" ?m demo_resource True] by blast
  then show ?thesis by (intro exI [of _ t] exI [of _ ctx]) auto
qed

lemma demo_resource_law: "active_resource_law (demo_env Map.empty f) demo_resource"
  by (simp add: active_resource_law_def demo_resource_def demo_config_def demo_context_keys_def)

theorem short_form_names_kube_context_witness:
  "\<exists>ctx opts short. cl_GetContext (demo_config (\<lambda>_. None)) (st_config demo_set) ''a'' = Inr ctx \<and> kx_ClusterOpts ctx = Some opts \<and>
     printShortContext (demo_resource (st_config demo_set)) ctx = Line short \<and> cs_Context opts = ''tanzu-cli-'' @ short"
proof -
  have "\<not> env_flag (kv_environ (cv_kube (demo_env Map.empty (\<lambda>_. None)))) ''TANZU_CLI_USE_STABLE_KUBE_CONTEXT_NAME''" by code_simp
  from short_form_names_kube_context [OF _ _ demo_resource_law demo_set_ok this]
  show ?thesis using demo_config_laws demo_context_keys_law by simp
qed

definition demo_order :: "config_context \<Rightarrow> config_context \<Rightarrow> bool" where
  "demo_order a b \<longleftrightarrow> kx_Name a < kx_Name b"

lemma demo_order: "context_order demo_order"
  by (auto simp: context_order_def weak_order_def demo_order_def)

theorem list_layouts_agree_witness:
  "\<exists>header rows vs. listCtx (demo_env Map.empty (\<lambda>_. None)) (\<lambda>_. False) demo_order demo_vars ''table'' False False [demo_tmc_ctx, demo_ctx] = Some (Inr (DynamicTable header rows)) \<and>
     listCtx (demo_env Map.empty (\<lambda>_. None)) (\<lambda>_. False) demo_order demo_vars ''json'' False False [demo_tmc_ctx, demo_ctx] = Some (Inr (ListView vs)) \<and>
     map (take 3) rows = map (\<lambda>r. [lw_Name r, lw_IsCurrent r, lw_Type r]) vs \<and> length vs = 2"
proof -
  let ?l = "\<lambda>fmt. listCtx (demo_env Map.empty (\<lambda>_. None)) (\<lambda>_. False) demo_order demo_vars fmt False False [demo_tmc_ctx, demo_ctx]"
  have "case ?l ''table'' of Some (Inr (DynamicTable header rows)) \<Rightarrow> True | _ \<Rightarrow> False"
    "case ?l ''json'' of Some (Inr (ListView vs)) \<Rightarrow> length vs = 2 | _ \<Rightarrow> False"
    by code_simp+
  then obtain header rows vs where l: "?l ''table'' = Some (Inr (DynamicTable header rows))" "?l ''json'' = Some (Inr (ListView vs))" "length vs = 2"
    by (auto split: option.splits sum.splits listing.splits)
  have "cl_KnownContexts (cv_lib (demo_env Map.empty (\<lambda>_. None))) [demo_tmc_ctx, demo_ctx] = Inr [demo_tmc_ctx, demo_ctx]"
    by (simp add: demo_config_def)
  moreover have "distinct (map kx_Name [demo_tmc_ctx, demo_ctx])" by (simp add: demo_tmc_ctx_def demo_ctx_def)
  ultimately show ?thesis using list_layouts_agree [OF demo_order _ _ l(1,2)] l by blast
qed

end
