(* ===== verification/Bundle_Completion.thy ===== *)
theory Bundle_Completion
  imports Airgapped_Bundle Plugin_Completion Context_Create
begin

text \<open>
  The commands for plugin bundles and what the shell offers for them, \<^verbatim>\<open>pkg/command/plugin_bundle.go\<close>. The completions
  read the inventory image that the \<^verbatim>\<open>--image\<close> flag names, hidden plugins and groups included, and offer names before a
  colon and versions after it, the latest first.
\<close>

section \<open>Commands\<close>

text \<open>The options of the command are \<open>download_options\<close>.\<close>

definition download_command :: "'v lib \<Rightarrow> 'i bundle_env \<Rightarrow> download_options \<Rightarrow> 'i download_result res option" where
  "download_command L B dpbo =
     (if \<not> dl_DryRun dpbo \<and> dl_ToTar dpbo = '''' then Some (Inl (Errorf ''flag --to-tar is required'' []))
      else DownloadPluginBundle L B dpbo)"

definition upload_command :: "'i bundle_env \<Rightarrow> string \<Rightarrow> string \<Rightarrow> ('i published \<times> err option) option" where
  "upload_command B sourceTar destinationRepo = UploadPluginBundle B sourceTar destinationRepo"

definition completeDownloadBundle :: "(string \<Rightarrow> string) \<Rightarrow> download_options \<Rightarrow> completion" where
  "completeDownloadBundle activeHelp dpbo =
     (if \<not> dl_DryRun dpbo \<and> dl_ToTar dpbo = '''' then ([''--''], {NoFileComp, NoSpace}) else noMoreCompletions activeHelp)"

definition completeUploadBundle :: "(string \<Rightarrow> string) \<Rightarrow> string \<Rightarrow> string \<Rightarrow> completion" where
  "completeUploadBundle activeHelp sourceTar destinationRepo =
     (if destinationRepo = '''' \<or> sourceTar = '''' then ([], {NoFileComp}) else noMoreCompletions activeHelp)"

section \<open>The inventory of the image\<close>

definition completionDownloadInventoryImage :: "'i bundle_env \<Rightarrow> string \<Rightarrow> inv_store res" where
  "completionDownloadInventoryImage B img =
     (case bx_MkdirTemp B 1 of
        Some e \<Rightarrow> Inl e
      | None \<Rightarrow>
          (case oe_DownloadImage (bx_oci B) img of
             Inl e \<Rightarrow> Inl e
           | Inr files \<Rightarrow> Inr ((case img_db files of None \<Rightarrow> absent_inventory | Some s \<Rightarrow> s)\<lparr>is_prefix := filepath_Dir img\<rparr>)))"

definition rows_result :: "('a list \<times> err option) option \<Rightarrow> 'a list res option" where
  "rows_result r = map_option (\<lambda>(xs, e). case e of Some e \<Rightarrow> Inl e | None \<Rightarrow> Inr xs) r"

definition completionGetPluginGroupsForBundleDownload :: "'v lib \<Rightarrow> 'i bundle_env \<Rightarrow> string \<Rightarrow> plugin_group list res option" where
  "completionGetPluginGroupsForBundleDownload L B img =
     (case completionDownloadInventoryImage B img of
        Inl e \<Rightarrow> Some (Inl e)
      | Inr pi \<Rightarrow>
          rows_result (GetPluginGroups L pi \<lparr>gf_Vendor = '''', gf_Publisher = '''', gf_Name = '''', gf_Version = '''', gf_IncludeHidden = True\<rparr>))"

definition completionGetPluginsForBundleDownload :: "'v lib \<Rightarrow> 'i bundle_env \<Rightarrow> string \<Rightarrow> inventory_entry list res option" where
  "completionGetPluginsForBundleDownload L B img =
     (case completionDownloadInventoryImage B img of
        Inl e \<Rightarrow> Some (Inl e)
      | Inr pi \<Rightarrow> rows_result (snd (GetPlugins L pi (Some (empty_filter\<lparr>f_IncludeHidden := True\<rparr>)))))"

section \<open>Names and versions\<close>

text \<open>The versions are sorted in place; an error of the sorting, which keeps the order, is ignored.\<close>

definition version_comps :: "'v lib \<Rightarrow> string \<Rightarrow> string list \<Rightarrow> string list" where
  "version_comps L ident versions = map (\<lambda>v. ident @ '':'' @ v) (rev (snd (SortVersions L versions)))"

definition completeGroupVersionsForDownloadBundle :: "'v lib \<Rightarrow> (string \<Rightarrow> string) \<Rightarrow> plugin_group list \<Rightarrow> string \<Rightarrow> string list" where
  "completeGroupVersionsForDownloadBundle L activeHelp groups ident =
     (case find (\<lambda>g. PluginGroupToID g = ident) groups of
        None \<Rightarrow> [activeHelp (''There is no group named: '' @ quoted ident)]
      | Some g \<Rightarrow> version_comps L ident (range_keys L (g_Versions g)))"

definition completeVersionInPluginIDForDownloadBundle :: "'v lib \<Rightarrow> (string \<Rightarrow> string) \<Rightarrow> inventory_entry list \<Rightarrow> string \<Rightarrow> string list" where
  "completeVersionInPluginIDForDownloadBundle L activeHelp plugins ident =
     (case find (\<lambda>p. PluginToID p = ident) plugins of
        None \<Rightarrow> [activeHelp (''There are no plugins matching: '' @ quoted ident)]
      | Some p \<Rightarrow> version_comps L ident (range_keys L (ie_Artifacts p)))"

text \<open>Both completions split the word at its first colon. A result without an error is \<^verbatim>\<open>nil\<close> only for the groups of a
  database without any; the plugins are never \<^verbatim>\<open>nil\<close>, so that the message for no plugins is never shown.\<close>

definition complete_id :: "('a list \<Rightarrow> string \<Rightarrow> string list) \<Rightarrow> ('a \<Rightarrow> string) \<Rightarrow> string \<Rightarrow> 'a list \<Rightarrow> completion" where
  "complete_id versions entry toComplete xs =
     (if CHR '':'' \<in> set toComplete
      then (versions xs (takeWhile (\<lambda>c. c \<noteq> CHR '':'') toComplete), {NoFileComp, KeepOrder})
      else (sort_strings (map entry xs), {NoFileComp, NoSpace}))"

definition nil_groups :: "'i bundle_env \<Rightarrow> string \<Rightarrow> plugin_group list \<Rightarrow> bool" where
  "nil_groups B img groups \<longleftrightarrow> groups = [] \<and> (case completionDownloadInventoryImage B img of Inl _ \<Rightarrow> True | Inr pi \<Rightarrow> is_exists pi)"

definition completeGroupsAndVersionForBundleDownload ::
    "'v lib \<Rightarrow> 'i bundle_env \<Rightarrow> (string \<Rightarrow> string) \<Rightarrow> string \<Rightarrow> string \<Rightarrow> completion option" where
  "completeGroupsAndVersionForBundleDownload L B activeHelp img toComplete =
     map_option (\<lambda>r. case r of
          Inl _ \<Rightarrow> ([], {NoFileComp})
        | Inr groups \<Rightarrow>
            if nil_groups B img groups then ([activeHelp (''There are no plugin groups in '' @ img)], {NoFileComp})
            else complete_id (completeGroupVersionsForDownloadBundle L activeHelp) (\<lambda>g. PluginGroupToID g @ [tab] @ g_Description g)
                   toComplete groups)
       (completionGetPluginGroupsForBundleDownload L B img)"

definition completePluginIDForBundleDownload ::
    "'v lib \<Rightarrow> 'i bundle_env \<Rightarrow> (string \<Rightarrow> string) \<Rightarrow> string \<Rightarrow> string \<Rightarrow> completion option" where
  "completePluginIDForBundleDownload L B activeHelp img toComplete =
     map_option (\<lambda>r. case r of
          Inl _ \<Rightarrow> ([], {NoFileComp})
        | Inr plugins \<Rightarrow>
            complete_id (completeVersionInPluginIDForDownloadBundle L activeHelp) (\<lambda>p. PluginToID p @ [tab] @ ie_Description p)
              toComplete plugins)
       (completionGetPluginsForBundleDownload L B img)"

section \<open>The order of the versions\<close>

text \<open>What is offered for versions that can be parsed are these, each once, none after an older one.\<close>

lemma offered_versions_latest_first:
  assumes "semver_laws L" "\<forall>v \<in> set versions. NewVersion L v \<noteq> None"
  shows "\<exists>ws. version_comps L ident versions = map (\<lambda>v. ident @ '':'' @ v) ws \<and> mset ws = mset versions \<and>
    sorted_wrt (\<lambda>a b. \<not> IsNewVersion L b a) ws"
proof -
  from SortVersions_total [OF assms(2)] obtain vs where vs: "SortVersions L versions = (None, vs)" by blast
  have "mset (rev vs) = mset versions" using SortVersions_mset [OF assms(1), of versions] vs by simp
  moreover have "sorted_wrt (\<lambda>a b. \<not> IsNewVersion L b a) (rev vs)"
    using SortVersions_sorted_aux [OF assms(1) vs] by (simp add: sorted_wrt_rev)
  ultimately show ?thesis using vs by (auto simp: version_comps_def)
qed

text \<open>
  The command that makes an API token, \<^verbatim>\<open>pkg/command/apitoken.go\<close>, and the one that prints shell completions,
  \<^verbatim>\<open>pkg/command/completion.go\<close>. The generators of completions belong to the command library. \<open>None\<close> is a panic.
\<close>

section \<open>API tokens\<close>

definition api_token_options :: "environ \<Rightarrow> login_option list" where
  "api_token_options env =
     [WithListenerPortFromEnv OAuthLocalListenerPort, WithClientIDAndSecret (GetAlternateClientID env) (GetClientSecret env)]"

text \<open>The metadata may hold the type of the identity provider only as a string; a hub endpoint of another type panics.\<close>

definition token_endpoint :: "('b, 'c, 'y) ctx_env \<Rightarrow> config_context \<Rightarrow> string option" where
  "token_endpoint X c =
     (case meta_get c (TanzuHubEndpointKey (cv_keys X)) of
        None \<Rightarrow> Some ''<tanzu-platform-endpoint>''
      | Some (MString hubEndpoint) \<Rightarrow>
          Some (case cv_UrlParse X hubEndpoint of
                  Inl _ \<Rightarrow> ''<tanzu-platform-endpoint>'' | Inr (scheme, host, _) \<Rightarrow> scheme @ ''://'' @ host)
      | Some _ \<Rightarrow> None)"

text \<open>The result is the refresh token and the endpoint that are printed.\<close>

definition createAPIToken ::
    "('b, 'c, 'y) ctx_env \<Rightarrow> config_context option res \<Rightarrow> (string \<times> string) res option" where
  "createAPIToken X active =
     (case active of
        Inl _ \<Rightarrow> Some (Inl (Errorf ''no active context found for Tanzu Platform. Please login to Tanzu Platform first to generate an API token'' []))
      | Inr None \<Rightarrow> Some (Inl (Errorf ''invalid active context found for Tanzu Platform. Please login to Tanzu Platform first to generate an API token'' []))
      | Inr (Some c) \<Rightarrow>
          (case kx_GlobalOpts c of
             None \<Rightarrow> Some (Inl (Errorf ''invalid active context found for Tanzu Platform. Please login to Tanzu Platform first to generate an API token'' []))
           | Some g \<Rightarrow>
               if sa_Issuer (gs_Auth g) = ''''
               then Some (Inl (Errorf ''invalid active context found for Tanzu Platform. Please login to Tanzu Platform first to generate an API token'' []))
               else if meta_get c (TanzuIdpTypeKey (cv_keys X)) \<noteq> Some (MString (UAAIdpType (cv_keys X)))
               then Some (Inl (Errorf ''command no supported'' []))
               else (case uaa_TanzuLogin (cv_auth X) (sa_Issuer (gs_Auth g)) (api_token_options (ax_environ (cv_auth X))) of
                       None \<Rightarrow> None
                     | Some (Inl e, saved) \<Rightarrow> Some (Inl (Wrapf e ''unable to login'' []))
                     | Some (Inr token, saved) \<Rightarrow> map_option (\<lambda>ep. Inr (tk_RefreshToken token, ep)) (token_endpoint X c))))"

section \<open>Shell completions\<close>

datatype shell = Bash | Zsh | Fish | PowerShell

definition completionShells :: "string list" where
  "completionShells = [''bash'', ''zsh'', ''fish'', ''powershell'']"

definition completeCompletion :: "(string \<Rightarrow> string) \<Rightarrow> string list \<Rightarrow> completion" where
  "completeCompletion activeHelp args = (if args = [] then (completionShells, {NoFileComp}) else noMoreCompletions activeHelp)"

text \<open>\<open>generate\<close> writes the completions of a shell to the output.\<close>

definition runCompletion :: "(shell \<Rightarrow> err option) \<Rightarrow> string list \<Rightarrow> err option" where
  "runCompletion generate args =
     (case args of
        [] \<Rightarrow> Some (Errorf ''shell not specified, choose one of: %v'' completionShells)
      | [s] \<Rightarrow>
          let name = to_lower s
          in if name = ''bash'' then generate Bash else if name = ''zsh'' then generate Zsh else if name = ''fish'' then generate Fish
             else if name \<in> {''powershell'', ''pwsh''} then generate PowerShell
             else Some (Errorf ''unrecognized shell type specified'' [])
      | _ \<Rightarrow> Some (Errorf ''too many arguments, expected only the shell type'' []))"

text \<open>Every shell that is offered is accepted.\<close>

lemma offered_shells_run: "s \<in> set completionShells \<Longrightarrow> \<exists>sh. \<forall>g. runCompletion g [s] = g sh"
  by (auto simp: completionShells_def runCompletion_def to_lower_def lower_char_def Let_def)

end
