(* ===== verification/Flag_Sets.thy ===== *)
theory Flag_Sets
  imports Command_Root_Correct Bundle_Completion
begin

text \<open>
  Declarations of commands and flags. A constructor of a command, \<^verbatim>\<open>new...Cmd\<close> in \<^verbatim>\<open>pkg/command/\<close>, is a tree of commands with
  the declarations of their flags in the order of the source (the texts of help are left out, as is what a command runs, which other
  theories model). The sets of flags belong to the libraries: a \<open>flag_lib\<close> holds their operations, which write the default of
  a flag to its variable, and \<open>flag_laws\<close> what is documented of them. \<open>None\<close> is a panic: of the library, when a flag is declared
  twice, or of \<^verbatim>\<open>PanicOnErr\<close>.
\<close>

section \<open>Declarations\<close>

datatype flag_value = FString string | FBool bool | FStrings "string list"

text \<open>The variable of a flag is the one whose address the declaration passes.\<close>

record flag_decl =
  fg_var :: string
  fg_name :: string
  fg_short :: string
  fg_default :: flag_value

datatype flag_mark = Deprecated | HiddenFlag | Required

text \<open>\<open>Try\<close> is a mark whose error is ignored.\<close>

datatype flag_step =
    Flag flag_decl
  | Completion string
  | Mark flag_mark string
  | Try flag_mark string
  | MutuallyExclusive string string

definition StringVarP :: "string \<Rightarrow> string \<Rightarrow> string \<Rightarrow> string \<Rightarrow> flag_step" where
  "StringVarP v name short dflt = Flag \<lparr>fg_var = v, fg_name = name, fg_short = short, fg_default = FString dflt\<rparr>"

definition BoolVarP :: "string \<Rightarrow> string \<Rightarrow> string \<Rightarrow> bool \<Rightarrow> flag_step" where
  "BoolVarP v name short dflt = Flag \<lparr>fg_var = v, fg_name = name, fg_short = short, fg_default = FBool dflt\<rparr>"

definition StringSliceVarP :: "string \<Rightarrow> string \<Rightarrow> string \<Rightarrow> string list \<Rightarrow> flag_step" where
  "StringSliceVarP v name short dflt = Flag \<lparr>fg_var = v, fg_name = name, fg_short = short, fg_default = FStrings dflt\<rparr>"

datatype args_rule = AnyArgs | NoArgs | ExactArgs nat | MaximumNArgs nat

datatype cmd_tree = CmdTree command args_rule "flag_step list" "cmd_tree list"

fun tree_cmd :: "cmd_tree \<Rightarrow> command" where
  "tree_cmd (CmdTree c a ss ts) = c"

section \<open>Sets of flags\<close>

type_synonym vars = "(string \<times> flag_value) list"

record 'f flag_lib =
  fb_new :: 'f
  fb_flags :: "'f \<Rightarrow> flag_decl list"
  fb_completed :: "'f \<Rightarrow> string set"
  fb_add :: "flag_decl \<Rightarrow> 'f \<times> vars \<Rightarrow> ('f \<times> vars) option"
  fb_complete :: "string \<Rightarrow> 'f \<Rightarrow> 'f option"
  fb_mark :: "flag_mark \<Rightarrow> string \<Rightarrow> 'f \<Rightarrow> 'f option"
  fb_exclusive :: "string \<Rightarrow> string \<Rightarrow> 'f \<Rightarrow> 'f option"

abbreviation flag_names :: "'f flag_lib \<Rightarrow> 'f \<Rightarrow> string set" where
  "flag_names F f \<equiv> fg_name ` set (fb_flags F f)"

text \<open>A flag may be declared when its name is new, its shorthand is one character at most, and no other flag has it.\<close>

definition may_add :: "flag_decl list \<Rightarrow> flag_decl \<Rightarrow> bool" where
  "may_add ds d \<longleftrightarrow> fg_name d \<notin> fg_name ` set ds \<and> length (fg_short d) \<le> 1 \<and> (fg_short d = '''' \<or> fg_short d \<notin> fg_short ` set ds)"

definition flag_laws :: "'f flag_lib \<Rightarrow> bool" where
  "flag_laws F \<longleftrightarrow>
     fb_flags F (fb_new F) = [] \<and> fb_completed F (fb_new F) = {} \<and>
     (\<forall>d f vs. may_add (fb_flags F f) d \<longrightarrow>
        (\<exists>f'. fb_add F d (f, vs) = Some (f', AList.update (fg_var d) (fg_default d) vs) \<and>
           fb_flags F f' = fb_flags F f @ [d] \<and> fb_completed F f' = fb_completed F f)) \<and>
     (\<forall>n f. n \<in> flag_names F f \<longrightarrow> n \<notin> fb_completed F f \<longrightarrow>
        (\<exists>f'. fb_complete F n f = Some f' \<and> fb_flags F f' = fb_flags F f \<and> fb_completed F f' = insert n (fb_completed F f))) \<and>
     (\<forall>m n f. n \<in> flag_names F f \<longrightarrow>
        (\<exists>f'. fb_mark F m n f = Some f' \<and> fb_flags F f' = fb_flags F f \<and> fb_completed F f' = fb_completed F f)) \<and>
     (\<forall>n m f. n \<in> flag_names F f \<longrightarrow> m \<in> flag_names F f \<longrightarrow>
        (\<exists>f'. fb_exclusive F n m f = Some f' \<and> fb_flags F f' = fb_flags F f \<and> fb_completed F f' = fb_completed F f))"

lemma flag_add:
  "flag_laws F \<Longrightarrow> may_add (fb_flags F f) d \<Longrightarrow>
   \<exists>f'. fb_add F d (f, vs) = Some (f', AList.update (fg_var d) (fg_default d) vs) \<and>
      fb_flags F f' = fb_flags F f @ [d] \<and> fb_completed F f' = fb_completed F f"
  by (rule flag_laws_def [THEN iffD1, THEN conjunct2, THEN conjunct2, THEN conjunct1, rule_format])

lemma flag_complete:
  "flag_laws F \<Longrightarrow> n \<in> flag_names F f \<Longrightarrow> n \<notin> fb_completed F f \<Longrightarrow>
   \<exists>f'. fb_complete F n f = Some f' \<and> fb_flags F f' = fb_flags F f \<and> fb_completed F f' = insert n (fb_completed F f)"
  by (rule flag_laws_def [THEN iffD1, THEN conjunct2, THEN conjunct2, THEN conjunct2, THEN conjunct1, rule_format])

lemma flag_mark:
  "flag_laws F \<Longrightarrow> n \<in> flag_names F f \<Longrightarrow>
   \<exists>f'. fb_mark F m n f = Some f' \<and> fb_flags F f' = fb_flags F f \<and> fb_completed F f' = fb_completed F f"
  by (rule flag_laws_def [THEN iffD1, THEN conjunct2, THEN conjunct2, THEN conjunct2, THEN conjunct2, THEN conjunct1, rule_format])

lemma flag_exclusive:
  "flag_laws F \<Longrightarrow> n \<in> flag_names F f \<Longrightarrow> m \<in> flag_names F f \<Longrightarrow>
   \<exists>f'. fb_exclusive F n m f = Some f' \<and> fb_flags F f' = fb_flags F f \<and> fb_completed F f' = fb_completed F f"
  by (rule flag_laws_def [THEN iffD1, THEN conjunct2, THEN conjunct2, THEN conjunct2, THEN conjunct2, THEN conjunct2, rule_format])

fun run_step :: "'f flag_lib \<Rightarrow> flag_step \<Rightarrow> 'f \<times> vars \<Rightarrow> ('f \<times> vars) option" where
  "run_step F (Flag d) (f, vs) = fb_add F d (f, vs)"
| "run_step F (Completion n) (f, vs) = map_option (\<lambda>f'. (f', vs)) (fb_complete F n f)"
| "run_step F (Mark m n) (f, vs) = map_option (\<lambda>f'. (f', vs)) (fb_mark F m n f)"
| "run_step F (Try m n) (f, vs) = Some (case fb_mark F m n f of Some f' \<Rightarrow> (f', vs) | None \<Rightarrow> (f, vs))"
| "run_step F (MutuallyExclusive n m) (f, vs) = map_option (\<lambda>f'. (f', vs)) (fb_exclusive F n m f)"

fun run_steps :: "'f flag_lib \<Rightarrow> flag_step list \<Rightarrow> 'f \<times> vars \<Rightarrow> ('f \<times> vars) option" where
  "run_steps F [] st = Some st"
| "run_steps F (s # ss) st = Option.bind (run_step F s st) (run_steps F ss)"

text \<open>A command that was built, with its set of flags.\<close>

datatype 'f built = Built command args_rule 'f "'f built list"

fun construct :: "'f flag_lib \<Rightarrow> cmd_tree \<Rightarrow> vars \<Rightarrow> ('f built \<times> vars) option"
  and construct_all :: "'f flag_lib \<Rightarrow> cmd_tree list \<Rightarrow> vars \<Rightarrow> ('f built list \<times> vars) option" where
  "construct F (CmdTree c a ss ts) vs = do {
     (f, vs1) \<leftarrow> run_steps F ss (fb_new F, vs);
     (bs, vs2) \<leftarrow> construct_all F ts vs1;
     Some (Built c a f bs, vs2)
   }"
| "construct_all F [] vs = Some ([], vs)"
| "construct_all F (t # ts) vs = do {
     (b, vs1) \<leftarrow> construct F t vs;
     (bs, vs2) \<leftarrow> construct_all F ts vs1;
     Some (b # bs, vs2)
   }"

section \<open>Well-formed declarations\<close>

text \<open>What a list of declarations needs: the flags and the completed flags declared so far are the arguments.\<close>

fun steps_ok :: "flag_decl list \<Rightarrow> string list \<Rightarrow> flag_step list \<Rightarrow> bool" where
  "steps_ok ds cs [] = True"
| "steps_ok ds cs (Flag d # ss) = (may_add ds d \<and> steps_ok (ds @ [d]) cs ss)"
| "steps_ok ds cs (Completion n # ss) = (n \<in> fg_name ` set ds \<and> n \<notin> set cs \<and> steps_ok ds (n # cs) ss)"
| "steps_ok ds cs (Mark m n # ss) = (n \<in> fg_name ` set ds \<and> steps_ok ds cs ss)"
| "steps_ok ds cs (Try m n # ss) = (n \<in> fg_name ` set ds \<and> steps_ok ds cs ss)"
| "steps_ok ds cs (MutuallyExclusive n m # ss) = (n \<in> fg_name ` set ds \<and> m \<in> fg_name ` set ds \<and> steps_ok ds cs ss)"

fun declared :: "flag_step list \<Rightarrow> flag_decl list" where
  "declared [] = []"
| "declared (Flag d # ss) = d # declared ss"
| "declared (s # ss) = declared ss"

fun tree_ok :: "cmd_tree \<Rightarrow> bool" where
  "tree_ok (CmdTree c a ss ts) = (steps_ok [] [] ss \<and> list_all tree_ok ts)"

fun tree_flags :: "cmd_tree \<Rightarrow> flag_decl list" where
  "tree_flags (CmdTree c a ss ts) = declared ss @ concat (map tree_flags ts)"

text \<open>Each command with its path, parents first.\<close>

fun tree_commands :: "string list \<Rightarrow> cmd_tree \<Rightarrow> (string list \<times> flag_decl list) list" where
  "tree_commands path (CmdTree c a ss ts) =
     (let p = path @ [takeWhile (\<lambda>x. x \<noteq> CHR '' '') (cmd_Use c)] in (p, declared ss) # concat (map (tree_commands p) ts))"

fun built_commands :: "'f flag_lib \<Rightarrow> string list \<Rightarrow> 'f built \<Rightarrow> (string list \<times> flag_decl list) list" where
  "built_commands F path (Built c a f bs) =
     (let p = path @ [takeWhile (\<lambda>x. x \<noteq> CHR '' '') (cmd_Use c)] in (p, fb_flags F f) # concat (map (built_commands F p) bs))"

definition set_defaults :: "flag_decl list \<Rightarrow> vars \<Rightarrow> vars" where
  "set_defaults ds vs = foldl (\<lambda>vs d. AList.update (fg_var d) (fg_default d) vs) vs ds"

lemma set_defaults_append [simp]: "set_defaults (ds @ es) vs = set_defaults es (set_defaults ds vs)"
  by (simp add: set_defaults_def)

lemma set_defaults_Cons [simp]:
  "set_defaults [] vs = vs" "set_defaults (d # ds) vs = set_defaults ds (AList.update (fg_var d) (fg_default d) vs)"
  by (simp_all add: set_defaults_def)

lemma find_snoc: "find P (xs @ [x]) = (case find P xs of Some y \<Rightarrow> Some y | None \<Rightarrow> if P x then Some x else None)"
  by (induction xs) auto

text \<open>The default of the last declaration of a variable is the one it starts with.\<close>

lemma set_defaults_lookup:
  "map_of (set_defaults ds vs) x = (case find (\<lambda>d. fg_var d = x) (rev ds) of Some d \<Rightarrow> Some (fg_default d) | None \<Rightarrow> map_of vs x)"
proof (induction ds arbitrary: vs)
  case Nil
  then show ?case by simp
next
  case (Cons d ds)
  then show ?case by (auto simp: update_conv' find_snoc split: option.splits)
qed

lemma run_steps_ok:
  assumes "flag_laws F" "steps_ok ds cs ss" "fb_flags F f = ds" "fb_completed F f = set cs"
  shows "\<exists>f'. run_steps F ss (f, vs) = Some (f', set_defaults (declared ss) vs) \<and> fb_flags F f' = ds @ declared ss"
  using assms(2-)
proof (induction ss arbitrary: ds cs f vs)
  case Nil
  then show ?case by simp
next
  case (Cons s ss)
  note ok = Cons.prems(1) and f = Cons.prems(2) and c = Cons.prems(3)
  show ?case
  proof (cases s)
    case (Flag d)
    with ok f have "may_add (fb_flags F f) d" by simp
    from flag_add [OF assms(1) this, of vs] f c obtain f' where f': "fb_flags F f' = ds @ [d]" "fb_completed F f' = set cs"
      "fb_add F d (f, vs) = Some (f', AList.update (fg_var d) (fg_default d) vs)" by auto
    from Cons.IH [OF _ f'(1,2), of "AList.update (fg_var d) (fg_default d) vs"] ok Flag f'(3) show ?thesis by simp
  next
    case (Completion n)
    with ok f c have "n \<in> flag_names F f" "n \<notin> fb_completed F f" by simp_all
    from flag_complete [OF assms(1) this] f c obtain f' where f': "fb_flags F f' = ds" "fb_completed F f' = set (n # cs)"
      "fb_complete F n f = Some f'" by auto
    from Cons.IH [OF _ f'(1,2), of vs] ok Completion f'(3) show ?thesis by simp
  next
    case (Mark m n)
    with ok f have "n \<in> flag_names F f" by simp
    from flag_mark [OF assms(1) this, of m] f c obtain f' where f': "fb_flags F f' = ds" "fb_completed F f' = set cs"
      "fb_mark F m n f = Some f'" by auto
    from Cons.IH [OF _ f'(1,2), of vs] ok Mark f'(3) show ?thesis by simp
  next
    case (Try m n)
    with ok f have "n \<in> flag_names F f" by simp
    from flag_mark [OF assms(1) this, of m] f c obtain f' where f': "fb_flags F f' = ds" "fb_completed F f' = set cs"
      "fb_mark F m n f = Some f'" by auto
    from Cons.IH [OF _ f'(1,2), of vs] ok Try f'(3) show ?thesis by simp
  next
    case (MutuallyExclusive n m)
    with ok f have "n \<in> flag_names F f" "m \<in> flag_names F f" by simp_all
    from flag_exclusive [OF assms(1) this] f c obtain f' where f': "fb_flags F f' = ds" "fb_completed F f' = set cs"
      "fb_exclusive F n m f = Some f'" by auto
    from Cons.IH [OF _ f'(1,2), of vs] ok MutuallyExclusive f'(3) show ?thesis by simp
  qed
qed

lemma construct_all_ok:
  assumes "\<forall>t \<in> set ts. \<forall>vs. \<exists>b. construct F t vs = Some (b, set_defaults (tree_flags t) vs) \<and> (\<forall>p. built_commands F p b = tree_commands p t)"
  shows "\<exists>bs. construct_all F ts vs = Some (bs, set_defaults (concat (map tree_flags ts)) vs) \<and>
    (\<forall>p. map (built_commands F p) bs = map (tree_commands p) ts)"
  using assms
proof (induction ts arbitrary: vs)
  case Nil
  then show ?case by simp
next
  case (Cons t ts)
  from Cons.prems obtain b where b: "construct F t vs = Some (b, set_defaults (tree_flags t) vs)" "\<forall>p. built_commands F p b = tree_commands p t"
    by (meson list.set_intros(1))
  from Cons.IH [of "set_defaults (tree_flags t) vs"] Cons.prems obtain bs where
    "construct_all F ts (set_defaults (tree_flags t) vs) = Some (bs, set_defaults (concat (map tree_flags ts)) (set_defaults (tree_flags t) vs))"
    "\<forall>p. map (built_commands F p) bs = map (tree_commands p) ts" by auto
  with b show ?case by simp
qed

lemma construct_ok:
  assumes "flag_laws F" "tree_ok t"
  shows "\<exists>b. construct F t vs = Some (b, set_defaults (tree_flags t) vs) \<and> (\<forall>p. built_commands F p b = tree_commands p t)"
  using assms(2)
proof (induction t arbitrary: vs)
  case (CmdTree c a ss ts)
  then have ok: "steps_ok [] [] ss" "\<forall>t \<in> set ts. tree_ok t" by (simp_all add: list_all_iff)
  from assms(1) have "fb_flags F (fb_new F) = []" "fb_completed F (fb_new F) = set []" by (simp_all add: flag_laws_def)
  from run_steps_ok [OF assms(1) ok(1) this, of vs] obtain f where
    f: "run_steps F ss (fb_new F, vs) = Some (f, set_defaults (declared ss) vs)" "fb_flags F f = declared ss" by auto
  have "\<forall>t \<in> set ts. \<forall>vs. \<exists>b. construct F t vs = Some (b, set_defaults (tree_flags t) vs) \<and> (\<forall>p. built_commands F p b = tree_commands p t)"
    using CmdTree.IH ok(2) by blast
  from construct_all_ok [OF this, of "set_defaults (declared ss) vs"] f show ?case by (auto simp: Let_def)
qed

end
