(* ===== verification/Command_Decls.thy ===== *)
theory Command_Decls
  imports Flag_Sets
begin

text \<open>
  The core commands of the CLI with their flags, \<^verbatim>\<open>pkg/command/\<close>, in the order in which \<^verbatim>\<open>createRootCmd\<close> makes them. A definition has
  the name of the function that makes the command; the flags of commands with long texts of help are definitions of their own.
  The commands of a group are built from first to last.
\<close>

definition decl :: "string \<Rightarrow> string \<Rightarrow> bool \<Rightarrow> string list \<Rightarrow> (string \<times> string) list \<Rightarrow> command" where
  "decl use short hidden aliases annotations =
     \<lparr>cmd_Use = use, cmd_Short = short, cmd_Hidden = hidden, cmd_Aliases = aliases, cmd_Annotations = annotations,
      cmd_Plugin = None, cmd_Src = [], cmd_Dst = []\<rparr>"

section \<open>Plugins\<close>

definition newListPluginCmd :: cmd_tree where
  "newListPluginCmd = CmdTree (decl ''list'' ''List installed plugins'' False [] []) AnyArgs
    [StringVarP ''outputFormat'' ''output'' ''o'' '''', Completion ''output'',
     BoolVarP ''showAllColumns'' ''wide'' '''' False, Mark HiddenFlag ''wide''] []"

definition newDescribePluginCmd :: cmd_tree where
  "newDescribePluginCmd = CmdTree (decl ''describe PLUGIN_NAME'' ''Describe a plugin'' False [] []) AnyArgs
    [StringVarP ''outputFormat'' ''output'' ''o'' '''', Completion ''output'',
     StringVarP ''targetStr'' ''target'' ''t'' '''', Completion ''target''] []"

definition install_plugin_flags :: "flag_step list" where
  "install_plugin_flags =
    [StringVarP ''group'' ''group'' '''' '''', Completion ''group'', StringVarP ''local'' ''local'' '''' '''',
     Mark Deprecated ''local'', StringVarP ''local'' ''local-source'' ''l'' '''', Mark HiddenFlag ''local-source'',
     StringVarP ''version'' ''version'' ''v'' ''latest'', Completion ''version'',
     StringVarP ''targetStr'' ''target'' ''t'' '''', Completion ''target'', MutuallyExclusive ''group'' ''local'',
     MutuallyExclusive ''group'' ''local-source'', MutuallyExclusive ''group'' ''version'',
     MutuallyExclusive ''group'' ''target'']"

definition newInstallPluginCmd :: cmd_tree where
  "newInstallPluginCmd = CmdTree (decl ''install [PLUGIN_NAME]'' ''Install a plugin'' False [] []) (MaximumNArgs 1)
    install_plugin_flags []"

definition newUpgradePluginCmd :: cmd_tree where
  "newUpgradePluginCmd = CmdTree (decl ''upgrade PLUGIN_NAME'' ''Upgrade a plugin'' False [] []) AnyArgs
    [StringVarP ''targetStr'' ''target'' ''t'' '''', Completion ''target''] []"

definition newDeletePluginCmd :: cmd_tree where
  "newDeletePluginCmd = CmdTree (decl ''uninstall PLUGIN_NAME'' ''Uninstall a plugin'' False [''delete''] []) AnyArgs
    [BoolVarP ''forceDelete'' ''yes'' ''y'' False, StringVarP ''targetStr'' ''target'' ''t'' '''', Completion ''target''] []"

definition newCleanPluginCmd :: cmd_tree where
  "newCleanPluginCmd = CmdTree (decl ''clean'' ''Clean the plugins'' False [] []) AnyArgs
    [] []"

definition newSyncPluginCmd :: cmd_tree where
  "newSyncPluginCmd = CmdTree (decl ''sync'' ''Installs all plugins recommended by the active contexts'' False [] []) AnyArgs
    [] []"

definition newListDiscoverySourceCmd :: cmd_tree where
  "newListDiscoverySourceCmd = CmdTree (decl ''list'' ''List available discovery sources'' False [] []) AnyArgs
    [StringVarP ''outputFormat'' ''output'' ''o'' '''', Completion ''output''] []"

definition newUpdateDiscoverySourceCmd :: cmd_tree where
  "newUpdateDiscoverySourceCmd = CmdTree (decl ''update SOURCE_NAME --uri <URI>'' ''Update a discovery source configuration'' False [] []) (ExactArgs 1)
    [StringVarP ''uri'' ''uri'' ''u'' '''', Try Required ''uri'', Completion ''uri''] []"

definition newDeleteDiscoverySourceCmd :: cmd_tree where
  "newDeleteDiscoverySourceCmd = CmdTree (decl ''delete SOURCE_NAME'' ''Delete a discovery source'' True [] []) (ExactArgs 1)
    [] []"

definition newInitDiscoverySourceCmd :: cmd_tree where
  "newInitDiscoverySourceCmd = CmdTree (decl ''init'' ''Initialize the discovery source to its default value'' False [] []) (MaximumNArgs 0)
    [] []"

definition newDiscoverySourceCmd :: cmd_tree where
  "newDiscoverySourceCmd = CmdTree (decl ''source'' ''Manage plugin discovery sources'' False [] []) AnyArgs
    [] 
    [newListDiscoverySourceCmd, newUpdateDiscoverySourceCmd, newDeleteDiscoverySourceCmd, newInitDiscoverySourceCmd]"

definition search_plugin_flags :: "flag_step list" where
  "search_plugin_flags =
    [BoolVarP ''showDetails'' ''show-details'' '''' False, StringVarP ''pluginName'' ''name'' ''n'' '''',
     Completion ''name'', StringVarP ''outputFormat'' ''output'' ''o'' '''', Completion ''output'',
     StringVarP ''local'' ''local'' '''' '''', Mark Deprecated ''local'', StringVarP ''local'' ''local-source'' ''l'' '''',
     Mark HiddenFlag ''local-source'', StringVarP ''targetStr'' ''target'' ''t'' '''', Completion ''target'',
     MutuallyExclusive ''local'' ''name'', MutuallyExclusive ''local'' ''target'',
     MutuallyExclusive ''local'' ''show-details'', MutuallyExclusive ''local-source'' ''name'',
     MutuallyExclusive ''local-source'' ''target'', MutuallyExclusive ''local-source'' ''show-details'']"

definition newSearchPluginCmd :: cmd_tree where
  "newSearchPluginCmd = CmdTree (decl ''search'' ''Search for available plugins'' False [] []) (MaximumNArgs 0)
    search_plugin_flags []"

definition newSearchCmd :: cmd_tree where
  "newSearchCmd = CmdTree (decl ''search'' ''Search for available plugin-groups'' False [] []) (MaximumNArgs 0)
    [StringVarP ''groupID'' ''name'' ''n'' '''', Completion ''name'', BoolVarP ''showDetails'' ''show-details'' '''' False,
     StringVarP ''outputFormat'' ''output'' ''o'' '''', Completion ''output''] []"

definition newGetCmd :: cmd_tree where
  "newGetCmd = CmdTree (decl ''get GROUP_NAME'' ''Get the content of the specified plugin-group'' False [] []) (ExactArgs 1)
    [StringVarP ''outputFormat'' ''output'' ''o'' '''', Completion ''output'',
     BoolVarP ''showNonMandatory'' ''all'' '''' False] []"

definition newPluginGroupCmd :: cmd_tree where
  "newPluginGroupCmd = CmdTree (decl ''group'' ''Manage plugin-groups'' False [] []) AnyArgs
    [] 
    [newSearchCmd, newGetCmd]"

definition download_bundle_flags :: "flag_step list" where
  "download_bundle_flags =
    [StringVarP ''dpbo.pluginDiscoveryOCIImage'' ''image'' '''' (TanzuCLIDefaultCentralPluginDiscoveryImage),
     Completion ''image'', StringVarP ''dpbo.tarFile'' ''to-tar'' '''' '''',
     StringSliceVarP ''dpbo.groups'' ''group'' '''' [], Completion ''group'',
     StringSliceVarP ''dpbo.plugins'' ''plugin'' '''' [], Completion ''plugin'',
     BoolVarP ''dpbo.refreshConfigOnly'' ''refresh-configuration-only'' '''' False,
     BoolVarP ''dpbo.dryRun'' ''dry-run'' '''' False, Try HiddenFlag ''dry-run'', MutuallyExclusive ''to-tar'' ''dry-run'',
     MutuallyExclusive ''group'' ''refresh-configuration-only'',
     MutuallyExclusive ''plugin'' ''refresh-configuration-only'']"

definition newDownloadBundlePluginCmd :: cmd_tree where
  "newDownloadBundlePluginCmd = CmdTree (decl ''download-bundle'' ''Download plugin bundle to the local system'' False [] []) AnyArgs
    download_bundle_flags []"

definition upload_bundle_flags :: "flag_step list" where
  "upload_bundle_flags =
    [StringVarP ''upbo.sourceTar'' ''tar'' '''' '''', StringVarP ''upbo.destinationRepo'' ''to-repo'' '''' '''',
     Completion ''to-repo'', Try Required ''tar'', Try Required ''to-repo'']"

definition newUploadBundlePluginCmd :: cmd_tree where
  "newUploadBundlePluginCmd = CmdTree (decl ''upload-bundle'' ''Upload plugin bundle to a repository'' False [] []) AnyArgs
    upload_bundle_flags []"

definition newPluginCmd :: cmd_tree where
  "newPluginCmd = CmdTree (decl ''plugin'' ''Manage CLI plugins'' False [] [(''group'', ''System'')]) AnyArgs
    [] 
    [newListPluginCmd, newInstallPluginCmd, newUpgradePluginCmd, newDescribePluginCmd, newDeletePluginCmd,
     newCleanPluginCmd, newSyncPluginCmd, newDiscoverySourceCmd, newSearchPluginCmd, newPluginGroupCmd,
     newDownloadBundlePluginCmd, newUploadBundlePluginCmd]"

section \<open>Login\<close>

text \<open>The default endpoint, \<^verbatim>\<open>DefaultTanzuPlatformEndpoint\<close>, comes from the central configuration.\<close>

definition newLoginCmd :: "string \<Rightarrow> cmd_tree" where
  "newLoginCmd ep = CmdTree (decl ''login'' ''Login to Tanzu Platform for Kubernetes'' False [''lo'', ''logins''] [(''group'', ''System'')]) AnyArgs
    [StringVarP ''loginEndpoint'' ''endpoint'' '''' ep, Completion ''endpoint'',
     StringVarP ''apiToken'' ''api-token'' '''' '''', Completion ''api-token'',
     BoolVarP ''staging'' ''staging'' '''' False, BoolVarP ''forceCSP'' ''force-csp'' '''' False,
     StringVarP ''endpointCACertPath'' ''endpoint-ca-certificate'' '''' '''',
     BoolVarP ''skipTLSVerify'' ''insecure-skip-tls-verify'' '''' False, Mark HiddenFlag ''api-token'',
     Mark HiddenFlag ''staging'', Mark HiddenFlag ''force-csp'',
     MutuallyExclusive ''endpoint-ca-certificate'' ''insecure-skip-tls-verify''] []"

section \<open>Configuration\<close>

definition newGetConfigCmd :: cmd_tree where
  "newGetConfigCmd = CmdTree (decl ''get'' ''Get the current configuration'' False [] []) NoArgs
    [] []"

definition newInitConfigCmd :: cmd_tree where
  "newInitConfigCmd = CmdTree (decl ''init'' ''Initialize config with defaults'' False [] []) AnyArgs
    [] []"

definition newSetConfigCmd :: cmd_tree where
  "newSetConfigCmd = CmdTree (decl ''set PATH <value>'' ''Set config values at the given PATH'' False [] []) AnyArgs
    [] []"

definition newUnsetConfigCmd :: cmd_tree where
  "newUnsetConfigCmd = CmdTree (decl ''unset PATH'' ''Unset config values at the given PATH'' False [] []) AnyArgs
    [] []"

definition newShowEULACmd :: cmd_tree where
  "newShowEULACmd = CmdTree (decl ''show'' ''Present EULA'' False [] []) AnyArgs
    [] []"

definition newAcceptEULACmd :: cmd_tree where
  "newAcceptEULACmd = CmdTree (decl ''accept'' ''Accept the EULA'' False [] []) AnyArgs
    [] []"

definition newEULACmd :: cmd_tree where
  "newEULACmd = CmdTree (decl ''eula'' ''Manage EULA acceptance'' False [] []) AnyArgs
    [] 
    [newShowEULACmd, newAcceptEULACmd]"

text \<open>The flags of these commands are declared by \<^verbatim>\<open>newCertCmd\<close>, after the commands were made.\<close>

definition newListCertCmd :: cmd_tree where
  "newListCertCmd = CmdTree (decl ''list'' ''List available certificate configurations'' False [] []) AnyArgs
    [StringVarP ''outputFormat'' ''output'' ''o'' '''', Completion ''output''] []"

definition add_cert_flags :: "flag_step list" where
  "add_cert_flags =
    [StringVarP ''host'' ''host'' '''' '''', Completion ''host'',
     StringVarP ''caCertPathForAdd'' ''ca-certificate'' '''' '''', Mark Deprecated ''ca-certificate'',
     StringVarP ''caCertPathForAdd'' ''ca-cert'' '''' '''',
     StringVarP ''skipCertVerifyForAdd'' ''skip-cert-verify'' '''' ''false'', Completion ''skip-cert-verify'',
     StringVarP ''insecureForAdd'' ''insecure'' '''' ''false'', Completion ''insecure'', Mark Required ''host'']"

definition newAddCertCmd :: cmd_tree where
  "newAddCertCmd = CmdTree (decl ''add'' ''Add a certificate configuration for a host'' False [] []) AnyArgs
    add_cert_flags []"

definition update_cert_flags :: "flag_step list" where
  "update_cert_flags =
    [StringVarP ''caCertPathForUpdate'' ''ca-certificate'' '''' '''', Mark Deprecated ''ca-certificate'',
     StringVarP ''caCertPathForUpdate'' ''ca-cert'' '''' '''',
     StringVarP ''skipCertVerifyForUpdate'' ''skip-cert-verify'' '''' '''', Completion ''skip-cert-verify'',
     StringVarP ''insecureForUpdate'' ''insecure'' '''' '''', Completion ''insecure'']"

definition newUpdateCertCmd :: cmd_tree where
  "newUpdateCertCmd = CmdTree (decl ''update HOST'' ''Update certificate configuration for a host'' False [] []) (ExactArgs 1)
    update_cert_flags []"

definition newDeleteCertCmd :: cmd_tree where
  "newDeleteCertCmd = CmdTree (decl ''delete HOST'' ''Delete certificate configuration for a host'' False [] []) (ExactArgs 1)
    [] []"

text \<open>The source declares the flags of the list command after those of the other two; each command has a flag set of its
  own and only the list command declares \<open>outputFormat\<close>, so that the order makes no difference.\<close>

definition newCertCmd :: cmd_tree where
  "newCertCmd = CmdTree (decl ''cert'' ''Manage certificate configuration of hosts'' False [] []) AnyArgs
    [] 
    [newListCertCmd, newAddCertCmd, newUpdateCertCmd, newDeleteCertCmd]"

definition newConfigCmd :: cmd_tree where
  "newConfigCmd = CmdTree (decl ''config'' ''Configuration for the CLI'' False [] [(''group'', ''System'')]) AnyArgs
    [] 
    [newGetConfigCmd, newInitConfigCmd, newSetConfigCmd, newUnsetConfigCmd, newEULACmd, newCertCmd]"

section \<open>Contexts\<close>

definition create_ctx_flags :: "flag_step list" where
  "create_ctx_flags =
    [StringVarP ''ctxName'' ''name'' '''' '''', Mark Deprecated ''name'', StringVarP ''endpoint'' ''endpoint'' '''' '''',
     Completion ''endpoint'', StringVarP ''apiToken'' ''api-token'' '''' '''', Completion ''api-token'',
     StringVarP ''kubeConfig'' ''kubeconfig'' '''' '''', StringVarP ''kubeContext'' ''kubecontext'' '''' '''',
     Completion ''kubecontext'', BoolVarP ''stderrOnly'' ''stderr-only'' '''' False,
     BoolVarP ''forceCSP'' ''force-csp'' '''' False, BoolVarP ''staging'' ''staging'' '''' False,
     StringVarP ''endpointCACertPath'' ''endpoint-ca-certificate'' '''' '''',
     BoolVarP ''skipTLSVerify'' ''insecure-skip-tls-verify'' '''' False, StringVarP ''contextTypeStr'' ''type'' ''t'' '''',
     Completion ''type'', Mark HiddenFlag ''api-token'', Mark HiddenFlag ''stderr-only'', Mark HiddenFlag ''force-csp'',
     Mark HiddenFlag ''staging'', MutuallyExclusive ''endpoint'' ''kubecontext'',
     MutuallyExclusive ''endpoint'' ''kubeconfig'',
     MutuallyExclusive ''endpoint-ca-certificate'' ''insecure-skip-tls-verify'']"

definition newCreateCtxCmd :: cmd_tree where
  "newCreateCtxCmd = CmdTree (decl ''create CONTEXT_NAME'' ''Create a Tanzu CLI context'' False [] []) (MaximumNArgs 1)
    create_ctx_flags []"

definition newListCtxCmd :: cmd_tree where
  "newListCtxCmd = CmdTree (decl ''list'' ''List contexts'' False [] []) AnyArgs
    [StringVarP ''targetStr'' ''target'' '''' '''', Completion ''target'',
     StringVarP ''contextTypeStr'' ''type'' ''t'' '''', Completion ''type'',
     BoolVarP ''onlyCurrent'' ''current'' '''' False, BoolVarP ''showAllColumns'' ''wide'' '''' False,
     StringVarP ''outputFormat'' ''output'' ''o'' ''table'', Completion ''output'', Mark Deprecated ''target''] []"

definition newGetCtxCmd :: cmd_tree where
  "newGetCtxCmd = CmdTree (decl ''get CONTEXT_NAME'' ''Display a context from the config'' False [] []) AnyArgs
    [StringVarP ''getOutputFmt'' ''output'' ''o'' ''yaml'', Completion ''output''] []"

definition newCurrentCtxCmd :: cmd_tree where
  "newCurrentCtxCmd = CmdTree (decl ''current'' ''Display the current context'' False [] []) NoArgs
    [BoolVarP ''shortCtx'' ''short'' '''' False] []"

definition newDeleteCtxCmd :: cmd_tree where
  "newDeleteCtxCmd = CmdTree (decl ''delete CONTEXT_NAME'' ''Delete a context from the config'' False [] []) AnyArgs
    [BoolVarP ''unattended'' ''yes'' ''y'' False] []"

definition newUseCtxCmd :: cmd_tree where
  "newUseCtxCmd = CmdTree (decl ''use CONTEXT_NAME'' ''Set the context to be used by default'' False [] []) AnyArgs
    [] []"

definition newUnsetCtxCmd :: cmd_tree where
  "newUnsetCtxCmd = CmdTree (decl ''unset CONTEXT_NAME'' ''Unset the active context so that it is not used by default'' False [] []) (MaximumNArgs 1)
    [StringVarP ''targetStr'' ''target'' '''' '''', Completion ''target'',
     StringVarP ''contextTypeStr'' ''type'' ''t'' '''', Completion ''type'', Mark Deprecated ''target''] []"

definition newGetCtxTokenCmd :: cmd_tree where
  "newGetCtxTokenCmd = CmdTree (decl ''get-token CONTEXT_NAME'' ''Get the valid CSP token for the given tanzu context'' True [] []) (ExactArgs 1)
    [] []"

definition newTanzuActiveResourceCmd :: cmd_tree where
  "newTanzuActiveResourceCmd = CmdTree (decl ''tanzu-active-resource CONTEXT_NAME'' ''Updates the tanzu active resource for the given context of type tanzu (subject to change)'' True [] []) (ExactArgs 1)
    [StringVarP ''projectStr'' ''project'' '''' '''', StringVarP ''projectIDStr'' ''project-id'' '''' '''',
     StringVarP ''spaceStr'' ''space'' '''' '''', StringVarP ''clustergroupStr'' ''clustergroup'' '''' ''''] []"

definition newUpdateCtxCmd :: cmd_tree where
  "newUpdateCtxCmd = CmdTree (decl ''update'' ''Update an aspect of a context (subject to change)'' True [] []) AnyArgs
    [] 
    [newTanzuActiveResourceCmd]"

definition newContextCmd :: cmd_tree where
  "newContextCmd = CmdTree (decl ''context'' ''Configure and manage contexts for the Tanzu CLI'' False [''ctx'', ''contexts''] [(''group'', ''System'')]) AnyArgs
    [] 
    [newCreateCtxCmd, newListCtxCmd, newGetCtxCmd, newCurrentCtxCmd, newDeleteCtxCmd, newUseCtxCmd, newUnsetCtxCmd,
     newGetCtxTokenCmd, newUpdateCtxCmd]"

section \<open>Other commands\<close>

definition newVersionCmd :: cmd_tree where
  "newVersionCmd = CmdTree (decl ''version'' ''Version information'' False [] [(''group'', ''System'')]) AnyArgs
    [] []"

definition newInitCmd :: cmd_tree where
  "newInitCmd = CmdTree (decl ''init'' ''Initialize the CLI'' True [] [(''group'', ''System'')]) AnyArgs
    [] []"

definition newCompletionCmd :: cmd_tree where
  "newCompletionCmd = CmdTree (decl (''completion ['' @ join ''|'' completionShells @ '']'') ''Output shell completion code'' False [] [(''group'', ''System'')]) AnyArgs
    [] []"

definition newAPITokenCreateCmd :: cmd_tree where
  "newAPITokenCreateCmd = CmdTree (decl ''create'' ''Create a new API Token for Tanzu Platform Self-managed'' False [] []) AnyArgs
    [] []"

definition newAPITokenCmd :: cmd_tree where
  "newAPITokenCmd = CmdTree (decl ''api-token'' ''Manage API Tokens for Tanzu Platform Self-managed'' False [''apitoken''] [(''group'', ''System'')]) AnyArgs
    [] 
    [newAPITokenCreateCmd]"

definition newCEIPParticipationSetCmd :: cmd_tree where
  "newCEIPParticipationSetCmd = CmdTree (decl ''set OPT_IN_BOOL'' ''Set the opt-in preference for CEIP (subject to change)'' False [] []) (ExactArgs 1)
    [] []"

definition newCEIPParticipationGetCmd :: cmd_tree where
  "newCEIPParticipationGetCmd = CmdTree (decl ''get'' ''Get the current CEIP opt-in status (subject to change)'' False [] []) AnyArgs
    [] []"

definition newCEIPParticipationCmd :: cmd_tree where
  "newCEIPParticipationCmd = CmdTree (decl ''ceip-participation'' (''Manage VMware'' @ [CHR 0x27] @ ''s Customer Experience Improvement Program (CEIP) Participation (subject to change)'') True [''ceip''] [(''group'', ''System'')]) AnyArgs
    [] 
    [newCEIPParticipationSetCmd, newCEIPParticipationGetCmd]"

definition newGenAllDocsCmd :: cmd_tree where
  "newGenAllDocsCmd = CmdTree (decl ''generate-all-docs'' ''Generate Cobra CLI docs for all plugins installed'' True [] []) AnyArgs
    [StringVarP ''docsDir'' ''docs-dir'' ''d'' ''docs/cli/commands''] []"

section \<open>The core commands\<close>

text \<open>Those before and after the groups of targets.\<close>

definition core_trees :: "string \<Rightarrow> cmd_tree list" where
  "core_trees ep =
     [newVersionCmd, newPluginCmd, newLoginCmd ep, newInitCmd, newCompletionCmd, newConfigCmd, newContextCmd, newAPITokenCmd]"

definition last_trees :: "cmd_tree list" where
  "last_trees = [newCEIPParticipationCmd, newGenAllDocsCmd]"

definition command_trees :: "string \<Rightarrow> cmd_tree list" where
  "command_trees ep = core_trees ep @ map (\<lambda>c. CmdTree c AnyArgs [] []) target_group_cmds @ last_trees"

end
