(* ===== verification/Command_Line.thy ===== *)
theory Command_Line
  imports Command_Decls
begin

text \<open>
  The command line as it is built: no declaration panics, what the variables of the flags start with, which commands run before the
  licence agreement was accepted, and that plugins leave the core commands in place.
\<close>

section \<open>The flags\<close>

lemma trees_ok: "list_all tree_ok (command_trees ep)"
  by code_simp

definition all_flags :: "string \<Rightarrow> flag_decl list" where
  "all_flags ep = concat (map tree_flags (command_trees ep))"

definition all_commands :: "string \<Rightarrow> (string list \<times> flag_decl list) list" where
  "all_commands ep = concat (map (tree_commands [''tanzu'']) (command_trees ep))"

text \<open>Before flags are parsed a variable has the default of its last declaration.\<close>

definition starts_with :: "flag_decl \<Rightarrow> flag_value" where
  "starts_with d = (if fg_var d = ''outputFormat'' then FString ''table'' else fg_default d)"

lemma last_defaults:
  "list_all (\<lambda>d. map_option fg_default (find (\<lambda>e. fg_var e = fg_var d) (rev (all_flags ep))) = Some (starts_with d)) (all_flags ep)"
  by code_simp

lemma declared_once:
  "list_all (\<lambda>(p, ds). distinct (map fg_name ds) \<and> list_all (\<lambda>d. fg_name d \<noteq> ''help'' \<and> fg_short d \<noteq> ''h'') ds) (all_commands ep)"
  "distinct (map fst (all_commands ep))"
  by code_simp+

lemma all_constructed:
  assumes "flag_laws F"
  shows "\<exists>bs. construct_all F (command_trees ep) [] = Some (bs, set_defaults (all_flags ep) []) \<and>
    (\<forall>p. map (built_commands F p) bs = map (tree_commands p) (command_trees ep))"
proof -
  have "\<forall>t \<in> set (command_trees ep). \<forall>vs. \<exists>b. construct F t vs = Some (b, set_defaults (tree_flags t) vs) \<and>
      (\<forall>p. built_commands F p b = tree_commands p t)"
    using construct_ok [OF assms] trees_ok [of ep] by (simp add: list_all_iff)
  from construct_all_ok [OF this] show ?thesis by (simp add: all_flags_def)
qed

text \<open>C27 (functional): building the command line never panics, and gives each command the flags that its declaration lists, with
  different names and none that the library reserves for help. Before the flags are parsed, the variable of every flag holds the
  default of the flag, with one exception: the output format, a variable that all commands share, is the table of the last command.\<close>

theorem flags_start_with_defaults:
  assumes "flag_laws F"
  shows "\<exists>bs vars. construct_all F (command_trees ep) [] = Some (bs, vars) \<and>
     concat (map (built_commands F [''tanzu'']) bs) = all_commands ep \<and> distinct (map fst (all_commands ep)) \<and>
     (\<forall>(p, ds) \<in> set (all_commands ep). distinct (map fg_name ds) \<and> (\<forall>d \<in> set ds. fg_name d \<noteq> ''help'' \<and> fg_short d \<noteq> ''h'')) \<and>
     (\<forall>d \<in> set (all_flags ep). map_of vars (fg_var d) =
        Some (if fg_var d = ''outputFormat'' then FString ''table'' else fg_default d))"
proof -
  obtain bs where
    bs: "construct_all F (command_trees ep) [] = Some (bs, set_defaults (all_flags ep) [])"
    "map (built_commands F [''tanzu'']) bs = map (tree_commands [''tanzu'']) (command_trees ep)"
    using all_constructed [OF assms, of ep] by auto
  have "map_of (set_defaults (all_flags ep) []) (fg_var d) = Some (starts_with d)" if "d \<in> set (all_flags ep)" for d
    using last_defaults [of ep] that by (auto simp: list_all_iff set_defaults_lookup split: option.splits)
  then show ?thesis
    using bs declared_once [of ep] by (auto simp: all_commands_def list_all_iff starts_with_def)
qed

section \<open>The output of \<^verbatim>\<open>tanzu plugin describe\<close>\<close>

text \<open>\<open>listTable\<close> is the format of the library for a table with a row per attribute.\<close>

definition describe_format :: "string \<Rightarrow> string \<Rightarrow> string" where
  "describe_format listTable outputFormat = (if outputFormat = '''' then listTable else outputFormat)"

text \<open>C29 (error): without the flag for the output, \<^verbatim>\<open>tanzu plugin describe\<close> prints the list table it sets for this case when its
  command is built alone, as in the tests, but a plain table in the program, where \<^verbatim>\<open>tanzu context list\<close> is built after it.\<close>

theorem describe_prints_plain_table:
  assumes "flag_laws F" "construct F newDescribePluginCmd [] = Some (b, vars1)" "map_of vars1 ''outputFormat'' = Some (FString format1)"
    and "construct_all F (command_trees ep) [] = Some (bs, vars2)" "map_of vars2 ''outputFormat'' = Some (FString format2)"
  shows "describe_format listTable format1 = listTable \<and> describe_format listTable format2 = ''table''"
proof -
  have "tree_ok newDescribePluginCmd" by code_simp
  from construct_ok [OF assms(1) this, of "[]"] assms(2) have "vars1 = set_defaults (tree_flags newDescribePluginCmd) []" by auto
  moreover have "map_of (set_defaults (tree_flags newDescribePluginCmd) []) ''outputFormat'' = Some (FString '''')" by code_simp
  ultimately have f1: "format1 = ''''" using assms(3) by simp
  from all_constructed [OF assms(1), of ep] assms(4) have "vars2 = set_defaults (all_flags ep) []" by auto
  moreover have "map_of (set_defaults (all_flags ep) []) ''outputFormat'' = Some (FString ''table'')" by code_simp
  ultimately have "FString format2 = FString ''table''" using assms(5) by (simp only: option.inject)
  with f1 show ?thesis by (simp add: describe_format_def)
qed

section \<open>Commands that run before the agreement\<close>

definition agreement_free :: "string list" where
  "agreement_free =
     [''tanzu version'', ''tanzu completion'', ''tanzu config set'', ''tanzu config eula'', ''tanzu config eula show'',
      ''tanzu config eula accept'', ''tanzu ceip-participation set'', ''tanzu context current'', ''tanzu context get-token'']"

lemma free_commands:
  "list_all (\<lambda>(p, ds). shouldSkipPrompts (join '' '' p) \<longleftrightarrow> join '' '' p \<in> set agreement_free) (all_commands ep)"
  by code_simp

lemma skipped_prompts:
  assumes "PersistentPreRunE P commandPath cfg = (cfg', steps, e)" "shouldSkipPrompts commandPath"
  shows "cfg' = cfg \<and> PreConfigureEULA \<notin> set steps \<and> PreEssentialPlugins \<notin> set steps"
  using assms skip_prompts_essential [OF assms(2)]
  by (auto simp: PersistentPreRunE_def Let_def checkGlobalInit_def split: option.splits if_splits)

lemma prompted:
  assumes "PersistentPreRunE P commandPath cfg = (cfg', steps, None)" "\<not> shouldSkipPrompts commandPath"
  shows "cs_EULAStatus cfg' = EULAStatusAccepted \<and> IsCompatibleEULAAccepted (pr_config P) (cs_EULAAcceptedVersions cfg')"
proof -
  obtain cfg1 s e where r: "prompt_steps P cfg = (cfg1, s, e)" by (metis prod_cases3)
  with assms have "e = None \<and> cfg' = cfg1"
    by (auto simp: PersistentPreRunE_def Let_def split: option.splits)
  with r prompt_steps_accepted [of P cfg cfg1 s] show ?thesis by simp
qed

text \<open>C28 (safety): of the commands of the core, exactly nine run without the licence agreement, which their hook then leaves alone;
  the hook of any other lets it run only when a compatible version of the agreement was accepted.\<close>

theorem core_commands_need_agreement:
  assumes "(p, ds) \<in> set (all_commands ep)" "PersistentPreRunE P (join '' '' p) cfg = (cfg', steps, None)"
  shows "if join '' '' p \<in> set agreement_free then cfg' = cfg \<and> PreConfigureEULA \<notin> set steps \<and> PreEssentialPlugins \<notin> set steps
     else cs_EULAStatus cfg' = EULAStatusAccepted \<and> IsCompatibleEULAAccepted (pr_config P) (cs_EULAAcceptedVersions cfg')"
proof -
  have "shouldSkipPrompts (join '' '' p) \<longleftrightarrow> join '' '' p \<in> set agreement_free"
    using free_commands [of ep] assms(1) by (auto simp: list_all_iff)
  then show ?thesis using skipped_prompts [OF assms(2)] prompted [OF assms(2)] by simp
qed

text \<open>The commands that are skipped are found by a prefix: the command of a plugin whose name begins with that of a core
  command which is free runs without the agreement as well.\<close>

theorem agreement_skipped_by_prefix:
  assumes "PersistentPreRunE P (''tanzu '' @ name) cfg = (cfg', steps, e)"
    and "has_prefix name ''version'' \<or> has_prefix name ''completion'' \<or> has_prefix name ''pinniped-auth''"
  shows "cfg' = cfg \<and> PreConfigureEULA \<notin> set steps"
proof -
  have "shouldSkipPrompts (''tanzu '' @ name)"
    unfolding shouldSkipPrompts_def isSkip_iff using assms(2) by (auto simp: has_prefix_def)
  from skipped_prompts [OF assms(1) this] show ?thesis by simp
qed

section \<open>Core commands and plugins\<close>

definition cobra_name :: "'h cobra \<Rightarrow> bool" where
  "cobra_name C \<longleftrightarrow> (\<forall>c. cb_Name C c = takeWhile (\<lambda>x. x \<noteq> CHR '' '') (cmd_Use c))"

definition core_env :: "string \<Rightarrow> root_env \<Rightarrow> root_env" where
  "core_env ep R = R\<lparr>rv_coreCmds := map tree_cmd (core_trees ep), rv_lastCmds := map tree_cmd last_trees\<rparr>"

text \<open>Adding commands whose names are different and new.\<close>

lemma add_commands_step:
  assumes "cobra_laws C A" "root_ok C A r h" "distinct (map (cb_Name C) cs)" "list_all (\<lambda>c. \<not> isStandalonePluginCommand c) cs"
    and "cb_Name C ` set cs \<inter> cname C h ` set (cb_Commands C h r) = {}" "add_commands C r cs h = (h', xs)"
  shows "root_step C A r h h' \<and> (\<forall>c \<in> set cs. \<exists>x \<in> set (cb_Commands C h' r). cb_get C h' x = c) \<and>
     cname C h' ` set (cb_Commands C h' r) = cname C h ` set (cb_Commands C h r) \<union> cb_Name C ` set cs"
  using assms(2-)
proof (induction cs arbitrary: h xs)
  case Nil
  then show ?case by (auto simp: root_step_refl)
next
  case (Cons c cs)
  obtain h1 x where n: "cb_new C c h = (h1, x)" by force
  note new = new_step [OF assms(1) Cons.prems(1) n] and get1 = cobra_new [OF assms(1) n]
  let ?h2 = "cb_AddCommand C r x h1"
  have ok1: "root_ok C A r h1" using new(1) by (simp add: root_step_def)
  have r: "r \<noteq> x" using get1(1) Cons.prems(1) by (auto simp: root_ok_def)
  have "cname C h1 y = cname C h y" if "y \<in> set (cb_Commands C h r)" for y
    using new(1) Cons.prems(1) that by (auto simp: root_step_def root_ok_def)
  then have names1: "cname C h1 ` set (cb_Commands C h1 r) = cname C h ` set (cb_Commands C h r)"
    unfolding new(2) by (intro image_cong) simp_all
  have fresh: "cname C h1 x \<notin> cname C h1 ` set (cb_Commands C h1 r)"
    unfolding names1 using new(4) Cons.prems(4) by auto
  note add = add_step [OF assms(1) ok1 r new(5) fresh] and get = cobra_add [OF assms(1) r, of h1]
  have ok2: "root_ok C A r ?h2" using add(1) by (simp add: root_step_def)
  have set2: "set (cb_Commands C ?h2 r) = insert x (set (cb_Commands C h1 r))"
    by (metis get(3) set_mset_add_mset_insert set_mset_mset)
  have names2: "cname C ?h2 ` set (cb_Commands C ?h2 r) = insert (cb_Name C c) (cname C h ` set (cb_Commands C h r))"
    using set2 names1 new(4) by (simp add: get(2))
  obtain ys where rest: "add_commands C r cs ?h2 = (h', ys)"
    using Cons.prems(5) n by (auto split: prod.splits)
  have disj: "cb_Name C ` set cs \<inter> cname C ?h2 ` set (cb_Commands C ?h2 r) = {}"
    unfolding names2 using Cons.prems(2,4) by auto
  have "distinct (map (cb_Name C) cs)" "list_all (\<lambda>c. \<not> isStandalonePluginCommand c) cs" using Cons.prems(2,3) by simp_all
  note ih = Cons.IH [OF ok2 this disj rest]
  have "root_step C A r h h'" using root_step_trans [OF Cons.prems(1) root_step_trans [OF Cons.prems(1) new(1) add(1)]] ih by blast
  moreover have "cb_get C ?h2 x = c" using get(2) new(4) by simp
  with ih add(2) new(5) Cons.prems(3) have "x \<in> set (cb_Commands C h' r)" "cb_get C h' x = c"
    by (auto simp: root_step_def get(1))
  ultimately show ?case using ih names2 by auto
qed

lemma core_names:
  "distinct (map (\<lambda>t. takeWhile (\<lambda>x. x \<noteq> CHR '' '') (cmd_Use (tree_cmd t))) (command_trees ep))"
  by code_simp

lemma core_not_plugins: "list_all (\<lambda>t. \<not> isStandalonePluginCommand (tree_cmd t)) (command_trees ep)"
  by code_simp

lemma step_keeps:
  assumes "root_step C A r k k'" "root_ok C A r k" "\<not> isStandalonePluginCommand c" "\<exists>x \<in> set (cb_Commands C k r). cb_get C k x = c"
  shows "\<exists>x \<in> set (cb_Commands C k' r). cb_get C k' x = c"
proof -
  from assms(4) obtain x where x: "x \<in> set (cb_Commands C k r)" "cb_get C k x = c" by blast
  then have "x \<in> set (cb_Commands C k' r)" using assms(1,3) by (auto simp: root_step_def)
  moreover have "cb_get C k' x = c" using assms(1,2) x by (auto simp: root_step_def root_ok_def)
  ultimately show ?thesis by blast
qed

lemma initial_tree_step:
  assumes "cobra_laws C A" "cobra_name C" "initial_tree (core_env ep R) C h0 = (h, r, T)"
  shows "root_ok C A r h \<and> (\<forall>t \<in> set (command_trees ep). \<exists>x \<in> set (cb_Commands C h r). cb_get C h x = tree_cmd t)"
proof -
  let ?cs = "map tree_cmd (core_trees ep)" and ?ls = "map tree_cmd last_trees"
  obtain h1 where n: "cb_new C newRootCmd h0 = (h1, r)" using assms(3) by (auto simp: initial_tree_def split: prod.splits)
  obtain h2 xs where a1: "add_commands C r ?cs h1 = (h2, xs)" by force
  obtain h3 ys where a2: "add_commands C r target_group_cmds h2 = (h3, ys)" by force
  obtain zs where a3: "add_commands C r ?ls h3 = (h, zs)"
    using assms(3) n a1 a2 by (cases "add_commands C r ?ls h3") (auto simp: initial_tree_def core_env_def)
  have all: "map tree_cmd (command_trees ep) = ?cs @ target_group_cmds @ ?ls"
    by (simp add: command_trees_def o_def)
  have "map (cb_Name C) (map tree_cmd (command_trees ep)) = map (\<lambda>t. takeWhile (\<lambda>x. x \<noteq> CHR '' '') (cmd_Use (tree_cmd t))) (command_trees ep)"
    using assms(2) by (simp add: cobra_name_def)
  with core_names [of ep] have "distinct (map (cb_Name C) (?cs @ target_group_cmds @ ?ls))" unfolding all by simp
  then have d: "distinct (map (cb_Name C) ?cs)" "distinct (map (cb_Name C) target_group_cmds)" "distinct (map (cb_Name C) ?ls)"
    "cb_Name C ` set target_group_cmds \<inter> cb_Name C ` set ?cs = {}"
    "cb_Name C ` set ?ls \<inter> (cb_Name C ` set ?cs \<union> cb_Name C ` set target_group_cmds) = {}"
    by (simp_all only: map_append distinct_append set_append set_map) blast+
  have "list_all (\<lambda>c. \<not> isStandalonePluginCommand c) (map tree_cmd (command_trees ep))"
    using core_not_plugins [of ep] by (simp add: list_all_iff)
  then have p: "list_all (\<lambda>c. \<not> isStandalonePluginCommand c) ?cs" "list_all (\<lambda>c. \<not> isStandalonePluginCommand c) target_group_cmds"
    "list_all (\<lambda>c. \<not> isStandalonePluginCommand c) ?ls"
    unfolding all by (simp_all only: list_all_append)
  note new = cobra_new [OF assms(1) n]
  have ok1: "root_ok C A r h1" and e1: "cb_Commands C h1 r = []" using new by (simp_all add: root_ok_def)
  have "cb_Name C ` set ?cs \<inter> cname C h1 ` set (cb_Commands C h1 r) = {}" by (simp add: e1)
  note s1 = add_commands_step [OF assms(1) ok1 d(1) p(1) this a1]
  then have ok2: "root_ok C A r h2" and n2: "cname C h2 ` set (cb_Commands C h2 r) = cb_Name C ` set ?cs"
    by (simp_all add: root_step_def e1)
  note s2 = add_commands_step [OF assms(1) ok2 d(2) p(2) d(4) [folded n2] a2]
  then have ok3: "root_ok C A r h3" by (simp add: root_step_def)
  have n3: "cname C h3 ` set (cb_Commands C h3 r) = cb_Name C ` set ?cs \<union> cb_Name C ` set target_group_cmds" using s2 n2 by simp
  note s3 = add_commands_step [OF assms(1) ok3 d(3) p(3) d(5) [folded n3] a3]
  have "\<exists>x \<in> set (cb_Commands C h r). cb_get C h x = c" if "c \<in> set (map tree_cmd (command_trees ep))" for c
  proof -
    from that consider "c \<in> set ?cs" | "c \<in> set target_group_cmds" | "c \<in> set ?ls" unfolding all by auto
    then show ?thesis
    proof cases
      case 1
      with p(1) have np: "\<not> isStandalonePluginCommand c" unfolding list_all_iff by blast
      from 1 s1 have "\<exists>x \<in> set (cb_Commands C h2 r). cb_get C h2 x = c" by blast
      then show ?thesis
        by (rule step_keeps [OF conjunct1 [OF s3] ok3 np step_keeps [OF conjunct1 [OF s2] ok2 np]])
    next
      case 2
      with p(2) have np: "\<not> isStandalonePluginCommand c" unfolding list_all_iff by blast
      from 2 s2 have "\<exists>x \<in> set (cb_Commands C h3 r). cb_get C h3 x = c" by blast
      then show ?thesis by (rule step_keeps [OF conjunct1 [OF s3] ok3 np])
    qed (use s3 in blast)
  qed
  with s3 show ?thesis by (simp add: root_step_def)
qed

text \<open>Whatever plugins are installed, the root command of the CLI keeps every command that the core declares, unchanged
  and under a name that no other command of the root has.\<close>

theorem core_commands_stay:
  assumes "cobra_laws C A" "cobra_name C" "initial_tree (core_env ep R) C h0 = (h, r, T)"
    and "root_plugins_loop C r plugins (h, [], []) = (h', byPlugin, byCore)"
  shows "distinct (map (cname C h') (cb_Commands C h' r)) \<and>
     (\<forall>t \<in> set (command_trees ep). \<exists>x \<in> set (cb_Commands C h' r). cb_get C h' x = tree_cmd t)"
proof -
  note init = initial_tree_step [OF assms(1-3)]
  note st = root_plugins_loop_step [OF assms(1) conjunct1 [OF init] assms(4)]
  have "\<exists>x \<in> set (cb_Commands C h' r). cb_get C h' x = tree_cmd t" if "t \<in> set (command_trees ep)" for t
  proof -
    have "\<not> isStandalonePluginCommand (tree_cmd t)" using core_not_plugins [of ep] that by (simp add: list_all_iff)
    moreover have "\<exists>x \<in> set (cb_Commands C h r). cb_get C h x = tree_cmd t" using init that by blast
    ultimately show ?thesis by (rule step_keeps [OF conjunct1 [OF st] conjunct1 [OF init]])
  qed
  with st show ?thesis by (simp add: root_step_def root_ok_def)
qed

text \<open>A set of flags kept in a list, for the witnesses.\<close>

definition demo_flag_lib :: "(flag_decl list \<times> string list) flag_lib" where
  "demo_flag_lib = \<lparr>fb_new = ([], []), fb_flags = fst, fb_completed = (\<lambda>f. set (snd f)),
     fb_add = (\<lambda>d (f, vs). if may_add (fst f) d then Some ((fst f @ [d], snd f), AList.update (fg_var d) (fg_default d) vs) else None),
     fb_complete = (\<lambda>n f. if n \<in> fg_name ` set (fst f) \<and> n \<notin> set (snd f) then Some (fst f, n # snd f) else None),
     fb_mark = (\<lambda>m n f. if n \<in> fg_name ` set (fst f) then Some f else None),
     fb_exclusive = (\<lambda>n m f. if n \<in> fg_name ` set (fst f) \<and> m \<in> fg_name ` set (fst f) then Some f else None)\<rparr>"

lemma demo_flag_laws: "flag_laws demo_flag_lib"
  by (auto simp: flag_laws_def demo_flag_lib_def)

theorem flags_start_with_defaults_witness:
  "\<exists>bs vars. construct_all demo_flag_lib (command_trees ''ep'') [] = Some (bs, vars) \<and> map_of vars ''outputFormat'' = Some (FString ''table'') \<and>
     map_of vars ''getOutputFmt'' = Some (FString ''yaml'')"
proof -
  have "\<exists>d \<in> set (all_flags ''ep''). fg_var d = ''outputFormat''"
    "\<exists>d \<in> set (all_flags ''ep''). fg_var d = ''getOutputFmt'' \<and> fg_default d = FString ''yaml''" by code_simp+
  then obtain d1 d2 where d: "d1 \<in> set (all_flags ''ep'')" "fg_var d1 = ''outputFormat''"
    "d2 \<in> set (all_flags ''ep'')" "fg_var d2 = ''getOutputFmt''" "fg_default d2 = FString ''yaml''" by blast
  obtain bs vars where v: "construct_all demo_flag_lib (command_trees ''ep'') [] = Some (bs, vars)"
    "\<forall>d \<in> set (all_flags ''ep''). map_of vars (fg_var d) = Some (if fg_var d = ''outputFormat'' then FString ''table'' else fg_default d)"
    using flags_start_with_defaults [OF demo_flag_laws, of "''ep''"] by blast
  from bspec [OF v(2) d(1)] bspec [OF v(2) d(3)] d v(1) show ?thesis by simp
qed

theorem describe_prints_plain_table_witness:
  "\<exists>b vars1 bs vars2 f1 f2. construct demo_flag_lib newDescribePluginCmd [] = Some (b, vars1) \<and> map_of vars1 ''outputFormat'' = Some (FString f1) \<and>
     construct_all demo_flag_lib (command_trees ''ep'') [] = Some (bs, vars2) \<and> map_of vars2 ''outputFormat'' = Some (FString f2) \<and>
     describe_format ''listtable'' f1 = ''listtable'' \<and> describe_format ''listtable'' f2 = ''table''"
proof -
  have t: "tree_ok newDescribePluginCmd" by code_simp
  from construct_ok [OF demo_flag_laws t, of "[]"] obtain b where
    b: "construct demo_flag_lib newDescribePluginCmd [] = Some (b, set_defaults (tree_flags newDescribePluginCmd) [])" by blast
  obtain bs where bs: "construct_all demo_flag_lib (command_trees ''ep'') [] = Some (bs, set_defaults (all_flags ''ep'') [])"
    using all_constructed [OF demo_flag_laws, of "''ep''"] by blast
  have v1: "map_of (set_defaults (tree_flags newDescribePluginCmd) []) ''outputFormat'' = Some (FString '''')" by code_simp
  have v2: "map_of (set_defaults (all_flags ''ep'') []) ''outputFormat'' = Some (FString ''table'')" by code_simp
  from b bs v1 v2 describe_prints_plain_table [OF demo_flag_laws b v1 bs v2, of "''listtable''"] show ?thesis by blast
qed

theorem core_commands_need_agreement_witness:
  "\<exists>cfg' steps. PersistentPreRunE demo_prerun ''tanzu plugin list'' \<lparr>cs_CEIPOptIn = '''', cs_EULAStatus = '''', cs_EULAAcceptedVersions = []\<rparr> =
     (cfg', steps, None) \<and> cs_EULAStatus cfg' = EULAStatusAccepted"
proof -
  let ?c = "\<lparr>cs_CEIPOptIn = '''', cs_EULAStatus = '''', cs_EULAAcceptedVersions = []\<rparr>"
  let ?r = "PersistentPreRunE demo_prerun (join '' '' [''tanzu'', ''plugin'', ''list'']) ?c"
  have "snd (snd ?r) = None" by code_simp
  then obtain cfg' steps where r: "?r = (cfg', steps, None)" by (metis prod.collapse)
  have "[''tanzu'', ''plugin'', ''list''] \<in> fst ` set (all_commands ''ep'')" by code_simp
  then obtain ds where "([''tanzu'', ''plugin'', ''list''], ds) \<in> set (all_commands ''ep'')" by auto
  note need = core_commands_need_agreement [OF this r]
  have j: "join '' '' [''tanzu'', ''plugin'', ''list''] = ''tanzu plugin list''" "''tanzu plugin list'' \<notin> set agreement_free" by code_simp+
  from need r show ?thesis unfolding j(1) using j(2) by simp
qed

theorem agreement_skipped_by_prefix_witness:
  "\<exists>steps e. PersistentPreRunE demo_prerun ''tanzu versions-plugin'' \<lparr>cs_CEIPOptIn = '''', cs_EULAStatus = '''', cs_EULAAcceptedVersions = []\<rparr> =
     (\<lparr>cs_CEIPOptIn = '''', cs_EULAStatus = '''', cs_EULAAcceptedVersions = []\<rparr>, steps, e) \<and> PreConfigureEULA \<notin> set steps"
proof -
  let ?c = "\<lparr>cs_CEIPOptIn = '''', cs_EULAStatus = '''', cs_EULAAcceptedVersions = []\<rparr>"
  obtain cfg' steps e where "PersistentPreRunE demo_prerun (''tanzu '' @ ''versions-plugin'') ?c = (cfg', steps, e)" by (metis prod_cases3)
  moreover have "has_prefix ''versions-plugin'' ''version''" by code_simp
  ultimately show ?thesis using agreement_skipped_by_prefix [of demo_prerun "''versions-plugin''" ?c cfg' steps e] by auto
qed

lemma demo_cobra_name: "cobra_name demo_cobra"
  by (simp add: cobra_name_def demo_cobra_def)

definition demo_root_env :: root_env where
  "demo_root_env = \<lparr>rv_coreCmds = [], rv_lastCmds = [], rv_CLIId = ''cli'', rv_NewUUID = ''uuid'', rv_SetCLIId = (\<lambda>x. None), rv_CopyLegacyConfigDir = None\<rparr>"

theorem core_commands_stay_witness:
  "\<exists>h r T h' byPlugin byCore. initial_tree (core_env ''ep'' demo_root_env) demo_cobra demo_root = (h, r, T) \<and>
     root_plugins_loop demo_cobra r [demo_plugin ''plugin'' '''', demo_plugin ''b'' TargetK8s] (h, [], []) = (h', byPlugin, byCore) \<and>
     (\<exists>x \<in> set (cb_Commands demo_cobra h' r). cb_get demo_cobra h' x = tree_cmd newPluginCmd)"
proof -
  let ?ps = "[demo_plugin ''plugin'' '''', demo_plugin ''b'' TargetK8s]"
  obtain h r T where i: "initial_tree (core_env ''ep'' demo_root_env) demo_cobra demo_root = (h, r, T)" by (metis prod_cases3)
  obtain h' bp bc where l: "root_plugins_loop demo_cobra r ?ps (h, [], []) = (h', bp, bc)" by (metis prod_cases3)
  have "newPluginCmd \<in> set (command_trees ''ep'')" by (simp add: command_trees_def core_trees_def)
  with core_commands_stay [OF demo_cobra_laws demo_cobra_name i l] i l show ?thesis by blast
qed

end
