(* ===== verification/Help_Docs.thy ===== *)
theory Help_Docs
  imports Command_Line Plugin_Completion
begin

text \<open>
  Help of the command line: the usage of the root and target commands, \<^verbatim>\<open>pkg/cli/usage.go\<close>, the help during completion,
  \<^verbatim>\<open>pkg/command/root.go\<close>, and the generation of documentation, \<^verbatim>\<open>pkg/command/doc.go\<close>.
\<close>

section \<open>The groups of commands\<close>

text \<open>\<open>deprecated\<close> is the message of a deprecated command, a field of the library. A missing annotation is the empty group.\<close>

fun cmd_map_loop :: "(command \<Rightarrow> string) \<Rightarrow> command list \<Rightarrow> (string \<times> command list) list \<Rightarrow> (string \<times> command list) list" where
  "cmd_map_loop deprecated [] m = m"
| "cmd_map_loop deprecated (cmd # cmds) m =
     (if cmd_Hidden cmd \<or> deprecated cmd \<noteq> '''' then cmd_map_loop deprecated cmds m
      else let g = get_or '''' (cmd_Annotations cmd) ''group''
           in if g = '''' then cmd_map_loop deprecated cmds m
              else cmd_map_loop deprecated cmds (AList.update g (get_or [] m g @ [cmd]) m))"

definition command_groups :: "(command \<Rightarrow> string) \<Rightarrow> 'h cobra \<Rightarrow> 'h \<Rightarrow> cid \<Rightarrow> (string \<times> command list) list" where
  "command_groups deprecated C h c = cmd_map_loop deprecated (map (cb_get C h) (cb_Commands C h c)) []"

text \<open>The part of the template for the groups; a template goes through a map in the order of its keys.\<close>

definition group_lines :: "(string \<Rightarrow> string) \<Rightarrow> (string \<Rightarrow> nat \<Rightarrow> string) \<Rightarrow> 'h cobra \<Rightarrow> (string \<times> command list) list \<Rightarrow> string list" where
  "group_lines bold pad C m =
     (if length m > 0
      then ['''', bold ''Available command groups:'', ''''] @
           concat (map (\<lambda>g. (''  '' @ bold g) # map (\<lambda>cmd. ''    '' @ pad (cb_Name C cmd) 24 @ cmd_Short cmd @ '' '') (get_or [] m g))
                     (sort_strings (keys_of m)))
      else [])"

section \<open>Help during completion\<close>

type_synonym valid_args = "string list \<Rightarrow> string \<Rightarrow> completion"

definition with_short_help :: "(string \<Rightarrow> string) \<Rightarrow> string \<Rightarrow> valid_args option \<Rightarrow> valid_args" where
  "with_short_help activeHelp short original args toComplete =
     (let comps = (if short \<noteq> '''' then [activeHelp (''Command help: '' @ short)] else [])
      in case original of
           None \<Rightarrow> (comps, {NoFileComp})
         | Some f \<Rightarrow> (comps @ fst (f args toComplete), snd (f args toComplete)))"

text \<open>\<open>findCmd\<close> looks the command of the arguments up in the tree; \<open>fns\<close> are the completion functions of the commands.\<close>

definition printShortDescOfCmdInActiveHelp ::
    "'h cobra \<Rightarrow> (string \<Rightarrow> string) \<Rightarrow> environ \<Rightarrow> (string list \<Rightarrow> cid option res) \<Rightarrow> 'h \<Rightarrow> string list \<Rightarrow>
     (cid \<Rightarrow> valid_args option) \<Rightarrow> cid \<Rightarrow> valid_args option" where
  "printShortDescOfCmdInActiveHelp C activeHelp env findCmd h args fns =
     (if contains_str (getenv env ''TANZU_ACTIVE_HELP'') ''no_short_help'' then fns
      else case findCmd args of
          Inr (Some finalCmd) \<Rightarrow>
            if \<not> isPluginCommand (cb_get C h finalCmd)
            then fns(finalCmd := Some (with_short_help activeHelp (cmd_Short (cb_get C h finalCmd)) (fns finalCmd)))
            else fns
        | _ \<Rightarrow> fns)"

definition setupActiveHelp ::
    "'h cobra \<Rightarrow> (string \<Rightarrow> string) \<Rightarrow> environ \<Rightarrow> (string list \<Rightarrow> cid option res) \<Rightarrow> 'h \<Rightarrow> cid \<Rightarrow> string list \<Rightarrow>
     (cid \<Rightarrow> valid_args option) \<Rightarrow> cid \<Rightarrow> valid_args option" where
  "setupActiveHelp C activeHelp env findCmd h cmd args fns =
     (if cname C h cmd \<noteq> ''__complete'' then fns else printShortDescOfCmdInActiveHelp C activeHelp env findCmd h args fns)"

section \<open>Generating the documentation\<close>

type_synonym 'b doc_files = "string \<Rightarrow> 'b option"

text \<open>The library writes a page for every command; the template of the readme gives what it wrote and its error; a plugin writes
  its pages when it is run. \<open>dn_Rename\<close> are the faults of renaming.\<close>

record 'b docs_env =
  dn_IsDir :: "string \<Rightarrow> bool res"
  dn_GenMarkdownTree :: "string \<Rightarrow> 'b doc_files \<Rightarrow> 'b doc_files \<times> err option"
  dn_OpenReadme :: "string \<Rightarrow> err option"
  dn_Execute :: "plugin_info list \<Rightarrow> 'b \<times> err option"
  dn_Rename :: "string \<Rightarrow> string \<Rightarrow> err option"
  dn_Run :: "string \<Rightarrow> string \<Rightarrow> string list \<Rightarrow> 'b doc_files \<Rightarrow> 'b doc_files \<times> err option"
  dn_RootName :: string

definition DefaultDocsDir :: string where
  "DefaultDocsDir = ''docs/cli/commands''"

definition rename_file :: "'b docs_env \<Rightarrow> string \<Rightarrow> string \<Rightarrow> 'b doc_files \<Rightarrow> 'b doc_files \<times> err option" where
  "rename_file N old new fs =
     (case dn_Rename N old new of
        Some e \<Rightarrow> (fs, Some e)
      | None \<Rightarrow> (case fs old of None \<Rightarrow> (fs, Some ErrNotExist) | Some b \<Rightarrow> (fs(old := None, new := Some b), None)))"

definition genCoreCMD :: "'b docs_env \<Rightarrow> string \<Rightarrow> 'b doc_files \<Rightarrow> 'b doc_files \<times> err option" where
  "genCoreCMD N docsDir fs =
     (case dn_GenMarkdownTree N docsDir fs of
        (fs1, Some e) \<Rightarrow> (fs1, Some (Errorf ''error generating markdown %q'' [])) | (fs1, None) \<Rightarrow> (fs1, None))"

definition genREADME :: "'b docs_env \<Rightarrow> string \<Rightarrow> plugin_info list \<Rightarrow> 'b doc_files \<Rightarrow> 'b doc_files \<times> err option" where
  "genREADME N docsDir plugins fs =
     (let f = docsDir @ ''/README.md''
      in case dn_OpenReadme N f of
           Some e \<Rightarrow> (fs, Some (Errorf ''error opening readme %q'' []))
         | None \<Rightarrow> (case dn_Execute N plugins of (b, e) \<Rightarrow> (fs(f := Some b), e)))"

fun genMarkdownTreePlugins :: "'b docs_env \<Rightarrow> string \<Rightarrow> plugin_info list \<Rightarrow> 'b doc_files \<Rightarrow> 'b doc_files \<times> err option" where
  "genMarkdownTreePlugins N docsDir [] fs = (fs, None)"
| "genMarkdownTreePlugins N docsDir (p # ps) fs =
     (case dn_Run N (pi_Name p) (pi_InstallationPath p) [''generate-docs'', ''--docs-dir'', docsDir] fs of
        (fs1, Some e) \<Rightarrow> (fs1, Some e)
      | (fs1, None) \<Rightarrow> genMarkdownTreePlugins N docsDir ps fs1)"

definition main_page :: "'b docs_env \<Rightarrow> string \<Rightarrow> string" where
  "main_page N docsDir = path_join [docsDir, dn_RootName N @ ''.md'']"

definition backup_page :: "'b docs_env \<Rightarrow> string \<Rightarrow> string" where
  "backup_page N docsDir = path_join [docsDir, dn_RootName N @ ''_bak.md'']"

text \<open>The page of the root command is moved away while the plugins write theirs. \<^verbatim>\<open>errors.Wrap\<close> of no error is no error. The
  renaming at the end is deferred, its error ignored.\<close>

definition plugin_docs :: "'b docs_env \<Rightarrow> string \<Rightarrow> plugin_info list \<Rightarrow> 'b doc_files \<Rightarrow> 'b doc_files \<times> err option" where
  "plugin_docs N docsDir plugins fs =
     (case rename_file N (main_page N docsDir) (backup_page N docsDir) fs of
        (fs1, Some e) \<Rightarrow> (fs1, Some (Errorf ''unable to rename main CLI markdown file %q'' []))
      | (fs1, None) \<Rightarrow>
          (case genMarkdownTreePlugins N docsDir plugins fs1 of
             (fs2, e) \<Rightarrow> (fst (rename_file N (backup_page N docsDir) (main_page N docsDir) fs2),
                        map_option (\<lambda>x. Errorf ''error generating plugin docs %q'' []) e)))"

definition generate_all_docs :: "'b docs_env \<Rightarrow> string \<Rightarrow> plugin_info list res \<Rightarrow> 'b doc_files \<Rightarrow> 'b doc_files \<times> err option" where
  "generate_all_docs N docsDir0 installed fs =
     (let docsDir = (if docsDir0 = '''' then DefaultDocsDir else docsDir0)
      in case dn_IsDir N docsDir of
           Inl e \<Rightarrow> (fs, Some (Wrapf e ''error reading docs output directory '' [docsDir]))
         | Inr False \<Rightarrow> (fs, None)
         | Inr True \<Rightarrow>
             (case genCoreCMD N docsDir fs of
                (fs1, Some e) \<Rightarrow> (fs1, Some (Errorf ''error generate core tanzu cmd markdown %q'' []))
              | (fs1, None) \<Rightarrow>
                  (case installed of
                     Inl e \<Rightarrow> (fs1, Some (Errorf ''error while getting installed plugins Info: %q'' []))
                   | Inr plugins \<Rightarrow>
                       (case genREADME N docsDir plugins fs1 of
                          (fs2, Some e) \<Rightarrow> (fs2, Some (Errorf ''error generate core tanzu README markdown %q'' []))
                        | (fs2, None) \<Rightarrow> plugin_docs N docsDir plugins fs2))))"

section \<open>What the help lists\<close>

abbreviation listed_in :: "(command \<Rightarrow> string) \<Rightarrow> string \<Rightarrow> command \<Rightarrow> bool" where
  "listed_in deprecated g cmd \<equiv> \<not> cmd_Hidden cmd \<and> deprecated cmd = '''' \<and> get_or '''' (cmd_Annotations cmd) ''group'' = g"

lemma cmd_map_loop_lookup:
  assumes "g \<noteq> ''''" "\<forall>x. map_of m x \<noteq> Some []"
  shows "map_of (cmd_map_loop deprecated cmds m) g =
     (case get_or [] m g @ filter (listed_in deprecated g) cmds of [] \<Rightarrow> None | cs \<Rightarrow> Some cs)"
  using assms(2)
proof (induction cmds arbitrary: m)
  case Nil
  with assms(1) show ?case by (auto simp: get_or_def split: option.splits list.splits)
next
  case (Cons c cmds)
  let ?g = "get_or '''' (cmd_Annotations c) ''group''"
  show ?case
  proof (cases "cmd_Hidden c \<or> deprecated c \<noteq> '''' \<or> ?g = ''''")
    case True
    then have "cmd_map_loop deprecated (c # cmds) m = cmd_map_loop deprecated cmds m"
      "filter (listed_in deprecated g) (c # cmds) = filter (listed_in deprecated g) cmds"
      using assms(1) by (auto simp: Let_def)
    then show ?thesis using Cons.IH [OF Cons.prems] by (simp only:)
  next
    case False
    let ?m = "AList.update ?g (get_or [] m ?g @ [c]) m"
    have "\<forall>x. map_of ?m x \<noteq> Some []" using Cons.prems by (auto simp: update_conv')
    note ih = Cons.IH [OF this]
    have "get_or [] ?m g @ filter (listed_in deprecated g) cmds = get_or [] m g @ filter (listed_in deprecated g) (c # cmds)"
      using False by (auto simp: get_or_def update_conv')
    with ih False show ?thesis by (simp add: Let_def)
  qed
qed

lemma command_groups_lookup:
  "g \<noteq> '''' \<Longrightarrow> map_of (command_groups deprecated C h c) g =
     (case filter (listed_in deprecated g) (map (cb_get C h) (cb_Commands C h c)) of [] \<Rightarrow> None | cs \<Rightarrow> Some cs)"
  using cmd_map_loop_lookup [of g "[]"] by (simp add: command_groups_def get_or_def)

lemma core_have_groups:
  "list_all (\<lambda>t. get_or '''' (cmd_Annotations (tree_cmd t)) ''group'' \<noteq> '''' \<or> cmd_Hidden (tree_cmd t)) (command_trees ep)"
  by code_simp

text \<open>The usage of a command lists a command in a group exactly if it is one of its commands that is neither hidden nor
  deprecated and has that group; after the plugins were added, the usage of the root lists every core command that is not hidden.\<close>

theorem help_lists_commands:
  assumes "cobra_laws C A" "cobra_name C" "initial_tree (core_env ep R) C h0 = (h, r, T)"
    and "root_plugins_loop C r plugins (h, [], []) = (h', byPlugin, byCore)" "\<forall>t \<in> set (command_trees ep). deprecated (tree_cmd t) = ''''"
  shows "(\<forall>g cmd. g \<noteq> '''' \<longrightarrow> cmd \<in> set (get_or [] (command_groups deprecated C h' r) g) \<longleftrightarrow>
       cmd \<in> cb_get C h' ` set (cb_Commands C h' r) \<and> listed_in deprecated g cmd) \<and>
     (\<forall>t \<in> set (command_trees ep). \<not> cmd_Hidden (tree_cmd t) \<longrightarrow>
       tree_cmd t \<in> set (get_or [] (command_groups deprecated C h' r) (get_or '''' (cmd_Annotations (tree_cmd t)) ''group'')))"
proof -
  have lists: "cmd \<in> set (get_or [] (command_groups deprecated C h' r) g) \<longleftrightarrow>
       cmd \<in> cb_get C h' ` set (cb_Commands C h' r) \<and> listed_in deprecated g cmd" if "g \<noteq> ''''" for g cmd
  proof -
    have "get_or [] (command_groups deprecated C h' r) g = filter (listed_in deprecated g) (map (cb_get C h') (cb_Commands C h' r))"
      using command_groups_lookup [OF that, of deprecated C h' r] by (auto simp: get_or_def split: list.splits)
    then show ?thesis by auto
  qed
  moreover have "tree_cmd t \<in> set (get_or [] (command_groups deprecated C h' r) (get_or '''' (cmd_Annotations (tree_cmd t)) ''group''))"
    if t: "t \<in> set (command_trees ep)" "\<not> cmd_Hidden (tree_cmd t)" for t
  proof -
    have "get_or '''' (cmd_Annotations (tree_cmd t)) ''group'' \<noteq> ''''" using core_have_groups [of ep] t by (auto simp: list_all_iff)
    moreover have "tree_cmd t \<in> cb_get C h' ` set (cb_Commands C h' r)" using core_commands_stay [OF assms(1-4)] t(1) by force
    ultimately show ?thesis using lists t(2) assms(5) t(1) by blast
  qed
  ultimately show ?thesis by blast
qed

section \<open>The main page of the documentation\<close>

lemma page_names: "main_page N d \<noteq> backup_page N d"
  by (auto simp: main_page_def backup_page_def path_join_def)

lemma plugins_keep_backup:
  assumes "\<forall>n p a f. fst (dn_Run N n p a f) (backup_page N d) = f (backup_page N d)"
  shows "fst (genMarkdownTreePlugins N d ps f) (backup_page N d) = f (backup_page N d)"
proof (induction ps arbitrary: f)
  case Nil
  then show ?case by simp
next
  case (Cons p ps)
  obtain f1 e where r: "dn_Run N (pi_Name p) (pi_InstallationPath p) [''generate-docs'', ''--docs-dir'', d] f = (f1, e)" by force
  with assms have "f1 (backup_page N d) = f (backup_page N d)" by (metis fst_conv)
  with r Cons show ?case by (cases e) auto
qed

lemma rename_back:
  assumes "dn_Rename N a b = None" "f a = Some x" "a \<noteq> b"
  shows "fst (rename_file N a b f) b = Some x" "fst (rename_file N a b f) a = None" "snd (rename_file N a b f) = None"
  using assms by (simp_all add: rename_file_def)

text \<open>C40 (safety): generating the documentation keeps the page of the root command that the core wrote, whatever the plugins write over it
  and whichever of them fails, and leaves no backup of it behind; with a file in the place of the directory it succeeds
  without writing anything.\<close>

theorem core_page_survives_plugins:
  assumes "\<forall>n p a f. fst (dn_Run N n p a f) (backup_page N d) = f (backup_page N d)" "d \<noteq> ''''"
    and "\<forall>a b. dn_Rename N a b = None" "dn_IsDir N d = Inr isDir" "generate_all_docs N d (Inr plugins) fs = (fs', e)"
  shows "if isDir
     then (case genCoreCMD N d fs of
             (fs1, Some e1) \<Rightarrow> e \<noteq> None
           | (fs1, None) \<Rightarrow>
               (case genREADME N d plugins fs1 of
                  (fs2, Some e2) \<Rightarrow> e \<noteq> None
                | (fs2, None) \<Rightarrow> if fs2 (main_page N d) = None then e \<noteq> None
                                else fs' (main_page N d) = fs2 (main_page N d) \<and> fs' (backup_page N d) = None))
     else fs' = fs \<and> e = None"
proof (cases isDir)
  case False
  with assms(2,4,5) show ?thesis by (simp add: generate_all_docs_def)
next
  case True
  obtain fs1 e1 where c: "genCoreCMD N d fs = (fs1, e1)" by force
  obtain fs2 e2 where m: "genREADME N d plugins fs1 = (fs2, e2)" by force
  have run: "e1 = None \<Longrightarrow> e2 = None \<Longrightarrow> (fs', e) = plugin_docs N d plugins fs2"
    using assms(2,4,5) True c m by (simp add: generate_all_docs_def)
  have page: "fs' (main_page N d) = Some b \<and> fs' (backup_page N d) = None"
    if "e1 = None" "e2 = None" "fs2 (main_page N d) = Some b" for b
  proof -
    have away: "rename_file N (main_page N d) (backup_page N d) fs2 = (fs2(main_page N d := None, backup_page N d := Some b), None)"
      using assms(3) that(3) by (simp add: rename_file_def)
    obtain fs3 e3 where g: "genMarkdownTreePlugins N d plugins (fs2(main_page N d := None, backup_page N d := Some b)) = (fs3, e3)" by force
    with plugins_keep_backup [OF assms(1), of plugins "fs2(main_page N d := None, backup_page N d := Some b)"]
    have "fs3 (backup_page N d) = Some b" by simp
    moreover have "fs' = fst (rename_file N (backup_page N d) (main_page N d) fs3)"
      using run [OF that(1,2)] away g by (simp add: plugin_docs_def)
    ultimately show ?thesis using rename_back [of N "backup_page N d" "main_page N d" fs3 b] assms(3) page_names [of N d] by simp
  qed
  have none: "e \<noteq> None" if "e1 = None" "e2 = None" "fs2 (main_page N d) = None"
    using run [OF that(1,2)] assms(3) that(3) by (simp add: plugin_docs_def rename_file_def)
  have "e1 \<noteq> None \<Longrightarrow> e \<noteq> None" "e1 = None \<Longrightarrow> e2 \<noteq> None \<Longrightarrow> e \<noteq> None"
    using assms(2,4,5) True c m by (auto simp: generate_all_docs_def)
  then show ?thesis using True c m page none by (auto split: option.splits)
qed

section \<open>Witnesses\<close>

definition demo_docs :: "string docs_env" where
  "demo_docs = \<lparr>dn_IsDir = (\<lambda>d. Inr (d = ''docs'')), dn_GenMarkdownTree = (\<lambda>d f. (f(''docs/tanzu.md'' := Some ''core''), None)),
     dn_OpenReadme = (\<lambda>_. None), dn_Execute = (\<lambda>ps. (''readme'', None)), dn_Rename = (\<lambda>_ _. None),
     dn_Run = (\<lambda>n p a f. (f(''docs/tanzu.md'' := Some n), Some (Errorf ''failed'' []))), dn_RootName = ''tanzu''\<rparr>"

theorem core_page_survives_plugins_witness:
  "\<exists>fs' e. generate_all_docs demo_docs ''docs'' (Inr [demo_plugin ''a'' TargetK8s]) Map.empty = (fs', e) \<and>
     fs' ''docs/tanzu.md'' = Some ''core'' \<and> e \<noteq> None"
proof -
  let ?ps = "[demo_plugin ''a'' TargetK8s]"
  obtain fs' e where r: "generate_all_docs demo_docs ''docs'' (Inr ?ps) Map.empty = (fs', e)" by force
  have p: "main_page demo_docs ''docs'' = ''docs/tanzu.md''" "backup_page demo_docs ''docs'' = ''docs/tanzu_bak.md''" by code_simp+
  have "\<forall>n p a f. fst (dn_Run demo_docs n p a f) (backup_page demo_docs ''docs'') = f (backup_page demo_docs ''docs'')"
    "\<forall>a b. dn_Rename demo_docs a b = None" "dn_IsDir demo_docs ''docs'' = Inr True"
    unfolding p by (simp_all add: demo_docs_def)
  note main = core_page_survives_plugins [OF this(1) _ this(2,3) r]
  have "genCoreCMD demo_docs ''docs'' Map.empty = ([''docs/tanzu.md'' \<mapsto> ''core''], None)"
    "genREADME demo_docs ''docs'' ?ps [''docs/tanzu.md'' \<mapsto> ''core''] = ([''docs/tanzu.md'' \<mapsto> ''core'', ''docs/README.md'' \<mapsto> ''readme''], None)"
    by (simp_all add: genCoreCMD_def genREADME_def demo_docs_def)
  with main p have "fs' ''docs/tanzu.md'' = Some ''core''" by simp
  moreover have "e \<noteq> None"
    using r by (auto simp: generate_all_docs_def genCoreCMD_def genREADME_def plugin_docs_def rename_file_def demo_docs_def p [unfolded demo_docs_def])
  ultimately show ?thesis using r by blast
qed

theorem help_lists_commands_witness:
  "\<exists>h r T h' byPlugin byCore. initial_tree (core_env ''ep'' demo_root_env) demo_cobra demo_root = (h, r, T) \<and>
     root_plugins_loop demo_cobra r [demo_plugin ''b'' TargetK8s] (h, [], []) = (h', byPlugin, byCore) \<and>
     tree_cmd newPluginCmd \<in> set (get_or [] (command_groups (\<lambda>_. '''') demo_cobra h' r) ''System'')"
proof -
  obtain h r T where i: "initial_tree (core_env ''ep'' demo_root_env) demo_cobra demo_root = (h, r, T)" by (metis prod_cases3)
  obtain h' bp bc where l: "root_plugins_loop demo_cobra r [demo_plugin ''b'' TargetK8s] (h, [], []) = (h', bp, bc)" by (metis prod_cases3)
  note main = help_lists_commands [OF demo_cobra_laws demo_cobra_name i l, of "\<lambda>_. ''''"]
  have t: "newPluginCmd \<in> set (command_trees ''ep'')" by (simp add: command_trees_def core_trees_def)
  have "\<not> cmd_Hidden (tree_cmd newPluginCmd)" "get_or '''' (cmd_Annotations (tree_cmd newPluginCmd)) ''group'' = ''System''" by code_simp+
  with main t have "tree_cmd newPluginCmd \<in> set (get_or [] (command_groups (\<lambda>_. '''') demo_cobra h' r) ''System'')" by metis
  with i l show ?thesis by blast
qed

end
