(* ===== verification/Builder_Front.thy ===== *)
theory Builder_Front
  imports Command_Decls Plugin_Compile Plugin_Packages Inventory_Publish
begin

text \<open>
  The command line of the plugin builder, \<^verbatim>\<open>cmd/plugin/builder/\<close> (\<^verbatim>\<open>plugin.go\<close>, \<^verbatim>\<open>inventory.go\<close>, \<^verbatim>\<open>inventory_plugin.go\<close>,
  \<^verbatim>\<open>inventory_plugin_group.go\<close>, \<^verbatim>\<open>cli.go\<close>, \<^verbatim>\<open>init.go\<close>): the declarations of its commands, and how the values of their flags
  become the options of the operations in \<open>Plugin_Compile\<close>, \<open>Plugin_Packages\<close> and \<open>Inventory_Publish\<close>; and the new
  repositories and plugins it makes from templates, \<^verbatim>\<open>command/cli_add.go\<close>, \<^verbatim>\<open>command/init.go\<close>, \<^verbatim>\<open>template/\<close>.
\<close>

section \<open>Values of flags\<close>

definition str_of :: "vars \<Rightarrow> string \<Rightarrow> string" where
  "str_of vs x = (case map_of vs x of Some (FString s) \<Rightarrow> s | _ \<Rightarrow> '''')"

definition bool_of :: "vars \<Rightarrow> string \<Rightarrow> bool" where
  "bool_of vs x = (case map_of vs x of Some (FBool b) \<Rightarrow> b | _ \<Rightarrow> False)"

definition strings_of :: "vars \<Rightarrow> string \<Rightarrow> string list" where
  "strings_of vs x = (case map_of vs x of Some (FStrings ss) \<Rightarrow> ss | _ \<Rightarrow> [])"

definition StringArrayVarP :: "string \<Rightarrow> string \<Rightarrow> string \<Rightarrow> string list \<Rightarrow> flag_step" where
  "StringArrayVarP v name short dflt = Flag \<lparr>fg_var = v, fg_name = name, fg_short = short, fg_default = FStrings dflt\<rparr>"

section \<open>Building plugins\<close>

definition newPluginBuildCmd :: cmd_tree where
  "newPluginBuildCmd = CmdTree (decl ''build'' ''Build plugins'' False [] []) AnyArgs
    [StringVarP ''pbFlags.PluginDir'' ''path'' '''' ''./cmd/plugin'',
     StringVarP ''pbFlags.ArtifactDir'' ''binary-artifacts'' '''' ''./artifacts'',
     StringVarP ''pbFlags.LDFlags'' ''ldflags'' '''' '''',
     StringArrayVarP ''pbFlags.OSArch'' ''os-arch'' '''' [''all''],
     StringVarP ''pbFlags.Version'' ''version'' ''v'' '''',
     StringVarP ''pbFlags.Match'' ''match'' '''' ''*'',
     StringVarP ''pbFlags.PluginScopeAssociationFile'' ''plugin-scope-association-file'' '''' '''',
     StringVarP ''pbFlags.GoFlags'' ''goflags'' '''' '''',
     BoolVarP ''pbFlags.DebugSymbols'' ''debug-symbols'' '''' False,
     Try Required ''version''] []"

definition compile_args_of :: "vars \<Rightarrow> compile_args" where
  "compile_args_of vs =
     \<lparr>ca_Version = str_of vs ''pbFlags.Version'', ca_SourcePath = str_of vs ''pbFlags.PluginDir'',
      ca_ArtifactsDir = str_of vs ''pbFlags.ArtifactDir'', ca_LDFlags = str_of vs ''pbFlags.LDFlags'', ca_Tags = '''',
      ca_GoFlags = str_of vs ''pbFlags.GoFlags'', ca_Match = str_of vs ''pbFlags.Match'', ca_GoPrivate = '''',
      ca_PluginScopeAssociationFile = str_of vs ''pbFlags.PluginScopeAssociationFile'',
      ca_TargetArch = strings_of vs ''pbFlags.OSArch'', ca_GroupByOSArch = True,
      ca_DebugSymbols = bool_of vs ''pbFlags.DebugSymbols''\<rparr>"

definition plugin_build_command :: "'v lib \<Rightarrow> compile_env \<Rightarrow> vars \<Rightarrow> compile_state \<Rightarrow> (compile_state \<times> err option) option" where
  "plugin_build_command L E vs = Compile L E (compile_args_of vs)"

definition newPluginBuildPackageCmd :: cmd_tree where
  "newPluginBuildPackageCmd = CmdTree (decl ''build-package'' ''Build plugin packages'' False [] []) AnyArgs
    [StringVarP ''pbpFlags.BinaryArtifactDir'' ''binary-artifacts'' '''' ''./artifacts/plugins'',
     StringVarP ''pbpFlags.PackageArtifactDir'' ''package-artifacts'' '''' ''./artifacts/packages'',
     StringVarP ''pbpFlags.localOCIRepository'' ''oci-registry'' '''' ''''] []"

definition package_options_of :: "vars \<Rightarrow> string \<Rightarrow> build_options" where
  "package_options_of vs registry =
     \<lparr>bo_BinaryArtifactDir = str_of vs ''pbpFlags.BinaryArtifactDir'', bo_PackageArtifactDir = str_of vs ''pbpFlags.PackageArtifactDir'',
      bo_LocalOCIRegistry = registry, bo_pluginManifestFile = ''''\<rparr>"

text \<open>\<open>serve\<close> starts a local registry and gives its port.\<close>

definition plugin_build_package_command ::
    "package_env \<Rightarrow> string res \<Rightarrow> vars \<Rightarrow> package_state \<Rightarrow> (package_state \<times> err option) option \<Rightarrow> bool" where
  "plugin_build_package_command K serve vs s r =
     (let given = str_of vs ''pbpFlags.localOCIRepository''
      in case (if given = '''' then map_sum id (\<lambda>port. ''localhost:'' @ port) serve else Inr given) of
           Inl e \<Rightarrow> r = Some (s, Some (Wrapf e ''error while starting build registry server'' []))
         | Inr registry \<Rightarrow> BuildPluginPackages K (package_options_of vs registry) s r)"

definition newPluginPublishPackageCmd :: cmd_tree where
  "newPluginPublishPackageCmd = CmdTree (decl ''publish-package'' ''Publish plugin packages'' False [] []) AnyArgs
    [StringVarP ''pppFlags.PackageArtifactDir'' ''package-artifacts'' '''' ''./artifacts/packages'',
     StringVarP ''pppFlags.Repository'' ''repository'' '''' '''',
     StringVarP ''pppFlags.Vendor'' ''vendor'' '''' '''',
     StringVarP ''pppFlags.Publisher'' ''publisher'' '''' '''',
     BoolVarP ''pppFlags.DryRun'' ''dry-run'' '''' False,
     Try Required ''repository'', Try Required ''vendor'', Try Required ''publisher''] []"

definition plugin_publish_package_command ::
    "package_env \<Rightarrow> vars \<Rightarrow> package_state \<Rightarrow> (package_state \<times> err option) option \<Rightarrow> bool" where
  "plugin_publish_package_command K vs =
     PublishPluginPackages K
       \<lparr>po_PackageArtifactDir = str_of vs ''pppFlags.PackageArtifactDir'', po_Publisher = str_of vs ''pppFlags.Publisher'',
        po_Vendor = str_of vs ''pppFlags.Vendor'', po_Repository = str_of vs ''pppFlags.Repository'',
        po_DryRun = bool_of vs ''pppFlags.DryRun'', po_pluginManifestFile = ''''\<rparr>"

definition NewPluginCmd :: cmd_tree where
  "NewPluginCmd = CmdTree (decl ''plugin'' ''Plugin Operations'' False [] []) AnyArgs []
    [newPluginBuildCmd, newPluginBuildPackageCmd, newPluginPublishPackageCmd]"

section \<open>The inventory\<close>

definition newInventoryInitCmd :: cmd_tree where
  "newInventoryInitCmd = CmdTree
    (decl ''init'' ''Initialize empty plugin inventory database and publish it to the remote repository'' False [] []) AnyArgs
    [StringVarP ''piiFlags.Repository'' ''repository'' '''' '''',
     StringVarP ''piiFlags.InventoryImageTag'' ''plugin-inventory-image-tag'' '''' ''latest'',
     BoolVarP ''piiFlags.Override'' ''override'' '''' False, Try Required ''repository''] []"

definition inventory_init_command :: "pub_env \<Rightarrow> vars \<Rightarrow> pub_state \<Rightarrow> pub_state \<times> err option" where
  "inventory_init_command E vs =
     InitializeInventory E (str_of vs ''piiFlags.Repository'') (str_of vs ''piiFlags.InventoryImageTag'') (bool_of vs ''piiFlags.Override'')"

definition newInventoryPluginAddCmd :: cmd_tree where
  "newInventoryPluginAddCmd = CmdTree
    (decl ''add'' ''Add the plugin to the inventory database available on the remote repository'' False [] []) AnyArgs
    [StringVarP ''ipaFlags.Repository'' ''repository'' '''' '''',
     StringVarP ''ipaFlags.InventoryImageTag'' ''plugin-inventory-image-tag'' '''' ''latest'',
     StringVarP ''ipaFlags.ManifestFile'' ''manifest'' '''' '''',
     StringVarP ''ipaFlags.Vendor'' ''vendor'' '''' '''',
     StringVarP ''ipaFlags.Publisher'' ''publisher'' '''' '''',
     StringVarP ''ipaFlags.InventoryDBFile'' ''plugin-inventory-db-file'' '''' '''',
     BoolVarP ''ipaFlags.DeactivatePlugins'' ''deactivate'' '''' False,
     BoolVarP ''ipaFlags.ValidateOnly'' ''validate'' '''' False,
     Try Required ''repository'', Try Required ''vendor'', Try Required ''publisher'', Try Required ''manifest''] []"

text \<open>The record of flags is its own for each command, \<open>flags\<close> is its name.\<close>

definition update_options_of :: "vars \<Rightarrow> string \<Rightarrow> bool \<Rightarrow> bool \<Rightarrow> update_options" where
  "update_options_of vs flags deactivate validate =
     \<lparr>uo_Repository = str_of vs (flags @ ''.Repository''), uo_InventoryImageTag = str_of vs (flags @ ''.InventoryImageTag''),
      uo_ManifestFile = str_of vs (flags @ ''.ManifestFile''), uo_Publisher = str_of vs (flags @ ''.Publisher''),
      uo_Vendor = str_of vs (flags @ ''.Vendor''), uo_InventoryDBFile = str_of vs (flags @ ''.InventoryDBFile''),
      uo_DeactivatePlugins = deactivate, uo_ValidateOnly = validate\<rparr>"

definition inventory_plugin_add_command :: "'v lib \<Rightarrow> pub_env \<Rightarrow> vars \<Rightarrow> pub_state \<Rightarrow> (pub_state \<times> err option) option" where
  "inventory_plugin_add_command L E vs =
     PluginAdd L E (update_options_of vs ''ipaFlags'' (bool_of vs ''ipaFlags.DeactivatePlugins'') (bool_of vs ''ipaFlags.ValidateOnly''))"

definition getActivateDeactivateBaseCmd :: "string \<Rightarrow> flag_step list" where
  "getActivateDeactivateBaseCmd flags =
    [StringVarP (flags @ ''.Repository'') ''repository'' '''' '''',
     StringVarP (flags @ ''.InventoryImageTag'') ''plugin-inventory-image-tag'' '''' ''latest'',
     StringVarP (flags @ ''.ManifestFile'') ''manifest'' '''' '''',
     StringVarP (flags @ ''.Vendor'') ''vendor'' '''' '''',
     StringVarP (flags @ ''.Publisher'') ''publisher'' '''' '''',
     StringVarP (flags @ ''.InventoryDBFile'') ''plugin-inventory-db-file'' '''' '''',
     Try Required ''vendor'', Try Required ''publisher'', Try Required ''manifest'']"

definition newInventoryPluginActivateCmd :: cmd_tree where
  "newInventoryPluginActivateCmd = CmdTree
    (decl ''activate'' ''Activate the existing plugin in the inventory database available on the remote repository'' False [] []) AnyArgs
    (getActivateDeactivateBaseCmd ''activateFlags'') []"

definition newInventoryPluginDeactivateCmd :: cmd_tree where
  "newInventoryPluginDeactivateCmd = CmdTree
    (decl ''deactivate'' ''Deactivate the existing plugin in the inventory database available on the remote repository'' False [] []) AnyArgs
    (getActivateDeactivateBaseCmd ''deactivateFlags'') []"

definition inventory_plugin_activate_command :: "'v lib \<Rightarrow> pub_env \<Rightarrow> vars \<Rightarrow> pub_state \<Rightarrow> (pub_state \<times> err option) option" where
  "inventory_plugin_activate_command L E vs = publish_activation L E (update_options_of vs ''activateFlags'' False False)"

definition inventory_plugin_deactivate_command :: "'v lib \<Rightarrow> pub_env \<Rightarrow> vars \<Rightarrow> pub_state \<Rightarrow> (pub_state \<times> err option) option" where
  "inventory_plugin_deactivate_command L E vs = publish_activation L E (update_options_of vs ''deactivateFlags'' True False)"

definition newInventoryPluginCmd :: cmd_tree where
  "newInventoryPluginCmd = CmdTree (decl ''plugin'' ''Plugin Inventory Operations'' False [] []) AnyArgs []
    [newInventoryPluginAddCmd, newInventoryPluginActivateCmd, newInventoryPluginDeactivateCmd]"

section \<open>Groups in the inventory\<close>

definition newInventoryPluginGroupAddCmd :: cmd_tree where
  "newInventoryPluginGroupAddCmd = CmdTree
    (decl ''add'' ''Add the plugin-group to the inventory database available on the remote repository'' False [] []) AnyArgs
    [StringVarP ''ipgaFlags.GroupName'' ''name'' '''' '''',
     StringVarP ''ipgaFlags.GroupVersion'' ''version'' '''' '''',
     StringVarP ''ipgaFlags.Description'' ''description'' '''' '''',
     StringVarP ''ipgaFlags.Repository'' ''repository'' '''' '''',
     StringVarP ''ipgaFlags.InventoryImageTag'' ''plugin-inventory-image-tag'' '''' ''latest'',
     StringVarP ''ipgaFlags.ManifestFile'' ''manifest'' '''' '''',
     StringVarP ''ipgaFlags.Vendor'' ''vendor'' '''' '''',
     StringVarP ''ipgaFlags.Publisher'' ''publisher'' '''' '''',
     StringVarP ''ipgaFlags.InventoryDBFile'' ''plugin-inventory-db-file'' '''' '''',
     BoolVarP ''ipgaFlags.DeactivatePluginGroup'' ''deactivate'' '''' False,
     BoolVarP ''ipgaFlags.Override'' ''override'' '''' False,
     Try Required ''name'', Try Required ''version'', Try Required ''vendor'', Try Required ''publisher'', Try Required ''manifest''] []"

definition group_options_of :: "vars \<Rightarrow> string \<Rightarrow> string \<Rightarrow> string \<Rightarrow> bool \<Rightarrow> bool \<Rightarrow> group_update_options" where
  "group_options_of vs flags manifest description deactivate override =
     \<lparr>gu_Repository = str_of vs (flags @ ''.Repository''), gu_InventoryImageTag = str_of vs (flags @ ''.InventoryImageTag''),
      gu_PluginGroupManifestFile = manifest, gu_Publisher = str_of vs (flags @ ''.Publisher''),
      gu_Vendor = str_of vs (flags @ ''.Vendor''), gu_GroupName = str_of vs (flags @ ''.GroupName''),
      gu_GroupVersion = str_of vs (flags @ ''.GroupVersion''), gu_Description = description,
      gu_InventoryDBFile = str_of vs (flags @ ''.InventoryDBFile''), gu_DeactivatePluginGroup = deactivate, gu_Override = override\<rparr>"

definition inventory_group_add_command :: "'v lib \<Rightarrow> pub_env \<Rightarrow> vars \<Rightarrow> pub_state \<Rightarrow> (pub_state \<times> err option) option" where
  "inventory_group_add_command L E vs =
     PluginGroupAdd L E (group_options_of vs ''ipgaFlags'' (str_of vs ''ipgaFlags.ManifestFile'') (str_of vs ''ipgaFlags.Description'')
       (bool_of vs ''ipgaFlags.DeactivatePluginGroup'') (bool_of vs ''ipgaFlags.Override''))"

definition getPluginGroupActivateDeactivateBaseCmd :: "string \<Rightarrow> flag_step list" where
  "getPluginGroupActivateDeactivateBaseCmd flags =
    [StringVarP (flags @ ''.GroupName'') ''name'' '''' '''',
     StringVarP (flags @ ''.GroupVersion'') ''version'' '''' '''',
     StringVarP (flags @ ''.Repository'') ''repository'' '''' '''',
     StringVarP (flags @ ''.InventoryImageTag'') ''plugin-inventory-image-tag'' '''' ''latest'',
     StringVarP (flags @ ''.Vendor'') ''vendor'' '''' '''',
     StringVarP (flags @ ''.Publisher'') ''publisher'' '''' '''',
     StringVarP (flags @ ''.InventoryDBFile'') ''plugin-inventory-db-file'' '''' '''',
     Try Required ''name'', Try Required ''version'', Try Required ''vendor'', Try Required ''publisher'']"

definition newInventoryPluginGroupActivateCmd :: cmd_tree where
  "newInventoryPluginGroupActivateCmd = CmdTree
    (decl ''activate'' ''Activate the existing plugin-group in the inventory database available on the remote repository'' False [] []) AnyArgs
    (getPluginGroupActivateDeactivateBaseCmd ''groupActivateFlags'') []"

definition newInventoryPluginGroupDeactivateCmd :: cmd_tree where
  "newInventoryPluginGroupDeactivateCmd = CmdTree
    (decl ''deactivate'' ''Deactivate the existing plugin-group in the inventory database available on the remote repository'' False [] []) AnyArgs
    (getPluginGroupActivateDeactivateBaseCmd ''groupDeactivateFlags'') []"

definition inventory_group_activate_command :: "'v lib \<Rightarrow> pub_env \<Rightarrow> vars \<Rightarrow> pub_state \<Rightarrow> pub_state \<times> err option" where
  "inventory_group_activate_command L E vs =
     publish_group_activation L E (group_options_of vs ''groupActivateFlags'' '''' '''' False False)"

definition inventory_group_deactivate_command :: "'v lib \<Rightarrow> pub_env \<Rightarrow> vars \<Rightarrow> pub_state \<Rightarrow> pub_state \<times> err option" where
  "inventory_group_deactivate_command L E vs =
     publish_group_activation L E (group_options_of vs ''groupDeactivateFlags'' '''' '''' True False)"

definition newInventoryPluginGroupCmd :: cmd_tree where
  "newInventoryPluginGroupCmd = CmdTree (decl ''plugin-group'' ''Plugin-Group Inventory Operations'' False [] []) AnyArgs []
    [newInventoryPluginGroupAddCmd, newInventoryPluginGroupActivateCmd, newInventoryPluginGroupDeactivateCmd]"

definition newInventoryCmd :: cmd_tree where
  "newInventoryCmd = CmdTree (decl ''inventory'' ''Inventory Operations'' False [] []) AnyArgs []
    [newInventoryInitCmd, newInventoryPluginCmd, newInventoryPluginGroupCmd]"

text \<open>
  New repositories and plugins of the plugin builder: \<^verbatim>\<open>cmd/plugin/builder/command/cli_add.go\<close>, \<^verbatim>\<open>init.go\<close>, \<^verbatim>\<open>template/\<close> and the
  commands of \<^verbatim>\<open>cli.go\<close> and \<^verbatim>\<open>init.go\<close>. Templates are executed by the library (\<open>tv_Execute\<close>), apart from those of the
  paths, which are lists of their parts. Files hold values of a type \<open>'b\<close>.
\<close>

section \<open>Targets\<close>

datatype path_part = PathText string | PluginName | LowerPluginName

record template_target =
  tg_Filepath :: "path_part list"
  tg_Template :: string

record 'b scaffold_env =
  tv_Execute :: "string \<Rightarrow> (string \<times> string) list \<Rightarrow> 'b res"
  tv_NoBytes :: 'b
  tv_MkdirAll :: "string \<Rightarrow> err option"
  tv_WriteFile :: "string \<Rightarrow> write_fault option"
  tv_Stat :: "string \<Rightarrow> err option"
  tv_Ask :: "string res"
  tv_Select :: "string res"
  tv_GitInit :: "string \<Rightarrow> err option"

record 'b scaffold =
  sd_files :: "string \<Rightarrow> 'b option"
  sd_printed :: "(string \<times> 'b) list"

text \<open>The source of the template of a path, which a dry run prints, and its value; a field that the data lacks is an error.\<close>

fun part_source :: "path_part \<Rightarrow> string" where
  "part_source (PathText s) = s"
| "part_source PluginName = ''{{ .PluginName }}''"
| "part_source LowerPluginName = ''{{ .PluginName | ToLower }}''"

fun path_value :: "path_part list \<Rightarrow> (string \<times> string) list \<Rightarrow> string res" where
  "path_value [] data = Inr ''''"
| "path_value (p # ps) data =
     (case (case p of
              PathText s \<Rightarrow> Inr s
            | _ \<Rightarrow> (case map_of data ''PluginName'' of
                     None \<Rightarrow> Inl (Errorf ''cannot evaluate field PluginName'' [])
                   | Some n \<Rightarrow> Inr (if p = LowerPluginName then to_lower n else n))) of
        Inl e \<Rightarrow> Inl e
      | Inr s \<Rightarrow> map_sum id (\<lambda>t. s @ t) (path_value ps data))"

definition target_Run ::
    "'b scaffold_env \<Rightarrow> template_target \<Rightarrow> string \<Rightarrow> (string \<times> string) list \<Rightarrow> bool \<Rightarrow> 'b scaffold \<Rightarrow> 'b scaffold \<times> err option" where
  "target_Run E t rootDir data dryRun s =
     (case path_value (tg_Filepath t) data of
        Inl e \<Rightarrow> (s, Some e)
      | Inr p \<Rightarrow>
          (case tv_Execute E (tg_Template t) data of
             Inl e \<Rightarrow> (s, Some e)
           | Inr b \<Rightarrow>
               if dryRun then (s\<lparr>sd_printed := sd_printed s @ [(concat (map part_source (tg_Filepath t)), b)]\<rparr>, None)
               else let fp = path_join [rootDir, p]
                    in (case tv_MkdirAll E (filepath_Dir fp) of
                          Some e \<Rightarrow> (s, Some e)
                        | None \<Rightarrow>
                            (case tv_WriteFile E fp of
                               Some (OpenFails e) \<Rightarrow> (s, Some e)
                             | Some (WriteFails e) \<Rightarrow> (s\<lparr>sd_files := (sd_files s)(fp := Some (tv_NoBytes E))\<rparr>, Some e)
                             | None \<Rightarrow> (s\<lparr>sd_files := (sd_files s)(fp := Some b)\<rparr>, None)))))"

fun targets_loop ::
    "'b scaffold_env \<Rightarrow> template_target list \<Rightarrow> string \<Rightarrow> (string \<times> string) list \<Rightarrow> bool \<Rightarrow> 'b scaffold \<Rightarrow> 'b scaffold \<times> err option" where
  "targets_loop E [] rootDir data dryRun s = (s, None)"
| "targets_loop E (t # ts) rootDir data dryRun s =
     (case target_Run E t rootDir data dryRun s of
        (s1, Some e) \<Rightarrow> (s1, Some e) | (s1, None) \<Rightarrow> targets_loop E ts rootDir data dryRun s1)"

section \<open>The targets of the builder\<close>

definition plain_target :: "string \<Rightarrow> string \<Rightarrow> template_target" where
  "plain_target path template = \<lparr>tg_Filepath = [PathText path], tg_Template = template\<rparr>"

definition PluginReadMe :: template_target where
  "PluginReadMe = \<lparr>tg_Filepath = [PathText ''cmd/plugin/'', PluginName, PathText ''/README.md''], tg_Template = ''CommandReadme''\<rparr>"

definition PluginMain :: template_target where
  "PluginMain = \<lparr>tg_Filepath = [PathText ''cmd/plugin/'', LowerPluginName, PathText ''/main.go''], tg_Template = ''MainGo''\<rparr>"

definition PluginTest :: template_target where
  "PluginTest = \<lparr>tg_Filepath = [PathText ''cmd/plugin/'', PluginName, PathText ''/test/main.go''], tg_Template = ''MainTestGo''\<rparr>"

definition GoMod :: template_target where "GoMod = plain_target ''go.mod'' ''Gomod''"
definition GitIgnore :: template_target where "GitIgnore = plain_target ''.gitignore'' ''gitignore''"
definition GitLabCI :: template_target where "GitLabCI = plain_target ''.gitlab-ci.yml'' ''GitlabCI''"
definition GitHubCI :: template_target where "GitHubCI = plain_target ''.github/workflows/build.yaml'' ''GithubWorkflowBuild''"
definition CommonMK :: template_target where "CommonMK = plain_target ''common.mk'' ''CommonMK''"
definition MakefileTarget :: template_target where "MakefileTarget = plain_target ''Makefile'' ''Makefile''"
definition PluginToolingMK :: template_target where "PluginToolingMK = plain_target ''plugin-tooling.mk'' ''PluginToolingMK''"
definition Codeowners :: template_target where "Codeowners = plain_target ''CODEOWNERS'' ''* # edit as appropriate''"
definition MainReadMe :: template_target where "MainReadMe = plain_target ''README.md'' ''PluginReadme''"
definition GolangCIConfig :: template_target where "GolangCIConfig = plain_target ''.golangci.yaml'' ''GolangCIConfig''"

definition DefaultInitTargets :: "template_target list" where
  "DefaultInitTargets = [GoMod, GitIgnore, MakefileTarget, Codeowners, MainReadMe, GolangCIConfig, CommonMK, PluginToolingMK]"

definition DefaultPluginTargets :: "template_target list" where
  "DefaultPluginTargets = [PluginReadMe, PluginMain, PluginTest]"

section \<open>The operations\<close>

text \<open>Only an error that says that the file does not exist counts.\<close>

definition missing :: "'b scaffold_env \<Rightarrow> (string \<Rightarrow> 'b option) \<Rightarrow> string \<Rightarrow> bool" where
  "missing E files f \<longleftrightarrow> tv_Stat E f = None \<and> files f = None"

definition looksLikeARepo :: "'b scaffold_env \<Rightarrow> (string \<Rightarrow> 'b option) \<Rightarrow> err option" where
  "looksLikeARepo E files =
     (if missing E files ''go.mod'' then Some (Errorf ''command should be run from the root of the repo, go.mod not found'' [])
      else if missing E files ''Makefile'' then Some (Errorf ''command should be run from the root of the repo, Makefile not found'' [])
      else None)"

definition AddPlugin :: "'b scaffold_env \<Rightarrow> string \<Rightarrow> string \<Rightarrow> bool \<Rightarrow> 'b scaffold \<Rightarrow> 'b scaffold \<times> err option" where
  "AddPlugin E name description dryRun s =
     (case looksLikeARepo E (sd_files s) of
        Some e \<Rightarrow> (s, Some e)
      | None \<Rightarrow>
          if description = '''' then (s, Some (Errorf ''plugin description is required'' []))
          else targets_loop E DefaultPluginTargets '''' [(''PluginName'', name), (''Description'', description)] dryRun s)"

definition Initialize :: "'b scaffold_env \<Rightarrow> string \<Rightarrow> string \<Rightarrow> bool \<Rightarrow> 'b scaffold \<Rightarrow> 'b scaffold \<times> err option" where
  "Initialize E name repoType dryRun s =
     (case targets_loop E (DefaultInitTargets @ [if equal_fold repoType ''github'' then GitHubCI else GitLabCI]) name
             [(''RepositoryName'', name)] dryRun s of
        (s1, Some e) \<Rightarrow> (s1, Some e)
      | (s1, None) \<Rightarrow> if dryRun then (s1, None) else (s1, tv_GitInit E name))"

section \<open>The commands\<close>

definition newAddPluginCmd :: cmd_tree where
  "newAddPluginCmd = CmdTree (decl ''add-plugin NAME'' ''Add a plugin to a repository'' False [] []) (ExactArgs 1)
    [BoolVarP ''dryRun'' ''dry-run'' '''' False, StringVarP ''description'' ''description'' '''' ''''] []"

definition NewCLICmd :: cmd_tree where
  "NewCLICmd = CmdTree (decl ''cli'' ''Build CLIs'' False [] []) AnyArgs [] [newAddPluginCmd]"

definition NewInitCmd :: cmd_tree where
  "NewInitCmd = CmdTree (decl ''init REPO_NAME'' ''Initialize a new plugin repository'' False [] []) (ExactArgs 1)
    [BoolVarP ''dryRun'' ''dry-run'' '''' False, StringVarP ''repoType'' ''repo-type'' '''' ''''] []"

definition add_plugin_command :: "'b scaffold_env \<Rightarrow> vars \<Rightarrow> string \<Rightarrow> 'b scaffold \<Rightarrow> 'b scaffold \<times> err option" where
  "add_plugin_command E vs name s =
     (case (if str_of vs ''description'' = '''' then tv_Ask E else Inr (str_of vs ''description'')) of
        Inl e \<Rightarrow> (s, Some e)
      | Inr description \<Rightarrow> AddPlugin E name description (bool_of vs ''dryRun'') s)"

definition init_repository_command :: "'b scaffold_env \<Rightarrow> vars \<Rightarrow> string \<Rightarrow> 'b scaffold \<Rightarrow> 'b scaffold \<times> err option" where
  "init_repository_command E vs name s =
     (case (if str_of vs ''repoType'' = '''' then tv_Select E else Inr (str_of vs ''repoType'')) of
        Inl e \<Rightarrow> (s, Some e)
      | Inr repoType \<Rightarrow> Initialize E name repoType (bool_of vs ''dryRun'') s)"

definition builder_trees :: "cmd_tree list" where
  "builder_trees = [NewCLICmd, NewInitCmd, NewPluginCmd, newInventoryCmd]"

end
