(* ===== verification/Builder_Correct.thy ===== *)
theory Builder_Correct
  imports Builder_Front Plugin_Compile_Correct Plugin_Packages_Correct Command_Line
begin

text \<open>
  The commands of the plugin builder together: what the defaults of their flags make of them, and the repositories and plugins
  that are made from templates.
\<close>

section \<open>The flags\<close>

lemma builder_trees_ok: "list_all tree_ok builder_trees"
  by code_simp

lemma builder_constructed:
  assumes "flag_laws F"
  shows "\<exists>bs. construct_all F builder_trees [] = Some (bs, set_defaults (concat (map tree_flags builder_trees)) [])"
proof -
  have "\<forall>t \<in> set builder_trees. \<forall>vs. \<exists>b. construct F t vs = Some (b, set_defaults (tree_flags t) vs) \<and>
      (\<forall>p. built_commands F p b = tree_commands p t)"
    using construct_ok [OF assms] builder_trees_ok by (simp add: list_all_iff)
  from construct_all_ok [OF this] show ?thesis by blast
qed

lemma str_of_update: "str_of (AList.update x (FString s) vs) y = (if x = y then s else str_of vs y)"
  by (simp add: str_of_def update_conv')

lemma strings_of_update: "strings_of (AList.update x (FString s) vs) y = (if x = y then [] else strings_of vs y)"
  by (simp add: strings_of_def update_conv')

section \<open>What compiling writes\<close>

abbreviation same_files :: "compile_state \<Rightarrow> compile_state \<Rightarrow> bool" where
  "same_files s s' \<equiv> co_files s' = co_files s"

lemma run_go_files: "run_go E c s = (s', r) \<Longrightarrow> same_files s s'"
  by (auto simp: run_go_def)

lemma build_targets_files:
  "build_targets_loop E G tp dir n target mp isTest targets archs s = Some (s', r) \<Longrightarrow> same_files s s'"
proof (induction archs arbitrary: s)
  case (Cons arch archs)
  then show ?case by (fastforce simp: Let_def dest!: run_go_files split: option.splits prod.splits sum.splits)
qed simp

lemma compile_plugin_files:
  "compile_plugin L E G p s = Some (s', r) \<Longrightarrow> gl_groupByOSArch G \<Longrightarrow> same_files s s'"
  by (auto simp: compile_plugin_def buildTargets_def Let_def split: option.splits prod.splits sum.splits if_splits dest!: build_targets_files)

lemma describe_plugin_files: "describe_plugin E G path s = (s', r) \<Longrightarrow> same_files s s'"
  by (auto simp: describe_plugin_def Let_def dest!: run_go_files split: prod.splits sum.splits if_splits)

lemma buildPlugin_files:
  assumes "buildPlugin L E G path s = Some (s', r)" "gl_groupByOSArch G"
  shows "same_files s s'"
proof -
  obtain s1 r1 where d: "describe_plugin E G path s = (s1, r1)" by force
  from assms show ?thesis unfolding buildPlugin_def d using describe_plugin_files [OF d]
    by (auto simp: Let_def split: option.splits prod.splits sum.splits bool.splits dest!: compile_plugin_files)
qed

lemma build_plugins_files:
  "build_plugins_loop L E G paths (s, ps, es) = Some (s', ps', es') \<Longrightarrow> gl_groupByOSArch G \<Longrightarrow> same_files s s'"
proof (induction paths arbitrary: s ps es)
  case (Cons path paths)
  then show ?case by (fastforce dest!: buildPlugin_files split: option.splits prod.splits sum.splits)
qed simp

text \<open>The files that are new after the manifests were written.\<close>

lemma write_manifests_files:
  "write_manifests_loop E dir b archs s = (s', r) \<Longrightarrow> p \<notin> (\<lambda>a. path_join [dir, arch_OS a, arch_Arch a, ''plugin_manifest.yaml'']) ` set archs \<Longrightarrow>
   co_files s' p = co_files s p"
  by (induction archs arbitrary: s) (auto simp: write_artifact_def split: option.splits prod.splits)

lemma compile_files:
  assumes "Compile L E a s = Some (s', r)" "ca_GroupByOSArch a"
    and "p \<notin> (\<lambda>x. path_join [ca_ArtifactsDir a, arch_OS x, arch_Arch x, ''plugin_manifest.yaml'']) ` set (getBuildArch L E (ca_TargetArch a) @ [''''])"
    and "p \<noteq> path_join [ca_ArtifactsDir a, ''plugin_group_manifest.yaml'']"
  shows "co_files s' p = co_files s p"
proof -
  let ?G = "setGlobals a"
  have G: "gl_groupByOSArch ?G" "gl_artifactsDir ?G = ca_ArtifactsDir a" "gl_targetArch ?G = ca_TargetArch a"
    using assms(2) by (simp_all add: setGlobals_def)
  have plugin: "co_files t' p = co_files t p" if "savePluginManifest L E ?G m t = (t', e)" for m t t' e
    using that assms(3) G by (auto simp: savePluginManifest_def Let_def dest!: write_manifests_files [where p = p] split: sum.splits)
  have grp: "co_files t' p = co_files t p" if "savePluginGroupManifest E ?G f ps t = Some (t', e)" for f ps t t' e
    using that assms(4) G by (auto simp: savePluginGroupManifest_def write_artifact_def Let_def split: sum.splits option.splits if_splits)
  from assms(1) show ?thesis
    by (auto simp: Compile_def Let_def split: sum.splits option.splits prod.splits if_splits
        dest!: build_plugins_files [OF _ G(1)] plugin grp)
qed

section \<open>The defaults of build and build-package\<close>

lemma default_values:
  "let vs = set_defaults (concat (map tree_flags builder_trees)) []
   in str_of vs ''pbFlags.ArtifactDir'' = ''./artifacts'' \<and> strings_of vs ''pbFlags.OSArch'' = [''all''] \<and>
      str_of vs ''pbpFlags.BinaryArtifactDir'' = ''./artifacts/plugins'' \<and> str_of vs ''pbpFlags.localOCIRepository'' = ''''"
  by code_simp

lemma default_manifests:
  "list_all (\<lambda>x. path_join [''./artifacts'', arch_OS x, arch_Arch x, ''plugin_manifest.yaml''] \<noteq> ''./artifacts/plugins/plugin_manifest.yaml'')
     (keys_of (archMap env) @ [''''])"
  by code_simp

text \<open>C39 (error): the defaults of the flags do not fit together. After \<^verbatim>\<open>tanzu builder plugin build\<close> with a version and the defaults,
  \<^verbatim>\<open>build-package\<close> with its defaults finds no manifest, and fails without packaging anything, unless one was already
  there.\<close>

theorem default_artifacts_do_not_fit:
  assumes "range_law L" "flag_laws F" "construct_all F builder_trees [] = Some (bs, vs)"
    and "plugin_build_command L E (AList.update ''pbFlags.Version'' (FString v) vs) s = Some (s', r)"
    and "co_files s ''./artifacts/plugins/plugin_manifest.yaml'' = None" "kg_files g = co_files s'"
    and "plugin_build_package_command K serve vs g out"
  shows "\<exists>e. out = Some (g, Some e)"
proof -
  let ?p = "''./artifacts/plugins/plugin_manifest.yaml''"
  from builder_constructed [OF assms(2)] assms(3) have vs: "vs = set_defaults (concat (map tree_flags builder_trees)) []" by auto
  note d = default_values [unfolded Let_def, folded vs]
  let ?a = "compile_args_of (AList.update ''pbFlags.Version'' (FString v) vs)"
  have a: "ca_GroupByOSArch ?a" "ca_ArtifactsDir ?a = ''./artifacts''" "ca_TargetArch ?a = [''all'']"
    using d by (simp_all add: compile_args_of_def str_of_update strings_of_update)
  have "set (getBuildArch L E [''all'']) = set (keys_of (archMap (cm_environ E)))"
    using assms(1) by (simp add: getBuildArch_def)
  then have "?p \<notin> (\<lambda>x. path_join [''./artifacts'', arch_OS x, arch_Arch x, ''plugin_manifest.yaml'']) ` set (getBuildArch L E [''all''] @ [''''])"
    using default_manifests [of "cm_environ E"] by (force simp: list_all_iff)
  moreover have "?p \<noteq> path_join [''./artifacts'', ''plugin_group_manifest.yaml'']" by code_simp
  ultimately have "co_files s' ?p = None"
    using compile_files [OF assms(4) [unfolded plugin_build_command_def] a(1), of ?p] a(2,3) assms(5) by simp
  then have none: "kg_files g ?p = None" using assms(6) by simp
  have m: "build_manifest_file (package_options_of vs reg) = ?p" for reg
    using d by (simp add: build_manifest_file_def package_options_of_def path_join_def)
  have start: "\<exists>e. start_build K (package_options_of vs reg) g = Inl e" for reg
    using none m by (auto simp: start_build_def ReadPluginManifest_def read_file_def split: option.splits)
  have "\<exists>e. out = Some (g, Some e)" if run: "BuildPluginPackages K (package_options_of vs reg) g out" for reg
  proof -
    obtain e where e: "start_build K (package_options_of vs reg) g = Inl e" using start by blast
    from run show ?thesis by (cases rule: BuildPluginPackages.cases) (use e in auto)
  qed
  with assms(7) show ?thesis by (auto simp: plugin_build_package_command_def Let_def split: sum.splits)
qed

theorem default_artifacts_do_not_fit_witness:
  "\<exists>bs vs s' g e. construct_all demo_flag_lib builder_trees [] = Some (bs, vs) \<and>
     plugin_build_command dotted_lib demo_compile_env (AList.update ''pbFlags.Version'' (FString ''v1'') vs) \<lparr>co_files = Map.empty, co_commands = []\<rparr> =
       Some (s', None) \<and> kg_files g = co_files s' \<and> co_files s' ''./artifacts/plugin_manifest.yaml'' \<noteq> None \<and>
     plugin_build_package_command (demo_package_env []) (Inr ''5001'') vs g (Some (g, Some e))"
proof -
  let ?vs = "set_defaults (concat (map tree_flags builder_trees)) []" and ?s = "\<lparr>co_files = Map.empty, co_commands = []\<rparr>"
  let ?run = "plugin_build_command dotted_lib demo_compile_env (AList.update ''pbFlags.Version'' (FString ''v1'') ?vs) ?s"
  let ?p = "''./artifacts/plugins/plugin_manifest.yaml''" and ?opts = "package_options_of ?vs ''localhost:5001''"
  obtain bs where bs: "construct_all demo_flag_lib builder_trees [] = Some (bs, ?vs)" using builder_constructed [OF demo_flag_laws] by blast
  have "map_option (\<lambda>(s, r). (r, co_files s ''./artifacts/plugin_manifest.yaml'', co_files s ?p)) ?run = Some (None, Some ''m'', None)" by code_simp
  then obtain s' where s': "?run = Some (s', None)" "co_files s' ''./artifacts/plugin_manifest.yaml'' = Some ''m''" "co_files s' ?p = None" by auto
  let ?g = "demo_package_state\<lparr>kg_files := co_files s'\<rparr>"
  have m: "build_manifest_file ?opts = ?p" "str_of ?vs ''pbpFlags.localOCIRepository'' = ''''" by code_simp+
  obtain e where "start_build (demo_package_env []) ?opts ?g = Inl e"
    using s'(3) m(1) by (auto simp: start_build_def ReadPluginManifest_def read_file_def demo_package_env_def)
  then have "BuildPluginPackages (demo_package_env []) ?opts ?g (Some (?g, Some e))" by (rule BuildPluginPackages.failed)
  then have run: "plugin_build_package_command (demo_package_env []) (Inr ''5001'') ?vs ?g (Some (?g, Some e))"
    by (simp add: plugin_build_package_command_def m(2))
  have "\<exists>e'. Some (?g, Some e) = Some (?g, Some e')"
    by (rule default_artifacts_do_not_fit [OF dotted_range_law demo_flag_laws bs s'(1) _ _ run]) (simp_all add: s'(3))
  then obtain e' where "plugin_build_package_command (demo_package_env []) (Inr ''5001'') ?vs ?g (Some (?g, Some e'))" using run by blast
  moreover have "kg_files ?g = co_files s'" by simp
  moreover have "co_files s' ''./artifacts/plugin_manifest.yaml'' \<noteq> None" using s'(2) by simp
  ultimately show ?thesis using bs s'(1) by blast
qed

section \<open>New repositories and plugins\<close>

text \<open>A target that runs writes its file, and no other.\<close>

lemma target_Run_effect:
  assumes "target_Run E t root data dry s = (s', None)"
  shows "\<exists>p b. path_value (tg_Filepath t) data = Inr p \<and>
    sd_files s' = (if dry then sd_files s else (sd_files s)(path_join [root, p] := Some b))"
  using assms by (auto simp: target_Run_def Let_def split: sum.splits option.splits if_splits write_fault.splits)

lemma targets_loop_effect:
  "targets_loop E ts root data dry s = (s', None) \<Longrightarrow>
     (\<forall>t \<in> set ts. \<exists>p. path_value (tg_Filepath t) data = Inr p \<and> (\<not> dry \<longrightarrow> sd_files s' (path_join [root, p]) \<noteq> None)) \<and>
     (\<forall>f. sd_files s' f = sd_files s f \<or> (\<not> dry \<and> (\<exists>t \<in> set ts. \<exists>p. path_value (tg_Filepath t) data = Inr p \<and> f = path_join [root, p])))"
proof (induction ts arbitrary: s)
  case Nil
  then show ?case by simp
next
  case (Cons t ts)
  from Cons.prems obtain s1 where t: "target_Run E t root data dry s = (s1, None)" "targets_loop E ts root data dry s1 = (s', None)"
    by (auto split: prod.splits option.splits)
  from target_Run_effect [OF t(1)] obtain p b where p: "path_value (tg_Filepath t) data = Inr p"
    "sd_files s1 = (if dry then sd_files s else (sd_files s)(path_join [root, p] := Some b))" by blast
  note ih = Cons.IH [OF t(2)]
  have "sd_files s' (path_join [root, p]) \<noteq> None" if wet: "\<not> dry"
  proof -
    let ?f = "path_join [root, p]"
    from ih have "sd_files s' ?f = sd_files s1 ?f \<or> (\<exists>u \<in> set ts. \<exists>q. path_value (tg_Filepath u) data = Inr q \<and> ?f = path_join [root, q])" by blast
    then show ?thesis
    proof
      assume "sd_files s' ?f = sd_files s1 ?f"
      with p(2) wet show ?thesis by simp
    next
      assume "\<exists>u \<in> set ts. \<exists>q. path_value (tg_Filepath u) data = Inr q \<and> ?f = path_join [root, q]"
      then obtain u q where u: "u \<in> set ts" "path_value (tg_Filepath u) data = Inr q" "?f = path_join [root, q]" by blast
      from ih u(1) obtain q' where "path_value (tg_Filepath u) data = Inr q'" "sd_files s' (path_join [root, q']) \<noteq> None"
        using wet by blast
      with u(2,3) show ?thesis by simp
    qed
  qed
  moreover have "sd_files s' f = sd_files s f \<or> (\<not> dry \<and> (\<exists>u \<in> set (t # ts). \<exists>p. path_value (tg_Filepath u) data = Inr p \<and> f = path_join [root, p]))" for f
    using ih p by (cases "f = path_join [root, p]") (auto split: if_splits)
  ultimately show ?case using ih p(1) by auto
qed

text \<open>Adding a plugin to a repository writes the source of its program to the directory of its name in lower
  case, but its documentation and its test to the directory of the name itself: when the name has a capital letter the
  directory of the program, which is compiled, has no \<^verbatim>\<open>README.md\<close> that was not there before, and the compiler demands one. Nothing else is
  written, and nothing at all in a dry run.\<close>

theorem added_plugin_directories:
  assumes "AddPlugin E name description dryRun s = (s', None)"
  shows "(if dryRun then sd_files s' = sd_files s
     else sd_files s' (''cmd/plugin/'' @ to_lower name @ ''/main.go'') \<noteq> None \<and>
       sd_files s' (''cmd/plugin/'' @ name @ ''/README.md'') \<noteq> None \<and> sd_files s' (''cmd/plugin/'' @ name @ ''/test/main.go'') \<noteq> None) \<and>
     (\<forall>f. f \<notin> {''cmd/plugin/'' @ to_lower name @ ''/main.go'', ''cmd/plugin/'' @ name @ ''/README.md'', ''cmd/plugin/'' @ name @ ''/test/main.go''} \<longrightarrow>
       sd_files s' f = sd_files s f) \<and>
     (to_lower name \<noteq> name \<longrightarrow> sd_files s' (''cmd/plugin/'' @ to_lower name @ ''/README.md'') = sd_files s (''cmd/plugin/'' @ to_lower name @ ''/README.md''))"
proof -
  let ?data = "[(''PluginName'', name), (''Description'', description)]"
  let ?main = "''cmd/plugin/'' @ to_lower name @ ''/main.go''"
  let ?readme = "\<lambda>n. ''cmd/plugin/'' @ n @ ''/README.md''" and ?test = "''cmd/plugin/'' @ name @ ''/test/main.go''"
  have run: "targets_loop E DefaultPluginTargets '''' ?data dryRun s = (s', None)"
    using assms by (auto simp: AddPlugin_def split: option.splits if_splits)
  have paths: "path_value (tg_Filepath PluginReadMe) ?data = Inr (?readme name)"
    "path_value (tg_Filepath PluginMain) ?data = Inr ?main" "path_value (tg_Filepath PluginTest) ?data = Inr ?test"
    by (simp_all add: PluginReadMe_def PluginMain_def PluginTest_def)
  have j: "path_join ['''', x] = x" for x by (simp add: path_join_def)
  note eff = targets_loop_effect [OF run, unfolded DefaultPluginTargets_def j]
  have others: "sd_files s' f = sd_files s f" if "dryRun \<or> f \<notin> {?main, ?readme name, ?test}" for f
    using eff [THEN conjunct2, rule_format, of f] that
    by (simp only: list.set bex_simps ball_simps insert_iff empty_iff paths sum.inject ex_simps simp_thms; blast)
  have written: "sd_files s' ?main \<noteq> None \<and> sd_files s' (?readme name) \<noteq> None \<and> sd_files s' ?test \<noteq> None" if "\<not> dryRun"
    using eff [THEN conjunct1] that
    by (simp only: list.set bex_simps ball_simps insert_iff empty_iff paths sum.inject ex_simps simp_thms; blast)
  have "sd_files s' (?readme (to_lower name)) = sd_files s (?readme (to_lower name))" if "to_lower name \<noteq> name"
    by (rule others) (use that in \<open>auto dest!: arg_cong [where f = rev] simp: rev_append\<close>)
  moreover have "sd_files s' = sd_files s" if dryRun using others that by (simp add: fun_eq_iff)
  ultimately show ?thesis using others written by (simp only: if_bool_eq_conj) blast
qed

text \<open>A repository that \<^verbatim>\<open>tanzu builder init\<close> made passes the check of \<^verbatim>\<open>add-plugin\<close> in its directory.\<close>

theorem new_repository_accepts_plugins:
  assumes "Initialize E name repoType False s = (s', None)" "name \<noteq> ''''"
  shows "looksLikeARepo E (\<lambda>f. sd_files s' (name @ ''/'' @ f)) = None"
proof -
  let ?ts = "DefaultInitTargets @ [if equal_fold repoType ''github'' then GitHubCI else GitLabCI]"
  have "targets_loop E ?ts name [(''RepositoryName'', name)] False s = (s', None)"
    using assms(1) by (auto simp: Initialize_def split: prod.splits option.splits)
  note eff = targets_loop_effect [OF this]
  have "sd_files s' (path_join [name, ''go.mod'']) \<noteq> None" "sd_files s' (path_join [name, ''Makefile'']) \<noteq> None"
    using eff by (auto simp: DefaultInitTargets_def GoMod_def MakefileTarget_def plain_target_def)
  with assms(2) show ?thesis by (simp add: looksLikeARepo_def missing_def path_join_def)
qed

definition demo_scaffold :: "string scaffold_env" where
  "demo_scaffold = \<lparr>tv_Execute = (\<lambda>t data. Inr t), tv_NoBytes = '''', tv_MkdirAll = (\<lambda>p. None), tv_WriteFile = (\<lambda>p. None),
     tv_Stat = (\<lambda>p. None), tv_Ask = Inr ''text'', tv_Select = Inr ''github'', tv_GitInit = (\<lambda>d. None)\<rparr>"

theorem added_plugin_directories_witness:
  "\<exists>s'. AddPlugin demo_scaffold ''Apps'' ''text'' False \<lparr>sd_files = [''go.mod'' \<mapsto> '''', ''Makefile'' \<mapsto> ''''], sd_printed = []\<rparr> = (s', None) \<and>
     sd_files s' ''cmd/plugin/apps/main.go'' \<noteq> None \<and> sd_files s' ''cmd/plugin/apps/README.md'' = None"
proof -
  let ?s = "\<lparr>sd_files = [''go.mod'' \<mapsto> '''', ''Makefile'' \<mapsto> ''''], sd_printed = []\<rparr>"
  have "snd (AddPlugin demo_scaffold ''Apps'' ''text'' False ?s) = None" by code_simp
  then obtain s' where s': "AddPlugin demo_scaffold ''Apps'' ''text'' False ?s = (s', None)" by (metis prod.collapse)
  have "to_lower ''Apps'' = ''apps''" by code_simp
  with added_plugin_directories [OF s'] s' show ?thesis by simp
qed

theorem new_repository_accepts_plugins_witness:
  "looksLikeARepo demo_scaffold (\<lambda>f. sd_files (fst (Initialize demo_scaffold ''apps'' ''github'' False \<lparr>sd_files = Map.empty, sd_printed = []\<rparr>))
     (''apps/'' @ f)) = None"
proof -
  let ?r = "Initialize demo_scaffold ''apps'' ''github'' False \<lparr>sd_files = Map.empty, sd_printed = []\<rparr>"
  have "snd ?r = None" by code_simp
  then have "?r = (fst ?r, None)" by (metis prod.collapse)
  from new_repository_accepts_plugins [OF this] show ?thesis by simp
qed

end
