(* ===== verification/Spec2Isabelle.thy ===== *)
theory Spec2Isabelle
  imports Plugin_Supplier Inventory_Roundtrip Catalog_Locks Command_Root_Correct Global_Init Recommended_Version Airgapped_Correct
    Telemetry_Correct Registry_Client Context_Safety Pinniped_Correct Inventory_Publish_Correct Plugin_Compile_Correct
    Plugin_Commands_Correct Config_Commands Cluster_Client_Correct Context_Output_Correct Help_Docs Builder_Correct
begin

text \<open>
  Verification library of the Tanzu CLI (\<^verbatim>\<open>src/\<close>, Go).

  \<^bold>\<open>The program.\<close> The Tanzu CLI is a host for plugins. Discovery sources publish inventories of plugins and of
  groups of plugins; the plugin manager merges what the sources offer, installs binaries from there, verifies
  them and enters them into a catalog on disk; the root command turns the installed plugins into commands and
  runs them as processes. Around this core there are the licence agreement and other settings, a small data
  store, initializations after an upgrade, recommendations of newer versions, and bundles that carry plugins to
  repositories without network access.

  \<^bold>\<open>How the program is modelled.\<close> A Go function is a HOL function of the same name; a loop with more than one
  effect is a recursive function of its own (\<open>..._loop\<close>) whose arguments are the variables the loop updates; a
  struct is a record, whose fields carry a short prefix. State the code keeps in files or in variables is a
  record that is passed and returned. An error is a value of \<open>err\<close>, a fallible result is \<open>'a res\<close> (\<open>Inl\<close> the
  error); a result of the form \<open>'a option\<close> around a function is a panic when it is \<open>None\<close> (a nil pointer, an index out of
  range). Go maps are association lists with distinct keys; iteration over a map goes through \<open>range_keys L\<close>, an
  arbitrary permutation of the keys, so that the theorems hold for every iteration order. Code outside the
  repository is a parameter: the record \<open>lib\<close> (semantic versions, iteration order, aggregated errors, hashes),
  and records of environment functions of a component (\<open>oci_env\<close>, \<open>mgr_env\<close>, \<open>bundle_env\<close>, \<open>cobra\<close> and others). What
  is assumed of them are named hypotheses such as \<open>semver_laws\<close>, \<open>range_law\<close>, \<open>aggregate_law\<close>, \<open>cobra_laws\<close>, and the witnesses
  instantiate them with concrete functions (\<open>dotted_lib\<close> for versions of three numbers). Faults of
  the file system are functions from operations to optional errors, so every error path of the code is a branch.
  All sequential loops of the modelled code run over lists or maps and are structurally recursive, so their definitions
  are total and no fuel is needed; concurrent code is a step relation, whose termination is a theorem.

  \<^bold>\<open>Theories\<close>, in the order in which they build on each other.

  \<^item> \<open>Tanzu_Prelude\<close>: strings, splitting and joining, paths, association lists, sorting by a strict weak order
    (locale \<open>weak_order\<close>), errors, the parameters \<open>lib\<close>.
  \<^item> \<open>Semver_Utils\<close>: \<^verbatim>\<open>pkg/utils/semver.go\<close>, \<^verbatim>\<open>pkg/cli/version.go\<close>. Sorting is a sorted permutation or an
    error; the four version selectors return the latest admissible version (locale \<open>version_selector\<close>).
  \<^item> \<open>Cli_Types\<close>: \<^verbatim>\<open>pkg/cli/plugin_info.go\<close>, \<^verbatim>\<open>arch.go\<close>, \<^verbatim>\<open>conversion.go\<close>, \<^verbatim>\<open>pkg/utils/common.go\<close>.
  \<^item> \<open>Catalog_Model\<close>, \<open>Catalog_Correct\<close>, \<open>Catalog_Session\<close>, \<open>Catalog_Cleanup\<close>, \<open>Catalog_Locks\<close>: \<^verbatim>\<open>pkg/catalog/\<close>. The state is the
    catalog file with its lock and the open context catalog. A session refines a map from keys to plugins
    (locale \<open>plugin_catalog\<close>, interpreted on the operations); the migrations change exactly the entries they
    should; the indices and associations fit together after every operation; the lock is released under every fault but an
    undecodable file; failed writes lose the catalog.
  \<^item> \<open>Plugin_Supplier\<close>: \<^verbatim>\<open>pkg/pluginsupplier/plugin_supplier.go\<close>. The installed plugins.
  \<^item> \<open>Distribution_Model\<close>: \<^verbatim>\<open>pkg/distribution/\<close>, \<^verbatim>\<open>pkg/artifact/\<close>. Lookup and download of binaries.
  \<^item> \<open>Inventory_Types\<close>, \<open>Inventory_Rows\<close>, \<open>Inventory_Extract\<close>, \<open>Inventory_Db\<close>, \<open>Inventory_Update\<close>, \<open>Inventory_Correct\<close>,
    \<open>Inventory_Roundtrip\<close>: \<^verbatim>\<open>pkg/plugininventory/\<close>. The state is the rows of the two tables. The row-grouping loops are
    one locale \<open>row_grouping\<close> for plugins and groups; queries with values that hold no quote return the rows of
    the filter; an insertion stops at the first refused row; inserted plugins are found again; metadata restricts an inventory.
  \<^item> \<open>Discovery_Cache\<close>, \<open>Discovery_Cache_Correct\<close>, \<open>Discovery_Model\<close>, \<open>Discovery_Correct\<close>: \<^verbatim>\<open>pkg/discovery/\<close>. The state is the
    cached inventory with its digest files and their times. The database is replaced only after verification; a
    refresh makes the cache current; the time to live on 64 bits; every kind of source (locale \<open>plugin_source\<close>) offers
    exactly the versions it has artifacts for.
  \<^item> \<open>Manager_Merge\<close>, \<open>Manager_Merge_Correct\<close>, \<open>Manager_Discover\<close>, \<open>Manager_Install\<close>, \<open>Manager_Install_Correct\<close>, \<open>Manager_Local\<close>,
    \<open>Manager_Local_Correct\<close>: \<^verbatim>\<open>pkg/pluginmanager/\<close>. Merging duplicates of several sources (locale \<open>keyed_merge\<close>), installing
    with verification and a log of effects, groups, deletion, local sources.
  \<^item> \<open>Command_Map\<close>, \<open>Command_Map_Correct\<close>: \<^verbatim>\<open>pkg/cli/plugin_cmd.go\<close>, \<^verbatim>\<open>runner.go\<close>. The commands of a plugin and the paths
    of the command tree it claims or removes.
  \<^item> \<open>Cli_Config\<close>: \<^verbatim>\<open>pkg/config/config.go\<close>. Licence agreement and customer experience programme.
  \<^item> \<open>Command_Root\<close>, \<open>Command_Root_Correct\<close>: \<^verbatim>\<open>pkg/command/root.go\<close>. Construction of the command tree over the operations of
    cobra, which commands survive, conflicts between plugins, the hook before a command.
  \<^item> \<open>Data_Store\<close>, \<open>Global_Init\<close>, \<open>Recommended_Version\<close>: \<^verbatim>\<open>pkg/datastore/\<close>, \<^verbatim>\<open>pkg/lastversion/\<close>, \<^verbatim>\<open>pkg/globalinit/\<close>,
    \<^verbatim>\<open>pkg/centralconfiginit/\<close>, \<^verbatim>\<open>pkg/centralconfig/\<close>, \<^verbatim>\<open>pkg/recommendedversion/\<close>. The data store refines a map (locale
    \<open>value_store\<close>); the initializations run once; the recommended versions are the right ones, once per period.
  \<^item> \<open>Airgapped_Bundle\<close>, \<open>Airgapped_Correct\<close>: \<^verbatim>\<open>pkg/airgapped/\<close>. Download and upload of a bundle are a round trip.
  \<^item> \<open>Plugin_Cmd_Tree\<close>, \<open>Telemetry\<close>, \<open>Telemetry_Correct\<close>: \<^verbatim>\<open>pkg/plugincmdtree/\<close>, \<^verbatim>\<open>pkg/telemetry/\<close>. The command tree of a
    plugin is exact and cached; what is recorded of a plugin command does not depend on values after an equals sign and on
    arguments that name no command, while values attached to short flags are recorded; the database is bounded; the opt-out
    is respected.
    Waiting for its lock (\<^verbatim>\<open>metrics_db_lock.go\<close>, in \<open>Telemetry_Correct\<close>) is a step relation of the caller, its goroutine, the timer and
    other processes; after a timeout the lock is not kept.
  \<^item> \<open>Registry_Trust\<close>: \<^verbatim>\<open>pkg/registry/helpers.go\<close>, the files of an image in \<^verbatim>\<open>client.go\<close>, \<^verbatim>\<open>pkg/cosignhelper/\<close>,
    \<^verbatim>\<open>pkg/command/discovery_source.go\<close>, \<^verbatim>\<open>pkg/config/discovery.go\<close>. Only verified images are accepted; a discovery
    source is checked before it is saved.
  \<^item> \<open>Registry_Client\<close>: \<^verbatim>\<open>pkg/registry/client.go\<close>, \<^verbatim>\<open>pkg/carvelhelpers/image_operations.go\<close>. An image
    operation is the list of the imgpkg commands it runs, with their flags, which the configuration of the host allows.
  \<^item> \<open>Kube_Config\<close>, \<open>Login_Handler\<close>, \<open>Auth_Tokens\<close>: \<^verbatim>\<open>pkg/auth/\<close> and the kubeconfig operations of
    \<^verbatim>\<open>pkg/command/context.go\<close>. The login through the browser is a step relation over the requests to the local server
    and the prompt, with runs as lists of events; tokens are renewed exactly when they have expired.
  \<^item> \<open>Context_Create\<close>, \<open>Context_Login\<close>, \<open>Context_Commands\<close>, \<open>Context_Updates\<close>, \<open>Context_Correct\<close>, \<open>Context_Safety\<close>:
    \<^verbatim>\<open>pkg/command/context.go\<close>, \<^verbatim>\<open>login.go\<close>, \<^verbatim>\<open>login_helper.go\<close>, \<^verbatim>\<open>root_initializers.go\<close>, \<^verbatim>\<open>pkg/config/context.go\<close>. The state is
    the variables of the flags, the configuration and the kubeconfig files; a login may store a certificate entry. Creating
    replaces no context; the kubeconfig
    addresses the active resource; tokens are renewed once; what a failed save leaves behind.
  \<^item> \<open>Context_Output\<close>, \<open>Context_Output_Correct\<close>: \<^verbatim>\<open>pkg/command/context.go\<close>. What the context commands print and complete, as
    values. One context is the current one; its short form names its kube context; the layouts of the list agree.
  \<^item> \<open>Kube_Merge\<close>, \<open>Pinniped_Login\<close>, \<open>Pinniped_Correct\<close>: \<^verbatim>\<open>pkg/auth/tkg/\<close>, \<^verbatim>\<open>pkg/auth/wcp/\<close>,
    \<^verbatim>\<open>pkg/command/context_tkg_helper.go\<close>. Merging fills only what a kubeconfig file lacks, so that a second login addresses
    the old organization; the TLS configurations over which the kubeconfig of a cluster is read (no protection for \<^verbatim>\<open>http://\<close> addresses); it has the
    context that is stored.
  \<^item> \<open>Cluster_Query\<close>, \<open>Cluster_Query_Correct\<close>, \<open>Cluster_Client_Correct\<close>:
    \<^verbatim>\<open>pkg/capabilities/discovery/\<close>, \<^verbatim>\<open>pkg/cluster/client.go\<close>. A server is the versions and resources of its groups; the queries
    find exactly what it provides, and the client discovers plugins over them through \<open>Discovery_Model\<close>.
  \<^item> \<open>Inventory_Publish\<close>, \<open>Inventory_Publish_Correct\<close>: \<^verbatim>\<open>cmd/plugin/builder/inventory/\<close>. The state is the database files and the
    images of the repository. Published plugins are listed by the queries of \<open>Inventory_Db\<close>; failures keep the repository.
  \<^item> \<open>Worker_Pool\<close>, \<open>Plugin_Packages\<close>, \<open>Plugin_Packages_Correct\<close>: \<^verbatim>\<open>cmd/plugin/builder/plugin/\<close>. The main goroutine and the
    goroutines of the tasks, with the wait group, the channel \<^verbatim>\<open>guard\<close> and the buffered channel of errors, all of which can block,
    are the step relation \<open>pool_step\<close>; the locale \<open>worker_pool\<close> bounds the steps of every interleaving and shows that only a
    full channel of errors could block for ever; it is interpreted on building and on publishing, where the capacity suffices. What the packages hold in
    every interleaving, and two that lose a result.
  \<^item> \<open>Plugin_Compile\<close>, \<open>Plugin_Compile_Correct\<close>: \<^verbatim>\<open>cmd/plugin/builder/command/cli_compile.go\<close>. The state is the artifacts and
    the \<^verbatim>\<open>go\<close> commands that were run. The merge of manifests; binaries are written where the packager reads them.
  \<^item> \<open>Plugin_Commands\<close>, \<open>Plugin_Completion\<close>, \<open>Plugin_Commands_Correct\<close>:
    \<^verbatim>\<open>pkg/command/plugin.go\<close>, \<^verbatim>\<open>plugin_group.go\<close>, \<^verbatim>\<open>plugin_search.go\<close>, \<^verbatim>\<open>completion_helper.go\<close>. The commands over the plugin
    manager, with the tables they print as values; the list shows every plugin once; the completions offer what is installed.
  \<^item> \<open>Config_Commands\<close>: \<^verbatim>\<open>pkg/command/config.go\<close>, \<^verbatim>\<open>cert.go\<close>, \<^verbatim>\<open>ceip_participation.go\<close>, \<^verbatim>\<open>eula.go\<close>,
    \<^verbatim>\<open>org_validation_helper.go\<close>. The configuration is a parameter with its operations (\<open>conf_lib\<close>). A host never has both a
    certificate and disabled verification; the completion of unset offers settings that can be unset.
  \<^item> \<open>Bundle_Completion\<close>: \<^verbatim>\<open>pkg/command/plugin_bundle.go\<close>, \<^verbatim>\<open>apitoken.go\<close>, \<^verbatim>\<open>completion.go\<close>. The bundle
    commands with the completion of their groups and plugins from the image of the flag, latest versions first; API tokens.
  \<^item> \<open>Flag_Sets\<close>, \<open>Command_Decls\<close>, \<open>Command_Line\<close>: the constructors of the commands in \<^verbatim>\<open>pkg/command/\<close>. A command is a tree of
    declarations of flags, which build a command over the flag library (\<open>flag_lib\<close>) and set the variables of the flags.
    Building never panics; the variables start with the defaults of their flags, apart from the shared output format; which
    core commands run without the licence agreement; the core commands stay whatever plugins are installed.
  \<^item> \<open>Help_Docs\<close>: \<^verbatim>\<open>pkg/cli/usage.go\<close>, \<^verbatim>\<open>pkg/command/doc.go\<close>, the active help of \<^verbatim>\<open>root.go\<close>. The groups of commands in the usage;
    generating the documentation keeps the page of the root command.
  \<^item> \<open>Builder_Front\<close>, \<open>Builder_Correct\<close>: \<^verbatim>\<open>cmd/plugin/builder/\<close>. The commands of the plugin builder, from
    the values of their flags to the operations above, and the scaffolding of repositories and plugins. The defaults of build and
    build-package do not fit together; where the files of a new plugin go.

  \<^bold>\<open>Bounds.\<close> Durations and time differences are 64-bit integers with wrap-around (\<open>wrap64\<close>, \<open>seconds\<close>) because the code
  multiplies user-supplied seconds by a billion; counters of list positions are natural numbers.

  \<^bold>\<open>Simplifications.\<close> SQL statements are modelled by their effect on the rows, their text only for the \<^verbatim>\<open>WHERE\<close> clauses. These
  hold the values of a filter unescaped: a query with a quote in a value is a parameter (\<open>is_sql_plugins\<close>).
  Log messages, progress output and formatting of tables are not state and are left out; \<open>path_join\<close> joins
  components without cleaning \<^verbatim>\<open>.\<close> and \<^verbatim>\<open>..\<close>: a leading \<^verbatim>\<open>./\<close>, as in the defaults of the plugin builder, stays, and two spellings of
  a path are two paths.

  \<^bold>\<open>Not modelled.\<close> Prompts, texts of help and layout of the tables that commands print; HTTP requests, the Kubernetes libraries,
  imgpkg, crane, kbld, ytt, text templates and the configuration library, which are parameters here or only called; the local registry
  server; generated fakes, tests and the certificate data of \<^verbatim>\<open>pkg/registry/windows_trusted_ca.go\<close>, which is a constant
  (\<open>rg_projectsRegistryCA\<close>).
\<close>

end
